(* ===== verification/LD_Prelude.thy ===== *)
theory LD_Prelude
  imports Main "HOL-Library.Word"
begin

text \<open>
  Shared vocabulary of the development: the machine integer types of the Rust sources,
  checked arithmetic, the propagation of errors (Rust's question mark operator), and the
  interface of a fallible state machine with its lemmas about sequences of operations.
\<close>

section \<open>Machine integers\<close>

type_synonym u8 = "8 word"
type_synonym u16 = "16 word"
type_synonym u32 = "32 word"
type_synonym u64 = "64 word"

text \<open>A UUID is its 128 bits; the nil UUID is zero.\<close>

type_synonym uuid = "128 word"

named_theorems checked_simps "characterisations of checked arithmetic by natural numbers"

text \<open>Rust's \<open>checked_add\<close>, \<open>checked_mul\<close> and \<open>checked_sub\<close>: \<open>None\<close> when the exact
  result does not fit the type.\<close>

definition checked_add :: "'a::len word \<Rightarrow> 'a word \<Rightarrow> 'a word option" where
  "checked_add a b = (if unat a + unat b < 2 ^ LENGTH('a) then Some (a + b) else None)"

definition checked_mul :: "'a::len word \<Rightarrow> 'a word \<Rightarrow> 'a word option" where
  "checked_mul a b = (if unat a * unat b < 2 ^ LENGTH('a) then Some (a * b) else None)"

definition checked_sub :: "'a::len word \<Rightarrow> 'a word \<Rightarrow> 'a word option" where
  "checked_sub a b = (if unat b \<le> unat a then Some (a - b) else None)"

lemma unat_of_nat_fits: "n < 2 ^ LENGTH('a) \<Longrightarrow> unat (of_nat n :: 'a::len word) = n"
  by (simp add: unat_of_nat take_bit_nat_eq_self)

lemma unat_add_fits: "unat a + unat b < 2 ^ LENGTH('a) \<Longrightarrow> unat (a + b) = unat a + unat b"
  for a b :: "'a::len word"
  by (simp add: unat_word_ariths)

lemma unat_mul_fits: "unat a * unat b < 2 ^ LENGTH('a) \<Longrightarrow> unat (a * b) = unat a * unat b"
  for a b :: "'a::len word"
  by (simp add: unat_word_ariths)

lemma unat_sub_fits: "unat b \<le> unat a \<Longrightarrow> unat (a - b) = unat a - unat b"
  for a b :: "'a::len word"
  by (simp add: unat_sub word_le_nat_alt)

lemma checked_add_Some [checked_simps]:
  "checked_add a b = Some c \<longleftrightarrow> unat c = unat a + unat b" for a b c :: "'a::len word"
proof
  assume "checked_add a b = Some c"
  then show "unat c = unat a + unat b"
    by (auto simp: checked_add_def unat_add_fits split: if_splits)
next
  assume eq: "unat c = unat a + unat b"
  have fits: "unat a + unat b < 2 ^ LENGTH('a)"
    by (simp only: eq [symmetric]) (rule unsigned_less)
  then have "c = a + b"
    using eq by (simp add: word_unat_eq_iff unat_add_fits)
  then show "checked_add a b = Some c"
    using fits by (simp add: checked_add_def)
qed

lemma checked_add_None [checked_simps]:
  "checked_add a b = None \<longleftrightarrow> 2 ^ LENGTH('a) \<le> unat a + unat b" for a b :: "'a::len word"
  by (simp add: checked_add_def not_less)

lemma checked_mul_Some [checked_simps]:
  "checked_mul a b = Some c \<longleftrightarrow> unat c = unat a * unat b" for a b c :: "'a::len word"
proof
  assume "checked_mul a b = Some c"
  then show "unat c = unat a * unat b"
    by (auto simp: checked_mul_def unat_mul_fits split: if_splits)
next
  assume eq: "unat c = unat a * unat b"
  have fits: "unat a * unat b < 2 ^ LENGTH('a)"
    by (simp only: eq [symmetric]) (rule unsigned_less)
  then have "c = a * b"
    using eq by (simp add: word_unat_eq_iff unat_mul_fits)
  then show "checked_mul a b = Some c"
    using fits by (simp add: checked_mul_def)
qed

lemma checked_mul_None [checked_simps]:
  "checked_mul a b = None \<longleftrightarrow> 2 ^ LENGTH('a) \<le> unat a * unat b" for a b :: "'a::len word"
  by (simp add: checked_mul_def not_less)

lemma checked_sub_Some [checked_simps]:
  "checked_sub a b = Some c \<longleftrightarrow> unat a = unat c + unat b" for a b c :: "'a::len word"
proof
  assume "checked_sub a b = Some c"
  then show "unat a = unat c + unat b"
    by (auto simp: checked_sub_def unat_sub_fits split: if_splits)
next
  assume eq: "unat a = unat c + unat b"
  then have "c = a - b"
    by (simp add: word_unat_eq_iff unat_sub_fits)
  then show "checked_sub a b = Some c"
    using eq by (simp add: checked_sub_def)
qed

lemma checked_sub_None [checked_simps]:
  "checked_sub a b = None \<longleftrightarrow> unat a < unat b" for a b :: "'a::len word"
  by (simp add: checked_sub_def not_le)

text \<open>Comparing bytes without stopping early: the differences are gathered with OR.\<close>

unbundle bit_operations_syntax

lemma or_xor_eq_0: "d OR (l XOR r) = 0 \<longleftrightarrow> d = 0 \<and> l = r" for d l r :: "'a::len word"
proof
  assume z: "d OR (l XOR r) = 0"
  have "\<not> bit d n \<and> bit l n = bit r n" if "n < LENGTH('a)" for n
    using arg_cong [OF z, of "\<lambda>w. bit w n"] that by (auto simp: bit_simps)
  then show "d = 0 \<and> l = r"
    by (auto intro!: bit_word_eqI)
qed simp

lemma foldl_or_eq_0:
  fixes d :: "'a::len word"
  shows "foldl (\<lambda>d (l, r). d OR (l XOR r)) d ps = 0 \<longleftrightarrow> d = 0 \<and> (\<forall>(l, r)\<in>set ps. l = r)"
proof (induction ps arbitrary: d)
  case Nil
  then show ?case by simp
next
  case (Cons p ps)
  then show ?case
    by (cases p) (auto simp: or_xor_eq_0)
qed

lemma foldl_or_zip_eq_0:
  fixes v w :: "'a::len word list"
  assumes "length v = length w"
  shows "foldl (\<lambda>d (l, r). d OR (l XOR r)) 0 (zip v w) = 0 \<longleftrightarrow> v = w"
  using assms unfolding foldl_or_eq_0 by (induction v w rule: list_induct2) auto

text \<open>Widening conversions (\<open>u64::from\<close>) are \<open>ucast\<close>; the narrowing ones are checked.\<close>

definition u32_try_from :: "u64 \<Rightarrow> u32 option" where
  "u32_try_from v = (if unat v < 2 ^ 32 then Some (ucast v) else None)"

lemma unat_ucast_u32_u64 [simp]: "unat (ucast (x :: u32) :: u64) = unat x"
proof -
  have "unat x < 2 ^ 32"
    using unsigned_less [of x] by simp
  then show ?thesis
    by (simp add: unsigned_ucast_eq take_bit_nat_eq_self)
qed

lemma u32_try_from_Some [checked_simps]: "u32_try_from v = Some w \<longleftrightarrow> unat w = unat v"
proof
  assume "u32_try_from v = Some w"
  then show "unat w = unat v"
    by (auto simp: u32_try_from_def unsigned_ucast_eq take_bit_nat_eq_self split: if_splits)
next
  assume eq: "unat w = unat v"
  have "unat w < 2 ^ LENGTH(32)"
    by (rule unsigned_less)
  with eq have "unat v < 2 ^ 32"
    by simp
  moreover from this have "w = ucast v"
    using eq by (simp add: word_unat_eq_iff unsigned_ucast_eq take_bit_nat_eq_self)
  ultimately show "u32_try_from v = Some w"
    by (simp add: u32_try_from_def)
qed

lemma u32_try_from_ucast [simp]: "u32_try_from (ucast (w :: u32)) = Some w"
  by (simp add: u32_try_from_Some)

text \<open>
  \<open>usize\<close> is 64 bits wide on the x86-64 target; sizes and offsets are natural numbers and
  the conversion from \<open>u64\<close> keeps its overflow branch.
\<close>

definition usize_max :: nat where
  "usize_max = 2 ^ 64 - 1"

definition usize_try_from :: "u64 \<Rightarrow> nat option" where
  "usize_try_from v = (if unat v \<le> usize_max then Some (unat v) else None)"

lemma usize_try_from_eq [simp]: "usize_try_from v = Some (unat v)"
proof -
  have "unat v < 2 ^ 64"
    using unsigned_less [of v] by simp
  then show ?thesis
    by (simp add: usize_try_from_def usize_max_def)
qed

section \<open>Error propagation\<close>

text \<open>
  A \<open>Result\<close> is a sum with the error on the left. \<open>try_bind r f\<close> is Rust's \<open>f(r?)\<close>;
  \<open>ok_or\<close> turns an option into a result; \<open>ensure\<close> is a guard with an early return.
\<close>

definition try_bind :: "'e + 'a \<Rightarrow> ('a \<Rightarrow> 'e + 'b) \<Rightarrow> 'e + 'b" where
  "try_bind r f = (case r of Inl e \<Rightarrow> Inl e | Inr x \<Rightarrow> f x)"

definition ok_or :: "'a option \<Rightarrow> 'e \<Rightarrow> 'e + 'a" where
  "ok_or x e = (case x of None \<Rightarrow> Inl e | Some y \<Rightarrow> Inr y)"

definition ensure :: "bool \<Rightarrow> 'e \<Rightarrow> 'e + unit" where
  "ensure c e = (if c then Inr () else Inl e)"

text \<open>
  A method on \<open>&mut self\<close> returns its result and the new state. \<open>try_with r s f\<close> leaves the
  method with the state unchanged when \<open>r\<close> is an error.
\<close>

definition try_with :: "'e + 'a \<Rightarrow> 's \<Rightarrow> ('a \<Rightarrow> ('e + 'b) \<times> 's) \<Rightarrow> ('e + 'b) \<times> 's" where
  "try_with r s f = (case r of Inl e \<Rightarrow> (Inl e, s) | Inr x \<Rightarrow> f x)"

named_theorems try_iffs "when a fallible computation succeeds or fails"

lemma try_bind_simps [simp]:
  "try_bind (Inl e) f = Inl e"
  "try_bind (Inr x) f = f x"
  by (simp_all add: try_bind_def)

lemma try_bind_Inr [try_iffs]: "try_bind r f = Inr y \<longleftrightarrow> (\<exists>x. r = Inr x \<and> f x = Inr y)"
  by (cases r) auto

lemma try_bind_Inl [try_iffs]:
  "try_bind r f = Inl e \<longleftrightarrow> r = Inl e \<or> (\<exists>x. r = Inr x \<and> f x = Inl e)"
  by (cases r) auto

lemma ok_or_simps [simp]:
  "ok_or None e = Inl e"
  "ok_or (Some x) e = Inr x"
  by (simp_all add: ok_or_def)

lemma ok_or_Inr [try_iffs]: "ok_or x e = Inr y \<longleftrightarrow> x = Some y"
  by (cases x) auto

lemma ok_or_Inl [try_iffs]: "ok_or x e = Inl e' \<longleftrightarrow> x = None \<and> e' = e"
  by (cases x) auto

lemma ensure_simps [simp]:
  "ensure True e = Inr ()"
  "ensure False e = Inl e"
  by (simp_all add: ensure_def)

lemma ensure_Inr [try_iffs]: "ensure c e = Inr u \<longleftrightarrow> c"
  by (simp add: ensure_def)

lemma ensure_Inl [try_iffs]: "ensure c e = Inl e' \<longleftrightarrow> \<not> c \<and> e' = e"
  by (auto simp: ensure_def)

lemma try_with_simps [simp]:
  "try_with (Inl e) s f = (Inl e, s)"
  "try_with (Inr x) s f = f x"
  by (simp_all add: try_with_def)

lemma try_with_Inr [try_iffs]:
  "try_with r s f = (Inr y, s') \<longleftrightarrow> (\<exists>x. r = Inr x \<and> f x = (Inr y, s'))"
  by (cases r) auto

lemma try_with_Inl [try_iffs]:
  "try_with r s f = (Inl e, s') \<longleftrightarrow> r = Inl e \<and> s' = s \<or> (\<exists>x. r = Inr x \<and> f x = (Inl e, s'))"
  by (cases r) auto

text \<open>Visiting the elements of a collection, stopping at the first error.\<close>

primrec try_all :: "('a \<Rightarrow> 'e + unit) \<Rightarrow> 'a list \<Rightarrow> 'e + unit" where
  "try_all f [] = Inr ()"
| "try_all f (x # xs) = try_bind (f x) (\<lambda>_. try_all f xs)"

lemma try_all_Inr [try_iffs]: "try_all f xs = Inr u \<longleftrightarrow> (\<forall>x\<in>set xs. f x = Inr ())"
  by (induction xs) (auto simp: try_bind_Inr)

primrec try_map :: "('a \<Rightarrow> 'e + 'b) \<Rightarrow> 'a list \<Rightarrow> 'e + 'b list" where
  "try_map f [] = Inr []"
| "try_map f (x # xs) = try_bind (f x) (\<lambda>y. try_bind (try_map f xs) (\<lambda>ys. Inr (y # ys)))"

lemma try_map_Inr: "try_map f xs = Inr ys \<Longrightarrow> list_all2 (\<lambda>x y. f x = Inr y) xs ys"
  by (induction xs arbitrary: ys) (auto simp: try_iffs)

text \<open>\<open>Result::map_err\<close>\<close>

definition map_err :: "('e \<Rightarrow> 'f) \<Rightarrow> 'e + 'a \<Rightarrow> 'f + 'a" where
  "map_err f r = (case r of Inl e \<Rightarrow> Inl (f e) | Inr x \<Rightarrow> Inr x)"

lemma map_err_simps [simp]:
  "map_err f (Inl e) = Inl (f e)"
  "map_err f (Inr x) = Inr x"
  by (simp_all add: map_err_def)

lemma map_err_Inr [try_iffs]: "map_err f r = Inr x \<longleftrightarrow> r = Inr x"
  by (cases r) auto

lemma map_err_Inl [try_iffs]: "map_err f r = Inl e \<longleftrightarrow> (\<exists>e'. r = Inl e' \<and> e = f e')"
  by (cases r) auto

text \<open>
  Checks made one after the other, each followed by \<open>?\<close>: the first error is the result.
  \<open>refuse c e\<close> is \<open>if c { return Err(e) }\<close>.
\<close>

primrec in_order :: "('e + unit) list \<Rightarrow> 'e + unit" where
  "in_order [] = Inr ()"
| "in_order (r # rs) = (case r of Inl e \<Rightarrow> Inl e | Inr u \<Rightarrow> in_order rs)"

definition refuse :: "bool \<Rightarrow> 'e \<Rightarrow> 'e + unit" where
  "refuse c e = (if c then Inl e else Inr ())"

lemma in_order_Inr: "in_order rs = Inr u \<longleftrightarrow> (\<forall>r\<in>set rs. r = Inr ())"
  by (induction rs) (auto split: sum.splits)

lemma in_order_Cons_Inr [try_iffs]: "in_order (r # rs) = Inr u \<longleftrightarrow> r = Inr () \<and> in_order rs = Inr ()"
  by (auto split: sum.splits)

lemma in_order_Inl: "in_order rs = Inl e \<Longrightarrow> Inl e \<in> set rs"
  by (induction rs) (auto split: sum.splits)

lemma in_order_Cons_Inl [try_iffs]:
  "in_order (r # rs) = Inl e \<longleftrightarrow> r = Inl e \<or> r = Inr () \<and> in_order rs = Inl e"
  by (auto split: sum.splits)

declare in_order.simps(2) [simp del]

lemma in_order_simps [simp]:
  "in_order (Inl e # rs) = Inl e"
  "in_order (Inr u # rs) = in_order rs"
  by (simp_all add: in_order.simps)

lemma refuse_simps [simp]:
  "refuse True e = Inl e"
  "refuse False e = Inr ()"
  by (simp_all add: refuse_def)

lemma refuse_Inr [try_iffs]: "refuse c e = Inr u \<longleftrightarrow> \<not> c"
  by (simp add: refuse_def)

lemma refuse_Inl [try_iffs]: "refuse c e = Inl e' \<longleftrightarrow> c \<and> e' = e"
  by (auto simp: refuse_def)

section \<open>Bytes of text\<close>

text \<open>
  A Rust \<open>str\<close> is its UTF-8 bytes; an Isabelle \<open>string\<close> is a list of 8-bit characters, so
  \<open>length\<close> is Rust's \<open>len\<close>. The classification of bytes is the one of Rust's standard
  library.
\<close>

definition byte_val :: "char \<Rightarrow> nat" where
  "byte_val c = of_char c"

definition is_ascii_lowercase :: "char \<Rightarrow> bool" where
  "is_ascii_lowercase c = (97 \<le> byte_val c \<and> byte_val c \<le> 122)"

definition is_ascii_uppercase :: "char \<Rightarrow> bool" where
  "is_ascii_uppercase c = (65 \<le> byte_val c \<and> byte_val c \<le> 90)"

definition is_ascii_digit :: "char \<Rightarrow> bool" where
  "is_ascii_digit c = (48 \<le> byte_val c \<and> byte_val c \<le> 57)"

definition is_ascii_alphanumeric :: "char \<Rightarrow> bool" where
  "is_ascii_alphanumeric c =
     (is_ascii_lowercase c \<or> is_ascii_uppercase c \<or> is_ascii_digit c)"

definition to_ascii_lowercase :: "char \<Rightarrow> char" where
  "to_ascii_lowercase c = (if is_ascii_uppercase c then char_of (byte_val c + 32) else c)"

definition eq_ignore_ascii_case :: "string \<Rightarrow> string \<Rightarrow> bool" where
  "eq_ignore_ascii_case s t = (map to_ascii_lowercase s = map to_ascii_lowercase t)"

lemmas ascii_defs = byte_val_def is_ascii_lowercase_def is_ascii_uppercase_def
  is_ascii_digit_def is_ascii_alphanumeric_def to_ascii_lowercase_def eq_ignore_ascii_case_def

section \<open>Sequences of operations on a fallible component\<close>

text \<open>
  A component with a state is a step function from a state and an operation to a result and
  a new state. \<open>run_ops\<close> performs a sequence of operations and collects the results: the
  client goes on after an error, as the callers of these components may.
\<close>

fun run_ops :: "('s \<Rightarrow> 'op \<Rightarrow> 'r \<times> 's) \<Rightarrow> 's \<Rightarrow> 'op list \<Rightarrow> 'r list \<times> 's" where
  "run_ops step s [] = ([], s)"
| "run_ops step s (op # ops) =
     (let (r, s1) = step s op; (rs, s2) = run_ops step s1 ops in (r # rs, s2))"

lemma run_ops_append:
  "run_ops step s (xs @ ys) =
     (let (rs, s1) = run_ops step s xs; (rs', s2) = run_ops step s1 ys in (rs @ rs', s2))"
  by (induction xs arbitrary: s) (auto simp: Let_def split: prod.splits)

lemma length_run_ops: "length (fst (run_ops step s ops)) = length ops"
  by (induction ops arbitrary: s) (simp_all add: Let_def split_beta)

locale invariant_machine =
  fixes step :: "'s \<Rightarrow> 'op \<Rightarrow> 'r \<times> 's"
    and inv :: "'s \<Rightarrow> bool"
  assumes step_keeps: "inv s \<Longrightarrow> step s op = (r, s') \<Longrightarrow> inv s'"
begin

lemma run_keeps: "inv s \<Longrightarrow> inv (snd (run_ops step s ops))"
proof (induction ops arbitrary: s)
  case Nil
  then show ?case by simp
next
  case (Cons op ops)
  obtain r s1 where st: "step s op = (r, s1)"
    by fastforce
  with Cons.prems have "inv s1"
    by (rule step_keeps)
  then have "inv (snd (run_ops step s1 ops))"
    by (rule Cons.IH)
  then show ?case
    by (simp add: st Let_def split_beta)
qed

end

text \<open>A machine whose operations change nothing when they fail.\<close>

locale guarded_machine = invariant_machine step inv
  for step :: "'s \<Rightarrow> 'op \<Rightarrow> ('e + 'o) \<times> 's" and inv :: "'s \<Rightarrow> bool" +
  assumes step_error: "inv s \<Longrightarrow> step s op = (Inl e, s') \<Longrightarrow> s' = s"
begin

text \<open>The operations of a run that succeeded: the others leave no trace in the state.\<close>

primrec accepted :: "'s \<Rightarrow> 'op list \<Rightarrow> 'op list" where
  "accepted s [] = []"
| "accepted s (op # ops) =
     (case step s op of
        (Inl e, s1) \<Rightarrow> accepted s1 ops
      | (Inr y, s1) \<Rightarrow> op # accepted s1 ops)"

lemma run_accepted:
  "inv s \<Longrightarrow> snd (run_ops step s (accepted s ops)) = snd (run_ops step s ops)"
proof (induction ops arbitrary: s)
  case Nil
  then show ?case by simp
next
  case (Cons op ops)
  obtain r s1 where st: "step s op = (r, s1)"
    by fastforce
  with Cons.prems have inv1: "inv s1"
    by (rule step_keeps)
  show ?case
  proof (cases r)
    case (Inl e)
    with st Cons.prems have "s1 = s"
      using step_error by blast
    then show ?thesis
      using st Inl Cons.IH [OF Cons.prems] by (simp add: Let_def split_beta)
  next
    case (Inr y)
    then show ?thesis
      using st Cons.IH [OF inv1] by (simp add: Let_def split_beta)
  qed
qed

end

text \<open>A machine with a rank that no operation lowers (generations, sequence counters).\<close>

locale ranked_machine = guarded_machine step inv
  for step :: "'s \<Rightarrow> 'op \<Rightarrow> ('e + 'o) \<times> 's" and inv :: "'s \<Rightarrow> bool" +
  fixes rank :: "'s \<Rightarrow> nat"
  assumes step_rank: "inv s \<Longrightarrow> step s op = (r, s') \<Longrightarrow> rank s \<le> rank s'"
begin

lemma run_rank: "inv s \<Longrightarrow> rank s \<le> rank (snd (run_ops step s ops))"
proof (induction ops arbitrary: s)
  case Nil
  then show ?case by simp
next
  case (Cons op ops)
  obtain r s1 where st: "step s op = (r, s1)"
    by fastforce
  have "rank s \<le> rank s1"
    using Cons.prems st by (rule step_rank)
  also have "rank s1 \<le> rank (snd (run_ops step s1 ops))"
    using Cons.prems st step_keeps by (blast intro: Cons.IH)
  finally show ?case
    by (simp add: st Let_def split_beta)
qed

end

end
