(* ===== verification/Le_Bytes.thy ===== *)
theory Le_Bytes
  imports LD_Prelude
begin

unbundle bit_operations_syntax

text \<open>
  Little-endian integers (Rust's \<open>to_le_bytes\<close> and \<open>from_le_bytes\<close>), used by the control frames
  and by the shared-memory ring, and the interface of a field of fixed width in a byte
  sequence with its lemmas about parsing what was printed.
\<close>

definition to_le_bytes :: "nat \<Rightarrow> 'a::len word \<Rightarrow> u8 list" where
  "to_le_bytes n w = map (\<lambda>i. ucast (drop_bit (8 * i) w)) [0..<n]"

fun from_le_bytes :: "u8 list \<Rightarrow> 'a::len word" where
  "from_le_bytes [] = 0"
| "from_le_bytes (b # bs) = ucast b OR push_bit 8 (from_le_bytes bs)"

lemma length_to_le_bytes [simp]: "length (to_le_bytes n w) = n"
  by (simp add: to_le_bytes_def)

lemma bit_to_le_bytes:
  "i < n \<Longrightarrow> bit (to_le_bytes n w ! i) k \<longleftrightarrow> k < 8 \<and> bit w (8 * i + k)" for w :: "'a::len word"
  by (auto simp: to_le_bytes_def bit_simps)

lemma bit_from_le_bytes:
  "bit (from_le_bytes bs :: 'a::len word) k \<longleftrightarrow>
   k < LENGTH('a) \<and> k div 8 < length bs \<and> bit (bs ! (k div 8)) (k mod 8)"
proof (induction bs arbitrary: k)
  case Nil
  then show ?case by simp
next
  case (Cons b bs)
  show ?case
  proof (cases "k < 8")
    case True
    then show ?thesis
      by (auto simp: bit_simps)
  next
    case False
    then have k: "k div 8 = Suc ((k - 8) div 8)" "(k - 8) mod 8 = k mod 8"
      by (simp_all add: le_div_geq le_mod_geq)
    have "\<not> bit b k"
      using False bit_imp_le_length [of b k] by auto
    with False show ?thesis
      by (auto simp: bit_simps Cons.IH k)
  qed
qed

lemma from_to_le_bytes:
  assumes "LENGTH('a::len) \<le> 8 * n"
  shows "from_le_bytes (to_le_bytes n (w :: 'a word)) = w"
proof (rule bit_word_eqI)
  fix k
  assume k: "k < LENGTH('a)"
  then have "k div 8 < n"
    using assms by (simp add: less_mult_imp_div_less mult.commute)
  then show "bit (from_le_bytes (to_le_bytes n w) :: 'a word) k = bit w k"
    using k by (simp add: bit_from_le_bytes bit_to_le_bytes)
qed

lemma to_from_le_bytes:
  assumes len: "length bs = n" and fits: "8 * n \<le> LENGTH('a::len)"
  shows "to_le_bytes n (from_le_bytes bs :: 'a word) = bs"
proof (rule nth_equalityI)
  show "length (to_le_bytes n (from_le_bytes bs :: 'a word)) = length bs"
    by (simp add: len)
next
  fix i
  assume "i < length (to_le_bytes n (from_le_bytes bs :: 'a word))"
  then have i: "i < n"
    by simp
  show "to_le_bytes n (from_le_bytes bs :: 'a word) ! i = bs ! i"
  proof (rule bit_word_eqI)
    fix k
    assume "k < LENGTH(8)"
    then have k: "k < 8"
      by simp
    then have "(8 * i + k) div 8 = i" and "(8 * i + k) mod 8 = k"
      by simp_all
    then show "bit (to_le_bytes n (from_le_bytes bs :: 'a word) ! i) k = bit (bs ! i) k"
      using i k fits len by (auto simp: bit_to_le_bytes bit_from_le_bytes)
  qed
qed

section \<open>Fields of fixed width\<close>

locale fixed_field =
  fixes width :: nat
    and enc :: "'v \<Rightarrow> 'b list"
    and dec :: "'b list \<Rightarrow> 'v"
  assumes length_enc: "length (enc v) = width"
    and dec_enc: "dec (enc v) = v"
begin

lemma take_enc [simp]: "take width (enc v @ rest) = enc v"
  by (simp add: length_enc)

lemma drop_enc [simp]: "drop width (enc v @ rest) = rest"
  by (simp add: length_enc)

lemma dec_prefix: "dec (take width (enc v @ rest)) = v"
  by (simp add: dec_enc length_enc)

lemma enc_inject: "enc v = enc v' \<longleftrightarrow> v = v'"
  by (metis dec_enc)

end

definition u32_to_le :: "u32 \<Rightarrow> u8 list" where
  "u32_to_le = to_le_bytes 4"

definition u32_from_le :: "u8 list \<Rightarrow> u32" where
  "u32_from_le = from_le_bytes"

definition u64_to_le :: "u64 \<Rightarrow> u8 list" where
  "u64_to_le = to_le_bytes 8"

definition u64_from_le :: "u8 list \<Rightarrow> u64" where
  "u64_from_le = from_le_bytes"

interpretation le32: fixed_field 4 u32_to_le u32_from_le
  by unfold_locales (simp_all add: u32_to_le_def u32_from_le_def from_to_le_bytes)

interpretation le64: fixed_field 8 u64_to_le u64_from_le
  by unfold_locales (simp_all add: u64_to_le_def u64_from_le_def from_to_le_bytes)

end
