(* ===== verification/Ring_Memory.thy ===== *)
theory Ring_Memory
  imports Le_Bytes
begin

unbundle bit_operations_syntax

text \<open>
  The shared memory of the RGB rings as the code sees it (\<open>crates/gpu/src/ring.rs\<close>, the byte
  accessors and the module \<open>mapped\<close>): a mapping is its length and its bytes. Reading or
  writing outside the mapping is a panic, as a slice index out of range is in Rust and as the
  assertion of \<open>atomic_u64\<close> demands. A modification of a mapping is a list of writes that are
  performed in order.
\<close>

section \<open>Errors\<close>

datatype ring_error =
    InvalidDimensions u32 u32
  | InvalidSlotCount u32
  | InvalidBatchCount u32
  | LayoutOverflow
  | MappingTooLarge u64 u64
  | InvalidGeneration
  | InvalidLifecycleState u64
  | InvalidSessionId
  | InvalidLogicalSequence
  | RingIo nat
  | InvalidMappingLength u64
  | InvalidMagic
  | UnsupportedAbi u32
  | CorruptHeader string
  | GenerationMismatch u64 u64
  | GenerationChanged u64 u64
  | GenerationNotIncreasing u64 u64
  | ConsumerAlreadyClaimed
  | ProducerAlreadyClaimed
  | FrameLengthMismatch nat nat
  | BatchLengthMismatch nat nat
  | CorruptSequences u64 u64
  | SequenceExhausted
  | CorruptSlot u64

definition ring_error_code :: "ring_error \<Rightarrow> string" where
  "ring_error_code e = (case e of
       InvalidDimensions width height \<Rightarrow> ''ring_invalid_dimensions''
     | InvalidSlotCount actual \<Rightarrow> ''ring_invalid_slot_count''
     | InvalidBatchCount actual \<Rightarrow> ''ring_invalid_batch_count''
     | LayoutOverflow \<Rightarrow> ''ring_layout_overflow''
     | MappingTooLarge requested maximum \<Rightarrow> ''ring_mapping_too_large''
     | InvalidGeneration \<Rightarrow> ''ring_invalid_generation''
     | InvalidLifecycleState actual \<Rightarrow> ''ring_invalid_state''
     | InvalidSessionId \<Rightarrow> ''ring_invalid_session_id''
     | InvalidLogicalSequence \<Rightarrow> ''ring_invalid_logical_sequence''
     | RingIo code \<Rightarrow> ''ring_io''
     | InvalidMappingLength actual \<Rightarrow> ''ring_invalid_mapping_length''
     | InvalidMagic \<Rightarrow> ''ring_invalid_magic''
     | UnsupportedAbi actual \<Rightarrow> ''ring_unsupported_abi''
     | CorruptHeader field \<Rightarrow> ''ring_corrupt_header''
     | GenerationMismatch expected actual \<Rightarrow> ''ring_generation_mismatch''
     | GenerationChanged expected actual \<Rightarrow> ''ring_generation_changed''
     | GenerationNotIncreasing current requested \<Rightarrow> ''ring_generation_not_increasing''
     | ConsumerAlreadyClaimed \<Rightarrow> ''ring_consumer_claimed''
     | ProducerAlreadyClaimed \<Rightarrow> ''ring_producer_claimed''
     | FrameLengthMismatch expected actual \<Rightarrow> ''ring_frame_length''
     | BatchLengthMismatch expected actual \<Rightarrow> ''ring_batch_length''
     | CorruptSequences produced consumed \<Rightarrow> ''ring_corrupt_sequences''
     | SequenceExhausted \<Rightarrow> ''ring_sequence_exhausted''
     | CorruptSlot sequence \<Rightarrow> ''ring_corrupt_slot'')"

text \<open>A computation on a ring stops with an error of the code or with a panic.\<close>

datatype ring_stop = Panic | RingFail ring_error

type_synonym 'a ring_result = "ring_stop + 'a"

abbreviation ring_err :: "ring_error \<Rightarrow> 'a ring_result" where
  "ring_err e \<equiv> Inl (RingFail e)"

section \<open>Mappings\<close>

record mapping =
  mp_len :: nat
  mp_byte :: "nat \<Rightarrow> u8"

definition slice :: "mapping \<Rightarrow> nat \<Rightarrow> nat \<Rightarrow> u8 list" where
  "slice m a b = map (mp_byte m) [a..<b]"

definition read_bytes :: "mapping \<Rightarrow> nat \<Rightarrow> nat \<Rightarrow> u8 list ring_result" where
  "read_bytes m a b = (if a \<le> b \<and> b \<le> mp_len m then Inr (slice m a b) else Inl Panic)"

definition get_u32 :: "mapping \<Rightarrow> nat \<Rightarrow> u32 ring_result" where
  "get_u32 m offset = try_bind (read_bytes m offset (offset + 4)) (\<lambda>bs. Inr (u32_from_le bs))"

definition get_u64 :: "mapping \<Rightarrow> nat \<Rightarrow> u64 ring_result" where
  "get_u64 m offset = try_bind (read_bytes m offset (offset + 8)) (\<lambda>bs. Inr (u64_from_le bs))"

text \<open>An atomic load sees the same eight little-endian bytes.\<close>

definition atomic_load :: "mapping \<Rightarrow> nat \<Rightarrow> u64 ring_result" where
  "atomic_load m offset = get_u64 m offset"

type_synonym store_op = "nat \<times> u8 list"

definition put_u32 :: "nat \<Rightarrow> u32 \<Rightarrow> store_op" where
  "put_u32 offset v = (offset, u32_to_le v)"

definition put_u64 :: "nat \<Rightarrow> u64 \<Rightarrow> store_op" where
  "put_u64 offset v = (offset, u64_to_le v)"

definition atomic_store :: "nat \<Rightarrow> u64 \<Rightarrow> store_op" where
  "atomic_store offset v = put_u64 offset v"

definition fill_zero :: "nat \<Rightarrow> nat \<Rightarrow> store_op" where
  "fill_zero a b = (a, replicate (b - a) 0)"

definition write_in :: "mapping \<Rightarrow> store_op \<Rightarrow> bool" where
  "write_in m w = (fst w + length (snd w) \<le> mp_len m)"

definition perform :: "mapping \<Rightarrow> store_op \<Rightarrow> mapping" where
  "perform m w = (case w of (offset, bs) \<Rightarrow>
     m\<lparr>mp_byte := (\<lambda>i. if offset \<le> i \<and> i < offset + length bs then bs ! (i - offset)
                       else mp_byte m i)\<rparr>)"

fun apply_writes :: "mapping \<Rightarrow> store_op list \<Rightarrow> unit ring_result \<times> mapping" where
  "apply_writes m [] = (Inr (), m)"
| "apply_writes m (w # ws) =
     (if write_in m w then apply_writes (perform m w) ws else (Inl Panic, m))"

section \<open>Frame lemmas\<close>

definition covers :: "store_op \<Rightarrow> nat set" where
  "covers w = {fst w..<fst w + length (snd w)}"

lemma covers_simps [simp]:
  "covers (put_u32 a v) = {a..<a + 4}"
  "covers (put_u64 a w) = {a..<a + 8}"
  "covers (atomic_store a w) = {a..<a + 8}"
  "covers (fill_zero a b) = {a..<b}"
  by (auto simp: covers_def put_u32_def put_u64_def atomic_store_def fill_zero_def
      le32.length_enc le64.length_enc)

lemma covers_pair: "covers (a, bs) = {a..<a + length bs}"
  by (simp add: covers_def)

lemma perform_len [simp]: "mp_len (perform m w) = mp_len m"
  by (simp add: perform_def split: prod.split)

lemma perform_other: "i \<notin> covers w \<Longrightarrow> mp_byte (perform m w) i = mp_byte m i"
  by (auto simp: perform_def covers_def split: prod.splits)

lemma perform_in: "i \<in> covers w \<Longrightarrow> mp_byte (perform m w) i = snd w ! (i - fst w)"
  by (auto simp: perform_def covers_def split: prod.splits)

lemma length_slice [simp]: "length (slice m a b) = b - a"
  by (simp add: slice_def)

lemma nth_slice: "i < b - a \<Longrightarrow> slice m a b ! i = mp_byte m (a + i)"
  by (simp add: slice_def)

lemma slice_eq_iff:
  "slice m a b = slice m' a b \<longleftrightarrow> (\<forall>i. a \<le> i \<and> i < b \<longrightarrow> mp_byte m i = mp_byte m' i)"
  by (auto simp: slice_def)

lemma slice_perform_same:
  "slice (perform m (a, bs)) a (a + length bs) = bs"
  by (rule nth_equalityI) (auto simp: nth_slice perform_def)

lemma slice_perform_other:
  "{a..<b} \<inter> covers w = {} \<Longrightarrow> slice (perform m w) a b = slice m a b"
  by (auto simp: slice_eq_iff intro!: perform_other)

lemma slice_all_zero: "(\<forall>x\<in>set (slice m a b). x = 0) \<longleftrightarrow> (\<forall>i. a \<le> i \<and> i < b \<longrightarrow> mp_byte m i = 0)"
  by (auto simp: slice_def)

text \<open>Performing a list of writes that all lie inside the mapping.\<close>

definition perform_all :: "mapping \<Rightarrow> store_op list \<Rightarrow> mapping" where
  "perform_all m ws = foldl perform m ws"

lemma perform_all_simps [simp]:
  "perform_all m [] = m"
  "perform_all m (w # ws) = perform_all (perform m w) ws"
  "perform_all m (ws @ vs) = perform_all (perform_all m ws) vs"
  by (simp_all add: perform_all_def)

lemma perform_all_len [simp]: "mp_len (perform_all m ws) = mp_len m"
  by (induction ws arbitrary: m) simp_all

lemma write_in_perform [simp]: "write_in (perform m w) = write_in m"
  by (simp add: write_in_def fun_eq_iff)

lemma apply_writes_ok:
  "list_all (write_in m) ws \<Longrightarrow> apply_writes m ws = (Inr (), perform_all m ws)"
  by (induction ws arbitrary: m) simp_all

lemma perform_all_other:
  "i \<notin> \<Union> (set (map covers ws)) \<Longrightarrow> mp_byte (perform_all m ws) i = mp_byte m i"
  by (induction ws arbitrary: m) (auto simp: perform_other)

lemma slice_perform_all_other:
  "{a..<b} \<inter> \<Union> (set (map covers ws)) = {} \<Longrightarrow> slice (perform_all m ws) a b = slice m a b"
  unfolding slice_eq_iff by (intro allI impI perform_all_other) (auto simp: disjoint_iff)

text \<open>The last write to a place decides what it holds.\<close>

lemma slice_written_last:
  assumes "ws = us @ (a, bs) # vs" and "b = a + length bs"
    and "{a..<b} \<inter> \<Union> (set (map covers vs)) = {}"
  shows "slice (perform_all m ws) a b = bs"
  using assms by (simp add: slice_perform_all_other slice_perform_same)

lemma read_bytes_Inr: "a \<le> b \<Longrightarrow> b \<le> mp_len m \<Longrightarrow> read_bytes m a b = Inr (slice m a b)"
  by (simp add: read_bytes_def)

definition word_at :: "mapping \<Rightarrow> nat \<Rightarrow> u64" where
  "word_at m a = u64_from_le (slice m a (a + 8))"

definition half_at :: "mapping \<Rightarrow> nat \<Rightarrow> u32" where
  "half_at m a = u32_from_le (slice m a (a + 4))"

lemma get_u64_ok: "a + 8 \<le> mp_len m \<Longrightarrow> get_u64 m a = Inr (word_at m a)"
  by (simp add: get_u64_def read_bytes_def word_at_def)

lemma get_u32_ok: "a + 4 \<le> mp_len m \<Longrightarrow> get_u32 m a = Inr (half_at m a)"
  by (simp add: get_u32_def read_bytes_def half_at_def)

lemma atomic_load_ok: "a + 8 \<le> mp_len m \<Longrightarrow> atomic_load m a = Inr (word_at m a)"
  by (simp add: atomic_load_def get_u64_ok)

lemma word_at_other:
  "{a..<a + 8} \<inter> \<Union> (set (map covers ws)) = {} \<Longrightarrow> word_at (perform_all m ws) a = word_at m a"
  by (simp add: word_at_def slice_perform_all_other)

lemma half_at_other:
  "{a..<a + 4} \<inter> \<Union> (set (map covers ws)) = {} \<Longrightarrow> half_at (perform_all m ws) a = half_at m a"
  by (simp add: half_at_def slice_perform_all_other)

lemma word_at_perform:
  "word_at (perform m (put_u64 a v)) a = v" "word_at (perform m (atomic_store a v)) a = v"
  "{a..<a + 8} \<inter> covers w = {} \<Longrightarrow> word_at (perform m w) a = word_at m a"
  using slice_perform_same [of m a "u64_to_le v"]
  by (simp_all add: word_at_def put_u64_def atomic_store_def le64.length_enc le64.dec_enc
      slice_perform_other)

lemma half_at_perform:
  "half_at (perform m (put_u32 a v)) a = v"
  "{a..<a + 4} \<inter> covers w = {} \<Longrightarrow> half_at (perform m w) a = half_at m a"
  using slice_perform_same [of m a "u32_to_le v"]
  by (simp_all add: half_at_def put_u32_def le32.length_enc le32.dec_enc slice_perform_other)

lemma word_at_zero: "(\<forall>i. a \<le> i \<and> i < a + 8 \<longrightarrow> mp_byte m i = 0) \<Longrightarrow> word_at m a = 0"
proof -
  assume z: "\<forall>i. a \<le> i \<and> i < a + 8 \<longrightarrow> mp_byte m i = 0"
  have "slice m a (a + 8) = u64_to_le 0"
    by (rule nth_equalityI) (auto simp: nth_slice z u64_to_le_def to_le_bytes_def)
  then show ?thesis
    by (simp add: word_at_def le64.dec_enc)
qed

end
