(* ===== verification/Ring_Layout.thy ===== *)
theory Ring_Layout
  imports Ring_Memory
begin

unbundle bit_operations_syntax

text \<open>
  The checked layout of RGB Ring ABI 1 (\<open>crates/gpu/src/ring.rs\<close>): a header of 4096 bytes and
  24 slots, each a header of 128 bytes and a payload of rows padded to 256 bytes, the whole
  slot padded to 4096 bytes, all of it at most 256 MiB.
\<close>

section \<open>Constants\<close>

definition ABI_VERSION :: u32 where "ABI_VERSION = 1"
definition MAPPING_HEADER_BYTES :: u64 where "MAPPING_HEADER_BYTES = 4096"
definition SLOT_HEADER_BYTES :: u64 where "SLOT_HEADER_BYTES = 128"
definition RING_SLOT_COUNT :: u32 where "RING_SLOT_COUNT = 24"
definition ROW_STRIDE_ALIGNMENT :: u32 where "ROW_STRIDE_ALIGNMENT = 256"
definition SLOT_STRIDE_ALIGNMENT :: u64 where "SLOT_STRIDE_ALIGNMENT = 4096"
definition MAX_MAPPING_BYTES :: u64 where "MAX_MAPPING_BYTES = 256 * 1024 * 1024"
definition RGBA8_BYTES_PER_PIXEL :: u32 where "RGBA8_BYTES_PER_PIXEL = 4"
definition MAPPING_HEADER_LEN :: nat where "MAPPING_HEADER_LEN = 4096"
definition MAPPING_HEADER_FIELD :: u32 where "MAPPING_HEADER_FIELD = 4096"
definition SLOT_HEADER_LEN :: nat where "SLOT_HEADER_LEN = 128"
definition SLOT_HEADER_FIELD :: u32 where "SLOT_HEADER_FIELD = 128"

lemmas ring_constants = ABI_VERSION_def MAPPING_HEADER_BYTES_def SLOT_HEADER_BYTES_def
  RING_SLOT_COUNT_def ROW_STRIDE_ALIGNMENT_def SLOT_STRIDE_ALIGNMENT_def MAX_MAPPING_BYTES_def
  RGBA8_BYTES_PER_PIXEL_def MAPPING_HEADER_LEN_def MAPPING_HEADER_FIELD_def SLOT_HEADER_LEN_def
  SLOT_HEADER_FIELD_def

section \<open>Layouts\<close>

record ring_layout =
  rl_width :: u32
  rl_height :: u32
  rl_row_stride :: u32
  rl_payload_bytes :: u64
  rl_slot_stride :: u64
  rl_mapping_bytes :: u64

definition layout_new :: "u32 \<Rightarrow> u32 \<Rightarrow> ring_layout ring_result" where
  "layout_new width height =
     (if width = 0 \<or> height = 0 then ring_err (InvalidDimensions width height)
      else
        try_bind (ok_or (checked_mul width RGBA8_BYTES_PER_PIXEL) (RingFail LayoutOverflow))
          (\<lambda>tight_row.
        try_bind (ok_or (map_option (\<lambda>v. v AND NOT (ROW_STRIDE_ALIGNMENT - 1))
            (checked_add tight_row (ROW_STRIDE_ALIGNMENT - 1))) (RingFail LayoutOverflow))
          (\<lambda>row_stride.
        try_bind (ok_or (checked_mul (ucast row_stride) (ucast height :: u64)) (RingFail LayoutOverflow))
          (\<lambda>payload_bytes.
        try_bind (ok_or (checked_add SLOT_HEADER_BYTES payload_bytes) (RingFail LayoutOverflow))
          (\<lambda>slot_used_bytes.
        try_bind (ok_or (map_option (\<lambda>v. v AND NOT (SLOT_STRIDE_ALIGNMENT - 1))
            (checked_add slot_used_bytes (SLOT_STRIDE_ALIGNMENT - 1))) (RingFail LayoutOverflow))
          (\<lambda>slot_stride.
        try_bind (ok_or (Option.bind (checked_mul (ucast RING_SLOT_COUNT) slot_stride)
            (checked_add MAPPING_HEADER_BYTES)) (RingFail LayoutOverflow))
          (\<lambda>mapping_bytes.
        if mapping_bytes > MAX_MAPPING_BYTES
        then ring_err (MappingTooLarge mapping_bytes MAX_MAPPING_BYTES)
        else Inr \<lparr>rl_width = width, rl_height = height, rl_row_stride = row_stride,
                  rl_payload_bytes = payload_bytes, rl_slot_stride = slot_stride,
                  rl_mapping_bytes = mapping_bytes\<rparr>)))))))"

definition tight_row_bytes :: "ring_layout \<Rightarrow> u32" where
  "tight_row_bytes l = rl_width l * RGBA8_BYTES_PER_PIXEL"

definition tight_payload_bytes :: "ring_layout \<Rightarrow> nat ring_result" where
  "tight_payload_bytes l =
     try_bind (ok_or (checked_mul (ucast (tight_row_bytes l)) (ucast (rl_height l) :: u64))
         (RingFail LayoutOverflow))
       (\<lambda>n. ok_or (usize_try_from n) (RingFail LayoutOverflow))"

record ring_descriptor =
  rd_layout :: ring_layout
  rd_generation :: u64

definition descriptor_new :: "u32 \<Rightarrow> u32 \<Rightarrow> u64 \<Rightarrow> ring_descriptor ring_result" where
  "descriptor_new width height generation =
     (if generation = 0 then ring_err InvalidGeneration
      else try_bind (layout_new width height) (\<lambda>layout.
        Inr \<lparr>rd_layout = layout, rd_generation = generation\<rparr>))"

definition mapping_len :: "ring_layout \<Rightarrow> nat ring_result" where
  "mapping_len l = ok_or (usize_try_from (rl_mapping_bytes l)) (RingFail LayoutOverflow)"

section \<open>Rounding up\<close>

definition round_up :: "nat \<Rightarrow> nat \<Rightarrow> nat" where
  "round_up n k = (n + (k - 1)) div k * k"

lemma round_up_ge: "0 < k \<Longrightarrow> n \<le> round_up n k"
proof -
  assume k: "0 < k"
  have "n + (k - 1) < (n + (k - 1)) div k * k + k"
    using k by (metis add.commute div_mult_mod_eq mod_less_divisor nat_add_left_cancel_less)
  then show ?thesis
    using k by (simp add: round_up_def)
qed

lemma round_up_less: "0 < k \<Longrightarrow> round_up n k < n + k"
proof -
  assume k: "0 < k"
  have "round_up n k \<le> n + (k - 1)"
    by (simp add: round_up_def)
  also have "\<dots> < n + k"
    using k by simp
  finally show ?thesis .
qed

lemma round_up_dvd: "k dvd round_up n k"
  by (simp add: round_up_def)

lemma clear_low_bits:
  fixes v :: "'a::len word"
  assumes "n < LENGTH('a)"
  shows "unat (v AND NOT (mask n)) = unat v div 2 ^ n * 2 ^ n"
proof -
  have "v AND NOT (mask n) = push_bit n (drop_bit n v)"
    by (rule bit_word_eqI) (auto simp: bit_simps)
  moreover have "unat (push_bit n (drop_bit n v)) = unat v div 2 ^ n * 2 ^ n"
  proof -
    have "unat v div 2 ^ n * 2 ^ n \<le> unat v"
      by simp
    also have "unat v < 2 ^ LENGTH('a)"
      by (rule unsigned_less)
    finally show ?thesis
      unfolding unsigned_push_bit_eq unsigned_drop_bit_eq
      by (simp add: push_bit_eq_mult [where 'a = nat] drop_bit_eq_div [where 'a = nat]
          take_bit_nat_eq_self)
  qed
  ultimately show ?thesis
    by simp
qed

lemma align_256: "unat (v AND NOT (256 - 1) :: u32) = unat v div 256 * 256"
  using clear_low_bits [of 8 v] by (simp add: mask_eq_exp_minus_1)

lemma align_4096: "unat (v AND NOT (4096 - 1) :: u64) = unat v div 4096 * 4096"
  using clear_low_bits [of 12 v] by (simp add: mask_eq_exp_minus_1)

section \<open>What a layout satisfies\<close>

definition layout_ok :: "ring_layout \<Rightarrow> bool" where
  "layout_ok l \<longleftrightarrow>
     0 < unat (rl_width l) \<and> 0 < unat (rl_height l) \<and>
     unat (rl_row_stride l) = round_up (4 * unat (rl_width l)) 256 \<and>
     unat (rl_payload_bytes l) = unat (rl_row_stride l) * unat (rl_height l) \<and>
     unat (rl_slot_stride l) = round_up (128 + unat (rl_payload_bytes l)) 4096 \<and>
     unat (rl_mapping_bytes l) = 4096 + 24 * unat (rl_slot_stride l) \<and>
     unat (rl_mapping_bytes l) \<le> 268435456"

text \<open>The computation as natural numbers.\<close>

definition row_stride_of :: "nat \<Rightarrow> nat" where
  "row_stride_of width = round_up (4 * width) 256"

definition slot_stride_of :: "nat \<Rightarrow> nat \<Rightarrow> nat" where
  "slot_stride_of width height = round_up (128 + row_stride_of width * height) 4096"

definition mapping_bytes_of :: "nat \<Rightarrow> nat \<Rightarrow> nat" where
  "mapping_bytes_of width height = 4096 + 24 * slot_stride_of width height"

lemma align_step:
  fixes a b :: "'a::len word"
  assumes "\<And>v :: 'a word. unat (f v) = unat v div k * k" and "unat b = k - 1"
  shows "map_option f (checked_add a b) = Some r \<longleftrightarrow>
    unat a + (k - 1) < 2 ^ LENGTH('a) \<and> unat r = round_up (unat a) k"
proof (cases "checked_add a b")
  case None
  then have "\<not> unat a + (k - 1) < 2 ^ LENGTH('a)"
    using assms(2) by (simp add: checked_add_None)
  with None show ?thesis
    by simp
next
  case (Some c)
  then have c: "unat c = unat a + (k - 1)"
    using assms(2) by (simp add: checked_add_Some)
  have "unat c < 2 ^ LENGTH('a)"
    by (rule unsigned_less)
  then have "unat a + (k - 1) < 2 ^ LENGTH('a)"
    by (simp only: c)
  moreover have "f c = r \<longleftrightarrow> unat r = round_up (unat a) k"
    by (auto simp: word_unat_eq_iff [of "f c"] assms(1) c round_up_def)
  ultimately show ?thesis
    by (simp add: Some)
qed

lemma ex_unat: "n < 2 ^ LENGTH('a) \<Longrightarrow> \<exists>x :: 'a::len word. unat x = n"
  using unat_of_nat_fits by blast

lemma layout_new_imp:
  assumes "layout_new width height = Inr l"
  shows "layout_ok l \<and> rl_width l = width \<and> rl_height l = height"
proof -
  have dims: "width \<noteq> 0" "height \<noteq> 0"
    using assms by (auto simp: layout_new_def split: if_splits)
  obtain tight row pay used slot slots bytes where
    tight: "unat tight = unat width * 4" and
    row: "map_option (\<lambda>v. v AND NOT (256 - 1)) (checked_add tight (256 - 1)) = Some row" and
    pay: "unat pay = unat row * unat height" and used: "unat used = 128 + unat pay" and
    slot: "map_option (\<lambda>v. v AND NOT (4096 - 1)) (checked_add used (4096 - 1)) = Some slot" and
    slots: "checked_mul (24 :: u64) slot = Some slots" "checked_add 4096 slots = Some bytes" and
    cap: "\<not> bytes > MAX_MAPPING_BYTES" and
    l: "l = \<lparr>rl_width = width, rl_height = height, rl_row_stride = row, rl_payload_bytes = pay,
           rl_slot_stride = slot, rl_mapping_bytes = bytes\<rparr>"
    using assms dims
    by (simp add: layout_new_def try_iffs bind_eq_Some_conv ROW_STRIDE_ALIGNMENT_def
        SLOT_STRIDE_ALIGNMENT_def RGBA8_BYTES_PER_PIXEL_def SLOT_HEADER_BYTES_def RING_SLOT_COUNT_def
        MAPPING_HEADER_BYTES_def checked_mul_Some [of width] checked_mul_Some [of "ucast _" "ucast _"]
        checked_add_Some [of 128] del: split_paired_Ex split: if_splits)
      blast
  have "unat row = round_up (unat tight) 256"
    using row align_step [of "\<lambda>v. v AND NOT (256 - 1)" 256 "256 - 1" tight row] align_256 by simp
  moreover have "unat slot = round_up (unat used) 4096"
    using slot align_step [of "\<lambda>v. v AND NOT (4096 - 1)" 4096 "4096 - 1" used slot] align_4096 by simp
  moreover have "unat bytes = 4096 + 24 * unat slot"
    using slots by (simp add: checked_mul_Some checked_add_Some)
  moreover have "unat bytes \<le> 268435456"
    using cap by (simp add: MAX_MAPPING_BYTES_def word_le_nat_alt not_less)
  moreover have "0 < unat width" "0 < unat height"
    using dims by (simp_all add: unat_gt_0)
  ultimately show ?thesis
    using pay used tight by (simp add: l layout_ok_def ac_simps)
qed

lemma layout_new_complete:
  assumes ok: "layout_ok l"
  shows "layout_new (rl_width l) (rl_height l) = Inr l"
proof -
  let ?w = "unat (rl_width l)" and ?h = "unat (rl_height l)"
  have row: "unat (rl_row_stride l) = round_up (4 * ?w) 256"
    and pay: "unat (rl_payload_bytes l) = unat (rl_row_stride l) * ?h"
    and slot: "unat (rl_slot_stride l) = round_up (128 + unat (rl_payload_bytes l)) 4096"
    and bytes: "unat (rl_mapping_bytes l) = 4096 + 24 * unat (rl_slot_stride l)"
    and cap: "unat (rl_mapping_bytes l) \<le> 268435456"
    and pos: "0 < ?w" "0 < ?h"
    using ok by (auto simp: layout_ok_def)
  have rowmax: "unat (rl_row_stride l) < 2 ^ 32"
    using unsigned_less [of "rl_row_stride l"] by simp
  have "256 dvd unat (rl_row_stride l)"
    unfolding row by (rule round_up_dvd)
  then have "unat (rl_row_stride l) \<le> 2 ^ 32 - 256"
    using rowmax by (auto elim!: dvdE)
  moreover have "4 * ?w \<le> unat (rl_row_stride l)"
    unfolding row by (rule round_up_ge) simp
  ultimately have w4: "4 * ?w + 255 < 2 ^ 32"
    by simp
  then obtain tight :: u32 where tight: "unat tight = ?w * 4"
    using ex_unat [of "?w * 4", where 'a = 32] by auto
  have f1: "checked_mul (rl_width l) RGBA8_BYTES_PER_PIXEL = Some tight"
    by (simp add: checked_mul_Some tight RGBA8_BYTES_PER_PIXEL_def)
  have f2: "map_option (\<lambda>v. v AND NOT (ROW_STRIDE_ALIGNMENT - 1))
      (checked_add tight (ROW_STRIDE_ALIGNMENT - 1)) = Some (rl_row_stride l)"
    unfolding ROW_STRIDE_ALIGNMENT_def
    using align_step [of "\<lambda>v. v AND NOT (256 - 1)" 256 "256 - 1" tight "rl_row_stride l"]
      align_256 tight w4 row by (simp add: mult.commute)
  have f3: "checked_mul (ucast (rl_row_stride l)) (ucast (rl_height l) :: u64) =
      Some (rl_payload_bytes l)"
    by (simp add: checked_mul_Some pay)
  have "128 + unat (rl_payload_bytes l) \<le> unat (rl_slot_stride l)"
    unfolding slot by (rule round_up_ge) simp
  then have used_max: "128 + unat (rl_payload_bytes l) + 4095 < 2 ^ 64"
    using bytes cap by simp
  then obtain used :: u64 where used: "unat used = 128 + unat (rl_payload_bytes l)"
    using ex_unat [of "128 + unat (rl_payload_bytes l)", where 'a = 64] by auto
  have f4: "checked_add SLOT_HEADER_BYTES (rl_payload_bytes l) = Some used"
    by (simp add: checked_add_Some used SLOT_HEADER_BYTES_def)
  have f5: "map_option (\<lambda>v. v AND NOT (SLOT_STRIDE_ALIGNMENT - 1))
      (checked_add used (SLOT_STRIDE_ALIGNMENT - 1)) = Some (rl_slot_stride l)"
    unfolding SLOT_STRIDE_ALIGNMENT_def
    using align_step [of "\<lambda>v. v AND NOT (4096 - 1)" 4096 "4096 - 1" used "rl_slot_stride l"]
      align_4096 used used_max slot by simp
  obtain slots :: u64 where slots: "unat slots = 24 * unat (rl_slot_stride l)"
    using ex_unat [of "24 * unat (rl_slot_stride l)", where 'a = 64] bytes cap by auto
  have f6: "checked_mul (ucast RING_SLOT_COUNT) (rl_slot_stride l) = Some slots"
    by (simp add: checked_mul_Some slots RING_SLOT_COUNT_def)
  have f7: "checked_add MAPPING_HEADER_BYTES slots = Some (rl_mapping_bytes l)"
    by (simp add: checked_add_Some slots bytes MAPPING_HEADER_BYTES_def)
  have "rl_width l \<noteq> 0" "rl_height l \<noteq> 0" "\<not> rl_mapping_bytes l > MAX_MAPPING_BYTES"
    using pos cap by (auto simp: MAX_MAPPING_BYTES_def word_less_nat_alt)
  then show ?thesis
    unfolding layout_new_def f1 ok_or_simps try_bind_simps f2 f3 f4 f5 f6 Option.bind.simps f7
    by simp
qed

lemma layout_new_Inr [try_iffs]:
  "layout_new width height = Inr l \<longleftrightarrow> layout_ok l \<and> rl_width l = width \<and> rl_height l = height"
  using layout_new_imp layout_new_complete by blast

section \<open>Exactly the layouts that fit\<close>

lemma layout_exists:
  assumes "0 < unat width" and "0 < unat height"
    and cap: "mapping_bytes_of (unat width) (unat height) \<le> 268435456"
  obtains l where "layout_ok l" and "rl_width l = width" and "rl_height l = height"
proof -
  let ?row = "row_stride_of (unat width)" and ?slot = "slot_stride_of (unat width) (unat height)"
  have slot: "24 * ?slot \<le> 268435456"
    using cap by (simp add: mapping_bytes_of_def)
  have "128 + ?row * unat height \<le> ?slot"
    unfolding slot_stride_of_def by (rule round_up_ge) simp
  then have pay: "?row * unat height \<le> 268435456"
    using slot by simp
  then have "?row \<le> 268435456"
    using assms(2) by (metis le_trans mult.right_neutral mult_le_mono2 One_nat_def Suc_leI)
  then obtain row :: u32 where row: "unat row = ?row"
    using ex_unat [of ?row, where 'a = 32] by auto
  obtain payload :: u64 where payload: "unat payload = ?row * unat height"
    using pay ex_unat [of "?row * unat height", where 'a = 64] by auto
  obtain slots :: u64 where slots: "unat slots = ?slot"
    using slot ex_unat [of ?slot, where 'a = 64] by auto
  obtain bytes :: u64 where bytes: "unat bytes = mapping_bytes_of (unat width) (unat height)"
    using cap ex_unat [of "mapping_bytes_of (unat width) (unat height)", where 'a = 64] by auto
  show thesis
    by (rule that [of "\<lparr>rl_width = width, rl_height = height, rl_row_stride = row,
          rl_payload_bytes = payload, rl_slot_stride = slots, rl_mapping_bytes = bytes\<rparr>"])
      (use assms in \<open>simp_all add: layout_ok_def row payload slots bytes row_stride_of_def
         slot_stride_of_def mapping_bytes_of_def\<close>)
qed

lemma layout_new_Inl:
  assumes "layout_new width height = Inl e"
  shows "(\<exists>e'. e = RingFail e') \<and>
    (width = 0 \<or> height = 0 \<or> 268435456 < mapping_bytes_of (unat width) (unat height))"
proof
  show "\<exists>e'. e = RingFail e'"
    using assms by (auto simp: layout_new_def try_iffs split: if_splits)
  show "width = 0 \<or> height = 0 \<or> 268435456 < mapping_bytes_of (unat width) (unat height)"
  proof (rule ccontr)
    assume "\<not> ?thesis"
    then have "0 < unat width" "0 < unat height"
      "mapping_bytes_of (unat width) (unat height) \<le> 268435456"
      by (simp_all add: unat_gt_0)
    then obtain l where "layout_ok l" "rl_width l = width" "rl_height l = height"
      by (rule layout_exists)
    then have "layout_new width height = Inr l"
      by (simp add: layout_new_Inr)
    with assms show False
      by simp
  qed
qed

lemma layout_bounds:
  assumes "layout_ok l"
  shows "4 * unat (rl_width l) \<le> unat (rl_row_stride l)"
    and "unat (rl_row_stride l) < 4 * unat (rl_width l) + 256"
    and "256 dvd unat (rl_row_stride l)"
    and "unat (rl_payload_bytes l) = unat (rl_row_stride l) * unat (rl_height l)"
    and "128 + unat (rl_payload_bytes l) \<le> unat (rl_slot_stride l)"
    and "unat (rl_slot_stride l) < 128 + unat (rl_payload_bytes l) + 4096"
    and "4096 dvd unat (rl_slot_stride l)"
    and "unat (rl_mapping_bytes l) = 4096 + 24 * unat (rl_slot_stride l)"
    and "rl_mapping_bytes l \<le> MAX_MAPPING_BYTES"
proof -
  have row: "unat (rl_row_stride l) = round_up (4 * unat (rl_width l)) 256"
    and slot: "unat (rl_slot_stride l) = round_up (128 + unat (rl_payload_bytes l)) 4096"
    using assms by (auto simp: layout_ok_def)
  show "4 * unat (rl_width l) \<le> unat (rl_row_stride l)"
    "unat (rl_row_stride l) < 4 * unat (rl_width l) + 256" "256 dvd unat (rl_row_stride l)"
    unfolding row by (simp_all add: round_up_ge round_up_less round_up_dvd)
  show "128 + unat (rl_payload_bytes l) \<le> unat (rl_slot_stride l)"
    "unat (rl_slot_stride l) < 128 + unat (rl_payload_bytes l) + 4096"
    "4096 dvd unat (rl_slot_stride l)"
    unfolding slot by (intro round_up_ge round_up_less round_up_dvd; simp)+
qed (use assms in \<open>auto simp: layout_ok_def MAX_MAPPING_BYTES_def word_le_nat_alt\<close>)

text \<open>The layout computation is exact although every step of it is on machine words: dimensions are
  refused only when one is zero (and then as invalid dimensions) or when the mapping would exceed
  256 MiB, and an accepted layout has rows padded to 256 bytes that hold the pixels, a payload of
  exactly all rows, slots padded to 4096 bytes that hold their header and payload, and a mapping
  of exactly the header and 24 slots. No overflow can make a layout smaller than its frame.
\<close>
theorem layout_new_exact:
  "case layout_new width height of
     Inr l \<Rightarrow>
       rl_width l = width \<and> rl_height l = height \<and>
       4 * unat width \<le> unat (rl_row_stride l) \<and> unat (rl_row_stride l) < 4 * unat width + 256 \<and>
       256 dvd unat (rl_row_stride l) \<and>
       unat (rl_payload_bytes l) = unat (rl_row_stride l) * unat height \<and>
       128 + unat (rl_payload_bytes l) \<le> unat (rl_slot_stride l) \<and>
       unat (rl_slot_stride l) < 128 + unat (rl_payload_bytes l) + 4096 \<and>
       4096 dvd unat (rl_slot_stride l) \<and>
       unat (rl_mapping_bytes l) = 4096 + 24 * unat (rl_slot_stride l) \<and>
       rl_mapping_bytes l \<le> MAX_MAPPING_BYTES
   | Inl Panic \<Rightarrow> False
   | Inl (RingFail (InvalidDimensions w h)) \<Rightarrow> (w = width \<and> h = height) \<and> (width = 0 \<or> height = 0)
   | Inl (RingFail e) \<Rightarrow>
       width \<noteq> 0 \<and> height \<noteq> 0 \<and> 268435456 < mapping_bytes_of (unat width) (unat height)"
proof (cases "layout_new width height")
  case (Inr l)
  then have "layout_ok l" "rl_width l = width" "rl_height l = height"
    by (auto simp: layout_new_Inr)
  then show ?thesis
    using Inr layout_bounds [of l] by simp
next
  case (Inl e)
  show ?thesis
  proof (cases "width = 0 \<or> height = 0")
    case True
    then show ?thesis
      by (simp add: layout_new_def)
  next
    case False
    with Inl have "e \<noteq> RingFail (InvalidDimensions w h)" for w h
      by (auto simp: layout_new_def try_iffs split: if_splits)
    then show ?thesis
      using Inl False layout_new_Inl [OF Inl] by (auto split: ring_stop.split ring_error.split)
  qed
qed

text \<open>The smallest layout, of one pixel, and a descriptor with it.\<close>

definition pixel_layout :: ring_layout where
  "pixel_layout = \<lparr>rl_width = 1, rl_height = 1, rl_row_stride = 256, rl_payload_bytes = 256,
     rl_slot_stride = 4096, rl_mapping_bytes = 102400\<rparr>"

definition pixel_descriptor :: "u64 \<Rightarrow> ring_descriptor" where
  "pixel_descriptor g = \<lparr>rd_layout = pixel_layout, rd_generation = g\<rparr>"

lemma pixel_layout_ok: "layout_ok pixel_layout"
  by (simp add: layout_ok_def pixel_layout_def round_up_def)

end
