(* ===== verification/Ring_Abi1.thy ===== *)
theory Ring_Abi1
  imports Ring_Layout
begin

unbundle bit_operations_syntax

text \<open>
  The operations of RGB Ring ABI 1 on the shared mapping (\<open>crates/gpu/src/ring.rs\<close>): creating
  and validating the header, claiming an endpoint, publishing and taking a frame, resetting the
  ring to a new generation and adopting it. Every operation takes the mapping and returns its
  result and the mapping it leaves, also when it stops half way. The loops and the order of the
  writes are the code's.
\<close>

section \<open>Offsets\<close>

definition MAGIC :: "u8 list" where
  "MAGIC = map of_char ''LDRGBR01''"

definition PIXEL_FORMAT_RGBA8 :: u32 where "PIXEL_FORMAT_RGBA8 = 1"
definition ORIGIN_TOP_LEFT :: u32 where "ORIGIN_TOP_LEFT = 1"

definition HEADER_MAGIC_OFFSET :: nat where "HEADER_MAGIC_OFFSET = 0"
definition HEADER_ABI_OFFSET :: nat where "HEADER_ABI_OFFSET = 8"
definition HEADER_BYTES_OFFSET :: nat where "HEADER_BYTES_OFFSET = 12"
definition HEADER_GENERATION_OFFSET :: nat where "HEADER_GENERATION_OFFSET = 16"
definition HEADER_SLOT_COUNT_OFFSET :: nat where "HEADER_SLOT_COUNT_OFFSET = 24"
definition HEADER_SLOT_BYTES_OFFSET :: nat where "HEADER_SLOT_BYTES_OFFSET = 28"
definition HEADER_PIXEL_FORMAT_OFFSET :: nat where "HEADER_PIXEL_FORMAT_OFFSET = 32"
definition HEADER_ORIGIN_OFFSET :: nat where "HEADER_ORIGIN_OFFSET = 36"
definition HEADER_WIDTH_OFFSET :: nat where "HEADER_WIDTH_OFFSET = 40"
definition HEADER_HEIGHT_OFFSET :: nat where "HEADER_HEIGHT_OFFSET = 44"
definition HEADER_ROW_STRIDE_OFFSET :: nat where "HEADER_ROW_STRIDE_OFFSET = 48"
definition HEADER_PAYLOAD_BYTES_OFFSET :: nat where "HEADER_PAYLOAD_BYTES_OFFSET = 52"
definition HEADER_SLOT_STRIDE_OFFSET :: nat where "HEADER_SLOT_STRIDE_OFFSET = 56"
definition HEADER_MAPPING_BYTES_OFFSET :: nat where "HEADER_MAPPING_BYTES_OFFSET = 64"
definition HEADER_PRODUCER_SEQUENCE_OFFSET :: nat where "HEADER_PRODUCER_SEQUENCE_OFFSET = 72"
definition HEADER_CONSUMER_SEQUENCE_OFFSET :: nat where "HEADER_CONSUMER_SEQUENCE_OFFSET = 80"
definition HEADER_CONSUMER_CLAIM_OFFSET :: nat where "HEADER_CONSUMER_CLAIM_OFFSET = 88"
definition HEADER_PRODUCER_CLAIM_OFFSET :: nat where "HEADER_PRODUCER_CLAIM_OFFSET = 96"
definition HEADER_RESERVED_OFFSET :: nat where "HEADER_RESERVED_OFFSET = 104"

definition SLOT_SEQUENCE_OFFSET :: nat where "SLOT_SEQUENCE_OFFSET = 0"
definition SLOT_GENERATION_OFFSET :: nat where "SLOT_GENERATION_OFFSET = 8"
definition SLOT_TIMESTAMP_OFFSET :: nat where "SLOT_TIMESTAMP_OFFSET = 16"
definition SLOT_PAYLOAD_BYTES_OFFSET :: nat where "SLOT_PAYLOAD_BYTES_OFFSET = 24"
definition SLOT_WIDTH_OFFSET :: nat where "SLOT_WIDTH_OFFSET = 28"
definition SLOT_HEIGHT_OFFSET :: nat where "SLOT_HEIGHT_OFFSET = 32"
definition SLOT_ROW_STRIDE_OFFSET :: nat where "SLOT_ROW_STRIDE_OFFSET = 36"
definition SLOT_PIXEL_FORMAT_OFFSET :: nat where "SLOT_PIXEL_FORMAT_OFFSET = 40"
definition SLOT_ORIGIN_OFFSET :: nat where "SLOT_ORIGIN_OFFSET = 44"
definition SLOT_RESERVED_OFFSET :: nat where "SLOT_RESERVED_OFFSET = 48"

lemmas header_offsets = HEADER_MAGIC_OFFSET_def HEADER_ABI_OFFSET_def HEADER_BYTES_OFFSET_def
  HEADER_GENERATION_OFFSET_def HEADER_SLOT_COUNT_OFFSET_def HEADER_SLOT_BYTES_OFFSET_def
  HEADER_PIXEL_FORMAT_OFFSET_def HEADER_ORIGIN_OFFSET_def HEADER_WIDTH_OFFSET_def
  HEADER_HEIGHT_OFFSET_def HEADER_ROW_STRIDE_OFFSET_def HEADER_PAYLOAD_BYTES_OFFSET_def
  HEADER_SLOT_STRIDE_OFFSET_def HEADER_MAPPING_BYTES_OFFSET_def
  HEADER_PRODUCER_SEQUENCE_OFFSET_def HEADER_CONSUMER_SEQUENCE_OFFSET_def
  HEADER_CONSUMER_CLAIM_OFFSET_def HEADER_PRODUCER_CLAIM_OFFSET_def HEADER_RESERVED_OFFSET_def

lemmas slot_offsets = SLOT_SEQUENCE_OFFSET_def SLOT_GENERATION_OFFSET_def
  SLOT_TIMESTAMP_OFFSET_def SLOT_PAYLOAD_BYTES_OFFSET_def SLOT_WIDTH_OFFSET_def
  SLOT_HEIGHT_OFFSET_def SLOT_ROW_STRIDE_OFFSET_def SLOT_PIXEL_FORMAT_OFFSET_def
  SLOT_ORIGIN_OFFSET_def SLOT_RESERVED_OFFSET_def

section \<open>Data\<close>

record frame_metadata =
  fm_generation :: u64
  fm_sequence :: u64
  fm_timestamp_ns :: u64

record rgba_frame =
  rf_metadata :: frame_metadata
  rf_layout :: ring_layout
  rf_padded_rgba :: "u8 list"

record backpressure =
  bp_queued :: u32
  bp_capacity :: u32

datatype write_status = Written frame_metadata | Backpressure backpressure

datatype read_status = Frame rgba_frame | Empty

record mapped_ring_state =
  rs_producer_sequence :: u64
  rs_consumer_sequence :: u64
  rs_occupancy :: u32
  rs_available_capacity :: u32

definition can_publish :: "mapped_ring_state \<Rightarrow> u32 \<Rightarrow> bool" where
  "can_publish st frame_count = (frame_count \<le> rs_available_capacity st)"

text \<open>A step that writes: the writes are performed in order and the rest follows.\<close>

definition writing ::
  "mapping \<Rightarrow> store_op list \<Rightarrow> (mapping \<Rightarrow> 'a ring_result \<times> mapping) \<Rightarrow> 'a ring_result \<times> mapping"
  where
  "writing m ws k = (case apply_writes m ws of
      (Inl e, m') \<Rightarrow> (Inl e, m')
    | (Inr u, m') \<Rightarrow> k m')"

section \<open>Counters and generation\<close>

definition checked_queue_depth :: "u64 \<Rightarrow> u64 \<Rightarrow> u64 ring_result" where
  "checked_queue_depth produced consumed = (case checked_sub produced consumed of
      None \<Rightarrow> ring_err (CorruptSequences produced consumed)
    | Some depth \<Rightarrow>
        if depth > ucast RING_SLOT_COUNT then ring_err (CorruptSequences produced consumed)
        else Inr depth)"

text \<open>
  The loop of \<open>load_consistent_sequences\<close>. The other endpoint may write between the loads, so
  the loads read the mapping at successive moments \<open>t\<close>, \<open>t + 1\<close>, \<open>t + 2\<close> of a history.
\<close>

primrec load_attempts ::
  "nat \<Rightarrow> (nat \<Rightarrow> mapping) \<Rightarrow> nat \<Rightarrow> (u64 \<times> u64 \<times> u64) ring_result" where
  "load_attempts 0 h t = ring_err (CorruptHeader ''sequence_snapshot'')"
| "load_attempts (Suc n) h t =
     try_bind (atomic_load (h t) HEADER_CONSUMER_SEQUENCE_OFFSET) (\<lambda>consumed_before.
     try_bind (atomic_load (h (t + 1)) HEADER_PRODUCER_SEQUENCE_OFFSET) (\<lambda>produced.
     try_bind (atomic_load (h (t + 2)) HEADER_CONSUMER_SEQUENCE_OFFSET) (\<lambda>consumed_after.
     if consumed_before = consumed_after
     then try_bind (checked_queue_depth produced consumed_after)
            (\<lambda>depth. Inr (produced, consumed_after, depth))
     else load_attempts n h (t + 3))))"

definition load_consistent_sequences_in ::
  "(nat \<Rightarrow> mapping) \<Rightarrow> (u64 \<times> u64 \<times> u64) ring_result" where
  "load_consistent_sequences_in h = load_attempts 8 h 0"

text \<open>Between the writes of the other endpoint the mapping stands still.\<close>

definition load_consistent_sequences :: "mapping \<Rightarrow> (u64 \<times> u64 \<times> u64) ring_result" where
  "load_consistent_sequences m = load_consistent_sequences_in (\<lambda>_. m)"

definition load_consistent_queue_depth :: "mapping \<Rightarrow> u64 ring_result" where
  "load_consistent_queue_depth m =
     try_bind (load_consistent_sequences m) (\<lambda>(produced, consumed, depth). Inr depth)"

definition ensure_generation :: "mapping \<Rightarrow> u64 \<Rightarrow> unit ring_result" where
  "ensure_generation m expected =
     try_bind (atomic_load m HEADER_GENERATION_OFFSET) (\<lambda>actual.
     if actual = expected then Inr () else ring_err (GenerationChanged expected actual))"

definition mapping_state :: "mapping \<Rightarrow> ring_descriptor \<Rightarrow> mapped_ring_state ring_result" where
  "mapping_state m d =
     try_bind (ensure_generation m (rd_generation d)) (\<lambda>_.
     try_bind (load_consistent_sequences m) (\<lambda>(producer_sequence, consumer_sequence, depth).
     try_bind (ensure_generation m (rd_generation d)) (\<lambda>_.
     try_bind (ok_or (u32_try_from depth) (RingFail LayoutOverflow)) (\<lambda>occupancy.
     Inr \<lparr>rs_producer_sequence = producer_sequence, rs_consumer_sequence = consumer_sequence,
          rs_occupancy = occupancy, rs_available_capacity = RING_SLOT_COUNT - occupancy\<rparr>))))"

text \<open>The offset of the slot with an index, as computed for a sequence number and in the loops.\<close>

definition slot_offset :: "ring_layout \<Rightarrow> u64 \<Rightarrow> nat ring_result" where
  "slot_offset l slot_index =
     try_bind (ok_or (checked_mul (rl_slot_stride l) slot_index) (RingFail LayoutOverflow))
       (\<lambda>offset.
     try_bind (ok_or (checked_add MAPPING_HEADER_BYTES offset) (RingFail LayoutOverflow))
       (\<lambda>base.
     ok_or (usize_try_from base) (RingFail LayoutOverflow)))"

definition slot_base :: "ring_layout \<Rightarrow> u64 \<Rightarrow> nat ring_result" where
  "slot_base l sequence = slot_offset l ((sequence - 1) mod ucast RING_SLOT_COUNT)"

section \<open>Claims\<close>

text \<open>\<open>compare_exchange(0, 1)\<close> and a store of zero.\<close>

definition claim_producer :: "mapping \<Rightarrow> unit ring_result \<times> mapping" where
  "claim_producer m =
     try_with (atomic_load m HEADER_PRODUCER_CLAIM_OFFSET) m (\<lambda>current.
     if current = 0
     then writing m [atomic_store HEADER_PRODUCER_CLAIM_OFFSET 1] (\<lambda>m'. (Inr (), m'))
     else (ring_err ProducerAlreadyClaimed, m))"

definition release_producer :: "mapping \<Rightarrow> unit ring_result \<times> mapping" where
  "release_producer m = writing m [atomic_store HEADER_PRODUCER_CLAIM_OFFSET 0] (\<lambda>m'. (Inr (), m'))"

definition claim_consumer :: "mapping \<Rightarrow> unit ring_result \<times> mapping" where
  "claim_consumer m =
     try_with (atomic_load m HEADER_CONSUMER_CLAIM_OFFSET) m (\<lambda>current.
     if current = 0
     then writing m [atomic_store HEADER_CONSUMER_CLAIM_OFFSET 1] (\<lambda>m'. (Inr (), m'))
     else (ring_err ConsumerAlreadyClaimed, m))"

definition release_consumer :: "mapping \<Rightarrow> unit ring_result \<times> mapping" where
  "release_consumer m = writing m [atomic_store HEADER_CONSUMER_CLAIM_OFFSET 0] (\<lambda>m'. (Inr (), m'))"

section \<open>The header\<close>

definition write_mapping_header :: "mapping \<Rightarrow> ring_descriptor \<Rightarrow> unit ring_result \<times> mapping" where
  "write_mapping_header m d =
     writing m
       [(HEADER_MAGIC_OFFSET, MAGIC),
        put_u32 HEADER_ABI_OFFSET ABI_VERSION,
        put_u32 HEADER_BYTES_OFFSET MAPPING_HEADER_FIELD,
        put_u64 HEADER_GENERATION_OFFSET (rd_generation d),
        put_u32 HEADER_SLOT_COUNT_OFFSET RING_SLOT_COUNT,
        put_u32 HEADER_SLOT_BYTES_OFFSET SLOT_HEADER_FIELD,
        put_u32 HEADER_PIXEL_FORMAT_OFFSET PIXEL_FORMAT_RGBA8,
        put_u32 HEADER_ORIGIN_OFFSET ORIGIN_TOP_LEFT,
        put_u32 HEADER_WIDTH_OFFSET (rl_width (rd_layout d)),
        put_u32 HEADER_HEIGHT_OFFSET (rl_height (rd_layout d)),
        put_u32 HEADER_ROW_STRIDE_OFFSET (rl_row_stride (rd_layout d))] (\<lambda>m.
     try_with (ok_or (u32_try_from (rl_payload_bytes (rd_layout d))) (RingFail LayoutOverflow)) m
       (\<lambda>payload_bytes.
     writing m
       [put_u32 HEADER_PAYLOAD_BYTES_OFFSET payload_bytes,
        put_u64 HEADER_SLOT_STRIDE_OFFSET (rl_slot_stride (rd_layout d)),
        put_u64 HEADER_MAPPING_BYTES_OFFSET (rl_mapping_bytes (rd_layout d))]
       (\<lambda>m. (Inr (), m))))"

definition initialize_mapping :: "mapping \<Rightarrow> ring_descriptor \<Rightarrow> unit ring_result \<times> mapping" where
  "initialize_mapping m d =
     try_with (mapping_len (rd_layout d)) m (\<lambda>expected.
     if mp_len m \<noteq> expected
     then (ring_err (InvalidMappingLength (of_nat (mp_len m))), m)
     else writing m [fill_zero 0 (mp_len m)] (\<lambda>m. write_mapping_header m d))"

definition require_header :: "bool \<Rightarrow> string \<Rightarrow> unit ring_result" where
  "require_header condition field = ensure condition (RingFail (CorruptHeader field))"

text \<open>The condition of a header check reads the mapping.\<close>

definition header_check ::
  "'a ring_result \<Rightarrow> ('a \<Rightarrow> bool) \<Rightarrow> string \<Rightarrow> 'b ring_result \<Rightarrow> 'b ring_result" where
  "header_check field p name rest =
     try_bind field (\<lambda>v. try_bind (require_header (p v) name) (\<lambda>_. rest))"

definition validate_mapping_header :: "mapping \<Rightarrow> u64 \<Rightarrow> ring_descriptor ring_result" where
  "validate_mapping_header m file_bytes =
     try_bind (read_bytes m HEADER_MAGIC_OFFSET (HEADER_MAGIC_OFFSET + length MAGIC)) (\<lambda>magic.
     try_bind (ensure (magic = MAGIC) (RingFail InvalidMagic)) (\<lambda>_.
     try_bind (get_u32 m HEADER_ABI_OFFSET) (\<lambda>abi.
     try_bind (ensure (abi = ABI_VERSION) (RingFail (UnsupportedAbi abi))) (\<lambda>_.
     header_check (get_u32 m HEADER_BYTES_OFFSET) (\<lambda>v. v = MAPPING_HEADER_FIELD) ''header_bytes'' (
     header_check (get_u32 m HEADER_SLOT_COUNT_OFFSET) (\<lambda>v. v = RING_SLOT_COUNT) ''slot_count'' (
     header_check (get_u32 m HEADER_SLOT_BYTES_OFFSET) (\<lambda>v. v = SLOT_HEADER_FIELD)
       ''slot_header_bytes'' (
     header_check (get_u32 m HEADER_PIXEL_FORMAT_OFFSET) (\<lambda>v. v = PIXEL_FORMAT_RGBA8)
       ''pixel_format'' (
     header_check (get_u32 m HEADER_ORIGIN_OFFSET) (\<lambda>v. v = ORIGIN_TOP_LEFT) ''origin'' (
     try_bind (atomic_load m HEADER_GENERATION_OFFSET) (\<lambda>generation.
     try_bind (require_header (generation \<noteq> 0) ''generation'') (\<lambda>_.
     try_bind (get_u32 m HEADER_WIDTH_OFFSET) (\<lambda>width.
     try_bind (get_u32 m HEADER_HEIGHT_OFFSET) (\<lambda>height.
     try_bind (layout_new width height) (\<lambda>layout.
     header_check (get_u32 m HEADER_ROW_STRIDE_OFFSET) (\<lambda>v. v = rl_row_stride layout)
       ''row_stride'' (
     header_check (get_u32 m HEADER_PAYLOAD_BYTES_OFFSET)
       (\<lambda>v. ucast v = rl_payload_bytes layout) ''payload_bytes'' (
     header_check (get_u64 m HEADER_SLOT_STRIDE_OFFSET) (\<lambda>v. v = rl_slot_stride layout)
       ''slot_stride'' (
     header_check (get_u64 m HEADER_MAPPING_BYTES_OFFSET) (\<lambda>v. v = rl_mapping_bytes layout)
       ''mapping_bytes'' (
     try_bind (require_header (file_bytes = rl_mapping_bytes layout) ''file_length'') (\<lambda>_.
     header_check (read_bytes m HEADER_RESERVED_OFFSET MAPPING_HEADER_LEN)
       (list_all (\<lambda>byte. byte = 0)) ''reserved'' (
     try_bind (load_consistent_queue_depth m) (\<lambda>_.
     header_check (atomic_load m HEADER_CONSUMER_CLAIM_OFFSET) (\<lambda>v. v \<le> 1) ''consumer_claim'' (
     header_check (atomic_load m HEADER_PRODUCER_CLAIM_OFFSET) (\<lambda>v. v \<le> 1) ''producer_claim'' (
     Inr \<lparr>rd_layout = layout, rd_generation = generation\<rparr>)))))))))))))))))))))))"

section \<open>Publishing a frame\<close>

definition chunks_exact :: "nat \<Rightarrow> 'a list \<Rightarrow> 'a list list" where
  "chunks_exact k xs = map (\<lambda>i. take k (drop (i * k) xs)) [0..<length xs div k]"

text \<open>
  Copying the rows: the rows of the frame are zipped with the rows of the payload, whose
  number is the number of whole strides in it, and each is copied to the start of its row.
\<close>

definition copy_rows :: "nat \<Rightarrow> nat \<Rightarrow> nat \<Rightarrow> nat \<Rightarrow> u8 list \<Rightarrow> store_op list ring_result" where
  "copy_rows payload_start payload_len source_row destination_row tight_rgba =
     (if source_row = 0 \<or> destination_row = 0 then Inl Panic
      else
        let rows = zip (chunks_exact source_row tight_rgba) [0..<payload_len div destination_row] in
        if rows \<noteq> [] \<and> destination_row < source_row then Inl Panic
        else Inr (map (\<lambda>(row, i). (payload_start + i * destination_row, row)) rows))"

definition write_mapping_frame ::
  "mapping \<Rightarrow> ring_descriptor \<Rightarrow> u8 list \<Rightarrow> u64 \<Rightarrow> write_status ring_result \<times> mapping" where
  "write_mapping_frame m d tight_rgba timestamp_ns =
     try_with (ensure_generation m (rd_generation d)) m (\<lambda>_.
     let layout = rd_layout d in
     try_with (tight_payload_bytes layout) m (\<lambda>expected.
     if length tight_rgba \<noteq> expected
     then (ring_err (FrameLengthMismatch expected (length tight_rgba)), m)
     else
     try_with (mapping_state m d) m (\<lambda>state.
     if rs_occupancy state = RING_SLOT_COUNT
     then (Inr (Backpressure \<lparr>bp_queued = RING_SLOT_COUNT, bp_capacity = RING_SLOT_COUNT\<rparr>), m)
     else
     try_with (ok_or (checked_add (rs_producer_sequence state) 1) (RingFail SequenceExhausted)) m
       (\<lambda>sequence.
     try_with (slot_base layout sequence) m (\<lambda>slot.
     writing m [atomic_store (slot + SLOT_SEQUENCE_OFFSET) 0] (\<lambda>m.
     try_with (ok_or (usize_try_from (rl_slot_stride layout)) (RingFail LayoutOverflow)) m
       (\<lambda>slot_stride.
     writing m
       [fill_zero (slot + 8) (slot + slot_stride),
        put_u64 (slot + SLOT_GENERATION_OFFSET) (rd_generation d),
        put_u64 (slot + SLOT_TIMESTAMP_OFFSET) timestamp_ns] (\<lambda>m.
     try_with (ok_or (u32_try_from (rl_payload_bytes layout)) (RingFail LayoutOverflow)) m
       (\<lambda>payload_field.
     writing m
       [put_u32 (slot + SLOT_PAYLOAD_BYTES_OFFSET) payload_field,
        put_u32 (slot + SLOT_WIDTH_OFFSET) (rl_width layout),
        put_u32 (slot + SLOT_HEIGHT_OFFSET) (rl_height layout),
        put_u32 (slot + SLOT_ROW_STRIDE_OFFSET) (rl_row_stride layout),
        put_u32 (slot + SLOT_PIXEL_FORMAT_OFFSET) PIXEL_FORMAT_RGBA8,
        put_u32 (slot + SLOT_ORIGIN_OFFSET) ORIGIN_TOP_LEFT] (\<lambda>m.
     try_with (ok_or (usize_try_from (rl_payload_bytes layout)) (RingFail LayoutOverflow)) m
       (\<lambda>payload_len.
     let payload_start = slot + SLOT_HEADER_LEN in
     try_with (read_bytes m payload_start (payload_start + payload_len)) m (\<lambda>_.
     try_with (copy_rows payload_start payload_len (unat (tight_row_bytes layout))
         (unat (rl_row_stride layout)) tight_rgba) m (\<lambda>rows.
     writing m rows (\<lambda>m.
     writing m
       [atomic_store (slot + SLOT_SEQUENCE_OFFSET) sequence,
        atomic_store HEADER_PRODUCER_SEQUENCE_OFFSET sequence] (\<lambda>m.
     (Inr (Written \<lparr>fm_generation = rd_generation d, fm_sequence = sequence,
                    fm_timestamp_ns = timestamp_ns\<rparr>), m))))))))))))))))"

section \<open>Taking a frame\<close>

text \<open>A conjunction whose conjuncts read the mapping: the first that fails decides.\<close>

primrec all_checks :: "bool ring_result list \<Rightarrow> bool ring_result" where
  "all_checks [] = Inr True"
| "all_checks (c # cs) = try_bind c (\<lambda>b. if b then all_checks cs else Inr False)"

definition holding :: "'a ring_result \<Rightarrow> ('a \<Rightarrow> bool) \<Rightarrow> bool ring_result" where
  "holding r p = try_bind r (\<lambda>v. Inr (p v))"

definition row_padding_is_zero :: "nat \<Rightarrow> nat \<Rightarrow> u8 list \<Rightarrow> bool ring_result" where
  "row_padding_is_zero tight_row row_stride payload =
     (if row_stride = 0 then Inl Panic
      else
        let rows = chunks_exact row_stride payload in
        if rows \<noteq> [] \<and> row_stride < tight_row then Inl Panic
        else Inr (list_all (\<lambda>row. list_all (\<lambda>byte. byte = 0) (drop tight_row row)) rows))"

definition validate_slot_header ::
  "mapping \<Rightarrow> nat \<Rightarrow> ring_descriptor \<Rightarrow> u64 \<Rightarrow> unit ring_result" where
  "validate_slot_header m slot d sequence =
     (let layout = rd_layout d in
     try_bind (ok_or (usize_try_from (rl_payload_bytes layout)) (RingFail LayoutOverflow))
       (\<lambda>payload_len.
     let payload_end = slot + SLOT_HEADER_LEN + payload_len in
     try_bind (ok_or (usize_try_from (rl_slot_stride layout)) (RingFail LayoutOverflow))
       (\<lambda>slot_stride.
     let slot_end = slot + slot_stride;
         payload_start = slot + SLOT_HEADER_LEN;
         tight_row = unat (tight_row_bytes layout);
         row_stride = unat (rl_row_stride layout) in
     try_bind (read_bytes m payload_start payload_end) (\<lambda>payload.
     try_bind (row_padding_is_zero tight_row row_stride payload) (\<lambda>padding_is_zero.
     try_bind (all_checks
        [holding (get_u64 m (slot + SLOT_GENERATION_OFFSET)) (\<lambda>v. v = rd_generation d),
         holding (get_u32 m (slot + SLOT_PAYLOAD_BYTES_OFFSET))
           (\<lambda>v. ucast v = rl_payload_bytes layout),
         holding (get_u32 m (slot + SLOT_WIDTH_OFFSET)) (\<lambda>v. v = rl_width layout),
         holding (get_u32 m (slot + SLOT_HEIGHT_OFFSET)) (\<lambda>v. v = rl_height layout),
         holding (get_u32 m (slot + SLOT_ROW_STRIDE_OFFSET)) (\<lambda>v. v = rl_row_stride layout),
         holding (get_u32 m (slot + SLOT_PIXEL_FORMAT_OFFSET)) (\<lambda>v. v = PIXEL_FORMAT_RGBA8),
         holding (get_u32 m (slot + SLOT_ORIGIN_OFFSET)) (\<lambda>v. v = ORIGIN_TOP_LEFT),
         holding (read_bytes m (slot + SLOT_RESERVED_OFFSET) (slot + SLOT_HEADER_LEN))
           (list_all (\<lambda>byte. byte = 0)),
         Inr padding_is_zero,
         holding (read_bytes m payload_end slot_end) (list_all (\<lambda>byte. byte = 0))])
       (\<lambda>valid.
     ensure valid (RingFail (CorruptSlot sequence))))))))"

definition read_mapping_frame ::
  "mapping \<Rightarrow> ring_descriptor \<Rightarrow> read_status ring_result \<times> mapping" where
  "read_mapping_frame m d =
     try_with (ensure_generation m (rd_generation d)) m (\<lambda>_.
     try_with (mapping_state m d) m (\<lambda>state.
     if rs_occupancy state = 0 then (Inr Empty, m)
     else
     try_with (ok_or (checked_add (rs_consumer_sequence state) 1) (RingFail SequenceExhausted)) m
       (\<lambda>sequence.
     let layout = rd_layout d in
     try_with (slot_base layout sequence) m (\<lambda>slot.
     try_with (atomic_load m (slot + SLOT_SEQUENCE_OFFSET)) m (\<lambda>committed.
     if committed \<noteq> sequence
     then try_with (ensure_generation m (rd_generation d)) m
            (\<lambda>_. (ring_err (CorruptSlot sequence), m))
     else
     try_with (validate_slot_header m slot d sequence) m (\<lambda>_.
     let payload_start = slot + SLOT_HEADER_LEN in
     try_with (ok_or (usize_try_from (rl_payload_bytes layout)) (RingFail LayoutOverflow)) m
       (\<lambda>payload_len.
     try_with (read_bytes m payload_start (payload_start + payload_len)) m (\<lambda>padded_rgba.
     try_with (get_u64 m (slot + SLOT_TIMESTAMP_OFFSET)) m (\<lambda>timestamp_ns.
     try_with (ensure_generation m (rd_generation d)) m (\<lambda>_.
     writing m [atomic_store HEADER_CONSUMER_SEQUENCE_OFFSET sequence] (\<lambda>m.
     (Inr (Frame \<lparr>rf_metadata = \<lparr>fm_generation = rd_generation d, fm_sequence = sequence,
                                   fm_timestamp_ns = timestamp_ns\<rparr>,
                   rf_layout = layout, rf_padded_rgba = padded_rgba\<rparr>), m))))))))))))"

section \<open>Generations\<close>

primrec clear_slots ::
  "nat \<Rightarrow> ring_layout \<Rightarrow> mapping \<Rightarrow> unit ring_result \<times> mapping" where
  "clear_slots 0 l m = (Inr (), m)"
| "clear_slots (Suc n) l m =
     try_with (slot_offset l (ucast RING_SLOT_COUNT - of_nat (Suc n))) m (\<lambda>slot.
     writing m [atomic_store (slot + SLOT_SEQUENCE_OFFSET) 0] (clear_slots n l))"

definition reset_mapping_generation ::
  "mapping \<Rightarrow> ring_descriptor \<Rightarrow> u64 \<Rightarrow> ring_descriptor ring_result \<times> mapping" where
  "reset_mapping_generation m d new_generation =
     try_with (ensure_generation m (rd_generation d)) m (\<lambda>_.
     if new_generation \<le> rd_generation d
     then (ring_err (GenerationNotIncreasing (rd_generation d) new_generation), m)
     else
     writing m [atomic_store HEADER_GENERATION_OFFSET 0] (\<lambda>m.
     case clear_slots (unat RING_SLOT_COUNT) (rd_layout d) m of
       (Inl e, m) \<Rightarrow> (Inl e, m)
     | (Inr u, m) \<Rightarrow>
     writing m
       [atomic_store HEADER_PRODUCER_SEQUENCE_OFFSET 0,
        atomic_store HEADER_CONSUMER_SEQUENCE_OFFSET 0,
        atomic_store HEADER_GENERATION_OFFSET new_generation]
       (\<lambda>m. (Inr (d\<lparr>rd_generation := new_generation\<rparr>), m))))"

primrec check_slots_clear :: "nat \<Rightarrow> ring_layout \<Rightarrow> mapping \<Rightarrow> unit ring_result" where
  "check_slots_clear 0 l m = Inr ()"
| "check_slots_clear (Suc n) l m =
     (let slot_index = ucast RING_SLOT_COUNT - of_nat (Suc n) in
     try_bind (slot_offset l slot_index) (\<lambda>slot.
     try_bind (atomic_load m (slot + SLOT_SEQUENCE_OFFSET)) (\<lambda>committed.
     if committed \<noteq> 0 then ring_err (CorruptSlot (slot_index + 1))
     else check_slots_clear n l m)))"

definition adopt_mapping_generation ::
  "mapping \<Rightarrow> ring_descriptor \<Rightarrow> u64 \<Rightarrow> ring_descriptor ring_result" where
  "adopt_mapping_generation m d new_generation =
     (if new_generation \<le> rd_generation d
      then ring_err (GenerationNotIncreasing (rd_generation d) new_generation)
      else
     try_bind (atomic_load m HEADER_GENERATION_OFFSET) (\<lambda>actual.
     if actual \<noteq> new_generation then ring_err (GenerationMismatch new_generation actual)
     else
     try_bind (load_consistent_sequences m) (\<lambda>(producer_sequence, consumer_sequence, depth).
     if producer_sequence \<noteq> 0 \<or> consumer_sequence \<noteq> 0 \<or> depth \<noteq> 0
     then ring_err (CorruptSequences producer_sequence consumer_sequence)
     else
     try_bind (check_slots_clear (unat RING_SLOT_COUNT) (rd_layout d) m) (\<lambda>_.
     Inr (d\<lparr>rd_generation := new_generation\<rparr>)))))"

end
