(* ===== verification/Ring_Access.thy ===== *)
theory Ring_Access
  imports Ring_Abi1
begin

text \<open>
  The operations of the ring on a mapping of the right length, in closed form: which check
  fails first, and which writes are performed when none fails. From these follow that no
  access leaves a validated mapping and that an operation that fails leaves the mapping as it
  was.
\<close>

section \<open>The geometry of a layout\<close>

definition slot_at :: "ring_layout \<Rightarrow> nat \<Rightarrow> nat" where
  "slot_at l i = 4096 + unat (rl_slot_stride l) * i"

lemma layout_geometry:
  assumes "layout_ok l"
  shows "unat (tight_row_bytes l) = 4 * unat (rl_width l)"
    and "4 * unat (rl_width l) \<le> unat (rl_row_stride l)"
    and "0 < unat (rl_width l)" and "0 < unat (rl_height l)" and "0 < unat (rl_row_stride l)"
    and "unat (rl_payload_bytes l) = unat (rl_row_stride l) * unat (rl_height l)"
    and "128 + unat (rl_payload_bytes l) \<le> unat (rl_slot_stride l)"
    and "unat (rl_mapping_bytes l) = 4096 + 24 * unat (rl_slot_stride l)"
    and "24 * unat (rl_slot_stride l) < 268435456"
    and "256 dvd unat (rl_row_stride l)" and "4096 dvd unat (rl_slot_stride l)"
proof -
  note b = layout_bounds [OF assms]
  show pos: "0 < unat (rl_width l)" "0 < unat (rl_height l)"
    using assms by (auto simp: layout_ok_def)
  have "unat (rl_row_stride l) < 2 ^ 32"
    using unsigned_less [of "rl_row_stride l"] by simp
  then have "unat (rl_width l) * unat RGBA8_BYTES_PER_PIXEL < 2 ^ LENGTH(32)"
    using b(1) by (simp add: RGBA8_BYTES_PER_PIXEL_def)
  then have "unat (rl_width l * RGBA8_BYTES_PER_PIXEL) = unat (rl_width l) * unat RGBA8_BYTES_PER_PIXEL"
    by (rule unat_mul_fits)
  then show "unat (tight_row_bytes l) = 4 * unat (rl_width l)"
    by (simp add: tight_row_bytes_def RGBA8_BYTES_PER_PIXEL_def)
  show "0 < unat (rl_row_stride l)" "24 * unat (rl_slot_stride l) < 268435456"
    using b(1,8,9) pos by (simp_all add: MAX_MAPPING_BYTES_def word_le_nat_alt)
qed (fact layout_bounds [OF assms])+

lemma slot_at_end: "layout_ok l \<Longrightarrow> i < 24 \<Longrightarrow>
    slot_at l i + unat (rl_slot_stride l) \<le> unat (rl_mapping_bytes l)"
proof -
  assume ok: "layout_ok l" and i: "i < 24"
  have "unat (rl_slot_stride l) * (i + 1) \<le> unat (rl_slot_stride l) * 24"
    using i by (intro mult_le_mono2) simp
  then show ?thesis
    using layout_geometry(8) [OF ok] by (simp add: slot_at_def)
qed

lemma slot_at_disjoint:
  assumes "i \<noteq> j"
  shows "{slot_at l i..<slot_at l i + unat (rl_slot_stride l)} \<inter>
         {slot_at l j..<slot_at l j + unat (rl_slot_stride l)} = {}"
proof -
  have sep: "slot_at l a + unat (rl_slot_stride l) \<le> slot_at l b" if "a < b" for a b
  proof -
    have "unat (rl_slot_stride l) * (a + 1) \<le> unat (rl_slot_stride l) * b"
      using that by (intro mult_le_mono2) simp
    then show ?thesis
      by (simp add: slot_at_def)
  qed
  consider "i < j" | "j < i"
    using assms by linarith
  then show ?thesis
    by cases (use sep [of i j] sep [of j i] in auto)
qed

lemma slot_offset_ok:
  assumes "layout_ok l" and "unat i < 24"
  shows "slot_offset l i = Inr (slot_at l (unat i))"
proof -
  have "unat (rl_slot_stride l) * unat i \<le> unat (rl_slot_stride l) * 24"
    using assms(2) by (intro mult_le_mono2) simp
  also have "\<dots> < 268435456"
    using layout_geometry(9) [OF assms(1)] by simp
  finally have small: "unat (rl_slot_stride l) * unat i < 268435456" .
  then obtain x :: u64 where x: "unat x = unat (rl_slot_stride l) * unat i"
    using ex_unat [of "unat (rl_slot_stride l) * unat i", where 'a = 64] by auto
  obtain y :: u64 where y: "unat y = 4096 + unat (rl_slot_stride l) * unat i"
    using small ex_unat [of "4096 + unat (rl_slot_stride l) * unat i", where 'a = 64] by auto
  have "checked_mul (rl_slot_stride l) i = Some x" "checked_add MAPPING_HEADER_BYTES x = Some y"
    by (simp_all add: checked_mul_Some checked_add_Some x y MAPPING_HEADER_BYTES_def)
  then show ?thesis
    by (simp add: slot_offset_def y slot_at_def)
qed

text \<open>The slot of a sequence number.\<close>

definition slot_index :: "u64 \<Rightarrow> nat" where
  "slot_index sequence = (unat sequence - 1) mod 24"

lemma slot_base_ok:
  assumes "layout_ok l" and "sequence \<noteq> 0"
  shows "slot_base l sequence = Inr (slot_at l (slot_index sequence))"
proof -
  have "unat (sequence - 1) = unat sequence - 1"
    using assms(2) by (simp add: unat_minus_one)
  then have "unat ((sequence - 1) mod ucast RING_SLOT_COUNT) = slot_index sequence"
    by (simp add: unat_mod slot_index_def RING_SLOT_COUNT_def)
  then show ?thesis
    unfolding slot_base_def using slot_offset_ok [OF assms(1)] by (simp add: slot_index_def)
qed

lemma tight_payload_ok:
  assumes "layout_ok l"
  shows "tight_payload_bytes l = Inr (4 * unat (rl_width l) * unat (rl_height l))"
proof -
  have "4 * unat (rl_width l) * unat (rl_height l) \<le> unat (rl_payload_bytes l)"
    using layout_geometry(2,6) [OF assms] by simp
  also have "\<dots> < 2 ^ 64"
    using unsigned_less [of "rl_payload_bytes l"] by simp
  finally obtain n :: u64 where n: "unat n = 4 * unat (rl_width l) * unat (rl_height l)"
    using ex_unat [of "4 * unat (rl_width l) * unat (rl_height l)", where 'a = 64] by auto
  have "checked_mul (ucast (tight_row_bytes l)) (ucast (rl_height l) :: u64) = Some n"
    by (simp add: checked_mul_Some n layout_geometry(1) [OF assms])
  then show ?thesis
    by (simp add: tight_payload_bytes_def n)
qed

lemma payload_field_ok:
  assumes "layout_ok l"
  obtains p where "u32_try_from (rl_payload_bytes l) = Some p"
    and "unat p = unat (rl_payload_bytes l)" and "ucast p = rl_payload_bytes l"
proof -
  have "unat (rl_payload_bytes l) < 2 ^ LENGTH(32)"
    using layout_geometry(7,9) [OF assms] by simp
  then obtain p :: u32 where p: "unat p = unat (rl_payload_bytes l)"
    using ex_unat by blast
  moreover have "ucast p = rl_payload_bytes l"
    by (rule word_unat_eq_iff [THEN iffD2]) (simp add: p)
  ultimately show thesis
    using that by (simp add: u32_try_from_Some)
qed

section \<open>Counters and generation in closed form\<close>

abbreviation mapped_generation :: "mapping \<Rightarrow> u64" where
  "mapped_generation m \<equiv> word_at m HEADER_GENERATION_OFFSET"

abbreviation produced_at :: "mapping \<Rightarrow> u64" where
  "produced_at m \<equiv> word_at m HEADER_PRODUCER_SEQUENCE_OFFSET"

abbreviation consumed_at :: "mapping \<Rightarrow> u64" where
  "consumed_at m \<equiv> word_at m HEADER_CONSUMER_SEQUENCE_OFFSET"

text \<open>The mapping an endpoint works on: it has the length of the endpoint's layout.\<close>

definition ring_mapped :: "mapping \<Rightarrow> ring_descriptor \<Rightarrow> bool" where
  "ring_mapped m d \<longleftrightarrow> layout_ok (rd_layout d) \<and> mp_len m = unat (rl_mapping_bytes (rd_layout d))"

lemma ring_mappedD:
  assumes "ring_mapped m d"
  shows "layout_ok (rd_layout d)" and "4096 \<le> mp_len m"
    and "i < 24 \<Longrightarrow> slot_at (rd_layout d) i + unat (rl_slot_stride (rd_layout d)) \<le> mp_len m"
  using assms slot_at_end layout_geometry(8) by (auto simp: ring_mapped_def)

lemma ring_mapped_len: "mp_len m' = mp_len m \<Longrightarrow> ring_mapped m' d = ring_mapped m d"
  by (simp add: ring_mapped_def)

definition queue_depth_ok :: "mapping \<Rightarrow> bool" where
  "queue_depth_ok m \<longleftrightarrow> unat (consumed_at m) \<le> unat (produced_at m) \<and>
     unat (produced_at m) \<le> unat (consumed_at m) + 24"

lemma checked_queue_depth_eq:
  "checked_queue_depth p c =
     (if unat c \<le> unat p \<and> unat p \<le> unat c + 24 then Inr (p - c)
      else ring_err (CorruptSequences p c))"
  by (auto simp: checked_queue_depth_def checked_sub_def RING_SLOT_COUNT_def word_less_nat_alt
      unat_sub_fits)

lemma load_consistent_sequences_eq:
  assumes "4096 \<le> mp_len m"
  shows "load_consistent_sequences m =
    (if queue_depth_ok m then Inr (produced_at m, consumed_at m, produced_at m - consumed_at m)
     else ring_err (CorruptSequences (produced_at m) (consumed_at m)))"
proof -
  have eight: "(8 :: nat) = Suc 7"
    by simp
  show ?thesis
    unfolding load_consistent_sequences_def load_consistent_sequences_in_def eight
      load_attempts.simps
    using assms by (simp add: atomic_load_ok header_offsets checked_queue_depth_eq queue_depth_ok_def)
qed

lemma ensure_generation_eq:
  "4096 \<le> mp_len m \<Longrightarrow> ensure_generation m g =
     (if mapped_generation m = g then Inr ()
      else ring_err (GenerationChanged g (mapped_generation m)))"
  by (simp add: ensure_generation_def atomic_load_ok header_offsets)

lemma depth_word:
  assumes "unat c \<le> unat p" "unat p \<le> unat c + 24"
  shows "u32_try_from (p - c) = Some (of_nat (unat p - unat c))"
    and "unat (of_nat (unat p - unat c) :: u32) = unat p - unat c"
proof -
  have "unat p - unat c < 2 ^ LENGTH(32)"
    using assms by simp
  then show u: "unat (of_nat (unat p - unat c) :: u32) = unat p - unat c"
    by (rule unat_of_nat_fits)
  show "u32_try_from (p - c) = Some (of_nat (unat p - unat c))"
    by (rule u32_try_from_Some [THEN iffD2]) (simp only: u unat_sub_fits [OF assms(1)])
qed

definition occupancy_of :: "mapping \<Rightarrow> u32" where
  "occupancy_of m = of_nat (unat (produced_at m) - unat (consumed_at m))"

lemma unat_occupancy:
  "queue_depth_ok m \<Longrightarrow> unat (occupancy_of m) = unat (produced_at m) - unat (consumed_at m)"
  unfolding occupancy_of_def queue_depth_ok_def by (blast intro: depth_word(2))

lemma mapping_state_eq:
  assumes "4096 \<le> mp_len m"
  shows "mapping_state m d =
    (if mapped_generation m \<noteq> rd_generation d
     then ring_err (GenerationChanged (rd_generation d) (mapped_generation m))
     else if queue_depth_ok m
     then Inr \<lparr>rs_producer_sequence = produced_at m, rs_consumer_sequence = consumed_at m,
               rs_occupancy = occupancy_of m, rs_available_capacity = 24 - occupancy_of m\<rparr>
     else ring_err (CorruptSequences (produced_at m) (consumed_at m)))"
  using assms
  by (auto simp: mapping_state_def ensure_generation_eq load_consistent_sequences_eq
      RING_SLOT_COUNT_def occupancy_of_def queue_depth_ok_def depth_word)

section \<open>Publishing in closed form\<close>

lemma writing_ok: "list_all (write_in m) ws \<Longrightarrow> writing m ws k = k (perform_all m ws)"
  by (simp add: writing_def apply_writes_ok)

definition row_writes :: "ring_layout \<Rightarrow> nat \<Rightarrow> u8 list \<Rightarrow> store_op list" where
  "row_writes l start rgba = map (\<lambda>i. (start + i * unat (rl_row_stride l),
     take (4 * unat (rl_width l)) (drop (i * (4 * unat (rl_width l))) rgba))) [0..<unat (rl_height l)]"

lemma zip_map_upt: "zip (map f [0..<n]) [0..<n] = map (\<lambda>i. (f i, i)) [0..<n]"
  by (rule nth_equalityI) simp_all

lemma copy_rows_ok:
  assumes "layout_ok l" and "length rgba = 4 * unat (rl_width l) * unat (rl_height l)"
  shows "copy_rows start (unat (rl_payload_bytes l)) (unat (tight_row_bytes l))
    (unat (rl_row_stride l)) rgba = Inr (row_writes l start rgba)"
proof -
  note g = layout_geometry [OF assms(1)]
  have "length rgba div (4 * unat (rl_width l)) = unat (rl_height l)"
    using g(3) assms(2) by simp
  moreover have "unat (rl_payload_bytes l) div unat (rl_row_stride l) = unat (rl_height l)"
    using g(5,6) by simp
  ultimately show ?thesis
    using g(2,3,5) by (simp add: copy_rows_def g(1) chunks_exact_def zip_map_upt row_writes_def o_def)
qed

definition frame_writes ::
  "ring_descriptor \<Rightarrow> u32 \<Rightarrow> nat \<Rightarrow> u64 \<Rightarrow> u64 \<Rightarrow> u8 list \<Rightarrow> store_op list" where
  "frame_writes d payload_field slot sequence timestamp_ns rgba =
     [atomic_store (slot + SLOT_SEQUENCE_OFFSET) 0,
      fill_zero (slot + 8) (slot + unat (rl_slot_stride (rd_layout d))),
      put_u64 (slot + SLOT_GENERATION_OFFSET) (rd_generation d),
      put_u64 (slot + SLOT_TIMESTAMP_OFFSET) timestamp_ns,
      put_u32 (slot + SLOT_PAYLOAD_BYTES_OFFSET) payload_field,
      put_u32 (slot + SLOT_WIDTH_OFFSET) (rl_width (rd_layout d)),
      put_u32 (slot + SLOT_HEIGHT_OFFSET) (rl_height (rd_layout d)),
      put_u32 (slot + SLOT_ROW_STRIDE_OFFSET) (rl_row_stride (rd_layout d)),
      put_u32 (slot + SLOT_PIXEL_FORMAT_OFFSET) PIXEL_FORMAT_RGBA8,
      put_u32 (slot + SLOT_ORIGIN_OFFSET) ORIGIN_TOP_LEFT] @
     row_writes (rd_layout d) (slot + SLOT_HEADER_LEN) rgba @
     [atomic_store (slot + SLOT_SEQUENCE_OFFSET) sequence]"

lemma row_end:
  assumes "layout_ok l" "i < unat (rl_height l)"
  shows "i * unat (rl_row_stride l) + unat (rl_row_stride l) \<le> unat (rl_payload_bytes l)"
proof -
  have "(i + 1) * unat (rl_row_stride l) \<le> unat (rl_height l) * unat (rl_row_stride l)"
    using assms(2) by (intro mult_le_mono1) simp
  then show ?thesis
    by (simp add: layout_geometry(6) [OF assms(1)] mult.commute)
qed

lemma row_writes_in:
  assumes "layout_ok l" and "start + unat (rl_payload_bytes l) \<le> mp_len m"
  shows "list_all (write_in m) (row_writes l start rgba)"
proof -
  have "start + i * unat (rl_row_stride l) + (4 * unat (rl_width l)) \<le> mp_len m"
    if "i < unat (rl_height l)" for i
    using row_end [OF assms(1) that] layout_geometry(2) [OF assms(1)] assms(2) by linarith
  then show ?thesis
    by (force simp: row_writes_def list_all_iff write_in_def)
qed

text \<open>What happens to a frame whose checks all pass.\<close>

lemma write_in_simps:
  "write_in m (put_u32 a v) \<longleftrightarrow> a + 4 \<le> mp_len m"
  "write_in m (put_u64 a w) \<longleftrightarrow> a + 8 \<le> mp_len m"
  "write_in m (atomic_store a w) \<longleftrightarrow> a + 8 \<le> mp_len m"
  "a \<le> b \<Longrightarrow> write_in m (fill_zero a b) \<longleftrightarrow> b \<le> mp_len m"
  by (auto simp: write_in_def put_u32_def put_u64_def atomic_store_def fill_zero_def
      le32.length_enc le64.length_enc)

definition writable :: "mapping \<Rightarrow> ring_descriptor \<Rightarrow> u8 list \<Rightarrow> write_status ring_result option" where
  "writable m d rgba =
     (if mapped_generation m \<noteq> rd_generation d
      then Some (ring_err (GenerationChanged (rd_generation d) (mapped_generation m)))
      else if length rgba \<noteq> 4 * unat (rl_width (rd_layout d)) * unat (rl_height (rd_layout d))
      then Some (ring_err (FrameLengthMismatch
        (4 * unat (rl_width (rd_layout d)) * unat (rl_height (rd_layout d))) (length rgba)))
      else if \<not> queue_depth_ok m
      then Some (ring_err (CorruptSequences (produced_at m) (consumed_at m)))
      else if unat (produced_at m) = unat (consumed_at m) + 24
      then Some (Inr (Backpressure \<lparr>bp_queued = RING_SLOT_COUNT, bp_capacity = RING_SLOT_COUNT\<rparr>))
      else if unat (produced_at m) + 1 = 2 ^ 64 then Some (ring_err SequenceExhausted)
      else None)"

lemma write_mapping_frame_eq:
  assumes map: "ring_mapped m d"
    and pay: "u32_try_from (rl_payload_bytes (rd_layout d)) = Some payload_field"
  shows "write_mapping_frame m d rgba ts = (case writable m d rgba of
      Some r \<Rightarrow> (r, m)
    | None \<Rightarrow>
        (Inr (Written \<lparr>fm_generation = rd_generation d, fm_sequence = produced_at m + 1,
                       fm_timestamp_ns = ts\<rparr>),
         perform_all m (frame_writes d payload_field
             (slot_at (rd_layout d) (slot_index (produced_at m + 1))) (produced_at m + 1) ts rgba
           @ [atomic_store HEADER_PRODUCER_SEQUENCE_OFFSET (produced_at m + 1)])))"
proof (cases "writable m d rgba")
  case (Some r)
  note ok = ring_mappedD(1) [OF map] and len = ring_mappedD(2) [OF map]
  have occ: "occupancy_of m = 24 \<longleftrightarrow> unat (produced_at m) = unat (consumed_at m) + 24"
    if "queue_depth_ok m"
    using that by (auto simp: word_unat_eq_iff unat_occupancy queue_depth_ok_def)
  have exh: "checked_add (produced_at m) 1 = None" if "unat (produced_at m) + 1 = 2 ^ 64"
    using that by (simp add: checked_add_None)
  show ?thesis
    using Some occ exh unfolding writable_def
    by (auto simp: write_mapping_frame_def ensure_generation_eq [OF len] tight_payload_ok [OF ok]
        mapping_state_eq [OF len] RING_SLOT_COUNT_def Let_def split: if_splits)
next
  case None
  note ok = ring_mappedD(1) [OF map] and len = ring_mappedD(2) [OF map]
  note g = layout_geometry [OF ok]
  let ?l = "rd_layout d" and ?s = "produced_at m + 1"
  let ?b = "slot_at ?l (slot_index ?s)"
  from None have c: "mapped_generation m = rd_generation d"
    "length rgba = 4 * unat (rl_width ?l) * unat (rl_height ?l)" "queue_depth_ok m"
    "unat (produced_at m) \<noteq> unat (consumed_at m) + 24" "unat (produced_at m) + 1 \<noteq> 2 ^ 64"
    by (auto simp: writable_def split: if_splits)
  have "unat (produced_at m) < 2 ^ 64"
    using unsigned_less [of "produced_at m"] by simp
  with c(5) have fits: "unat (produced_at m) + unat (1 :: u64) < 2 ^ LENGTH(64)"
    by simp
  then have us: "unat ?s = unat (produced_at m) + 1"
    by (simp add: unat_add_fits)
  then have s0: "?s \<noteq> 0"
    by (metis Suc_eq_plus1 nat.simps(3) unat_0)
  have occ: "occupancy_of m \<noteq> 24"
    using c(3,4) unat_occupancy [OF c(3)] by (auto simp: queue_depth_ok_def)
  have seq: "checked_add (produced_at m) 1 = Some ?s"
    using fits by (simp add: checked_add_def)
  have i: "slot_index ?s < 24"
    by (simp add: slot_index_def)
  have e: "?b + unat (rl_slot_stride ?l) \<le> mp_len m"
    by (rule ring_mappedD(3) [OF map i])
  have rows: "list_all (write_in m') (row_writes ?l (?b + 128) rgba)" if "mp_len m' = mp_len m" for m'
    using row_writes_in [OF ok, of "?b + 128" m'] that e g(7) by simp
  show ?thesis
    using c occ None e g(7) len
    by (simp add: write_mapping_frame_def ensure_generation_eq [OF len] tight_payload_ok [OF ok]
        mapping_state_eq [OF len] RING_SLOT_COUNT_def Let_def seq [unfolded header_offsets]
        slot_base_ok [OF ok s0 [unfolded header_offsets]] writing_ok write_in_simps slot_offsets SLOT_HEADER_LEN_def pay read_bytes_def
        copy_rows_ok [OF ok] rows [unfolded header_offsets] frame_writes_def header_offsets)
qed

section \<open>Taking in closed form\<close>

definition slot_valid :: "mapping \<Rightarrow> nat \<Rightarrow> ring_descriptor \<Rightarrow> bool" where
  "slot_valid m slot d \<longleftrightarrow>
     word_at m (slot + 8) = rd_generation d \<and>
     ucast (half_at m (slot + 24)) = rl_payload_bytes (rd_layout d) \<and>
     half_at m (slot + 28) = rl_width (rd_layout d) \<and>
     half_at m (slot + 32) = rl_height (rd_layout d) \<and>
     half_at m (slot + 36) = rl_row_stride (rd_layout d) \<and>
     half_at m (slot + 40) = PIXEL_FORMAT_RGBA8 \<and> half_at m (slot + 44) = ORIGIN_TOP_LEFT \<and>
     list_all (\<lambda>byte. byte = 0) (slice m (slot + 48) (slot + 128)) \<and>
     list_all (\<lambda>row. list_all (\<lambda>byte. byte = 0) (drop (4 * unat (rl_width (rd_layout d))) row))
       (chunks_exact (unat (rl_row_stride (rd_layout d)))
         (slice m (slot + 128) (slot + 128 + unat (rl_payload_bytes (rd_layout d))))) \<and>
     list_all (\<lambda>byte. byte = 0)
       (slice m (slot + 128 + unat (rl_payload_bytes (rd_layout d)))
         (slot + unat (rl_slot_stride (rd_layout d))))"

lemma all_checks_total:
  "all_checks (map Inr bs) = Inr (list_all id bs)"
  by (induction bs) auto

lemma validate_slot_header_ok:
  assumes "layout_ok (rd_layout d)" and "slot + unat (rl_slot_stride (rd_layout d)) \<le> mp_len m"
  shows "validate_slot_header m slot d sequence =
    (if slot_valid m slot d then Inr () else ring_err (CorruptSlot sequence))"
proof -
  note g = layout_geometry [OF assms(1)]
  have pad: "row_padding_is_zero (unat (tight_row_bytes (rd_layout d)))
      (unat (rl_row_stride (rd_layout d))) payload =
    Inr (list_all (\<lambda>row. list_all (\<lambda>byte. byte = 0) (drop (4 * unat (rl_width (rd_layout d))) row))
          (chunks_exact (unat (rl_row_stride (rd_layout d))) payload))" for payload
    using g(2,5) by (simp add: row_padding_is_zero_def g(1))
  have "unat (rl_payload_bytes (rd_layout d)) + 128 \<le> unat (rl_slot_stride (rd_layout d))"
    using g(7) by simp
  then show ?thesis
    using assms(2)
    by (simp add: validate_slot_header_def Let_def slot_offsets SLOT_HEADER_LEN_def read_bytes_def
        pad get_u64_ok get_u32_ok holding_def slot_valid_def)
qed

definition readable :: "mapping \<Rightarrow> ring_descriptor \<Rightarrow> read_status ring_result option" where
  "readable m d =
     (let slot = slot_at (rd_layout d) (slot_index (consumed_at m + 1)) in
      if mapped_generation m \<noteq> rd_generation d
      then Some (ring_err (GenerationChanged (rd_generation d) (mapped_generation m)))
      else if \<not> queue_depth_ok m
      then Some (ring_err (CorruptSequences (produced_at m) (consumed_at m)))
      else if produced_at m = consumed_at m then Some (Inr Empty)
      else if word_at m slot \<noteq> consumed_at m + 1 \<or> \<not> slot_valid m slot d
      then Some (ring_err (CorruptSlot (consumed_at m + 1)))
      else None)"

lemma occupancy_zero:
  "queue_depth_ok m \<Longrightarrow> occupancy_of m = 0 \<longleftrightarrow> produced_at m = consumed_at m"
  by (auto simp: word_unat_eq_iff unat_occupancy queue_depth_ok_def)

lemma read_mapping_frame_eq:
  assumes map: "ring_mapped m d"
  shows "read_mapping_frame m d = (case readable m d of
      Some r \<Rightarrow> (r, m)
    | None \<Rightarrow>
        (let slot = slot_at (rd_layout d) (slot_index (consumed_at m + 1)) in
         (Inr (Frame \<lparr>rf_metadata = \<lparr>fm_generation = rd_generation d,
              fm_sequence = consumed_at m + 1, fm_timestamp_ns = word_at m (slot + 16)\<rparr>,
            rf_layout = rd_layout d,
            rf_padded_rgba =
              slice m (slot + 128) (slot + 128 + unat (rl_payload_bytes (rd_layout d)))\<rparr>),
          perform m (atomic_store HEADER_CONSUMER_SEQUENCE_OFFSET (consumed_at m + 1)))))"
proof (cases "mapped_generation m = rd_generation d \<and> queue_depth_ok m \<and>
    produced_at m \<noteq> consumed_at m")
  case False
  note len = ring_mappedD(2) [OF map]
  show ?thesis
    using False occupancy_zero [of m]
    by (auto simp: read_mapping_frame_def ensure_generation_eq [OF len] mapping_state_eq [OF len]
        readable_def Let_def)
next
  case True
  note ok = ring_mappedD(1) [OF map] and len = ring_mappedD(2) [OF map]
  note g = layout_geometry [OF ok]
  let ?l = "rd_layout d" and ?s = "consumed_at m + 1"
  let ?b = "slot_at ?l (slot_index ?s)"
  have occ: "occupancy_of m \<noteq> 0"
    using True occupancy_zero by simp
  have "unat (consumed_at m) < unat (produced_at m)"
    using True by (auto simp: queue_depth_ok_def word_unat_eq_iff)
  moreover have "unat (produced_at m) < 2 ^ 64"
    using unsigned_less [of "produced_at m"] by simp
  ultimately have fits: "unat (consumed_at m) + unat (1 :: u64) < 2 ^ LENGTH(64)"
    by simp
  then have us: "unat ?s = unat (consumed_at m) + 1"
    by (simp add: unat_add_fits)
  then have s0: "?s \<noteq> 0"
    by (metis Suc_eq_plus1 nat.simps(3) unat_0)
  have seq: "checked_add (consumed_at m) 1 = Some ?s"
    using fits by (simp add: checked_add_def)
  have i: "slot_index ?s < 24"
    by (simp add: slot_index_def)
  have e: "?b + unat (rl_slot_stride ?l) \<le> mp_len m"
    by (rule ring_mappedD(3) [OF map i])
  have b: "?b + 128 + unat (rl_payload_bytes ?l) \<le> mp_len m"
    using e g(7) by simp
  show ?thesis
    using True occ b len
    by (simp add: read_mapping_frame_def ensure_generation_eq [OF len] mapping_state_eq [OF len]
        readable_def Let_def seq [unfolded header_offsets]
        slot_base_ok [OF ok s0 [unfolded header_offsets]] slot_offsets SLOT_HEADER_LEN_def
        validate_slot_header_ok [OF ok e [unfolded header_offsets]] atomic_load_ok get_u64_ok
        read_bytes_def writing_ok write_in_simps header_offsets)
qed

text \<open>No write reaches the mapping when an operation does not succeed.\<close>

lemma write_mapping_frame_cases:
  assumes "ring_mapped m d"
  obtains (refused) r where "writable m d rgba = Some r" "write_mapping_frame m d rgba ts = (r, m)"
  | (accepted) payload_field where "writable m d rgba = None"
      "u32_try_from (rl_payload_bytes (rd_layout d)) = Some payload_field"
      "ucast payload_field = rl_payload_bytes (rd_layout d)"
      "write_mapping_frame m d rgba ts =
        (Inr (Written \<lparr>fm_generation = rd_generation d, fm_sequence = produced_at m + 1,
                       fm_timestamp_ns = ts\<rparr>),
         perform_all m (frame_writes d payload_field
             (slot_at (rd_layout d) (slot_index (produced_at m + 1))) (produced_at m + 1) ts rgba
           @ [atomic_store HEADER_PRODUCER_SEQUENCE_OFFSET (produced_at m + 1)]))"
proof -
  obtain pf where pf: "u32_try_from (rl_payload_bytes (rd_layout d)) = Some pf"
      "ucast pf = rl_payload_bytes (rd_layout d)"
    using payload_field_ok [OF ring_mappedD(1) [OF assms]] by metis
  note eq = write_mapping_frame_eq [OF assms pf(1), of rgba ts]
  show thesis
  proof (cases "writable m d rgba")
    case None
    show thesis
      by (rule accepted [OF None pf]) (simp add: eq None)
  next
    case (Some r)
    show thesis
      by (rule refused [OF Some]) (simp add: eq Some)
  qed
qed

end
