(* ===== verification/Ring_Slots.thy ===== *)
theory Ring_Slots
  imports Ring_Access
begin

text \<open>
  What a slot holds after a frame was published into it, and that publishing into one slot
  leaves every other slot alone.
\<close>

section \<open>Slices of slices\<close>

lemma word_eq_of_nat: "n < 2 ^ LENGTH('a) \<Longrightarrow> unat w = n \<Longrightarrow> w = of_nat n" for w :: "'a::len word"
  by (rule word_unat_eq_iff [THEN iffD2]) (simp only: unat_of_nat_fits)

lemma ivl_disjoint_nat:
  "{a..<b} \<inter> {c..<d} = {} \<longleftrightarrow> b \<le> c \<or> d \<le> a \<or> b \<le> a \<or> d \<le> c" for a b c d :: nat
  by (auto simp: disjoint_iff not_le)

lemma slice_sub:
  "slice m b e = slice m' b e \<Longrightarrow> b \<le> x \<Longrightarrow> y \<le> e \<Longrightarrow> slice m x y = slice m' x y"
  unfolding slice_eq_iff by auto

lemma upt_split: "a \<le> b \<Longrightarrow> b \<le> c \<Longrightarrow> [a..<c] = [a..<b] @ [b..<c]"
  using upt_add_eq_append [of a b "c - b"] by simp

lemma slice_append: "a \<le> b \<Longrightarrow> b \<le> c \<Longrightarrow> slice m a c = slice m a b @ slice m b c"
  by (simp add: slice_def upt_split [of a b c])

lemma slice_rows:
  "slice m a (a + n * k) = concat (map (\<lambda>r. slice m (a + r * k) (a + r * k + k)) [0..<n])"
proof (induction n)
  case 0
  then show ?case by (simp add: slice_def)
next
  case (Suc n)
  have "slice m a (a + Suc n * k) = slice m a (a + n * k) @ slice m (a + n * k) (a + n * k + k)"
    by (subst slice_append [of a "a + n * k"]) (simp_all add: ac_simps)
  then show ?case
    by (simp add: Suc.IH)
qed

lemma slice_zero_replicate:
  "(\<And>i. a \<le> i \<Longrightarrow> i < b \<Longrightarrow> mp_byte m i = 0) \<Longrightarrow> slice m a b = replicate (b - a) 0"
  by (rule nth_equalityI) (simp_all add: nth_slice)

section \<open>A frame in a slot\<close>

text \<open>The payload of a frame: every row is followed by zeroes up to the row stride.\<close>

definition padded_rows :: "ring_layout \<Rightarrow> u8 list \<Rightarrow> u8 list" where
  "padded_rows l rgba =
     concat (map (\<lambda>row. row @ replicate (unat (rl_row_stride l) - 4 * unat (rl_width l)) 0)
       (chunks_exact (4 * unat (rl_width l)) rgba))"

type_synonym frame_item = "u64 \<times> u8 list"

definition slot_holds :: "mapping \<Rightarrow> ring_descriptor \<Rightarrow> u64 \<Rightarrow> frame_item \<Rightarrow> bool" where
  "slot_holds m d sequence item =
     (let slot = slot_at (rd_layout d) (slot_index sequence) in
      word_at m slot = sequence \<and> slot_valid m slot d \<and> word_at m (slot + 16) = fst item \<and>
      slice m (slot + 128) (slot + 128 + unat (rl_payload_bytes (rd_layout d))) =
        padded_rows (rd_layout d) (snd item))"

lemma slot_valid_cong:
  assumes "layout_ok (rd_layout d)"
    and same: "slice m b (b + unat (rl_slot_stride (rd_layout d))) =
      slice m' b (b + unat (rl_slot_stride (rd_layout d)))"
  shows "slot_valid m b d = slot_valid m' b d"
proof -
  note g = layout_geometry [OF assms(1)]
  show ?thesis
    unfolding slot_valid_def word_at_def half_at_def
    using g(7) slice_sub [OF same, of "b + 8" "b + 8 + 8"]
      slice_sub [OF same, of "b + 24" "b + 24 + 4"] slice_sub [OF same, of "b + 28" "b + 28 + 4"]
      slice_sub [OF same, of "b + 32" "b + 32 + 4"] slice_sub [OF same, of "b + 36" "b + 36 + 4"]
      slice_sub [OF same, of "b + 40" "b + 40 + 4"] slice_sub [OF same, of "b + 44" "b + 44 + 4"]
      slice_sub [OF same, of "b + 48" "b + 128"]
      slice_sub [OF same, of "b + 128" "b + 128 + unat (rl_payload_bytes (rd_layout d))"]
      slice_sub [OF same, of "b + 128 + unat (rl_payload_bytes (rd_layout d))"
        "b + unat (rl_slot_stride (rd_layout d))"]
    by simp
qed

lemma slot_holds_cong:
  assumes "layout_ok (rd_layout d)"
    and same: "slice m (slot_at (rd_layout d) (slot_index s))
        (slot_at (rd_layout d) (slot_index s) + unat (rl_slot_stride (rd_layout d))) =
      slice m' (slot_at (rd_layout d) (slot_index s))
        (slot_at (rd_layout d) (slot_index s) + unat (rl_slot_stride (rd_layout d)))"
  shows "slot_holds m d s item = slot_holds m' d s item"
proof -
  note g = layout_geometry [OF assms(1)]
  let ?b = "slot_at (rd_layout d) (slot_index s)"
  show ?thesis
    unfolding slot_holds_def Let_def word_at_def
    using g(7) slot_valid_cong [OF assms] slice_sub [OF same, of ?b "?b + 8"]
      slice_sub [OF same, of "?b + 16" "?b + 16 + 8"]
      slice_sub [OF same, of "?b + 128" "?b + 128 + unat (rl_payload_bytes (rd_layout d))"]
    by simp
qed

section \<open>Publishing into a slot\<close>

lemma row_writes_covers:
  assumes "layout_ok l"
  shows "\<Union> (set (map covers (row_writes l start rgba))) \<subseteq>
    {start..<start + unat (rl_payload_bytes l)}"
proof -
  have "covers (start + i * unat (rl_row_stride l),
      take (4 * unat (rl_width l)) (drop (i * (4 * unat (rl_width l))) rgba)) \<subseteq>
    {start..<start + unat (rl_payload_bytes l)}" if "i < unat (rl_height l)" for i
    using row_end [OF assms that] layout_geometry(2) [OF assms]
    by (auto simp: covers_def)
  then show ?thesis
    by (simp add: row_writes_def UN_subset_iff)
qed

lemma frame_writes_covers:
  assumes "layout_ok (rd_layout d)"
  shows "\<Union> (set (map covers (frame_writes d pf b s ts rgba))) \<subseteq>
    {b..<b + unat (rl_slot_stride (rd_layout d))}"
  using row_writes_covers [OF assms, of "b + 128" rgba] layout_geometry(7) [OF assms]
  by (force simp: frame_writes_def slot_offsets SLOT_HEADER_LEN_def)

text \<open>The rows of the payload.\<close>

lemma row_writes_byte:
  assumes "layout_ok l" and "length rgba = 4 * unat (rl_width l) * unat (rl_height l)"
    and r: "r < unat (rl_height l)" and o: "k < unat (rl_row_stride l)"
  shows "mp_byte (perform_all m (row_writes l start rgba)) (start + r * unat (rl_row_stride l) + k) =
    (if k < 4 * unat (rl_width l)
     then take (4 * unat (rl_width l)) (drop (r * (4 * unat (rl_width l))) rgba) ! k
     else mp_byte m (start + r * unat (rl_row_stride l) + k))"
proof -
  let ?st = "unat (rl_row_stride l)" and ?t = "4 * unat (rl_width l)"
  let ?row = "\<lambda>i. take ?t (drop (i * ?t) rgba)"
  let ?w = "\<lambda>i. (start + i * ?st, ?row i)"
  note g = layout_geometry [OF assms(1)]
  have len: "length (?row i) = ?t" if "i < unat (rl_height l)" for i
  proof -
    have "(i + 1) * ?t \<le> unat (rl_height l) * ?t"
      using that by (intro mult_le_mono1) simp
    then show ?thesis
      by (simp add: assms(2) mult.commute)
  qed
  have cov: "covers (?w i) = {start + i * ?st..<start + i * ?st + ?t}" if "i < unat (rl_height l)" for i
    using len [OF that] by (simp add: covers_def)
  have out: "start + r * ?st + k \<notin> covers (?w i)" if "i \<noteq> r" "i < unat (rl_height l)" for i
  proof -
    have "(i + 1) * ?st \<le> r * ?st \<or> (r + 1) * ?st \<le> i * ?st"
    proof (cases "i < r")
      case True
      then have "(i + 1) * ?st \<le> r * ?st"
        by (intro mult_le_mono1) simp
      then show ?thesis ..
    next
      case False
      then have "(r + 1) * ?st \<le> i * ?st"
        using that(1) by (intro mult_le_mono1) simp
      then show ?thesis ..
    qed
    then show ?thesis
      using o g(2) cov [OF that(2)] by auto
  qed
  have "[0..<unat (rl_height l)] = [0..<r] @ r # [Suc r..<unat (rl_height l)]"
    using r upt_split [of 0 r "unat (rl_height l)"] by (simp add: upt_conv_Cons)
  then have split: "row_writes l start rgba =
      map ?w [0..<r] @ ?w r # map ?w [Suc r..<unat (rl_height l)]"
    by (simp only: row_writes_def map_append list.map)
  have before: "mp_byte (perform_all m (map ?w [0..<r])) (start + r * ?st + k) =
      mp_byte m (start + r * ?st + k)"
    using out r by (intro perform_all_other) auto
  have after: "mp_byte (perform_all m' (map ?w [Suc r..<unat (rl_height l)])) (start + r * ?st + k) =
      mp_byte m' (start + r * ?st + k)" for m'
    using out by (intro perform_all_other) auto
  show ?thesis
  proof (cases "k < ?t")
    case True
    then have "start + r * ?st + k \<in> covers (?w r)"
      using cov [OF r] by auto
    then show ?thesis
      unfolding split perform_all_simps after using True by (simp add: perform_in)
  next
    case False
    then have "start + r * ?st + k \<notin> covers (?w r)"
      using cov [OF r] by auto
    then show ?thesis
      unfolding split perform_all_simps after using False by (simp add: perform_other before)
  qed
qed

lemma row_length:
  assumes "length rgba = 4 * unat (rl_width l) * unat (rl_height l)" and "i < unat (rl_height l)"
  shows "length (take (4 * unat (rl_width l)) (drop (i * (4 * unat (rl_width l))) rgba)) =
    4 * unat (rl_width l)"
proof -
  have "(i + 1) * (4 * unat (rl_width l)) \<le> unat (rl_height l) * (4 * unat (rl_width l))"
    using assms(2) by (intro mult_le_mono1) simp
  then show ?thesis
    by (simp add: assms(1) mult.commute)
qed

lemma padded_rows_eq:
  assumes "layout_ok l" and "length rgba = 4 * unat (rl_width l) * unat (rl_height l)"
  shows "padded_rows l rgba = concat (map (\<lambda>i.
      take (4 * unat (rl_width l)) (drop (i * (4 * unat (rl_width l))) rgba) @
      replicate (unat (rl_row_stride l) - 4 * unat (rl_width l)) 0) [0..<unat (rl_height l)])"
  using layout_geometry(3) [OF assms(1)] by (simp add: padded_rows_def chunks_exact_def assms(2) o_def)

lemma payload_after:
  assumes "layout_ok l" and "length rgba = 4 * unat (rl_width l) * unat (rl_height l)"
    and zero: "\<And>i. start \<le> i \<Longrightarrow> i < start + unat (rl_payload_bytes l) \<Longrightarrow> mp_byte m i = 0"
  shows "slice (perform_all m (row_writes l start rgba)) start (start + unat (rl_payload_bytes l)) =
    padded_rows l rgba"
proof -
  let ?st = "unat (rl_row_stride l)" and ?t = "4 * unat (rl_width l)" and ?h = "unat (rl_height l)"
  let ?m = "perform_all m (row_writes l start rgba)"
  note g = layout_geometry [OF assms(1)]
  have row: "slice ?m (start + i * ?st) (start + i * ?st + ?st) =
      take ?t (drop (i * ?t) rgba) @ replicate (?st - ?t) 0" if i: "i < ?h" for i
  proof (rule nth_equalityI)
    show "length (slice ?m (start + i * ?st) (start + i * ?st + ?st)) =
        length (take ?t (drop (i * ?t) rgba) @ replicate (?st - ?t) 0)"
      using row_length [OF assms(2) i] g(2) by simp
    fix k
    assume "k < length (slice ?m (start + i * ?st) (start + i * ?st + ?st))"
    then have k: "k < ?st"
      by simp
    have "mp_byte m (start + i * ?st + k) = 0"
      using row_end [OF assms(1) i] k by (intro zero) auto
    then show "slice ?m (start + i * ?st) (start + i * ?st + ?st) ! k =
        (take ?t (drop (i * ?t) rgba) @ replicate (?st - ?t) 0) ! k"
      using k row_writes_byte [OF assms(1,2) i k, of m start] row_length [OF assms(2) i]
      by (simp add: nth_slice nth_append del: length_take)
  qed
  have pay: "unat (rl_payload_bytes l) = ?h * ?st"
    by (simp add: g(6) mult.commute)
  show ?thesis
    unfolding pay slice_rows padded_rows_eq [OF assms(1,2)]
    by (intro arg_cong [where f = concat] map_cong refl row) simp
qed

lemma chunks_exact_append:
  "0 < k \<Longrightarrow> length x = k \<Longrightarrow> chunks_exact k (x @ ys) = x # chunks_exact k ys"
proof -
  assume k: "0 < k" "length x = k"
  have "(k + length ys) div k = Suc (length ys div k)"
    using k(1) by (simp add: div_add_self1)
  moreover have "[0..<Suc n] = 0 # map Suc [0..<n]" for n
    by (simp add: map_Suc_upt upt_conv_Cons del: upt_Suc)
  ultimately show ?thesis
    using k(2) by (simp add: chunks_exact_def del: upt_Suc)
qed

lemma chunks_exact_concat:
  "0 < k \<Longrightarrow> list_all (\<lambda>row. length row = k) rows \<Longrightarrow> chunks_exact k (concat rows) = rows"
  by (induction rows) (simp_all add: chunks_exact_append, simp add: chunks_exact_def)

lemma padded_rows_padding:
  assumes "layout_ok l" and "length rgba = 4 * unat (rl_width l) * unat (rl_height l)"
  shows "list_all (\<lambda>row. list_all (\<lambda>byte. byte = 0) (drop (4 * unat (rl_width l)) row))
    (chunks_exact (unat (rl_row_stride l)) (padded_rows l rgba))"
proof -
  note g = layout_geometry [OF assms(1)]
  show ?thesis
    unfolding padded_rows_eq [OF assms]
    using g(2,5) row_length [OF assms(2)]
    by (subst chunks_exact_concat) (auto simp: list_all_iff)
qed

text \<open>The slot after the writes of a frame.\<close>

lemma frame_written:
  assumes ok: "layout_ok (rd_layout d)"
    and len: "length rgba = 4 * unat (rl_width (rd_layout d)) * unat (rl_height (rd_layout d))"
    and pf: "ucast pf = rl_payload_bytes (rd_layout d)"
    and m': "m' = perform_all m
      (frame_writes d pf (slot_at (rd_layout d) (slot_index s)) s ts rgba)"
  shows "slot_holds m' d s (ts, rgba)"
proof -
  let ?l = "rd_layout d" and ?b = "slot_at (rd_layout d) (slot_index s)"
  let ?pay = "unat (rl_payload_bytes ?l)" and ?st = "unat (rl_slot_stride ?l)"
  note g = layout_geometry [OF ok]
  define head where "head = take 10 (frame_writes d pf ?b s ts rgba)"
  define m1 where "m1 = perform_all m head"
  define m2 where "m2 = perform_all m1 (row_writes ?l (?b + 128) rgba)"
  have m'_eq: "m' = perform m2 (atomic_store ?b s)"
    by (simp add: m' m2_def m1_def head_def frame_writes_def slot_offsets SLOT_HEADER_LEN_def)
  have covers2: "\<Union> (set (map covers (row_writes ?l (?b + 128) rgba))) \<subseteq> {?b + 128..<?b + 128 + ?pay}"
    by (rule row_writes_covers [OF ok])
  have same12: "slice m2 x y = slice m1 x y" if "y \<le> ?b + 128 \<or> ?b + 128 + ?pay \<le> x" for x y
  proof -
    have "{x..<y} \<inter> {?b + 128..<?b + 128 + ?pay} = {}"
      using that by auto
    then show ?thesis
      unfolding m2_def using covers2 by (intro slice_perform_all_other) blast
  qed
  have same2': "slice m' x y = slice m2 x y" if "?b + 8 \<le> x" for x y
    unfolding m'_eq using that by (intro slice_perform_other) auto
  have zero1: "mp_byte m1 i = 0" if "?b + 48 \<le> i" "i < ?b + ?st" for i
  proof -
    have "mp_byte m1 i = mp_byte (perform (perform m (atomic_store ?b 0)) (fill_zero (?b + 8) (?b + ?st))) i"
      unfolding m1_def head_def frame_writes_def using that
      by (simp add: slot_offsets perform_other)
    also have "\<dots> = 0"
      using that by (simp add: perform_in) (simp add: fill_zero_def)
    finally show ?thesis .
  qed
  have words: "word_at m1 (?b + 8) = rd_generation d" "word_at m1 (?b + 16) = ts"
    "half_at m1 (?b + 24) = pf" "half_at m1 (?b + 28) = rl_width ?l"
    "half_at m1 (?b + 32) = rl_height ?l" "half_at m1 (?b + 36) = rl_row_stride ?l"
    "half_at m1 (?b + 40) = PIXEL_FORMAT_RGBA8" "half_at m1 (?b + 44) = ORIGIN_TOP_LEFT"
    unfolding m1_def head_def frame_writes_def
    by (simp_all add: slot_offsets word_at_perform half_at_perform ivl_disjoint_nat)
  have keep: "word_at m' x = word_at m1 x" if "?b + 8 \<le> x" "x + 8 \<le> ?b + 128" for x
    using same2' [of x "x + 8"] same12 [of "x + 8" x] that by (simp add: word_at_def)
  have keep4: "half_at m' x = half_at m1 x" if "?b + 8 \<le> x" "x + 4 \<le> ?b + 128" for x
    using same2' [of x "x + 4"] same12 [of "x + 4" x] that by (simp add: half_at_def)
  have reserved: "list_all (\<lambda>byte. byte = 0) (slice m' (?b + 48) (?b + 128))"
    using g(7) same2' [of "?b + 48" "?b + 128"] same12 [of "?b + 128" "?b + 48"]
    by (simp add: list_all_iff slice_all_zero zero1)
  have tail: "list_all (\<lambda>byte. byte = 0) (slice m' (?b + 128 + ?pay) (?b + ?st))"
    using same2' [of "?b + 128 + ?pay" "?b + ?st"] same12 [of "?b + ?st" "?b + 128 + ?pay"]
    by (simp add: list_all_iff slice_all_zero zero1)
  have payload: "slice m' (?b + 128) (?b + 128 + ?pay) = padded_rows ?l rgba"
    using same2' [of "?b + 128" "?b + 128 + ?pay"]
      payload_after [OF ok len, of "?b + 128" m1] zero1 g(7)
    by (simp add: m2_def)
  show ?thesis
    using words keep keep4 reserved tail payload pf padded_rows_padding [OF ok len]
    by (simp add: slot_holds_def Let_def slot_valid_def m'_eq word_at_perform(2))
qed

end
