(* ===== verification/Ring_Header.thy ===== *)
theory Ring_Header
  imports Ring_Slots
begin

text \<open>
  The header of a mapping: what a freshly initialized mapping holds, exactly which mappings the
  validation accepts, and the generation protocol (reset by the producer, adoption by the
  consumer) with the claims of the two endpoints, in closed form.
\<close>

section \<open>Validation\<close>

lemma header_check_Inr [try_iffs]:
  "header_check field p name rest = Inr y \<longleftrightarrow> (\<exists>v. field = Inr v \<and> p v \<and> rest = Inr y)"
  by (auto simp: header_check_def require_header_def try_iffs)

lemma header_check_Panic [try_iffs]:
  "header_check field p name rest = Inl Panic \<longleftrightarrow>
     field = Inl Panic \<or> (\<exists>v. field = Inr v \<and> p v \<and> rest = Inl Panic)"
  by (auto simp: header_check_def require_header_def try_iffs)

lemma length_MAGIC [simp]: "length MAGIC = 8"
  by (simp add: MAGIC_def)

text \<open>The mappings the validation accepts, as a predicate on what they hold.\<close>

definition header_valid :: "mapping \<Rightarrow> u64 \<Rightarrow> ring_descriptor \<Rightarrow> bool" where
  "header_valid m file_bytes d \<longleftrightarrow>
     slice m 0 8 = MAGIC \<and> half_at m 8 = ABI_VERSION \<and> half_at m 12 = MAPPING_HEADER_FIELD \<and>
     half_at m 24 = RING_SLOT_COUNT \<and> half_at m 28 = SLOT_HEADER_FIELD \<and>
     half_at m 32 = PIXEL_FORMAT_RGBA8 \<and> half_at m 36 = ORIGIN_TOP_LEFT \<and>
     word_at m 16 = rd_generation d \<and> rd_generation d \<noteq> 0 \<and> layout_ok (rd_layout d) \<and>
     half_at m 40 = rl_width (rd_layout d) \<and> half_at m 44 = rl_height (rd_layout d) \<and>
     half_at m 48 = rl_row_stride (rd_layout d) \<and>
     ucast (half_at m 52) = rl_payload_bytes (rd_layout d) \<and>
     word_at m 56 = rl_slot_stride (rd_layout d) \<and>
     word_at m 64 = rl_mapping_bytes (rd_layout d) \<and> file_bytes = rl_mapping_bytes (rd_layout d) \<and>
     list_all (\<lambda>byte. byte = 0) (slice m 104 4096) \<and> queue_depth_ok m \<and>
     word_at m 88 \<le> 1 \<and> word_at m 96 \<le> 1"

lemma load_depth_eq:
  "4096 \<le> mp_len m \<Longrightarrow> load_consistent_queue_depth m =
    (if queue_depth_ok m then Inr (produced_at m - consumed_at m)
     else ring_err (CorruptSequences (produced_at m) (consumed_at m)))"
  by (simp add: load_consistent_queue_depth_def load_consistent_sequences_eq)

lemma header_reads:
  assumes "4096 \<le> mp_len m"
  shows "a + 4 \<le> 4096 \<Longrightarrow> get_u32 m a = Inr (half_at m a)"
    and "a + 8 \<le> 4096 \<Longrightarrow> get_u64 m a = Inr (word_at m a)"
    and "a + 8 \<le> 4096 \<Longrightarrow> atomic_load m a = Inr (word_at m a)"
    and "a \<le> b \<Longrightarrow> b \<le> 4096 \<Longrightarrow> read_bytes m a b = Inr (slice m a b)"
  using assms by (simp_all add: get_u32_ok get_u64_ok atomic_load_ok read_bytes_def)

lemma validate_mapping_header_Inr:
  assumes "4096 \<le> mp_len m"
  shows "validate_mapping_header m file_bytes = Inr d \<longleftrightarrow> header_valid m file_bytes d"
proof -
  note r = header_reads [OF assms]
  have dep: "(\<exists>x. load_consistent_queue_depth m = Inr x) \<longleftrightarrow> queue_depth_ok m"
    by (simp add: load_depth_eq [OF assms])
  show ?thesis
    unfolding validate_mapping_header_def header_offsets MAPPING_HEADER_LEN_def
    by (simp add: r try_iffs require_header_def dep header_valid_def)
      (cases d, auto)
qed

lemma layout_new_no_panic: "layout_new width height \<noteq> Inl Panic"
  by (auto simp: layout_new_def try_iffs split: if_splits)

lemma validate_mapping_header_no_panic:
  assumes "4096 \<le> mp_len m"
  shows "validate_mapping_header m file_bytes \<noteq> Inl Panic"
proof -
  note r = header_reads [OF assms]
  show ?thesis
    unfolding validate_mapping_header_def header_offsets MAPPING_HEADER_LEN_def
    by (simp add: r try_iffs require_header_def load_depth_eq [OF assms] layout_new_no_panic)
qed

lemma header_valid_mapped:
  "header_valid m file_bytes d \<Longrightarrow> mp_len m = unat file_bytes \<Longrightarrow> ring_mapped m d"
  by (simp add: header_valid_def ring_mapped_def)

section \<open>Initialization\<close>

definition header_writes :: "ring_descriptor \<Rightarrow> u32 \<Rightarrow> store_op list" where
  "header_writes d payload_field =
     [(0, MAGIC), put_u32 8 ABI_VERSION, put_u32 12 MAPPING_HEADER_FIELD,
      put_u64 16 (rd_generation d), put_u32 24 RING_SLOT_COUNT, put_u32 28 SLOT_HEADER_FIELD,
      put_u32 32 PIXEL_FORMAT_RGBA8, put_u32 36 ORIGIN_TOP_LEFT, put_u32 40 (rl_width (rd_layout d)),
      put_u32 44 (rl_height (rd_layout d)), put_u32 48 (rl_row_stride (rd_layout d)),
      put_u32 52 payload_field, put_u64 56 (rl_slot_stride (rd_layout d)),
      put_u64 64 (rl_mapping_bytes (rd_layout d))]"

definition initialized :: "mapping \<Rightarrow> ring_descriptor \<Rightarrow> u32 \<Rightarrow> mapping" where
  "initialized m d payload_field =
     perform_all (perform m (fill_zero 0 (mp_len m))) (header_writes d payload_field)"

lemma initialize_mapping_ok:
  assumes "ring_mapped m d" and "u32_try_from (rl_payload_bytes (rd_layout d)) = Some pf"
  shows "initialize_mapping m d = (Inr (), initialized m d pf)"
proof -
  have len: "mp_len m = unat (rl_mapping_bytes (rd_layout d))" "4096 \<le> mp_len m"
    using assms(1) ring_mappedD(2) by (auto simp: ring_mapped_def)
  have magic: "write_in m (0, MAGIC)"
    using len(2) by (simp add: write_in_def)
  show ?thesis
    using len(2)
    by (simp add: initialize_mapping_def mapping_len_def len(1) [symmetric] writing_ok write_in_simps
        write_mapping_header_def header_offsets magic assms(2) initialized_def header_writes_def)
qed

lemma covers_magic: "covers (0, MAGIC) = {0..<8}"
  by (simp add: covers_def)

lemma header_writes_covers: "\<Union> (set (map covers (header_writes d pf))) \<subseteq> {0..<72}"
  by (auto simp: header_writes_def covers_magic)

lemma initialized_zero:
  assumes "72 \<le> i" "i < mp_len m"
  shows "mp_byte (initialized m d pf) i = 0"
proof -
  have "i \<notin> \<Union> (set (map covers (header_writes d pf)))"
    using header_writes_covers [of d pf] assms(1) by fastforce
  then have "mp_byte (initialized m d pf) i = mp_byte (perform m (fill_zero 0 (mp_len m))) i"
    unfolding initialized_def by (rule perform_all_other)
  also have "\<dots> = 0"
    using assms(2) by (simp add: perform_in) (simp add: fill_zero_def)
  finally show ?thesis .
qed

lemma initialized_len [simp]: "mp_len (initialized m d pf) = mp_len m"
  by (simp add: initialized_def)

lemma initialized_zero_word:
  "72 \<le> a \<Longrightarrow> a + 8 \<le> mp_len m \<Longrightarrow> word_at (initialized m d pf) a = 0"
  by (intro word_at_zero) (auto intro: initialized_zero)

lemma initialized_fields:
  "slice (initialized m d pf) 0 8 = MAGIC"
  "half_at (initialized m d pf) 8 = ABI_VERSION"
  "half_at (initialized m d pf) 12 = MAPPING_HEADER_FIELD"
  "word_at (initialized m d pf) 16 = rd_generation d"
  "half_at (initialized m d pf) 24 = RING_SLOT_COUNT"
  "half_at (initialized m d pf) 28 = SLOT_HEADER_FIELD"
  "half_at (initialized m d pf) 32 = PIXEL_FORMAT_RGBA8"
  "half_at (initialized m d pf) 36 = ORIGIN_TOP_LEFT"
  "half_at (initialized m d pf) 40 = rl_width (rd_layout d)"
  "half_at (initialized m d pf) 44 = rl_height (rd_layout d)"
  "half_at (initialized m d pf) 48 = rl_row_stride (rd_layout d)"
  "half_at (initialized m d pf) 52 = pf"
  "word_at (initialized m d pf) 56 = rl_slot_stride (rd_layout d)"
  "word_at (initialized m d pf) 64 = rl_mapping_bytes (rd_layout d)"
proof -
  show "slice (initialized m d pf) 0 8 = MAGIC"
    unfolding initialized_def
    by (rule slice_written_last [of _ "[]"]) (auto simp: header_writes_def)
qed (simp_all add: initialized_def header_writes_def word_at_perform half_at_perform
    ivl_disjoint_nat covers_magic)

lemma initialized_valid:
  assumes "ring_mapped m d" and "rd_generation d \<noteq> 0"
    and "ucast pf = rl_payload_bytes (rd_layout d)"
  shows "header_valid (initialized m d pf) (rl_mapping_bytes (rd_layout d)) d"
proof -
  have len: "4096 \<le> mp_len m" and ok: "layout_ok (rd_layout d)"
    using ring_mappedD [OF assms(1)] by auto
  have "list_all (\<lambda>byte. byte = 0) (slice (initialized m d pf) 104 4096)"
    using len by (auto simp: list_all_iff slice_all_zero intro: initialized_zero)
  moreover have "queue_depth_ok (initialized m d pf)"
    using len by (simp add: queue_depth_ok_def header_offsets initialized_zero_word)
  ultimately show ?thesis
    using len ok assms(2,3) by (simp add: header_valid_def initialized_fields initialized_zero_word)
qed

lemma initialize_mapping_cases:
  assumes "layout_ok (rd_layout d)"
  obtains (wrong) "mp_len m \<noteq> unat (rl_mapping_bytes (rd_layout d))"
      "initialize_mapping m d = (ring_err (InvalidMappingLength (of_nat (mp_len m))), m)"
  | (ready) pf where "ring_mapped m d" "ucast pf = rl_payload_bytes (rd_layout d)"
      "initialize_mapping m d = (Inr (), initialized m d pf)"
proof (cases "mp_len m = unat (rl_mapping_bytes (rd_layout d))")
  case True
  then have map: "ring_mapped m d"
    using assms by (simp add: ring_mapped_def)
  obtain pf where pf: "u32_try_from (rl_payload_bytes (rd_layout d)) = Some pf"
      "ucast pf = rl_payload_bytes (rd_layout d)"
    using payload_field_ok [OF assms] by metis
  show thesis
    by (rule ready [OF map pf(2) initialize_mapping_ok [OF map pf(1)]])
next
  case False
  then show thesis
    by (intro wrong) (simp_all add: initialize_mapping_def mapping_len_def)
qed

section \<open>Generations\<close>

definition clear_writes :: "ring_layout \<Rightarrow> store_op list" where
  "clear_writes l = map (\<lambda>i. atomic_store (slot_at l i) 0) [0..<24]"

lemma slot_counter: "n < 24 \<Longrightarrow> unat (23 - of_nat n :: u64) = 23 - n"
proof -
  assume n: "n < 24"
  then have u: "unat (of_nat n :: u64) = n"
    by (intro unat_of_nat_fits) simp
  show ?thesis
    using n by (subst unat_sub_fits) (simp_all add: u)
qed

lemma upt_counter: "n < 24 \<Longrightarrow> [24 - Suc n..<24] = (23 - n) # [24 - n..<24]"
proof -
  assume "n < 24"
  then have "24 - n = Suc (23 - n)"
    by simp
  moreover have "[23 - n..<24] = (23 - n) # [Suc (23 - n)..<24]"
    by (rule upt_conv_Cons) simp
  ultimately show ?thesis
    by (simp only:) simp
qed

lemma clear_slots_ok:
  assumes "layout_ok l"
  shows "n \<le> 24 \<Longrightarrow> mp_len m = unat (rl_mapping_bytes l) \<Longrightarrow> clear_slots n l m =
    (Inr (), perform_all m (map (\<lambda>i. atomic_store (slot_at l i) 0) [24 - n..<24]))"
proof (induction n arbitrary: m)
  case 0
  then show ?case by simp
next
  case (Suc n)
  note g = layout_geometry [OF assms]
  have off: "slot_offset l (23 - of_nat n) = Inr (slot_at l (23 - n))"
    using slot_offset_ok [OF assms, of "23 - of_nat n"] slot_counter [of n] Suc.prems(1) by simp
  have "slot_at l (23 - n) + unat (rl_slot_stride l) \<le> unat (rl_mapping_bytes l)"
    by (rule slot_at_end [OF assms]) simp
  then have "slot_at l (23 - n) + 8 \<le> mp_len m"
    using g(7) Suc.prems(2) by simp
  moreover have "[24 - Suc n..<24] = (23 - n) # [24 - n..<24]"
    using Suc.prems(1) by (intro upt_counter) simp
  ultimately show ?case
    using Suc.IH [of "perform m (atomic_store (slot_at l (23 - n)) 0)"] Suc.prems
    by (simp add: RING_SLOT_COUNT_def off writing_ok write_in_simps slot_offsets)
qed

text \<open>A reset that is allowed, and the mapping it leaves.\<close>

definition reset_writes :: "ring_descriptor \<Rightarrow> u64 \<Rightarrow> store_op list" where
  "reset_writes d g = atomic_store 16 0 # clear_writes (rd_layout d) @
     [atomic_store 72 0, atomic_store 80 0, atomic_store 16 g]"

definition reset_to :: "mapping \<Rightarrow> ring_descriptor \<Rightarrow> u64 \<Rightarrow> mapping" where
  "reset_to m d g = perform_all m (reset_writes d g)"

lemma reset_mapping_generation_eq:
  assumes map: "ring_mapped m d"
  shows "reset_mapping_generation m d g =
    (if mapped_generation m \<noteq> rd_generation d
     then (ring_err (GenerationChanged (rd_generation d) (mapped_generation m)), m)
     else if g \<le> rd_generation d
     then (ring_err (GenerationNotIncreasing (rd_generation d) g), m)
     else (Inr (d\<lparr>rd_generation := g\<rparr>), reset_to m d g))"
proof -
  note ok = ring_mappedD(1) [OF map] and len = ring_mappedD(2) [OF map]
  have l: "mp_len m = unat (rl_mapping_bytes (rd_layout d))"
    using map by (simp add: ring_mapped_def)
  have "clear_slots 24 (rd_layout d) m' =
      (Inr (), perform_all m' (clear_writes (rd_layout d)))" if "mp_len m' = mp_len m" for m'
    using clear_slots_ok [OF ok, of 24 m'] that l by (simp add: clear_writes_def)
  then show ?thesis
    using len
    by (simp add: reset_mapping_generation_def ensure_generation_eq [OF len] writing_ok
        write_in_simps RING_SLOT_COUNT_def reset_to_def reset_writes_def header_offsets)
qed

lemma clear_writes_covers:
  assumes "layout_ok l"
  shows "\<Union> (set (map covers (clear_writes l))) \<subseteq> {4096..<unat (rl_mapping_bytes l)}"
proof -
  have "covers (atomic_store (slot_at l i) 0) \<subseteq> {4096..<unat (rl_mapping_bytes l)}" if "i < 24" for i
    using slot_at_end [OF assms that] layout_geometry(7) [OF assms] by (auto simp: slot_at_def)
  then show ?thesis
    by (simp add: clear_writes_def UN_subset_iff)
qed

lemma word_at_clear:
  assumes "layout_ok l" and "a + 8 \<le> 4096"
  shows "word_at (perform_all m (clear_writes l)) a = word_at m a"
proof (rule word_at_other)
  show "{a..<a + 8} \<inter> \<Union> (set (map covers (clear_writes l))) = {}"
    using clear_writes_covers [OF assms(1)] assms(2) by fastforce
qed

lemma reset_words:
  assumes ok: "layout_ok (rd_layout d)"
  shows "word_at (reset_to m d g) 16 = g" "word_at (reset_to m d g) 72 = 0"
    "word_at (reset_to m d g) 80 = 0" "mp_len (reset_to m d g) = mp_len m"
  by (simp_all add: reset_to_def reset_writes_def word_at_perform ivl_disjoint_nat)

lemma slot_at_apart:
  assumes "layout_ok l" and "i \<noteq> j"
  shows "slot_at l i + 8 \<le> slot_at l j \<or> slot_at l j + 8 \<le> slot_at l i"
  using slot_at_disjoint [OF assms(2), of l] layout_geometry(7) [OF assms(1)]
  by (auto simp: ivl_disjoint_nat)

lemma cleared_slot:
  assumes "layout_ok l" and "i < 24"
  shows "word_at (perform_all m (clear_writes l)) (slot_at l i) = 0"
proof -
  have "[0..<24] = [0..<i] @ i # [Suc i..<24]"
    using assms(2) upt_split [of 0 i 24] by (simp add: upt_conv_Cons)
  then have split: "clear_writes l = map (\<lambda>i. atomic_store (slot_at l i) 0) [0..<i] @
      atomic_store (slot_at l i) 0 # map (\<lambda>i. atomic_store (slot_at l i) 0) [Suc i..<24]"
    by (simp only: clear_writes_def map_append list.map)
  have "{slot_at l i..<slot_at l i + 8} \<inter> {slot_at l j..<slot_at l j + 8} = {}"
    if "j \<in> {Suc i..<24}" for j
    using slot_at_apart [OF assms(1), of i j] that by (auto simp: ivl_disjoint_nat)
  then have "{slot_at l i..<slot_at l i + 8} \<inter>
      \<Union> (set (map covers (map (\<lambda>i. atomic_store (slot_at l i) 0) [Suc i..<24]))) = {}"
    by (simp add: UN_extend_simps Int_UN_distrib del: ivl_disj_int)
  then show ?thesis
    unfolding split perform_all_simps by (subst word_at_other) (simp_all add: word_at_perform)
qed

lemma reset_slot:
  assumes ok: "layout_ok (rd_layout d)" and "i < 24"
  shows "word_at (reset_to m d g) (slot_at (rd_layout d) i) = 0"
  using cleared_slot [OF assms] slot_at_def
  by (simp add: reset_to_def reset_writes_def word_at_perform ivl_disjoint_nat slot_at_def)

lemma check_slots_clear_ok:
  assumes "layout_ok l" and "mp_len m = unat (rl_mapping_bytes l)"
  shows "n \<le> 24 \<Longrightarrow> check_slots_clear n l m =
    (case find (\<lambda>i. word_at m (slot_at l i) \<noteq> 0) [24 - n..<24] of
       None \<Rightarrow> Inr () | Some i \<Rightarrow> ring_err (CorruptSlot (of_nat i + 1)))"
proof (induction n)
  case 0
  then show ?case by simp
next
  case (Suc n)
  note g = layout_geometry [OF assms(1)]
  have off: "slot_offset l (23 - of_nat n) = Inr (slot_at l (23 - n))"
    using slot_offset_ok [OF assms(1), of "23 - of_nat n"] slot_counter [of n] Suc.prems(1) by simp
  have "slot_at l (23 - n) + unat (rl_slot_stride l) \<le> unat (rl_mapping_bytes l)"
    by (rule slot_at_end [OF assms(1)]) simp
  then have "slot_at l (23 - n) + 8 \<le> mp_len m"
    using g(7) assms(2) by simp
  moreover have "[24 - Suc n..<24] = (23 - n) # [24 - n..<24]"
    using Suc.prems(1) by (intro upt_counter) simp
  moreover have "(23 :: u64) - x + 1 = 24 - x" for x
    by simp
  ultimately show ?case
    using Suc by (simp add: RING_SLOT_COUNT_def Let_def off atomic_load_ok slot_offsets)
qed

definition slots_clear :: "mapping \<Rightarrow> ring_layout \<Rightarrow> bool" where
  "slots_clear m l \<longleftrightarrow> list_all (\<lambda>i. word_at m (slot_at l i) = 0) [0..<24]"

lemma adopt_mapping_generation_Inr:
  assumes map: "ring_mapped m d"
  shows "adopt_mapping_generation m d g = Inr d' \<longleftrightarrow>
    rd_generation d < g \<and> mapped_generation m = g \<and> produced_at m = 0 \<and> consumed_at m = 0 \<and>
    slots_clear m (rd_layout d) \<and> d' = d\<lparr>rd_generation := g\<rparr>"
proof -
  note ok = ring_mappedD(1) [OF map] and len = ring_mappedD(2) [OF map]
  have l: "mp_len m = unat (rl_mapping_bytes (rd_layout d))"
    using map by (simp add: ring_mapped_def)
  have "find (\<lambda>i. word_at m (slot_at (rd_layout d) i) \<noteq> 0) [0..<24] = None \<longleftrightarrow>
      slots_clear m (rd_layout d)"
    by (auto simp: slots_clear_def list_all_iff find_None_iff)
  then have "check_slots_clear 24 (rd_layout d) m = Inr () \<longleftrightarrow> slots_clear m (rd_layout d)"
    using check_slots_clear_ok [OF ok l, of 24] by (auto split: option.splits)
  then show ?thesis
    using len
    by (auto simp: adopt_mapping_generation_def try_iffs atomic_load_ok header_offsets not_le
        load_consistent_sequences_eq queue_depth_ok_def RING_SLOT_COUNT_def split: if_splits)
qed

text \<open>The rest of the header survives a reset, so the mapping validates for the new generation.\<close>

lemma reset_writes_covers:
  assumes "layout_ok (rd_layout d)"
  shows "\<Union> (set (map covers (reset_writes d g))) \<subseteq>
    {16..<24} \<union> {72..<88} \<union> {4096..<unat (rl_mapping_bytes (rd_layout d))}"
  using clear_writes_covers [OF assms] by (auto simp: reset_writes_def)

lemma reset_keeps:
  assumes "layout_ok (rd_layout d)" and "b \<le> 16 \<or> 24 \<le> a \<and> b \<le> 72 \<or> 88 \<le> a \<and> b \<le> 4096"
  shows "slice (reset_to m d g) a b = slice m a b"
  unfolding reset_to_def
proof (rule slice_perform_all_other)
  show "{a..<b} \<inter> \<Union> (set (map covers (reset_writes d g))) = {}"
    using reset_writes_covers [OF assms(1), of g] assms(2) by fastforce
qed

lemma reset_valid:
  assumes "header_valid m file_bytes d" and "rd_generation d < g"
  shows "header_valid (reset_to m d g) file_bytes (d\<lparr>rd_generation := g\<rparr>)"
proof -
  have ok: "layout_ok (rd_layout d)"
    using assms(1) by (simp add: header_valid_def)
  have "half_at (reset_to m d g) a = half_at m a" if "a + 4 \<le> 16 \<or> 24 \<le> a \<and> a + 4 \<le> 72" for a
    using that reset_keeps [OF ok, of "a + 4" a m g] by (auto simp: half_at_def)
  moreover have "word_at (reset_to m d g) a = word_at m a"
    if "24 \<le> a \<and> a + 8 \<le> 72 \<or> 88 \<le> a \<and> a + 8 \<le> 4096" for a
    using that reset_keeps [OF ok, of "a + 8" a m g] by (auto simp: word_at_def)
  moreover have "g \<noteq> 0"
    using assms(2) by auto
  ultimately show ?thesis
    using assms(1) reset_words [OF ok, of m g] ok
    by (simp add: header_valid_def reset_keeps queue_depth_ok_def header_offsets)
qed

section \<open>Claims\<close>

lemma claim_producer_eq:
  "4096 \<le> mp_len m \<Longrightarrow> claim_producer m =
    (if word_at m 96 = 0 then (Inr (), perform m (atomic_store 96 1))
     else (ring_err ProducerAlreadyClaimed, m))"
  by (simp add: claim_producer_def atomic_load_ok header_offsets writing_ok write_in_simps)

lemma claim_consumer_eq:
  "4096 \<le> mp_len m \<Longrightarrow> claim_consumer m =
    (if word_at m 88 = 0 then (Inr (), perform m (atomic_store 88 1))
     else (ring_err ConsumerAlreadyClaimed, m))"
  by (simp add: claim_consumer_def atomic_load_ok header_offsets writing_ok write_in_simps)

lemma release_eq:
  assumes "4096 \<le> mp_len m"
  shows "release_producer m = (Inr (), perform m (atomic_store 96 0))"
    and "release_consumer m = (Inr (), perform m (atomic_store 88 0))"
  using assms
  by (simp_all add: release_producer_def release_consumer_def header_offsets writing_ok write_in_simps)

section \<open>Properties\<close>

lemma descriptor_new_Inr [try_iffs]:
  "descriptor_new width height g = Inr d \<longleftrightarrow>
     g \<noteq> 0 \<and> rd_generation d = g \<and> layout_ok (rd_layout d) \<and>
     rl_width (rd_layout d) = width \<and> rl_height (rd_layout d) = height"
  by (cases d) (auto simp: descriptor_new_def try_iffs)

lemma pixel_descriptor_simps [simp]:
  "rd_layout (pixel_descriptor g) = pixel_layout" "rd_generation (pixel_descriptor g) = g"
  by (simp_all add: pixel_descriptor_def)

lemma pixel_descriptor_new: "g \<noteq> 0 \<Longrightarrow> descriptor_new 1 1 g = Inr (pixel_descriptor g)"
  by (simp add: descriptor_new_Inr pixel_layout_ok) (simp add: pixel_layout_def)

definition blank_pixel_mapping :: mapping where
  "blank_pixel_mapping = \<lparr>mp_len = 102400, mp_byte = (\<lambda>_. 0)\<rparr>"

lemma pixel_descriptor_next [simp]:
  "pixel_descriptor g\<lparr>rd_generation := g'\<rparr> = pixel_descriptor g'"
  by (simp add: pixel_descriptor_def)

lemma blank_pixel_len [simp]: "mp_len blank_pixel_mapping = 102400"
  by (simp add: blank_pixel_mapping_def)

lemma blank_pixel_mapped: "ring_mapped blank_pixel_mapping (pixel_descriptor g)"
  by (simp add: ring_mapped_def pixel_layout_ok) (simp add: pixel_layout_def blank_pixel_mapping_def)

text \<open>Whatever a buffer held before, initializing it for a checked descriptor succeeds exactly when
  it has the length of the layout, and the consumer that then validates the header reads back the
  producer's descriptor: same dimensions, layout and generation. The queue starts empty and both
  endpoints unclaimed; a buffer of another length is refused and left untouched.
\<close>
theorem mapping_header_roundtrip:
  assumes "descriptor_new width height generation = Inr d"
  shows "case initialize_mapping m d of
      (Inr u, m') \<Rightarrow>
        mp_len m = unat (rl_mapping_bytes (rd_layout d)) \<and> mp_len m' = mp_len m \<and>
        validate_mapping_header m' (rl_mapping_bytes (rd_layout d)) = Inr d \<and>
        mapping_state m' d = Inr \<lparr>rs_producer_sequence = 0, rs_consumer_sequence = 0,
          rs_occupancy = 0, rs_available_capacity = RING_SLOT_COUNT\<rparr> \<and>
        fst (claim_producer m') = Inr () \<and> fst (claim_consumer m') = Inr ()
    | (Inl e, m') \<Rightarrow>
        mp_len m \<noteq> unat (rl_mapping_bytes (rd_layout d)) \<and>
        e = RingFail (InvalidMappingLength (of_nat (mp_len m))) \<and> m' = m"
proof -
  have ok: "layout_ok (rd_layout d)" and g: "rd_generation d \<noteq> 0"
    using assms by (auto simp: descriptor_new_Inr)
  show ?thesis
  proof (rule initialize_mapping_cases [OF ok, of m])
    assume "mp_len m \<noteq> unat (rl_mapping_bytes (rd_layout d))"
      "initialize_mapping m d = (ring_err (InvalidMappingLength (of_nat (mp_len m))), m)"
    then show ?thesis
      by simp
  next
    fix pf
    assume map: "ring_mapped m d" and pf: "ucast pf = rl_payload_bytes (rd_layout d)"
      and run: "initialize_mapping m d = (Inr (), initialized m d pf)"
    have len: "4096 \<le> mp_len m"
      by (rule ring_mappedD(2) [OF map])
    then have "word_at (initialized m d pf) a = 0" if "72 \<le> a" "a \<le> 96" for a
      using that by (intro initialized_zero_word) simp_all
    then show ?thesis
      using map len initialized_valid [OF map g pf]
      by (simp add: run ring_mapped_def validate_mapping_header_Inr mapping_state_eq header_offsets
          queue_depth_ok_def occupancy_of_def claim_producer_eq claim_consumer_eq
          initialized_fields RING_SLOT_COUNT_def)
  qed
qed

theorem mapping_header_roundtrip_witness:
  "case initialize_mapping blank_pixel_mapping (pixel_descriptor 5) of
      (Inr u, m') \<Rightarrow> validate_mapping_header m' 102400 = Inr (pixel_descriptor 5)
    | (Inl e, m') \<Rightarrow> False"
  using mapping_header_roundtrip [OF pixel_descriptor_new [of 5], of blank_pixel_mapping]
  by (simp add: pixel_layout_def blank_pixel_mapping_def split: prod.splits sum.splits)


lemma pixel_initialized_valid:
  "g \<noteq> 0 \<Longrightarrow> validate_mapping_header (initialized blank_pixel_mapping (pixel_descriptor g) 256) 102400 =
    Inr (pixel_descriptor g)"
  using initialized_valid [OF blank_pixel_mapped, of g 256]
  by (subst validate_mapping_header_Inr) (simp_all add: pixel_layout_def blank_pixel_mapping_def)


text \<open>An endpoint with a descriptor of another generation changes nothing.\<close>

lemma stale_endpoint_refused:
  assumes map: "ring_mapped m d" and "mapped_generation m \<noteq> rd_generation d"
  shows "write_mapping_frame m d tight_rgba timestamp_ns =
      (ring_err (GenerationChanged (rd_generation d) (mapped_generation m)), m)"
    and "read_mapping_frame m d =
      (ring_err (GenerationChanged (rd_generation d) (mapped_generation m)), m)"
    and "mapping_state m d = ring_err (GenerationChanged (rd_generation d) (mapped_generation m))"
proof -
  have busy: "writable m d tight_rgba =
      Some (ring_err (GenerationChanged (rd_generation d) (mapped_generation m)))"
    using assms(2) by (simp add: writable_def)
  show "write_mapping_frame m d tight_rgba timestamp_ns =
      (ring_err (GenerationChanged (rd_generation d) (mapped_generation m)), m)"
    by (rule write_mapping_frame_cases [OF map, of tight_rgba timestamp_ns]) (use busy in auto)
  show "read_mapping_frame m d =
      (ring_err (GenerationChanged (rd_generation d) (mapped_generation m)), m)"
    using assms(2) by (simp add: read_mapping_frame_eq [OF map] readable_def Let_def)
  show "mapping_state m d = ring_err (GenerationChanged (rd_generation d) (mapped_generation m))"
    using assms(2) by (simp add: mapping_state_eq [OF ring_mappedD(2) [OF map]])
qed

text \<open>The generation protocol hands a ring over without mixing streams. On a validated mapping the
  producer's reset succeeds exactly for a newer generation; the mapping then validates for the
  new descriptor and is empty, an endpoint that still holds the old descriptor can neither
  publish, receive nor look at the state (it is told the generation changed, and changes
  nothing), and the consumer's adoption of the new generation succeeds with the same descriptor.
  A reset that is refused leaves the mapping as it was.
\<close>
theorem generation_handover:
  assumes "validate_mapping_header m file_bytes = Inr d" and "mp_len m = unat file_bytes"
    and "4096 \<le> mp_len m"
  shows "case reset_mapping_generation m d g of
      (Inr d', m') \<Rightarrow>
        rd_generation d < g \<and> d' = d\<lparr>rd_generation := g\<rparr> \<and>
        validate_mapping_header m' file_bytes = Inr d' \<and>
        mapping_state m' d' = Inr \<lparr>rs_producer_sequence = 0, rs_consumer_sequence = 0,
          rs_occupancy = 0, rs_available_capacity = RING_SLOT_COUNT\<rparr> \<and>
        write_mapping_frame m' d tight_rgba timestamp_ns =
          (ring_err (GenerationChanged (rd_generation d) g), m') \<and>
        read_mapping_frame m' d = (ring_err (GenerationChanged (rd_generation d) g), m') \<and>
        mapping_state m' d = ring_err (GenerationChanged (rd_generation d) g) \<and>
        adopt_mapping_generation m' d g = Inr d'
    | (Inl e, m') \<Rightarrow>
        g \<le> rd_generation d \<and> e = RingFail (GenerationNotIncreasing (rd_generation d) g) \<and> m' = m"
proof -
  have valid: "header_valid m file_bytes d"
    using assms by (simp add: validate_mapping_header_Inr)
  have map: "ring_mapped m d"
    by (rule header_valid_mapped [OF valid assms(2)])
  note ok = ring_mappedD(1) [OF map]
  have gen: "mapped_generation m = rd_generation d"
    using valid by (simp add: header_valid_def header_offsets)
  show ?thesis
  proof (cases "rd_generation d < g")
    case False
    then show ?thesis
      by (simp add: reset_mapping_generation_eq [OF map] gen)
  next
    case True
    let ?m = "reset_to m d g"
    have map': "ring_mapped ?m d"
      using map reset_words [OF ok, of m g] by (simp add: ring_mapped_def)
    have len': "4096 \<le> mp_len ?m"
      by (rule ring_mappedD(2) [OF map'])
    have gen': "mapped_generation ?m = g" "produced_at ?m = 0" "consumed_at ?m = 0"
      using reset_words [OF ok, of m g] by (simp_all add: header_offsets)
    have new: "g \<noteq> rd_generation d"
      using True by simp
    have "slots_clear ?m (rd_layout d)"
      using reset_slot [OF ok] by (simp add: slots_clear_def list_all_iff)
    moreover have "reset_mapping_generation m d g = (Inr (d\<lparr>rd_generation := g\<rparr>), ?m)"
      using True gen by (simp add: reset_mapping_generation_eq [OF map])
    ultimately show ?thesis
      using True gen' len' new reset_valid [OF valid True] stale_endpoint_refused [OF map']
      by (simp add: validate_mapping_header_Inr adopt_mapping_generation_Inr [OF map']
          mapping_state_eq queue_depth_ok_def occupancy_of_def RING_SLOT_COUNT_def)
  qed
qed

theorem generation_handover_witness:
  "fst (reset_mapping_generation (initialized blank_pixel_mapping (pixel_descriptor 5) 256)
     (pixel_descriptor 5) 6) = Inr (pixel_descriptor 6) \<and>
   fst (reset_mapping_generation (initialized blank_pixel_mapping (pixel_descriptor 5) 256)
     (pixel_descriptor 5) 5) \<noteq> Inr (pixel_descriptor 5)"
  using generation_handover [OF pixel_initialized_valid [of 5], of 6 "[]" 0]
    generation_handover [OF pixel_initialized_valid [of 5], of 5 "[]" 0]
  by (simp split: prod.splits sum.splits)

lemma clear_writes_pos:
  assumes "layout_ok l"
  shows "list_all (write_in m) (clear_writes l) \<longleftrightarrow> (\<forall>i<24. slot_at l i + 8 \<le> mp_len m)"
  by (auto simp: clear_writes_def list_all_iff write_in_simps)

lemma reset_writes_in:
  assumes "ring_mapped m d"
  shows "list_all (write_in m) (reset_writes d g)"
proof -
  note ok = ring_mappedD(1) [OF assms]
  have "slot_at (rd_layout d) i + 8 \<le> mp_len m" if "i < 24" for i
    using ring_mappedD(3) [OF assms that] layout_geometry(7) [OF ok] by simp
  then show ?thesis
    using ring_mappedD(2) [OF assms] clear_writes_pos [OF ok]
    by (simp add: reset_writes_def write_in_simps)
qed

lemma reset_prefix_generation:
  assumes ok: "layout_ok (rd_layout d)" and "0 < n" and "n < length (reset_writes d g)"
  shows "mapped_generation (perform_all m (take n (reset_writes d g))) = 0"
proof -
  define front where "front = clear_writes (rd_layout d) @ [atomic_store 72 0, atomic_store 80 0]"
  have split: "reset_writes d g = atomic_store 16 0 # front @ [atomic_store 16 g]"
    by (simp add: reset_writes_def front_def)
  obtain k where n: "n = Suc k" and k: "k \<le> length front"
    using assms(2,3) by (cases n) (auto simp: split)
  have "\<Union> (set (map covers front)) \<subseteq> {24..<unat (rl_mapping_bytes (rd_layout d))}"
    using clear_writes_covers [OF ok] layout_geometry(8) [OF ok] by (auto simp: front_def)
  then have "{16..<24} \<inter> \<Union> (set (map covers (take k front))) = {}"
    using set_take_subset [of k front] by fastforce
  moreover have "perform_all m (take n (reset_writes d g)) =
      perform_all (perform m (atomic_store 16 0)) (take k front)"
    using n k by (simp add: split)
  ultimately show ?thesis
    using word_at_other [of 16 "take k front"] by (simp add: word_at_perform header_offsets)
qed

text \<open>A reset is never seen half done. The mapping it leaves is the result of 28 writes in order, and
  after each of them but the last the mapped generation is zero: an endpoint that looks at the
  mapping in between can neither read nor adopt it, whatever the counters and slots hold then.
\<close>
theorem reset_hidden_until_done:
  assumes "validate_mapping_header m file_bytes = Inr d" and "mp_len m = unat file_bytes"
    and "4096 \<le> mp_len m" and "rd_generation d < g" and "0 < n" and "n < length (reset_writes d g)"
  shows "snd (reset_mapping_generation m d g) = snd (apply_writes m (reset_writes d g)) \<and>
    length (reset_writes d g) = 28 \<and>
    (case apply_writes m (take n (reset_writes d g)) of
      (r, m') \<Rightarrow> r = Inr () \<and>
        read_mapping_frame m' d = (ring_err (GenerationChanged (rd_generation d) 0), m') \<and>
        adopt_mapping_generation m' d g = ring_err (GenerationMismatch g 0))"
proof -
  have valid: "header_valid m file_bytes d"
    using assms by (simp add: validate_mapping_header_Inr)
  have map: "ring_mapped m d"
    by (rule header_valid_mapped [OF valid assms(2)])
  note ok = ring_mappedD(1) [OF map]
  have gen: "mapped_generation m = rd_generation d" "rd_generation d \<noteq> 0"
    using valid by (simp_all add: header_valid_def header_offsets)
  have all: "list_all (write_in m) (reset_writes d g)"
    by (rule reset_writes_in [OF map])
  have len: "length (reset_writes d g) = 28"
    by (simp add: reset_writes_def clear_writes_def)
  let ?m = "perform_all m (take n (reset_writes d g))"
  have zero: "mapped_generation ?m = 0"
    by (rule reset_prefix_generation [OF ok assms(5,6)])
  have map': "ring_mapped ?m d"
    using map by (simp add: ring_mapped_def)
  have run: "apply_writes m (take n (reset_writes d g)) = (Inr (), ?m)"
    using all by (intro apply_writes_ok) (auto simp: list_all_iff dest: in_set_takeD)
  have "read_mapping_frame ?m d = (ring_err (GenerationChanged (rd_generation d) 0), ?m)"
    using stale_endpoint_refused(2) [OF map'] zero gen(2) by simp
  moreover have "g \<noteq> 0"
    using assms(4) by auto
  then have "adopt_mapping_generation ?m d g = ring_err (GenerationMismatch g 0)"
    using zero assms(4) ring_mappedD(2) [OF map']
    by (simp add: adopt_mapping_generation_def atomic_load_ok header_offsets)
  moreover have "snd (reset_mapping_generation m d g) = snd (apply_writes m (reset_writes d g))"
    using assms(4) gen(1)
    by (simp add: reset_mapping_generation_eq [OF map] apply_writes_ok [OF all] reset_to_def)
  ultimately show ?thesis
    by (simp add: run len)
qed

theorem reset_hidden_until_done_witness:
  "case apply_writes (initialized blank_pixel_mapping (pixel_descriptor 5) 256)
      (take 27 (reset_writes (pixel_descriptor 5) 6)) of
    (r, m') \<Rightarrow> adopt_mapping_generation m' (pixel_descriptor 5) 6 = ring_err (GenerationMismatch 6 0)"
proof -
  have "27 < length (reset_writes (pixel_descriptor 5) 6)"
    by (simp add: reset_writes_def clear_writes_def)
  from reset_hidden_until_done [OF pixel_initialized_valid [of 5] _ _ _ _ this]
  show ?thesis
    by (simp add: blank_pixel_mapping_def split_beta)
qed

end
