(* ===== verification/Bounded_Queue.thy ===== *)
theory Bounded_Queue
  imports LD_Prelude
begin

text \<open>
  The contract of a bounded queue whose operations never block: an item is stored under the
  next sequence number, refused with the answer \<open>full\<close> when the queue holds \<open>cap\<close> items, and
  taken in the order of storing. The locale states what an implementation promises about one
  operation; its lemmas follow for sequences of operations.
\<close>

section \<open>The abstract queue\<close>

datatype 'a queue_op = Put 'a | Take

text \<open>
  The abstract state is the number of items taken so far and the items waiting. The answers
  are the implementation's: \<open>stored n x\<close> and \<open>taken n x\<close> for the item with number \<open>n\<close>.
\<close>

fun queue_step ::
  "nat \<Rightarrow> (nat \<Rightarrow> 'a \<Rightarrow> 'r) \<Rightarrow> 'r \<Rightarrow> (nat \<Rightarrow> 'a \<Rightarrow> 'r) \<Rightarrow> 'r \<Rightarrow>
   nat \<times> 'a list \<Rightarrow> 'a queue_op \<Rightarrow> 'r \<times> (nat \<times> 'a list)" where
  "queue_step cap stored full taken vacant (k, q) (Put x) =
     (if length q = cap then (full, (k, q)) else (stored (k + length q + 1) x, (k, q @ [x])))"
| "queue_step cap stored full taken vacant (k, []) Take = (vacant, (k, []))"
| "queue_step cap stored full taken vacant (k, x # q) Take = (taken (k + 1) x, (k + 1, q))"

lemma queue_step_total:
  "fst (snd (queue_step cap stored full taken vacant (k, q) op)) +
     length (snd (snd (queue_step cap stored full taken vacant (k, q) op))) \<le> k + length q + 1"
  by (cases "(cap, stored, full, taken, vacant, (k, q), op)" rule: queue_step.cases) auto

fun op_fits :: "('a \<Rightarrow> bool) \<Rightarrow> 'a queue_op \<Rightarrow> bool" where
  "op_fits fits (Put x) = fits x"
| "op_fits fits Take = True"

section \<open>The contract\<close>

locale bounded_queue =
  fixes step :: "'s \<Rightarrow> 'a queue_op \<Rightarrow> 'r \<times> 's"
    and holds :: "'s \<Rightarrow> nat \<Rightarrow> 'a list \<Rightarrow> bool"
    and fits :: "'a \<Rightarrow> bool"
    and cap limit :: nat
    and stored :: "nat \<Rightarrow> 'a \<Rightarrow> 'r" and full :: 'r
    and taken :: "nat \<Rightarrow> 'a \<Rightarrow> 'r" and vacant :: 'r
  assumes put_room: "holds s k q \<Longrightarrow> fits x \<Longrightarrow> length q < cap \<Longrightarrow> k + length q + 1 < limit \<Longrightarrow>
      \<exists>s'. step s (Put x) = (stored (k + length q + 1) x, s') \<and> holds s' k (q @ [x])"
    and put_full: "holds s k q \<Longrightarrow> fits x \<Longrightarrow> length q = cap \<Longrightarrow> step s (Put x) = (full, s)"
    and take_some: "holds s k (y # q) \<Longrightarrow>
      \<exists>s'. step s Take = (taken (k + 1) y, s') \<and> holds s' (k + 1) q"
    and take_none: "holds s k [] \<Longrightarrow> step s Take = (vacant, s)"
    and holds_cap: "holds s k q \<Longrightarrow> length q \<le> cap"
begin

abbreviation spec where
  "spec \<equiv> queue_step cap stored full taken vacant"

lemma queue_step_refines:
  assumes "holds s k q" and "op_fits fits op" and "k + length q + 1 < limit"
  shows "\<exists>s'. step s op = (fst (spec (k, q) op), s') \<and>
    holds s' (fst (snd (spec (k, q) op))) (snd (snd (spec (k, q) op)))"
proof (cases op)
  case (Put x)
  then show ?thesis
    using assms put_room [of s k q x] put_full [of s k q x] holds_cap [OF assms(1)]
    by (cases "length q = cap") auto
next
  case Take
  then show ?thesis
    using assms(1) take_none [of s k] take_some [of s k "hd q" "tl q"] by (cases q) auto
qed

lemma queue_run_refines:
  "holds s k q \<Longrightarrow> list_all (op_fits fits) ops \<Longrightarrow> k + length q + length ops < limit \<Longrightarrow>
   fst (run_ops step s ops) = fst (run_ops spec (k, q) ops) \<and>
   holds (snd (run_ops step s ops)) (fst (snd (run_ops spec (k, q) ops)))
     (snd (snd (run_ops spec (k, q) ops)))"
proof (induction ops arbitrary: s k q)
  case Nil
  then show ?case by simp
next
  case (Cons op ops)
  obtain r k' q' where sp: "spec (k, q) op = (r, (k', q'))"
    by (metis prod.collapse)
  obtain s' where st: "step s op = (r, s')" and h: "holds s' k' q'"
    using queue_step_refines [OF Cons.prems(1), of op] Cons.prems(2,3) sp by auto
  have "k' + length q' + length ops < limit"
    using queue_step_total [of cap stored full taken vacant k q op] Cons.prems(3) sp by simp
  then show ?case
    using Cons.IH [OF h] Cons.prems(2) sp st by (simp add: Let_def split_beta)
qed

end

section \<open>What a client sees\<close>

text \<open>The items an observer of the answers knows to be stored, and the ones it has taken.\<close>

definition stored_items :: "('r \<Rightarrow> bool) \<Rightarrow> 'a queue_op list \<Rightarrow> 'r list \<Rightarrow> 'a list" where
  "stored_items wrote ops rs =
     concat (map (\<lambda>(op, r). case op of Put x \<Rightarrow> if wrote r then [x] else [] | Take \<Rightarrow> [])
       (zip ops rs))"

definition taken_items :: "('r \<Rightarrow> 'b option) \<Rightarrow> 'r list \<Rightarrow> 'b list" where
  "taken_items got rs = List.map_filter got rs"

lemma observed_simps [simp]:
  "stored_items wrote [] rs = []"
  "stored_items wrote (Put x # ops) (r # rs) =
     (if wrote r then x # stored_items wrote ops rs else stored_items wrote ops rs)"
  "stored_items wrote (Take # ops) (r # rs) = stored_items wrote ops rs"
  "taken_items got [] = []"
  "taken_items got (r # rs) = (case got r of None \<Rightarrow> taken_items got rs
     | Some y \<Rightarrow> y # taken_items got rs)"
  by (simp_all add: stored_items_def taken_items_def List.map_filter_simps split: option.split)

text \<open>The items of a list with consecutive numbers.\<close>

primrec numbered :: "(nat \<Rightarrow> 'a \<Rightarrow> 'b) \<Rightarrow> nat \<Rightarrow> 'a list \<Rightarrow> 'b list" where
  "numbered view n [] = []"
| "numbered view n (x # xs) = view n x # numbered view (n + 1) xs"

lemma length_numbered [simp]: "length (numbered view n xs) = length xs"
  by (induction xs arbitrary: n) simp_all

locale observed_queue = bounded_queue +
  fixes wrote :: "'c \<Rightarrow> bool" and got :: "'c \<Rightarrow> 'd option" and view :: "nat \<Rightarrow> 'b \<Rightarrow> 'd"
  assumes wrote_stored: "wrote (stored n x)" and wrote_full: "\<not> wrote full"
    and got_taken: "got (taken n x) = Some (view n x)"
    and got_other: "got (stored n x) = None" "got full = None" "got vacant = None"
begin

lemma queue_spec_flow:
  "\<exists>rest. length rest = length (snd (snd (run_ops spec (k, q) ops))) \<and>
     numbered view (k + 1) (q @ stored_items wrote ops (fst (run_ops spec (k, q) ops))) =
     taken_items got (fst (run_ops spec (k, q) ops)) @ rest"
proof (induction ops arbitrary: k q)
  case Nil
  then show ?case by (intro exI [of _ "numbered view (k + 1) q"]) simp
next
  case (Cons op ops)
  show ?case
  proof (cases op)
    case (Put x)
    show ?thesis
    proof (cases "length q = cap")
      case True
      then show ?thesis
        using Cons.IH [of k q] wrote_full got_other Put by (simp add: Let_def split_beta)
    next
      case False
      then show ?thesis
        using Cons.IH [of k "q @ [x]"] wrote_stored got_other Put by (simp add: Let_def split_beta)
    qed
  next
    case Take
    show ?thesis
    proof (cases q)
      case Nil
      then show ?thesis
        using Cons.IH [of k "[]"] got_other Take by (simp add: Let_def split_beta)
    next
      case (Cons y q')
      then show ?thesis
        using Cons.IH [of "k + 1" q'] got_taken Take
        by (simp add: Let_def split_beta)
    qed
  qed
qed

text \<open>What was taken is what was stored, in its order and numbered from one, up to the at most
  \<open>cap\<close> items that still wait.\<close>

lemma queue_run_fifo:
  assumes "holds s 0 []" and "list_all (op_fits fits) ops" and "length ops < limit"
  shows "\<exists>rest. length rest \<le> cap \<and>
    numbered view 1 (stored_items wrote ops (fst (run_ops step s ops))) =
    taken_items got (fst (run_ops step s ops)) @ rest"
proof -
  have r: "fst (run_ops step s ops) = fst (run_ops spec (0, []) ops)"
    "holds (snd (run_ops step s ops)) (fst (snd (run_ops spec (0, []) ops)))
      (snd (snd (run_ops spec (0, []) ops)))"
    using queue_run_refines [OF assms(1,2)] assms(3) by auto
  show ?thesis
    using queue_spec_flow [of 0 "[]" ops] holds_cap [OF r(2)] unfolding r(1) by auto
qed

end

end
