(* ===== verification/Ring_Queue.thy ===== *)
theory Ring_Queue
  imports Ring_Header Bounded_Queue
begin

text \<open>
  The ring as a bounded queue: the mapping of a live ring stands for the frames that were
  published and not yet taken, every publication and every reception is a step of the abstract
  queue, and the locale's lemmas about sequences of operations hold for the ring.
\<close>

section \<open>The frames a mapping holds\<close>

definition ring_holds :: "ring_descriptor \<Rightarrow> mapping \<Rightarrow> nat \<Rightarrow> frame_item list \<Rightarrow> bool" where
  "ring_holds d m k q \<longleftrightarrow>
     ring_mapped m d \<and> mapped_generation m = rd_generation d \<and>
     unat (consumed_at m) = k \<and> unat (produced_at m) = k + length q \<and> length q \<le> 24 \<and>
     (\<forall>i<length q. slot_holds m d (of_nat (k + i + 1)) (q ! i))"

definition frame_fits :: "ring_descriptor \<Rightarrow> frame_item \<Rightarrow> bool" where
  "frame_fits d item \<longleftrightarrow>
     length (snd item) = 4 * unat (rl_width (rd_layout d)) * unat (rl_height (rd_layout d))"

datatype ring_answer =
    PutAnswer "write_status ring_result"
  | TakeAnswer "read_status ring_result"

text \<open>The calls of the two endpoints on one mapping.\<close>

definition ring_step ::
  "ring_descriptor \<Rightarrow> mapping \<Rightarrow> frame_item queue_op \<Rightarrow> ring_answer \<times> mapping" where
  "ring_step d m op = (case op of
      Put (timestamp_ns, tight_rgba) \<Rightarrow>
        apfst PutAnswer (write_mapping_frame m d tight_rgba timestamp_ns)
    | Take \<Rightarrow> apfst TakeAnswer (read_mapping_frame m d))"

definition written_answer :: "ring_descriptor \<Rightarrow> nat \<Rightarrow> frame_item \<Rightarrow> ring_answer" where
  "written_answer d n item = PutAnswer (Inr (Written
     \<lparr>fm_generation = rd_generation d, fm_sequence = of_nat n, fm_timestamp_ns = fst item\<rparr>))"

definition full_answer :: ring_answer where
  "full_answer = PutAnswer (Inr (Backpressure \<lparr>bp_queued = 24, bp_capacity = 24\<rparr>))"

definition ring_frame :: "ring_descriptor \<Rightarrow> nat \<Rightarrow> frame_item \<Rightarrow> rgba_frame" where
  "ring_frame d n item =
     \<lparr>rf_metadata = \<lparr>fm_generation = rd_generation d, fm_sequence = of_nat n,
                      fm_timestamp_ns = fst item\<rparr>,
      rf_layout = rd_layout d, rf_padded_rgba = padded_rows (rd_layout d) (snd item)\<rparr>"

definition frame_answer :: "ring_descriptor \<Rightarrow> nat \<Rightarrow> frame_item \<Rightarrow> ring_answer" where
  "frame_answer d n item = TakeAnswer (Inr (Frame (ring_frame d n item)))"

definition empty_answer :: ring_answer where
  "empty_answer = TakeAnswer (Inr Empty)"

definition was_written :: "ring_answer \<Rightarrow> bool" where
  "was_written r = (case r of PutAnswer (Inr (Written _)) \<Rightarrow> True | _ \<Rightarrow> False)"

definition frame_of :: "ring_answer \<Rightarrow> rgba_frame option" where
  "frame_of r = (case r of TakeAnswer (Inr (Frame f)) \<Rightarrow> Some f | _ \<Rightarrow> None)"

section \<open>Sequence numbers and slots\<close>

lemma slot_index_of_nat: "n < 2 ^ 64 \<Longrightarrow> slot_index (of_nat n) = (n - 1) mod 24"
  by (simp add: slot_index_def unat_of_nat_fits)

lemma slot_index_differs:
  assumes "i < len" "len < 24" "k + len + 1 < 2 ^ 64"
  shows "slot_index (of_nat (k + i + 1)) \<noteq> slot_index (of_nat (k + len + 1))"
proof -
  have "(k + i) mod 24 \<noteq> (k + len) mod 24"
  proof
    assume "(k + i) mod 24 = (k + len) mod 24"
    then have "(24 :: nat) dvd (k + len) - (k + i)"
      by (metis assms(1) less_or_eq_imp_le mod_eq_dvd_iff_nat nat_add_left_cancel_le)
    then show False
      using assms(1,2) by (auto dest!: dvd_imp_le)
  qed
  moreover have "slot_index (of_nat (k + i + 1)) = (k + i) mod 24"
    by (subst slot_index_of_nat) (use assms in auto)
  moreover have "slot_index (of_nat (k + len + 1)) = (k + len) mod 24"
    by (subst slot_index_of_nat) (use assms in auto)
  ultimately show ?thesis
    by (simp only:) simp
qed

lemma slot_at_header: "4096 \<le> slot_at l i"
  by (simp add: slot_at_def)

text \<open>A write to the header leaves every slot alone.\<close>

lemma slot_holds_header_write:
  assumes "layout_ok (rd_layout d)" and "covers w \<subseteq> {0..<4096}"
  shows "slot_holds (perform m w) d s item = slot_holds m d s item"
proof (rule slot_holds_cong [OF assms(1)], rule slice_perform_other)
  let ?b = "slot_at (rd_layout d) (slot_index s)"
  show "{?b..<?b + unat (rl_slot_stride (rd_layout d))} \<inter> covers w = {}"
    using assms(2) slot_at_header [of "rd_layout d" "slot_index s"] by fastforce
qed

lemma slot_holds_other_frame:
  assumes "layout_ok (rd_layout d)" and "slot_index s \<noteq> slot_index s'"
  shows "slot_holds (perform_all m (frame_writes d pf (slot_at (rd_layout d) (slot_index s')) s' ts rgba))
    d s item = slot_holds m d s item"
proof (rule slot_holds_cong [OF assms(1)], rule slice_perform_all_other)
  let ?b = "slot_at (rd_layout d) (slot_index s)" and ?b' = "slot_at (rd_layout d) (slot_index s')"
  show "{?b..<?b + unat (rl_slot_stride (rd_layout d))} \<inter>
      \<Union> (set (map covers (frame_writes d pf ?b' s' ts rgba))) = {}"
    using frame_writes_covers [OF assms(1), of pf ?b' s' ts rgba]
      slot_at_disjoint [OF assms(2), of "rd_layout d"] by blast
qed

lemma word_at_frame:
  assumes "layout_ok (rd_layout d)" and "a + 8 \<le> 4096"
  shows "word_at (perform_all m (frame_writes d pf (slot_at (rd_layout d) i) s ts rgba)) a = word_at m a"
proof (rule word_at_other)
  show "{a..<a + 8} \<inter> \<Union> (set (map covers (frame_writes d pf (slot_at (rd_layout d) i) s ts rgba))) = {}"
    using frame_writes_covers [OF assms(1), of pf "slot_at (rd_layout d) i" s ts rgba]
      slot_at_header [of "rd_layout d" i] assms(2) by fastforce
qed

section \<open>One operation\<close>

lemma ring_put_room:
  assumes h: "ring_holds d m k q" and fits: "frame_fits d item"
    and room: "length q < 24" and lim: "k + length q + 1 < 2 ^ 64"
  shows "\<exists>m'. ring_step d m (Put item) = (written_answer d (k + length q + 1) item, m') \<and>
    ring_holds d m' k (q @ [item])"
proof -
  obtain ts rgba where item: "item = (ts, rgba)"
    by fastforce
  let ?s = "produced_at m + 1" and ?l = "rd_layout d"
  from h have map: "ring_mapped m d" and gen: "mapped_generation m = rd_generation d"
    and con: "unat (consumed_at m) = k" and pro: "unat (produced_at m) = k + length q"
    and slots: "\<And>i. i < length q \<Longrightarrow> slot_holds m d (of_nat (k + i + 1)) (q ! i)"
    by (auto simp: ring_holds_def)
  note ok = ring_mappedD(1) [OF map]
  have us: "unat ?s = k + length q + 1"
    using lim pro by (subst unat_add_fits) simp_all
  then have s: "?s = of_nat (k + length q + 1)"
    using lim by (intro word_eq_of_nat) simp_all
  have free: "writable m d rgba = None"
    using gen fits room con pro lim
    by (simp add: writable_def queue_depth_ok_def frame_fits_def item)
  obtain pf where pf: "ucast pf = rl_payload_bytes ?l"
    and run: "write_mapping_frame m d rgba ts =
      (Inr (Written \<lparr>fm_generation = rd_generation d, fm_sequence = ?s, fm_timestamp_ns = ts\<rparr>),
       perform_all m (frame_writes d pf (slot_at ?l (slot_index ?s)) ?s ts rgba
         @ [atomic_store HEADER_PRODUCER_SEQUENCE_OFFSET ?s]))"
    by (rule write_mapping_frame_cases [OF map, of rgba ts]) (use free in auto)
  define m1 where "m1 = perform_all m (frame_writes d pf (slot_at ?l (slot_index ?s)) ?s ts rgba)"
  define m' where "m' = perform m1 (atomic_store HEADER_PRODUCER_SEQUENCE_OFFSET ?s)"
  have "ring_step d m (Put item) = (PutAnswer (Inr (Written
      \<lparr>fm_generation = rd_generation d, fm_sequence = ?s, fm_timestamp_ns = fst item\<rparr>)), m')"
    by (simp add: ring_step_def item run m'_def m1_def)
  then have step: "ring_step d m (Put item) = (written_answer d (k + length q + 1) item, m')"
    by (simp only: s written_answer_def)
  have w1: "word_at m1 a = word_at m a" if "a + 8 \<le> 4096" for a
    unfolding m1_def by (rule word_at_frame [OF ok that])
  have new: "slot_holds m1 d ?s item"
    unfolding item by (rule frame_written [OF ok _ pf]) (use fits item m1_def in \<open>auto simp: frame_fits_def\<close>)
  have old: "slot_holds m1 d (of_nat (k + i + 1)) (q ! i)" if "i < length q" for i
  proof -
    have "slot_index (of_nat (k + i + 1)) \<noteq> slot_index ?s"
      unfolding s by (rule slot_index_differs [OF that room lim])
    from slot_holds_other_frame [OF ok this] show ?thesis
      unfolding m1_def using slots [OF that] by blast
  qed
  have all: "slot_holds m' d (of_nat (k + i + 1)) ((q @ [item]) ! i)" if "i < length (q @ [item])" for i
  proof -
    have "slot_holds m1 d (of_nat (k + i + 1)) ((q @ [item]) ! i)"
    proof (cases "i < length q")
      case True
      then show ?thesis using old by (simp add: nth_append)
    next
      case False
      then have "i = length q" using that by simp
      then show ?thesis using new by (simp only: s [symmetric] nth_append_length)
    qed
    then show ?thesis
      unfolding m'_def by (subst slot_holds_header_write [OF ok]) (simp_all add: header_offsets)
  qed
  have "ring_holds d m' k (q @ [item])"
    unfolding ring_holds_def
  proof (intro conjI)
    show "\<forall>i<length (q @ [item]). slot_holds m' d (of_nat (k + i + 1)) ((q @ [item]) ! i)"
      using all by blast
    show "ring_mapped m' d"
      using map by (simp add: ring_mapped_def m'_def m1_def)
    show "mapped_generation m' = rd_generation d" "unat (consumed_at m') = k"
      "unat (produced_at m') = k + length (q @ [item])"
      using gen con us w1 by (simp_all add: m'_def word_at_perform header_offsets ivl_disjoint_nat)
    show "length (q @ [item]) \<le> 24"
      using room by simp
  qed
  with step show ?thesis
    by blast
qed

lemma ring_put_full:
  assumes "ring_holds d m k q" and "frame_fits d item" and "length q = 24"
  shows "ring_step d m (Put item) = (full_answer, m)"
proof -
  obtain ts rgba where item: "item = (ts, rgba)"
    by fastforce
  have busy: "writable m d rgba = Some (Inr (Backpressure \<lparr>bp_queued = 24, bp_capacity = 24\<rparr>))"
    using assms
    by (simp add: ring_holds_def writable_def queue_depth_ok_def frame_fits_def item RING_SLOT_COUNT_def)
  have map: "ring_mapped m d"
    using assms(1) by (simp add: ring_holds_def)
  show ?thesis
    by (rule write_mapping_frame_cases [OF map, of rgba ts])
      (use busy in \<open>auto simp: ring_step_def item full_answer_def\<close>)
qed

lemma ring_take_none:
  assumes "ring_holds d m k []"
  shows "ring_step d m Take = (empty_answer, m)"
proof -
  have "ring_mapped m d" and "readable m d = Some (Inr Empty)"
    using assms by (auto simp: ring_holds_def readable_def Let_def queue_depth_ok_def word_unat_eq_iff)
  then show ?thesis
    by (simp add: ring_step_def read_mapping_frame_eq empty_answer_def)
qed

lemma ring_take_some:
  assumes h: "ring_holds d m k (item # q)"
  shows "\<exists>m'. ring_step d m Take = (frame_answer d (k + 1) item, m') \<and> ring_holds d m' (k + 1) q"
proof -
  let ?s = "consumed_at m + 1" and ?l = "rd_layout d"
  from h have map: "ring_mapped m d" and gen: "mapped_generation m = rd_generation d"
    and con: "unat (consumed_at m) = k" and pro: "unat (produced_at m) = k + length q + 1"
    and len: "length q < 24" and first: "slot_holds m d (of_nat (k + 1)) item"
    and slots: "\<And>i. i < length q \<Longrightarrow> slot_holds m d (of_nat (k + i + 2)) (q ! i)"
    by (auto simp: ring_holds_def less_Suc_eq_0_disj)
  note ok = ring_mappedD(1) [OF map]
  have "unat (produced_at m) < 2 ^ 64"
    using unsigned_less [of "produced_at m"] by simp
  then have lim: "k + 1 < 2 ^ 64"
    using pro by simp
  have us: "unat ?s = k + 1"
    using lim con by (subst unat_add_fits) simp_all
  then have s: "?s = of_nat (k + 1)"
    using lim by (intro word_eq_of_nat) simp_all
  have ne: "produced_at m \<noteq> consumed_at m"
    using con pro by auto
  have at: "slot_holds m d ?s item"
    using first by (simp only: s)
  have none: "readable m d = None"
    using gen con pro len ne at
    by (simp add: readable_def Let_def queue_depth_ok_def slot_holds_def)
  define m' where "m' = perform m (atomic_store HEADER_CONSUMER_SEQUENCE_OFFSET ?s)"
  have "ring_step d m Take = (TakeAnswer (Inr (Frame
      \<lparr>rf_metadata = \<lparr>fm_generation = rd_generation d, fm_sequence = ?s,
                       fm_timestamp_ns = fst item\<rparr>,
       rf_layout = ?l, rf_padded_rgba = padded_rows ?l (snd item)\<rparr>)), m')"
    using at
    by (simp add: ring_step_def read_mapping_frame_eq [OF map] none Let_def m'_def slot_holds_def)
  then have step: "ring_step d m Take = (frame_answer d (k + 1) item, m')"
    by (simp only: s frame_answer_def ring_frame_def)
  have "slot_holds m' d (of_nat (k + 1 + i + 1)) (q ! i)" if "i < length q" for i
    unfolding m'_def using slots [OF that]
    by (subst slot_holds_header_write [OF ok]) (simp_all add: header_offsets add.commute add.left_commute)
  moreover have "mapped_generation m' = rd_generation d" "unat (consumed_at m') = k + 1"
    "unat (produced_at m') = k + 1 + length q"
    using gen pro us by (simp_all add: m'_def word_at_perform header_offsets ivl_disjoint_nat)
  moreover have "ring_mapped m' d"
    using map by (simp add: ring_mapped_def m'_def)
  ultimately have "ring_holds d m' (k + 1) q"
    using len by (simp add: ring_holds_def)
  with step show ?thesis
    by blast
qed

text \<open>The ring fulfils the contract of the bounded queue.\<close>

interpretation abi1: observed_queue "ring_step d" "ring_holds d" "frame_fits d" 24 "2 ^ 64"
    "written_answer d" full_answer "frame_answer d" empty_answer was_written frame_of "ring_frame d"
  for d
proof unfold_locales
  show "ring_holds d m k q \<Longrightarrow> length q \<le> 24" for m k q
    by (simp add: ring_holds_def)
  show "was_written (written_answer d n x)" "\<not> was_written full_answer"
    "frame_of (frame_answer d n x) = Some (ring_frame d n x)" "frame_of (written_answer d n x) = None"
    "frame_of full_answer = None" "frame_of empty_answer = None" for n x
    by (simp_all add: was_written_def frame_of_def written_answer_def full_answer_def
        frame_answer_def empty_answer_def)
qed (use ring_put_room ring_put_full ring_take_none ring_take_some in \<open>blast+\<close>)

section \<open>Properties\<close>

lemma initialized_holds:
  assumes "ring_mapped m d"
  shows "ring_holds d (initialized m d pf) 0 []"
  using assms ring_mappedD(2) [OF assms]
  by (simp add: ring_holds_def ring_mapped_def header_offsets initialized_fields initialized_zero_word)

lemma fresh_ring_holds:
  assumes "descriptor_new width height g = Inr d" and run: "initialize_mapping m0 d = (Inr (), m)"
  shows "ring_holds d m 0 []"
proof -
  have "layout_ok (rd_layout d)"
    using assms(1) by (simp add: descriptor_new_Inr)
  then show ?thesis
    by (rule initialize_mapping_cases [of d m0]) (use run initialized_holds [of m0 d] in auto)
qed

abbreviation ring_spec ::
  "ring_descriptor \<Rightarrow> nat \<times> frame_item list \<Rightarrow> frame_item queue_op \<Rightarrow>
   ring_answer \<times> (nat \<times> frame_item list)" where
  "ring_spec d \<equiv> queue_step 24 (written_answer d) full_answer (frame_answer d) empty_answer"

definition pixel_ring :: mapping where
  "pixel_ring = initialized blank_pixel_mapping (pixel_descriptor 5) 256"

lemma pixel_ring_fresh: "initialize_mapping blank_pixel_mapping (pixel_descriptor 5) = (Inr (), pixel_ring)"
proof -
  have "u32_try_from (rl_payload_bytes (rd_layout (pixel_descriptor 5))) = Some 256"
    by (simp add: pixel_layout_def u32_try_from_Some)
  then show ?thesis
    unfolding pixel_ring_def by (intro initialize_mapping_ok blank_pixel_mapped)
qed

lemma pixel_frame_fits: "frame_fits (pixel_descriptor g) (ts, rgba) \<longleftrightarrow> length rgba = 4"
  by (simp add: frame_fits_def pixel_layout_def)

text \<open>C1: The ring implements a bounded queue of 24 frames. From a fresh mapping, every sequence of
  publications of whole frames and receptions, in any order, gives exactly the answers of the
  abstract queue: a publication is written under the next sequence number unless 24 frames wait,
  and then it is refused with backpressure; a reception returns the oldest waiting frame, with
  its sequence number, its timestamp and its rows padded with zeroes, or reports an empty ring.
  The mapping that is left stands for the abstract queue that is left. The sequence may have any
  length for which 64-bit sequence numbers suffice.
\<close>
theorem ring_refines_queue:
  assumes "descriptor_new width height generation = Inr d"
    and "initialize_mapping m0 d = (Inr (), m)"
    and "list_all (op_fits (frame_fits d)) ops" and "length ops < 2 ^ 64"
  shows "fst (run_ops (ring_step d) m ops) = fst (run_ops (ring_spec d) (0, []) ops) \<and>
    (case snd (run_ops (ring_spec d) (0, []) ops) of
       (k, q) \<Rightarrow> ring_holds d (snd (run_ops (ring_step d) m ops)) k q)"
  using abi1.queue_run_refines [OF fresh_ring_holds [OF assms(1,2)] assms(3)] assms(4)
  by (simp add: split_beta)

theorem ring_refines_queue_witness:
  "fst (run_ops (ring_step (pixel_descriptor 5)) pixel_ring
      [Take, Put (77, [1, 2, 3, 4]), Take, Take]) =
   [empty_answer, written_answer (pixel_descriptor 5) 1 (77, [1, 2, 3, 4]),
    TakeAnswer (Inr (Frame
      \<lparr>rf_metadata = \<lparr>fm_generation = 5, fm_sequence = 1, fm_timestamp_ns = 77\<rparr>,
       rf_layout = pixel_layout, rf_padded_rgba = [1, 2, 3, 4] @ replicate 252 0\<rparr>)), empty_answer]"
proof -
  have "padded_rows pixel_layout [1, 2, 3, 4] = [1, 2, 3, 4] @ replicate 252 0"
    by (simp add: padded_rows_def chunks_exact_def pixel_layout_def)
  then show ?thesis
    using ring_refines_queue [OF pixel_descriptor_new pixel_ring_fresh, of "[Take, Put (77, [1, 2, 3, 4]), Take, Take]"]
    by (simp add: pixel_frame_fits frame_answer_def ring_frame_def)
qed

text \<open>No frame is lost, repeated or reordered. From a fresh mapping, the frames a consumer received
  are the frames the producer was told are written, in the order of writing, numbered from one,
  with their timestamps and padded pixels, up to the at most 24 frames that still wait.
\<close>
theorem ring_delivers_in_order:
  assumes "descriptor_new width height generation = Inr d"
    and "initialize_mapping m0 d = (Inr (), m)"
    and "list_all (op_fits (frame_fits d)) ops" and "length ops < 2 ^ 64"
  shows "\<exists>waiting. length waiting \<le> 24 \<and>
    numbered (ring_frame d) 1
      (stored_items was_written ops (fst (run_ops (ring_step d) m ops))) =
    taken_items frame_of (fst (run_ops (ring_step d) m ops)) @ waiting"
  using abi1.queue_run_fifo [OF fresh_ring_holds [OF assms(1,2)] assms(3,4)] .

theorem ring_delivers_in_order_witness:
  "\<exists>waiting. length waiting \<le> 24 \<and>
    numbered (ring_frame (pixel_descriptor 5)) 1 (stored_items was_written
        [Put (1, [1, 2, 3, 4]), Take, Put (2, [5, 6, 7, 8])]
        (fst (run_ops (ring_step (pixel_descriptor 5)) pixel_ring
          [Put (1, [1, 2, 3, 4]), Take, Put (2, [5, 6, 7, 8])]))) =
    taken_items frame_of (fst (run_ops (ring_step (pixel_descriptor 5)) pixel_ring
          [Put (1, [1, 2, 3, 4]), Take, Put (2, [5, 6, 7, 8])])) @ waiting"
  by (rule ring_delivers_in_order [OF pixel_descriptor_new pixel_ring_fresh]) (simp_all add: pixel_frame_fits)

text \<open>What a consumer accepts, whatever the mapping holds. A frame is returned only with the
  descriptor's generation and layout, a whole payload, zeroes in every row's padding, and the
  sequence number after the last one taken; it was published by the counters, exactly the
  consumer's counter moves, and no other byte of the mapping changes. An empty ring and every
  error leave the whole mapping as it was.
\<close>
theorem received_frame_checked:
  assumes "layout_new width height = Inr (rd_layout d)"
    and "mp_len m = unat (rl_mapping_bytes (rd_layout d))"
  shows "case read_mapping_frame m d of
      (Inr (Frame f), m') \<Rightarrow>
        fm_generation (rf_metadata f) = rd_generation d \<and> mapped_generation m = rd_generation d \<and>
        rf_layout f = rd_layout d \<and>
        length (rf_padded_rgba f) = unat (rl_payload_bytes (rd_layout d)) \<and>
        list_all (\<lambda>row. list_all (\<lambda>byte. byte = 0) (drop (4 * unat width) row))
          (chunks_exact (unat (rl_row_stride (rd_layout d))) (rf_padded_rgba f)) \<and>
        unat (fm_sequence (rf_metadata f)) = unat (consumed_at m) + 1 \<and>
        unat (consumed_at m) < unat (produced_at m) \<and>
        unat (produced_at m) \<le> unat (consumed_at m) + 24 \<and>
        consumed_at m' = fm_sequence (rf_metadata f) \<and> mp_len m' = mp_len m \<and>
        slice m' 0 80 = slice m 0 80 \<and> slice m' 88 (mp_len m) = slice m 88 (mp_len m)
    | (Inr Empty, m') \<Rightarrow> consumed_at m = produced_at m \<and> m' = m
    | (Inl e, m') \<Rightarrow> m' = m"
proof -
  have map: "ring_mapped m d" and w: "rl_width (rd_layout d) = width"
    using assms by (auto simp: layout_new_Inr ring_mapped_def)
  show ?thesis
  proof (cases "readable m d")
    case (Some r)
    then show ?thesis
      by (auto simp: read_mapping_frame_eq [OF map] readable_def Let_def split: if_splits)
  next
    case None
    let ?m = "perform m (atomic_store HEADER_CONSUMER_SEQUENCE_OFFSET (consumed_at m + 1))"
    have c: "mapped_generation m = rd_generation d" "queue_depth_ok m" "produced_at m \<noteq> consumed_at m"
      "slot_valid m (slot_at (rd_layout d) (slot_index (consumed_at m + 1))) d"
      using None by (auto simp: readable_def Let_def split: if_splits)
    have less: "unat (consumed_at m) < unat (produced_at m)"
      using c(2,3) by (auto simp: queue_depth_ok_def word_unat_eq_iff)
    moreover have "unat (produced_at m) < 2 ^ 64"
      using unsigned_less [of "produced_at m"] by simp
    ultimately have seq: "unat (consumed_at m + 1) = unat (consumed_at m) + 1"
      by (subst unat_add_fits) simp_all
    have "slice ?m 0 80 = slice m 0 80" "slice ?m 88 (mp_len m) = slice m 88 (mp_len m)"
      by (intro slice_perform_other; simp add: header_offsets ivl_disjoint_nat)+
    then show ?thesis
      using c less seq
      by (simp add: read_mapping_frame_eq [OF map] None Let_def word_at_perform(2) slot_valid_def w
          queue_depth_ok_def)
  qed
qed

theorem received_frame_checked_witness:
  "case read_mapping_frame pixel_ring (pixel_descriptor 5) of
      (Inr (Frame f), m') \<Rightarrow> length (rf_padded_rgba f) = 256
    | (Inr Empty, m') \<Rightarrow> m' = pixel_ring
    | (Inl e, m') \<Rightarrow> m' = pixel_ring"
  using received_frame_checked [of 1 1 "pixel_descriptor 5" pixel_ring]
  by (simp add: layout_new_Inr pixel_layout_ok pixel_ring_def)
    (simp add: pixel_layout_def split: prod.splits sum.splits read_status.splits)

text \<open>
  The writes of a publication before the last one leave the frames that wait alone.
\<close>

lemma ring_holds_slot_writes:
  assumes h: "ring_holds d m k q" and room: "length q < 24" and lim: "k + length q + 1 < 2 ^ 64"
    and inside: "\<Union> (set (map covers ws)) \<subseteq>
      {slot_at (rd_layout d) (slot_index (of_nat (k + length q + 1)))..<
       slot_at (rd_layout d) (slot_index (of_nat (k + length q + 1))) +
         unat (rl_slot_stride (rd_layout d))}"
  shows "ring_holds d (perform_all m ws) k q"
proof -
  have map: "ring_mapped m d"
    using h by (simp add: ring_holds_def)
  note ok = ring_mappedD(1) [OF map]
  let ?b = "slot_at (rd_layout d) (slot_index (of_nat (k + length q + 1)))"
  have header: "word_at (perform_all m ws) a = word_at m a" if "a + 8 \<le> 4096" for a
  proof (rule word_at_other)
    show "{a..<a + 8} \<inter> \<Union> (set (map covers ws)) = {}"
      using inside slot_at_header [of "rd_layout d" "slot_index (of_nat (k + length q + 1))"] that
      by fastforce
  qed
  have "slot_holds (perform_all m ws) d (of_nat (k + i + 1)) (q ! i) =
      slot_holds m d (of_nat (k + i + 1)) (q ! i)" if "i < length q" for i
  proof (rule slot_holds_cong [OF ok], rule slice_perform_all_other)
    let ?c = "slot_at (rd_layout d) (slot_index (of_nat (k + i + 1)))"
    show "{?c..<?c + unat (rl_slot_stride (rd_layout d))} \<inter> \<Union> (set (map covers ws)) = {}"
      using inside slot_at_disjoint [OF slot_index_differs [OF that room lim], of "rd_layout d"]
      by blast
  qed
  then show ?thesis
    using h by (simp add: ring_holds_def ring_mapped_def header header_offsets)
qed


lemma pixel_ring_holds: "ring_holds (pixel_descriptor 5) pixel_ring 0 []"
  unfolding pixel_ring_def by (rule initialized_holds [OF blank_pixel_mapped])


end
