(* ===== verification/Ring_Endpoints.thy ===== *)
theory Ring_Endpoints
  imports Ring_Queue
begin

text \<open>
  The two file-backed endpoints of the ring (\<open>TestFileRgbRingProducer\<close> and
  \<open>TestFileRgbRingConsumer\<close> in \<open>crates/gpu/src/ring.rs\<close>) on one shared file, the claims that
  keep them exclusive, and the snapshot of the counters under concurrent movement. The file
  system is outside of the model: each of its calls either works or fails with a code.
\<close>

section \<open>Opening and dropping\<close>

record file_faults =
  ff_open :: "nat option"
  ff_metadata :: "nat option"
  ff_set_len :: "nat option"
  ff_map :: "nat option"
  ff_flush :: "nat option"

definition io_ok :: "nat option \<Rightarrow> unit ring_result" where
  "io_ok fault = (case fault of None \<Rightarrow> Inr () | Some code \<Rightarrow> ring_err (RingIo code))"

record endpoint =
  ep_descriptor :: ring_descriptor
  ep_claimed :: bool

text \<open>\<open>open_mapping\<close>: the file's length is the mapping's.\<close>

definition open_mapping :: "file_faults \<Rightarrow> mapping \<Rightarrow> u64 \<Rightarrow> ring_descriptor ring_result" where
  "open_mapping io m expected_generation =
     (if expected_generation = 0 then ring_err InvalidGeneration
      else
     try_bind (io_ok (ff_open io)) (\<lambda>_.
     try_bind (io_ok (ff_metadata io)) (\<lambda>_.
     let file_bytes = of_nat (mp_len m) in
     if \<not> (MAPPING_HEADER_BYTES \<le> file_bytes \<and> file_bytes \<le> MAX_MAPPING_BYTES)
     then ring_err (InvalidMappingLength file_bytes)
     else
     try_bind (io_ok (ff_map io)) (\<lambda>_.
     try_bind (validate_mapping_header m file_bytes) (\<lambda>d.
     if rd_generation d \<noteq> expected_generation
     then ring_err (GenerationMismatch expected_generation (rd_generation d))
     else Inr d)))))"

text \<open>
  \<open>create\<close> never opens an existing file: it starts from a file of zeroes with the length of the
  layout. The second component is the file, \<open>None\<close> when it could not be made and mapped.
\<close>

definition producer_create ::
  "file_faults \<Rightarrow> ring_descriptor \<Rightarrow> endpoint ring_result \<times> mapping option" where
  "producer_create io d = (case mapping_len (rd_layout d) of
      Inl e \<Rightarrow> (Inl e, None)
    | Inr len \<Rightarrow>
     (case try_bind (io_ok (ff_open io)) (\<lambda>_. try_bind (io_ok (ff_set_len io)) (\<lambda>_. io_ok (ff_map io)))
      of Inl e \<Rightarrow> (Inl e, None)
       | Inr u \<Rightarrow>
     (case initialize_mapping \<lparr>mp_len = len, mp_byte = (\<lambda>_. 0)\<rparr> d of
        (Inl e, m) \<Rightarrow> (Inl e, Some m)
      | (Inr u, m) \<Rightarrow>
     (case claim_producer m of
        (Inl e, m) \<Rightarrow> (Inl e, Some m)
      | (Inr u, m) \<Rightarrow>
     (case io_ok (ff_flush io) of
        Inl e \<Rightarrow> (Inl e, Some m)
      | Inr u \<Rightarrow> (Inr \<lparr>ep_descriptor = d, ep_claimed = True\<rparr>, Some m))))))"

definition producer_open ::
  "file_faults \<Rightarrow> mapping \<Rightarrow> u64 \<Rightarrow> endpoint ring_result \<times> mapping" where
  "producer_open io m expected_generation =
     try_with (open_mapping io m expected_generation) m (\<lambda>d.
     case claim_producer m of
       (Inl e, m) \<Rightarrow> (Inl e, m)
     | (Inr u, m) \<Rightarrow> (Inr \<lparr>ep_descriptor = d, ep_claimed = True\<rparr>, m))"

definition consumer_open ::
  "file_faults \<Rightarrow> mapping \<Rightarrow> u64 \<Rightarrow> endpoint ring_result \<times> mapping" where
  "consumer_open io m expected_generation =
     try_with (open_mapping io m expected_generation) m (\<lambda>d.
     case claim_consumer m of
       (Inl e, m) \<Rightarrow> (Inl e, m)
     | (Inr u, m) \<Rightarrow> (Inr \<lparr>ep_descriptor = d, ep_claimed = True\<rparr>, m))"

definition producer_drop :: "mapping \<Rightarrow> endpoint \<Rightarrow> mapping" where
  "producer_drop m ep = (if ep_claimed ep then snd (release_producer m) else m)"

definition consumer_drop :: "mapping \<Rightarrow> endpoint \<Rightarrow> mapping" where
  "consumer_drop m ep = (if ep_claimed ep then snd (release_consumer m) else m)"

section \<open>Methods\<close>

definition endpoint_state :: "mapping \<Rightarrow> endpoint \<Rightarrow> mapped_ring_state ring_result" where
  "endpoint_state m ep = mapping_state m (ep_descriptor ep)"

definition endpoint_can_publish :: "mapping \<Rightarrow> endpoint \<Rightarrow> u32 \<Rightarrow> bool ring_result" where
  "endpoint_can_publish m ep frame_count =
     try_bind (endpoint_state m ep) (\<lambda>st. Inr (can_publish st frame_count))"

definition try_write ::
  "mapping \<Rightarrow> endpoint \<Rightarrow> u8 list \<Rightarrow> u64 \<Rightarrow> write_status ring_result \<times> mapping" where
  "try_write m ep tight_rgba timestamp_ns =
     write_mapping_frame m (ep_descriptor ep) tight_rgba timestamp_ns"

definition try_read :: "mapping \<Rightarrow> endpoint \<Rightarrow> read_status ring_result \<times> mapping" where
  "try_read m ep = read_mapping_frame m (ep_descriptor ep)"

definition set_generation :: "mapping \<Rightarrow> endpoint \<Rightarrow> u64 \<Rightarrow> (unit ring_result \<times> endpoint) \<times> mapping" where
  "set_generation m ep new_generation =
     (case reset_mapping_generation m (ep_descriptor ep) new_generation of
        (Inl e, m) \<Rightarrow> ((Inl e, ep), m)
      | (Inr d, m) \<Rightarrow> ((Inr (), ep\<lparr>ep_descriptor := d\<rparr>), m))"

definition adopt_generation :: "mapping \<Rightarrow> endpoint \<Rightarrow> u64 \<Rightarrow> unit ring_result \<times> endpoint" where
  "adopt_generation m ep new_generation =
     (case adopt_mapping_generation m (ep_descriptor ep) new_generation of
        Inl e \<Rightarrow> (Inl e, ep)
      | Inr d \<Rightarrow> (Inr (), ep\<lparr>ep_descriptor := d\<rparr>))"

section \<open>The endpoints alive on one file\<close>

record ring_world =
  rw_file :: mapping
  rw_producers :: "endpoint list"
  rw_consumers :: "endpoint list"

text \<open>Every call of a process on the file; failing calls leave no endpoint behind.\<close>

inductive world_step :: "ring_world \<Rightarrow> ring_world \<Rightarrow> bool" where
  open_producer: "producer_open io (rw_file w) g = (r, m') \<Longrightarrow>
    world_step w (w\<lparr>rw_file := m',
      rw_producers := (case r of Inl e \<Rightarrow> rw_producers w | Inr ep \<Rightarrow> ep # rw_producers w)\<rparr>)"
| open_consumer: "consumer_open io (rw_file w) g = (r, m') \<Longrightarrow>
    world_step w (w\<lparr>rw_file := m',
      rw_consumers := (case r of Inl e \<Rightarrow> rw_consumers w | Inr ep \<Rightarrow> ep # rw_consumers w)\<rparr>)"
| drop_producer: "rw_producers w = eps @ ep # eps' \<Longrightarrow>
    world_step w (w\<lparr>rw_file := producer_drop (rw_file w) ep, rw_producers := eps @ eps'\<rparr>)"
| drop_consumer: "rw_consumers w = eps @ ep # eps' \<Longrightarrow>
    world_step w (w\<lparr>rw_file := consumer_drop (rw_file w) ep, rw_consumers := eps @ eps'\<rparr>)"
| publish: "ep \<in> set (rw_producers w) \<Longrightarrow> try_write (rw_file w) ep rgba ts = (r, m') \<Longrightarrow>
    world_step w (w\<lparr>rw_file := m'\<rparr>)"
| receive: "ep \<in> set (rw_consumers w) \<Longrightarrow> try_read (rw_file w) ep = (r, m') \<Longrightarrow>
    world_step w (w\<lparr>rw_file := m'\<rparr>)"
| restart: "rw_producers w = eps @ ep # eps' \<Longrightarrow> set_generation (rw_file w) ep g = ((r, ep'), m') \<Longrightarrow>
    world_step w (w\<lparr>rw_file := m', rw_producers := eps @ ep' # eps'\<rparr>)"
| adopt: "rw_consumers w = eps @ ep # eps' \<Longrightarrow> adopt_generation (rw_file w) ep g = (r, ep') \<Longrightarrow>
    world_step w (w\<lparr>rw_consumers := eps @ ep' # eps'\<rparr>)"

section \<open>What the operations leave of the claims\<close>

definition endpoint_ok :: "mapping \<Rightarrow> endpoint \<Rightarrow> bool" where
  "endpoint_ok m ep \<longleftrightarrow> ring_mapped m (ep_descriptor ep) \<and> ep_claimed ep"

definition world_inv :: "ring_world \<Rightarrow> bool" where
  "world_inv w \<longleftrightarrow> 4096 \<le> mp_len (rw_file w) \<and> mp_len (rw_file w) < 2 ^ 64 \<and>
     word_at (rw_file w) 96 = of_nat (length (rw_producers w)) \<and> length (rw_producers w) \<le> 1 \<and>
     word_at (rw_file w) 88 = of_nat (length (rw_consumers w)) \<and> length (rw_consumers w) \<le> 1 \<and>
     list_all (endpoint_ok (rw_file w)) (rw_producers w) \<and>
     list_all (endpoint_ok (rw_file w)) (rw_consumers w)"

text \<open>An operation on the frames or the generation changes neither the length nor the claims.\<close>

definition claims_kept :: "mapping \<Rightarrow> mapping \<Rightarrow> bool" where
  "claims_kept m m' \<longleftrightarrow> mp_len m' = mp_len m \<and> word_at m' 88 = word_at m 88 \<and>
     word_at m' 96 = word_at m 96"

lemma claims_kept_refl [simp]: "claims_kept m m"
  by (simp add: claims_kept_def)

lemma endpoint_ok_len: "mp_len m' = mp_len m \<Longrightarrow> endpoint_ok m' = endpoint_ok m"
  by (simp add: fun_eq_iff endpoint_ok_def ring_mapped_def)

lemma write_keeps_claims:
  assumes "ring_mapped m d" and "write_mapping_frame m d rgba ts = (r, m')"
  shows "claims_kept m m'"
proof (rule write_mapping_frame_cases [OF assms(1), of rgba ts])
  fix pf
  assume "write_mapping_frame m d rgba ts =
      (Inr (Written \<lparr>fm_generation = rd_generation d, fm_sequence = produced_at m + 1,
                     fm_timestamp_ns = ts\<rparr>),
       perform_all m (frame_writes d pf
           (slot_at (rd_layout d) (slot_index (produced_at m + 1))) (produced_at m + 1) ts rgba
         @ [atomic_store HEADER_PRODUCER_SEQUENCE_OFFSET (produced_at m + 1)]))"
  then have "m' = perform (perform_all m (frame_writes d pf
           (slot_at (rd_layout d) (slot_index (produced_at m + 1))) (produced_at m + 1) ts rgba))
         (atomic_store HEADER_PRODUCER_SEQUENCE_OFFSET (produced_at m + 1))"
    using assms(2) by simp
  then show ?thesis
    using word_at_frame [OF ring_mappedD(1) [OF assms(1)]]
    by (simp add: claims_kept_def word_at_perform header_offsets ivl_disjoint_nat)
qed (use assms(2) in simp)

lemma read_keeps_claims:
  assumes "ring_mapped m d" and "read_mapping_frame m d = (r, m')"
  shows "claims_kept m m'"
  using assms(2)
  by (auto simp: read_mapping_frame_eq [OF assms(1)] Let_def claims_kept_def word_at_perform
      header_offsets ivl_disjoint_nat split: option.splits)

lemma reset_keeps_claims:
  assumes "ring_mapped m d" and "reset_mapping_generation m d g = (r, m')"
  shows "claims_kept m m' \<and> (case r of Inl e \<Rightarrow> True | Inr d' \<Rightarrow> ring_mapped m' d')"
proof -
  note ok = ring_mappedD(1) [OF assms(1)]
  have "word_at (reset_to m d g) a = word_at m a" if "88 \<le> a" "a + 8 \<le> 4096" for a
    using that reset_keeps [OF ok, of "a + 8" a m g] by (simp add: word_at_def)
  then have "claims_kept m (reset_to m d g)"
    using reset_words(4) [OF ok] by (simp add: claims_kept_def)
  then show ?thesis
    using assms(2) assms(1)
    by (auto simp: reset_mapping_generation_eq [OF assms(1)] ring_mapped_def claims_kept_def
        split: if_splits)
qed

lemma adopt_keeps_mapped:
  assumes "ring_mapped m d" and "adopt_mapping_generation m d g = Inr d'"
  shows "ring_mapped m d'"
  using assms by (auto simp: adopt_mapping_generation_Inr ring_mapped_def)

lemma open_mapping_mapped:
  assumes "open_mapping io m g = Inr d"
  shows "4096 \<le> mp_len m \<and> mp_len m < 2 ^ 64 \<longrightarrow> ring_mapped m d"
proof
  assume len: "4096 \<le> mp_len m \<and> mp_len m < 2 ^ 64"
  have "validate_mapping_header m (of_nat (mp_len m)) = Inr d"
    using assms by (auto simp: open_mapping_def Let_def try_iffs split: if_splits)
  then have "header_valid m (of_nat (mp_len m)) d"
    using len by (simp add: validate_mapping_header_Inr)
  moreover have "unat (of_nat (mp_len m) :: u64) = mp_len m"
    by (rule unat_of_nat_fits) (use len in simp)
  ultimately show "ring_mapped m d"
    by (intro header_valid_mapped sym [of _ "mp_len m"])
qed

lemma world_inv_frames:
  assumes "world_inv w" and "claims_kept (rw_file w) m'"
  shows "world_inv (w\<lparr>rw_file := m'\<rparr>)"
  using assms endpoint_ok_len [of m' "rw_file w"] by (auto simp: world_inv_def claims_kept_def)

lemma split_single: "xs = ys @ y # zs \<Longrightarrow> length xs \<le> 1 \<Longrightarrow> ys = [] \<and> zs = [] \<and> xs = [y]"
  by (cases ys; cases zs) auto

lemma word_one_zero: "(1 :: u64) \<noteq> 0"
  by simp

lemma producer_open_inv:
  assumes inv: "world_inv w" and run: "producer_open io (rw_file w) g = (r, m')"
  shows "world_inv (w\<lparr>rw_file := m',
    rw_producers := (case r of Inl e \<Rightarrow> rw_producers w | Inr ep \<Rightarrow> ep # rw_producers w)\<rparr>)"
proof -
  have len: "4096 \<le> mp_len (rw_file w)" "mp_len (rw_file w) < 2 ^ 64"
    using inv by (auto simp: world_inv_def)
  show ?thesis
  proof (cases r)
    case (Inl e)
    then have "m' = rw_file w"
      using run len by (auto simp: producer_open_def try_iffs claim_producer_eq split: if_splits)
    then show ?thesis
      using inv Inl by simp
  next
    case (Inr ep)
    then obtain d where d: "open_mapping io (rw_file w) g = Inr d"
      and ep: "ep = \<lparr>ep_descriptor = d, ep_claimed = True\<rparr>"
      and free: "word_at (rw_file w) 96 = 0" and m': "m' = perform (rw_file w) (atomic_store 96 1)"
      using run len by (auto simp: producer_open_def try_iffs claim_producer_eq split: if_splits)
    have none: "rw_producers w = []"
      using free inv by (cases "rw_producers w") (auto simp: world_inv_def)
    have "ring_mapped m' d"
      using open_mapping_mapped [OF d] len by (simp add: m' ring_mapped_def)
    then have "endpoint_ok m' ep"
      by (simp add: endpoint_ok_def ep)
    then show ?thesis
      using inv none Inr endpoint_ok_len [of m' "rw_file w"]
      by (simp add: world_inv_def m' word_at_perform ivl_disjoint_nat)
  qed
qed

lemma consumer_open_inv:
  assumes inv: "world_inv w" and run: "consumer_open io (rw_file w) g = (r, m')"
  shows "world_inv (w\<lparr>rw_file := m',
    rw_consumers := (case r of Inl e \<Rightarrow> rw_consumers w | Inr ep \<Rightarrow> ep # rw_consumers w)\<rparr>)"
proof -
  have len: "4096 \<le> mp_len (rw_file w)" "mp_len (rw_file w) < 2 ^ 64"
    using inv by (auto simp: world_inv_def)
  show ?thesis
  proof (cases r)
    case (Inl e)
    then have "m' = rw_file w"
      using run len by (auto simp: consumer_open_def try_iffs claim_consumer_eq split: if_splits)
    then show ?thesis
      using inv Inl by simp
  next
    case (Inr ep)
    then obtain d where d: "open_mapping io (rw_file w) g = Inr d"
      and ep: "ep = \<lparr>ep_descriptor = d, ep_claimed = True\<rparr>"
      and free: "word_at (rw_file w) 88 = 0" and m': "m' = perform (rw_file w) (atomic_store 88 1)"
      using run len by (auto simp: consumer_open_def try_iffs claim_consumer_eq split: if_splits)
    have none: "rw_consumers w = []"
      using free inv by (cases "rw_consumers w") (auto simp: world_inv_def)
    have "ring_mapped m' d"
      using open_mapping_mapped [OF d] len by (simp add: m' ring_mapped_def)
    then have "endpoint_ok m' ep"
      by (simp add: endpoint_ok_def ep)
    then show ?thesis
      using inv none Inr endpoint_ok_len [of m' "rw_file w"]
      by (simp add: world_inv_def m' word_at_perform ivl_disjoint_nat)
  qed
qed

lemma drop_inv:
  assumes inv: "world_inv w"
  shows "rw_producers w = eps @ ep # eps' \<Longrightarrow>
      world_inv (w\<lparr>rw_file := producer_drop (rw_file w) ep, rw_producers := eps @ eps'\<rparr>)"
    and "rw_consumers w = eps @ ep # eps' \<Longrightarrow>
      world_inv (w\<lparr>rw_file := consumer_drop (rw_file w) ep, rw_consumers := eps @ eps'\<rparr>)"
proof -
  have len: "4096 \<le> mp_len (rw_file w)"
    using inv by (simp add: world_inv_def)
  show "world_inv (w\<lparr>rw_file := producer_drop (rw_file w) ep, rw_producers := eps @ eps'\<rparr>)"
    if eps: "rw_producers w = eps @ ep # eps'"
    using inv split_single [OF eps] endpoint_ok_len [of "producer_drop (rw_file w) ep" "rw_file w"]
    by (auto simp: world_inv_def producer_drop_def release_eq [OF len] word_at_perform
        ivl_disjoint_nat endpoint_ok_def)
  show "world_inv (w\<lparr>rw_file := consumer_drop (rw_file w) ep, rw_consumers := eps @ eps'\<rparr>)"
    if eps: "rw_consumers w = eps @ ep # eps'"
    using inv split_single [OF eps] endpoint_ok_len [of "consumer_drop (rw_file w) ep" "rw_file w"]
    by (auto simp: world_inv_def consumer_drop_def release_eq [OF len] word_at_perform
        ivl_disjoint_nat endpoint_ok_def)
qed

lemma endpoint_mapped:
  "world_inv w \<Longrightarrow> ep \<in> set (rw_producers w) \<union> set (rw_consumers w) \<Longrightarrow>
   ring_mapped (rw_file w) (ep_descriptor ep)"
  by (auto simp: world_inv_def list_all_iff endpoint_ok_def)

lemma world_step_inv: "world_step w w' \<Longrightarrow> world_inv w \<Longrightarrow> world_inv w'"
proof (induction rule: world_step.induct)
  case (open_producer io w g r m')
  then show ?case by (intro producer_open_inv)
next
  case (open_consumer io w g r m')
  then show ?case by (intro consumer_open_inv)
next
  case (drop_producer w eps ep eps')
  then show ?case by (intro drop_inv)
next
  case (drop_consumer w eps ep eps')
  then show ?case by (intro drop_inv)
next
  case (publish ep w rgba ts r m')
  then show ?case
    by (intro world_inv_frames write_keeps_claims [OF endpoint_mapped]) (auto simp: try_write_def)
next
  case (receive ep w r m')
  then show ?case
    by (intro world_inv_frames read_keeps_claims [OF endpoint_mapped]) (auto simp: try_read_def)
next
  case (restart w eps ep eps' g r ep' m')
  have map: "ring_mapped (rw_file w) (ep_descriptor ep)"
    using endpoint_mapped [OF restart.prems, of ep] restart.hyps(1) by simp
  obtain r1 where run: "reset_mapping_generation (rw_file w) (ep_descriptor ep) g = (r1, m')"
    and ep': "ep' = (case r1 of Inl e \<Rightarrow> ep | Inr d \<Rightarrow> ep\<lparr>ep_descriptor := d\<rparr>)"
    using restart.hyps(2) by (auto simp: set_generation_def split: prod.splits sum.splits)
  note kept = reset_keeps_claims [OF map run]
  have "endpoint_ok (rw_file w) ep"
    using restart.prems restart.hyps(1) by (simp add: world_inv_def)
  then have "endpoint_ok m' ep'"
    using kept by (auto simp: ep' endpoint_ok_def claims_kept_def ring_mapped_def split: sum.splits)
  then show ?case
    using world_inv_frames [OF restart.prems, of m'] kept restart.hyps(1)
    by (auto simp: world_inv_def)
next
  case (adopt w eps ep eps' g r ep')
  have "endpoint_ok (rw_file w) ep"
    using adopt.prems adopt.hyps(1) by (simp add: world_inv_def)
  then have "endpoint_ok (rw_file w) ep'"
    using adopt.hyps(2) adopt_keeps_mapped
    by (auto simp: adopt_generation_def endpoint_ok_def split: sum.splits)
  then show ?case
    using adopt.prems adopt.hyps(1) by (simp add: world_inv_def)
qed

lemma world_reach_inv: "world_step\<^sup>*\<^sup>* w w' \<Longrightarrow> world_inv w \<Longrightarrow> world_inv w'"
  by (induction rule: rtranclp_induct) (auto intro: world_step_inv)

lemma created_inv:
  assumes "layout_ok (rd_layout d)" and run: "producer_create io d = (Inr ep, Some m)"
  shows "world_inv \<lparr>rw_file = m, rw_producers = [ep], rw_consumers = []\<rparr>"
proof -
  let ?z = "\<lparr>mp_len = unat (rl_mapping_bytes (rd_layout d)), mp_byte = \<lambda>_. 0\<rparr>"
  have map: "ring_mapped ?z d"
    using assms(1) by (simp add: ring_mapped_def)
  obtain pf where pf: "u32_try_from (rl_payload_bytes (rd_layout d)) = Some pf"
    using payload_field_ok [OF assms(1)] by metis
  have len: "4096 \<le> mp_len ?z"
    by (rule ring_mappedD(2) [OF map])
  have zero: "word_at (initialized ?z d pf) a = 0" if "72 \<le> a" "a \<le> 96" for a
    using that len by (intro initialized_zero_word) simp_all
  have ini: "initialize_mapping ?z d = (Inr (), initialized ?z d pf)"
    by (rule initialize_mapping_ok [OF map pf])
  have "claim_producer (initialized ?z d pf) =
      (Inr (), perform (initialized ?z d pf) (atomic_store 96 1))"
    using len zero by (simp add: claim_producer_eq)
  then have m: "m = perform (initialized ?z d pf) (atomic_store 96 1)"
    and ep: "ep = \<lparr>ep_descriptor = d, ep_claimed = True\<rparr>"
    using run ini by (auto simp: producer_create_def mapping_len_def split: sum.splits)
  have "unat (rl_mapping_bytes (rd_layout d)) < 2 ^ 64"
    using unsigned_less [of "rl_mapping_bytes (rd_layout d)"] by simp
  then show ?thesis
    using map len zero
    by (simp add: world_inv_def m ep endpoint_ok_def ring_mapped_def word_at_perform ivl_disjoint_nat)
qed

section \<open>Properties\<close>

text \<open>C35: The endpoints are exclusive. From the creation of a ring by its first producer, through any
  sequence of openings (successful or not), drops, publications, receptions, resets and
  adoptions by the endpoints alive, there is never a second producer nor a second consumer; the
  claim of a role fails exactly while an endpoint of that role lives, and works again after it
  was dropped.
\<close>
theorem endpoints_exclusive:
  assumes "descriptor_new width height generation = Inr d"
    and "producer_create io d = (Inr ep, Some m)"
    and "world_step\<^sup>*\<^sup>* \<lparr>rw_file = m, rw_producers = [ep], rw_consumers = []\<rparr> w"
  shows "length (rw_producers w) \<le> 1 \<and> length (rw_consumers w) \<le> 1 \<and>
    fst (claim_producer (rw_file w)) =
      (if rw_producers w = [] then Inr () else ring_err ProducerAlreadyClaimed) \<and>
    fst (claim_consumer (rw_file w)) =
      (if rw_consumers w = [] then Inr () else ring_err ConsumerAlreadyClaimed)"
proof -
  have "layout_ok (rd_layout d)"
    using assms(1) by (simp add: descriptor_new_Inr)
  then have inv: "world_inv w"
    by (intro world_reach_inv [OF assms(3)] created_inv [OF _ assms(2)])
  then have len: "4096 \<le> mp_len (rw_file w)"
    by (simp add: world_inv_def)
  show ?thesis
    using inv
    by (cases "rw_producers w"; cases "rw_consumers w")
      (auto simp: world_inv_def claim_producer_eq [OF len] claim_consumer_eq [OF len])
qed

definition no_faults :: file_faults where
  "no_faults = \<lparr>ff_open = None, ff_metadata = None, ff_set_len = None, ff_map = None, ff_flush = None\<rparr>"

definition pixel_endpoint :: endpoint where
  "pixel_endpoint = \<lparr>ep_descriptor = pixel_descriptor 5, ep_claimed = True\<rparr>"

lemma pixel_created:
  "producer_create no_faults (pixel_descriptor 5) =
     (Inr pixel_endpoint, Some (perform pixel_ring (atomic_store 96 1)))"
proof -
  have "mp_len pixel_ring = 102400"
    by (simp add: pixel_ring_def)
  moreover have "word_at pixel_ring 96 = 0"
    unfolding pixel_ring_def by (rule initialized_zero_word) simp_all
  moreover have "mapping_len pixel_layout = Inr 102400"
    by (simp add: mapping_len_def pixel_layout_def)
  ultimately show ?thesis
    using pixel_ring_fresh
    by (simp add: producer_create_def no_faults_def io_ok_def blank_pixel_mapping_def
        claim_producer_eq pixel_endpoint_def)
qed

theorem endpoints_exclusive_witness:
  "fst (claim_producer (perform pixel_ring (atomic_store 96 1))) = ring_err ProducerAlreadyClaimed \<and>
   fst (claim_producer (producer_drop (perform pixel_ring (atomic_store 96 1)) pixel_endpoint)) =
     Inr ()"
proof -
  let ?w = "\<lparr>rw_file = perform pixel_ring (atomic_store 96 1), rw_producers = [pixel_endpoint],
    rw_consumers = []\<rparr>"
  have "world_step ?w (?w\<lparr>rw_file := producer_drop (rw_file ?w) pixel_endpoint, rw_producers := [] @ []\<rparr>)"
    by (rule world_step.drop_producer) simp
  then show ?thesis
    using endpoints_exclusive [OF pixel_descriptor_new [of 5] pixel_created rtranclp.rtrancl_refl]
      endpoints_exclusive [OF pixel_descriptor_new [of 5] pixel_created r_into_rtranclp, of
        "?w\<lparr>rw_file := producer_drop (rw_file ?w) pixel_endpoint, rw_producers := [] @ []\<rparr>"]
    by simp
qed

text \<open>
  The loads of the counters, when the other endpoint moves them between the loads.
\<close>

lemma load_attempts_shift:
  assumes "\<And>t. 4096 \<le> mp_len (h t)" and "\<And>t. queue_depth_ok (h t)"
    and "\<And>t. unat (consumed_at (h t)) \<le> unat (consumed_at (h (t + 1)))"
  shows "case load_attempts n h t of
      Inr (produced, consumed, depth) \<Rightarrow>
        (\<exists>j<n. produced = produced_at (h (t + 3 * j + 1)) \<and> consumed = consumed_at (h (t + 3 * j + 1)) \<and>
          depth = produced - consumed)
    | Inl e \<Rightarrow> e = RingFail (CorruptHeader ''sequence_snapshot'') \<and>
        (\<forall>j<n. consumed_at (h (t + 3 * j)) \<noteq> consumed_at (h (t + 3 * j + 2)))"
proof (induction n arbitrary: t)
  case 0
  then show ?case by simp
next
  case (Suc n)
  have loads: "atomic_load (h i) HEADER_CONSUMER_SEQUENCE_OFFSET = Inr (consumed_at (h i))"
    "atomic_load (h i) HEADER_PRODUCER_SEQUENCE_OFFSET = Inr (produced_at (h i))" for i
    using assms(1) [of i] by (simp_all add: atomic_load_ok header_offsets)
  show ?case
  proof (cases "consumed_at (h t) = consumed_at (h (t + 2))")
    case True
    have "unat (consumed_at (h t)) \<le> unat (consumed_at (h (t + 1)))"
      "unat (consumed_at (h (t + 1))) \<le> unat (consumed_at (h (t + 2)))"
      using assms(3) [of t] assms(3) [of "t + 1"] by simp_all
    with True have mid: "consumed_at (h (t + 2)) = consumed_at (h (t + 1))"
      by (simp add: word_unat_eq_iff)
    have "checked_queue_depth (produced_at (h (t + 1))) (consumed_at (h (t + 1))) =
        Inr (produced_at (h (t + 1)) - consumed_at (h (t + 1)))"
      using assms(2) [of "t + 1"] by (simp add: checked_queue_depth_eq queue_depth_ok_def)
    then show ?thesis
      using True mid by (auto simp: loads intro!: exI [of _ 0])
  next
    case False
    have step: "load_attempts (Suc n) h t = load_attempts n h (t + 3)"
      using False by (simp add: loads)
    have reach: "t + 3 + 3 * j = t + 3 * Suc j" for j
      by simp
    show ?thesis
    proof (cases "load_attempts n h (t + 3)")
      case (Inl e)
      then have "e = RingFail (CorruptHeader ''sequence_snapshot'')"
        and later: "consumed_at (h (t + 3 * Suc j)) \<noteq> consumed_at (h (t + 3 * Suc j + 2))" if "j < n" for j
        using Suc.IH [of "t + 3"] that unfolding reach by auto
      moreover have "consumed_at (h (t + 3 * j)) \<noteq> consumed_at (h (t + 3 * j + 2))" if "j < Suc n" for j
        using that later False by (cases j) auto
      ultimately show ?thesis
        using Suc.IH [of "t + 3"] by (simp add: step Inl del: load_attempts.simps)
    next
      case (Inr r)
      obtain produced consumed depth where r: "r = (produced, consumed, depth)"
        by (cases r)
      obtain j where "j < n" "produced = produced_at (h (t + 3 * Suc j + 1))"
        "consumed = consumed_at (h (t + 3 * Suc j + 1))" "depth = produced - consumed"
        using Suc.IH [of "t + 3"] Inr r unfolding reach by auto
      then show ?thesis
        using Inr r unfolding step by (auto intro!: exI [of _ "Suc j"])
    qed
  qed
qed



end
