(* ===== verification/Compatibility.thy ===== *)
theory Compatibility
  imports LD_Prelude "HOL-Library.List_Lexorder" "HOL-Library.Char_ord" "HOL-Library.Product_Lexorder" "HOL-Library.Multiset"
begin

text \<open>
  Contracts between decks, codec packs and the host, and their resolution
  (\<open>crates/deck-runtime-contracts/src/compatibility.rs\<close>). Versions and version requirements
  come from the \<open>semver\<close> crate: a version is of a linearly ordered type \<open>'v\<close>, a requirement
  of a type \<open>'q\<close>, and the functions that the code calls are a record of parameters. A
  \<open>BTreeSet\<close> is a set.
\<close>

section \<open>Identifiers and requirements\<close>

record ('v, 'q) semver =
  sem_parse_requirement :: "string \<Rightarrow> 'q option"
  sem_wildcards :: "'q \<Rightarrow> bool list"
  sem_matches :: "'q \<Rightarrow> 'v \<Rightarrow> bool"
  sem_parse_version :: "string \<Rightarrow> 'v option"
  sem_to_string :: "'v \<Rightarrow> string"
  sem_build :: "'v \<Rightarrow> string"

datatype contract_error =
    EmptyContractId
  | ContractIdTooLong
  | InvalidContractIdCharacters
  | AnyConstraintForbidden
  | InvalidHostApiRequirement
  | InvalidHostRuntime

type_synonym contract_id = string

definition MAX_CONTRACT_ID_BYTES :: nat where
  "MAX_CONTRACT_ID_BYTES = 128"

definition MAX_HOST_API_REQUIREMENT_BYTES :: nat where
  "MAX_HOST_API_REQUIREMENT_BYTES = 256"

definition is_contract_id_byte :: "char \<Rightarrow> bool" where
  "is_contract_id_byte c = (is_ascii_alphanumeric c \<or> c \<in> set ''._:-'')"

definition validate_contract_id :: "string \<Rightarrow> contract_error + unit" where
  "validate_contract_id value =
     (if value = [] then Inl EmptyContractId
      else if length value > MAX_CONTRACT_ID_BYTES then Inl ContractIdTooLong
      else if value = ''*'' \<or> eq_ignore_ascii_case value ''any'' then Inl AnyConstraintForbidden
      else if \<not> list_all is_contract_id_byte value then Inl InvalidContractIdCharacters
      else Inr ())"

definition contract_id_new :: "string \<Rightarrow> contract_error + contract_id" where
  "contract_id_new value = try_bind (validate_contract_id value) (\<lambda>_. Inr value)"

text \<open>The UTF-8 encodings of the characters with the Unicode property \<open>White_Space\<close>, which
  \<open>str::trim\<close> removes at both ends.\<close>

definition white_space :: "string list" where
  "white_space =
     map (map char_of)
       ([[9], [10], [11], [12], [13], [32], [194, 133], [194, 160], [225, 154, 128]] @
        map (\<lambda>n. [226, 128, n]) [128..<139] @
        [[226, 128, 168], [226, 128, 169], [226, 128, 175], [226, 129, 159], [227, 128, 128 :: nat]])"

definition is_trimmed :: "string \<Rightarrow> bool" where
  "is_trimmed s \<longleftrightarrow>
     list_all (\<lambda>w. take (length w) s \<noteq> w \<and> drop (length s - length w) s \<noteq> w) white_space"

record 'q host_api_requirement =
  ha_source :: string
  ha_requirement :: 'q

definition host_api_parse ::
    "('v, 'q) semver \<Rightarrow> string \<Rightarrow> contract_error + 'q host_api_requirement" where
  "host_api_parse sem source =
     (if source = [] \<or> length source > MAX_HOST_API_REQUIREMENT_BYTES \<or> \<not> is_trimmed source
      then Inl InvalidHostApiRequirement
      else if eq_ignore_ascii_case source ''any'' then Inl AnyConstraintForbidden
      else try_bind (ok_or (sem_parse_requirement sem source) InvalidHostApiRequirement)
        (\<lambda>requirement.
           if sem_wildcards sem requirement = [] \<or> (\<exists>w\<in>set (sem_wildcards sem requirement). w)
           then Inl AnyConstraintForbidden
           else Inr \<lparr>ha_source = source, ha_requirement = requirement\<rparr>))"

definition host_api_matches :: "('v, 'q) semver \<Rightarrow> 'q host_api_requirement \<Rightarrow> 'v \<Rightarrow> bool" where
  "host_api_matches sem h version = sem_matches sem (ha_requirement h) version"

record 'v package_identity =
  pi_package_id :: contract_id
  pi_version :: 'v

definition exact_key :: "('v, 'q) semver \<Rightarrow> 'v package_identity \<Rightarrow> string \<times> string" where
  "exact_key sem i = (pi_package_id i, sem_to_string sem (pi_version i))"

datatype ordering = Less | Equal | Greater

definition cmp :: "'a::linorder \<Rightarrow> 'a \<Rightarrow> ordering" where
  "cmp a b = (if a < b then Less else if a = b then Equal else Greater)"

definition then_with :: "ordering \<Rightarrow> ordering \<Rightarrow> ordering" where
  "then_with a b = (case a of Equal \<Rightarrow> b | _ \<Rightarrow> a)"

definition compare_identity ::
    "('v::linorder, 'q) semver \<Rightarrow> 'v package_identity \<Rightarrow> 'v package_identity \<Rightarrow> ordering" where
  "compare_identity sem left right =
     then_with (then_with (cmp (pi_package_id left) (pi_package_id right))
                          (cmp (pi_version left) (pi_version right)))
       (cmp (sem_build sem (pi_version left)) (sem_build sem (pi_version right)))"

section \<open>Contracts\<close>

datatype trust_state = Trusted | Untrusted
datatype asset_state = AssetsPresent | AssetsMissing
datatype package_state = PackageValid | PackageDamaged

record package_readiness =
  rd_trust :: trust_state
  rd_assets :: asset_state
  rd_package :: package_state

definition READY :: package_readiness where
  "READY = \<lparr>rd_trust = Trusted, rd_assets = AssetsPresent, rd_package = PackageValid\<rparr>"

record 'v tensor_abi_contract =
  ta_python_implementation :: contract_id
  ta_python_version :: 'v
  ta_torch_version :: 'v
  ta_dtype :: contract_id
  ta_layout :: contract_id

record 'v profile_contract =
  pc_codec_family :: contract_id
  pc_profile :: contract_id
  pc_profile_version :: 'v

record signal_contract =
  sg_channels :: u32
  sg_latent_height :: u32
  sg_latent_width :: u32
  sg_decoded_height :: u32
  sg_decoded_width :: u32
  sg_pixel_format :: contract_id

definition signal_is_valid :: "signal_contract \<Rightarrow> bool" where
  "signal_is_valid s =
     (sg_channels s \<noteq> 0 \<and> sg_latent_height s \<noteq> 0 \<and> sg_latent_width s \<noteq> 0 \<and>
      sg_decoded_height s \<noteq> 0 \<and> sg_decoded_width s \<noteq> 0)"

record 'v timing_contract =
  tc_contract :: contract_id
  tc_contract_version :: 'v
  tc_frame_rate_numerator :: u32
  tc_frame_rate_denominator :: u32

definition timing_is_valid :: "'v timing_contract \<Rightarrow> bool" where
  "timing_is_valid t = (tc_frame_rate_numerator t \<noteq> 0 \<and> tc_frame_rate_denominator t \<noteq> 0)"

record ('v, 'q) deck_requirements =
  dr_protocol_version :: u16
  dr_host_api :: "'q host_api_requirement"
  dr_tensor_abi :: "'v tensor_abi_contract"
  dr_profile :: "'v profile_contract"
  dr_signal :: signal_contract
  dr_timing :: "'v timing_contract"
  dr_capabilities :: "contract_id set"

definition deck_requirements_is_valid :: "('v, 'q) deck_requirements \<Rightarrow> bool" where
  "deck_requirements_is_valid r =
     (dr_protocol_version r \<noteq> 0 \<and> signal_is_valid (dr_signal r) \<and> timing_is_valid (dr_timing r))"

record ('v, 'q) codec_contract =
  cc_protocol_versions :: "u16 set"
  cc_host_api :: "'q host_api_requirement"
  cc_tensor_abis :: "'v tensor_abi_contract set"
  cc_profiles :: "'v profile_contract set"
  cc_signals :: "signal_contract set"
  cc_timings :: "'v timing_contract set"
  cc_capabilities :: "contract_id set"

definition codec_contract_is_valid :: "('v, 'q) codec_contract \<Rightarrow> bool" where
  "codec_contract_is_valid c =
     (cc_protocol_versions c \<noteq> {} \<and> cc_tensor_abis c \<noteq> {} \<and> cc_profiles c \<noteq> {} \<and>
      cc_signals c \<noteq> {} \<and> cc_timings c \<noteq> {} \<and>
      (\<forall>v\<in>cc_protocol_versions c. v \<noteq> 0) \<and> (\<forall>s\<in>cc_signals c. signal_is_valid s) \<and>
      (\<forall>t\<in>cc_timings c. timing_is_valid t))"

record ('v, 'q) deck_version =
  dv_identity :: "'v package_identity"
  dv_readiness :: package_readiness
  dv_requires :: "('v, 'q) deck_requirements"

record ('v, 'q) codec_version =
  cv_identity :: "'v package_identity"
  cv_readiness :: package_readiness
  cv_provides :: "('v, 'q) codec_contract"

record 'v host_runtime =
  hr_host_api_version :: 'v
  hr_protocol_versions :: "u16 set"
  hr_tensor_abis :: "'v tensor_abi_contract set"
  hr_signals :: "signal_contract set"
  hr_timings :: "'v timing_contract set"
  hr_capabilities :: "contract_id set"

definition host_runtime_validate :: "'v host_runtime \<Rightarrow> contract_error + unit" where
  "host_runtime_validate h =
     (if hr_protocol_versions h = {} \<or> hr_tensor_abis h = {} \<or> hr_signals h = {} \<or>
         hr_timings h = {} \<or> (\<exists>v\<in>hr_protocol_versions h. v = 0) \<or>
         (\<exists>s\<in>hr_signals h. \<not> signal_is_valid s) \<or> (\<exists>t\<in>hr_timings h. \<not> timing_is_valid t)
      then Inl InvalidHostRuntime else Inr ())"

section \<open>Resolution of one pair\<close>

datatype compatibility_reason =
    Compatible | UntrustedPackage | MissingAsset | PackageInvalid | UnsupportedProtocol
  | UnsupportedHostApi | UnsupportedTensorAbi | UnsupportedProfile | UnsupportedSignal
  | UnsupportedTiming | UnsupportedCapability

definition COMPATIBILITY_REASON_PRECEDENCE :: "compatibility_reason list" where
  "COMPATIBILITY_REASON_PRECEDENCE =
     [UntrustedPackage, MissingAsset, PackageInvalid, UnsupportedProtocol, UnsupportedHostApi,
      UnsupportedTensorAbi, UnsupportedProfile, UnsupportedSignal, UnsupportedTiming,
      UnsupportedCapability, Compatible]"

record 'v compatibility_decision =
  cd_deck :: "'v package_identity"
  cd_codec :: "'v package_identity"
  cd_reason :: compatibility_reason

definition resolver_new :: "'v host_runtime \<Rightarrow> contract_error + 'v host_runtime" where
  "resolver_new host = try_bind (host_runtime_validate host) (\<lambda>_. Inr host)"

definition pair_reason ::
    "('v, 'q) semver \<Rightarrow> 'v host_runtime \<Rightarrow> ('v, 'q) deck_version \<Rightarrow> ('v, 'q) codec_version \<Rightarrow>
     compatibility_reason" where
  "pair_reason sem host deck codec =
     (let r = dv_requires deck; p = cv_provides codec in
      if rd_trust (dv_readiness deck) = Untrusted \<or> rd_trust (cv_readiness codec) = Untrusted
      then UntrustedPackage
      else if rd_assets (dv_readiness deck) = AssetsMissing \<or>
              rd_assets (cv_readiness codec) = AssetsMissing
      then MissingAsset
      else if rd_package (dv_readiness deck) = PackageDamaged \<or>
              rd_package (cv_readiness codec) = PackageDamaged \<or>
              \<not> deck_requirements_is_valid r \<or> \<not> codec_contract_is_valid p
      then PackageInvalid
      else if dr_protocol_version r \<notin> hr_protocol_versions host \<or>
              dr_protocol_version r \<notin> cc_protocol_versions p
      then UnsupportedProtocol
      else if \<not> host_api_matches sem (dr_host_api r) (hr_host_api_version host) \<or>
              \<not> host_api_matches sem (cc_host_api p) (hr_host_api_version host)
      then UnsupportedHostApi
      else if dr_tensor_abi r \<notin> hr_tensor_abis host \<or> dr_tensor_abi r \<notin> cc_tensor_abis p
      then UnsupportedTensorAbi
      else if dr_profile r \<notin> cc_profiles p then UnsupportedProfile
      else if dr_signal r \<notin> hr_signals host \<or> dr_signal r \<notin> cc_signals p
      then UnsupportedSignal
      else if dr_timing r \<notin> hr_timings host \<or> dr_timing r \<notin> cc_timings p
      then UnsupportedTiming
      else if \<not> dr_capabilities r \<subseteq> hr_capabilities host \<or>
              \<not> dr_capabilities r \<subseteq> cc_capabilities p
      then UnsupportedCapability
      else Compatible)"

definition resolve_pair ::
    "('v, 'q) semver \<Rightarrow> 'v host_runtime \<Rightarrow> ('v, 'q) deck_version \<Rightarrow> ('v, 'q) codec_version \<Rightarrow>
     'v compatibility_decision" where
  "resolve_pair sem host deck codec =
     \<lparr>cd_deck = dv_identity deck, cd_codec = cv_identity codec,
      cd_reason = pair_reason sem host deck codec\<rparr>"

section \<open>The compatibility matrix\<close>

datatype 'v matrix_error =
    DuplicateDeck "'v package_identity"
  | DuplicateCodec "'v package_identity"

fun reject_duplicates_from ::
    "('v, 'q) semver \<Rightarrow> bool \<Rightarrow> (string \<times> string) set \<Rightarrow> 'v package_identity list \<Rightarrow>
     'v matrix_error + unit" where
  "reject_duplicates_from sem deck seen [] = Inr ()"
| "reject_duplicates_from sem deck seen (i # is) =
     (if exact_key sem i \<in> seen
      then Inl (if deck then DuplicateDeck i else DuplicateCodec i)
      else reject_duplicates_from sem deck (insert (exact_key sem i) seen) is)"

definition reject_duplicate_identities ::
    "('v, 'q) semver \<Rightarrow> 'v package_identity list \<Rightarrow> bool \<Rightarrow> 'v matrix_error + unit" where
  "reject_duplicate_identities sem identities deck =
     reject_duplicates_from sem deck {} identities"

text \<open>Rust's \<open>sort_by\<close> is stable: an element stays before the equal ones that followed it.\<close>

fun insert_by :: "('a \<Rightarrow> 'a \<Rightarrow> ordering) \<Rightarrow> 'a \<Rightarrow> 'a list \<Rightarrow> 'a list" where
  "insert_by f x [] = [x]"
| "insert_by f x (y # ys) = (if f x y = Greater then y # insert_by f x ys else x # y # ys)"

definition sort_by :: "('a \<Rightarrow> 'a \<Rightarrow> ordering) \<Rightarrow> 'a list \<Rightarrow> 'a list" where
  "sort_by f xs = foldr (insert_by f) xs []"

definition resolve_matrix ::
    "('v::linorder, 'q) semver \<Rightarrow> 'v host_runtime \<Rightarrow> ('v, 'q) deck_version list \<Rightarrow>
     ('v, 'q) codec_version list \<Rightarrow> 'v matrix_error + 'v compatibility_decision list" where
  "resolve_matrix sem host decks codecs =
     try_bind (reject_duplicate_identities sem (map dv_identity decks) True) (\<lambda>_.
     try_bind (reject_duplicate_identities sem (map cv_identity codecs) False) (\<lambda>_.
     let ds = sort_by (\<lambda>a b. compare_identity sem (dv_identity a) (dv_identity b)) decks;
         cs = sort_by (\<lambda>a b. compare_identity sem (cv_identity a) (cv_identity b)) codecs
     in Inr (concat (map (\<lambda>deck. map (resolve_pair sem host deck) cs) ds))))"

section \<open>Sorting by a comparator\<close>

locale comparator_key =
  fixes compare :: "'a \<Rightarrow> 'a \<Rightarrow> ordering"
    and key :: "'a \<Rightarrow> 'k::linorder"
  assumes compare_key: "compare a b = cmp (key a) (key b)"
begin

lemma insert_by_key: "insert_by compare x ys = insort_key key x ys"
  by (induction ys) (auto simp: compare_key cmp_def)

lemma sort_by_key: "sort_by compare xs = sort_key key xs"
proof -
  have "insert_by compare = insort_key key"
    by (rule ext)+ (rule insert_by_key)
  then show ?thesis
    by (simp add: sort_by_def sort_key_def)
qed

lemma mset_sort_by [simp]: "mset (sort_by compare xs) = mset xs"
  by (simp add: sort_by_key)

lemma sort_by_unique:
  assumes "mset xs = mset ys" and "inj_on key (set xs)"
  shows "sort_by compare xs = sort_by compare ys"
  unfolding sort_by_key
  by (rule sort_key_inj_key_eq) (use assms in simp_all)

end

definition identity_key :: "('v::linorder, 'q) semver \<Rightarrow> 'v package_identity \<Rightarrow> string \<times> 'v \<times> string" where
  "identity_key sem i = (pi_package_id i, pi_version i, sem_build sem (pi_version i))"

lemma compare_identity_key:
  "compare_identity sem a b = cmp (identity_key sem a) (identity_key sem b)"
  by (auto simp: compare_identity_def identity_key_def cmp_def then_with_def less_prod_def
      split: ordering.splits)

interpretation deck_order: comparator_key
  "\<lambda>a b. compare_identity sem (dv_identity a) (dv_identity b)"
  "\<lambda>d. identity_key sem (dv_identity d)"
  for sem :: "('v::linorder, 'q) semver"
  by unfold_locales (rule compare_identity_key)

interpretation codec_order: comparator_key
  "\<lambda>a b. compare_identity sem (cv_identity a) (cv_identity b)"
  "\<lambda>c. identity_key sem (cv_identity c)"
  for sem :: "('v::linorder, 'q) semver"
  by unfold_locales (rule compare_identity_key)

lemma identity_key_exact: "identity_key sem a = identity_key sem b \<Longrightarrow> exact_key sem a = exact_key sem b"
  by (simp add: identity_key_def exact_key_def)

lemma identity_keys_inj:
  assumes "distinct (map (exact_key sem) (map f xs))"
  shows "inj_on (\<lambda>x. identity_key sem (f x)) (set xs)"
proof (rule inj_onI)
  fix x y
  assume "x \<in> set xs" "y \<in> set xs" "identity_key sem (f x) = identity_key sem (f y)"
  moreover have "inj_on (exact_key sem \<circ> f) (set xs)"
    using assms by (simp add: distinct_map)
  ultimately show "x = y"
    by (auto dest!: identity_key_exact simp: inj_on_def)
qed

lemma reject_duplicates_from_Inr:
  "reject_duplicates_from sem deck seen is = Inr () \<longleftrightarrow>
   distinct (map (exact_key sem) is) \<and> exact_key sem ` set is \<inter> seen = {}"
  by (induction sem deck seen "is" rule: reject_duplicates_from.induct) auto

lemma reject_duplicate_identities_Inr [try_iffs]:
  "reject_duplicate_identities sem is deck = Inr u \<longleftrightarrow> distinct (map (exact_key sem) is)"
  by (simp add: reject_duplicate_identities_def reject_duplicates_from_Inr)

lemma resolve_matrix_Inr:
  "resolve_matrix sem host decks codecs = Inr ds \<longleftrightarrow>
     distinct (map (exact_key sem) (map dv_identity decks)) \<and>
     distinct (map (exact_key sem) (map cv_identity codecs)) \<and>
     ds = concat (map (\<lambda>deck. map (resolve_pair sem host deck)
            (sort_by (\<lambda>a b. compare_identity sem (cv_identity a) (cv_identity b)) codecs))
            (sort_by (\<lambda>a b. compare_identity sem (dv_identity a) (dv_identity b)) decks))"
  by (auto simp: resolve_matrix_def try_iffs Let_def)

lemma mset_product:
  assumes "mset xs = mset xs'" and "mset ys = mset ys'"
  shows "mset (concat (map (\<lambda>x. map (f x) ys) xs)) = mset (concat (map (\<lambda>x. map (f x) ys') xs'))"
proof -
  have p: "mset (concat (map (\<lambda>x. map (f x) zs) us)) =
      (\<Sum>x\<in>#mset us. image_mset (f x) (mset zs))" for zs us
    by (induction us) simp_all
  show ?thesis
    by (simp only: p assms)
qed

section \<open>The published precedence\<close>

text \<open>Which reason applies to a pair, each on its own.\<close>

primrec pair_problem ::
    "('v, 'q) semver \<Rightarrow> 'v host_runtime \<Rightarrow> ('v, 'q) deck_version \<Rightarrow> ('v, 'q) codec_version \<Rightarrow>
     compatibility_reason \<Rightarrow> bool" where
  "pair_problem sem h d c Compatible = True"
| "pair_problem sem h d c UntrustedPackage =
     (rd_trust (dv_readiness d) = Untrusted \<or> rd_trust (cv_readiness c) = Untrusted)"
| "pair_problem sem h d c MissingAsset =
     (rd_assets (dv_readiness d) = AssetsMissing \<or> rd_assets (cv_readiness c) = AssetsMissing)"
| "pair_problem sem h d c PackageInvalid =
     (rd_package (dv_readiness d) = PackageDamaged \<or> rd_package (cv_readiness c) = PackageDamaged \<or>
      \<not> (deck_requirements_is_valid (dv_requires d) \<and> codec_contract_is_valid (cv_provides c)))"
| "pair_problem sem h d c UnsupportedProtocol =
     (dr_protocol_version (dv_requires d) \<notin>
        hr_protocol_versions h \<inter> cc_protocol_versions (cv_provides c))"
| "pair_problem sem h d c UnsupportedHostApi =
     (\<not> (host_api_matches sem (dr_host_api (dv_requires d)) (hr_host_api_version h) \<and>
         host_api_matches sem (cc_host_api (cv_provides c)) (hr_host_api_version h)))"
| "pair_problem sem h d c UnsupportedTensorAbi =
     (dr_tensor_abi (dv_requires d) \<notin> hr_tensor_abis h \<inter> cc_tensor_abis (cv_provides c))"
| "pair_problem sem h d c UnsupportedProfile =
     (dr_profile (dv_requires d) \<notin> cc_profiles (cv_provides c))"
| "pair_problem sem h d c UnsupportedSignal =
     (dr_signal (dv_requires d) \<notin> hr_signals h \<inter> cc_signals (cv_provides c))"
| "pair_problem sem h d c UnsupportedTiming =
     (dr_timing (dv_requires d) \<notin> hr_timings h \<inter> cc_timings (cv_provides c))"
| "pair_problem sem h d c UnsupportedCapability =
     (\<not> dr_capabilities (dv_requires d) \<subseteq> hr_capabilities h \<inter> cc_capabilities (cv_provides c))"

lemma pair_reason_Compatible:
  "pair_reason sem h d c = Compatible \<longleftrightarrow> (\<forall>r. r \<noteq> Compatible \<longrightarrow> \<not> pair_problem sem h d c r)"
proof -
  have all: "(\<forall>r. r \<noteq> Compatible \<longrightarrow> P r) \<longleftrightarrow>
      P UntrustedPackage \<and> P MissingAsset \<and> P PackageInvalid \<and> P UnsupportedProtocol \<and>
      P UnsupportedHostApi \<and> P UnsupportedTensorAbi \<and> P UnsupportedProfile \<and>
      P UnsupportedSignal \<and> P UnsupportedTiming \<and> P UnsupportedCapability" for P
  proof (intro iffI allI impI)
    fix r
    assume "P UntrustedPackage \<and> P MissingAsset \<and> P PackageInvalid \<and> P UnsupportedProtocol \<and>
      P UnsupportedHostApi \<and> P UnsupportedTensorAbi \<and> P UnsupportedProfile \<and>
      P UnsupportedSignal \<and> P UnsupportedTiming \<and> P UnsupportedCapability" and "r \<noteq> Compatible"
    then show "P r"
      by (cases r) simp_all
  qed simp
  show ?thesis
    unfolding all by (auto simp: pair_reason_def Let_def)
qed

text \<open>A host that supports at least as much, at the same version.\<close>

definition host_extends :: "'v host_runtime \<Rightarrow> 'v host_runtime \<Rightarrow> bool" where
  "host_extends h h' \<longleftrightarrow>
     hr_host_api_version h' = hr_host_api_version h \<and>
     hr_protocol_versions h \<subseteq> hr_protocol_versions h' \<and> hr_tensor_abis h \<subseteq> hr_tensor_abis h' \<and>
     hr_signals h \<subseteq> hr_signals h' \<and> hr_timings h \<subseteq> hr_timings h' \<and>
     hr_capabilities h \<subseteq> hr_capabilities h'"

section \<open>Properties\<close>

text \<open>The published precedence. The reason that a resolver reports for a pair is the first
  entry of the published precedence list that applies to the pair, and the decision names
  exactly that deck and that codec.\<close>

theorem resolve_pair_precedence:
  "find (pair_problem sem host deck codec) COMPATIBILITY_REASON_PRECEDENCE =
     Some (cd_reason (resolve_pair sem host deck codec)) \<and>
   cd_deck (resolve_pair sem host deck codec) = dv_identity deck \<and>
   cd_codec (resolve_pair sem host deck codec) = cv_identity codec"
  by (simp add: resolve_pair_def pair_reason_def COMPATIBILITY_REASON_PRECEDENCE_def Let_def)

text \<open>A more capable host keeps what worked. When a host of the same API version supports
  at least the protocols, tensor ABIs, signals, timings and capabilities of another, every pair
  that is compatible on the smaller host is compatible on the larger one.\<close>

theorem compatible_host_monotone:
  assumes "host_extends host host'" and "cd_reason (resolve_pair sem host deck codec) = Compatible"
  shows "cd_reason (resolve_pair sem host' deck codec) = Compatible"
proof -
  have "\<not> pair_problem sem host' deck codec r" if "\<not> pair_problem sem host deck codec r" for r
    using that assms(1) by (cases r) (auto simp: host_extends_def)
  then show ?thesis
    using assms(2) by (simp add: resolve_pair_def pair_reason_Compatible)
qed

text \<open>The matrix does not depend on the order of installation. Permuting the decks and the
  codec packs changes neither whether a matrix is computed nor the matrix.\<close>

theorem resolve_matrix_order_independent:
  assumes "mset decks = mset decks'" and "mset codecs = mset codecs'"
  shows "case resolve_matrix sem host decks codecs of
      Inr ds \<Rightarrow> resolve_matrix sem host decks' codecs' = Inr ds
    | Inl e \<Rightarrow> isl (resolve_matrix sem host decks' codecs')"
proof -
  have keys: "distinct (map (exact_key sem) (map dv_identity decks)) \<longleftrightarrow>
        distinct (map (exact_key sem) (map dv_identity decks'))"
      "distinct (map (exact_key sem) (map cv_identity codecs)) \<longleftrightarrow>
        distinct (map (exact_key sem) (map cv_identity codecs'))"
    using assms by (metis mset_eq_imp_distinct_iff mset_map)+
  show ?thesis
  proof (cases "resolve_matrix sem host decks codecs")
    case (Inl e)
    then have "\<not> (\<exists>ds. resolve_matrix sem host decks' codecs' = Inr ds)"
      by (metis Inl_Inr_False keys resolve_matrix_Inr)
    then show ?thesis
      using Inl by (cases "resolve_matrix sem host decks' codecs'") auto
  next
    case (Inr ds)
    note ok = Inr [unfolded resolve_matrix_Inr]
    then have d: "distinct (map (exact_key sem) (map dv_identity decks))"
      and c: "distinct (map (exact_key sem) (map cv_identity codecs))"
      by blast+
    have "resolve_matrix sem host decks' codecs' = Inr ds"
      unfolding resolve_matrix_Inr
      using ok keys deck_order.sort_by_unique [OF assms(1) identity_keys_inj [OF d]]
        codec_order.sort_by_unique [OF assms(2) identity_keys_inj [OF c]]
      by simp
    then show ?thesis
      by (simp add: Inr)
  qed
qed

text \<open>The matrix is complete. A matrix is computed exactly when no deck and no codec pack is
  installed twice, and it then holds one decision for every deck with every codec pack.\<close>

theorem resolve_matrix_complete:
  "case resolve_matrix sem host decks codecs of
     Inr ds \<Rightarrow> distinct (map (exact_key sem) (map dv_identity decks)) \<and>
       distinct (map (exact_key sem) (map cv_identity codecs)) \<and>
       mset ds = mset (concat (map (\<lambda>deck. map (resolve_pair sem host deck) codecs) decks))
   | Inl e \<Rightarrow> \<not> (distinct (map (exact_key sem) (map dv_identity decks)) \<and>
       distinct (map (exact_key sem) (map cv_identity codecs)))"
proof (cases "resolve_matrix sem host decks codecs")
  case (Inl e)
  then show ?thesis
    using resolve_matrix_Inr [of sem host decks codecs] by auto
next
  case (Inr ds)
  note ok = Inr [unfolded resolve_matrix_Inr]
  then have "mset ds = mset (concat (map (\<lambda>deck. map (resolve_pair sem host deck) codecs) decks))"
    by (auto intro!: mset_product)
  then show ?thesis
    using ok by (simp add: Inr)
qed

text \<open>Contract identifiers and host requirements are explicit. An identifier is accepted
  exactly when it has 1 to 128 bytes of the permitted alphabet and is not the word any in
  whatever case; a host requirement that is accepted keeps its text, and has comparators none
  of which is a wildcard.\<close>

theorem explicit_constraints:
  "(contract_id_new value = Inr i \<longleftrightarrow>
      i = value \<and> 1 \<le> length value \<and> length value \<le> 128 \<and>
      list_all is_contract_id_byte value \<and> map to_ascii_lowercase value \<noteq> ''any'') \<and>
   (host_api_parse sem source = Inr h \<longleftrightarrow>
      ha_source h = source \<and> sem_parse_requirement sem source = Some (ha_requirement h) \<and>
      1 \<le> length source \<and> length source \<le> 256 \<and> is_trimmed source \<and>
      map to_ascii_lowercase source \<noteq> ''any'' \<and>
      sem_wildcards sem (ha_requirement h) \<noteq> [] \<and>
      list_all Not (sem_wildcards sem (ha_requirement h)))"
proof
  have any: "eq_ignore_ascii_case v ''any'' \<longleftrightarrow> map to_ascii_lowercase v = ''any''" for v
    by (simp add: eq_ignore_ascii_case_def to_ascii_lowercase_def is_ascii_uppercase_def byte_val_def)
  have "\<not> is_contract_id_byte (CHR ''*'')"
    by (simp add: is_contract_id_byte_def ascii_defs)
  then show "contract_id_new value = Inr i \<longleftrightarrow>
      i = value \<and> 1 \<le> length value \<and> length value \<le> 128 \<and>
      list_all is_contract_id_byte value \<and> map to_ascii_lowercase value \<noteq> ''any''"
    by (cases "value") (auto simp: contract_id_new_def validate_contract_id_def any
        MAX_CONTRACT_ID_BYTES_def)
  show "host_api_parse sem source = Inr h \<longleftrightarrow>
      ha_source h = source \<and> sem_parse_requirement sem source = Some (ha_requirement h) \<and>
      1 \<le> length source \<and> length source \<le> 256 \<and> is_trimmed source \<and>
      map to_ascii_lowercase source \<noteq> ''any'' \<and>
      sem_wildcards sem (ha_requirement h) \<noteq> [] \<and>
      list_all Not (sem_wildcards sem (ha_requirement h))"
    by (cases source; cases h)
      (auto simp: host_api_parse_def any try_iffs MAX_HOST_API_REQUIREMENT_BYTES_def list_all_iff
        split: if_splits)
qed

section \<open>Witnesses\<close>

text \<open>A sample of the third-party interface (versions are numbers, a requirement is a least
  version), two decks, a codec pack and two hosts.\<close>

definition sample_semver :: "(nat, nat) semver" where
  "sample_semver =
     \<lparr>sem_parse_requirement = (\<lambda>s. Some (length s)), sem_wildcards = (\<lambda>q. [False]),
      sem_matches = (\<lambda>q v. q \<le> v), sem_parse_version = (\<lambda>s. Some (length s)),
      sem_to_string = (\<lambda>v. replicate v (CHR ''1'')), sem_build = (\<lambda>v. [])\<rparr>"

definition sample_signal :: signal_contract where
  "sample_signal = \<lparr>sg_channels = 16, sg_latent_height = 56, sg_latent_width = 100,
     sg_decoded_height = 448, sg_decoded_width = 800, sg_pixel_format = ''rgba8''\<rparr>"

definition sample_abi :: "nat tensor_abi_contract" where
  "sample_abi = \<lparr>ta_python_implementation = ''cpython'', ta_python_version = 3,
     ta_torch_version = 2, ta_dtype = ''bf16'', ta_layout = ''nchw''\<rparr>"

definition sample_profile :: "nat profile_contract" where
  "sample_profile = \<lparr>pc_codec_family = ''minimax_h3'', pc_profile = ''h3_av_latent'',
     pc_profile_version = 1\<rparr>"

definition sample_timing :: "nat timing_contract" where
  "sample_timing = \<lparr>tc_contract = ''h3'', tc_contract_version = 1,
     tc_frame_rate_numerator = 24, tc_frame_rate_denominator = 1\<rparr>"

definition sample_deck :: "string \<Rightarrow> (nat, nat) deck_version" where
  "sample_deck i = \<lparr>dv_identity = \<lparr>pi_package_id = i, pi_version = 1\<rparr>, dv_readiness = READY,
     dv_requires = \<lparr>dr_protocol_version = 1, dr_host_api = \<lparr>ha_source = ''>1'', ha_requirement = 1\<rparr>,
       dr_tensor_abi = sample_abi, dr_profile = sample_profile, dr_signal = sample_signal,
       dr_timing = sample_timing, dr_capabilities = {''mix''}\<rparr>\<rparr>"

definition sample_codec :: "(nat, nat) codec_version" where
  "sample_codec = \<lparr>cv_identity = \<lparr>pi_package_id = ''pack'', pi_version = 1\<rparr>, cv_readiness = READY,
     cv_provides = \<lparr>cc_protocol_versions = {1}, cc_host_api = \<lparr>ha_source = ''>1'', ha_requirement = 1\<rparr>,
       cc_tensor_abis = {sample_abi}, cc_profiles = {sample_profile}, cc_signals = {sample_signal},
       cc_timings = {sample_timing}, cc_capabilities = {''mix'', ''blend''}\<rparr>\<rparr>"

definition sample_host :: "contract_id set \<Rightarrow> nat host_runtime" where
  "sample_host capabilities = \<lparr>hr_host_api_version = 2, hr_protocol_versions = {1},
     hr_tensor_abis = {sample_abi}, hr_signals = {sample_signal}, hr_timings = {sample_timing},
     hr_capabilities = capabilities\<rparr>"

lemma sample_compatible:
  "cd_reason (resolve_pair sample_semver (sample_host {''mix''}) (sample_deck i) sample_codec) = Compatible"
  by (simp add: resolve_pair_def pair_reason_def sample_deck_def sample_codec_def sample_host_def
      READY_def deck_requirements_is_valid_def codec_contract_is_valid_def signal_is_valid_def
      timing_is_valid_def sample_signal_def sample_timing_def host_api_matches_def sample_semver_def)

theorem compatible_host_monotone_witness:
  "cd_reason (resolve_pair sample_semver (sample_host {''mix'', ''record''}) (sample_deck ''deck'')
     sample_codec) = Compatible"
  by (rule compatible_host_monotone [OF _ sample_compatible])
    (simp add: host_extends_def sample_host_def)

theorem resolve_matrix_order_independent_witness:
  "case resolve_matrix sample_semver (sample_host {''mix''}) [sample_deck ''b'', sample_deck ''a''] [sample_codec] of
     Inr ds \<Rightarrow> resolve_matrix sample_semver (sample_host {''mix''})
        [sample_deck ''a'', sample_deck ''b''] [sample_codec] = Inr ds
   | Inl e \<Rightarrow> isl (resolve_matrix sample_semver (sample_host {''mix''})
        [sample_deck ''a'', sample_deck ''b''] [sample_codec])"
  by (rule resolve_matrix_order_independent) simp_all

end
