(* ===== verification/Ordered_Map.thy ===== *)
theory Ordered_Map
  imports LD_Prelude "HOL-Library.List_Lexorder" "HOL-Library.Char_ord"
begin

text \<open>
  The standard library's \<open>BTreeMap\<close>: an association list in strictly ascending key order, so
  that iteration visits the values in key order. The interface \<open>key_store\<close> states what a client
  relies on; the map is its interpretation.
\<close>

section \<open>The interface\<close>

locale key_store =
  fixes wf :: "'m \<Rightarrow> bool"
    and lookup :: "'m \<Rightarrow> 'k \<Rightarrow> 'v option"
    and put :: "'m \<Rightarrow> 'k \<Rightarrow> 'v \<Rightarrow> 'm"
    and del :: "'m \<Rightarrow> 'k \<Rightarrow> 'm"
    and size_of :: "'m \<Rightarrow> nat"
  assumes put_wf: "wf m \<Longrightarrow> wf (put m k v)"
    and del_wf: "wf m \<Longrightarrow> wf (del m k)"
    and lookup_put: "wf m \<Longrightarrow> lookup (put m k v) k' = (if k' = k then Some v else lookup m k')"
    and lookup_del: "wf m \<Longrightarrow> lookup (del m k) k' = (if k' = k then None else lookup m k')"
    and size_put: "wf m \<Longrightarrow> size_of (put m k v) = (if lookup m k = None then size_of m + 1 else size_of m)"
    and size_del: "wf m \<Longrightarrow> size_of (del m k) = (if lookup m k = None then size_of m else size_of m - 1)"
begin

text \<open>The values held, and a property of them that an operation keeps.\<close>

definition holds :: "('k \<Rightarrow> 'v \<Rightarrow> bool) \<Rightarrow> 'm \<Rightarrow> bool" where
  "holds P m \<longleftrightarrow> (\<forall>k v. lookup m k = Some v \<longrightarrow> P k v)"

lemma holds_put: "wf m \<Longrightarrow> holds P m \<Longrightarrow> P k v \<Longrightarrow> holds P (put m k v)"
  by (simp add: holds_def lookup_put)

lemma holds_del: "wf m \<Longrightarrow> holds P m \<Longrightarrow> holds P (del m k)"
  by (simp add: holds_def lookup_del)

text \<open>An injective attribute of the values (no two keys share it).\<close>

definition attribute_unique :: "('v \<Rightarrow> 'w) \<Rightarrow> 'm \<Rightarrow> bool" where
  "attribute_unique f m \<longleftrightarrow>
     (\<forall>k k' v v'. lookup m k = Some v \<longrightarrow> lookup m k' = Some v' \<longrightarrow> f v = f v' \<longrightarrow> k = k')"

lemma unique_put:
  assumes "wf m" and "attribute_unique f m"
    and "\<And>k' v'. lookup m k' = Some v' \<Longrightarrow> k' \<noteq> k \<Longrightarrow> f v' \<noteq> f v"
  shows "attribute_unique f (put m k v)"
  using assms unfolding attribute_unique_def by (simp add: lookup_put) metis

lemma unique_del: "wf m \<Longrightarrow> attribute_unique f m \<Longrightarrow> attribute_unique f (del m k)"
  unfolding attribute_unique_def by (simp add: lookup_del)

end

section \<open>The map\<close>

type_synonym ('k, 'v) btree_map = "('k \<times> 'v) list"

definition bt_wf :: "('k::linorder, 'v) btree_map \<Rightarrow> bool" where
  "bt_wf m = sorted_wrt (<) (map fst m)"

definition bt_get :: "('k, 'v) btree_map \<Rightarrow> 'k \<Rightarrow> 'v option" where
  "bt_get m k = map_of m k"

fun bt_insert :: "('k::linorder, 'v) btree_map \<Rightarrow> 'k \<Rightarrow> 'v \<Rightarrow> ('k, 'v) btree_map" where
  "bt_insert [] k v = [(k, v)]"
| "bt_insert ((k', v') # m) k v =
     (if k < k' then (k, v) # (k', v') # m
      else if k = k' then (k, v) # m
      else (k', v') # bt_insert m k v)"

definition bt_remove :: "('k, 'v) btree_map \<Rightarrow> 'k \<Rightarrow> ('k, 'v) btree_map" where
  "bt_remove m k = filter (\<lambda>(k', v). k' \<noteq> k) m"

definition bt_values :: "('k, 'v) btree_map \<Rightarrow> 'v list" where
  "bt_values m = map snd m"

lemma bt_insert_keys: "set (map fst (bt_insert m k v)) = insert k (set (map fst m))"
  by (induction m k v rule: bt_insert.induct) auto

lemma bt_insert_wf: "bt_wf m \<Longrightarrow> bt_wf (bt_insert m k v)"
proof (induction m k v rule: bt_insert.induct)
  case (1 k v)
  then show ?case by (simp add: bt_wf_def)
next
  case (2 k' v' m k v)
  have "x \<in> set (map fst (bt_insert m k v)) \<Longrightarrow> k' < x" if "\<not> k < k'" "k \<noteq> k'" for x
    using 2 that unfolding bt_insert_keys by (auto simp: bt_wf_def)
  then show ?case
    using 2 by (auto simp: bt_wf_def)
qed

lemma bt_remove_wf: "bt_wf m \<Longrightarrow> bt_wf (bt_remove m k)"
  by (simp add: bt_wf_def bt_remove_def sorted_wrt_map sorted_wrt_filter)

lemma bt_get_insert:
  "bt_wf m \<Longrightarrow> bt_get (bt_insert m k v) k' = (if k' = k then Some v else bt_get m k')"
  by (induction m k v rule: bt_insert.induct) (auto simp: bt_get_def bt_wf_def)

lemma bt_get_remove: "bt_get (bt_remove m k) k' = (if k' = k then None else bt_get m k')"
  by (induction m) (auto simp: bt_get_def bt_remove_def)

lemma bt_wf_distinct: "bt_wf m \<Longrightarrow> distinct (map fst m)"
  by (auto simp: bt_wf_def strict_sorted_iff)

lemma bt_get_iff: "bt_wf m \<Longrightarrow> bt_get m k = Some v \<longleftrightarrow> (k, v) \<in> set m"
  by (simp add: bt_get_def bt_wf_distinct)

lemma bt_get_None: "bt_get m k = None \<longleftrightarrow> k \<notin> fst ` set m"
  by (simp add: bt_get_def map_of_eq_None_iff)

lemma bt_insert_length:
  "bt_wf m \<Longrightarrow> length (bt_insert m k v) = (if bt_get m k = None then length m + 1 else length m)"
proof (induction m k v rule: bt_insert.induct)
  case (1 k v)
  then show ?case by (simp add: bt_get_def)
next
  case (2 k' v' m k v)
  show ?case
  proof (cases "k < k'")
    case True
    then have "\<forall>x\<in>set (map fst m). k \<noteq> x"
      using 2 by (auto simp: bt_wf_def)
    with True show ?thesis
      by (auto simp: bt_get_def map_of_eq_None_iff)
  next
    case False
    then show ?thesis
      using 2 by (auto simp: bt_wf_def bt_get_def)
  qed
qed

lemma bt_remove_length:
  "bt_wf m \<Longrightarrow> length (bt_remove m k) = (if bt_get m k = None then length m else length m - 1)"
proof (induction m)
  case Nil
  then show ?case by (simp add: bt_get_def bt_remove_def)
next
  case (Cons kv m)
  have wf: "bt_wf m" and less: "\<forall>x\<in>set (map fst m). fst kv < x"
    using Cons.prems by (auto simp: bt_wf_def)
  have "m \<noteq> []" if "bt_get m k \<noteq> None"
    using that by (auto simp: bt_get_def)
  moreover have "bt_get m k = None" if "fst kv = k"
    using less that by (auto simp: bt_get_None)
  ultimately show ?case
    using Cons.IH [OF wf] by (cases kv) (auto simp: bt_get_def bt_remove_def split: if_splits)
qed

lemma bt_values_iff: "bt_wf m \<Longrightarrow> v \<in> set (bt_values m) \<longleftrightarrow> (\<exists>k. bt_get m k = Some v)"
  by (force simp: bt_values_def bt_get_iff)

interpretation btree: key_store bt_wf bt_get bt_insert bt_remove length
  by unfold_locales
    (simp_all add: bt_insert_wf bt_remove_wf bt_get_insert bt_get_remove bt_insert_length
      bt_remove_length)

end
