(* ===== verification/Session_Broker.thy ===== *)
theory Session_Broker
  imports Compatibility Ordered_Map
begin

text \<open>
  The session broker (\<open>crates/deck-runtime-contracts/src/broker.rs\<close>): at most four warm
  sessions, each with a worker of its own; one session may hold the lease on the foreground
  output, and the holder may pin it for a capture or a recording. Leases and pins carry
  generations, so that a stale token is never mistaken for a current one.
\<close>

section \<open>State\<close>

type_synonym session_id = contract_id
type_synonym worker_id = contract_id

definition MAX_WARM_SESSIONS :: nat where
  "MAX_WARM_SESSIONS = 4"

definition session_id_new :: "string \<Rightarrow> contract_error + session_id" where
  "session_id_new v = contract_id_new v"

record 'v warm_session =
  ws_session_id :: session_id
  ws_worker_id :: worker_id
  ws_deck :: "'v package_identity"
  ws_codec :: "'v package_identity"

record foreground_lease =
  fl_session_id :: session_id
  fl_generation :: u64

datatype output_pin_kind = PinCapture | PinMp4

record output_pin_token =
  op_session_id :: session_id
  op_lease_generation :: u64
  op_pin_generation :: u64
  op_kind :: output_pin_kind

record 'v session_snapshot =
  sn_sessions :: "'v warm_session list"
  sn_foreground_output :: "foreground_lease option"
  sn_output_pin :: "output_pin_token option"

record 'v session_broker =
  sb_sessions :: "(session_id, 'v warm_session) btree_map"
  sb_foreground_output :: "foreground_lease option"
  sb_output_pin :: "output_pin_token option"
  sb_next_lease_generation :: u64
  sb_next_pin_generation :: u64

datatype broker_error =
    SessionCapacityExceeded | SessionAlreadyExists | WorkerAlreadyAssigned | SessionNotFound
  | WorkerNotFound | SessionOutputLeasePinned | SessionDoesNotOwnForeground | OutputPinMismatch
  | LeaseGenerationExhausted | PinGenerationExhausted

primrec broker_error_code :: "broker_error \<Rightarrow> string" where
  "broker_error_code SessionCapacityExceeded = ''session.capacity_exceeded''"
| "broker_error_code SessionAlreadyExists = ''session.already_exists''"
| "broker_error_code WorkerAlreadyAssigned = ''session.worker_already_assigned''"
| "broker_error_code SessionNotFound = ''session.not_found''"
| "broker_error_code WorkerNotFound = ''session.worker_not_found''"
| "broker_error_code SessionOutputLeasePinned = ''session.output_lease_pinned''"
| "broker_error_code SessionDoesNotOwnForeground = ''session.output_lease_not_owned''"
| "broker_error_code OutputPinMismatch = ''session.output_pin_mismatch''"
| "broker_error_code LeaseGenerationExhausted = ''session.lease_generation_exhausted''"
| "broker_error_code PinGenerationExhausted = ''session.pin_generation_exhausted''"

section \<open>Operations\<close>

definition broker_new :: "'v session_broker" where
  "broker_new =
     \<lparr>sb_sessions = [], sb_foreground_output = None, sb_output_pin = None,
      sb_next_lease_generation = 0, sb_next_pin_generation = 0\<rparr>"

definition contains_session :: "'v session_broker \<Rightarrow> session_id \<Rightarrow> bool" where
  "contains_session b i = (bt_get (sb_sessions b) i \<noteq> None)"

definition snapshot :: "'v session_broker \<Rightarrow> 'v session_snapshot" where
  "snapshot b =
     \<lparr>sn_sessions = bt_values (sb_sessions b), sn_foreground_output = sb_foreground_output b,
      sn_output_pin = sb_output_pin b\<rparr>"

definition open_session ::
    "'v session_broker \<Rightarrow> 'v warm_session \<Rightarrow> (broker_error + unit) \<times> 'v session_broker" where
  "open_session b session =
     (if contains_session b (ws_session_id session) then (Inl SessionAlreadyExists, b)
      else if list_ex (\<lambda>existing. ws_worker_id existing = ws_worker_id session) (bt_values (sb_sessions b))
      then (Inl WorkerAlreadyAssigned, b)
      else if length (sb_sessions b) = MAX_WARM_SESSIONS then (Inl SessionCapacityExceeded, b)
      else (Inr (), b\<lparr>sb_sessions := bt_insert (sb_sessions b) (ws_session_id session) session\<rparr>))"

definition replace_worker ::
    "'v session_broker \<Rightarrow> session_id \<Rightarrow> worker_id \<Rightarrow>
     (broker_error + 'v warm_session) \<times> 'v session_broker" where
  "replace_worker b i worker =
     (if \<not> contains_session b i then (Inl SessionNotFound, b)
      else if list_ex (\<lambda>session. ws_worker_id session = worker) (bt_values (sb_sessions b))
      then (Inl WorkerAlreadyAssigned, b)
      else try_with (ok_or (bt_get (sb_sessions b) i) SessionNotFound) b (\<lambda>session.
        let session' = session\<lparr>ws_worker_id := worker\<rparr>
        in (Inr session', b\<lparr>sb_sessions := bt_insert (sb_sessions b) i session'\<rparr>)))"

definition pin_of_session :: "'v session_broker \<Rightarrow> session_id \<Rightarrow> bool" where
  "pin_of_session b i =
     (case sb_output_pin b of None \<Rightarrow> False | Some pin \<Rightarrow> op_session_id pin = i)"

definition foreground_is :: "'v session_broker \<Rightarrow> session_id \<Rightarrow> bool" where
  "foreground_is b i =
     (case sb_foreground_output b of None \<Rightarrow> False | Some lease \<Rightarrow> fl_session_id lease = i)"

definition close_session ::
    "'v session_broker \<Rightarrow> session_id \<Rightarrow> (broker_error + 'v warm_session) \<times> 'v session_broker" where
  "close_session b i =
     (if \<not> contains_session b i then (Inl SessionNotFound, b)
      else if pin_of_session b i then (Inl SessionOutputLeasePinned, b)
      else try_with (ok_or (bt_get (sb_sessions b) i) SessionNotFound) b (\<lambda>removed.
        let b1 = b\<lparr>sb_sessions := bt_remove (sb_sessions b) i\<rparr>
        in (Inr removed, if foreground_is b i then b1\<lparr>sb_foreground_output := None\<rparr> else b1)))"

definition handle_worker_fault ::
    "'v session_broker \<Rightarrow> worker_id \<Rightarrow> (broker_error + 'v warm_session) \<times> 'v session_broker" where
  "handle_worker_fault b worker =
     try_with (ok_or (map_option ws_session_id
         (find (\<lambda>session. ws_worker_id session = worker) (bt_values (sb_sessions b)))) WorkerNotFound) b
       (\<lambda>i. try_with (ok_or (bt_get (sb_sessions b) i) SessionNotFound) b (\<lambda>removed.
         let b1 = b\<lparr>sb_sessions := bt_remove (sb_sessions b) i\<rparr>
         in (Inr removed,
             if foreground_is b i then b1\<lparr>sb_foreground_output := None, sb_output_pin := None\<rparr>
             else b1)))"

definition switch_foreground ::
    "'v session_broker \<Rightarrow> session_id \<Rightarrow> (broker_error + foreground_lease) \<times> 'v session_broker" where
  "switch_foreground b i =
     (if \<not> contains_session b i then (Inl SessionNotFound, b)
      else case (if foreground_is b i then sb_foreground_output b else None) of
        Some current \<Rightarrow> (Inr current, b)
      | None \<Rightarrow>
          if sb_output_pin b \<noteq> None then (Inl SessionOutputLeasePinned, b)
          else try_with (ok_or (checked_add (sb_next_lease_generation b) 1) LeaseGenerationExhausted) b
            (\<lambda>n. let lease = \<lparr>fl_session_id = i, fl_generation = n\<rparr>
                 in (Inr lease, b\<lparr>sb_next_lease_generation := n, sb_foreground_output := Some lease\<rparr>)))"

definition clear_foreground ::
    "'v session_broker \<Rightarrow> (broker_error + foreground_lease option) \<times> 'v session_broker" where
  "clear_foreground b =
     (if sb_output_pin b \<noteq> None then (Inl SessionOutputLeasePinned, b)
      else (Inr (sb_foreground_output b), b\<lparr>sb_foreground_output := None\<rparr>))"

definition pin_foreground ::
    "'v session_broker \<Rightarrow> session_id \<Rightarrow> output_pin_kind \<Rightarrow>
     (broker_error + output_pin_token) \<times> 'v session_broker" where
  "pin_foreground b i kind =
     try_with (ok_or (if foreground_is b i then sb_foreground_output b else None)
         SessionDoesNotOwnForeground) b (\<lambda>lease.
     if sb_output_pin b \<noteq> None then (Inl SessionOutputLeasePinned, b)
     else try_with (ok_or (checked_add (sb_next_pin_generation b) 1) PinGenerationExhausted) b
       (\<lambda>n. let token = \<lparr>op_session_id = i, op_lease_generation = fl_generation lease,
                          op_pin_generation = n, op_kind = kind\<rparr>
            in (Inr token, b\<lparr>sb_next_pin_generation := n, sb_output_pin := Some token\<rparr>)))"

definition release_output_pin ::
    "'v session_broker \<Rightarrow> output_pin_token \<Rightarrow> (broker_error + unit) \<times> 'v session_broker" where
  "release_output_pin b token =
     (if sb_output_pin b \<noteq> Some token then (Inl OutputPinMismatch, b)
      else (Inr (), b\<lparr>sb_output_pin := None\<rparr>))"

datatype 'v broker_op =
    OpenSession "'v warm_session"
  | ReplaceWorker session_id worker_id
  | CloseSession session_id
  | WorkerFault worker_id
  | SwitchForeground session_id
  | ClearForeground
  | PinForeground session_id output_pin_kind
  | ReleasePin output_pin_token

datatype 'v broker_reply =
    Opened
  | SessionReply "'v warm_session"
  | LeaseReply foreground_lease
  | ClearedReply "foreground_lease option"
  | PinReply output_pin_token
  | Released

definition reply_with :: "('a \<Rightarrow> 'r) \<Rightarrow> (broker_error + 'a) \<times> 's \<Rightarrow> (broker_error + 'r) \<times> 's" where
  "reply_with f x = (case x of (Inl e, s) \<Rightarrow> (Inl e, s) | (Inr v, s) \<Rightarrow> (Inr (f v), s))"

primrec broker_step ::
    "'v session_broker \<Rightarrow> 'v broker_op \<Rightarrow> (broker_error + 'v broker_reply) \<times> 'v session_broker" where
  "broker_step b (OpenSession s) = reply_with (\<lambda>_. Opened) (open_session b s)"
| "broker_step b (ReplaceWorker i w) = reply_with SessionReply (replace_worker b i w)"
| "broker_step b (CloseSession i) = reply_with SessionReply (close_session b i)"
| "broker_step b (WorkerFault w) = reply_with SessionReply (handle_worker_fault b w)"
| "broker_step b (SwitchForeground i) = reply_with LeaseReply (switch_foreground b i)"
| "broker_step b ClearForeground = reply_with ClearedReply (clear_foreground b)"
| "broker_step b (PinForeground i k) = reply_with PinReply (pin_foreground b i k)"
| "broker_step b (ReleasePin t) = reply_with (\<lambda>_. Released) (release_output_pin b t)"

section \<open>When an operation succeeds\<close>

lemma reply_with_Inr [try_iffs]: "reply_with f x = (Inr y, s) \<longleftrightarrow> (\<exists>v. x = (Inr v, s) \<and> y = f v)"
  by (auto simp: reply_with_def split: prod.splits sum.splits)

lemma reply_with_Inl [try_iffs]: "reply_with f x = (Inl e, s) \<longleftrightarrow> x = (Inl e, s)"
  by (auto simp: reply_with_def split: prod.splits sum.splits)

lemma list_ex_worker: "list_ex (\<lambda>w. ws_worker_id w = v) ws \<longleftrightarrow> v \<in> ws_worker_id ` set ws"
  by (auto simp: list_ex_iff)

lemma open_session_Inr [try_iffs]:
  "open_session b w = (Inr u, b') \<longleftrightarrow>
     bt_get (sb_sessions b) (ws_session_id w) = None \<and>
     ws_worker_id w \<notin> ws_worker_id ` set (bt_values (sb_sessions b)) \<and>
     length (sb_sessions b) \<noteq> 4 \<and>
     b' = b\<lparr>sb_sessions := bt_insert (sb_sessions b) (ws_session_id w) w\<rparr>"
  by (auto simp: open_session_def contains_session_def list_ex_worker MAX_WARM_SESSIONS_def)

lemma replace_worker_Inr [try_iffs]:
  "replace_worker b i v = (Inr w', b') \<longleftrightarrow>
     (\<exists>w. bt_get (sb_sessions b) i = Some w \<and> w' = w\<lparr>ws_worker_id := v\<rparr>) \<and>
     v \<notin> ws_worker_id ` set (bt_values (sb_sessions b)) \<and>
     b' = b\<lparr>sb_sessions := bt_insert (sb_sessions b) i w'\<rparr>"
  by (auto simp: replace_worker_def contains_session_def list_ex_worker Let_def try_iffs)

lemma close_session_Inr [try_iffs]:
  "close_session b i = (Inr w, b') \<longleftrightarrow>
     bt_get (sb_sessions b) i = Some w \<and> \<not> pin_of_session b i \<and>
     b' = b\<lparr>sb_sessions := bt_remove (sb_sessions b) i,
            sb_foreground_output := if foreground_is b i then None else sb_foreground_output b\<rparr>"
  by (auto simp: close_session_def contains_session_def Let_def try_iffs)

lemma handle_worker_fault_Inr [try_iffs]:
  "handle_worker_fault b v = (Inr w, b') \<longleftrightarrow>
     (\<exists>w0. find (\<lambda>s. ws_worker_id s = v) (bt_values (sb_sessions b)) = Some w0 \<and>
        bt_get (sb_sessions b) (ws_session_id w0) = Some w \<and>
        b' = b\<lparr>sb_sessions := bt_remove (sb_sessions b) (ws_session_id w0),
               sb_foreground_output := if foreground_is b (ws_session_id w0) then None
                                       else sb_foreground_output b,
               sb_output_pin := if foreground_is b (ws_session_id w0) then None
                                else sb_output_pin b\<rparr>)"
proof (cases "find (\<lambda>s. ws_worker_id s = v) (bt_values (sb_sessions b))")
  case None
  then show ?thesis
    by (simp add: handle_worker_fault_def)
next
  case (Some w0)
  then show ?thesis
    by (cases "bt_get (sb_sessions b) (ws_session_id w0)")
      (auto simp: handle_worker_fault_def Let_def)
qed

lemma switch_foreground_Inr [try_iffs]:
  "switch_foreground b i = (Inr l, b') \<longleftrightarrow>
     bt_get (sb_sessions b) i \<noteq> None \<and>
     (foreground_is b i \<and> sb_foreground_output b = Some l \<and> b' = b \<or>
      \<not> foreground_is b i \<and> sb_output_pin b = None \<and> fl_session_id l = i \<and>
      unat (fl_generation l) = unat (sb_next_lease_generation b) + 1 \<and>
      b' = b\<lparr>sb_next_lease_generation := fl_generation l, sb_foreground_output := Some l\<rparr>)"
  by (cases l) (auto simp: switch_foreground_def contains_session_def foreground_is_def Let_def
      try_iffs checked_simps split: option.splits)

lemma clear_foreground_Inr [try_iffs]:
  "clear_foreground b = (Inr l, b') \<longleftrightarrow>
     sb_output_pin b = None \<and> l = sb_foreground_output b \<and> b' = b\<lparr>sb_foreground_output := None\<rparr>"
  by (auto simp: clear_foreground_def)

lemma pin_foreground_Inr [try_iffs]:
  "pin_foreground b i k = (Inr t, b') \<longleftrightarrow>
     sb_output_pin b = None \<and>
     (\<exists>l. sb_foreground_output b = Some l \<and> fl_session_id l = i \<and>
        op_session_id t = i \<and> op_lease_generation t = fl_generation l \<and> op_kind t = k) \<and>
     unat (op_pin_generation t) = unat (sb_next_pin_generation b) + 1 \<and>
     b' = b\<lparr>sb_next_pin_generation := op_pin_generation t, sb_output_pin := Some t\<rparr>"
  by (cases t) (auto simp: pin_foreground_def foreground_is_def Let_def try_iffs checked_simps
      split: option.splits)

lemma release_output_pin_Inr [try_iffs]:
  "release_output_pin b t = (Inr u, b') \<longleftrightarrow>
     sb_output_pin b = Some t \<and> b' = b\<lparr>sb_output_pin := None\<rparr>"
  by (auto simp: release_output_pin_def)

lemma broker_step_error: "broker_step b op = (Inl e, b') \<Longrightarrow> b' = b"
  by (cases op)
    (auto simp: try_iffs open_session_def replace_worker_def close_session_def
      handle_worker_fault_def switch_foreground_def clear_foreground_def pin_foreground_def
      release_output_pin_def Let_def split: if_splits option.splits)

section \<open>The invariant\<close>

definition pins_held :: "'v session_broker \<Rightarrow> bool" where
  "pins_held b \<longleftrightarrow> (case sb_output_pin b of None \<Rightarrow> True
     | Some t \<Rightarrow> op_pin_generation t = sb_next_pin_generation b \<and> op_pin_generation t \<noteq> 0 \<and>
         sb_foreground_output b =
           Some \<lparr>fl_session_id = op_session_id t, fl_generation = op_lease_generation t\<rparr>)"

definition lease_held :: "'v session_broker \<Rightarrow> bool" where
  "lease_held b \<longleftrightarrow> (case sb_foreground_output b of None \<Rightarrow> True
     | Some l \<Rightarrow> fl_generation l = sb_next_lease_generation b \<and> fl_generation l \<noteq> 0 \<and>
         contains_session b (fl_session_id l))"

definition broker_inv :: "'v session_broker \<Rightarrow> bool" where
  "broker_inv b \<longleftrightarrow>
     bt_wf (sb_sessions b) \<and> length (sb_sessions b) \<le> 4 \<and>
     btree.holds (\<lambda>i w. ws_session_id w = i) (sb_sessions b) \<and>
     btree.attribute_unique ws_worker_id (sb_sessions b) \<and>
     lease_held b \<and> pins_held b"

lemma broker_new_inv: "broker_inv broker_new"
  by (simp add: broker_inv_def broker_new_def bt_wf_def btree.holds_def btree.attribute_unique_def
      bt_get_def lease_held_def pins_held_def)

lemma worker_fresh:
  "bt_wf m \<Longrightarrow> v \<notin> ws_worker_id ` set (bt_values m) \<Longrightarrow> bt_get m k = Some w \<Longrightarrow> ws_worker_id w \<noteq> v"
  by (metis bt_values_iff imageI)

lemma open_session_inv:
  assumes inv: "broker_inv b" and st: "open_session b w = (Inr u, b')"
  shows "broker_inv b'"
proof -
  have wf: "bt_wf (sb_sessions b)"
    using inv by (simp add: broker_inv_def)
  have fresh: "bt_get (sb_sessions b) (ws_session_id w) = None"
    "ws_worker_id w \<notin> ws_worker_id ` set (bt_values (sb_sessions b))" "length (sb_sessions b) \<noteq> 4"
    and b': "b' = b\<lparr>sb_sessions := bt_insert (sb_sessions b) (ws_session_id w) w\<rparr>"
    using st by (auto simp: open_session_Inr)
  have "lease_held b'" "pins_held b'"
    using inv wf by (auto simp: b' broker_inv_def lease_held_def pins_held_def contains_session_def
        bt_get_insert split: option.splits)
  moreover have "btree.attribute_unique ws_worker_id (sb_sessions b')"
    using inv worker_fresh [OF wf fresh(2)] unfolding b'
    by (auto simp: broker_inv_def intro!: btree.unique_put)
  moreover have "btree.holds (\<lambda>i w. ws_session_id w = i) (sb_sessions b')"
    using inv unfolding b' by (auto simp: broker_inv_def intro!: btree.holds_put)
  ultimately show ?thesis
    using inv fresh wf by (simp add: broker_inv_def b' bt_insert_wf bt_insert_length)
qed

lemma replace_worker_inv:
  assumes inv: "broker_inv b" and st: "replace_worker b i v = (Inr w', b')"
  shows "broker_inv b'"
proof -
  have wf: "bt_wf (sb_sessions b)"
    using inv by (simp add: broker_inv_def)
  obtain w where w: "bt_get (sb_sessions b) i = Some w" and w': "w' = w\<lparr>ws_worker_id := v\<rparr>"
    and fresh: "v \<notin> ws_worker_id ` set (bt_values (sb_sessions b))"
    and b': "b' = b\<lparr>sb_sessions := bt_insert (sb_sessions b) i w'\<rparr>"
    using st by (auto simp: replace_worker_Inr)
  have "ws_session_id w' = i"
    using inv w w' by (simp add: broker_inv_def btree.holds_def)
  then have "btree.holds (\<lambda>i w. ws_session_id w = i) (sb_sessions b')"
    using inv unfolding b' by (auto simp: broker_inv_def intro!: btree.holds_put)
  moreover have "lease_held b'" "pins_held b'"
    using inv wf by (auto simp: b' broker_inv_def lease_held_def pins_held_def contains_session_def
        bt_get_insert split: option.splits)
  moreover have "btree.attribute_unique ws_worker_id (sb_sessions b')"
    using inv worker_fresh [OF wf fresh] w' unfolding b'
    by (auto simp: broker_inv_def intro!: btree.unique_put)
  ultimately show ?thesis
    using inv w wf by (simp add: broker_inv_def b' bt_insert_wf bt_insert_length)
qed

text \<open>Removing a session together with its lease, and its pin if it had one.\<close>

lemma remove_session_inv:
  assumes inv: "broker_inv b"
    and b': "b' = b\<lparr>sb_sessions := bt_remove (sb_sessions b) i,
            sb_foreground_output := if foreground_is b i then None else sb_foreground_output b,
            sb_output_pin := if foreground_is b i then None else sb_output_pin b\<rparr>"
  shows "broker_inv b'"
proof -
  have wf: "bt_wf (sb_sessions b)"
    using inv by (simp add: broker_inv_def)
  have "lease_held b'" "pins_held b'"
    using inv by (auto simp: b' broker_inv_def lease_held_def pins_held_def contains_session_def
        foreground_is_def bt_get_remove split: option.splits)
  then show ?thesis
    using inv wf
    by (auto simp: broker_inv_def b' bt_remove_wf bt_remove_length intro!: btree.holds_del btree.unique_del)
qed

lemma pin_of_foreground: "broker_inv b \<Longrightarrow> pin_of_session b i \<Longrightarrow> foreground_is b i"
  by (auto simp: broker_inv_def pins_held_def pin_of_session_def foreground_is_def split: option.splits)

lemma foreground_pin:
  "broker_inv b \<Longrightarrow> foreground_is b i \<Longrightarrow> sb_output_pin b \<noteq> None \<Longrightarrow> pin_of_session b i"
  by (auto simp: broker_inv_def pins_held_def pin_of_session_def foreground_is_def split: option.splits)

lemma close_session_inv:
  assumes "broker_inv b" and "close_session b i = (Inr w, b')"
  shows "broker_inv b'"
proof (rule remove_session_inv [OF assms(1), of _ i])
  have "sb_output_pin b = None" if "foreground_is b i"
    using assms foreground_pin [OF assms(1) that] by (cases "sb_output_pin b") (auto simp: close_session_Inr)
  then show "b' = b\<lparr>sb_sessions := bt_remove (sb_sessions b) i,
            sb_foreground_output := if foreground_is b i then None else sb_foreground_output b,
            sb_output_pin := if foreground_is b i then None else sb_output_pin b\<rparr>"
    using assms(2) by (auto simp: close_session_Inr)
qed

lemma broker_step_keeps:
  assumes inv: "broker_inv b" and st: "broker_step b op = (r, b')"
  shows "broker_inv b'"
proof (cases r)
  case (Inl e)
  then show ?thesis
    using inv st broker_step_error by blast
next
  case (Inr y)
  with inv st show ?thesis
  proof (cases op)
    case (WorkerFault v)
    then show ?thesis
      using inv st Inr remove_session_inv [OF inv] by (auto simp: try_iffs)
  next
    case (SwitchForeground i)
    then show ?thesis
      using inv st Inr
      by (auto simp: try_iffs broker_inv_def lease_held_def pins_held_def contains_session_def
          word_unat_eq_iff [where 'a = 64] split: option.splits)
  next
    case ClearForeground
    then show ?thesis
      using inv st Inr by (auto simp: try_iffs broker_inv_def lease_held_def pins_held_def)
  next
    case (PinForeground i k)
    then show ?thesis
      using inv st Inr
      by (auto simp: try_iffs broker_inv_def lease_held_def pins_held_def contains_session_def
          word_unat_eq_iff [where 'a = 64] split: option.splits)
  next
    case (ReleasePin t)
    then show ?thesis
      using inv st Inr
      by (auto simp: try_iffs broker_inv_def lease_held_def pins_held_def contains_session_def)
  qed (auto simp: reply_with_Inr intro: open_session_inv replace_worker_inv close_session_inv)
qed

text \<open>The pin and lease counters never go back.\<close>

lemma broker_step_counters:
  assumes "broker_step b op = (r, b')"
  shows "unat (sb_next_pin_generation b) \<le> unat (sb_next_pin_generation b')"
    and "unat (sb_next_lease_generation b) \<le> unat (sb_next_lease_generation b')"
proof -
  have "unat (sb_next_pin_generation b) \<le> unat (sb_next_pin_generation b') \<and>
        unat (sb_next_lease_generation b) \<le> unat (sb_next_lease_generation b')"
  proof (cases r)
    case (Inl e)
    then show ?thesis
      using assms broker_step_error by blast
  next
    case (Inr y)
    then show ?thesis
      using assms by (cases op) (auto simp: try_iffs)
  qed
  then show "unat (sb_next_pin_generation b) \<le> unat (sb_next_pin_generation b')"
    and "unat (sb_next_lease_generation b) \<le> unat (sb_next_lease_generation b')"
    by blast+
qed

interpretation broker: ranked_machine broker_step broker_inv
    "\<lambda>b :: 'v session_broker. unat (sb_next_pin_generation b)"
  by unfold_locales (blast intro: broker_step_keeps broker_step_error broker_step_counters)+

interpretation leases: ranked_machine broker_step broker_inv
    "\<lambda>b :: 'v session_broker. unat (sb_next_lease_generation b)"
  by unfold_locales (blast intro: broker_step_counters)

section \<open>Tokens\<close>

text \<open>The pins issued in a run, oldest first.\<close>

fun issued_pins :: "'v session_broker \<Rightarrow> 'v broker_op list \<Rightarrow> output_pin_token list" where
  "issued_pins b [] = []"
| "issued_pins b (op # ops) =
     (case broker_step b op of (r, b') \<Rightarrow>
        (case r of Inr (PinReply t) \<Rightarrow> [t] | _ \<Rightarrow> []) @ issued_pins b' ops)"

lemma pin_reply:
  assumes "broker_step b op = (Inr (PinReply t), b')"
  shows "unat (op_pin_generation t) = unat (sb_next_pin_generation b) + 1"
    and "sb_next_pin_generation b' = op_pin_generation t"
  using assms by (cases op; auto simp: try_iffs)+

lemma issued_pins_range:
  "broker_inv b \<Longrightarrow> t \<in> set (issued_pins b ops) \<Longrightarrow>
   unat (sb_next_pin_generation b) < unat (op_pin_generation t) \<and>
   unat (op_pin_generation t) \<le> unat (sb_next_pin_generation (snd (run_ops broker_step b ops)))"
proof (induction ops arbitrary: b)
  case Nil
  then show ?case by simp
next
  case (Cons op ops)
  obtain r b' where st: "broker_step b op = (r, b')"
    by fastforce
  note inv' = broker_step_keeps [OF Cons.prems(1) st]
  have run: "snd (run_ops broker_step b (op # ops)) = snd (run_ops broker_step b' ops)"
    by (simp add: st Let_def split_beta)
  from Cons.prems(2) st consider (new) "r = Inr (PinReply t)" | (later) "t \<in> set (issued_pins b' ops)"
    by (auto split: sum.splits broker_reply.splits)
  then show ?case
  proof cases
    case new
    then show ?thesis
      using pin_reply [of b op t b'] st broker.run_rank [OF inv', of ops] unfolding run by simp
  next
    case later
    then show ?thesis
      using Cons.IH [OF inv' later] broker_step_counters(1) [OF st] unfolding run by simp
  qed
qed

lemma issued_pins_increasing:
  "broker_inv b \<Longrightarrow>
   sorted_wrt (\<lambda>s t. unat (op_pin_generation s) < unat (op_pin_generation t)) (issued_pins b ops)"
proof (induction ops arbitrary: b)
  case Nil
  then show ?case by simp
next
  case (Cons op ops)
  obtain r b' where st: "broker_step b op = (r, b')"
    by fastforce
  note inv' = broker_step_keeps [OF Cons.prems(1) st]
  have "unat (op_pin_generation t) < unat (op_pin_generation u)"
    if "r = Inr (PinReply t)" and "u \<in> set (issued_pins b' ops)" for t u
    using issued_pins_range [OF inv' that(2)] pin_reply(2) [of b op t b'] st that(1) by simp
  then show ?case
    using Cons.IH [OF inv'] by (auto simp: st split: sum.splits broker_reply.splits)
qed

lemma dead_pin_step:
  assumes "broker_step b op = (r, b')"
    and "unat (op_pin_generation t) \<le> unat (sb_next_pin_generation b)" and "sb_output_pin b \<noteq> Some t"
  shows "sb_output_pin b' \<noteq> Some t"
proof (cases r)
  case (Inl e)
  then show ?thesis
    using assms broker_step_error by blast
next
  case (Inr y)
  then show ?thesis
    using assms by (cases op) (auto simp: try_iffs split: if_splits)
qed

lemma dead_pin_run:
  assumes "broker_inv b" and "unat (op_pin_generation t) \<le> unat (sb_next_pin_generation b)"
    and "sb_output_pin b \<noteq> Some t"
  shows "sb_output_pin (snd (run_ops broker_step b ops)) \<noteq> Some t"
  using assms
proof (induction ops arbitrary: b)
  case Nil
  then show ?case by simp
next
  case (Cons op ops)
  obtain r b' where st: "broker_step b op = (r, b')"
    by fastforce
  have "sb_output_pin (snd (run_ops broker_step b' ops)) \<noteq> Some t"
    using broker_step_counters(1) [OF st] Cons.prems(2) dead_pin_step [OF st Cons.prems(2,3)]
    by (intro Cons.IH broker_step_keeps [OF Cons.prems(1) st]) simp_all
  then show ?case
    by (simp add: st Let_def split_beta)
qed

lemma attribute_unique_distinct:
  assumes "bt_wf m" and "btree.attribute_unique f m"
  shows "distinct (map f (bt_values m))"
proof -
  have "inj_on (f \<circ> snd) (set m)"
    using assms unfolding inj_on_def btree.attribute_unique_def
    by (metis bt_get_iff comp_apply option.inject prod.collapse)
  moreover have "distinct m"
    using bt_wf_distinct [OF assms(1)] by (simp add: distinct_map)
  ultimately show ?thesis
    by (simp add: bt_values_def distinct_map comp_def)
qed

lemma holds_session_ids:
  "bt_wf m \<Longrightarrow> btree.holds (\<lambda>i w. ws_session_id w = i) m \<Longrightarrow>
   map ws_session_id (bt_values m) = map fst m"
  unfolding btree.holds_def bt_values_def by (auto simp: bt_get_iff)

text \<open>The session that a fault removes.\<close>

lemma find_worker:
  assumes inv: "broker_inv b"
    and f: "find (\<lambda>s. ws_worker_id s = v) (bt_values (sb_sessions b)) = Some w"
  shows "bt_get (sb_sessions b) (ws_session_id w) = Some w" and "ws_worker_id w = v"
proof -
  have w: "w \<in> set (bt_values (sb_sessions b))" and v: "ws_worker_id w = v"
    using f by (auto simp: find_Some_iff)
  show "ws_worker_id w = v"
    by (rule v)
  obtain i where "bt_get (sb_sessions b) i = Some w"
    using w inv by (auto simp: broker_inv_def bt_values_iff)
  moreover from this have "ws_session_id w = i"
    using inv by (auto simp: broker_inv_def btree.holds_def)
  ultimately show "bt_get (sb_sessions b) (ws_session_id w) = Some w"
    by simp
qed

lemma fault_removes_worker:
  assumes inv: "broker_inv b" and w: "bt_get (sb_sessions b) i = Some w"
  shows "ws_worker_id w \<notin> ws_worker_id ` set (bt_values (bt_remove (sb_sessions b) i))"
proof
  have wf: "bt_wf (sb_sessions b)" and uniq: "btree.attribute_unique ws_worker_id (sb_sessions b)"
    using inv by (auto simp: broker_inv_def)
  assume "ws_worker_id w \<in> ws_worker_id ` set (bt_values (bt_remove (sb_sessions b) i))"
  then obtain j u where "bt_get (sb_sessions b) j = Some u" "j \<noteq> i" "ws_worker_id u = ws_worker_id w"
    using bt_values_iff [OF bt_remove_wf [OF wf]] by (auto simp: bt_get_remove split: if_splits)
  with w uniq show False
    unfolding btree.attribute_unique_def by metis
qed

lemma pinned_step:
  assumes inv: "broker_inv b" and pin: "sb_output_pin b = Some t"
    and st: "broker_step b op = (Inr y, b')" and nrel: "op \<noteq> ReleasePin t"
    and w: "bt_get (sb_sessions b) (op_session_id t) = Some w"
    and nfault: "op \<noteq> WorkerFault (ws_worker_id w)"
  shows "sb_output_pin b' = Some t \<and> sb_foreground_output b' = sb_foreground_output b \<and>
    contains_session b' (op_session_id t)"
proof -
  have wf: "bt_wf (sb_sessions b)"
    using inv by (simp add: broker_inv_def)
  have fg: "foreground_is b i \<longleftrightarrow> i = op_session_id t" for i
    using inv pin by (auto simp: broker_inv_def pins_held_def foreground_is_def)
  show ?thesis
  proof (cases op)
    case (WorkerFault v)
    obtain u where u: "find (\<lambda>s. ws_worker_id s = v) (bt_values (sb_sessions b)) = Some u"
      using st WorkerFault by (auto simp: try_iffs)
    have "ws_session_id u \<noteq> op_session_id t"
      using find_worker [OF inv u] w nfault WorkerFault by auto
    then show ?thesis
      using st WorkerFault u pin w by (auto simp: try_iffs fg contains_session_def bt_get_remove)
  qed (use st pin w nrel in \<open>auto simp: try_iffs fg contains_session_def bt_get_insert [OF wf]
         bt_get_remove pin_of_session_def split: if_splits\<close>)
qed

lemma pinned_session_open:
  "broker_inv b \<Longrightarrow> sb_output_pin b = Some t \<Longrightarrow> \<exists>w. bt_get (sb_sessions b) (op_session_id t) = Some w"
  by (auto simp: broker_inv_def pins_held_def lease_held_def contains_session_def)

section \<open>Properties\<close>

text \<open>C32: the invariant of the broker. After any sequence of operations there are at most four
  sessions, listed in the order of their ids, with pairwise different workers; the foreground
  lease is the latest one issued and its session is open; a pin exists only for the current
  lease and its session.\<close>

theorem broker_invariant:
  "case snd (run_ops broker_step broker_new ops) of b \<Rightarrow>
     length (sb_sessions b) \<le> 4 \<and>
     map ws_session_id (sn_sessions (snapshot b)) = map fst (sb_sessions b) \<and>
     sorted_wrt (<) (map fst (sb_sessions b)) \<and>
     distinct (map ws_worker_id (sn_sessions (snapshot b))) \<and>
     (case sb_foreground_output b of
        None \<Rightarrow> sb_output_pin b = None
      | Some l \<Rightarrow> contains_session b (fl_session_id l) \<and>
          fl_generation l = sb_next_lease_generation b \<and>
          (case sb_output_pin b of None \<Rightarrow> True
             | Some t \<Rightarrow> op_session_id t = fl_session_id l \<and> op_lease_generation t = fl_generation l))"
proof -
  have "broker_inv (snd (run_ops broker_step broker_new ops))"
    by (rule broker.run_keeps [OF broker_new_inv])
  then show ?thesis
    by (auto simp: broker_inv_def snapshot_def holds_session_ids attribute_unique_distinct
        lease_held_def pins_held_def bt_wf_def [symmetric] split: option.splits)
qed

text \<open>Pin tokens are never reused. The pins issued in a run carry strictly increasing
  generations.\<close>

theorem pins_never_reused:
  "sorted_wrt (\<lambda>s t. unat (op_pin_generation s) < unat (op_pin_generation t))
     (issued_pins broker_new ops)"
  by (rule issued_pins_increasing [OF broker_new_inv])

text \<open>A dead pin stays dead. Once a pin that was issued is no longer the current one
  (released, or lost with its worker), no later sequence of operations makes it valid again:
  releasing it is refused and changes nothing.\<close>

theorem stale_pin_refused:
  assumes "t \<in> set (issued_pins broker_new ops)"
    and "sb_output_pin (snd (run_ops broker_step broker_new ops)) \<noteq> Some t"
  shows "case snd (run_ops broker_step (snd (run_ops broker_step broker_new ops)) later) of
    b \<Rightarrow> release_output_pin b t = (Inl OutputPinMismatch, b)"
  using dead_pin_run [OF broker.run_keeps [OF broker_new_inv] _ assms(2), of later]
    issued_pins_range [OF broker_new_inv assms(1)]
  by (simp add: release_output_pin_def)

text \<open>C6: a pinned output is stable. While a pin is held, no operation changes the pin, the
  foreground lease or the presence of its session, except the release of that very pin and a
  fault of the worker of its session.\<close>

theorem pinned_output_stable:
  assumes "sb_output_pin (snd (run_ops broker_step broker_new ops)) = Some t"
    and "bt_get (sb_sessions (snd (run_ops broker_step broker_new ops))) (op_session_id t) = Some w"
    and "op \<noteq> ReleasePin t" and "op \<noteq> WorkerFault (ws_worker_id w)"
  shows "case snd (broker_step (snd (run_ops broker_step broker_new ops)) op) of b' \<Rightarrow>
    sb_output_pin b' = Some t \<and>
    sb_foreground_output b' = sb_foreground_output (snd (run_ops broker_step broker_new ops)) \<and>
    contains_session b' (op_session_id t)"
proof -
  define b where "b = snd (run_ops broker_step broker_new ops)"
  have inv: "broker_inv b"
    unfolding b_def by (rule broker.run_keeps [OF broker_new_inv])
  obtain r b' where st: "broker_step b op = (r, b')"
    by fastforce
  have "sb_output_pin b' = Some t \<and> sb_foreground_output b' = sb_foreground_output b \<and>
      contains_session b' (op_session_id t)"
  proof (cases r)
    case (Inl e)
    then have "b' = b"
      using st broker_step_error by blast
    then show ?thesis
      using assms by (simp add: b_def contains_session_def)
  next
    case (Inr y)
    then show ?thesis
      using pinned_step [OF inv _ _ assms(3) _ assms(4)] st assms(1,2) by (simp add: b_def)
  qed
  then show ?thesis
    using st by (simp add: b_def)
qed

text \<open>A worker fault is contained. In every reachable state the fault of a worker removes
  exactly the session of that worker, with the lease and the pin when it held them, and
  touches nothing else; the fault of an unknown worker is reported and changes nothing.\<close>

theorem worker_fault_contained:
  "case snd (run_ops broker_step broker_new ops) of b \<Rightarrow>
   (case handle_worker_fault b v of
      (Inl e, b') \<Rightarrow> e = WorkerNotFound \<and> b' = b \<and>
        v \<notin> ws_worker_id ` set (bt_values (sb_sessions b))
    | (Inr w, b') \<Rightarrow> ws_worker_id w = v \<and> bt_get (sb_sessions b) (ws_session_id w) = Some w \<and>
        sb_sessions b' = bt_remove (sb_sessions b) (ws_session_id w) \<and>
        v \<notin> ws_worker_id ` set (bt_values (sb_sessions b')) \<and>
        (sb_foreground_output b', sb_output_pin b') =
          (if foreground_is b (ws_session_id w) then (None, None)
           else (sb_foreground_output b, sb_output_pin b)))"
proof -
  define b where "b = snd (run_ops broker_step broker_new ops)"
  have inv: "broker_inv b"
    unfolding b_def by (rule broker.run_keeps [OF broker_new_inv])
  show ?thesis
  proof (cases "find (\<lambda>s. ws_worker_id s = v) (bt_values (sb_sessions b))")
    case None
    then have "v \<notin> ws_worker_id ` set (bt_values (sb_sessions b))"
      by (auto simp: find_None_iff)
    then show ?thesis
      unfolding b_def [symmetric] by (simp add: handle_worker_fault_def None)
  next
    case (Some w)
    note w = find_worker [OF inv Some]
    have "v \<notin> ws_worker_id ` set (bt_values (bt_remove (sb_sessions b) (ws_session_id w)))"
      using fault_removes_worker [OF inv w(1)] w(2) by simp
    then show ?thesis
      unfolding b_def [symmetric] by (simp add: handle_worker_fault_def Some w Let_def)
  qed
qed

text \<open>Opening a session. In every reachable state a session is opened exactly when its id
  and its worker are free and fewer than four sessions are warm; then it can be found, and
  every other session is as before. Otherwise nothing changes.\<close>

theorem open_session_exact:
  "case snd (run_ops broker_step broker_new ops) of b \<Rightarrow>
   (case open_session b w of (r, b') \<Rightarrow>
      (r = Inr () \<longleftrightarrow> \<not> contains_session b (ws_session_id w) \<and>
         ws_worker_id w \<notin> ws_worker_id ` set (bt_values (sb_sessions b)) \<and>
         length (sb_sessions b) < 4) \<and>
      (if r = Inr ()
       then bt_get (sb_sessions b') = (bt_get (sb_sessions b)) (ws_session_id w \<mapsto> w) \<and>
         length (sb_sessions b') = length (sb_sessions b) + 1
       else b' = b))"
proof -
  define b where "b = snd (run_ops broker_step broker_new ops)"
  have inv: "broker_inv b"
    unfolding b_def by (rule broker.run_keeps [OF broker_new_inv])
  then have "bt_wf (sb_sessions b)" "length (sb_sessions b) \<le> 4"
    by (simp_all add: broker_inv_def)
  then show ?thesis
    unfolding b_def [symmetric] open_session_def contains_session_def list_ex_worker
    by (auto simp: MAX_WARM_SESSIONS_def bt_insert_length bt_get_insert fun_eq_iff)
qed

section \<open>Witnesses\<close>

definition sample_session :: "string \<Rightarrow> string \<Rightarrow> nat warm_session" where
  "sample_session i w =
     \<lparr>ws_session_id = i, ws_worker_id = w,
      ws_deck = \<lparr>pi_package_id = ''deck'', pi_version = 1\<rparr>,
      ws_codec = \<lparr>pi_package_id = ''pack'', pi_version = 1\<rparr>\<rparr>"

definition sample_pin :: output_pin_token where
  "sample_pin = \<lparr>op_session_id = ''a'', op_lease_generation = 1, op_pin_generation = 1,
     op_kind = PinMp4\<rparr>"

definition pinned_ops :: "nat broker_op list" where
  "pinned_ops =
     [OpenSession (sample_session ''a'' ''w''), SwitchForeground ''a'', PinForeground ''a'' PinMp4]"

definition pinned_broker :: "nat session_broker" where
  "pinned_broker =
     \<lparr>sb_sessions = [(''a'', sample_session ''a'' ''w'')],
      sb_foreground_output = Some \<lparr>fl_session_id = ''a'', fl_generation = 1\<rparr>,
      sb_output_pin = Some sample_pin, sb_next_lease_generation = 1, sb_next_pin_generation = 1\<rparr>"

lemmas broker_ops_defs = open_session_def switch_foreground_def pin_foreground_def
  release_output_pin_def contains_session_def foreground_is_def reply_with_def bt_get_def
  bt_values_def checked_add_def MAX_WARM_SESSIONS_def Let_def

lemma pinned_run: "snd (run_ops broker_step broker_new pinned_ops) = pinned_broker"
  and pinned_issued: "issued_pins broker_new (pinned_ops @ [ReleasePin sample_pin]) = [sample_pin]"
  by (simp_all add: pinned_ops_def pinned_broker_def broker_new_def sample_session_def sample_pin_def
      broker_ops_defs)

lemma released_run:
  "snd (run_ops broker_step broker_new (pinned_ops @ [ReleasePin sample_pin])) =
   pinned_broker\<lparr>sb_output_pin := None\<rparr>"
  by (simp add: pinned_ops_def pinned_broker_def broker_new_def sample_session_def sample_pin_def
      broker_ops_defs)

theorem pinned_output_stable_witness:
  "sb_output_pin (snd (broker_step pinned_broker (SwitchForeground ''b''))) = Some sample_pin"
  using pinned_output_stable [of pinned_ops sample_pin "sample_session ''a'' ''w''"
      "SwitchForeground ''b''"]
  unfolding pinned_run by (simp add: pinned_broker_def bt_get_def sample_pin_def)

theorem stale_pin_refused_witness:
  "case snd (run_ops broker_step (pinned_broker\<lparr>sb_output_pin := None\<rparr>) [PinForeground ''a'' PinMp4]) of
    b \<Rightarrow> release_output_pin b sample_pin = (Inl OutputPinMismatch, b)"
  using stale_pin_refused [of sample_pin "pinned_ops @ [ReleasePin sample_pin]"
      "[PinForeground ''a'' PinMp4]"]
  unfolding released_run pinned_issued by simp

end
