(* ===== verification/Package_Compatibility.thy ===== *)
theory Package_Compatibility
  imports Compatibility
begin

text \<open>
  The two production stages of compatibility
  (\<open>crates/deck-runtime-contracts/src/compatibility.rs\<close>): \<open>resolve_package_pair\<close> on the
  installed packages alone, and \<open>resolve_selected_pair\<close>, which refines its decision with the
  asset, profile, device and sources that the user selected.
\<close>

section \<open>Package contracts\<close>

record 'v package_runtime =
  rt_tensor_abi :: contract_id
  rt_python_implementation :: contract_id
  rt_python_version :: 'v
  rt_python_platform :: contract_id
  rt_torch_exact_build :: string

definition runtime_is_valid :: "('v, 'q) semver \<Rightarrow> 'v package_runtime \<Rightarrow> bool" where
  "runtime_is_valid sem r =
     (let torch = rt_torch_exact_build r in
      torch \<noteq> [] \<and> length torch \<le> 120 \<and> is_trimmed torch \<and> sem_parse_version sem torch \<noteq> None)"

record tensor_geometry =
  tg_dtype :: contract_id
  tg_device :: contract_id
  tg_batch :: u32
  tg_channels :: u32
  tg_temporal :: u32
  tg_height :: u32
  tg_width :: u32

definition geometry_is_valid :: "tensor_geometry \<Rightarrow> bool" where
  "geometry_is_valid g =
     (tg_batch g \<noteq> 0 \<and> tg_channels g \<noteq> 0 \<and> tg_temporal g \<noteq> 0 \<and> tg_height g \<noteq> 0 \<and> tg_width g \<noteq> 0)"

definition same_dtype_and_device :: "tensor_geometry \<Rightarrow> tensor_geometry \<Rightarrow> bool" where
  "same_dtype_and_device a b = (tg_dtype a = tg_dtype b \<and> tg_device a = tg_device b)"

record frame_timing =
  ft_frame_rate_numerator :: u32
  ft_frame_rate_denominator :: u32

definition frame_timing_is_valid :: "frame_timing \<Rightarrow> bool" where
  "frame_timing_is_valid t = (ft_frame_rate_numerator t \<noteq> 0 \<and> ft_frame_rate_denominator t \<noteq> 0)"

record deck_timing =
  dt_frame :: frame_timing
  dt_samples_per_slot :: u32

definition deck_timing_is_valid :: "deck_timing \<Rightarrow> bool" where
  "deck_timing_is_valid t = (frame_timing_is_valid (dt_frame t) \<and> dt_samples_per_slot t \<noteq> 0)"

record ('v, 'q) deck_package_requirements =
  dp_slots :: u8
  dp_protocol_version :: u16
  dp_app_host_api :: "'q host_api_requirement"
  dp_deck_host_api :: u16
  dp_deck_operator_api :: u16
  dp_runtime :: "'v package_runtime"
  dp_profile_allowlist :: "'v profile_contract set option"
  dp_geometries :: "tensor_geometry set"
  dp_timing :: deck_timing
  dp_capabilities :: "contract_id set"

definition deck_package_is_valid ::
    "('v, 'q) semver \<Rightarrow> ('v, 'q) deck_package_requirements \<Rightarrow> bool" where
  "deck_package_is_valid sem r =
     (1 \<le> dp_slots r \<and> dp_slots r \<le> 16 \<and> dp_protocol_version r \<noteq> 0 \<and>
      dp_deck_host_api r \<noteq> 0 \<and> dp_deck_operator_api r \<noteq> 0 \<and> runtime_is_valid sem (dp_runtime r) \<and>
      dp_geometries r \<noteq> {} \<and> (\<forall>g\<in>dp_geometries r. geometry_is_valid g) \<and>
      deck_timing_is_valid (dp_timing r) \<and>
      (case dp_profile_allowlist r of None \<Rightarrow> True | Some profiles \<Rightarrow> profiles \<noteq> {}))"

record ('v, 'q) codec_package_provides =
  kp_protocol_version :: u16
  kp_app_host_api :: "'q host_api_requirement"
  kp_codec_adapter_api :: u16
  kp_runtime :: "'v package_runtime"
  kp_lc_spec_versions :: "'v set"
  kp_profiles :: "'v profile_contract set"
  kp_capabilities :: "contract_id set"

definition codec_package_is_valid ::
    "('v, 'q) semver \<Rightarrow> ('v, 'q) codec_package_provides \<Rightarrow> bool" where
  "codec_package_is_valid sem p =
     (kp_protocol_version p \<noteq> 0 \<and> kp_codec_adapter_api p \<noteq> 0 \<and> runtime_is_valid sem (kp_runtime p) \<and>
      kp_lc_spec_versions p \<noteq> {} \<and> kp_profiles p \<noteq> {})"

record ('v, 'q) deck_package_version =
  dpv_identity :: "'v package_identity"
  dpv_readiness :: package_readiness
  dpv_requires :: "('v, 'q) deck_package_requirements option"

record ('v, 'q) codec_package_version =
  kpv_identity :: "'v package_identity"
  kpv_readiness :: package_readiness
  kpv_provides :: "('v, 'q) codec_package_provides option"

record 'v package_host_runtime =
  ph_app_version :: 'v
  ph_protocol_versions :: "u16 set"
  ph_deck_host_apis :: "u16 set"
  ph_deck_operator_apis :: "u16 set"
  ph_codec_adapter_apis :: "u16 set"
  ph_tensor_abis :: "contract_id set"
  ph_python_implementations :: "contract_id set"
  ph_python_versions :: "'v set"
  ph_python_platforms :: "contract_id set"
  ph_lc_spec_versions :: "'v set"
  ph_tensor_dtypes :: "contract_id set"
  ph_tensor_devices :: "contract_id set"
  ph_samples_per_slot :: "u32 set"
  ph_capabilities :: "contract_id set"

definition package_host_validate :: "'v package_host_runtime \<Rightarrow> contract_error + unit" where
  "package_host_validate h =
     (if ph_protocol_versions h = {} \<or> ph_deck_host_apis h = {} \<or> ph_deck_operator_apis h = {} \<or>
         ph_codec_adapter_apis h = {} \<or> ph_tensor_abis h = {} \<or> ph_python_implementations h = {} \<or>
         ph_python_versions h = {} \<or> ph_python_platforms h = {} \<or> ph_lc_spec_versions h = {} \<or>
         ph_tensor_dtypes h = {} \<or> ph_tensor_devices h = {} \<or> ph_samples_per_slot h = {} \<or>
         0 \<in> ph_protocol_versions h \<or> 0 \<in> ph_deck_host_apis h \<or> 0 \<in> ph_deck_operator_apis h \<or>
         0 \<in> ph_codec_adapter_apis h \<or> 0 \<in> ph_samples_per_slot h
      then Inl InvalidHostRuntime else Inr ())"

definition supports_runtime :: "'v package_host_runtime \<Rightarrow> 'v package_runtime \<Rightarrow> bool" where
  "supports_runtime h r =
     (rt_tensor_abi r \<in> ph_tensor_abis h \<and>
      rt_python_implementation r \<in> ph_python_implementations h \<and>
      rt_python_version r \<in> ph_python_versions h \<and> rt_python_platform r \<in> ph_python_platforms h)"

definition supports_geometry_runtime :: "'v package_host_runtime \<Rightarrow> tensor_geometry \<Rightarrow> bool" where
  "supports_geometry_runtime h g =
     (tg_dtype g \<in> ph_tensor_dtypes h \<and> tg_device g \<in> ph_tensor_devices h)"

section \<open>The package stage\<close>

definition PACKAGE_COMPATIBILITY_REASON_PRECEDENCE :: "compatibility_reason list" where
  "PACKAGE_COMPATIBILITY_REASON_PRECEDENCE =
     [UntrustedPackage, PackageInvalid, UnsupportedProtocol, UnsupportedHostApi,
      UnsupportedTensorAbi, UnsupportedProfile, UnsupportedCapability, Compatible]"

record 'v package_decision =
  pd_deck :: "'v package_identity"
  pd_codec :: "'v package_identity"
  pd_reason :: compatibility_reason
  pd_compatible_profiles :: "'v profile_contract set"

definition allowed_profiles ::
    "('v, 'q) deck_package_requirements \<Rightarrow> ('v, 'q) codec_package_provides \<Rightarrow>
     'v profile_contract set" where
  "allowed_profiles d k =
     Set.filter (\<lambda>profile. case dp_profile_allowlist d of None \<Rightarrow> True
       | Some allowlist \<Rightarrow> profile \<in> allowlist) (kp_profiles k)"

definition package_outcome ::
    "('v, 'q) semver \<Rightarrow> 'v package_host_runtime \<Rightarrow> ('v, 'q) deck_package_version \<Rightarrow>
     ('v, 'q) codec_package_version \<Rightarrow> compatibility_reason \<times> 'v profile_contract set" where
  "package_outcome sem host deck codec =
     (if rd_trust (dpv_readiness deck) = Untrusted \<or> rd_trust (kpv_readiness codec) = Untrusted
      then (UntrustedPackage, {})
      else case (dpv_requires deck, kpv_provides codec) of
        (Some d, Some k) \<Rightarrow>
          if rd_package (dpv_readiness deck) = PackageDamaged \<or>
             rd_package (kpv_readiness codec) = PackageDamaged \<or>
             \<not> deck_package_is_valid sem d \<or> \<not> codec_package_is_valid sem k
          then (PackageInvalid, {})
          else if dp_protocol_version d \<noteq> kp_protocol_version k \<or>
                  dp_protocol_version d \<notin> ph_protocol_versions host
          then (UnsupportedProtocol, {})
          else if \<not> host_api_matches sem (dp_app_host_api d) (ph_app_version host) \<or>
                  \<not> host_api_matches sem (kp_app_host_api k) (ph_app_version host) \<or>
                  dp_deck_host_api d \<notin> ph_deck_host_apis host \<or>
                  dp_deck_operator_api d \<notin> ph_deck_operator_apis host \<or>
                  kp_codec_adapter_api k \<notin> ph_codec_adapter_apis host
          then (UnsupportedHostApi, {})
          else if dp_runtime d \<noteq> kp_runtime k \<or> \<not> supports_runtime host (dp_runtime d) \<or>
                  \<not> (\<exists>g\<in>dp_geometries d. supports_geometry_runtime host g)
          then (UnsupportedTensorAbi, {})
          else
            let compatible_profiles = allowed_profiles d k
            in if compatible_profiles = {} \<or>
                  kp_lc_spec_versions k \<inter> ph_lc_spec_versions host = {}
               then (UnsupportedProfile, {})
               else if \<not> dp_capabilities d \<subseteq> ph_capabilities host \<or>
                       \<not> dp_capabilities d \<subseteq> kp_capabilities k
               then (UnsupportedCapability, {})
               else (Compatible, compatible_profiles)
      | _ \<Rightarrow> (PackageInvalid, {}))"

definition resolve_package_pair ::
    "('v, 'q) semver \<Rightarrow> 'v package_host_runtime \<Rightarrow> ('v, 'q) deck_package_version \<Rightarrow>
     ('v, 'q) codec_package_version \<Rightarrow> contract_error + 'v package_decision" where
  "resolve_package_pair sem host deck codec =
     try_bind (package_host_validate host) (\<lambda>_.
     case package_outcome sem host deck codec of (reason, profiles) \<Rightarrow>
       Inr \<lparr>pd_deck = dpv_identity deck, pd_codec = kpv_identity codec, pd_reason = reason,
            pd_compatible_profiles = profiles\<rparr>)"

section \<open>The selected stage\<close>

definition SELECTED_COMPATIBILITY_REASON_PRECEDENCE :: "compatibility_reason list" where
  "SELECTED_COMPATIBILITY_REASON_PRECEDENCE =
     [MissingAsset, PackageInvalid, UnsupportedProfile, UnsupportedTensorAbi, UnsupportedSignal,
      UnsupportedTiming, Compatible]"

record 'v selected_source =
  src_lc_spec_version :: 'v
  src_profile :: "'v profile_contract"
  src_geometry :: tensor_geometry
  src_decoded_height :: u32
  src_decoded_width :: u32
  src_timing :: frame_timing
  src_timing_contract :: contract_id
  src_timing_contract_version :: 'v

datatype source_scope = Candidate | CompleteSet

text \<open>Setting the reason and clearing the profiles, as every rejection of this stage does.\<close>

definition reject :: "'v package_decision \<Rightarrow> compatibility_reason \<Rightarrow> 'v package_decision" where
  "reject decision reason = decision\<lparr>pd_reason := reason, pd_compatible_profiles := {}\<rparr>"

text \<open>The closures of the five checks over the sources.\<close>

definition source_malformed :: "'v selected_source \<Rightarrow> bool" where
  "source_malformed s =
     (\<not> geometry_is_valid (src_geometry s) \<or> src_decoded_height s = 0 \<or>
      src_decoded_width s = 0 \<or> \<not> frame_timing_is_valid (src_timing s))"

definition source_profile_differs ::
    "'v package_host_runtime \<Rightarrow> ('v, 'q) codec_package_provides \<Rightarrow> 'v profile_contract \<Rightarrow>
     'v selected_source \<Rightarrow> bool" where
  "source_profile_differs host k profile s =
     (src_profile s \<noteq> profile \<or> src_lc_spec_version s \<notin> ph_lc_spec_versions host \<or>
      src_lc_spec_version s \<notin> kp_lc_spec_versions k)"

definition source_abi_differs ::
    "'v package_host_runtime \<Rightarrow> ('v, 'q) deck_package_requirements \<Rightarrow> contract_id \<Rightarrow>
     'v selected_source \<Rightarrow> 'v selected_source \<Rightarrow> bool" where
  "source_abi_differs host d device first s =
     (tg_device (src_geometry s) \<noteq> device \<or>
      \<not> same_dtype_and_device (src_geometry s) (src_geometry first) \<or>
      tg_dtype (src_geometry s) \<notin> ph_tensor_dtypes host \<or>
      tg_device (src_geometry s) \<notin> ph_tensor_devices host \<or>
      \<not> (\<exists>g\<in>dp_geometries d. same_dtype_and_device g (src_geometry s)))"

definition source_signal_differs :: "'v selected_source \<Rightarrow> 'v selected_source \<Rightarrow> bool" where
  "source_signal_differs first s =
     (src_geometry s \<noteq> src_geometry first \<or> src_decoded_height s \<noteq> src_decoded_height first \<or>
      src_decoded_width s \<noteq> src_decoded_width first)"

definition source_timing_differs :: "'v selected_source \<Rightarrow> 'v selected_source \<Rightarrow> bool" where
  "source_timing_differs first s =
     (src_timing s \<noteq> src_timing first \<or> src_timing_contract s \<noteq> src_timing_contract first \<or>
      src_timing_contract_version s \<noteq> src_timing_contract_version first)"

definition resolve_sources ::
    "'v package_host_runtime \<Rightarrow> ('v, 'q) deck_package_requirements \<Rightarrow>
     ('v, 'q) codec_package_version \<Rightarrow> 'v profile_contract \<Rightarrow> contract_id \<Rightarrow>
     'v selected_source list \<Rightarrow> source_scope \<Rightarrow> 'v package_decision \<Rightarrow> 'v package_decision" where
  "resolve_sources host d codec profile device sources scope decision =
     (if length sources > 16 \<or> list_ex source_malformed sources
      then reject decision PackageInvalid
      else case kpv_provides codec of
        None \<Rightarrow> reject decision PackageInvalid
      | Some k \<Rightarrow>
          if list_ex (source_profile_differs host k profile) sources
          then reject decision UnsupportedProfile
          else if scope = CompleteSet \<and> length sources \<noteq> unat (dp_slots d)
          then reject decision UnsupportedSignal
          else
            let first = sources ! 0 in
            if list_ex (source_abi_differs host d device first) sources
            then reject decision UnsupportedTensorAbi
            else if list_ex (source_signal_differs first) sources \<or>
                    src_geometry first \<notin> dp_geometries d
            then reject decision UnsupportedSignal
            else if list_ex (source_timing_differs first) sources \<or>
                    dt_frame (dp_timing d) \<noteq> src_timing first
            then reject decision UnsupportedTiming
            else decision)"

definition resolve_selected_pair ::
    "('v, 'q) semver \<Rightarrow> 'v package_host_runtime \<Rightarrow> ('v, 'q) deck_package_version \<Rightarrow>
     ('v, 'q) codec_package_version \<Rightarrow> asset_state \<Rightarrow> 'v profile_contract option \<Rightarrow>
     contract_id option \<Rightarrow> 'v selected_source list \<Rightarrow> source_scope \<Rightarrow>
     contract_error + 'v package_decision" where
  "resolve_selected_pair sem host deck codec assets selected_profile selected_device sources scope =
     try_bind (resolve_package_pair sem host deck codec) (\<lambda>decision.
     Inr (if pd_reason decision \<noteq> Compatible then decision
       else if assets = AssetsMissing then reject decision MissingAsset
       else case (selected_profile, selected_device) of
         (Some profile, Some device) \<Rightarrow>
           if profile \<notin> pd_compatible_profiles decision then reject decision UnsupportedProfile
           else (case dpv_requires deck of
             None \<Rightarrow> reject decision PackageInvalid
           | Some d \<Rightarrow>
               if device \<notin> ph_tensor_devices host \<or>
                  \<not> (\<exists>g\<in>dp_geometries d. tg_device g = device)
               then reject decision UnsupportedTensorAbi
               else if dt_samples_per_slot (dp_timing d) \<notin> ph_samples_per_slot host
               then reject decision UnsupportedTiming
               else if sources = [] then
                 (if scope = Candidate then decision else reject decision UnsupportedSignal)
               else resolve_sources host d codec profile device sources scope decision)
       | _ \<Rightarrow> reject decision PackageInvalid))"

section \<open>What the stages decide\<close>

text \<open>Which reason of the package stage applies, each on its own.\<close>

primrec package_problem ::
    "('v, 'q) semver \<Rightarrow> 'v package_host_runtime \<Rightarrow> ('v, 'q) deck_package_version \<Rightarrow>
     ('v, 'q) codec_package_version \<Rightarrow> compatibility_reason \<Rightarrow> bool" where
  "package_problem sem h deck codec Compatible = True"
| "package_problem sem h deck codec UntrustedPackage =
     (rd_trust (dpv_readiness deck) = Untrusted \<or> rd_trust (kpv_readiness codec) = Untrusted)"
| "package_problem sem h deck codec MissingAsset = False"
| "package_problem sem h deck codec PackageInvalid =
     (case (dpv_requires deck, kpv_provides codec) of
        (Some d, Some k) \<Rightarrow> rd_package (dpv_readiness deck) = PackageDamaged \<or>
          rd_package (kpv_readiness codec) = PackageDamaged \<or>
          \<not> deck_package_is_valid sem d \<or> \<not> codec_package_is_valid sem k
      | _ \<Rightarrow> True)"
| "package_problem sem h deck codec UnsupportedProtocol =
     (case (dpv_requires deck, kpv_provides codec) of
        (Some d, Some k) \<Rightarrow>
          dp_protocol_version d \<notin> {kp_protocol_version k} \<inter> ph_protocol_versions h
      | _ \<Rightarrow> False)"
| "package_problem sem h deck codec UnsupportedHostApi =
     (case (dpv_requires deck, kpv_provides codec) of
        (Some d, Some k) \<Rightarrow>
          \<not> (host_api_matches sem (dp_app_host_api d) (ph_app_version h) \<and>
             host_api_matches sem (kp_app_host_api k) (ph_app_version h) \<and>
             dp_deck_host_api d \<in> ph_deck_host_apis h \<and>
             dp_deck_operator_api d \<in> ph_deck_operator_apis h \<and>
             kp_codec_adapter_api k \<in> ph_codec_adapter_apis h)
      | _ \<Rightarrow> False)"
| "package_problem sem h deck codec UnsupportedTensorAbi =
     (case (dpv_requires deck, kpv_provides codec) of
        (Some d, Some k) \<Rightarrow>
          \<not> (dp_runtime d = kp_runtime k \<and> supports_runtime h (dp_runtime d)) \<or>
          dp_geometries d \<inter> Collect (supports_geometry_runtime h) = {}
      | _ \<Rightarrow> False)"
| "package_problem sem h deck codec UnsupportedProfile =
     (case (dpv_requires deck, kpv_provides codec) of
        (Some d, Some k) \<Rightarrow>
          kp_profiles k \<inter> (case dp_profile_allowlist d of None \<Rightarrow> UNIV | Some a \<Rightarrow> a) = {} \<or>
          kp_lc_spec_versions k \<inter> ph_lc_spec_versions h = {}
      | _ \<Rightarrow> False)"
| "package_problem sem h deck codec UnsupportedSignal = False"
| "package_problem sem h deck codec UnsupportedTiming = False"
| "package_problem sem h deck codec UnsupportedCapability =
     (case (dpv_requires deck, kpv_provides codec) of
        (Some d, Some k) \<Rightarrow>
          \<not> dp_capabilities d \<subseteq> ph_capabilities h \<inter> kp_capabilities k
      | _ \<Rightarrow> False)"

lemma allowed_profiles_eq:
  "allowed_profiles d k =
   kp_profiles k \<inter> (case dp_profile_allowlist d of None \<Rightarrow> UNIV | Some a \<Rightarrow> a)"
  by (auto simp: allowed_profiles_def split: option.splits)

lemma package_outcome_precedence:
  "find (package_problem sem host deck codec) PACKAGE_COMPATIBILITY_REASON_PRECEDENCE =
   Some (fst (package_outcome sem host deck codec))"
proof (cases "\<exists>d k. dpv_requires deck = Some d \<and> kpv_provides codec = Some k")
  case True
  then obtain d k where dk: "dpv_requires deck = Some d" "kpv_provides codec = Some k"
    by blast
  let ?P = "package_problem sem host deck codec"
  have conds: "?P UntrustedPackage \<longleftrightarrow>
      rd_trust (dpv_readiness deck) = Untrusted \<or> rd_trust (kpv_readiness codec) = Untrusted"
    "?P UnsupportedProtocol \<longleftrightarrow> dp_protocol_version d \<noteq> kp_protocol_version k \<or>
      dp_protocol_version d \<notin> ph_protocol_versions host"
    "?P UnsupportedHostApi \<longleftrightarrow>
      \<not> host_api_matches sem (dp_app_host_api d) (ph_app_version host) \<or>
      \<not> host_api_matches sem (kp_app_host_api k) (ph_app_version host) \<or>
      dp_deck_host_api d \<notin> ph_deck_host_apis host \<or>
      dp_deck_operator_api d \<notin> ph_deck_operator_apis host \<or>
      kp_codec_adapter_api k \<notin> ph_codec_adapter_apis host"
    "?P UnsupportedTensorAbi \<longleftrightarrow> dp_runtime d \<noteq> kp_runtime k \<or>
      \<not> supports_runtime host (dp_runtime d) \<or>
      \<not> (\<exists>g\<in>dp_geometries d. supports_geometry_runtime host g)"
    "?P UnsupportedProfile \<longleftrightarrow>
      allowed_profiles d k = {} \<or>
      kp_lc_spec_versions k \<inter> ph_lc_spec_versions host = {}"
    "?P UnsupportedCapability \<longleftrightarrow> \<not> dp_capabilities d \<subseteq> ph_capabilities host \<or>
      \<not> dp_capabilities d \<subseteq> kp_capabilities k"
    "?P PackageInvalid \<longleftrightarrow> rd_package (dpv_readiness deck) = PackageDamaged \<or>
      rd_package (kpv_readiness codec) = PackageDamaged \<or>
      \<not> deck_package_is_valid sem d \<or> \<not> codec_package_is_valid sem k"
    by (auto simp: dk allowed_profiles_eq)
  have "fst (package_outcome sem host deck codec) =
      (if ?P UntrustedPackage then UntrustedPackage else if ?P PackageInvalid then PackageInvalid
       else if ?P UnsupportedProtocol then UnsupportedProtocol
       else if ?P UnsupportedHostApi then UnsupportedHostApi
       else if ?P UnsupportedTensorAbi then UnsupportedTensorAbi
       else if ?P UnsupportedProfile then UnsupportedProfile
       else if ?P UnsupportedCapability then UnsupportedCapability else Compatible)"
    unfolding conds
    by (simp only: package_outcome_def dk prod.case option.case Let_def if_distrib [of fst] fst_conv)
  then show ?thesis
    by (simp add: PACKAGE_COMPATIBILITY_REASON_PRECEDENCE_def del: package_problem.simps(2-))
next
  case False
  then show ?thesis
    by (auto simp: PACKAGE_COMPATIBILITY_REASON_PRECEDENCE_def package_outcome_def
        split: option.splits)
qed

lemma package_outcome_profiles:
  "fst (package_outcome sem host deck codec) = Compatible \<longleftrightarrow>
   snd (package_outcome sem host deck codec) \<noteq> {}"
  by (auto simp: package_outcome_def Let_def split: option.splits)

lemma package_outcome_Compatible:
  assumes "fst (package_outcome sem host deck codec) = Compatible"
  obtains d k where "dpv_requires deck = Some d" and "kpv_provides codec = Some k"
    and "deck_package_is_valid sem d" and "codec_package_is_valid sem k"
    and "snd (package_outcome sem host deck codec) = allowed_profiles d k"
proof -
  obtain d k where dk: "dpv_requires deck = Some d" "kpv_provides codec = Some k"
    using assms by (auto simp: package_outcome_def split: option.splits if_splits)
  have "deck_package_is_valid sem d" and "codec_package_is_valid sem k"
    and "snd (package_outcome sem host deck codec) = allowed_profiles d k"
    using assms by (simp_all add: package_outcome_def Let_def dk split: if_splits)
  with dk show ?thesis
    by (rule that)
qed

lemma resolve_package_pair_Inr [try_iffs]:
  "resolve_package_pair sem host deck codec = Inr p \<longleftrightarrow>
     package_host_validate host = Inr () \<and>
     p = \<lparr>pd_deck = dpv_identity deck, pd_codec = kpv_identity codec,
          pd_reason = fst (package_outcome sem host deck codec),
          pd_compatible_profiles = snd (package_outcome sem host deck codec)\<rparr>"
  by (auto simp: resolve_package_pair_def try_iffs split: prod.splits)

lemma reject_simps [simp]:
  "pd_reason (reject d r) = r" "pd_compatible_profiles (reject d r) = {}"
  "pd_deck (reject d r) = pd_deck d" "pd_codec (reject d r) = pd_codec d"
  by (simp_all add: reject_def)

text \<open>A set of sources that agree with each other, the deck and the selection.\<close>

definition sources_agree ::
    "'v package_host_runtime \<Rightarrow> ('v, 'q) deck_package_requirements \<Rightarrow>
     ('v, 'q) codec_package_provides \<Rightarrow> 'v profile_contract \<Rightarrow> contract_id \<Rightarrow>
     'v selected_source list \<Rightarrow> bool" where
  "sources_agree host d k profile device sources \<longleftrightarrow>
     (\<exists>g\<in>dp_geometries d. tg_device g = device \<and> tg_dtype g \<in> ph_tensor_dtypes host \<and>
        (\<forall>s\<in>set sources. src_geometry s = g)) \<and>
     (\<forall>s\<in>set sources. src_profile s = profile \<and>
        src_lc_spec_version s \<in> ph_lc_spec_versions host \<inter> kp_lc_spec_versions k \<and>
        src_timing s = dt_frame (dp_timing d) \<and>
        src_decoded_height s \<noteq> 0 \<and> src_decoded_width s \<noteq> 0) \<and>
     (\<forall>s\<in>set sources. \<forall>t\<in>set sources.
        src_decoded_height s = src_decoded_height t \<and> src_decoded_width s = src_decoded_width t \<and>
        src_timing_contract s = src_timing_contract t \<and>
        src_timing_contract_version s = src_timing_contract_version t)"

definition sources_pass ::
    "'v package_host_runtime \<Rightarrow> ('v, 'q) deck_package_requirements \<Rightarrow>
     ('v, 'q) codec_package_provides \<Rightarrow> 'v profile_contract \<Rightarrow> contract_id \<Rightarrow>
     'v selected_source list \<Rightarrow> bool" where
  "sources_pass host d k profile device sources \<longleftrightarrow>
     \<not> list_ex source_malformed sources \<and>
     \<not> list_ex (source_profile_differs host k profile) sources \<and>
     \<not> list_ex (source_abi_differs host d device (sources ! 0)) sources \<and>
     \<not> list_ex (source_signal_differs (sources ! 0)) sources \<and>
     src_geometry (sources ! 0) \<in> dp_geometries d \<and>
     \<not> list_ex (source_timing_differs (sources ! 0)) sources \<and>
     dt_frame (dp_timing d) = src_timing (sources ! 0)"

lemma resolve_sources_Compatible:
  assumes "kpv_provides codec = Some k"
  shows "pd_reason (resolve_sources host d codec profile device sources scope decision) = Compatible \<longleftrightarrow>
      resolve_sources host d codec profile device sources scope decision = decision \<and>
      pd_reason decision = Compatible \<and> length sources \<le> 16 \<and>
      (scope = CompleteSet \<longrightarrow> length sources = unat (dp_slots d)) \<and>
      sources_pass host d k profile device sources"
  by (simp add: resolve_sources_def assms Let_def sources_pass_def)

lemma resolve_sources_pass:
  assumes "kpv_provides codec = Some k" and "length sources \<le> 16"
    and "scope = CompleteSet \<longrightarrow> length sources = unat (dp_slots d)"
    and "sources_pass host d k profile device sources"
  shows "resolve_sources host d codec profile device sources scope decision = decision"
  using assms by (auto simp: resolve_sources_def Let_def sources_pass_def)

lemma sources_pass_agree:
  assumes "sources_pass host d k profile device sources" and ne: "sources \<noteq> []"
  shows "sources_agree host d k profile device sources"
proof -
  let ?first = "sources ! 0"
  have first: "?first \<in> set sources"
    using ne by simp
  have conds: "\<forall>s\<in>set sources. \<not> source_malformed s \<and> \<not> source_profile_differs host k profile s \<and>
      \<not> source_abi_differs host d device ?first s \<and> \<not> source_signal_differs ?first s \<and>
      \<not> source_timing_differs ?first s"
    "src_geometry ?first \<in> dp_geometries d" "dt_frame (dp_timing d) = src_timing ?first"
    using assms(1) by (auto simp: sources_pass_def list_ex_iff)
  have same: "src_geometry s = src_geometry ?first" "src_timing s = src_timing ?first"
    "src_decoded_height s = src_decoded_height ?first" "src_decoded_width s = src_decoded_width ?first"
    "src_timing_contract s = src_timing_contract ?first"
    "src_timing_contract_version s = src_timing_contract_version ?first"
    if "s \<in> set sources" for s
    using conds(1) that by (auto simp: source_signal_differs_def source_timing_differs_def)
  have abi: "tg_device (src_geometry ?first) = device"
    "tg_dtype (src_geometry ?first) \<in> ph_tensor_dtypes host"
    using conds(1) first by (auto simp: source_abi_differs_def)
  have facts: "src_profile s = profile" "src_lc_spec_version s \<in> ph_lc_spec_versions host"
    "src_lc_spec_version s \<in> kp_lc_spec_versions k"
    "src_decoded_height s \<noteq> 0" "src_decoded_width s \<noteq> 0" if "s \<in> set sources" for s
    using conds(1) that by (auto simp: source_profile_differs_def source_malformed_def)
  show ?thesis
    unfolding sources_agree_def
  proof (intro conjI ballI)
    show "\<exists>g\<in>dp_geometries d. tg_device g = device \<and> tg_dtype g \<in> ph_tensor_dtypes host \<and>
        (\<forall>s\<in>set sources. src_geometry s = g)"
      using conds(2) abi same by (intro bexI [of _ "src_geometry ?first"]) auto
  qed (use facts same conds(3) in simp_all)
qed

lemma sources_agree_pass:
  assumes agree: "sources_agree host d k profile device sources" and ne: "sources \<noteq> []"
    and dev: "device \<in> ph_tensor_devices host"
    and d: "\<forall>g\<in>dp_geometries d. geometry_is_valid g" "frame_timing_is_valid (dt_frame (dp_timing d))"
  shows "sources_pass host d k profile device sources"
proof -
  let ?first = "sources ! 0"
  obtain g where g: "g \<in> dp_geometries d" "tg_device g = device" "tg_dtype g \<in> ph_tensor_dtypes host"
    and geo: "\<And>s. s \<in> set sources \<Longrightarrow> src_geometry s = g"
    using agree unfolding sources_agree_def by blast
  have first: "?first \<in> set sources"
    using ne by simp
  have same: "same_dtype_and_device g g"
    by (simp add: same_dtype_and_device_def)
  have facts: "src_profile s = profile" "src_lc_spec_version s \<in> ph_lc_spec_versions host"
    "src_lc_spec_version s \<in> kp_lc_spec_versions k" "src_timing s = dt_frame (dp_timing d)"
    "src_decoded_height s \<noteq> 0" "src_decoded_width s \<noteq> 0"
    "src_decoded_height s = src_decoded_height ?first" "src_decoded_width s = src_decoded_width ?first"
    "src_timing_contract s = src_timing_contract ?first"
    "src_timing_contract_version s = src_timing_contract_version ?first"
    if "s \<in> set sources" for s
    using agree that first unfolding sources_agree_def Int_iff by blast+
  have "\<not> source_malformed s" "\<not> source_profile_differs host k profile s"
    "\<not> source_signal_differs ?first s" "\<not> source_timing_differs ?first s"
    if "s \<in> set sources" for s
    using facts(5,6) [OF that] d g(1)
    by (simp_all add: source_malformed_def source_profile_differs_def source_signal_differs_def
        source_timing_differs_def geo [OF that] geo [OF first] facts(1-4,7-10) [OF that]
        facts(4) [OF first])
  moreover have "\<not> source_abi_differs host d device ?first s" if "s \<in> set sources" for s
    using g dev same by (auto simp: source_abi_differs_def geo [OF that] geo [OF first])
  ultimately show ?thesis
    using geo [OF first] g(1) facts(4) [OF first] by (auto simp: sources_pass_def list_ex_iff)
qed

text \<open>What the selection asks of the package-compatible pair before any source is looked at.\<close>

definition selection_ok ::
    "'v package_host_runtime \<Rightarrow> ('v, 'q) deck_package_requirements \<Rightarrow> 'v package_decision \<Rightarrow>
     asset_state \<Rightarrow> 'v profile_contract \<Rightarrow> contract_id \<Rightarrow> bool" where
  "selection_ok host d decision assets profile device \<longleftrightarrow>
     assets = AssetsPresent \<and> profile \<in> pd_compatible_profiles decision \<and>
     device \<in> ph_tensor_devices host \<and> device \<in> tg_device ` dp_geometries d \<and>
     dt_samples_per_slot (dp_timing d) \<in> ph_samples_per_slot host"

lemma resolve_selected_Compatible:
  assumes dk: "dpv_requires deck = Some d" "kpv_provides codec = Some k"
    and ne: "sources \<noteq> []"
  shows "resolve_selected_pair sem host deck codec assets (Some profile) (Some device) sources scope =
      Inr r \<and> pd_reason r = Compatible \<longleftrightarrow>
    resolve_package_pair sem host deck codec = Inr r \<and> pd_reason r = Compatible \<and>
    selection_ok host d r assets profile device \<and> length sources \<le> 16 \<and>
    (scope = CompleteSet \<longrightarrow> length sources = unat (dp_slots d)) \<and>
    sources_agree host d k profile device sources"
  (is "?L \<longleftrightarrow> ?R")
proof
  assume L: ?L
  then obtain p where p: "resolve_package_pair sem host deck codec = Inr p"
    by (auto simp: resolve_selected_pair_def try_iffs)
  have c: "pd_reason p = Compatible" "assets \<noteq> AssetsMissing" "profile \<in> pd_compatible_profiles p"
    "device \<in> ph_tensor_devices host" "\<exists>g\<in>dp_geometries d. tg_device g = device"
    "dt_samples_per_slot (dp_timing d) \<in> ph_samples_per_slot host"
    "r = resolve_sources host d codec profile device sources scope p"
    using L ne by (auto simp: resolve_selected_pair_def p dk split: if_splits)
  have "pd_reason (resolve_sources host d codec profile device sources scope p) = Compatible"
    using L c by simp
  then have res: "r = p" "length sources \<le> 16"
    "scope = CompleteSet \<longrightarrow> length sources = unat (dp_slots d)"
    "sources_pass host d k profile device sources"
    using c(7) by (simp_all add: resolve_sources_Compatible [OF dk(2)])
  note agree = sources_pass_agree [OF res(4) ne]
  have "assets = AssetsPresent"
    using c(2) by (cases assets) auto
  then show ?R
    using p c res(1,2,3) agree by (auto simp: selection_ok_def)
next
  assume R: ?R
  then have comp: "fst (package_outcome sem host deck codec) = Compatible"
    by (auto simp: resolve_package_pair_Inr)
  have "\<forall>g\<in>dp_geometries d. geometry_is_valid g" "frame_timing_is_valid (dt_frame (dp_timing d))"
    using package_outcome_Compatible [OF comp] dk
    by (auto simp: deck_package_is_valid_def deck_timing_is_valid_def)
  then have "resolve_sources host d codec profile device sources scope r = r"
    using R ne by (intro resolve_sources_pass [OF dk(2)] sources_agree_pass) (auto simp: selection_ok_def)
  then show ?L
    using R ne dk by (auto simp: resolve_selected_pair_def selection_ok_def)
qed

lemma selected_reject:
  "resolve_selected_pair sem host deck codec assets None dev sources scope = Inr r \<Longrightarrow>
   pd_reason r \<noteq> Compatible"
  "resolve_selected_pair sem host deck codec assets prof None sources scope = Inr r \<Longrightarrow>
   pd_reason r \<noteq> Compatible"
  by (auto simp: resolve_selected_pair_def try_iffs split: if_splits option.splits)

lemma selected_empty:
  "resolve_selected_pair sem host deck codec assets (Some profile) (Some device) [] CompleteSet = Inr r \<Longrightarrow>
   pd_reason r \<noteq> Compatible"
  by (auto simp: resolve_selected_pair_def try_iffs split: if_splits option.splits)

lemma resolve_sources_outcome:
  "resolve_sources host d codec profile device sources scope decision \<in>
     insert decision (reject decision ` set SELECTED_COMPATIBILITY_REASON_PRECEDENCE)"
  by (simp add: resolve_sources_def Let_def SELECTED_COMPATIBILITY_REASON_PRECEDENCE_def
      split: option.split)

lemma complete_selection_facts:
  assumes "resolve_selected_pair sem host deck codec assets (Some profile) (Some device) sources
      CompleteSet = Inr r"
    and "pd_reason r = Compatible"
  obtains d k where "dpv_requires deck = Some d" and "kpv_provides codec = Some k"
    and "resolve_package_pair sem host deck codec = Inr r"
    and "selection_ok host d r assets profile device"
    and "length sources = unat (dp_slots d)"
    and "sources_agree host d k profile device sources"
proof -
  have ne: "sources \<noteq> []"
    using assms selected_empty by blast
  obtain p where p: "resolve_package_pair sem host deck codec = Inr p"
    using assms by (auto simp: resolve_selected_pair_def try_iffs)
  have "pd_reason p = Compatible"
    using assms by (auto simp: resolve_selected_pair_def p split: if_splits)
  then have "fst (package_outcome sem host deck codec) = Compatible"
    using p by (auto simp: resolve_package_pair_Inr)
  then obtain d k where dk: "dpv_requires deck = Some d" "kpv_provides codec = Some k"
    by (rule package_outcome_Compatible)
  show ?thesis
    using that [OF dk] assms
      resolve_selected_Compatible [OF dk ne, of sem host assets profile device CompleteSet r]
    by simp
qed

section \<open>Properties\<close>

text \<open>The package stage follows its published precedence. Unless the host itself is
  invalid, the reason is the first entry of the package precedence list that applies to the
  pair, and profiles are offered exactly when the pair is compatible.\<close>

theorem package_stage_precedence:
  "case resolve_package_pair sem host deck codec of
     Inl e \<Rightarrow> e = InvalidHostRuntime \<and> package_host_validate host = Inl e
   | Inr p \<Rightarrow>
       find (package_problem sem host deck codec) PACKAGE_COMPATIBILITY_REASON_PRECEDENCE =
         Some (pd_reason p) \<and>
       (pd_reason p = Compatible \<longleftrightarrow> pd_compatible_profiles p \<noteq> {}) \<and>
       pd_deck p = dpv_identity deck \<and> pd_codec p = kpv_identity codec"
proof (cases "resolve_package_pair sem host deck codec")
  case (Inl e)
  then have "package_host_validate host = Inl e"
    by (auto simp: resolve_package_pair_def try_iffs split: prod.splits)
  moreover from this have "e = InvalidHostRuntime"
    by (simp add: package_host_validate_def split: if_splits)
  ultimately show ?thesis
    by (simp add: Inl)
next
  case (Inr p)
  then have "pd_reason p = fst (package_outcome sem host deck codec)"
    "pd_compatible_profiles p = snd (package_outcome sem host deck codec)"
    "pd_deck p = dpv_identity deck" "pd_codec p = kpv_identity codec"
    by (simp_all add: resolve_package_pair_Inr)
  then show ?thesis
    by (simp add: Inr package_outcome_precedence package_outcome_profiles)
qed

text \<open>The selected stage never upgrades a pair. It fails exactly when the package stage
  fails; it returns an incompatible package decision unchanged; and a compatible one it either
  returns unchanged or rejects with a reason of its own list and no profiles.\<close>

theorem selected_stage_refines_package:
  "case (resolve_package_pair sem host deck codec,
         resolve_selected_pair sem host deck codec assets profile device sources scope) of
     (Inl e, Inl e') \<Rightarrow> e = e'
   | (Inr p, Inr r) \<Rightarrow>
       r = p \<or> pd_reason p = Compatible \<and>
         (\<exists>reason. reason \<in> set SELECTED_COMPATIBILITY_REASON_PRECEDENCE \<and>
            r = p\<lparr>pd_reason := reason, pd_compatible_profiles := {}\<rparr>)
   | _ \<Rightarrow> False"
proof (cases "resolve_package_pair sem host deck codec")
  case (Inl e)
  then show ?thesis
    by (simp add: resolve_selected_pair_def)
next
  case (Inr p)
  obtain r where r: "resolve_selected_pair sem host deck codec assets profile device sources scope = Inr r"
    by (simp add: resolve_selected_pair_def Inr)
  have "r = p \<or> pd_reason p = Compatible \<and>
      r \<in> insert p (reject p ` set SELECTED_COMPATIBILITY_REASON_PRECEDENCE)"
    using r resolve_sources_outcome [of host _ codec _ _ sources scope p]
    by (auto simp: resolve_selected_pair_def Inr SELECTED_COMPATIBILITY_REASON_PRECEDENCE_def
        split: if_splits option.splits)
  then show ?thesis
    by (auto simp: Inr r reject_def)
qed

text \<open>C16: what a complete selection guarantees. A complete set of sources is compatible exactly
  when the package stage is, the assets are present, the chosen profile, device and samples per
  slot are supported, there is one source for every slot of the deck, and all sources agree
  with each other, with the profile and with one geometry and the frame timing of the deck.\<close>

theorem complete_selection_iff:
  "resolve_selected_pair sem host deck codec assets (Some profile) (Some device) sources CompleteSet =
      Inr r \<and> pd_reason r = Compatible \<longleftrightarrow>
   resolve_package_pair sem host deck codec = Inr r \<and> pd_reason r = Compatible \<and>
   (\<exists>d k. dpv_requires deck = Some d \<and> kpv_provides codec = Some k \<and>
      selection_ok host d r assets profile device \<and>
      length sources = unat (dp_slots d) \<and> sources_agree host d k profile device sources)"
  (is "?L \<longleftrightarrow> ?R")
proof
  assume L: ?L
  then show ?R
    by (blast elim: complete_selection_facts)
next
  assume R: ?R
  then obtain d k where dk: "dpv_requires deck = Some d" "kpv_provides codec = Some k"
    and sel: "selection_ok host d r assets profile device"
    and len: "length sources = unat (dp_slots d)"
    and agree: "sources_agree host d k profile device sources"
    by blast
  have comp: "fst (package_outcome sem host deck codec) = Compatible"
    using R by (auto simp: resolve_package_pair_Inr)
  have "deck_package_is_valid sem d"
    using package_outcome_Compatible [OF comp] dk by auto
  then have "1 \<le> unat (dp_slots d)" "unat (dp_slots d) \<le> 16"
    by (auto simp: deck_package_is_valid_def word_le_nat_alt)
  with len have "sources \<noteq> []" "length sources \<le> 16"
    by auto
  then show ?L
    using R sel len agree resolve_selected_Compatible [OF dk] by blast
qed

text \<open>Selecting sources one after the other is safe. Any nonempty part of a compatible
  complete set, in any order and with repetitions up to the limit of 16, is compatible as a
  candidate selection, with the same decision.\<close>

theorem candidate_of_complete:
  assumes "resolve_selected_pair sem host deck codec assets (Some profile) (Some device) sources
      CompleteSet = Inr r"
    and "pd_reason r = Compatible"
    and "set candidates \<subseteq> set sources" and "candidates \<noteq> []" and "length candidates \<le> 16"
  shows "resolve_selected_pair sem host deck codec assets (Some profile) (Some device) candidates
      Candidate = Inr r"
proof -
  obtain d k where dk: "dpv_requires deck = Some d" "kpv_provides codec = Some k"
    and pkg: "resolve_package_pair sem host deck codec = Inr r"
    and sel: "selection_ok host d r assets profile device"
    and agree: "sources_agree host d k profile device sources"
    using complete_selection_facts [OF assms(1,2)] by blast
  have "sources_agree host d k profile device candidates"
    using agree assms(3) unfolding sources_agree_def by blast
  then show ?thesis
    using resolve_selected_Compatible [OF dk assms(4), of sem host assets profile device Candidate r]
      pkg sel assms(2,5) by auto
qed

section \<open>Witnesses\<close>

definition sample_runtime :: "nat package_runtime" where
  "sample_runtime = \<lparr>rt_tensor_abi = ''torch'', rt_python_implementation = ''cpython'',
     rt_python_version = 3, rt_python_platform = ''win_amd64'', rt_torch_exact_build = ''2.8.0''\<rparr>"

definition sample_geometry :: tensor_geometry where
  "sample_geometry = \<lparr>tg_dtype = ''bf16'', tg_device = ''cuda'', tg_batch = 1, tg_channels = 16,
     tg_temporal = 5, tg_height = 56, tg_width = 100\<rparr>"

definition sample_package_deck :: "u8 \<Rightarrow> u32 \<Rightarrow> (nat, nat) deck_package_version" where
  "sample_package_deck slots samples =
     \<lparr>dpv_identity = \<lparr>pi_package_id = ''deck'', pi_version = 1\<rparr>, dpv_readiness = READY,
      dpv_requires = Some \<lparr>dp_slots = slots, dp_protocol_version = 2,
        dp_app_host_api = \<lparr>ha_source = ''>1'', ha_requirement = 1\<rparr>, dp_deck_host_api = 1,
        dp_deck_operator_api = 1, dp_runtime = sample_runtime, dp_profile_allowlist = None,
        dp_geometries = {sample_geometry},
        dp_timing = \<lparr>dt_frame = \<lparr>ft_frame_rate_numerator = 24, ft_frame_rate_denominator = 1\<rparr>,
          dt_samples_per_slot = samples\<rparr>, dp_capabilities = {''mix''}\<rparr>\<rparr>"

definition sample_package_codec :: "(nat, nat) codec_package_version" where
  "sample_package_codec =
     \<lparr>kpv_identity = \<lparr>pi_package_id = ''pack'', pi_version = 1\<rparr>, kpv_readiness = READY,
      kpv_provides = Some \<lparr>kp_protocol_version = 2,
        kp_app_host_api = \<lparr>ha_source = ''>1'', ha_requirement = 1\<rparr>, kp_codec_adapter_api = 1,
        kp_runtime = sample_runtime, kp_lc_spec_versions = {1}, kp_profiles = {sample_profile},
        kp_capabilities = {''mix''}\<rparr>\<rparr>"

definition sample_package_host :: "nat package_host_runtime" where
  "sample_package_host =
     \<lparr>ph_app_version = 1, ph_protocol_versions = {2}, ph_deck_host_apis = {1},
      ph_deck_operator_apis = {1}, ph_codec_adapter_apis = {1}, ph_tensor_abis = {''torch''},
      ph_python_implementations = {''cpython''}, ph_python_versions = {3},
      ph_python_platforms = {''win_amd64''}, ph_lc_spec_versions = {1}, ph_tensor_dtypes = {''bf16''},
      ph_tensor_devices = {''cuda''}, ph_samples_per_slot = {5}, ph_capabilities = {''mix''}\<rparr>"

definition sample_source :: "nat profile_contract \<Rightarrow> nat selected_source" where
  "sample_source profile =
     \<lparr>src_lc_spec_version = 1, src_profile = profile, src_geometry = sample_geometry,
      src_decoded_height = 448, src_decoded_width = 800,
      src_timing = \<lparr>ft_frame_rate_numerator = 24, ft_frame_rate_denominator = 1\<rparr>,
      src_timing_contract = ''h3'', src_timing_contract_version = 1\<rparr>"

definition sample_decision :: "nat package_decision" where
  "sample_decision =
     \<lparr>pd_deck = \<lparr>pi_package_id = ''deck'', pi_version = 1\<rparr>,
      pd_codec = \<lparr>pi_package_id = ''pack'', pi_version = 1\<rparr>,
      pd_reason = Compatible, pd_compatible_profiles = {sample_profile}\<rparr>"

lemma sample_build_trimmed: "is_trimmed ''2.8.0''"
  by code_simp

lemma sample_runtime_valid: "runtime_is_valid sample_semver sample_runtime"
  by (simp add: runtime_is_valid_def sample_runtime_def sample_semver_def sample_build_trimmed)

lemma sample_package_compatible:
  assumes "1 \<le> slots" and "slots \<le> 16" and "samples \<noteq> 0"
  shows "resolve_package_pair sample_semver sample_package_host (sample_package_deck slots samples)
    sample_package_codec = Inr sample_decision"
  using assms sample_runtime_valid
  by (simp add: resolve_package_pair_def package_host_validate_def sample_package_host_def
      package_outcome_def sample_package_deck_def sample_package_codec_def READY_def
      deck_package_is_valid_def codec_package_is_valid_def geometry_is_valid_def
      sample_geometry_def deck_timing_is_valid_def frame_timing_is_valid_def
      host_api_matches_def supports_runtime_def supports_geometry_runtime_def
      allowed_profiles_eq sample_decision_def Let_def)
    (simp add: sample_runtime_def sample_semver_def)

lemma sample_package_2_5: "resolve_package_pair sample_semver sample_package_host
    (sample_package_deck 2 5) sample_package_codec = Inr sample_decision"
  and sample_package_1_5: "resolve_package_pair sample_semver sample_package_host
    (sample_package_deck 1 5) sample_package_codec = Inr sample_decision"
  and sample_package_1_7: "resolve_package_pair sample_semver sample_package_host
    (sample_package_deck 1 7) sample_package_codec = Inr sample_decision"
  by (rule sample_package_compatible; simp)+

lemma sample_selected:
  "resolve_selected_pair sample_semver sample_package_host (sample_package_deck 2 5)
     sample_package_codec AssetsPresent (Some sample_profile) (Some ''cuda'')
     [sample_source sample_profile, sample_source sample_profile] CompleteSet = Inr sample_decision"
  unfolding resolve_selected_pair_def sample_package_2_5
  by (simp add: resolve_sources_def
      sample_package_deck_def sample_package_codec_def sample_package_host_def sample_decision_def
      sample_source_def source_malformed_def source_profile_differs_def source_abi_differs_def
      source_signal_differs_def source_timing_differs_def geometry_is_valid_def
      frame_timing_is_valid_def same_dtype_and_device_def sample_geometry_def Let_def)

theorem candidate_of_complete_witness:
  "resolve_selected_pair sample_semver sample_package_host (sample_package_deck 2 5)
     sample_package_codec AssetsPresent (Some sample_profile) (Some ''cuda'')
     [sample_source sample_profile] Candidate = Inr sample_decision"
  by (rule candidate_of_complete [OF sample_selected]) (simp_all add: sample_decision_def)

section \<open>Where the published precedence of the selected stage does not hold\<close>

text \<open>
  The list \<open>SELECTED_COMPATIBILITY_REASON_PRECEDENCE\<close> puts \<open>UnsupportedProfile\<close> before
  \<open>UnsupportedTiming\<close>. The samples per slot of the deck are checked before the sources, so a
  deck with an unsupported number of samples is reported as \<open>UnsupportedTiming\<close> although the
  profile of the selected source does not match; the same pair with a supported number of
  samples is reported as \<open>UnsupportedProfile\<close>.
\<close>

text \<open>The order of the selected stage is not the published one. For one and the same source,
  whose profile does not match, the reported reason is UnsupportedProfile with a supported
  number of samples per slot and UnsupportedTiming with an unsupported one, although the
  published list ranks the profile first.\<close>

theorem selected_precedence_divergence:
  "(case resolve_selected_pair sample_semver sample_package_host (sample_package_deck 1 5)
       sample_package_codec AssetsPresent (Some sample_profile) (Some ''cuda'')
       [sample_source (sample_profile\<lparr>pc_profile := ''other''\<rparr>)] CompleteSet of
      Inr r \<Rightarrow> pd_reason r = UnsupportedProfile | Inl e \<Rightarrow> False) \<and>
   (case resolve_selected_pair sample_semver sample_package_host (sample_package_deck 1 7)
       sample_package_codec AssetsPresent (Some sample_profile) (Some ''cuda'')
       [sample_source (sample_profile\<lparr>pc_profile := ''other''\<rparr>)] CompleteSet of
      Inr r \<Rightarrow> pd_reason r = UnsupportedTiming | Inl e \<Rightarrow> False) \<and>
   take 5 (dropWhile (\<lambda>r. r \<noteq> UnsupportedProfile) SELECTED_COMPATIBILITY_REASON_PRECEDENCE) =
     [UnsupportedProfile, UnsupportedTensorAbi, UnsupportedSignal, UnsupportedTiming, Compatible]"
  unfolding resolve_selected_pair_def sample_package_1_5 sample_package_1_7
  by (simp add: resolve_sources_def
      sample_package_deck_def sample_package_codec_def sample_package_host_def sample_decision_def
      sample_source_def source_malformed_def source_profile_differs_def sample_profile_def
      geometry_is_valid_def frame_timing_is_valid_def sample_geometry_def Let_def
      SELECTED_COMPATIBILITY_REASON_PRECEDENCE_def)

end
