(* ===== verification/Error_Codes.thy ===== *)
theory Error_Codes
  imports LD_Prelude
begin

text \<open>
  The stable error codes of the workspace (\<open>ErrorCode\<close> of \<open>crates/control/src/protocol.rs\<close>) and
  the names they carry on the wire. The enum has no payloads; its size and code plugins are
  left out because nothing needs them.
\<close>

text \<open>Stable error codes and the names they carry on the wire.\<close>

datatype (plugins only: ) error_code =
    ProtocolBadLength | ProtocolFrameTooLarge | ProtocolTruncatedFrame
  | ProtocolInvalidMessagePack | ProtocolDuplicateKey | ProtocolSchemaInvalid
  | ProtocolUnsupportedVersion | ProtocolSessionMismatch | ProtocolAuthenticationFailed
  | ProtocolSequenceInvalid | ProtocolDuplicateCommandId | ProtocolUnknownCommand
  | StateInvalidTransition | StateBusy | StateStaleSlotRevision
  | StateStaleGeneration | CodecPackMissing | CodecPackInvalid
  | CodecPackIncompatible | CodecRuntimeCorrupt | CodecAdapterMissing
  | CodecCudaUnavailable | CodecAssetUnbound | CodecAssetMissing
  | CodecAssetLicenseUnconfirmed | CodecAssetHashMismatch | CodecAssetFormatInvalid
  | CodecAssetIncompatible | CodecLoadFailed | SlotCartridgeMissing
  | SlotCartridgeHashMismatch | SlotCartridgeInvalid | SlotProfileIncompatible
  | DecodeCycleOutOfOrder | DecodeCausalStateInvalid | DecodeFailed
  | DecodeGpuOutOfMemory | RingUnbound | RingLayoutIncompatible
  | RingInvalidHandle | RingRuntimeGeometryTooLarge | RingBackpressure
  | RingPublishFailed | RingSequenceExhausted | OperatorNotInstalled
  | OperatorVersionMismatch | OperatorNotTrusted | OperatorProfileIncompatible
  | DeckSourceIncompatible | DeckProcessFailed | DeckResetFailed
  | DeckResetNotRequired | DeckGenerationExhausted | CaptureAlreadyActive
  | CaptureBoundaryInvalid | CaptureBoundaryUnavailable | CaptureCarrierPaused
  | CaptureControlsInvalid | CaptureEventLimit | CaptureIdInvalid
  | CaptureIdMismatch | CaptureInvalidState | CaptureLimitExceeded
  | CaptureMappingChanged | CaptureModeInvalid | CaptureNotFound
  | CaptureProvenanceInvalid | CaptureReceiptTooLarge | CaptureSnapshotFrozen
  | CaptureSourceCycleIncompatible | CaptureStartFailed | CaptureTemporaryRootInvalid
  | CaptureTransportLocked | CaptureWriteFailed | WorkerHeartbeatTimeout
  | WorkerCommandTimeout | WorkerProcessExited | WorkerInternal

primrec error_code_wire :: "error_code \<Rightarrow> string" where
  "error_code_wire ProtocolBadLength = ''protocol.bad_length''"
| "error_code_wire ProtocolFrameTooLarge = ''protocol.frame_too_large''"
| "error_code_wire ProtocolTruncatedFrame = ''protocol.truncated_frame''"
| "error_code_wire ProtocolInvalidMessagePack = ''protocol.invalid_msgpack''"
| "error_code_wire ProtocolDuplicateKey = ''protocol.duplicate_key''"
| "error_code_wire ProtocolSchemaInvalid = ''protocol.schema_invalid''"
| "error_code_wire ProtocolUnsupportedVersion = ''protocol.unsupported_version''"
| "error_code_wire ProtocolSessionMismatch = ''protocol.session_mismatch''"
| "error_code_wire ProtocolAuthenticationFailed = ''protocol.authentication_failed''"
| "error_code_wire ProtocolSequenceInvalid = ''protocol.sequence_invalid''"
| "error_code_wire ProtocolDuplicateCommandId = ''protocol.duplicate_command_id''"
| "error_code_wire ProtocolUnknownCommand = ''protocol.unknown_command''"
| "error_code_wire StateInvalidTransition = ''state.invalid_transition''"
| "error_code_wire StateBusy = ''state.busy''"
| "error_code_wire StateStaleSlotRevision = ''state.stale_slot_revision''"
| "error_code_wire StateStaleGeneration = ''state.stale_generation''"
| "error_code_wire CodecPackMissing = ''codec.pack_missing''"
| "error_code_wire CodecPackInvalid = ''codec.pack_invalid''"
| "error_code_wire CodecPackIncompatible = ''codec.pack_incompatible''"
| "error_code_wire CodecRuntimeCorrupt = ''codec.runtime_corrupt''"
| "error_code_wire CodecAdapterMissing = ''codec.adapter_missing''"
| "error_code_wire CodecCudaUnavailable = ''codec.cuda_unavailable''"
| "error_code_wire CodecAssetUnbound = ''codec.asset_unbound''"
| "error_code_wire CodecAssetMissing = ''codec.asset_missing''"
| "error_code_wire CodecAssetLicenseUnconfirmed = ''codec.asset_license_unconfirmed''"
| "error_code_wire CodecAssetHashMismatch = ''codec.asset_hash_mismatch''"
| "error_code_wire CodecAssetFormatInvalid = ''codec.asset_format_invalid''"
| "error_code_wire CodecAssetIncompatible = ''codec.asset_incompatible''"
| "error_code_wire CodecLoadFailed = ''codec.load_failed''"
| "error_code_wire SlotCartridgeMissing = ''slot.cartridge_missing''"
| "error_code_wire SlotCartridgeHashMismatch = ''slot.cartridge_hash_mismatch''"
| "error_code_wire SlotCartridgeInvalid = ''slot.cartridge_invalid''"
| "error_code_wire SlotProfileIncompatible = ''slot.profile_incompatible''"
| "error_code_wire DecodeCycleOutOfOrder = ''decode.cycle_out_of_order''"
| "error_code_wire DecodeCausalStateInvalid = ''decode.causal_state_invalid''"
| "error_code_wire DecodeFailed = ''decode.failed''"
| "error_code_wire DecodeGpuOutOfMemory = ''decode.gpu_oom''"
| "error_code_wire RingUnbound = ''ring.unbound''"
| "error_code_wire RingLayoutIncompatible = ''ring.layout_incompatible''"
| "error_code_wire RingInvalidHandle = ''ring.invalid_handle''"
| "error_code_wire RingRuntimeGeometryTooLarge = ''ring.runtime_geometry_too_large''"
| "error_code_wire RingBackpressure = ''ring.backpressure''"
| "error_code_wire RingPublishFailed = ''ring.publish_failed''"
| "error_code_wire RingSequenceExhausted = ''ring.sequence_exhausted''"
| "error_code_wire OperatorNotInstalled = ''operator.not_installed''"
| "error_code_wire OperatorVersionMismatch = ''operator.version_mismatch''"
| "error_code_wire OperatorNotTrusted = ''operator.not_trusted''"
| "error_code_wire OperatorProfileIncompatible = ''operator.profile_incompatible''"
| "error_code_wire DeckSourceIncompatible = ''deck.source_incompatible''"
| "error_code_wire DeckProcessFailed = ''deck.process_failed''"
| "error_code_wire DeckResetFailed = ''deck.reset_failed''"
| "error_code_wire DeckResetNotRequired = ''deck.reset_not_required''"
| "error_code_wire DeckGenerationExhausted = ''deck.generation_exhausted''"
| "error_code_wire CaptureAlreadyActive = ''capture.already_active''"
| "error_code_wire CaptureBoundaryInvalid = ''capture.boundary_invalid''"
| "error_code_wire CaptureBoundaryUnavailable = ''capture.boundary_unavailable''"
| "error_code_wire CaptureCarrierPaused = ''capture.carrier_paused''"
| "error_code_wire CaptureControlsInvalid = ''capture.controls_invalid''"
| "error_code_wire CaptureEventLimit = ''capture.event_limit''"
| "error_code_wire CaptureIdInvalid = ''capture.id_invalid''"
| "error_code_wire CaptureIdMismatch = ''capture.id_mismatch''"
| "error_code_wire CaptureInvalidState = ''capture.invalid_state''"
| "error_code_wire CaptureLimitExceeded = ''capture.limit_exceeded''"
| "error_code_wire CaptureMappingChanged = ''capture.mapping_changed''"
| "error_code_wire CaptureModeInvalid = ''capture.mode_invalid''"
| "error_code_wire CaptureNotFound = ''capture.not_found''"
| "error_code_wire CaptureProvenanceInvalid = ''capture.provenance_invalid''"
| "error_code_wire CaptureReceiptTooLarge = ''capture.receipt_too_large''"
| "error_code_wire CaptureSnapshotFrozen = ''capture.snapshot_frozen''"
| "error_code_wire CaptureSourceCycleIncompatible = ''capture.source_cycle_incompatible''"
| "error_code_wire CaptureStartFailed = ''capture.start_failed''"
| "error_code_wire CaptureTemporaryRootInvalid = ''capture.temporary_root_invalid''"
| "error_code_wire CaptureTransportLocked = ''capture.transport_locked''"
| "error_code_wire CaptureWriteFailed = ''capture.write_failed''"
| "error_code_wire WorkerHeartbeatTimeout = ''worker.heartbeat_timeout''"
| "error_code_wire WorkerCommandTimeout = ''worker.command_timeout''"
| "error_code_wire WorkerProcessExited = ''worker.process_exited''"
| "error_code_wire WorkerInternal = ''worker.internal''"

end
