(* ===== verification/Wire_Types.thy ===== *)
theory Wire_Types
  imports LD_Prelude Error_Codes
begin

text \<open>
  Worker Protocol 1, data and static validation (\<open>crates/control/src/protocol.rs\<close>): the
  records and enums of the wire messages in the order of the source, and the \<open>validate\<close>
  method of each, with its checks and errors in their order.

  A field keeps its source name behind a short prefix for its struct, because Isabelle record
  fields share one name space. A \<open>BoundedVec\<close> is a list; its constructors, the only way to
  build one, are modelled with their bound.
\<close>

section \<open>Constants and errors\<close>

definition WORKER_PROTOCOL_VERSION :: u16 where
  "WORKER_PROTOCOL_VERSION = 1"

definition MAX_CONTROL_FRAME_BYTES :: u32 where
  "MAX_CONTROL_FRAME_BYTES = 262144"

definition MAX_MESSAGES_PER_SESSION :: nat where
  "MAX_MESSAGES_PER_SESSION = 65536"

definition MAX_PENDING_COMMANDS :: nat where
  "MAX_PENDING_COMMANDS = 256"

definition MAX_RING_MAPPING_BYTES :: u64 where
  "MAX_RING_MAPPING_BYTES = 256 * 1024 * 1024"

definition MAX_IDENTIFIER_BYTES :: nat where
  "MAX_IDENTIFIER_BYTES = 128"

definition MAX_HUMAN_STRING_BYTES :: nat where
  "MAX_HUMAN_STRING_BYTES = 4096"

definition MAX_PATH_BYTES :: nat where
  "MAX_PATH_BYTES = 32768"

lemmas wire_constants = WORKER_PROTOCOL_VERSION_def MAX_CONTROL_FRAME_BYTES_def
  MAX_MESSAGES_PER_SESSION_def MAX_PENDING_COMMANDS_def MAX_RING_MAPPING_BYTES_def
  MAX_IDENTIFIER_BYTES_def MAX_HUMAN_STRING_BYTES_def MAX_PATH_BYTES_def

datatype command_name =
    NSessionConfigure | NCodecInspect | NCodecLoad | NSlotLoad | NSlotReset
  | NSlotDecodeCycle | NRingBind | NWorkerStatus | NMetricsGet | NWorkerShutdown

datatype validation_error =
    UnsupportedProtocolVersion u16
  | SequenceZero
  | NilIdentifier string
  | SessionMismatch
  | SequenceMismatch u64 u64
  | DuplicateMessageId
  | DuplicateCommandId
  | UnexpectedMessageKind
  | ExpectedCommand
  | UnknownReply
  | ReplyNameMismatch command_name command_name
  | UnknownCause
  | PendingCommandLimit
  | SessionMessageLimit
  | InvalidField string string

definition stable_code :: "validation_error \<Rightarrow> error_code" where
  "stable_code e = (case e of
       UnsupportedProtocolVersion actual \<Rightarrow> ProtocolUnsupportedVersion
     | SessionMismatch \<Rightarrow> ProtocolSessionMismatch
     | SequenceZero \<Rightarrow> ProtocolSequenceInvalid
     | SequenceMismatch expected actual \<Rightarrow> ProtocolSequenceInvalid
     | DuplicateCommandId \<Rightarrow> ProtocolDuplicateCommandId
     | DuplicateMessageId \<Rightarrow> ProtocolDuplicateCommandId
     | NilIdentifier field \<Rightarrow> ProtocolSchemaInvalid
     | UnexpectedMessageKind \<Rightarrow> ProtocolSchemaInvalid
     | ExpectedCommand \<Rightarrow> ProtocolSchemaInvalid
     | UnknownReply \<Rightarrow> ProtocolSchemaInvalid
     | ReplyNameMismatch expected actual \<Rightarrow> ProtocolSchemaInvalid
     | UnknownCause \<Rightarrow> ProtocolSchemaInvalid
     | PendingCommandLimit \<Rightarrow> ProtocolSchemaInvalid
     | SessionMessageLimit \<Rightarrow> ProtocolSchemaInvalid
     | InvalidField field reason \<Rightarrow> ProtocolSchemaInvalid)"

type_synonym 'a wire_result = "validation_error + 'a"

section \<open>Field validators\<close>

definition invalid :: "string \<Rightarrow> string \<Rightarrow> 'a wire_result" where
  "invalid field reason = Inl (InvalidField field reason)"

definition is_identifier_byte :: "char \<Rightarrow> bool" where
  "is_identifier_byte c = (is_ascii_lowercase c \<or> is_ascii_digit c \<or> c \<in> set ''._-'')"

definition validate_identifier :: "string \<Rightarrow> string \<Rightarrow> unit wire_result" where
  "validate_identifier field value =
     (if value = [] \<or> length value > MAX_IDENTIFIER_BYTES
      then invalid field ''must contain 1..=128 ASCII bytes''
      else if \<not> list_all is_identifier_byte value
      then invalid field ''must be a lowercase ASCII token''
      else Inr ())"

definition validate_human :: "string \<Rightarrow> string \<Rightarrow> unit wire_result" where
  "validate_human field value =
     (if value = [] \<or> length value > MAX_HUMAN_STRING_BYTES \<or> CHR 0x00 \<in> set value
      then invalid field ''must contain 1..=4096 UTF-8 bytes without NUL''
      else Inr ())"

definition validate_path :: "string \<Rightarrow> string \<Rightarrow> unit wire_result" where
  "validate_path field value =
     (if value = [] \<or> length value > MAX_PATH_BYTES \<or> CHR 0x00 \<in> set value
      then invalid field ''must contain 1..=32768 UTF-8 bytes without NUL''
      else Inr ())"

definition is_lower_hex :: "char \<Rightarrow> bool" where
  "is_lower_hex c = (is_ascii_digit c \<or> 97 \<le> byte_val c \<and> byte_val c \<le> 102)"

definition validate_sha256 :: "string \<Rightarrow> string \<Rightarrow> unit wire_result" where
  "validate_sha256 field value =
     (if length value \<noteq> 64 \<or> \<not> list_all is_lower_hex value
      then invalid field ''must be 64 lowercase hexadecimal characters''
      else Inr ())"

text \<open>
  \<open>BoundedVec::try_from_vec\<close> and the deserializer's \<open>visit_seq\<close>: the latter looks at the
  declared size first and then counts the elements as they arrive, each of them a value or
  the error of its own deserializer.
\<close>

definition bounded_vec_try_from :: "nat \<Rightarrow> 'a list \<Rightarrow> 'a list wire_result" where
  "bounded_vec_try_from maximum values =
     (if length values > maximum then invalid ''bounded_vec'' ''too many elements''
      else Inr values)"

fun visit_elements :: "nat \<Rightarrow> 'a list \<Rightarrow> (string + 'a) list \<Rightarrow> string + 'a list" where
  "visit_elements maximum values [] = Inr values"
| "visit_elements maximum values (Inl e # xs) = Inl e"
| "visit_elements maximum values (Inr x # xs) =
     (if length values = maximum then Inl ''array exceeds the element limit''
      else visit_elements maximum (values @ [x]) xs)"

definition visit_seq :: "nat \<Rightarrow> nat option \<Rightarrow> (string + 'a) list \<Rightarrow> string + 'a list" where
  "visit_seq maximum size_hint elements =
     (case size_hint of
        Some n \<Rightarrow> if n > maximum then Inl ''array exceeds the element limit''
                  else visit_elements maximum [] elements
      | None \<Rightarrow> visit_elements maximum [] elements)"

text \<open>The 32-byte authentication token; the comparison always looks at every byte.\<close>

unbundle bit_operations_syntax

type_synonym auth_token = "u8 list"

definition auth_token_visit_bytes :: "u8 list \<Rightarrow> string + auth_token" where
  "auth_token_visit_bytes value =
     (if length value = 32 then Inr value else Inl ''exactly 32 authentication bytes'')"

definition constant_time_eq :: "auth_token \<Rightarrow> auth_token \<Rightarrow> bool" where
  "constant_time_eq a b =
     (foldl (\<lambda>difference (left, right). difference OR (left XOR right)) 0 (zip a b) = 0)"

section \<open>Payload records\<close>

record session_configure =
  sc_selected_protocol_version :: u16
  sc_app_version :: string
  sc_heartbeat_interval_ms :: u32
  sc_heartbeat_hard_timeout_ms :: u32
  sc_max_frame_bytes :: u32
  sc_max_inflight_decode_batches :: u16

definition u32_saturating_mul :: "u32 \<Rightarrow> u32 \<Rightarrow> u32" where
  "u32_saturating_mul a b = (case checked_mul a b of Some c \<Rightarrow> c | None \<Rightarrow> - 1)"

definition validate_session_configure :: "session_configure \<Rightarrow> unit wire_result" where
  "validate_session_configure v =
     (if sc_selected_protocol_version v \<noteq> WORKER_PROTOCOL_VERSION
      then invalid ''selected_protocol_version'' ''must equal 1''
      else try_bind (validate_human ''app_version'' (sc_app_version v)) (\<lambda>_.
      if \<not> (100 \<le> sc_heartbeat_interval_ms v \<and> sc_heartbeat_interval_ms v \<le> 10000)
      then invalid ''heartbeat_interval_ms'' ''must be within 100..=10000''
      else if sc_heartbeat_hard_timeout_ms v < u32_saturating_mul (sc_heartbeat_interval_ms v) 3
      then invalid ''heartbeat_hard_timeout_ms'' ''must be at least three heartbeat intervals''
      else if sc_max_frame_bytes v \<noteq> MAX_CONTROL_FRAME_BYTES
      then invalid ''max_frame_bytes'' ''must equal protocol maximum''
      else if sc_max_inflight_decode_batches v \<noteq> 1
      then invalid ''max_inflight_decode_batches'' ''v1 requires exactly one''
      else Inr ()))"

record session_configured =
  scd_selected_protocol_version :: u16
  scd_heartbeat_interval_ms :: u32
  scd_heartbeat_hard_timeout_ms :: u32
  scd_max_frame_bytes :: u32
  scd_max_inflight_decode_batches :: u16

definition validate_session_configured :: "session_configured \<Rightarrow> unit wire_result" where
  "validate_session_configured v = validate_session_configure
     \<lparr>sc_selected_protocol_version = scd_selected_protocol_version v,
      sc_app_version = ''ack'',
      sc_heartbeat_interval_ms = scd_heartbeat_interval_ms v,
      sc_heartbeat_hard_timeout_ms = scd_heartbeat_hard_timeout_ms v,
      sc_max_frame_bytes = scd_max_frame_bytes v,
      sc_max_inflight_decode_batches = scd_max_inflight_decode_batches v\<rparr>"

record profile_ref =
  pr_codec_family :: string
  pr_profile :: string
  pr_profile_version :: string

definition validate_profile_ref :: "profile_ref \<Rightarrow> unit wire_result" where
  "validate_profile_ref v =
     try_bind (validate_identifier ''codec_family'' (pr_codec_family v)) (\<lambda>_.
     try_bind (validate_identifier ''profile'' (pr_profile v)) (\<lambda>_.
     validate_human ''profile_version'' (pr_profile_version v)))"

record external_asset_binding =
  ea_asset_id :: string
  ea_path :: string
  ea_sha256 :: string
  ea_byte_length :: u64

definition validate_external_asset :: "external_asset_binding \<Rightarrow> unit wire_result" where
  "validate_external_asset v =
     try_bind (validate_identifier ''asset_id'' (ea_asset_id v)) (\<lambda>_.
     try_bind (validate_path ''asset.path'' (ea_path v)) (\<lambda>_.
     try_bind (validate_sha256 ''asset.sha256'' (ea_sha256 v)) (\<lambda>_.
     if ea_byte_length v = 0 then invalid ''asset.byte_length'' ''must be nonzero''
     else Inr ())))"

record codec_load =
  cl_pack_id :: string
  cl_pack_version :: string
  cl_adapter_id :: string
  cl_profile :: profile_ref
  cl_device_ordinal :: u16
  cl_assets :: "external_asset_binding list"

definition validate_codec_load :: "codec_load \<Rightarrow> unit wire_result" where
  "validate_codec_load v =
     try_bind (validate_identifier ''pack_id'' (cl_pack_id v)) (\<lambda>_.
     try_bind (validate_human ''pack_version'' (cl_pack_version v)) (\<lambda>_.
     try_bind (validate_identifier ''adapter_id'' (cl_adapter_id v)) (\<lambda>_.
     try_bind (validate_profile_ref (cl_profile v)) (\<lambda>_.
     if cl_assets v = []
     then invalid ''assets'' ''at least one explicit decoder asset is required''
     else try_all validate_external_asset (cl_assets v)))))"

record device_descriptor =
  dd_ordinal :: u16
  dd_name :: string
  dd_total_memory_bytes :: u64

definition validate_device :: "device_descriptor \<Rightarrow> unit wire_result" where
  "validate_device v = validate_human ''device.name'' (dd_name v)"

record codec_loaded =
  cld_pack_id :: string
  cld_pack_version :: string
  cld_adapter_id :: string
  cld_adapter_version :: string
  cld_profile :: profile_ref
  cld_device :: device_descriptor

definition validate_codec_loaded :: "codec_loaded \<Rightarrow> unit wire_result" where
  "validate_codec_loaded v =
     try_bind (validate_identifier ''pack_id'' (cld_pack_id v)) (\<lambda>_.
     try_bind (validate_human ''pack_version'' (cld_pack_version v)) (\<lambda>_.
     try_bind (validate_identifier ''adapter_id'' (cld_adapter_id v)) (\<lambda>_.
     try_bind (validate_human ''adapter_version'' (cld_adapter_version v)) (\<lambda>_.
     try_bind (validate_profile_ref (cld_profile v)) (\<lambda>_.
     validate_device (cld_device v))))))"

record adapter_descriptor =
  ad_adapter_id :: string
  ad_adapter_version :: string
  ad_profiles :: "profile_ref list"

definition validate_adapter :: "adapter_descriptor \<Rightarrow> unit wire_result" where
  "validate_adapter v =
     try_bind (validate_identifier ''adapter_id'' (ad_adapter_id v)) (\<lambda>_.
     try_bind (validate_human ''adapter_version'' (ad_adapter_version v)) (\<lambda>_.
     try_all validate_profile_ref (ad_profiles v)))"

record codec_inspection =
  ci_torch_version :: "string option"
  ci_cuda_available :: bool
  ci_cuda_runtime :: "string option"
  ci_devices :: "device_descriptor list"
  ci_adapters :: "adapter_descriptor list"

definition validate_optional :: "('a \<Rightarrow> unit wire_result) \<Rightarrow> 'a option \<Rightarrow> unit wire_result" where
  "validate_optional f x = (case x of Some value \<Rightarrow> f value | None \<Rightarrow> Inr ())"

definition validate_codec_inspection :: "codec_inspection \<Rightarrow> unit wire_result" where
  "validate_codec_inspection v =
     try_bind (validate_optional (validate_human ''torch_version'') (ci_torch_version v)) (\<lambda>_.
     try_bind (validate_optional (validate_human ''cuda_runtime'') (ci_cuda_runtime v)) (\<lambda>_.
     try_bind (try_all validate_device (ci_devices v)) (\<lambda>_.
     try_all validate_adapter (ci_adapters v))))"

record slot_load =
  sl_slot_id :: string
  sl_cartridge_path :: string
  sl_cartridge_id :: uuid
  sl_expected_archive_sha256 :: string
  sl_stream_generation :: u64

definition validate_slot_load :: "slot_load \<Rightarrow> unit wire_result" where
  "validate_slot_load v =
     try_bind (validate_identifier ''slot_id'' (sl_slot_id v)) (\<lambda>_.
     try_bind (validate_path ''cartridge_path'' (sl_cartridge_path v)) (\<lambda>_.
     if sl_cartridge_id v = 0 then Inl (NilIdentifier ''cartridge_id'')
     else try_bind (validate_sha256 ''expected_archive_sha256'' (sl_expected_archive_sha256 v)) (\<lambda>_.
     if sl_stream_generation v = 0 then invalid ''stream_generation'' ''must be nonzero''
     else Inr ())))"

record cycle_pattern =
  cp_first_cycle_index :: u64
  cp_cycle_count :: u64
  cp_latent_base :: u64
  cp_latent_stride :: u32
  cp_latent_count :: u32
  cp_decoded_base :: u64
  cp_decoded_stride :: u32
  cp_decoded_count :: u32

definition validate_cycle_pattern :: "cycle_pattern \<Rightarrow> unit wire_result" where
  "validate_cycle_pattern v =
     (if cp_latent_count v = 0 \<or> cp_decoded_count v = 0
      then invalid ''cycle_pattern'' ''per-cycle counts must be nonzero''
      else Inr ())"

record timing_descriptor =
  td_frame_rate_numerator :: u32
  td_frame_rate_denominator :: u32
  td_latent_slot_count :: u64
  td_decoded_frame_count :: u64
  td_cycle_count :: u64
  td_initial :: cycle_pattern
  td_steady :: cycle_pattern
  td_reset_required_on_wrap :: bool
  td_arbitrary_seek :: bool
  td_max_frames_per_cycle :: u32

definition validate_timing :: "timing_descriptor \<Rightarrow> unit wire_result" where
  "validate_timing v =
     (if td_frame_rate_numerator v = 0 \<or> td_frame_rate_denominator v = 0
      then invalid ''frame_rate'' ''numerator and denominator must be nonzero''
      else if td_latent_slot_count v = 0 \<or> td_decoded_frame_count v = 0 \<or> td_cycle_count v = 0
      then invalid ''timing'' ''slot, frame, and cycle counts must be nonzero''
      else if \<not> td_reset_required_on_wrap v \<or> td_arbitrary_seek v
      then invalid ''timing.transport'' ''v1 requires reset-on-wrap and forbids arbitrary seek''
      else if td_max_frames_per_cycle v = 0
      then invalid ''max_frames_per_cycle'' ''must be nonzero''
      else try_bind (validate_cycle_pattern (td_initial v)) (\<lambda>_.
           validate_cycle_pattern (td_steady v)))"

record slot_loaded =
  sld_slot_id :: string
  sld_slot_revision :: u64
  sld_width :: u32
  sld_height :: u32
  sld_profile :: profile_ref
  sld_timing :: timing_descriptor

definition validate_slot_loaded :: "slot_loaded \<Rightarrow> unit wire_result" where
  "validate_slot_loaded v =
     try_bind (validate_identifier ''slot_id'' (sld_slot_id v)) (\<lambda>_.
     if sld_slot_revision v = 0 \<or> sld_width v = 0 \<or> sld_height v = 0
     then invalid ''slot'' ''revision and dimensions must be nonzero''
     else try_bind (validate_profile_ref (sld_profile v)) (\<lambda>_.
     validate_timing (sld_timing v)))"

datatype reset_reason = ResetLoad | ResetLoop | ResetRestart | ResetRecovery

record slot_reset =
  sr_slot_id :: string
  sr_slot_revision :: u64
  sr_new_stream_generation :: u64
  sr_reason :: reset_reason

definition validate_slot_reset :: "slot_reset \<Rightarrow> unit wire_result" where
  "validate_slot_reset v =
     try_bind (validate_identifier ''slot_id'' (sr_slot_id v)) (\<lambda>_.
     if sr_slot_revision v = 0 \<or> sr_new_stream_generation v = 0
     then invalid ''slot.reset'' ''revision and generation must be nonzero''
     else Inr ())"

record slot_reset_ack =
  sra_slot_id :: string
  sra_slot_revision :: u64
  sra_stream_generation :: u64
  sra_next_cycle_index :: u64
  sra_ring_write_sequence :: u64

definition validate_slot_reset_ack :: "slot_reset_ack \<Rightarrow> unit wire_result" where
  "validate_slot_reset_ack v =
     try_bind (validate_identifier ''slot_id'' (sra_slot_id v)) (\<lambda>_.
     if sra_slot_revision v = 0 \<or> sra_stream_generation v = 0 \<or> sra_next_cycle_index v \<noteq> 0
     then invalid ''slot.reset_ack''
            ''revision/generation must be nonzero and next cycle must be zero''
     else Inr ())"

record slot_decode_cycle =
  sdc_slot_id :: string
  sdc_slot_revision :: u64
  sdc_stream_generation :: u64
  sdc_cycle_index :: u64

definition validate_slot_decode_cycle :: "slot_decode_cycle \<Rightarrow> unit wire_result" where
  "validate_slot_decode_cycle v =
     try_bind (validate_identifier ''slot_id'' (sdc_slot_id v)) (\<lambda>_.
     if sdc_slot_revision v = 0 \<or> sdc_stream_generation v = 0
     then invalid ''slot.decode_cycle'' ''revision and generation must be nonzero''
     else Inr ())"

record decode_cycle_ack =
  da_slot_id :: string
  da_slot_revision :: u64
  da_stream_generation :: u64
  da_cycle_index :: u64
  da_latent_start :: u64
  da_latent_count :: u32
  da_decoded_start_frame :: u64
  da_decoded_frame_count :: u32
  da_ring_first_sequence :: u64
  da_ring_last_sequence_exclusive :: u64
  da_end_of_stream :: bool

definition validate_decode_cycle_ack :: "decode_cycle_ack \<Rightarrow> unit wire_result" where
  "validate_decode_cycle_ack v =
     try_bind (validate_identifier ''slot_id'' (da_slot_id v)) (\<lambda>_.
     if da_slot_revision v = 0 \<or> da_stream_generation v = 0
        \<or> da_latent_count v = 0 \<or> da_decoded_frame_count v = 0
     then invalid ''decode_cycle_ack'' ''revision, generation, and counts must be nonzero''
     else try_bind (ok_or (checked_add (da_ring_first_sequence v) (ucast (da_decoded_frame_count v)))
                      (InvalidField ''ring sequence'' ''overflow'')) (\<lambda>expected_end.
     if expected_end \<noteq> da_ring_last_sequence_exclusive v
     then invalid ''ring_last_sequence_exclusive''
            ''must equal first sequence plus decoded frame count''
     else Inr ()))"

record ring_bind =
  rb_layout_version :: u16
  rb_mapping_handle :: u64
  rb_mapping_bytes :: u64
  rb_frames_ready_event_handle :: u64
  rb_ring_id :: uuid

definition validate_ring_bind :: "ring_bind \<Rightarrow> unit wire_result" where
  "validate_ring_bind v =
     (if rb_layout_version v \<noteq> 1 then invalid ''layout_version'' ''must equal 1''
      else if rb_mapping_handle v = 0 \<or> rb_frames_ready_event_handle v = 0
      then invalid ''ring handles'' ''must be nonzero target-process handles''
      else if \<not> (4096 \<le> rb_mapping_bytes v \<and> rb_mapping_bytes v \<le> MAX_RING_MAPPING_BYTES)
      then invalid ''mapping_bytes'' ''outside v1 runtime bounds''
      else if rb_ring_id v = 0 then Inl (NilIdentifier ''ring_id'')
      else Inr ())"

record ring_bound =
  rbd_layout_version :: u16
  rbd_ring_id :: uuid
  rbd_mapping_bytes :: u64

definition validate_ring_bound :: "ring_bound \<Rightarrow> unit wire_result" where
  "validate_ring_bound v = validate_ring_bind
     \<lparr>rb_layout_version = rbd_layout_version v, rb_mapping_handle = 1,
      rb_mapping_bytes = rbd_mapping_bytes v, rb_frames_ready_event_handle = 1,
      rb_ring_id = rbd_ring_id v\<rparr>"

datatype worker_state = WHandshaking | WReady | WBusy | WFaulted | WStopping | WStopped

datatype codec_state = CUnloaded | CLoading | CReady | CFaulted

datatype slot_state = SEmpty | SLoading | SReady | SDecoding | SEndOfStream | SFaulted

datatype ring_state = RUnbound | RBinding | RReady | RClosing | RFaulted

record status_snapshot =
  ss_worker_state :: worker_state
  ss_codec_state :: codec_state
  ss_slot_state :: slot_state
  ss_ring_state :: ring_state
  ss_active_generation :: "u64 option"
  ss_active_slot_id :: "string option"
  ss_worker_version :: string
  ss_protocol_version :: u16

definition validate_status :: "status_snapshot \<Rightarrow> unit wire_result" where
  "validate_status v =
     (if ss_active_generation v = Some 0
      then invalid ''active_generation'' ''must be nonzero when present''
      else try_bind (validate_optional (validate_identifier ''active_slot_id'') (ss_active_slot_id v)) (\<lambda>_.
      try_bind (validate_human ''worker_version'' (ss_worker_version v)) (\<lambda>_.
      if ss_protocol_version v \<noteq> WORKER_PROTOCOL_VERSION
      then invalid ''protocol_version'' ''must equal 1''
      else Inr ())))"

record metrics_snapshot =
  ms_worker_uptime_ns :: u64
  ms_decode_batches_total :: u64
  ms_decoded_frames_total :: u64
  ms_ring_backpressure_total :: u64
  ms_presentation_skipped_total :: u64
  ms_last_decode_duration_ns :: u64
  ms_ring_write_sequence :: u64
  ms_ring_read_sequence :: u64
  ms_ring_occupancy :: u32
  ms_gpu_allocated_bytes :: "u64 option"
  ms_gpu_reserved_bytes :: "u64 option"

record worker_hello =
  wh_auth_token :: auth_token
  wh_worker_version :: string
  wh_protocol_min :: u16
  wh_protocol_max :: u16
  wh_pid :: u32
  wh_os :: string
  wh_arch :: string
  wh_python_version :: string
  wh_available_adapters :: "string list"

definition validate_worker_hello :: "worker_hello \<Rightarrow> unit wire_result" where
  "validate_worker_hello v =
     try_bind (validate_human ''worker_version'' (wh_worker_version v)) (\<lambda>_.
     if wh_protocol_min v = 0 \<or> wh_protocol_min v > WORKER_PROTOCOL_VERSION
        \<or> wh_protocol_max v < WORKER_PROTOCOL_VERSION \<or> wh_protocol_min v > wh_protocol_max v
     then invalid ''protocol range'' ''does not include worker protocol 1''
     else if wh_pid v = 0 then invalid ''pid'' ''must be nonzero''
     else try_bind (validate_identifier ''os'' (wh_os v)) (\<lambda>_.
     try_bind (validate_identifier ''arch'' (wh_arch v)) (\<lambda>_.
     try_bind (validate_human ''python_version'' (wh_python_version v)) (\<lambda>_.
     try_all (validate_identifier ''available_adapter'') (wh_available_adapters v)))))"

record worker_heartbeat =
  hb_worker_state :: worker_state
  hb_codec_state :: codec_state
  hb_slot_state :: slot_state
  hb_ring_state :: ring_state
  hb_stream_generation :: u64
  hb_last_completed_core_sequence :: u64
  hb_decode_in_flight :: bool
  hb_worker_uptime_ns :: u64

definition validate_heartbeat :: "worker_heartbeat \<Rightarrow> unit wire_result" where
  "validate_heartbeat v =
     (if hb_stream_generation v = 0 \<and> \<not> (hb_slot_state v = SEmpty \<or> hb_slot_state v = SLoading)
      then invalid ''stream_generation'' ''must be nonzero while a slot is active''
      else Inr ())"

record state_changed =
  stc_status :: status_snapshot
  stc_reason :: string

definition validate_state_changed :: "state_changed \<Rightarrow> unit wire_result" where
  "validate_state_changed v =
     try_bind (validate_status (stc_status v)) (\<lambda>_.
     validate_human ''state_change.reason'' (stc_reason v))"

datatype shutdown_reason = UserRequest | ApplicationExit | ShutdownRecovery

record error_detail =
  ed_key :: string
  ed_value :: string

record error_payload =
  ep_code :: error_code
  ep_message :: string
  ep_retryable :: bool
  ep_fatal :: bool
  ep_worker_state :: worker_state
  ep_diagnostic_id :: uuid
  ep_details :: "error_detail list"

definition validate_error_payload :: "error_payload \<Rightarrow> unit wire_result" where
  "validate_error_payload v =
     try_bind (validate_human ''error.message'' (ep_message v)) (\<lambda>_.
     if ep_diagnostic_id v = 0 then Inl (NilIdentifier ''diagnostic_id'')
     else try_all (\<lambda>detail.
            try_bind (validate_identifier ''error.detail.key'' (ed_key detail)) (\<lambda>_.
            validate_human ''error.detail.value'' (ed_value detail))) (ep_details v))"

section \<open>Messages and envelopes\<close>

datatype command =
    CmdSessionConfigure session_configure
  | CmdCodecInspect
  | CmdCodecLoad codec_load
  | CmdSlotLoad slot_load
  | CmdSlotReset slot_reset
  | CmdSlotDecodeCycle slot_decode_cycle
  | CmdRingBind ring_bind
  | CmdWorkerStatus
  | CmdMetricsGet
  | CmdWorkerShutdown shutdown_reason

primrec command_name_of :: "command \<Rightarrow> command_name" where
  "command_name_of (CmdSessionConfigure v) = NSessionConfigure"
| "command_name_of CmdCodecInspect = NCodecInspect"
| "command_name_of (CmdCodecLoad v) = NCodecLoad"
| "command_name_of (CmdSlotLoad v) = NSlotLoad"
| "command_name_of (CmdSlotReset v) = NSlotReset"
| "command_name_of (CmdSlotDecodeCycle v) = NSlotDecodeCycle"
| "command_name_of (CmdRingBind v) = NRingBind"
| "command_name_of CmdWorkerStatus = NWorkerStatus"
| "command_name_of CmdMetricsGet = NMetricsGet"
| "command_name_of (CmdWorkerShutdown v) = NWorkerShutdown"

primrec validate_command :: "command \<Rightarrow> unit wire_result" where
  "validate_command (CmdSessionConfigure v) = validate_session_configure v"
| "validate_command CmdCodecInspect = Inr ()"
| "validate_command CmdWorkerStatus = Inr ()"
| "validate_command CmdMetricsGet = Inr ()"
| "validate_command (CmdWorkerShutdown v) = Inr ()"
| "validate_command (CmdCodecLoad v) = validate_codec_load v"
| "validate_command (CmdSlotLoad v) = validate_slot_load v"
| "validate_command (CmdSlotReset v) = validate_slot_reset v"
| "validate_command (CmdSlotDecodeCycle v) = validate_slot_decode_cycle v"
| "validate_command (CmdRingBind v) = validate_ring_bind v"

datatype ack =
    AckSessionConfigure session_configured
  | AckCodecInspect codec_inspection
  | AckCodecLoad codec_loaded
  | AckSlotLoad slot_loaded
  | AckSlotReset slot_reset_ack
  | AckSlotDecodeCycle decode_cycle_ack
  | AckRingBind ring_bound
  | AckWorkerStatus status_snapshot
  | AckMetricsGet metrics_snapshot
  | AckWorkerShutdown bool

primrec ack_name_of :: "ack \<Rightarrow> command_name" where
  "ack_name_of (AckSessionConfigure v) = NSessionConfigure"
| "ack_name_of (AckCodecInspect v) = NCodecInspect"
| "ack_name_of (AckCodecLoad v) = NCodecLoad"
| "ack_name_of (AckSlotLoad v) = NSlotLoad"
| "ack_name_of (AckSlotReset v) = NSlotReset"
| "ack_name_of (AckSlotDecodeCycle v) = NSlotDecodeCycle"
| "ack_name_of (AckRingBind v) = NRingBind"
| "ack_name_of (AckWorkerStatus v) = NWorkerStatus"
| "ack_name_of (AckMetricsGet v) = NMetricsGet"
| "ack_name_of (AckWorkerShutdown v) = NWorkerShutdown"

primrec validate_ack :: "ack \<Rightarrow> unit wire_result" where
  "validate_ack (AckSessionConfigure v) = validate_session_configured v"
| "validate_ack (AckCodecInspect v) = validate_codec_inspection v"
| "validate_ack (AckCodecLoad v) = validate_codec_loaded v"
| "validate_ack (AckSlotLoad v) = validate_slot_loaded v"
| "validate_ack (AckSlotReset v) = validate_slot_reset_ack v"
| "validate_ack (AckSlotDecodeCycle v) = validate_decode_cycle_ack v"
| "validate_ack (AckRingBind v) = validate_ring_bound v"
| "validate_ack (AckWorkerStatus v) = validate_status v"
| "validate_ack (AckMetricsGet v) = Inr ()"
| "validate_ack (AckWorkerShutdown v) = Inr ()"

record ack_reply =
  ar_reply_to :: uuid
  ar_ack :: ack

definition validate_ack_reply :: "ack_reply \<Rightarrow> unit wire_result" where
  "validate_ack_reply v =
     (if ar_reply_to v = 0 then Inl (NilIdentifier ''reply_to'') else validate_ack (ar_ack v))"

record error_reply =
  er_reply_to :: uuid
  er_name :: command_name
  er_error :: error_payload

definition validate_error_reply :: "error_reply \<Rightarrow> unit wire_result" where
  "validate_error_reply v =
     (if er_reply_to v = 0 then Inl (NilIdentifier ''reply_to'')
      else validate_error_payload (er_error v))"

datatype event =
    EvWorkerHello worker_hello
  | EvWorkerHeartbeat worker_heartbeat
  | EvWorkerStateChanged state_changed
  | EvMetricsSnapshot metrics_snapshot
  | EvWorkerFault error_payload

primrec validate_event :: "event \<Rightarrow> unit wire_result" where
  "validate_event (EvWorkerHello v) = validate_worker_hello v"
| "validate_event (EvWorkerHeartbeat v) = validate_heartbeat v"
| "validate_event (EvWorkerStateChanged v) = validate_state_changed v"
| "validate_event (EvMetricsSnapshot v) = Inr ()"
| "validate_event (EvWorkerFault v) = validate_error_payload v"

record event_message =
  em_caused_by :: "uuid option"
  em_event :: event

definition validate_event_message :: "event_message \<Rightarrow> unit wire_result" where
  "validate_event_message v =
     (if em_caused_by v = Some 0 then Inl (NilIdentifier ''caused_by'')
      else validate_event (em_event v))"

datatype message =
    MCommand command
  | MAck ack_reply
  | MError error_reply
  | MEvent event_message

primrec validate_message :: "message \<Rightarrow> unit wire_result" where
  "validate_message (MCommand c) = validate_command c"
| "validate_message (MAck r) = validate_ack_reply r"
| "validate_message (MError r) = validate_error_reply r"
| "validate_message (MEvent e) = validate_event_message e"

record envelope =
  en_protocol_version :: u16
  en_session_id :: uuid
  en_sequence :: u64
  en_message_id :: uuid
  en_sender_uptime_ns :: u64
  en_message :: message

definition new_envelope :: "uuid \<Rightarrow> u64 \<Rightarrow> uuid \<Rightarrow> u64 \<Rightarrow> message \<Rightarrow> envelope" where
  "new_envelope session_id sequence message_id sender_uptime_ns msg =
     \<lparr>en_protocol_version = WORKER_PROTOCOL_VERSION, en_session_id = session_id,
      en_sequence = sequence, en_message_id = message_id,
      en_sender_uptime_ns = sender_uptime_ns, en_message = msg\<rparr>"

definition validate_static :: "envelope \<Rightarrow> unit wire_result" where
  "validate_static e =
     (if en_protocol_version e \<noteq> WORKER_PROTOCOL_VERSION
      then Inl (UnsupportedProtocolVersion (en_protocol_version e))
      else if en_sequence e = 0 then Inl SequenceZero
      else if en_session_id e = 0 then Inl (NilIdentifier ''session_id'')
      else if en_message_id e = 0 then Inl (NilIdentifier ''message_id'')
      else validate_message (en_message e))"

end
