(* ===== verification/Playback_Schedule.thy ===== *)
theory Playback_Schedule
  imports Wire_Types
begin

text \<open>
  Deterministic transport scheduling above Worker Protocol 1
  (\<open>crates/core/src/playback_schedule.rs\<close>): the decode and reset cursor of one loaded slot, its
  invariant, the causal order of the acknowledgements it accepts, and the tiling of a stream
  by its cycles.
\<close>

section \<open>State and operations\<close>

datatype schedule_error =
    GenerationZero
  | GenerationExhausted
  | CycleExhausted
  | ResetPending
  | ResetNotPending
  | StaleSlot
  | StaleGeneration u64 u64
  | CycleOutOfOrder u64 u64
  | CycleOutOfRange
  | CadenceMismatch
  | EndOfStreamMismatch
  | ResetDidNotClearState

record playback_schedule =
  ps_slot :: slot_loaded
  ps_generation :: u64
  ps_next_cycle_index :: u64
  ps_end_of_stream :: bool
  ps_pending_reset_generation :: "u64 option"

record expected_cycle =
  ec_latent_start :: u64
  ec_latent_count :: u32
  ec_decoded_start :: u64
  ec_decoded_count :: u32

definition new_schedule :: "slot_loaded \<Rightarrow> u64 \<Rightarrow> schedule_error + playback_schedule" where
  "new_schedule slot generation =
     (if generation = 0 then Inl GenerationZero
      else Inr \<lparr>ps_slot = slot, ps_generation = generation, ps_next_cycle_index = 0,
                ps_end_of_stream = False, ps_pending_reset_generation = None\<rparr>)"

definition next_decode_command :: "playback_schedule \<Rightarrow> command option" where
  "next_decode_command s =
     (if ps_end_of_stream s \<or> ps_pending_reset_generation s \<noteq> None then None
      else Some (CmdSlotDecodeCycle
        \<lparr>sdc_slot_id = sld_slot_id (ps_slot s),
         sdc_slot_revision = sld_slot_revision (ps_slot s),
         sdc_stream_generation = ps_generation s,
         sdc_cycle_index = ps_next_cycle_index s\<rparr>))"

definition ensure_slot :: "playback_schedule \<Rightarrow> string \<Rightarrow> u64 \<Rightarrow> schedule_error + unit" where
  "ensure_slot s slot_id slot_revision =
     (if slot_id \<noteq> sld_slot_id (ps_slot s) \<or> slot_revision \<noteq> sld_slot_revision (ps_slot s)
      then Inl StaleSlot else Inr ())"

text \<open>The condition of one branch of the pattern choice, with the early return inside it.\<close>

definition cycle_in_pattern :: "cycle_pattern \<Rightarrow> u64 \<Rightarrow> schedule_error + bool" where
  "cycle_in_pattern p cycle_index =
     (if cycle_index \<ge> cp_first_cycle_index p
      then try_bind (ok_or (checked_add (cp_first_cycle_index p) (cp_cycle_count p)) CadenceMismatch)
             (\<lambda>end. Inr (cycle_index < end))
      else Inr False)"

definition choose_pattern :: "timing_descriptor \<Rightarrow> u64 \<Rightarrow> schedule_error + cycle_pattern" where
  "choose_pattern timing cycle_index =
     try_bind (cycle_in_pattern (td_initial timing) cycle_index) (\<lambda>in_initial.
     if in_initial then Inr (td_initial timing)
     else try_bind (cycle_in_pattern (td_steady timing) cycle_index) (\<lambda>in_steady.
     if in_steady then Inr (td_steady timing) else Inl CadenceMismatch))"

definition stride_position :: "u64 \<Rightarrow> u64 \<Rightarrow> u32 \<Rightarrow> schedule_error + u64" where
  "stride_position base offset stride =
     try_bind (ok_or (checked_mul offset (ucast stride)) CadenceMismatch) (\<lambda>d.
     ok_or (checked_add base d) CadenceMismatch)"

definition expected_cycle_of :: "playback_schedule \<Rightarrow> u64 \<Rightarrow> schedule_error + expected_cycle" where
  "expected_cycle_of s cycle_index =
     (let timing = sld_timing (ps_slot s) in
      if cycle_index \<ge> td_cycle_count timing then Inl CycleOutOfRange
      else try_bind (choose_pattern timing cycle_index) (\<lambda>pattern.
        try_bind (ok_or (checked_sub cycle_index (cp_first_cycle_index pattern)) CadenceMismatch)
          (\<lambda>offset.
        try_bind (stride_position (cp_latent_base pattern) offset (cp_latent_stride pattern))
          (\<lambda>latent_start.
        try_bind (stride_position (cp_decoded_base pattern) offset (cp_decoded_stride pattern))
          (\<lambda>decoded_start.
        Inr \<lparr>ec_latent_start = latent_start, ec_latent_count = cp_latent_count pattern,
             ec_decoded_start = decoded_start, ec_decoded_count = cp_decoded_count pattern\<rparr>)))))"

definition accept_decode ::
    "playback_schedule \<Rightarrow> decode_cycle_ack \<Rightarrow> (schedule_error + unit) \<times> playback_schedule" where
  "accept_decode s ack =
     try_with (ensure_slot s (da_slot_id ack) (da_slot_revision ack)) s (\<lambda>_.
     if da_stream_generation ack \<noteq> ps_generation s
     then (Inl (StaleGeneration (ps_generation s) (da_stream_generation ack)), s)
     else if da_cycle_index ack \<noteq> ps_next_cycle_index s
     then (Inl (CycleOutOfOrder (ps_next_cycle_index s) (da_cycle_index ack)), s)
     else try_with (expected_cycle_of s (da_cycle_index ack)) s (\<lambda>expected.
       if da_latent_start ack \<noteq> ec_latent_start expected
          \<or> da_latent_count ack \<noteq> ec_latent_count expected
          \<or> da_decoded_start_frame ack \<noteq> ec_decoded_start expected
          \<or> da_decoded_frame_count ack \<noteq> ec_decoded_count expected
       then (Inl CadenceMismatch, s)
       else
         let expected_eos = (da_cycle_index ack + 1 = td_cycle_count (sld_timing (ps_slot s))) in
         if da_end_of_stream ack \<noteq> expected_eos then (Inl EndOfStreamMismatch, s)
         else try_with (ok_or (checked_add (ps_next_cycle_index s) 1) CycleExhausted) s (\<lambda>n.
           (Inr (), s\<lparr>ps_next_cycle_index := n, ps_end_of_stream := expected_eos\<rparr>))))"

definition begin_reset ::
    "playback_schedule \<Rightarrow> reset_reason \<Rightarrow> (schedule_error + command) \<times> playback_schedule" where
  "begin_reset s reason =
     (if ps_pending_reset_generation s \<noteq> None then (Inl ResetPending, s)
      else try_with (ok_or (checked_add (ps_generation s) 1) GenerationExhausted) s
        (\<lambda>new_generation.
           (Inr (CmdSlotReset
              \<lparr>sr_slot_id = sld_slot_id (ps_slot s),
               sr_slot_revision = sld_slot_revision (ps_slot s),
               sr_new_stream_generation = new_generation,
               sr_reason = reason\<rparr>),
            s\<lparr>ps_pending_reset_generation := Some new_generation\<rparr>)))"

definition accept_reset ::
    "playback_schedule \<Rightarrow> slot_reset_ack \<Rightarrow> (schedule_error + unit) \<times> playback_schedule" where
  "accept_reset s ack =
     try_with (ensure_slot s (sra_slot_id ack) (sra_slot_revision ack)) s (\<lambda>_.
     try_with (ok_or (ps_pending_reset_generation s) ResetNotPending) s (\<lambda>expected_generation.
     if sra_stream_generation ack \<noteq> expected_generation
     then (Inl (StaleGeneration expected_generation (sra_stream_generation ack)), s)
     else if sra_next_cycle_index ack \<noteq> 0 \<or> sra_ring_write_sequence ack \<noteq> 0
     then (Inl ResetDidNotClearState, s)
     else (Inr (), s\<lparr>ps_generation := expected_generation, ps_next_cycle_index := 0,
                     ps_end_of_stream := False, ps_pending_reset_generation := None\<rparr>)))"

datatype schedule_op =
    AcceptDecode decode_cycle_ack
  | BeginReset reset_reason
  | AcceptReset slot_reset_ack

primrec schedule_step ::
    "playback_schedule \<Rightarrow> schedule_op \<Rightarrow> (schedule_error + command option) \<times> playback_schedule" where
  "schedule_step s (AcceptDecode ack) =
     (case accept_decode s ack of (Inl e, s') \<Rightarrow> (Inl e, s') | (Inr _, s') \<Rightarrow> (Inr None, s'))"
| "schedule_step s (BeginReset reason) =
     (case begin_reset s reason of (Inl e, s') \<Rightarrow> (Inl e, s') | (Inr c, s') \<Rightarrow> (Inr (Some c), s'))"
| "schedule_step s (AcceptReset ack) =
     (case accept_reset s ack of (Inl e, s') \<Rightarrow> (Inl e, s') | (Inr _, s') \<Rightarrow> (Inr None, s'))"

section \<open>When an operation succeeds\<close>

lemma stride_position_Inr [try_iffs]:
  "stride_position base offset stride = Inr v \<longleftrightarrow>
   unat v = unat base + unat offset * unat stride"
proof
  assume "stride_position base offset stride = Inr v"
  then show "unat v = unat base + unat offset * unat stride"
    by (auto simp: stride_position_def try_iffs checked_simps)
next
  assume v: "unat v = unat base + unat offset * unat stride"
  then have "unat offset * unat stride \<le> unat v"
    by simp
  then have "unat offset * unat stride < 2 ^ LENGTH(64)"
    using unsigned_less [of v] by (rule le_less_trans)
  then have "unat (of_nat (unat offset * unat stride) :: u64) = unat offset * unat stride"
    by (rule unat_of_nat_fits)
  then have "checked_mul offset (ucast stride) = Some (of_nat (unat offset * unat stride))"
    by (simp only: checked_mul_Some unat_ucast_u32_u64)
  then show "stride_position base offset stride = Inr v"
    by (simp add: stride_position_def ok_or_Inr checked_add_Some v
        \<open>unat (of_nat (unat offset * unat stride) :: u64) = unat offset * unat stride\<close>
        del: of_nat_mult)
qed

text \<open>The acknowledgement that reports exactly the expected cycle.\<close>

definition reports :: "playback_schedule \<Rightarrow> decode_cycle_ack \<Rightarrow> expected_cycle \<Rightarrow> bool" where
  "reports s ack expected \<longleftrightarrow>
     da_latent_start ack = ec_latent_start expected \<and>
     da_latent_count ack = ec_latent_count expected \<and>
     da_decoded_start_frame ack = ec_decoded_start expected \<and>
     da_decoded_frame_count ack = ec_decoded_count expected \<and>
     da_end_of_stream ack = (unat (da_cycle_index ack) + 1 = unat (td_cycle_count (sld_timing (ps_slot s))))"

lemma expected_cycle_in_range:
  "expected_cycle_of s c = Inr e \<Longrightarrow> unat c < unat (td_cycle_count (sld_timing (ps_slot s)))"
  by (auto simp: expected_cycle_of_def Let_def not_le word_less_nat_alt split: if_splits)

lemma cycle_successor:
  assumes "unat c < unat (n :: u64)"
  shows "unat (c + 1) = unat c + 1" and "checked_add c 1 = Some (c + 1)"
    and "c + 1 = n \<longleftrightarrow> unat c + 1 = unat n"
proof -
  have "unat n < 2 ^ 64"
    using unsigned_less [of n] by simp
  then show u: "unat (c + 1) = unat c + 1"
    using assms by (simp add: unat_add_fits)
  then show "checked_add c 1 = Some (c + 1)"
    by (simp add: checked_add_Some)
  show "c + 1 = n \<longleftrightarrow> unat c + 1 = unat n"
    by (simp only: word_unat_eq_iff u)
qed

lemma accept_decode_Inr [try_iffs]:
  "accept_decode s ack = (Inr u, s') \<longleftrightarrow>
     da_slot_id ack = sld_slot_id (ps_slot s) \<and>
     da_slot_revision ack = sld_slot_revision (ps_slot s) \<and>
     da_stream_generation ack = ps_generation s \<and>
     da_cycle_index ack = ps_next_cycle_index s \<and>
     (\<exists>expected. expected_cycle_of s (ps_next_cycle_index s) = Inr expected \<and> reports s ack expected) \<and>
     s' = s\<lparr>ps_next_cycle_index := ps_next_cycle_index s + 1,
            ps_end_of_stream := da_end_of_stream ack\<rparr>"
  (is "?L \<longleftrightarrow> ?R")
proof (cases "expected_cycle_of s (ps_next_cycle_index s)")
  case (Inl e)
  then show ?thesis
    by (auto simp: accept_decode_def ensure_slot_def)
next
  case (Inr expected)
  note suc = cycle_successor [OF expected_cycle_in_range [OF Inr]]
  show ?thesis
    by (auto simp: accept_decode_def ensure_slot_def Inr reports_def Let_def suc)
qed

lemma accept_decode_Inl: "accept_decode s ack = (Inl e, s') \<Longrightarrow> s' = s"
  by (auto simp: accept_decode_def Let_def try_iffs split: if_splits)

lemma begin_reset_Inr [try_iffs]:
  "begin_reset s reason = (Inr c, s') \<longleftrightarrow>
     ps_pending_reset_generation s = None \<and>
     (\<exists>g. unat g = unat (ps_generation s) + 1 \<and>
        c = CmdSlotReset \<lparr>sr_slot_id = sld_slot_id (ps_slot s),
              sr_slot_revision = sld_slot_revision (ps_slot s),
              sr_new_stream_generation = g, sr_reason = reason\<rparr> \<and>
        s' = s\<lparr>ps_pending_reset_generation := Some g\<rparr>)"
  by (auto simp: begin_reset_def try_iffs checked_simps)

lemma begin_reset_Inl: "begin_reset s reason = (Inl e, s') \<Longrightarrow> s' = s"
  by (auto simp: begin_reset_def try_iffs split: if_splits)

lemma accept_reset_Inr [try_iffs]:
  "accept_reset s ack = (Inr u, s') \<longleftrightarrow>
     sra_slot_id ack = sld_slot_id (ps_slot s) \<and>
     sra_slot_revision ack = sld_slot_revision (ps_slot s) \<and>
     ps_pending_reset_generation s = Some (sra_stream_generation ack) \<and>
     sra_next_cycle_index ack = 0 \<and> sra_ring_write_sequence ack = 0 \<and>
     s' = s\<lparr>ps_generation := sra_stream_generation ack, ps_next_cycle_index := 0,
            ps_end_of_stream := False, ps_pending_reset_generation := None\<rparr>"
  by (auto simp: accept_reset_def ensure_slot_def try_iffs)

lemma accept_reset_Inl: "accept_reset s ack = (Inl e, s') \<Longrightarrow> s' = s"
  by (auto simp: accept_reset_def try_iffs split: if_splits)

lemma schedule_step_error: "schedule_step s op = (Inl e, s') \<Longrightarrow> s' = s"
  by (cases op) (auto dest: accept_decode_Inl begin_reset_Inl accept_reset_Inl
      split: prod.splits sum.splits)

section \<open>The invariant\<close>

definition schedule_inv :: "playback_schedule \<Rightarrow> bool" where
  "schedule_inv s \<longleftrightarrow>
     ps_generation s \<noteq> 0 \<and>
     unat (ps_next_cycle_index s) \<le> unat (td_cycle_count (sld_timing (ps_slot s))) \<and>
     (ps_end_of_stream s \<longleftrightarrow> ps_next_cycle_index s \<noteq> 0 \<and>
        ps_next_cycle_index s = td_cycle_count (sld_timing (ps_slot s))) \<and>
     (case ps_pending_reset_generation s of None \<Rightarrow> True
        | Some g \<Rightarrow> unat g = unat (ps_generation s) + 1)"

lemma new_schedule_inv: "new_schedule slot g = Inr s \<Longrightarrow> schedule_inv s"
  by (auto simp: new_schedule_def schedule_inv_def split: if_splits)

lemma accept_decode_inv:
  assumes inv: "schedule_inv s" and st: "accept_decode s ack = (Inr u, s')"
  shows "schedule_inv s'"
proof -
  obtain expected where ex: "expected_cycle_of s (ps_next_cycle_index s) = Inr expected"
    and rep: "reports s ack expected" and c: "da_cycle_index ack = ps_next_cycle_index s"
    and s': "s' = s\<lparr>ps_next_cycle_index := ps_next_cycle_index s + 1,
                  ps_end_of_stream := da_end_of_stream ack\<rparr>"
    using st by (auto simp: accept_decode_Inr)
  note range = expected_cycle_in_range [OF ex]
  note suc = cycle_successor [OF range]
  have "ps_next_cycle_index s + 1 \<noteq> 0"
    using suc(1) by (simp add: word_unat_eq_iff)
  then show ?thesis
    using inv rep range suc by (simp add: s' schedule_inv_def reports_def c split: option.splits)
qed

lemma begin_reset_inv:
  "schedule_inv s \<Longrightarrow> begin_reset s reason = (Inr c, s') \<Longrightarrow> schedule_inv s'"
  by (auto simp: begin_reset_Inr schedule_inv_def)

lemma accept_reset_inv:
  "schedule_inv s \<Longrightarrow> accept_reset s ack = (Inr u, s') \<Longrightarrow> schedule_inv s'"
  by (auto simp: accept_reset_Inr schedule_inv_def word_unat_eq_iff [where 'a = 64])

lemma schedule_step_cases:
  assumes "schedule_step s op = (r, s')"
  obtains (error) e where "r = Inl e" and "s' = s"
  | (decode) ack where "op = AcceptDecode ack" and "r = Inr None"
      and "accept_decode s ack = (Inr (), s')"
  | (reset) reason c where "op = BeginReset reason" and "r = Inr (Some c)"
      and "begin_reset s reason = (Inr c, s')"
  | (confirmed) ack where "op = AcceptReset ack" and "r = Inr None"
      and "accept_reset s ack = (Inr (), s')"
proof (cases r)
  case (Inl e)
  then show ?thesis
    using assms schedule_step_error error by blast
next
  case (Inr y)
  then show ?thesis
    using assms decode reset confirmed
    by (cases op) (auto split: prod.splits sum.splits)
qed

lemma schedule_step_keeps: "schedule_inv s \<Longrightarrow> schedule_step s op = (r, s') \<Longrightarrow> schedule_inv s'"
  by (erule schedule_step_cases) (auto intro: accept_decode_inv begin_reset_inv accept_reset_inv)

lemma schedule_step_slot: "schedule_step s op = (r, s') \<Longrightarrow> ps_slot s' = ps_slot s"
  by (erule schedule_step_cases) (auto simp: try_iffs)

lemma schedule_step_generation:
  "schedule_inv s \<Longrightarrow> schedule_step s op = (r, s') \<Longrightarrow>
   unat (ps_generation s) \<le> unat (ps_generation s')"
  by (erule schedule_step_cases) (auto simp: try_iffs schedule_inv_def)

interpretation schedule: ranked_machine schedule_step schedule_inv "\<lambda>s. unat (ps_generation s)"
  by unfold_locales
    (blast intro: schedule_step_keeps schedule_step_error schedule_step_generation)+

section \<open>Causal order\<close>

text \<open>The decode acknowledgements accepted in a run, oldest first.\<close>

fun accepted_decodes :: "playback_schedule \<Rightarrow> schedule_op list \<Rightarrow> decode_cycle_ack list" where
  "accepted_decodes s [] = []"
| "accepted_decodes s (op # ops) =
     (case schedule_step s op of (r, s') \<Rightarrow>
        (case (op, r) of (AcceptDecode ack, Inr _) \<Rightarrow> [ack] | _ \<Rightarrow> []) @ accepted_decodes s' ops)"

definition position :: "decode_cycle_ack \<Rightarrow> nat \<times> nat" where
  "position ack = (unat (da_stream_generation ack), unat (da_cycle_index ack))"

text \<open>\<open>causal g c n ps\<close>: starting at cycle \<open>c\<close> of generation \<open>g\<close>, every position is the next
  cycle of the same generation or cycle zero of a later one, and is below \<open>n\<close>.\<close>

fun causal :: "nat \<Rightarrow> nat \<Rightarrow> nat \<Rightarrow> (nat \<times> nat) list \<Rightarrow> bool" where
  "causal g c n [] = True"
| "causal g c n ((g', c') # ps) =
     ((g' = g \<and> c' = c \<or> g < g' \<and> c' = 0) \<and> c' < n \<and> causal g' (c' + 1) n ps)"

lemma causal_later:
  "causal g' 0 n ps \<Longrightarrow> g < g' \<Longrightarrow> causal g c n ps"
  by (cases ps) auto

lemma accept_decode_position:
  assumes "accept_decode s ack = (Inr u, s')"
  shows "position ack = (unat (ps_generation s), unat (ps_next_cycle_index s))"
    and "unat (ps_next_cycle_index s) < unat (td_cycle_count (sld_timing (ps_slot s)))"
    and "unat (ps_next_cycle_index s') = unat (ps_next_cycle_index s) + 1"
    and "ps_generation s' = ps_generation s"
proof -
  obtain expected where ex: "expected_cycle_of s (ps_next_cycle_index s) = Inr expected"
    using assms by (auto simp: accept_decode_Inr)
  note range = expected_cycle_in_range [OF ex]
  show "unat (ps_next_cycle_index s) < unat (td_cycle_count (sld_timing (ps_slot s)))"
    by (rule range)
  show "position ack = (unat (ps_generation s), unat (ps_next_cycle_index s))"
    and "unat (ps_next_cycle_index s') = unat (ps_next_cycle_index s) + 1"
    and "ps_generation s' = ps_generation s"
    using assms cycle_successor(1) [OF range] by (auto simp: accept_decode_Inr position_def)
qed

lemma accepted_decodes_causal:
  "schedule_inv s \<Longrightarrow>
   causal (unat (ps_generation s)) (unat (ps_next_cycle_index s))
     (unat (td_cycle_count (sld_timing (ps_slot s)))) (map position (accepted_decodes s ops))"
proof (induction ops arbitrary: s)
  case Nil
  then show ?case by simp
next
  case (Cons op ops)
  obtain r s' where st: "schedule_step s op = (r, s')"
    by fastforce
  note IH = Cons.IH [OF schedule_step_keeps [OF Cons.prems st]]
  note slot = schedule_step_slot [OF st]
  from st show ?case
  proof (cases rule: schedule_step_cases)
    case (error e)
    then show ?thesis
      using IH st by (cases op) auto
  next
    case (decode ack)
    then show ?thesis
      using IH st slot accept_decode_position [of s ack "()" s'] by simp
  next
    case (reset reason c)
    then show ?thesis
      using IH st slot by (auto simp: begin_reset_Inr)
  next
    case (confirmed ack)
    then have "unat (ps_generation s) < unat (ps_generation s')"
      using Cons.prems by (auto simp: accept_reset_Inr schedule_inv_def)
    moreover have "accepted_decodes s (op # ops) = accepted_decodes s' ops"
      using st confirmed by simp
    moreover have "ps_next_cycle_index s' = 0"
      using confirmed by (simp add: accept_reset_Inr)
    ultimately show ?thesis
      using IH slot by (simp add: causal_later)
  qed
qed

lemma causal_older: "causal g c n ps \<Longrightarrow> h < g \<Longrightarrow> filter (\<lambda>(g', c). g' = h) ps = []"
  by (induction g c n ps rule: causal.induct) auto

text \<open>The cycles accepted in one generation are consecutive from zero (from the current cycle
  in the generation the run starts with).\<close>

definition cycles_of :: "nat \<Rightarrow> decode_cycle_ack list \<Rightarrow> nat list" where
  "cycles_of g acks = map snd (filter (\<lambda>(g', c). g' = g) (map position acks))"

lemma causal_cycles:
  "causal g c n ps \<Longrightarrow>
   \<exists>m. map snd (filter (\<lambda>(g', c). g' = h) ps) = [(if h = g then c else 0)..<m]"
proof (induction g c n ps rule: causal.induct)
  case (1 g c n)
  show ?case
    by (rule exI [of _ 0]) simp
next
  case (2 g c n g' c' ps)
  then obtain m where m: "map snd (filter (\<lambda>(g', c). g' = h) ps) =
      [(if h = g' then c' + 1 else 0)..<m]"
    by auto
  show ?case
  proof (cases "h = g'")
    case True
    show ?thesis
    proof (cases "c' < m")
      case True
      with m \<open>h = g'\<close> 2 show ?thesis
        by (intro exI [of _ m]) (auto simp: upt_conv_Cons)
    next
      case False
      with m \<open>h = g'\<close> 2 show ?thesis
        by (intro exI [of _ "c' + 1"]) (auto simp: upt_conv_Cons)
    qed
  next
    case False
    show ?thesis
    proof (cases "h = g")
      case True
      then have "filter (\<lambda>(g', c). g' = h) ps = []"
        using False 2 by (intro causal_older [of g' "c' + 1" n]) auto
      then show ?thesis
        using False by (intro exI [of _ 0]) simp
    next
      case h: False
      then show ?thesis
        using False m by (intro exI [of _ m]) simp
    qed
  qed
qed

lemma cycles_of_simps [simp]:
  "cycles_of g [] = []"
  "cycles_of g (ack # acks) =
     (if fst (position ack) = g then [snd (position ack)] else []) @ cycles_of g acks"
  by (simp_all add: cycles_of_def split_beta)

lemma cycles_final:
  assumes "schedule_inv s" and "snd (run_ops schedule_step s ops) = t"
  shows "(ps_generation t = ps_generation s \<longrightarrow>
            unat (ps_next_cycle_index s) \<le> unat (ps_next_cycle_index t)) \<and>
         cycles_of (unat (ps_generation t)) (accepted_decodes s ops) =
           [(if ps_generation t = ps_generation s then unat (ps_next_cycle_index s) else 0)
             ..<unat (ps_next_cycle_index t)]"
  using assms
proof (induction ops arbitrary: s)
  case Nil
  then show ?case by simp
next
  case (Cons op ops)
  obtain r s1 where st: "schedule_step s op = (r, s1)"
    by fastforce
  have run: "snd (run_ops schedule_step s1 ops) = t"
    using Cons.prems(2) st by (simp add: Let_def split_beta)
  note inv1 = schedule_step_keeps [OF Cons.prems(1) st]
  note IH = Cons.IH [OF inv1 run]
  from st show ?case
  proof (cases rule: schedule_step_cases)
    case (error e)
    then show ?thesis
      using IH st by (cases op) auto
  next
    case (decode ack)
    then have acc: "accepted_decodes s (op # ops) = ack # accepted_decodes s1 ops"
      using st by simp
    note pos = accept_decode_position [OF decode(3)]
    have "unat (ps_generation s) = unat (ps_generation t) \<longleftrightarrow> ps_generation t = ps_generation s"
      using word_unat_eq_iff [of "ps_generation s" "ps_generation t"] by metis
    then show ?thesis
      using IH unfolding acc
      by (cases "ps_generation t = ps_generation s") (simp_all add: pos upt_conv_Cons)
  next
    case (reset reason c)
    moreover have "accepted_decodes s (op # ops) = accepted_decodes s1 ops"
      using st reset by simp
    moreover have "ps_generation s1 = ps_generation s"
      and "ps_next_cycle_index s1 = ps_next_cycle_index s"
      using reset by (auto simp: begin_reset_Inr)
    ultimately show ?thesis
      using IH by simp
  next
    case (confirmed ack)
    have less: "unat (ps_generation s) < unat (ps_generation s1)"
      using Cons.prems confirmed by (auto simp: accept_reset_Inr schedule_inv_def)
    have "unat (ps_generation s1) \<le> unat (ps_generation t)"
      using schedule.run_rank [OF inv1, of ops] run by simp
    moreover have "accepted_decodes s (op # ops) = accepted_decodes s1 ops"
      using st confirmed by simp
    moreover have "ps_next_cycle_index s1 = 0"
      using confirmed by (simp add: accept_reset_Inr)
    ultimately show ?thesis
      using IH less by auto
  qed
qed

section \<open>Cycles tile the stream\<close>

text \<open>The slots (or frames) before cycle \<open>i\<close> when \<open>n\<close> cycles of \<open>k\<close> come before cycles of \<open>k'\<close>.\<close>

definition before_cycle :: "nat \<Rightarrow> nat \<Rightarrow> nat \<Rightarrow> nat \<Rightarrow> nat" where
  "before_cycle n k k' i = (if i \<le> n then i * k else n * k + (i - n) * k')"

definition latents_before :: "timing_descriptor \<Rightarrow> nat \<Rightarrow> nat" where
  "latents_before t = before_cycle (unat (cp_cycle_count (td_initial t)))
     (unat (cp_latent_count (td_initial t))) (unat (cp_latent_count (td_steady t)))"

definition frames_before :: "timing_descriptor \<Rightarrow> nat \<Rightarrow> nat" where
  "frames_before t = before_cycle (unat (cp_cycle_count (td_initial t)))
     (unat (cp_decoded_count (td_initial t))) (unat (cp_decoded_count (td_steady t)))"

text \<open>A descriptor whose two patterns are contiguous; the stride of a pattern with a single
  cycle does not matter.\<close>

definition contiguous_strides :: "cycle_pattern \<Rightarrow> bool" where
  "contiguous_strides p \<longleftrightarrow> unat (cp_cycle_count p) \<le> 1 \<or>
     cp_latent_stride p = cp_latent_count p \<and> cp_decoded_stride p = cp_decoded_count p"

definition tiles_timing :: "timing_descriptor \<Rightarrow> bool" where
  "tiles_timing t \<longleftrightarrow>
     cp_first_cycle_index (td_initial t) = 0 \<and> cp_latent_base (td_initial t) = 0 \<and>
     cp_decoded_base (td_initial t) = 0 \<and>
     contiguous_strides (td_initial t) \<and> contiguous_strides (td_steady t) \<and>
     cp_first_cycle_index (td_steady t) = cp_cycle_count (td_initial t) \<and>
     unat (cp_latent_base (td_steady t)) = latents_before t (unat (cp_cycle_count (td_initial t))) \<and>
     unat (cp_decoded_base (td_steady t)) = frames_before t (unat (cp_cycle_count (td_initial t))) \<and>
     unat (td_cycle_count t) =
       unat (cp_cycle_count (td_initial t)) + unat (cp_cycle_count (td_steady t)) \<and>
     unat (td_latent_slot_count t) = latents_before t (unat (td_cycle_count t)) \<and>
     unat (td_decoded_frame_count t) = frames_before t (unat (td_cycle_count t))"

lemma before_cycle_0 [simp]: "before_cycle n k k' 0 = 0"
  by (simp add: before_cycle_def)

lemma before_cycle_Suc:
  "before_cycle n k k' (Suc i) = before_cycle n k k' i + (if i < n then k else k')"
proof (cases "i < n")
  case False
  then have "Suc i - n = Suc (i - n)"
    by simp
  with False show ?thesis
    by (cases "i = n") (simp_all add: before_cycle_def)
qed (simp add: before_cycle_def)

lemma before_cycle_mono: "i \<le> j \<Longrightarrow> before_cycle n k k' i \<le> before_cycle n k k' j"
  by (induction j) (auto simp: before_cycle_Suc le_Suc_eq)

lemma stride_position_fits:
  assumes "unat base + unat offset * unat stride = v" and "v \<le> unat (bound :: u64)"
  shows "stride_position base offset stride = Inr (of_nat v)" and "unat (of_nat v :: u64) = v"
proof -
  have "v < 2 ^ LENGTH(64)"
    using assms(2) unsigned_less [of bound] by (rule le_less_trans)
  then show u: "unat (of_nat v :: u64) = v"
    by (rule unat_of_nat_fits)
  then show "stride_position base offset stride = Inr (of_nat v)"
    using assms(1) by (simp only: stride_position_Inr)
qed

lemma pattern_cycle:
  assumes first: "unat c = unat (cp_first_cycle_index p) + unat off"
    and off: "unat off < unat (cp_cycle_count p)" and p: "contiguous_strides p"
    and lat: "unat (cp_latent_base p) + unat off * unat (cp_latent_count p) = l" "l \<le> unat (lb :: u64)"
    and dec: "unat (cp_decoded_base p) + unat off * unat (cp_decoded_count p) = d" "d \<le> unat (db :: u64)"
  shows "checked_sub c (cp_first_cycle_index p) = Some off"
    and "stride_position (cp_latent_base p) off (cp_latent_stride p) = Inr (of_nat l)"
    and "stride_position (cp_decoded_base p) off (cp_decoded_stride p) = Inr (of_nat d)"
proof -
  show "checked_sub c (cp_first_cycle_index p) = Some off"
    using first by (simp add: checked_sub_Some)
  have off0: "unat off = 0" if "unat (cp_cycle_count p) \<le> 1"
    using off that by simp
  have "unat off * unat (cp_latent_stride p) = unat off * unat (cp_latent_count p)"
    and "unat off * unat (cp_decoded_stride p) = unat off * unat (cp_decoded_count p)"
    using p off0 by (auto simp: contiguous_strides_def)
  then show "stride_position (cp_latent_base p) off (cp_latent_stride p) = Inr (of_nat l)"
    and "stride_position (cp_decoded_base p) off (cp_decoded_stride p) = Inr (of_nat d)"
    using lat dec by (auto intro: stride_position_fits)
qed

lemma cycle_in_pattern_end:
  assumes "unat (cp_first_cycle_index p) + unat (cp_cycle_count p) = n" and "n \<le> unat (bound :: u64)"
  shows "cycle_in_pattern p c =
    Inr (unat (cp_first_cycle_index p) \<le> unat c \<and> unat c < n)"
proof -
  have "n < 2 ^ LENGTH(64)"
    using assms(2) unsigned_less [of bound] by (rule le_less_trans)
  then have u: "unat (of_nat n :: u64) = n"
    by (rule unat_of_nat_fits)
  then have "checked_add (cp_first_cycle_index p) (cp_cycle_count p) = Some (of_nat n)"
    using assms(1) by (simp only: checked_add_Some)
  then show ?thesis
    by (simp add: cycle_in_pattern_def word_le_nat_alt word_less_nat_alt u)
qed

lemma expected_cycle_tiles:
  assumes t: "t = sld_timing (ps_slot s)" and tiles: "tiles_timing t"
    and c: "unat c < unat (td_cycle_count t)"
  shows "\<exists>e. expected_cycle_of s c = Inr e \<and>
    unat (ec_latent_start e) = latents_before t (unat c) \<and>
    latents_before t (unat c + 1) = latents_before t (unat c) + unat (ec_latent_count e) \<and>
    unat (ec_decoded_start e) = frames_before t (unat c) \<and>
    frames_before t (unat c + 1) = frames_before t (unat c) + unat (ec_decoded_count e)"
proof -
  let ?n = "unat (cp_cycle_count (td_initial t))"
  define p where "p = (if unat c < ?n then td_initial t else td_steady t)"
  define off where "off = c - cp_first_cycle_index p"
  have total: "unat (cp_cycle_count (td_initial t)) \<le> unat (td_cycle_count t)"
    using tiles by (simp add: tiles_timing_def)
  have choose: "choose_pattern t c = Inr p"
    using tiles c cycle_in_pattern_end [of "td_initial t" ?n "td_cycle_count t" c]
      cycle_in_pattern_end [of "td_steady t" "unat (td_cycle_count t)" "td_cycle_count t" c]
    by (auto simp: choose_pattern_def tiles_timing_def p_def)
  have off: "unat c = unat (cp_first_cycle_index p) + unat off"
    and count: "unat off < unat (cp_cycle_count p)"
    using tiles c by (auto simp: off_def p_def tiles_timing_def unat_sub_fits)
  have bound: "before_cycle ?n k k' (unat c) \<le> before_cycle ?n k k' (unat (td_cycle_count t))" for k k'
    using c by (intro before_cycle_mono) simp
  have lat: "unat (cp_latent_base p) + unat off * unat (cp_latent_count p) = latents_before t (unat c)"
    and dec: "unat (cp_decoded_base p) + unat off * unat (cp_decoded_count p) = frames_before t (unat c)"
    using tiles off
    by (auto simp: p_def tiles_timing_def latents_before_def frames_before_def before_cycle_def)
  have latb: "latents_before t (unat c) \<le> unat (td_latent_slot_count t)"
    and decb: "frames_before t (unat c) \<le> unat (td_decoded_frame_count t)"
    using tiles bound by (simp_all add: tiles_timing_def latents_before_def frames_before_def)
  have strides: "contiguous_strides p"
    using tiles by (simp add: p_def tiles_timing_def)
  note cyc = pattern_cycle [OF off count strides lat latb dec decb]
  note fits = stride_position_fits(2) [OF lat latb] stride_position_fits(2) [OF dec decb]
  have "\<not> c \<ge> td_cycle_count t"
    using c by (simp add: word_le_nat_alt)
  then have "expected_cycle_of s c = Inr
      \<lparr>ec_latent_start = of_nat (latents_before t (unat c)), ec_latent_count = cp_latent_count p,
       ec_decoded_start = of_nat (frames_before t (unat c)), ec_decoded_count = cp_decoded_count p\<rparr>"
    by (simp add: expected_cycle_of_def t [symmetric] choose cyc)
  moreover have "latents_before t (unat c + 1) = latents_before t (unat c) + unat (cp_latent_count p)"
    and "frames_before t (unat c + 1) = frames_before t (unat c) + unat (cp_decoded_count p)"
    by (simp_all add: latents_before_def frames_before_def before_cycle_Suc p_def)
  ultimately show ?thesis
    by (simp add: fits)
qed

section \<open>Delivered frames\<close>

definition ack_frames :: "decode_cycle_ack \<Rightarrow> nat list" where
  "ack_frames ack =
     [unat (da_decoded_start_frame ack)
       ..<unat (da_decoded_start_frame ack) + unat (da_decoded_frame_count ack)]"

text \<open>The frames delivered in generation \<open>g\<close>, in the order of their acknowledgements.\<close>

definition frames_of :: "nat \<Rightarrow> decode_cycle_ack list \<Rightarrow> nat list" where
  "frames_of g acks = concat (map ack_frames (filter (\<lambda>a. fst (position a) = g) acks))"

lemma schedule_run_slot: "ps_slot (snd (run_ops schedule_step s ops)) = ps_slot s"
proof (induction ops arbitrary: s)
  case (Cons op ops)
  then show ?case
    by (cases "schedule_step s op") (simp add: Let_def split_beta schedule_step_slot)
qed simp

lemma accept_decode_frames:
  assumes "accept_decode s ack = (Inr u, s')" and "tiles_timing (sld_timing (ps_slot s))"
  shows "ack_frames ack = [frames_before (sld_timing (ps_slot s)) (snd (position ack))
    ..<frames_before (sld_timing (ps_slot s)) (snd (position ack) + 1)]"
proof -
  obtain e where e: "expected_cycle_of s (ps_next_cycle_index s) = Inr e" "reports s ack e"
    using assms(1) by (auto simp: accept_decode_Inr)
  from expected_cycle_tiles [OF refl assms(2) expected_cycle_in_range [OF e(1)]]
  show ?thesis
    using e accept_decode_position(1) [OF assms(1)] by (auto simp: ack_frames_def reports_def)
qed

lemma frames_of_cycles:
  "tiles_timing (sld_timing (ps_slot s)) \<Longrightarrow>
   frames_of h (accepted_decodes s ops) =
   concat (map (\<lambda>c. [frames_before (sld_timing (ps_slot s)) c
     ..<frames_before (sld_timing (ps_slot s)) (c + 1)]) (cycles_of h (accepted_decodes s ops)))"
proof (induction ops arbitrary: s)
  case Nil
  then show ?case by (simp add: frames_of_def)
next
  case (Cons op ops)
  obtain r s' where st: "schedule_step s op = (r, s')"
    by fastforce
  note slot = schedule_step_slot [OF st]
  then have IH: "frames_of h (accepted_decodes s' ops) =
     concat (map (\<lambda>c. [frames_before (sld_timing (ps_slot s)) c
       ..<frames_before (sld_timing (ps_slot s)) (c + 1)]) (cycles_of h (accepted_decodes s' ops)))"
    using Cons.IH [of s'] Cons.prems by simp
  from st show ?case
  proof (cases rule: schedule_step_cases)
    case (decode ack)
    then show ?thesis
      using IH st accept_decode_frames [OF decode(3) Cons.prems] by (simp add: frames_of_def)
  qed (use IH st in \<open>auto split: schedule_op.splits\<close>)
qed

lemma concat_consecutive:
  assumes "\<And>i j. i \<le> j \<Longrightarrow> f i \<le> (f j :: nat)" and "f 0 = 0"
  shows "concat (map (\<lambda>c. [f c..<f (c + 1)]) [0..<m]) = [0..<f m]"
proof (induction m)
  case 0
  then show ?case by (simp add: assms(2))
next
  case (Suc m)
  have "f m \<le> f (Suc m)"
    by (rule assms(1)) simp
  then obtain k where k: "f (Suc m) = f m + k"
    using le_iff_add by blast
  have "[0..<f (Suc m)] = [0..<f m] @ [f m..<f (Suc m)]"
    unfolding k by (rule upt_add_eq_append) simp
  then show ?case
    using Suc by simp
qed

lemma frames_before_consecutive:
  "concat (map (\<lambda>c. [frames_before t c..<frames_before t (c + 1)]) [0..<m]) =
   [0..<frames_before t m]"
  by (rule concat_consecutive) (simp_all add: frames_before_def before_cycle_mono)

section \<open>An honest worker\<close>

text \<open>The acknowledgement of a worker that decoded the commanded cycle, its frames written
  at \<open>ring\<close>, and the transport that sends commands to it.\<close>

definition honest_ack :: "playback_schedule \<Rightarrow> u64 \<Rightarrow> expected_cycle \<Rightarrow> decode_cycle_ack" where
  "honest_ack s ring e =
     \<lparr>da_slot_id = sld_slot_id (ps_slot s), da_slot_revision = sld_slot_revision (ps_slot s),
      da_stream_generation = ps_generation s, da_cycle_index = ps_next_cycle_index s,
      da_latent_start = ec_latent_start e, da_latent_count = ec_latent_count e,
      da_decoded_start_frame = ec_decoded_start e, da_decoded_frame_count = ec_decoded_count e,
      da_ring_first_sequence = ring,
      da_ring_last_sequence_exclusive = ring + ucast (ec_decoded_count e),
      da_end_of_stream = (unat (ps_next_cycle_index s) + 1 =
        unat (td_cycle_count (sld_timing (ps_slot s))))\<rparr>"

fun drive :: "nat \<Rightarrow> (nat \<Rightarrow> u64) \<Rightarrow> playback_schedule \<Rightarrow> playback_schedule option" where
  "drive 0 ring s = Some s"
| "drive (Suc n) ring s =
     (case (next_decode_command s, expected_cycle_of s (ps_next_cycle_index s)) of
        (Some command, Inr e) \<Rightarrow>
          (case accept_decode s (honest_ack s (ring n) e) of
             (Inr _, s') \<Rightarrow> drive n ring s'
           | (Inl _, _) \<Rightarrow> None)
      | _ \<Rightarrow> None)"

lemma honest_accepted:
  assumes "expected_cycle_of s (ps_next_cycle_index s) = Inr e"
  shows "accept_decode s (honest_ack s ring e) =
    (Inr (), s\<lparr>ps_next_cycle_index := ps_next_cycle_index s + 1,
              ps_end_of_stream := (unat (ps_next_cycle_index s) + 1 =
                unat (td_cycle_count (sld_timing (ps_slot s))))\<rparr>)"
  using assms by (auto simp: accept_decode_Inr honest_ack_def reports_def)

lemma drive_reaches:
  assumes "schedule_inv s" and "tiles_timing (sld_timing (ps_slot s))"
    and "ps_pending_reset_generation s = None"
    and "unat (ps_next_cycle_index s) + n \<le> unat (td_cycle_count (sld_timing (ps_slot s)))"
  shows "\<exists>s'. drive n ring s = Some s' \<and> schedule_inv s' \<and> ps_slot s' = ps_slot s \<and>
    ps_generation s' = ps_generation s \<and> ps_pending_reset_generation s' = None \<and>
    unat (ps_next_cycle_index s') = unat (ps_next_cycle_index s) + n"
  using assms
proof (induction n arbitrary: s)
  case 0
  then show ?case by simp
next
  case (Suc n)
  then have less: "unat (ps_next_cycle_index s) < unat (td_cycle_count (sld_timing (ps_slot s)))"
    by simp
  then have "\<not> ps_end_of_stream s"
    using Suc.prems(1) by (auto simp: schedule_inv_def)
  then obtain command where com: "next_decode_command s = Some command"
    using Suc.prems(3) by (simp add: next_decode_command_def)
  obtain e where e: "expected_cycle_of s (ps_next_cycle_index s) = Inr e"
    using expected_cycle_tiles [OF refl Suc.prems(2) less] by blast
  obtain s1 where acc: "accept_decode s (honest_ack s (ring n) e) = (Inr (), s1)"
    using honest_accepted [OF e] by blast
  note pos = accept_decode_position [OF acc]
  have "ps_slot s1 = ps_slot s" "ps_pending_reset_generation s1 = None"
    using acc Suc.prems(3) by (auto simp: accept_decode_Inr)
  then have "\<exists>s'. drive n ring s1 = Some s' \<and> schedule_inv s' \<and> ps_slot s' = ps_slot s1 \<and>
    ps_generation s' = ps_generation s1 \<and> ps_pending_reset_generation s' = None \<and>
    unat (ps_next_cycle_index s') = unat (ps_next_cycle_index s1) + n"
    using Suc.prems pos accept_decode_inv [OF Suc.prems(1) acc]
    by (intro Suc.IH) simp_all
  then show ?case
    using com e acc pos \<open>ps_slot s1 = ps_slot s\<close> by auto
qed

section \<open>Properties\<close>

text \<open>C3: causal order of a slot's stream. From a fresh schedule, whatever sequence of
  acknowledgements and resets arrives, the accepted decode acknowledgements are the cycles
  0, 1, 2, ... of their generation, below the declared cycle count, and a later generation
  starts again at cycle zero: no acknowledgement is accepted twice, out of order, or from a
  generation that a confirmed reset has left. A schedule never starts in generation zero.\<close>

theorem schedule_causal:
  "case new_schedule slot g of
     Inl e \<Rightarrow> g = 0 \<and> e = GenerationZero
   | Inr s \<Rightarrow> g \<noteq> 0 \<and>
       causal (unat g) 0 (unat (td_cycle_count (sld_timing slot)))
         (map position (accepted_decodes s ops))"
proof (cases "new_schedule slot g")
  case (Inl e)
  then show ?thesis
    by (auto simp: new_schedule_def split: if_splits)
next
  case (Inr s)
  then have s: "ps_slot s = slot" "ps_generation s = g" "ps_next_cycle_index s = 0" "g \<noteq> 0"
    by (auto simp: new_schedule_def split: if_splits)
  show ?thesis
    using accepted_decodes_causal [OF new_schedule_inv [OF Inr], of ops] by (simp add: Inr s)
qed

text \<open>The invariant of the schedule. In every state that operations on a schedule reach,
  the generation is nonzero, the next cycle is within the declared count, the end of the stream
  is flagged exactly when the last cycle was acknowledged, a pending reset targets the next
  generation, and a decode command is offered exactly when neither holds.\<close>

theorem schedule_invariant:
  "case new_schedule slot g of
     Inl e \<Rightarrow> g = 0
   | Inr s0 \<Rightarrow> (case snd (run_ops schedule_step s0 ops) of s \<Rightarrow>
       ps_slot s = slot \<and> unat g \<le> unat (ps_generation s) \<and>
       unat (ps_next_cycle_index s) \<le> unat (td_cycle_count (sld_timing slot)) \<and>
       (ps_end_of_stream s \<longleftrightarrow> ps_next_cycle_index s \<noteq> 0 \<and>
          ps_next_cycle_index s = td_cycle_count (sld_timing slot)) \<and>
       (case ps_pending_reset_generation s of None \<Rightarrow> True
          | Some h \<Rightarrow> unat h = unat (ps_generation s) + 1) \<and>
       (next_decode_command s \<noteq> None \<longleftrightarrow>
          \<not> ps_end_of_stream s \<and> ps_pending_reset_generation s = None))"
proof (cases "new_schedule slot g")
  case (Inl e)
  then show ?thesis
    by (auto simp: new_schedule_def split: if_splits)
next
  case (Inr s0)
  then have s0: "ps_slot s0 = slot" "ps_generation s0 = g"
    by (auto simp: new_schedule_def split: if_splits)
  note inv0 = new_schedule_inv [OF Inr]
  show ?thesis
    using schedule.run_keeps [OF inv0, of ops] schedule.run_rank [OF inv0, of ops]
      schedule_run_slot [of s0 ops]
    by (simp add: Inr s0 schedule_inv_def next_decode_command_def)
qed

text \<open>C10: frames arrive once and in order. For a slot whose two cycle patterns are contiguous,
  the frames acknowledged in any one generation are frames 0, 1, 2, ... up to a cycle boundary,
  without gap or repetition; in the current generation up to the next cycle, so that at the end
  of the stream they are all the declared frames.\<close>

theorem schedule_delivers_in_order:
  assumes "new_schedule slot g = Inr s" and "tiles_timing (sld_timing slot)"
  shows "(\<exists>m. frames_of h (accepted_decodes s ops) = [0..<frames_before (sld_timing slot) m]) \<and>
    (case snd (run_ops schedule_step s ops) of t \<Rightarrow>
       frames_of (unat (ps_generation t)) (accepted_decodes s ops) =
         [0..<if ps_end_of_stream t then unat (td_decoded_frame_count (sld_timing slot))
              else frames_before (sld_timing slot) (unat (ps_next_cycle_index t))])"
proof -
  have s: "ps_slot s = slot" "ps_generation s = g" "ps_next_cycle_index s = 0"
    using assms(1) by (auto simp: new_schedule_def split: if_splits)
  note inv = new_schedule_inv [OF assms(1)]
  have tiles: "tiles_timing (sld_timing (ps_slot s))"
    using assms(2) s by simp
  obtain m where m: "cycles_of h (accepted_decodes s ops) = [0..<m]"
    using causal_cycles [OF accepted_decodes_causal [OF inv, of ops], of h]
    unfolding cycles_of_def s by (auto simp: split_beta)
  define t where "t = snd (run_ops schedule_step s ops)"
  have fin: "cycles_of (unat (ps_generation t)) (accepted_decodes s ops) =
      [0..<unat (ps_next_cycle_index t)]"
    using cycles_final [OF inv, of ops t] by (auto simp: t_def s split: if_splits)
  have "ps_end_of_stream t \<Longrightarrow> unat (td_decoded_frame_count (sld_timing slot)) =
      frames_before (sld_timing slot) (unat (ps_next_cycle_index t))"
    using schedule.run_keeps [OF inv, of ops] schedule_run_slot [of s ops] assms(2)
    by (simp add: t_def s schedule_inv_def tiles_timing_def)
  moreover have "frames_of h (accepted_decodes s ops) = [0..<frames_before (sld_timing slot) m]"
    and "frames_of (unat (ps_generation t)) (accepted_decodes s ops) =
      [0..<frames_before (sld_timing slot) (unat (ps_next_cycle_index t))]"
    unfolding frames_of_cycles [OF tiles] m fin s frames_before_consecutive by (rule refl)+
  ultimately show ?thesis
    by (auto simp: t_def [symmetric])
qed


section \<open>Witnesses\<close>

text \<open>The H3 slot of 32 latent slots, 107 frames and 7 cycles.\<close>

definition h3_slot :: slot_loaded where
  "h3_slot =
     \<lparr>sld_slot_id = ''player-a'', sld_slot_revision = 9, sld_width = 800, sld_height = 448,
      sld_profile = \<lparr>pr_codec_family = ''minimax_h3'', pr_profile = ''h3_av_latent'',
                     pr_profile_version = ''0.1.0''\<rparr>,
      sld_timing =
        \<lparr>td_frame_rate_numerator = 24, td_frame_rate_denominator = 1,
         td_latent_slot_count = 32, td_decoded_frame_count = 107, td_cycle_count = 7,
         td_initial =
           \<lparr>cp_first_cycle_index = 0, cp_cycle_count = 1, cp_latent_base = 0,
            cp_latent_stride = 0, cp_latent_count = 2, cp_decoded_base = 0,
            cp_decoded_stride = 0, cp_decoded_count = 5\<rparr>,
         td_steady =
           \<lparr>cp_first_cycle_index = 1, cp_cycle_count = 6, cp_latent_base = 2,
            cp_latent_stride = 5, cp_latent_count = 5, cp_decoded_base = 5,
            cp_decoded_stride = 17, cp_decoded_count = 17\<rparr>,
         td_reset_required_on_wrap = True, td_arbitrary_seek = False,
         td_max_frames_per_cycle = 17\<rparr>\<rparr>"

definition h3_schedule :: playback_schedule where
  "h3_schedule =
     \<lparr>ps_slot = h3_slot, ps_generation = 1, ps_next_cycle_index = 0, ps_end_of_stream = False,
      ps_pending_reset_generation = None\<rparr>"

lemma h3_new: "new_schedule h3_slot 1 = Inr h3_schedule"
  by (simp add: new_schedule_def h3_schedule_def)

lemma h3_tiles: "tiles_timing (sld_timing h3_slot)"
  by (simp add: tiles_timing_def h3_slot_def contiguous_strides_def latents_before_def
      frames_before_def before_cycle_def)

theorem schedule_delivers_in_order_witness:
  "\<exists>m. frames_of 1 (accepted_decodes h3_schedule
      [BeginReset ResetLoop, AcceptDecode (honest_ack h3_schedule 0
        \<lparr>ec_latent_start = 0, ec_latent_count = 2, ec_decoded_start = 0, ec_decoded_count = 5\<rparr>)]) =
    [0..<frames_before (sld_timing h3_slot) m]"
  using schedule_delivers_in_order [OF h3_new h3_tiles] by blast


end
