(* ===== verification/Log_Machine.thy ===== *)
theory Log_Machine
  imports LD_Prelude "HOL-Library.FSet" "HOL-Library.Finite_Map"
begin

text \<open>
  Components whose whole state is the log of the operations they accepted: the session
  validators of both protocols. The provider gives the state as a function of the log, the
  operations that may be appended to a log and an invariant of the logs, and shows that one step
  accepts exactly what may be appended; the client gets the same over any run, together with
  what a run means for the commands and replies that are matched by identifiers.
\<close>

section \<open>Runs\<close>

text \<open>The specification's run: the verdict on every operation, and the log of those admitted.\<close>

fun log_run :: "('op list \<Rightarrow> 'op \<Rightarrow> bool) \<Rightarrow> 'op list \<Rightarrow> 'op list \<Rightarrow> bool list \<times> 'op list" where
  "log_run admits log [] = ([], log)"
| "log_run admits log (op # ops) =
     (let ok = admits log op;
          (oks, log') = log_run admits (if ok then log @ [op] else log) ops
      in (ok # oks, log'))"

text \<open>The operations that a component accepted in a run, oldest first.\<close>

definition accepted_ops :: "('s \<Rightarrow> 'op \<Rightarrow> ('e + unit) \<times> 's) \<Rightarrow> 's \<Rightarrow> 'op list \<Rightarrow> 'op list" where
  "accepted_ops step s ops =
     map fst (filter (\<lambda>(op, r). r = Inr ()) (zip ops (fst (run_ops step s ops))))"

locale log_machine =
  fixes step :: "'s \<Rightarrow> 'op \<Rightarrow> ('e + unit) \<times> 's"
    and state_of :: "'op list \<Rightarrow> 's"
    and admits :: "'op list \<Rightarrow> 'op \<Rightarrow> bool"
    and log_inv :: "'op list \<Rightarrow> bool"
  assumes empty_inv: "log_inv []"
    and step_exact: "log_inv log \<Longrightarrow> step (state_of log) op = (r, s') \<Longrightarrow>
      (r = Inr () \<longleftrightarrow> admits log op) \<and>
      s' = state_of (if admits log op then log @ [op] else log)"
    and admits_inv: "log_inv log \<Longrightarrow> admits log op \<Longrightarrow> log_inv (log @ [op])"
begin

lemma run_exact:
  assumes "log_inv log"
    and "run_ops step (state_of log) ops = (rs, s')"
    and "log_run admits log ops = (oks, log')"
  shows "oks = map (\<lambda>r. r = Inr ()) rs \<and> s' = state_of log' \<and> log_inv log' \<and>
    log' = log @ map fst (filter (\<lambda>(op, r). r = Inr ()) (zip ops rs))"
  using assms
proof (induction ops arbitrary: log rs oks)
  case Nil
  then show ?case by simp
next
  case (Cons op ops)
  let ?log1 = "if admits log op then log @ [op] else log"
  obtain r s1 where st: "step (state_of log) op = (r, s1)"
    by fastforce
  note this_step = step_exact [OF Cons.prems(1) st]
  obtain rs1 where rs: "rs = r # rs1" and run: "run_ops step s1 ops = (rs1, s')"
    using Cons.prems(2) st by (auto simp: Let_def split: prod.splits)
  obtain oks1 where oks: "oks = admits log op # oks1"
    and spec: "log_run admits ?log1 ops = (oks1, log')"
    using Cons.prems(3) by (auto simp: Let_def split: prod.splits)
  have inv1: "log_inv ?log1"
    using Cons.prems(1) admits_inv by simp
  have "run_ops step (state_of ?log1) ops = (rs1, s')"
    using run this_step by simp
  from Cons.IH [OF inv1 this spec] show ?case
    using this_step by (auto simp: rs oks split: if_splits)
qed

lemma run_log:
  shows run_log_inv: "log_inv (accepted_ops step (state_of []) ops)"
    and run_log_state:
      "snd (run_ops step (state_of []) ops) = state_of (accepted_ops step (state_of []) ops)"
    and run_log_spec:
      "log_run admits [] ops =
         (map (\<lambda>r. r = Inr ()) (fst (run_ops step (state_of []) ops)),
          accepted_ops step (state_of []) ops)"
proof -
  obtain rs s' where run: "run_ops step (state_of []) ops = (rs, s')"
    by fastforce
  obtain oks log' where spec: "log_run admits [] ops = (oks, log')"
    by fastforce
  note fin = run_exact [OF empty_inv run spec]
  show "log_inv (accepted_ops step (state_of []) ops)"
    and "snd (run_ops step (state_of []) ops) = state_of (accepted_ops step (state_of []) ops)"
    and "log_run admits [] ops =
       (map (\<lambda>r. r = Inr ()) (fst (run_ops step (state_of []) ops)),
        accepted_ops step (state_of []) ops)"
    using fin by (auto simp: accepted_ops_def run spec)
qed

end

section \<open>Commands and replies matched by identifiers\<close>

text \<open>
  Commands carry different identifiers, and each reply answers a command, under its name, that
  no other reply has answered.
\<close>

definition correlated :: "('i \<times> 'n) list \<Rightarrow> ('i \<times> 'n) list \<Rightarrow> bool" where
  "correlated commands replies \<longleftrightarrow>
     distinct (map fst commands) \<and> distinct (map fst replies) \<and> set replies \<subseteq> set commands"

lemma correlated_Nil: "correlated [] []"
  by (simp add: correlated_def)

lemma correlated_command:
  "correlated cs rs \<Longrightarrow> i \<notin> fst ` set cs \<Longrightarrow> correlated (cs @ [(i, n)]) rs"
  by (auto simp: correlated_def)

lemma correlated_reply:
  "correlated cs rs \<Longrightarrow> (i, n) \<in> set cs \<Longrightarrow> i \<notin> fst ` set rs \<Longrightarrow> correlated cs (rs @ [(i, n)])"
  by (auto simp: correlated_def)

lemma correlated_length:
  assumes "correlated cs rs"
  shows "length rs \<le> length cs"
proof -
  have "fst ` set rs \<subseteq> fst ` set cs"
    using assms by (auto simp: correlated_def)
  then have "card (set (map fst rs)) \<le> card (set (map fst cs))"
    by (intro card_mono) auto
  then show ?thesis
    using assms unfolding correlated_def by (metis distinct_card length_map)
qed

lemma correlated_commands:
  assumes "correlated cs rs"
  shows "fcard (fmdom (fmap_of_list cs)) = length cs"
proof -
  have "fset (fmdom (fmap_of_list cs)) = set (map fst cs)"
    by (simp add: fmdom_fmap_of_list fset_of_list.rep_eq)
  then have "fcard (fmdom (fmap_of_list cs)) = card (set (map fst cs))"
    by (simp add: fcard.rep_eq)
  then show ?thesis
    using assms unfolding correlated_def by (metis distinct_card length_map)
qed

lemma correlated_pending:
  assumes "correlated cs rs"
  shows "fcard (fset_of_list (map fst cs) |-| fset_of_list (map fst rs)) = length cs - length rs"
proof -
  let ?C = "set (map fst cs)" and ?R = "set (map fst rs)"
  have "fcard (fset_of_list (map fst cs) |-| fset_of_list (map fst rs)) = card (?C - ?R)"
    by (simp add: fcard.rep_eq fset_of_list.rep_eq)
  also have "\<dots> = card ?C - card ?R"
    using assms by (intro card_Diff_subset) (auto simp: correlated_def)
  also have "\<dots> = length cs - length rs"
    using assms unfolding correlated_def by (metis distinct_card length_map)
  finally show ?thesis .
qed

lemma correlated_lookup:
  assumes "correlated cs rs"
  shows "fmlookup (fmap_of_list cs) i = Some n \<longleftrightarrow> (i, n) \<in> set cs"
    and "fmlookup (fmap_of_list cs) i = None \<longleftrightarrow> i \<notin> fst ` set cs"
  using assms by (simp_all add: correlated_def fmlookup_of_list map_of_eq_None_iff)

lemma fmupd_snoc:
  assumes "i \<notin> fst ` set cs"
  shows "fmupd i n (fmap_of_list cs) = fmap_of_list (cs @ [(i, n)])"
proof (rule fmap_ext)
  fix j
  have "map_of cs i = None"
    using assms by (simp add: map_of_eq_None_iff)
  then show "fmlookup (fmupd i n (fmap_of_list cs)) j = fmlookup (fmap_of_list (cs @ [(i, n)])) j"
    unfolding fmlookup_of_list fmupd_lookup map_of_append map_add_def
    by (cases "map_of cs j") auto
qed

lemma pending_snoc:
  assumes "correlated cs rs" and "i \<notin> fst ` set cs"
  shows "finsert i (fset_of_list (map fst cs) |-| fset_of_list (map fst rs)) =
    fset_of_list (map fst (cs @ [(i, n)])) |-| fset_of_list (map fst rs)"
  using assms by (auto simp: fset_of_list.rep_eq correlated_def fset_eq_iff)

lemma fcard_distinct: "distinct xs \<Longrightarrow> fcard (fset_of_list xs) = length xs"
  by (simp add: fcard.rep_eq fset_of_list.rep_eq distinct_card)

section \<open>Sequence counters\<close>

text \<open>The counters of a session of at most 65536 messages do not overflow.\<close>

lemma sequence_counter:
  assumes "n < 65536"
  shows "checked_add (of_nat (n + 1) :: u64) 1 = Some (of_nat (n + 2))"
    and "(v :: u64) = of_nat (n + 1) \<longleftrightarrow> unat v = n + 1"
proof -
  have u: "unat (of_nat k :: u64) = k" if "k \<le> 65537" for k
    using that by (simp add: unat_of_nat take_bit_nat_eq_self)
  have "unat (of_nat (n + 2) :: u64) = unat (of_nat (n + 1) :: u64) + unat (1 :: u64)"
    using assms u [of "n + 1"] u [of "n + 2"] by simp
  then show "checked_add (of_nat (n + 1) :: u64) 1 = Some (of_nat (n + 2))"
    by (simp only: checked_add_Some)
  show "(v :: u64) = of_nat (n + 1) \<longleftrightarrow> unat v = n + 1"
    using assms u [of "n + 1"] by (simp only: word_unat_eq_iff)
qed

end
