(* ===== verification/Session_Validation.thy ===== *)
theory Session_Validation
  imports Wire_Types Log_Machine
begin

text \<open>
  Worker Protocol 1, the ordered session (\<open>SessionValidator\<close> of
  \<open>crates/control/src/protocol.rs\<close>). The validator keeps the next sequence number of each
  direction, the message ids the peer has used, the commands sent and those that still await
  a reply. Its hash sets and its hash map are finite sets and a finite map.

  The abstract specification is the log of the accepted operations: \<open>session_of_log\<close> computes
  the state from the log, \<open>log_admits\<close> says what may be appended to it.
\<close>

section \<open>State and operations\<close>

datatype inbound_policy = CommandsOnly | ResponsesAndEvents

record session_validator =
  sv_session_id :: uuid
  sv_policy :: inbound_policy
  sv_next_inbound_sequence :: u64
  sv_next_outbound_sequence :: u64
  sv_inbound_message_ids :: "uuid fset"
  sv_outbound_commands :: "(uuid, command_name) fmap"
  sv_pending_replies :: "uuid fset"

definition new_session_validator :: "uuid \<Rightarrow> inbound_policy \<Rightarrow> session_validator" where
  "new_session_validator session_id policy =
     \<lparr>sv_session_id = session_id, sv_policy = policy,
      sv_next_inbound_sequence = 1, sv_next_outbound_sequence = 1,
      sv_inbound_message_ids = {||}, sv_outbound_commands = fmempty,
      sv_pending_replies = {||}\<rparr>"

definition command_count :: "session_validator \<Rightarrow> nat" where
  "command_count s = fcard (fmdom (sv_outbound_commands s))"

definition track_outbound_command ::
    "session_validator \<Rightarrow> envelope \<Rightarrow> unit wire_result \<times> session_validator" where
  "track_outbound_command s e =
     try_with (validate_static e) s (\<lambda>_.
     if en_session_id e \<noteq> sv_session_id s then (Inl SessionMismatch, s)
     else case en_message e of
       MCommand command \<Rightarrow>
         if en_sequence e \<noteq> sv_next_outbound_sequence s
         then (Inl (SequenceMismatch (sv_next_outbound_sequence s) (en_sequence e)), s)
         else if fmlookup (sv_outbound_commands s) (en_message_id e) \<noteq> None
         then (Inl DuplicateCommandId, s)
         else if command_count s \<ge> MAX_MESSAGES_PER_SESSION then (Inl SessionMessageLimit, s)
         else if fcard (sv_pending_replies s) \<ge> MAX_PENDING_COMMANDS
         then (Inl PendingCommandLimit, s)
         else
           let s1 = s\<lparr>sv_outbound_commands :=
                       fmupd (en_message_id e) (command_name_of command) (sv_outbound_commands s),
                      sv_pending_replies := finsert (en_message_id e) (sv_pending_replies s)\<rparr>
           in try_with (ok_or (checked_add (sv_next_outbound_sequence s1) 1) SessionMessageLimit) s1
                (\<lambda>n. (Inr (), s1\<lparr>sv_next_outbound_sequence := n\<rparr>))
     | _ \<Rightarrow> (Inl ExpectedCommand, s))"

definition validate_reply ::
    "session_validator \<Rightarrow> uuid \<Rightarrow> command_name \<Rightarrow> unit wire_result" where
  "validate_reply s reply_to actual_name =
     (if reply_to |\<notin>| sv_pending_replies s then Inl UnknownReply
      else try_bind (ok_or (fmlookup (sv_outbound_commands s) reply_to) UnknownReply)
        (\<lambda>expected_name.
           if actual_name \<noteq> expected_name then Inl (ReplyNameMismatch expected_name actual_name)
           else Inr ()))"

text \<open>The match of \<open>validate_inbound\<close> on the policy and the kind of message: the pending
  command that the message completes, if any.\<close>

definition completed_reply :: "session_validator \<Rightarrow> message \<Rightarrow> uuid option wire_result" where
  "completed_reply s msg = (case (sv_policy s, msg) of
       (CommandsOnly, MCommand command) \<Rightarrow> Inr None
     | (ResponsesAndEvents, MAck reply) \<Rightarrow>
         try_bind (validate_reply s (ar_reply_to reply) (ack_name_of (ar_ack reply)))
           (\<lambda>_. Inr (Some (ar_reply_to reply)))
     | (ResponsesAndEvents, MError reply) \<Rightarrow>
         try_bind (validate_reply s (er_reply_to reply) (er_name reply))
           (\<lambda>_. Inr (Some (er_reply_to reply)))
     | (ResponsesAndEvents, MEvent event) \<Rightarrow>
         (case em_caused_by event of
            Some cause \<Rightarrow>
              if fmlookup (sv_outbound_commands s) cause = None then Inl UnknownCause
              else Inr None
          | None \<Rightarrow> Inr None)
     | _ \<Rightarrow> Inl UnexpectedMessageKind)"

definition validate_inbound ::
    "session_validator \<Rightarrow> envelope \<Rightarrow> unit wire_result \<times> session_validator" where
  "validate_inbound s e =
     try_with (validate_static e) s (\<lambda>_.
     if en_session_id e \<noteq> sv_session_id s then (Inl SessionMismatch, s)
     else if en_sequence e \<noteq> sv_next_inbound_sequence s
     then (Inl (SequenceMismatch (sv_next_inbound_sequence s) (en_sequence e)), s)
     else if fcard (sv_inbound_message_ids s) \<ge> MAX_MESSAGES_PER_SESSION
     then (Inl SessionMessageLimit, s)
     else if en_message_id e |\<in>| sv_inbound_message_ids s then (Inl DuplicateMessageId, s)
     else try_with (completed_reply s (en_message e)) s (\<lambda>completed.
       let s1 = (case completed of
                   Some reply_to \<Rightarrow>
                     s\<lparr>sv_pending_replies := sv_pending_replies s |-| {|reply_to|}\<rparr>
                 | None \<Rightarrow> s);
           s2 = s1\<lparr>sv_inbound_message_ids :=
                     finsert (en_message_id e) (sv_inbound_message_ids s1)\<rparr>
       in try_with (ok_or (checked_add (sv_next_inbound_sequence s2) 1) SessionMessageLimit) s2
            (\<lambda>n. (Inr (), s2\<lparr>sv_next_inbound_sequence := n\<rparr>))))"

definition remaining_inbound_message_budget :: "session_validator \<Rightarrow> nat" where
  "remaining_inbound_message_budget s =
     MAX_MESSAGES_PER_SESSION - fcard (sv_inbound_message_ids s)"

definition remaining_outbound_message_budget :: "session_validator \<Rightarrow> nat" where
  "remaining_outbound_message_budget s = MAX_MESSAGES_PER_SESSION - command_count s"

definition has_pending_reply :: "session_validator \<Rightarrow> uuid \<Rightarrow> bool" where
  "has_pending_reply s command_id = (command_id |\<in>| sv_pending_replies s)"

datatype session_op = TrackOutbound envelope | Inbound envelope

primrec session_step ::
    "session_validator \<Rightarrow> session_op \<Rightarrow> unit wire_result \<times> session_validator" where
  "session_step s (TrackOutbound e) = track_outbound_command s e"
| "session_step s (Inbound e) = validate_inbound s e"

section \<open>The log of a session\<close>

text \<open>The commands sent and the replies and envelopes received, oldest first.\<close>

fun log_commands :: "session_op list \<Rightarrow> (uuid \<times> command_name) list" where
  "log_commands [] = []"
| "log_commands (TrackOutbound e # log) =
     (case en_message e of
        MCommand c \<Rightarrow> (en_message_id e, command_name_of c) # log_commands log
      | _ \<Rightarrow> log_commands log)"
| "log_commands (Inbound e # log) = log_commands log"

fun message_reply :: "message \<Rightarrow> (uuid \<times> command_name) list" where
  "message_reply (MAck r) = [(ar_reply_to r, ack_name_of (ar_ack r))]"
| "message_reply (MError r) = [(er_reply_to r, er_name r)]"
| "message_reply _ = []"

fun log_replies :: "session_op list \<Rightarrow> (uuid \<times> command_name) list" where
  "log_replies [] = []"
| "log_replies (TrackOutbound e # log) = log_replies log"
| "log_replies (Inbound e # log) = message_reply (en_message e) @ log_replies log"

fun log_inbound :: "session_op list \<Rightarrow> envelope list" where
  "log_inbound [] = []"
| "log_inbound (TrackOutbound e # log) = log_inbound log"
| "log_inbound (Inbound e # log) = e # log_inbound log"

lemma log_append [simp]:
  "log_commands (xs @ ys) = log_commands xs @ log_commands ys"
  "log_replies (xs @ ys) = log_replies xs @ log_replies ys"
  "log_inbound (xs @ ys) = log_inbound xs @ log_inbound ys"
proof -
  have "log_commands (xs @ ys) = log_commands xs @ log_commands ys \<and>
        log_replies (xs @ ys) = log_replies xs @ log_replies ys \<and>
        log_inbound (xs @ ys) = log_inbound xs @ log_inbound ys"
  proof (induction xs)
    case (Cons op xs)
    then show ?case
      by (cases op) (simp_all split: message.split)
  qed simp
  then show "log_commands (xs @ ys) = log_commands xs @ log_commands ys"
    "log_replies (xs @ ys) = log_replies xs @ log_replies ys"
    "log_inbound (xs @ ys) = log_inbound xs @ log_inbound ys"
    by simp_all
qed

text \<open>The state of a validator with a given log.\<close>

definition session_of_log :: "uuid \<Rightarrow> inbound_policy \<Rightarrow> session_op list \<Rightarrow> session_validator" where
  "session_of_log session_id policy log =
     \<lparr>sv_session_id = session_id, sv_policy = policy,
      sv_next_inbound_sequence = of_nat (length (log_inbound log) + 1),
      sv_next_outbound_sequence = of_nat (length (log_commands log) + 1),
      sv_inbound_message_ids = fset_of_list (map en_message_id (log_inbound log)),
      sv_outbound_commands = fmap_of_list (log_commands log),
      sv_pending_replies =
        fset_of_list (map fst (log_commands log)) |-| fset_of_list (map fst (log_replies log))\<rparr>"

text \<open>What may be appended to the log of an open session.\<close>

definition admits_command :: "uuid \<Rightarrow> session_op list \<Rightarrow> envelope \<Rightarrow> bool" where
  "admits_command session_id log e \<longleftrightarrow>
     validate_static e = Inr () \<and> en_session_id e = session_id \<and>
     (case en_message e of MCommand c \<Rightarrow> True | _ \<Rightarrow> False) \<and>
     unat (en_sequence e) = length (log_commands log) + 1 \<and>
     en_message_id e \<notin> fst ` set (log_commands log) \<and>
     length (log_commands log) < MAX_MESSAGES_PER_SESSION \<and>
     length (log_commands log) - length (log_replies log) < MAX_PENDING_COMMANDS"

fun admits_message :: "inbound_policy \<Rightarrow> session_op list \<Rightarrow> message \<Rightarrow> bool" where
  "admits_message CommandsOnly log msg = (case msg of MCommand c \<Rightarrow> True | _ \<Rightarrow> False)"
| "admits_message ResponsesAndEvents log (MCommand c) = False"
| "admits_message ResponsesAndEvents log (MAck r) =
     ((ar_reply_to r, ack_name_of (ar_ack r)) \<in> set (log_commands log) \<and>
      ar_reply_to r \<notin> fst ` set (log_replies log))"
| "admits_message ResponsesAndEvents log (MError r) =
     ((er_reply_to r, er_name r) \<in> set (log_commands log) \<and>
      er_reply_to r \<notin> fst ` set (log_replies log))"
| "admits_message ResponsesAndEvents log (MEvent ev) =
     (case em_caused_by ev of None \<Rightarrow> True | Some c \<Rightarrow> c \<in> fst ` set (log_commands log))"

definition admits_inbound ::
    "uuid \<Rightarrow> inbound_policy \<Rightarrow> session_op list \<Rightarrow> envelope \<Rightarrow> bool" where
  "admits_inbound session_id policy log e \<longleftrightarrow>
     validate_static e = Inr () \<and> en_session_id e = session_id \<and>
     unat (en_sequence e) = length (log_inbound log) + 1 \<and>
     length (log_inbound log) < MAX_MESSAGES_PER_SESSION \<and>
     en_message_id e \<notin> en_message_id ` set (log_inbound log) \<and>
     admits_message policy log (en_message e)"

primrec log_admits :: "uuid \<Rightarrow> inbound_policy \<Rightarrow> session_op list \<Rightarrow> session_op \<Rightarrow> bool" where
  "log_admits session_id policy log (TrackOutbound e) = admits_command session_id log e"
| "log_admits session_id policy log (Inbound e) = admits_inbound session_id policy log e"

text \<open>The specification's run: the verdict on every operation, and the log of those admitted.\<close>

definition spec_run ::
    "uuid \<Rightarrow> inbound_policy \<Rightarrow> session_op list \<Rightarrow> session_op list \<Rightarrow> bool list \<times> session_op list" where
  "spec_run session_id policy = log_run (log_admits session_id policy)"

text \<open>The operations that a fresh validator accepted in a run, oldest first.\<close>

definition session_log ::
    "uuid \<Rightarrow> inbound_policy \<Rightarrow> session_op list \<Rightarrow> session_op list" where
  "session_log session_id policy ops =
     accepted_ops session_step (new_session_validator session_id policy) ops"

section \<open>The validator implements the specification\<close>

text \<open>What every log of a session satisfies.\<close>

definition log_ok :: "uuid \<Rightarrow> session_op list \<Rightarrow> bool" where
  "log_ok session_id log \<longleftrightarrow>
     distinct (map fst (log_commands log)) \<and>
     distinct (map fst (log_replies log)) \<and>
     set (log_replies log) \<subseteq> set (log_commands log) \<and>
     distinct (map en_message_id (log_inbound log)) \<and>
     map (unat \<circ> en_sequence) (log_inbound log) = [1..<length (log_inbound log) + 1] \<and>
     (\<forall>e\<in>set (log_inbound log). en_session_id e = session_id) \<and>
     length (log_commands log) \<le> MAX_MESSAGES_PER_SESSION \<and>
     length (log_inbound log) \<le> MAX_MESSAGES_PER_SESSION \<and>
     length (log_commands log) - length (log_replies log) \<le> MAX_PENDING_COMMANDS"

lemma log_ok_Nil: "log_ok session_id []"
  by (simp add: log_ok_def)

lemma log_ok_correlated:
  "log_ok session_id log \<Longrightarrow> correlated (log_commands log) (log_replies log)"
  by (simp add: log_ok_def correlated_def)

lemma session_of_log_simps [simp]:
  "sv_session_id (session_of_log session_id policy log) = session_id"
  "sv_policy (session_of_log session_id policy log) = policy"
  "sv_next_inbound_sequence (session_of_log session_id policy log) =
     of_nat (length (log_inbound log) + 1)"
  "sv_next_outbound_sequence (session_of_log session_id policy log) =
     of_nat (length (log_commands log) + 1)"
  "sv_inbound_message_ids (session_of_log session_id policy log) =
     fset_of_list (map en_message_id (log_inbound log))"
  "sv_outbound_commands (session_of_log session_id policy log) = fmap_of_list (log_commands log)"
  "sv_pending_replies (session_of_log session_id policy log) =
     fset_of_list (map fst (log_commands log)) |-| fset_of_list (map fst (log_replies log))"
  by (simp_all add: session_of_log_def)

lemma command_count_log:
  assumes "log_ok session_id log"
  shows "command_count (session_of_log session_id policy log) = length (log_commands log)"
  using correlated_commands [OF log_ok_correlated [OF assms]] by (simp add: command_count_def)

lemma inbound_count_log:
  assumes "log_ok session_id log"
  shows "fcard (sv_inbound_message_ids (session_of_log session_id policy log)) =
         length (log_inbound log)"
  using assms fcard_distinct [of "map en_message_id (log_inbound log)"]
  by (simp add: log_ok_def del: fset_of_list_map)

lemma pending_count_log:
  assumes "log_ok session_id log"
  shows "fcard (sv_pending_replies (session_of_log session_id policy log)) =
         length (log_commands log) - length (log_replies log)"
  using correlated_pending [OF log_ok_correlated [OF assms]] by simp

lemma lookup_log:
  assumes "log_ok session_id log"
  shows "fmlookup (sv_outbound_commands (session_of_log session_id policy log)) i = Some n \<longleftrightarrow>
         (i, n) \<in> set (log_commands log)"
    and "fmlookup (sv_outbound_commands (session_of_log session_id policy log)) i = None \<longleftrightarrow>
         i \<notin> fst ` set (log_commands log)"
  using correlated_lookup [OF log_ok_correlated [OF assms]] by simp_all

lemma pending_log:
  "i |\<in>| sv_pending_replies (session_of_log session_id policy log) \<longleftrightarrow>
   i \<in> fst ` set (log_commands log) \<and> i \<notin> fst ` set (log_replies log)"
  by (simp add: fset_of_list.rep_eq)

lemmas next_sequence = sequence_counter [folded MAX_MESSAGES_PER_SESSION_def]

lemma track_refines:
  assumes ok: "log_ok session_id log"
    and tr: "track_outbound_command (session_of_log session_id policy log) e = (r, s')"
  shows "(r = Inr () \<longleftrightarrow> admits_command session_id log e) \<and>
    s' = session_of_log session_id policy
           (if admits_command session_id log e then log @ [TrackOutbound e] else log)"
proof (cases "admits_command session_id log e")
  case True
  then obtain c where msg: "en_message e = MCommand c"
    by (auto simp: admits_command_def split: message.splits)
  have new: "en_message_id e \<notin> fst ` set (log_commands log)"
    and n: "length (log_commands log) < MAX_MESSAGES_PER_SESSION"
    using True by (auto simp: admits_command_def)
  have fresh: "fmlookup (fmap_of_list (log_commands log)) (en_message_id e) = None"
    using new by (simp add: fmlookup_of_list map_of_eq_None_iff)
  note upd = fmupd_snoc [OF new] and pend = pending_snoc [OF log_ok_correlated [OF ok] new]
  let ?s = "session_of_log session_id policy log"
  have snoc: "session_of_log session_id policy (log @ [TrackOutbound e]) =
      ?s\<lparr>sv_outbound_commands :=
             fmupd (en_message_id e) (command_name_of c) (sv_outbound_commands ?s),
         sv_pending_replies := finsert (en_message_id e) (sv_pending_replies ?s),
         sv_next_outbound_sequence := of_nat (length (log_commands log) + 2)\<rparr>"
    using upd pend by (simp add: session_of_log_def msg del: set_map fset_of_list_map)
  have "track_outbound_command ?s e =
      (Inr (), session_of_log session_id policy (log @ [TrackOutbound e]))"
    using True next_sequence [OF n] command_count_log [OF ok, of policy]
      pending_count_log [OF ok, of policy]
    by (simp add: track_outbound_command_def admits_command_def msg fresh snoc
        del: of_nat_add of_nat_Suc)
  then show ?thesis
    using True tr by simp
next
  case False
  have "r \<noteq> Inr () \<and> s' = session_of_log session_id policy log"
  proof (rule ccontr)
    assume no: "\<not> ?thesis"
    show False
      using False tr no command_count_log [OF ok, of policy] pending_count_log [OF ok, of policy]
        next_sequence(2) [of "length (log_commands log)" "en_sequence e"]
        lookup_log(2) [OF ok, of policy "en_message_id e"]
      by (auto simp: track_outbound_command_def admits_command_def try_with_def Let_def
          next_sequence(1)
          simp del: of_nat_add of_nat_Suc split: message.splits if_splits sum.splits)
  qed
  then show ?thesis
    using False by simp
qed

lemma validate_reply_log:
  assumes ok: "log_ok session_id log"
  shows "validate_reply (session_of_log session_id policy log) i n = Inr () \<longleftrightarrow>
         (i, n) \<in> set (log_commands log) \<and> i \<notin> fst ` set (log_replies log)"
proof (cases "fmlookup (sv_outbound_commands (session_of_log session_id policy log)) i")
  case None
  then have "i \<notin> fst ` set (log_commands log)"
    by (simp add: lookup_log(2) [OF ok] del: session_of_log_simps)
  then have "(i, n) \<notin> set (log_commands log)"
    by force
  with None show ?thesis
    by (simp add: validate_reply_def del: session_of_log_simps)
next
  case (Some m)
  have sent: "(i, x) \<in> set (log_commands log) \<longleftrightarrow> x = m" for x
    using lookup_log(1) [OF ok, of policy i x] Some by auto
  then have "i \<in> fst ` set (log_commands log)"
    by force
  with Some show ?thesis
    using pending_log [of i session_id policy log]
    by (auto simp: validate_reply_def sent simp del: session_of_log_simps)
qed

lemma completed_reply_log:
  assumes ok: "log_ok session_id log"
  shows "(\<exists>c. completed_reply (session_of_log session_id policy log) msg = Inr c) \<longleftrightarrow>
         admits_message policy log msg"
    and "completed_reply (session_of_log session_id policy log) msg = Inr c \<Longrightarrow>
         set_option c = fst ` set (if policy = CommandsOnly then [] else message_reply msg)"
  by (cases policy; cases msg;
      auto simp: completed_reply_def try_iffs validate_reply_log [OF ok] lookup_log [OF ok]
        simp del: session_of_log_simps(6) split: option.splits if_splits)+

lemma inbound_refines:
  assumes ok: "log_ok session_id log"
    and tr: "validate_inbound (session_of_log session_id policy log) e = (r, s')"
  shows "(r = Inr () \<longleftrightarrow> admits_inbound session_id policy log e) \<and>
    s' = session_of_log session_id policy
           (if admits_inbound session_id policy log e then log @ [Inbound e] else log)"
proof (cases "admits_inbound session_id policy log e")
  case True
  let ?s = "session_of_log session_id policy log"
  have n: "length (log_inbound log) < MAX_MESSAGES_PER_SESSION"
    and new: "en_message_id e \<notin> en_message_id ` set (log_inbound log)"
    and adm: "admits_message policy log (en_message e)"
    using True by (auto simp: admits_inbound_def)
  obtain c where c: "completed_reply ?s (en_message e) = Inr c"
    using completed_reply_log(1) [OF ok] adm by blast
  have ids: "set_option c = fst ` set (message_reply (en_message e))"
    using completed_reply_log(2) [OF ok c] adm
    by (cases policy) (auto split: message.splits)
  have pend: "fset_of_list (map fst (log_commands log)) |-|
        fset_of_list (map fst (log_replies log @ message_reply (en_message e))) =
      (case c of None \<Rightarrow> sv_pending_replies ?s | Some i \<Rightarrow> sv_pending_replies ?s |-| {|i|})"
    using ids by (cases c) (auto simp: fset_of_list.rep_eq fset_eq_iff)
  have snoc: "session_of_log session_id policy (log @ [Inbound e]) =
      ?s\<lparr>sv_pending_replies := (case c of None \<Rightarrow> sv_pending_replies ?s
                                        | Some i \<Rightarrow> sv_pending_replies ?s |-| {|i|}),
         sv_inbound_message_ids := finsert (en_message_id e) (sv_inbound_message_ids ?s),
         sv_next_inbound_sequence := of_nat (length (log_inbound log) + 2)\<rparr>"
    using pend by (auto simp: session_of_log_def fset_eq_iff fset_of_list.rep_eq)
  have "validate_inbound ?s e = (Inr (), session_of_log session_id policy (log @ [Inbound e]))"
    using True next_sequence [OF n] c inbound_count_log [OF ok, of policy]
    unfolding snoc
    by (cases c) (simp_all add: validate_inbound_def admits_inbound_def fset_of_list.rep_eq
        del: of_nat_add of_nat_Suc)
  then show ?thesis
    using True tr by simp
next
  case False
  have "r \<noteq> Inr () \<and> s' = session_of_log session_id policy log"
  proof (rule ccontr)
    assume no: "\<not> ?thesis"
    show False
      using False tr no completed_reply_log(1) [OF ok, of policy "en_message e"]
        inbound_count_log [OF ok, of policy]
        next_sequence(2) [of "length (log_inbound log)" "en_sequence e"]
      by (auto simp: validate_inbound_def admits_inbound_def try_with_def Let_def
          next_sequence(1) fset_of_list.rep_eq
          simp del: of_nat_add of_nat_Suc split: if_splits sum.splits option.splits)
  qed
  then show ?thesis
    using False by simp
qed

lemma step_refines:
  assumes "log_ok session_id log"
    and "session_step (session_of_log session_id policy log) op = (r, s')"
  shows "(r = Inr () \<longleftrightarrow> log_admits session_id policy log op) \<and>
    s' = session_of_log session_id policy
           (if log_admits session_id policy log op then log @ [op] else log)"
proof (cases op)
  case (TrackOutbound e)
  then show ?thesis
    using track_refines [OF assms(1), of policy e r s'] assms(2) by simp
next
  case (Inbound e)
  then show ?thesis
    using inbound_refines [OF assms(1), of policy e r s'] assms(2) by simp
qed

lemma admits_command_ok:
  assumes "log_ok session_id log" and "admits_command session_id log e"
  shows "log_ok session_id (log @ [TrackOutbound e])"
  using assms by (auto simp: log_ok_def admits_command_def split: message.splits)

lemma admits_message_reply:
  assumes "admits_message policy log msg"
  shows "set (message_reply msg) \<subseteq> set (log_commands log)"
    and "fst ` set (log_replies log) \<inter> fst ` set (message_reply msg) = {}"
  using assms by (cases policy; cases msg; auto)+

lemma admits_inbound_ok:
  assumes ok: "log_ok session_id log" and adm: "admits_inbound session_id policy log e"
  shows "log_ok session_id (log @ [Inbound e])"
proof -
  have msg: "admits_message policy log (en_message e)"
    using adm by (simp add: admits_inbound_def)
  have one: "distinct (map fst (message_reply m))" for m
    by (cases m) auto
  note disj = admits_message_reply(2) [OF msg] and sub = admits_message_reply(1) [OF msg]
  show ?thesis
    using ok adm one [of "en_message e"] disj sub
    by (auto simp: log_ok_def admits_inbound_def)
qed

lemma log_admits_ok:
  assumes "log_ok session_id log" and "log_admits session_id policy log op"
  shows "log_ok session_id (log @ [op])"
  using assms admits_command_ok admits_inbound_ok by (cases op) auto

definition session_inv :: "session_validator \<Rightarrow> bool" where
  "session_inv s \<longleftrightarrow> (\<exists>log. log_ok (sv_session_id s) log \<and>
     s = session_of_log (sv_session_id s) (sv_policy s) log)"

lemma session_invI: "log_ok session_id log \<Longrightarrow> session_inv (session_of_log session_id policy log)"
  by (auto simp: session_inv_def)

lemma session_invE:
  assumes "session_inv s"
  obtains session_id policy log
  where "log_ok session_id log" and "s = session_of_log session_id policy log"
  using assms by (auto simp: session_inv_def)

text \<open>The messages a session has used up.\<close>

definition session_used :: "session_validator \<Rightarrow> nat" where
  "session_used s = fcard (sv_inbound_message_ids s) + command_count s"

lemma session_used_log:
  assumes "log_ok session_id log"
  shows "session_used (session_of_log session_id policy log) =
    length (log_inbound log) + length (log_commands log)"
  unfolding session_used_def
  by (simp only: command_count_log [OF assms] inbound_count_log [OF assms])

interpretation session: ranked_machine session_step session_inv session_used
proof
  fix s op r s'
  assume inv: "session_inv s" and st: "session_step s op = (r, s')"
  from inv obtain sid policy log
    where ok: "log_ok sid log" and s: "s = session_of_log sid policy log"
    by (rule session_invE)
  note step = step_refines [OF ok st [unfolded s]]
  show "session_inv s'"
    using step ok log_admits_ok [OF ok] by (auto intro: session_invI)
  have "log_ok sid (if log_admits sid policy log op then log @ [op] else log)"
    using ok log_admits_ok [OF ok] by simp
  then have "session_used s' = (let log' = if log_admits sid policy log op then log @ [op] else log
      in length (log_inbound log') + length (log_commands log'))"
    unfolding Let_def using step session_used_log by (simp only:)
  then show "session_used s \<le> session_used s'"
    using session_used_log [OF ok] s by (simp add: Let_def split: if_splits)
next
  fix s op e s'
  assume inv: "session_inv s" and st: "session_step s op = (Inl e, s')"
  from inv obtain sid policy log
    where ok: "log_ok sid log" and s: "s = session_of_log sid policy log"
    by (rule session_invE)
  show "s' = s"
    using step_refines [OF ok st [unfolded s]] s by simp
qed

interpretation session_log: log_machine session_step "session_of_log session_id policy"
    "log_admits session_id policy" "log_ok session_id"
  for session_id policy
  using log_ok_Nil step_refines log_admits_ok by unfold_locales blast+

lemma new_session_log: "new_session_validator session_id policy = session_of_log session_id policy []"
  by (simp add: new_session_validator_def session_of_log_def)

lemma session_log_ok: "log_ok session_id (session_log session_id policy ops)"
  and session_log_state:
    "snd (run_ops session_step (new_session_validator session_id policy) ops) =
       session_of_log session_id policy (session_log session_id policy ops)"
  and session_log_spec:
    "spec_run session_id policy [] ops =
       (map (\<lambda>r. r = Inr ())
          (fst (run_ops session_step (new_session_validator session_id policy) ops)),
        session_log session_id policy ops)"
  unfolding session_log_def new_session_log spec_run_def
  by (rule session_log.run_log_inv session_log.run_log_state session_log.run_log_spec)+

section \<open>Properties\<close>

text \<open>Refinement of the session validator. Over any sequence of outbound commands and
  inbound envelopes, the validator accepts exactly what the log specification admits, and
  its counters, sets and map are the ones computed from the log of the accepted operations;
  a rejected operation leaves no trace.\<close>

theorem session_refines_log:
  "case spec_run session_id policy [] ops of (verdicts, log) \<Rightarrow>
     map (\<lambda>r. r = Inr ())
       (fst (run_ops session_step (new_session_validator session_id policy) ops)) = verdicts \<and>
     snd (run_ops session_step (new_session_validator session_id policy) ops) =
       session_of_log session_id policy log"
  by (simp add: session_log_spec session_log_state)

text \<open>At most one reply per command. Whatever the peer sends, the accepted
  acknowledgements and errors answer pairwise different commands, each of them a command sent
  in this session under the name that the reply carries, and command ids are never reused;
  the pending set holds exactly the unanswered commands, at most 256 of them.\<close>

theorem session_replies_matched:
  "distinct (map fst (log_commands (session_log session_id policy ops))) \<and>
    distinct (map fst (log_replies (session_log session_id policy ops))) \<and>
    set (log_replies (session_log session_id policy ops)) \<subseteq> set (log_commands (session_log session_id policy ops)) \<and>
    fset (sv_pending_replies
        (snd (run_ops session_step (new_session_validator session_id policy) ops))) =
      fst ` set (log_commands (session_log session_id policy ops)) -
      fst ` set (log_replies (session_log session_id policy ops)) \<and>
    fcard (sv_pending_replies
        (snd (run_ops session_step (new_session_validator session_id policy) ops))) \<le> 256"
proof -
  note ok = session_log_ok [of session_id policy ops]
  show ?thesis
    using ok pending_count_log [OF ok, of policy]
    unfolding session_log_state
    by (auto simp: log_ok_def fset_of_list.rep_eq MAX_PENDING_COMMANDS_def)
qed

text \<open>Ordered delivery. The accepted inbound envelopes carry the sequence numbers
  1, 2, 3, ... without gap or repetition, pairwise different message ids and the id of the
  session, and there are never more than 65536 of them; the remaining budget that the
  validator reports is exact, so replies and rejections never replenish it.\<close>

theorem session_inbound_ordered:
  "map (unat \<circ> en_sequence) (log_inbound (session_log session_id policy ops)) =
      [1..<length (log_inbound (session_log session_id policy ops)) + 1] \<and>
    distinct (map en_message_id (log_inbound (session_log session_id policy ops))) \<and>
    en_session_id ` set (log_inbound (session_log session_id policy ops)) \<subseteq> {session_id} \<and>
    length (log_inbound (session_log session_id policy ops)) \<le> 65536 \<and>
    remaining_inbound_message_budget
        (snd (run_ops session_step (new_session_validator session_id policy) ops)) +
      length (log_inbound (session_log session_id policy ops)) = 65536"
proof -
  note ok = session_log_ok [of session_id policy ops]
  have "fcard (sv_inbound_message_ids
      (session_of_log session_id policy (session_log session_id policy ops))) =
      length (log_inbound (session_log session_id policy ops))"
    using inbound_count_log [OF ok] .
  then show ?thesis
    using ok unfolding session_log_state remaining_inbound_message_budget_def
    by (auto simp: log_ok_def MAX_MESSAGES_PER_SESSION_def)
qed

end
