(* ===== verification/Framing.thy ===== *)
theory Framing
  imports Wire_Types Le_Bytes
begin

text \<open>
  Framing of control messages (\<open>crates/control/src/framing.rs\<close>): an envelope is one
  MessagePack value behind a 32-bit little-endian length. MessagePack is the \<open>rmp_serde\<close>
  crate, so its serializer \<open>to_vec\<close> and its deserializer \<open>from_slice\<close> (which returns the value
  and the number of bytes it consumed) are parameters. A reader is the sequence of what its
  calls will deliver, byte by byte; a writer is a state with a \<open>write_all\<close>.
\<close>

section \<open>Errors\<close>

datatype framing_error =
    TruncatedLengthPrefix
  | TruncatedPayload
  | InvalidLength u32 u32
  | EncodeFailed string
  | DecodeFailed string
  | TrailingBytes
  | Validation validation_error
  | FramingIo nat

definition framing_stable_code :: "framing_error \<Rightarrow> error_code" where
  "framing_stable_code e = (case e of
       TruncatedLengthPrefix \<Rightarrow> ProtocolTruncatedFrame
     | TruncatedPayload \<Rightarrow> ProtocolTruncatedFrame
     | InvalidLength actual maximum \<Rightarrow>
         if actual > maximum then ProtocolFrameTooLarge else ProtocolBadLength
     | DecodeFailed reason \<Rightarrow> ProtocolInvalidMessagePack
     | TrailingBytes \<Rightarrow> ProtocolInvalidMessagePack
     | Validation error \<Rightarrow> stable_code error
     | EncodeFailed reason \<Rightarrow> WorkerInternal
     | FramingIo code \<Rightarrow> WorkerInternal)"

text \<open>The length check that the encoder and the decoder share: \<open>u32::try_from\<close> of a \<open>usize\<close>
  and the range.\<close>

definition u32_of_usize :: "nat \<Rightarrow> u32 option" where
  "u32_of_usize n = (if n < 2 ^ 32 then Some (of_nat n) else None)"

definition length_in_range :: "u32 \<Rightarrow> bool" where
  "length_in_range n = (1 \<le> n \<and> n \<le> MAX_CONTROL_FRAME_BYTES)"

definition checked_length :: "u8 list \<Rightarrow> framing_error + u32" where
  "checked_length payload =
     try_bind (ok_or (u32_of_usize (length payload)) (InvalidLength (- 1) MAX_CONTROL_FRAME_BYTES))
       (\<lambda>n. if \<not> length_in_range n then Inl (InvalidLength n MAX_CONTROL_FRAME_BYTES) else Inr n)"

section \<open>Encoding and decoding one envelope\<close>

definition encode_envelope ::
    "(envelope \<Rightarrow> string + u8 list) \<Rightarrow> envelope \<Rightarrow> framing_error + u8 list" where
  "encode_envelope to_vec e =
     try_bind (map_err Validation (validate_static e)) (\<lambda>_.
     try_bind (map_err EncodeFailed (to_vec e)) (\<lambda>payload.
     try_bind (checked_length payload) (\<lambda>_. Inr payload)))"

definition decode_envelope ::
    "(u8 list \<Rightarrow> string + (envelope \<times> nat)) \<Rightarrow> u8 list \<Rightarrow> framing_error + envelope" where
  "decode_envelope from_slice payload =
     try_bind (checked_length payload) (\<lambda>_.
     try_bind (map_err DecodeFailed (from_slice payload)) (\<lambda>(e, position).
     if position \<noteq> length payload then Inl TrailingBytes
     else try_bind (map_err Validation (validate_static e)) (\<lambda>_. Inr e)))"

section \<open>Streams\<close>

text \<open>
  What the calls of \<open>Read::read\<close> deliver: a byte, an interruption (\<open>ErrorKind::Interrupted\<close>,
  which both loops retry) or another error with its code; the end of the list is the end of
  the stream. \<open>read_exact\<close> is the standard library's.
\<close>

datatype read_event = GotByte u8 | Interrupted | ReadFailed nat

datatype io_error = UnexpectedEof | OtherIo nat

fun read_exact :: "nat \<Rightarrow> read_event list \<Rightarrow> (io_error + u8 list) \<times> read_event list" where
  "read_exact 0 r = (Inr [], r)"
| "read_exact (Suc n) [] = (Inl UnexpectedEof, [])"
| "read_exact (Suc n) (GotByte b # r) =
     (case read_exact n r of
        (Inr bs, r') \<Rightarrow> (Inr (b # bs), r')
      | (Inl e, r') \<Rightarrow> (Inl e, r'))"
| "read_exact (Suc n) (Interrupted # r) = read_exact (Suc n) r"
| "read_exact (Suc n) (ReadFailed c # r) = (Inl (OtherIo c), r)"

definition map_prefix_error :: "io_error \<Rightarrow> framing_error" where
  "map_prefix_error e = (case e of UnexpectedEof \<Rightarrow> TruncatedLengthPrefix | OtherIo c \<Rightarrow> FramingIo c)"

definition map_payload_error :: "io_error \<Rightarrow> framing_error" where
  "map_payload_error e = (case e of UnexpectedEof \<Rightarrow> TruncatedPayload | OtherIo c \<Rightarrow> FramingIo c)"

text \<open>The rest of \<open>read_envelope\<close> after the first byte of the prefix.\<close>

definition read_frame ::
    "(u8 list \<Rightarrow> string + (envelope \<times> nat)) \<Rightarrow> u8 \<Rightarrow> read_event list \<Rightarrow>
     (framing_error + envelope option) \<times> read_event list" where
  "read_frame from_slice first r =
     (case read_exact 3 r of
        (Inl e, r1) \<Rightarrow> (Inl (map_prefix_error e), r1)
      | (Inr prefix, r1) \<Rightarrow>
          let n = u32_from_le (first # prefix) in
          if \<not> length_in_range n then (Inl (InvalidLength n MAX_CONTROL_FRAME_BYTES), r1)
          else case read_exact (unat n) r1 of
              (Inl e, r2) \<Rightarrow> (Inl (map_payload_error e), r2)
            | (Inr payload, r2) \<Rightarrow>
                (try_bind (decode_envelope from_slice payload) (\<lambda>e. Inr (Some e)), r2))"

fun read_envelope ::
    "(u8 list \<Rightarrow> string + (envelope \<times> nat)) \<Rightarrow> read_event list \<Rightarrow>
     (framing_error + envelope option) \<times> read_event list" where
  "read_envelope from_slice [] = (Inr None, [])"
| "read_envelope from_slice (GotByte b # r) = read_frame from_slice b r"
| "read_envelope from_slice (Interrupted # r) = read_envelope from_slice r"
| "read_envelope from_slice (ReadFailed c # r) = (Inl (FramingIo c), r)"

definition write_envelope ::
    "(envelope \<Rightarrow> string + u8 list) \<Rightarrow> ('w \<Rightarrow> u8 list \<Rightarrow> (nat + unit) \<times> 'w) \<Rightarrow>
     'w \<Rightarrow> envelope \<Rightarrow> (framing_error + unit) \<times> 'w" where
  "write_envelope to_vec write_all w e =
     try_with (encode_envelope to_vec e) w (\<lambda>payload.
     try_with (ok_or (u32_of_usize (length payload)) (InvalidLength (- 1) MAX_CONTROL_FRAME_BYTES)) w
       (\<lambda>n. case write_all w (u32_to_le n) of
          (Inl c, w1) \<Rightarrow> (Inl (FramingIo c), w1)
        | (Inr _, w1) \<Rightarrow>
            (case write_all w1 payload of
               (Inl c, w2) \<Rightarrow> (Inl (FramingIo c), w2)
             | (Inr _, w2) \<Rightarrow> (Inr (), w2))))"

text \<open>The standard library's writer into a vector never fails.\<close>

definition vec_write_all :: "u8 list \<Rightarrow> u8 list \<Rightarrow> (nat + unit) \<times> u8 list" where
  "vec_write_all w bytes = (Inr (), w @ bytes)"

text \<open>A caller that sends or receives several envelopes.\<close>

fun write_envelopes ::
    "(envelope \<Rightarrow> string + u8 list) \<Rightarrow> u8 list \<Rightarrow> envelope list \<Rightarrow>
     (framing_error + unit) \<times> u8 list" where
  "write_envelopes to_vec w [] = (Inr (), w)"
| "write_envelopes to_vec w (e # es) =
     (case write_envelope to_vec vec_write_all w e of
        (Inl x, w1) \<Rightarrow> (Inl x, w1)
      | (Inr _, w1) \<Rightarrow> write_envelopes to_vec w1 es)"

fun read_envelopes ::
    "(u8 list \<Rightarrow> string + (envelope \<times> nat)) \<Rightarrow> nat \<Rightarrow> read_event list \<Rightarrow>
     (framing_error + envelope option) list" where
  "read_envelopes from_slice 0 r = []"
| "read_envelopes from_slice (Suc n) r =
     (case read_envelope from_slice r of (x, r') \<Rightarrow> x # read_envelopes from_slice n r')"

section \<open>Lemmas on lengths and readers\<close>

lemma length_in_range_iff: "length_in_range n \<longleftrightarrow> 1 \<le> unat n \<and> unat n \<le> 262144"
  by (simp add: length_in_range_def word_le_nat_alt MAX_CONTROL_FRAME_BYTES_def)

lemma checked_length_Inr [try_iffs]:
  "checked_length payload = Inr n \<longleftrightarrow>
   1 \<le> length payload \<and> length payload \<le> 262144 \<and> n = of_nat (length payload)"
proof (cases "length payload < 2 ^ 32")
  case True
  then have "unat (of_nat (length payload) :: u32) = length payload"
    by (simp add: unat_of_nat take_bit_nat_eq_self)
  then have "length_in_range (of_nat (length payload)) \<longleftrightarrow>
      1 \<le> length payload \<and> length payload \<le> 262144"
    by (simp only: length_in_range_iff)
  then show ?thesis
    using True by (auto simp: checked_length_def u32_of_usize_def)
next
  case False
  then show ?thesis
    by (auto simp: checked_length_def u32_of_usize_def)
qed

text \<open>Interruptions are invisible.\<close>

definition uninterrupted :: "read_event list \<Rightarrow> read_event list" where
  "uninterrupted r = filter (\<lambda>x. x \<noteq> Interrupted) r"

lemma uninterrupted_simps [simp]:
  "uninterrupted [] = []"
  "uninterrupted (Interrupted # r) = uninterrupted r"
  "uninterrupted (GotByte b # r) = GotByte b # uninterrupted r"
  "uninterrupted (ReadFailed c # r) = ReadFailed c # uninterrupted r"
  by (simp_all add: uninterrupted_def)

lemma read_exact_uninterrupted:
  "read_exact n (uninterrupted r) = map_prod id uninterrupted (read_exact n r)"
  by (induction n r rule: read_exact.induct) (auto split: prod.splits sum.splits)

lemma read_frame_uninterrupted:
  "read_frame from_slice b (uninterrupted r) =
   map_prod id uninterrupted (read_frame from_slice b r)"
  by (auto simp: read_frame_def read_exact_uninterrupted Let_def split: prod.splits sum.splits)

lemma read_envelope_uninterrupted:
  "read_envelope from_slice (uninterrupted r) =
   map_prod id uninterrupted (read_envelope from_slice r)"
  by (induction from_slice r rule: read_envelope.induct) (simp_all add: read_frame_uninterrupted id_def)

lemma read_envelopes_uninterrupted:
  "read_envelopes from_slice n (uninterrupted r) = read_envelopes from_slice n r"
  by (induction n arbitrary: r)
    (auto simp: read_envelope_uninterrupted split: prod.splits)

lemma read_exact_bytes:
  "length bs = n \<Longrightarrow> read_exact n (map GotByte bs @ r) = (Inr bs, r)"
  by (induction bs arbitrary: n) auto

lemma read_exact_short:
  "length bs < n \<Longrightarrow> read_exact n (map GotByte bs) = (Inl UnexpectedEof, [])"
proof (induction bs arbitrary: n)
  case Nil
  then show ?case by (cases n) auto
next
  case (Cons b bs)
  then show ?case by (cases n) auto
qed

text \<open>The frame of a payload and what reading it, or a proper prefix of it, gives.\<close>

definition frame_bytes :: "u8 list \<Rightarrow> u8 list" where
  "frame_bytes payload = u32_to_le (of_nat (length payload)) @ payload"

lemma frame_bytes_split:
  obtains b bs where "frame_bytes payload = b # bs @ payload" and "length bs = 3"
    and "u32_to_le (of_nat (length payload)) = b # bs"
proof -
  obtain b bs where "u32_to_le (of_nat (length payload)) = b # bs" "length bs = 3"
    using le32.length_enc [of "of_nat (length payload)"]
    by (cases "u32_to_le (of_nat (length payload))") auto
  then show ?thesis
    using that by (simp add: frame_bytes_def)
qed

lemma payload_length:
  assumes "checked_length payload = Inr n"
  shows "n = of_nat (length payload)" and "unat n = length payload" and "length_in_range n"
proof -
  have p: "1 \<le> length payload" "length payload \<le> 262144" "n = of_nat (length payload)"
    using assms by (simp_all add: checked_length_Inr)
  then show "n = of_nat (length payload)" and u: "unat n = length payload"
    by (simp_all add: unat_of_nat take_bit_nat_eq_self)
  show "length_in_range n"
    using p u by (simp only: length_in_range_iff)
qed

lemma read_written_frame:
  assumes enc: "encode_envelope to_vec e = Inr payload"
    and codec: "from_slice payload = Inr (e, length payload)"
  shows "read_envelope from_slice (map GotByte (frame_bytes payload) @ r) = (Inr (Some e), r)"
proof -
  have ok: "checked_length payload = Inr (of_nat (length payload))"
    and valid: "validate_static e = Inr ()"
    using enc by (auto simp: encode_envelope_def try_iffs)
  note len = payload_length [OF ok]
  obtain b bs where f: "frame_bytes payload = b # bs @ payload" and 3: "length bs = 3"
    and p: "u32_to_le (of_nat (length payload)) = b # bs"
    by (rule frame_bytes_split)
  have n: "u32_from_le (b # bs) = of_nat (length payload)"
    by (simp only: p [symmetric] le32.dec_enc)
  have "decode_envelope from_slice payload = Inr e"
    by (simp add: decode_envelope_def ok codec valid)
  then show ?thesis
    using len by (simp add: f read_frame_def read_exact_bytes [OF 3] n Let_def read_exact_bytes)
qed

lemma write_envelope_vec:
  "write_envelope to_vec vec_write_all w e = (Inr (), w') \<longleftrightarrow>
   (\<exists>payload. encode_envelope to_vec e = Inr payload \<and> w' = w @ frame_bytes payload)"
proof (cases "encode_envelope to_vec e")
  case (Inl x)
  then show ?thesis
    by (simp add: write_envelope_def)
next
  case (Inr payload)
  then have "checked_length payload = Inr (of_nat (length payload))"
    by (auto simp: encode_envelope_def try_iffs)
  then have "u32_of_usize (length payload) = Some (of_nat (length payload))"
    by (simp add: u32_of_usize_def checked_length_Inr)
  with Inr show ?thesis
    by (auto simp: write_envelope_def vec_write_all_def frame_bytes_def)
qed

lemma write_envelopes_frames:
  assumes "write_envelopes to_vec w es = (Inr (), w')"
  shows "\<exists>ps. list_all2 (\<lambda>e p. encode_envelope to_vec e = Inr p) es ps \<and>
    w' = w @ concat (map frame_bytes ps)"
  using assms
proof (induction es arbitrary: w)
  case Nil
  then show ?case by simp
next
  case (Cons e es)
  then obtain w1 where w1: "write_envelope to_vec vec_write_all w e = (Inr (), w1)"
    and rest: "write_envelopes to_vec w1 es = (Inr (), w')"
    by (auto split: prod.splits sum.splits)
  from w1 obtain p where p: "encode_envelope to_vec e = Inr p" "w1 = w @ frame_bytes p"
    by (auto simp: write_envelope_vec)
  from Cons.IH [OF rest] obtain ps where
    "list_all2 (\<lambda>e p. encode_envelope to_vec e = Inr p) es ps"
    "w' = w1 @ concat (map frame_bytes ps)"
    by blast
  then have "list_all2 (\<lambda>e p. encode_envelope to_vec e = Inr p) (e # es) (p # ps) \<and>
      w' = w @ concat (map frame_bytes (p # ps))"
    using p by simp
  then show ?case by blast
qed

lemma encode_uses_to_vec: "encode_envelope to_vec e = Inr p \<Longrightarrow> to_vec e = Inr p"
  by (auto simp: encode_envelope_def try_iffs)

lemma read_written_frames:
  assumes "list_all2 (\<lambda>e p. encode_envelope to_vec e = Inr p) es ps"
    and codec: "\<And>e p. to_vec e = Inr p \<Longrightarrow> from_slice p = Inr (e, length p)"
  shows "read_envelopes from_slice (length es + 1) (map GotByte (concat (map frame_bytes ps))) =
    map (\<lambda>e. Inr (Some e)) es @ [Inr None]"
  using assms(1)
proof (induction es ps rule: list_all2_induct)
  case Nil
  then show ?case by simp
next
  case (Cons e es p ps)
  have "from_slice p = Inr (e, length p)"
    using Cons.hyps(1) by (intro codec) (rule encode_uses_to_vec)
  from read_written_frame [where from_slice = from_slice, OF Cons.hyps(1) this] show ?case
    using Cons.IH by simp
qed

section \<open>A sample codec for the witnesses\<close>

definition sample_envelope :: envelope where
  "sample_envelope = new_envelope 5 1 9 0 (MCommand CmdWorkerStatus)"

definition sample_to_vec :: "envelope \<Rightarrow> string + u8 list" where
  "sample_to_vec e = (if e = sample_envelope then Inr [7] else Inl ''unsupported'')"

definition sample_from_slice :: "u8 list \<Rightarrow> string + (envelope \<times> nat)" where
  "sample_from_slice p =
     (case p of b # _ \<Rightarrow> if b = 7 then Inr (sample_envelope, 1) else Inl ''invalid''
              | [] \<Rightarrow> Inl ''empty'')"

lemma sample_codec: "sample_to_vec e = Inr p \<Longrightarrow> sample_from_slice p = Inr (e, length p)"
  by (auto simp: sample_to_vec_def sample_from_slice_def split: if_splits)

lemma sample_encoded: "encode_envelope sample_to_vec sample_envelope = Inr [7]"
  by (simp add: encode_envelope_def sample_to_vec_def validate_static_def sample_envelope_def
      new_envelope_def checked_length_Inr try_bind_Inr map_err_Inr)

lemma sample_frame: "frame_bytes [7] = [1, 0, 0, 0, 7]"
  by (simp add: frame_bytes_def u32_to_le_def to_le_bytes_def upt_rec)

section \<open>Properties\<close>

text \<open>C12: framing round trip over a stream. When the MessagePack codec decodes what it
  encoded, the envelopes a sender writes are read back one by one, in order and unchanged,
  followed by the clean end of the stream, however the reads are interrupted.\<close>

theorem framing_roundtrip:
  assumes "\<And>e p. to_vec e = Inr p \<Longrightarrow> from_slice p = Inr (e, length p)"
    and "write_envelopes to_vec [] es = (Inr (), bytes)"
    and "uninterrupted events = map GotByte bytes"
  shows "read_envelopes from_slice (length es + 1) events =
    map (\<lambda>e. Inr (Some e)) es @ [Inr None]"
proof -
  obtain ps where "list_all2 (\<lambda>e p. encode_envelope to_vec e = Inr p) es ps"
    and "bytes = concat (map frame_bytes ps)"
    using write_envelopes_frames [OF assms(2)] by auto
  then show ?thesis
    using read_written_frames [OF _ assms(1)] assms(3)
    by (metis read_envelopes_uninterrupted)
qed

text \<open>Truncation is always reported. Of a written frame, no byte is a clean end of
  the stream, one to three bytes are a truncated prefix and any other proper prefix is a
  truncated payload; none is taken for a message.\<close>

theorem framing_truncation:
  assumes "encode_envelope to_vec e = Inr payload"
    and "k < length payload + 4"
  shows "fst (read_envelope from_slice (map GotByte (take k (frame_bytes payload)))) =
    (if k = 0 then Inr None else if k < 4 then Inl TruncatedLengthPrefix
     else Inl TruncatedPayload)"
proof (cases "k < 4")
  case True
  obtain b bs where f: "frame_bytes payload = b # bs @ payload" and 3: "length bs = 3"
    by (rule frame_bytes_split)
  show ?thesis
  proof (cases k)
    case 0
    then show ?thesis by simp
  next
    case (Suc j)
    then have "read_exact 3 (map GotByte (take j bs)) = (Inl UnexpectedEof, [])"
      using True 3 by (intro read_exact_short) simp
    then show ?thesis
      using Suc True 3 by (simp add: f read_frame_def map_prefix_error_def)
  qed
next
  case False
  have ok: "checked_length payload = Inr (of_nat (length payload))"
    using assms(1) by (auto simp: encode_envelope_def try_iffs)
  note len = payload_length [OF ok]
  obtain b bs where f: "frame_bytes payload = b # bs @ payload" and 3: "length bs = 3"
    and p: "u32_to_le (of_nat (length payload)) = b # bs"
    by (rule frame_bytes_split)
  have n: "u32_from_le (b # bs) = of_nat (length payload)"
    by (simp only: p [symmetric] le32.dec_enc)
  from False 3 have t: "take k (frame_bytes payload) = b # bs @ take (k - 4) payload"
    by (cases k) (simp_all add: f)
  have "read_exact (length payload) (map GotByte (take (k - 4) payload)) = (Inl UnexpectedEof, [])"
    using False assms(2) by (intro read_exact_short) simp
  then show ?thesis
    using False len
    by (simp add: t read_frame_def read_exact_bytes [OF 3] n Let_def map_payload_error_def)
qed

text \<open>Nothing unchecked passes the framing. A payload that is produced, or that is
  decoded, has between 1 and 262144 bytes, and the envelope that is sent or delivered has
  passed its static validation and filled the whole frame.\<close>

theorem framing_only_valid:
  "(encode_envelope to_vec e = Inr payload \<longleftrightarrow>
      validate_static e = Inr () \<and> to_vec e = Inr payload \<and>
      1 \<le> length payload \<and> length payload \<le> 262144) \<and>
   (decode_envelope from_slice payload = Inr e \<longleftrightarrow>
      validate_static e = Inr () \<and> from_slice payload = Inr (e, length payload) \<and>
      1 \<le> length payload \<and> length payload \<le> 262144)"
  by (auto simp: encode_envelope_def decode_envelope_def try_iffs split: if_splits)

section \<open>Witnesses\<close>

theorem framing_roundtrip_witness:
  "read_envelopes sample_from_slice (length [sample_envelope] + 1)
     [Interrupted, GotByte 1, GotByte 0, Interrupted, GotByte 0, GotByte 0, GotByte 7, Interrupted] =
   map (\<lambda>e. Inr (Some e)) [sample_envelope] @ [Inr None]"
proof (rule framing_roundtrip [of sample_to_vec])
  show "sample_from_slice p = Inr (e, length p)" if "sample_to_vec e = Inr p" for e p
    using that by (rule sample_codec)
  have "write_envelope sample_to_vec vec_write_all [] sample_envelope = (Inr (), [1, 0, 0, 0, 7])"
    by (simp add: write_envelope_vec sample_encoded sample_frame)
  then show "write_envelopes sample_to_vec [] [sample_envelope] = (Inr (), [1, 0, 0, 0, 7])"
    by simp
qed simp

theorem framing_truncation_witness:
  "fst (read_envelope sample_from_slice (map GotByte (take 2 (frame_bytes [7])))) =
   Inl TruncatedLengthPrefix"
  using framing_truncation [OF sample_encoded, of 2 sample_from_slice] by simp

end
