(* ===== verification/Wire_Bounds.thy ===== *)
theory Wire_Bounds
  imports Wire_Types
begin

text \<open>
  Properties of the static validation of Worker Protocol 1: the bounded deserializer, the
  comparison of authentication tokens, and what the textual validators accept.
\<close>

lemma visit_elements_Inr:
  "length vs \<le> maximum \<Longrightarrow>
   visit_elements maximum vs xs = Inr ys \<longleftrightarrow>
   (\<exists>zs. xs = map Inr zs \<and> ys = vs @ zs \<and> length ys \<le> maximum)"
proof (induction maximum vs xs rule: visit_elements.induct)
  case (1 maximum vs)
  then show ?case by auto
next
  case (2 maximum vs e xs)
  then show ?case by (auto simp: Cons_eq_map_conv)
next
  case (3 maximum vs x xs)
  show ?case
  proof (cases "length vs = maximum")
    case True
    then show ?thesis
      by (auto simp: Cons_eq_map_conv)
  next
    case False
    then show ?thesis
      using 3 by (auto simp: Cons_eq_map_conv)
  qed
qed

section \<open>Properties\<close>

text \<open>Bounded deserialization. The visitor of a bounded vector accepts a sequence
  exactly when every element deserializes, at most the maximum number of elements arrive, and
  a declared size does not announce more; it then delivers the elements in order.\<close>

theorem visit_seq_bounded:
  "visit_seq maximum size_hint elements = Inr values \<longleftrightarrow>
     elements = map Inr values \<and> length values \<le> maximum \<and>
     (case size_hint of Some n \<Rightarrow> n \<le> maximum | None \<Rightarrow> True)"
  by (cases size_hint) (auto simp: visit_seq_def visit_elements_Inr)

text \<open>Authentication. Two deserialized tokens compare equal exactly when they are the
  same 32 bytes, although the comparison never stops early.\<close>

theorem constant_time_eq_exact:
  assumes "auth_token_visit_bytes v = Inr a" and "auth_token_visit_bytes w = Inr b"
  shows "length a = 32 \<and> (constant_time_eq a b \<longleftrightarrow> v = w)"
proof -
  have "length v = 32" "length w = 32" "a = v" "b = w"
    using assms by (auto simp: auth_token_visit_bytes_def split: if_splits)
  then show ?thesis
    by (simp add: constant_time_eq_def foldl_or_zip_eq_0)
qed

theorem constant_time_eq_witness:
  "length (replicate 32 7 :: auth_token) = 32 \<and>
   (constant_time_eq (replicate 32 7) (replicate 31 7 @ [8]) \<longleftrightarrow>
    replicate 32 7 = replicate 31 (7 :: u8) @ [8])"
  by (rule constant_time_eq_exact) (simp_all add: auth_token_visit_bytes_def)

end
