(* ===== verification/Text_Split.thy ===== *)
theory Text_Split
  imports LD_Prelude
begin

text \<open>
  Splitting and joining text at a separator (\<open>str::split\<close>, \<open>str::split_once\<close>) and the rule of
  \<open>std::path::Path::is_absolute\<close> on Windows, the platform of the workers. The separators are
  ASCII, so that splitting the UTF-8 bytes of a text is splitting its characters.
\<close>

section \<open>Splitting at a separator\<close>

fun split_on :: "'a \<Rightarrow> 'a list \<Rightarrow> 'a list list" where
  "split_on c [] = [[]]"
| "split_on c (x # xs) =
     (if x = c then [] # split_on c xs
      else (x # hd (split_on c xs)) # tl (split_on c xs))"

fun join_with :: "'a \<Rightarrow> 'a list list \<Rightarrow> 'a list" where
  "join_with c [] = []"
| "join_with c [w] = w"
| "join_with c (w # v # ws) = w @ c # join_with c (v # ws)"

definition split_once :: "'a \<Rightarrow> 'a list \<Rightarrow> ('a list \<times> 'a list) option" where
  "split_once c s =
     (if c \<in> set s
      then Some (takeWhile (\<lambda>x. x \<noteq> c) s, tl (dropWhile (\<lambda>x. x \<noteq> c) s))
      else None)"

definition starts_with :: "'a \<Rightarrow> 'a list \<Rightarrow> bool" where
  "starts_with c s = (case s of [] \<Rightarrow> False | x # xs \<Rightarrow> x = c)"

definition ends_with :: "'a \<Rightarrow> 'a list \<Rightarrow> bool" where
  "ends_with c s = starts_with c (rev s)"

lemma split_on_not_Nil [simp]: "split_on c s \<noteq> []"
  by (cases s) simp_all

lemma join_split [simp]: "join_with c (split_on c s) = s"
proof (induction s)
  case Nil
  then show ?case by simp
next
  case (Cons x s)
  obtain w ws where sp: "split_on c s = w # ws"
    by (meson list.exhaust split_on_not_Nil)
  with Cons show ?case
    by (cases ws) auto
qed

lemma split_on_components: "\<forall>w\<in>set (split_on c s). c \<notin> set w"
proof (induction s)
  case Nil
  then show ?case by simp
next
  case (Cons x s)
  obtain w ws where sp: "split_on c s = w # ws"
    by (meson list.exhaust split_on_not_Nil)
  with Cons show ?case
    by auto
qed

lemma split_on_append_sep: "c \<notin> set w \<Longrightarrow> split_on c (w @ c # s) = w # split_on c s"
  by (induction w) auto

lemma split_on_append: "split_on c (w @ c # s) = split_on c w @ split_on c s"
proof (induction w)
  case (Cons x w)
  then show ?case
    by (cases "split_on c w") auto
qed simp

lemma starts_with_component: "starts_with c v \<Longrightarrow> [] \<in> set (split_on c v)"
  by (cases v) (auto simp: starts_with_def)

lemma ends_with_component: "ends_with c v \<Longrightarrow> [] \<in> set (split_on c v)"
  by (cases v rule: rev_cases) (auto simp: ends_with_def starts_with_def split_on_append)

lemma split_on_single: "c \<notin> set w \<Longrightarrow> split_on c w = [w]"
  by (induction w) auto

lemma split_join: "ws \<noteq> [] \<Longrightarrow> \<forall>w\<in>set ws. c \<notin> set w \<Longrightarrow> split_on c (join_with c ws) = ws"
  by (induction c ws rule: join_with.induct)
    (auto simp: split_on_single split_on_append_sep)

lemma set_join: "set (join_with c ws) \<subseteq> insert c (\<Union>w\<in>set ws. set w)"
  by (induction c ws rule: join_with.induct) auto

lemma set_component_join: "w \<in> set ws \<Longrightarrow> set w \<subseteq> set (join_with c ws)"
  by (induction c ws rule: join_with.induct) auto

lemma set_component_split: "w \<in> set (split_on c s) \<Longrightarrow> set w \<subseteq> set s"
  using set_component_join [of w "split_on c s" c] by simp

lemma split_once_first: "c \<notin> set a \<Longrightarrow> split_once c (a @ c # b) = Some (a, b)"
  by (induction a) (auto simp: split_once_def)

lemma split_once_Some:
  "split_once c s = Some (a, b) \<longleftrightarrow> c \<notin> set a \<and> s = a @ c # b"
proof
  assume some: "split_once c s = Some (a, b)"
  then have "c \<in> set s"
    by (auto simp: split_once_def split: if_splits)
  then obtain ys zs where "s = ys @ c # zs" "c \<notin> set ys"
    by (meson split_list_first)
  then show "c \<notin> set a \<and> s = a @ c # b"
    using some by (simp add: split_once_first)
qed (simp add: split_once_first)

lemma split_once_None: "split_once c s = None \<longleftrightarrow> c \<notin> set s"
  by (simp add: split_once_def)

section \<open>Absolute paths\<close>

text \<open>
  The prefix of a Windows path (\<open>std::path::Prefix\<close>): a verbatim or device prefix, a server
  with a share, or a drive. A path is absolute when it has a prefix and a root; every prefix
  but a drive implies the root, and after a drive the root is a separator.
\<close>

definition is_sep_byte :: "char \<Rightarrow> bool" where
  "is_sep_byte c = (c = CHR 0x2F \<or> c = CHR 0x5C)"

definition is_drive_letter :: "char \<Rightarrow> bool" where
  "is_drive_letter c = (is_ascii_lowercase c \<or> is_ascii_uppercase c)"

definition has_unc_prefix :: "string \<Rightarrow> bool" where
  "has_unc_prefix rest =
     (let server = takeWhile (\<lambda>c. \<not> is_sep_byte c) rest;
          share = takeWhile (\<lambda>c. \<not> is_sep_byte c) (drop (length server + 1) rest)
      in server \<noteq> [] \<and> share \<noteq> [])"

fun is_absolute :: "string \<Rightarrow> bool" where
  "is_absolute (a # b # rest) =
     (if is_sep_byte a \<and> is_sep_byte b
      then (case rest of
              m # s # _ \<Rightarrow>
                if m = CHR ''?'' \<and> a = CHR 0x5C \<and> b = CHR 0x5C \<and> s = CHR 0x5C then True
                else if m = CHR ''.'' \<and> is_sep_byte s then True
                else has_unc_prefix rest
            | _ \<Rightarrow> has_unc_prefix rest)
      else is_drive_letter a \<and> b = CHR '':'' \<and>
           (case rest of c # _ \<Rightarrow> is_sep_byte c | [] \<Rightarrow> False))"
| "is_absolute _ = False"

end
