(* ===== verification/Protocol2_Types.thy ===== *)
theory Protocol2_Types
  imports LD_Prelude Text_Split
begin

text \<open>
  Worker Protocol 2, its vocabulary (\<open>crates/control/src/v2.rs\<close>): constants, state and
  capability enums, the validation errors with their stable codes, the field validators, the
  bounded vector and the text forms of identifiers and of the authentication token.

  Names that Protocol 1 uses as well carry the suffix \<open>_v2\<close>; the constructors of the
  validation errors and of the error codes start with \<open>V2\<close> and \<open>E2\<close>.
\<close>

section \<open>Constants\<close>

definition PROTOCOL_VERSION :: u16 where
  "PROTOCOL_VERSION = 2"

definition MAX_FRAME_BYTES :: nat where
  "MAX_FRAME_BYTES = 262144"

definition MAX_INTEGRITY_ACCESS_RECEIPT_BYTES :: nat where
  "MAX_INTEGRITY_ACCESS_RECEIPT_BYTES = 64 * 1024"

definition MAX_CAPABILITIES :: nat where
  "MAX_CAPABILITIES = 16"

definition MAX_EXTERNAL_ASSETS :: nat where
  "MAX_EXTERNAL_ASSETS = 16"

definition MAX_PROFILES :: nat where
  "MAX_PROFILES = 64"

definition MAX_SOURCES :: nat where
  "MAX_SOURCES = 16"

definition MAX_CONTROLS :: nat where
  "MAX_CONTROLS = 64"

definition MAX_ROLES :: nat where
  "MAX_ROLES = 16"

definition MAX_ERROR_DETAILS :: nat where
  "MAX_ERROR_DETAILS = 16"

definition MAX_CAPTURE_EVENTS :: u32 where
  "MAX_CAPTURE_EVENTS = 32"

definition MAX_WARM_SESSIONS_V2 :: u8 where
  "MAX_WARM_SESSIONS_V2 = 4"

definition MAX_DECODE_BATCH :: u8 where
  "MAX_DECODE_BATCH = 24"

definition MAX_CAPTURE_LATENT_SLOTS :: u64 where
  "MAX_CAPTURE_LATENT_SLOTS = 1048576"

definition MAX_CAPTURE_VISUAL_BYTES :: u64 where
  "MAX_CAPTURE_VISUAL_BYTES = 15 * 1024 * 1024 * 1024"

definition MAX_MESSAGES_PER_SESSION_V2 :: nat where
  "MAX_MESSAGES_PER_SESSION_V2 = 65536"

definition MAX_PENDING_COMMANDS_V2 :: nat where
  "MAX_PENDING_COMMANDS_V2 = 256"

definition MAX_RAW_IMPORT_SOURCE_BYTES :: u64 where
  "MAX_RAW_IMPORT_SOURCE_BYTES = 64 * 1024 * 1024 * 1024"

definition MAX_RAW_IMPORT_TENSORS :: nat where
  "MAX_RAW_IMPORT_TENSORS = 64"

definition MAX_RAW_IMPORT_TENSOR_AXES :: nat where
  "MAX_RAW_IMPORT_TENSOR_AXES = 8"

definition MAX_IDENTIFIER_BYTES_V2 :: nat where
  "MAX_IDENTIFIER_BYTES_V2 = 128"

definition MAX_VERSION_BYTES :: nat where
  "MAX_VERSION_BYTES = 64"

definition MAX_TEXT_BYTES :: nat where
  "MAX_TEXT_BYTES = 4096"

definition MAX_PATH_BYTES_V2 :: nat where
  "MAX_PATH_BYTES_V2 = 32768"

lemmas constants_v2 = PROTOCOL_VERSION_def MAX_FRAME_BYTES_def
  MAX_INTEGRITY_ACCESS_RECEIPT_BYTES_def MAX_CAPABILITIES_def MAX_EXTERNAL_ASSETS_def
  MAX_PROFILES_def MAX_SOURCES_def MAX_CONTROLS_def MAX_ROLES_def MAX_ERROR_DETAILS_def
  MAX_CAPTURE_EVENTS_def MAX_WARM_SESSIONS_V2_def MAX_DECODE_BATCH_def
  MAX_CAPTURE_LATENT_SLOTS_def MAX_CAPTURE_VISUAL_BYTES_def MAX_MESSAGES_PER_SESSION_V2_def
  MAX_PENDING_COMMANDS_V2_def MAX_RAW_IMPORT_SOURCE_BYTES_def MAX_RAW_IMPORT_TENSORS_def
  MAX_RAW_IMPORT_TENSOR_AXES_def MAX_IDENTIFIER_BYTES_V2_def MAX_VERSION_BYTES_def
  MAX_TEXT_BYTES_def MAX_PATH_BYTES_V2_def

section \<open>Enumerations\<close>

datatype capability =
    CapPlayer | CapRealtime | CapResample | CapSnapshotCapture | CapLiveCapture | CapRawImport

definition REQUIRED_CODEC_V2 :: "capability list" where
  "REQUIRED_CODEC_V2 =
     [CapPlayer, CapRealtime, CapResample, CapSnapshotCapture, CapLiveCapture]"

datatype (plugins only: ) error_code_v2 =
    E2ProtocolInvalidMessage | E2ProtocolUnsupportedVersion | E2ProtocolBoundExceeded
  | E2SessionNotConfigured | E2SessionCapacityExceeded | E2SessionOutputLeaseBusy
  | E2SessionOutputLeasePinned | E2CodecNotLoaded | E2CodecUntrusted
  | E2CodecCapabilityUnsupported | E2ProfileInvalid | E2ProfileIncompatible
  | E2SourceInvalid | E2SourceNotLoaded | E2DeckInvalid | E2DeckIncompatible
  | E2CaptureInvalidState | E2CaptureNotReady | E2CaptureLimitExceeded | E2StateBusy
  | E2WorkerInternal

datatype session_state_v2 =
    SsUnconfigured | SsReady | SsBusy | SsFaulted | SsStopping | SsStopped

datatype codec_state_v2 = CsUnloaded | CsLoading | CsReady | CsFaulted

datatype player_state =
    PsEmpty | PsLoading | PsReady | PsPlaying | PsPaused | PsEndOfStream | PsFaulted

datatype deck_state =
    DsEmpty | DsLoading | DsReady | DsPlaying | DsPaused | DsCapturing | DsFaulted

datatype capture_state =
    CaIdle | CaStarting | CaCapturing | CaFinalizing | CaCompleted | CaAborted | CaFaulted

datatype capture_mode = ModeSnapshot | ModeLiveCapture

datatype device_kind = Cpu | Cuda

datatype tensor_dtype = Float16 | Bfloat16 | Float32

datatype transport_intent = IntentPlay | IntentPause

datatype shutdown_reason_v2 = ShutUserRequest | ShutHostExit | ShutProtocolFault

datatype ring_kind = LatentTensor | DecodedRgba

text \<open>The names of the commands, of their acknowledgements and of their errors.\<close>

datatype (plugins only: ) command_name_v2 =
    N2SessionConfigure | N2SessionStatus | N2SessionShutdown
  | N2CodecDescriptor | N2CodecLoad | N2CodecUnload
  | N2SourceOpen | N2SourceClose | N2RingConfigure | N2RingRelease
  | N2ProfileInspect | N2ProfileValidate
  | N2RawImportPreflight | N2RawImportStage | N2RawImportAbort
  | N2PlayerOpen | N2PlayerStep | N2PlayerReset | N2PlayerStatus
  | N2DeckLoad | N2DeckProcess | N2DeckControlsSet | N2DeckRolesSet | N2DeckTransportSet
  | N2DeckSeedSet | N2DeckReset | N2DeckRestart | N2DeckStatus
  | N2CaptureStart | N2CaptureStop | N2CaptureStatus | N2MetricsGet

section \<open>Errors\<close>

datatype validation_error_v2 =
    V2UnsupportedVersion u16
  | V2InvalidField string
  | V2BoundExceeded string
  | V2NilIdentifier string
  | V2DuplicateValue string
  | V2SessionMismatch
  | V2SequenceMismatch u64 u64
  | V2DuplicateMessageId
  | V2DuplicateCommandId
  | V2ExpectedCommand
  | V2SessionMessageLimit
  | V2PendingCommandLimit
  | V2WorkerHelloRequired
  | V2UnexpectedWorkerHello
  | V2UnknownReply
  | V2ReplyNameMismatch command_name_v2 command_name_v2
  | V2UnknownCause
  | V2UnexpectedMessageKind

definition stable_code_v2 :: "validation_error_v2 \<Rightarrow> error_code_v2" where
  "stable_code_v2 e = (case e of
       V2UnsupportedVersion v \<Rightarrow> E2ProtocolUnsupportedVersion
     | V2BoundExceeded field \<Rightarrow> E2ProtocolBoundExceeded
     | V2SessionMessageLimit \<Rightarrow> E2ProtocolBoundExceeded
     | V2PendingCommandLimit \<Rightarrow> E2ProtocolBoundExceeded
     | V2InvalidField field \<Rightarrow> E2ProtocolInvalidMessage
     | V2NilIdentifier field \<Rightarrow> E2ProtocolInvalidMessage
     | V2DuplicateValue field \<Rightarrow> E2ProtocolInvalidMessage
     | V2SessionMismatch \<Rightarrow> E2ProtocolInvalidMessage
     | V2SequenceMismatch expected actual \<Rightarrow> E2ProtocolInvalidMessage
     | V2DuplicateMessageId \<Rightarrow> E2ProtocolInvalidMessage
     | V2DuplicateCommandId \<Rightarrow> E2ProtocolInvalidMessage
     | V2ExpectedCommand \<Rightarrow> E2ProtocolInvalidMessage
     | V2WorkerHelloRequired \<Rightarrow> E2ProtocolInvalidMessage
     | V2UnexpectedWorkerHello \<Rightarrow> E2ProtocolInvalidMessage
     | V2UnknownReply \<Rightarrow> E2ProtocolInvalidMessage
     | V2ReplyNameMismatch expected actual \<Rightarrow> E2ProtocolInvalidMessage
     | V2UnknownCause \<Rightarrow> E2ProtocolInvalidMessage
     | V2UnexpectedMessageKind \<Rightarrow> E2ProtocolInvalidMessage)"

type_synonym 'a result_v2 = "validation_error_v2 + 'a"

end
