(* ===== verification/Protocol2_Fields.thy ===== *)
theory Protocol2_Fields
  imports Protocol2_Types
begin

text \<open>
  Worker Protocol 2, the validators of single fields (\<open>crates/control/src/v2.rs\<close>), the bounded
  vector and the text forms of identifiers and of the authentication token, with what each
  accepts. The crates \<open>uuid\<close> and \<open>hex\<close> are parameters.
\<close>

section \<open>Validators\<close>

definition non_nil :: "uuid \<Rightarrow> string \<Rightarrow> unit result_v2" where
  "non_nil v field = refuse (v = 0) (V2NilIdentifier field)"

definition bounded_text :: "string \<Rightarrow> string \<Rightarrow> nat \<Rightarrow> unit result_v2" where
  "bounded_text v field maximum =
     refuse (v = [] \<or> length v > maximum \<or> CHR 0x00 \<in> set v) (V2BoundExceeded field)"

definition is_identifier_byte_v2 :: "char \<Rightarrow> bool" where
  "is_identifier_byte_v2 c = (is_ascii_alphanumeric c \<or> c \<in> set ''._:-'')"

definition identifier_v2 :: "string \<Rightarrow> string \<Rightarrow> unit result_v2" where
  "identifier_v2 v field = in_order
     [bounded_text v field MAX_IDENTIFIER_BYTES_V2,
      refuse (\<not> list_all is_identifier_byte_v2 v) (V2InvalidField field)]"

definition is_version_byte :: "char \<Rightarrow> bool" where
  "is_version_byte c = (is_ascii_alphanumeric c \<or> c \<in> set ''.+-_'')"

definition version_v2 :: "string \<Rightarrow> string \<Rightarrow> unit result_v2" where
  "version_v2 v field = in_order
     [bounded_text v field MAX_VERSION_BYTES,
      refuse (\<not> list_all is_version_byte v) (V2InvalidField field)]"

definition archive_entry :: "string \<Rightarrow> string \<Rightarrow> unit result_v2" where
  "archive_entry v field = in_order
     [bounded_text v field 512,
      refuse (starts_with CHR ''/'' v \<or> ends_with CHR ''/'' v \<or> CHR 0x5C \<in> set v \<or> CHR '':'' \<in> set v \<or>
              list_ex (\<lambda>component. component = [] \<or> component = ''.'' \<or> component = ''..'')
                (split_on CHR ''/'' v))
        (V2InvalidField field)]"

definition absolute_path :: "string \<Rightarrow> string \<Rightarrow> unit result_v2" where
  "absolute_path v field = in_order
     [bounded_text v field MAX_PATH_BYTES_V2,
      refuse (\<not> is_absolute v) (V2InvalidField field)]"

definition is_lower_hex_v2 :: "char \<Rightarrow> bool" where
  "is_lower_hex_v2 c = (is_ascii_digit c \<or> 97 \<le> byte_val c \<and> byte_val c \<le> 102)"

definition sha256 :: "string \<Rightarrow> string \<Rightarrow> unit result_v2" where
  "sha256 v field =
     refuse (length v \<noteq> 64 \<or> \<not> list_all is_lower_hex_v2 v) (V2InvalidField field)"

definition python_identifier :: "string \<Rightarrow> bool" where
  "python_identifier v = (case v of
       [] \<Rightarrow> False
     | first # bytes \<Rightarrow>
         (is_ascii_lowercase first \<or> is_ascii_uppercase first \<or> first = CHR ''_'') \<and>
         list_all (\<lambda>c. is_ascii_alphanumeric c \<or> c = CHR ''_'') bytes)"

definition python_entrypoint :: "string \<Rightarrow> string \<Rightarrow> unit result_v2" where
  "python_entrypoint v field =
     try_bind (bounded_text v field 512) (\<lambda>_.
     case split_once CHR '':'' v of
       None \<Rightarrow> Inl (V2InvalidField field)
     | Some (module, attribute) \<Rightarrow>
         refuse (CHR '':'' \<in> set attribute \<or> module = [] \<or> attribute = [] \<or>
                 \<not> list_all python_identifier (split_on CHR ''.'' module) \<or>
                 \<not> python_identifier attribute)
           (V2InvalidField field))"

definition positive :: "u64 \<Rightarrow> string \<Rightarrow> unit result_v2" where
  "positive v field = refuse (v = 0) (V2InvalidField field)"

text \<open>A \<open>HashSet\<close> collected from the values has fewer elements when two are equal.\<close>

definition unique_capabilities :: "capability list \<Rightarrow> unit result_v2" where
  "unique_capabilities capabilities =
     refuse (card (set capabilities) \<noteq> length capabilities) (V2DuplicateValue ''capabilities'')"

definition unique_by :: "'a list \<Rightarrow> ('a \<Rightarrow> 'k) \<Rightarrow> string \<Rightarrow> unit result_v2" where
  "unique_by values key field =
     refuse (card (set (map key values)) \<noteq> length values) (V2DuplicateValue field)"

definition slot_out_of_range :: "u8 \<Rightarrow> bool" where
  "slot_out_of_range physical_slot = (physical_slot = 0 \<or> unat physical_slot > MAX_SOURCES)"

section \<open>What the validators accept\<close>

named_theorems field_iffs "when a field validator accepts"

lemma non_nil_Inr [field_iffs]: "non_nil v field = Inr u \<longleftrightarrow> v \<noteq> 0"
  by (simp add: non_nil_def try_iffs)

lemma bounded_text_Inr [field_iffs]:
  "bounded_text v field maximum = Inr u \<longleftrightarrow>
     v \<noteq> [] \<and> length v \<le> maximum \<and> CHR 0x00 \<notin> set v"
  by (auto simp: bounded_text_def try_iffs)

lemma identifier_v2_Inr [field_iffs]:
  "identifier_v2 v field = Inr u \<longleftrightarrow>
     v \<noteq> [] \<and> length v \<le> 128 \<and> list_all is_identifier_byte_v2 v"
  by (auto simp: identifier_v2_def try_iffs field_iffs constants_v2 is_identifier_byte_v2_def
      ascii_defs list_all_iff)

lemma version_v2_Inr [field_iffs]:
  "version_v2 v field = Inr u \<longleftrightarrow> v \<noteq> [] \<and> length v \<le> 64 \<and> list_all is_version_byte v"
  by (auto simp: version_v2_def try_iffs field_iffs constants_v2 is_version_byte_def
      ascii_defs list_all_iff)

lemma sha256_Inr [field_iffs]:
  "sha256 v field = Inr u \<longleftrightarrow> length v = 64 \<and> list_all is_lower_hex_v2 v"
  by (simp add: sha256_def try_iffs)

lemma absolute_path_Inr [field_iffs]:
  "absolute_path v field = Inr u \<longleftrightarrow>
     v \<noteq> [] \<and> length v \<le> 32768 \<and> CHR 0x00 \<notin> set v \<and> is_absolute v"
  by (auto simp: absolute_path_def try_iffs field_iffs constants_v2)

lemma positive_Inr [field_iffs]: "positive v field = Inr u \<longleftrightarrow> v \<noteq> 0"
  by (simp add: positive_def try_iffs)

lemma unique_capabilities_Inr [field_iffs]:
  "unique_capabilities cs = Inr u \<longleftrightarrow> distinct cs"
  by (simp add: unique_capabilities_def try_iffs card_distinct distinct_card)
    (metis card_distinct distinct_card)

lemma unique_by_Inr [field_iffs]: "unique_by xs key field = Inr u \<longleftrightarrow> distinct (map key xs)"
  unfolding unique_by_def refuse_Inr by (metis card_distinct distinct_card length_map)

lemma slot_in_range [field_iffs]:
  "\<not> slot_out_of_range s \<longleftrightarrow> 1 \<le> unat s \<and> unat s \<le> 16"
  by (auto simp: slot_out_of_range_def constants_v2 unat_eq_0 Suc_le_eq word_neq_0_conv [symmetric]
      unat_gt_0)

section \<open>Archive entries and entry points\<close>

text \<open>A component of the name of an archive entry that stays below the root of the archive.\<close>

definition safe_component :: "string \<Rightarrow> bool" where
  "safe_component c \<longleftrightarrow> c \<noteq> [] \<and> c \<noteq> ''.'' \<and> c \<noteq> ''..'' \<and>
     CHR ''/'' \<notin> set c \<and> CHR 0x5C \<notin> set c \<and> CHR '':'' \<notin> set c \<and> CHR 0x00 \<notin> set c"

text \<open>The accepted names of archive entries are exactly the slash-separated paths, of at
  most 512 bytes, of components that are not empty, not \<open>.\<close> or \<open>..\<close> and have no slash,
  backslash, colon or NUL: a name never leaves the directory it is resolved in.\<close>

theorem archive_entry_exact:
  "archive_entry v field = Inr () \<longleftrightarrow>
     length v \<le> 512 \<and>
     (\<exists>components. components \<noteq> [] \<and> list_all safe_component components \<and>
        v = join_with CHR ''/'' components)"
proof
  assume ok: "archive_entry v field = Inr ()"
  let ?cs = "split_on CHR ''/'' v"
  have len: "length v \<le> 512" and zero: "CHR 0x00 \<notin> set v" "CHR 0x5C \<notin> set v" "CHR '':'' \<notin> set v"
    and parts: "\<forall>c\<in>set ?cs. c \<noteq> [] \<and> c \<noteq> ''.'' \<and> c \<noteq> ''..''"
    using ok by (auto simp: archive_entry_def try_iffs field_iffs list_ex_iff)
  have "safe_component c" if c: "c \<in> set ?cs" for c
  proof -
    have "set c \<subseteq> set v" "CHR ''/'' \<notin> set c"
      using set_component_split [OF c] split_on_components [of "CHR ''/''" v] c by simp_all
    then show ?thesis
      using parts zero c by (auto simp: safe_component_def)
  qed
  then have "list_all safe_component ?cs"
    by (simp add: list_all_iff)
  then show "length v \<le> 512 \<and> (\<exists>components. components \<noteq> [] \<and>
      list_all safe_component components \<and> v = join_with CHR ''/'' components)"
    using len by (intro conjI exI [of _ ?cs]) simp_all
next
  assume "length v \<le> 512 \<and> (\<exists>components. components \<noteq> [] \<and>
      list_all safe_component components \<and> v = join_with CHR ''/'' components)"
  then obtain cs where len: "length v \<le> 512" and ne: "cs \<noteq> []"
    and cs: "\<forall>c\<in>set cs. safe_component c" and v: "v = join_with CHR ''/'' cs"
    by (auto simp: list_all_iff)
  have sp: "split_on CHR ''/'' v = cs"
    unfolding v using ne cs by (intro split_join) (auto simp: safe_component_def)
  have clean: "CHR 0x5C \<notin> set v" "CHR '':'' \<notin> set v" "CHR 0x00 \<notin> set v"
    using set_join [of "CHR ''/''" cs] cs unfolding v safe_component_def by auto
  have full: "[] \<notin> set (split_on CHR ''/'' v)"
    unfolding sp using cs by (auto simp: safe_component_def)
  then have "v \<noteq> []"
    by auto
  moreover have "\<not> starts_with CHR ''/'' v" "\<not> ends_with CHR ''/'' v"
    by (auto dest: starts_with_component ends_with_component simp: full)
  ultimately show "archive_entry v field = Inr ()"
    using len clean cs
    by (auto simp: archive_entry_def try_iffs field_iffs sp list_ex_iff safe_component_def)
qed

lemma python_identifier_chars:
  "python_identifier v \<Longrightarrow>
     v \<noteq> [] \<and> CHR '':'' \<notin> set v \<and> CHR ''.'' \<notin> set v \<and> CHR 0x00 \<notin> set v"
  by (auto simp: python_identifier_def list_all_iff ascii_defs split: list.splits)

text \<open>The accepted entry points are exactly the dotted names of Python modules, a colon and
  the name of an attribute, in at most 512 bytes.\<close>

theorem python_entrypoint_exact:
  "python_entrypoint v field = Inr () \<longleftrightarrow>
     length v \<le> 512 \<and>
     (\<exists>modules attribute. modules \<noteq> [] \<and> list_all python_identifier modules \<and>
        python_identifier attribute \<and> v = join_with CHR ''.'' modules @ CHR '':'' # attribute)"
proof
  assume ok: "python_entrypoint v field = Inr ()"
  then obtain module attribute where sp: "split_once CHR '':'' v = Some (module, attribute)"
    by (auto simp: python_entrypoint_def try_iffs split: option.splits)
  have "list_all python_identifier (split_on CHR ''.'' module)" "python_identifier attribute"
    and len: "length v \<le> 512"
    using ok by (auto simp: python_entrypoint_def try_iffs field_iffs sp)
  moreover have "v = join_with CHR ''.'' (split_on CHR ''.'' module) @ CHR '':'' # attribute"
    using sp by (simp add: split_once_Some)
  ultimately show "length v \<le> 512 \<and> (\<exists>modules attribute. modules \<noteq> [] \<and>
      list_all python_identifier modules \<and> python_identifier attribute \<and>
      v = join_with CHR ''.'' modules @ CHR '':'' # attribute)"
    by (intro conjI exI [of _ "split_on CHR ''.'' module"] exI [of _ attribute]) simp_all
next
  assume "length v \<le> 512 \<and> (\<exists>modules attribute. modules \<noteq> [] \<and>
      list_all python_identifier modules \<and> python_identifier attribute \<and>
      v = join_with CHR ''.'' modules @ CHR '':'' # attribute)"
  then obtain ms a where len: "length v \<le> 512" and ne: "ms \<noteq> []"
    and ms: "\<forall>w\<in>set ms. python_identifier w" and a: "python_identifier a"
    and v: "v = join_with CHR ''.'' ms @ CHR '':'' # a"
    by (auto simp: list_all_iff)
  let ?m = "join_with CHR ''.'' ms"
  have sp: "split_on CHR ''.'' ?m = ms"
    using ne ms by (intro split_join) (auto dest: python_identifier_chars)
  have clean: "CHR '':'' \<notin> set ?m" "CHR 0x00 \<notin> set ?m"
    using set_join [of "CHR ''.''" ms] ms python_identifier_chars by fastforce+
  moreover have "?m \<noteq> []"
    using sp ms by (auto simp: python_identifier_def)
  moreover have "split_once CHR '':'' v = Some (?m, a)"
    using clean by (simp add: v split_once_Some)
  ultimately show "python_entrypoint v field = Inr ()"
    using len ms a python_identifier_chars [OF a]
    by (auto simp: python_entrypoint_def try_iffs field_iffs sp list_all_iff v)
qed

section \<open>Bounded vectors and text forms\<close>

definition limited_vec_try_from :: "nat \<Rightarrow> 'a list \<Rightarrow> 'a list result_v2" where
  "limited_vec_try_from maximum values =
     (if length values > maximum then Inl (V2BoundExceeded ''array'') else Inr values)"

text \<open>
  The visitor of a bounded vector: \<open>custom maximum\<close> is the deserializer's own error for an
  array over its bound, and each element is a value or the error of its deserializer.
\<close>

fun limited_vec_elements ::
    "(nat \<Rightarrow> 'e) \<Rightarrow> nat \<Rightarrow> 'a list \<Rightarrow> ('e + 'a) list \<Rightarrow> 'e + 'a list" where
  "limited_vec_elements custom maximum values [] = Inr values"
| "limited_vec_elements custom maximum values (Inl e # sequence) = Inl e"
| "limited_vec_elements custom maximum values (Inr v # sequence) =
     (if length values = maximum then Inl (custom maximum)
      else limited_vec_elements custom maximum (values @ [v]) sequence)"

definition limited_vec_visit_seq ::
    "(nat \<Rightarrow> 'e) \<Rightarrow> nat \<Rightarrow> nat option \<Rightarrow> ('e + 'a) list \<Rightarrow> 'e + 'a list" where
  "limited_vec_visit_seq custom maximum size_hint sequence =
     (if (case size_hint of Some n \<Rightarrow> n > maximum | None \<Rightarrow> False)
      then Inl (custom maximum)
      else limited_vec_elements custom maximum [] sequence)"

lemma limited_vec_elements_Inr:
  "length vs \<le> maximum \<Longrightarrow>
   limited_vec_elements custom maximum vs xs = Inr ys \<longleftrightarrow>
   (\<exists>zs. xs = map Inr zs \<and> ys = vs @ zs \<and> length ys \<le> maximum)"
  by (induction custom maximum vs xs rule: limited_vec_elements.induct)
    (auto simp: Cons_eq_map_conv)

lemma limited_vec_visit_seq_Inr:
  "limited_vec_visit_seq custom maximum size_hint xs = Inr ys \<longleftrightarrow>
     xs = map Inr ys \<and> length ys \<le> maximum \<and>
     (case size_hint of Some n \<Rightarrow> n \<le> maximum | None \<Rightarrow> True)"
  by (cases size_hint) (auto simp: limited_vec_visit_seq_def limited_vec_elements_Inr)

text \<open>
  Identifiers travel as canonical text: \<open>parse_str\<close> and \<open>hyphenated\<close> are the functions of the
  crate \<open>uuid\<close>, and other spellings of an identifier that \<open>parse_str\<close> reads are refused.
\<close>

datatype text_error = ParserError | NotCanonical | NotLowerHex | HexError

definition wire_uuid_deserialize ::
    "(string \<Rightarrow> uuid option) \<Rightarrow> (uuid \<Rightarrow> string) \<Rightarrow> string \<Rightarrow> text_error + uuid" where
  "wire_uuid_deserialize parse_str hyphenated encoded =
     try_bind (ok_or (parse_str encoded) ParserError) (\<lambda>v.
     if encoded \<noteq> hyphenated v then Inl NotCanonical else Inr v)"

definition optional_wire_uuid_deserialize ::
    "(string \<Rightarrow> uuid option) \<Rightarrow> (uuid \<Rightarrow> string) \<Rightarrow> string option \<Rightarrow> text_error + uuid option"
where
  "optional_wire_uuid_deserialize parse_str hyphenated encoded = (case encoded of
       None \<Rightarrow> Inr None
     | Some encoded \<Rightarrow>
         try_bind (ok_or (parse_str encoded) ParserError) (\<lambda>v.
         if encoded \<noteq> hyphenated v then Inl NotCanonical else Inr (Some v)))"

definition auth_token_deserialize_v2 ::
    "(string \<Rightarrow> u8 list option) \<Rightarrow> string \<Rightarrow> text_error + u8 list" where
  "auth_token_deserialize_v2 decode_to_slice encoded =
     (if length encoded \<noteq> 64 \<or> \<not> list_all is_lower_hex_v2 encoded then Inl NotLowerHex
      else ok_or (decode_to_slice encoded) HexError)"

definition constant_time_eq_v2 :: "u8 list \<Rightarrow> u8 list \<Rightarrow> bool" where
  "constant_time_eq_v2 a b =
     (foldl (\<lambda>difference (left, right). difference OR (left XOR right)) 0 (zip a b) = 0)"

text \<open>One text per identifier. Whatever the parser of the \<open>uuid\<close> crate tolerates, the
  deserializer accepts exactly the canonical text of an identifier that parses back to it, so
  that two accepted texts of one identifier are equal, in an optional field as well.\<close>

theorem wire_uuid_canonical:
  "(wire_uuid_deserialize parse_str hyphenated encoded = Inr v \<longleftrightarrow>
      encoded = hyphenated v \<and> parse_str (hyphenated v) = Some v) \<and>
   (optional_wire_uuid_deserialize parse_str hyphenated field = Inr w \<longleftrightarrow>
      field = map_option hyphenated w \<and>
      (case w of Some u \<Rightarrow> parse_str (hyphenated u) = Some u | None \<Rightarrow> True))"
  by (cases field; cases w)
    (auto simp: wire_uuid_deserialize_def optional_wire_uuid_deserialize_def try_iffs
      split: if_splits)

lemma constant_time_eq_v2_exact:
  "length a = 32 \<Longrightarrow> length b = 32 \<Longrightarrow> constant_time_eq_v2 a b \<longleftrightarrow> a = b"
  by (simp add: constant_time_eq_v2_def foldl_or_zip_eq_0)

end
