(* ===== verification/Protocol2_Payloads.thy ===== *)
theory Protocol2_Payloads
  imports Protocol2_Fields
begin

text \<open>
  Worker Protocol 2, the data that commands and replies share (\<open>crates/control/src/v2.rs\<close>):
  profiles, geometry and tensor contracts, receipts, raw imports, controls, roles and sources,
  and the \<open>validate\<close> method of each. A field has its source name behind a prefix for its
  struct; a \<open>LimitedVec\<close> is a list, a fixed array a tuple and an \<open>f64\<close> its 64 bits.
\<close>

section \<open>Profiles and receipts\<close>

record profile_key =
  pk_codec_family :: string
  pk_profile :: string
  pk_profile_version :: string

definition validate_profile_key :: "profile_key \<Rightarrow> unit result_v2" where
  "validate_profile_key v = in_order
     [identifier_v2 (pk_codec_family v) ''profile_key.codec_family'',
      identifier_v2 (pk_profile v) ''profile_key.profile'',
      version_v2 (pk_profile_version v) ''profile_key.profile_version'']"

record signal_geometry_v2 =
  sg2_channels :: u32
  sg2_latent_height :: u32
  sg2_latent_width :: u32
  sg2_decoded_height :: u32
  sg2_decoded_width :: u32
  sg2_frame_rate_numerator :: u32
  sg2_frame_rate_denominator :: u32
  sg2_timing_contract :: string
  sg2_timing_contract_version :: string

definition validate_signal_geometry :: "signal_geometry_v2 \<Rightarrow> unit result_v2" where
  "validate_signal_geometry v = in_order
     [refuse (sg2_channels v = 0 \<or> sg2_latent_height v = 0 \<or> sg2_latent_width v = 0 \<or>
              sg2_decoded_height v = 0 \<or> sg2_decoded_width v = 0 \<or>
              sg2_frame_rate_numerator v = 0 \<or> sg2_frame_rate_denominator v = 0)
        (V2InvalidField ''signal_geometry''),
      identifier_v2 (sg2_timing_contract v) ''signal_geometry.timing_contract'',
      version_v2 (sg2_timing_contract_version v) ''signal_geometry.timing_contract_version'']"

record tensor_abi =
  ta_python_major :: u8
  ta_python_minor :: u8
  ta_torch_version :: string
  ta_dtype :: tensor_dtype
  ta_shape :: "u32 \<times> u32 \<times> u32 \<times> u32 \<times> u32"
  ta_contiguous :: bool
  ta_device :: device_kind

definition validate_tensor_abi :: "tensor_abi \<Rightarrow> unit result_v2" where
  "validate_tensor_abi v = (case ta_shape v of (d0, d1, d2, d3, d4) \<Rightarrow> in_order
     [refuse (ta_python_major v \<noteq> 3 \<or> ta_python_minor v \<noteq> 13 \<or> d0 \<noteq> 1 \<or> d2 \<noteq> 1 \<or>
              0 \<in> set [d0, d1, d2, d3, d4] \<or> \<not> ta_contiguous v)
        (V2InvalidField ''tensor_abi''),
      version_v2 (ta_torch_version v) ''tensor_abi.torch_version''])"

record decoded_abi =
  da_pixel_format :: string
  da_maximum_batch :: u8

definition validate_decoded_abi :: "decoded_abi \<Rightarrow> unit result_v2" where
  "validate_decoded_abi v =
     refuse (da_pixel_format v \<noteq> ''rgba8'' \<or>
             \<not> (1 \<le> da_maximum_batch v \<and> da_maximum_batch v \<le> MAX_DECODE_BATCH))
       (V2InvalidField ''decoded_abi'')"

record profile_receipt =
  prc_receipt_id :: uuid
  prc_cartridge_id :: uuid
  prc_archive_sha256 :: string
  prc_payload_sha256 :: string
  prc_pack_id :: string
  prc_pack_version :: string
  prc_adapter_id :: string
  prc_adapter_version :: string
  prc_profile_key :: profile_key
  prc_signal_geometry :: signal_geometry_v2
  prc_tensor_abi :: tensor_abi
  prc_decoded_abi :: decoded_abi
  prc_capabilities :: "capability list"
  prc_estimated_host_bytes :: u64
  prc_estimated_device_bytes :: u64

definition tensor_matches_geometry :: "tensor_abi \<Rightarrow> signal_geometry_v2 \<Rightarrow> bool" where
  "tensor_matches_geometry t g = (case ta_shape t of (d0, d1, d2, d3, d4) \<Rightarrow>
     \<not> (d1 \<noteq> sg2_channels g \<or> d3 \<noteq> sg2_latent_height g \<or> d4 \<noteq> sg2_latent_width g))"

definition validate_profile_receipt :: "profile_receipt \<Rightarrow> unit result_v2" where
  "validate_profile_receipt v = in_order
     [non_nil (prc_receipt_id v) ''profile_receipt.receipt_id'',
      non_nil (prc_cartridge_id v) ''profile_receipt.cartridge_id'',
      sha256 (prc_archive_sha256 v) ''profile_receipt.archive_sha256'',
      sha256 (prc_payload_sha256 v) ''profile_receipt.payload_sha256'',
      identifier_v2 (prc_pack_id v) ''profile_receipt.pack_id'',
      version_v2 (prc_pack_version v) ''profile_receipt.pack_version'',
      identifier_v2 (prc_adapter_id v) ''profile_receipt.adapter_id'',
      version_v2 (prc_adapter_version v) ''profile_receipt.adapter_version'',
      validate_profile_key (prc_profile_key v),
      validate_signal_geometry (prc_signal_geometry v),
      validate_tensor_abi (prc_tensor_abi v),
      validate_decoded_abi (prc_decoded_abi v),
      refuse (\<not> tensor_matches_geometry (prc_tensor_abi v) (prc_signal_geometry v))
        (V2InvalidField ''profile_receipt.tensor_geometry''),
      refuse (prc_capabilities v = []) (V2InvalidField ''profile_receipt.capabilities''),
      unique_capabilities (prc_capabilities v)]"

section \<open>Raw imports\<close>

datatype raw_import_tensor_stream = StreamVisual | StreamAudio

datatype raw_import_storage_dtype = StorageF16 | StorageF32

datatype raw_import_audio_policy = AudioSourceAbsent | AudioPreservedSource

record raw_import_tensor =
  rt_stream :: raw_import_tensor_stream
  rt_name :: string
  rt_storage_dtype :: raw_import_storage_dtype
  rt_runtime_dtype :: raw_import_storage_dtype
  rt_shape :: "u64 list"

text \<open>The loop over the axes: the running product of the axes so far is \<open>values\<close>.\<close>

fun multiply_axes :: "u64 \<Rightarrow> u64 list \<Rightarrow> unit result_v2" where
  "multiply_axes values [] = Inr ()"
| "multiply_axes values (axis # axes) =
     try_bind (ok_or (checked_mul values axis) (V2InvalidField ''raw_import.tensor.shape''))
       (\<lambda>values.
        if axis = 0 \<or> values > MAX_RAW_IMPORT_SOURCE_BYTES
        then Inl (V2InvalidField ''raw_import.tensor.shape'')
        else multiply_axes values axes)"

definition validate_raw_import_tensor :: "raw_import_tensor \<Rightarrow> unit result_v2" where
  "validate_raw_import_tensor v = in_order
     [identifier_v2 (rt_name v) ''raw_import.tensor.name'',
      refuse (rt_shape v = []) (V2InvalidField ''raw_import.tensor.shape''),
      multiply_axes 1 (rt_shape v)]"

record raw_import_metadata =
  rm_profile_key :: profile_key
  rm_payload_entry :: string
  rm_payload_media_type :: string
  rm_tensors :: "raw_import_tensor list"
  rm_timing_contract :: string
  rm_timing_contract_version :: string
  rm_decoded_width :: u32
  rm_decoded_height :: u32
  rm_decoded_frame_count :: u64
  rm_frame_rate_numerator :: u64
  rm_frame_rate_denominator :: u64
  rm_duration_numerator :: u64
  rm_duration_denominator :: u64
  rm_audio_policy :: raw_import_audio_policy

text \<open>The loop over the tensors: the counts of visual and of audio tensors.\<close>

fun count_streams ::
    "raw_import_tensor list \<Rightarrow> nat \<Rightarrow> nat \<Rightarrow> (nat \<times> nat) result_v2" where
  "count_streams [] visual_count audio_count = Inr (visual_count, audio_count)"
| "count_streams (tensor # tensors) visual_count audio_count =
     try_bind (validate_raw_import_tensor tensor) (\<lambda>_.
     case rt_stream tensor of
       StreamVisual \<Rightarrow> count_streams tensors (visual_count + 1) audio_count
     | StreamAudio \<Rightarrow> count_streams tensors visual_count (audio_count + 1))"

definition validate_raw_import_metadata :: "raw_import_metadata \<Rightarrow> unit result_v2" where
  "validate_raw_import_metadata v = in_order
     [validate_profile_key (rm_profile_key v),
      archive_entry (rm_payload_entry v) ''raw_import.payload_entry'',
      refuse (rm_payload_media_type v \<noteq> ''application/vnd.safetensors'' \<or> rm_tensors v = [])
        (V2InvalidField ''raw_import.payload''),
      try_bind (count_streams (rm_tensors v) 0 0) (\<lambda>(visual_count, audio_count). in_order
        [unique_by (rm_tensors v) rt_name ''raw_import.tensors'',
         refuse (visual_count \<noteq> 1 \<or> audio_count > 1 \<or>
                 (audio_count = 1) \<noteq> (rm_audio_policy v = AudioPreservedSource))
           (V2InvalidField ''raw_import.audio_policy'')]),
      identifier_v2 (rm_timing_contract v) ''raw_import.timing_contract'',
      version_v2 (rm_timing_contract_version v) ''raw_import.timing_contract_version'',
      refuse (rm_decoded_width v = 0 \<or> rm_decoded_height v = 0 \<or> rm_decoded_frame_count v = 0 \<or>
              rm_frame_rate_numerator v = 0 \<or> rm_frame_rate_denominator v = 0 \<or>
              rm_duration_numerator v = 0 \<or> rm_duration_denominator v = 0)
        (V2InvalidField ''raw_import.timing'')]"

definition import_length_out_of_range :: "u64 \<Rightarrow> bool" where
  "import_length_out_of_range n = (\<not> (1 \<le> n \<and> n \<le> MAX_RAW_IMPORT_SOURCE_BYTES))"

record raw_import_preflight_request =
  rpr_import_id :: uuid
  rpr_source_path :: string
  rpr_maximum_source_bytes :: u64

definition validate_raw_import_preflight_request ::
    "raw_import_preflight_request \<Rightarrow> unit result_v2" where
  "validate_raw_import_preflight_request v = in_order
     [non_nil (rpr_import_id v) ''raw_import.import_id'',
      absolute_path (rpr_source_path v) ''raw_import.source_path'',
      refuse (import_length_out_of_range (rpr_maximum_source_bytes v))
        (V2InvalidField ''raw_import.maximum_source_bytes'')]"

record raw_import_stage =
  rst_import_id :: uuid
  rst_receipt_id :: uuid
  rst_staging_root :: string

definition validate_raw_import_stage :: "raw_import_stage \<Rightarrow> unit result_v2" where
  "validate_raw_import_stage v = in_order
     [non_nil (rst_import_id v) ''raw_import.import_id'',
      non_nil (rst_receipt_id v) ''raw_import.receipt_id'',
      absolute_path (rst_staging_root v) ''raw_import.staging_root'']"

record raw_import_abort =
  rab_import_id :: uuid
  rab_receipt_id :: uuid

definition validate_raw_import_abort :: "raw_import_abort \<Rightarrow> unit result_v2" where
  "validate_raw_import_abort v = in_order
     [non_nil (rab_import_id v) ''raw_import.import_id'',
      non_nil (rab_receipt_id v) ''raw_import.receipt_id'']"

record raw_import_preflight =
  rpf_receipt_id :: uuid
  rpf_import_id :: uuid
  rpf_pack_id :: string
  rpf_pack_version :: string
  rpf_adapter_id :: string
  rpf_adapter_version :: string
  rpf_source_sha256 :: string
  rpf_source_byte_length :: u64
  rpf_metadata :: raw_import_metadata

definition validate_raw_import_preflight :: "raw_import_preflight \<Rightarrow> unit result_v2" where
  "validate_raw_import_preflight v = in_order
     [non_nil (rpf_receipt_id v) ''raw_import.receipt_id'',
      non_nil (rpf_import_id v) ''raw_import.import_id'',
      identifier_v2 (rpf_pack_id v) ''raw_import.pack_id'',
      version_v2 (rpf_pack_version v) ''raw_import.pack_version'',
      identifier_v2 (rpf_adapter_id v) ''raw_import.adapter_id'',
      version_v2 (rpf_adapter_version v) ''raw_import.adapter_version'',
      sha256 (rpf_source_sha256 v) ''raw_import.source_sha256'',
      refuse (import_length_out_of_range (rpf_source_byte_length v))
        (V2InvalidField ''raw_import.source_byte_length''),
      validate_raw_import_metadata (rpf_metadata v)]"

record raw_import_artifact =
  rar_receipt_id :: uuid
  rar_import_id :: uuid
  rar_staged_payload_path :: string
  rar_payload_sha256 :: string
  rar_payload_byte_length :: u64

definition validate_raw_import_artifact :: "raw_import_artifact \<Rightarrow> unit result_v2" where
  "validate_raw_import_artifact v = in_order
     [non_nil (rar_receipt_id v) ''raw_import.receipt_id'',
      non_nil (rar_import_id v) ''raw_import.import_id'',
      absolute_path (rar_staged_payload_path v) ''raw_import.staged_payload_path'',
      sha256 (rar_payload_sha256 v) ''raw_import.payload_sha256'',
      refuse (import_length_out_of_range (rar_payload_byte_length v))
        (V2InvalidField ''raw_import.payload_byte_length'')]"

record raw_import_aborted =
  rad_import_id :: uuid
  rad_receipt_id :: uuid

definition validate_raw_import_aborted :: "raw_import_aborted \<Rightarrow> unit result_v2" where
  "validate_raw_import_aborted v = in_order
     [non_nil (rad_import_id v) ''raw_import.import_id'',
      non_nil (rad_receipt_id v) ''raw_import.receipt_id'']"

section \<open>Assets, controls, roles and sources\<close>

record external_asset_binding_v2 =
  ea2_asset_id :: string
  ea2_path :: string
  ea2_sha256 :: string
  ea2_byte_length :: u64

definition validate_external_asset_v2 :: "external_asset_binding_v2 \<Rightarrow> unit result_v2" where
  "validate_external_asset_v2 v = in_order
     [identifier_v2 (ea2_asset_id v) ''external_asset.asset_id'',
      bounded_text (ea2_path v) ''external_asset.path'' MAX_PATH_BYTES_V2,
      sha256 (ea2_sha256 v) ''external_asset.sha256'',
      refuse (ea2_byte_length v = 0) (V2InvalidField ''external_asset.byte_length'')]"

text \<open>The bits of an \<open>f64\<close>: it is finite unless its exponent bits are all ones.\<close>

type_synonym f64_bits = "64 word"

definition f64_is_finite :: "f64_bits \<Rightarrow> bool" where
  "f64_is_finite v = (v AND 0x7FF0000000000000 \<noteq> 0x7FF0000000000000)"

datatype control_value =
    CvBoolean bool
  | CvInteger "64 word"
  | CvNumber f64_bits
  | CvText string

definition validate_control_value :: "control_value \<Rightarrow> unit result_v2" where
  "validate_control_value v = (case v of
       CvNumber x \<Rightarrow> refuse (\<not> f64_is_finite x) (V2InvalidField ''control.value'')
     | CvText x \<Rightarrow> bounded_text x ''control.value'' MAX_TEXT_BYTES
     | CvBoolean b \<Rightarrow> Inr ()
     | CvInteger i \<Rightarrow> Inr ())"

record control_binding =
  cb_name :: string
  cb_value :: control_value

definition validate_control_binding :: "control_binding \<Rightarrow> unit result_v2" where
  "validate_control_binding v = in_order
     [identifier_v2 (cb_name v) ''control.name'', validate_control_value (cb_value v)]"

record role_binding =
  rb2_role :: string
  rb2_physical_slot :: u8

definition validate_role_binding :: "role_binding \<Rightarrow> unit result_v2" where
  "validate_role_binding v = in_order
     [identifier_v2 (rb2_role v) ''role.role'',
      refuse (slot_out_of_range (rb2_physical_slot v)) (V2InvalidField ''role.physical_slot'')]"

record source_binding =
  sb_physical_slot :: u8
  sb_source_id :: uuid
  sb_cartridge_id :: uuid
  sb_archive_sha256 :: string
  sb_profile_receipt_id :: uuid
  sb_loop_enabled :: bool

definition validate_source_binding :: "source_binding \<Rightarrow> unit result_v2" where
  "validate_source_binding v = in_order
     [refuse (slot_out_of_range (sb_physical_slot v)) (V2InvalidField ''source.physical_slot''),
      non_nil (sb_source_id v) ''source.source_id'',
      non_nil (sb_cartridge_id v) ''source.cartridge_id'',
      non_nil (sb_profile_receipt_id v) ''source.profile_receipt_id'',
      sha256 (sb_archive_sha256 v) ''source.archive_sha256'']"

record source_transport_binding =
  stb_physical_slot :: u8
  stb_playing :: bool
  stb_loop_enabled :: bool

definition validate_source_transport :: "source_transport_binding \<Rightarrow> unit result_v2" where
  "validate_source_transport v =
     refuse (slot_out_of_range (stb_physical_slot v))
       (V2InvalidField ''deck.transport.physical_slot'')"

section \<open>The shape of a raw import\<close>

lemma multiply_axes_Inr:
  assumes "unat v \<le> 2 ^ 36" and "v \<noteq> 0"
  shows "multiply_axes v axes = Inr () \<longleftrightarrow>
    0 \<notin> set axes \<and> unat v * prod_list (map unat axes) \<le> 2 ^ 36"
  using assms
proof (induction axes arbitrary: v)
  case Nil
  then show ?case by simp
next
  case (Cons axis axes)
  let ?p = "unat v * unat axis"
  have max: "w > MAX_RAW_IMPORT_SOURCE_BYTES \<longleftrightarrow> unat w > 2 ^ 36" for w
    by (simp add: MAX_RAW_IMPORT_SOURCE_BYTES_def word_less_nat_alt)
  have over: "\<not> (0 \<notin> set axes \<and> ?p * prod_list (map unat axes) \<le> 2 ^ 36)" if "?p > 2 ^ 36"
  proof (rule notI, elim conjE)
    assume "0 \<notin> set axes" and le: "?p * prod_list (map unat axes) \<le> 2 ^ 36"
    then have "prod_list (map unat axes) \<noteq> 0"
      by (auto simp: prod_list_zero_iff unat_eq_0)
    then have "?p \<le> ?p * prod_list (map unat axes)"
      by simp
    then show False
      using le that by linarith
  qed
  show ?case
  proof (cases "checked_mul v axis")
    case None
    then have "?p > 2 ^ 36"
      by (simp add: checked_simps)
    then show ?thesis
      using over None by (auto simp: mult.assoc)
  next
    case (Some w)
    then have w: "unat w = ?p"
      by (simp add: checked_simps)
    show ?thesis
    proof (cases "axis = 0 \<or> unat w > 2 ^ 36")
      case True
      then show ?thesis
        using over Some max w by (auto simp: mult.assoc)
    next
      case False
      then have "w \<noteq> 0" "unat w \<le> 2 ^ 36"
        using w Cons.prems(2) by (auto simp: unat_eq_0)
      from Cons.IH [OF this(2) this(1)] show ?thesis
        using False Some max w by (auto simp: mult.assoc)
    qed
  qed
qed

text \<open>Raw import shapes. The loop with its overflow check and its bound at every step accepts
  exactly the shapes whose axes are positive and whose exact product, on unbounded integers, is
  at most 2^36; it never depends on a wrapped product.\<close>

theorem raw_import_shape_exact:
  "validate_raw_import_tensor v = Inr () \<longleftrightarrow>
     identifier_v2 (rt_name v) ''raw_import.tensor.name'' = Inr () \<and>
     rt_shape v \<noteq> [] \<and> 0 \<notin> set (rt_shape v) \<and> prod_list (map unat (rt_shape v)) \<le> 2 ^ 36"
  using multiply_axes_Inr [of 1 "rt_shape v"]
  by (auto simp: validate_raw_import_tensor_def try_iffs)

end
