(* ===== verification/Protocol2_Commands.thy ===== *)
theory Protocol2_Commands
  imports Protocol2_Payloads
begin

text \<open>
  Worker Protocol 2, the commands of the host (\<open>crates/control/src/v2.rs\<close>): the payload of each
  with its \<open>validate\<close> method, the enum \<open>Command\<close> with its names, and what a valid deck load
  guarantees. The constructors of \<open>Command\<close> start with \<open>C2\<close>.
\<close>

section \<open>Session and codec\<close>

record session_configure_v2 =
  sc2_selected_protocol_version :: u16
  sc2_app_version :: string
  sc2_heartbeat_interval_ms :: u32
  sc2_heartbeat_hard_timeout_ms :: u32
  sc2_max_frame_bytes :: u32
  sc2_max_inflight_batches :: u8
  sc2_requested_capabilities :: "capability list"

definition u32_saturating_mul_v2 :: "u32 \<Rightarrow> u32 \<Rightarrow> u32" where
  "u32_saturating_mul_v2 a b = (case checked_mul a b of Some c \<Rightarrow> c | None \<Rightarrow> - 1)"

definition validate_session_configure_v2 :: "session_configure_v2 \<Rightarrow> unit result_v2" where
  "validate_session_configure_v2 v = in_order
     [refuse (sc2_selected_protocol_version v \<noteq> PROTOCOL_VERSION \<or>
              \<not> (250 \<le> sc2_heartbeat_interval_ms v \<and> sc2_heartbeat_interval_ms v \<le> 60000) \<or>
              sc2_heartbeat_hard_timeout_ms v < u32_saturating_mul_v2 (sc2_heartbeat_interval_ms v) 3 \<or>
              unat (sc2_max_frame_bytes v) \<noteq> MAX_FRAME_BYTES \<or>
              \<not> (1 \<le> sc2_max_inflight_batches v \<and> sc2_max_inflight_batches v \<le> 24))
        (V2InvalidField ''session.configure''),
      version_v2 (sc2_app_version v) ''session.app_version'',
      unique_capabilities (sc2_requested_capabilities v)]"

record session_shutdown =
  ss2_reason :: shutdown_reason_v2

record codec_descriptor_request =
  cdr_pack_id :: string
  cdr_pack_version :: string
  cdr_adapter_id :: string

definition validate_codec_descriptor_request :: "codec_descriptor_request \<Rightarrow> unit result_v2" where
  "validate_codec_descriptor_request v = in_order
     [identifier_v2 (cdr_pack_id v) ''codec.pack_id'',
      version_v2 (cdr_pack_version v) ''codec.pack_version'',
      identifier_v2 (cdr_adapter_id v) ''codec.adapter_id'']"

record codec_load_v2 =
  cl2_pack_id :: string
  cl2_pack_version :: string
  cl2_adapter_id :: string
  cl2_adapter_version :: string
  cl2_device :: device_kind
  cl2_device_ordinal :: u8
  cl2_external_assets :: "external_asset_binding_v2 list"

definition validate_codec_load_v2 :: "codec_load_v2 \<Rightarrow> unit result_v2" where
  "validate_codec_load_v2 v = in_order
     [identifier_v2 (cl2_pack_id v) ''codec.pack_id'',
      version_v2 (cl2_pack_version v) ''codec.pack_version'',
      identifier_v2 (cl2_adapter_id v) ''codec.adapter_id'',
      version_v2 (cl2_adapter_version v) ''codec.adapter_version'',
      try_all validate_external_asset_v2 (cl2_external_assets v),
      unique_by (cl2_external_assets v) ea2_asset_id ''codec.external_assets'']"

record codec_unload =
  cu_pack_id :: string
  cu_pack_version :: string

definition validate_codec_unload :: "codec_unload \<Rightarrow> unit result_v2" where
  "validate_codec_unload v = in_order
     [identifier_v2 (cu_pack_id v) ''codec.pack_id'',
      version_v2 (cu_pack_version v) ''codec.pack_version'']"

section \<open>Sources, rings and profiles\<close>

record source_open =
  so_source_id :: uuid
  so_cartridge_id :: uuid
  so_archive_sha256 :: string
  so_archive_bytes :: u64
  so_retained_native_handle :: u64
  so_integrity_access_receipt :: string

definition validate_source_open :: "source_open \<Rightarrow> unit result_v2" where
  "validate_source_open v = in_order
     [non_nil (so_source_id v) ''source.source_id'',
      non_nil (so_cartridge_id v) ''source.cartridge_id'',
      sha256 (so_archive_sha256 v) ''source.archive_sha256'',
      positive (so_archive_bytes v) ''source.archive_bytes'',
      positive (so_retained_native_handle v) ''source.retained_native_handle'',
      bounded_text (so_integrity_access_receipt v) ''source.integrity_access_receipt''
        MAX_INTEGRITY_ACCESS_RECEIPT_BYTES]"

record source_close =
  scl_source_id :: uuid

definition validate_source_close :: "source_close \<Rightarrow> unit result_v2" where
  "validate_source_close v = non_nil (scl_source_id v) ''source.source_id''"

record ring_configure =
  rc_ring_id :: uuid
  rc_kind :: ring_kind
  rc_mapping_handle :: u64
  rc_ready_event_handle :: u64
  rc_consumed_event_handle :: u64
  rc_slot_count :: u8
  rc_slot_bytes :: u64

definition validate_ring_configure :: "ring_configure \<Rightarrow> unit result_v2" where
  "validate_ring_configure v = in_order
     [non_nil (rc_ring_id v) ''ring.ring_id'',
      positive (rc_mapping_handle v) ''ring.mapping_handle'',
      positive (rc_ready_event_handle v) ''ring.ready_event_handle'',
      positive (rc_consumed_event_handle v) ''ring.consumed_event_handle'',
      refuse (\<not> (2 \<le> rc_slot_count v \<and> rc_slot_count v \<le> MAX_DECODE_BATCH) \<or> rc_slot_bytes v = 0)
        (V2InvalidField ''ring.geometry'')]"

record ring_release =
  rr_ring_id :: uuid

definition validate_ring_release :: "ring_release \<Rightarrow> unit result_v2" where
  "validate_ring_release v = non_nil (rr_ring_id v) ''ring.ring_id''"

record profile_inspect =
  pin_source_id :: uuid
  pin_cartridge_id :: uuid
  pin_archive_sha256 :: string

definition validate_profile_inspect :: "profile_inspect \<Rightarrow> unit result_v2" where
  "validate_profile_inspect v = in_order
     [non_nil (pin_source_id v) ''profile.source_id'',
      non_nil (pin_cartridge_id v) ''profile.cartridge_id'',
      sha256 (pin_archive_sha256 v) ''profile.archive_sha256'']"

record profile_validate =
  pv_source_id :: uuid
  pv_expected_profile :: profile_key
  pv_required_capabilities :: "capability list"

definition validate_profile_validate :: "profile_validate \<Rightarrow> unit result_v2" where
  "validate_profile_validate v = in_order
     [non_nil (pv_source_id v) ''profile.source_id'',
      validate_profile_key (pv_expected_profile v),
      unique_capabilities (pv_required_capabilities v)]"

section \<open>Player\<close>

record player_open =
  po_player_session_id :: uuid
  po_source :: source_binding
  po_stream_generation :: u64

definition validate_player_open :: "player_open \<Rightarrow> unit result_v2" where
  "validate_player_open v = in_order
     [non_nil (po_player_session_id v) ''player.session_id'',
      validate_source_binding (po_source v),
      positive (po_stream_generation v) ''player.stream_generation'']"

record player_step =
  pst_player_session_id :: uuid
  pst_stream_generation :: u64
  pst_maximum_decoded_frames :: u8

definition validate_player_step :: "player_step \<Rightarrow> unit result_v2" where
  "validate_player_step v = in_order
     [non_nil (pst_player_session_id v) ''player.session_id'',
      positive (pst_stream_generation v) ''player.stream_generation'',
      refuse (\<not> (1 \<le> pst_maximum_decoded_frames v \<and>
                 pst_maximum_decoded_frames v \<le> MAX_DECODE_BATCH))
        (V2InvalidField ''player.maximum_decoded_frames'')]"

record player_reset =
  prs_player_session_id :: uuid
  prs_new_stream_generation :: u64

definition validate_player_reset :: "player_reset \<Rightarrow> unit result_v2" where
  "validate_player_reset v = in_order
     [non_nil (prs_player_session_id v) ''player.session_id'',
      positive (prs_new_stream_generation v) ''player.new_stream_generation'']"

section \<open>Deck\<close>

record deck_runtime_binding =
  drb_deck_id :: string
  drb_deck_version :: string
  drb_operator_id :: string
  drb_operator_version :: string
  drb_python_root :: string
  drb_entrypoint :: string
  drb_package_manifest_sha256 :: string
  drb_integrity_catalog_sha256 :: string

definition validate_deck_runtime_binding :: "deck_runtime_binding \<Rightarrow> unit result_v2" where
  "validate_deck_runtime_binding v = in_order
     [identifier_v2 (drb_deck_id v) ''deck.runtime.deck_id'',
      version_v2 (drb_deck_version v) ''deck.runtime.deck_version'',
      identifier_v2 (drb_operator_id v) ''deck.runtime.operator_id'',
      version_v2 (drb_operator_version v) ''deck.runtime.operator_version'',
      bounded_text (drb_python_root v) ''deck.runtime.python_root'' MAX_PATH_BYTES_V2,
      refuse (\<not> is_absolute (drb_python_root v)) (V2InvalidField ''deck.runtime.python_root''),
      python_entrypoint (drb_entrypoint v) ''deck.runtime.entrypoint'',
      sha256 (drb_package_manifest_sha256 v) ''deck.runtime.package_manifest_sha256'',
      sha256 (drb_integrity_catalog_sha256 v) ''deck.runtime.integrity_catalog_sha256'']"

record deck_load =
  dl_deck_session_id :: uuid
  dl_deck_id :: string
  dl_deck_version :: string
  dl_operator_id :: string
  dl_operator_version :: string
  dl_runtime :: "deck_runtime_binding option"
  dl_sources :: "source_binding list"
  dl_roles :: "role_binding list"
  dl_controls :: "control_binding list"
  dl_seed :: u64
  dl_stream_generation :: u64

definition validate_deck_load_runtime :: "deck_load \<Rightarrow> unit result_v2" where
  "validate_deck_load_runtime v = (case dl_runtime v of
       Some runtime \<Rightarrow> in_order
         [validate_deck_runtime_binding runtime,
          refuse (drb_deck_id runtime \<noteq> dl_deck_id v \<or>
                  drb_deck_version runtime \<noteq> dl_deck_version v \<or>
                  drb_operator_id runtime \<noteq> dl_operator_id v \<or>
                  drb_operator_version runtime \<noteq> dl_operator_version v)
            (V2InvalidField ''deck.runtime.identity'')]
     | None \<Rightarrow> Inr ())"

definition validate_deck_load :: "deck_load \<Rightarrow> unit result_v2" where
  "validate_deck_load v = in_order
     [non_nil (dl_deck_session_id v) ''deck.session_id'',
      identifier_v2 (dl_deck_id v) ''deck.deck_id'',
      version_v2 (dl_deck_version v) ''deck.deck_version'',
      identifier_v2 (dl_operator_id v) ''deck.operator_id'',
      version_v2 (dl_operator_version v) ''deck.operator_version'',
      validate_deck_load_runtime v,
      refuse (dl_sources v = []) (V2InvalidField ''deck.sources''),
      try_all validate_source_binding (dl_sources v),
      unique_by (dl_sources v) sb_physical_slot ''deck.sources'',
      try_all (\<lambda>role. in_order
        [validate_role_binding role,
         refuse (\<not> list_ex (\<lambda>source. sb_physical_slot source = rb2_physical_slot role) (dl_sources v))
           (V2InvalidField ''deck.roles'')]) (dl_roles v),
      unique_by (dl_roles v) rb2_role ''deck.roles'',
      try_all validate_control_binding (dl_controls v),
      unique_by (dl_controls v) cb_name ''deck.controls'',
      positive (dl_stream_generation v) ''deck.stream_generation'']"

record deck_identity =
  did_deck_session_id :: uuid
  did_deck_revision :: u64

definition validate_deck_identity :: "deck_identity \<Rightarrow> unit result_v2" where
  "validate_deck_identity v = in_order
     [non_nil (did_deck_session_id v) ''deck.session_id'',
      positive (did_deck_revision v) ''deck.revision'']"

record deck_process =
  dp_deck_session_id :: uuid
  dp_deck_revision :: u64
  dp_stream_generation :: u64

definition validate_deck_process :: "deck_process \<Rightarrow> unit result_v2" where
  "validate_deck_process v = in_order
     [non_nil (dp_deck_session_id v) ''deck.session_id'',
      positive (dp_deck_revision v) ''deck.revision'',
      positive (dp_stream_generation v) ''deck.stream_generation'']"

record deck_controls_set =
  dcs_deck_session_id :: uuid
  dcs_deck_revision :: u64
  dcs_controls :: "control_binding list"

definition validate_deck_controls_set :: "deck_controls_set \<Rightarrow> unit result_v2" where
  "validate_deck_controls_set v = in_order
     [non_nil (dcs_deck_session_id v) ''deck.session_id'',
      positive (dcs_deck_revision v) ''deck.revision'',
      try_all validate_control_binding (dcs_controls v),
      unique_by (dcs_controls v) cb_name ''deck.controls'']"

record deck_roles_set =
  drs_deck_session_id :: uuid
  drs_deck_revision :: u64
  drs_roles :: "role_binding list"

definition validate_deck_roles_set :: "deck_roles_set \<Rightarrow> unit result_v2" where
  "validate_deck_roles_set v = in_order
     [non_nil (drs_deck_session_id v) ''deck.session_id'',
      positive (drs_deck_revision v) ''deck.revision'',
      try_all validate_role_binding (drs_roles v),
      unique_by (drs_roles v) rb2_role ''deck.roles'']"

record deck_transport_set =
  dts_deck_session_id :: uuid
  dts_deck_revision :: u64
  dts_sources :: "source_transport_binding list"

definition validate_deck_transport_set :: "deck_transport_set \<Rightarrow> unit result_v2" where
  "validate_deck_transport_set v = in_order
     [non_nil (dts_deck_session_id v) ''deck.session_id'',
      positive (dts_deck_revision v) ''deck.revision'',
      refuse (dts_sources v = []) (V2InvalidField ''deck.transport.sources''),
      try_all validate_source_transport (dts_sources v),
      unique_by (dts_sources v) stb_physical_slot ''deck.transport.sources'']"

record deck_seed_set =
  dss_deck_session_id :: uuid
  dss_deck_revision :: u64
  dss_seed :: u64

definition validate_deck_seed_set :: "deck_seed_set \<Rightarrow> unit result_v2" where
  "validate_deck_seed_set v = in_order
     [non_nil (dss_deck_session_id v) ''deck.session_id'',
      positive (dss_deck_revision v) ''deck.revision'']"

record deck_reset =
  dr_deck_session_id :: uuid
  dr_deck_revision :: u64
  dr_new_stream_generation :: u64
  dr_preserve_playheads :: bool

definition validate_deck_reset :: "deck_reset \<Rightarrow> unit result_v2" where
  "validate_deck_reset v = in_order
     [non_nil (dr_deck_session_id v) ''deck.session_id'',
      positive (dr_deck_revision v) ''deck.revision'',
      positive (dr_new_stream_generation v) ''deck.new_stream_generation'']"

section \<open>Capture\<close>

record capture_start =
  cst_deck_session_id :: uuid
  cst_deck_revision :: u64
  cst_capture_id :: uuid
  cst_mode :: capture_mode
  cst_staging_root :: string
  cst_maximum_latent_slots :: u64
  cst_maximum_visual_bytes :: u64
  cst_maximum_reset_events :: u32

definition validate_capture_start :: "capture_start \<Rightarrow> unit result_v2" where
  "validate_capture_start v = in_order
     [non_nil (cst_deck_session_id v) ''capture.deck_session_id'',
      non_nil (cst_capture_id v) ''capture.capture_id'',
      positive (cst_deck_revision v) ''capture.deck_revision'',
      absolute_path (cst_staging_root v) ''capture.staging_root'',
      refuse (\<not> (1 \<le> cst_maximum_latent_slots v \<and>
                 cst_maximum_latent_slots v \<le> MAX_CAPTURE_LATENT_SLOTS) \<or>
              \<not> (1 \<le> cst_maximum_visual_bytes v \<and>
                 cst_maximum_visual_bytes v \<le> MAX_CAPTURE_VISUAL_BYTES) \<or>
              \<not> (1 \<le> cst_maximum_reset_events v \<and> cst_maximum_reset_events v \<le> MAX_CAPTURE_EVENTS))
        (V2InvalidField ''capture.bounds'')]"

record capture_identity =
  cid_deck_session_id :: uuid
  cid_deck_revision :: u64
  cid_capture_id :: uuid

definition validate_capture_identity :: "capture_identity \<Rightarrow> unit result_v2" where
  "validate_capture_identity v = in_order
     [non_nil (cid_deck_session_id v) ''capture.deck_session_id'',
      non_nil (cid_capture_id v) ''capture.capture_id'',
      positive (cid_deck_revision v) ''capture.deck_revision'']"

section \<open>The command\<close>

datatype (plugins only: ) command_v2 =
    C2SessionConfigure session_configure_v2
  | C2SessionStatus
  | C2SessionShutdown session_shutdown
  | C2CodecDescriptor codec_descriptor_request
  | C2CodecLoad codec_load_v2
  | C2CodecUnload codec_unload
  | C2SourceOpen source_open
  | C2SourceClose source_close
  | C2RingConfigure ring_configure
  | C2RingRelease ring_release
  | C2ProfileInspect profile_inspect
  | C2ProfileValidate profile_validate
  | C2RawImportPreflight raw_import_preflight_request
  | C2RawImportStage raw_import_stage
  | C2RawImportAbort raw_import_abort
  | C2PlayerOpen player_open
  | C2PlayerStep player_step
  | C2PlayerReset player_reset
  | C2PlayerStatus
  | C2DeckLoad deck_load
  | C2DeckProcess deck_process
  | C2DeckControlsSet deck_controls_set
  | C2DeckRolesSet deck_roles_set
  | C2DeckTransportSet deck_transport_set
  | C2DeckSeedSet deck_seed_set
  | C2DeckReset deck_reset
  | C2DeckRestart deck_identity
  | C2DeckStatus
  | C2CaptureStart capture_start
  | C2CaptureStop capture_identity
  | C2CaptureStatus capture_identity
  | C2MetricsGet

primrec command_name_of_v2 :: "command_v2 \<Rightarrow> command_name_v2" where
  "command_name_of_v2 (C2SessionConfigure v) = N2SessionConfigure"
| "command_name_of_v2 C2SessionStatus = N2SessionStatus"
| "command_name_of_v2 (C2SessionShutdown v) = N2SessionShutdown"
| "command_name_of_v2 (C2CodecDescriptor v) = N2CodecDescriptor"
| "command_name_of_v2 (C2CodecLoad v) = N2CodecLoad"
| "command_name_of_v2 (C2CodecUnload v) = N2CodecUnload"
| "command_name_of_v2 (C2SourceOpen v) = N2SourceOpen"
| "command_name_of_v2 (C2SourceClose v) = N2SourceClose"
| "command_name_of_v2 (C2RingConfigure v) = N2RingConfigure"
| "command_name_of_v2 (C2RingRelease v) = N2RingRelease"
| "command_name_of_v2 (C2ProfileInspect v) = N2ProfileInspect"
| "command_name_of_v2 (C2ProfileValidate v) = N2ProfileValidate"
| "command_name_of_v2 (C2RawImportPreflight v) = N2RawImportPreflight"
| "command_name_of_v2 (C2RawImportStage v) = N2RawImportStage"
| "command_name_of_v2 (C2RawImportAbort v) = N2RawImportAbort"
| "command_name_of_v2 (C2PlayerOpen v) = N2PlayerOpen"
| "command_name_of_v2 (C2PlayerStep v) = N2PlayerStep"
| "command_name_of_v2 (C2PlayerReset v) = N2PlayerReset"
| "command_name_of_v2 C2PlayerStatus = N2PlayerStatus"
| "command_name_of_v2 (C2DeckLoad v) = N2DeckLoad"
| "command_name_of_v2 (C2DeckProcess v) = N2DeckProcess"
| "command_name_of_v2 (C2DeckControlsSet v) = N2DeckControlsSet"
| "command_name_of_v2 (C2DeckRolesSet v) = N2DeckRolesSet"
| "command_name_of_v2 (C2DeckTransportSet v) = N2DeckTransportSet"
| "command_name_of_v2 (C2DeckSeedSet v) = N2DeckSeedSet"
| "command_name_of_v2 (C2DeckReset v) = N2DeckReset"
| "command_name_of_v2 (C2DeckRestart v) = N2DeckRestart"
| "command_name_of_v2 C2DeckStatus = N2DeckStatus"
| "command_name_of_v2 (C2CaptureStart v) = N2CaptureStart"
| "command_name_of_v2 (C2CaptureStop v) = N2CaptureStop"
| "command_name_of_v2 (C2CaptureStatus v) = N2CaptureStatus"
| "command_name_of_v2 C2MetricsGet = N2MetricsGet"

primrec validate_command_v2 :: "command_v2 \<Rightarrow> unit result_v2" where
  "validate_command_v2 (C2SessionConfigure v) = validate_session_configure_v2 v"
| "validate_command_v2 C2SessionStatus = Inr ()"
| "validate_command_v2 (C2SessionShutdown v) = Inr ()"
| "validate_command_v2 (C2CodecDescriptor v) = validate_codec_descriptor_request v"
| "validate_command_v2 (C2CodecLoad v) = validate_codec_load_v2 v"
| "validate_command_v2 (C2CodecUnload v) = validate_codec_unload v"
| "validate_command_v2 (C2SourceOpen v) = validate_source_open v"
| "validate_command_v2 (C2SourceClose v) = validate_source_close v"
| "validate_command_v2 (C2RingConfigure v) = validate_ring_configure v"
| "validate_command_v2 (C2RingRelease v) = validate_ring_release v"
| "validate_command_v2 (C2ProfileInspect v) = validate_profile_inspect v"
| "validate_command_v2 (C2ProfileValidate v) = validate_profile_validate v"
| "validate_command_v2 (C2RawImportPreflight v) = validate_raw_import_preflight_request v"
| "validate_command_v2 (C2RawImportStage v) = validate_raw_import_stage v"
| "validate_command_v2 (C2RawImportAbort v) = validate_raw_import_abort v"
| "validate_command_v2 (C2PlayerOpen v) = validate_player_open v"
| "validate_command_v2 (C2PlayerStep v) = validate_player_step v"
| "validate_command_v2 (C2PlayerReset v) = validate_player_reset v"
| "validate_command_v2 C2PlayerStatus = Inr ()"
| "validate_command_v2 (C2DeckLoad v) = validate_deck_load v"
| "validate_command_v2 (C2DeckProcess v) = validate_deck_process v"
| "validate_command_v2 (C2DeckControlsSet v) = validate_deck_controls_set v"
| "validate_command_v2 (C2DeckRolesSet v) = validate_deck_roles_set v"
| "validate_command_v2 (C2DeckTransportSet v) = validate_deck_transport_set v"
| "validate_command_v2 (C2DeckSeedSet v) = validate_deck_seed_set v"
| "validate_command_v2 (C2DeckReset v) = validate_deck_reset v"
| "validate_command_v2 (C2DeckRestart v) = validate_deck_identity v"
| "validate_command_v2 C2DeckStatus = Inr ()"
| "validate_command_v2 (C2CaptureStart v) = validate_capture_start v"
| "validate_command_v2 (C2CaptureStop v) = validate_capture_identity v"
| "validate_command_v2 (C2CaptureStatus v) = validate_capture_identity v"
| "validate_command_v2 C2MetricsGet = Inr ()"

section \<open>What a valid deck load guarantees\<close>

lemma distinct_slots_bounded:
  assumes "distinct slots" and "\<forall>s\<in>set slots. \<not> slot_out_of_range s"
  shows "length slots \<le> 16"
proof -
  have "inj_on unat (set slots)"
    by (rule inj_onI) (simp add: word_unat_eq_iff)
  then have "length slots = card (unat ` set slots)"
    using assms(1) by (simp add: card_image distinct_card)
  also have "\<dots> \<le> card {1..16 :: nat}"
    using assms(2) by (intro card_mono) (auto simp: slot_in_range)
  finally show ?thesis
    by simp
qed

lemma filter_unique_key:
  "distinct (map f xs) \<Longrightarrow> x \<in> set xs \<Longrightarrow> filter (\<lambda>y. f y = f x) xs = [x]"
  by (induction xs) (auto simp: filter_empty_conv image_iff)

text \<open>Deck loads are well formed. A deck load that passes validation has at most sixteen
  sources, in different physical slots between 1 and 16; each of its roles is bound to exactly
  one of them; role names and control names are not repeated, every numeric control is finite,
  and a runtime binding carries the identities of the deck and the operator of the load.\<close>

theorem deck_load_well_formed:
  assumes "validate_deck_load v = Inr ()"
  shows "dl_sources v \<noteq> [] \<and> length (dl_sources v) \<le> 16 \<and>
    list_all (\<lambda>s. 1 \<le> unat (sb_physical_slot s) \<and> unat (sb_physical_slot s) \<le> 16) (dl_sources v) \<and>
    list_all (\<lambda>role. \<exists>source. filter (\<lambda>s. sb_physical_slot s = rb2_physical_slot role)
      (dl_sources v) = [source]) (dl_roles v) \<and>
    distinct (map rb2_role (dl_roles v)) \<and> distinct (map cb_name (dl_controls v)) \<and>
    list_all (\<lambda>c. case cb_value c of CvNumber x \<Rightarrow> f64_is_finite x | _ \<Rightarrow> True) (dl_controls v) \<and>
    (case dl_runtime v of
       Some r \<Rightarrow> drb_deck_id r = dl_deck_id v \<and> drb_deck_version r = dl_deck_version v \<and>
         drb_operator_id r = dl_operator_id v \<and> drb_operator_version r = dl_operator_version v
     | None \<Rightarrow> True)"
proof -
  have src: "dl_sources v \<noteq> []" "\<forall>s\<in>set (dl_sources v). \<not> slot_out_of_range (sb_physical_slot s)"
      "distinct (map sb_physical_slot (dl_sources v))"
    and roles: "\<forall>r\<in>set (dl_roles v). \<exists>s\<in>set (dl_sources v). sb_physical_slot s = rb2_physical_slot r"
      "distinct (map rb2_role (dl_roles v))"
    and controls: "\<forall>c\<in>set (dl_controls v). validate_control_value (cb_value c) = Inr ()"
      "distinct (map cb_name (dl_controls v))"
    and runtime: "validate_deck_load_runtime v = Inr ()"
    using assms by (auto simp: validate_deck_load_def validate_source_binding_def
        validate_control_binding_def try_iffs field_iffs list_ex_iff)
  have "length (dl_sources v) \<le> 16"
    using distinct_slots_bounded [OF src(3)] src(2) by simp
  moreover have "\<exists>source. filter (\<lambda>s. sb_physical_slot s = rb2_physical_slot role) (dl_sources v) = [source]"
    if "role \<in> set (dl_roles v)" for role
    using roles(1) that filter_unique_key [OF src(3)] by metis
  moreover have "case cb_value c of CvNumber x \<Rightarrow> f64_is_finite x | _ \<Rightarrow> True"
    if "c \<in> set (dl_controls v)" for c
    using controls(1) that by (auto simp: validate_control_value_def try_iffs split: control_value.splits)
  ultimately show ?thesis
    using src roles(2) controls(2) runtime
    by (auto simp: list_all_iff slot_in_range validate_deck_load_runtime_def try_iffs
        split: option.splits)
qed

definition sample_source :: "u8 \<Rightarrow> source_binding" where
  "sample_source slot =
     \<lparr>sb_physical_slot = slot, sb_source_id = 5, sb_cartridge_id = 6,
      sb_archive_sha256 = replicate 64 CHR ''a'', sb_profile_receipt_id = 7,
      sb_loop_enabled = True\<rparr>"

definition sample_deck_load :: deck_load where
  "sample_deck_load =
     \<lparr>dl_deck_session_id = 1, dl_deck_id = ''deck'', dl_deck_version = ''1.0'',
      dl_operator_id = ''mix'', dl_operator_version = ''1.0'', dl_runtime = None,
      dl_sources = [sample_source 1, sample_source 16],
      dl_roles = [\<lparr>rb2_role = ''carrier'', rb2_physical_slot = 16\<rparr>],
      dl_controls = [\<lparr>cb_name = ''gain'', cb_value = CvNumber 0x3FF0000000000000\<rparr>],
      dl_seed = 3, dl_stream_generation = 1\<rparr>"

lemma sample_deck_load_valid: "validate_deck_load sample_deck_load = Inr ()"
  by (simp add: sample_deck_load_def sample_source_def validate_deck_load_def
      validate_deck_load_runtime_def validate_source_binding_def validate_role_binding_def
      validate_control_binding_def validate_control_value_def f64_is_finite_def try_iffs
      field_iffs is_identifier_byte_v2_def is_version_byte_def is_lower_hex_v2_def
      ascii_defs slot_out_of_range_def MAX_SOURCES_def list_all_iff)

theorem deck_load_well_formed_witness:
  "dl_sources sample_deck_load \<noteq> [] \<and> length (dl_sources sample_deck_load) \<le> 16 \<and>
    list_all (\<lambda>s. 1 \<le> unat (sb_physical_slot s) \<and> unat (sb_physical_slot s) \<le> 16)
      (dl_sources sample_deck_load) \<and>
    list_all (\<lambda>role. \<exists>source. filter (\<lambda>s. sb_physical_slot s = rb2_physical_slot role)
      (dl_sources sample_deck_load) = [source]) (dl_roles sample_deck_load)"
  using deck_load_well_formed [OF sample_deck_load_valid] by simp

end
