(* ===== verification/Protocol2_Messages.thy ===== *)
theory Protocol2_Messages
  imports Protocol2_Commands
begin

text \<open>
  Worker Protocol 2, the messages of the worker and the envelope (\<open>crates/control/src/v2.rs\<close>):
  acknowledgements, errors and events with their \<open>validate\<close> methods. The constructors of
  \<open>Ack\<close> start with \<open>A2\<close>.
\<close>

section \<open>Status and codec\<close>

record status_snapshot_v2 =
  st2_session :: session_state_v2
  st2_codec :: codec_state_v2
  st2_player :: player_state
  st2_deck :: deck_state
  st2_capture :: capture_state
  st2_open_session_count :: u8
  st2_foreground_output_session :: "uuid option"
  st2_output_lease_pinned :: bool

definition validate_status_v2 :: "status_snapshot_v2 \<Rightarrow> unit result_v2" where
  "validate_status_v2 v = in_order
     [refuse (st2_open_session_count v > MAX_WARM_SESSIONS_V2)
        (V2BoundExceeded ''status.open_session_count''),
      refuse (st2_output_lease_pinned v \<and> st2_foreground_output_session v = None)
        (V2InvalidField ''status.output_lease_pinned''),
      refuse (st2_foreground_output_session v = Some 0)
        (V2NilIdentifier ''status.foreground_output_session'')]"

record session_configured_v2 =
  scd2_selected_protocol_version :: u16
  scd2_maximum_frame_bytes :: u32
  scd2_accepted_capabilities :: "capability list"

definition validate_session_configured_v2 :: "session_configured_v2 \<Rightarrow> unit result_v2" where
  "validate_session_configured_v2 v = in_order
     [refuse (scd2_selected_protocol_version v \<noteq> PROTOCOL_VERSION \<or>
              unat (scd2_maximum_frame_bytes v) \<noteq> MAX_FRAME_BYTES \<or>
              scd2_accepted_capabilities v = [])
        (V2InvalidField ''session.configured''),
      unique_capabilities (scd2_accepted_capabilities v)]"

record codec_descriptor =
  cde_pack_id :: string
  cde_pack_version :: string
  cde_adapter_id :: string
  cde_adapter_version :: string
  cde_host_api_version :: string
  cde_capabilities :: "capability list"
  cde_profiles :: "profile_key list"

definition profile_identity :: "profile_key \<Rightarrow> string \<times> string \<times> string" where
  "profile_identity p = (pk_codec_family p, pk_profile p, pk_profile_version p)"

definition validate_codec_descriptor :: "codec_descriptor \<Rightarrow> unit result_v2" where
  "validate_codec_descriptor v = in_order
     [identifier_v2 (cde_pack_id v) ''codec.pack_id'',
      version_v2 (cde_pack_version v) ''codec.pack_version'',
      identifier_v2 (cde_adapter_id v) ''codec.adapter_id'',
      version_v2 (cde_adapter_version v) ''codec.adapter_version'',
      refuse (cde_host_api_version v \<noteq> ''2.0'' \<or> cde_capabilities v = [] \<or> cde_profiles v = [])
        (V2InvalidField ''codec.descriptor''),
      unique_capabilities (cde_capabilities v),
      refuse (\<not> list_all (\<lambda>required. required \<in> set (cde_capabilities v)) REQUIRED_CODEC_V2)
        (V2InvalidField ''codec.capabilities''),
      try_all validate_profile_key (cde_profiles v),
      unique_by (cde_profiles v) profile_identity ''codec.profiles'']"

record codec_loaded_v2 =
  cld2_pack_id :: string
  cld2_pack_version :: string
  cld2_adapter_id :: string
  cld2_adapter_version :: string
  cld2_device :: device_kind
  cld2_device_ordinal :: u8

definition validate_codec_loaded_v2 :: "codec_loaded_v2 \<Rightarrow> unit result_v2" where
  "validate_codec_loaded_v2 v = in_order
     [identifier_v2 (cld2_pack_id v) ''codec.pack_id'',
      version_v2 (cld2_pack_version v) ''codec.pack_version'',
      identifier_v2 (cld2_adapter_id v) ''codec.adapter_id'',
      version_v2 (cld2_adapter_version v) ''codec.adapter_version'']"

record codec_unloaded =
  cud_pack_id :: string
  cud_pack_version :: string

definition validate_codec_unloaded :: "codec_unloaded \<Rightarrow> unit result_v2" where
  "validate_codec_unloaded v = in_order
     [identifier_v2 (cud_pack_id v) ''codec.pack_id'',
      version_v2 (cud_pack_version v) ''codec.pack_version'']"

section \<open>Sources, rings and profiles\<close>

record source_opened =
  sop_source_id :: uuid
  sop_cartridge_id :: uuid
  sop_archive_sha256 :: string

definition validate_source_opened :: "source_opened \<Rightarrow> unit result_v2" where
  "validate_source_opened v = in_order
     [non_nil (sop_source_id v) ''source.source_id'',
      non_nil (sop_cartridge_id v) ''source.cartridge_id'',
      sha256 (sop_archive_sha256 v) ''source.archive_sha256'']"

record source_closed =
  sod_source_id :: uuid

definition validate_source_closed :: "source_closed \<Rightarrow> unit result_v2" where
  "validate_source_closed v = non_nil (sod_source_id v) ''source.source_id''"

record ring_configured =
  rcd_ring_id :: uuid
  rcd_kind :: ring_kind
  rcd_slot_count :: u8
  rcd_slot_bytes :: u64

definition validate_ring_configured :: "ring_configured \<Rightarrow> unit result_v2" where
  "validate_ring_configured v = in_order
     [non_nil (rcd_ring_id v) ''ring.ring_id'',
      refuse (\<not> (2 \<le> rcd_slot_count v \<and> rcd_slot_count v \<le> MAX_DECODE_BATCH) \<or>
              rcd_slot_bytes v = 0)
        (V2InvalidField ''ring.geometry'')]"

record ring_released =
  rrd_ring_id :: uuid

definition validate_ring_released :: "ring_released \<Rightarrow> unit result_v2" where
  "validate_ring_released v = non_nil (rrd_ring_id v) ''ring.ring_id''"

record profile_inspection =
  pis_source_id :: uuid
  pis_cartridge_id :: uuid
  pis_archive_sha256 :: string
  pis_payload_sha256 :: string
  pis_profile_key :: profile_key
  pis_signal_geometry :: signal_geometry_v2

definition validate_profile_inspection :: "profile_inspection \<Rightarrow> unit result_v2" where
  "validate_profile_inspection v = in_order
     [non_nil (pis_source_id v) ''profile.source_id'',
      non_nil (pis_cartridge_id v) ''profile.cartridge_id'',
      sha256 (pis_archive_sha256 v) ''profile.archive_sha256'',
      sha256 (pis_payload_sha256 v) ''profile.payload_sha256'',
      validate_profile_key (pis_profile_key v),
      validate_signal_geometry (pis_signal_geometry v)]"

section \<open>Player\<close>

record player_status_snapshot =
  pss_player_session_id :: uuid
  pss_state :: player_state
  pss_stream_generation :: u64
  pss_stream_sequence :: u64
  pss_playhead_slot :: u64
  pss_end_of_stream :: bool
  pss_decoded_ring_id :: "uuid option"

definition validate_player_status_snapshot :: "player_status_snapshot \<Rightarrow> unit result_v2" where
  "validate_player_status_snapshot v = in_order
     [non_nil (pss_player_session_id v) ''player.session_id'',
      refuse (pss_state v \<noteq> PsEmpty \<and> pss_stream_generation v = 0)
        (V2InvalidField ''player.stream_generation''),
      refuse (pss_decoded_ring_id v = Some 0) (V2NilIdentifier ''player.decoded_ring_id'')]"

record player_step_ack =
  psa_status :: player_status_snapshot
  psa_output_ring_id :: "uuid option"
  psa_output_slot_sequence :: u64
  psa_decoded_frames :: u8

definition validate_player_step_ack :: "player_step_ack \<Rightarrow> unit result_v2" where
  "validate_player_step_ack v = in_order
     [validate_player_status_snapshot (psa_status v),
      refuse (psa_decoded_frames v > MAX_DECODE_BATCH \<or> psa_output_ring_id v = Some 0 \<or>
              psa_decoded_frames v > 0 \<and> psa_output_ring_id v = None)
        (V2InvalidField ''player.step'')]"

section \<open>Deck\<close>

record playhead_snapshot =
  phs_physical_slot :: u8
  phs_latent_slot :: u64
  phs_loop_enabled :: bool
  phs_end_of_stream :: bool

definition validate_playhead :: "playhead_snapshot \<Rightarrow> unit result_v2" where
  "validate_playhead v =
     refuse (slot_out_of_range (phs_physical_slot v))
       (V2InvalidField ''deck.playhead.physical_slot'')"

record provenance_entry =
  pe_key :: string
  pe_value :: control_value

definition validate_provenance_entry :: "provenance_entry \<Rightarrow> unit result_v2" where
  "validate_provenance_entry v = in_order
     [identifier_v2 (pe_key v) ''deck.provenance.key'', validate_control_value (pe_value v)]"

record deck_status_snapshot =
  ds_deck_session_id :: uuid
  ds_state :: deck_state
  ds_deck_revision :: u64
  ds_stream_generation :: u64
  ds_stream_sequence :: u64
  ds_playheads :: "playhead_snapshot list"
  ds_roles :: "role_binding list"
  ds_controls :: "control_binding list"
  ds_source_transport :: "source_transport_binding list"
  ds_seed :: u64
  ds_capture_state :: capture_state

definition validate_deck_status_snapshot :: "deck_status_snapshot \<Rightarrow> unit result_v2" where
  "validate_deck_status_snapshot v = in_order
     [non_nil (ds_deck_session_id v) ''deck.session_id'',
      refuse (ds_state v \<noteq> DsEmpty \<and> (ds_deck_revision v = 0 \<or> ds_stream_generation v = 0))
        (V2InvalidField ''deck.status_identity''),
      try_all validate_playhead (ds_playheads v),
      unique_by (ds_playheads v) phs_physical_slot ''deck.playheads'',
      refuse (length (ds_source_transport v) \<noteq> length (ds_playheads v))
        (V2InvalidField ''deck.source_transport''),
      try_all (\<lambda>source. in_order
        [validate_source_transport source,
         refuse (\<not> list_ex (\<lambda>playhead. phs_physical_slot playhead = stb_physical_slot source)
                      (ds_playheads v))
           (V2InvalidField ''deck.source_transport'')]) (ds_source_transport v),
      unique_by (ds_source_transport v) stb_physical_slot ''deck.source_transport'',
      try_all validate_role_binding (ds_roles v),
      unique_by (ds_roles v) rb2_role ''deck.roles'',
      try_all validate_control_binding (ds_controls v),
      unique_by (ds_controls v) cb_name ''deck.controls'']"

record deck_process_ack =
  dpa_status :: deck_status_snapshot
  dpa_output_ring_id :: uuid
  dpa_output_slot_sequence :: u64
  dpa_provenance :: "provenance_entry list"

definition validate_deck_process_ack :: "deck_process_ack \<Rightarrow> unit result_v2" where
  "validate_deck_process_ack v = in_order
     [validate_deck_status_snapshot (dpa_status v),
      non_nil (dpa_output_ring_id v) ''deck.output_ring_id'',
      positive (dpa_output_slot_sequence v) ''deck.output_slot_sequence'',
      try_all validate_provenance_entry (dpa_provenance v),
      unique_by (dpa_provenance v) pe_key ''deck.provenance'']"

section \<open>Capture, metrics and shutdown\<close>

record capture_artifact =
  ca_staged_payload_path :: string
  ca_payload_sha256 :: string
  ca_payload_byte_length :: u64
  ca_latent_slots :: u64
  ca_decoded_frame_count :: u64

definition validate_capture_artifact :: "capture_artifact \<Rightarrow> unit result_v2" where
  "validate_capture_artifact v = in_order
     [absolute_path (ca_staged_payload_path v) ''capture.staged_payload_path'',
      sha256 (ca_payload_sha256 v) ''capture.payload_sha256'',
      positive (ca_payload_byte_length v) ''capture.payload_byte_length'',
      refuse (\<not> (1 \<le> ca_latent_slots v \<and> ca_latent_slots v \<le> MAX_CAPTURE_LATENT_SLOTS))
        (V2InvalidField ''capture.latent_slots''),
      positive (ca_decoded_frame_count v) ''capture.decoded_frame_count'']"

record capture_status_snapshot =
  css_deck_session_id :: uuid
  css_deck_revision :: u64
  css_capture_id :: uuid
  css_state :: capture_state
  css_mode :: capture_mode
  css_latent_slots :: u64
  css_reset_events :: u32
  css_artifact :: "capture_artifact option"

definition validate_capture_state_artifact :: "capture_status_snapshot \<Rightarrow> unit result_v2" where
  "validate_capture_state_artifact v = (case (css_state v, css_artifact v) of
       (CaCompleted, Some artifact) \<Rightarrow> in_order
         [validate_capture_artifact artifact,
          refuse (ca_latent_slots artifact \<noteq> css_latent_slots v) (V2InvalidField ''capture.artifact'')]
     | (CaCompleted, None) \<Rightarrow> Inl (V2InvalidField ''capture.artifact'')
     | (_, Some _) \<Rightarrow> Inl (V2InvalidField ''capture.artifact'')
     | (_, None) \<Rightarrow> Inr ())"

definition validate_capture_status_snapshot :: "capture_status_snapshot \<Rightarrow> unit result_v2" where
  "validate_capture_status_snapshot v = in_order
     [non_nil (css_deck_session_id v) ''capture.deck_session_id'',
      non_nil (css_capture_id v) ''capture.capture_id'',
      positive (css_deck_revision v) ''capture.deck_revision'',
      refuse (css_latent_slots v > MAX_CAPTURE_LATENT_SLOTS \<or> css_reset_events v > MAX_CAPTURE_EVENTS)
        (V2InvalidField ''capture.bounds''),
      refuse (css_state v = CaIdle) (V2InvalidField ''capture.state''),
      validate_capture_state_artifact v]"

record metrics_snapshot_v2 =
  ms2_worker_uptime_ns :: u64
  ms2_commands_total :: u64
  ms2_commands_failed_total :: u64
  ms2_player_steps_total :: u64
  ms2_deck_process_total :: u64
  ms2_capture_slots_total :: u64
  ms2_decoded_frames_total :: u64

record shutdown_ack =
  sa_reason :: shutdown_reason_v2

section \<open>Acknowledgements\<close>

datatype (plugins only: ) ack_v2 =
    A2SessionConfigure session_configured_v2
  | A2SessionStatus status_snapshot_v2
  | A2SessionShutdown shutdown_ack
  | A2CodecDescriptor codec_descriptor
  | A2CodecLoad codec_loaded_v2
  | A2CodecUnload codec_unloaded
  | A2SourceOpen source_opened
  | A2SourceClose source_closed
  | A2RingConfigure ring_configured
  | A2RingRelease ring_released
  | A2ProfileInspect profile_inspection
  | A2ProfileValidate profile_receipt
  | A2RawImportPreflight raw_import_preflight
  | A2RawImportStage raw_import_artifact
  | A2RawImportAbort raw_import_aborted
  | A2PlayerOpen player_status_snapshot
  | A2PlayerStep player_step_ack
  | A2PlayerReset player_status_snapshot
  | A2PlayerStatus player_status_snapshot
  | A2DeckLoad deck_status_snapshot
  | A2DeckProcess deck_process_ack
  | A2DeckControlsSet deck_status_snapshot
  | A2DeckRolesSet deck_status_snapshot
  | A2DeckTransportSet deck_status_snapshot
  | A2DeckSeedSet deck_status_snapshot
  | A2DeckReset deck_status_snapshot
  | A2DeckRestart deck_status_snapshot
  | A2DeckStatus deck_status_snapshot
  | A2CaptureStart capture_status_snapshot
  | A2CaptureStop capture_status_snapshot
  | A2CaptureStatus capture_status_snapshot
  | A2MetricsGet metrics_snapshot_v2

primrec ack_name_of_v2 :: "ack_v2 \<Rightarrow> command_name_v2" where
  "ack_name_of_v2 (A2SessionConfigure v) = N2SessionConfigure"
| "ack_name_of_v2 (A2SessionStatus v) = N2SessionStatus"
| "ack_name_of_v2 (A2SessionShutdown v) = N2SessionShutdown"
| "ack_name_of_v2 (A2CodecDescriptor v) = N2CodecDescriptor"
| "ack_name_of_v2 (A2CodecLoad v) = N2CodecLoad"
| "ack_name_of_v2 (A2CodecUnload v) = N2CodecUnload"
| "ack_name_of_v2 (A2SourceOpen v) = N2SourceOpen"
| "ack_name_of_v2 (A2SourceClose v) = N2SourceClose"
| "ack_name_of_v2 (A2RingConfigure v) = N2RingConfigure"
| "ack_name_of_v2 (A2RingRelease v) = N2RingRelease"
| "ack_name_of_v2 (A2ProfileInspect v) = N2ProfileInspect"
| "ack_name_of_v2 (A2ProfileValidate v) = N2ProfileValidate"
| "ack_name_of_v2 (A2RawImportPreflight v) = N2RawImportPreflight"
| "ack_name_of_v2 (A2RawImportStage v) = N2RawImportStage"
| "ack_name_of_v2 (A2RawImportAbort v) = N2RawImportAbort"
| "ack_name_of_v2 (A2PlayerOpen v) = N2PlayerOpen"
| "ack_name_of_v2 (A2PlayerStep v) = N2PlayerStep"
| "ack_name_of_v2 (A2PlayerReset v) = N2PlayerReset"
| "ack_name_of_v2 (A2PlayerStatus v) = N2PlayerStatus"
| "ack_name_of_v2 (A2DeckLoad v) = N2DeckLoad"
| "ack_name_of_v2 (A2DeckProcess v) = N2DeckProcess"
| "ack_name_of_v2 (A2DeckControlsSet v) = N2DeckControlsSet"
| "ack_name_of_v2 (A2DeckRolesSet v) = N2DeckRolesSet"
| "ack_name_of_v2 (A2DeckTransportSet v) = N2DeckTransportSet"
| "ack_name_of_v2 (A2DeckSeedSet v) = N2DeckSeedSet"
| "ack_name_of_v2 (A2DeckReset v) = N2DeckReset"
| "ack_name_of_v2 (A2DeckRestart v) = N2DeckRestart"
| "ack_name_of_v2 (A2DeckStatus v) = N2DeckStatus"
| "ack_name_of_v2 (A2CaptureStart v) = N2CaptureStart"
| "ack_name_of_v2 (A2CaptureStop v) = N2CaptureStop"
| "ack_name_of_v2 (A2CaptureStatus v) = N2CaptureStatus"
| "ack_name_of_v2 (A2MetricsGet v) = N2MetricsGet"

primrec validate_ack_v2 :: "ack_v2 \<Rightarrow> unit result_v2" where
  "validate_ack_v2 (A2SessionConfigure v) = validate_session_configured_v2 v"
| "validate_ack_v2 (A2SessionStatus v) = validate_status_v2 v"
| "validate_ack_v2 (A2SessionShutdown v) = Inr ()"
| "validate_ack_v2 (A2CodecDescriptor v) = validate_codec_descriptor v"
| "validate_ack_v2 (A2CodecLoad v) = validate_codec_loaded_v2 v"
| "validate_ack_v2 (A2CodecUnload v) = validate_codec_unloaded v"
| "validate_ack_v2 (A2SourceOpen v) = validate_source_opened v"
| "validate_ack_v2 (A2SourceClose v) = validate_source_closed v"
| "validate_ack_v2 (A2RingConfigure v) = validate_ring_configured v"
| "validate_ack_v2 (A2RingRelease v) = validate_ring_released v"
| "validate_ack_v2 (A2ProfileInspect v) = validate_profile_inspection v"
| "validate_ack_v2 (A2ProfileValidate v) = validate_profile_receipt v"
| "validate_ack_v2 (A2RawImportPreflight v) = validate_raw_import_preflight v"
| "validate_ack_v2 (A2RawImportStage v) = validate_raw_import_artifact v"
| "validate_ack_v2 (A2RawImportAbort v) = validate_raw_import_aborted v"
| "validate_ack_v2 (A2PlayerOpen v) = validate_player_status_snapshot v"
| "validate_ack_v2 (A2PlayerStep v) = validate_player_step_ack v"
| "validate_ack_v2 (A2PlayerReset v) = validate_player_status_snapshot v"
| "validate_ack_v2 (A2PlayerStatus v) = validate_player_status_snapshot v"
| "validate_ack_v2 (A2DeckLoad v) = validate_deck_status_snapshot v"
| "validate_ack_v2 (A2DeckProcess v) = validate_deck_process_ack v"
| "validate_ack_v2 (A2DeckControlsSet v) = validate_deck_status_snapshot v"
| "validate_ack_v2 (A2DeckRolesSet v) = validate_deck_status_snapshot v"
| "validate_ack_v2 (A2DeckTransportSet v) = validate_deck_status_snapshot v"
| "validate_ack_v2 (A2DeckSeedSet v) = validate_deck_status_snapshot v"
| "validate_ack_v2 (A2DeckReset v) = validate_deck_status_snapshot v"
| "validate_ack_v2 (A2DeckRestart v) = validate_deck_status_snapshot v"
| "validate_ack_v2 (A2DeckStatus v) = validate_deck_status_snapshot v"
| "validate_ack_v2 (A2CaptureStart v) = validate_capture_status_snapshot v"
| "validate_ack_v2 (A2CaptureStop v) = validate_capture_status_snapshot v"
| "validate_ack_v2 (A2CaptureStatus v) = validate_capture_status_snapshot v"
| "validate_ack_v2 (A2MetricsGet v) = Inr ()"

section \<open>Errors, events and the envelope\<close>

record error_detail_v2 =
  ed2_key :: string
  ed2_value :: string

definition validate_error_detail_v2 :: "error_detail_v2 \<Rightarrow> unit result_v2" where
  "validate_error_detail_v2 v = in_order
     [identifier_v2 (ed2_key v) ''error.detail.key'',
      bounded_text (ed2_value v) ''error.detail.value'' MAX_TEXT_BYTES]"

record error_payload_v2 =
  ep2_code :: error_code_v2
  ep2_message :: string
  ep2_retryable :: bool
  ep2_fatal :: bool
  ep2_status :: status_snapshot_v2
  ep2_diagnostic_id :: uuid
  ep2_details :: "error_detail_v2 list"

definition validate_error_payload_v2 :: "error_payload_v2 \<Rightarrow> unit result_v2" where
  "validate_error_payload_v2 v = in_order
     [bounded_text (ep2_message v) ''error.message'' MAX_TEXT_BYTES,
      validate_status_v2 (ep2_status v),
      non_nil (ep2_diagnostic_id v) ''error.diagnostic_id'',
      try_all validate_error_detail_v2 (ep2_details v),
      unique_by (ep2_details v) ed2_key ''error.details'']"

record ack_reply_v2 =
  ar2_reply_to :: uuid
  ar2_ack :: ack_v2
  ar2_status :: status_snapshot_v2

record error_reply_v2 =
  er2_reply_to :: uuid
  er2_name :: command_name_v2
  er2_error :: error_payload_v2

record worker_hello_v2 =
  wh2_auth_token :: "u8 list"
  wh2_worker_pid :: u32
  wh2_worker_identity :: string
  wh2_runtime_identity :: string
  wh2_protocol_min :: u16
  wh2_protocol_max :: u16

definition validate_worker_hello_v2 :: "worker_hello_v2 \<Rightarrow> unit result_v2" where
  "validate_worker_hello_v2 v = in_order
     [refuse (wh2_worker_pid v = 0) (V2InvalidField ''worker_hello.worker_pid''),
      bounded_text (wh2_worker_identity v) ''worker_hello.worker_identity'' MAX_IDENTIFIER_BYTES_V2,
      bounded_text (wh2_runtime_identity v) ''worker_hello.runtime_identity'' MAX_TEXT_BYTES,
      refuse (wh2_protocol_min v \<noteq> PROTOCOL_VERSION \<or> wh2_protocol_max v \<noteq> PROTOCOL_VERSION)
        (V2UnsupportedVersion (min (wh2_protocol_min v) (wh2_protocol_max v)))]"

datatype event_v2 =
    WorkerHelloEvent worker_hello_v2
  | StatusChangedEvent status_snapshot_v2
  | WorkerHeartbeatEvent status_snapshot_v2
  | WorkerFaultEvent error_payload_v2

record event_message_v2 =
  em2_caused_by :: "uuid option"
  em2_event :: event_v2

datatype message_v2 =
    M2Command command_v2
  | M2Ack ack_reply_v2
  | M2Error error_reply_v2
  | M2Event event_message_v2

definition validate_event_v2 :: "event_v2 \<Rightarrow> unit result_v2" where
  "validate_event_v2 e = (case e of
       WorkerHelloEvent hello \<Rightarrow> validate_worker_hello_v2 hello
     | StatusChangedEvent status \<Rightarrow> validate_status_v2 status
     | WorkerHeartbeatEvent status \<Rightarrow> validate_status_v2 status
     | WorkerFaultEvent error \<Rightarrow> validate_error_payload_v2 error)"

primrec validate_message_v2 :: "message_v2 \<Rightarrow> unit result_v2" where
  "validate_message_v2 (M2Command command) = validate_command_v2 command"
| "validate_message_v2 (M2Ack reply) = in_order
     [non_nil (ar2_reply_to reply) ''ack.reply_to'',
      validate_ack_v2 (ar2_ack reply),
      validate_status_v2 (ar2_status reply)]"
| "validate_message_v2 (M2Error reply) = in_order
     [non_nil (er2_reply_to reply) ''error.reply_to'',
      validate_error_payload_v2 (er2_error reply)]"
| "validate_message_v2 (M2Event event) = in_order
     [refuse (em2_caused_by event = Some 0) (V2NilIdentifier ''event.caused_by''),
      validate_event_v2 (em2_event event)]"

datatype protocol_marker = LatentDeckWorker

record envelope_v2 =
  en2_protocol :: protocol_marker
  en2_protocol_version :: u16
  en2_session_id :: uuid
  en2_sequence :: u64
  en2_message_id :: uuid
  en2_sender_uptime_ns :: u64
  en2_message :: message_v2

definition new_envelope_v2 ::
    "uuid \<Rightarrow> u64 \<Rightarrow> uuid \<Rightarrow> u64 \<Rightarrow> message_v2 \<Rightarrow> envelope_v2" where
  "new_envelope_v2 session_id sequence message_id sender_uptime_ns message =
     \<lparr>en2_protocol = LatentDeckWorker, en2_protocol_version = PROTOCOL_VERSION,
      en2_session_id = session_id, en2_sequence = sequence, en2_message_id = message_id,
      en2_sender_uptime_ns = sender_uptime_ns, en2_message = message\<rparr>"

definition validate_envelope_v2 :: "envelope_v2 \<Rightarrow> unit result_v2" where
  "validate_envelope_v2 v = in_order
     [refuse (en2_protocol_version v \<noteq> PROTOCOL_VERSION)
        (V2UnsupportedVersion (en2_protocol_version v)),
      non_nil (en2_session_id v) ''envelope.session_id'',
      non_nil (en2_message_id v) ''envelope.message_id'',
      refuse (en2_sequence v = 0) (V2InvalidField ''envelope.sequence''),
      validate_message_v2 (en2_message v)]"

section \<open>What valid snapshots guarantee\<close>

text \<open>Deck status snapshots are coherent. In a snapshot that passes validation the source
  transports and the playheads are for the same physical slots, each slot once and at most
  sixteen of them, although the code only compares the lengths and looks for one inclusion; role
  and control names are not repeated, and only an empty deck has revision or generation zero.\<close>

theorem deck_status_slots_agree:
  assumes "validate_deck_status_snapshot v = Inr ()"
  shows "set (map stb_physical_slot (ds_source_transport v)) =
      set (map phs_physical_slot (ds_playheads v)) \<and>
    distinct (map stb_physical_slot (ds_source_transport v)) \<and>
    distinct (map phs_physical_slot (ds_playheads v)) \<and>
    length (ds_source_transport v) \<le> 16 \<and>
    distinct (map rb2_role (ds_roles v)) \<and> distinct (map cb_name (ds_controls v)) \<and>
    (ds_deck_revision v = 0 \<or> ds_stream_generation v = 0 \<longrightarrow> ds_state v = DsEmpty)"
proof -
  let ?T = "map stb_physical_slot (ds_source_transport v)"
    and ?P = "map phs_physical_slot (ds_playheads v)"
  have T: "distinct ?T" "\<forall>s\<in>set ?T. \<not> slot_out_of_range s"
      "\<forall>t\<in>set (ds_source_transport v). \<exists>p\<in>set (ds_playheads v). phs_physical_slot p = stb_physical_slot t"
    and P: "distinct ?P" and len: "length ?T = length ?P"
    and rest: "distinct (map rb2_role (ds_roles v))" "distinct (map cb_name (ds_controls v))"
      "ds_state v = DsEmpty \<or> ds_deck_revision v \<noteq> 0 \<and> ds_stream_generation v \<noteq> 0"
    using assms by (auto simp: validate_deck_status_snapshot_def validate_source_transport_def
        try_iffs field_iffs list_ex_iff)
  have "card (set ?T) = card (set ?P)"
    using T(1) P len by (metis distinct_card)
  then have "set ?T = set ?P"
    using T(3) by (intro card_subset_eq) force+
  moreover have "length ?T \<le> 16"
    using distinct_slots_bounded [OF T(1,2)] .
  ultimately show ?thesis
    using T(1) P rest by auto
qed

definition sample_deck_status :: deck_status_snapshot where
  "sample_deck_status =
     \<lparr>ds_deck_session_id = 1, ds_state = DsPlaying, ds_deck_revision = 1, ds_stream_generation = 1,
      ds_stream_sequence = 0,
      ds_playheads =
        [\<lparr>phs_physical_slot = 1, phs_latent_slot = 0, phs_loop_enabled = True,
          phs_end_of_stream = False\<rparr>,
         \<lparr>phs_physical_slot = 3, phs_latent_slot = 7, phs_loop_enabled = False,
          phs_end_of_stream = False\<rparr>],
      ds_roles = [], ds_controls = [],
      ds_source_transport =
        [\<lparr>stb_physical_slot = 3, stb_playing = True, stb_loop_enabled = False\<rparr>,
         \<lparr>stb_physical_slot = 1, stb_playing = False, stb_loop_enabled = True\<rparr>],
      ds_seed = 0, ds_capture_state = CaIdle\<rparr>"

lemma sample_deck_status_valid: "validate_deck_status_snapshot sample_deck_status = Inr ()"
  by (simp add: sample_deck_status_def validate_deck_status_snapshot_def validate_playhead_def
      validate_source_transport_def try_iffs field_iffs slot_out_of_range_def MAX_SOURCES_def)

theorem deck_status_slots_agree_witness:
  "set (map stb_physical_slot (ds_source_transport sample_deck_status)) =
      set (map phs_physical_slot (ds_playheads sample_deck_status)) \<and>
    length (ds_source_transport sample_deck_status) \<le> 16"
  using deck_status_slots_agree [OF sample_deck_status_valid] by simp

lemma capture_artifact_iff_completed:
  assumes "validate_capture_status_snapshot v = Inr ()"
  shows "css_state v = CaCompleted \<longleftrightarrow> css_artifact v \<noteq> None"
    and "css_artifact v = Some a \<Longrightarrow> ca_latent_slots a = css_latent_slots v \<and> css_latent_slots v \<noteq> 0"
  using assms by (auto simp: validate_capture_status_snapshot_def validate_capture_state_artifact_def
      validate_capture_artifact_def try_iffs split: capture_state.splits option.splits)

end
