(* ===== verification/Protocol2_Codec.thy ===== *)
theory Protocol2_Codec
  imports Protocol2_Messages
begin

text \<open>
  Worker Protocol 2, encoding and decoding of single envelopes (\<open>crates/control/src/v2.rs\<close>):
  the length bound, the validation and the check for trailing data around the serializers. The
  crates \<open>serde_json\<close> and \<open>rmp_serde\<close> are parameters: a serializer gives the bytes or its
  error text; the JSON deserializer gives an envelope and the bytes it has not read, which
  \<open>jc_at_end\<close> judges (\<open>Deserializer::end\<close>); the MessagePack one gives an envelope and the
  position of its cursor.
\<close>

datatype codec_error_v2 =
    CodecFrameLength
  | CodecJson string
  | CodecMessagePack string
  | CodecTrailingData
  | CodecValidation validation_error_v2

record json_codec =
  jc_to_vec :: "envelope_v2 \<Rightarrow> string + u8 list"
  jc_deserialize :: "u8 list \<Rightarrow> string + envelope_v2 \<times> u8 list"
  jc_at_end :: "u8 list \<Rightarrow> bool"

record messagepack_codec =
  mc_to_vec_named :: "envelope_v2 \<Rightarrow> string + u8 list"
  mc_deserialize :: "u8 list \<Rightarrow> string + envelope_v2 \<times> nat"

definition ensure_frame_length :: "nat \<Rightarrow> codec_error_v2 + unit" where
  "ensure_frame_length n = refuse (\<not> (1 \<le> n \<and> n \<le> MAX_FRAME_BYTES)) CodecFrameLength"

definition encode_json :: "json_codec \<Rightarrow> envelope_v2 \<Rightarrow> codec_error_v2 + u8 list" where
  "encode_json c e =
     try_bind (map_err CodecValidation (validate_envelope_v2 e)) (\<lambda>_.
     try_bind (map_err CodecJson (jc_to_vec c e)) (\<lambda>payload.
     try_bind (ensure_frame_length (length payload)) (\<lambda>_.
     Inr payload)))"

definition decode_json :: "json_codec \<Rightarrow> u8 list \<Rightarrow> codec_error_v2 + envelope_v2" where
  "decode_json c payload =
     try_bind (ensure_frame_length (length payload)) (\<lambda>_.
     try_bind (map_err CodecJson (jc_deserialize c payload)) (\<lambda>(e, rest).
     try_bind (refuse (\<not> jc_at_end c rest) CodecTrailingData) (\<lambda>_.
     try_bind (map_err CodecValidation (validate_envelope_v2 e)) (\<lambda>_.
     Inr e))))"

definition encode_messagepack ::
    "messagepack_codec \<Rightarrow> envelope_v2 \<Rightarrow> codec_error_v2 + u8 list" where
  "encode_messagepack c e =
     try_bind (map_err CodecValidation (validate_envelope_v2 e)) (\<lambda>_.
     try_bind (map_err CodecMessagePack (mc_to_vec_named c e)) (\<lambda>payload.
     try_bind (ensure_frame_length (length payload)) (\<lambda>_.
     Inr payload)))"

definition decode_messagepack_value ::
    "(u8 list \<Rightarrow> string + 'a \<times> nat) \<Rightarrow> u8 list \<Rightarrow> codec_error_v2 + 'a" where
  "decode_messagepack_value deserialize payload =
     try_bind (map_err CodecMessagePack (deserialize payload)) (\<lambda>(v, position).
     if position \<noteq> length payload then Inl CodecTrailingData else Inr v)"

definition decode_messagepack ::
    "messagepack_codec \<Rightarrow> u8 list \<Rightarrow> codec_error_v2 + envelope_v2" where
  "decode_messagepack c payload =
     try_bind (ensure_frame_length (length payload)) (\<lambda>_.
     decode_messagepack_value (mc_deserialize c) payload)"

lemma ensure_frame_length_Inr [field_iffs]:
  "ensure_frame_length n = Inr u \<longleftrightarrow> 1 \<le> n \<and> n \<le> 262144"
  by (simp add: ensure_frame_length_def try_iffs constants_v2)

section \<open>Properties\<close>

text \<open>The two decoders. A JSON payload is accepted exactly when it has 1 to 262144 bytes,
  holds one envelope and nothing after it, and the envelope is valid. A MessagePack payload is
  accepted under the same conditions but the last: \<open>decode_messagepack\<close> does not validate the
  envelope it returns, so that a payload whose envelope is invalid decodes.\<close>

theorem decoders_exact:
  "(decode_json jc payload = Inr e \<longleftrightarrow>
      1 \<le> length payload \<and> length payload \<le> 262144 \<and>
      (\<exists>rest. jc_deserialize jc payload = Inr (e, rest) \<and> jc_at_end jc rest) \<and>
      validate_envelope_v2 e = Inr ()) \<and>
   (decode_messagepack mc payload = Inr e \<longleftrightarrow>
      1 \<le> length payload \<and> length payload \<le> 262144 \<and>
      mc_deserialize mc payload = Inr (e, length payload))"
  unfolding decode_json_def decode_messagepack_def decode_messagepack_value_def
  by (auto simp: try_iffs field_iffs)

text \<open>Round trip. An envelope that is encoded is valid, its payload is within the bound of a
  frame, and decoding the payload gives the envelope back, for JSON and for MessagePack, provided
  the deserializers read back what the serializers write, to its last byte.\<close>

theorem encode_decode_roundtrip:
  assumes "\<And>e payload. jc_to_vec jc e = Inr payload \<Longrightarrow> jc_deserialize jc payload = Inr (e, [])"
    and "jc_at_end jc []"
    and "\<And>e payload. mc_to_vec_named mc e = Inr payload \<Longrightarrow>
           mc_deserialize mc payload = Inr (e, length payload)"
    and "encode_json jc e = Inr p" and "encode_messagepack mc e = Inr q"
  shows "decode_json jc p = Inr e \<and> decode_messagepack mc q = Inr e \<and>
    validate_envelope_v2 e = Inr () \<and> length p \<le> 262144 \<and> length q \<le> 262144"
  using assms
  by (auto simp: encode_json_def encode_messagepack_def decode_json_def decode_messagepack_def
      decode_messagepack_value_def try_iffs field_iffs)

text \<open>A status event of a session, and serializers that know this one envelope.\<close>

definition sample_envelope :: "u64 \<Rightarrow> envelope_v2" where
  "sample_envelope sequence = new_envelope_v2 1 sequence 2 0
     (M2Event \<lparr>em2_caused_by = None,
       em2_event = StatusChangedEvent
         \<lparr>st2_session = SsReady, st2_codec = CsUnloaded, st2_player = PsEmpty, st2_deck = DsEmpty,
          st2_capture = CaIdle, st2_open_session_count = 0, st2_foreground_output_session = None,
          st2_output_lease_pinned = False\<rparr>\<rparr>)"

definition sample_json :: "envelope_v2 \<Rightarrow> json_codec" where
  "sample_json s =
     \<lparr>jc_to_vec = (\<lambda>e. if e = s then Inr [123, 125] else Inl ''unsupported''),
      jc_deserialize = (\<lambda>b. if b = [123, 125] then Inr (s, []) else Inl ''syntax''),
      jc_at_end = (\<lambda>rest. rest = [])\<rparr>"

definition sample_messagepack :: "envelope_v2 \<Rightarrow> messagepack_codec" where
  "sample_messagepack s =
     \<lparr>mc_to_vec_named = (\<lambda>e. if e = s then Inr [128] else Inl ''unsupported''),
      mc_deserialize = (\<lambda>b. if b = [128] then Inr (s, 1) else Inl ''marker'')\<rparr>"

lemmas sample_defs = sample_envelope_def sample_json_def sample_messagepack_def
  new_envelope_v2_def

lemma sample_valid: "validate_envelope_v2 (sample_envelope 1) = Inr ()"
  by (simp add: sample_defs validate_envelope_v2_def validate_event_v2_def validate_status_v2_def
      non_nil_def MAX_WARM_SESSIONS_V2_def)

theorem encode_decode_roundtrip_witness:
  "decode_json (sample_json (sample_envelope 1)) [123, 125] = Inr (sample_envelope 1) \<and>
   decode_messagepack (sample_messagepack (sample_envelope 1)) [128] = Inr (sample_envelope 1) \<and>
   validate_envelope_v2 (sample_envelope 1) = Inr () \<and>
   length [123, 125 :: u8] \<le> 262144 \<and> length [128 :: u8] \<le> 262144"
  by (rule encode_decode_roundtrip)
    (auto simp: sample_json_def sample_messagepack_def encode_json_def encode_messagepack_def
      sample_valid ensure_frame_length_def MAX_FRAME_BYTES_def split: if_splits)

text \<open>The missing validation of the MessagePack decoder on a concrete payload: an envelope
  with the sequence number zero is refused by the JSON decoder as an invalid field and by both
  encoders, and is returned by the MessagePack decoder, although its documentation promises a
  validation error.\<close>

theorem messagepack_decodes_invalid:
  "validate_envelope_v2 (sample_envelope 0) = Inl (V2InvalidField ''envelope.sequence'') \<and>
   encode_messagepack (sample_messagepack (sample_envelope 0)) (sample_envelope 0) =
     Inl (CodecValidation (V2InvalidField ''envelope.sequence'')) \<and>
   decode_json (sample_json (sample_envelope 0)) [123, 125] =
     Inl (CodecValidation (V2InvalidField ''envelope.sequence'')) \<and>
   decode_messagepack (sample_messagepack (sample_envelope 0)) [128] = Inr (sample_envelope 0)"
proof -
  have bad: "validate_envelope_v2 (sample_envelope 0) = Inl (V2InvalidField ''envelope.sequence'')"
    by (simp add: sample_defs validate_envelope_v2_def non_nil_def)
  show ?thesis
    using bad by (simp add: encode_messagepack_def decode_json_def decode_messagepack_def
        decode_messagepack_value_def sample_json_def sample_messagepack_def
        ensure_frame_length_def MAX_FRAME_BYTES_def)
qed

end
