(* ===== verification/Protocol2_Session.thy ===== *)
theory Protocol2_Session
  imports Protocol2_Messages Log_Machine
begin

text \<open>
  Worker Protocol 2, the ordered session (\<open>SessionValidator\<close> of \<open>crates/control/src/v2.rs\<close>). On
  the side of the host the first inbound frame must be the worker's hello; no command may be
  sent before it, and no second hello is accepted.

  The specification is the log of the accepted operations, as for Protocol 1:
  \<open>session_of_log_v2\<close> computes the state from the log, \<open>log_admits_v2\<close> says what may be appended
  to it, and the run-level facts come from the interpretation of \<open>log_machine\<close>.
\<close>

section \<open>State and operations\<close>

datatype inbound_policy_v2 = CommandsOnlyV2 | ResponsesAndEventsV2

record session_validator_v2 =
  sv2_session_id :: uuid
  sv2_policy :: inbound_policy_v2
  sv2_next_inbound_sequence :: u64
  sv2_next_outbound_sequence :: u64
  sv2_inbound_message_ids :: "uuid fset"
  sv2_outbound_commands :: "(uuid, command_name_v2) fmap"
  sv2_pending_replies :: "uuid fset"
  sv2_worker_hello_received :: bool

definition new_session_validator_v2 :: "uuid \<Rightarrow> inbound_policy_v2 \<Rightarrow> session_validator_v2" where
  "new_session_validator_v2 session_id policy =
     \<lparr>sv2_session_id = session_id, sv2_policy = policy,
      sv2_next_inbound_sequence = 1, sv2_next_outbound_sequence = 1,
      sv2_inbound_message_ids = {||}, sv2_outbound_commands = fmempty,
      sv2_pending_replies = {||}, sv2_worker_hello_received = False\<rparr>"

definition command_count_v2 :: "session_validator_v2 \<Rightarrow> nat" where
  "command_count_v2 s = fcard (fmdom (sv2_outbound_commands s))"

definition track_outbound_command_v2 ::
    "session_validator_v2 \<Rightarrow> envelope_v2 \<Rightarrow> unit result_v2 \<times> session_validator_v2" where
  "track_outbound_command_v2 s e =
     try_with (validate_envelope_v2 e) s (\<lambda>_.
     if en2_session_id e \<noteq> sv2_session_id s then (Inl V2SessionMismatch, s)
     else if sv2_policy s = ResponsesAndEventsV2 \<and> \<not> sv2_worker_hello_received s
     then (Inl V2WorkerHelloRequired, s)
     else case en2_message e of
       M2Command command \<Rightarrow>
         if en2_sequence e \<noteq> sv2_next_outbound_sequence s
         then (Inl (V2SequenceMismatch (sv2_next_outbound_sequence s) (en2_sequence e)), s)
         else if fmlookup (sv2_outbound_commands s) (en2_message_id e) \<noteq> None
         then (Inl V2DuplicateCommandId, s)
         else if command_count_v2 s \<ge> MAX_MESSAGES_PER_SESSION_V2
         then (Inl V2SessionMessageLimit, s)
         else if fcard (sv2_pending_replies s) \<ge> MAX_PENDING_COMMANDS_V2
         then (Inl V2PendingCommandLimit, s)
         else
           let s1 = s\<lparr>sv2_outbound_commands :=
                       fmupd (en2_message_id e) (command_name_of_v2 command)
                         (sv2_outbound_commands s),
                      sv2_pending_replies := finsert (en2_message_id e) (sv2_pending_replies s)\<rparr>
           in try_with (ok_or (checked_add (sv2_next_outbound_sequence s1) 1) V2SessionMessageLimit)
                s1 (\<lambda>n. (Inr (), s1\<lparr>sv2_next_outbound_sequence := n\<rparr>))
     | _ \<Rightarrow> (Inl V2ExpectedCommand, s))"

definition validate_reply_v2 ::
    "session_validator_v2 \<Rightarrow> uuid \<Rightarrow> command_name_v2 \<Rightarrow> unit result_v2" where
  "validate_reply_v2 s reply_to actual_name =
     (if reply_to |\<notin>| sv2_pending_replies s then Inl V2UnknownReply
      else try_bind (ok_or (fmlookup (sv2_outbound_commands s) reply_to) V2UnknownReply)
        (\<lambda>expected_name.
           if actual_name \<noteq> expected_name
           then Inl (V2ReplyNameMismatch expected_name actual_name)
           else Inr ()))"

text \<open>The match of \<open>validate_inbound\<close> on the policy and the message: the command that the
  message completes, if any, and the state in which a hello has been noted.\<close>

definition accept_message_v2 ::
    "session_validator_v2 \<Rightarrow> message_v2 \<Rightarrow> uuid option result_v2 \<times> session_validator_v2" where
  "accept_message_v2 s msg = (case (sv2_policy s, msg) of
       (CommandsOnlyV2, M2Command command) \<Rightarrow> (Inr None, s)
     | (ResponsesAndEventsV2, M2Event event) \<Rightarrow>
         (case em2_event event of
            WorkerHelloEvent hello \<Rightarrow>
              if sv2_worker_hello_received s \<or> sv2_inbound_message_ids s \<noteq> {||} \<or>
                 em2_caused_by event \<noteq> None
              then (Inl V2UnexpectedWorkerHello, s)
              else (Inr None, s\<lparr>sv2_worker_hello_received := True\<rparr>)
          | _ \<Rightarrow>
              if \<not> sv2_worker_hello_received s then (Inl V2WorkerHelloRequired, s)
              else (case em2_caused_by event of
                      Some cause \<Rightarrow>
                        if fmlookup (sv2_outbound_commands s) cause = None
                        then (Inl V2UnknownCause, s) else (Inr None, s)
                    | None \<Rightarrow> (Inr None, s)))
     | (ResponsesAndEventsV2, M2Ack reply) \<Rightarrow>
         if \<not> sv2_worker_hello_received s then (Inl V2WorkerHelloRequired, s)
         else try_with (validate_reply_v2 s (ar2_reply_to reply) (ack_name_of_v2 (ar2_ack reply))) s
                (\<lambda>_. (Inr (Some (ar2_reply_to reply)), s))
     | (ResponsesAndEventsV2, M2Error reply) \<Rightarrow>
         if \<not> sv2_worker_hello_received s then (Inl V2WorkerHelloRequired, s)
         else try_with (validate_reply_v2 s (er2_reply_to reply) (er2_name reply)) s
                (\<lambda>_. (Inr (Some (er2_reply_to reply)), s))
     | _ \<Rightarrow> (Inl V2UnexpectedMessageKind, s))"

definition validate_inbound_v2 ::
    "session_validator_v2 \<Rightarrow> envelope_v2 \<Rightarrow> unit result_v2 \<times> session_validator_v2" where
  "validate_inbound_v2 s e =
     try_with (validate_envelope_v2 e) s (\<lambda>_.
     if en2_session_id e \<noteq> sv2_session_id s then (Inl V2SessionMismatch, s)
     else if en2_sequence e \<noteq> sv2_next_inbound_sequence s
     then (Inl (V2SequenceMismatch (sv2_next_inbound_sequence s) (en2_sequence e)), s)
     else if fcard (sv2_inbound_message_ids s) \<ge> MAX_MESSAGES_PER_SESSION_V2
     then (Inl V2SessionMessageLimit, s)
     else if en2_message_id e |\<in>| sv2_inbound_message_ids s then (Inl V2DuplicateMessageId, s)
     else (case accept_message_v2 s (en2_message e) of
         (Inl error, s1) \<Rightarrow> (Inl error, s1)
       | (Inr completed, s1) \<Rightarrow>
           let s2 = (case completed of
                       Some reply_to \<Rightarrow>
                         s1\<lparr>sv2_pending_replies := sv2_pending_replies s1 |-| {|reply_to|}\<rparr>
                     | None \<Rightarrow> s1);
               s3 = s2\<lparr>sv2_inbound_message_ids :=
                         finsert (en2_message_id e) (sv2_inbound_message_ids s2)\<rparr>
           in try_with (ok_or (checked_add (sv2_next_inbound_sequence s3) 1) V2SessionMessageLimit)
                s3 (\<lambda>n. (Inr (), s3\<lparr>sv2_next_inbound_sequence := n\<rparr>))))"

definition remaining_inbound_message_budget_v2 :: "session_validator_v2 \<Rightarrow> nat" where
  "remaining_inbound_message_budget_v2 s =
     MAX_MESSAGES_PER_SESSION_V2 - fcard (sv2_inbound_message_ids s)"

definition remaining_outbound_message_budget_v2 :: "session_validator_v2 \<Rightarrow> nat" where
  "remaining_outbound_message_budget_v2 s = MAX_MESSAGES_PER_SESSION_V2 - command_count_v2 s"

definition has_pending_reply_v2 :: "session_validator_v2 \<Rightarrow> uuid \<Rightarrow> bool" where
  "has_pending_reply_v2 s command_id = (command_id |\<in>| sv2_pending_replies s)"

datatype session_op_v2 = TrackOutboundV2 envelope_v2 | InboundV2 envelope_v2

primrec session_step_v2 ::
    "session_validator_v2 \<Rightarrow> session_op_v2 \<Rightarrow> unit result_v2 \<times> session_validator_v2" where
  "session_step_v2 s (TrackOutboundV2 e) = track_outbound_command_v2 s e"
| "session_step_v2 s (InboundV2 e) = validate_inbound_v2 s e"

section \<open>The log of a session\<close>

fun op_command_v2 :: "session_op_v2 \<Rightarrow> (uuid \<times> command_name_v2) list" where
  "op_command_v2 (TrackOutboundV2 e) =
     (case en2_message e of M2Command c \<Rightarrow> [(en2_message_id e, command_name_of_v2 c)] | _ \<Rightarrow> [])"
| "op_command_v2 (InboundV2 e) = []"

fun message_reply_v2 :: "message_v2 \<Rightarrow> (uuid \<times> command_name_v2) list" where
  "message_reply_v2 (M2Ack r) = [(ar2_reply_to r, ack_name_of_v2 (ar2_ack r))]"
| "message_reply_v2 (M2Error r) = [(er2_reply_to r, er2_name r)]"
| "message_reply_v2 _ = []"

fun op_inbound_v2 :: "session_op_v2 \<Rightarrow> envelope_v2 list" where
  "op_inbound_v2 (TrackOutboundV2 e) = []"
| "op_inbound_v2 (InboundV2 e) = [e]"

text \<open>The commands sent, the envelopes received and the replies among them, oldest first.\<close>

definition log_commands_v2 :: "session_op_v2 list \<Rightarrow> (uuid \<times> command_name_v2) list" where
  "log_commands_v2 log = concat (map op_command_v2 log)"

definition log_inbound_v2 :: "session_op_v2 list \<Rightarrow> envelope_v2 list" where
  "log_inbound_v2 log = concat (map op_inbound_v2 log)"

definition log_replies_v2 :: "session_op_v2 list \<Rightarrow> (uuid \<times> command_name_v2) list" where
  "log_replies_v2 log = concat (map (message_reply_v2 \<circ> en2_message) (log_inbound_v2 log))"

lemma log_Nil_v2 [simp]:
  "log_commands_v2 [] = []" "log_inbound_v2 [] = []" "log_replies_v2 [] = []"
  by (simp_all add: log_commands_v2_def log_inbound_v2_def log_replies_v2_def)

lemma log_snoc_v2 [simp]:
  "log_commands_v2 (log @ [op]) = log_commands_v2 log @ op_command_v2 op"
  "log_inbound_v2 (log @ [op]) = log_inbound_v2 log @ op_inbound_v2 op"
  "log_replies_v2 (log @ [TrackOutboundV2 e]) = log_replies_v2 log"
  "log_replies_v2 (log @ [InboundV2 e]) = log_replies_v2 log @ message_reply_v2 (en2_message e)"
  by (simp_all add: log_commands_v2_def log_inbound_v2_def log_replies_v2_def)

definition session_of_log_v2 ::
    "uuid \<Rightarrow> inbound_policy_v2 \<Rightarrow> session_op_v2 list \<Rightarrow> session_validator_v2" where
  "session_of_log_v2 session_id policy log =
     \<lparr>sv2_session_id = session_id, sv2_policy = policy,
      sv2_next_inbound_sequence = of_nat (length (log_inbound_v2 log) + 1),
      sv2_next_outbound_sequence = of_nat (length (log_commands_v2 log) + 1),
      sv2_inbound_message_ids = fset_of_list (map en2_message_id (log_inbound_v2 log)),
      sv2_outbound_commands = fmap_of_list (log_commands_v2 log),
      sv2_pending_replies =
        fset_of_list (map fst (log_commands_v2 log)) |-|
        fset_of_list (map fst (log_replies_v2 log)),
      sv2_worker_hello_received =
        (policy = ResponsesAndEventsV2 \<and> log_inbound_v2 log \<noteq> [])\<rparr>"

definition admits_command_v2 ::
    "uuid \<Rightarrow> inbound_policy_v2 \<Rightarrow> session_op_v2 list \<Rightarrow> envelope_v2 \<Rightarrow> bool" where
  "admits_command_v2 session_id policy log e \<longleftrightarrow>
     validate_envelope_v2 e = Inr () \<and> en2_session_id e = session_id \<and>
     (policy = ResponsesAndEventsV2 \<longrightarrow> log_inbound_v2 log \<noteq> []) \<and>
     (case en2_message e of M2Command c \<Rightarrow> True | _ \<Rightarrow> False) \<and>
     unat (en2_sequence e) = length (log_commands_v2 log) + 1 \<and>
     en2_message_id e \<notin> fst ` set (log_commands_v2 log) \<and>
     length (log_commands_v2 log) < MAX_MESSAGES_PER_SESSION_V2 \<and>
     length (log_commands_v2 log) - length (log_replies_v2 log) < MAX_PENDING_COMMANDS_V2"

fun is_hello :: "message_v2 \<Rightarrow> bool" where
  "is_hello (M2Event event) = (case em2_event event of WorkerHelloEvent h \<Rightarrow> True | _ \<Rightarrow> False)"
| "is_hello _ = False"

fun admits_message_v2 :: "inbound_policy_v2 \<Rightarrow> session_op_v2 list \<Rightarrow> message_v2 \<Rightarrow> bool" where
  "admits_message_v2 CommandsOnlyV2 log msg = (case msg of M2Command c \<Rightarrow> True | _ \<Rightarrow> False)"
| "admits_message_v2 ResponsesAndEventsV2 log (M2Command c) = False"
| "admits_message_v2 ResponsesAndEventsV2 log (M2Event ev) =
     (if is_hello (M2Event ev) then log_inbound_v2 log = [] \<and> em2_caused_by ev = None
      else log_inbound_v2 log \<noteq> [] \<and>
           (case em2_caused_by ev of
              None \<Rightarrow> True | Some c \<Rightarrow> c \<in> fst ` set (log_commands_v2 log)))"
| "admits_message_v2 ResponsesAndEventsV2 log msg =
     (log_inbound_v2 log \<noteq> [] \<and>
      list_all (\<lambda>(i, n). (i, n) \<in> set (log_commands_v2 log) \<and> i \<notin> fst ` set (log_replies_v2 log))
        (message_reply_v2 msg))"

definition admits_inbound_v2 ::
    "uuid \<Rightarrow> inbound_policy_v2 \<Rightarrow> session_op_v2 list \<Rightarrow> envelope_v2 \<Rightarrow> bool" where
  "admits_inbound_v2 session_id policy log e \<longleftrightarrow>
     validate_envelope_v2 e = Inr () \<and> en2_session_id e = session_id \<and>
     unat (en2_sequence e) = length (log_inbound_v2 log) + 1 \<and>
     length (log_inbound_v2 log) < MAX_MESSAGES_PER_SESSION_V2 \<and>
     en2_message_id e \<notin> en2_message_id ` set (log_inbound_v2 log) \<and>
     admits_message_v2 policy log (en2_message e)"

primrec log_admits_v2 ::
    "uuid \<Rightarrow> inbound_policy_v2 \<Rightarrow> session_op_v2 list \<Rightarrow> session_op_v2 \<Rightarrow> bool" where
  "log_admits_v2 session_id policy log (TrackOutboundV2 e) =
     admits_command_v2 session_id policy log e"
| "log_admits_v2 session_id policy log (InboundV2 e) = admits_inbound_v2 session_id policy log e"

definition session_log_v2 ::
    "uuid \<Rightarrow> inbound_policy_v2 \<Rightarrow> session_op_v2 list \<Rightarrow> session_op_v2 list" where
  "session_log_v2 session_id policy ops =
     accepted_ops session_step_v2 (new_session_validator_v2 session_id policy) ops"

section \<open>The validator implements the specification\<close>

text \<open>A log on the host side starts with the hello and has no other.\<close>

fun op_is_hello :: "session_op_v2 \<Rightarrow> bool" where
  "op_is_hello (TrackOutboundV2 e) = False"
| "op_is_hello (InboundV2 e) = is_hello (en2_message e)"

fun hello_first :: "session_op_v2 list \<Rightarrow> bool" where
  "hello_first [] = True"
| "hello_first (op # ops) =
     (op_is_hello op \<and> list_all (\<lambda>op. \<not> op_is_hello op) ops)"

definition log_ok_v2 :: "uuid \<Rightarrow> inbound_policy_v2 \<Rightarrow> session_op_v2 list \<Rightarrow> bool" where
  "log_ok_v2 session_id policy log \<longleftrightarrow>
     correlated (log_commands_v2 log) (log_replies_v2 log) \<and>
     distinct (map en2_message_id (log_inbound_v2 log)) \<and>
     map (unat \<circ> en2_sequence) (log_inbound_v2 log) = [1..<length (log_inbound_v2 log) + 1] \<and>
     list_all (\<lambda>e. en2_session_id e = session_id \<and> validate_envelope_v2 e = Inr ())
       (log_inbound_v2 log) \<and>
     (policy = ResponsesAndEventsV2 \<longrightarrow> hello_first log) \<and>
     list_all (\<lambda>e. is_hello (en2_message e) \<longrightarrow>
         (case en2_message e of M2Event ev \<Rightarrow> em2_caused_by ev = None | _ \<Rightarrow> False))
       (log_inbound_v2 log) \<and>
     length (log_commands_v2 log) \<le> MAX_MESSAGES_PER_SESSION_V2 \<and>
     length (log_inbound_v2 log) \<le> MAX_MESSAGES_PER_SESSION_V2 \<and>
     length (log_commands_v2 log) - length (log_replies_v2 log) \<le> MAX_PENDING_COMMANDS_V2"

lemma log_ok_Nil_v2: "log_ok_v2 session_id policy []"
  by (simp add: log_ok_v2_def correlated_Nil)

lemma log_ok_v2_correlated:
  "log_ok_v2 session_id policy log \<Longrightarrow> correlated (log_commands_v2 log) (log_replies_v2 log)"
  by (simp add: log_ok_v2_def)

lemma session_of_log_v2_simps [simp]:
  "sv2_session_id (session_of_log_v2 session_id policy log) = session_id"
  "sv2_policy (session_of_log_v2 session_id policy log) = policy"
  "sv2_next_inbound_sequence (session_of_log_v2 session_id policy log) =
     of_nat (length (log_inbound_v2 log) + 1)"
  "sv2_next_outbound_sequence (session_of_log_v2 session_id policy log) =
     of_nat (length (log_commands_v2 log) + 1)"
  "sv2_inbound_message_ids (session_of_log_v2 session_id policy log) =
     fset_of_list (map en2_message_id (log_inbound_v2 log))"
  "sv2_outbound_commands (session_of_log_v2 session_id policy log) =
     fmap_of_list (log_commands_v2 log)"
  "sv2_pending_replies (session_of_log_v2 session_id policy log) =
     fset_of_list (map fst (log_commands_v2 log)) |-| fset_of_list (map fst (log_replies_v2 log))"
  "sv2_worker_hello_received (session_of_log_v2 session_id policy log) \<longleftrightarrow>
     policy = ResponsesAndEventsV2 \<and> log_inbound_v2 log \<noteq> []"
  by (simp_all add: session_of_log_v2_def)

lemma command_count_log_v2:
  "log_ok_v2 session_id policy log \<Longrightarrow>
   command_count_v2 (session_of_log_v2 session_id policy log) = length (log_commands_v2 log)"
  using correlated_commands [OF log_ok_v2_correlated] by (simp add: command_count_v2_def)

lemma inbound_count_log_v2:
  "log_ok_v2 session_id policy log \<Longrightarrow>
   fcard (sv2_inbound_message_ids (session_of_log_v2 session_id policy log)) =
     length (log_inbound_v2 log)"
  using fcard_distinct [of "map en2_message_id (log_inbound_v2 log)"]
  by (simp add: log_ok_v2_def del: fset_of_list_map)

lemma pending_count_log_v2:
  "log_ok_v2 session_id policy log \<Longrightarrow>
   fcard (sv2_pending_replies (session_of_log_v2 session_id policy log)) =
     length (log_commands_v2 log) - length (log_replies_v2 log)"
  using correlated_pending [OF log_ok_v2_correlated] by simp

lemma lookup_log_v2:
  assumes "log_ok_v2 session_id policy log"
  shows "fmlookup (sv2_outbound_commands (session_of_log_v2 session_id policy log)) i = Some n \<longleftrightarrow>
         (i, n) \<in> set (log_commands_v2 log)"
    and "fmlookup (sv2_outbound_commands (session_of_log_v2 session_id policy log)) i = None \<longleftrightarrow>
         i \<notin> fst ` set (log_commands_v2 log)"
  using correlated_lookup [OF log_ok_v2_correlated [OF assms]] by simp_all

lemma pending_log_v2:
  "i |\<in>| sv2_pending_replies (session_of_log_v2 session_id policy log) \<longleftrightarrow>
   i \<in> fst ` set (log_commands_v2 log) \<and> i \<notin> fst ` set (log_replies_v2 log)"
  by (simp add: fset_of_list.rep_eq)

lemmas next_sequence_v2 = sequence_counter [folded MAX_MESSAGES_PER_SESSION_V2_def]

lemma track_refines_v2:
  assumes ok: "log_ok_v2 session_id policy log"
    and tr: "track_outbound_command_v2 (session_of_log_v2 session_id policy log) e = (r, s')"
  shows "(r = Inr () \<longleftrightarrow> admits_command_v2 session_id policy log e) \<and>
    s' = session_of_log_v2 session_id policy
           (if admits_command_v2 session_id policy log e then log @ [TrackOutboundV2 e] else log)"
proof (cases "admits_command_v2 session_id policy log e")
  case True
  then obtain c where msg: "en2_message e = M2Command c"
    by (auto simp: admits_command_v2_def split: message_v2.splits)
  have new: "en2_message_id e \<notin> fst ` set (log_commands_v2 log)"
    and n: "length (log_commands_v2 log) < MAX_MESSAGES_PER_SESSION_V2"
    using True by (auto simp: admits_command_v2_def)
  have fresh: "fmlookup (fmap_of_list (log_commands_v2 log)) (en2_message_id e) = None"
    using new by (simp add: fmlookup_of_list map_of_eq_None_iff)
  let ?s = "session_of_log_v2 session_id policy log"
  have snoc: "session_of_log_v2 session_id policy (log @ [TrackOutboundV2 e]) =
      ?s\<lparr>sv2_outbound_commands :=
             fmupd (en2_message_id e) (command_name_of_v2 c) (sv2_outbound_commands ?s),
         sv2_pending_replies := finsert (en2_message_id e) (sv2_pending_replies ?s),
         sv2_next_outbound_sequence := of_nat (length (log_commands_v2 log) + 2)\<rparr>"
    using fmupd_snoc [OF new] pending_snoc [OF log_ok_v2_correlated [OF ok] new]
    by (simp add: session_of_log_v2_def msg del: set_map fset_of_list_map)
  have "track_outbound_command_v2 ?s e =
      (Inr (), session_of_log_v2 session_id policy (log @ [TrackOutboundV2 e]))"
    using True next_sequence_v2 [OF n] command_count_log_v2 [OF ok] pending_count_log_v2 [OF ok]
    by (simp add: track_outbound_command_v2_def admits_command_v2_def msg fresh snoc
        del: of_nat_add of_nat_Suc)
  then show ?thesis
    using True tr by simp
next
  case False
  have "r \<noteq> Inr () \<and> s' = session_of_log_v2 session_id policy log"
  proof (rule ccontr)
    assume no: "\<not> ?thesis"
    show False
      using False tr no command_count_log_v2 [OF ok] pending_count_log_v2 [OF ok]
        next_sequence_v2(2) [of "length (log_commands_v2 log)" "en2_sequence e"]
        lookup_log_v2(2) [OF ok, of "en2_message_id e"]
      by (auto simp: track_outbound_command_v2_def admits_command_v2_def try_with_def Let_def
          next_sequence_v2(1)
          simp del: of_nat_add of_nat_Suc split: message_v2.splits if_splits sum.splits)
  qed
  then show ?thesis
    using False by simp
qed

lemma validate_reply_log_v2:
  assumes ok: "log_ok_v2 session_id policy log"
  shows "validate_reply_v2 (session_of_log_v2 session_id policy log) i n = Inr () \<longleftrightarrow>
         (i, n) \<in> set (log_commands_v2 log) \<and> i \<notin> fst ` set (log_replies_v2 log)"
proof (cases "fmlookup (sv2_outbound_commands (session_of_log_v2 session_id policy log)) i")
  case None
  then have "i \<notin> fst ` set (log_commands_v2 log)"
    by (simp add: lookup_log_v2(2) [OF ok] del: session_of_log_v2_simps)
  then have "(i, n) \<notin> set (log_commands_v2 log)"
    by force
  with None show ?thesis
    by (simp add: validate_reply_v2_def del: session_of_log_v2_simps)
next
  case (Some m)
  have sent: "(i, x) \<in> set (log_commands_v2 log) \<longleftrightarrow> x = m" for x
    using lookup_log_v2(1) [OF ok, of i x] Some by auto
  then have "i \<in> fst ` set (log_commands_v2 log)"
    by force
  with Some show ?thesis
    using pending_log_v2 [of i session_id policy log]
    by (auto simp: validate_reply_v2_def sent simp del: session_of_log_v2_simps)
qed

lemma no_inbound_ids: "fset_of_list xs = {||} \<longleftrightarrow> xs = []"
  by (metis fset_of_list_simps(1) fset_of_list.rep_eq bot_fset.rep_eq set_empty)

lemma accept_message_log:
  assumes ok: "log_ok_v2 session_id policy log"
  shows "(\<exists>c s1. accept_message_v2 (session_of_log_v2 session_id policy log) msg = (Inr c, s1)) \<longleftrightarrow>
         admits_message_v2 policy log msg"
    and "accept_message_v2 (session_of_log_v2 session_id policy log) msg = (Inr c, s1) \<Longrightarrow>
         s1 = (if is_hello msg
               then (session_of_log_v2 session_id policy log)\<lparr>sv2_worker_hello_received := True\<rparr>
               else session_of_log_v2 session_id policy log) \<and>
         set_option c = fst ` set (if policy = CommandsOnlyV2 then [] else message_reply_v2 msg)"
    and "accept_message_v2 (session_of_log_v2 session_id policy log) msg = (Inl error, s1) \<Longrightarrow>
         s1 = session_of_log_v2 session_id policy log"
proof -
  let ?s = "session_of_log_v2 session_id policy log"
  note defs = accept_message_v2_def try_with_def no_inbound_ids
  have refused: "(i, n) \<in> set (log_commands_v2 log) \<Longrightarrow> i \<in> fst ` set (log_replies_v2 log)"
    if "validate_reply_v2 ?s i n = Inl error'" for i n error'
    using that validate_reply_log_v2 [OF ok, of i n] by auto
  note logs = validate_reply_log_v2 [OF ok] lookup_log_v2 [OF ok] refused
  show "(\<exists>c s1. accept_message_v2 ?s msg = (Inr c, s1)) \<longleftrightarrow> admits_message_v2 policy log msg"
    using logs by (cases policy; cases msg)
      (auto simp: defs simp del: session_of_log_v2_simps(6)
        split: event_v2.splits option.splits if_splits sum.splits)
  show "accept_message_v2 ?s msg = (Inl error, s1) \<Longrightarrow> s1 = ?s"
    using logs by (cases policy; cases msg)
      (auto simp: defs simp del: session_of_log_v2_simps(6)
        split: event_v2.splits option.splits if_splits sum.splits)
  show "accept_message_v2 ?s msg = (Inr c, s1) \<Longrightarrow>
         s1 = (if is_hello msg then ?s\<lparr>sv2_worker_hello_received := True\<rparr> else ?s) \<and>
         set_option c = fst ` set (if policy = CommandsOnlyV2 then [] else message_reply_v2 msg)"
    using logs by (cases policy; cases msg)
      (auto simp: defs simp del: session_of_log_v2_simps(6)
        split: event_v2.splits option.splits if_splits sum.splits)
qed

lemma admitted_hello:
  assumes "admits_message_v2 policy log msg"
  shows "is_hello msg \<Longrightarrow> policy = ResponsesAndEventsV2 \<and> log_inbound_v2 log = []"
    and "\<not> is_hello msg \<Longrightarrow> policy = CommandsOnlyV2 \<or> log_inbound_v2 log \<noteq> []"
  using assms by (cases policy; cases msg; auto split: if_splits event_v2.splits)+

lemma session_snoc_inbound:
  assumes adm: "admits_message_v2 policy log (en2_message e)"
    and c: "set_option c = fst ` set (message_reply_v2 (en2_message e))"
  shows "session_of_log_v2 session_id policy (log @ [InboundV2 e]) =
      (let s = session_of_log_v2 session_id policy log;
           s1 = (if is_hello (en2_message e) then s\<lparr>sv2_worker_hello_received := True\<rparr> else s)
       in s1\<lparr>sv2_pending_replies := (case c of None \<Rightarrow> sv2_pending_replies s
                                          | Some i \<Rightarrow> sv2_pending_replies s |-| {|i|}),
             sv2_inbound_message_ids := finsert (en2_message_id e) (sv2_inbound_message_ids s),
             sv2_next_inbound_sequence := of_nat (length (log_inbound_v2 log) + 2)\<rparr>)"
proof -
  let ?P = "fset_of_list (map fst (log_commands_v2 log)) |-|
    fset_of_list (map fst (log_replies_v2 log))"
  have pend: "fset_of_list (map fst (log_commands_v2 log)) |-|
        fset_of_list (map fst (log_replies_v2 log @ message_reply_v2 (en2_message e))) =
      (case c of None \<Rightarrow> ?P | Some i \<Rightarrow> ?P |-| {|i|})"
    using c by (cases c) (auto simp: fset_of_list.rep_eq fset_eq_iff)
  have ids: "fset_of_list (map en2_message_id (log_inbound_v2 log @ [e])) =
      finsert (en2_message_id e) (fset_of_list (map en2_message_id (log_inbound_v2 log)))"
    by (simp add: fset_of_list.rep_eq fset_eq_iff)
  show ?thesis
    using admitted_hello [OF adm]
    by (cases policy) (auto simp: session_of_log_v2_def Let_def pend ids
        simp del: map_append fset_of_list_map split: option.split)
qed

lemma inbound_refines_v2:
  assumes ok: "log_ok_v2 session_id policy log"
    and tr: "validate_inbound_v2 (session_of_log_v2 session_id policy log) e = (r, s')"
  shows "(r = Inr () \<longleftrightarrow> admits_inbound_v2 session_id policy log e) \<and>
    s' = session_of_log_v2 session_id policy
           (if admits_inbound_v2 session_id policy log e then log @ [InboundV2 e] else log)"
proof (cases "admits_inbound_v2 session_id policy log e")
  case True
  let ?s = "session_of_log_v2 session_id policy log"
  have n: "length (log_inbound_v2 log) < MAX_MESSAGES_PER_SESSION_V2"
    and adm: "admits_message_v2 policy log (en2_message e)"
    using True by (auto simp: admits_inbound_v2_def)
  obtain c s1 where c: "accept_message_v2 ?s (en2_message e) = (Inr c, s1)"
    using accept_message_log(1) [OF ok] adm by blast
  note s1 = accept_message_log(2) [OF ok c]
  have ids: "set_option c = fst ` set (message_reply_v2 (en2_message e))"
    using s1 adm by (cases policy) (auto split: message_v2.splits)
  have "validate_inbound_v2 ?s e =
      (Inr (), session_of_log_v2 session_id policy (log @ [InboundV2 e]))"
    using True next_sequence_v2 [OF n] c s1 inbound_count_log_v2 [OF ok]
    unfolding session_snoc_inbound [OF adm ids] Let_def
    by (cases c) (simp_all add: validate_inbound_v2_def admits_inbound_v2_def fset_of_list.rep_eq
        del: of_nat_add of_nat_Suc)
  then show ?thesis
    using True tr by simp
next
  case False
  have "r \<noteq> Inr () \<and> s' = session_of_log_v2 session_id policy log"
  proof (rule ccontr)
    assume no: "\<not> ?thesis"
    show False
      using False tr no accept_message_log(1) [OF ok, of "en2_message e"]
        accept_message_log(3) [OF ok, of "en2_message e"]
        inbound_count_log_v2 [OF ok]
        next_sequence_v2(2) [of "length (log_inbound_v2 log)" "en2_sequence e"]
      by (auto simp: validate_inbound_v2_def admits_inbound_v2_def try_with_def Let_def
          next_sequence_v2(1) fset_of_list.rep_eq
          simp del: of_nat_add of_nat_Suc split: if_splits sum.splits option.splits prod.splits)
  qed
  then show ?thesis
    using False by simp
qed

lemma step_refines_v2:
  assumes "log_ok_v2 session_id policy log"
    and "session_step_v2 (session_of_log_v2 session_id policy log) op = (r, s')"
  shows "(r = Inr () \<longleftrightarrow> log_admits_v2 session_id policy log op) \<and>
    s' = session_of_log_v2 session_id policy
           (if log_admits_v2 session_id policy log op then log @ [op] else log)"
proof (cases op)
  case (TrackOutboundV2 e)
  then show ?thesis
    using track_refines_v2 [OF assms(1), of e r s'] assms(2) by simp
next
  case (InboundV2 e)
  then show ?thesis
    using inbound_refines_v2 [OF assms(1), of e r s'] assms(2) by simp
qed

lemma admits_command_ok_v2:
  assumes ok: "log_ok_v2 session_id policy log"
    and adm: "admits_command_v2 session_id policy log e"
  shows "log_ok_v2 session_id policy (log @ [TrackOutboundV2 e])"
proof -
  have "hello_first (log @ [TrackOutboundV2 e])" if "policy = ResponsesAndEventsV2"
  proof (cases log)
    case Nil
    then show ?thesis
      using adm that by (simp add: admits_command_v2_def)
  next
    case (Cons op ops)
    then show ?thesis
      using ok that by (simp add: log_ok_v2_def)
  qed
  then show ?thesis
    using ok adm by (auto simp: log_ok_v2_def admits_command_v2_def correlated_command
        split: message_v2.splits)
qed

lemma hello_first_no_inbound: "hello_first log \<Longrightarrow> log_inbound_v2 log = [] \<Longrightarrow> log = []"
proof (cases log)
  case (Cons op ops)
  moreover assume "hello_first log" "log_inbound_v2 log = []"
  ultimately show ?thesis
    by (cases op) (auto simp: log_inbound_v2_def)
qed simp

lemma admits_inbound_ok_v2:
  assumes ok: "log_ok_v2 session_id policy log"
    and adm: "admits_inbound_v2 session_id policy log e"
  shows "log_ok_v2 session_id policy (log @ [InboundV2 e])"
proof -
  have msg: "admits_message_v2 policy log (en2_message e)"
    using adm by (simp add: admits_inbound_v2_def)
  have "hello_first (log @ [InboundV2 e])" if p: "policy = ResponsesAndEventsV2"
  proof (cases "is_hello (en2_message e)")
    case True
    then have "log = []"
      using admitted_hello(1) [OF msg] ok p hello_first_no_inbound by (auto simp: log_ok_v2_def)
    then show ?thesis
      using True by simp
  next
    case False
    then have "log \<noteq> []"
      using admitted_hello(2) [OF msg] p by auto
    then show ?thesis
      using ok p False by (cases log) (auto simp: log_ok_v2_def)
  qed
  moreover have "correlated (log_commands_v2 log)
      (log_replies_v2 log @ message_reply_v2 (en2_message e))"
    using msg log_ok_v2_correlated [OF ok] correlated_reply
    by (cases policy; cases "en2_message e") auto
  moreover have "case en2_message e of M2Event ev \<Rightarrow> em2_caused_by ev = None | _ \<Rightarrow> False"
    if "is_hello (en2_message e)"
    using that msg by (cases policy; cases "en2_message e") auto
  ultimately show ?thesis
    using ok adm by (auto simp: log_ok_v2_def admits_inbound_v2_def)
qed

lemma log_admits_ok_v2:
  assumes "log_ok_v2 session_id policy log" and "log_admits_v2 session_id policy log op"
  shows "log_ok_v2 session_id policy (log @ [op])"
  using assms admits_command_ok_v2 admits_inbound_ok_v2 by (cases op) auto

interpretation session_v2: log_machine session_step_v2 "session_of_log_v2 session_id policy"
    "log_admits_v2 session_id policy" "log_ok_v2 session_id policy"
  for session_id policy
  using log_ok_Nil_v2 step_refines_v2 log_admits_ok_v2 by unfold_locales blast+

lemma new_session_log_v2:
  "new_session_validator_v2 session_id policy = session_of_log_v2 session_id policy []"
  by (simp add: new_session_validator_v2_def session_of_log_v2_def)

lemma session_log_ok_v2: "log_ok_v2 session_id policy (session_log_v2 session_id policy ops)"
  and session_log_state_v2:
    "snd (run_ops session_step_v2 (new_session_validator_v2 session_id policy) ops) =
       session_of_log_v2 session_id policy (session_log_v2 session_id policy ops)"
  and session_log_spec_v2:
    "log_run (log_admits_v2 session_id policy) [] ops =
       (map (\<lambda>r. r = Inr ())
          (fst (run_ops session_step_v2 (new_session_validator_v2 session_id policy) ops)),
        session_log_v2 session_id policy ops)"
  unfolding session_log_v2_def new_session_log_v2
  by (rule session_v2.run_log_inv session_v2.run_log_state session_v2.run_log_spec)+

section \<open>Properties\<close>

text \<open>C4: refinement of the session validator of Protocol 2. Over any sequence of outbound
  commands and inbound envelopes, the validator accepts exactly what the log specification
  admits, and its counters, sets, map and hello flag are the ones computed from the log of the
  accepted operations; a rejected operation leaves no trace.\<close>

theorem session_v2_refines_log:
  "case log_run (log_admits_v2 session_id policy) [] ops of (verdicts, log) \<Rightarrow>
     map (\<lambda>r. r = Inr ())
       (fst (run_ops session_step_v2 (new_session_validator_v2 session_id policy) ops)) = verdicts \<and>
     snd (run_ops session_step_v2 (new_session_validator_v2 session_id policy) ops) =
       session_of_log_v2 session_id policy log"
  by (simp add: session_log_spec_v2 session_log_state_v2)

text \<open>Bootstrap. On the side of the host nothing is accepted, in either direction, before the
  hello of the worker: the first accepted operation is an inbound envelope with sequence number
  one that carries a valid hello without a cause, no later one carries a hello, and the flag of
  the validator tells whether the hello has arrived.\<close>

theorem worker_hello_bootstraps:
  "sv2_worker_hello_received
      (snd (run_ops session_step_v2 (new_session_validator_v2 session_id ResponsesAndEventsV2) ops)) =
      (session_log_v2 session_id ResponsesAndEventsV2 ops \<noteq> []) \<and>
   (case session_log_v2 session_id ResponsesAndEventsV2 ops of
      [] \<Rightarrow> True
    | op # rest \<Rightarrow>
        (\<exists>e hello. op = InboundV2 e \<and> en2_session_id e = session_id \<and> en2_sequence e = 1 \<and>
           en2_message e = M2Event \<lparr>em2_caused_by = None, em2_event = WorkerHelloEvent hello\<rparr> \<and>
           validate_worker_hello_v2 hello = Inr ()) \<and>
        list_all (\<lambda>op. \<not> op_is_hello op) rest)"
proof (cases "session_log_v2 session_id ResponsesAndEventsV2 ops")
  case Nil
  then show ?thesis
    by (simp add: session_log_state_v2)
next
  case (Cons op rest)
  note ok = session_log_ok_v2 [of session_id ResponsesAndEventsV2 ops, unfolded Cons]
  then have hello: "op_is_hello op" and rest: "list_all (\<lambda>op. \<not> op_is_hello op) rest"
    by (simp_all add: log_ok_v2_def)
  then obtain e where op: "op = InboundV2 e" and h: "is_hello (en2_message e)"
    by (cases op) auto
  have inb: "log_inbound_v2 (op # rest) = e # log_inbound_v2 rest"
    by (simp add: op log_inbound_v2_def)
  from h obtain ev hello where msg: "en2_message e = M2Event ev"
    and ev: "em2_event ev = WorkerHelloEvent hello"
    by (cases "en2_message e") (auto split: event_v2.splits)
  have e: "en2_session_id e = session_id" "validate_envelope_v2 e = Inr ()"
    "em2_caused_by ev = None" "unat (en2_sequence e) = 1"
    using ok msg h by (simp_all add: log_ok_v2_def inb upt_conv_Cons del: upt_Suc)
  have "en2_sequence e = 1"
    using e(4) by (simp add: word_unat_eq_iff)
  moreover have "validate_worker_hello_v2 hello = Inr ()"
    using e(2) by (simp add: validate_envelope_v2_def validate_event_v2_def msg ev try_iffs)
  moreover have "ev = \<lparr>em2_caused_by = None, em2_event = WorkerHelloEvent hello\<rparr>"
    using e(3) ev by simp
  ultimately show ?thesis
    using rest e(1) by (auto simp: Cons session_log_state_v2 op msg inb [unfolded op])
qed

text \<open>Correlation and order in Protocol 2. The accepted replies answer pairwise different
  commands of the session under their own names, and the pending set is exactly the unanswered
  commands, at most 256; the accepted inbound envelopes carry 1, 2, 3, ... with pairwise
  different message ids, all of them valid and of this session, at most 65536; and the budgets
  that the validator reports are exact in both directions.\<close>

theorem session_v2_correlates:
  "correlated (log_commands_v2 (session_log_v2 session_id policy ops))
     (log_replies_v2 (session_log_v2 session_id policy ops)) \<and>
   fset (sv2_pending_replies
       (snd (run_ops session_step_v2 (new_session_validator_v2 session_id policy) ops))) =
     fst ` set (log_commands_v2 (session_log_v2 session_id policy ops)) -
     fst ` set (log_replies_v2 (session_log_v2 session_id policy ops)) \<and>
   fcard (sv2_pending_replies
       (snd (run_ops session_step_v2 (new_session_validator_v2 session_id policy) ops))) \<le> 256 \<and>
   map (unat \<circ> en2_sequence) (log_inbound_v2 (session_log_v2 session_id policy ops)) =
     [1..<length (log_inbound_v2 (session_log_v2 session_id policy ops)) + 1] \<and>
   distinct (map en2_message_id (log_inbound_v2 (session_log_v2 session_id policy ops))) \<and>
   list_all (\<lambda>e. en2_session_id e = session_id \<and> validate_envelope_v2 e = Inr ())
     (log_inbound_v2 (session_log_v2 session_id policy ops)) \<and>
   remaining_inbound_message_budget_v2
       (snd (run_ops session_step_v2 (new_session_validator_v2 session_id policy) ops)) +
     length (log_inbound_v2 (session_log_v2 session_id policy ops)) = 65536 \<and>
   remaining_outbound_message_budget_v2
       (snd (run_ops session_step_v2 (new_session_validator_v2 session_id policy) ops)) +
     length (log_commands_v2 (session_log_v2 session_id policy ops)) = 65536"
proof -
  note ok = session_log_ok_v2 [of session_id policy ops]
  show ?thesis
    using ok inbound_count_log_v2 [OF ok] command_count_log_v2 [OF ok] pending_count_log_v2 [OF ok]
    unfolding session_log_state_v2 remaining_inbound_message_budget_v2_def
      remaining_outbound_message_budget_v2_def
    by (auto simp: log_ok_v2_def fset_of_list.rep_eq MAX_MESSAGES_PER_SESSION_V2_def
        MAX_PENDING_COMMANDS_V2_def)
qed

end
