(* ===== verification/Ring2_Layout.thy ===== *)
theory Ring2_Layout
  imports Ring_Slots
begin

unbundle bit_operations_syntax

text \<open>
  The checked layout of the decoded-batch ring ABI 2 (\<open>crates/gpu/src/ring_v2.rs\<close>): a header of
  4096 bytes and two to 24 slots, each a header of 128 bytes and room for a batch of one to 24
  tightly packed frames, the slot padded to 4096 bytes, all of it at most 256 MiB. The parent
  computes the length of the mapping from the two numbers of \<open>ring.configure\<close> alone.
\<close>

section \<open>Constants\<close>

definition ABI_VERSION_V2 :: u32 where "ABI_VERSION_V2 = 2"
definition MAPPING_HEADER_BYTES_V2 :: u64 where "MAPPING_HEADER_BYTES_V2 = 4096"
definition SLOT_HEADER_BYTES_V2 :: u64 where "SLOT_HEADER_BYTES_V2 = 128"
definition MIN_SLOT_COUNT :: u32 where "MIN_SLOT_COUNT = 2"
definition MAX_SLOT_COUNT :: u32 where "MAX_SLOT_COUNT = 24"
definition MAX_BATCH_FRAMES :: u32 where "MAX_BATCH_FRAMES = 24"
definition SLOT_STRIDE_ALIGNMENT_V2 :: u64 where "SLOT_STRIDE_ALIGNMENT_V2 = 4096"
definition BYTES_PER_PIXEL :: u64 where "BYTES_PER_PIXEL = 4"
definition MAPPING_HEADER_LEN_V2 :: nat where "MAPPING_HEADER_LEN_V2 = 4096"
definition SLOT_HEADER_LEN_V2 :: nat where "SLOT_HEADER_LEN_V2 = 128"
definition MAPPING_HEADER_FIELD_V2 :: u32 where "MAPPING_HEADER_FIELD_V2 = 4096"
definition SLOT_HEADER_FIELD_V2 :: u32 where "SLOT_HEADER_FIELD_V2 = 128"
definition STATE_READY :: u64 where "STATE_READY = 1"
definition STATE_RESETTING :: u64 where "STATE_RESETTING = 2"

lemmas ring_v2_constants = ABI_VERSION_V2_def MAPPING_HEADER_BYTES_V2_def SLOT_HEADER_BYTES_V2_def
  MIN_SLOT_COUNT_def MAX_SLOT_COUNT_def MAX_BATCH_FRAMES_def SLOT_STRIDE_ALIGNMENT_V2_def
  BYTES_PER_PIXEL_def MAPPING_HEADER_LEN_V2_def SLOT_HEADER_LEN_V2_def MAPPING_HEADER_FIELD_V2_def
  SLOT_HEADER_FIELD_V2_def STATE_READY_def STATE_RESETTING_def

section \<open>Layouts\<close>

record ring_v2_layout =
  vl_width :: u32
  vl_height :: u32
  vl_maximum_batch :: u32
  vl_slot_count :: u32
  vl_frame_stride_bytes :: u64
  vl_slot_bytes :: u64
  vl_slot_stride_bytes :: u64
  vl_mapping_bytes :: u64

text \<open>The alignment is never zero, so that \<open>alignment - 1\<close> does not wrap.\<close>

definition align_up :: "u64 \<Rightarrow> u64 \<Rightarrow> u64 ring_result" where
  "align_up value alignment =
     ok_or (map_option (\<lambda>sum. sum AND NOT (alignment - 1)) (checked_add value (alignment - 1)))
       (RingFail LayoutOverflow)"

definition ring_v2_layout_new ::
  "u32 \<Rightarrow> u32 \<Rightarrow> u32 \<Rightarrow> u32 \<Rightarrow> ring_v2_layout ring_result" where
  "ring_v2_layout_new width height maximum_batch slot_count =
     (if width = 0 \<or> height = 0 then ring_err (InvalidDimensions width height)
      else if \<not> (1 \<le> maximum_batch \<and> maximum_batch \<le> MAX_BATCH_FRAMES)
      then ring_err (InvalidBatchCount maximum_batch)
      else if \<not> (MIN_SLOT_COUNT \<le> slot_count \<and> slot_count \<le> MAX_SLOT_COUNT)
      then ring_err (InvalidSlotCount slot_count)
      else
        try_bind (ok_or (Option.bind (checked_mul (ucast width) (ucast height))
            (\<lambda>pixels. checked_mul pixels BYTES_PER_PIXEL)) (RingFail LayoutOverflow))
          (\<lambda>frame_stride_bytes.
        try_bind (ok_or (checked_mul frame_stride_bytes (ucast maximum_batch))
            (RingFail LayoutOverflow))
          (\<lambda>slot_bytes.
        try_bind (ok_or (checked_add SLOT_HEADER_BYTES_V2 slot_bytes) (RingFail LayoutOverflow))
          (\<lambda>used.
        try_bind (align_up used SLOT_STRIDE_ALIGNMENT_V2) (\<lambda>slot_stride_bytes.
        try_bind (ok_or (checked_mul slot_stride_bytes (ucast slot_count)) (RingFail LayoutOverflow))
          (\<lambda>slots.
        try_bind (ok_or (checked_add MAPPING_HEADER_BYTES_V2 slots) (RingFail LayoutOverflow))
          (\<lambda>mapping_bytes.
        if mapping_bytes > MAX_MAPPING_BYTES
        then ring_err (MappingTooLarge mapping_bytes MAX_MAPPING_BYTES)
        else Inr \<lparr>vl_width = width, vl_height = height, vl_maximum_batch = maximum_batch,
                  vl_slot_count = slot_count, vl_frame_stride_bytes = frame_stride_bytes,
                  vl_slot_bytes = slot_bytes, vl_slot_stride_bytes = slot_stride_bytes,
                  vl_mapping_bytes = mapping_bytes\<rparr>)))))))"

definition control_mapping_bytes :: "u32 \<Rightarrow> u64 \<Rightarrow> u64 ring_result" where
  "control_mapping_bytes slot_count slot_bytes =
     (if \<not> (MIN_SLOT_COUNT \<le> slot_count \<and> slot_count \<le> MAX_SLOT_COUNT)
      then ring_err (InvalidSlotCount slot_count)
      else if slot_bytes = 0 then ring_err (BatchLengthMismatch 1 0)
      else
        try_bind (ok_or (checked_add SLOT_HEADER_BYTES_V2 slot_bytes) (RingFail LayoutOverflow))
          (\<lambda>used.
        try_bind (align_up used SLOT_STRIDE_ALIGNMENT_V2) (\<lambda>slot_stride.
        try_bind (ok_or (checked_mul slot_stride (ucast slot_count)) (RingFail LayoutOverflow))
          (\<lambda>slots.
        try_bind (ok_or (checked_add MAPPING_HEADER_BYTES_V2 slots) (RingFail LayoutOverflow))
          (\<lambda>mapping_bytes.
        if mapping_bytes > MAX_MAPPING_BYTES
        then ring_err (MappingTooLarge mapping_bytes MAX_MAPPING_BYTES)
        else Inr mapping_bytes)))))"

record ring_v2_descriptor =
  vd_layout :: ring_v2_layout
  vd_generation :: u64

definition ring_v2_descriptor_new ::
  "u32 \<Rightarrow> u32 \<Rightarrow> u32 \<Rightarrow> u32 \<Rightarrow> u64 \<Rightarrow> ring_v2_descriptor ring_result" where
  "ring_v2_descriptor_new width height maximum_batch slot_count generation =
     (if generation = 0 then ring_err InvalidGeneration
      else try_bind (ring_v2_layout_new width height maximum_batch slot_count) (\<lambda>layout.
        Inr \<lparr>vd_layout = layout, vd_generation = generation\<rparr>))"

definition mapping_len_v2 :: "ring_v2_layout \<Rightarrow> nat ring_result" where
  "mapping_len_v2 l = ok_or (usize_try_from (vl_mapping_bytes l)) (RingFail LayoutOverflow)"

section \<open>The length of the mapping\<close>

text \<open>The numbers as natural numbers: the slot of a payload and the mapping of its slots.\<close>

definition slot_stride_for :: "nat \<Rightarrow> nat" where
  "slot_stride_for payload = round_up (128 + payload) 4096"

definition mapping_bytes_for :: "nat \<Rightarrow> nat \<Rightarrow> nat" where
  "mapping_bytes_for slots payload = 4096 + slot_stride_for payload * slots"

lemma slot_stride_for_bounds:
  "128 + p \<le> slot_stride_for p" "slot_stride_for p < 128 + p + 4096" "4096 dvd slot_stride_for p"
  unfolding slot_stride_for_def by (intro round_up_ge round_up_less round_up_dvd; simp)+

lemma slot_within_mapping: "0 < slots \<Longrightarrow> slot_stride_for p + 4096 \<le> mapping_bytes_for slots p"
proof -
  assume "0 < slots"
  then have "slot_stride_for p * 1 \<le> slot_stride_for p * slots"
    by (intro mult_le_mono2) simp
  then show ?thesis
    unfolding mapping_bytes_for_def by linarith
qed

lemma payload_too_large: "0 < slots \<Longrightarrow> \<not> p < 2 ^ 64 \<Longrightarrow> 268435456 < mapping_bytes_for slots p"
  using slot_within_mapping [of slots p] slot_stride_for_bounds(1) [of p] by simp

lemma align_up_Inr:
  "align_up v SLOT_STRIDE_ALIGNMENT_V2 = Inr r \<longleftrightarrow>
     unat v + 4095 < 2 ^ 64 \<and> unat r = round_up (unat v) 4096"
  using align_step [of "\<lambda>v. v AND NOT (4096 - 1)" 4096 "4096 - 1" v r] align_4096
  by (simp add: align_up_def SLOT_STRIDE_ALIGNMENT_V2_def try_iffs)

text \<open>The steps the two computations have in common, with what follows them.\<close>

lemma slots_of_payload:
  fixes k :: "u64 \<Rightarrow> u64 \<Rightarrow> 'a" and payload :: u64 and slot_count :: u32
  assumes slots: "unat slot_count \<le> 24" "0 < unat slot_count"
  defines "run \<equiv>
     try_bind (ok_or (checked_add SLOT_HEADER_BYTES_V2 payload) (RingFail LayoutOverflow)) (\<lambda>used.
     try_bind (align_up used SLOT_STRIDE_ALIGNMENT_V2) (\<lambda>stride.
     try_bind (ok_or (checked_mul stride (ucast slot_count)) (RingFail LayoutOverflow)) (\<lambda>slots.
     try_bind (ok_or (checked_add MAPPING_HEADER_BYTES_V2 slots) (RingFail LayoutOverflow)) (\<lambda>bytes.
     if bytes > MAX_MAPPING_BYTES then ring_err (MappingTooLarge bytes MAX_MAPPING_BYTES)
     else Inr (k stride bytes)))))"
  shows "268435456 < mapping_bytes_for (unat slot_count) (unat payload) \<Longrightarrow>
      run = ring_err LayoutOverflow \<or> (\<exists>n. run = ring_err (MappingTooLarge n MAX_MAPPING_BYTES))"
    and "mapping_bytes_for (unat slot_count) (unat payload) \<le> 268435456 \<Longrightarrow>
      run = Inr (k (of_nat (slot_stride_for (unat payload)))
        (of_nat (mapping_bytes_for (unat slot_count) (unat payload))))"
proof -
  have shape: "unat stride = slot_stride_for (unat payload)"
    "unat bytes = mapping_bytes_for (unat slot_count) (unat payload)"
    if "checked_add SLOT_HEADER_BYTES_V2 payload = Some used"
      "align_up used SLOT_STRIDE_ALIGNMENT_V2 = Inr stride"
      "checked_mul stride (ucast slot_count) = Some slots"
      "checked_add MAPPING_HEADER_BYTES_V2 slots = Some bytes" for used stride slots bytes
    using that by (simp_all add: align_up_Inr checked_add_Some checked_mul_Some
        SLOT_HEADER_BYTES_V2_def MAPPING_HEADER_BYTES_V2_def slot_stride_for_def mapping_bytes_for_def)
  {
    assume big: "268435456 < mapping_bytes_for (unat slot_count) (unat payload)"
    have overflow: "align_up v a = Inl e \<Longrightarrow> e = RingFail LayoutOverflow" for v a e
      by (auto simp: align_up_def try_iffs)
    show "run = ring_err LayoutOverflow \<or> (\<exists>n. run = ring_err (MappingTooLarge n MAX_MAPPING_BYTES))"
    proof (cases run)
      case (Inl e)
      then show ?thesis
        unfolding run_def by (auto simp: try_iffs split: if_splits dest: overflow) blast
    next
      case (Inr x)
      then obtain used stride slots bytes where
        steps: "checked_add SLOT_HEADER_BYTES_V2 payload = Some used"
          "align_up used SLOT_STRIDE_ALIGNMENT_V2 = Inr stride"
          "checked_mul stride (ucast slot_count) = Some slots"
          "checked_add MAPPING_HEADER_BYTES_V2 slots = Some bytes"
        and "\<not> bytes > MAX_MAPPING_BYTES"
        unfolding run_def by (auto simp: try_iffs split: if_splits)
      then have "unat bytes \<le> 268435456"
        by (simp add: not_less word_le_nat_alt MAX_MAPPING_BYTES_def)
      then show ?thesis
        using shape(2) [OF steps] big by linarith
    qed
  next
    assume fits: "mapping_bytes_for (unat slot_count) (unat payload) \<le> 268435456"
    let ?n = "slot_stride_for (unat payload)" and ?m = "mapping_bytes_for (unat slot_count) (unat payload)"
    have n: "?n * unat slot_count + 4096 = ?m"
      by (simp add: mapping_bytes_for_def)
    have small: "?n \<le> 268435456"
      using slot_within_mapping [OF slots(2), of "unat payload"] fits by simp
    define stride :: u64 where "stride = of_nat ?n"
    define bytes :: u64 where "bytes = of_nat ?m"
    have ub: "unat stride = ?n" "unat bytes = ?m"
      unfolding stride_def bytes_def using small fits
      by (intro unat_of_nat_fits, simp)+
    obtain used :: u64 where used: "unat used = 128 + unat payload"
      using ex_unat [of "128 + unat payload", where 'a = 64] slot_stride_for_bounds(1) [of "unat payload"]
        small by auto
    obtain slots :: u64 where uslots: "unat slots = ?n * unat slot_count"
      using ex_unat [of "?n * unat slot_count", where 'a = 64] fits n by auto
    have "checked_add SLOT_HEADER_BYTES_V2 payload = Some used"
      by (simp add: checked_add_Some used SLOT_HEADER_BYTES_V2_def)
    moreover have "align_up used SLOT_STRIDE_ALIGNMENT_V2 = Inr stride"
      using slot_stride_for_bounds(1) [of "unat payload"] small
      by (simp add: align_up_Inr used ub slot_stride_for_def)
    moreover have "checked_mul stride (ucast slot_count) = Some slots"
      by (simp add: checked_mul_Some uslots ub)
    moreover have "checked_add MAPPING_HEADER_BYTES_V2 slots = Some bytes"
      using n by (simp add: checked_add_Some uslots ub MAPPING_HEADER_BYTES_V2_def)
    moreover have "\<not> bytes > MAX_MAPPING_BYTES"
      using fits by (simp add: word_less_nat_alt ub MAX_MAPPING_BYTES_def)
    ultimately show "run = Inr (k stride bytes)"
      by (simp add: run_def)
  }
qed

section \<open>What a layout satisfies\<close>

definition layout_v2_ok :: "ring_v2_layout \<Rightarrow> bool" where
  "layout_v2_ok l \<longleftrightarrow>
     0 < unat (vl_width l) \<and> 0 < unat (vl_height l) \<and>
     0 < unat (vl_maximum_batch l) \<and> unat (vl_maximum_batch l) \<le> 24 \<and>
     2 \<le> unat (vl_slot_count l) \<and> unat (vl_slot_count l) \<le> 24 \<and>
     unat (vl_frame_stride_bytes l) = unat (vl_width l) * unat (vl_height l) * 4 \<and>
     unat (vl_slot_bytes l) = unat (vl_frame_stride_bytes l) * unat (vl_maximum_batch l) \<and>
     unat (vl_slot_stride_bytes l) = slot_stride_for (unat (vl_slot_bytes l)) \<and>
     unat (vl_mapping_bytes l) = mapping_bytes_for (unat (vl_slot_count l)) (unat (vl_slot_bytes l)) \<and>
     unat (vl_mapping_bytes l) \<le> 268435456"

lemma counts_in_range:
  "1 \<le> b \<and> b \<le> MAX_BATCH_FRAMES \<longleftrightarrow> 0 < unat b \<and> unat b \<le> 24"
  "MIN_SLOT_COUNT \<le> b \<and> b \<le> MAX_SLOT_COUNT \<longleftrightarrow> 2 \<le> unat b \<and> unat b \<le> 24"
  by (auto simp: word_le_nat_alt MAX_BATCH_FRAMES_def MIN_SLOT_COUNT_def MAX_SLOT_COUNT_def)

text \<open>Every case of the computation.\<close>

lemma ring_v2_layout_new_cases:
  obtains (dims) "width = 0 \<or> height = 0"
    "ring_v2_layout_new width height batch slots = ring_err (InvalidDimensions width height)"
  | (batch) "width \<noteq> 0" "height \<noteq> 0" "\<not> (0 < unat batch \<and> unat batch \<le> 24)"
    "ring_v2_layout_new width height batch slots = ring_err (InvalidBatchCount batch)"
  | (slots) "width \<noteq> 0" "height \<noteq> 0" "0 < unat batch" "unat batch \<le> 24"
    "\<not> (2 \<le> unat slots \<and> unat slots \<le> 24)"
    "ring_v2_layout_new width height batch slots = ring_err (InvalidSlotCount slots)"
  | (large) e where "width \<noteq> 0" "height \<noteq> 0" "0 < unat batch" "unat batch \<le> 24"
    "2 \<le> unat slots" "unat slots \<le> 24"
    "268435456 < mapping_bytes_for (unat slots) (unat width * unat height * 4 * unat batch)"
    "ring_v2_layout_new width height batch slots = ring_err e"
    "e = LayoutOverflow \<or> (\<exists>n. e = MappingTooLarge n MAX_MAPPING_BYTES)"
  | (fits) l where "layout_v2_ok l" "vl_width l = width" "vl_height l = height"
    "vl_maximum_batch l = batch" "vl_slot_count l = slots"
    "ring_v2_layout_new width height batch slots = Inr l"
proof -
  let ?new = "ring_v2_layout_new width height batch slots"
  consider "width = 0 \<or> height = 0"
    | "width \<noteq> 0" "height \<noteq> 0" "\<not> (0 < unat batch \<and> unat batch \<le> 24)"
    | "width \<noteq> 0" "height \<noteq> 0" "0 < unat batch" "unat batch \<le> 24"
      "\<not> (2 \<le> unat slots \<and> unat slots \<le> 24)"
    | (ok) "width \<noteq> 0" "height \<noteq> 0" "0 < unat batch" "unat batch \<le> 24"
      "2 \<le> unat slots" "unat slots \<le> 24"
    by blast
  then show thesis
  proof cases
    case 1
    then show thesis
      by (intro dims) (auto simp: ring_v2_layout_new_def)
  next
    case 2
    then show thesis
      by (intro batch) (auto simp: ring_v2_layout_new_def counts_in_range)
  next
    case 3
    then show thesis
      by (intro slots) (auto simp: ring_v2_layout_new_def counts_in_range)
  next
    case ok
    let ?payload = "unat width * unat height * 4 * unat batch"
    have guards: "\<not> (width = 0 \<or> height = 0)" "1 \<le> batch \<and> batch \<le> MAX_BATCH_FRAMES"
      "MIN_SLOT_COUNT \<le> slots \<and> slots \<le> MAX_SLOT_COUNT"
      using ok by (simp_all add: counts_in_range)
    have pos: "0 < unat width" "0 < unat height"
      using ok(1,2) by (simp_all add: unat_gt_0)
    show thesis
    proof (cases "?payload < 2 ^ 64")
      case False
      have "268435456 < mapping_bytes_for (unat slots) ?payload"
        by (rule payload_too_large) (use False ok in simp_all)
      moreover have "?new = ring_err LayoutOverflow"
      proof -
        have "checked_mul frame (ucast batch) = None"
          if "checked_mul (ucast width) (ucast height) = Some pixels"
            "checked_mul pixels BYTES_PER_PIXEL = Some frame" for pixels frame :: u64
          using that False by (simp add: checked_mul_Some checked_mul_None BYTES_PER_PIXEL_def)
        then show ?thesis
          using guards by (auto simp: ring_v2_layout_new_def bind_eq_None_conv ok_or_def split: option.split bind_splits)
      qed
      ultimately show thesis
        using ok by (intro large) auto
    next
      case True
      have "unat width * unat height * 4 \<le> ?payload"
        using ok(3) by (metis One_nat_def Suc_leI mult.right_neutral mult_le_mono2)
      from order.strict_trans1 [OF this True]
      have f: "unat width * unat height * 4 < 2 ^ LENGTH(64)"
        by simp
      have "unat width * unat height \<le> unat width * unat height * 4"
        by simp
      from order.strict_trans1 [OF this f]
      have b: "unat width * unat height < 2 ^ LENGTH(64)"
        "unat width * unat height * 4 < 2 ^ LENGTH(64)" "?payload < 2 ^ LENGTH(64)"
        using True f by (simp_all only: len_num0 len_num1 len_bit0 len_bit1) simp_all
      obtain pixels frame payload :: u64 where u: "unat pixels = unat width * unat height"
        "unat frame = unat width * unat height * 4" "unat payload = ?payload"
        using ex_unat [OF b(1)] ex_unat [OF b(2)] ex_unat [OF b(3)] by blast
      have steps: "Option.bind (checked_mul (ucast width) (ucast height))
          (\<lambda>pixels. checked_mul pixels BYTES_PER_PIXEL) = Some frame"
        "checked_mul frame (ucast batch) = Some payload"
        using u by (auto simp: bind_eq_Some_conv checked_mul_Some BYTES_PER_PIXEL_def)
      note tail = slots_of_payload [of slots payload "\<lambda>stride bytes. \<lparr>vl_width = width,
          vl_height = height, vl_maximum_batch = batch, vl_slot_count = slots,
          vl_frame_stride_bytes = frame, vl_slot_bytes = payload, vl_slot_stride_bytes = stride,
          vl_mapping_bytes = bytes\<rparr>", folded steps]
      show thesis
      proof (cases "mapping_bytes_for (unat slots) ?payload \<le> 268435456")
        case False
        then have "?new = ring_err LayoutOverflow \<or>
            (\<exists>n. ?new = ring_err (MappingTooLarge n MAX_MAPPING_BYTES))"
          using tail(1) ok u guards by (simp add: ring_v2_layout_new_def steps)
        then show thesis
          using False ok by (auto intro: large)
      next
        case True
        then have "unat (of_nat (slot_stride_for ?payload) :: u64) = slot_stride_for ?payload"
          "unat (of_nat (mapping_bytes_for (unat slots) ?payload) :: u64) =
            mapping_bytes_for (unat slots) ?payload"
          using slot_within_mapping [of "unat slots" ?payload] ok
          by (intro unat_of_nat_fits; simp)+
        then show thesis
          using tail(2) True ok u guards pos
          by (intro fits) (simp_all add: ring_v2_layout_new_def steps layout_v2_ok_def)
      qed
    qed
  qed
qed

lemma ring_v2_layout_new_Inr [try_iffs]:
  "ring_v2_layout_new width height batch slots = Inr l \<longleftrightarrow>
     layout_v2_ok l \<and> vl_width l = width \<and> vl_height l = height \<and>
     vl_maximum_batch l = batch \<and> vl_slot_count l = slots"
proof -
  have unique: "l = l'" if "layout_v2_ok l" "layout_v2_ok l'" "vl_width l = vl_width l'"
    "vl_height l = vl_height l'" "vl_maximum_batch l = vl_maximum_batch l'"
    "vl_slot_count l = vl_slot_count l'" for l l'
    using that by (intro ring_v2_layout.equality) (auto simp: layout_v2_ok_def word_unat_eq_iff)
  have small: "unat (vl_width l) * unat (vl_height l) * 4 * unat (vl_maximum_batch l) =
      unat (vl_slot_bytes l)" if "layout_v2_ok l" for l
    using that by (simp add: layout_v2_ok_def)
  show ?thesis
  proof (cases rule: ring_v2_layout_new_cases [of width height batch slots])
    case large
    then show ?thesis
      using small [of l] by (auto simp: layout_v2_ok_def)
  next
    case (fits l')
    then show ?thesis
      using unique [of l l'] by auto
  qed (auto simp: layout_v2_ok_def)
qed

lemma control_mapping_bytes_Inr:
  "control_mapping_bytes slots payload = Inr n \<longleftrightarrow>
     2 \<le> unat slots \<and> unat slots \<le> 24 \<and> payload \<noteq> 0 \<and>
     mapping_bytes_for (unat slots) (unat payload) \<le> 268435456 \<and>
     unat n = mapping_bytes_for (unat slots) (unat payload)"
proof (cases "2 \<le> unat slots \<and> unat slots \<le> 24 \<and> payload \<noteq> 0")
  case False
  then show ?thesis
    by (auto simp: control_mapping_bytes_def counts_in_range)
next
  case True
  then have run: "control_mapping_bytes slots payload =
     try_bind (ok_or (checked_add SLOT_HEADER_BYTES_V2 payload) (RingFail LayoutOverflow)) (\<lambda>used.
     try_bind (align_up used SLOT_STRIDE_ALIGNMENT_V2) (\<lambda>stride.
     try_bind (ok_or (checked_mul stride (ucast slots)) (RingFail LayoutOverflow)) (\<lambda>slots.
     try_bind (ok_or (checked_add MAPPING_HEADER_BYTES_V2 slots) (RingFail LayoutOverflow)) (\<lambda>bytes.
     if bytes > MAX_MAPPING_BYTES then ring_err (MappingTooLarge bytes MAX_MAPPING_BYTES)
     else Inr bytes))))"
    by (simp add: control_mapping_bytes_def counts_in_range)
  note tail = slots_of_payload [of slots payload "\<lambda>stride bytes. bytes", folded run]
  show ?thesis
  proof (cases "mapping_bytes_for (unat slots) (unat payload) \<le> 268435456")
    case False
    then show ?thesis
      using tail(1) True by auto
  next
    case fits: True
    then have u: "unat (of_nat (mapping_bytes_for (unat slots) (unat payload)) :: u64) =
        mapping_bytes_for (unat slots) (unat payload)"
      by (intro unat_of_nat_fits) simp
    show ?thesis
      using tail(2) [OF _ _ fits] True fits u by (auto simp: word_unat_eq_iff)
  qed
qed

text \<open>The two ends agree on the length of the shared mapping. The parent computes it from the slot
  count and slot size of \<open>ring.configure\<close> before any mapping exists; the worker computes it from
  the geometry. For the geometry of any accepted layout both are the same number of bytes, which
  is exactly the header and the slots, each aligned to 4096 bytes and large enough for its header
  and the largest batch. A geometry is refused when a dimension is zero, the batch or slot count
  is out of range, or the mapping would pass 256 MiB; no wrap-around makes a slot too small.
\<close>
theorem control_and_layout_agree:
  "case ring_v2_layout_new width height maximum_batch slot_count of
     Inr l \<Rightarrow>
       control_mapping_bytes slot_count (vl_slot_bytes l) = Inr (vl_mapping_bytes l) \<and>
       unat (vl_slot_bytes l) = 4 * unat width * unat height * unat maximum_batch \<and>
       128 + unat (vl_slot_bytes l) \<le> unat (vl_slot_stride_bytes l) \<and>
       unat (vl_slot_stride_bytes l) < 128 + unat (vl_slot_bytes l) + 4096 \<and>
       4096 dvd unat (vl_slot_stride_bytes l) \<and>
       unat (vl_mapping_bytes l) = 4096 + unat (vl_slot_stride_bytes l) * unat slot_count \<and>
       unat (vl_mapping_bytes l) \<le> 256 * 1024 * 1024
   | Inl e \<Rightarrow> e \<noteq> Panic \<and>
       (width = 0 \<or> height = 0 \<or> \<not> unat maximum_batch \<in> {1..24} \<or> \<not> unat slot_count \<in> {2..24} \<or>
        256 * 1024 * 1024 < mapping_bytes_for (unat slot_count)
          (4 * unat width * unat height * unat maximum_batch))"
proof (cases rule: ring_v2_layout_new_cases [of width height maximum_batch slot_count])
  case (fits l)
  then have "vl_slot_bytes l \<noteq> 0"
    by (auto simp: layout_v2_ok_def simp flip: unat_gt_0)
  then show ?thesis
    using fits slot_stride_for_bounds [of "unat (vl_slot_bytes l)"]
      mapping_bytes_for_def [of "unat slot_count" "unat (vl_slot_bytes l)"]
    by (auto simp: control_mapping_bytes_Inr layout_v2_ok_def)
qed (auto simp: mult.commute mult.left_commute)

end
