(* ===== verification/Ring2_Abi.thy ===== *)
theory Ring2_Abi
  imports Ring2_Layout
begin

unbundle bit_operations_syntax

text \<open>
  The operations of the decoded-batch ring ABI 2 on the shared mapping
  (\<open>crates/gpu/src/ring_v2.rs\<close>). Beside ABI 1 it has a lifecycle word that every operation
  demands to be ready, a slot count of its own, and batches that carry the session and a logical
  sequence number. Every operation takes the mapping and returns its result and the mapping it
  leaves, in the order of the code's checks and writes.
\<close>

section \<open>Offsets\<close>

definition MAGIC_V2 :: "u8 list" where
  "MAGIC_V2 = map of_char ''LDRGBR02''"

definition HEADER_MAGIC_OFFSET_V2 :: nat where "HEADER_MAGIC_OFFSET_V2 = 0"
definition HEADER_ABI_OFFSET_V2 :: nat where "HEADER_ABI_OFFSET_V2 = 8"
definition HEADER_BYTES_OFFSET_V2 :: nat where "HEADER_BYTES_OFFSET_V2 = 12"
definition HEADER_GENERATION_OFFSET_V2 :: nat where "HEADER_GENERATION_OFFSET_V2 = 16"
definition HEADER_STATE_OFFSET_V2 :: nat where "HEADER_STATE_OFFSET_V2 = 24"
definition HEADER_SLOT_COUNT_OFFSET_V2 :: nat where "HEADER_SLOT_COUNT_OFFSET_V2 = 32"
definition HEADER_SLOT_HEADER_BYTES_OFFSET_V2 :: nat where "HEADER_SLOT_HEADER_BYTES_OFFSET_V2 = 36"
definition HEADER_WIDTH_OFFSET_V2 :: nat where "HEADER_WIDTH_OFFSET_V2 = 40"
definition HEADER_HEIGHT_OFFSET_V2 :: nat where "HEADER_HEIGHT_OFFSET_V2 = 44"
definition HEADER_FRAME_STRIDE_OFFSET_V2 :: nat where "HEADER_FRAME_STRIDE_OFFSET_V2 = 48"
definition HEADER_SLOT_BYTES_OFFSET_V2 :: nat where "HEADER_SLOT_BYTES_OFFSET_V2 = 56"
definition HEADER_SLOT_STRIDE_OFFSET_V2 :: nat where "HEADER_SLOT_STRIDE_OFFSET_V2 = 64"
definition HEADER_MAPPING_BYTES_OFFSET_V2 :: nat where "HEADER_MAPPING_BYTES_OFFSET_V2 = 72"
definition HEADER_MAX_BATCH_OFFSET_V2 :: nat where "HEADER_MAX_BATCH_OFFSET_V2 = 80"
definition HEADER_PIXEL_FORMAT_OFFSET_V2 :: nat where "HEADER_PIXEL_FORMAT_OFFSET_V2 = 84"
definition HEADER_PRODUCER_SEQUENCE_OFFSET_V2 :: nat where "HEADER_PRODUCER_SEQUENCE_OFFSET_V2 = 88"
definition HEADER_CONSUMER_SEQUENCE_OFFSET_V2 :: nat where "HEADER_CONSUMER_SEQUENCE_OFFSET_V2 = 96"
definition HEADER_PRODUCER_CLAIM_OFFSET_V2 :: nat where "HEADER_PRODUCER_CLAIM_OFFSET_V2 = 104"
definition HEADER_CONSUMER_CLAIM_OFFSET_V2 :: nat where "HEADER_CONSUMER_CLAIM_OFFSET_V2 = 112"
definition HEADER_RESERVED_OFFSET_V2 :: nat where "HEADER_RESERVED_OFFSET_V2 = 120"

definition SLOT_SEQUENCE_OFFSET_V2 :: nat where "SLOT_SEQUENCE_OFFSET_V2 = 0"
definition SLOT_GENERATION_OFFSET_V2 :: nat where "SLOT_GENERATION_OFFSET_V2 = 8"
definition SLOT_LOGICAL_SEQUENCE_OFFSET :: nat where "SLOT_LOGICAL_SEQUENCE_OFFSET = 16"
definition SLOT_SESSION_ID_OFFSET :: nat where "SLOT_SESSION_ID_OFFSET = 24"
definition SLOT_BATCH_OFFSET :: nat where "SLOT_BATCH_OFFSET = 40"
definition SLOT_WIDTH_OFFSET_V2 :: nat where "SLOT_WIDTH_OFFSET_V2 = 44"
definition SLOT_HEIGHT_OFFSET_V2 :: nat where "SLOT_HEIGHT_OFFSET_V2 = 48"
definition SLOT_FRAME_STRIDE_OFFSET :: nat where "SLOT_FRAME_STRIDE_OFFSET = 56"
definition SLOT_PAYLOAD_BYTES_OFFSET_V2 :: nat where "SLOT_PAYLOAD_BYTES_OFFSET_V2 = 64"
definition SLOT_RESERVED_OFFSET_V2 :: nat where "SLOT_RESERVED_OFFSET_V2 = 72"

definition PIXEL_FORMAT_RGBA8_V2 :: u32 where "PIXEL_FORMAT_RGBA8_V2 = 1"

lemmas header_v2_offsets = HEADER_MAGIC_OFFSET_V2_def HEADER_ABI_OFFSET_V2_def
  HEADER_BYTES_OFFSET_V2_def HEADER_GENERATION_OFFSET_V2_def HEADER_STATE_OFFSET_V2_def
  HEADER_SLOT_COUNT_OFFSET_V2_def HEADER_SLOT_HEADER_BYTES_OFFSET_V2_def HEADER_WIDTH_OFFSET_V2_def
  HEADER_HEIGHT_OFFSET_V2_def HEADER_FRAME_STRIDE_OFFSET_V2_def HEADER_SLOT_BYTES_OFFSET_V2_def
  HEADER_SLOT_STRIDE_OFFSET_V2_def HEADER_MAPPING_BYTES_OFFSET_V2_def HEADER_MAX_BATCH_OFFSET_V2_def
  HEADER_PIXEL_FORMAT_OFFSET_V2_def HEADER_PRODUCER_SEQUENCE_OFFSET_V2_def
  HEADER_CONSUMER_SEQUENCE_OFFSET_V2_def HEADER_PRODUCER_CLAIM_OFFSET_V2_def
  HEADER_CONSUMER_CLAIM_OFFSET_V2_def HEADER_RESERVED_OFFSET_V2_def

lemmas slot_v2_offsets = SLOT_SEQUENCE_OFFSET_V2_def SLOT_GENERATION_OFFSET_V2_def
  SLOT_LOGICAL_SEQUENCE_OFFSET_def SLOT_SESSION_ID_OFFSET_def SLOT_BATCH_OFFSET_def
  SLOT_WIDTH_OFFSET_V2_def SLOT_HEIGHT_OFFSET_V2_def SLOT_FRAME_STRIDE_OFFSET_def
  SLOT_PAYLOAD_BYTES_OFFSET_V2_def SLOT_RESERVED_OFFSET_V2_def

section \<open>Data\<close>

record ring_v2_state =
  vs_producer_sequence :: u64
  vs_consumer_sequence :: u64
  vs_occupancy :: u32
  vs_available_capacity :: u32

text \<open>A session identifier is its sixteen bytes.\<close>

record batch_v2_metadata =
  bm_generation :: u64
  bm_slot_sequence :: u64
  bm_logical_sequence :: u64
  bm_session_id :: "u8 list"
  bm_batch :: u32

record rgba_batch_v2 =
  rb_metadata :: batch_v2_metadata
  rb_width :: u32
  rb_height :: u32
  rb_pixels :: "u8 list"

datatype (plugins only:) write_v2_status = WrittenV2 batch_v2_metadata | BackpressureV2 u32 u32

datatype (plugins only:) read_v2_status = Batch rgba_batch_v2 | EmptyV2

section \<open>The lifecycle, counters and slots\<close>

definition require_ready :: "mapping \<Rightarrow> unit ring_result" where
  "require_ready m =
     try_bind (atomic_load m HEADER_STATE_OFFSET_V2) (\<lambda>actual.
     if actual = STATE_READY then Inr () else ring_err (InvalidLifecycleState actual))"

definition ensure_live :: "mapping \<Rightarrow> u64 \<Rightarrow> unit ring_result" where
  "ensure_live m expected_generation =
     try_bind (require_ready m) (\<lambda>_.
     try_bind (atomic_load m HEADER_GENERATION_OFFSET_V2) (\<lambda>actual.
     if actual = expected_generation then Inr ()
     else ring_err (GenerationChanged expected_generation actual)))"

text \<open>The loads of the loop read the mapping at successive moments of a history.\<close>

primrec load_attempts_v2 ::
  "nat \<Rightarrow> (nat \<Rightarrow> mapping) \<Rightarrow> nat \<Rightarrow> (u64 \<times> u64 \<times> u64) ring_result" where
  "load_attempts_v2 0 h t = ring_err (CorruptHeader ''sequence_snapshot'')"
| "load_attempts_v2 (Suc n) h t =
     try_bind (atomic_load (h t) HEADER_CONSUMER_SEQUENCE_OFFSET_V2) (\<lambda>consumed_before.
     try_bind (atomic_load (h (t + 1)) HEADER_PRODUCER_SEQUENCE_OFFSET_V2) (\<lambda>produced.
     try_bind (atomic_load (h (t + 2)) HEADER_CONSUMER_SEQUENCE_OFFSET_V2) (\<lambda>consumed_after.
     if consumed_before = consumed_after
     then (case checked_sub produced consumed_after of
         None \<Rightarrow> ring_err (CorruptSequences produced consumed_after)
       | Some depth \<Rightarrow> Inr (produced, consumed_after, depth))
     else load_attempts_v2 n h (t + 3))))"

definition load_consistent_sequences_v2_in ::
  "(nat \<Rightarrow> mapping) \<Rightarrow> (u64 \<times> u64 \<times> u64) ring_result" where
  "load_consistent_sequences_v2_in h = load_attempts_v2 8 h 0"

definition load_consistent_sequences_v2 :: "mapping \<Rightarrow> (u64 \<times> u64 \<times> u64) ring_result" where
  "load_consistent_sequences_v2 m = load_consistent_sequences_v2_in (\<lambda>_. m)"

definition mapping_state_v2 :: "mapping \<Rightarrow> ring_v2_descriptor \<Rightarrow> ring_v2_state ring_result" where
  "mapping_state_v2 m d =
     try_bind (ensure_live m (vd_generation d)) (\<lambda>_.
     try_bind (load_consistent_sequences_v2 m) (\<lambda>(producer_sequence, consumer_sequence, depth).
     try_bind (ensure_live m (vd_generation d)) (\<lambda>_.
     if depth > ucast (vl_slot_count (vd_layout d))
     then ring_err (CorruptSequences producer_sequence consumer_sequence)
     else
     try_bind (ok_or (u32_try_from depth) (RingFail LayoutOverflow)) (\<lambda>occupancy.
     Inr \<lparr>vs_producer_sequence = producer_sequence, vs_consumer_sequence = consumer_sequence,
          vs_occupancy = occupancy,
          vs_available_capacity = vl_slot_count (vd_layout d) - occupancy\<rparr>))))"

definition slot_base_for_index :: "ring_v2_layout \<Rightarrow> u64 \<Rightarrow> nat ring_result" where
  "slot_base_for_index l index =
     try_bind (ok_or (checked_mul (vl_slot_stride_bytes l) index) (RingFail LayoutOverflow))
       (\<lambda>offset.
     try_bind (ok_or (checked_add MAPPING_HEADER_BYTES_V2 offset) (RingFail LayoutOverflow))
       (\<lambda>base.
     ok_or (usize_try_from base) (RingFail LayoutOverflow)))"

text \<open>The callers' sequence numbers are not zero, and no layout has zero slots.\<close>

definition slot_base_v2 :: "ring_v2_layout \<Rightarrow> u64 \<Rightarrow> nat ring_result" where
  "slot_base_v2 l sequence =
     (let index = (sequence - 1) mod ucast (vl_slot_count l) in slot_base_for_index l index)"

section \<open>Claims\<close>

definition claim_producer_v2 :: "mapping \<Rightarrow> unit ring_result \<times> mapping" where
  "claim_producer_v2 m =
     try_with (require_ready m) m (\<lambda>_.
     try_with (atomic_load m HEADER_PRODUCER_CLAIM_OFFSET_V2) m (\<lambda>current.
     if current = 0
     then writing m [atomic_store HEADER_PRODUCER_CLAIM_OFFSET_V2 1] (\<lambda>m. (Inr (), m))
     else (ring_err ProducerAlreadyClaimed, m)))"

definition release_producer_v2 :: "mapping \<Rightarrow> unit ring_result \<times> mapping" where
  "release_producer_v2 m =
     writing m [atomic_store HEADER_PRODUCER_CLAIM_OFFSET_V2 0] (\<lambda>m. (Inr (), m))"

definition claim_consumer_v2 :: "mapping \<Rightarrow> unit ring_result \<times> mapping" where
  "claim_consumer_v2 m =
     try_with (require_ready m) m (\<lambda>_.
     try_with (atomic_load m HEADER_CONSUMER_CLAIM_OFFSET_V2) m (\<lambda>current.
     if current = 0
     then writing m [atomic_store HEADER_CONSUMER_CLAIM_OFFSET_V2 1] (\<lambda>m. (Inr (), m))
     else (ring_err ConsumerAlreadyClaimed, m)))"

definition release_consumer_v2 :: "mapping \<Rightarrow> unit ring_result \<times> mapping" where
  "release_consumer_v2 m =
     writing m [atomic_store HEADER_CONSUMER_CLAIM_OFFSET_V2 0] (\<lambda>m. (Inr (), m))"

section \<open>The header\<close>

definition initialize_mapping_v2 ::
  "mapping \<Rightarrow> ring_v2_descriptor \<Rightarrow> unit ring_result \<times> mapping" where
  "initialize_mapping_v2 m d =
     try_with (mapping_len_v2 (vd_layout d)) m (\<lambda>expected.
     if mp_len m \<noteq> expected
     then (ring_err (InvalidMappingLength (of_nat (mp_len m))), m)
     else writing m
       [fill_zero 0 (mp_len m),
        (HEADER_MAGIC_OFFSET_V2, MAGIC_V2),
        put_u32 HEADER_ABI_OFFSET_V2 ABI_VERSION_V2,
        put_u32 HEADER_BYTES_OFFSET_V2 MAPPING_HEADER_FIELD_V2,
        put_u64 HEADER_GENERATION_OFFSET_V2 (vd_generation d),
        put_u64 HEADER_STATE_OFFSET_V2 STATE_READY,
        put_u32 HEADER_SLOT_COUNT_OFFSET_V2 (vl_slot_count (vd_layout d)),
        put_u32 HEADER_SLOT_HEADER_BYTES_OFFSET_V2 SLOT_HEADER_FIELD_V2,
        put_u32 HEADER_WIDTH_OFFSET_V2 (vl_width (vd_layout d)),
        put_u32 HEADER_HEIGHT_OFFSET_V2 (vl_height (vd_layout d)),
        put_u64 HEADER_FRAME_STRIDE_OFFSET_V2 (vl_frame_stride_bytes (vd_layout d)),
        put_u64 HEADER_SLOT_BYTES_OFFSET_V2 (vl_slot_bytes (vd_layout d)),
        put_u64 HEADER_SLOT_STRIDE_OFFSET_V2 (vl_slot_stride_bytes (vd_layout d)),
        put_u64 HEADER_MAPPING_BYTES_OFFSET_V2 (vl_mapping_bytes (vd_layout d)),
        put_u32 HEADER_MAX_BATCH_OFFSET_V2 (vl_maximum_batch (vd_layout d)),
        put_u32 HEADER_PIXEL_FORMAT_OFFSET_V2 PIXEL_FORMAT_RGBA8_V2]
       (\<lambda>m. (Inr (), m)))"

definition validate_mapping_header_v2 :: "mapping \<Rightarrow> u64 \<Rightarrow> ring_v2_descriptor ring_result" where
  "validate_mapping_header_v2 m mapping_bytes =
     (if mp_len m < MAPPING_HEADER_LEN_V2
      then ring_err (InvalidMappingLength (of_nat (mp_len m)))
      else
     try_bind (read_bytes m HEADER_MAGIC_OFFSET_V2 (HEADER_MAGIC_OFFSET_V2 + length MAGIC_V2))
       (\<lambda>magic.
     try_bind (ensure (magic = MAGIC_V2) (RingFail InvalidMagic)) (\<lambda>_.
     try_bind (get_u32 m HEADER_ABI_OFFSET_V2) (\<lambda>abi.
     try_bind (ensure (abi = ABI_VERSION_V2) (RingFail (UnsupportedAbi abi))) (\<lambda>_.
     header_check (get_u32 m HEADER_BYTES_OFFSET_V2) (\<lambda>v. v = MAPPING_HEADER_FIELD_V2)
       ''header_bytes'' (
     try_bind (require_ready m) (\<lambda>_.
     try_bind (atomic_load m HEADER_GENERATION_OFFSET_V2) (\<lambda>generation.
     try_bind (require_header (generation \<noteq> 0) ''generation'') (\<lambda>_.
     try_bind (get_u32 m HEADER_WIDTH_OFFSET_V2) (\<lambda>width.
     try_bind (get_u32 m HEADER_HEIGHT_OFFSET_V2) (\<lambda>height.
     try_bind (get_u32 m HEADER_MAX_BATCH_OFFSET_V2) (\<lambda>max_batch.
     try_bind (get_u32 m HEADER_SLOT_COUNT_OFFSET_V2) (\<lambda>slot_count.
     try_bind (ring_v2_layout_new width height max_batch slot_count) (\<lambda>layout.
     header_check (get_u32 m HEADER_SLOT_HEADER_BYTES_OFFSET_V2) (\<lambda>v. v = SLOT_HEADER_FIELD_V2)
       ''slot_header_bytes'' (
     header_check (get_u64 m HEADER_FRAME_STRIDE_OFFSET_V2)
       (\<lambda>v. v = vl_frame_stride_bytes layout) ''frame_stride_bytes'' (
     header_check (get_u64 m HEADER_SLOT_BYTES_OFFSET_V2) (\<lambda>v. v = vl_slot_bytes layout)
       ''slot_bytes'' (
     header_check (get_u64 m HEADER_SLOT_STRIDE_OFFSET_V2) (\<lambda>v. v = vl_slot_stride_bytes layout)
       ''slot_stride_bytes'' (
     header_check (get_u64 m HEADER_MAPPING_BYTES_OFFSET_V2) (\<lambda>v. v = vl_mapping_bytes layout)
       ''mapping_bytes'' (
     try_bind (require_header (mapping_bytes = vl_mapping_bytes layout) ''mapped_length'') (\<lambda>_.
     try_bind (require_header (usize_try_from mapping_bytes = Some (mp_len m)) ''view_length'') (\<lambda>_.
     header_check (get_u32 m HEADER_PIXEL_FORMAT_OFFSET_V2) (\<lambda>v. v = PIXEL_FORMAT_RGBA8_V2)
       ''pixel_format'' (
     header_check (read_bytes m HEADER_RESERVED_OFFSET_V2 MAPPING_HEADER_LEN_V2)
       (list_all (\<lambda>byte. byte = 0)) ''reserved'' (
     header_check (atomic_load m HEADER_PRODUCER_CLAIM_OFFSET_V2) (\<lambda>v. v \<le> 1) ''producer_claim'' (
     header_check (atomic_load m HEADER_CONSUMER_CLAIM_OFFSET_V2) (\<lambda>v. v \<le> 1) ''consumer_claim'' (
     let descriptor = \<lparr>vd_layout = layout, vd_generation = generation\<rparr> in
     try_bind (mapping_state_v2 m descriptor) (\<lambda>_. Inr descriptor))))))))))))))))))))))))))"

section \<open>Publishing a batch\<close>

definition write_mapping_batch ::
  "mapping \<Rightarrow> ring_v2_descriptor \<Rightarrow> u8 list \<Rightarrow> u64 \<Rightarrow> u32 \<Rightarrow> u32 \<Rightarrow> u32 \<Rightarrow> u8 list \<Rightarrow>
   write_v2_status ring_result \<times> mapping" where
  "write_mapping_batch m d session_id logical_sequence batch width height pixels =
     (let layout = vd_layout d in
     try_with (ensure_live m (vd_generation d)) m (\<lambda>_.
     if list_all (\<lambda>byte. byte = 0) session_id then (ring_err InvalidSessionId, m)
     else if logical_sequence = 0 then (ring_err InvalidLogicalSequence, m)
     else if \<not> (1 \<le> batch \<and> batch \<le> vl_maximum_batch layout)
     then (ring_err (InvalidBatchCount batch), m)
     else if width \<noteq> vl_width layout \<or> height \<noteq> vl_height layout
     then (ring_err (InvalidDimensions width height), m)
     else
     try_with (ok_or (checked_mul (vl_frame_stride_bytes layout) (ucast batch))
         (RingFail LayoutOverflow)) m (\<lambda>expected_u64.
     try_with (ok_or (usize_try_from expected_u64) (RingFail LayoutOverflow)) m (\<lambda>expected.
     if length pixels \<noteq> expected
     then (ring_err (BatchLengthMismatch expected (length pixels)), m)
     else
     try_with (mapping_state_v2 m d) m (\<lambda>state.
     if vs_occupancy state = vl_slot_count layout
     then (Inr (BackpressureV2 (vs_occupancy state) (vl_slot_count layout)), m)
     else
     try_with (ok_or (checked_add (vs_producer_sequence state) 1) (RingFail SequenceExhausted)) m
       (\<lambda>slot_sequence.
     try_with (slot_base_v2 layout slot_sequence) m (\<lambda>base.
     writing m [atomic_store (base + SLOT_SEQUENCE_OFFSET_V2) 0] (\<lambda>m.
     try_with (ok_or (usize_try_from (vl_slot_stride_bytes layout)) (RingFail LayoutOverflow)) m
       (\<lambda>slot_stride.
     let slot_end = base + slot_stride; payload_start = base + SLOT_HEADER_LEN_V2 in
     writing m
       [fill_zero (base + 8) slot_end,
        put_u64 (base + SLOT_GENERATION_OFFSET_V2) (vd_generation d),
        put_u64 (base + SLOT_LOGICAL_SEQUENCE_OFFSET) logical_sequence,
        (base + SLOT_SESSION_ID_OFFSET, session_id),
        put_u32 (base + SLOT_BATCH_OFFSET) batch,
        put_u32 (base + SLOT_WIDTH_OFFSET_V2) width,
        put_u32 (base + SLOT_HEIGHT_OFFSET_V2) height,
        put_u64 (base + SLOT_FRAME_STRIDE_OFFSET) (vl_frame_stride_bytes layout),
        put_u64 (base + SLOT_PAYLOAD_BYTES_OFFSET_V2) expected_u64,
        (payload_start, pixels),
        atomic_store (base + SLOT_SEQUENCE_OFFSET_V2) slot_sequence,
        atomic_store HEADER_PRODUCER_SEQUENCE_OFFSET_V2 slot_sequence] (\<lambda>m.
     (Inr (WrittenV2 \<lparr>bm_generation = vd_generation d, bm_slot_sequence = slot_sequence,
                      bm_logical_sequence = logical_sequence, bm_session_id = session_id,
                      bm_batch = batch\<rparr>), m)))))))))))"

section \<open>Taking a batch\<close>

text \<open>The conjunction that decides whether the header of a slot is valid.\<close>

definition slot_header_valid ::
  "mapping \<Rightarrow> nat \<Rightarrow> ring_v2_descriptor \<Rightarrow> u64 \<Rightarrow> u8 list \<Rightarrow> u32 \<Rightarrow> u64 \<Rightarrow> u64 \<Rightarrow> bool ring_result"
  where
  "slot_header_valid m base d logical_sequence session_id batch payload_bytes expected_payload =
     (let layout = vd_layout d in
      all_checks
        [holding (get_u64 m (base + SLOT_GENERATION_OFFSET_V2)) (\<lambda>v. v = vd_generation d),
         Inr (logical_sequence \<noteq> 0),
         Inr (list_ex (\<lambda>byte. byte \<noteq> 0) session_id),
         Inr (1 \<le> batch \<and> batch \<le> vl_maximum_batch layout),
         holding (get_u32 m (base + SLOT_WIDTH_OFFSET_V2)) (\<lambda>v. v = vl_width layout),
         holding (get_u32 m (base + SLOT_HEIGHT_OFFSET_V2)) (\<lambda>v. v = vl_height layout),
         holding (get_u64 m (base + SLOT_FRAME_STRIDE_OFFSET)) (\<lambda>v. v = vl_frame_stride_bytes layout),
         Inr (payload_bytes = expected_payload),
         Inr (payload_bytes \<le> vl_slot_bytes layout),
         holding (read_bytes m (base + SLOT_RESERVED_OFFSET_V2) (base + SLOT_HEADER_LEN_V2))
           (list_all (\<lambda>byte. byte = 0))])"

definition read_mapping_batch ::
  "mapping \<Rightarrow> ring_v2_descriptor \<Rightarrow> read_v2_status ring_result \<times> mapping" where
  "read_mapping_batch m d =
     (let layout = vd_layout d in
     try_with (mapping_state_v2 m d) m (\<lambda>state.
     if vs_occupancy state = 0 then (Inr EmptyV2, m)
     else
     try_with (ok_or (checked_add (vs_consumer_sequence state) 1) (RingFail SequenceExhausted)) m
       (\<lambda>slot_sequence.
     try_with (slot_base_v2 layout slot_sequence) m (\<lambda>base.
     try_with (atomic_load m (base + SLOT_SEQUENCE_OFFSET_V2)) m (\<lambda>committed.
     if committed \<noteq> slot_sequence
     then try_with (ensure_live m (vd_generation d)) m
            (\<lambda>_. (ring_err (CorruptSlot slot_sequence), m))
     else
     try_with (get_u32 m (base + SLOT_BATCH_OFFSET)) m (\<lambda>batch.
     try_with (get_u64 m (base + SLOT_LOGICAL_SEQUENCE_OFFSET)) m (\<lambda>logical_sequence.
     try_with (get_u64 m (base + SLOT_PAYLOAD_BYTES_OFFSET_V2)) m (\<lambda>payload_bytes.
     try_with (ok_or (checked_mul (vl_frame_stride_bytes layout) (ucast batch))
         (RingFail LayoutOverflow)) m (\<lambda>expected_payload.
     try_with (read_bytes m (base + SLOT_SESSION_ID_OFFSET) (base + SLOT_SESSION_ID_OFFSET + 16)) m
       (\<lambda>session_id.
     try_with (slot_header_valid m base d logical_sequence session_id batch payload_bytes
         expected_payload) m (\<lambda>valid.
     if \<not> valid then (ring_err (CorruptSlot slot_sequence), m)
     else
     let payload_start = base + SLOT_HEADER_LEN_V2 in
     try_with (ok_or (usize_try_from payload_bytes) (RingFail LayoutOverflow)) m (\<lambda>payload_len.
     let payload_end = payload_start + payload_len in
     if usize_max < payload_end then (ring_err LayoutOverflow, m)
     else
     try_with (ok_or (usize_try_from (vl_slot_stride_bytes layout)) (RingFail LayoutOverflow)) m
       (\<lambda>slot_stride.
     let slot_end = base + slot_stride in
     if slot_end < payload_end then (ring_err (CorruptSlot slot_sequence), m)
     else
     try_with (read_bytes m payload_end slot_end) m (\<lambda>padding.
     if list_ex (\<lambda>byte. byte \<noteq> 0) padding then (ring_err (CorruptSlot slot_sequence), m)
     else
     try_with (read_bytes m payload_start payload_end) m (\<lambda>pixels.
     try_with (ensure_live m (vd_generation d)) m (\<lambda>_.
     writing m [atomic_store HEADER_CONSUMER_SEQUENCE_OFFSET_V2 slot_sequence] (\<lambda>m.
     (Inr (Batch \<lparr>rb_metadata = \<lparr>bm_generation = vd_generation d,
                      bm_slot_sequence = slot_sequence, bm_logical_sequence = logical_sequence,
                      bm_session_id = session_id, bm_batch = batch\<rparr>,
                  rb_width = vl_width layout, rb_height = vl_height layout,
                  rb_pixels = pixels\<rparr>), m))))))))))))))))))"

section \<open>Generations\<close>

text \<open>The indices of the slots, \<open>0..slot_count\<close>.\<close>

definition slot_indices :: "ring_v2_layout \<Rightarrow> u64 list" where
  "slot_indices l = map of_nat [0..<unat (vl_slot_count l)]"

primrec clear_slots_v2 ::
  "ring_v2_layout \<Rightarrow> u64 list \<Rightarrow> mapping \<Rightarrow> unit ring_result \<times> mapping" where
  "clear_slots_v2 l [] m = (Inr (), m)"
| "clear_slots_v2 l (index # indices) m =
     try_with (slot_base_for_index l index) m (\<lambda>base.
     writing m [atomic_store (base + SLOT_SEQUENCE_OFFSET_V2) 0] (\<lambda>m.
     try_with (ok_or (usize_try_from (vl_slot_stride_bytes l)) (RingFail LayoutOverflow)) m
       (\<lambda>slot_stride.
     writing m [fill_zero (base + 8) (base + slot_stride)] (clear_slots_v2 l indices))))"

definition reset_mapping_generation_v2 ::
  "mapping \<Rightarrow> ring_v2_descriptor \<Rightarrow> u64 \<Rightarrow> ring_v2_descriptor ring_result \<times> mapping" where
  "reset_mapping_generation_v2 m d new_generation =
     try_with (ensure_live m (vd_generation d)) m (\<lambda>_.
     if new_generation \<le> vd_generation d
     then (ring_err (GenerationNotIncreasing (vd_generation d) new_generation), m)
     else
     try_with (atomic_load m HEADER_STATE_OFFSET_V2) m (\<lambda>actual.
     if actual \<noteq> STATE_READY then (ring_err (InvalidLifecycleState actual), m)
     else
     writing m
       [atomic_store HEADER_STATE_OFFSET_V2 STATE_RESETTING,
        atomic_store HEADER_GENERATION_OFFSET_V2 0] (\<lambda>m.
     case clear_slots_v2 (vd_layout d) (slot_indices (vd_layout d)) m of
       (Inl e, m) \<Rightarrow> (Inl e, m)
     | (Inr u, m) \<Rightarrow>
     writing m
       [atomic_store HEADER_PRODUCER_SEQUENCE_OFFSET_V2 0,
        atomic_store HEADER_CONSUMER_SEQUENCE_OFFSET_V2 0,
        atomic_store HEADER_GENERATION_OFFSET_V2 new_generation,
        atomic_store HEADER_STATE_OFFSET_V2 STATE_READY]
       (\<lambda>m. (Inr (d\<lparr>vd_generation := new_generation\<rparr>), m)))))"

primrec check_slots_clear_v2 :: "ring_v2_layout \<Rightarrow> mapping \<Rightarrow> u64 list \<Rightarrow> unit ring_result" where
  "check_slots_clear_v2 l m [] = Inr ()"
| "check_slots_clear_v2 l m (index # indices) =
     try_bind (slot_base_for_index l index) (\<lambda>base.
     try_bind (atomic_load m (base + SLOT_SEQUENCE_OFFSET_V2)) (\<lambda>committed.
     if committed \<noteq> 0 then ring_err (CorruptSlot (index + 1))
     else check_slots_clear_v2 l m indices))"

definition adopt_mapping_generation_v2 ::
  "mapping \<Rightarrow> ring_v2_descriptor \<Rightarrow> u64 \<Rightarrow> ring_v2_descriptor ring_result" where
  "adopt_mapping_generation_v2 m d new_generation =
     (if new_generation \<le> vd_generation d
      then ring_err (GenerationNotIncreasing (vd_generation d) new_generation)
      else
     try_bind (require_ready m) (\<lambda>_.
     try_bind (atomic_load m HEADER_GENERATION_OFFSET_V2) (\<lambda>actual.
     if actual \<noteq> new_generation then ring_err (GenerationMismatch new_generation actual)
     else
     try_bind (load_consistent_sequences_v2 m) (\<lambda>(produced, consumed, depth).
     if produced \<noteq> 0 \<or> consumed \<noteq> 0 \<or> depth \<noteq> 0
     then ring_err (CorruptSequences produced consumed)
     else
     try_bind (check_slots_clear_v2 (vd_layout d) m (slot_indices (vd_layout d))) (\<lambda>_.
     Inr (d\<lparr>vd_generation := new_generation\<rparr>))))))"

end
