(* ===== verification/Ring2_Access.thy ===== *)
theory Ring2_Access
  imports Ring2_Abi
begin

text \<open>
  The operations of the ring ABI 2 on a mapping of the right length, in closed form: which check
  fails first, and which writes are performed when none fails.
\<close>

section \<open>The geometry of a layout\<close>

definition slot_v2_at :: "ring_v2_layout \<Rightarrow> nat \<Rightarrow> nat" where
  "slot_v2_at l i = 4096 + unat (vl_slot_stride_bytes l) * i"

lemma layout_v2_geometry:
  assumes "layout_v2_ok l"
  shows "0 < unat (vl_width l)" and "0 < unat (vl_height l)"
    and "0 < unat (vl_maximum_batch l)" and "unat (vl_maximum_batch l) \<le> 24"
    and "2 \<le> unat (vl_slot_count l)" and "unat (vl_slot_count l) \<le> 24"
    and "unat (vl_slot_bytes l) = unat (vl_frame_stride_bytes l) * unat (vl_maximum_batch l)"
    and "128 + unat (vl_slot_bytes l) \<le> unat (vl_slot_stride_bytes l)"
    and "unat (vl_mapping_bytes l) = 4096 + unat (vl_slot_stride_bytes l) * unat (vl_slot_count l)"
    and "unat (vl_slot_stride_bytes l) * unat (vl_slot_count l) < 268435456"
    and "unat (vl_frame_stride_bytes l) < 268435456"
proof -
  note d = assms [unfolded layout_v2_ok_def]
  show base: "0 < unat (vl_width l)" "0 < unat (vl_height l)"
    "0 < unat (vl_maximum_batch l)" "unat (vl_maximum_batch l) \<le> 24"
    "2 \<le> unat (vl_slot_count l)" "unat (vl_slot_count l) \<le> 24"
    "unat (vl_slot_bytes l) = unat (vl_frame_stride_bytes l) * unat (vl_maximum_batch l)"
    "unat (vl_mapping_bytes l) = 4096 + unat (vl_slot_stride_bytes l) * unat (vl_slot_count l)"
    using d by (simp_all add: mapping_bytes_for_def)
  show slot: "128 + unat (vl_slot_bytes l) \<le> unat (vl_slot_stride_bytes l)"
    using d slot_stride_for_bounds(1) [of "unat (vl_slot_bytes l)"] by simp
  show slots: "unat (vl_slot_stride_bytes l) * unat (vl_slot_count l) < 268435456"
    using d base(8) by linarith
  have "unat (vl_frame_stride_bytes l) * 1 \<le> unat (vl_slot_bytes l)"
    using d by (metis One_nat_def Suc_leI mult_le_mono2)
  moreover have "unat (vl_slot_stride_bytes l) * 1 \<le> unat (vl_slot_stride_bytes l) * unat (vl_slot_count l)"
    using d by (intro mult_le_mono2) simp
  ultimately show "unat (vl_frame_stride_bytes l) < 268435456"
    using slot slots by linarith
qed

lemma slot_v2_at_end:
  assumes "layout_v2_ok l" and "i < unat (vl_slot_count l)"
  shows "slot_v2_at l i + unat (vl_slot_stride_bytes l) \<le> unat (vl_mapping_bytes l)"
proof -
  have "unat (vl_slot_stride_bytes l) * (i + 1) \<le> unat (vl_slot_stride_bytes l) * unat (vl_slot_count l)"
    using assms(2) by (intro mult_le_mono2) simp
  then show ?thesis
    using layout_v2_geometry(9) [OF assms(1)] by (simp add: slot_v2_at_def)
qed

lemma slot_v2_at_disjoint:
  assumes "i \<noteq> j"
  shows "{slot_v2_at l i..<slot_v2_at l i + unat (vl_slot_stride_bytes l)} \<inter>
         {slot_v2_at l j..<slot_v2_at l j + unat (vl_slot_stride_bytes l)} = {}"
proof -
  have sep: "slot_v2_at l a + unat (vl_slot_stride_bytes l) \<le> slot_v2_at l b" if "a < b" for a b
  proof -
    have "unat (vl_slot_stride_bytes l) * (a + 1) \<le> unat (vl_slot_stride_bytes l) * b"
      using that by (intro mult_le_mono2) simp
    then show ?thesis
      by (simp add: slot_v2_at_def)
  qed
  consider "i < j" | "j < i"
    using assms by linarith
  then show ?thesis
    by cases (use sep [of i j] sep [of j i] in auto)
qed

lemma slot_v2_at_header: "4096 \<le> slot_v2_at l i"
  by (simp add: slot_v2_at_def)

lemma slot_base_for_index_ok:
  assumes "layout_v2_ok l" and "unat i < unat (vl_slot_count l)"
  shows "slot_base_for_index l i = Inr (slot_v2_at l (unat i))"
proof -
  have "unat (vl_slot_stride_bytes l) * unat i \<le> unat (vl_slot_stride_bytes l) * unat (vl_slot_count l)"
    using assms(2) by (intro mult_le_mono2) simp
  from order.strict_trans1 [OF this layout_v2_geometry(10) [OF assms(1)]]
  have small: "unat (vl_slot_stride_bytes l) * unat i < 268435456" .
  then obtain x :: u64 where x: "unat x = unat (vl_slot_stride_bytes l) * unat i"
    using ex_unat [of "unat (vl_slot_stride_bytes l) * unat i", where 'a = 64] by auto
  obtain y :: u64 where y: "unat y = 4096 + unat (vl_slot_stride_bytes l) * unat i"
    using small ex_unat [of "4096 + unat (vl_slot_stride_bytes l) * unat i", where 'a = 64] by auto
  have "checked_mul (vl_slot_stride_bytes l) i = Some x"
    "checked_add MAPPING_HEADER_BYTES_V2 x = Some y"
    by (simp_all add: checked_mul_Some checked_add_Some x y MAPPING_HEADER_BYTES_V2_def)
  then show ?thesis
    by (simp add: slot_base_for_index_def y slot_v2_at_def)
qed

text \<open>The slot of a sequence number.\<close>

definition slot_v2_index :: "ring_v2_layout \<Rightarrow> u64 \<Rightarrow> nat" where
  "slot_v2_index l sequence = (unat sequence - 1) mod unat (vl_slot_count l)"

lemma slot_v2_index_less: "layout_v2_ok l \<Longrightarrow> slot_v2_index l s < unat (vl_slot_count l)"
  using layout_v2_geometry(5) [of l] by (simp add: slot_v2_index_def)

lemma slot_base_v2_ok:
  assumes "layout_v2_ok l" and "sequence \<noteq> 0"
  shows "slot_base_v2 l sequence = Inr (slot_v2_at l (slot_v2_index l sequence))"
proof -
  have "unat (sequence - 1) = unat sequence - 1"
    using assms(2) by (simp add: unat_minus_one)
  then have "unat ((sequence - 1) mod ucast (vl_slot_count l)) = slot_v2_index l sequence"
    by (simp add: unat_mod slot_v2_index_def)
  then show ?thesis
    unfolding slot_base_v2_def Let_def
    using slot_base_for_index_ok [OF assms(1)] slot_v2_index_less [OF assms(1)] by simp
qed

lemma batch_bytes_ok:
  assumes "layout_v2_ok l"
  obtains n where "checked_mul (vl_frame_stride_bytes l) (ucast (batch :: u32)) = Some n"
    and "unat n = unat (vl_frame_stride_bytes l) * unat batch"
proof -
  have "unat batch < 2 ^ 32"
    using unsigned_less [of batch] by simp
  then have "unat (vl_frame_stride_bytes l) * unat batch \<le> 268435456 * 2 ^ 32"
    using layout_v2_geometry(11) [OF assms] by (intro mult_le_mono) simp_all
  also have "\<dots> < 2 ^ LENGTH(64)"
    by simp
  finally obtain n :: u64 where "unat n = unat (vl_frame_stride_bytes l) * unat batch"
    using ex_unat by blast
  then show thesis
    using that by (simp add: checked_mul_Some)
qed

lemma batch_bytes_le:
  assumes "layout_v2_ok l" and "unat batch \<le> unat (vl_maximum_batch l)"
  shows "128 + unat (vl_frame_stride_bytes l) * unat batch \<le> unat (vl_slot_stride_bytes l)"
proof -
  have "unat (vl_frame_stride_bytes l) * unat batch \<le> unat (vl_slot_bytes l)"
    unfolding layout_v2_geometry(7) [OF assms(1)] using assms(2) by (intro mult_le_mono2)
  then show ?thesis
    using layout_v2_geometry(8) [OF assms(1)] by simp
qed

section \<open>Lifecycle and counters in closed form\<close>

abbreviation lifecycle_v2 :: "mapping \<Rightarrow> u64" where
  "lifecycle_v2 m \<equiv> word_at m HEADER_STATE_OFFSET_V2"

abbreviation generation_v2 :: "mapping \<Rightarrow> u64" where
  "generation_v2 m \<equiv> word_at m HEADER_GENERATION_OFFSET_V2"

abbreviation produced_v2 :: "mapping \<Rightarrow> u64" where
  "produced_v2 m \<equiv> word_at m HEADER_PRODUCER_SEQUENCE_OFFSET_V2"

abbreviation consumed_v2 :: "mapping \<Rightarrow> u64" where
  "consumed_v2 m \<equiv> word_at m HEADER_CONSUMER_SEQUENCE_OFFSET_V2"

definition ring_v2_mapped :: "mapping \<Rightarrow> ring_v2_descriptor \<Rightarrow> bool" where
  "ring_v2_mapped m d \<longleftrightarrow>
     layout_v2_ok (vd_layout d) \<and> mp_len m = unat (vl_mapping_bytes (vd_layout d))"

lemma ring_v2_mappedD:
  assumes "ring_v2_mapped m d"
  shows "layout_v2_ok (vd_layout d)" and "4096 \<le> mp_len m"
    and "i < unat (vl_slot_count (vd_layout d)) \<Longrightarrow>
      slot_v2_at (vd_layout d) i + unat (vl_slot_stride_bytes (vd_layout d)) \<le> mp_len m"
  using assms slot_v2_at_end layout_v2_geometry(9) by (auto simp: ring_v2_mapped_def)

definition live_v2 :: "mapping \<Rightarrow> u64 \<Rightarrow> bool" where
  "live_v2 m g \<longleftrightarrow> lifecycle_v2 m = STATE_READY \<and> generation_v2 m = g"

text \<open>The error of an endpoint whose ring is not live.\<close>

definition not_live_error :: "mapping \<Rightarrow> u64 \<Rightarrow> ring_error" where
  "not_live_error m g = (if lifecycle_v2 m \<noteq> STATE_READY then InvalidLifecycleState (lifecycle_v2 m)
     else GenerationChanged g (generation_v2 m))"

lemma require_ready_eq:
  "4096 \<le> mp_len m \<Longrightarrow> require_ready m =
     (if lifecycle_v2 m = STATE_READY then Inr ()
      else ring_err (InvalidLifecycleState (lifecycle_v2 m)))"
  by (simp add: require_ready_def atomic_load_ok header_v2_offsets)

lemma ensure_live_eq:
  "4096 \<le> mp_len m \<Longrightarrow> ensure_live m g =
     (if live_v2 m g then Inr () else ring_err (not_live_error m g))"
  by (simp add: ensure_live_def require_ready_eq atomic_load_ok header_v2_offsets live_v2_def
      not_live_error_def)

lemma load_consistent_sequences_v2_eq:
  assumes "4096 \<le> mp_len m"
  shows "load_consistent_sequences_v2 m =
    (if unat (consumed_v2 m) \<le> unat (produced_v2 m)
     then Inr (produced_v2 m, consumed_v2 m, produced_v2 m - consumed_v2 m)
     else ring_err (CorruptSequences (produced_v2 m) (consumed_v2 m)))"
proof -
  have eight: "(8 :: nat) = Suc 7"
    by simp
  show ?thesis
    unfolding load_consistent_sequences_v2_def load_consistent_sequences_v2_in_def eight
      load_attempts_v2.simps
    using assms by (simp add: atomic_load_ok header_v2_offsets checked_sub_def)
qed

definition depth_v2_ok :: "mapping \<Rightarrow> ring_v2_layout \<Rightarrow> bool" where
  "depth_v2_ok m l \<longleftrightarrow> unat (consumed_v2 m) \<le> unat (produced_v2 m) \<and>
     unat (produced_v2 m) \<le> unat (consumed_v2 m) + unat (vl_slot_count l)"

definition occupancy_v2 :: "mapping \<Rightarrow> u32" where
  "occupancy_v2 m = of_nat (unat (produced_v2 m) - unat (consumed_v2 m))"

lemma depth_v2_word:
  assumes "depth_v2_ok m l"
  shows "u32_try_from (produced_v2 m - consumed_v2 m) = Some (occupancy_v2 m)"
    and "unat (occupancy_v2 m) = unat (produced_v2 m) - unat (consumed_v2 m)"
proof -
  have "unat (vl_slot_count l) < 2 ^ 32"
    using unsigned_less [of "vl_slot_count l"] by simp
  then have "unat (produced_v2 m) - unat (consumed_v2 m) < 2 ^ LENGTH(32)"
    using assms by (simp add: depth_v2_ok_def) linarith
  then show u: "unat (occupancy_v2 m) = unat (produced_v2 m) - unat (consumed_v2 m)"
    unfolding occupancy_v2_def by (rule unat_of_nat_fits)
  show "u32_try_from (produced_v2 m - consumed_v2 m) = Some (occupancy_v2 m)"
    using assms by (simp add: u32_try_from_Some u unat_sub_fits depth_v2_ok_def)
qed

lemma mapping_state_v2_eq:
  assumes "4096 \<le> mp_len m"
  shows "mapping_state_v2 m d =
    (if \<not> live_v2 m (vd_generation d) then ring_err (not_live_error m (vd_generation d))
     else if depth_v2_ok m (vd_layout d)
     then Inr \<lparr>vs_producer_sequence = produced_v2 m, vs_consumer_sequence = consumed_v2 m,
               vs_occupancy = occupancy_v2 m,
               vs_available_capacity = vl_slot_count (vd_layout d) - occupancy_v2 m\<rparr>
     else ring_err (CorruptSequences (produced_v2 m) (consumed_v2 m)))"
proof (cases "unat (consumed_v2 m) \<le> unat (produced_v2 m)")
  case False
  then show ?thesis
    using assms by (simp add: mapping_state_v2_def ensure_live_eq load_consistent_sequences_v2_eq
        depth_v2_ok_def)
next
  case True
  then have "produced_v2 m - consumed_v2 m > ucast (vl_slot_count (vd_layout d)) \<longleftrightarrow>
      \<not> depth_v2_ok m (vd_layout d)"
    by (auto simp: word_less_nat_alt unat_sub_fits depth_v2_ok_def)
  then show ?thesis
    using assms True depth_v2_word(1) [of m "vd_layout d"]
    by (simp add: mapping_state_v2_def ensure_live_eq load_consistent_sequences_v2_eq)
qed

lemma occupancy_v2_zero:
  "depth_v2_ok m l \<Longrightarrow> occupancy_v2 m = 0 \<longleftrightarrow> produced_v2 m = consumed_v2 m"
  using depth_v2_word(2) [of m l] by (auto simp: word_unat_eq_iff depth_v2_ok_def)

lemma occupancy_v2_full:
  "depth_v2_ok m l \<Longrightarrow> occupancy_v2 m = vl_slot_count l \<longleftrightarrow>
     unat (produced_v2 m) = unat (consumed_v2 m) + unat (vl_slot_count l)"
  using depth_v2_word(2) [of m l] by (auto simp: word_unat_eq_iff depth_v2_ok_def)

section \<open>Publishing in closed form\<close>

definition batch_writes ::
  "ring_v2_descriptor \<Rightarrow> nat \<Rightarrow> u64 \<Rightarrow> u8 list \<Rightarrow> u64 \<Rightarrow> u32 \<Rightarrow> u64 \<Rightarrow> u8 list \<Rightarrow> store_op list" where
  "batch_writes d base slot_sequence session logical batch bytes pixels =
     [atomic_store (base + SLOT_SEQUENCE_OFFSET_V2) 0,
      fill_zero (base + 8) (base + unat (vl_slot_stride_bytes (vd_layout d))),
      put_u64 (base + SLOT_GENERATION_OFFSET_V2) (vd_generation d),
      put_u64 (base + SLOT_LOGICAL_SEQUENCE_OFFSET) logical,
      (base + SLOT_SESSION_ID_OFFSET, session),
      put_u32 (base + SLOT_BATCH_OFFSET) batch,
      put_u32 (base + SLOT_WIDTH_OFFSET_V2) (vl_width (vd_layout d)),
      put_u32 (base + SLOT_HEIGHT_OFFSET_V2) (vl_height (vd_layout d)),
      put_u64 (base + SLOT_FRAME_STRIDE_OFFSET) (vl_frame_stride_bytes (vd_layout d)),
      put_u64 (base + SLOT_PAYLOAD_BYTES_OFFSET_V2) bytes,
      (base + SLOT_HEADER_LEN_V2, pixels),
      atomic_store (base + SLOT_SEQUENCE_OFFSET_V2) slot_sequence]"

text \<open>The answer of a publication that writes nothing, and \<open>None\<close> when every check passes.\<close>

definition batch_refused ::
  "mapping \<Rightarrow> ring_v2_descriptor \<Rightarrow> u8 list \<Rightarrow> u64 \<Rightarrow> u32 \<Rightarrow> u32 \<Rightarrow> u32 \<Rightarrow> u8 list \<Rightarrow>
   write_v2_status ring_result option" where
  "batch_refused m d session logical batch width height pixels =
     (let l = vd_layout d; expected = unat (vl_frame_stride_bytes l) * unat batch in
      if \<not> live_v2 m (vd_generation d) then Some (ring_err (not_live_error m (vd_generation d)))
      else if list_all (\<lambda>byte. byte = 0) session then Some (ring_err InvalidSessionId)
      else if logical = 0 then Some (ring_err InvalidLogicalSequence)
      else if \<not> (1 \<le> batch \<and> batch \<le> vl_maximum_batch l)
      then Some (ring_err (InvalidBatchCount batch))
      else if width \<noteq> vl_width l \<or> height \<noteq> vl_height l
      then Some (ring_err (InvalidDimensions width height))
      else if length pixels \<noteq> expected
      then Some (ring_err (BatchLengthMismatch expected (length pixels)))
      else if \<not> depth_v2_ok m l then Some (ring_err (CorruptSequences (produced_v2 m) (consumed_v2 m)))
      else if unat (produced_v2 m) = unat (consumed_v2 m) + unat (vl_slot_count l)
      then Some (Inr (BackpressureV2 (vl_slot_count l) (vl_slot_count l)))
      else if unat (produced_v2 m) + 1 = 2 ^ 64 then Some (ring_err SequenceExhausted)
      else None)"

lemma write_mapping_batch_refused:
  assumes map: "ring_v2_mapped m d"
    and some: "batch_refused m d session logical batch width height pixels = Some r"
  shows "write_mapping_batch m d session logical batch width height pixels = (r, m)"
proof -
  note ok = ring_v2_mappedD(1) [OF map] and len = ring_v2_mappedD(2) [OF map]
  obtain n where n: "checked_mul (vl_frame_stride_bytes (vd_layout d)) (ucast batch) = Some n"
    "unat n = unat (vl_frame_stride_bytes (vd_layout d)) * unat batch"
    by (rule batch_bytes_ok [OF ok])
  have exh: "checked_add (produced_v2 m) 1 = None" if "unat (produced_v2 m) + 1 = 2 ^ 64"
    using that by (simp add: checked_add_None)
  show ?thesis
    using some occupancy_v2_full [of m "vd_layout d"] exh unfolding batch_refused_def Let_def
    by (auto simp: write_mapping_batch_def Let_def ensure_live_eq [OF len] n
        mapping_state_v2_eq [OF len] split: if_splits)
qed

lemma write_mapping_batch_accepted:
  assumes map: "ring_v2_mapped m d" and session: "length session = 16"
    and none: "batch_refused m d session logical batch width height pixels = None"
  obtains bytes where "unat bytes = unat (vl_frame_stride_bytes (vd_layout d)) * unat batch"
    and "write_mapping_batch m d session logical batch width height pixels =
      (Inr (WrittenV2 \<lparr>bm_generation = vd_generation d, bm_slot_sequence = produced_v2 m + 1,
              bm_logical_sequence = logical, bm_session_id = session, bm_batch = batch\<rparr>),
       perform_all m (batch_writes d
           (slot_v2_at (vd_layout d) (slot_v2_index (vd_layout d) (produced_v2 m + 1)))
           (produced_v2 m + 1) session logical batch bytes pixels
         @ [atomic_store HEADER_PRODUCER_SEQUENCE_OFFSET_V2 (produced_v2 m + 1)]))"
proof -
  note ok = ring_v2_mappedD(1) [OF map] and len = ring_v2_mappedD(2) [OF map]
  let ?l = "vd_layout d" and ?s = "produced_v2 m + 1"
  let ?b = "slot_v2_at ?l (slot_v2_index ?l ?s)"
  obtain n where n: "checked_mul (vl_frame_stride_bytes ?l) (ucast batch) = Some n"
    "unat n = unat (vl_frame_stride_bytes ?l) * unat batch"
    by (rule batch_bytes_ok [OF ok])
  from none have c: "live_v2 m (vd_generation d)" "\<not> list_all (\<lambda>byte. byte = 0) session"
    "logical \<noteq> 0" "1 \<le> batch" "batch \<le> vl_maximum_batch ?l" "width = vl_width ?l"
    "height = vl_height ?l" "length pixels = unat (vl_frame_stride_bytes ?l) * unat batch"
    "depth_v2_ok m ?l" "unat (produced_v2 m) \<noteq> unat (consumed_v2 m) + unat (vl_slot_count ?l)"
    "unat (produced_v2 m) + 1 \<noteq> 2 ^ 64"
    by (auto simp: batch_refused_def Let_def split: if_splits)
  have "unat (produced_v2 m) < 2 ^ 64"
    using unsigned_less [of "produced_v2 m"] by simp
  with c(11) have fits: "unat (produced_v2 m) + unat (1 :: u64) < 2 ^ LENGTH(64)"
    by simp
  then have "unat ?s = unat (produced_v2 m) + 1"
    by (simp add: unat_add_fits)
  then have s0: "?s \<noteq> 0"
    by (metis Suc_eq_plus1 nat.simps(3) unat_0)
  have seq: "checked_add (produced_v2 m) 1 = Some ?s"
    using fits by (simp add: checked_add_def)
  have occ: "occupancy_v2 m \<noteq> vl_slot_count ?l"
    using occupancy_v2_full [OF c(9)] c(10) by simp
  have e: "?b + unat (vl_slot_stride_bytes ?l) \<le> mp_len m"
    by (rule ring_v2_mappedD(3) [OF map slot_v2_index_less [OF ok]])
  have p: "128 + unat (vl_frame_stride_bytes ?l) * unat batch \<le> unat (vl_slot_stride_bytes ?l)"
    using batch_bytes_le [OF ok] c(5) by (simp add: word_le_nat_alt)
  show thesis
  proof (rule that [OF n(2)])
    define b where "b = ?b"
    have base: "slot_base_v2 ?l ?s = Inr b"
      unfolding b_def by (rule slot_base_v2_ok [OF ok s0])
    have in1: "list_all (write_in m) [atomic_store (b + SLOT_SEQUENCE_OFFSET_V2) 0]"
      using e p by (simp add: write_in_simps slot_v2_offsets b_def)
    define ws where "ws = drop 1 (batch_writes d b ?s session logical batch n pixels) @
        [atomic_store HEADER_PRODUCER_SEQUENCE_OFFSET_V2 ?s]"
    have in2: "list_all (write_in m') ws" if "mp_len m' = mp_len m" for m'
      using e p c(8) len that session
      by (auto simp: ws_def batch_writes_def write_in_simps slot_v2_offsets b_def SLOT_HEADER_LEN_V2_def
          header_v2_offsets write_in_def [of m' "(x, y)" for x y])
    have ws: "batch_writes d b ?s session logical batch n pixels @
        [atomic_store HEADER_PRODUCER_SEQUENCE_OFFSET_V2 ?s] =
        atomic_store (b + SLOT_SEQUENCE_OFFSET_V2) 0 # ws"
      by (simp add: ws_def batch_writes_def)
    have w2: "writing (perform m (atomic_store (b + SLOT_SEQUENCE_OFFSET_V2) 0)) ws k =
        k (perform_all (perform m (atomic_store (b + SLOT_SEQUENCE_OFFSET_V2) 0)) ws)" for k ::
        "mapping \<Rightarrow> write_v2_status ring_result \<times> mapping"
      by (rule writing_ok) (rule in2, simp)
    show "write_mapping_batch m d session logical batch width height pixels =
      (Inr (WrittenV2 \<lparr>bm_generation = vd_generation d, bm_slot_sequence = ?s,
              bm_logical_sequence = logical, bm_session_id = session, bm_batch = batch\<rparr>),
       perform_all m (batch_writes d ?b ?s session logical batch n pixels
         @ [atomic_store HEADER_PRODUCER_SEQUENCE_OFFSET_V2 ?s]))"
      unfolding b_def [symmetric] ws
      using c occ w2 [unfolded ws_def batch_writes_def]
      by (simp add: write_mapping_batch_def Let_def ensure_live_eq [OF len] n
          mapping_state_v2_eq [OF len] seq base writing_ok [OF in1] ws_def batch_writes_def)
  qed
qed

section \<open>Taking in closed form\<close>

definition slot_v2_header_ok :: "mapping \<Rightarrow> nat \<Rightarrow> ring_v2_descriptor \<Rightarrow> bool" where
  "slot_v2_header_ok m b d \<longleftrightarrow>
     word_at m (b + 8) = vd_generation d \<and> word_at m (b + 16) \<noteq> 0 \<and>
     list_ex (\<lambda>byte. byte \<noteq> 0) (slice m (b + 24) (b + 40)) \<and>
     1 \<le> half_at m (b + 40) \<and> half_at m (b + 40) \<le> vl_maximum_batch (vd_layout d) \<and>
     half_at m (b + 44) = vl_width (vd_layout d) \<and> half_at m (b + 48) = vl_height (vd_layout d) \<and>
     word_at m (b + 56) = vl_frame_stride_bytes (vd_layout d) \<and>
     unat (word_at m (b + 64)) =
       unat (vl_frame_stride_bytes (vd_layout d)) * unat (half_at m (b + 40)) \<and>
     list_all (\<lambda>byte. byte = 0) (slice m (b + 72) (b + 128))"

definition slot_v2_valid :: "mapping \<Rightarrow> nat \<Rightarrow> ring_v2_descriptor \<Rightarrow> bool" where
  "slot_v2_valid m b d \<longleftrightarrow> slot_v2_header_ok m b d \<and>
     list_all (\<lambda>byte. byte = 0)
       (slice m (b + 128 + unat (word_at m (b + 64))) (b + unat (vl_slot_stride_bytes (vd_layout d))))"

definition batch_unread :: "mapping \<Rightarrow> ring_v2_descriptor \<Rightarrow> read_v2_status ring_result option" where
  "batch_unread m d =
     (let b = slot_v2_at (vd_layout d) (slot_v2_index (vd_layout d) (consumed_v2 m + 1)) in
      if \<not> live_v2 m (vd_generation d) then Some (ring_err (not_live_error m (vd_generation d)))
      else if \<not> depth_v2_ok m (vd_layout d)
      then Some (ring_err (CorruptSequences (produced_v2 m) (consumed_v2 m)))
      else if produced_v2 m = consumed_v2 m then Some (Inr EmptyV2)
      else if word_at m b \<noteq> consumed_v2 m + 1 \<or> \<not> slot_v2_valid m b d
      then Some (ring_err (CorruptSlot (consumed_v2 m + 1)))
      else None)"

text \<open>The batch in a slot.\<close>

definition batch_in_slot :: "mapping \<Rightarrow> ring_v2_descriptor \<Rightarrow> nat \<Rightarrow> u64 \<Rightarrow> rgba_batch_v2" where
  "batch_in_slot m d b s =
     \<lparr>rb_metadata = \<lparr>bm_generation = vd_generation d, bm_slot_sequence = s,
        bm_logical_sequence = word_at m (b + 16), bm_session_id = slice m (b + 24) (b + 40),
        bm_batch = half_at m (b + 40)\<rparr>,
      rb_width = vl_width (vd_layout d), rb_height = vl_height (vd_layout d),
      rb_pixels = slice m (b + 128) (b + 128 + unat (word_at m (b + 64)))\<rparr>"

lemma slot_header_valid_ok:
  assumes "layout_v2_ok (vd_layout d)" and "b + unat (vl_slot_stride_bytes (vd_layout d)) \<le> mp_len m"
    and "unat expected = unat (vl_frame_stride_bytes (vd_layout d)) * unat (half_at m (b + 40))"
  shows "slot_header_valid m b d (word_at m (b + 16)) (slice m (b + 24) (b + 40)) (half_at m (b + 40))
    (word_at m (b + 64)) expected = Inr (slot_v2_header_ok m b d)"
proof -
  note g = layout_v2_geometry [OF assms(1)]
  let ?batch = "half_at m (b + 40)" and ?bytes = "word_at m (b + 64)"
  have "?bytes \<le> vl_slot_bytes (vd_layout d)"
    if "?batch \<le> vl_maximum_batch (vd_layout d)" "?bytes = expected"
  proof -
    have "unat expected \<le> unat (vl_slot_bytes (vd_layout d))"
      unfolding assms(3) g(7) using that(1) by (intro mult_le_mono2) (simp add: word_le_nat_alt)
    then show ?thesis
      using that(2) by (simp add: word_le_nat_alt)
  qed
  moreover have "?bytes = expected \<longleftrightarrow>
      unat ?bytes = unat (vl_frame_stride_bytes (vd_layout d)) * unat ?batch"
    by (simp add: word_unat_eq_iff assms(3))
  ultimately show ?thesis
    using assms(2) g(8)
    by (auto simp: slot_header_valid_def Let_def slot_v2_offsets SLOT_HEADER_LEN_V2_def
        read_bytes_def get_u64_ok get_u32_ok holding_def slot_v2_header_ok_def)
qed

lemma read_mapping_batch_eq:
  assumes map: "ring_v2_mapped m d"
  shows "read_mapping_batch m d = (case batch_unread m d of
      Some r \<Rightarrow> (r, m)
    | None \<Rightarrow>
        (Inr (Batch (batch_in_slot m d
            (slot_v2_at (vd_layout d) (slot_v2_index (vd_layout d) (consumed_v2 m + 1)))
            (consumed_v2 m + 1))),
         perform m (atomic_store HEADER_CONSUMER_SEQUENCE_OFFSET_V2 (consumed_v2 m + 1))))"
proof (cases "live_v2 m (vd_generation d) \<and> depth_v2_ok m (vd_layout d) \<and>
    produced_v2 m \<noteq> consumed_v2 m")
  case False
  note len = ring_v2_mappedD(2) [OF map]
  show ?thesis
    using False occupancy_v2_zero [of m "vd_layout d"]
    by (auto simp: read_mapping_batch_def mapping_state_v2_eq [OF len] batch_unread_def Let_def)
next
  case True
  note ok = ring_v2_mappedD(1) [OF map] and len = ring_v2_mappedD(2) [OF map]
  note g = layout_v2_geometry [OF ok]
  let ?l = "vd_layout d" and ?s = "consumed_v2 m + 1"
  define b where "b = slot_v2_at ?l (slot_v2_index ?l ?s)"
  have occ: "occupancy_v2 m \<noteq> 0"
    using True occupancy_v2_zero by blast
  have max: "mp_len m \<le> usize_max"
    using map g(9,10) by (simp add: ring_v2_mapped_def usize_max_def)
  have "unat (consumed_v2 m) < unat (produced_v2 m)"
    using True by (auto simp: depth_v2_ok_def word_unat_eq_iff)
  moreover have "unat (produced_v2 m) < 2 ^ 64"
    using unsigned_less [of "produced_v2 m"] by simp
  ultimately have fits: "unat (consumed_v2 m) + unat (1 :: u64) < 2 ^ LENGTH(64)"
    by simp
  then have "unat ?s = unat (consumed_v2 m) + 1"
    by (simp add: unat_add_fits)
  then have s0: "?s \<noteq> 0"
    by (metis Suc_eq_plus1 nat.simps(3) unat_0)
  have seq: "checked_add (consumed_v2 m) 1 = Some ?s"
    using fits by (simp add: checked_add_def)
  have base: "slot_base_v2 ?l ?s = Inr b"
    unfolding b_def by (rule slot_base_v2_ok [OF ok s0])
  have e: "b + unat (vl_slot_stride_bytes ?l) \<le> mp_len m"
    unfolding b_def by (rule ring_v2_mappedD(3) [OF map slot_v2_index_less [OF ok]])
  obtain n where n: "checked_mul (vl_frame_stride_bytes ?l) (ucast (half_at m (b + 40))) = Some n"
    "unat n = unat (vl_frame_stride_bytes ?l) * unat (half_at m (b + 40))"
    by (rule batch_bytes_ok [OF ok])
  have pay: "128 + unat (word_at m (b + 64)) \<le> unat (vl_slot_stride_bytes ?l)"
    if "half_at m (b + 40) \<le> vl_maximum_batch ?l"
      "unat (word_at m (b + 64)) = unat (vl_frame_stride_bytes ?l) * unat (half_at m (b + 40))"
    using batch_bytes_le [OF ok] that by (simp add: word_le_nat_alt)
  have head: "128 \<le> unat (vl_slot_stride_bytes ?l)"
    using g(8) by simp
  note steps = read_mapping_batch_def Let_def mapping_state_v2_eq [OF len] ensure_live_eq [OF len]
    seq base slot_v2_offsets SLOT_HEADER_LEN_V2_def atomic_load_ok get_u64_ok get_u32_ok n
    read_bytes_def
  have sixteen: "b + 24 + 16 = b + 40"
    by simp
  have zero: "list_ex (\<lambda>byte. byte \<noteq> 0) bytes \<longleftrightarrow> \<not> list_all (\<lambda>byte. byte = 0) bytes" for bytes :: "u8 list"
    by (simp add: list_ex_iff list_all_iff)
  consider (committed) "word_at m b \<noteq> ?s" | (header) "word_at m b = ?s" "\<not> slot_v2_header_ok m b d"
    | (padding) "word_at m b = ?s" "slot_v2_header_ok m b d" "\<not> slot_v2_valid m b d"
    | (valid) "word_at m b = ?s \<and> slot_v2_valid m b d"
    by blast
  then show ?thesis
  proof cases
    case committed
    then show ?thesis
      using True occ e head
      by (simp add: steps batch_unread_def b_def [symmetric])
  next
    case header
    then show ?thesis
      using True occ e head
      by (simp add: steps sixteen slot_header_valid_ok [OF ok e n(2)] batch_unread_def slot_v2_valid_def
          b_def [symmetric] del: add.assoc)
  next
    case padding
    then have "128 + unat (word_at m (b + 64)) \<le> unat (vl_slot_stride_bytes ?l)"
      using pay by (simp add: slot_v2_header_ok_def)
    then show ?thesis
      using True occ e head padding max
      by (simp add: steps sixteen slot_header_valid_ok [OF ok e n(2)] batch_unread_def slot_v2_valid_def
          zero b_def [symmetric])
  next
    case valid
    have p: "128 + unat (word_at m (b + 64)) \<le> unat (vl_slot_stride_bytes ?l)"
      using valid pay by (simp add: slot_v2_valid_def slot_v2_header_ok_def)
    have w: "writing m [atomic_store HEADER_CONSUMER_SEQUENCE_OFFSET_V2 ?s] k =
        k (perform m (atomic_store HEADER_CONSUMER_SEQUENCE_OFFSET_V2 ?s))"
      for k :: "mapping \<Rightarrow> read_v2_status ring_result \<times> mapping"
      using len by (subst writing_ok) (simp_all add: write_in_simps header_v2_offsets)
    have pad: "\<not> list_ex (\<lambda>byte. byte \<noteq> 0)
        (slice m (b + 128 + unat (word_at m (b + 64))) (b + unat (vl_slot_stride_bytes ?l)))"
      using valid by (simp add: slot_v2_valid_def list_ex_iff list_all_iff)
    have none: "batch_unread m d = None"
      using True valid by (simp add: batch_unread_def Let_def b_def [symmetric])
    show ?thesis
      unfolding none
      using True occ e p valid pad max
      by (simp add: steps sixteen slot_header_valid_ok [OF ok e n(2)] w slot_v2_valid_def
          b_def [symmetric] batch_in_slot_def)
  qed
qed

end
