(* ===== verification/Ring2_Queue.thy ===== *)
theory Ring2_Queue
  imports Ring2_Access Bounded_Queue
begin

text \<open>
  The ring ABI 2 as a bounded queue of decoded batches: what a slot holds after a publication,
  that a publication leaves the other slots alone, and the refinement of the abstract queue with
  the ring's own slot count as capacity.
\<close>

section \<open>A batch in a slot\<close>

text \<open>What the producer hands over: session, logical sequence, batch count and pixels.\<close>

type_synonym batch_item = "u8 list \<times> u64 \<times> u32 \<times> u8 list"

fun batch_fits :: "ring_v2_descriptor \<Rightarrow> batch_item \<Rightarrow> bool" where
  "batch_fits d (session, logical, batch, pixels) \<longleftrightarrow>
     length session = 16 \<and> list_ex (\<lambda>byte. byte \<noteq> 0) session \<and> logical \<noteq> 0 \<and>
     1 \<le> batch \<and> batch \<le> vl_maximum_batch (vd_layout d) \<and>
     length pixels = unat (vl_frame_stride_bytes (vd_layout d)) * unat batch"

fun slot_v2_content :: "mapping \<Rightarrow> nat \<Rightarrow> ring_v2_descriptor \<Rightarrow> batch_item \<Rightarrow> bool" where
  "slot_v2_content m b d (session, logical, batch, pixels) \<longleftrightarrow>
     slot_v2_valid m b d \<and> word_at m (b + 16) = logical \<and> slice m (b + 24) (b + 40) = session \<and>
     half_at m (b + 40) = batch \<and>
     slice m (b + 128) (b + 128 + unat (word_at m (b + 64))) = pixels"

definition slot_v2_holds :: "mapping \<Rightarrow> ring_v2_descriptor \<Rightarrow> u64 \<Rightarrow> batch_item \<Rightarrow> bool" where
  "slot_v2_holds m d sequence item =
     (let b = slot_v2_at (vd_layout d) (slot_v2_index (vd_layout d) sequence) in
      word_at m b = sequence \<and> slot_v2_content m b d item)"

lemma slot_v2_fields_cong:
  assumes ok: "layout_v2_ok (vd_layout d)"
    and same: "slice m b (b + unat (vl_slot_stride_bytes (vd_layout d))) =
      slice m' b (b + unat (vl_slot_stride_bytes (vd_layout d)))"
  shows "word_at m b = word_at m' b" and "slot_v2_content m b d item = slot_v2_content m' b d item"
proof -
  let ?st = "unat (vl_slot_stride_bytes (vd_layout d))"
  have g: "128 \<le> ?st"
    using layout_v2_geometry(8) [OF ok] by simp
  have word: "word_at m (b + x) = word_at m' (b + x)" if "x + 8 \<le> 128" for x
    unfolding word_at_def using slice_sub [OF same, of "b + x" "b + x + 8"] that g by simp
  have half: "half_at m (b + x) = half_at m' (b + x)" if "x + 4 \<le> 128" for x
    unfolding half_at_def using slice_sub [OF same, of "b + x" "b + x + 4"] that g by simp
  have part: "slice m (b + x) (b + y) = slice m' (b + x) (b + y)" if "y \<le> ?st" for x y
    using slice_sub [OF same, of "b + x" "b + y"] that by simp
  show "word_at m b = word_at m' b"
    using word [of 0] by simp
  have header: "slot_v2_header_ok m b d = slot_v2_header_ok m' b d"
    unfolding slot_v2_header_ok_def using word half part [of 40 24] part [of 128 72] g by simp
  have bytes: "128 + unat (word_at m (b + 64)) \<le> ?st" if "slot_v2_header_ok m b d"
    using batch_bytes_le [OF ok, of "half_at m (b + 40)"] that
    by (simp add: slot_v2_header_ok_def word_le_nat_alt)
  show "slot_v2_content m b d item = slot_v2_content m' b d item"
  proof (cases "slot_v2_header_ok m b d")
    case True
    have len: "word_at m (b + 64) = word_at m' (b + 64)"
      using word [of 64] by simp
    have "slice m (b + 128) (b + 128 + unat (word_at m' (b + 64))) =
        slice m' (b + 128) (b + 128 + unat (word_at m' (b + 64)))"
      using part [of "128 + unat (word_at m (b + 64))" 128] bytes [OF True] len by (simp add: add.assoc)
    moreover have "slice m (b + 128 + unat (word_at m' (b + 64))) (b + ?st) =
        slice m' (b + 128 + unat (word_at m' (b + 64))) (b + ?st)"
      using part [of ?st "128 + unat (word_at m (b + 64))"] len by (simp add: add.assoc)
    ultimately show ?thesis
      using word [of 16] half [of 40] part [of 40 24] g header len
      by (cases "(m, b, d, item)" rule: slot_v2_content.cases) (simp add: slot_v2_valid_def)
  next
    case False
    then show ?thesis
      using header
      by (cases "(m, b, d, item)" rule: slot_v2_content.cases) (simp add: slot_v2_valid_def)
  qed
qed

lemma slot_v2_holds_cong:
  assumes "layout_v2_ok (vd_layout d)"
    and "{slot_v2_at (vd_layout d) (slot_v2_index (vd_layout d) s)..<
        slot_v2_at (vd_layout d) (slot_v2_index (vd_layout d) s) +
          unat (vl_slot_stride_bytes (vd_layout d))} \<inter> \<Union> (set (map covers ws)) = {}"
  shows "slot_v2_holds (perform_all m ws) d s item = slot_v2_holds m d s item"
  unfolding slot_v2_holds_def Let_def
  using slot_v2_fields_cong [OF assms(1) slice_perform_all_other [OF assms(2), of m]] by simp

section \<open>Publishing into a slot\<close>

lemma batch_writes_covers:
  assumes "layout_v2_ok (vd_layout d)" and "length session = 16"
    and "128 + length pixels \<le> unat (vl_slot_stride_bytes (vd_layout d))"
  shows "\<Union> (set (map covers (batch_writes d b s session logical batch bytes pixels))) \<subseteq>
    {b..<b + unat (vl_slot_stride_bytes (vd_layout d))}"
  using assms
  by (auto simp: batch_writes_def slot_v2_offsets SLOT_HEADER_LEN_V2_def covers_pair)

lemma batch_written:
  fixes s :: u64
  assumes ok: "layout_v2_ok (vd_layout d)"
    and fits: "batch_fits d (session, logical, batch, pixels)"
    and bytes: "unat bytes = unat (vl_frame_stride_bytes (vd_layout d)) * unat batch"
  defines "b \<equiv> slot_v2_at (vd_layout d) (slot_v2_index (vd_layout d) s)"
  shows "slot_v2_holds (perform_all m (batch_writes d b s session logical batch bytes pixels)) d s
    (session, logical, batch, pixels)"
proof -
  let ?l = "vd_layout d" and ?st = "unat (vl_slot_stride_bytes (vd_layout d))"
  let ?m = "perform_all m (batch_writes d b s session logical batch bytes pixels)"
  have f: "length session = 16" "list_ex (\<lambda>byte. byte \<noteq> 0) session" "logical \<noteq> 0" "1 \<le> batch"
    "batch \<le> vl_maximum_batch ?l" "length pixels = unat bytes"
    using fits bytes by simp_all
  have p: "128 + unat bytes \<le> ?st"
    using batch_bytes_le [OF ok] f(5) bytes by (simp add: word_le_nat_alt)
  have words: "word_at ?m b = s" "word_at ?m (b + 8) = vd_generation d"
    "word_at ?m (b + 16) = logical" "half_at ?m (b + 40) = batch" "half_at ?m (b + 44) = vl_width ?l"
    "half_at ?m (b + 48) = vl_height ?l" "word_at ?m (b + 56) = vl_frame_stride_bytes ?l"
    "word_at ?m (b + 64) = bytes"
    unfolding batch_writes_def using f(1)
    by (simp_all add: slot_v2_offsets SLOT_HEADER_LEN_V2_def covers_pair word_at_perform
        half_at_perform ivl_disjoint_nat)
  have session: "slice ?m (b + 24) (b + 40) = session"
    by (rule slice_written_last [of _ "take 4 (batch_writes d b s session logical batch bytes pixels)"
          "b + 24" session "drop 5 (batch_writes d b s session logical batch bytes pixels)"])
      (use f(1) in \<open>auto simp: batch_writes_def slot_v2_offsets SLOT_HEADER_LEN_V2_def covers_pair\<close>)
  have payload: "slice ?m (b + 128) (b + 128 + unat bytes) = pixels"
    by (rule slice_written_last [of _ "take 10 (batch_writes d b s session logical batch bytes pixels)"
          "b + 128" pixels "drop 11 (batch_writes d b s session logical batch bytes pixels)"])
      (use f(6) in \<open>auto simp: batch_writes_def slot_v2_offsets SLOT_HEADER_LEN_V2_def covers_pair\<close>)
  have zero: "mp_byte ?m i = 0" if "b + 72 \<le> i" "i < b + ?st" "i < b + 128 \<or> b + 128 + unat bytes \<le> i" for i
  proof -
    let ?m1 = "perform_all m (take 2 (batch_writes d b s session logical batch bytes pixels))"
    have "mp_byte ?m i = mp_byte (perform_all ?m1
        (drop 2 (batch_writes d b s session logical batch bytes pixels))) i"
      by (metis append_take_drop_id perform_all_simps(3))
    also have "\<dots> = mp_byte ?m1 i"
      by (rule perform_all_other)
        (use that f in \<open>auto simp: batch_writes_def slot_v2_offsets SLOT_HEADER_LEN_V2_def covers_pair\<close>)
    also have "\<dots> = 0"
      using that by (simp add: batch_writes_def perform_in) (simp add: fill_zero_def)
    finally show ?thesis .
  qed
  have "list_all (\<lambda>byte. byte = 0) (slice ?m (b + 72) (b + 128))"
    "list_all (\<lambda>byte. byte = 0) (slice ?m (b + 128 + unat bytes) (b + ?st))"
    using p by (auto simp: list_all_iff slice_all_zero intro!: zero)
  then show ?thesis
    using words session payload f bytes
    by (simp add: slot_v2_holds_def Let_def b_def [symmetric] slot_v2_valid_def slot_v2_header_ok_def)
qed

section \<open>The batches a mapping holds\<close>

definition ring_v2_holds :: "ring_v2_descriptor \<Rightarrow> mapping \<Rightarrow> nat \<Rightarrow> batch_item list \<Rightarrow> bool" where
  "ring_v2_holds d m k q \<longleftrightarrow>
     ring_v2_mapped m d \<and> live_v2 m (vd_generation d) \<and>
     unat (consumed_v2 m) = k \<and> unat (produced_v2 m) = k + length q \<and>
     length q \<le> unat (vl_slot_count (vd_layout d)) \<and>
     (\<forall>i<length q. slot_v2_holds m d (of_nat (k + i + 1)) (q ! i))"

datatype (plugins only:) ring_v2_answer =
    PutV2 "write_v2_status ring_result"
  | TakeV2 "read_v2_status ring_result"

text \<open>The calls of the two endpoints on one mapping.\<close>

fun ring_v2_step ::
  "ring_v2_descriptor \<Rightarrow> mapping \<Rightarrow> batch_item queue_op \<Rightarrow> ring_v2_answer \<times> mapping" where
  "ring_v2_step d m (Put (session, logical, batch, pixels)) =
     apfst PutV2 (write_mapping_batch m d session logical batch
       (vl_width (vd_layout d)) (vl_height (vd_layout d)) pixels)"
| "ring_v2_step d m Take = apfst TakeV2 (read_mapping_batch m d)"

fun item_metadata :: "ring_v2_descriptor \<Rightarrow> nat \<Rightarrow> batch_item \<Rightarrow> batch_v2_metadata" where
  "item_metadata d n (session, logical, batch, pixels) =
     \<lparr>bm_generation = vd_generation d, bm_slot_sequence = of_nat n, bm_logical_sequence = logical,
      bm_session_id = session, bm_batch = batch\<rparr>"

fun item_batch :: "ring_v2_descriptor \<Rightarrow> nat \<Rightarrow> batch_item \<Rightarrow> rgba_batch_v2" where
  "item_batch d n (session, logical, batch, pixels) =
     \<lparr>rb_metadata = item_metadata d n (session, logical, batch, pixels),
      rb_width = vl_width (vd_layout d), rb_height = vl_height (vd_layout d), rb_pixels = pixels\<rparr>"

definition stored_v2 :: "ring_v2_descriptor \<Rightarrow> nat \<Rightarrow> batch_item \<Rightarrow> ring_v2_answer" where
  "stored_v2 d n item = PutV2 (Inr (WrittenV2 (item_metadata d n item)))"

definition full_v2 :: "ring_v2_descriptor \<Rightarrow> ring_v2_answer" where
  "full_v2 d = PutV2 (Inr (BackpressureV2 (vl_slot_count (vd_layout d)) (vl_slot_count (vd_layout d))))"

definition taken_v2 :: "ring_v2_descriptor \<Rightarrow> nat \<Rightarrow> batch_item \<Rightarrow> ring_v2_answer" where
  "taken_v2 d n item = TakeV2 (Inr (Batch (item_batch d n item)))"

definition vacant_v2 :: ring_v2_answer where
  "vacant_v2 = TakeV2 (Inr EmptyV2)"

definition was_written_v2 :: "ring_v2_answer \<Rightarrow> bool" where
  "was_written_v2 r = (case r of PutV2 (Inr (WrittenV2 _)) \<Rightarrow> True | _ \<Rightarrow> False)"

definition batch_of :: "ring_v2_answer \<Rightarrow> rgba_batch_v2 option" where
  "batch_of r = (case r of TakeV2 (Inr (Batch b)) \<Rightarrow> Some b | _ \<Rightarrow> None)"

section \<open>One operation\<close>

lemma slot_v2_index_of_nat:
  "n < 2 ^ 64 \<Longrightarrow> slot_v2_index l (of_nat n) = (n - 1) mod unat (vl_slot_count l)"
  by (simp add: slot_v2_index_def unat_of_nat_fits)

lemma mod_neq_of_less_distance:
  "i < j \<Longrightarrow> j < i + n \<Longrightarrow> i mod n \<noteq> j mod n" for i j n :: nat
proof
  assume "i < j" "j < i + n" "i mod n = j mod n"
  then have "n dvd j - i"
    by (metis less_or_eq_imp_le mod_eq_dvd_iff_nat)
  then show False
    using \<open>i < j\<close> \<open>j < i + n\<close> by (auto dest!: dvd_imp_le)
qed

lemma slot_v2_index_differs:
  assumes "i < len" "len < unat (vl_slot_count l)" "k + len + 1 < 2 ^ 64"
  shows "slot_v2_index l (of_nat (k + i + 1)) \<noteq> slot_v2_index l (of_nat (k + len + 1))"
proof -
  have "slot_v2_index l (of_nat (k + i + 1)) = (k + i) mod unat (vl_slot_count l)"
    "slot_v2_index l (of_nat (k + len + 1)) = (k + len) mod unat (vl_slot_count l)"
    by (subst slot_v2_index_of_nat; use assms in auto)+
  then show ?thesis
    using mod_neq_of_less_distance [of "k + i" "k + len" "unat (vl_slot_count l)"] assms
    by (simp only:) simp
qed

text \<open>Writes that stay in the header, or in the slot that comes next, leave the queue's slots alone.\<close>

lemma queue_slots_kept:
  assumes h: "ring_v2_holds d m k q" and i: "i < length q"
    and w: "\<Union> (set (map covers ws)) \<subseteq> {0..<4096} \<or>
      length q < unat (vl_slot_count (vd_layout d)) \<and> k + length q + 1 < 2 ^ 64 \<and>
      (let b = slot_v2_at (vd_layout d) (slot_v2_index (vd_layout d) (of_nat (k + length q + 1))) in
        \<Union> (set (map covers ws)) \<subseteq> {b..<b + unat (vl_slot_stride_bytes (vd_layout d))})"
  shows "slot_v2_holds (perform_all m ws) d (of_nat (k + i + 1)) (q ! i)"
proof -
  let ?l = "vd_layout d" and ?st = "unat (vl_slot_stride_bytes (vd_layout d))"
  let ?c = "slot_v2_at ?l (slot_v2_index ?l (of_nat (k + i + 1)))"
  have ok: "layout_v2_ok ?l" and at: "slot_v2_holds m d (of_nat (k + i + 1)) (q ! i)"
    using h i by (auto simp: ring_v2_holds_def ring_v2_mapped_def)
  have "{?c..<?c + ?st} \<inter> \<Union> (set (map covers ws)) = {}"
    using w
  proof
    assume "\<Union> (set (map covers ws)) \<subseteq> {0..<4096}"
    then show ?thesis
      using slot_v2_at_header [of ?l "slot_v2_index ?l (of_nat (k + i + 1))"] by fastforce
  next
    assume a: "length q < unat (vl_slot_count ?l) \<and> k + length q + 1 < 2 ^ 64 \<and>
      (let b = slot_v2_at ?l (slot_v2_index ?l (of_nat (k + length q + 1))) in
        \<Union> (set (map covers ws)) \<subseteq> {b..<b + ?st})"
    then show ?thesis
      using slot_v2_at_disjoint [OF slot_v2_index_differs [OF i], of ?l k ?l] unfolding Let_def by blast
  qed
  then show ?thesis
    using slot_v2_holds_cong [OF ok] at by blast
qed

lemma ring_v2_put_room:
  assumes h: "ring_v2_holds d m k q" and fits: "batch_fits d item"
    and room: "length q < unat (vl_slot_count (vd_layout d))" and lim: "k + length q + 1 < 2 ^ 64"
  shows "\<exists>m'. ring_v2_step d m (Put item) = (stored_v2 d (k + length q + 1) item, m') \<and>
    ring_v2_holds d m' k (q @ [item])"
proof -
  obtain session logical batch pixels where item: "item = (session, logical, batch, pixels)"
    by (metis prod_cases4)
  let ?s = "produced_v2 m + 1" and ?l = "vd_layout d"
  let ?b = "slot_v2_at ?l (slot_v2_index ?l ?s)"
  from h have map: "ring_v2_mapped m d" and live: "live_v2 m (vd_generation d)"
    and con: "unat (consumed_v2 m) = k" and pro: "unat (produced_v2 m) = k + length q"
    by (auto simp: ring_v2_holds_def)
  note ok = ring_v2_mappedD(1) [OF map]
  have us: "unat ?s = k + length q + 1"
    using lim pro by (subst unat_add_fits) simp_all
  then have s: "?s = of_nat (k + length q + 1)"
    using lim by (intro word_eq_of_nat) simp_all
  have f: "length session = 16" "list_ex (\<lambda>byte. byte \<noteq> 0) session"
    "1 \<le> batch \<and> batch \<le> vl_maximum_batch ?l"
    "length pixels = unat (vl_frame_stride_bytes ?l) * unat batch"
    using fits by (simp_all add: item)
  have free: "batch_refused m d session logical batch (vl_width ?l) (vl_height ?l) pixels = None"
    using live fits room con pro lim
    by (auto simp: batch_refused_def Let_def depth_v2_ok_def item list_all_iff list_ex_iff)
  obtain bytes where bytes: "unat bytes = unat (vl_frame_stride_bytes ?l) * unat batch"
    and run: "write_mapping_batch m d session logical batch (vl_width ?l) (vl_height ?l) pixels =
      (Inr (WrittenV2 \<lparr>bm_generation = vd_generation d, bm_slot_sequence = ?s,
              bm_logical_sequence = logical, bm_session_id = session, bm_batch = batch\<rparr>),
       perform_all m (batch_writes d ?b ?s session logical batch bytes pixels
         @ [atomic_store HEADER_PRODUCER_SEQUENCE_OFFSET_V2 ?s]))"
    by (rule write_mapping_batch_accepted [OF map f(1) free])
  define ws where "ws = batch_writes d ?b ?s session logical batch bytes pixels"
  define m1 where "m1 = perform_all m ws"
  define m' where "m' = perform m1 (atomic_store HEADER_PRODUCER_SEQUENCE_OFFSET_V2 ?s)"
  have "ring_v2_step d m (Put item) = (PutV2 (Inr (WrittenV2 \<lparr>bm_generation = vd_generation d,
      bm_slot_sequence = ?s, bm_logical_sequence = logical, bm_session_id = session,
      bm_batch = batch\<rparr>)), m')"
    by (simp add: item run m'_def m1_def ws_def)
  then have step: "ring_v2_step d m (Put item) = (stored_v2 d (k + length q + 1) item, m')"
    by (simp only: s stored_v2_def item item_metadata.simps)
  have "128 + length pixels \<le> unat (vl_slot_stride_bytes ?l)"
    using batch_bytes_le [OF ok, of batch] f(3,4) by (simp add: word_le_nat_alt)
  then have inside: "\<Union> (set (map covers ws)) \<subseteq> {?b..<?b + unat (vl_slot_stride_bytes ?l)}"
    unfolding ws_def by (rule batch_writes_covers [OF ok f(1)])
  have w1: "word_at m1 a = word_at m a" if "a + 8 \<le> 4096" for a
    unfolding m1_def
    by (rule word_at_other)
      (use inside that slot_v2_at_header [of ?l "slot_v2_index ?l ?s"] in fastforce)
  have all: "slot_v2_holds m' d (of_nat (k + i + 1)) ((q @ [item]) ! i)"
    if "i < length (q @ [item])" for i
  proof -
    have "slot_v2_holds m1 d (of_nat (k + i + 1)) ((q @ [item]) ! i)"
    proof (cases "i < length q")
      case True
      then show ?thesis
        using queue_slots_kept [OF h True, of ws] inside room lim
        unfolding s Let_def by (simp add: m1_def nth_append)
    next
      case False
      then have "i = length q"
        using that by simp
      moreover have "slot_v2_holds m1 d ?s item"
        unfolding m1_def ws_def item
        by (rule batch_written [OF ok _ bytes]) (use fits item in simp)
      ultimately show ?thesis
        by (simp only: s [symmetric] nth_append_length)
    qed
    moreover have "{slot_v2_at ?l (slot_v2_index ?l x)..<slot_v2_at ?l (slot_v2_index ?l x) +
        unat (vl_slot_stride_bytes ?l)} \<inter>
        \<Union> (set (map covers [atomic_store HEADER_PRODUCER_SEQUENCE_OFFSET_V2 ?s])) = {}" for x
      using slot_v2_at_header [of ?l "slot_v2_index ?l x"]
      by (auto simp: header_v2_offsets)
    ultimately show ?thesis
      unfolding m'_def using slot_v2_holds_cong [OF ok, of _
          "[atomic_store HEADER_PRODUCER_SEQUENCE_OFFSET_V2 ?s]" m1] by simp
  qed
  have "ring_v2_holds d m' k (q @ [item])"
    unfolding ring_v2_holds_def
  proof (intro conjI)
    show "\<forall>i<length (q @ [item]). slot_v2_holds m' d (of_nat (k + i + 1)) ((q @ [item]) ! i)"
      using all by blast
    show "ring_v2_mapped m' d"
      using map by (simp add: ring_v2_mapped_def m'_def m1_def)
    show "live_v2 m' (vd_generation d)" "unat (consumed_v2 m') = k"
      "unat (produced_v2 m') = k + length (q @ [item])"
      using live con us w1
      by (simp_all add: m'_def live_v2_def word_at_perform header_v2_offsets ivl_disjoint_nat)
    show "length (q @ [item]) \<le> unat (vl_slot_count ?l)"
      using room by simp
  qed
  with step show ?thesis
    by blast
qed

lemma ring_v2_put_full:
  assumes h: "ring_v2_holds d m k q" and fits: "batch_fits d item"
    and full: "length q = unat (vl_slot_count (vd_layout d))"
  shows "ring_v2_step d m (Put item) = (full_v2 d, m)"
proof -
  obtain session logical batch pixels where item: "item = (session, logical, batch, pixels)"
    by (metis prod_cases4)
  have busy: "batch_refused m d session logical batch (vl_width (vd_layout d))
      (vl_height (vd_layout d)) pixels =
    Some (Inr (BackpressureV2 (vl_slot_count (vd_layout d)) (vl_slot_count (vd_layout d))))"
    using h fits full
    by (auto simp: ring_v2_holds_def batch_refused_def Let_def depth_v2_ok_def item list_all_iff
        list_ex_iff)
  have map: "ring_v2_mapped m d"
    using h by (simp add: ring_v2_holds_def)
  show ?thesis
    by (simp add: item write_mapping_batch_refused [OF map busy] full_v2_def)
qed

lemma ring_v2_take_none:
  assumes "ring_v2_holds d m k []"
  shows "ring_v2_step d m Take = (vacant_v2, m)"
proof -
  have "ring_v2_mapped m d" and "batch_unread m d = Some (Inr EmptyV2)"
    using assms
    by (auto simp: ring_v2_holds_def batch_unread_def Let_def depth_v2_ok_def word_unat_eq_iff)
  then show ?thesis
    by (simp add: read_mapping_batch_eq vacant_v2_def)
qed

lemma ring_v2_take_some:
  assumes h: "ring_v2_holds d m k (item # q)"
  shows "\<exists>m'. ring_v2_step d m Take = (taken_v2 d (k + 1) item, m') \<and> ring_v2_holds d m' (k + 1) q"
proof -
  obtain session logical batch pixels where item: "item = (session, logical, batch, pixels)"
    by (metis prod_cases4)
  let ?s = "consumed_v2 m + 1" and ?l = "vd_layout d"
  let ?b = "slot_v2_at ?l (slot_v2_index ?l ?s)"
  from h have map: "ring_v2_mapped m d" and live: "live_v2 m (vd_generation d)"
    and con: "unat (consumed_v2 m) = k" and pro: "unat (produced_v2 m) = k + length q + 1"
    and len: "length q < unat (vl_slot_count ?l)" and first: "slot_v2_holds m d (of_nat (k + 1)) item"
    by (auto simp: ring_v2_holds_def)
  have "unat (produced_v2 m) < 2 ^ 64"
    using unsigned_less [of "produced_v2 m"] by simp
  then have lim: "k + 1 < 2 ^ 64"
    using pro by simp
  have us: "unat ?s = k + 1"
    using lim con by (subst unat_add_fits) simp_all
  then have s: "?s = of_nat (k + 1)"
    using lim by (intro word_eq_of_nat) simp_all
  have ne: "produced_v2 m \<noteq> consumed_v2 m"
    using con pro by auto
  have at: "word_at m ?b = ?s" "slot_v2_content m ?b d item"
    using first unfolding s [symmetric] by (simp_all add: slot_v2_holds_def Let_def)
  have none: "batch_unread m d = None"
    using live con pro len ne at
    by (simp add: batch_unread_def Let_def depth_v2_ok_def item)
  define m' where "m' = perform m (atomic_store HEADER_CONSUMER_SEQUENCE_OFFSET_V2 ?s)"
  have batch: "batch_in_slot m d ?b ?s = item_batch d (k + 1) item"
    using at(2) by (simp only: batch_in_slot_def item item_batch.simps item_metadata.simps s
        slot_v2_content.simps)
  have step: "ring_v2_step d m Take = (taken_v2 d (k + 1) item, m')"
    using batch by (simp add: read_mapping_batch_eq [OF map] none m'_def taken_v2_def)
  have "slot_v2_holds m' d (of_nat (k + 1 + i + 1)) (q ! i)" if i: "i < length q" for i
  proof -
    have "slot_v2_holds (perform_all m [atomic_store HEADER_CONSUMER_SEQUENCE_OFFSET_V2 ?s]) d
        (of_nat (k + Suc i + 1)) ((item # q) ! Suc i)"
      by (rule queue_slots_kept [OF h]) (use i in \<open>simp_all add: header_v2_offsets\<close>)
    moreover have "k + Suc i + 1 = k + 1 + i + 1"
      by simp
    ultimately show ?thesis
      by (simp only: m'_def perform_all_simps nth_Cons_Suc)
  qed
  moreover have "live_v2 m' (vd_generation d)" "unat (consumed_v2 m') = k + 1"
    "unat (produced_v2 m') = k + 1 + length q"
    using live pro us
    by (simp_all add: m'_def live_v2_def word_at_perform header_v2_offsets ivl_disjoint_nat)
  moreover have "ring_v2_mapped m' d"
    using map by (simp add: ring_v2_mapped_def m'_def)
  ultimately have "ring_v2_holds d m' (k + 1) q"
    using len by (simp add: ring_v2_holds_def)
  with step show ?thesis
    by blast
qed

text \<open>The ring ABI 2 fulfils the contract of the bounded queue, with its own capacity.\<close>

interpretation abi2: observed_queue "ring_v2_step d" "ring_v2_holds d" "batch_fits d"
    "unat (vl_slot_count (vd_layout d))" "2 ^ 64" "stored_v2 d" "full_v2 d" "taken_v2 d" vacant_v2
    was_written_v2 batch_of "item_batch d"
  for d
proof unfold_locales
  show "ring_v2_holds d m k q \<Longrightarrow> length q \<le> unat (vl_slot_count (vd_layout d))" for m k q
    by (simp add: ring_v2_holds_def)
  show "was_written_v2 (stored_v2 d n x)" "\<not> was_written_v2 (full_v2 d)"
    "batch_of (taken_v2 d n x) = Some (item_batch d n x)" "batch_of (stored_v2 d n x) = None"
    "batch_of (full_v2 d) = None" "batch_of vacant_v2 = None" for n x
    by (simp_all add: was_written_v2_def batch_of_def stored_v2_def full_v2_def taken_v2_def
        vacant_v2_def)
qed (use ring_v2_put_room ring_v2_put_full ring_v2_take_none ring_v2_take_some in \<open>blast+\<close>)

end
