(* ===== verification/Ring2_Header.thy ===== *)
theory Ring2_Header
  imports Ring2_Queue
begin

text \<open>
  Creating, attaching to, resetting and adopting a ring ABI 2: the header that is written is the
  header that is accepted, a reset hands over an empty ring of a new generation, and the
  endpoints of the old generation are shut out.
\<close>

section \<open>A fresh ring\<close>

definition header_v2_writes :: "nat \<Rightarrow> ring_v2_descriptor \<Rightarrow> store_op list" where
  "header_v2_writes n d =
     [fill_zero 0 n,
      (HEADER_MAGIC_OFFSET_V2, MAGIC_V2),
      put_u32 HEADER_ABI_OFFSET_V2 ABI_VERSION_V2,
      put_u32 HEADER_BYTES_OFFSET_V2 MAPPING_HEADER_FIELD_V2,
      put_u64 HEADER_GENERATION_OFFSET_V2 (vd_generation d),
      put_u64 HEADER_STATE_OFFSET_V2 STATE_READY,
      put_u32 HEADER_SLOT_COUNT_OFFSET_V2 (vl_slot_count (vd_layout d)),
      put_u32 HEADER_SLOT_HEADER_BYTES_OFFSET_V2 SLOT_HEADER_FIELD_V2,
      put_u32 HEADER_WIDTH_OFFSET_V2 (vl_width (vd_layout d)),
      put_u32 HEADER_HEIGHT_OFFSET_V2 (vl_height (vd_layout d)),
      put_u64 HEADER_FRAME_STRIDE_OFFSET_V2 (vl_frame_stride_bytes (vd_layout d)),
      put_u64 HEADER_SLOT_BYTES_OFFSET_V2 (vl_slot_bytes (vd_layout d)),
      put_u64 HEADER_SLOT_STRIDE_OFFSET_V2 (vl_slot_stride_bytes (vd_layout d)),
      put_u64 HEADER_MAPPING_BYTES_OFFSET_V2 (vl_mapping_bytes (vd_layout d)),
      put_u32 HEADER_MAX_BATCH_OFFSET_V2 (vl_maximum_batch (vd_layout d)),
      put_u32 HEADER_PIXEL_FORMAT_OFFSET_V2 PIXEL_FORMAT_RGBA8_V2]"

lemma initialize_mapping_v2_eq:
  assumes "layout_v2_ok (vd_layout d)"
  shows "initialize_mapping_v2 m d =
    (if mp_len m = unat (vl_mapping_bytes (vd_layout d))
     then (Inr (), perform_all m (header_v2_writes (mp_len m) d))
     else (ring_err (InvalidMappingLength (of_nat (mp_len m))), m))"
proof (cases "mp_len m = unat (vl_mapping_bytes (vd_layout d))")
  case True
  have "4096 \<le> mp_len m"
    using layout_v2_geometry(9) [OF assms] True by simp
  then have "list_all (write_in m) (header_v2_writes (mp_len m) d)"
    by (simp add: header_v2_writes_def write_in_simps header_v2_offsets MAGIC_V2_def
        write_in_def [of m "(a, bs)" for a bs])
  from writing_ok [OF this] show ?thesis
    using True by (simp add: initialize_mapping_v2_def mapping_len_v2_def header_v2_writes_def)
qed (simp add: initialize_mapping_v2_def mapping_len_v2_def)

lemma header_v2_fields:
  fixes m :: mapping and d :: ring_v2_descriptor
  assumes "4096 \<le> n"
  defines "m' \<equiv> perform_all m (header_v2_writes n d)"
  shows "slice m' 0 8 = MAGIC_V2" and "half_at m' 8 = 2" and "half_at m' 12 = 4096"
    and "word_at m' 16 = vd_generation d" and "word_at m' 24 = STATE_READY"
    and "half_at m' 32 = vl_slot_count (vd_layout d)" and "half_at m' 36 = 128"
    and "half_at m' 40 = vl_width (vd_layout d)" and "half_at m' 44 = vl_height (vd_layout d)"
    and "word_at m' 48 = vl_frame_stride_bytes (vd_layout d)"
    and "word_at m' 56 = vl_slot_bytes (vd_layout d)"
    and "word_at m' 64 = vl_slot_stride_bytes (vd_layout d)"
    and "word_at m' 72 = vl_mapping_bytes (vd_layout d)"
    and "half_at m' 80 = vl_maximum_batch (vd_layout d)" and "half_at m' 84 = 1"
    and "88 \<le> i \<Longrightarrow> i < n \<Longrightarrow> mp_byte m' i = 0"
proof -
  show "slice m' 0 8 = MAGIC_V2"
    unfolding m'_def
    by (rule slice_written_last [of _ "take 1 (header_v2_writes n d)" 0 MAGIC_V2
          "drop 2 (header_v2_writes n d)"])
      (auto simp: header_v2_writes_def header_v2_offsets MAGIC_V2_def)
  show "half_at m' 8 = 2" "half_at m' 12 = 4096" "word_at m' 16 = vd_generation d"
    "word_at m' 24 = STATE_READY" "half_at m' 32 = vl_slot_count (vd_layout d)" "half_at m' 36 = 128"
    "half_at m' 40 = vl_width (vd_layout d)" "half_at m' 44 = vl_height (vd_layout d)"
    "word_at m' 48 = vl_frame_stride_bytes (vd_layout d)"
    "word_at m' 56 = vl_slot_bytes (vd_layout d)"
    "word_at m' 64 = vl_slot_stride_bytes (vd_layout d)"
    "word_at m' 72 = vl_mapping_bytes (vd_layout d)"
    "half_at m' 80 = vl_maximum_batch (vd_layout d)" "half_at m' 84 = 1"
    unfolding m'_def header_v2_writes_def
    by (simp_all add: header_v2_offsets word_at_perform half_at_perform ivl_disjoint_nat
        ABI_VERSION_V2_def MAPPING_HEADER_FIELD_V2_def SLOT_HEADER_FIELD_V2_def
        PIXEL_FORMAT_RGBA8_V2_def)
  have "mp_byte m' i = mp_byte (perform m (fill_zero 0 n)) i" if "88 \<le> i"
  proof -
    have "i \<notin> \<Union> (set (map covers (drop 1 (header_v2_writes n d))))"
      using that by (auto simp: header_v2_writes_def header_v2_offsets covers_pair MAGIC_V2_def)
    then show ?thesis
      unfolding m'_def using perform_all_other [of i "drop 1 (header_v2_writes n d)"]
      by (simp add: header_v2_writes_def)
  qed
  then show "88 \<le> i \<Longrightarrow> i < n \<Longrightarrow> mp_byte m' i = 0"
    by (simp add: perform_in) (simp add: fill_zero_def)
qed

lemma fresh_ring_v2_holds:
  assumes "ring_v2_mapped m d"
  shows "ring_v2_holds d (perform_all m (header_v2_writes (mp_len m) d)) 0 []"
proof -
  note f = header_v2_fields [OF ring_v2_mappedD(2) [OF assms], where m = m and d = d]
  have "word_at (perform_all m (header_v2_writes (mp_len m) d)) a = 0" if "88 \<le> a" "a + 8 \<le> 4096" for a
    using that ring_v2_mappedD(2) [OF assms] by (intro word_at_zero allI impI f(16)) auto
  then show ?thesis
    using assms f(4,5) by (simp add: ring_v2_holds_def ring_v2_mapped_def live_v2_def header_v2_offsets)
qed

section \<open>Attaching\<close>

text \<open>Everything an attaching endpoint demands of the mapping.\<close>

definition header_v2_ok :: "mapping \<Rightarrow> u64 \<Rightarrow> ring_v2_descriptor \<Rightarrow> bool" where
  "header_v2_ok m bytes d \<longleftrightarrow>
     slice m 0 8 = MAGIC_V2 \<and> half_at m 8 = 2 \<and> half_at m 12 = 4096 \<and> half_at m 36 = 128 \<and>
     half_at m 84 = 1 \<and> ring_v2_mapped m d \<and> bytes = vl_mapping_bytes (vd_layout d) \<and>
     live_v2 m (vd_generation d) \<and> vd_generation d \<noteq> 0 \<and>
     half_at m 40 = vl_width (vd_layout d) \<and> half_at m 44 = vl_height (vd_layout d) \<and>
     half_at m 80 = vl_maximum_batch (vd_layout d) \<and> half_at m 32 = vl_slot_count (vd_layout d) \<and>
     word_at m 48 = vl_frame_stride_bytes (vd_layout d) \<and> word_at m 56 = vl_slot_bytes (vd_layout d) \<and>
     word_at m 64 = vl_slot_stride_bytes (vd_layout d) \<and>
     word_at m 72 = vl_mapping_bytes (vd_layout d) \<and>
     list_all (\<lambda>byte. byte = 0) (slice m 120 4096) \<and>
     word_at m 104 \<le> 1 \<and> word_at m 112 \<le> 1 \<and> depth_v2_ok m (vd_layout d)"

lemma header_check_v2_Inr [try_iffs]:
  "header_check field p name rest = Inr x \<longleftrightarrow> (\<exists>v. field = Inr v \<and> p v \<and> rest = Inr x)"
  by (auto simp: header_check_def require_header_def try_iffs)

lemma validate_mapping_header_v2_Inr:
  "validate_mapping_header_v2 m bytes = Inr d \<longleftrightarrow> header_v2_ok m bytes d"
proof (cases "4096 \<le> mp_len m")
  case False
  then show ?thesis
    using ring_v2_mappedD(2) [of m d]
    by (auto simp: validate_mapping_header_v2_def MAPPING_HEADER_LEN_V2_def header_v2_ok_def)
next
  case True
  have eq: "\<lparr>vd_layout = l, vd_generation = g\<rparr> = d \<longleftrightarrow> l = vd_layout d \<and> g = vd_generation d" for l g
    by (cases d) auto
  have magic: "length MAGIC_V2 = 8"
    by (simp add: MAGIC_V2_def)
  note rules = validate_mapping_header_v2_def MAPPING_HEADER_LEN_V2_def Let_def try_iffs
    read_bytes_def get_u32_ok get_u64_ok atomic_load_ok magic require_ready_eq [OF True]
    mapping_state_v2_eq [OF True] require_header_def header_v2_offsets eq
  show ?thesis
    unfolding header_v2_ok_def ring_v2_mapped_def live_v2_def
    using True
    by (simp add: rules ABI_VERSION_V2_def MAPPING_HEADER_FIELD_V2_def SLOT_HEADER_FIELD_V2_def
        PIXEL_FORMAT_RGBA8_V2_def live_v2_def split del: if_split) (auto split: if_splits)
qed

section \<open>Resetting\<close>

definition clear_v2_writes :: "ring_v2_layout \<Rightarrow> u64 list \<Rightarrow> store_op list" where
  "clear_v2_writes l indices = concat (map (\<lambda>i. [atomic_store (slot_v2_at l (unat i)) 0,
     fill_zero (slot_v2_at l (unat i) + 8)
       (slot_v2_at l (unat i) + unat (vl_slot_stride_bytes l))]) indices)"

lemma clear_slots_v2_eq:
  assumes "layout_v2_ok l" and "mp_len m = unat (vl_mapping_bytes l)"
    and "list_all (\<lambda>i. unat i < unat (vl_slot_count l)) indices"
  shows "clear_slots_v2 l indices m = (Inr (), perform_all m (clear_v2_writes l indices))"
  using assms(2,3)
proof (induction indices arbitrary: m)
  case Nil
  then show ?case by (simp add: clear_v2_writes_def)
next
  case (Cons i indices)
  have e: "slot_v2_at l (unat i) + unat (vl_slot_stride_bytes l) \<le> mp_len m"
    using slot_v2_at_end [OF assms(1)] Cons.prems by simp
  have g: "128 \<le> unat (vl_slot_stride_bytes l)"
    using layout_v2_geometry(8) [OF assms(1)] by simp
  show ?case
    using Cons e g slot_base_for_index_ok [OF assms(1), of i]
    by (simp add: writing_ok write_in_simps slot_v2_offsets clear_v2_writes_def)
qed

lemma clear_v2_writes_covers:
  assumes "layout_v2_ok l"
  shows "\<Union> (set (map covers (clear_v2_writes l (slot_indices l)))) =
    {4096..<unat (vl_mapping_bytes l)}"
proof -
  let ?st = "unat (vl_slot_stride_bytes l)" and ?n = "unat (vl_slot_count l)"
  note g = layout_v2_geometry [OF assms]
  have idx: "unat (of_nat i :: u64) = i" if "i < ?n" for i
    using that g(6) by (intro unat_of_nat_fits) simp
  have "\<Union> (set (map covers (clear_v2_writes l (slot_indices l)))) =
      (\<Union>i<?n. {slot_v2_at l i..<slot_v2_at l i + ?st})"
  proof -
    have one: "{b..<b + 8} \<union> {b + 8..<b + ?st} = {b..<b + ?st}" for b
      using g(8) by auto
    have "\<Union> (set (map covers (clear_v2_writes l (slot_indices l)))) =
        (\<Union>i<?n. {slot_v2_at l (unat (of_nat i :: u64))..<slot_v2_at l (unat (of_nat i :: u64)) + 8} \<union>
          {slot_v2_at l (unat (of_nat i :: u64)) + 8..<slot_v2_at l (unat (of_nat i :: u64)) + ?st})"
      by (simp add: clear_v2_writes_def slot_indices_def atLeast0LessThan)
    also have "\<dots> = (\<Union>i<?n. {slot_v2_at l i..<slot_v2_at l i + ?st})"
      using idx one by (intro SUP_cong refl) (simp del: Un_iff)
    finally show ?thesis .
  qed
  also have "\<dots> = {4096..<4096 + ?st * ?n}"
  proof (intro set_eqI iffI)
    fix x
    assume "x \<in> {4096..<4096 + ?st * ?n}"
    then have x: "4096 \<le> x" "x - 4096 < ?n * ?st"
      by (auto simp: mult.commute)
    define i where "i = (x - 4096) div ?st"
    have "i < ?n"
      unfolding i_def using x(2) by (simp add: less_mult_imp_div_less)
    moreover have "x = slot_v2_at l i + (x - 4096) mod ?st"
      using x(1) by (simp add: slot_v2_at_def i_def)
    moreover have "(x - 4096) mod ?st < ?st"
      using g(8) by simp
    ultimately show "x \<in> (\<Union>i<?n. {slot_v2_at l i..<slot_v2_at l i + ?st})"
      by (intro UN_I [of i]) auto
  next
    fix x
    assume "x \<in> (\<Union>i<?n. {slot_v2_at l i..<slot_v2_at l i + ?st})"
    then obtain i where "i < ?n" "slot_v2_at l i \<le> x" "x < slot_v2_at l i + ?st"
      by auto
    then show "x \<in> {4096..<4096 + ?st * ?n}"
      using slot_v2_at_end [OF assms] slot_v2_at_header [of l i] g(9) by fastforce
  qed
  finally show ?thesis
    by (simp add: g(9))
qed

lemma perform_all_zero:
  "\<forall>w\<in>set ws. set (snd w) \<subseteq> {0} \<Longrightarrow> i \<in> \<Union> (set (map covers ws)) \<Longrightarrow>
   mp_byte (perform_all m ws) i = 0"
proof (induction ws rule: rev_induct)
  case Nil
  then show ?case by simp
next
  case (snoc w ws)
  show ?case
  proof (cases "i \<in> covers w")
    case True
    then have "snd w ! (i - fst w) \<in> set (snd w)"
      by (intro nth_mem) (auto simp: covers_def)
    then show ?thesis
      using snoc.prems(1) True by (auto simp: perform_in)
  next
    case False
    then show ?thesis
      using snoc by (auto simp: perform_other)
  qed
qed

lemma clear_v2_writes_zero: "\<forall>w\<in>set (clear_v2_writes l indices). set (snd w) \<subseteq> {0}"
proof -
  have "set (u64_to_le 0) \<subseteq> {0}"
    by (auto simp: u64_to_le_def to_le_bytes_def)
  then show ?thesis
    by (auto simp: clear_v2_writes_def atomic_store_def put_u64_def fill_zero_def)
qed

definition reset_v2_writes :: "ring_v2_layout \<Rightarrow> u64 \<Rightarrow> store_op list" where
  "reset_v2_writes l g =
     [atomic_store HEADER_GENERATION_OFFSET_V2 0] @ clear_v2_writes l (slot_indices l) @
     [atomic_store HEADER_PRODUCER_SEQUENCE_OFFSET_V2 0,
      atomic_store HEADER_CONSUMER_SEQUENCE_OFFSET_V2 0,
      atomic_store HEADER_GENERATION_OFFSET_V2 g]"

lemma slot_indices_less: "layout_v2_ok l \<Longrightarrow> list_all (\<lambda>i. unat i < unat (vl_slot_count l)) (slot_indices l)"
  using layout_v2_geometry(6) [of l] by (auto simp: slot_indices_def list_all_iff unat_of_nat_fits)

lemma reset_mapping_v2_eq:
  assumes map: "ring_v2_mapped m d"
  shows "reset_mapping_generation_v2 m d g =
    (if \<not> live_v2 m (vd_generation d) then (ring_err (not_live_error m (vd_generation d)), m)
     else if g \<le> vd_generation d then (ring_err (GenerationNotIncreasing (vd_generation d) g), m)
     else (Inr (d\<lparr>vd_generation := g\<rparr>),
       perform_all m (atomic_store HEADER_STATE_OFFSET_V2 STATE_RESETTING #
         reset_v2_writes (vd_layout d) g @ [atomic_store HEADER_STATE_OFFSET_V2 STATE_READY])))"
proof -
  note len = ring_v2_mappedD(2) [OF map] and ok = ring_v2_mappedD(1) [OF map]
  have "mp_len m' = unat (vl_mapping_bytes (vd_layout d))" if "mp_len m' = mp_len m" for m'
    using map that by (simp add: ring_v2_mapped_def)
  note clear = clear_slots_v2_eq [OF ok this slot_indices_less [OF ok]]
  show ?thesis
    using len
    by (simp add: reset_mapping_generation_v2_def ensure_live_eq [OF len] atomic_load_ok clear
        writing_ok write_in_simps header_v2_offsets reset_v2_writes_def live_v2_def)
qed

section \<open>Adopting\<close>

lemma check_slots_clear_v2_Inr:
  assumes "layout_v2_ok l" and "mp_len m = unat (vl_mapping_bytes l)"
    and "list_all (\<lambda>i. unat i < unat (vl_slot_count l)) indices"
  shows "check_slots_clear_v2 l m indices = Inr () \<longleftrightarrow>
    (\<forall>i\<in>set indices. word_at m (slot_v2_at l (unat i)) = 0)"
  using assms(3)
proof (induction indices)
  case Nil
  then show ?case by simp
next
  case (Cons i indices)
  have "slot_v2_at l (unat i) + 8 \<le> mp_len m"
    using slot_v2_at_end [OF assms(1), of "unat i"] layout_v2_geometry(8) [OF assms(1)] Cons.prems
      assms(2) by simp
  then show ?case
    using Cons slot_base_for_index_ok [OF assms(1), of i]
    by (simp add: atomic_load_ok slot_v2_offsets)
qed

lemma adopt_mapping_v2_Inr:
  assumes map: "ring_v2_mapped m d"
  shows "adopt_mapping_generation_v2 m d g = Inr d' \<longleftrightarrow>
    vd_generation d < g \<and> live_v2 m g \<and> produced_v2 m = 0 \<and> consumed_v2 m = 0 \<and>
    (\<forall>i\<in>set (slot_indices (vd_layout d)). word_at m (slot_v2_at (vd_layout d) (unat i)) = 0) \<and>
    d' = d\<lparr>vd_generation := g\<rparr>"
proof -
  note len = ring_v2_mappedD(2) [OF map] and ok = ring_v2_mappedD(1) [OF map]
  have l: "mp_len m = unat (vl_mapping_bytes (vd_layout d))"
    using map by (simp add: ring_v2_mapped_def)
  note clear = check_slots_clear_v2_Inr [OF ok l slot_indices_less [OF ok]]
  show ?thesis
    using len
    by (auto simp: adopt_mapping_generation_v2_def try_iffs require_ready_eq atomic_load_ok clear
        header_v2_offsets live_v2_def load_consistent_sequences_v2_eq not_le split: if_splits)
qed

section \<open>Properties\<close>

text \<open>The mapping after a reset.\<close>

lemma reset_ring_v2_holds:
  fixes g :: u64
  assumes map: "ring_v2_mapped m d"
  defines "m' \<equiv> perform_all m (atomic_store HEADER_STATE_OFFSET_V2 STATE_RESETTING #
    reset_v2_writes (vd_layout d) g @ [atomic_store HEADER_STATE_OFFSET_V2 STATE_READY])"
  shows "ring_v2_holds (d\<lparr>vd_generation := g\<rparr>) m' 0 []"
    and "4096 \<le> i \<Longrightarrow> i < mp_len m' \<Longrightarrow> mp_byte m' i = 0"
proof -
  note ok = ring_v2_mappedD(1) [OF map]
  have len: "mp_len m = unat (vl_mapping_bytes (vd_layout d))"
    using map by (simp add: ring_v2_mapped_def)
  define ms where "ms = perform_all m [atomic_store HEADER_STATE_OFFSET_V2 STATE_RESETTING,
    atomic_store HEADER_GENERATION_OFFSET_V2 0]"
  define mc where "mc = perform_all ms (clear_v2_writes (vd_layout d) (slot_indices (vd_layout d)))"
  have m': "m' = perform_all mc [atomic_store HEADER_PRODUCER_SEQUENCE_OFFSET_V2 0,
      atomic_store HEADER_CONSUMER_SEQUENCE_OFFSET_V2 0,
      atomic_store HEADER_GENERATION_OFFSET_V2 g, atomic_store HEADER_STATE_OFFSET_V2 STATE_READY]"
    by (simp add: m'_def mc_def ms_def reset_v2_writes_def)
  have "word_at m' 24 = STATE_READY" "word_at m' 16 = g" "word_at m' 88 = 0" "word_at m' 96 = 0"
    unfolding m' by (simp_all add: header_v2_offsets word_at_perform ivl_disjoint_nat)
  then show "ring_v2_holds (d\<lparr>vd_generation := g\<rparr>) m' 0 []"
    using map by (simp add: ring_v2_holds_def ring_v2_mapped_def live_v2_def header_v2_offsets m'_def)
  assume i: "4096 \<le> i" "i < mp_len m'"
  have "mp_byte m' i = mp_byte mc i"
    unfolding m' by (rule perform_all_other) (use i in \<open>auto simp: header_v2_offsets\<close>)
  also have "\<dots> = 0"
    unfolding mc_def
  proof (rule perform_all_zero [OF clear_v2_writes_zero])
    show "i \<in> \<Union> (set (map covers (clear_v2_writes (vd_layout d) (slot_indices (vd_layout d)))))"
      unfolding clear_v2_writes_covers [OF ok] using i len by (simp add: m'_def)
  qed
  finally show "mp_byte m' i = 0" .
qed

text \<open>While the writes of a reset are under way the lifecycle word says so.\<close>

lemma resetting_lifecycle:
  assumes "layout_v2_ok l"
  shows "lifecycle_v2 (perform_all m (atomic_store HEADER_STATE_OFFSET_V2 STATE_RESETTING #
    take n (reset_v2_writes l g))) = STATE_RESETTING"
proof -
  have "\<Union> (set (map covers (reset_v2_writes l g))) \<inter> {24..<32} = {}"
    using clear_v2_writes_covers [OF assms]
    by (auto simp: reset_v2_writes_def header_v2_offsets)
  moreover have "set (map covers (take n (reset_v2_writes l g))) \<subseteq> set (map covers (reset_v2_writes l g))"
    using set_take_subset [of n "reset_v2_writes l g"] by auto
  ultimately have "{24..<24 + 8} \<inter> \<Union> (set (map covers (take n (reset_v2_writes l g)))) = {}"
    by fastforce
  from word_at_other [OF this] show ?thesis
    by (simp add: header_v2_offsets word_at_perform)
qed


text \<open>A ring of two slots for one pixel.\<close>

definition pixel_v2_layout :: ring_v2_layout where
  "pixel_v2_layout = \<lparr>vl_width = 1, vl_height = 1, vl_maximum_batch = 1, vl_slot_count = 2,
     vl_frame_stride_bytes = 4, vl_slot_bytes = 4, vl_slot_stride_bytes = 4096,
     vl_mapping_bytes = 12288\<rparr>"

definition pixel_v2_descriptor :: "u64 \<Rightarrow> ring_v2_descriptor" where
  "pixel_v2_descriptor g = \<lparr>vd_layout = pixel_v2_layout, vd_generation = g\<rparr>"

definition pixel_v2_ring :: mapping where
  "pixel_v2_ring = perform_all \<lparr>mp_len = 12288, mp_byte = (\<lambda>i. 7)\<rparr>
     (header_v2_writes 12288 (pixel_v2_descriptor 5))"

lemma pixel_v2_layout_ok: "layout_v2_ok pixel_v2_layout"
  by (simp add: layout_v2_ok_def pixel_v2_layout_def slot_stride_for_def mapping_bytes_for_def
      round_up_def)

lemma pixel_v2_ring_holds: "ring_v2_holds (pixel_v2_descriptor 5) pixel_v2_ring 0 []"
  unfolding pixel_v2_ring_def
  using fresh_ring_v2_holds [of "\<lparr>mp_len = 12288, mp_byte = (\<lambda>i. 7)\<rparr>" "pixel_v2_descriptor 5"]
    pixel_v2_layout_ok
  by (simp add: ring_v2_mapped_def pixel_v2_descriptor_def pixel_v2_layout_def)


text \<open>C2: The ring ABI 2 is a bounded queue of decoded batches whose capacity is its slot count: from a
  ring that was just created, every sequence of publications and receptions gets, operation by
  operation, the answers of the abstract queue, with the batches numbered from one, their session,
  logical sequence and pixels unchanged, backpressure exactly when all slots are taken and empty
  exactly when none is; and what the consumer got is a prefix of what the producer published.
\<close>
theorem ring_v2_refines_queue:
  assumes "ring_v2_descriptor_new width height maximum_batch slot_count g = Inr d"
    and "initialize_mapping_v2 m0 d = (Inr (), m)"
    and "list_all (op_fits (batch_fits d)) ops" and "length ops < 2 ^ 64"
  shows "fst (run_ops (ring_v2_step d) m ops) =
      fst (run_ops (queue_step (unat slot_count) (stored_v2 d) (full_v2 d) (taken_v2 d) vacant_v2)
        (0, []) ops) \<and>
    (\<exists>rest. length rest \<le> unat slot_count \<and>
      numbered (item_batch d) 1
        (stored_items was_written_v2 ops (fst (run_ops (ring_v2_step d) m ops))) =
      taken_items batch_of (fst (run_ops (ring_v2_step d) m ops)) @ rest)"
proof -
  have d: "layout_v2_ok (vd_layout d)" "vl_slot_count (vd_layout d) = slot_count"
    using assms(1) by (auto simp: ring_v2_descriptor_new_def try_iffs split: if_splits)
  have "mp_len m0 = unat (vl_mapping_bytes (vd_layout d))"
    and "m = perform_all m0 (header_v2_writes (mp_len m0) d)"
    using assms(2) by (auto simp: initialize_mapping_v2_eq [OF d(1)] split: if_splits)
  then have holds: "ring_v2_holds d m 0 []"
    using fresh_ring_v2_holds [of m0 d] d(1) by (simp add: ring_v2_mapped_def)
  show ?thesis
    using abi2.queue_run_refines [OF holds assms(3)] abi2.queue_run_fifo [OF holds assms(3,4)] assms(4)
    by (simp add: d(2))
qed

text \<open>A blank mapping for the pixel ring, and a batch for it.\<close>

definition blank_v2 :: mapping where
  "blank_v2 = \<lparr>mp_len = 12288, mp_byte = (\<lambda>i. 7)\<rparr>"

definition pixel_batch :: "u8 \<Rightarrow> batch_item" where
  "pixel_batch x = (x # replicate 15 0, 1, 1, [x, x, x, 255])"

lemma pixel_v2_created:
  "ring_v2_descriptor_new 1 1 1 2 5 = Inr (pixel_v2_descriptor 5)"
  "initialize_mapping_v2 blank_v2 (pixel_v2_descriptor 5) = (Inr (), pixel_v2_ring)"
  using pixel_v2_layout_ok
  by (simp_all add: ring_v2_descriptor_new_def try_iffs pixel_v2_descriptor_def pixel_v2_layout_def
      initialize_mapping_v2_eq blank_v2_def pixel_v2_ring_def)

theorem ring_v2_refines_queue_witness:
  "fst (run_ops (ring_v2_step (pixel_v2_descriptor 5)) pixel_v2_ring
      [Put (pixel_batch 3), Take, Take, Put (pixel_batch 4), Put (pixel_batch 5), Put (pixel_batch 6)]) =
    [stored_v2 (pixel_v2_descriptor 5) 1 (pixel_batch 3),
     taken_v2 (pixel_v2_descriptor 5) 1 (pixel_batch 3), vacant_v2,
     stored_v2 (pixel_v2_descriptor 5) 2 (pixel_batch 4),
     stored_v2 (pixel_v2_descriptor 5) 3 (pixel_batch 5), full_v2 (pixel_v2_descriptor 5)]"
proof -
  have fits: "batch_fits (pixel_v2_descriptor 5) (pixel_batch x)" if "x \<noteq> 0" for x
    using that by (simp add: pixel_batch_def pixel_v2_descriptor_def pixel_v2_layout_def)
  show ?thesis
    by (subst ring_v2_refines_queue [OF pixel_v2_created, THEN conjunct1])
      (simp_all add: fits, simp add: numeral_2_eq_2 numeral_3_eq_3)
qed

text \<open>What attaching to a ring ABI 2 demands, and that creating provides it: a mapping that was just
  initialized is accepted with exactly the descriptor it was created with, and whatever mapping is
  accepted has the length of its own layout, is ready and of a non-zero generation, and holds no
  more batches than it has slots, so that no later access to a header field or slot leaves it.
\<close>
theorem attach_v2_roundtrip:
  assumes "ring_v2_descriptor_new width height maximum_batch slot_count g = Inr d"
    and "initialize_mapping_v2 m0 d = (Inr (), m)"
  shows "validate_mapping_header_v2 m (of_nat (mp_len m)) = Inr d \<and>
    (\<forall>m1 bytes d1. validate_mapping_header_v2 m1 bytes = Inr d1 \<longrightarrow>
      mp_len m1 = unat bytes \<and> ring_v2_mapped m1 d1 \<and> live_v2 m1 (vd_generation d1) \<and>
      vd_generation d1 \<noteq> 0 \<and> depth_v2_ok m1 (vd_layout d1))"
proof -
  have d: "layout_v2_ok (vd_layout d)" "vd_generation d = g" "g \<noteq> 0"
    using assms(1) by (auto simp: ring_v2_descriptor_new_def try_iffs split: if_splits)
  have map: "ring_v2_mapped m0 d" and m: "m = perform_all m0 (header_v2_writes (mp_len m0) d)"
    using assms(2) d(1)
    by (auto simp: initialize_mapping_v2_eq [OF d(1)] ring_v2_mapped_def split: if_splits)
  have len: "mp_len m = mp_len m0"
    by (simp add: m)
  have holds: "ring_v2_holds d m 0 []"
    unfolding m by (rule fresh_ring_v2_holds [OF map])
  note f = header_v2_fields [OF ring_v2_mappedD(2) [OF map], where m = m0 and d = d, folded m]
  have claims: "word_at m 104 = 0" "word_at m 112 = 0"
    using ring_v2_mappedD(2) [OF map] by (auto intro!: word_at_zero f(16))
  have "header_v2_ok m (of_nat (mp_len m)) d"
    using holds f claims d(2,3) map ring_v2_mappedD(2) [OF map]
    by (auto simp: header_v2_ok_def ring_v2_holds_def depth_v2_ok_def list_all_iff slice_all_zero
        ring_v2_mapped_def len)
  then show ?thesis
    by (auto simp: validate_mapping_header_v2_Inr header_v2_ok_def ring_v2_mapped_def)
qed

theorem attach_v2_roundtrip_witness:
  "validate_mapping_header_v2 pixel_v2_ring (of_nat (mp_len pixel_v2_ring)) = Inr (pixel_v2_descriptor 5)"
  using attach_v2_roundtrip [OF pixel_v2_created] by simp

end
