(* ===== verification/Cartridge_Types.thy ===== *)
theory Cartridge_Types
  imports Text_Split
begin

text \<open>
  Vocabulary of the cartridge crate (\<open>crates/cartridge\<close>): the stable error codes with their
  place in the cartridge (\<open>error.rs\<close>), the specification ceilings and how callers lower them
  (\<open>limits.rs\<close>), and JSON pointers. The human-readable detail of an error and the error it wraps
  are not modelled.
\<close>

section \<open>Errors\<close>

datatype (plugins only: ) cartridge_code =
    LcIoOpen
  | LcIoRead
  | LcIoWrite
  | LcTargetExists
  | LcAtomicCommitFailed
  | LcPostwriteValidationFailed
  | LcArchiveTooLarge
  | LcArchiveMalformed
  | LcZip64Required
  | LcArchiveNoncanonical
  | LcEntryCountInvalid
  | LcEntryMissing
  | LcEntryUnexpected
  | LcEntryDuplicate
  | LcEntryUnsafePath
  | LcEntryEncrypted
  | LcEntryCompressed
  | LcEntryTooLarge
  | LcEntrySizeMismatch
  | LcEntryOverlap
  | LcArchiveTrailingData
  | LcEntryCrcMismatch
  | LcManifestTooLarge
  | LcManifestNotUtf8
  | LcManifestJsonInvalid
  | LcManifestDuplicateKey
  | LcManifestUnknownField
  | LcManifestInvalid
  | LcUnsupportedSpecVersion
  | LcPayloadHashMismatch
  | LcSafetensorsHeaderTooLarge
  | LcSafetensorsInvalid
  | LcTensorMissing
  | LcTensorUnexpected
  | LcTensorDescriptorMismatch
  | LcTensorDtypeForbidden
  | LcTensorShapeInvalid
  | LcTensorSizeOverflow
  | LcTensorNonFinite
  | LcUnsupportedCodec
  | LcUnsupportedProfileVersion
  | LcTimingMismatch
  | LcDecodedGeometryMismatch
  | LcRuntimeLimitExceeded

definition cartridge_code_str :: "cartridge_code \<Rightarrow> string" where
  "cartridge_code_str c = (case c of
       LcIoOpen \<Rightarrow> ''io_open''
     | LcIoRead \<Rightarrow> ''io_read''
     | LcIoWrite \<Rightarrow> ''io_write''
     | LcTargetExists \<Rightarrow> ''target_exists''
     | LcAtomicCommitFailed \<Rightarrow> ''atomic_commit_failed''
     | LcPostwriteValidationFailed \<Rightarrow> ''postwrite_validation_failed''
     | LcArchiveTooLarge \<Rightarrow> ''archive_too_large''
     | LcArchiveMalformed \<Rightarrow> ''archive_malformed''
     | LcZip64Required \<Rightarrow> ''zip64_required''
     | LcArchiveNoncanonical \<Rightarrow> ''archive_noncanonical''
     | LcEntryCountInvalid \<Rightarrow> ''entry_count_invalid''
     | LcEntryMissing \<Rightarrow> ''entry_missing''
     | LcEntryUnexpected \<Rightarrow> ''entry_unexpected''
     | LcEntryDuplicate \<Rightarrow> ''entry_duplicate''
     | LcEntryUnsafePath \<Rightarrow> ''entry_unsafe_path''
     | LcEntryEncrypted \<Rightarrow> ''entry_encrypted''
     | LcEntryCompressed \<Rightarrow> ''entry_compressed''
     | LcEntryTooLarge \<Rightarrow> ''entry_too_large''
     | LcEntrySizeMismatch \<Rightarrow> ''entry_size_mismatch''
     | LcEntryOverlap \<Rightarrow> ''entry_overlap''
     | LcArchiveTrailingData \<Rightarrow> ''archive_trailing_data''
     | LcEntryCrcMismatch \<Rightarrow> ''entry_crc_mismatch''
     | LcManifestTooLarge \<Rightarrow> ''manifest_too_large''
     | LcManifestNotUtf8 \<Rightarrow> ''manifest_not_utf8''
     | LcManifestJsonInvalid \<Rightarrow> ''manifest_json_invalid''
     | LcManifestDuplicateKey \<Rightarrow> ''manifest_duplicate_key''
     | LcManifestUnknownField \<Rightarrow> ''manifest_unknown_field''
     | LcManifestInvalid \<Rightarrow> ''manifest_invalid''
     | LcUnsupportedSpecVersion \<Rightarrow> ''unsupported_spec_version''
     | LcPayloadHashMismatch \<Rightarrow> ''payload_hash_mismatch''
     | LcSafetensorsHeaderTooLarge \<Rightarrow> ''safetensors_header_too_large''
     | LcSafetensorsInvalid \<Rightarrow> ''safetensors_invalid''
     | LcTensorMissing \<Rightarrow> ''tensor_missing''
     | LcTensorUnexpected \<Rightarrow> ''tensor_unexpected''
     | LcTensorDescriptorMismatch \<Rightarrow> ''tensor_descriptor_mismatch''
     | LcTensorDtypeForbidden \<Rightarrow> ''tensor_dtype_forbidden''
     | LcTensorShapeInvalid \<Rightarrow> ''tensor_shape_invalid''
     | LcTensorSizeOverflow \<Rightarrow> ''tensor_size_overflow''
     | LcTensorNonFinite \<Rightarrow> ''tensor_non_finite''
     | LcUnsupportedCodec \<Rightarrow> ''unsupported_codec''
     | LcUnsupportedProfileVersion \<Rightarrow> ''unsupported_profile_version''
     | LcTimingMismatch \<Rightarrow> ''timing_mismatch''
     | LcDecodedGeometryMismatch \<Rightarrow> ''decoded_geometry_mismatch''
     | LcRuntimeLimitExceeded \<Rightarrow> ''runtime_limit_exceeded'')"

text \<open>The exit status of the command line tool.\<close>

definition exit_status :: "cartridge_code \<Rightarrow> nat" where
  "exit_status c = (case c of
       LcUnsupportedSpecVersion \<Rightarrow> 4 | LcUnsupportedCodec \<Rightarrow> 4 | LcUnsupportedProfileVersion \<Rightarrow> 4
     | LcIoOpen \<Rightarrow> 5 | LcIoRead \<Rightarrow> 5 | LcIoWrite \<Rightarrow> 5 | LcTargetExists \<Rightarrow> 5
     | LcAtomicCommitFailed \<Rightarrow> 5
     | LcPostwriteValidationFailed \<Rightarrow> 6
     | _ \<Rightarrow> 3)"

record error_location =
  el_entry :: "string option"
  el_tensor :: "string option"
  el_json_pointer :: "string option"

record cartridge_error =
  ce_code :: cartridge_code
  ce_location :: error_location

type_synonym 'a lc_result = "cartridge_error + 'a"

definition lc_error :: "cartridge_code \<Rightarrow> cartridge_error" where
  "lc_error c = \<lparr>ce_code = c,
     ce_location = \<lparr>el_entry = None, el_tensor = None, el_json_pointer = None\<rparr>\<rparr>"

definition at_entry :: "string \<Rightarrow> cartridge_error \<Rightarrow> cartridge_error" where
  "at_entry entry e = e\<lparr>ce_location := (ce_location e)\<lparr>el_entry := Some entry\<rparr>\<rparr>"

definition at_tensor :: "string \<Rightarrow> cartridge_error \<Rightarrow> cartridge_error" where
  "at_tensor tensor e = e\<lparr>ce_location := (ce_location e)\<lparr>el_tensor := Some tensor\<rparr>\<rparr>"

definition at_json :: "string \<Rightarrow> cartridge_error \<Rightarrow> cartridge_error" where
  "at_json pointer e = e\<lparr>ce_location := (ce_location e)\<lparr>el_json_pointer := Some pointer\<rparr>\<rparr>"

definition location_text :: "error_location \<Rightarrow> string" where
  "location_text l =
     (let parts =
        (case el_entry l of Some entry \<Rightarrow> [''entry='' @ entry] | None \<Rightarrow> []) @
        (case el_tensor l of Some tensor \<Rightarrow> [''tensor='' @ tensor] | None \<Rightarrow> []) @
        (case el_json_pointer l of Some pointer \<Rightarrow> [''json_pointer='' @ pointer] | None \<Rightarrow> []) in
      if parts = [] then ''cartridge'' else join_with CHR '','' parts)"

lemma ce_code_simps [simp]:
  "ce_code (lc_error c) = c" "ce_code (at_entry s e) = ce_code e"
  "ce_code (at_tensor s e) = ce_code e" "ce_code (at_json s e) = ce_code e"
  by (simp_all add: lc_error_def at_entry_def at_tensor_def at_json_def)

section \<open>Limits\<close>

definition GIB :: u64 where "GIB = 1024 * 1024 * 1024"
definition MIB :: u64 where "MIB = 1024 * 1024"
definition MAX_ARCHIVE_BYTES :: u64 where "MAX_ARCHIVE_BYTES = 16 * GIB"
definition MAX_ARCHIVE_ENTRIES :: nat where "MAX_ARCHIVE_ENTRIES = 3"
definition MIN_ARCHIVE_ENTRIES :: nat where "MIN_ARCHIVE_ENTRIES = 2"
definition MAX_MANIFEST_BYTES :: nat where "MAX_MANIFEST_BYTES = 1048576"
definition MAX_SAFETENSORS_HEADER_BYTES :: u64 where "MAX_SAFETENSORS_HEADER_BYTES = MIB"
definition MAX_H3_PAYLOAD_BYTES :: u64 where "MAX_H3_PAYLOAD_BYTES = 15 * GIB"
definition MAX_PREVIEW_BYTES :: u64 where "MAX_PREVIEW_BYTES = 16 * MIB"
definition MAX_PREVIEW_AXIS :: u32 where "MAX_PREVIEW_AXIS = 4096"
definition MAX_PREVIEW_PIXELS :: u64 where "MAX_PREVIEW_PIXELS = 16777216"
definition MAX_TENSORS :: nat where "MAX_TENSORS = 2"
definition MAX_TENSOR_RANK :: nat where "MAX_TENSOR_RANK = 5"
definition MAX_PARENT_CARTRIDGES :: nat where "MAX_PARENT_CARTRIDGES = 256"
definition MAX_OPERATION_RECORDS :: nat where "MAX_OPERATION_RECORDS = 1024"
definition MAX_CONTROLS_PER_OPERATION :: nat where "MAX_CONTROLS_PER_OPERATION = 128"
definition MAX_PROVENANCE_SOURCES :: nat where "MAX_PROVENANCE_SOURCES = 64"
definition MAX_JSON_DEPTH :: nat where "MAX_JSON_DEPTH = 32"
definition MAX_LC_IDENTIFIER_BYTES :: nat where "MAX_LC_IDENTIFIER_BYTES = 128"
definition MAX_LC_HUMAN_STRING_BYTES :: nat where "MAX_LC_HUMAN_STRING_BYTES = 4096"
definition MAX_URI_BYTES :: nat where "MAX_URI_BYTES = 8192"
definition MAX_JCS_SAFE_INTEGER :: u64 where "MAX_JCS_SAFE_INTEGER = 9007199254740991"
definition MAX_H3_DECODED_AXIS :: u32 where "MAX_H3_DECODED_AXIS = 4096"
definition MAX_H3_TEMPORAL_AXIS :: u64 where "MAX_H3_TEMPORAL_AXIS = 1048576"

lemmas lc_constants = GIB_def MIB_def MAX_ARCHIVE_BYTES_def MAX_ARCHIVE_ENTRIES_def MIN_ARCHIVE_ENTRIES_def
  MAX_MANIFEST_BYTES_def MAX_SAFETENSORS_HEADER_BYTES_def MAX_H3_PAYLOAD_BYTES_def
  MAX_PREVIEW_BYTES_def MAX_PREVIEW_AXIS_def MAX_PREVIEW_PIXELS_def
  MAX_TENSORS_def MAX_TENSOR_RANK_def MAX_PARENT_CARTRIDGES_def
  MAX_OPERATION_RECORDS_def MAX_CONTROLS_PER_OPERATION_def MAX_PROVENANCE_SOURCES_def
  MAX_JSON_DEPTH_def MAX_LC_IDENTIFIER_BYTES_def MAX_LC_HUMAN_STRING_BYTES_def
  MAX_URI_BYTES_def MAX_JCS_SAFE_INTEGER_def MAX_H3_DECODED_AXIS_def
  MAX_H3_TEMPORAL_AXIS_def

record validation_limits =
  lim_manifest_bytes :: nat
  lim_h3_payload_bytes :: u64
  lim_preview_bytes :: u64
  lim_tensors :: nat
  lim_tensor_rank :: nat
  lim_parent_cartridges :: nat
  lim_operation_records :: nat
  lim_controls_per_operation :: nat
  lim_provenance_sources :: nat
  lim_json_depth :: nat
  lim_identifier_bytes :: nat
  lim_human_string_bytes :: nat
  lim_uri_bytes :: nat
  lim_h3_decoded_axis :: u32
  lim_h3_temporal_axis :: u64

definition specification_limits :: validation_limits where
  "specification_limits = \<lparr>lim_manifest_bytes = MAX_MANIFEST_BYTES,
     lim_h3_payload_bytes = MAX_H3_PAYLOAD_BYTES,
     lim_preview_bytes = MAX_PREVIEW_BYTES,
     lim_tensors = MAX_TENSORS,
     lim_tensor_rank = MAX_TENSOR_RANK,
     lim_parent_cartridges = MAX_PARENT_CARTRIDGES,
     lim_operation_records = MAX_OPERATION_RECORDS,
     lim_controls_per_operation = MAX_CONTROLS_PER_OPERATION,
     lim_provenance_sources = MAX_PROVENANCE_SOURCES,
     lim_json_depth = MAX_JSON_DEPTH,
     lim_identifier_bytes = MAX_LC_IDENTIFIER_BYTES,
     lim_human_string_bytes = MAX_LC_HUMAN_STRING_BYTES,
     lim_uri_bytes = MAX_URI_BYTES,
     lim_h3_decoded_axis = MAX_H3_DECODED_AXIS,
     lim_h3_temporal_axis = MAX_H3_TEMPORAL_AXIS\<rparr>"

text \<open>The setters keep the smaller of the present and the requested maximum.\<close>

definition with_max_manifest_bytes :: "nat \<Rightarrow> validation_limits \<Rightarrow> validation_limits" where
  "with_max_manifest_bytes maximum l =
     (if maximum < lim_manifest_bytes l then l\<lparr>lim_manifest_bytes := maximum\<rparr> else l)"

definition with_max_h3_payload_bytes :: "u64 \<Rightarrow> validation_limits \<Rightarrow> validation_limits" where
  "with_max_h3_payload_bytes maximum l =
     (if maximum < lim_h3_payload_bytes l then l\<lparr>lim_h3_payload_bytes := maximum\<rparr> else l)"

definition with_max_preview_bytes :: "u64 \<Rightarrow> validation_limits \<Rightarrow> validation_limits" where
  "with_max_preview_bytes maximum l =
     (if maximum < lim_preview_bytes l then l\<lparr>lim_preview_bytes := maximum\<rparr> else l)"

definition with_max_tensors :: "nat \<Rightarrow> validation_limits \<Rightarrow> validation_limits" where
  "with_max_tensors maximum l =
     (if maximum < lim_tensors l then l\<lparr>lim_tensors := maximum\<rparr> else l)"

definition with_max_tensor_rank :: "nat \<Rightarrow> validation_limits \<Rightarrow> validation_limits" where
  "with_max_tensor_rank maximum l =
     (if maximum < lim_tensor_rank l then l\<lparr>lim_tensor_rank := maximum\<rparr> else l)"

definition with_max_parent_cartridges :: "nat \<Rightarrow> validation_limits \<Rightarrow> validation_limits" where
  "with_max_parent_cartridges maximum l =
     (if maximum < lim_parent_cartridges l then l\<lparr>lim_parent_cartridges := maximum\<rparr> else l)"

definition with_max_operation_records :: "nat \<Rightarrow> validation_limits \<Rightarrow> validation_limits" where
  "with_max_operation_records maximum l =
     (if maximum < lim_operation_records l then l\<lparr>lim_operation_records := maximum\<rparr> else l)"

definition with_max_controls_per_operation :: "nat \<Rightarrow> validation_limits \<Rightarrow> validation_limits" where
  "with_max_controls_per_operation maximum l =
     (if maximum < lim_controls_per_operation l then l\<lparr>lim_controls_per_operation := maximum\<rparr> else l)"

definition with_max_provenance_sources :: "nat \<Rightarrow> validation_limits \<Rightarrow> validation_limits" where
  "with_max_provenance_sources maximum l =
     (if maximum < lim_provenance_sources l then l\<lparr>lim_provenance_sources := maximum\<rparr> else l)"

definition with_max_json_depth :: "nat \<Rightarrow> validation_limits \<Rightarrow> validation_limits" where
  "with_max_json_depth maximum l =
     (if maximum < lim_json_depth l then l\<lparr>lim_json_depth := maximum\<rparr> else l)"

definition with_max_identifier_bytes :: "nat \<Rightarrow> validation_limits \<Rightarrow> validation_limits" where
  "with_max_identifier_bytes maximum l =
     (if maximum < lim_identifier_bytes l then l\<lparr>lim_identifier_bytes := maximum\<rparr> else l)"

definition with_max_human_string_bytes :: "nat \<Rightarrow> validation_limits \<Rightarrow> validation_limits" where
  "with_max_human_string_bytes maximum l =
     (if maximum < lim_human_string_bytes l then l\<lparr>lim_human_string_bytes := maximum\<rparr> else l)"

definition with_max_uri_bytes :: "nat \<Rightarrow> validation_limits \<Rightarrow> validation_limits" where
  "with_max_uri_bytes maximum l =
     (if maximum < lim_uri_bytes l then l\<lparr>lim_uri_bytes := maximum\<rparr> else l)"

definition with_max_h3_decoded_axis :: "u32 \<Rightarrow> validation_limits \<Rightarrow> validation_limits" where
  "with_max_h3_decoded_axis maximum l =
     (if maximum < lim_h3_decoded_axis l then l\<lparr>lim_h3_decoded_axis := maximum\<rparr> else l)"

definition with_max_h3_temporal_axis :: "u64 \<Rightarrow> validation_limits \<Rightarrow> validation_limits" where
  "with_max_h3_temporal_axis maximum l =
     (if maximum < lim_h3_temporal_axis l then l\<lparr>lim_h3_temporal_axis := maximum\<rparr> else l)"

lemmas lowering_defs =
  with_max_manifest_bytes_def
  with_max_h3_payload_bytes_def
  with_max_preview_bytes_def
  with_max_tensors_def
  with_max_tensor_rank_def
  with_max_parent_cartridges_def
  with_max_operation_records_def
  with_max_controls_per_operation_def
  with_max_provenance_sources_def
  with_max_json_depth_def
  with_max_identifier_bytes_def
  with_max_human_string_bytes_def
  with_max_uri_bytes_def
  with_max_h3_decoded_axis_def
  with_max_h3_temporal_axis_def

text \<open>One set of limits demands at least as much as another.\<close>

definition limits_le :: "validation_limits \<Rightarrow> validation_limits \<Rightarrow> bool" where
  "limits_le l k \<longleftrightarrow>
     lim_manifest_bytes l \<le> lim_manifest_bytes k \<and>
     lim_h3_payload_bytes l \<le> lim_h3_payload_bytes k \<and>
     lim_preview_bytes l \<le> lim_preview_bytes k \<and>
     lim_tensors l \<le> lim_tensors k \<and>
     lim_tensor_rank l \<le> lim_tensor_rank k \<and>
     lim_parent_cartridges l \<le> lim_parent_cartridges k \<and>
     lim_operation_records l \<le> lim_operation_records k \<and>
     lim_controls_per_operation l \<le> lim_controls_per_operation k \<and>
     lim_provenance_sources l \<le> lim_provenance_sources k \<and>
     lim_json_depth l \<le> lim_json_depth k \<and>
     lim_identifier_bytes l \<le> lim_identifier_bytes k \<and>
     lim_human_string_bytes l \<le> lim_human_string_bytes k \<and>
     lim_uri_bytes l \<le> lim_uri_bytes k \<and>
     lim_h3_decoded_axis l \<le> lim_h3_decoded_axis k \<and>
     lim_h3_temporal_axis l \<le> lim_h3_temporal_axis k"

text \<open>The limits a caller can build.\<close>

inductive built_limits :: "validation_limits \<Rightarrow> bool" where
  built_specification: "built_limits specification_limits"
| "built_limits l \<Longrightarrow> built_limits (with_max_manifest_bytes n l)"
| "built_limits l \<Longrightarrow> built_limits (with_max_h3_payload_bytes v l)"
| "built_limits l \<Longrightarrow> built_limits (with_max_preview_bytes v l)"
| "built_limits l \<Longrightarrow> built_limits (with_max_tensors n l)"
| "built_limits l \<Longrightarrow> built_limits (with_max_tensor_rank n l)"
| "built_limits l \<Longrightarrow> built_limits (with_max_parent_cartridges n l)"
| "built_limits l \<Longrightarrow> built_limits (with_max_operation_records n l)"
| "built_limits l \<Longrightarrow> built_limits (with_max_controls_per_operation n l)"
| "built_limits l \<Longrightarrow> built_limits (with_max_provenance_sources n l)"
| "built_limits l \<Longrightarrow> built_limits (with_max_json_depth n l)"
| "built_limits l \<Longrightarrow> built_limits (with_max_identifier_bytes n l)"
| "built_limits l \<Longrightarrow> built_limits (with_max_human_string_bytes n l)"
| "built_limits l \<Longrightarrow> built_limits (with_max_uri_bytes n l)"
| "built_limits l \<Longrightarrow> built_limits (with_max_h3_decoded_axis w l)"
| "built_limits l \<Longrightarrow> built_limits (with_max_h3_temporal_axis v l)"

lemma limits_le_refl [simp]: "limits_le l l"
  by (simp add: limits_le_def)

lemma lowering_le:
  "limits_le (with_max_manifest_bytes n l) l"
  "limits_le (with_max_h3_payload_bytes v l) l"
  "limits_le (with_max_preview_bytes v l) l"
  "limits_le (with_max_tensors n l) l"
  "limits_le (with_max_tensor_rank n l) l"
  "limits_le (with_max_parent_cartridges n l) l"
  "limits_le (with_max_operation_records n l) l"
  "limits_le (with_max_controls_per_operation n l) l"
  "limits_le (with_max_provenance_sources n l) l"
  "limits_le (with_max_json_depth n l) l"
  "limits_le (with_max_identifier_bytes n l) l"
  "limits_le (with_max_human_string_bytes n l) l"
  "limits_le (with_max_uri_bytes n l) l"
  "limits_le (with_max_h3_decoded_axis w l) l"
  "limits_le (with_max_h3_temporal_axis v l) l"
  by (simp_all add: limits_le_def lowering_defs less_imp_le)

lemma limits_le_trans: "limits_le l k \<Longrightarrow> limits_le k j \<Longrightarrow> limits_le l j"
  unfolding limits_le_def by (elim conjE, intro conjI) (erule (1) order_trans)+

lemma built_limits_le: "built_limits l \<Longrightarrow> limits_le l specification_limits"
  by (induction rule: built_limits.induct)
    (simp, (rule limits_le_trans, rule lowering_le, assumption)+)

text \<open>The ceilings of the specification can only be lowered. Whatever sequence of setters a caller
  applies, in any order and with any arguments, every limit of the result is at most the
  specification's, so that no embedder can make the validators accept a cartridge that the
  specification refuses for its size.
\<close>
theorem limits_only_lowered:
  assumes "built_limits l"
  shows "limits_le l specification_limits"
  using assms by (rule built_limits_le)

theorem limits_only_lowered_witness:
  "limits_le (with_max_tensors 99 (with_max_h3_decoded_axis 512 (with_max_tensors 1 specification_limits)))
     specification_limits"
  by (intro limits_only_lowered built_limits.intros)

section \<open>JSON pointers\<close>

fun decimal :: "nat \<Rightarrow> string" where
  "decimal n = (if n < 10 then [char_of (48 + n)] else decimal (n div 10) @ [char_of (48 + n mod 10)])"

declare decimal.simps [simp del]

text \<open>\<open>value.replace('~', "~0").replace('/', "~1")\<close>\<close>

definition replace_char :: "char \<Rightarrow> string \<Rightarrow> string \<Rightarrow> string" where
  "replace_char c by s = concat (map (\<lambda>x. if x = c then by else [x]) s)"

definition escape_json_pointer :: "string \<Rightarrow> string" where
  "escape_json_pointer value =
     replace_char CHR ''/'' ''~1'' (replace_char CHR ''~'' ''~0'' value)"

definition child_pointer :: "string \<Rightarrow> string \<Rightarrow> string" where
  "child_pointer pointer key = pointer @ ''/'' @ escape_json_pointer key"

definition item_pointer :: "string \<Rightarrow> nat \<Rightarrow> string" where
  "item_pointer pointer index = pointer @ ''/'' @ decimal index"

end
