(* ===== verification/Cartridge_Manifest.thy ===== *)
theory Cartridge_Manifest
  imports Cartridge_Types
begin

text \<open>
  The manifest of a cartridge and its codec-neutral validation
  (\<open>crates/cartridge/src/manifest.rs\<close>). The crates uuid, time and serde_json are parameters: a
  record of the functions the code calls. The newtypes around \<open>String\<close> are strings.
\<close>

section \<open>Rationals\<close>

record rational =
  ra_numerator :: u64
  ra_denominator :: u64

text \<open>Euclid's algorithm as the loop has it.\<close>

function gcd_loop :: "u64 \<Rightarrow> u64 \<Rightarrow> u64" where
  "gcd_loop left right = (if right \<noteq> 0 then gcd_loop right (left mod right) else left)"
  by auto
termination
  by (relation "measure (\<lambda>(left, right). unat right)") (auto simp: unat_mod unat_gt_0)

declare gcd_loop.simps [simp del]

definition greatest_common_divisor :: "u64 \<Rightarrow> u64 \<Rightarrow> u64" where
  "greatest_common_divisor left right = gcd_loop left right"

definition rational_reduced :: "u64 \<Rightarrow> u64 \<Rightarrow> rational option" where
  "rational_reduced numerator denominator =
     (if numerator = 0 \<or> denominator = 0 then None
      else let divisor = greatest_common_divisor numerator denominator in
        Some \<lparr>ra_numerator = numerator div divisor, ra_denominator = denominator div divisor\<rparr>)"

definition is_canonical :: "rational \<Rightarrow> bool" where
  "is_canonical r \<longleftrightarrow> ra_numerator r > 0 \<and> ra_denominator r > 0 \<and>
     greatest_common_divisor (ra_numerator r) (ra_denominator r) = 1"

lemma gcd_loop_unat: "unat (gcd_loop left right) = gcd (unat left) (unat right)"
proof (induction left right rule: gcd_loop.induct)
  case (1 left right)
  show ?case
  proof (cases "right = 0")
    case True
    then show ?thesis
      by (simp add: gcd_loop.simps)
  next
    case False
    then have "unat (gcd_loop left right) = gcd (unat right) (unat left mod unat right)"
      using "1.IH" by (simp add: gcd_loop.simps [of left right] unat_mod)
    also have "\<dots> = gcd (unat left) (unat right)"
      by (metis gcd.commute gcd_red_nat)
    finally show ?thesis .
  qed
qed

lemma greatest_common_divisor_unat:
  "unat (greatest_common_divisor left right) = gcd (unat left) (unat right)"
  by (simp add: greatest_common_divisor_def gcd_loop_unat)

lemma unat_div_word: "unat (a div b) = unat a div unat b" for a b :: "'a::len word"
  by (simp add: unat_div)

lemma canonical_coprime:
  "is_canonical r \<longleftrightarrow> 0 < unat (ra_numerator r) \<and> 0 < unat (ra_denominator r) \<and>
     coprime (unat (ra_numerator r)) (unat (ra_denominator r))"
proof -
  have "greatest_common_divisor (ra_numerator r) (ra_denominator r) = 1 \<longleftrightarrow>
      unat (greatest_common_divisor (ra_numerator r) (ra_denominator r)) = 1"
    by (simp add: word_unat_eq_iff)
  then show ?thesis
    by (simp add: is_canonical_def greatest_common_divisor_unat coprime_iff_gcd_eq_1 word_less_nat_alt)
qed

lemma cross_cancel:
  fixes g a b n d x y :: nat
  assumes "0 < g" "g * a = n" "g * b = d" "n * x = d * y"
  shows "a * x = b * y"
proof -
  have "g * (a * x) = g * (b * y)"
    using assms(4) unfolding assms(2,3) [symmetric] by (simp only: mult.assoc)
  then show ?thesis
    using assms(1) by simp
qed

lemma cross_mult:
  fixes g a b n d :: nat
  assumes "g * a = n" "g * b = d"
  shows "n * b = d * a"
  unfolding assms [symmetric] by (simp add: ac_simps)

lemma fraction_unique:
  fixes a b c d :: nat
  assumes "coprime a b" "coprime c d" "0 < d" "a * d = b * c"
  shows "a = c \<and> b = d"
proof -
  have "b dvd a * d"
    by (simp add: assms(4))
  then have "b dvd d"
    using assms(1) by (simp add: coprime_commute coprime_dvd_mult_right_iff)
  moreover have "d dvd b * c"
    by (simp flip: assms(4))
  then have "d dvd b"
    using assms(2) by (simp add: coprime_commute coprime_dvd_mult_left_iff)
  ultimately have "b = d"
    by (rule dvd_antisym)
  then show ?thesis
    using assms(3,4) by (simp add: mult.commute)
qed

lemma rational_reduced_Some:
  "rational_reduced n d = Some r \<longleftrightarrow>
     n \<noteq> 0 \<and> d \<noteq> 0 \<and> is_canonical r \<and> unat n * unat (ra_denominator r) = unat d * unat (ra_numerator r)"
proof (cases "n = 0 \<or> d = 0")
  case True
  then show ?thesis
    by (auto simp: rational_reduced_def)
next
  case False
  let ?g = "greatest_common_divisor n d"
  have pos: "0 < unat n" "0 < unat d"
    using False by (simp_all add: unat_gt_0)
  have g: "unat ?g = gcd (unat n) (unat d)" "0 < gcd (unat n) (unat d)"
    using pos by (simp_all add: greatest_common_divisor_unat)
  define q where "q = \<lparr>ra_numerator = n div ?g, ra_denominator = d div ?g\<rparr>"
  have uq: "unat (ra_numerator q) = unat n div gcd (unat n) (unat d)"
    "unat (ra_denominator q) = unat d div gcd (unat n) (unat d)"
    by (simp_all add: q_def unat_div_word g(1))
  have mult: "gcd (unat n) (unat d) * unat (ra_numerator q) = unat n"
    "gcd (unat n) (unat d) * unat (ra_denominator q) = unat d"
    by (simp_all add: uq)
  have posq: "0 < unat (ra_numerator q)" "0 < unat (ra_denominator q)"
    using mult pos by (metis mult_0_right gr0I)+
  have cop: "coprime (unat (ra_numerator q)) (unat (ra_denominator q))"
    unfolding uq using pos by (intro div_gcd_coprime) auto
  have eq: "unat n * unat (ra_denominator q) = unat d * unat (ra_numerator q)"
    by (rule cross_mult [OF mult])
  have "rational_reduced n d = Some q"
    using False by (simp add: rational_reduced_def Let_def q_def)
  then have run: "rational_reduced n d = Some r \<longleftrightarrow> r = q"
    by auto
  have unique: "r = q" if r: "is_canonical r"
    and er: "unat n * unat (ra_denominator r) = unat d * unat (ra_numerator r)" for r
  proof -
    have "unat (ra_numerator q) * unat (ra_denominator r) = unat (ra_denominator q) * unat (ra_numerator r)"
      by (rule cross_cancel [OF g(2) mult er])
    then have "unat (ra_numerator q) = unat (ra_numerator r) \<and>
        unat (ra_denominator q) = unat (ra_denominator r)"
      using r cop by (intro fraction_unique) (simp_all add: canonical_coprime)
    then show "r = q"
      by (intro rational.equality) (simp_all add: word_unat_eq_iff)
  qed
  have "is_canonical q"
    using cop posq by (simp add: canonical_coprime)
  then show ?thesis
    unfolding run using False unique [of r] eq by blast
qed


section \<open>JSON values\<close>

text \<open>
  A \<open>serde_json::Number\<close> is what its three accessors return; a float is its 64 bits. The members
  of an object are listed in the order the map iterates them.
\<close>

record json_number =
  jn_as_i64 :: "int option"
  jn_as_u64 :: "u64 option"
  jn_as_f64 :: "u64 option"

datatype (plugins only: size) json_value =
    JvNull
  | JvBool bool
  | JvNumber json_number
  | JvString string
  | JvArray "json_value list"
  | JvObject "(string \<times> json_value) list"

section \<open>The manifest\<close>

record lc_codec_descriptor =
  cd_family :: string
  cd_profile :: string
  cd_profile_version :: string

record payload_descriptor =
  pd_path :: string
  pd_media_type :: string
  pd_byte_length :: u64
  pd_sha256 :: string

datatype (plugins only: ) tensor_stream = StreamVisual | StreamAudio

datatype (plugins only: ) dtype = DtF16 | DtF32 | DtUnsupported

definition byte_width :: "dtype \<Rightarrow> u64 option" where
  "byte_width d = (case d of DtF16 \<Rightarrow> Some 2 | DtF32 \<Rightarrow> Some 4 | DtUnsupported \<Rightarrow> None)"

definition dtype_is_supported :: "dtype \<Rightarrow> bool" where
  "dtype_is_supported d = (case d of DtF16 \<Rightarrow> True | DtF32 \<Rightarrow> True | DtUnsupported \<Rightarrow> False)"

text \<open>The names on the wire; a name that is not known is read as unsupported.\<close>

definition dtype_serialize :: "dtype \<Rightarrow> string" where
  "dtype_serialize d = (case d of DtF16 \<Rightarrow> ''F16'' | DtF32 \<Rightarrow> ''F32'' | DtUnsupported \<Rightarrow> ''UNSUPPORTED'')"

definition dtype_deserialize :: "string \<Rightarrow> dtype" where
  "dtype_deserialize value =
     (if value = ''F16'' then DtF16 else if value = ''F32'' then DtF32 else DtUnsupported)"

record tensor_descriptor =
  td_stream :: tensor_stream
  td_name :: string
  td_payload :: string
  td_storage_dtype :: dtype
  td_runtime_dtype :: dtype
  td_shape :: "u64 list"

record decoded_video_descriptor =
  dv_width :: u32
  dv_height :: u32
  dv_frame_count :: u64
  dv_frame_rate :: rational
  dv_duration :: rational

record lc_timing_descriptor =
  ti_contract :: string
  ti_contract_version :: string
  ti_decoded_video :: decoded_video_descriptor

record source_cartridge_ref =
  sc_cartridge_id :: string
  sc_archive_sha256 :: string

datatype (plugins only: ) audio_omission_reason =
    DurationMismatch | TemporalMappingMismatch | DurationAndMappingMismatch

datatype (plugins only: ) audio_disposition =
    SourceAbsent
  | PreservedSource
  | CopiedFromCarrierExact source_cartridge_ref
  | OmittedTimingMismatch source_cartridge_ref audio_omission_reason

definition requires_audio_tensor :: "audio_disposition \<Rightarrow> bool" where
  "requires_audio_tensor a = (case a of PreservedSource \<Rightarrow> True | CopiedFromCarrierExact s \<Rightarrow> True
     | SourceAbsent \<Rightarrow> False | OmittedTimingMismatch s r \<Rightarrow> False)"

record preview_descriptor =
  pv_path :: string
  pv_media_type :: string
  pv_byte_length :: u64
  pv_sha256 :: string
  pv_width :: u32
  pv_height :: u32

record producer_descriptor =
  pr_name :: string
  pr_version :: string

record provenance_source =
  ps_kind :: string
  ps_sha256 :: "string option"
  ps_uri :: "string option"
  ps_license :: "string option"
  ps_metadata :: "(string \<times> json_value) list option"

record provenance =
  pn_created_by :: producer_descriptor
  pn_created_at :: "string option"
  pn_sources :: "provenance_source list"

record parent_cartridge =
  pc_cartridge_id :: string
  pc_archive_sha256 :: string
  pc_role :: string

record operation_record =
  or_operator_id :: string
  or_operator_version :: string
  or_seed :: u64
  or_controls :: "(string \<times> json_value) list"

record manifest =
  mf_spec_version :: string
  mf_cartridge_id :: string
  mf_codec :: lc_codec_descriptor
  mf_payloads :: "payload_descriptor list"
  mf_tensors :: "tensor_descriptor list"
  mf_timing :: lc_timing_descriptor
  mf_audio :: audio_disposition
  mf_preview :: "preview_descriptor option"
  mf_provenance :: provenance
  mf_parent_cartridges :: "parent_cartridge list"
  mf_operation_history :: "operation_record list"

end
