(* ===== verification/Cartridge_Validation.thy ===== *)
theory Cartridge_Validation
  imports Cartridge_Manifest
begin

unbundle bit_operations_syntax

text \<open>
  The codec-neutral validation of a manifest (\<open>crates/cartridge/src/manifest.rs\<close>,
  \<open>validate_common\<close> and below) in the order of the code. Errors carry their code and the JSON
  pointer of the offending field.
\<close>

section \<open>Parameters\<close>

text \<open>
  The functions of other crates: \<open>uuid::Uuid::parse_str\<close>, the canonical text of an identifier
  (\<open>hyphenated\<close>), and parsing an RFC 3339 timestamp, of which only matters whether its offset is
  UTC.
\<close>

record lc_externals =
  ex_parse_uuid :: "string \<Rightarrow> uuid option"
  ex_hyphenated :: "uuid \<Rightarrow> string"
  ex_parse_rfc3339 :: "string \<Rightarrow> bool option"

definition LC_SPEC_VERSION :: string where
  "LC_SPEC_VERSION = ''0.1.0''"

section \<open>Fields\<close>

definition lc_fail :: "cartridge_code \<Rightarrow> string \<Rightarrow> cartridge_error" where
  "lc_fail code pointer = at_json pointer (lc_error code)"

definition ensure_max_count :: "nat \<Rightarrow> nat \<Rightarrow> string \<Rightarrow> unit lc_result" where
  "ensure_max_count actual maximum pointer =
     refuse (actual > maximum) (lc_fail LcRuntimeLimitExceeded pointer)"

definition validate_bounded_string :: "string \<Rightarrow> nat \<Rightarrow> string \<Rightarrow> unit lc_result" where
  "validate_bounded_string value maximum_bytes pointer =
     refuse (length value > maximum_bytes) (lc_fail LcRuntimeLimitExceeded pointer)"

definition is_lc_hex_digit :: "char \<Rightarrow> bool" where
  "is_lc_hex_digit c = (is_ascii_digit c \<or> 97 \<le> byte_val c \<and> byte_val c \<le> 102)"

definition validate_lc_sha256 :: "string \<Rightarrow> string \<Rightarrow> unit lc_result" where
  "validate_lc_sha256 digest pointer =
     refuse (\<not> (length digest = 64 \<and> list_all is_lc_hex_digit digest))
       (lc_fail LcManifestInvalid pointer)"

definition validate_rational :: "rational \<Rightarrow> string \<Rightarrow> unit lc_result" where
  "validate_rational r pointer = refuse (\<not> is_canonical r) (lc_fail LcManifestInvalid pointer)"

definition is_lc_identifier_byte :: "char \<Rightarrow> bool" where
  "is_lc_identifier_byte c = (is_ascii_lowercase c \<or> is_ascii_digit c \<or> c \<in> set ''_.-'')"

definition validate_lc_identifier ::
  "string \<Rightarrow> string \<Rightarrow> validation_limits \<Rightarrow> unit lc_result" where
  "validate_lc_identifier s pointer limits =
     refuse (\<not> (s \<noteq> [] \<and> length s \<le> lim_identifier_bytes limits \<and>
         (is_ascii_lowercase (hd s) \<or> is_ascii_digit (hd s)) \<and> list_all is_lc_identifier_byte s))
       (lc_fail LcManifestInvalid pointer)"

definition validate_cartridge_id :: "lc_externals \<Rightarrow> string \<Rightarrow> string \<Rightarrow> unit lc_result" where
  "validate_cartridge_id ex cartridge_id pointer =
     try_bind (ok_or (ex_parse_uuid ex cartridge_id) (lc_fail LcManifestInvalid pointer)) (\<lambda>parsed_id.
     refuse (parsed_id = 0 \<or> ex_hyphenated ex parsed_id \<noteq> cartridge_id)
       (lc_fail LcManifestInvalid pointer))"

section \<open>JSON values\<close>

definition f64_finite :: "u64 \<Rightarrow> bool" where
  "f64_finite v = (v AND 0x7FF0000000000000 \<noteq> 0x7FF0000000000000)"

definition validate_json_number :: "json_number \<Rightarrow> string \<Rightarrow> unit lc_result" where
  "validate_json_number number pointer =
     (let maximum = int (unat MAX_JCS_SAFE_INTEGER);
          out_of_range = (case jn_as_i64 number of
              Some v \<Rightarrow> v < - maximum \<or> v > maximum
            | None \<Rightarrow> (case jn_as_u64 number of
                  Some v \<Rightarrow> v > MAX_JCS_SAFE_INTEGER
                | None \<Rightarrow> (case jn_as_f64 number of None \<Rightarrow> True | Some v \<Rightarrow> \<not> f64_finite v))) in
      refuse out_of_range (lc_fail LcManifestInvalid pointer))"

fun validate_json_value :: "json_value \<Rightarrow> string \<Rightarrow> validation_limits \<Rightarrow> unit lc_result"
  and validate_json_items ::
    "json_value list \<Rightarrow> nat \<Rightarrow> string \<Rightarrow> validation_limits \<Rightarrow> unit lc_result"
  and validate_json_members ::
    "(string \<times> json_value) list \<Rightarrow> string \<Rightarrow> validation_limits \<Rightarrow> unit lc_result" where
  "validate_json_value JvNull pointer limits = Inr ()"
| "validate_json_value (JvBool b) pointer limits = Inr ()"
| "validate_json_value (JvString text) pointer limits =
     validate_bounded_string text (lim_human_string_bytes limits) pointer"
| "validate_json_value (JvNumber number) pointer limits = validate_json_number number pointer"
| "validate_json_value (JvArray values) pointer limits = validate_json_items values 0 pointer limits"
| "validate_json_value (JvObject values) pointer limits = validate_json_members values pointer limits"
| "validate_json_items [] index pointer limits = Inr ()"
| "validate_json_items (nested # values) index pointer limits =
     try_bind (validate_json_value nested (item_pointer pointer index) limits) (\<lambda>_.
     validate_json_items values (index + 1) pointer limits)"
| "validate_json_members [] pointer limits = Inr ()"
| "validate_json_members ((key, nested) # values) pointer limits =
     try_bind (validate_bounded_string key (lim_identifier_bytes limits) (child_pointer pointer key))
       (\<lambda>_.
     try_bind (validate_json_value nested (child_pointer pointer key) limits) (\<lambda>_.
     validate_json_members values pointer limits))"

text \<open>A map of values is validated as an object is.\<close>

definition validate_value_map ::
  "(string \<times> json_value) list \<Rightarrow> string \<Rightarrow> validation_limits \<Rightarrow> unit lc_result" where
  "validate_value_map values pointer limits = validate_json_members values pointer limits"

section \<open>Parts of the manifest\<close>

definition validate_manifest_shape :: "manifest \<Rightarrow> validation_limits \<Rightarrow> unit lc_result" where
  "validate_manifest_shape mf limits = in_order
     [refuse (mf_spec_version mf \<noteq> LC_SPEC_VERSION) (lc_fail LcUnsupportedSpecVersion ''/spec_version''),
      refuse (length (mf_payloads mf) \<noteq> 1) (lc_fail LcManifestInvalid ''/payloads''),
      ensure_max_count (length (mf_tensors mf)) (lim_tensors limits) ''/tensors'',
      refuse (mf_tensors mf = []) (lc_fail LcTensorMissing ''/tensors''),
      ensure_max_count (length (mf_parent_cartridges mf)) (lim_parent_cartridges limits)
        ''/parent_cartridges'',
      ensure_max_count (length (mf_operation_history mf)) (lim_operation_records limits)
        ''/operation_history'',
      ensure_max_count (length (pn_sources (mf_provenance mf))) (lim_provenance_sources limits)
        ''/provenance/sources'']"

definition validate_preview :: "preview_descriptor \<Rightarrow> validation_limits \<Rightarrow> unit lc_result" where
  "validate_preview p limits =
     try_bind (in_order
       [refuse (pv_path p \<noteq> ''preview.webp'' \<or> pv_media_type p \<noteq> ''image/webp'')
          (lc_fail LcManifestInvalid ''/preview''),
        refuse (pv_byte_length p = 0 \<or> pv_byte_length p > lim_preview_bytes limits)
          (lc_fail LcRuntimeLimitExceeded ''/preview/byte_length'')]) (\<lambda>_.
     try_bind (ok_or (checked_mul (ucast (pv_width p)) (ucast (pv_height p)))
         (lc_fail LcRuntimeLimitExceeded ''/preview'')) (\<lambda>pixels.
     in_order
       [refuse (pv_width p = 0 \<or> pv_height p = 0 \<or> pv_width p > MAX_PREVIEW_AXIS \<or>
            pv_height p > MAX_PREVIEW_AXIS \<or> pixels > MAX_PREVIEW_PIXELS)
          (lc_fail LcRuntimeLimitExceeded ''/preview''),
        validate_lc_sha256 (pv_sha256 p) ''/preview/sha256'']))"

text \<open>Visiting a list with the index of each element.\<close>

definition try_enumerate :: "(nat \<Rightarrow> 'a \<Rightarrow> unit lc_result) \<Rightarrow> 'a list \<Rightarrow> unit lc_result" where
  "try_enumerate f xs = try_all (\<lambda>(index, x). f index x) (enumerate 0 xs)"

definition validate_manifest_identity ::
  "lc_externals \<Rightarrow> manifest \<Rightarrow> validation_limits \<Rightarrow> unit lc_result" where
  "validate_manifest_identity ex mf limits = in_order
     [validate_cartridge_id ex (mf_cartridge_id mf) ''/cartridge_id'',
      try_enumerate (\<lambda>index payload.
        validate_lc_sha256 (pd_sha256 payload) (item_pointer ''/payloads'' index @ ''/sha256''))
        (mf_payloads mf),
      (case mf_preview mf of None \<Rightarrow> Inr () | Some preview \<Rightarrow> validate_preview preview limits),
      validate_rational (dv_frame_rate (ti_decoded_video (mf_timing mf)))
        ''/timing/decoded_video/frame_rate'',
      validate_rational (dv_duration (ti_decoded_video (mf_timing mf)))
        ''/timing/decoded_video/duration'',
      validate_lc_identifier (cd_family (mf_codec mf)) ''/codec/family'' limits,
      validate_lc_identifier (cd_profile (mf_codec mf)) ''/codec/profile'' limits,
      validate_lc_identifier (ti_contract (mf_timing mf)) ''/timing/contract'' limits,
      validate_lc_identifier (pr_name (pn_created_by (mf_provenance mf)))
        ''/provenance/created_by/name'' limits]"

definition validate_tensor_descriptors :: "manifest \<Rightarrow> validation_limits \<Rightarrow> unit lc_result" where
  "validate_tensor_descriptors mf limits = try_enumerate (\<lambda>index tensor.
     let at = item_pointer ''/tensors'' index in
     in_order
       [ensure_max_count (length (td_shape tensor)) (lim_tensor_rank limits) (at @ ''/shape''),
        validate_lc_identifier (td_name tensor) (at @ ''/name'') limits,
        refuse (\<not> dtype_is_supported (td_storage_dtype tensor))
          (lc_fail LcTensorDtypeForbidden (at @ ''/storage_dtype'')),
        refuse (\<not> dtype_is_supported (td_runtime_dtype tensor))
          (lc_fail LcTensorDtypeForbidden (at @ ''/runtime_dtype''))])
     (mf_tensors mf)"

definition validate_created_at :: "lc_externals \<Rightarrow> string \<Rightarrow> unit lc_result" where
  "validate_created_at ex created_at =
     try_bind (ok_or (ex_parse_rfc3339 ex created_at)
         (lc_fail LcManifestInvalid ''/provenance/created_at'')) (\<lambda>offset_is_utc.
     refuse (\<not> offset_is_utc \<or> \<not> ends_with CHR ''Z'' created_at)
       (lc_fail LcManifestInvalid ''/provenance/created_at''))"

text \<open>A check on an optional field.\<close>

definition when_some :: "('a \<Rightarrow> unit lc_result) \<Rightarrow> 'a option \<Rightarrow> unit lc_result" where
  "when_some f x = (case x of None \<Rightarrow> Inr () | Some y \<Rightarrow> f y)"

definition validate_provenance ::
  "lc_externals \<Rightarrow> manifest \<Rightarrow> validation_limits \<Rightarrow> unit lc_result" where
  "validate_provenance ex mf limits = in_order
     [validate_bounded_string (pr_version (pn_created_by (mf_provenance mf)))
        (lim_identifier_bytes limits) ''/provenance/created_by/version'',
      when_some (\<lambda>created_at. in_order
          [validate_bounded_string created_at 64 ''/provenance/created_at'',
           validate_created_at ex created_at]) (pn_created_at (mf_provenance mf)),
      try_enumerate (\<lambda>index source.
        let pointer = item_pointer ''/provenance/sources'' index in
        in_order
          [validate_lc_identifier (ps_kind source) (pointer @ ''/kind'') limits,
           when_some (\<lambda>digest. validate_lc_sha256 digest (pointer @ ''/sha256'')) (ps_sha256 source),
           when_some (\<lambda>uri. validate_bounded_string uri (lim_uri_bytes limits) (pointer @ ''/uri''))
             (ps_uri source),
           when_some (\<lambda>license. validate_bounded_string license (lim_human_string_bytes limits)
               (pointer @ ''/license'')) (ps_license source),
           when_some (\<lambda>metadata. validate_value_map metadata (pointer @ ''/metadata'') limits)
             (ps_metadata source)])
        (pn_sources (mf_provenance mf))]"

definition audio_source_cartridge :: "audio_disposition \<Rightarrow> source_cartridge_ref option" where
  "audio_source_cartridge audio = (case audio of
       CopiedFromCarrierExact source \<Rightarrow> Some source
     | OmittedTimingMismatch source reason \<Rightarrow> Some source
     | SourceAbsent \<Rightarrow> None | PreservedSource \<Rightarrow> None)"

definition validate_source_cartridge ::
  "lc_externals \<Rightarrow> source_cartridge_ref \<Rightarrow> string \<Rightarrow> unit lc_result" where
  "validate_source_cartridge ex source pointer = in_order
     [validate_cartridge_id ex (sc_cartridge_id source) (pointer @ ''/cartridge_id''),
      validate_lc_sha256 (sc_archive_sha256 source) (pointer @ ''/archive_sha256'')]"

definition validate_genealogy ::
  "lc_externals \<Rightarrow> manifest \<Rightarrow> validation_limits \<Rightarrow> unit lc_result" where
  "validate_genealogy ex mf limits = in_order
     [try_enumerate (\<lambda>index parent.
        let at = item_pointer ''/parent_cartridges'' index in
        in_order
          [validate_cartridge_id ex (pc_cartridge_id parent) (at @ ''/cartridge_id''),
           validate_lc_sha256 (pc_archive_sha256 parent) (at @ ''/archive_sha256''),
           validate_lc_identifier (pc_role parent) (at @ ''/role'') limits])
        (mf_parent_cartridges mf),
      try_enumerate (\<lambda>index operation.
        let at = item_pointer ''/operation_history'' index in
        in_order
          [ensure_max_count (length (or_controls operation)) (lim_controls_per_operation limits)
             (at @ ''/controls''),
           refuse (or_seed operation > MAX_JCS_SAFE_INTEGER) (lc_fail LcManifestInvalid (at @ ''/seed'')),
           validate_lc_identifier (or_operator_id operation) (at @ ''/operator_id'') limits,
           validate_bounded_string (or_operator_version operation) (lim_identifier_bytes limits)
             (at @ ''/operator_version''),
           validate_value_map (or_controls operation) (at @ ''/controls'') limits])
        (mf_operation_history mf),
      when_some (\<lambda>source. validate_source_cartridge ex source ''/audio/source_cartridge'')
        (audio_source_cartridge (mf_audio mf))]"

definition manifest_validate_common ::
  "lc_externals \<Rightarrow> manifest \<Rightarrow> validation_limits \<Rightarrow> unit lc_result" where
  "manifest_validate_common ex mf limits = in_order
     [validate_manifest_shape mf limits,
      validate_manifest_identity ex mf limits,
      validate_tensor_descriptors mf limits,
      validate_provenance ex mf limits,
      validate_genealogy ex mf limits]"

section \<open>Lower limits accept less\<close>

text \<open>A check that passes under some limits passes under higher ones.\<close>

lemma try_enumerate_Inr: "try_enumerate f xs = Inr u \<longleftrightarrow> (\<forall>i<length xs. f i (xs ! i) = Inr ())"
  by (auto simp: try_enumerate_def try_all_Inr Ball_def in_set_enumerate_eq)

lemma when_some_Inr: "when_some f x = Inr u \<longleftrightarrow> (\<forall>y. x = Some y \<longrightarrow> f y = Inr ())"
  by (cases x) (auto simp: when_some_def)

lemmas limit_iffs = try_iffs try_enumerate_Inr when_some_Inr ensure_max_count_def
  validate_bounded_string_def validate_lc_identifier_def Let_def

lemma json_limits_mono:
  assumes "limits_le l k"
  shows "validate_json_value v p l = Inr () \<Longrightarrow> validate_json_value v p k = Inr ()"
    and "validate_json_items vs i p l = Inr () \<Longrightarrow> validate_json_items vs i p k = Inr ()"
    and "validate_json_members ms p l = Inr () \<Longrightarrow> validate_json_members ms p k = Inr ()"
  using assms
  by (induction v p l and vs i p l and ms p l
      rule: validate_json_value_validate_json_items_validate_json_members.induct)
    (auto simp: validate_bounded_string_def try_iffs limits_le_def)

lemma validate_common_mono:
  assumes "manifest_validate_common ex mf l = Inr ()" and le: "limits_le l k"
  shows "manifest_validate_common ex mf k = Inr ()"
proof -
  note bounds = le [unfolded limits_le_def]
  have parts: "validate_manifest_shape mf l = Inr ()" "validate_manifest_identity ex mf l = Inr ()"
    "validate_tensor_descriptors mf l = Inr ()" "validate_provenance ex mf l = Inr ()"
    "validate_genealogy ex mf l = Inr ()"
    using assms(1) by (simp_all add: manifest_validate_common_def try_iffs)
  have "validate_manifest_shape mf k = Inr ()"
    using parts(1) bounds by (auto simp: validate_manifest_shape_def limit_iffs)
  moreover have "validate_preview p k = Inr ()" if "validate_preview p l = Inr ()" for p
    using that bounds by (auto simp: validate_preview_def limit_iffs)
  then have "validate_manifest_identity ex mf k = Inr ()"
    using parts(2) bounds by (auto simp: validate_manifest_identity_def limit_iffs split: option.splits)
  moreover have "validate_tensor_descriptors mf k = Inr ()"
    using parts(3) bounds by (auto simp: validate_tensor_descriptors_def limit_iffs dest: le_trans)
  moreover have "validate_provenance ex mf k = Inr ()"
    using parts(4) bounds json_limits_mono(3) [OF le]
    by (auto simp: validate_provenance_def validate_value_map_def limit_iffs dest: le_trans)
  moreover have "validate_genealogy ex mf k = Inr ()"
    using parts(5) bounds json_limits_mono(3) [OF le]
    by (auto simp: validate_genealogy_def validate_value_map_def limit_iffs dest: le_trans)
  ultimately show ?thesis
    by (simp add: manifest_validate_common_def)
qed

end
