(* ===== verification/Cartridge_Parse.thy ===== *)
theory Cartridge_Parse
  imports Cartridge_Validation
begin

text \<open>
  Reading a manifest (\<open>parse_manifest_json\<close> in \<open>crates/cartridge/src/manifest.rs\<close>): a pass over
  the JSON text that refuses duplicate keys and deep nesting, with the errors passed through the
  text of a serde error; then the typed pass and the validation. serde_json and
  serde_path_to_error are parameters.
\<close>

section \<open>The text as the first pass meets it\<close>

text \<open>
  What \<open>serde_json\<close> hands to the visitor, in the order of the text. A text that is not JSON is a
  document with an error in it: \<open>JtBroken\<close> where a value should be, the second component of an
  array or object when the error comes where its next element or key should be, and \<open>Inl\<close> for the
  value of a member when the error comes between the key and the value.
\<close>

datatype (plugins only: size) json_text =
    JtScalar
  | JtArray "json_text list" "string option"
  | JtObject "(string \<times> (string + json_text)) list" "string option"
  | JtBroken string

text \<open>The segments of a path of serde_path_to_error.\<close>

datatype (plugins only: ) path_segment =
    SegSeq nat | SegMap string | SegEnum string | SegUnknown

text \<open>
  The parameters: UTF-8 decoding, the document of a text with the error for what follows it, the
  text of a custom error (the message and the position after it), the typed deserialization with
  its error text and path, and the error for what follows the typed document.
\<close>

record json_externals =
  jx_from_utf8 :: "u8 list \<Rightarrow> string option"
  jx_document :: "string \<Rightarrow> json_text \<times> string option"
  jx_custom_text :: "string \<Rightarrow> string"
  jx_deserialize :: "string \<Rightarrow> (string \<times> path_segment list) + manifest"
  jx_end :: "string \<Rightarrow> string option"

definition DUPLICATE_KEY_MARKER :: string where
  "DUPLICATE_KEY_MARKER = ''__latentdeck_duplicate_key__:''"

definition JSON_DEPTH_MARKER :: string where
  "JSON_DEPTH_MARKER = ''__latentdeck_json_depth__:''"

text \<open>The error of the first pass: a message of the visitor, or an error text of serde_json.\<close>

datatype (plugins only: ) preflight_error = PfCustom string | PfSyntax string

declare json_text.case_cong [fundef_cong]

function preflight_value :: "nat \<Rightarrow> string \<Rightarrow> nat \<Rightarrow> json_text \<Rightarrow> preflight_error + unit"
  and preflight_seq ::
    "nat \<Rightarrow> string \<Rightarrow> nat \<Rightarrow> nat \<Rightarrow> json_text list \<Rightarrow> string option \<Rightarrow> preflight_error + unit"
  and preflight_map ::
    "nat \<Rightarrow> string \<Rightarrow> nat \<Rightarrow> string list \<Rightarrow> (string \<times> (string + json_text)) list \<Rightarrow> string option \<Rightarrow>
     preflight_error + unit" where
  "preflight_value maximum_depth pointer depth t =
     (if depth > maximum_depth then Inl (PfCustom (JSON_DEPTH_MARKER @ pointer @ ''|''))
      else case t of
          JtBroken e \<Rightarrow> Inl (PfSyntax e)
        | JtScalar \<Rightarrow> Inr ()
        | JtArray items e \<Rightarrow> preflight_seq maximum_depth pointer depth 0 items e
        | JtObject members e \<Rightarrow> preflight_map maximum_depth pointer depth [] members e)"
| "preflight_seq maximum_depth pointer depth index [] e =
     (case e of None \<Rightarrow> Inr () | Some text \<Rightarrow> Inl (PfSyntax text))"
| "preflight_seq maximum_depth pointer depth index (item # items) e =
     try_bind (preflight_value maximum_depth (item_pointer pointer index) (depth + 1) item) (\<lambda>_.
     preflight_seq maximum_depth pointer depth (index + 1) items e)"
| "preflight_map maximum_depth pointer depth keys [] e =
     (case e of None \<Rightarrow> Inr () | Some text \<Rightarrow> Inl (PfSyntax text))"
| "preflight_map maximum_depth pointer depth keys ((key, v) # members) e =
     (if key \<in> set keys
      then Inl (PfCustom (DUPLICATE_KEY_MARKER @ child_pointer pointer key @ ''|''))
      else case v of
          Inl text \<Rightarrow> Inl (PfSyntax text)
        | Inr t \<Rightarrow>
            try_bind (preflight_value maximum_depth (child_pointer pointer key) (depth + 1) t) (\<lambda>_.
            preflight_map maximum_depth pointer depth (key # keys) members e))"
  by pat_completeness auto
termination
proof (relation "measure (\<lambda>x. case x of
      Inl (bound, pointer, depth, t) \<Rightarrow> size t
    | Inr (Inl (bound, pointer, depth, index, items, e)) \<Rightarrow> size_list size items
    | Inr (Inr (bound, pointer, depth, keys, members, e)) \<Rightarrow>
        size_list (size_prod (\<lambda>_. 0) (size_sum (\<lambda>_. 0) size)) members)")
qed simp_all

declare preflight_value.simps [simp del]

lemma preflight_too_deep:
  "bound < depth \<Longrightarrow> preflight_value bound pointer depth t = Inl (PfCustom (JSON_DEPTH_MARKER @ pointer @ ''|''))"
  by (simp add: preflight_value.simps)

section \<open>From error texts to errors\<close>

text \<open>\<open>str::find\<close> of a text, and \<open>str::contains\<close>.\<close>

fun find_sub :: "string \<Rightarrow> string \<Rightarrow> nat option" where
  "find_sub needle hay =
     (if take (length needle) hay = needle then Some 0
      else case hay of [] \<Rightarrow> None | c # rest \<Rightarrow> map_option Suc (find_sub needle rest))"

declare find_sub.simps [simp del]

definition contains_sub :: "string \<Rightarrow> string \<Rightarrow> bool" where
  "contains_sub needle hay = (find_sub needle hay \<noteq> None)"

definition marker_pointer :: "string \<Rightarrow> string \<Rightarrow> string option" where
  "marker_pointer detail marker =
     Option.bind (find_sub marker detail) (\<lambda>at.
     let pointer_start = at + length marker in
     Option.bind (find_sub ''|'' (drop pointer_start detail)) (\<lambda>relative_end.
     Some (take relative_end (drop pointer_start detail))))"

definition manifest_json_error :: "string \<Rightarrow> string option \<Rightarrow> cartridge_error" where
  "manifest_json_error text pointer =
     (let code = (if contains_sub ''unknown field'' text then LcManifestUnknownField
                  else LcManifestJsonInvalid);
          e = at_entry ''manifest.json'' (lc_error code) in
      case pointer of None \<Rightarrow> e | Some p \<Rightarrow> at_json p e)"

definition duplicate_preflight_error :: "string \<Rightarrow> cartridge_error" where
  "duplicate_preflight_error detail = (case marker_pointer detail DUPLICATE_KEY_MARKER of
       Some pointer \<Rightarrow> at_json pointer (at_entry ''manifest.json'' (lc_error LcManifestDuplicateKey))
     | None \<Rightarrow> (case marker_pointer detail JSON_DEPTH_MARKER of
           Some pointer \<Rightarrow>
             at_json pointer (at_entry ''manifest.json'' (lc_error LcRuntimeLimitExceeded))
         | None \<Rightarrow> manifest_json_error detail None))"

definition error_text :: "json_externals \<Rightarrow> preflight_error \<Rightarrow> string" where
  "error_text jx e = (case e of PfCustom message \<Rightarrow> jx_custom_text jx message | PfSyntax text \<Rightarrow> text)"

definition reject_duplicate_keys :: "json_externals \<Rightarrow> string \<Rightarrow> nat \<Rightarrow> unit lc_result" where
  "reject_duplicate_keys jx text maximum_depth =
     (let (document, trailing) = jx_document jx text in
     try_bind (map_err (\<lambda>e. duplicate_preflight_error (error_text jx e))
         (preflight_value maximum_depth [] 0 document)) (\<lambda>_.
     case trailing of None \<Rightarrow> Inr () | Some e \<Rightarrow> Inl (manifest_json_error e None)))"

definition serde_path_to_json_pointer :: "path_segment list \<Rightarrow> string" where
  "serde_path_to_json_pointer path = concat (map (\<lambda>segment. ''/'' @ (case segment of
       SegSeq index \<Rightarrow> decimal index
     | SegMap key \<Rightarrow> escape_json_pointer key
     | SegEnum variant \<Rightarrow> escape_json_pointer variant
     | SegUnknown \<Rightarrow> ''?'')) path)"

definition parse_manifest_json ::
  "lc_externals \<Rightarrow> json_externals \<Rightarrow> u8 list \<Rightarrow> validation_limits \<Rightarrow> manifest lc_result" where
  "parse_manifest_json ex jx bytes limits =
     (if length bytes > lim_manifest_bytes limits
      then Inl (at_entry ''manifest.json'' (lc_error LcManifestTooLarge))
      else
     try_bind (ok_or (jx_from_utf8 jx bytes) (at_entry ''manifest.json'' (lc_error LcManifestNotUtf8)))
       (\<lambda>text.
     try_bind (reject_duplicate_keys jx text (lim_json_depth limits)) (\<lambda>_.
     try_bind (map_err (\<lambda>(e, path). manifest_json_error e (Some (serde_path_to_json_pointer path)))
         (jx_deserialize jx text)) (\<lambda>mf.
     try_bind (case jx_end jx text of None \<Rightarrow> Inr () | Some e \<Rightarrow> Inl (manifest_json_error e None)) (\<lambda>_.
     try_bind (manifest_validate_common ex mf limits) (\<lambda>_.
     Inr mf))))))"

section \<open>What the first pass accepts\<close>

text \<open>JSON without an error, with distinct keys in every object and at most so many levels.\<close>

fun strict_json :: "nat \<Rightarrow> json_text \<Rightarrow> bool" where
  "strict_json levels JtScalar = True"
| "strict_json levels (JtBroken e) = False"
| "strict_json 0 (JtArray items e) = (items = [] \<and> e = None)"
| "strict_json 0 (JtObject members e) = (members = [] \<and> e = None)"
| "strict_json (Suc levels) (JtArray items e) =
     (e = None \<and> (\<forall>t\<in>set items. strict_json levels t))"
| "strict_json (Suc levels) (JtObject members e) =
     (e = None \<and> distinct (map fst members) \<and>
      (\<forall>v\<in>snd ` set members. \<exists>t. v = Inr t \<and> strict_json levels t))"

lemma preflight_strict:
  "depth \<le> bound \<Longrightarrow> preflight_value bound pointer depth t = Inr () \<longleftrightarrow> strict_json (bound - depth) t"
  "depth \<le> bound \<Longrightarrow> preflight_seq bound pointer depth index items e = Inr () \<longleftrightarrow>
     strict_json (bound - depth) (JtArray items e)"
  "depth \<le> bound \<Longrightarrow> preflight_map bound pointer depth keys members e = Inr () \<longleftrightarrow>
     set keys \<inter> fst ` set members = {} \<and> strict_json (bound - depth) (JtObject members e)"
proof (induction bound pointer depth t and bound pointer depth index items e
    and bound pointer depth keys members e
    rule: preflight_value_preflight_seq_preflight_map.induct)
  case (1 bound pointer depth t)
  then show ?case
    by (cases t) (auto simp: preflight_value.simps)
next
  case (2 bound pointer depth index e)
  then show ?case
    by (cases "bound - depth") (auto split: option.splits)
next
  case (3 bound pointer depth index item items e)
  show ?case
  proof (cases "bound - depth")
    case 0
    then show ?thesis
      using 3 by (simp add: try_iffs preflight_too_deep)
  next
    case (Suc n)
    then have "bound - Suc depth = n" "Suc depth \<le> bound"
      by simp_all
    then show ?thesis
      using 3 Suc by (auto simp: try_iffs)
  qed
next
  case (4 bound pointer depth keys e)
  then show ?case
    by (cases "bound - depth") (auto split: option.splits)
next
  case (5 bound pointer depth keys key v members e)
  show ?case
  proof (cases "bound - depth")
    case 0
    then show ?thesis
      using 5 by (cases v) (auto simp: try_iffs preflight_too_deep)
  next
    case (Suc n)
    then have "bound - Suc depth = n" "Suc depth \<le> bound"
      by simp_all
    then show ?thesis
      using 5 Suc by (cases v) (auto simp: try_iffs image_iff)
  qed
qed

lemma find_sub_prefix: "find_sub needle (needle @ rest) = Some 0"
  by (simp add: find_sub.simps)

lemma find_sub_char:
  "find_sub [c] (p @ c # rest) = Some (length (takeWhile (\<lambda>x. x \<noteq> c) p))"
  by (induction p) (simp_all add: find_sub.simps)

lemma marker_pointer_own:
  "marker_pointer (marker @ pointer @ ''|'' @ rest) marker =
     Some (takeWhile (\<lambda>x. x \<noteq> CHR ''|'') pointer)"
proof -
  have "take (length (takeWhile P xs)) (xs @ ys) = takeWhile P xs" for P and xs ys :: string
    by (induction xs) auto
  then show ?thesis
    by (simp add: marker_pointer_def find_sub_prefix Let_def find_sub_char)
qed

text \<open>C17: A manifest is read exactly when it is safe to trust its fields: the bytes are within the limit
  and UTF-8, the JSON text has no error, no object in it (at any depth) names a key twice, its
  nesting stays within the limit, the typed reader accepts it to its end, and the decoded manifest
  passes the codec-neutral validation. In particular no duplicate key can make the typed reader
  and another reader of the same bytes see different manifests.
\<close>
theorem parse_manifest_exact:
  "parse_manifest_json ex jx bytes limits = Inr mf \<longleftrightarrow>
     length bytes \<le> lim_manifest_bytes limits \<and>
     (\<exists>doc. jx_from_utf8 jx bytes = Some doc \<and>
        strict_json (lim_json_depth limits) (fst (jx_document jx doc)) \<and>
        snd (jx_document jx doc) = None \<and>
        jx_deserialize jx doc = Inr mf \<and> jx_end jx doc = None \<and>
        manifest_validate_common ex mf limits = Inr ())"
proof -
  have "reject_duplicate_keys jx doc n = Inr () \<longleftrightarrow>
      strict_json n (fst (jx_document jx doc)) \<and> snd (jx_document jx doc) = None" for doc n
    using preflight_strict(1) [of 0 n "[]" "fst (jx_document jx doc)"]
    by (auto simp: reject_duplicate_keys_def try_iffs split_beta split: option.splits)
  then show ?thesis
    by (auto simp: parse_manifest_json_def try_iffs split: option.splits)
qed

text \<open>How an error of the first pass reaches the caller. The visitor can only fail with a text, from
  which the kind and the pointer are read back. A duplicate key is always reported as such, at its
  pointer, except that the pointer ends at the first vertical bar in it; a nesting error is
  reported as an exceeded limit at its pointer whenever the pointer does not contain the marker of
  the other kind; and when it does, as the key of a member can make it, a document that is only
  nested too deeply is reported to have a duplicate key.
\<close>
theorem preflight_errors_classified:
  "duplicate_preflight_error (DUPLICATE_KEY_MARKER @ pointer @ ''|'' @ position) =
     at_json (takeWhile (\<lambda>c. c \<noteq> CHR ''|'') pointer)
       (at_entry ''manifest.json'' (lc_error LcManifestDuplicateKey)) \<and>
   (contains_sub DUPLICATE_KEY_MARKER (JSON_DEPTH_MARKER @ pointer @ ''|'' @ position) \<or>
    duplicate_preflight_error (JSON_DEPTH_MARKER @ pointer @ ''|'' @ position) =
      at_json (takeWhile (\<lambda>c. c \<noteq> CHR ''|'') pointer)
        (at_entry ''manifest.json'' (lc_error LcRuntimeLimitExceeded))) \<and>
   ce_code (duplicate_preflight_error
     (JSON_DEPTH_MARKER @ (''/'' @ DUPLICATE_KEY_MARKER) @ ''|'' @ position)) = LcManifestDuplicateKey"
proof (intro conjI)
  show "duplicate_preflight_error (DUPLICATE_KEY_MARKER @ pointer @ ''|'' @ position) =
      at_json (takeWhile (\<lambda>c. c \<noteq> CHR ''|'') pointer)
        (at_entry ''manifest.json'' (lc_error LcManifestDuplicateKey))"
    unfolding duplicate_preflight_error_def marker_pointer_own by simp
  show "contains_sub DUPLICATE_KEY_MARKER (JSON_DEPTH_MARKER @ pointer @ ''|'' @ position) \<or>
    duplicate_preflight_error (JSON_DEPTH_MARKER @ pointer @ ''|'' @ position) =
      at_json (takeWhile (\<lambda>c. c \<noteq> CHR ''|'') pointer)
        (at_entry ''manifest.json'' (lc_error LcRuntimeLimitExceeded))"
  proof (cases "find_sub DUPLICATE_KEY_MARKER (JSON_DEPTH_MARKER @ pointer @ ''|'' @ position)")
    case None
    then have "marker_pointer (JSON_DEPTH_MARKER @ pointer @ ''|'' @ position) DUPLICATE_KEY_MARKER = None"
      by (simp add: marker_pointer_def)
    then show ?thesis
      unfolding duplicate_preflight_error_def marker_pointer_own by simp
  next
    case (Some i)
    then show ?thesis
      by (simp add: contains_sub_def)
  qed
  have "find_sub DUPLICATE_KEY_MARKER
      (JSON_DEPTH_MARKER @ (''/'' @ DUPLICATE_KEY_MARKER) @ ''|'' @ position) = Some 27"
    by (simp add: DUPLICATE_KEY_MARKER_def JSON_DEPTH_MARKER_def find_sub.simps)
  then have "marker_pointer (JSON_DEPTH_MARKER @ (''/'' @ DUPLICATE_KEY_MARKER) @ ''|'' @ position)
      DUPLICATE_KEY_MARKER = Some []"
    using find_sub_char [of "CHR ''|''" "[]" position]
    by (simp add: marker_pointer_def DUPLICATE_KEY_MARKER_def JSON_DEPTH_MARKER_def)
  then show "ce_code (duplicate_preflight_error
      (JSON_DEPTH_MARKER @ (''/'' @ DUPLICATE_KEY_MARKER) @ ''|'' @ position)) = LcManifestDuplicateKey"
    by (simp add: duplicate_preflight_error_def)
qed

end
