(* ===== verification/Cartridge_H3.thy ===== *)
theory Cartridge_H3
  imports Cartridge_Validation
begin

text \<open>
  The H3 profile (\<open>crates/cartridge/src/profile/h3.rs\<close>): the cadence of latent slots, decoded
  frames and audio slots on checked 64-bit arithmetic, and the validation of a manifest against
  the profile; and the codec-neutral signal geometry (\<open>signal.rs\<close>).
\<close>

section \<open>Constants\<close>

definition CODEC_FAMILY :: string where "CODEC_FAMILY = ''minimax_h3''"
definition PROFILE :: string where "PROFILE = ''h3_av_latent''"
definition PROFILE_VERSION :: string where "PROFILE_VERSION = ''0.1.0''"
definition TIMING_CONTRACT :: string where "TIMING_CONTRACT = ''minimax_h3_causal''"
definition TIMING_CONTRACT_VERSION :: string where "TIMING_CONTRACT_VERSION = ''0.1.0''"
definition PAYLOAD_PATH :: string where "PAYLOAD_PATH = ''payloads/h3.safetensors''"
definition PAYLOAD_MEDIA_TYPE :: string where
  "PAYLOAD_MEDIA_TYPE = ''application/vnd.safetensors''"
definition STREAMING_NEW_SLOTS :: u64 where "STREAMING_NEW_SLOTS = 5"
definition STREAMING_USABLE_FRAMES :: u64 where "STREAMING_USABLE_FRAMES = 17"

section \<open>Data\<close>

record validated_visual =
  vv_latent_slots :: u64
  vv_latent_height :: u64
  vv_latent_width :: u64
  vv_decoded_frame_count :: u64
  vv_decoded_height :: u32
  vv_decoded_width :: u32

record validated_audio =
  va_latent_slots :: u64
  va_storage_dtype :: dtype
  va_runtime_dtype :: dtype

record h3_compatibility_key =
  hk_codec_family :: string
  hk_profile :: string
  hk_profile_version :: string
  hk_runtime_dtype :: dtype
  hk_batch :: u64
  hk_latent_channels :: u64
  hk_latent_height :: u64
  hk_latent_width :: u64
  hk_timing_contract :: string
  hk_timing_contract_version :: string
  hk_frame_rate :: rational

record validated_h3_profile =
  hp_visual :: validated_visual
  hp_audio :: "validated_audio option"
  hp_compatibility_key :: h3_compatibility_key

section \<open>Cadence\<close>

definition decoded_frame_count :: "u64 \<Rightarrow> u64 lc_result" where
  "decoded_frame_count latent_slots =
     try_bind (ok_or (checked_sub latent_slots 2) (at_tensor ''video'' (lc_error LcTensorShapeInvalid)))
       (\<lambda>tail.
     if tail mod 5 \<noteq> 0 then Inl (at_tensor ''video'' (lc_error LcTensorShapeInvalid))
     else
       let cycles = tail div 5 in
       ok_or (Option.bind (checked_mul cycles 17) (\<lambda>frames. checked_add frames 5))
         (at_tensor ''video'' (lc_error LcTensorSizeOverflow)))"

definition audio_latent_slot_count :: "u64 \<Rightarrow> u64 lc_result" where
  "audio_latent_slot_count decoded_frames =
     ok_or (map_option (\<lambda>slots. slots div 3)
         (Option.bind (checked_mul decoded_frames 5) (\<lambda>slots. checked_add slots 1)))
       (at_tensor ''audio'' (lc_error LcTensorSizeOverflow))"

definition streaming_contract :: "u64 \<times> u64" where
  "streaming_contract = (STREAMING_NEW_SLOTS, STREAMING_USABLE_FRAMES)"

definition streaming_usable_frames :: "u64 \<Rightarrow> u64 lc_result" where
  "streaming_usable_frames new_slots =
     (if new_slots = 0 \<or> new_slots mod STREAMING_NEW_SLOTS \<noteq> 0 then Inl (lc_error LcTimingMismatch)
      else ok_or (checked_mul (new_slots div STREAMING_NEW_SLOTS) STREAMING_USABLE_FRAMES)
        (lc_error LcTensorSizeOverflow))"

section \<open>The validation of a manifest\<close>

text \<open>The single payload, whose presence the codec-neutral validation has checked.\<close>

definition payload_0 :: "manifest \<Rightarrow> payload_descriptor" where
  "payload_0 mf = hd (mf_payloads mf)"

definition validate_profile_identity :: "manifest \<Rightarrow> validation_limits \<Rightarrow> unit lc_result" where
  "validate_profile_identity mf limits = in_order
     [refuse (cd_family (mf_codec mf) \<noteq> CODEC_FAMILY) (lc_fail LcUnsupportedCodec ''/codec/family''),
      refuse (cd_profile (mf_codec mf) \<noteq> PROFILE \<or> cd_profile_version (mf_codec mf) \<noteq> PROFILE_VERSION)
        (lc_fail LcUnsupportedProfileVersion ''/codec/profile_version''),
      refuse (ti_contract (mf_timing mf) \<noteq> TIMING_CONTRACT \<or>
          ti_contract_version (mf_timing mf) \<noteq> TIMING_CONTRACT_VERSION)
        (lc_fail LcUnsupportedProfileVersion ''/timing/contract_version''),
      refuse (pd_path (payload_0 mf) \<noteq> PAYLOAD_PATH)
        (lc_fail LcTensorDescriptorMismatch ''/payloads/0/path''),
      refuse (pd_media_type (payload_0 mf) \<noteq> PAYLOAD_MEDIA_TYPE)
        (lc_fail LcTensorDescriptorMismatch ''/payloads/0/media_type''),
      refuse (pd_byte_length (payload_0 mf) = 0 \<or>
          pd_byte_length (payload_0 mf) > lim_h3_payload_bytes limits)
        (lc_fail LcRuntimeLimitExceeded ''/payloads/0/byte_length'')]"

definition validate_tensor_set :: "tensor_descriptor list \<Rightarrow> unit lc_result" where
  "validate_tensor_set tensors = try_all (\<lambda>tensor. in_order
     [refuse (td_payload tensor \<noteq> PAYLOAD_PATH)
        (at_tensor (td_name tensor) (lc_error LcTensorDescriptorMismatch)),
      refuse (\<not> (td_stream tensor = StreamVisual \<and> td_name tensor = ''video'' \<or>
                td_stream tensor = StreamAudio \<and> td_name tensor = ''audio''))
        (at_tensor (td_name tensor) (lc_error LcTensorUnexpected))]) tensors"

text \<open>The product of the axes, from a count on.\<close>

primrec multiply_shape :: "u64 \<Rightarrow> u64 list \<Rightarrow> u64 option" where
  "multiply_shape count [] = Some count"
| "multiply_shape count (axis # shape) =
     Option.bind (checked_mul count axis) (\<lambda>count. multiply_shape count shape)"

primrec sum_tensor_bytes :: "u64 \<Rightarrow> tensor_descriptor list \<Rightarrow> u64 lc_result" where
  "sum_tensor_bytes tensor_bytes [] = Inr tensor_bytes"
| "sum_tensor_bytes tensor_bytes (d # ds) =
     (let at = at_tensor (td_name d) in
     if td_shape d = [] \<or> 0 \<in> set (td_shape d) then Inl (at (lc_error LcTensorShapeInvalid))
     else
     try_bind (ok_or (multiply_shape 1 (td_shape d)) (at (lc_error LcTensorSizeOverflow))) (\<lambda>elements.
     try_bind (ok_or (byte_width (td_storage_dtype d)) (at (lc_error LcTensorDtypeForbidden))) (\<lambda>width.
     try_bind (ok_or (checked_mul elements width) (at (lc_error LcTensorSizeOverflow))) (\<lambda>bytes.
     try_bind (ok_or (checked_add tensor_bytes bytes) (at (lc_error LcTensorSizeOverflow)))
       (\<lambda>tensor_bytes. sum_tensor_bytes tensor_bytes ds)))))"

definition validate_declared_tensor_bytes :: "manifest \<Rightarrow> unit lc_result" where
  "validate_declared_tensor_bytes mf =
     try_bind (sum_tensor_bytes 0 (mf_tensors mf)) (\<lambda>tensor_bytes.
     try_bind (ok_or (checked_add tensor_bytes 8) (lc_error LcTensorSizeOverflow))
       (\<lambda>minimum_payload_bytes.
     refuse (pd_byte_length (payload_0 mf) < minimum_payload_bytes)
       (lc_fail LcTensorDescriptorMismatch ''/payloads/0/byte_length'')))"

definition checked_decoded_axis :: "u64 \<Rightarrow> validation_limits \<Rightarrow> u32 lc_result" where
  "checked_decoded_axis axis limits =
     try_bind (ok_or (checked_mul axis 16) (at_tensor ''video'' (lc_error LcTensorSizeOverflow)))
       (\<lambda>decoded.
     try_bind (ok_or (u32_try_from decoded) (at_tensor ''video'' (lc_error LcRuntimeLimitExceeded)))
       (\<lambda>decoded.
     if decoded = 0 \<or> decoded > lim_h3_decoded_axis limits
     then Inl (at_tensor ''video'' (lc_error LcRuntimeLimitExceeded))
     else Inr decoded))"

definition exactly_one_tensor ::
  "tensor_descriptor list \<Rightarrow> tensor_stream \<Rightarrow> string \<Rightarrow> tensor_descriptor lc_result" where
  "exactly_one_tensor tensors stream name =
     (case filter (\<lambda>t. td_stream t = stream \<and> td_name t = name) tensors of
        [] \<Rightarrow> Inl (at_tensor name (lc_error LcTensorMissing))
      | [tensor] \<Rightarrow> Inr tensor
      | tensor # _ # _ \<Rightarrow> Inl (at_tensor name (lc_error LcTensorUnexpected)))"

definition validate_visual ::
  "tensor_descriptor \<Rightarrow> manifest \<Rightarrow> validation_limits \<Rightarrow> validated_visual lc_result" where
  "validate_visual d mf limits =
     (let shape = td_shape d; decoded = ti_decoded_video (mf_timing mf) in
     if length shape \<noteq> 5 \<or> shape ! 0 \<noteq> 1 \<or> shape ! 1 \<noteq> 24
     then Inl (at_tensor ''video'' (lc_error LcTensorShapeInvalid))
     else if td_runtime_dtype d \<noteq> DtF16
     then Inl (at_tensor ''video'' (lc_error LcTensorDtypeForbidden))
     else
     let latent_slots = shape ! 2 in
     if latent_slots > lim_h3_temporal_axis limits
     then Inl (at_tensor ''video'' (lc_error LcRuntimeLimitExceeded))
     else
     try_bind (decoded_frame_count latent_slots) (\<lambda>expected_frames.
     if dv_frame_count decoded \<noteq> expected_frames
     then Inl (lc_fail LcTimingMismatch ''/timing/decoded_video/frame_count'')
     else
     let latent_height = shape ! 3; latent_width = shape ! 4 in
     try_bind (checked_decoded_axis latent_height limits) (\<lambda>decoded_height.
     try_bind (checked_decoded_axis latent_width limits) (\<lambda>decoded_width.
     if dv_height decoded \<noteq> decoded_height \<or> dv_width decoded \<noteq> decoded_width
     then Inl (lc_fail LcDecodedGeometryMismatch ''/timing/decoded_video'')
     else Inr \<lparr>vv_latent_slots = latent_slots, vv_latent_height = latent_height,
               vv_latent_width = latent_width, vv_decoded_frame_count = expected_frames,
               vv_decoded_height = decoded_height, vv_decoded_width = decoded_width\<rparr>))))"

definition h3_validate_timing :: "manifest \<Rightarrow> u64 \<Rightarrow> rational lc_result" where
  "h3_validate_timing mf expected_frames =
     (let decoded = ti_decoded_video (mf_timing mf); frame_rate = dv_frame_rate decoded in
     if frame_rate \<noteq> \<lparr>ra_numerator = 24, ra_denominator = 1\<rparr>
     then Inl (lc_fail LcTimingMismatch ''/timing/decoded_video/frame_rate'')
     else
     try_bind (ok_or (rational_reduced expected_frames 24)
         (lc_fail LcTimingMismatch ''/timing/decoded_video/duration'')) (\<lambda>expected_duration.
     if dv_duration decoded \<noteq> expected_duration
     then Inl (lc_fail LcTimingMismatch ''/timing/decoded_video/duration'')
     else Inr frame_rate))"

definition h3_validate_audio ::
  "tensor_descriptor \<Rightarrow> u64 \<Rightarrow> validation_limits \<Rightarrow> validated_audio lc_result" where
  "h3_validate_audio d expected_frames limits =
     (let shape = td_shape d in
     if td_name d \<noteq> ''audio'' \<or> length shape \<noteq> 4 \<or> shape ! 0 \<noteq> 1 \<or> shape ! 1 \<noteq> 32 \<or> shape ! 2 \<noteq> 2
     then Inl (at_tensor ''audio'' (lc_error LcTensorShapeInvalid))
     else if td_runtime_dtype d \<noteq> td_storage_dtype d
     then Inl (at_tensor ''audio'' (lc_error LcTensorDtypeForbidden))
     else
     try_bind (audio_latent_slot_count expected_frames) (\<lambda>expected_audio_slots.
     if shape ! 3 \<noteq> expected_audio_slots \<or> shape ! 3 = 0 \<or> shape ! 3 > lim_h3_temporal_axis limits
     then Inl (at_tensor ''audio'' (lc_error LcTensorShapeInvalid))
     else Inr \<lparr>va_latent_slots = shape ! 3, va_storage_dtype = td_storage_dtype d,
               va_runtime_dtype = td_runtime_dtype d\<rparr>))"

definition h3_validate ::
  "lc_externals \<Rightarrow> manifest \<Rightarrow> validation_limits \<Rightarrow> validated_h3_profile lc_result" where
  "h3_validate ex mf limits =
     try_bind (manifest_validate_common ex mf limits) (\<lambda>_.
     try_bind (validate_profile_identity mf limits) (\<lambda>_.
     try_bind (validate_tensor_set (mf_tensors mf)) (\<lambda>_.
     try_bind (validate_declared_tensor_bytes mf) (\<lambda>_.
     try_bind (exactly_one_tensor (mf_tensors mf) StreamVisual ''video'') (\<lambda>visual_descriptor.
     try_bind (validate_visual visual_descriptor mf limits) (\<lambda>visual.
     try_bind (h3_validate_timing mf (vv_decoded_frame_count visual)) (\<lambda>frame_rate.
     let audio_descriptor = List.find (\<lambda>t. td_stream t = StreamAudio) (mf_tensors mf) in
     if requires_audio_tensor (mf_audio mf) \<noteq> (audio_descriptor \<noteq> None)
     then Inl (lc_fail LcTensorDescriptorMismatch ''/audio/policy'')
     else
     try_bind (case audio_descriptor of None \<Rightarrow> Inr None
         | Some d \<Rightarrow> try_bind (h3_validate_audio d (vv_decoded_frame_count visual) limits)
             (\<lambda>a. Inr (Some a))) (\<lambda>audio.
     Inr \<lparr>hp_visual = visual, hp_audio = audio,
          hp_compatibility_key = \<lparr>hk_codec_family = CODEC_FAMILY, hk_profile = PROFILE,
            hk_profile_version = PROFILE_VERSION,
            hk_runtime_dtype = td_runtime_dtype visual_descriptor,
            hk_batch = td_shape visual_descriptor ! 0,
            hk_latent_channels = td_shape visual_descriptor ! 1,
            hk_latent_height = vv_latent_height visual, hk_latent_width = vv_latent_width visual,
            hk_timing_contract = TIMING_CONTRACT,
            hk_timing_contract_version = TIMING_CONTRACT_VERSION,
            hk_frame_rate = frame_rate\<rparr>\<rparr>))))))))"

section \<open>Codec-neutral signal geometry\<close>

record codec_neutral_geometry =
  cg_runtime_dtype :: dtype
  cg_batch :: u64
  cg_latent_channels :: u64
  cg_latent_slots :: u64
  cg_latent_height :: u64
  cg_latent_width :: u64
  cg_decoded_frame_count :: u64
  cg_decoded_height :: u32
  cg_decoded_width :: u32
  cg_frame_rate :: rational

definition validate_codec_neutral_signal_geometry ::
  "lc_externals \<Rightarrow> manifest \<Rightarrow> codec_neutral_geometry lc_result" where
  "validate_codec_neutral_signal_geometry ex mf =
     try_bind (manifest_validate_common ex mf specification_limits) (\<lambda>_.
     try_bind (case filter (\<lambda>(index, tensor). td_stream tensor = StreamVisual)
           (enumerate 0 (mf_tensors mf)) of
         [] \<Rightarrow> Inl (lc_fail LcTensorMissing ''/tensors'')
       | [visual] \<Rightarrow> Inr visual
       | visual # _ # _ \<Rightarrow> Inl (lc_fail LcTensorUnexpected ''/tensors'')) (\<lambda>(visual_index, visual).
     let shape = td_shape visual; at = item_pointer ''/tensors'' visual_index in
     if length shape \<noteq> 5 \<or> shape ! 0 \<noteq> 1 \<or> 0 \<in> set shape \<or>
        \<not> dtype_is_supported (td_runtime_dtype visual)
     then Inl (lc_fail LcTensorShapeInvalid (at @ ''/shape''))
     else
     try_bind (case mf_payloads mf of [] \<Rightarrow> Inl (lc_fail LcManifestInvalid ''/payloads'')
         | payload # _ \<Rightarrow> Inr payload) (\<lambda>payload.
     if td_payload visual \<noteq> pd_path payload
     then Inl (lc_fail LcTensorDescriptorMismatch (at @ ''/payload''))
     else
     let decoded = ti_decoded_video (mf_timing mf) in
     if dv_width decoded = 0 \<or> dv_height decoded = 0 \<or> dv_frame_count decoded = 0
     then Inl (lc_fail LcDecodedGeometryMismatch ''/timing/decoded_video'')
     else
     try_bind (ok_or (checked_mul (dv_frame_count decoded) (ra_denominator (dv_frame_rate decoded)))
         (lc_fail LcTimingMismatch ''/timing/decoded_video/duration'')) (\<lambda>duration_numerator.
     try_bind (ok_or (rational_reduced duration_numerator (ra_numerator (dv_frame_rate decoded)))
         (lc_fail LcTimingMismatch ''/timing/decoded_video/duration'')) (\<lambda>exact_duration.
     if dv_duration decoded \<noteq> exact_duration
     then Inl (lc_fail LcTimingMismatch ''/timing/decoded_video/duration'')
     else Inr \<lparr>cg_runtime_dtype = td_runtime_dtype visual, cg_batch = shape ! 0,
               cg_latent_channels = shape ! 1, cg_latent_slots = shape ! 2,
               cg_latent_height = shape ! 3, cg_latent_width = shape ! 4,
               cg_decoded_frame_count = dv_frame_count decoded,
               cg_decoded_height = dv_height decoded, cg_decoded_width = dv_width decoded,
               cg_frame_rate = dv_frame_rate decoded\<rparr>)))))"

section \<open>Cadence, exactly\<close>

lemma word_mod_5: "(x :: u64) mod 5 = 0 \<longleftrightarrow> (\<exists>k. unat x = 5 * k)"
proof -
  have "x mod 5 = 0 \<longleftrightarrow> unat x mod 5 = 0"
    by (simp only: word_unat_eq_iff unat_mod) simp
  then show ?thesis
    by (simp add: mod_eq_0_iff_dvd dvd_def)
qed

lemma if_Inr_guard: "(if b then Inl e else x) = Inr y \<longleftrightarrow> \<not> b \<and> x = Inr y"
  by (simp split: if_splits)

lemma decoded_frame_count_steps:
  "decoded_frame_count T = Inr n \<longleftrightarrow> (\<exists>tail frames. checked_sub T 2 = Some tail \<and> tail mod 5 = 0 \<and>
     checked_mul (tail div 5) 17 = Some frames \<and> checked_add frames 5 = Some n)"
  by (cases "checked_sub T 2")
    (simp_all add: decoded_frame_count_def Let_def try_iffs bind_eq_Some_conv if_Inr_guard)

lemma decoded_frame_count_Inr:
  "decoded_frame_count T = Inr n \<longleftrightarrow> (\<exists>k. unat T = 2 + 5 * k \<and> unat n = 17 * k + 5)"
proof
  assume "decoded_frame_count T = Inr n"
  then obtain tail frames where sub: "checked_sub T 2 = Some tail" and "tail mod 5 = 0"
    and mul: "checked_mul (tail div 5) 17 = Some frames" and add: "checked_add frames 5 = Some n"
    unfolding decoded_frame_count_steps by (elim exE conjE) (rule that)
  then obtain k where k: "unat tail = 5 * k"
    unfolding word_mod_5 by blast
  have "unat T = unat tail + 2" "unat n = unat (tail div 5) * 17 + 5"
    using sub mul add by (simp_all add: checked_sub_Some checked_mul_Some checked_add_Some)
  then show "\<exists>k. unat T = 2 + 5 * k \<and> unat n = 17 * k + 5"
    by (intro exI [of _ k]) (simp add: unat_div k)
next
  assume "\<exists>k. unat T = 2 + 5 * k \<and> unat n = 17 * k + 5"
  then obtain k where k: "unat T = 2 + 5 * k" "unat n = 17 * k + 5"
    by blast
  define tail where "tail = T - 2"
  have ut: "unat tail = 5 * k"
    using k(1) by (simp add: tail_def unat_sub_fits)
  have sub: "checked_sub T 2 = Some tail"
    using k(1) ut by (simp add: checked_sub_Some)
  have m: "tail mod 5 = 0"
    using ut word_mod_5 by blast
  have d: "unat (tail div 5) = k"
    by (simp add: unat_div ut)
  have "unat n < 2 ^ 64"
    using unsigned_less [of n] by simp
  then obtain frames :: u64 where f: "unat frames = k * 17"
    using k(2) unat_of_nat_fits [of "k * 17", where 'a = 64] by auto
  have "checked_mul (tail div 5) 17 = Some frames" "checked_add frames 5 = Some n"
    using k(2) by (simp_all add: checked_mul_Some checked_add_Some d f)
  then show "decoded_frame_count T = Inr n"
    by (simp add: decoded_frame_count_def sub m)
qed

lemma streaming_usable_frames_Inr:
  "streaming_usable_frames s = Inr n \<longleftrightarrow> (\<exists>k>0. unat s = 5 * k \<and> unat n = 17 * k)"
proof -
  have nz: "s \<noteq> 0 \<longleftrightarrow> 0 < unat s"
    by (simp add: word_unat_eq_iff)
  show ?thesis
  proof (cases "\<exists>k>0. unat s = 5 * k")
    case True
    then obtain k where k: "0 < k" "unat s = 5 * k"
      by blast
    then have "unat (s div 5) = k" "s \<noteq> 0" "s mod 5 = 0"
      using nz word_mod_5 [of s] by (simp_all add: unat_div)
    then show ?thesis
      using k by (simp add: streaming_usable_frames_def STREAMING_NEW_SLOTS_def
          STREAMING_USABLE_FRAMES_def try_iffs checked_mul_Some mult.commute)
  next
    case False
    then have "s = 0 \<or> s mod 5 \<noteq> 0"
      using nz word_mod_5 [of s] by (metis mult_0_right not_gr_zero)
    moreover from this have "streaming_usable_frames s = Inl (lc_error LcTimingMismatch)"
      by (auto simp: streaming_usable_frames_def STREAMING_NEW_SLOTS_def)
    ultimately show ?thesis
      using False by (metis Inr_Inl_False)
  qed
qed

lemma audio_latent_slot_count_Inr:
  "audio_latent_slot_count f = Inr s \<longleftrightarrow>
     unat f * 5 + 1 < 2 ^ 64 \<and> unat s = (unat f * 5 + 1) div 3"
proof (cases "unat f * 5 + 1 < 2 ^ 64")
  case True
  then obtain x y :: u64 where x: "unat x = unat f * 5" and y: "unat y = unat f * 5 + 1"
    using unat_of_nat_fits [of "unat f * 5", where 'a = 64]
      unat_of_nat_fits [of "unat f * 5 + 1", where 'a = 64] by fastforce
  have "checked_mul f 5 = Some x" "checked_add x 1 = Some y"
    by (simp_all add: checked_mul_Some checked_add_Some x y)
  then show ?thesis
    using True by (auto simp: audio_latent_slot_count_def word_unat_eq_iff unat_div y)
next
  case False
  have "Option.bind (checked_mul f 5) (\<lambda>slots. checked_add slots 1) = None"
  proof (cases "checked_mul f 5")
    case (Some x)
    then have "checked_add x 1 = None"
      using False by (simp add: checked_mul_Some checked_add_None)
    then show ?thesis
      by (simp add: Some)
  qed simp
  then show ?thesis
    using False by (simp add: audio_latent_slot_count_def)
qed

text \<open>The cadence of the H3 profile, exact on 64-bit words. A clip has a frame count exactly when its
  latent length is two and a multiple of five, and then it is 17 frames for each five slots and
  five more; appending complete streaming blocks adds exactly the frames the streaming contract
  promises, so that a clip decoded in blocks has the same length as the clip decoded at once; and
  the audio length is the integer nearest to five thirds of the frames. Overflow is an error and
  never a wrong count.
\<close>
theorem cadence_exact:
  "(decoded_frame_count T = Inr n \<longleftrightarrow> (\<exists>k. unat T = 2 + 5 * k \<and> unat n = 17 * k + 5)) \<and>
   (\<forall>s m T' n'. decoded_frame_count T = Inr n \<and> streaming_usable_frames s = Inr m \<and>
      checked_add T s = Some T' \<and> checked_add n m = Some n' \<longrightarrow> decoded_frame_count T' = Inr n') \<and>
   (case audio_latent_slot_count n of
      Inr a \<Rightarrow> \<bar>3 * int (unat a) - 5 * int (unat n)\<bar> \<le> 1
    | Inl e \<Rightarrow> 2 ^ 64 \<le> 5 * unat n + 1)"
proof (intro conjI allI impI)
  fix s m T' n'
  assume a: "decoded_frame_count T = Inr n \<and> streaming_usable_frames s = Inr m \<and>
      checked_add T s = Some T' \<and> checked_add n m = Some n'"
  then obtain k j where "unat T = 2 + 5 * k" "unat n = 17 * k + 5" "unat s = 5 * j" "unat m = 17 * j"
    by (auto simp: decoded_frame_count_Inr streaming_usable_frames_Inr)
  then show "decoded_frame_count T' = Inr n'"
    using a by (auto simp: decoded_frame_count_Inr checked_add_Some intro!: exI [of _ "k + j"])
next
  show "case audio_latent_slot_count n of
      Inr a \<Rightarrow> \<bar>3 * int (unat a) - 5 * int (unat n)\<bar> \<le> 1
    | Inl e \<Rightarrow> 2 ^ 64 \<le> 5 * unat n + 1"
  proof (cases "audio_latent_slot_count n")
    case (Inr a)
    then have "unat a = (unat n * 5 + 1) div 3"
      by (simp add: audio_latent_slot_count_Inr)
    then have "int (unat a) = (int (unat n) * 5 + 1) div 3"
      by (simp add: zdiv_int)
    then show ?thesis
      using Inr by simp
  next
    case (Inl e)
    have "\<not> unat n * 5 + 1 < 2 ^ 64"
    proof
      assume fits: "unat n * 5 + 1 < 2 ^ 64"
      then have "unat (of_nat ((unat n * 5 + 1) div 3) :: u64) = (unat n * 5 + 1) div 3"
        by (intro unat_of_nat_fits) simp
      with fits have "audio_latent_slot_count n = Inr (of_nat ((unat n * 5 + 1) div 3))"
        by (simp add: audio_latent_slot_count_Inr)
      with Inl show False
        by simp
    qed
    then show ?thesis
      using Inl by simp
  qed
qed (rule decoded_frame_count_Inr)

theorem cadence_exact_witness:
  "decoded_frame_count 32 = Inr 107 \<and> decoded_frame_count 37 = Inr 124"
proof -
  have "decoded_frame_count 32 = Inr 107 \<longleftrightarrow> (\<exists>k. (32 :: nat) = 2 + 5 * k \<and> (107 :: nat) = 17 * k + 5)"
    using cadence_exact [of 32 107] by simp
  moreover have "(32 :: nat) = 2 + 5 * 6 \<and> (107 :: nat) = 17 * 6 + 5"
    by simp
  ultimately have first: "decoded_frame_count 32 = Inr 107"
    by blast
  have "streaming_usable_frames 5 = Inr 17"
    by (simp add: streaming_usable_frames_Inr exI [of _ 1])
  moreover have "checked_add (32 :: u64) 5 = Some 37" "checked_add (107 :: u64) 17 = Some 124"
    by (simp_all add: checked_add_Some)
  ultimately show ?thesis
    using first cadence_exact [of 32 107] by blast
qed

end
