(* ===== verification/Cartridge_Profile.thy ===== *)
theory Cartridge_Profile
  imports Cartridge_H3
begin

text \<open>
  What a validated H3 profile promises (\<open>crates/cartridge/src/profile/h3.rs\<close>), in natural numbers,
  and that every cartridge the H3 profile accepts passes the codec-neutral validation of
  \<open>crates/cartridge/src/signal.rs\<close> with the same geometry.
\<close>

section \<open>Sizes of tensors\<close>

definition tensor_elements :: "tensor_descriptor \<Rightarrow> nat" where
  "tensor_elements d = prod_list (map unat (td_shape d))"

definition tensor_byte_size :: "tensor_descriptor \<Rightarrow> nat" where
  "tensor_byte_size d =
     tensor_elements d * (case byte_width (td_storage_dtype d) of None \<Rightarrow> 0 | Some w \<Rightarrow> unat w)"

lemma multiply_shape_exact:
  "multiply_shape c shape = Some n \<Longrightarrow> unat n = unat c * prod_list (map unat shape)"
  by (induction shape arbitrary: c) (auto simp: bind_eq_Some_conv checked_mul_Some)

lemma sum_tensor_bytes_exact:
  "sum_tensor_bytes t ds = Inr n \<Longrightarrow>
     unat n = unat t + sum_list (map tensor_byte_size ds) \<and> (\<forall>d\<in>set ds. 0 \<notin> set (td_shape d))"
proof (induction ds arbitrary: t)
  case (Cons d ds)
  from Cons.prems obtain elements width bytes t' where
    "multiply_shape 1 (td_shape d) = Some elements" "byte_width (td_storage_dtype d) = Some width"
    "checked_mul elements width = Some bytes" "checked_add t bytes = Some t'"
    and rest: "sum_tensor_bytes t' ds = Inr n" "0 \<notin> set (td_shape d)"
    by (auto simp: Let_def try_iffs if_Inr_guard)
  then have "unat t' = unat t + tensor_byte_size d"
    by (simp add: tensor_byte_size_def tensor_elements_def checked_mul_Some checked_add_Some
        multiply_shape_exact)
  then show ?case
    using Cons.IH [OF rest(1)] rest(2) by simp
qed simp

lemma declared_bytes_fit:
  assumes "validate_declared_tensor_bytes mf = Inr ()"
  shows "sum_list (map tensor_byte_size (mf_tensors mf)) + 8 \<le> unat (pd_byte_length (payload_0 mf))"
    and "\<forall>d\<in>set (mf_tensors mf). 0 \<notin> set (td_shape d)"
  using assms sum_tensor_bytes_exact [of 0 "mf_tensors mf"]
  by (auto simp: validate_declared_tensor_bytes_def try_iffs checked_add_Some word_less_nat_alt not_less)

section \<open>The parts of a validated profile\<close>

lemma five_axes: "length shape = 5 \<Longrightarrow> shape = [shape ! 0, shape ! 1, shape ! 2, shape ! 3, shape ! 4]"
  by (auto simp: list_eq_iff_nth_eq less_Suc_eq numeral_eq_Suc)

lemma four_axes: "length shape = 4 \<Longrightarrow> shape = [shape ! 0, shape ! 1, shape ! 2, shape ! 3]"
  by (auto simp: list_eq_iff_nth_eq less_Suc_eq numeral_eq_Suc)

lemma decoded_axis_exact:
  assumes "checked_decoded_axis axis limits = Inr n"
  shows "unat n = 16 * unat axis" "0 < unat n" "n \<le> lim_h3_decoded_axis limits"
  using assms
  by (auto simp: checked_decoded_axis_def try_iffs if_Inr_guard checked_mul_Some u32_try_from_Some
      unat_gt_0 not_less)

lemma visual_exact:
  assumes "validate_visual d mf limits = Inr v"
  shows "td_shape d = [1, 24, vv_latent_slots v, vv_latent_height v, vv_latent_width v]"
    and "td_runtime_dtype d = DtF16" and "vv_latent_slots v \<le> lim_h3_temporal_axis limits"
    and "decoded_frame_count (vv_latent_slots v) = Inr (vv_decoded_frame_count v)"
    and "checked_decoded_axis (vv_latent_height v) limits = Inr (vv_decoded_height v)"
    and "checked_decoded_axis (vv_latent_width v) limits = Inr (vv_decoded_width v)"
    and "dv_frame_count (ti_decoded_video (mf_timing mf)) = vv_decoded_frame_count v"
    and "dv_height (ti_decoded_video (mf_timing mf)) = vv_decoded_height v"
    and "dv_width (ti_decoded_video (mf_timing mf)) = vv_decoded_width v"
  using assms five_axes [of "td_shape d"]
  by (auto simp: validate_visual_def Let_def try_iffs if_Inr_guard not_less)

lemma timing_exact:
  assumes "h3_validate_timing mf n = Inr r"
  shows "r = \<lparr>ra_numerator = 24, ra_denominator = 1\<rparr>"
    and "dv_frame_rate (ti_decoded_video (mf_timing mf)) = r"
    and "rational_reduced n 24 = Some (dv_duration (ti_decoded_video (mf_timing mf)))"
  using assms by (auto simp: h3_validate_timing_def Let_def try_iffs if_Inr_guard)

lemma audio_exact:
  assumes "h3_validate_audio d n limits = Inr a"
  shows "td_shape d = [1, 32, 2, va_latent_slots a]" and "td_name d = ''audio''"
    and "audio_latent_slot_count n = Inr (va_latent_slots a)" and "0 < va_latent_slots a"
  using assms four_axes [of "td_shape d"]
  by (auto simp: h3_validate_audio_def Let_def try_iffs if_Inr_guard word_neq_0_conv)

lemma exactly_one_tensor_Inr:
  "exactly_one_tensor ts s n = Inr t \<longleftrightarrow> filter (\<lambda>t. td_stream t = s \<and> td_name t = n) ts = [t]"
  by (auto simp: exactly_one_tensor_def split: list.splits)

lemma exactly_one_tensor_in:
  assumes "exactly_one_tensor ts s n = Inr t"
  shows "t \<in> set ts" "td_stream t = s" "td_name t = n"
proof -
  have "t \<in> set (filter (\<lambda>t. td_stream t = s \<and> td_name t = n) ts)"
    using assms by (simp add: exactly_one_tensor_Inr)
  then show "t \<in> set ts" "td_stream t = s" "td_name t = n"
    by simp_all
qed

lemma tensor_set_names:
  assumes "validate_tensor_set ts = Inr ()" "t \<in> set ts"
  shows "td_payload t = PAYLOAD_PATH"
    and "td_stream t = StreamVisual \<Longrightarrow> td_name t = ''video''"
  using assms by (auto simp: validate_tensor_set_def try_iffs)

text \<open>What the validation has established when it returns a profile.\<close>

lemma h3_validate_parts:
  assumes "h3_validate ex mf limits = Inr p"
  obtains v a where "manifest_validate_common ex mf limits = Inr ()"
    "validate_profile_identity mf limits = Inr ()" "validate_tensor_set (mf_tensors mf) = Inr ()"
    "validate_declared_tensor_bytes mf = Inr ()"
    "exactly_one_tensor (mf_tensors mf) StreamVisual ''video'' = Inr v"
    "validate_visual v mf limits = Inr (hp_visual p)"
    "h3_validate_timing mf (vv_decoded_frame_count (hp_visual p)) =
       Inr (hk_frame_rate (hp_compatibility_key p))"
    "a = List.find (\<lambda>t. td_stream t = StreamAudio) (mf_tensors mf)"
    "requires_audio_tensor (mf_audio mf) = (a \<noteq> None)"
    "case a of None \<Rightarrow> hp_audio p = None
     | Some d \<Rightarrow> \<exists>x. h3_validate_audio d (vv_decoded_frame_count (hp_visual p)) limits = Inr x \<and>
         hp_audio p = Some x"
    "hk_runtime_dtype (hp_compatibility_key p) = td_runtime_dtype v"
    "hk_batch (hp_compatibility_key p) = td_shape v ! 0"
    "hk_latent_channels (hp_compatibility_key p) = td_shape v ! 1"
    "hk_latent_height (hp_compatibility_key p) = vv_latent_height (hp_visual p)"
    "hk_latent_width (hp_compatibility_key p) = vv_latent_width (hp_visual p)"
proof (cases "List.find (\<lambda>t. td_stream t = StreamAudio) (mf_tensors mf)")
  case None
  then show thesis
    using assms by (auto simp: h3_validate_def Let_def try_iffs if_Inr_guard intro: that [OF _ _ _ _ _ _ _ refl])
next
  case (Some d)
  then show thesis
    using assms by (auto simp: h3_validate_def Let_def try_iffs if_Inr_guard intro: that [OF _ _ _ _ _ _ _ refl])
qed

text \<open>C15: What the H3 profile promises of a cartridge it accepts, in exact arithmetic. The visual tensor
  has the shape one, 24, slots, height, width in half precision; the declared video has 17 frames
  for each five slots after the first two and five more, sixteen pixels for each latent row and
  column, within the limits, at 24 frames a second, and a declared duration of exactly that many
  frames; all tensors with an eight byte header fit the declared payload without overflow; and
  there is an audio tensor exactly when the audio policy requires one, whose length is the integer
  nearest to five thirds of the frames.
\<close>
theorem validated_profile_exact:
  assumes "h3_validate ex mf limits = Inr p"
  defines "V \<equiv> hp_visual p" and "d \<equiv> ti_decoded_video (mf_timing mf)"
  defines "frames \<equiv> unat (vv_decoded_frame_count V)"
  shows "(\<exists>v k. v \<in> set (mf_tensors mf) \<and> td_stream v = StreamVisual \<and> td_runtime_dtype v = DtF16 \<and>
       td_shape v = [1, 24, vv_latent_slots V, vv_latent_height V, vv_latent_width V] \<and>
       unat (vv_latent_slots V) = 2 + 5 * k \<and> frames = 17 * k + 5) \<and>
     (unat (dv_height d) = 16 * unat (vv_latent_height V) \<and> 0 < unat (dv_height d) \<and>
       dv_height d \<le> lim_h3_decoded_axis limits \<and>
       unat (dv_width d) = 16 * unat (vv_latent_width V) \<and> 0 < unat (dv_width d) \<and>
       dv_width d \<le> lim_h3_decoded_axis limits) \<and>
     (unat (dv_frame_count d) = frames \<and>
       unat (ra_numerator (dv_duration d)) * 24 = frames * unat (ra_denominator (dv_duration d))) \<and>
     (sum_list (map tensor_byte_size (mf_tensors mf)) + 8 \<le> unat (pd_byte_length (payload_0 mf)) \<and>
       pd_byte_length (payload_0 mf) \<le> lim_h3_payload_bytes limits) \<and>
     (case hp_audio p of None \<Rightarrow> \<not> requires_audio_tensor (mf_audio mf)
       | Some a \<Rightarrow> requires_audio_tensor (mf_audio mf) \<and>
           \<bar>3 * int (unat (va_latent_slots a)) - 5 * int frames\<bar> \<le> 1)"
proof -
  obtain v a where parts: "validate_profile_identity mf limits = Inr ()"
    "validate_declared_tensor_bytes mf = Inr ()"
    "exactly_one_tensor (mf_tensors mf) StreamVisual ''video'' = Inr v"
    "validate_visual v mf limits = Inr V"
    "h3_validate_timing mf (vv_decoded_frame_count V) = Inr (hk_frame_rate (hp_compatibility_key p))"
    and audio: "requires_audio_tensor (mf_audio mf) = (a \<noteq> None)"
    "case a of None \<Rightarrow> hp_audio p = None
     | Some d \<Rightarrow> \<exists>x. h3_validate_audio d (vv_decoded_frame_count V) limits = Inr x \<and> hp_audio p = Some x"
    by (rule h3_validate_parts [OF assms(1), folded V_def]) (rule that; assumption)
  note visual = visual_exact [OF parts(4), folded d_def]
  note height = decoded_axis_exact [OF visual(5)] and width = decoded_axis_exact [OF visual(6)]
  have "v \<in> set (mf_tensors mf) \<and> td_stream v = StreamVisual"
    using exactly_one_tensor_in [OF parts(3)] by simp
  moreover obtain k where "unat (vv_latent_slots V) = 2 + 5 * k" "frames = 17 * k + 5"
    using visual(4) unfolding frames_def decoded_frame_count_Inr by blast
  moreover have "unat (ra_numerator (dv_duration d)) * 24 = frames * unat (ra_denominator (dv_duration d))"
    using timing_exact(3) [OF parts(5), folded d_def]
    by (simp add: rational_reduced_Some frames_def mult.commute)
  moreover have "pd_byte_length (payload_0 mf) \<le> lim_h3_payload_bytes limits"
    using parts(1) by (auto simp: validate_profile_identity_def try_iffs not_less)
  moreover have "\<bar>3 * int (unat (va_latent_slots x)) - 5 * int frames\<bar> \<le> 1"
    if "h3_validate_audio t (vv_decoded_frame_count V) limits = Inr x" for t x
    using audio_exact(3) [OF that] unfolding frames_def
    by (simp add: audio_latent_slot_count_Inr zdiv_int)
  ultimately show ?thesis
    using visual height width declared_bytes_fit(1) [OF parts(2)] audio
    by (auto simp: frames_def split: option.splits)
qed

section \<open>A sample\<close>

text \<open>A minimal cartridge of seven slots without audio, in the words of the sample functions.\<close>

definition sample_lc_externals :: lc_externals where
  "sample_lc_externals = \<lparr>ex_parse_uuid = \<lambda>s. Some 1, ex_hyphenated = \<lambda>u. ''id'',
     ex_parse_rfc3339 = \<lambda>s. Some True\<rparr>"

definition sample_sha :: string where
  "sample_sha = replicate 64 CHR ''0''"

definition sample_manifest :: manifest where
  "sample_manifest = \<lparr>mf_spec_version = LC_SPEC_VERSION, mf_cartridge_id = ''id'',
     mf_codec = \<lparr>cd_family = CODEC_FAMILY, cd_profile = PROFILE, cd_profile_version = PROFILE_VERSION\<rparr>,
     mf_payloads = [\<lparr>pd_path = PAYLOAD_PATH, pd_media_type = PAYLOAD_MEDIA_TYPE,
       pd_byte_length = 4096, pd_sha256 = sample_sha\<rparr>],
     mf_tensors = [\<lparr>td_stream = StreamVisual, td_name = ''video'', td_payload = PAYLOAD_PATH,
       td_storage_dtype = DtF16, td_runtime_dtype = DtF16, td_shape = [1, 24, 7, 2, 2]\<rparr>],
     mf_timing = \<lparr>ti_contract = TIMING_CONTRACT, ti_contract_version = TIMING_CONTRACT_VERSION,
       ti_decoded_video = \<lparr>dv_width = 32, dv_height = 32, dv_frame_count = 22,
         dv_frame_rate = \<lparr>ra_numerator = 24, ra_denominator = 1\<rparr>,
         dv_duration = \<lparr>ra_numerator = 11, ra_denominator = 12\<rparr>\<rparr>\<rparr>,
     mf_audio = SourceAbsent, mf_preview = None,
     mf_provenance = \<lparr>pn_created_by = \<lparr>pr_name = ''sample'', pr_version = ''1''\<rparr>,
       pn_created_at = None, pn_sources = []\<rparr>,
     mf_parent_cartridges = [], mf_operation_history = []\<rparr>"

lemma sample_coprime: "coprime (24 :: nat) 1" "coprime (11 :: nat) 12"
  by code_simp+

lemma sample_rationals:
  "is_canonical \<lparr>ra_numerator = 24, ra_denominator = 1\<rparr>"
  "is_canonical \<lparr>ra_numerator = 11, ra_denominator = 12\<rparr>"
  by (simp_all add: canonical_coprime sample_coprime)

definition sample_identifier :: "string \<Rightarrow> bool" where
  "sample_identifier s = (s \<noteq> [] \<and> length s \<le> MAX_LC_IDENTIFIER_BYTES \<and>
     (is_ascii_lowercase (hd s) \<or> is_ascii_digit (hd s)) \<and> list_all is_lc_identifier_byte s)"

lemma sample_identifiers:
  "sample_identifier CODEC_FAMILY" "sample_identifier PROFILE" "sample_identifier TIMING_CONTRACT"
  "sample_identifier ''sample''" "sample_identifier ''video''"
  "list_all is_lc_hex_digit sample_sha" "length sample_sha = 64"
  by code_simp+

lemma sample_identifier_valid:
  "sample_identifier s \<Longrightarrow> validate_lc_identifier s pointer specification_limits = Inr ()"
  by (simp add: sample_identifier_def validate_lc_identifier_def specification_limits_def try_iffs)

lemma sample_sha_valid: "validate_lc_sha256 sample_sha pointer = Inr ()"
  using sample_identifiers(6,7) by (simp add: validate_lc_sha256_def try_iffs)

lemma sample_limits:
  "0 < lim_tensors specification_limits"
  "\<not> lim_tensor_rank specification_limits < Suc (Suc (Suc (Suc (Suc 0))))"
  "0 < lim_identifier_bytes specification_limits"
  by (simp_all add: specification_limits_def MAX_TENSORS_def MAX_TENSOR_RANK_def MAX_LC_IDENTIFIER_BYTES_def)

lemma sample_common_valid:
  "manifest_validate_common sample_lc_externals sample_manifest specification_limits = Inr ()"
  using sample_identifiers(1-5) [THEN sample_identifier_valid]
  by (simp add: manifest_validate_common_def validate_manifest_shape_def validate_manifest_identity_def
      validate_tensor_descriptors_def validate_provenance_def validate_genealogy_def sample_manifest_def
      sample_lc_externals_def try_iffs try_enumerate_Inr when_some_Inr ensure_max_count_def validate_bounded_string_def
      validate_cartridge_id_def validate_rational_def audio_source_cartridge_def dtype_is_supported_def
      sample_sha_valid sample_rationals sample_limits)

definition sample_h3_profile :: validated_h3_profile where
  "sample_h3_profile = \<lparr>hp_visual = \<lparr>vv_latent_slots = 7, vv_latent_height = 2, vv_latent_width = 2,
       vv_decoded_frame_count = 22, vv_decoded_height = 32, vv_decoded_width = 32\<rparr>,
     hp_audio = None, hp_compatibility_key = \<lparr>hk_codec_family = CODEC_FAMILY, hk_profile = PROFILE,
       hk_profile_version = PROFILE_VERSION, hk_runtime_dtype = DtF16, hk_batch = 1,
       hk_latent_channels = 24, hk_latent_height = 2, hk_latent_width = 2,
       hk_timing_contract = TIMING_CONTRACT, hk_timing_contract_version = TIMING_CONTRACT_VERSION,
       hk_frame_rate = \<lparr>ra_numerator = 24, ra_denominator = 1\<rparr>\<rparr>\<rparr>"

lemma sample_steps:
  "validate_profile_identity sample_manifest specification_limits = Inr ()"
  "validate_tensor_set (mf_tensors sample_manifest) = Inr ()"
  "validate_declared_tensor_bytes sample_manifest = Inr ()"
  "exactly_one_tensor (mf_tensors sample_manifest) StreamVisual ''video'' = Inr (hd (mf_tensors sample_manifest))"
  by (simp_all add: validate_profile_identity_def sample_manifest_def payload_0_def specification_limits_def
      MAX_H3_PAYLOAD_BYTES_def GIB_def try_iffs exactly_one_tensor_def validate_tensor_set_def
      validate_declared_tensor_bytes_def checked_mul_def checked_add_def byte_width_def in_order_def)

lemma sample_visual:
  "validate_visual (hd (mf_tensors sample_manifest)) sample_manifest specification_limits =
     Inr (hp_visual sample_h3_profile)"
  by (simp add: validate_visual_def sample_manifest_def sample_h3_profile_def Let_def specification_limits_def
      MAX_H3_TEMPORAL_AXIS_def MAX_H3_DECODED_AXIS_def decoded_frame_count_def checked_decoded_axis_def
      checked_mul_def checked_add_def checked_sub_def u32_try_from_def)

lemma sample_timing:
  "h3_validate_timing sample_manifest 22 = Inr \<lparr>ra_numerator = 24, ra_denominator = 1\<rparr>"
proof -
  have "rational_reduced 22 24 = Some \<lparr>ra_numerator = 11, ra_denominator = 12\<rparr>"
    by (simp add: rational_reduced_Some canonical_coprime sample_coprime)
  then show ?thesis
    by (simp add: h3_validate_timing_def sample_manifest_def)
qed

lemma sample_fields:
  "List.find (\<lambda>t. td_stream t = StreamAudio) (mf_tensors sample_manifest) = None"
  "requires_audio_tensor (mf_audio sample_manifest) = False"
  "td_shape (hd (mf_tensors sample_manifest)) = [1, 24, 7, 2, 2]"
  "td_runtime_dtype (hd (mf_tensors sample_manifest)) = DtF16"
  "vv_decoded_frame_count (hp_visual sample_h3_profile) = 22"
  by (simp_all add: sample_manifest_def sample_h3_profile_def requires_audio_tensor_def)

lemma sample_manifest_valid:
  "h3_validate sample_lc_externals sample_manifest specification_limits = Inr sample_h3_profile"
  by (simp add: h3_validate_def sample_common_valid sample_steps sample_visual sample_timing sample_fields)
    (simp add: sample_h3_profile_def)

theorem validated_profile_exact_witness:
  "unat (dv_width (ti_decoded_video (mf_timing sample_manifest))) = 16 * 2 \<and>
   sum_list (map tensor_byte_size (mf_tensors sample_manifest)) + 8 \<le> 4096"
proof -
  have "pd_byte_length (payload_0 sample_manifest) = 4096" "vv_latent_width (hp_visual sample_h3_profile) = 2"
    by (simp_all add: payload_0_def sample_manifest_def sample_h3_profile_def)
  then show ?thesis
    using validated_profile_exact [OF sample_manifest_valid] by simp
qed

section \<open>The two validations agree\<close>

lemma filter_enumerate:
  "map snd (filter (\<lambda>(i, t). P t) (enumerate n ts)) = filter P ts"
  by (induction ts arbitrary: n) auto

lemma one_visual:
  assumes "exactly_one_tensor ts StreamVisual ''video'' = Inr v" "validate_tensor_set ts = Inr ()"
  obtains i where "filter (\<lambda>(i, t). td_stream t = StreamVisual) (enumerate 0 ts) = [(i, v)]"
proof -
  have "filter (\<lambda>t. td_stream t = StreamVisual) ts =
      filter (\<lambda>t. td_stream t = StreamVisual \<and> td_name t = ''video'') ts"
    using tensor_set_names(2) [OF assms(2)] by (intro filter_cong) auto
  also have "\<dots> = [v]"
    using assms(1) by (simp add: exactly_one_tensor_Inr)
  finally have "map snd (filter (\<lambda>(i, t). td_stream t = StreamVisual) (enumerate 0 ts)) = [v]"
    by (simp add: filter_enumerate)
  then show thesis
    using that by (auto simp: map_eq_Cons_conv)
qed

text \<open>C20: The two readings of a cartridge agree. Whatever limits a caller has built, a manifest that the H3
  profile accepts passes the codec-neutral validation under the limits of the specification, and
  both report the same type, batch, channels, slots, rows, columns, frame count, decoded size and
  frame rate; so the deck selection, which is codec-neutral, and the player, which uses the
  profile, cannot disagree about a cartridge.
\<close>
theorem h3_profile_is_neutral:
  assumes "h3_validate ex mf limits = Inr p" and "built_limits limits"
  shows "validate_codec_neutral_signal_geometry ex mf = Inr
    \<lparr>cg_runtime_dtype = hk_runtime_dtype (hp_compatibility_key p),
     cg_batch = hk_batch (hp_compatibility_key p),
     cg_latent_channels = hk_latent_channels (hp_compatibility_key p),
     cg_latent_slots = vv_latent_slots (hp_visual p),
     cg_latent_height = hk_latent_height (hp_compatibility_key p),
     cg_latent_width = hk_latent_width (hp_compatibility_key p),
     cg_decoded_frame_count = vv_decoded_frame_count (hp_visual p),
     cg_decoded_height = vv_decoded_height (hp_visual p),
     cg_decoded_width = vv_decoded_width (hp_visual p),
     cg_frame_rate = hk_frame_rate (hp_compatibility_key p)\<rparr>"
proof -
  define V where "V = hp_visual p"
  obtain v a where common: "manifest_validate_common ex mf limits = Inr ()"
    and identity: "validate_profile_identity mf limits = Inr ()"
    and set: "validate_tensor_set (mf_tensors mf) = Inr ()"
    and bytes: "validate_declared_tensor_bytes mf = Inr ()"
    and one: "exactly_one_tensor (mf_tensors mf) StreamVisual ''video'' = Inr v"
    and visual: "validate_visual v mf limits = Inr V"
    and timing: "h3_validate_timing mf (vv_decoded_frame_count V) =
      Inr (hk_frame_rate (hp_compatibility_key p))"
    and key: "hk_runtime_dtype (hp_compatibility_key p) = td_runtime_dtype v"
      "hk_batch (hp_compatibility_key p) = td_shape v ! 0"
      "hk_latent_channels (hp_compatibility_key p) = td_shape v ! 1"
      "hk_latent_height (hp_compatibility_key p) = vv_latent_height V"
      "hk_latent_width (hp_compatibility_key p) = vv_latent_width V"
    by (rule h3_validate_parts [OF assms(1), folded V_def]) (rule that; assumption)
  obtain i where filtered: "filter (\<lambda>(i, t). td_stream t = StreamVisual) (enumerate 0 (mf_tensors mf)) = [(i, v)]"
    by (rule one_visual [OF one set])
  have "manifest_validate_common ex mf specification_limits = Inr ()"
    by (rule validate_common_mono [OF common built_limits_le [OF assms(2)]])
  moreover from this obtain payload where payload: "mf_payloads mf = [payload]"
    by (auto simp: manifest_validate_common_def validate_manifest_shape_def try_iffs length_Suc_conv)
  moreover have "td_payload v = pd_path payload"
    using tensor_set_names(1) [OF set exactly_one_tensor_in(1) [OF one]] identity payload
    by (simp add: validate_profile_identity_def try_iffs payload_0_def)
  moreover note v = visual_exact [OF visual] and t = timing_exact [OF timing]
  moreover have "0 \<notin> set (td_shape v)"
    using declared_bytes_fit(2) [OF bytes] exactly_one_tensor_in(1) [OF one] by blast
  moreover have "vv_decoded_frame_count V \<noteq> 0"
    using v(4) by (auto simp: decoded_frame_count_Inr)
  moreover have "vv_decoded_height V \<noteq> 0" "vv_decoded_width V \<noteq> 0"
    using decoded_axis_exact(2) [OF v(5)] decoded_axis_exact(2) [OF v(6)] by auto
  moreover have "checked_mul (vv_decoded_frame_count V) 1 = Some (vv_decoded_frame_count V)"
    by (simp add: checked_mul_Some)
  ultimately show ?thesis
    using filtered key
    by (simp add: validate_codec_neutral_signal_geometry_def Let_def dtype_is_supported_def V_def [symmetric])
qed

theorem h3_profile_is_neutral_witness:
  "validate_codec_neutral_signal_geometry sample_lc_externals sample_manifest = Inr
    \<lparr>cg_runtime_dtype = DtF16, cg_batch = 1, cg_latent_channels = 24, cg_latent_slots = 7,
     cg_latent_height = 2, cg_latent_width = 2, cg_decoded_frame_count = 22, cg_decoded_height = 32,
     cg_decoded_width = 32, cg_frame_rate = \<lparr>ra_numerator = 24, ra_denominator = 1\<rparr>\<rparr>"
  using h3_profile_is_neutral [OF sample_manifest_valid built_specification]
  by (simp add: sample_h3_profile_def)

end
