(* ===== verification/Safetensors.thy ===== *)
theory Safetensors
  imports Cartridge_Profile Le_Bytes Ordered_Map
begin

unbundle bit_operations_syntax

text \<open>
  The tensor payload of a cartridge (\<open>crates/cartridge/src/safetensor.rs\<close>): its header, the
  structural preflight, codec-neutral and for the H3 profile, and the scan for values that are not
  finite. The JSON of the header is taken apart by serde_json, a parameter; the visitors that
  reject duplicate keys are modelled. Texts of errors are not modelled, their codes and locations
  are.
\<close>

section \<open>The stream\<close>

text \<open>
  A readable and seekable stream: its bytes, the position, and for the calls to come whether the
  call fails with an error of the device. A call after the last entry of the list does not fail.
\<close>

record byte_stream =
  bs_bytes :: "u8 list"
  bs_position :: nat
  bs_faults :: "bool list"

definition st_bind ::
  "('e + 'a) \<times> 's \<Rightarrow> ('a \<Rightarrow> 's \<Rightarrow> ('e + 'b) \<times> 's) \<Rightarrow> ('e + 'b) \<times> 's" where
  "st_bind r f = (case r of (Inl e, s) \<Rightarrow> (Inl e, s) | (Inr x, s) \<Rightarrow> f x s)"

lemma st_bind_simps [simp]:
  "st_bind (Inl e, s) f = (Inl e, s)"
  "st_bind (Inr x, s) f = f x s"
  by (simp_all add: st_bind_def)

lemma st_bind_Inr [try_iffs]:
  "st_bind r f = (Inr y, s') \<longleftrightarrow> (\<exists>x s. r = (Inr x, s) \<and> f x s = (Inr y, s'))"
  by (cases r) (auto simp: st_bind_def split: sum.splits)

lemma st_bind_cong [fundef_cong]:
  assumes "r = r'" and "\<And>x s. r' = (Inr x, s) \<Longrightarrow> f x s = g x s"
  shows "st_bind r f = st_bind r' g"
  using assms by (cases r') (auto simp: st_bind_def split: sum.splits)

datatype stream_error = SeOther | SeUnexpectedEof

definition next_fault :: "byte_stream \<Rightarrow> bool \<times> byte_stream" where
  "next_fault s = (case bs_faults s of [] \<Rightarrow> (False, s) | b # bs \<Rightarrow> (b, s\<lparr>bs_faults := bs\<rparr>))"

definition seek_end :: "byte_stream \<Rightarrow> (stream_error + u64) \<times> byte_stream" where
  "seek_end s = (case next_fault s of (failed, s) \<Rightarrow>
     if failed then (Inl SeOther, s)
     else (Inr (of_nat (length (bs_bytes s))), s\<lparr>bs_position := length (bs_bytes s)\<rparr>))"

definition seek_start :: "u64 \<Rightarrow> byte_stream \<Rightarrow> (stream_error + unit) \<times> byte_stream" where
  "seek_start offset s = (case next_fault s of (failed, s) \<Rightarrow>
     if failed then (Inl SeOther, s) else (Inr (), s\<lparr>bs_position := unat offset\<rparr>))"

text \<open>\<open>Read::read_exact\<close>: all the bytes asked for, or an error.\<close>

definition stream_read_exact :: "nat \<Rightarrow> byte_stream \<Rightarrow> (stream_error + u8 list) \<times> byte_stream" where
  "stream_read_exact n s = (case next_fault s of (failed, s) \<Rightarrow>
     if failed then (Inl SeOther, s)
     else if bs_position s + n \<le> length (bs_bytes s)
     then (Inr (take n (drop (bs_position s) (bs_bytes s))), s\<lparr>bs_position := bs_position s + n\<rparr>)
     else (Inl SeUnexpectedEof, s))"

section \<open>Data\<close>

definition H3_ENTRY_NAME :: string where "H3_ENTRY_NAME = ''payloads/h3.safetensors''"
definition HEADER_LENGTH_BYTES :: nat where "HEADER_LENGTH_BYTES = 8"
definition SCAN_BUFFER_BYTES :: nat where "SCAN_BUFFER_BYTES = 64 * 1024"

record entry_range =
  er_offset :: u64
  er_length :: u64

datatype (plugins only: ) safetensor_dtype = StF16 | StF32

definition st_byte_width :: "safetensor_dtype \<Rightarrow> u64" where
  "st_byte_width d = (case d of StF16 \<Rightarrow> 2 | StF32 \<Rightarrow> 4)"

record safetensor_tensor =
  st_name :: string
  st_dtype :: safetensor_dtype
  st_shape :: "u64 list"
  st_start :: u64
  st_end :: u64
  st_byte_length :: u64

record safetensors_preflight =
  sp_payload_bytes :: u64
  sp_header_bytes :: u64
  sp_data_offset :: u64
  sp_data_bytes :: u64
  sp_tensors :: "(string, safetensor_tensor) btree_map"

record h3_preflight =
  h3p_payload_bytes :: u64
  h3p_header_bytes :: u64
  h3p_data_offset :: u64
  h3p_data_bytes :: u64
  h3p_video :: safetensor_tensor
  h3p_audio :: "safetensor_tensor option"

record raw_tensor_descriptor =
  rt_dtype :: string
  rt_shape :: "u64 list"
  rt_start :: u64
  rt_end :: u64

section \<open>Errors\<close>

definition invalid_safetensors_at :: "string \<Rightarrow> cartridge_error" where
  "invalid_safetensors_at entry_name = at_entry entry_name (lc_error LcSafetensorsInvalid)"

definition invalid_safetensors :: cartridge_error where
  "invalid_safetensors = at_entry H3_ENTRY_NAME (lc_error LcSafetensorsInvalid)"

definition size_overflow_at :: "string \<Rightarrow> cartridge_error" where
  "size_overflow_at entry_name = at_entry entry_name (lc_error LcTensorSizeOverflow)"

definition size_overflow :: cartridge_error where
  "size_overflow = at_entry H3_ENTRY_NAME (lc_error LcTensorSizeOverflow)"

definition io_read_error :: "stream_error \<Rightarrow> cartridge_error" where
  "io_read_error e = at_entry H3_ENTRY_NAME (lc_error LcIoRead)"

definition map_err_st :: "('e \<Rightarrow> 'f) \<Rightarrow> ('e + 'a) \<times> 's \<Rightarrow> ('f + 'a) \<times> 's" where
  "map_err_st f r = (case r of (x, s) \<Rightarrow> (map_err f x, s))"

definition seek_to_entry :: "u64 \<Rightarrow> string \<Rightarrow> byte_stream \<Rightarrow> (cartridge_error + unit) \<times> byte_stream" where
  "seek_to_entry offset entry_name s =
     map_err_st (\<lambda>e. at_entry entry_name (lc_error LcIoRead)) (seek_start offset s)"

definition read_exact_payload_entry ::
  "nat \<Rightarrow> string \<Rightarrow> byte_stream \<Rightarrow> (cartridge_error + u8 list) \<times> byte_stream" where
  "read_exact_payload_entry n entry_name s =
     map_err_st (\<lambda>e. case e of SeUnexpectedEof \<Rightarrow> invalid_safetensors_at entry_name
         | SeOther \<Rightarrow> at_entry entry_name (lc_error LcIoRead))
       (stream_read_exact n s)"

definition seek_to :: "u64 \<Rightarrow> byte_stream \<Rightarrow> (cartridge_error + unit) \<times> byte_stream" where
  "seek_to offset s = map_err_st io_read_error (seek_start offset s)"

definition read_exact_payload :: "nat \<Rightarrow> byte_stream \<Rightarrow> (cartridge_error + u8 list) \<times> byte_stream" where
  "read_exact_payload n s =
     map_err_st (\<lambda>e. case e of SeUnexpectedEof \<Rightarrow> invalid_safetensors | SeOther \<Rightarrow> io_read_error SeOther)
       (stream_read_exact n s)"

definition er_checked_end :: "entry_range \<Rightarrow> u64 lc_result" where
  "er_checked_end entry = ok_or (checked_add (er_offset entry) (er_length entry)) size_overflow"

section \<open>The header\<close>

text \<open>
  What serde_json finds in the header: the members of the object in the order of the text and
  whether the object ends well after them (\<open>None\<close> when there is no object), whether only white
  space follows, how a value reads as a tensor descriptor (the derived deserializer), and for a
  metadata value the keys, each with whether its value is a string, and whether the object ends.
\<close>

record 'v header_json =
  hj_object :: "u8 list \<Rightarrow> ((string \<times> 'v) list \<times> bool) option"
  hj_ends :: "u8 list \<Rightarrow> bool"
  hj_descriptor :: "'v \<Rightarrow> raw_tensor_descriptor option"
  hj_metadata :: "'v \<Rightarrow> ((string \<times> bool) list \<times> bool) option"

fun visit_metadata :: "string set \<Rightarrow> (string \<times> bool) list \<Rightarrow> bool" where
  "visit_metadata seen [] = True"
| "visit_metadata seen ((key, is_string) # entries) =
     (key \<notin> seen \<and> is_string \<and> visit_metadata (insert key seen) entries)"

definition unique_metadata :: "'v header_json \<Rightarrow> 'v \<Rightarrow> bool" where
  "unique_metadata hj v = (case hj_metadata hj v of
       None \<Rightarrow> False | Some (entries, ends) \<Rightarrow> visit_metadata {} entries \<and> ends)"

fun visit_header ::
  "'v header_json \<Rightarrow> string set \<Rightarrow> (string, raw_tensor_descriptor) btree_map \<Rightarrow> (string \<times> 'v) list \<Rightarrow>
    (string, raw_tensor_descriptor) btree_map option" where
  "visit_header hj seen tensors [] = Some tensors"
| "visit_header hj seen tensors ((name, v) # members) =
     (if name \<in> seen then None
      else if name = ''__metadata__''
      then if unique_metadata hj v then visit_header hj (insert name seen) tensors members else None
      else case hj_descriptor hj v of None \<Rightarrow> None
        | Some d \<Rightarrow> visit_header hj (insert name seen) (bt_insert tensors name d) members)"

definition parse_header ::
  "'v header_json \<Rightarrow> u8 list \<Rightarrow> (string, raw_tensor_descriptor) btree_map lc_result" where
  "parse_header hj header =
     try_bind (ok_or (case hj_object hj header of None \<Rightarrow> None
         | Some (members, ends) \<Rightarrow> Option.bind (visit_header hj {} [] members)
             (\<lambda>tensors. if ends then Some tensors else None)) invalid_safetensors) (\<lambda>parsed.
     try_bind (ensure (hj_ends hj header) invalid_safetensors) (\<lambda>_. Inr parsed))"

section \<open>Tensors\<close>

definition st_validate_common ::
  "string \<Rightarrow> raw_tensor_descriptor \<Rightarrow> validation_limits \<Rightarrow> safetensor_tensor lc_result" where
  "st_validate_common name raw limits =
     (if rt_shape raw = [] \<or> length (rt_shape raw) > lim_tensor_rank limits
     then Inl (at_tensor name (lc_error LcTensorShapeInvalid))
     else
     try_bind (ok_or (if rt_dtype raw = ''F16'' then Some StF16
           else if rt_dtype raw = ''F32'' then Some StF32 else None)
         (at_tensor name (lc_error LcTensorDtypeForbidden))) (\<lambda>dtype.
     try_bind (ok_or (multiply_shape 1 (rt_shape raw)) (at_tensor name size_overflow)) (\<lambda>elements.
     try_bind (ok_or (checked_mul elements (st_byte_width dtype)) (at_tensor name size_overflow))
       (\<lambda>byte_length.
     if rt_end raw < rt_start raw then Inl (at_tensor name invalid_safetensors)
     else
     let described_length = rt_end raw - rt_start raw in
     if described_length \<noteq> byte_length
     then Inl (at_tensor name (lc_error LcTensorDescriptorMismatch))
     else Inr \<lparr>st_name = name, st_dtype = dtype, st_shape = rt_shape raw, st_start = rt_start raw,
               st_end = rt_end raw, st_byte_length = byte_length\<rparr>))))"

definition validate_decoded_axis :: "u64 \<Rightarrow> validation_limits \<Rightarrow> unit lc_result" where
  "validate_decoded_axis axis limits =
     try_bind (ok_or (checked_mul axis 16) (at_tensor ''video'' size_overflow)) (\<lambda>decoded.
     refuse (decoded > ucast (lim_h3_decoded_axis limits))
       (at_tensor ''video'' (lc_error LcRuntimeLimitExceeded)))"

definition validate_h3_axes ::
  "safetensor_tensor \<Rightarrow> validation_limits \<Rightarrow> nat \<Rightarrow> unit lc_result" where
  "validate_h3_axes d limits temporal_index =
     (if st_shape d ! temporal_index > lim_h3_temporal_axis limits
     then Inl (at_tensor (st_name d) (lc_error LcRuntimeLimitExceeded))
     else if st_name d = ''video''
     then try_all (\<lambda>axis. validate_decoded_axis axis limits) [st_shape d ! 3, st_shape d ! 4]
     else Inr ())"

definition st_validate_video ::
  "raw_tensor_descriptor \<Rightarrow> validation_limits \<Rightarrow> safetensor_tensor lc_result" where
  "st_validate_video raw limits =
     try_bind (st_validate_common ''video'' raw limits) (\<lambda>d.
     if length (st_shape d) \<noteq> 5 \<or> st_shape d ! 0 \<noteq> 1 \<or> st_shape d ! 1 \<noteq> 24 \<or>
        0 \<in> set (drop 2 (st_shape d))
     then Inl (at_tensor ''video'' (lc_error LcTensorShapeInvalid))
     else try_bind (validate_h3_axes d limits 2) (\<lambda>_. Inr d))"

definition st_validate_audio ::
  "raw_tensor_descriptor \<Rightarrow> validation_limits \<Rightarrow> safetensor_tensor lc_result" where
  "st_validate_audio raw limits =
     try_bind (st_validate_common ''audio'' raw limits) (\<lambda>d.
     if length (st_shape d) \<noteq> 4 \<or> st_shape d ! 0 \<noteq> 1 \<or> st_shape d ! 1 \<noteq> 32 \<or>
        st_shape d ! 2 \<noteq> 2 \<or> st_shape d ! 3 = 0
     then Inl (at_tensor ''audio'' (lc_error LcTensorShapeInvalid))
     else try_bind (validate_h3_axes d limits 3) (\<lambda>_. Inr d))"

section \<open>Offsets\<close>

text \<open>The walk over the tensors in the order of their starts (\<open>sort_by_key\<close> is stable).\<close>

fun walk_offsets ::
  "cartridge_error \<Rightarrow> u64 \<Rightarrow> u64 \<Rightarrow> safetensor_tensor list \<Rightarrow> u64 lc_result" where
  "walk_offsets invalid data_bytes expected_start [] = Inr expected_start"
| "walk_offsets invalid data_bytes expected_start (tensor # tensors) =
     (if st_end tensor > data_bytes then Inl (at_tensor (st_name tensor) invalid)
      else if st_start tensor \<noteq> expected_start then Inl (at_tensor (st_name tensor) invalid)
      else walk_offsets invalid data_bytes (st_end tensor) tensors)"

definition validate_offsets ::
  "safetensor_tensor \<Rightarrow> safetensor_tensor option \<Rightarrow> u64 \<Rightarrow> unit lc_result" where
  "validate_offsets video audio data_bytes =
     (let tensors = [video] @ (case audio of None \<Rightarrow> [] | Some audio \<Rightarrow> [audio]);
          tensors = sort_key st_start tensors in
     try_bind (walk_offsets invalid_safetensors data_bytes 0 tensors) (\<lambda>expected_start.
     refuse (expected_start \<noteq> data_bytes) invalid_safetensors))"

definition validate_generic_offsets ::
  "safetensor_tensor list \<Rightarrow> u64 \<Rightarrow> string \<Rightarrow> unit lc_result" where
  "validate_generic_offsets tensors data_bytes entry_name =
     (let tensors = sort_key st_start tensors in
     try_bind (walk_offsets (invalid_safetensors_at entry_name) data_bytes 0 tensors) (\<lambda>expected_start.
     refuse (expected_start \<noteq> data_bytes) (invalid_safetensors_at entry_name)))"

section \<open>The preflight\<close>

text \<open>
  The first half of both preflights, which is the same code up to the name of the entry in the
  errors: the range, the length prefix, and the bytes of the header.
\<close>

definition read_header ::
  "entry_range \<Rightarrow> string \<Rightarrow> validation_limits \<Rightarrow> byte_stream \<Rightarrow>
    (cartridge_error + (u64 \<times> u64 \<times> u8 list)) \<times> byte_stream" where
  "read_header entry entry_name limits s =
     (if er_length entry > lim_h3_payload_bytes limits
     then (Inl (at_entry entry_name (lc_error LcEntryTooLarge)), s)
     else if er_length entry < of_nat HEADER_LENGTH_BYTES
     then (Inl (invalid_safetensors_at entry_name), s)
     else
     try_with (ok_or (checked_add (er_offset entry) (er_length entry)) (size_overflow_at entry_name)) s
       (\<lambda>entry_end.
     st_bind (map_err_st (\<lambda>e. at_entry entry_name (lc_error LcIoRead)) (seek_end s)) (\<lambda>stream_end s.
     if entry_end > stream_end then (Inl (invalid_safetensors_at entry_name), s)
     else
     st_bind (seek_to_entry (er_offset entry) entry_name s) (\<lambda>_ s.
     st_bind (read_exact_payload_entry HEADER_LENGTH_BYTES entry_name s) (\<lambda>encoded_header_length s.
     let header_bytes = u64_from_le encoded_header_length in
     if header_bytes > MAX_SAFETENSORS_HEADER_BYTES
     then (Inl (at_entry entry_name (lc_error LcSafetensorsHeaderTooLarge)), s)
     else if header_bytes = 0 \<or> header_bytes mod 8 \<noteq> 0
     then (Inl (invalid_safetensors_at entry_name), s)
     else
     try_with (ok_or (checked_add (of_nat HEADER_LENGTH_BYTES) header_bytes) (size_overflow_at entry_name)) s
       (\<lambda>data_offset.
     if data_offset > er_length entry then (Inl (invalid_safetensors_at entry_name), s)
     else
     try_with (ok_or (usize_try_from header_bytes) (size_overflow_at entry_name)) s (\<lambda>header_length.
     st_bind (read_exact_payload_entry header_length entry_name s) (\<lambda>header s.
     if header = [] \<or> hd header \<noteq> 123 then (Inl (invalid_safetensors_at entry_name), s)
     else (Inr (header_bytes, data_offset, header), s)))))))))"

definition preflight_safetensors ::
  "'v header_json \<Rightarrow> entry_range \<Rightarrow> string \<Rightarrow> validation_limits \<Rightarrow> byte_stream \<Rightarrow>
    (cartridge_error + safetensors_preflight) \<times> byte_stream" where
  "preflight_safetensors hj entry entry_name limits s =
     st_bind (read_header entry entry_name limits s) (\<lambda>(header_bytes, data_offset, header) s.
     try_with (map_err (at_entry entry_name) (parse_header hj header)) s (\<lambda>raw.
     if raw = [] \<or> length raw > lim_tensors limits
     then (Inl (at_entry entry_name (lc_error LcTensorUnexpected)), s)
     else
     try_with (try_map (\<lambda>(name, descriptor).
         try_bind (st_validate_common name descriptor limits) (\<lambda>v. Inr (name, v))) raw) s (\<lambda>tensors.
     let data_bytes = er_length entry - data_offset in
     try_with (validate_generic_offsets (bt_values tensors) data_bytes entry_name) s (\<lambda>_.
     (Inr \<lparr>sp_payload_bytes = er_length entry, sp_header_bytes = header_bytes,
        sp_data_offset = data_offset, sp_data_bytes = data_bytes, sp_tensors = tensors\<rparr>, s)))))"

definition preflight_h3_safetensors ::
  "'v header_json \<Rightarrow> entry_range \<Rightarrow> validation_limits \<Rightarrow> byte_stream \<Rightarrow>
    (cartridge_error + h3_preflight) \<times> byte_stream" where
  "preflight_h3_safetensors hj entry limits s =
     st_bind (read_header entry H3_ENTRY_NAME limits s) (\<lambda>(header_bytes, data_relative_offset, header) s.
     try_with (parse_header hj header) s (\<lambda>raw_header.
     if length raw_header > lim_tensors limits
     then (Inl (at_entry H3_ENTRY_NAME (lc_error LcTensorUnexpected)), s)
     else
     try_with (try_bind (ok_or (bt_get raw_header ''video'')
           (at_tensor ''video'' (lc_error LcTensorMissing)))
         (\<lambda>descriptor. st_validate_video descriptor limits)) s (\<lambda>video.
     let tensors = bt_remove raw_header ''video'' in
     try_with (case bt_get tensors ''audio'' of None \<Rightarrow> Inr None
         | Some descriptor \<Rightarrow> try_bind (st_validate_audio descriptor limits) (\<lambda>a. Inr (Some a))) s (\<lambda>audio.
     case bt_remove tensors ''audio'' of
       (name, _) # _ \<Rightarrow> (Inl (at_tensor name (lc_error LcTensorUnexpected)), s)
     | [] \<Rightarrow>
     let data_bytes = er_length entry - data_relative_offset in
     try_with (validate_offsets video audio data_bytes) s (\<lambda>_.
     (Inr \<lparr>h3p_payload_bytes = er_length entry, h3p_header_bytes = header_bytes,
        h3p_data_offset = data_relative_offset, h3p_data_bytes = data_bytes,
        h3p_video = video, h3p_audio = audio\<rparr>, s))))))"

section \<open>The scan\<close>

function element_chunks :: "nat \<Rightarrow> 'a list \<Rightarrow> 'a list list" where
  "element_chunks n xs = (if n = 0 \<or> length xs < n then [] else take n xs # element_chunks n (drop n xs))"
  by pat_completeness auto
termination by (relation "measure (\<lambda>(n, xs). length xs)") auto

declare element_chunks.simps [simp del]

definition non_finite :: "safetensor_dtype \<Rightarrow> u8 list \<Rightarrow> bool" where
  "non_finite dtype element = (case dtype of
       StF16 \<Rightarrow> (from_le_bytes element :: u16) AND 0x7c00 = 0x7c00
     | StF32 \<Rightarrow> (from_le_bytes element :: u32) AND 0x7f800000 = 0x7f800000)"

text \<open>How many bytes the next read asks for: a full buffer or what remains, in whole elements.\<close>

definition scan_request :: "safetensor_dtype \<Rightarrow> u64 \<Rightarrow> nat" where
  "scan_request dtype remaining =
     (let requested = unat (min remaining (of_nat SCAN_BUFFER_BYTES)) in
      requested - requested mod unat (st_byte_width dtype))"

lemma scan_request_le: "scan_request dtype remaining \<le> unat remaining"
proof -
  have "unat (min remaining (of_nat SCAN_BUFFER_BYTES)) \<le> unat remaining"
    by (simp add: min_def word_le_nat_alt)
  then show ?thesis
    by (auto simp: scan_request_def Let_def intro: order_trans [OF diff_le_self])
qed

lemma unat_minus_request:
  "unat (remaining - of_nat (scan_request dtype remaining)) = unat remaining - scan_request dtype remaining"
proof -
  have "unat (of_nat (scan_request dtype remaining) :: u64) = scan_request dtype remaining"
    using scan_request_le [of dtype remaining] unsigned_less [of remaining]
    by (intro unat_of_nat_fits) (auto intro: le_less_trans)
  then show ?thesis
    using scan_request_le [of dtype remaining] by (simp add: unat_sub_fits)
qed

function scan_chunks ::
  "string \<Rightarrow> safetensor_tensor \<Rightarrow> u64 \<Rightarrow> byte_stream \<Rightarrow> (cartridge_error + unit) \<times> byte_stream" where
  "scan_chunks entry_name tensor remaining s =
     (if remaining = 0 then (Inr (), s)
     else
     let requested = scan_request (st_dtype tensor) remaining in
     if requested = 0 then (Inl (at_tensor (st_name tensor) (invalid_safetensors_at entry_name)), s)
     else
     st_bind (read_exact_payload_entry requested entry_name s) (\<lambda>buffer s.
     if list_ex (non_finite (st_dtype tensor))
         (element_chunks (unat (st_byte_width (st_dtype tensor))) buffer)
     then (Inl (at_tensor (st_name tensor) (at_entry entry_name (lc_error LcTensorNonFinite))), s)
     else scan_chunks entry_name tensor (remaining - of_nat requested) s))"
  by pat_completeness auto
termination
proof (relation "measure (\<lambda>(entry_name, tensor, remaining, s). unat remaining)", goal_cases)
  case (2 entry_name tensor remaining s requested buffer s')
  then have "0 < scan_request (st_dtype tensor) remaining"
    by simp
  then show ?case
    using 2 scan_request_le [of "st_dtype tensor" remaining]
    by (simp add: unat_minus_request)
qed simp

declare scan_chunks.simps [simp del]

definition scan_tensor_at ::
  "u64 \<Rightarrow> safetensor_tensor \<Rightarrow> string \<Rightarrow> byte_stream \<Rightarrow> (cartridge_error + unit) \<times> byte_stream" where
  "scan_tensor_at data_absolute_offset tensor entry_name s =
     try_with (ok_or (checked_add data_absolute_offset (st_start tensor)) (size_overflow_at entry_name)) s
       (\<lambda>tensor_offset.
     st_bind (seek_to_entry tensor_offset entry_name s) (\<lambda>_ s.
     scan_chunks entry_name tensor (st_byte_length tensor) s))"

definition scan_tensor ::
  "u64 \<Rightarrow> safetensor_tensor \<Rightarrow> byte_stream \<Rightarrow> (cartridge_error + unit) \<times> byte_stream" where
  "scan_tensor data_absolute_offset tensor s = scan_tensor_at data_absolute_offset tensor H3_ENTRY_NAME s"

primrec scan_all ::
  "u64 \<Rightarrow> string \<Rightarrow> safetensor_tensor list \<Rightarrow> byte_stream \<Rightarrow> (cartridge_error + unit) \<times> byte_stream" where
  "scan_all offset entry_name [] s = (Inr (), s)"
| "scan_all offset entry_name (tensor # tensors) s =
     st_bind (scan_tensor_at offset tensor entry_name s) (\<lambda>_ s. scan_all offset entry_name tensors s)"

text \<open>The receipt against the range: an error in the sums, or whether something differs.\<close>

definition receipt_differs ::
  "cartridge_error \<Rightarrow> u64 \<Rightarrow> u64 \<Rightarrow> u64 \<Rightarrow> u64 \<Rightarrow> entry_range \<Rightarrow> bool lc_result" where
  "receipt_differs overflow payload_bytes header_bytes data_offset data_bytes entry =
     (if payload_bytes \<noteq> er_length entry then Inr True
     else
     try_bind (ok_or (checked_add (of_nat HEADER_LENGTH_BYTES) header_bytes) overflow) (\<lambda>expected.
     if data_offset \<noteq> expected then Inr True
     else
     try_bind (ok_or (checked_add data_offset data_bytes) overflow) (\<lambda>total.
     Inr (total \<noteq> er_length entry))))"

definition scan_safetensors_finite ::
  "entry_range \<Rightarrow> string \<Rightarrow> safetensors_preflight \<Rightarrow> byte_stream \<Rightarrow>
    (cartridge_error + unit) \<times> byte_stream" where
  "scan_safetensors_finite entry entry_name preflight s =
     try_with (receipt_differs (size_overflow_at entry_name) (sp_payload_bytes preflight)
         (sp_header_bytes preflight) (sp_data_offset preflight) (sp_data_bytes preflight) entry) s (\<lambda>differs.
     if differs then (Inl (at_entry entry_name (lc_error LcTensorDescriptorMismatch)), s)
     else
     try_with (validate_generic_offsets (bt_values (sp_tensors preflight)) (sp_data_bytes preflight)
         entry_name) s (\<lambda>_.
     try_with (ok_or (checked_add (er_offset entry) (sp_data_offset preflight))
         (size_overflow_at entry_name)) s (\<lambda>data_absolute_offset.
     scan_all data_absolute_offset entry_name (bt_values (sp_tensors preflight)) s)))"

definition scan_h3_safetensors_finite ::
  "entry_range \<Rightarrow> h3_preflight \<Rightarrow> byte_stream \<Rightarrow> (cartridge_error + unit) \<times> byte_stream" where
  "scan_h3_safetensors_finite entry preflight s =
     try_with (receipt_differs size_overflow (h3p_payload_bytes preflight) (h3p_header_bytes preflight)
         (h3p_data_offset preflight) (h3p_data_bytes preflight) entry) s (\<lambda>differs.
     if differs then (Inl (at_entry H3_ENTRY_NAME (lc_error LcTensorDescriptorMismatch)), s)
     else
     try_with (er_checked_end entry) s (\<lambda>entry_end.
     st_bind (map_err_st io_read_error (seek_end s)) (\<lambda>stream_end s.
     if entry_end > stream_end then (Inl invalid_safetensors, s)
     else
     try_with (validate_offsets (h3p_video preflight) (h3p_audio preflight) (h3p_data_bytes preflight)) s (\<lambda>_.
     try_with (ok_or (checked_add (er_offset entry) (h3p_data_offset preflight)) size_overflow) s
       (\<lambda>data_absolute_offset.
     st_bind (scan_tensor data_absolute_offset (h3p_video preflight) s) (\<lambda>_ s.
     case h3p_audio preflight of None \<Rightarrow> (Inr (), s)
     | Some audio \<Rightarrow> scan_tensor data_absolute_offset audio s))))))"

definition validate_h3_safetensors ::
  "'v header_json \<Rightarrow> entry_range \<Rightarrow> validation_limits \<Rightarrow> byte_stream \<Rightarrow>
    (cartridge_error + h3_preflight) \<times> byte_stream" where
  "validate_h3_safetensors hj entry limits s =
     st_bind (preflight_h3_safetensors hj entry limits s) (\<lambda>preflight s.
     st_bind (scan_h3_safetensors_finite entry preflight s) (\<lambda>_ s. (Inr preflight, s)))"

end
