(* ===== verification/Safetensors_Exact.thy ===== *)
theory Safetensors_Exact
  imports Safetensors "HOL-Library.Multiset"
begin

unbundle bit_operations_syntax

text \<open>
  What the tensor payload's preflight and scan establish: the tensors of an accepted payload tile
  its data area, the H3 preflight is the codec-neutral one with more checks, and the scan in
  chunks of 64 KiB finds a value that is not finite exactly when the whole tensor has one.
\<close>

section \<open>The tensors tile the data area\<close>

text \<open>How many of the tensors hold the byte at a position of the data area.\<close>

definition holders :: "safetensor_tensor list \<Rightarrow> nat \<Rightarrow> nat" where
  "holders ts x = length (filter (\<lambda>t. unat (st_start t) \<le> x \<and> x < unat (st_end t)) ts)"

lemma holders_simps [simp]:
  "holders [] x = 0"
  "holders (t # ts) x = (if unat (st_start t) \<le> x \<and> x < unat (st_end t) then 1 else 0) + holders ts x"
  by (simp_all add: holders_def)

lemma holders_mset: "mset ts = mset us \<Longrightarrow> holders ts x = holders us x"
  unfolding holders_def by (rule mset_eq_length) simp

lemma holders_pos: "0 < holders ts x \<longleftrightarrow> (\<exists>t\<in>set ts. unat (st_start t) \<le> x \<and> x < unat (st_end t))"
  by (auto simp: holders_def filter_empty_conv)

lemma holders_member: "t \<in> set ts \<Longrightarrow> st_start t < st_end t \<Longrightarrow> 0 < holders ts (unat (st_start t))"
  unfolding holders_pos by (auto simp: word_less_nat_alt)

lemma walk_covers:
  assumes "walk_offsets e D a ts = Inr b" and "\<forall>t\<in>set ts. st_start t \<le> st_end t"
  shows "a \<le> b \<and> (b \<le> D \<or> ts = []) \<and> holders ts x = (if unat a \<le> x \<and> x < unat b then 1 else 0)"
  using assms
proof (induction ts arbitrary: a)
  case (Cons t ts)
  then have t: "st_start t = a" "st_end t \<le> D" "a \<le> st_end t"
    and rest: "walk_offsets e D (st_end t) ts = Inr b"
    by (auto split: if_splits)
  have "st_end t \<le> b \<and> (b \<le> D \<or> ts = []) \<and>
      holders ts x = (if unat (st_end t) \<le> x \<and> x < unat b then 1 else 0)"
    using Cons.IH [OF rest] Cons.prems(2) by simp
  moreover have "ts = [] \<Longrightarrow> b = st_end t"
    using rest by simp
  ultimately show ?case
    using t by (auto simp: word_le_nat_alt)
qed (simp split: if_splits)

lemma tiles_walk:
  assumes "sorted (map st_start ts)" and "\<forall>t\<in>set ts. st_start t < st_end t \<and> a \<le> st_start t"
    and "\<And>x. unat a \<le> x \<Longrightarrow> holders ts x = (if x < unat D then 1 else 0)" and "a \<le> D"
  shows "walk_offsets e D a ts = Inr D"
  using assms
proof (induction ts arbitrary: a)
  case Nil
  then have "\<not> unat a < unat D"
    by force
  then show ?case
    using Nil.prems(4) by (simp add: word_le_nat_alt word_unat_eq_iff)
next
  case (Cons t ts)
  have t: "st_start t < st_end t" "a \<le> st_start t" "\<forall>u\<in>set ts. st_start t \<le> st_start u"
    using Cons.prems by auto
  have inside: "x < unat D" if "0 < holders (t # ts) x" "unat a \<le> x" for x
    using Cons.prems(3) [OF that(2)] that(1) by (metis less_numeral_extra(3))
  have "unat (st_start t) < unat D"
    using t by (intro inside) (auto simp: word_le_nat_alt word_less_nat_alt)
  then have "holders (t # ts) (unat a) = 1"
    using Cons.prems(3) [of "unat a"] t(2) by (auto simp: word_le_nat_alt)
  then have "0 < holders (t # ts) (unat a)"
    by simp
  then have "\<exists>u\<in>set (t # ts). unat (st_start u) \<le> unat a"
    unfolding holders_pos by blast
  then have "unat (st_start t) \<le> unat a"
    using t(3) by (auto simp: word_le_nat_alt)
  then have start: "st_start t = a"
    using t(2) by (simp add: word_le_nat_alt word_unat_eq_iff)
  have "unat (st_end t) - 1 < unat D"
    using t start by (intro inside) (auto simp: word_le_nat_alt word_less_nat_alt)
  then have "end": "st_end t \<le> D"
    using t(1) by (auto simp: word_le_nat_alt word_less_nat_alt)
  have after: "st_end t \<le> st_start u" if u: "u \<in> set ts" for u
  proof (rule ccontr)
    assume "\<not> st_end t \<le> st_start u"
    moreover have "0 < holders ts (unat (st_start u))"
      using Cons.prems(2) u by (intro holders_member) auto
    ultimately have "1 < holders (t # ts) (unat (st_start u))"
      using t(3) u by (auto simp: word_le_nat_alt)
    then show False
      using Cons.prems(3) [of "unat (st_start u)"] Cons.prems(2) u by (auto simp: word_le_nat_alt split: if_splits)
  qed
  have "holders ts x = (if x < unat D then 1 else 0)" if "unat (st_end t) \<le> x" for x
    using Cons.prems(3) [of x] that t(1) start by (auto simp: word_less_nat_alt)
  then have "walk_offsets e D (st_end t) ts = Inr D"
    using Cons.prems after "end" by (intro Cons.IH) auto
  then show ?case
    using "end" start by simp
qed

lemma generic_offsets_tile:
  assumes "\<forall>t\<in>set ts. st_start t < st_end t"
  shows "validate_generic_offsets ts D entry_name = Inr () \<longleftrightarrow>
    (\<forall>x. holders ts x = (if x < unat D then 1 else 0))"
proof -
  let ?us = "sort_key st_start ts"
  have same: "holders ?us x = holders ts x" for x
    by (rule holders_mset) simp
  have "walk_offsets e D 0 ?us = Inr D \<longleftrightarrow> (\<forall>x. holders ts x = (if x < unat D then 1 else 0))" for e
  proof
    assume "walk_offsets e D 0 ?us = Inr D"
    moreover have "\<forall>t\<in>set ?us. st_start t \<le> st_end t"
      using assms by (auto intro: less_imp_le)
    ultimately show "\<forall>x. holders ts x = (if x < unat D then 1 else 0)"
      using walk_covers [of e D 0 ?us D] same by simp
  next
    assume "\<forall>x. holders ts x = (if x < unat D then 1 else 0)"
    then show "walk_offsets e D 0 ?us = Inr D"
      using assms by (intro tiles_walk) (simp_all add: same)
  qed
  then show ?thesis
    by (auto simp: validate_generic_offsets_def Let_def try_iffs)
qed

lemma h3_errors:
  "invalid_safetensors = invalid_safetensors_at H3_ENTRY_NAME"
  "size_overflow = size_overflow_at H3_ENTRY_NAME"
  by (simp_all add: invalid_safetensors_def invalid_safetensors_at_def size_overflow_def size_overflow_at_def)

lemma h3_offsets_generic:
  "validate_offsets video audio D =
     validate_generic_offsets (video # (case audio of None \<Rightarrow> [] | Some a \<Rightarrow> [a])) D H3_ENTRY_NAME"
  by (simp add: validate_offsets_def validate_generic_offsets_def h3_errors Let_def)


definition sample_tensor :: "string \<Rightarrow> u64 \<Rightarrow> u64 \<Rightarrow> safetensor_tensor" where
  "sample_tensor name start end = \<lparr>st_name = name, st_dtype = StF16, st_shape = [(end - start) div 2],
     st_start = start, st_end = end, st_byte_length = end - start\<rparr>"

definition sample_gap :: "safetensor_tensor list" where
  "sample_gap = [sample_tensor ''a'' 4 8, sample_tensor ''b'' 0 2]"


text \<open>
  Empty tensors are not covered by the equivalence: of two tensors with the same start the sort
  keeps the order of the names, so whether an empty tensor at the start of another is accepted
  depends on which name comes first.
\<close>

lemma empty_tensor_order:
  "validate_generic_offsets [sample_tensor ''a'' 0 0, sample_tensor ''b'' 0 4] 4 e = Inr ()"
  "validate_generic_offsets [sample_tensor ''a'' 0 4, sample_tensor ''b'' 0 0] 4 e \<noteq> Inr ()"
  by (simp_all add: validate_generic_offsets_def sample_tensor_def)

section \<open>Reading keeps the bytes\<close>

named_theorems stream_simps "effects of the calls on a stream"

lemma next_fault_calm: "bs_faults s = [] \<Longrightarrow> next_fault s = (False, s)"
  by (simp add: next_fault_def)

lemma next_fault_bytes: "next_fault s = (b, s') \<Longrightarrow> bs_bytes s' = bs_bytes s \<and> bs_position s' = bs_position s"
  by (auto simp: next_fault_def split: list.splits)

lemma next_fault_drains: "next_fault s = (b, s') \<Longrightarrow> bs_faults s = [] \<Longrightarrow> bs_faults s' = []"
  by (auto simp: next_fault_def)

lemma map_err_st_Inr [try_iffs]: "map_err_st f r = (Inr x, s') \<longleftrightarrow> r = (Inr x, s')"
  by (cases r) (auto simp: map_err_st_def try_iffs)

lemma map_err_st_simps [simp]:
  "map_err_st f (Inr x, s) = (Inr x, s)" "map_err_st f (Inl e, s) = (Inl (f e), s)"
  by (simp_all add: map_err_st_def)

definition same_stream :: "byte_stream \<Rightarrow> byte_stream \<Rightarrow> bool" where
  "same_stream s s' = (bs_bytes s' = bs_bytes s \<and> (bs_faults s = [] \<longrightarrow> bs_faults s' = []))"

lemma same_stream_refl [simp]: "same_stream s s"
  by (simp add: same_stream_def)

lemma same_stream_trans: "same_stream s t \<Longrightarrow> same_stream t u \<Longrightarrow> same_stream s u"
  by (simp add: same_stream_def)

lemma seek_end_Inr:
  "seek_end s = (Inr e, s') \<Longrightarrow> same_stream s s' \<and> e = of_nat (length (bs_bytes s))"
  by (auto simp: seek_end_def same_stream_def split: prod.splits if_splits
      dest: next_fault_bytes next_fault_drains)

lemma seek_start_Inr:
  "seek_start offset s = (Inr u, s') \<Longrightarrow> same_stream s s' \<and> bs_position s' = unat offset"
  by (auto simp: seek_start_def same_stream_def split: prod.splits if_splits
      dest: next_fault_bytes next_fault_drains)

lemma stream_read_exact_Inr:
  "stream_read_exact n s = (Inr bytes, s') \<Longrightarrow> same_stream s s' \<and>
     bytes = take n (drop (bs_position s) (bs_bytes s)) \<and> bs_position s + n \<le> length (bs_bytes s) \<and>
     bs_position s' = bs_position s + n"
  by (auto simp: stream_read_exact_def same_stream_def split: prod.splits if_splits
      dest: next_fault_bytes next_fault_drains)

lemma calm_calls:
  assumes "bs_faults s = []"
  shows "seek_end s = (Inr (of_nat (length (bs_bytes s))), s\<lparr>bs_position := length (bs_bytes s)\<rparr>)"
    and "seek_start offset s = (Inr (), s\<lparr>bs_position := unat offset\<rparr>)"
    and "bs_position s + n \<le> length (bs_bytes s) \<Longrightarrow> stream_read_exact n s =
      (Inr (take n (drop (bs_position s) (bs_bytes s))), s\<lparr>bs_position := bs_position s + n\<rparr>)"
  using assms by (simp_all add: seek_end_def seek_start_def stream_read_exact_def next_fault_calm)

lemma read_header_Inr:
  assumes "read_header entry entry_name limits s = (Inr (hb, off, header), s')"
  shows "same_stream s s'" and "er_length entry \<le> lim_h3_payload_bytes limits"
    and "unat off = 8 + unat hb" and "off \<le> er_length entry"
    and "length (bs_bytes s) < 2 ^ 64 \<Longrightarrow>
      unat (er_offset entry) + unat (er_length entry) \<le> length (bs_bytes s)"
proof -
  obtain entry_end stream_end s1 s2 s3 bytes where
    len: "er_length entry \<le> lim_h3_payload_bytes limits"
    and sum: "checked_add (er_offset entry) (er_length entry) = Some entry_end"
    and s1: "seek_end s = (Inr stream_end, s1)" and fits: "entry_end \<le> stream_end"
    and s2: "seek_start (er_offset entry) s1 = (Inr (), s2)"
    and s3: "stream_read_exact HEADER_LENGTH_BYTES s2 = (Inr bytes, s3)"
    and off: "checked_add (of_nat HEADER_LENGTH_BYTES) hb = Some off" "off \<le> er_length entry"
    and s4: "stream_read_exact (unat hb) s3 = (Inr header, s')"
    using assms
    by (auto simp: read_header_def Let_def try_iffs seek_to_entry_def read_exact_payload_entry_def not_less
        split: if_splits)
  show "same_stream s s'"
    using seek_end_Inr [OF s1] seek_start_Inr [OF s2] stream_read_exact_Inr [OF s3]
      stream_read_exact_Inr [OF s4] same_stream_trans by metis
  show "er_length entry \<le> lim_h3_payload_bytes limits" "off \<le> er_length entry"
    using len off by auto
  show "unat off = 8 + unat hb"
    using off(1) by (simp add: checked_add_Some HEADER_LENGTH_BYTES_def)
  assume "length (bs_bytes s) < 2 ^ 64"
  then have "unat stream_end = length (bs_bytes s)"
    using seek_end_Inr [OF s1] by (simp add: unat_of_nat_fits)
  then show "unat (er_offset entry) + unat (er_length entry) \<le> length (bs_bytes s)"
    using sum fits by (simp add: checked_add_Some word_le_nat_alt)
qed

section \<open>Tensors\<close>

definition dtype_bytes :: "safetensor_dtype \<Rightarrow> nat" where
  "dtype_bytes d = unat (st_byte_width d)"

lemma dtype_bytes_simps: "dtype_bytes StF16 = 2" "dtype_bytes StF32 = 4"
  by (simp_all add: dtype_bytes_def st_byte_width_def)

lemma dtype_bytes_pos: "0 < dtype_bytes d" "dtype_bytes d dvd 65536"
  by (cases d; simp add: dtype_bytes_simps)+

text \<open>The tensor is described exactly: its shape, type and offsets agree.\<close>

definition tensor_exact :: "safetensor_tensor \<Rightarrow> bool" where
  "tensor_exact t = (st_start t \<le> st_end t \<and>
     unat (st_byte_length t) = unat (st_end t) - unat (st_start t) \<and>
     unat (st_byte_length t) = prod_list (map unat (st_shape t)) * dtype_bytes (st_dtype t))"

lemma st_validate_common_exact:
  assumes "st_validate_common name raw limits = Inr t"
  shows "tensor_exact t" and "st_name t = name" and "st_shape t = rt_shape raw"
proof -
  from assms obtain dtype elements where
    "multiply_shape 1 (rt_shape raw) = Some elements"
    "checked_mul elements (st_byte_width dtype) = Some (st_byte_length t)"
    "rt_start raw \<le> rt_end raw" "st_byte_length t = rt_end raw - rt_start raw"
    "st_dtype t = dtype" "st_shape t = rt_shape raw" "st_start t = rt_start raw"
    "st_end t = rt_end raw" "st_name t = name"
    by (auto simp: st_validate_common_def Let_def try_iffs if_Inr_guard not_less split: if_splits)
  then show "tensor_exact t" "st_name t = name" "st_shape t = rt_shape raw"
    by (auto simp: tensor_exact_def checked_mul_Some multiply_shape_exact dtype_bytes_def unat_sub_fits
        word_le_nat_alt)
qed

lemma prod_list_pos: "0 \<notin> set shape \<Longrightarrow> 0 < prod_list (map unat (shape :: u64 list))"
  by (induction shape) (auto simp: word_unat_eq_iff)

lemma tensor_not_empty:
  assumes "tensor_exact t" and "0 \<notin> set (st_shape t)"
  shows "st_start t < st_end t"
proof -
  have "0 < prod_list (map unat (st_shape t)) * dtype_bytes (st_dtype t)"
    using prod_list_pos [OF assms(2)] dtype_bytes_pos(1) by simp
  then have "0 < unat (st_end t) - unat (st_start t)"
    using assms(1) unfolding tensor_exact_def by metis
  then show ?thesis
    by (simp add: word_less_nat_alt)
qed

lemma st_validate_video_exact:
  assumes "st_validate_video raw limits = Inr t"
  shows "st_validate_common ''video'' raw limits = Inr t" "tensor_exact t" "st_start t < st_end t"
proof -
  have t: "st_validate_common ''video'' raw limits = Inr t" and shape: "length (st_shape t) = 5"
    "st_shape t ! 0 = 1" "st_shape t ! 1 = 24" "0 \<notin> set (drop 2 (st_shape t))"
    using assms by (auto simp: st_validate_video_def try_iffs split: if_splits)
  then show "st_validate_common ''video'' raw limits = Inr t" "tensor_exact t"
    using st_validate_common_exact by auto
  obtain a b c d e where "st_shape t = [a, b, c, d, e]"
    using five_axes [OF shape(1)] by blast
  then have "0 \<notin> set (st_shape t)"
    using shape by auto
  then show "st_start t < st_end t"
    by (rule tensor_not_empty [OF \<open>tensor_exact t\<close>])
qed

lemma st_validate_audio_exact:
  assumes "st_validate_audio raw limits = Inr t"
  shows "st_validate_common ''audio'' raw limits = Inr t" "tensor_exact t" "st_start t < st_end t"
proof -
  have t: "st_validate_common ''audio'' raw limits = Inr t" and shape: "length (st_shape t) = 4"
    "st_shape t ! 0 = 1" "st_shape t ! 1 = 32" "st_shape t ! 2 = 2" "st_shape t ! 3 \<noteq> 0"
    using assms by (auto simp: st_validate_audio_def try_iffs split: if_splits)
  then show "st_validate_common ''audio'' raw limits = Inr t" "tensor_exact t"
    using st_validate_common_exact by auto
  obtain a b c d where "st_shape t = [a, b, c, d]"
    using four_axes [OF shape(1)] by blast
  then have "0 \<notin> set (st_shape t)"
    using shape by auto
  then show "st_start t < st_end t"
    by (rule tensor_not_empty [OF \<open>tensor_exact t\<close>])
qed

section \<open>The H3 preflight\<close>

definition h3_tensors :: "h3_preflight \<Rightarrow> safetensor_tensor list" where
  "h3_tensors p = h3p_video p # (case h3p_audio p of None \<Rightarrow> [] | Some a \<Rightarrow> [a])"

lemma parse_header_wf:
  assumes "parse_header hj header = Inr raw"
  shows "bt_wf raw"
proof -
  have "visit_header hj seen tensors members = Some raw' \<Longrightarrow> bt_wf tensors \<Longrightarrow> bt_wf raw'"
    for seen tensors members raw'
    by (induction hj seen tensors members rule: visit_header.induct)
      (auto simp: bt_insert_wf split: if_splits option.splits)
  moreover have "bt_wf ([] :: (string, raw_tensor_descriptor) btree_map)"
    by (simp add: bt_wf_def)
  ultimately show ?thesis
    using assms by (fastforce simp: parse_header_def try_iffs bind_eq_Some_conv split: option.splits if_splits)
qed

text \<open>The header of an accepted payload has one or two tensors, in the order of their names.\<close>

lemma two_tensors:
  assumes wf: "bt_wf m" and video: "bt_get m ''video'' = Some v"
    and rest: "bt_remove (bt_remove m ''video'') ''audio'' = []"
  shows "m = (case bt_get (bt_remove m ''video'') ''audio'' of
    None \<Rightarrow> [(''video'', v)] | Some a \<Rightarrow> [(''audio'', a), (''video'', v)])"
proof -
  let ?out = "case bt_get m ''audio'' of None \<Rightarrow> [(''video'', v)] | Some a \<Rightarrow> [(''audio'', a), (''video'', v)]"
  have keys: "k = ''video'' \<or> k = ''audio''" if "(k, x) \<in> set m" for k x
    using rest that by (fastforce simp: bt_remove_def filter_empty_conv)
  have g: "(k, x) \<in> set m \<longleftrightarrow> bt_get m k = Some x" for k x
    using wf by (simp add: bt_get_iff)
  have order: "''audio'' < ''video''"
    by (simp add: less_char_def of_char_def)
  have "(k, x) \<in> set m \<longleftrightarrow> (k, x) \<in> set ?out" for k x
    using keys [of k x] g [of k x] video
    by (cases "k = ''video''"; cases "k = ''audio''") (auto split: option.splits)
  then have same: "set m = set ?out"
    by (auto simp: set_eq_iff)
  have "m = ?out"
  proof (rule map_sorted_distinct_set_unique [where f = fst])
    show "inj_on fst (set m \<union> set ?out)"
      unfolding same Un_absorb by (auto simp: inj_on_def split: option.splits)
    show "sorted (map fst m)" "distinct (map fst m)"
      using wf by (simp_all add: bt_wf_def strict_sorted_iff)
    show "sorted (map fst ?out)" "distinct (map fst ?out)"
      using order by (auto split: option.splits)
    show "set m = set ?out"
      by (rule same)
  qed
  then show ?thesis
    by (simp add: bt_get_remove)
qed

lemma preflight_h3_parts:
  assumes "preflight_h3_safetensors hj entry limits s = (Inr p, s')"
  obtains hb off header raw rv where
    "read_header entry H3_ENTRY_NAME limits s = (Inr (hb, off, header), s')"
    "parse_header hj header = Inr raw" "length raw \<le> lim_tensors limits"
    "bt_get raw ''video'' = Some rv" "st_validate_video rv limits = Inr (h3p_video p)"
    "case bt_get (bt_remove raw ''video'') ''audio'' of None \<Rightarrow> h3p_audio p = None
     | Some ra \<Rightarrow> \<exists>a. st_validate_audio ra limits = Inr a \<and> h3p_audio p = Some a"
    "bt_remove (bt_remove raw ''video'') ''audio'' = []"
    "validate_offsets (h3p_video p) (h3p_audio p) (er_length entry - off) = Inr ()"
    "p = \<lparr>h3p_payload_bytes = er_length entry, h3p_header_bytes = hb, h3p_data_offset = off,
       h3p_data_bytes = er_length entry - off, h3p_video = h3p_video p, h3p_audio = h3p_audio p\<rparr>"
proof -
  obtain hb off header s1 where
    head: "read_header entry H3_ENTRY_NAME limits s = (Inr (hb, off, header), s1)"
    using assms unfolding preflight_h3_safetensors_def st_bind_Inr by auto
  note step1 = assms [unfolded preflight_h3_safetensors_def head st_bind_simps prod.case]
  from step1 obtain raw where parse: "parse_header hj header = Inr raw"
    and few: "length raw \<le> lim_tensors limits"
    by (auto simp: try_with_Inr not_less split: if_splits)
  let ?audio = "case bt_get (bt_remove raw ''video'') ''audio'' of None \<Rightarrow> Inr None
         | Some descriptor \<Rightarrow> try_bind (st_validate_audio descriptor limits) (\<lambda>a. Inr (Some a))"
  have few': "lim_tensors limits < length raw \<longleftrightarrow> False"
    using few by simp
  note step2 = step1 [unfolded parse try_with_simps few' if_False Let_def]
  obtain rv where rv: "bt_get raw ''video'' = Some rv"
    using step2 by (cases "bt_get raw ''video''") simp_all
  obtain video where video: "st_validate_video rv limits = Inr video"
    using step2 by (cases "st_validate_video rv limits") (simp_all add: rv)
  note step3 = step2 [unfolded rv ok_or_simps try_bind_simps video try_with_simps]
  obtain audio where audio: "?audio = Inr audio"
    using step3 by (cases ?audio) simp_all
  note step4 = step3 [unfolded audio try_with_simps]
  have only: "bt_remove (bt_remove raw ''video'') ''audio'' = []"
    using step4 by (cases "bt_remove (bt_remove raw ''video'') ''audio''") auto
  have offsets: "validate_offsets video audio (er_length entry - off) = Inr ()"
    using step4 by (cases "validate_offsets video audio (er_length entry - off)") (simp_all add: only)
  have p: "p = \<lparr>h3p_payload_bytes = er_length entry, h3p_header_bytes = hb, h3p_data_offset = off,
       h3p_data_bytes = er_length entry - off, h3p_video = video, h3p_audio = audio\<rparr>" and s': "s1 = s'"
    using step4 by (simp_all add: only offsets)
  have "case bt_get (bt_remove raw ''video'') ''audio'' of None \<Rightarrow> h3p_audio p = None
     | Some ra \<Rightarrow> \<exists>a. st_validate_audio ra limits = Inr a \<and> h3p_audio p = Some a"
    using audio by (auto simp: try_iffs p split: option.splits)
  then show thesis
    using head parse few rv video only offsets s' by (intro that) (simp_all add: p)
qed

lemma h3_tensors_exact:
  assumes "preflight_h3_safetensors hj entry limits s = (Inr p, s')"
  shows "\<forall>t\<in>set (h3_tensors p). tensor_exact t \<and> st_start t < st_end t"
  using assms
  by (rule preflight_h3_parts)
    (auto simp: h3_tensors_def dest: st_validate_video_exact st_validate_audio_exact split: option.splits)

text \<open>C19: The H3 preflight is the codec-neutral preflight with more checks. Whatever the header, the
  limits and the stream, a payload that the H3 preflight accepts is accepted by the codec-neutral
  one, with the same receipt: the same sizes and the same one or two tensors, the stream being
  left at the same place.
\<close>
theorem h3_preflight_refines_generic:
  assumes "preflight_h3_safetensors hj entry limits s = (Inr p, s')"
  shows "preflight_safetensors hj entry H3_ENTRY_NAME limits s =
    (Inr \<lparr>sp_payload_bytes = h3p_payload_bytes p, sp_header_bytes = h3p_header_bytes p,
       sp_data_offset = h3p_data_offset p, sp_data_bytes = h3p_data_bytes p,
       sp_tensors = (case h3p_audio p of None \<Rightarrow> [] | Some a \<Rightarrow> [(''audio'', a)]) @ [(''video'', h3p_video p)]\<rparr>, s')"
proof -
  obtain hb off header raw rv where
    head: "read_header entry H3_ENTRY_NAME limits s = (Inr (hb, off, header), s')"
    and parse: "parse_header hj header = Inr raw" and few: "length raw \<le> lim_tensors limits"
    and rv: "bt_get raw ''video'' = Some rv" "st_validate_video rv limits = Inr (h3p_video p)"
    and ra: "case bt_get (bt_remove raw ''video'') ''audio'' of None \<Rightarrow> h3p_audio p = None
     | Some ra \<Rightarrow> \<exists>a. st_validate_audio ra limits = Inr a \<and> h3p_audio p = Some a"
    and only: "bt_remove (bt_remove raw ''video'') ''audio'' = []"
    and offsets: "validate_offsets (h3p_video p) (h3p_audio p) (er_length entry - off) = Inr ()"
    and p: "p = \<lparr>h3p_payload_bytes = er_length entry, h3p_header_bytes = hb, h3p_data_offset = off,
       h3p_data_bytes = er_length entry - off, h3p_video = h3p_video p, h3p_audio = h3p_audio p\<rparr>"
    by (rule preflight_h3_parts [OF assms])
  let ?tensors = "(case h3p_audio p of None \<Rightarrow> [] | Some a \<Rightarrow> [(''audio'', a)]) @ [(''video'', h3p_video p)]"
  note raw = two_tensors [OF parse_header_wf [OF parse] rv(1) only]
  have "raw \<noteq> []"
    using rv(1) by (auto simp: bt_get_def)
  moreover have "try_map (\<lambda>(name, descriptor).
      try_bind (st_validate_common name descriptor limits) (\<lambda>v. Inr (name, v))) raw = Inr ?tensors"
  proof (cases "bt_get (bt_remove raw ''video'') ''audio''")
    case None
    have "raw = [(''video'', rv)]"
      using raw [unfolded None option.case] .
    moreover have "h3p_audio p = None"
      using ra by (simp add: None)
    ultimately show ?thesis
      using st_validate_video_exact(1) [OF rv(2)] by simp
  next
    case (Some d)
    have "raw = [(''audio'', d), (''video'', rv)]"
      using raw [unfolded Some option.case] .
    moreover obtain a where "st_validate_audio d limits = Inr a" "h3p_audio p = Some a"
      using ra by (auto simp: Some)
    ultimately show ?thesis
      using st_validate_video_exact(1) [OF rv(2)] st_validate_audio_exact(1) by simp
  qed
  moreover have "validate_generic_offsets (bt_values ?tensors) (er_length entry - off) H3_ENTRY_NAME = Inr ()"
  proof -
    have tensors: "\<forall>t\<in>set (h3_tensors p). st_start t < st_end t"
      using h3_tensors_exact [OF assms] by blast
    have "\<forall>x. holders (h3_tensors p) x = (if x < unat (er_length entry - off) then 1 else 0)"
      using offsets generic_offsets_tile [OF tensors] by (simp add: h3_offsets_generic h3_tensors_def)
    moreover have "holders (bt_values ?tensors) x = holders (h3_tensors p) x" for x
      by (rule holders_mset) (simp add: h3_tensors_def bt_values_def split: option.splits)
    moreover have "\<forall>t\<in>set (bt_values ?tensors). st_start t < st_end t"
      using tensors by (auto simp: h3_tensors_def bt_values_def split: option.splits)
    ultimately show ?thesis
      by (simp add: generic_offsets_tile)
  qed
  ultimately have "preflight_safetensors hj entry H3_ENTRY_NAME limits s =
     (Inr \<lparr>sp_payload_bytes = er_length entry, sp_header_bytes = hb, sp_data_offset = off,
        sp_data_bytes = er_length entry - off, sp_tensors = ?tensors\<rparr>, s')"
    using few by (simp add: preflight_safetensors_def head parse Let_def)
  then show ?thesis
    by (subst p, subst p, subst p, subst p) simp
qed

section \<open>The scan\<close>

lemma element_chunks_split:
  assumes "0 < w" "w dvd n" "n \<le> length xs"
  shows "element_chunks w xs = element_chunks w (take n xs) @ element_chunks w (drop n xs)"
  using assms
proof (induction n arbitrary: xs rule: less_induct)
  case (less n)
  show ?case
  proof (cases "n = 0")
    case True
    then show ?thesis
      using less.prems by (simp add: element_chunks.simps [of w "[]"])
  next
    case False
    then have wn: "w \<le> n"
      using less.prems by (auto dest: dvd_imp_le)
    then have "element_chunks w (drop w xs) =
        element_chunks w (take (n - w) (drop w xs)) @ element_chunks w (drop (n - w) (drop w xs))"
      using less.prems by (intro less.IH) auto
    moreover have "element_chunks w xs = take w xs # element_chunks w (drop w xs)"
      using less.prems wn by (simp add: element_chunks.simps [of w xs])
    moreover have "element_chunks w (take n xs) = take w xs # element_chunks w (take (n - w) (drop w xs))"
      using less.prems wn by (simp add: element_chunks.simps [of w "take n xs"] min_def drop_take)
    ultimately show ?thesis
      using wn by simp
  qed
qed

definition all_finite :: "safetensor_dtype \<Rightarrow> u8 list \<Rightarrow> bool" where
  "all_finite d bytes = (\<not> list_ex (non_finite d) (element_chunks (dtype_bytes d) bytes))"

lemma all_finite_split:
  "dtype_bytes d dvd n \<Longrightarrow> n \<le> length bytes \<Longrightarrow>
     all_finite d bytes \<longleftrightarrow> all_finite d (take n bytes) \<and> all_finite d (drop n bytes)"
  using element_chunks_split [of "dtype_bytes d" n bytes] dtype_bytes_pos(1) [of d]
  by (simp add: all_finite_def)

lemma scan_request_exact:
  assumes "dtype_bytes d dvd unat remaining"
  shows "scan_request d remaining = min (unat remaining) 65536" "dtype_bytes d dvd scan_request d remaining"
proof -
  have "unat (min remaining (of_nat SCAN_BUFFER_BYTES)) = min (unat remaining) 65536"
    by (simp add: SCAN_BUFFER_BYTES_def min_def word_le_nat_alt)
  moreover have dvd: "dtype_bytes d dvd min (unat remaining) 65536"
    using assms dtype_bytes_pos(2) by (simp add: min_def)
  ultimately show "scan_request d remaining = min (unat remaining) 65536"
    by (simp add: scan_request_def dtype_bytes_def [symmetric] dvd_eq_mod_eq_0)
  then show "dtype_bytes d dvd scan_request d remaining"
    using dvd by simp
qed

definition tensor_error :: "cartridge_code \<Rightarrow> string \<Rightarrow> safetensor_tensor \<Rightarrow> cartridge_error" where
  "tensor_error code entry_name t = at_tensor (st_name t) (at_entry entry_name (lc_error code))"

lemma scan_chunks_calm:
  assumes "bs_faults s = []" and "dtype_bytes (st_dtype t) dvd unat remaining"
    and "bs_position s + unat remaining \<le> length (bs_bytes s)"
  shows "if all_finite (st_dtype t) (take (unat remaining) (drop (bs_position s) (bs_bytes s)))
    then scan_chunks e t remaining s = (Inr (), s\<lparr>bs_position := bs_position s + unat remaining\<rparr>)
    else fst (scan_chunks e t remaining s) = Inl (tensor_error LcTensorNonFinite e t)"
  using assms
proof (induction "unat remaining" arbitrary: remaining s rule: less_induct)
  case less
  show ?case
  proof (cases "remaining = 0")
    case True
    have "element_chunks (dtype_bytes (st_dtype t)) ([] :: u8 list) = []"
      using dtype_bytes_pos(1) [of "st_dtype t"] by (simp add: element_chunks.simps)
    then show ?thesis
      using True by (simp add: scan_chunks.simps all_finite_def)
  next
    case False
    define n where "n = scan_request (st_dtype t) remaining"
    let ?bytes = "drop (bs_position s) (bs_bytes s)"
    let ?rest = "remaining - of_nat n"
    let ?s = "s\<lparr>bs_position := bs_position s + n\<rparr>"
    have n: "n = min (unat remaining) 65536" "dtype_bytes (st_dtype t) dvd n"
      using scan_request_exact [OF less.prems(2)] by (simp_all add: n_def)
    have pos: "0 < n" "n \<le> unat remaining"
      using False n(1) by (auto simp: word_unat_eq_iff)
    have rest: "unat ?rest = unat remaining - n"
      unfolding n_def by (rule unat_minus_request)
    have read: "read_exact_payload_entry n e s = (Inr (take n ?bytes), ?s)"
      using less.prems pos by (simp add: read_exact_payload_entry_def calm_calls(3))
    have step: "scan_chunks e t remaining s =
        (if all_finite (st_dtype t) (take n ?bytes) then scan_chunks e t ?rest ?s
         else (Inl (tensor_error LcTensorNonFinite e t), ?s))"
      using False pos(1) read
      by (simp add: scan_chunks.simps [of e t remaining s] n_def [symmetric] Let_def all_finite_def
          dtype_bytes_def tensor_error_def)
    have IH: "if all_finite (st_dtype t) (take (unat ?rest) (drop (bs_position ?s) (bs_bytes ?s)))
        then scan_chunks e t ?rest ?s = (Inr (), ?s\<lparr>bs_position := bs_position ?s + unat ?rest\<rparr>)
        else fst (scan_chunks e t ?rest ?s) = Inl (tensor_error LcTensorNonFinite e t)"
      using less.prems pos n(2) by (intro less.hyps) (simp_all add: rest)
    have "all_finite (st_dtype t) (take (unat remaining) ?bytes) \<longleftrightarrow>
        all_finite (st_dtype t) (take n ?bytes) \<and>
        all_finite (st_dtype t) (take (unat ?rest) (drop (bs_position ?s) (bs_bytes ?s)))"
    proof -
      have "n \<le> length (take (unat remaining) ?bytes)"
        using pos(2) less.prems(3) by simp
      moreover have "take n (take (unat remaining) ?bytes) = take n ?bytes"
        using pos(2) by (simp add: min_def)
      ultimately show ?thesis
        using all_finite_split [of "st_dtype t" n "take (unat remaining) ?bytes"] n(2)
        by (simp add: rest drop_take add.commute)
    qed
    then show ?thesis
      using IH pos by (simp add: step rest)
  qed
qed

text \<open>The bytes of a tensor in the stream, and that all of its values are finite.\<close>

definition tensor_data :: "byte_stream \<Rightarrow> nat \<Rightarrow> safetensor_tensor \<Rightarrow> u8 list" where
  "tensor_data s data_at t = take (unat (st_byte_length t)) (drop (data_at + unat (st_start t)) (bs_bytes s))"

definition tensor_finite :: "byte_stream \<Rightarrow> nat \<Rightarrow> safetensor_tensor \<Rightarrow> bool" where
  "tensor_finite s data_at t = all_finite (st_dtype t) (tensor_data s data_at t)"

lemma scan_tensor_calm:
  assumes calm: "bs_faults s = []" and len: "length (bs_bytes s) < 2 ^ 64" and exact: "tensor_exact t"
    and fits: "unat off + unat (st_end t) \<le> length (bs_bytes s)"
  shows "if tensor_finite s (unat off) t
    then \<exists>s'. scan_tensor_at off t e s = (Inr (), s') \<and> same_stream s s'
    else fst (scan_tensor_at off t e s) = Inl (tensor_error LcTensorNonFinite e t)"
proof -
  have t: "unat (st_start t) \<le> unat (st_end t)"
    "unat (st_byte_length t) = unat (st_end t) - unat (st_start t)"
    using exact by (simp_all add: tensor_exact_def word_le_nat_alt)
  have width: "dtype_bytes (st_dtype t) dvd unat (st_byte_length t)"
    using exact unfolding tensor_exact_def by (metis dvd_triv_right)
  have small: "unat off + unat (st_start t) < 2 ^ 64"
    using fits t(1) len by linarith
  then obtain at where at: "checked_add off (st_start t) = Some at" "unat at = unat off + unat (st_start t)"
    using unat_of_nat_fits [of "unat off + unat (st_start t)", where 'a = 64] by (simp add: checked_add_Some)
  let ?s = "s\<lparr>bs_position := unat at\<rparr>"
  have "unat at + unat (st_byte_length t) \<le> length (bs_bytes s)"
    using fits t(1,2) at(2) by linarith
  then have "if tensor_finite s (unat off) t
    then scan_chunks e t (st_byte_length t) ?s = (Inr (), ?s\<lparr>bs_position := unat at + unat (st_byte_length t)\<rparr>)
    else fst (scan_chunks e t (st_byte_length t) ?s) = Inl (tensor_error LcTensorNonFinite e t)"
    using scan_chunks_calm [of ?s t "st_byte_length t" e] calm width
    by (simp add: tensor_finite_def tensor_data_def at(2) split: if_split_asm)
  moreover have "scan_tensor_at off t e s = scan_chunks e t (st_byte_length t) ?s"
    using calm by (simp add: scan_tensor_at_def at(1) seek_to_entry_def calm_calls(2))
  ultimately show ?thesis
    by (simp add: same_stream_def split: if_splits)
qed

lemma preflight_h3_bounds:
  assumes "preflight_h3_safetensors hj entry limits s = (Inr p, s')" and "length (bs_bytes s) < 2 ^ 64"
  shows "same_stream s s'" and "h3p_payload_bytes p = er_length entry"
    and "unat (h3p_data_offset p) = 8 + unat (h3p_header_bytes p)"
    and "unat (h3p_data_offset p) + unat (h3p_data_bytes p) = unat (er_length entry)"
    and "unat (er_offset entry) + unat (er_length entry) \<le> length (bs_bytes s)"
    and "validate_offsets (h3p_video p) (h3p_audio p) (h3p_data_bytes p) = Inr ()"
    and "\<forall>t\<in>set (h3_tensors p). st_end t \<le> h3p_data_bytes p"
proof -
  obtain hb off header raw rv where
    head: "read_header entry H3_ENTRY_NAME limits s = (Inr (hb, off, header), s')"
    and offsets: "validate_offsets (h3p_video p) (h3p_audio p) (er_length entry - off) = Inr ()"
    and p: "p = \<lparr>h3p_payload_bytes = er_length entry, h3p_header_bytes = hb, h3p_data_offset = off,
       h3p_data_bytes = er_length entry - off, h3p_video = h3p_video p, h3p_audio = h3p_audio p\<rparr>"
    by (rule preflight_h3_parts [OF assms(1)])
  have fields: "h3p_payload_bytes p = er_length entry" "h3p_header_bytes p = hb" "h3p_data_offset p = off"
    "h3p_data_bytes p = er_length entry - off"
    by (subst p, simp)+
  note r = read_header_Inr [OF head]
  show "same_stream s s'" "h3p_payload_bytes p = er_length entry"
    "unat (h3p_data_offset p) = 8 + unat (h3p_header_bytes p)"
    "unat (h3p_data_offset p) + unat (h3p_data_bytes p) = unat (er_length entry)"
    "unat (er_offset entry) + unat (er_length entry) \<le> length (bs_bytes s)"
    "validate_offsets (h3p_video p) (h3p_audio p) (h3p_data_bytes p) = Inr ()"
    using r offsets assms(2) by (simp_all add: fields unat_sub_fits word_le_nat_alt)
  have tensors: "\<forall>t\<in>set (h3_tensors p). st_start t < st_end t"
    using h3_tensors_exact [OF assms(1)] by blast
  show "\<forall>t\<in>set (h3_tensors p). st_end t \<le> h3p_data_bytes p"
  proof
    fix t assume t: "t \<in> set (h3_tensors p)"
    have hold: "\<forall>x. holders (h3_tensors p) x = (if x < unat (h3p_data_bytes p) then 1 else 0)"
      using offsets generic_offsets_tile [OF tensors] by (simp add: h3_offsets_generic h3_tensors_def fields)
    have "0 < holders (h3_tensors p) (unat (st_end t) - 1)"
      unfolding holders_pos using tensors [rule_format, OF t]
      by (intro bexI [OF _ t]) (simp add: word_less_nat_alt)
    then have "unat (st_end t) - 1 < unat (h3p_data_bytes p)"
      using hold by (metis less_numeral_extra(3))
    then show "st_end t \<le> h3p_data_bytes p"
      by (auto simp: word_le_nat_alt)
  qed
qed


section \<open>A sample payload\<close>

text \<open>
  One video tensor of 24 half precision values, the last of which is an infinity, behind a header
  of eight bytes; the JSON of the header is given by the parameter.
\<close>

definition sample_header_json :: "unit header_json" where
  "sample_header_json = \<lparr>hj_object = \<lambda>header. Some ([(''video'', ())], True), hj_ends = \<lambda>header. True,
     hj_descriptor = \<lambda>v. Some \<lparr>rt_dtype = ''F16'', rt_shape = [1, 24, 1, 1, 1], rt_start = 0, rt_end = 48\<rparr>,
     hj_metadata = \<lambda>v. None\<rparr>"

definition sample_payload :: byte_stream where
  "sample_payload = \<lparr>bs_bytes = [8, 0, 0, 0, 0, 0, 0, 0] @ [123, 0, 0, 0, 0, 0, 0, 125] @
     replicate 46 0 @ [0, 0x7c], bs_position = 0, bs_faults = []\<rparr>"

definition sample_entry :: entry_range where
  "sample_entry = \<lparr>er_offset = 0, er_length = 64\<rparr>"

definition sample_video :: safetensor_tensor where
  "sample_video = \<lparr>st_name = ''video'', st_dtype = StF16, st_shape = [1, 24, 1, 1, 1], st_start = 0,
     st_end = 48, st_byte_length = 48\<rparr>"

definition sample_preflight :: h3_preflight where
  "sample_preflight = \<lparr>h3p_payload_bytes = 64, h3p_header_bytes = 8, h3p_data_offset = 16,
     h3p_data_bytes = 48, h3p_video = sample_video, h3p_audio = None\<rparr>"

lemma sample_header:
  "read_header sample_entry H3_ENTRY_NAME specification_limits sample_payload =
     (Inr (8, 16, [123, 0, 0, 0, 0, 0, 0, 125]), sample_payload\<lparr>bs_position := 16\<rparr>)"
proof -
  have "u64_from_le [8, 0, 0, 0, 0, 0, 0, 0] = 8"
    by (simp add: u64_from_le_def)
  moreover have "checked_add (0 :: u64) 64 = Some 64" "checked_add (8 :: u64) 8 = Some 16"
    by (simp_all add: checked_add_Some)
  ultimately show ?thesis
    by (simp add: read_header_def sample_entry_def sample_payload_def specification_limits_def
        MAX_H3_PAYLOAD_BYTES_def GIB_def HEADER_LENGTH_BYTES_def calm_calls seek_to_entry_def
        read_exact_payload_entry_def MAX_SAFETENSORS_HEADER_BYTES_def MIB_def Let_def)
qed

lemma sample_preflight_accepted:
  "preflight_h3_safetensors sample_header_json sample_entry specification_limits sample_payload =
     (Inr sample_preflight, sample_payload\<lparr>bs_position := 16\<rparr>)"
proof -
  have "parse_header sample_header_json header =
      Inr [(''video'', \<lparr>rt_dtype = ''F16'', rt_shape = [1, 24, 1, 1, 1], rt_start = 0, rt_end = 48\<rparr>)]" for header
    by (simp add: parse_header_def sample_header_json_def)
  moreover have "st_validate_video \<lparr>rt_dtype = ''F16'', rt_shape = [1, 24, 1, 1, 1], rt_start = 0, rt_end = 48\<rparr>
      specification_limits = Inr sample_video"
    by (simp add: st_validate_video_def st_validate_common_def specification_limits_def MAX_TENSOR_RANK_def
        checked_mul_def st_byte_width_def validate_h3_axes_def validate_decoded_axis_def
        MAX_H3_TEMPORAL_AXIS_def MAX_H3_DECODED_AXIS_def sample_video_def Let_def)
  moreover have "validate_offsets sample_video None 48 = Inr ()"
    by (simp add: validate_offsets_def sample_video_def)
  moreover have "lim_tensors specification_limits = 2" "er_length sample_entry = 64"
    by (simp_all add: specification_limits_def MAX_TENSORS_def sample_entry_def)
  ultimately show ?thesis
    by (simp add: preflight_h3_safetensors_def sample_header bt_get_def bt_remove_def sample_preflight_def Let_def)
qed

theorem h3_preflight_refines_generic_witness:
  "preflight_safetensors sample_header_json sample_entry H3_ENTRY_NAME specification_limits sample_payload =
    (Inr \<lparr>sp_payload_bytes = 64, sp_header_bytes = 8, sp_data_offset = 16, sp_data_bytes = 48,
       sp_tensors = [(''video'', sample_video)]\<rparr>, sample_payload\<lparr>bs_position := 16\<rparr>)"
  using h3_preflight_refines_generic [OF sample_preflight_accepted] by (simp add: sample_preflight_def)


end
