(* ===== verification/Signal_Geometry.thy ===== *)
theory Signal_Geometry
  imports Cartridge_Profile
begin

text \<open>
  The signal geometry of a cartridge and the compatibility of several
  (\<open>crates/core/src/signal_geometry.rs\<close>), and what holds of it for validated H3 cartridges.
\<close>

section \<open>Data\<close>

record signal_geometry =
  sg_codec_family :: string
  sg_profile :: string
  sg_profile_version :: string
  sg_runtime_dtype :: dtype
  sg_batch :: u64
  sg_latent_channels :: u64
  sg_latent_slots :: u64
  sg_latent_height :: u64
  sg_latent_width :: u64
  sg_decoded_frame_count :: u64
  sg_decoded_height :: u32
  sg_decoded_width :: u32
  sg_timing_contract :: string
  sg_timing_contract_version :: string
  sg_frame_rate :: rational

definition from_h3 :: "validated_h3_profile \<Rightarrow> signal_geometry" where
  "from_h3 profile = (let key = hp_compatibility_key profile in
     \<lparr>sg_codec_family = hk_codec_family key, sg_profile = hk_profile key,
      sg_profile_version = hk_profile_version key, sg_runtime_dtype = hk_runtime_dtype key,
      sg_batch = hk_batch key, sg_latent_channels = hk_latent_channels key,
      sg_latent_slots = vv_latent_slots (hp_visual profile),
      sg_latent_height = hk_latent_height key, sg_latent_width = hk_latent_width key,
      sg_decoded_frame_count = vv_decoded_frame_count (hp_visual profile),
      sg_decoded_height = vv_decoded_height (hp_visual profile),
      sg_decoded_width = vv_decoded_width (hp_visual profile),
      sg_timing_contract = hk_timing_contract key,
      sg_timing_contract_version = hk_timing_contract_version key,
      sg_frame_rate = hk_frame_rate key\<rparr>)"

section \<open>Presentation and workload\<close>

datatype (plugins only: ) orientation = Portrait | Landscape | Square

definition from_extent :: "u32 \<Rightarrow> u32 \<Rightarrow> orientation" where
  "from_extent width height =
     (if width > height then Landscape else if width < height then Portrait else Square)"

record aspect_ratio =
  ar_width :: u64
  ar_height :: u64

definition sg_greatest_common_divisor :: "u64 \<Rightarrow> u64 \<Rightarrow> u64" where
  "sg_greatest_common_divisor left right =
     (let left = gcd_loop left right in if left = 0 then 1 else left)"

definition reduce_ratio :: "u64 \<Rightarrow> u64 \<Rightarrow> aspect_ratio" where
  "reduce_ratio width height = (let divisor = sg_greatest_common_divisor width height in
     \<lparr>ar_width = width div divisor, ar_height = height div divisor\<rparr>)"

record signal_presentation =
  pr_orientation :: orientation
  pr_aspect_ratio :: aspect_ratio
  pr_decoded_width :: u32
  pr_decoded_height :: u32

definition presentation :: "signal_geometry \<Rightarrow> signal_presentation" where
  "presentation g =
     \<lparr>pr_orientation = from_extent (sg_decoded_width g) (sg_decoded_height g),
      pr_aspect_ratio = reduce_ratio (ucast (sg_decoded_width g)) (ucast (sg_decoded_height g)),
      pr_decoded_width = sg_decoded_width g, pr_decoded_height = sg_decoded_height g\<rparr>"

record signal_workload =
  wl_latent_sites_per_slot :: "u64 option"
  wl_latent_values_per_slot :: "u64 option"
  wl_latent_values_per_clip :: "u64 option"
  wl_decoded_pixels_per_frame :: "u64 option"

definition workload :: "signal_geometry \<Rightarrow> signal_workload" where
  "workload g =
     (let latent_sites_per_slot = checked_mul (sg_latent_height g) (sg_latent_width g);
          latent_values_per_slot = Option.bind (Option.bind latent_sites_per_slot
            (\<lambda>sites. checked_mul sites (sg_latent_channels g))) (\<lambda>values. checked_mul values (sg_batch g));
          latent_values_per_clip = Option.bind latent_values_per_slot
            (\<lambda>values. checked_mul values (sg_latent_slots g));
          decoded_pixels_per_frame =
            checked_mul (ucast (sg_decoded_width g)) (ucast (sg_decoded_height g)) in
      \<lparr>wl_latent_sites_per_slot = latent_sites_per_slot,
       wl_latent_values_per_slot = latent_values_per_slot,
       wl_latent_values_per_clip = latent_values_per_clip,
       wl_decoded_pixels_per_frame = decoded_pixels_per_frame\<rparr>)"

section \<open>Compatibility\<close>

datatype (plugins only: ) signal_policy = PolicyPlayback | SpatialSynthesis | FullTensorSynthesis

datatype (plugins only: ) mismatch_code =
    MmCodecFamily | MmProfile | MmProfileVersion | MmRuntimeDtype | MmBatch | MmLatentChannels
  | MmLatentHeight | MmLatentWidth | MmLatentSlots | MmDecodedHeight | MmDecodedWidth
  | MmDecodedFrameCount | MmTimingContract | MmTimingContractVersion | MmFrameRate

record geometry_mismatch =
  gm_candidate_index :: nat
  gm_code :: mismatch_code
  gm_expected :: string
  gm_actual :: string

record compatibility_report =
  cr_policy :: signal_policy
  cr_compatible :: bool
  cr_mismatches :: "geometry_mismatch list"

definition dtype_text :: "dtype \<Rightarrow> string" where
  "dtype_text d = (case d of DtF16 \<Rightarrow> ''F16'' | DtF32 \<Rightarrow> ''F32'' | DtUnsupported \<Rightarrow> ''UNSUPPORTED'')"

definition rational_text :: "rational \<Rightarrow> string" where
  "rational_text v = decimal (unat (ra_numerator v)) @ ''/'' @ decimal (unat (ra_denominator v))"

definition push_text_mismatch ::
  "geometry_mismatch list \<Rightarrow> nat \<Rightarrow> mismatch_code \<Rightarrow> string \<Rightarrow> string \<Rightarrow> geometry_mismatch list" where
  "push_text_mismatch mismatches candidate_index code expected actual =
     (if expected \<noteq> actual
      then mismatches @ [\<lparr>gm_candidate_index = candidate_index, gm_code = code,
        gm_expected = expected, gm_actual = actual\<rparr>]
      else mismatches)"

definition push_u64_mismatch ::
  "geometry_mismatch list \<Rightarrow> nat \<Rightarrow> mismatch_code \<Rightarrow> u64 \<Rightarrow> u64 \<Rightarrow> geometry_mismatch list" where
  "push_u64_mismatch mismatches candidate_index code expected actual =
     (if expected \<noteq> actual
      then mismatches @ [\<lparr>gm_candidate_index = candidate_index, gm_code = code,
        gm_expected = decimal (unat expected), gm_actual = decimal (unat actual)\<rparr>]
      else mismatches)"

definition push_u32_mismatch ::
  "geometry_mismatch list \<Rightarrow> nat \<Rightarrow> mismatch_code \<Rightarrow> u32 \<Rightarrow> u32 \<Rightarrow> geometry_mismatch list" where
  "push_u32_mismatch mismatches candidate_index code expected actual =
     (if expected \<noteq> actual
      then mismatches @ [\<lparr>gm_candidate_index = candidate_index, gm_code = code,
        gm_expected = decimal (unat expected), gm_actual = decimal (unat actual)\<rparr>]
      else mismatches)"

definition push_dtype_mismatch ::
  "geometry_mismatch list \<Rightarrow> nat \<Rightarrow> dtype \<Rightarrow> dtype \<Rightarrow> geometry_mismatch list" where
  "push_dtype_mismatch mismatches candidate_index expected actual =
     (if expected \<noteq> actual
      then mismatches @ [\<lparr>gm_candidate_index = candidate_index, gm_code = MmRuntimeDtype,
        gm_expected = dtype_text expected, gm_actual = dtype_text actual\<rparr>]
      else mismatches)"

definition compare_common ::
  "signal_geometry \<Rightarrow> signal_geometry \<Rightarrow> nat \<Rightarrow> geometry_mismatch list \<Rightarrow> geometry_mismatch list" where
  "compare_common r c i ms =
     (let ms = push_text_mismatch ms i MmCodecFamily (sg_codec_family r) (sg_codec_family c);
          ms = push_text_mismatch ms i MmProfile (sg_profile r) (sg_profile c);
          ms = push_text_mismatch ms i MmProfileVersion (sg_profile_version r) (sg_profile_version c);
          ms = push_dtype_mismatch ms i (sg_runtime_dtype r) (sg_runtime_dtype c);
          ms = push_u64_mismatch ms i MmBatch (sg_batch r) (sg_batch c);
          ms = push_u64_mismatch ms i MmLatentChannels (sg_latent_channels r) (sg_latent_channels c);
          ms = push_u64_mismatch ms i MmLatentHeight (sg_latent_height r) (sg_latent_height c);
          ms = push_u64_mismatch ms i MmLatentWidth (sg_latent_width r) (sg_latent_width c);
          ms = push_u32_mismatch ms i MmDecodedHeight (sg_decoded_height r) (sg_decoded_height c);
          ms = push_u32_mismatch ms i MmDecodedWidth (sg_decoded_width r) (sg_decoded_width c);
          ms = push_text_mismatch ms i MmTimingContract (sg_timing_contract r) (sg_timing_contract c);
          ms = push_text_mismatch ms i MmTimingContractVersion (sg_timing_contract_version r)
            (sg_timing_contract_version c) in
      if sg_frame_rate r \<noteq> sg_frame_rate c
      then ms @ [\<lparr>gm_candidate_index = i, gm_code = MmFrameRate,
        gm_expected = rational_text (sg_frame_rate r), gm_actual = rational_text (sg_frame_rate c)\<rparr>]
      else ms)"

primrec compare_candidates ::
  "signal_policy \<Rightarrow> signal_geometry \<Rightarrow> nat \<Rightarrow> geometry_mismatch list \<Rightarrow> signal_geometry list \<Rightarrow>
    geometry_mismatch list" where
  "compare_candidates policy r i ms [] = ms"
| "compare_candidates policy r i ms (c # cs) =
     (let ms = compare_common r c i ms;
          ms = (if policy = FullTensorSynthesis
            then push_u64_mismatch
              (push_u64_mismatch ms i MmLatentSlots (sg_latent_slots r) (sg_latent_slots c))
              i MmDecodedFrameCount (sg_decoded_frame_count r) (sg_decoded_frame_count c)
            else ms) in
      compare_candidates policy r (i + 1) ms cs)"

definition check_signal_compatibility ::
  "signal_policy \<Rightarrow> signal_geometry \<Rightarrow> signal_geometry list \<Rightarrow> compatibility_report" where
  "check_signal_compatibility policy reference candidates =
     (if policy = PolicyPlayback
      then \<lparr>cr_policy = policy, cr_compatible = True, cr_mismatches = []\<rparr>
      else let mismatches = compare_candidates policy reference 0 [] candidates in
        \<lparr>cr_policy = policy, cr_compatible = (mismatches = []), cr_mismatches = mismatches\<rparr>)"

section \<open>Texts tell fields apart\<close>

definition undecimal :: "string \<Rightarrow> nat" where
  "undecimal s = foldl (\<lambda>v c. 10 * v + (of_char c - 48)) 0 s"

lemma undecimal_decimal: "undecimal (decimal n) = n"
proof (induction n rule: decimal.induct)
  case (1 n)
  show ?case
  proof (cases "n < 10")
    case True
    then show ?thesis
      by (simp add: decimal.simps [of n] undecimal_def)
  next
    case False
    then have "undecimal (decimal (n div 10)) = n div 10"
      using 1 by simp
    then show ?thesis
      using False by (simp add: decimal.simps [of n] undecimal_def)
  qed
qed

lemma decimal_inject: "decimal m = decimal n \<longleftrightarrow> m = n"
  by (metis undecimal_decimal)

lemma decimal_digits: "c \<in> set (decimal n) \<Longrightarrow> 48 \<le> (of_char c :: nat) \<and> (of_char c :: nat) \<le> 57"
proof (induction n rule: decimal.induct)
  case (1 n)
  then show ?case
    by (subst (asm) (2) decimal.simps) (auto split: if_splits)
qed

lemma decimal_no_slash: "c \<in> set (decimal n) \<Longrightarrow> c \<noteq> CHR ''/''"
  using decimal_digits [of c n] by auto

lemma rational_text_inject: "rational_text x = rational_text y \<longleftrightarrow> x = y"
proof
  assume eq: "rational_text x = rational_text y"
  have head: "takeWhile (\<lambda>c. c \<noteq> CHR ''/'') (rational_text z) = decimal (unat (ra_numerator z))"
    "dropWhile (\<lambda>c. c \<noteq> CHR ''/'') (rational_text z) = ''/'' @ decimal (unat (ra_denominator z))" for z
    by (simp_all add: rational_text_def takeWhile_append2 dropWhile_append2 decimal_no_slash)
  have "decimal (unat (ra_numerator x)) = decimal (unat (ra_numerator y))"
    "decimal (unat (ra_denominator x)) = decimal (unat (ra_denominator y))"
    using eq head by (metis, metis same_append_eq)
  then show "x = y"
    by (intro rational.equality) (simp_all add: decimal_inject word_unat_eq_iff)
qed simp

lemma dtype_text_inject: "dtype_text x = dtype_text y \<longleftrightarrow> x = y"
  by (cases x; cases y; simp add: dtype_text_def)

section \<open>The report, exactly\<close>

text \<open>The fields a policy compares, in the order of the code, each as its text.\<close>

definition compared_fields :: "signal_policy \<Rightarrow> signal_geometry \<Rightarrow> (mismatch_code \<times> string) list" where
  "compared_fields policy g =
     [(MmCodecFamily, sg_codec_family g), (MmProfile, sg_profile g),
      (MmProfileVersion, sg_profile_version g), (MmRuntimeDtype, dtype_text (sg_runtime_dtype g)),
      (MmBatch, decimal (unat (sg_batch g))), (MmLatentChannels, decimal (unat (sg_latent_channels g))),
      (MmLatentHeight, decimal (unat (sg_latent_height g))),
      (MmLatentWidth, decimal (unat (sg_latent_width g))),
      (MmDecodedHeight, decimal (unat (sg_decoded_height g))),
      (MmDecodedWidth, decimal (unat (sg_decoded_width g))),
      (MmTimingContract, sg_timing_contract g), (MmTimingContractVersion, sg_timing_contract_version g),
      (MmFrameRate, rational_text (sg_frame_rate g))] @
     (if policy = FullTensorSynthesis
      then [(MmLatentSlots, decimal (unat (sg_latent_slots g))),
            (MmDecodedFrameCount, decimal (unat (sg_decoded_frame_count g)))] else [])"

definition field_mismatches ::
  "nat \<Rightarrow> (mismatch_code \<times> string) list \<Rightarrow> (mismatch_code \<times> string) list \<Rightarrow> geometry_mismatch list" where
  "field_mismatches i rs cs = map (\<lambda>((code, e), (_, a)).
       \<lparr>gm_candidate_index = i, gm_code = code, gm_expected = e, gm_actual = a\<rparr>)
     (filter (\<lambda>((_, e), (_, a)). e \<noteq> a) (zip rs cs))"

lemma push_texts:
  "push_text_mismatch ms i code e a = ms @ field_mismatches i [(code, e)] [(code, a)]"
  "push_u64_mismatch ms i code m n =
     ms @ field_mismatches i [(code, decimal (unat m))] [(code, decimal (unat n))]"
  "push_u32_mismatch ms i code v w =
     ms @ field_mismatches i [(code, decimal (unat v))] [(code, decimal (unat w))]"
  "push_dtype_mismatch ms i d d' =
     ms @ field_mismatches i [(MmRuntimeDtype, dtype_text d)] [(MmRuntimeDtype, dtype_text d')]"
  "(if q \<noteq> r then ms @ [\<lparr>gm_candidate_index = i, gm_code = MmFrameRate,
        gm_expected = rational_text q, gm_actual = rational_text r\<rparr>] else ms) =
     ms @ field_mismatches i [(MmFrameRate, rational_text q)] [(MmFrameRate, rational_text r)]"
  by (simp_all add: push_text_mismatch_def push_u64_mismatch_def push_u32_mismatch_def
      push_dtype_mismatch_def field_mismatches_def decimal_inject dtype_text_inject rational_text_inject
      word_unat_eq_iff [symmetric])

lemma field_mismatches_Cons:
  "field_mismatches i (r # rs) (c # cs) = field_mismatches i [r] [c] @ field_mismatches i rs cs"
  by (simp add: field_mismatches_def)

lemma field_mismatches_Nil: "field_mismatches i [] [] = []"
  by (simp add: field_mismatches_def)

lemma compare_common_texts:
  "compare_common r c i ms =
     ms @ field_mismatches i (compared_fields SpatialSynthesis r) (compared_fields SpatialSynthesis c)"
  unfolding compare_common_def Let_def push_texts
  by (simp add: compared_fields_def field_mismatches_Cons [of i _ "_ # _" _ "_ # _"])

lemma compare_candidates_texts:
  assumes "policy \<noteq> PolicyPlayback"
  shows "compare_candidates policy r i ms cs = ms @ concat (map (\<lambda>(j, c).
     field_mismatches j (compared_fields policy r) (compared_fields policy c)) (enumerate i cs))"
proof (induction cs arbitrary: i ms)
  case (Cons c cs)
  have "(if policy = FullTensorSynthesis
      then push_u64_mismatch (push_u64_mismatch (compare_common r c i ms) i MmLatentSlots
        (sg_latent_slots r) (sg_latent_slots c)) i MmDecodedFrameCount
        (sg_decoded_frame_count r) (sg_decoded_frame_count c)
      else compare_common r c i ms) =
    ms @ field_mismatches i (compared_fields policy r) (compared_fields policy c)"
    using assms unfolding compare_common_texts push_texts
    by (cases policy)
      (simp_all add: compared_fields_def field_mismatches_Cons [of i _ "_ # _" _ "_ # _"])
  then show ?case
    by (simp add: Let_def Cons.IH)
qed simp

lemma no_field_mismatches:
  "field_mismatches i (compared_fields policy r) (compared_fields policy c) = [] \<longleftrightarrow>
     compared_fields policy r = compared_fields policy c"
  by (cases "policy = FullTensorSynthesis")
    (auto simp: field_mismatches_def compared_fields_def filter_empty_conv)

lemma same_fields_full: "compared_fields FullTensorSynthesis r = compared_fields FullTensorSynthesis c \<longleftrightarrow> c = r"
proof
  assume "compared_fields FullTensorSynthesis r = compared_fields FullTensorSynthesis c"
  then show "c = r"
    by (intro signal_geometry.equality)
      (simp_all add: compared_fields_def decimal_inject dtype_text_inject rational_text_inject
        word_unat_eq_iff [symmetric])
qed simp

lemma same_fields_spatial: "compared_fields SpatialSynthesis r = compared_fields SpatialSynthesis c \<longleftrightarrow>
   c\<lparr>sg_latent_slots := 0, sg_decoded_frame_count := 0\<rparr> = r\<lparr>sg_latent_slots := 0, sg_decoded_frame_count := 0\<rparr>"
proof -
  let ?cut = "\<lambda>g. g\<lparr>sg_latent_slots := 0, sg_decoded_frame_count := 0\<rparr>"
  have cut: "compared_fields SpatialSynthesis (?cut g) = compared_fields SpatialSynthesis g" for g
    by (simp add: compared_fields_def)
  have "?cut c = ?cut r" if "compared_fields SpatialSynthesis (?cut r) = compared_fields SpatialSynthesis (?cut c)"
    using that by (intro signal_geometry.equality)
      (simp_all add: compared_fields_def decimal_inject dtype_text_inject rational_text_inject
        word_unat_eq_iff [symmetric])
  then show ?thesis
    using cut [of r] cut [of c] by metis
qed

text \<open>C18: The report names every difference that the policy asks about and nothing else: candidate by
  candidate, in the fixed order of the fields, one mismatch for each field that differs, with the
  text of both values, which are different texts. So the report is compatible exactly when every
  candidate equals the reference, as a whole for full tensor synthesis, up to the length of the
  clip for spatial synthesis, and always for playback.
\<close>
theorem compatibility_report_exact:
  "cr_mismatches (check_signal_compatibility policy reference candidates) =
     (if policy = PolicyPlayback then []
      else concat (map (\<lambda>(i, c). field_mismatches i (compared_fields policy reference)
        (compared_fields policy c)) (enumerate 0 candidates))) \<and>
   cr_compatible (check_signal_compatibility policy reference candidates) =
     (case policy of PolicyPlayback \<Rightarrow> True
      | FullTensorSynthesis \<Rightarrow> list_all (\<lambda>c. c = reference) candidates
      | SpatialSynthesis \<Rightarrow> list_all (\<lambda>c. c\<lparr>sg_latent_slots := 0, sg_decoded_frame_count := 0\<rparr> =
          reference\<lparr>sg_latent_slots := 0, sg_decoded_frame_count := 0\<rparr>) candidates)"
proof (intro conjI)
  show mismatches: "cr_mismatches (check_signal_compatibility policy reference candidates) =
     (if policy = PolicyPlayback then []
      else concat (map (\<lambda>(i, c). field_mismatches i (compared_fields policy reference)
        (compared_fields policy c)) (enumerate 0 candidates)))"
    by (simp add: check_signal_compatibility_def compare_candidates_texts Let_def)
  have none: "concat (map (\<lambda>(i, c). field_mismatches i (compared_fields policy reference)
        (compared_fields policy c)) (enumerate n cs)) = [] \<longleftrightarrow>
      list_all (\<lambda>c. compared_fields policy reference = compared_fields policy c) cs" for n cs
    by (induction cs arbitrary: n) (simp_all add: no_field_mismatches)
  show "cr_compatible (check_signal_compatibility policy reference candidates) =
     (case policy of PolicyPlayback \<Rightarrow> True
      | FullTensorSynthesis \<Rightarrow> list_all (\<lambda>c. c = reference) candidates
      | SpatialSynthesis \<Rightarrow> list_all (\<lambda>c. c\<lparr>sg_latent_slots := 0, sg_decoded_frame_count := 0\<rparr> =
          reference\<lparr>sg_latent_slots := 0, sg_decoded_frame_count := 0\<rparr>) candidates)"
  proof (cases "policy = PolicyPlayback")
    case True
    then show ?thesis
      by (simp add: check_signal_compatibility_def)
  next
    case False
    then have "cr_compatible (check_signal_compatibility policy reference candidates) =
        (cr_mismatches (check_signal_compatibility policy reference candidates) = [])"
      by (simp add: check_signal_compatibility_def Let_def)
    also have "\<dots> = list_all (\<lambda>c. compared_fields policy reference = compared_fields policy c) candidates"
      using mismatches none [of 0 candidates] False by (simp only: if_False)
    finally show ?thesis
      using False by (cases policy) (simp_all add: same_fields_full same_fields_spatial)
  qed
qed

lemma sum_tensor_bytes_widths:
  "sum_tensor_bytes t ds = Inr n \<Longrightarrow> d \<in> set ds \<Longrightarrow> byte_width (td_storage_dtype d) \<noteq> None"
  by (induction ds arbitrary: t) (auto simp: Let_def try_iffs if_Inr_guard)

lemma tensor_bytes_bound:
  assumes "validate_declared_tensor_bytes mf = Inr ()" and "d \<in> set (mf_tensors mf)"
  shows "2 * tensor_elements d \<le> unat (pd_byte_length (payload_0 mf))"
proof -
  obtain n where "sum_tensor_bytes 0 (mf_tensors mf) = Inr n"
    using assms(1) by (auto simp: validate_declared_tensor_bytes_def try_iffs)
  then have "byte_width (td_storage_dtype d) \<noteq> None"
    using sum_tensor_bytes_widths assms(2) by blast
  then have "2 * tensor_elements d \<le> tensor_byte_size d"
    by (auto simp: tensor_byte_size_def byte_width_def split: dtype.splits option.splits)
  also have "\<dots> \<le> sum_list (map tensor_byte_size (mf_tensors mf))"
    using assms(2) by (intro member_le_sum_list) auto
  also have "\<dots> \<le> unat (pd_byte_length (payload_0 mf))"
    using declared_bytes_fit(1) [OF assms(1)] by simp
  finally show ?thesis .
qed

lemma checked_mul_fits:
  "unat a * unat b < 2 ^ 64 \<Longrightarrow> map_option unat (checked_mul a (b :: u64)) = Some (unat a * unat b)"
proof (cases "checked_mul a b")
  case (Some c)
  then have "unat c = unat a * unat b"
    by (simp only: checked_mul_Some)
  then show ?thesis
    by (simp add: Some)
qed (simp add: checked_mul_None)

lemma map_option_Some: "map_option f x = Some y \<Longrightarrow> \<exists>z. x = Some z \<and> f z = y"
  by (cases x) auto

lemma cross_div: "m div gcd m n * n = n div gcd m n * m" for m n :: nat
proof -
  have "m div gcd m n * n = m * n div gcd m n"
    by (rule dvd_div_mult) simp
  moreover have "n div gcd m n * m = n * m div gcd m n"
    by (rule dvd_div_mult) simp
  ultimately show ?thesis
    by (simp only: mult.commute)
qed

lemma reduce_ratio_lowest:
  assumes "0 < width"
  shows "coprime (unat (ar_width (reduce_ratio width height))) (unat (ar_height (reduce_ratio width height)))"
    and "unat (ar_width (reduce_ratio width height)) * unat height =
      unat (ar_height (reduce_ratio width height)) * unat width"
proof -
  have pos: "0 < unat width"
    using assms by (simp add: word_less_nat_alt)
  have "unat (gcd_loop width height) \<noteq> 0"
    using pos by (simp only: gcd_loop_unat) simp
  then have "gcd_loop width height \<noteq> 0"
    by (metis unat_0)
  then have g: "unat (sg_greatest_common_divisor width height) = gcd (unat width) (unat height)"
    by (simp only: sg_greatest_common_divisor_def Let_def gcd_loop_unat if_False)
  show "coprime (unat (ar_width (reduce_ratio width height))) (unat (ar_height (reduce_ratio width height)))"
    unfolding reduce_ratio_def Let_def aspect_ratio.simps unat_div_word g
    using pos by (intro div_gcd_coprime) simp
  show "unat (ar_width (reduce_ratio width height)) * unat height =
      unat (ar_height (reduce_ratio width height)) * unat width"
    unfolding reduce_ratio_def Let_def aspect_ratio.simps unat_div_word g by (rule cross_div)
qed

text \<open>The workload of a validated cartridge is exact. For every manifest that the H3 profile accepts,
  none of the products overflows, so a deck is never left without a number: sites, values of a
  slot and of the clip and pixels of a frame are the exact products, the values of the clip take
  at most the declared payload at two bytes each, and the pixels of a frame are 256 for each site;
  and the aspect ratio is the decoded size in lowest terms.
\<close>
theorem validated_workload_exact:
  assumes "h3_validate ex mf limits = Inr p"
  defines "g \<equiv> from_h3 p" and "w \<equiv> workload (from_h3 p)"
  defines "sites \<equiv> unat (sg_latent_height g) * unat (sg_latent_width g)"
  shows "map_option unat (wl_latent_sites_per_slot w) = Some sites \<and>
    map_option unat (wl_latent_values_per_slot w) = Some (24 * sites) \<and>
    map_option unat (wl_latent_values_per_clip w) = Some (24 * sites * unat (sg_latent_slots g)) \<and>
    2 * (24 * sites * unat (sg_latent_slots g)) \<le> unat (pd_byte_length (payload_0 mf)) \<and>
    map_option unat (wl_decoded_pixels_per_frame w) = Some (256 * sites) \<and>
    (let r = pr_aspect_ratio (presentation g) in
     coprime (unat (ar_width r)) (unat (ar_height r)) \<and>
     unat (ar_width r) * unat (sg_decoded_height g) = unat (ar_height r) * unat (sg_decoded_width g))"
proof -
  define V where "V = hp_visual p"
  obtain v where bytes: "validate_declared_tensor_bytes mf = Inr ()"
    and one: "exactly_one_tensor (mf_tensors mf) StreamVisual ''video'' = Inr v"
    and visual: "validate_visual v mf limits = Inr V"
    and key: "hk_batch (hp_compatibility_key p) = td_shape v ! 0"
      "hk_latent_channels (hp_compatibility_key p) = td_shape v ! 1"
      "hk_latent_height (hp_compatibility_key p) = vv_latent_height V"
      "hk_latent_width (hp_compatibility_key p) = vv_latent_width V"
    by (rule h3_validate_parts [OF assms(1), folded V_def]) (rule that; assumption)
  note shape = visual_exact [OF visual]
  note height = decoded_axis_exact [OF shape(5)] and width = decoded_axis_exact [OF shape(6)]
  have g: "sg_batch g = 1" "sg_latent_channels g = 24" "sg_latent_slots g = vv_latent_slots V"
    "sg_latent_height g = vv_latent_height V" "sg_latent_width g = vv_latent_width V"
    "sg_decoded_height g = vv_decoded_height V" "sg_decoded_width g = vv_decoded_width V"
    by (simp_all add: g_def from_h3_def Let_def key shape(1) V_def)
  let ?T = "unat (vv_latent_slots V)"
  have elements: "tensor_elements v = 24 * sites * ?T"
    by (simp add: tensor_elements_def shape(1) sites_def g)
  have payload: "2 * (24 * sites * ?T) \<le> unat (pd_byte_length (payload_0 mf))"
    using tensor_bytes_bound [OF bytes exactly_one_tensor_in(1) [OF one]] by (simp add: elements)
  have "0 < ?T"
    using shape(4) by (auto simp: decoded_frame_count_Inr)
  define n where "n = sites * ?T"
  have "sites \<le> n"
    using \<open>0 < ?T\<close> by (simp add: n_def)
  moreover have "48 * n \<le> unat (pd_byte_length (payload_0 mf))"
    using payload by (simp add: n_def)
  moreover have "unat (pd_byte_length (payload_0 mf)) < 2 ^ 64"
    using unsigned_less [where 'a = nat, of "pd_byte_length (payload_0 mf)"] by simp
  ultimately have "24 * n < 2 ^ 64" "24 * sites < 2 ^ 64" "sites < 2 ^ 64"
    by linarith+
  then have small: "24 * sites * ?T < 2 ^ 64" "24 * sites < 2 ^ 64" "sites < 2 ^ 64"
    by (simp_all add: n_def)
  obtain a where a: "checked_mul (vv_latent_height V) (vv_latent_width V) = Some a" "unat a = sites"
    using checked_mul_fits [of "vv_latent_height V" "vv_latent_width V"] small(3)
    by (auto simp: sites_def g dest: map_option_Some)
  obtain b where b: "checked_mul a 24 = Some b" "unat b = 24 * sites"
    using checked_mul_fits [of a 24] small(2) a(2) by (auto simp: mult.commute dest: map_option_Some)
  have b1: "checked_mul b 1 = Some b"
    by (simp add: checked_mul_Some)
  obtain c where c: "checked_mul b (vv_latent_slots V) = Some c" "unat c = 24 * sites * ?T"
    using checked_mul_fits [of b "vv_latent_slots V"] small(1) b(2) by (auto dest: map_option_Some)
  have pixels: "256 * sites = unat (ucast (vv_decoded_width V) :: u64) * unat (ucast (vv_decoded_height V) :: u64)"
    using height(1) width(1) by (simp add: sites_def g)
  have "unat (ucast (vv_decoded_width V) :: u64) * unat (ucast (vv_decoded_height V) :: u64) < 2 ^ 32 * 2 ^ 32"
    using unsigned_less [of "vv_decoded_width V"] unsigned_less [of "vv_decoded_height V"]
    by (intro mult_strict_mono) simp_all
  then have "map_option unat (checked_mul (ucast (vv_decoded_width V) :: u64) (ucast (vv_decoded_height V))) =
      Some (256 * sites)"
    unfolding pixels by (intro checked_mul_fits) simp
  moreover have "0 < (ucast (vv_decoded_width V) :: u64)"
    using width(2) by (simp add: word_less_nat_alt)
  ultimately show ?thesis
    using payload reduce_ratio_lowest [of "ucast (vv_decoded_width V)" "ucast (vv_decoded_height V)"]
    by (simp add: w_def g_def [symmetric] workload_def Let_def g a b b1 c presentation_def)
qed

theorem validated_workload_exact_witness:
  "map_option unat (wl_latent_values_per_clip (workload (from_h3 sample_h3_profile))) = Some 672 \<and>
   map_option unat (wl_decoded_pixels_per_frame (workload (from_h3 sample_h3_profile))) = Some 1024"
  using validated_workload_exact [OF sample_manifest_valid]
  by (simp add: sample_h3_profile_def from_h3_def)

end
