(* ===== verification/Extension_Model.thy ===== *)
theory Extension_Model
  imports LD_Prelude
begin

text \<open>
  The data of the extension manager (\<open>crates/extension-manager/src/model.rs\<close> and \<open>error.rs\<close>):
  package kinds and references, the manifests of decks and codec packs, the integrity catalog, the
  trust receipt, the summaries of installed packages, and the errors. A field has its source name
  behind a prefix for its struct.
\<close>

section \<open>Errors\<close>

datatype ext_error_code =
    ExInvalidArguments | ExArchiveInvalid | ExManifestInvalid | ExIntegrityFailed
  | ExPackageExists | ExPackageMissing | ExPackageActive | ExPackageDisabled | ExPackageUntrusted
  | ExLifecycleBusy | ExLifecycleConflict | ExIo

definition ext_error_as_str :: "ext_error_code \<Rightarrow> string" where
  "ext_error_as_str c = (case c of
       ExInvalidArguments \<Rightarrow> ''extension.invalid_arguments''
     | ExArchiveInvalid \<Rightarrow> ''extension.archive_invalid''
     | ExManifestInvalid \<Rightarrow> ''extension.manifest_invalid''
     | ExIntegrityFailed \<Rightarrow> ''extension.integrity_failed''
     | ExPackageExists \<Rightarrow> ''extension.package_exists''
     | ExPackageMissing \<Rightarrow> ''extension.package_missing''
     | ExPackageActive \<Rightarrow> ''extension.package_active''
     | ExPackageDisabled \<Rightarrow> ''extension.package_disabled''
     | ExPackageUntrusted \<Rightarrow> ''extension.package_untrusted''
     | ExLifecycleBusy \<Rightarrow> ''extension.lifecycle_busy''
     | ExLifecycleConflict \<Rightarrow> ''extension.lifecycle_conflict''
     | ExIo \<Rightarrow> ''extension.io'')"

definition ext_exit_code :: "ext_error_code \<Rightarrow> u8" where
  "ext_exit_code c = (case c of
       ExInvalidArguments \<Rightarrow> 10
     | ExArchiveInvalid \<Rightarrow> 20
     | ExManifestInvalid \<Rightarrow> 20
     | ExIntegrityFailed \<Rightarrow> 20
     | ExPackageExists \<Rightarrow> 30
     | ExPackageMissing \<Rightarrow> 31
     | ExPackageActive \<Rightarrow> 50
     | ExPackageDisabled \<Rightarrow> 50
     | ExPackageUntrusted \<Rightarrow> 40
     | ExLifecycleBusy \<Rightarrow> 40
     | ExLifecycleConflict \<Rightarrow> 40
     | ExIo \<Rightarrow> 40)"

record extension_error =
  ee_code :: ext_error_code
  ee_detail :: string

definition extension_error_new :: "ext_error_code \<Rightarrow> string \<Rightarrow> extension_error" where
  "extension_error_new code detail = \<lparr>ee_code = code, ee_detail = detail\<rparr>"

type_synonym 'a ext_result = "extension_error + 'a"

section \<open>Packages\<close>

datatype package_kind = DeckPack | CodecPack

definition archive_extension :: "package_kind \<Rightarrow> string" where
  "archive_extension k = (case k of DeckPack \<Rightarrow> ''ld'' | CodecPack \<Rightarrow> ''ldcodec'')"

definition manifest_name :: "package_kind \<Rightarrow> string" where
  "manifest_name k = (case k of DeckPack \<Rightarrow> ''deck-pack.json'' | CodecPack \<Rightarrow> ''codec-pack.json'')"

definition root_name :: "package_kind \<Rightarrow> string" where
  "root_name k = (case k of DeckPack \<Rightarrow> ''Decks'' | CodecPack \<Rightarrow> ''CodecPacks'')"

definition receipt_root_name :: "package_kind \<Rightarrow> string" where
  "receipt_root_name k = (case k of DeckPack \<Rightarrow> ''decks'' | CodecPack \<Rightarrow> ''codecs'')"

record package_reference =
  pref_kind :: package_kind
  pref_package_id :: string
  pref_package_version :: string

record bundled_package_entry =
  be_package :: package_reference
  be_archive_sha256 :: string

record bundled_package_index =
  bi_index_version :: string
  bi_packages :: "bundled_package_entry list"

datatype publisher_identity_claim = SelfDeclared

record publisher_descriptor =
  pub_name :: string
  pub_url :: "string option"
  pub_identity_claim :: publisher_identity_claim

record license_descriptor =
  lic_spdx_or_label :: string
  lic_notice_path :: string

record ext_profile_key =
  epk_codec_family :: string
  epk_profile :: string
  epk_profile_version :: string

datatype python_implementation = Cpython

record python_constraint =
  py_implementation :: python_implementation
  py_version :: string
  py_platform_tag :: string

datatype codec_capability =
    CcPlayer | CcRealtime | CcResample | CcSnapshotCapture | CcLiveCapture | CcRawImport

datatype ext_tensor_dtype = TdFp16 | TdFp32

datatype tensor_device = TdCpu | TdCuda

record ext_signal_geometry =
  eg_dtype :: ext_tensor_dtype
  eg_device :: tensor_device
  eg_batch :: u8
  eg_channels :: u16
  eg_temporal :: u8
  eg_height :: u32
  eg_width :: u32

record ext_timing_descriptor =
  td_frames_per_second_numerator :: u32
  td_frames_per_second_denominator :: u32
  td_samples_per_slot :: u32

record integrity_descriptor =
  id_catalog_path :: string
  id_catalog_sha256 :: string

record integrity_file =
  if_path :: string
  if_byte_length :: u64
  if_sha256 :: string

record integrity_catalog =
  ic_manifest_version :: string
  ic_files :: "integrity_file list"

section \<open>The manifests\<close>

record deck_compatibility =
  dc_app_min_inclusive :: string
  dc_app_max_exclusive :: string
  dc_deck_host_api :: u16
  dc_worker_protocol :: u16
  dc_deck_operator_api :: u16
  dc_tensor_abi :: string
  dc_python :: python_constraint
  dc_torch_exact_build :: string

datatype deck_runtime_kind = PythonOperatorStreamV1

record deck_runtime_descriptor =
  rtd_kind :: deck_runtime_kind
  rtd_operator_descriptor_path :: string
  rtd_python_root :: string
  rtd_entrypoint :: string

record deck_role_descriptor =
  role_role_id :: string
  role_display_name :: string

record deck_signal_descriptor =
  dsd_slots :: u8
  dsd_roles :: "deck_role_descriptor list"
  dsd_default_permutation :: "string list"
  dsd_structural_carrier_role :: string
  dsd_geometry_allowlist :: "ext_signal_geometry list"
  dsd_timing :: ext_timing_descriptor
  dsd_required_capabilities :: "codec_capability list"
  dsd_profile_allowlist :: "ext_profile_key list option"

record deck_pack_manifest =
  dm_manifest_version :: string
  dm_kind :: package_kind
  dm_deck_id :: string
  dm_deck_version :: string
  dm_display_name :: string
  dm_summary :: string
  dm_publisher :: publisher_descriptor
  dm_license :: license_descriptor
  dm_compatibility :: deck_compatibility
  dm_runtime :: deck_runtime_descriptor
  dm_signal :: deck_signal_descriptor
  dm_faceplate_path :: string
  dm_integrity :: integrity_descriptor

datatype operating_system = Windows

datatype architecture = X86_64

record platform_descriptor =
  pld_os :: operating_system
  pld_arch :: architecture

record codec_compatibility =
  ccm_app_min_inclusive :: string
  ccm_app_max_exclusive :: string
  ccm_worker_protocol :: u16
  ccm_codec_adapter_api :: u16
  ccm_tensor_abi :: string
  ccm_python :: python_constraint
  ccm_torch_exact_build :: string
  ccm_lc_spec_versions :: "string list"
  ccm_profiles :: "ext_profile_key list"

record codec_adapter_descriptor =
  cad_adapter_id :: string
  cad_adapter_version :: string
  cad_entrypoint :: string

record codec_worker_descriptor =
  cwd_executable :: string
  cwd_arguments :: "string list"
  cwd_working_directory :: string
  cwd_start_timeout_ms :: u32
  cwd_heartbeat_timeout_ms :: u32

record external_asset_descriptor =
  ead_asset_id :: string
  ead_display_name :: string
  ead_required :: bool
  ead_byte_length :: u64
  ead_sha256 :: string
  ead_source_url :: "string option"
  ead_license_label :: string
  ead_license_url :: "string option"

record runtime_lock_descriptor =
  rld_path :: string
  rld_sha256 :: string

record codec_pack_manifest =
  cm_manifest_version :: string
  cm_kind :: package_kind
  cm_pack_id :: string
  cm_pack_version :: string
  cm_display_name :: string
  cm_summary :: string
  cm_publisher :: publisher_descriptor
  cm_license :: license_descriptor
  cm_platform :: platform_descriptor
  cm_compatibility :: codec_compatibility
  cm_adapter :: codec_adapter_descriptor
  cm_worker :: codec_worker_descriptor
  cm_capabilities :: "codec_capability list"
  cm_external_assets :: "external_asset_descriptor list"
  cm_runtime_lock :: runtime_lock_descriptor
  cm_integrity :: integrity_descriptor

datatype package_manifest =
    DeckManifest deck_pack_manifest
  | CodecManifest codec_pack_manifest

definition manifest_kind :: "package_manifest \<Rightarrow> package_kind" where
  "manifest_kind m = (case m of DeckManifest d \<Rightarrow> DeckPack | CodecManifest c \<Rightarrow> CodecPack)"

definition manifest_package_id :: "package_manifest \<Rightarrow> string" where
  "manifest_package_id m = (case m of DeckManifest d \<Rightarrow> dm_deck_id d | CodecManifest c \<Rightarrow> cm_pack_id c)"

definition manifest_package_version :: "package_manifest \<Rightarrow> string" where
  "manifest_package_version m =
     (case m of DeckManifest d \<Rightarrow> dm_deck_version d | CodecManifest c \<Rightarrow> cm_pack_version c)"

definition manifest_display_name :: "package_manifest \<Rightarrow> string" where
  "manifest_display_name m =
     (case m of DeckManifest d \<Rightarrow> dm_display_name d | CodecManifest c \<Rightarrow> cm_display_name c)"

definition manifest_publisher :: "package_manifest \<Rightarrow> publisher_descriptor" where
  "manifest_publisher m =
     (case m of DeckManifest d \<Rightarrow> dm_publisher d | CodecManifest c \<Rightarrow> cm_publisher c)"

definition manifest_license :: "package_manifest \<Rightarrow> license_descriptor" where
  "manifest_license m =
     (case m of DeckManifest d \<Rightarrow> dm_license d | CodecManifest c \<Rightarrow> cm_license c)"

definition manifest_integrity :: "package_manifest \<Rightarrow> integrity_descriptor" where
  "manifest_integrity m =
     (case m of DeckManifest d \<Rightarrow> dm_integrity d | CodecManifest c \<Rightarrow> cm_integrity c)"

definition manifest_reference :: "package_manifest \<Rightarrow> package_reference" where
  "manifest_reference m =
     \<lparr>pref_kind = manifest_kind m, pref_package_id = manifest_package_id m,
      pref_package_version = manifest_package_version m\<rparr>"

section \<open>Receipts and summaries\<close>

record trust_receipt =
  tr_receipt_version :: string
  tr_package :: package_reference
  tr_archive_sha256 :: string
  tr_archive_byte_length :: u64
  tr_manifest_sha256 :: string
  tr_integrity_catalog_sha256 :: string
  tr_publisher_name :: string
  tr_publisher_identity_claim :: publisher_identity_claim
  tr_installed_at_utc :: string
  tr_enabled :: bool
  tr_runtime_seal_sha256 :: "string option"

record inspected_package =
  ip_package :: package_reference
  ip_display_name :: string
  ip_publisher_name :: string
  ip_publisher_identity_claim :: publisher_identity_claim
  ip_archive_sha256 :: string
  ip_archive_byte_length :: u64
  ip_manifest_sha256 :: string
  ip_integrity_catalog_sha256 :: string
  ip_file_count :: nat
  ip_extracted_byte_length :: u64
  ip_manifest :: package_manifest

datatype package_health = Healthy | VerificationRequired | Corrupt | HealthUntrusted

record installed_package_summary =
  sum_package :: package_reference
  sum_display_name :: "string option"
  sum_publisher_name :: "string option"
  sum_enabled :: bool
  sum_health :: package_health
  sum_error_code :: "string option"
  sum_error_detail :: "string option"

end
