(* ===== verification/Windows_Paths.thy ===== *)
theory Windows_Paths
  imports Text_Split
begin

text \<open>
  Paths of package files: \<open>Path::components\<close>, \<open>file_name\<close> and \<open>extension\<close> of the standard library
  on Windows for the texts the code gives them (no backslash and no leading slash), and the checks of
  \<open>crates/extension-manager/src/schema.rs\<close> on the components of a portable path, with the
  paths they accept.
\<close>

section \<open>Components of a path\<close>

datatype path_component =
    PcPrefix string | PcRootDir | PcCurDir | PcParentDir | PcNormal string

definition segment_component :: "string \<Rightarrow> path_component list" where
  "segment_component s =
     (if s = [] \<or> s = ''.'' then [] else if s = ''..'' then [PcParentDir] else [PcNormal s])"

definition path_components :: "string \<Rightarrow> path_component list" where
  "path_components v =
     (let drive = (case v of a # b # _ \<Rightarrow> is_drive_letter a \<and> b = CHR '':'' | _ \<Rightarrow> False);
          rest = (if drive then drop 2 v else v);
          root = (drive \<and> starts_with CHR ''/'' rest);
          segments = split_on CHR ''/'' rest
      in (if drive then [PcPrefix (take 2 v)] else []) @ (if root then [PcRootDir] else []) @
         (if hd segments = ''.'' \<and> \<not> root then [PcCurDir] else segment_component (hd segments)) @
         concat (map segment_component (tl segments)))"

definition is_normal :: "path_component \<Rightarrow> bool" where
  "is_normal c = (case c of PcNormal s \<Rightarrow> True | _ \<Rightarrow> False)"

definition path_file_name :: "string \<Rightarrow> string option" where
  "path_file_name v = (case rev (path_components v) of
       PcNormal s # _ \<Rightarrow> Some s
     | _ \<Rightarrow> None)"

text \<open>The part of a file name after its last dot, unless the dot begins the name.\<close>

definition path_extension :: "string \<Rightarrow> string option" where
  "path_extension v = Option.bind (path_file_name v) (\<lambda>file.
     let after = rev (takeWhile (\<lambda>c. c \<noteq> CHR ''.'') (rev file))
     in if file = ''..'' \<or> CHR ''.'' \<notin> set file \<or> length after + 1 = length file then None
        else Some after)"

section \<open>Texts\<close>

definition has_prefix :: "string \<Rightarrow> string \<Rightarrow> bool" where
  "has_prefix p s = (take (length p) s = p)"

definition trim_end_matches :: "char list \<Rightarrow> string \<Rightarrow> string" where
  "trim_end_matches cs s = rev (dropWhile (\<lambda>c. c \<in> set cs) (rev s))"

definition to_ascii_uppercase :: "char \<Rightarrow> char" where
  "to_ascii_uppercase c = (if is_ascii_lowercase c then char_of (byte_val c - 32) else c)"

definition is_ascii :: "string \<Rightarrow> bool" where
  "is_ascii s = list_all (\<lambda>c. byte_val c < 128) s"

text \<open>The stem of a component and whether its upper-case form names a device.\<close>

definition component_stem :: "string \<Rightarrow> string" where
  "component_stem c = trim_end_matches ''. '' (hd (split_on CHR ''.'' c))"

definition is_device_stem :: "string \<Rightarrow> bool" where
  "is_device_stem upper =
     (upper \<in> set [''CON'', ''PRN'', ''AUX'', ''NUL'', ''CLOCK$'', ''CONIN$'', ''CONOUT$''] \<or>
      length upper = 4 \<and> (has_prefix ''COM'' upper \<or> has_prefix ''LPT'' upper) \<and>
      is_ascii_digit (upper ! 3) \<and> upper ! 3 \<noteq> CHR ''0'')"

definition windows_unsafe_byte :: "char \<Rightarrow> bool" where
  "windows_unsafe_byte c =
     (byte_val c < 32 \<or> byte_val c = 127 \<or> c \<in> set ''<>:|?*'' \<or> c = CHR 0x22)"

text \<open>The two checks of \<open>validate_windows_component\<close>: unsafe characters, then device names.\<close>

definition windows_component_unsafe :: "string \<Rightarrow> bool" where
  "windows_component_unsafe c =
     (c = [] \<or> length c > 120 \<or> c = ''.'' \<or> c = ''..'' \<or>
      ends_with CHR ''.'' c \<or> ends_with CHR '' '' c \<or> \<not> is_ascii c \<or>
      list_ex windows_unsafe_byte c)"

definition windows_component_reserved :: "string \<Rightarrow> bool" where
  "windows_component_reserved c = is_device_stem (map to_ascii_uppercase (component_stem c))"

text \<open>The check of \<open>validate_portable_relative_path\<close> before the components are looked at one
  by one, and the one on the components of the standard library.\<close>

definition path_text_refused :: "string \<Rightarrow> bool" where
  "path_text_refused v =
     (v = [] \<or> length v > 240 \<or> starts_with CHR ''/'' v \<or> ends_with CHR ''/'' v \<or>
      CHR 0x5C \<in> set v \<or> CHR 0x00 \<in> set v)"

definition path_not_normal :: "string \<Rightarrow> bool" where
  "path_not_normal v = (is_absolute v \<or> list_ex (\<lambda>c. \<not> is_normal c) (path_components v))"

section \<open>What the checks accept\<close>

text \<open>The device names of Windows.\<close>

definition device_names :: "string list" where
  "device_names =
     [''CON'', ''PRN'', ''AUX'', ''NUL'', ''CLOCK$'', ''CONIN$'', ''CONOUT$''] @
     map (\<lambda>d. ''COM'' @ [d]) ''123456789'' @ map (\<lambda>d. ''LPT'' @ [d]) ''123456789''"

lemma decimal_codes: "48 \<le> n \<Longrightarrow> n \<le> 57 \<Longrightarrow> n \<in> set [48, 49, 50, 51, 52, 53, 54, 55, 56, 57 :: nat]"
  by simp presburger

lemma digit_char: "is_ascii_digit c \<and> c \<noteq> CHR ''0'' \<longleftrightarrow> c \<in> set ''123456789''"
proof -
  have "is_ascii_digit c \<Longrightarrow> c \<in> set ''0123456789''"
  proof -
    assume "is_ascii_digit c"
    then have "48 \<le> (of_char c :: nat)" "(of_char c :: nat) \<le> 57"
      by (simp_all add: ascii_defs)
    then have "(of_char c :: nat) \<in> set [48, 49, 50, 51, 52, 53, 54, 55, 56, 57]"
      by (rule decimal_codes)
    then have "char_of (of_char c :: nat) \<in> set (map char_of [48, 49, 50, 51, 52, 53, 54, 55, 56, 57 :: nat])"
      unfolding set_map by (rule imageI)
    moreover have "map char_of [48, 49, 50, 51, 52, 53, 54, 55, 56, 57 :: nat] = ''0123456789''"
      by (simp add: char_of_def bit_0)
    ultimately show ?thesis
      by (simp only: char_of_char)
  qed
  then show ?thesis
    by (auto simp: ascii_defs)
qed

lemma is_device_stem_iff: "is_device_stem u \<longleftrightarrow> u \<in> set device_names"
proof -
  have four: "length u = 4 \<and> has_prefix p u \<and> is_ascii_digit (u ! 3) \<and> u ! 3 \<noteq> CHR ''0'' \<longleftrightarrow>
      u \<in> set (map (\<lambda>d. p @ [d]) ''123456789'')" if p: "length p = 3" for p
  proof -
    have "length u = 4 \<and> has_prefix p u \<longleftrightarrow> (\<exists>d. u = p @ [d])"
    proof
      assume "length u = 4 \<and> has_prefix p u"
      then have len: "length u = 4" and tk: "take 3 u = p"
        by (simp_all add: has_prefix_def p)
      have "u = p @ drop 3 u"
        unfolding tk [symmetric] by simp
      moreover have "length (drop 3 u) = 1"
        using len by simp
      then obtain d where "drop 3 u = [d]"
        by (metis One_nat_def length_0_conv length_Suc_conv)
      ultimately show "\<exists>d. u = p @ [d]"
        by metis
    qed (auto simp: has_prefix_def p)
    then have "length u = 4 \<and> has_prefix p u \<and> is_ascii_digit (u ! 3) \<and> u ! 3 \<noteq> CHR ''0'' \<longleftrightarrow>
        (\<exists>d\<in>set ''123456789''. u = p @ [d])"
      using digit_char p by (metis nth_append_length)
    then show ?thesis
      by (simp only: set_map image_iff)
  qed
  have "is_device_stem u \<longleftrightarrow>
      u \<in> set [''CON'', ''PRN'', ''AUX'', ''NUL'', ''CLOCK$'', ''CONIN$'', ''CONOUT$''] \<or>
      length u = 4 \<and> has_prefix ''COM'' u \<and> is_ascii_digit (u ! 3) \<and> u ! 3 \<noteq> CHR ''0'' \<or>
      length u = 4 \<and> has_prefix ''LPT'' u \<and> is_ascii_digit (u ! 3) \<and> u ! 3 \<noteq> CHR ''0''"
    unfolding is_device_stem_def by argo
  then show ?thesis
    using four [of "''COM''"] four [of "''LPT''"]
    by (simp only: device_names_def set_append Un_iff length_Cons list.size add_0 One_nat_def)
qed

text \<open>A component of a stored path on Windows: printable ASCII characters, none of those
  that Windows gives a meaning, no trailing dot or space, and not a device name with or without
  an extension.\<close>

definition storage_component :: "string \<Rightarrow> bool" where
  "storage_component c \<longleftrightarrow>
     c \<noteq> [] \<and> length c \<le> 120 \<and>
     (\<forall>x\<in>set c. 32 \<le> byte_val x \<and> byte_val x < 127 \<and> x \<notin> set ''<>:|?*'' \<and> x \<noteq> CHR 0x22 \<and>
        x \<noteq> CHR ''/'' \<and> x \<noteq> CHR 0x5C) \<and>
     last c \<noteq> CHR ''.'' \<and> last c \<noteq> CHR '' '' \<and>
     (\<forall>device\<in>set device_names. map to_ascii_uppercase (component_stem c) \<noteq> device)"

lemma ends_with_last: "ends_with c s \<longleftrightarrow> s \<noteq> [] \<and> last s = c"
  by (cases s rule: rev_cases) (auto simp: ends_with_def starts_with_def)

lemma component_checks:
  assumes "CHR ''/'' \<notin> set c" and "CHR 0x5C \<notin> set c"
  shows "\<not> windows_component_unsafe c \<and> \<not> windows_component_reserved c \<longleftrightarrow> storage_component c"
proof -
  have bytes: "is_ascii c \<and> \<not> list_ex windows_unsafe_byte c \<longleftrightarrow>
      (\<forall>x\<in>set c. 32 \<le> byte_val x \<and> byte_val x < 127 \<and> x \<notin> set ''<>:|?*'' \<and> x \<noteq> CHR 0x22 \<and>
        x \<noteq> CHR ''/'' \<and> x \<noteq> CHR 0x5C)"
  proof -
    have "byte_val x < 128 \<and> \<not> windows_unsafe_byte x \<longleftrightarrow>
        32 \<le> byte_val x \<and> byte_val x < 127 \<and> x \<notin> set ''<>:|?*'' \<and> x \<noteq> CHR 0x22" for x
      unfolding windows_unsafe_byte_def by linarith
    then show ?thesis
      using assms unfolding is_ascii_def list_all_iff list_ex_iff by metis
  qed
  have "c \<noteq> ''.'' \<and> c \<noteq> ''..''" if "last c \<noteq> CHR ''.''"
    using that by auto
  then show ?thesis
    using bytes unfolding windows_component_unsafe_def windows_component_reserved_def
      storage_component_def is_device_stem_iff ends_with_last by (auto simp: not_less)
qed

end
