(* ===== verification/Extension_Schema.thy ===== *)
theory Extension_Schema
  imports Extension_Model Windows_Paths Compatibility Cartridge_Parse
begin

text \<open>
  The checks of manifests and catalogs (\<open>crates/extension-manager/src/schema.rs\<close>): JSON without
  duplicate keys, the deck and codec manifests field by field in the order of the code, the integrity
  catalog and the bundled index. The crates \<open>semver\<close>, \<open>serde\<close> and \<open>serde_json\<close> are parameters; an
  error carries its code and its text.
\<close>

section \<open>Constants\<close>

definition DECK_MANIFEST_VERSION :: string where
  "DECK_MANIFEST_VERSION = ''1.0.0''"

definition CODEC_MANIFEST_VERSION :: string where
  "CODEC_MANIFEST_VERSION = ''2.0.0''"

definition INTEGRITY_MANIFEST_VERSION :: string where
  "INTEGRITY_MANIFEST_VERSION = ''1.0.0''"

definition BUNDLED_INDEX_VERSION :: string where
  "BUNDLED_INDEX_VERSION = ''1.0.0''"

definition MAX_JSON_BYTES :: nat where
  "MAX_JSON_BYTES = 1024 * 1024"

definition MAX_DECK_FILES :: nat where
  "MAX_DECK_FILES = 256"

definition MAX_DECK_ARCHIVE_BYTES :: u64 where
  "MAX_DECK_ARCHIVE_BYTES = 8 * 1024 * 1024"

definition MAX_DECK_EXTRACTED_BYTES :: u64 where
  "MAX_DECK_EXTRACTED_BYTES = 16 * 1024 * 1024"

definition MAX_DECK_FILE_BYTES :: u64 where
  "MAX_DECK_FILE_BYTES = 1024 * 1024"

definition MAX_CODEC_FILES :: nat where
  "MAX_CODEC_FILES = 32768"

definition MAX_CODEC_ARCHIVE_BYTES :: u64 where
  "MAX_CODEC_ARCHIVE_BYTES = 32 * 1024 * 1024 * 1024"

definition MAX_CODEC_EXTRACTED_BYTES :: u64 where
  "MAX_CODEC_EXTRACTED_BYTES = 64 * 1024 * 1024 * 1024"

definition MAX_EXT_EXTERNAL_ASSETS :: nat where
  "MAX_EXT_EXTERNAL_ASSETS = 16"

definition MAX_DECK_GEOMETRIES :: nat where
  "MAX_DECK_GEOMETRIES = 64"

definition MAX_PACKAGE_VERSION_BYTES :: nat where
  "MAX_PACKAGE_VERSION_BYTES = 115"

definition ext_max_files :: "package_kind \<Rightarrow> nat" where
  "ext_max_files k = (case k of DeckPack \<Rightarrow> MAX_DECK_FILES | CodecPack \<Rightarrow> MAX_CODEC_FILES)"

definition max_archive_bytes :: "package_kind \<Rightarrow> u64" where
  "max_archive_bytes k =
     (case k of DeckPack \<Rightarrow> MAX_DECK_ARCHIVE_BYTES | CodecPack \<Rightarrow> MAX_CODEC_ARCHIVE_BYTES)"

definition max_extracted_bytes :: "package_kind \<Rightarrow> u64" where
  "max_extracted_bytes k =
     (case k of DeckPack \<Rightarrow> MAX_DECK_EXTRACTED_BYTES | CodecPack \<Rightarrow> MAX_CODEC_EXTRACTED_BYTES)"

lemmas ext_bounds = MAX_JSON_BYTES_def MAX_DECK_FILES_def MAX_DECK_ARCHIVE_BYTES_def
  MAX_DECK_EXTRACTED_BYTES_def MAX_DECK_FILE_BYTES_def MAX_CODEC_FILES_def
  MAX_CODEC_ARCHIVE_BYTES_def MAX_CODEC_EXTRACTED_BYTES_def MAX_EXT_EXTERNAL_ASSETS_def
  MAX_DECK_GEOMETRIES_def MAX_PACKAGE_VERSION_BYTES_def

definition ext_invalid :: "string \<Rightarrow> extension_error" where
  "ext_invalid detail = extension_error_new ExManifestInvalid detail"

text \<open>
  A loop that checks each element, inserts its key into a set and refuses a key that is there
  already; \<open>after\<close> is what the loop checks behind the insertion.
\<close>

fun unique_loop ::
    "('a \<Rightarrow> 'k) \<Rightarrow> ('a \<Rightarrow> 'e + unit) \<Rightarrow> 'e \<Rightarrow> ('a \<Rightarrow> 'e + unit) \<Rightarrow> 'k list \<Rightarrow> 'a list \<Rightarrow> 'e + unit" where
  "unique_loop key before duplicate after seen [] = Inr ()"
| "unique_loop key before duplicate after seen (x # xs) =
     try_bind (before x) (\<lambda>_.
     if key x \<in> set seen then Inl duplicate
     else try_bind (after x) (\<lambda>_. unique_loop key before duplicate after (key x # seen) xs))"

lemma unique_loop_Inr [try_iffs]:
  "unique_loop key before duplicate after seen xs = Inr u \<longleftrightarrow>
     (\<forall>x\<in>set xs. before x = Inr () \<and> after x = Inr ()) \<and> distinct (map key xs) \<and>
     key ` set xs \<inter> set seen = {}"
  by (induction xs arbitrary: seen) (auto simp: try_bind_Inr)

section \<open>Texts\<close>

definition validate_ext_sha256 :: "string \<Rightarrow> string \<Rightarrow> unit ext_result" where
  "validate_ext_sha256 value name =
     refuse (length value \<noteq> 64 \<or>
             \<not> list_all (\<lambda>c. is_ascii_digit c \<or> 97 \<le> byte_val c \<and> byte_val c \<le> 102) value)
       (ext_invalid (name @ '' must be canonical lowercase hexadecimal''))"

definition validate_semver :: "('v, 'q) semver \<Rightarrow> string \<Rightarrow> string \<Rightarrow> unit ext_result" where
  "validate_semver sem value name =
     try_bind (ok_or (sem_parse_version sem value) (ext_invalid (name @ '' is not SemVer'')))
       (\<lambda>parsed. refuse (sem_to_string sem parsed \<noteq> value)
          (ext_invalid (name @ '' must be canonical SemVer'')))"

definition validate_package_version :: "('v, 'q) semver \<Rightarrow> string \<Rightarrow> string \<Rightarrow> unit ext_result" where
  "validate_package_version sem value name = in_order
     [validate_semver sem value name,
      refuse (length value > MAX_PACKAGE_VERSION_BYTES)
        (ext_invalid (name @ '' exceeds the '' @ decimal MAX_PACKAGE_VERSION_BYTES @
          '' byte storage-key bound'')),
      refuse (list_ex is_ascii_uppercase value)
        (ext_invalid (name @ '' must be lowercase for an injective Windows storage key''))]"

text \<open>The two \<open>expect\<close>s behind the checks of the bounds cannot fail; the model has the comparison
  under the options.\<close>

definition validate_version_range ::
    "('v::linorder, 'q) semver \<Rightarrow> string \<Rightarrow> string \<Rightarrow> string \<Rightarrow> unit ext_result" where
  "validate_version_range sem minimum maximum name = in_order
     [validate_semver sem minimum (name @ '' minimum''),
      validate_semver sem maximum (name @ '' maximum''),
      refuse (the (sem_parse_version sem minimum) \<ge> the (sem_parse_version sem maximum))
        (ext_invalid (name @ '' range is empty''))]"

definition reverse_dns_segment_invalid :: "string \<Rightarrow> bool" where
  "reverse_dns_segment_invalid segment =
     (segment = [] \<or> length segment > 63 \<or> starts_with CHR ''-'' segment \<or>
      ends_with CHR ''-'' segment \<or>
      \<not> list_all (\<lambda>c. is_ascii_lowercase c \<or> is_ascii_digit c \<or> c = CHR ''-'') segment)"

definition validate_reverse_dns_id :: "string \<Rightarrow> string \<Rightarrow> unit ext_result" where
  "validate_reverse_dns_id value name = in_order
     [refuse (length value > 160 \<or> CHR ''.'' \<notin> set value)
        (ext_invalid (name @ '' must be a bounded reverse-DNS ID'')),
      try_all (\<lambda>segment. refuse (reverse_dns_segment_invalid segment)
        (ext_invalid (name @ '' must be a lowercase reverse-DNS ID''))) (split_on CHR ''.'' value)]"

definition is_local_id_byte :: "char \<Rightarrow> bool" where
  "is_local_id_byte c =
     (is_ascii_lowercase c \<or> is_ascii_digit c \<or> c = CHR ''_'' \<or> c = CHR ''-'')"

definition validate_local_id :: "string \<Rightarrow> string \<Rightarrow> unit ext_result" where
  "validate_local_id value name =
     refuse (value = [] \<or> length value > 80 \<or> \<not> list_all is_local_id_byte value)
       (ext_invalid (name @ '' is not a bounded lowercase identifier''))"

definition validate_entrypoint :: "string \<Rightarrow> string \<Rightarrow> unit ext_result" where
  "validate_entrypoint value name =
     try_bind (refuse (length value > 200) (ext_invalid (name @ '' is too long''))) (\<lambda>_.
     case split_once CHR '':'' value of
       None \<Rightarrow> Inl (ext_invalid (name @ '' must use module:callable syntax''))
     | Some (module, callable) \<Rightarrow>
         refuse (module = [] \<or> callable = [] \<or> starts_with CHR ''.'' module \<or>
                 ends_with CHR ''.'' module \<or>
                 \<not> list_all (\<lambda>c. is_ascii_alphanumeric c \<or> c = CHR ''_'' \<or> c = CHR ''.'') module \<or>
                 \<not> list_all (\<lambda>c. is_ascii_alphanumeric c \<or> c = CHR ''_'') callable)
           (ext_invalid (name @ '' is not a portable Python entrypoint'')))"

definition validate_ext_bounded_text :: "string \<Rightarrow> string \<Rightarrow> nat \<Rightarrow> nat \<Rightarrow> unit ext_result" where
  "validate_ext_bounded_text value name minimum maximum =
     refuse (length value < minimum \<or> length value > maximum \<or> CHR 0x00 \<in> set value \<or>
             CHR 0x0D \<in> set value \<or> CHR 0x0A \<in> set value)
       (ext_invalid (name @ '' is outside its text bound''))"

definition validate_optional_https_url :: "string option \<Rightarrow> string \<Rightarrow> unit ext_result" where
  "validate_optional_https_url value name = (case value of
       None \<Rightarrow> Inr ()
     | Some value \<Rightarrow> in_order
         [validate_ext_bounded_text value name 1 500,
          refuse (\<not> has_prefix ''https://'' value) (ext_invalid (name @ '' must use https''))])"

definition validate_contract_name :: "string \<Rightarrow> string \<Rightarrow> unit ext_result" where
  "validate_contract_name value name =
     refuse (value = [] \<or> length value > 128 \<or> value = ''*'' \<or> eq_ignore_ascii_case value ''any'' \<or>
             \<not> list_all (\<lambda>c. is_ascii_alphanumeric c \<or> c \<in> set ''._:-'') value)
       (ext_invalid (name @ '' is not a bounded explicit contract identifier''))"

definition validate_python_version :: "string \<Rightarrow> unit ext_result" where
  "validate_python_version value =
     (let parts = split_on CHR ''.'' value in in_order
     [validate_ext_bounded_text value ''Python version'' 3 32,
      refuse (\<not> (2 \<le> length parts \<and> length parts \<le> 3) \<or>
              list_ex (\<lambda>part. part = [] \<or> \<not> list_all is_ascii_digit part) parts)
        (ext_invalid ''Python version must contain two or three numeric components'')])"

section \<open>Paths\<close>

definition validate_windows_component :: "string \<Rightarrow> unit ext_result" where
  "validate_windows_component component = in_order
     [refuse (windows_component_unsafe component)
        (ext_invalid ''package path contains an unsafe Windows component''),
      refuse (windows_component_reserved component)
        (ext_invalid ''package path uses a reserved Windows device name'')]"

text \<open>The result is the path buffer collected from the components.\<close>

definition validate_portable_relative_path :: "string \<Rightarrow> bool \<Rightarrow> string list ext_result" where
  "validate_portable_relative_path value allow_directory =
     try_bind (in_order
       [refuse (path_text_refused value)
          (ext_invalid ''package path is not a bounded forward-slash relative path''),
        refuse (path_not_normal value)
          (ext_invalid ''package path contains a non-normal component''),
        try_all validate_windows_component (split_on CHR ''/'' value),
        refuse (\<not> allow_directory \<and> has_prefix (rev ''/.'') (rev value))
          (ext_invalid ''file path ends with a directory marker'')])
       (\<lambda>_. Inr (split_on CHR ''/'' value))"

definition check_path :: "string \<Rightarrow> bool \<Rightarrow> unit ext_result" where
  "check_path value allow_directory =
     try_bind (validate_portable_relative_path value allow_directory) (\<lambda>_. Inr ())"

definition validate_deck_file_extension :: "string \<Rightarrow> unit ext_result" where
  "validate_deck_file_extension path =
     (let extension = map to_ascii_lowercase (case path_extension path of None \<Rightarrow> [] | Some e \<Rightarrow> e)
      in in_order
     [refuse (extension = ''typed'' \<and> path_file_name path \<noteq> Some ''py.typed'')
        (ext_invalid (''.ld contains forbidden file type at '' @ path)),
      refuse (extension \<notin> set [''py'', ''typed'', ''json'', ''txt'', ''md'', ''png''])
        (ext_invalid (''.ld contains forbidden file type at '' @ path))])"

end
