(* ===== verification/Extension_Manifests.thy ===== *)
theory Extension_Manifests
  imports Extension_Schema
begin

text \<open>
  The checks of whole documents (\<open>crates/extension-manager/src/schema.rs\<close>): manifests of decks and
  codec packs, the integrity catalog, the bundled index, and the JSON reader in front of them.
\<close>

section \<open>Parts of a manifest\<close>

definition validate_capability_set :: "codec_capability list \<Rightarrow> bool \<Rightarrow> unit ext_result" where
  "validate_capability_set capabilities require_v2 = in_order
     [refuse (length capabilities > 6)
        (ext_invalid ''capability list exceeds the closed capability set''),
      unique_loop (\<lambda>c. c) (\<lambda>_. Inr ()) (ext_invalid ''capability list contains a duplicate'')
        (\<lambda>_. Inr ()) [] capabilities,
      refuse (require_v2 \<and> \<not> list_all (\<lambda>required. required \<in> set capabilities)
                [CcPlayer, CcRealtime, CcResample, CcSnapshotCapture, CcLiveCapture])
        (ext_invalid ''Codec Pack v2 is missing a mandatory lifecycle capability'')]"

definition validate_ext_geometry :: "ext_signal_geometry \<Rightarrow> unit ext_result" where
  "validate_ext_geometry g =
     refuse (eg_batch g \<noteq> 1 \<or> eg_temporal g \<noteq> 1 \<or> eg_channels g = 0 \<or> eg_channels g > 16384 \<or>
             eg_height g = 0 \<or> eg_width g = 0 \<or> eg_height g > 65535 \<or> eg_width g > 65535)
       (ext_invalid ''signal geometry must be finite [1,C,1,H,W] within closed bounds'')"

definition validate_ext_timing :: "ext_timing_descriptor \<Rightarrow> unit ext_result" where
  "validate_ext_timing t =
     refuse (td_frames_per_second_numerator t = 0 \<or> td_frames_per_second_denominator t = 0 \<or>
             td_frames_per_second_numerator t > 1000000 \<or>
             td_frames_per_second_denominator t > 1000000 \<or>
             td_samples_per_slot t = 0 \<or> td_samples_per_slot t > 1000000)
       (ext_invalid ''signal timing is outside closed positive bounds'')"

definition validate_ext_profile_key :: "('v, 'q) semver \<Rightarrow> ext_profile_key \<Rightarrow> unit ext_result" where
  "validate_ext_profile_key sem p = in_order
     [validate_local_id (epk_codec_family p) ''codec family'',
      validate_local_id (epk_profile p) ''profile'',
      refuse (eq_ignore_ascii_case (epk_codec_family p) ''any'' \<or>
              eq_ignore_ascii_case (epk_profile p) ''any'')
        (ext_invalid ''ProfileKey must not use an any constraint''),
      validate_semver sem (epk_profile_version p) ''profile version'']"

definition validate_common_manifest_text ::
    "string \<Rightarrow> string \<Rightarrow> string \<Rightarrow> string option \<Rightarrow> string \<Rightarrow> string \<Rightarrow> unit ext_result" where
  "validate_common_manifest_text display_name summary publisher_name publisher_url license
     notice_path = in_order
     [validate_ext_bounded_text display_name ''display_name'' 1 120,
      validate_ext_bounded_text summary ''summary'' 1 500,
      validate_ext_bounded_text publisher_name ''publisher name'' 1 120,
      validate_optional_https_url publisher_url ''publisher URL'',
      validate_ext_bounded_text license ''license label'' 1 120,
      check_path notice_path False]"

definition validate_integrity_descriptor :: "string \<Rightarrow> string \<Rightarrow> unit ext_result" where
  "validate_integrity_descriptor path sha256 = in_order
     [refuse (path \<noteq> ''integrity.json'')
        (ext_invalid ''integrity catalog_path must be integrity.json''),
      validate_ext_sha256 sha256 ''integrity catalog SHA-256'']"

definition validate_runtime_constraints ::
    "('v, 'q) semver \<Rightarrow> string \<Rightarrow> string \<Rightarrow> string \<Rightarrow> string \<Rightarrow> unit ext_result" where
  "validate_runtime_constraints sem tensor_abi python_version platform_tag torch_exact_build =
     in_order
     [validate_contract_name tensor_abi ''tensor_abi'',
      validate_python_version python_version,
      validate_local_id platform_tag ''Python platform tag'',
      refuse (eq_ignore_ascii_case platform_tag ''any'')
        (ext_invalid ''Python platform tag must be an explicit closed identifier''),
      validate_semver sem torch_exact_build ''exact Torch build'']"

section \<open>Deck manifests\<close>

definition validate_deck_signal ::
    "('v, 'q) semver \<Rightarrow> deck_signal_descriptor \<Rightarrow> unit ext_result" where
  "validate_deck_signal sem signal =
     (let slots = dsd_slots signal; roles = map role_role_id (dsd_roles signal) in in_order
     [refuse (\<not> (1 \<le> slots \<and> slots \<le> 16) \<or> length (dsd_roles signal) \<noteq> unat slots \<or>
              length (dsd_default_permutation signal) \<noteq> unat slots)
        (ext_invalid ''Deck signal must declare 1-16 slots with one role and permutation item per slot''),
      unique_loop role_role_id
        (\<lambda>role. in_order [validate_local_id (role_role_id role) ''role_id'',
           validate_ext_bounded_text (role_display_name role) ''role display name'' 1 80])
        (ext_invalid ''Deck roles must be unique'') (\<lambda>_. Inr ()) [] (dsd_roles signal),
      refuse (card (set (dsd_default_permutation signal)) \<noteq> length (dsd_default_permutation signal) \<or>
              set (dsd_default_permutation signal) \<noteq> set roles)
        (ext_invalid ''default_permutation must contain every role exactly once''),
      refuse (dsd_structural_carrier_role signal \<notin> set roles)
        (ext_invalid ''structural_carrier_role is not a declared role''),
      refuse (dsd_geometry_allowlist signal = [] \<or>
              length (dsd_geometry_allowlist signal) > MAX_DECK_GEOMETRIES)
        (ext_invalid ''geometry_allowlist must contain 1-64 exact geometries''),
      unique_loop (\<lambda>g. g) validate_ext_geometry
        (ext_invalid ''geometry_allowlist contains a duplicate geometry'') (\<lambda>_. Inr ()) []
        (dsd_geometry_allowlist signal),
      validate_ext_timing (dsd_timing signal),
      validate_capability_set (dsd_required_capabilities signal) False,
      refuse (dsd_required_capabilities signal = [])
        (ext_invalid ''Deck required_capabilities must not be empty''),
      (case dsd_profile_allowlist signal of
         None \<Rightarrow> Inr ()
       | Some profiles \<Rightarrow> in_order
           [refuse (profiles = [] \<or> length profiles > 64)
              (ext_invalid ''profile_allowlist must contain 1-64 profiles''),
            unique_loop (\<lambda>p. p) (validate_ext_profile_key sem)
              (ext_invalid ''profile_allowlist contains a duplicate ProfileKey'') (\<lambda>_. Inr ()) []
              profiles])])"

definition validate_deck_manifest ::
    "('v::linorder, 'q) semver \<Rightarrow> deck_pack_manifest \<Rightarrow> unit ext_result" where
  "validate_deck_manifest sem m =
     (let c = dm_compatibility m in in_order
     [refuse (dm_manifest_version m \<noteq> DECK_MANIFEST_VERSION \<or> dm_kind m \<noteq> DeckPack)
        (ext_invalid ''deck manifest must declare manifest_version 1.0.0 and kind deck_pack''),
      validate_reverse_dns_id (dm_deck_id m) ''deck_id'',
      validate_package_version sem (dm_deck_version m) ''deck_version'',
      validate_common_manifest_text (dm_display_name m) (dm_summary m) (pub_name (dm_publisher m))
        (pub_url (dm_publisher m)) (lic_spdx_or_label (dm_license m))
        (lic_notice_path (dm_license m)),
      validate_version_range sem (dc_app_min_inclusive c) (dc_app_max_exclusive c)
        ''Deck app compatibility'',
      refuse (dc_deck_host_api c = 0 \<or> dc_worker_protocol c = 0 \<or> dc_deck_operator_api c = 0)
        (ext_invalid ''Deck compatibility API and protocol versions must be nonzero''),
      validate_runtime_constraints sem (dc_tensor_abi c) (py_version (dc_python c))
        (py_platform_tag (dc_python c)) (dc_torch_exact_build c),
      refuse (rtd_operator_descriptor_path (dm_runtime m) \<noteq> ''operator.json'' \<or>
              dm_faceplate_path m \<noteq> ''faceplate.json'')
        (ext_invalid ''Deck packages must use operator.json and faceplate.json at the archive root''),
      check_path (rtd_python_root (dm_runtime m)) True,
      validate_entrypoint (rtd_entrypoint (dm_runtime m)) ''Deck runtime entrypoint'',
      validate_deck_signal sem (dm_signal m),
      validate_integrity_descriptor (id_catalog_path (dm_integrity m))
        (id_catalog_sha256 (dm_integrity m))])"

section \<open>Codec manifests\<close>

definition is_reserved_package_id :: "string \<Rightarrow> bool" where
  "is_reserved_package_id package_id =
     (package_id = ''org.latentdeck'' \<or> has_prefix ''org.latentdeck.'' package_id)"

definition validate_codec_worker :: "codec_worker_descriptor \<Rightarrow> unit ext_result" where
  "validate_codec_worker w = in_order
     [check_path (cwd_executable w) False,
      check_path (cwd_working_directory w) True,
      refuse (length (cwd_arguments w) > 64)
        (ext_invalid ''Codec worker arguments exceeds 64 items''),
      try_all (\<lambda>argument. in_order
        [validate_ext_bounded_text argument ''Codec worker argument'' 0 1024,
         refuse (CHR 0x00 \<in> set argument \<or> CHR 0x0D \<in> set argument \<or> CHR 0x0A \<in> set argument)
           (ext_invalid ''Codec worker arguments cannot contain control separators'')])
        (cwd_arguments w),
      refuse (\<not> (100 \<le> cwd_start_timeout_ms w \<and> cwd_start_timeout_ms w \<le> 600000) \<or>
              \<not> (100 \<le> cwd_heartbeat_timeout_ms w \<and> cwd_heartbeat_timeout_ms w \<le> 600000))
        (ext_invalid ''Codec worker timeouts must be between 100 and 600000 ms'')]"

definition validate_ext_external_assets :: "external_asset_descriptor list \<Rightarrow> unit ext_result" where
  "validate_ext_external_assets assets = in_order
     [refuse (length assets > MAX_EXT_EXTERNAL_ASSETS)
        (ext_invalid ''Codec pack declares more than 16 external assets''),
      unique_loop ead_asset_id
        (\<lambda>asset. validate_local_id (ead_asset_id asset) ''external asset id'')
        (ext_invalid ''Codec external asset IDs must be unique'')
        (\<lambda>asset. in_order
          [validate_ext_bounded_text (ead_display_name asset) ''external asset display name'' 1 120,
           refuse (ead_byte_length asset = 0)
             (ext_invalid ''external asset byte_length must be positive''),
           validate_ext_sha256 (ead_sha256 asset) ''external asset SHA-256'',
           validate_optional_https_url (ead_source_url asset) ''external asset source URL'',
           validate_ext_bounded_text (ead_license_label asset) ''external asset license'' 1 120,
           validate_optional_https_url (ead_license_url asset) ''external asset license URL''])
        [] assets]"

definition validate_codec_manifest ::
    "('v::linorder, 'q) semver \<Rightarrow> codec_pack_manifest \<Rightarrow> unit ext_result" where
  "validate_codec_manifest sem m =
     (let c = cm_compatibility m; a = cm_adapter m in in_order
     [refuse (cm_manifest_version m \<noteq> CODEC_MANIFEST_VERSION \<or> cm_kind m \<noteq> CodecPack)
        (ext_invalid ''codec manifest must declare manifest_version 2.0.0 and kind codec_pack''),
      validate_reverse_dns_id (cm_pack_id m) ''pack_id'',
      validate_package_version sem (cm_pack_version m) ''pack_version'',
      validate_common_manifest_text (cm_display_name m) (cm_summary m) (pub_name (cm_publisher m))
        (pub_url (cm_publisher m)) (lic_spdx_or_label (cm_license m))
        (lic_notice_path (cm_license m)),
      validate_version_range sem (ccm_app_min_inclusive c) (ccm_app_max_exclusive c)
        ''Codec app compatibility'',
      refuse (ccm_worker_protocol c = 0 \<or> ccm_codec_adapter_api c = 0)
        (ext_invalid ''Codec compatibility API and protocol versions must be nonzero''),
      validate_runtime_constraints sem (ccm_tensor_abi c) (py_version (ccm_python c))
        (py_platform_tag (ccm_python c)) (ccm_torch_exact_build c),
      refuse (ccm_lc_spec_versions c = [] \<or> length (ccm_lc_spec_versions c) > 16)
        (ext_invalid ''Codec lc_spec_versions must contain 1-16 values''),
      unique_loop (\<lambda>v. v) (\<lambda>version. validate_semver sem version ''LC spec version'')
        (ext_invalid ''Codec lc_spec_versions contains a duplicate'') (\<lambda>_. Inr ()) []
        (ccm_lc_spec_versions c),
      refuse (ccm_profiles c = [] \<or> length (ccm_profiles c) > 64)
        (ext_invalid ''Codec profiles must contain 1-64 exact profiles''),
      unique_loop (\<lambda>p. p) (validate_ext_profile_key sem)
        (ext_invalid ''Codec profiles contains a duplicate ProfileKey'') (\<lambda>_. Inr ()) []
        (ccm_profiles c),
      validate_reverse_dns_id (cad_adapter_id a) ''adapter_id'',
      refuse (is_reserved_package_id (cad_adapter_id a) \<and> \<not> is_reserved_package_id (cm_pack_id m))
        (ext_invalid ''the reserved org.latentdeck.* adapter namespace requires a reserved pack_id''),
      validate_semver sem (cad_adapter_version a) ''adapter_version'',
      validate_entrypoint (cad_entrypoint a) ''Codec adapter entrypoint'',
      validate_codec_worker (cm_worker m),
      validate_capability_set (cm_capabilities m) True,
      validate_ext_external_assets (cm_external_assets m),
      check_path (rld_path (cm_runtime_lock m)) False,
      validate_ext_sha256 (rld_sha256 (cm_runtime_lock m)) ''runtime lock SHA-256'',
      validate_integrity_descriptor (id_catalog_path (cm_integrity m))
        (id_catalog_sha256 (cm_integrity m))])"

definition validate_manifest ::
    "('v::linorder, 'q) semver \<Rightarrow> package_manifest \<Rightarrow> unit ext_result" where
  "validate_manifest sem m = (case m of
       DeckManifest d \<Rightarrow> validate_deck_manifest sem d
     | CodecManifest c \<Rightarrow> validate_codec_manifest sem c)"

section \<open>References and the bundled index\<close>

definition validate_package_reference ::
    "('v, 'q) semver \<Rightarrow> package_reference \<Rightarrow> unit ext_result" where
  "validate_package_reference sem p = in_order
     [validate_reverse_dns_id (pref_package_id p) ''package_id'',
      validate_package_version sem (pref_package_version p) ''package_version'']"

definition validate_bundled_index ::
    "('v, 'q) semver \<Rightarrow> bundled_package_index \<Rightarrow> unit ext_result" where
  "validate_bundled_index sem index = in_order
     [refuse (bi_index_version index \<noteq> BUNDLED_INDEX_VERSION)
        (ext_invalid ''bundled package index version is unsupported''),
      refuse (bi_packages index = [] \<or> length (bi_packages index) > 256)
        (ext_invalid ''bundled package index must contain between 1 and 256 entries''),
      unique_loop be_package
        (\<lambda>entry. in_order
          [validate_package_reference sem (be_package entry),
           refuse (\<not> is_reserved_package_id (pref_package_id (be_package entry)))
             (ext_invalid ''bundled package index may authorize only org.latentdeck.* identities''),
           validate_ext_sha256 (be_archive_sha256 entry) ''bundled archive SHA-256''])
        (ext_invalid ''bundled package index contains a duplicate identity'') (\<lambda>_. Inr ()) []
        (bi_packages index)]"

section \<open>Strict JSON\<close>

text \<open>
  The visitor that builds a value and refuses a key it has seen in the object; the key is compared
  after its value has been read. \<open>StrictDuplicate\<close> is the custom error for a key.
\<close>

datatype (plugins only: ) strict_error = StrictSyntax string | StrictDuplicate string

function strict_value :: "json_text \<Rightarrow> strict_error + unit"
  and strict_seq :: "json_text list \<Rightarrow> string option \<Rightarrow> strict_error + unit"
  and strict_map ::
    "string list \<Rightarrow> (string \<times> (string + json_text)) list \<Rightarrow> string option \<Rightarrow> strict_error + unit"
where
  "strict_value t = (case t of
       JtBroken e \<Rightarrow> Inl (StrictSyntax e)
     | JtScalar \<Rightarrow> Inr ()
     | JtArray items e \<Rightarrow> strict_seq items e
     | JtObject members e \<Rightarrow> strict_map [] members e)"
| "strict_seq [] e = (case e of None \<Rightarrow> Inr () | Some text \<Rightarrow> Inl (StrictSyntax text))"
| "strict_seq (item # items) e = try_bind (strict_value item) (\<lambda>_. strict_seq items e)"
| "strict_map keys [] e = (case e of None \<Rightarrow> Inr () | Some text \<Rightarrow> Inl (StrictSyntax text))"
| "strict_map keys ((key, v) # members) e = (case v of
       Inl text \<Rightarrow> Inl (StrictSyntax text)
     | Inr t \<Rightarrow>
         try_bind (strict_value t) (\<lambda>_.
         if key \<in> set keys then Inl (StrictDuplicate key)
         else strict_map (key # keys) members e))"
  by pat_completeness auto
termination
proof (relation "measure (\<lambda>x. case x of
      Inl t \<Rightarrow> size t
    | Inr (Inl (items, e)) \<Rightarrow> size_list size items
    | Inr (Inr (keys, members, e)) \<Rightarrow>
        size_list (size_prod (\<lambda>_. 0) (size_sum (\<lambda>_. 0) size)) members)")
qed simp_all

declare strict_value.simps [simp del]

text \<open>The parameters: the document of a text with the error for what follows it, the text of a
  visitor's error, and the deserialization of a value into the closed schema.\<close>

record 'a strict_externals =
  sx_document :: "u8 list \<Rightarrow> json_text \<times> string option"
  sx_error_text :: "strict_error \<Rightarrow> string"
  sx_from_value :: "u8 list \<Rightarrow> string + 'a"

definition parse_strict_json_with_limit ::
    "'a strict_externals \<Rightarrow> u8 list \<Rightarrow> string \<Rightarrow> nat \<Rightarrow> 'a ext_result" where
  "parse_strict_json_with_limit sx bytes context max_bytes =
     try_bind (refuse (bytes = [] \<or> length bytes > max_bytes)
       (ext_invalid (context @ '' is empty or exceeds '' @ decimal max_bytes @ '' bytes''))) (\<lambda>_.
     case sx_document sx bytes of (t, trailing) \<Rightarrow>
     try_bind (map_err (\<lambda>e. ext_invalid (context @ '' is not strict JSON: '' @ sx_error_text sx e))
       (strict_value t)) (\<lambda>_.
     case trailing of
       Some e \<Rightarrow> Inl (ext_invalid (context @ '' has trailing JSON data: '' @ e))
     | None \<Rightarrow>
         map_err (\<lambda>e. ext_invalid (context @ '' does not match its closed schema: '' @ e))
           (sx_from_value sx bytes)))"

definition parse_strict_json :: "'a strict_externals \<Rightarrow> u8 list \<Rightarrow> string \<Rightarrow> 'a ext_result" where
  "parse_strict_json sx bytes context = parse_strict_json_with_limit sx bytes context MAX_JSON_BYTES"

definition parse_manifest ::
    "('v::linorder, 'q) semver \<Rightarrow> deck_pack_manifest strict_externals \<Rightarrow>
     codec_pack_manifest strict_externals \<Rightarrow> package_kind \<Rightarrow> u8 list \<Rightarrow> package_manifest ext_result"
where
  "parse_manifest sem deck_json codec_json kind bytes =
     try_bind (case kind of
         DeckPack \<Rightarrow> try_bind (parse_strict_json deck_json bytes ''deck-pack.json'')
           (\<lambda>d. Inr (DeckManifest d))
       | CodecPack \<Rightarrow> try_bind (parse_strict_json codec_json bytes ''codec-pack.json'')
           (\<lambda>c. Inr (CodecManifest c)))
       (\<lambda>manifest. try_bind (validate_manifest sem manifest) (\<lambda>_. Inr manifest))"

section \<open>The integrity catalog\<close>

text \<open>The loop over the files: the path before, and the sum so far.\<close>

fun catalog_files ::
    "package_kind \<Rightarrow> string option \<Rightarrow> u64 \<Rightarrow> integrity_file list \<Rightarrow> u64 ext_result" where
  "catalog_files kind previous lengths [] = Inr lengths"
| "catalog_files kind previous lengths (file # files) =
     try_bind (in_order
       [check_path (if_path file) False,
        refuse (if_path file = manifest_name kind \<or> if_path file = ''integrity.json'')
          (ext_invalid ''integrity.json must not recursively catalog either control file''),
        refuse (case previous of Some p \<Rightarrow> p \<ge> if_path file | None \<Rightarrow> False)
          (ext_invalid ''integrity.json files must be unique and sorted by path''),
        validate_ext_sha256 (if_sha256 file) ''integrity file SHA-256'',
        refuse (kind = DeckPack \<and> if_byte_length file > MAX_DECK_FILE_BYTES)
          (ext_invalid ''a .ld file exceeds the 1 MiB per-file bound'')])
       (\<lambda>_. try_bind (ok_or (checked_add lengths (if_byte_length file))
              (ext_invalid ''integrity file lengths overflow u64''))
       (\<lambda>lengths. catalog_files kind (Some (if_path file)) lengths files))"

definition u64_saturating_sub :: "u64 \<Rightarrow> u64 \<Rightarrow> u64" where
  "u64_saturating_sub a b = (case checked_sub a b of Some c \<Rightarrow> c | None \<Rightarrow> 0)"

definition parse_integrity_catalog ::
    "integrity_catalog strict_externals \<Rightarrow> u8 list \<Rightarrow> package_kind \<Rightarrow> integrity_catalog ext_result"
where
  "parse_integrity_catalog sx bytes kind =
     try_bind (parse_strict_json sx bytes ''integrity.json'') (\<lambda>catalog.
     try_bind (in_order
       [refuse (ic_manifest_version catalog \<noteq> INTEGRITY_MANIFEST_VERSION)
          (ext_invalid ''integrity.json manifest_version must be 1.0.0''),
        refuse (ic_files catalog = [] \<or>
                min (length (ic_files catalog) + 2) usize_max > ext_max_files kind)
          (ext_invalid (''integrity.json file count must leave room for both control files within '' @
            decimal (ext_max_files kind) @ '' files''))])
       (\<lambda>_. try_bind (catalog_files kind None 0 (ic_files catalog))
       (\<lambda>lengths.
          if lengths > u64_saturating_sub (max_extracted_bytes kind) (2 * of_nat MAX_JSON_BYTES)
          then Inl (ext_invalid ''integrity file lengths exceed the extracted-size bound'')
          else Inr catalog)))"

end
