(* ===== verification/Extension_Exact.thy ===== *)
theory Extension_Exact
  imports Extension_Manifests
begin

text \<open>
  What the checks of package documents accept: paths, catalogs, references and the signals of
  decks (\<open>crates/extension-manager/src/schema.rs\<close>).
\<close>

section \<open>Paths\<close>

definition package_path :: "string \<Rightarrow> string list \<Rightarrow> bool" where
  "package_path v components \<longleftrightarrow>
     length v \<le> 240 \<and> components \<noteq> [] \<and> list_all storage_component components \<and>
     v = join_with CHR ''/'' components"

lemma storage_component_chars:
  assumes "storage_component c"
  shows "c \<noteq> []" "CHR ''/'' \<notin> set c" "CHR 0x5C \<notin> set c" "CHR '':'' \<notin> set c" "CHR 0x00 \<notin> set c"
    "c \<noteq> ''.''" "c \<noteq> ''..''"
proof -
  have chars: "32 \<le> byte_val x \<and> x \<notin> set ''<>:|?*'' \<and> x \<noteq> CHR ''/'' \<and> x \<noteq> CHR 0x5C" if "x \<in> set c" for x
    using assms that by (simp add: storage_component_def)
  show "CHR ''/'' \<notin> set c" "CHR 0x5C \<notin> set c" "CHR '':'' \<notin> set c"
    using chars by auto
  show "CHR 0x00 \<notin> set c"
    using chars [of "CHR 0x00"] by (auto simp: byte_val_def)
  have "c \<noteq> []" "last c \<noteq> CHR ''.''"
    using assms unfolding storage_component_def by blast+
  then show "c \<noteq> []" "c \<noteq> ''.''" "c \<noteq> ''..''"
    by auto
qed

lemma component_accepted:
  assumes "CHR ''/'' \<notin> set c" and "CHR 0x5C \<notin> set c"
  shows "validate_windows_component c = Inr u \<longleftrightarrow> storage_component c"
  using component_checks [OF assms] by (simp add: validate_windows_component_def try_iffs)

lemma normal_components:
  assumes v: "v = join_with CHR ''/'' cs" and ne: "cs \<noteq> []" and cs: "\<forall>c\<in>set cs. storage_component c"
  shows "split_on CHR ''/'' v = cs" and "set v \<inter> {CHR 0x5C, CHR '':'', CHR 0x00} = {}"
    and "\<not> path_not_normal v" and "path_components v = map PcNormal cs"
proof -
  show sp: "split_on CHR ''/'' v = cs"
    unfolding v using ne cs by (intro split_join) (auto dest: storage_component_chars)
  show clean: "set v \<inter> {CHR 0x5C, CHR '':'', CHR 0x00} = {}"
  proof -
    have "x \<notin> set v" if "x \<noteq> CHR ''/''" "\<forall>c\<in>set cs. x \<notin> set c" for x
      using set_join [of "CHR ''/''" cs] that unfolding v by blast
    then show ?thesis
      using cs storage_component_chars by simp
  qed
  obtain c ds where c: "cs = c # ds"
    using ne by (cases cs) auto
  have first: "v \<noteq> []" "hd v \<noteq> CHR ''/''"
  proof -
    have "c \<noteq> []" "CHR ''/'' \<notin> set c"
      using cs c storage_component_chars by auto
    moreover have "v = c @ drop (length c) v"
      unfolding v c by (cases ds) auto
    ultimately show "v \<noteq> []" "hd v \<noteq> CHR ''/''"
      by (metis append_is_Nil_conv, metis hd_append2 hd_in_set)
  qed
  have drive: "\<not> (case v of a # b # _ \<Rightarrow> is_drive_letter a \<and> b = CHR '':'' | _ \<Rightarrow> False)"
    using clean by (auto split: list.splits)
  have seg: "segment_component d = [PcNormal d]" if "d \<in> set cs" for d
    using storage_component_chars [of d] cs that by (simp add: segment_component_def)
  have "concat (map segment_component ds) = map PcNormal ds"
    using seg c by (induction ds arbitrary: cs) auto
  then show comps: "path_components v = map PcNormal cs"
    using drive sp seg c cs storage_component_chars(6) [of c]
    by (simp add: path_components_def Let_def)
  have "\<not> is_absolute v"
  proof (cases v rule: is_absolute.cases)
    case (1 a b rest)
    then show ?thesis
      using first clean by (auto simp: is_sep_byte_def)
  qed simp_all
  then show "\<not> path_not_normal v"
    by (auto simp: path_not_normal_def comps list_ex_iff is_normal_def)
qed

text \<open>C31: Paths of package files. The four checks (the text, the components of the standard
  library, each component, the directory marker) accept exactly the slash-separated paths of at most
  240 bytes whose components can be stored under Windows: printable ASCII without the characters that
  Windows gives a meaning, no trailing dot or space, no device name before the first dot; the returned
  path has exactly these components, so that it stays below the directory it is joined to.\<close>

theorem package_path_exact:
  "validate_portable_relative_path v allow_directory = Inr components \<longleftrightarrow> package_path v components"
proof
  assume ok: "validate_portable_relative_path v allow_directory = Inr components"
  then have shape: "\<not> path_text_refused v" and cs: "components = split_on CHR ''/'' v"
    and each: "\<forall>c\<in>set components. validate_windows_component c = Inr ()"
    by (auto simp: validate_portable_relative_path_def try_iffs)
  have "storage_component c" if c: "c \<in> set components" for c
  proof -
    have "CHR ''/'' \<notin> set c" "CHR 0x5C \<notin> set c"
      using split_on_components [of "CHR ''/''" v] set_component_split [of c "CHR ''/''" v] c shape
      unfolding cs path_text_refused_def by auto
    then show ?thesis
      using each c component_accepted by blast
  qed
  then show "package_path v components"
    using shape by (auto simp: package_path_def cs list_all_iff path_text_refused_def)
next
  assume "package_path v components"
  then have len: "length v \<le> 240" and ne: "components \<noteq> []"
    and cs: "\<forall>c\<in>set components. storage_component c" and v: "v = join_with CHR ''/'' components"
    by (auto simp: package_path_def list_all_iff)
  note n = normal_components [OF v ne cs]
  have full: "[] \<notin> set (split_on CHR ''/'' v)"
    unfolding n(1) using cs storage_component_chars(1) by auto
  then have "v \<noteq> []"
    by auto
  moreover have "\<not> starts_with CHR ''/'' v" "\<not> ends_with CHR ''/'' v"
    by (auto dest: starts_with_component ends_with_component simp: full)
  ultimately have "\<not> path_text_refused v"
    using len n(2) by (auto simp: path_text_refused_def)
  moreover have "\<not> has_prefix (rev ''/.'') (rev v)"
  proof
    assume "has_prefix (rev ''/.'') (rev v)"
    then obtain w where "v = w @ ''/.''"
      by (metis append_take_drop_id has_prefix_def rev_append rev_rev_ident)
    then have "''.'' \<in> set (split_on CHR ''/'' v)"
      using split_on_append [of "CHR ''/''" w "''.''"] by simp
    then show False
      unfolding n(1) using cs storage_component_chars(6) by blast
  qed
  moreover have "validate_windows_component c = Inr ()" if "c \<in> set components" for c
    using component_accepted storage_component_chars(2,3) cs that by blast
  ultimately show "validate_portable_relative_path v allow_directory = Inr components"
    using n(1,3) by (simp add: validate_portable_relative_path_def try_iffs)
qed

lemma check_path_Inr [try_iffs]: "check_path v d = Inr u \<longleftrightarrow> (\<exists>cs. package_path v cs)"
  by (auto simp: check_path_def try_bind_Inr package_path_exact)

section \<open>Catalogs\<close>

definition catalog_file_ok :: "package_kind \<Rightarrow> integrity_file \<Rightarrow> bool" where
  "catalog_file_ok kind f \<longleftrightarrow>
     (\<exists>components. package_path (if_path f) components) \<and>
     if_path f \<noteq> manifest_name kind \<and> if_path f \<noteq> ''integrity.json'' \<and>
     validate_ext_sha256 (if_sha256 f) ''integrity file SHA-256'' = Inr () \<and>
     (kind = DeckPack \<longrightarrow> unat (if_byte_length f) \<le> 2 ^ 20)"

definition catalog_bytes :: "integrity_file list \<Rightarrow> nat" where
  "catalog_bytes fs = sum_list (map (\<lambda>f. unat (if_byte_length f)) fs)"

lemma u64_of_nat: "n < 2 ^ 64 \<Longrightarrow> \<exists>w :: u64. unat w = n"
  by (rule exI [of _ "of_nat n"]) (simp add: unat_of_nat_fits)

lemma deck_file_bound: "v > MAX_DECK_FILE_BYTES \<longleftrightarrow> \<not> unat v \<le> 2 ^ 20"
  by (simp add: MAX_DECK_FILE_BYTES_def word_less_nat_alt not_le)

lemma catalog_files_Inr:
  "catalog_files kind previous t fs = Inr s \<longleftrightarrow>
     list_all (catalog_file_ok kind) fs \<and> sorted_wrt (<) (map if_path fs) \<and>
     (\<forall>p\<in>set_option previous. \<forall>f\<in>set fs. p < if_path f) \<and>
     unat s = unat t + catalog_bytes fs"
proof (induction fs arbitrary: previous t)
  case Nil
  then show ?case
    by (auto simp: catalog_bytes_def word_unat_eq_iff)
next
  case (Cons f fs)
  have head: "in_order
       [check_path (if_path f) False,
        refuse (if_path f = manifest_name kind \<or> if_path f = ''integrity.json'')
          (ext_invalid ''integrity.json must not recursively catalog either control file''),
        refuse (case previous of Some p \<Rightarrow> p \<ge> if_path f | None \<Rightarrow> False)
          (ext_invalid ''integrity.json files must be unique and sorted by path''),
        validate_ext_sha256 (if_sha256 f) ''integrity file SHA-256'',
        refuse (kind = DeckPack \<and> if_byte_length f > MAX_DECK_FILE_BYTES)
          (ext_invalid ''a .ld file exceeds the 1 MiB per-file bound'')] = Inr () \<longleftrightarrow>
      catalog_file_ok kind f \<and> (\<forall>p\<in>set_option previous. p < if_path f)"
    unfolding catalog_file_ok_def deck_file_bound by (cases previous) (auto simp: try_iffs not_le)
  have step: "catalog_files kind previous t (f # fs) = Inr s \<longleftrightarrow>
      catalog_file_ok kind f \<and> (\<forall>p\<in>set_option previous. p < if_path f) \<and>
      (\<exists>t'. unat t' = unat t + unat (if_byte_length f) \<and>
         catalog_files kind (Some (if_path f)) t' fs = Inr s)"
    unfolding catalog_files.simps try_bind_Inr ok_or_Inr checked_add_Some using head by auto
  have sum: "(\<exists>t' :: u64. unat t' = unat t + unat (if_byte_length f) \<and> unat s = unat t' + catalog_bytes fs) \<longleftrightarrow>
      unat s = unat t + catalog_bytes (f # fs)"
  proof
    assume eq: "unat s = unat t + catalog_bytes (f # fs)"
    have "unat t + unat (if_byte_length f) \<le> unat s"
      using eq by (simp add: catalog_bytes_def)
    also have "unat s < 2 ^ 64"
      using unsigned_less [where 'a = nat, of s] by simp
    finally obtain t' :: u64 where "unat t' = unat t + unat (if_byte_length f)"
      using u64_of_nat by blast
    then show "\<exists>t' :: u64. unat t' = unat t + unat (if_byte_length f) \<and> unat s = unat t' + catalog_bytes fs"
      using eq by (intro exI [of _ t']) (simp add: catalog_bytes_def)
  qed (auto simp: catalog_bytes_def)
  show ?case
    unfolding step Cons.IH sum [symmetric] by (auto intro: less_trans)
qed

lemma extracted_room:
  "u > u64_saturating_sub (max_extracted_bytes kind) (2 * of_nat MAX_JSON_BYTES) \<longleftrightarrow>
     \<not> unat u + 2 * 2 ^ 20 \<le> unat (max_extracted_bytes kind)"
proof -
  have "u64_saturating_sub (max_extracted_bytes kind) (2 * of_nat MAX_JSON_BYTES) =
      max_extracted_bytes kind - 2 * of_nat MAX_JSON_BYTES"
    by (cases kind) (simp_all add: u64_saturating_sub_def checked_sub_def max_extracted_bytes_def ext_bounds)
  moreover have "unat (max_extracted_bytes kind - 2 * of_nat MAX_JSON_BYTES) =
      unat (max_extracted_bytes kind) - 2 * 2 ^ 20"
    by (cases kind) (simp_all add: max_extracted_bytes_def ext_bounds)
  moreover have "2 * 2 ^ 20 \<le> unat (max_extracted_bytes kind)"
    by (cases kind) (simp_all add: max_extracted_bytes_def ext_bounds)
  ultimately show ?thesis
    unfolding word_less_nat_alt by (simp only:) linarith
qed

text \<open>C29: Integrity catalogs. A catalog that the schema reads is accepted exactly when it has a
  file and leaves room for the two control files in the bound on files, its paths are storable and
  strictly increasing (so that none is repeated) and none is a control file, its hashes are canonical,
  and the exact sum of the lengths, on unbounded integers, leaves room for two control files of one
  MiB in the bound on the extracted size; the loop over 64-bit sums never depends on a wrapped sum.\<close>

theorem integrity_catalog_exact:
  "parse_integrity_catalog sx bytes kind = Inr catalog \<longleftrightarrow>
     parse_strict_json sx bytes ''integrity.json'' = Inr catalog \<and>
     ic_manifest_version catalog = ''1.0.0'' \<and> ic_files catalog \<noteq> [] \<and>
     length (ic_files catalog) + 2 \<le> ext_max_files kind \<and>
     list_all (catalog_file_ok kind) (ic_files catalog) \<and>
     sorted_wrt (<) (map if_path (ic_files catalog)) \<and>
     catalog_bytes (ic_files catalog) + 2 * 2 ^ 20 \<le> unat (max_extracted_bytes kind)"
proof -
  have count: "min (n + 2) usize_max > ext_max_files kind \<longleftrightarrow> \<not> n + 2 \<le> ext_max_files kind" for n
    by (cases kind) (simp_all add: ext_max_files_def ext_bounds usize_max_def min_def not_le)
  have sum: "(\<exists>u :: u64. unat u = unat (0 :: u64) + b \<and> unat u + 2 * 2 ^ 20 \<le> unat (max_extracted_bytes kind)) \<longleftrightarrow>
      b + 2 * 2 ^ 20 \<le> unat (max_extracted_bytes kind)" for b
  proof
    assume le: "b + 2 * 2 ^ 20 \<le> unat (max_extracted_bytes kind)"
    then have "b < 2 ^ 64"
      using unsigned_less [where 'a = nat, of "max_extracted_bytes kind"] by simp
    then obtain u :: u64 where "unat u = b"
      using u64_of_nat by blast
    then show "\<exists>u :: u64. unat u = unat (0 :: u64) + b \<and>
        unat u + 2 * 2 ^ 20 \<le> unat (max_extracted_bytes kind)"
      using le by (intro exI [of _ u]) simp
  qed auto
  have "parse_integrity_catalog sx bytes kind = Inr catalog \<longleftrightarrow>
      parse_strict_json sx bytes ''integrity.json'' = Inr catalog \<and>
      ic_manifest_version catalog = ''1.0.0'' \<and> ic_files catalog \<noteq> [] \<and>
      length (ic_files catalog) + 2 \<le> ext_max_files kind \<and>
      (\<exists>u. catalog_files kind None 0 (ic_files catalog) = Inr u \<and>
         unat u + 2 * 2 ^ 20 \<le> unat (max_extracted_bytes kind))"
    unfolding parse_integrity_catalog_def count extracted_room INTEGRITY_MANIFEST_VERSION_def
    by (auto simp: try_bind_Inr in_order_Cons_Inr refuse_Inr split: if_splits)
  then show ?thesis
    unfolding catalog_files_Inr using sum [of "catalog_bytes (ic_files catalog)"] by auto
qed

section \<open>Identities\<close>

lemma no_uppercase_lower: "list_all (\<lambda>c. \<not> is_ascii_uppercase c) s \<Longrightarrow> map to_ascii_lowercase s = s"
  by (induction s) (simp_all add: to_ascii_lowercase_def)

lemma reverse_dns_lowercase:
  assumes "validate_reverse_dns_id v name = Inr u"
  shows "list_all (\<lambda>c. \<not> is_ascii_uppercase c) v"
proof -
  have seg: "\<not> is_ascii_uppercase c" if "w \<in> set (split_on CHR ''.'' v)" "c \<in> set w" for w c
    using assms that
    by (fastforce simp: validate_reverse_dns_id_def try_iffs reverse_dns_segment_invalid_def
        list_all_iff ascii_defs)
  have dot: "\<not> is_ascii_uppercase CHR ''.''"
    by (simp add: ascii_defs)
  have "set v \<subseteq> insert CHR ''.'' (\<Union>w\<in>set (split_on CHR ''.'' v). set w)"
    using set_join [of "CHR ''.''" "split_on CHR ''.'' v"] by simp
  then show ?thesis
    using seg dot unfolding list_all_iff by blast
qed

text \<open>C28: Storage keys of packages. Two package references that pass validation and whose names
  Windows cannot tell apart (equal up to ASCII case) are the same package, and the names of the
  version's directory, receipt and lock fit the bound of 120 bytes on a component: no two packages
  share a directory or a receipt on a file system that ignores case.\<close>

theorem storage_keys_injective:
  assumes "validate_package_reference sem p = Inr ()" and "validate_package_reference sem q = Inr ()"
    and "pref_kind p = pref_kind q"
    and "eq_ignore_ascii_case (pref_package_id p) (pref_package_id q)"
    and "eq_ignore_ascii_case (pref_package_version p) (pref_package_version q)"
  shows "p = q \<and> length (pref_package_version p @ ''.json'') \<le> 120"
proof -
  have lower: "map to_ascii_lowercase (pref_package_id r) = pref_package_id r"
      "map to_ascii_lowercase (pref_package_version r) = pref_package_version r"
      "length (pref_package_version r) \<le> 115"
    if "validate_package_reference sem r = Inr ()" for r :: package_reference
    using that reverse_dns_lowercase
    by (auto simp: validate_package_reference_def validate_package_version_def try_iffs
        MAX_PACKAGE_VERSION_BYTES_def list_all_iff list_ex_iff intro!: no_uppercase_lower)
  show ?thesis
    using assms lower [OF assms(1)] lower [OF assms(2)]
    by (auto simp: eq_ignore_ascii_case_def intro!: package_reference.equality)
qed

definition sample_ext_reference :: package_reference where
  "sample_ext_reference =
     \<lparr>pref_kind = DeckPack, pref_package_id = ''com.example'', pref_package_version = ''11''\<rparr>"

theorem storage_keys_injective_witness:
  "sample_ext_reference = sample_ext_reference \<and>
   length (pref_package_version sample_ext_reference @ ''.json'') \<le> 120"
proof (rule storage_keys_injective [where sem = sample_semver])
  show "validate_package_reference sample_semver sample_ext_reference = Inr ()"
    by (simp add: validate_package_reference_def sample_ext_reference_def validate_reverse_dns_id_def
        validate_package_version_def validate_semver_def sample_semver_def try_iffs
        MAX_PACKAGE_VERSION_BYTES_def reverse_dns_segment_invalid_def starts_with_def ends_with_def
        ascii_defs numeral_2_eq_2)
  then show "validate_package_reference sample_semver sample_ext_reference = Inr ()" .
qed (simp_all add: eq_ignore_ascii_case_def)

text \<open>The identities of packages are not checked as components of a path: a name whose first part
  is a device name is accepted, although its directory cannot be created under such a name.\<close>

lemma device_named_package:
  "validate_reverse_dns_id ''nul.deck'' ''deck_id'' = Inr () \<and> \<not> storage_component ''nul.deck''"
proof
  show "validate_reverse_dns_id ''nul.deck'' ''deck_id'' = Inr ()"
    by (simp add: validate_reverse_dns_id_def try_iffs reverse_dns_segment_invalid_def
        starts_with_def ends_with_def ascii_defs)
  have "map to_ascii_uppercase (component_stem ''nul.deck'') = ''NUL''"
    by code_simp
  then show "\<not> storage_component ''nul.deck''"
    by (simp add: storage_component_def device_names_def)
qed

section \<open>Decks\<close>

lemma same_set_mset:
  "length xs = length ys \<Longrightarrow> distinct ys \<Longrightarrow> set xs = set ys \<Longrightarrow> mset xs = mset ys"
  by (metis card_distinct distinct_card set_eq_iff_mset_eq_distinct)


definition sample_deck_signal :: deck_signal_descriptor where
  "sample_deck_signal =
     \<lparr>dsd_slots = 2,
      dsd_roles = [\<lparr>role_role_id = ''left'', role_display_name = ''Left''\<rparr>,
        \<lparr>role_role_id = ''right'', role_display_name = ''Right''\<rparr>],
      dsd_default_permutation = [''right'', ''left''], dsd_structural_carrier_role = ''left'',
      dsd_geometry_allowlist = [\<lparr>eg_dtype = TdFp16, eg_device = TdCuda, eg_batch = 1,
        eg_channels = 16, eg_temporal = 1, eg_height = 56, eg_width = 100\<rparr>],
      dsd_timing = \<lparr>td_frames_per_second_numerator = 24, td_frames_per_second_denominator = 1,
        td_samples_per_slot = 24\<rparr>,
      dsd_required_capabilities = [CcRealtime], dsd_profile_allowlist = None\<rparr>"


end
