(* ===== verification/Extension_Compatibility.thy ===== *)
theory Extension_Compatibility
  imports Extension_Exact Package_Compatibility
begin

text \<open>
  From manifests to contracts (\<open>crates/extension-manager/src/compatibility.rs\<close>): a deck and a codec
  manifest are translated into the contracts of the resolver, which decides; a translation that fails
  is \<open>PackageInvalid\<close>. The theorems follow a decision back to the manifests and to the health of
  the installed packages.
\<close>

section \<open>Requests and results\<close>

record package_compatibility =
  pcy_reason :: compatibility_reason
  pcy_compatible_profiles :: "ext_profile_key list"

record selected_source_compatibility =
  ssc_lc_spec_version :: string
  ssc_profile :: ext_profile_key
  ssc_geometry :: ext_signal_geometry
  ssc_decoded_height :: u32
  ssc_decoded_width :: u32
  ssc_frame_rate_numerator :: u32
  ssc_frame_rate_denominator :: u32
  ssc_timing_contract :: string
  ssc_timing_contract_version :: string

datatype selected_source_scope = ScopeCandidate | ScopeCompleteSet

record selected_compatibility =
  sel_assets_present :: bool
  sel_selected_profile :: "ext_profile_key option"
  sel_selected_device :: tensor_device
  sel_sources :: "selected_source_compatibility list"
  sel_source_scope :: selected_source_scope

record compatibility_pair =
  cp_deck :: package_reference
  cp_codec :: package_reference
  cp_reason :: compatibility_reason
  cp_compatible_profiles :: "ext_profile_key list"
  cp_compatible_profile :: "ext_profile_key option"

section \<open>Translation\<close>

text \<open>\<open>Result::ok\<close>, and collecting options into a \<open>BTreeSet\<close>.\<close>

definition ok_of :: "'e + 'a \<Rightarrow> 'a option" where
  "ok_of r = (case r of Inl e \<Rightarrow> None | Inr x \<Rightarrow> Some x)"

definition collect_set :: "('a \<Rightarrow> 'b option) \<Rightarrow> 'a list \<Rightarrow> 'b set option" where
  "collect_set f xs = map_option set (those (map f xs))"

definition capability_name :: "codec_capability \<Rightarrow> string" where
  "capability_name c = (case c of
       CcPlayer \<Rightarrow> ''player'' | CcRealtime \<Rightarrow> ''realtime'' | CcResample \<Rightarrow> ''resample''
     | CcSnapshotCapture \<Rightarrow> ''snapshot_capture'' | CcLiveCapture \<Rightarrow> ''live_capture''
     | CcRawImport \<Rightarrow> ''raw_import'')"

definition contract_set :: "string list \<Rightarrow> contract_id set option" where
  "contract_set values = collect_set (\<lambda>v. ok_of (contract_id_new v)) values"

definition capability_contracts :: "codec_capability list \<Rightarrow> contract_id set option" where
  "capability_contracts capabilities =
     collect_set (\<lambda>c. ok_of (contract_id_new (capability_name c))) capabilities"

definition dtype_contract :: "ext_tensor_dtype \<Rightarrow> contract_id option" where
  "dtype_contract d =
     ok_of (contract_id_new (case d of TdFp16 \<Rightarrow> ''float16'' | TdFp32 \<Rightarrow> ''float32''))"

definition device_contract :: "tensor_device \<Rightarrow> contract_id option" where
  "device_contract d = ok_of (contract_id_new (case d of TdCpu \<Rightarrow> ''cpu'' | TdCuda \<Rightarrow> ''cuda''))"

definition geometry_contract :: "ext_signal_geometry \<Rightarrow> tensor_geometry option" where
  "geometry_contract g =
     Option.bind (dtype_contract (eg_dtype g)) (\<lambda>dtype.
     Option.bind (device_contract (eg_device g)) (\<lambda>device.
     Some \<lparr>tg_dtype = dtype, tg_device = device, tg_batch = ucast (eg_batch g),
       tg_channels = ucast (eg_channels g), tg_temporal = ucast (eg_temporal g),
       tg_height = eg_height g, tg_width = eg_width g\<rparr>))"

definition profile_contract_of ::
    "('v, 'q) semver \<Rightarrow> ext_profile_key \<Rightarrow> 'v profile_contract option" where
  "profile_contract_of sem p =
     Option.bind (ok_of (contract_id_new (epk_codec_family p))) (\<lambda>codec_family.
     Option.bind (ok_of (contract_id_new (epk_profile p))) (\<lambda>profile.
     Option.bind (sem_parse_version sem (epk_profile_version p)) (\<lambda>profile_version.
     Some \<lparr>pc_codec_family = codec_family, pc_profile = profile,
       pc_profile_version = profile_version\<rparr>)))"

definition profile_key_of :: "('v, 'q) semver \<Rightarrow> 'v profile_contract \<Rightarrow> ext_profile_key" where
  "profile_key_of sem p =
     \<lparr>epk_codec_family = pc_codec_family p, epk_profile = pc_profile p,
      epk_profile_version = sem_to_string sem (pc_profile_version p)\<rparr>"

definition profile_allowlist_of ::
    "('v, 'q) semver \<Rightarrow> ext_profile_key list option \<Rightarrow> 'v profile_contract set option option" where
  "profile_allowlist_of sem profiles = (case profiles of
       Some profiles \<Rightarrow> map_option Some (collect_set (profile_contract_of sem) profiles)
     | None \<Rightarrow> Some None)"

definition normalized_python_version :: "('v, 'q) semver \<Rightarrow> string \<Rightarrow> 'v option" where
  "normalized_python_version sem value = (case sem_parse_version sem value of
       Some v \<Rightarrow> Some v
     | None \<Rightarrow> (case split_on CHR ''.'' value of
           [major, minor] \<Rightarrow>
             if \<not> list_all is_ascii_digit major \<or> \<not> list_all is_ascii_digit minor then None
             else sem_parse_version sem (major @ ''.'' @ minor @ ''.0'')
         | _ \<Rightarrow> None))"

definition runtime_contract ::
    "('v, 'q) semver \<Rightarrow> string \<Rightarrow> python_constraint \<Rightarrow> string \<Rightarrow> 'v package_runtime option" where
  "runtime_contract sem tensor_abi python torch =
     (let implementation = (case py_implementation python of Cpython \<Rightarrow> ''cpython'') in
     Option.bind (ok_of (contract_id_new tensor_abi)) (\<lambda>tensor_abi.
     Option.bind (ok_of (contract_id_new implementation)) (\<lambda>implementation.
     Option.bind (normalized_python_version sem (py_version python)) (\<lambda>version.
     Option.bind (ok_of (contract_id_new (py_platform_tag python))) (\<lambda>platform.
     Some \<lparr>rt_tensor_abi = tensor_abi, rt_python_implementation = implementation,
       rt_python_version = version, rt_python_platform = platform,
       rt_torch_exact_build = torch\<rparr>)))))"

definition app_requirement ::
    "('v, 'q) semver \<Rightarrow> string \<Rightarrow> string \<Rightarrow> 'q host_api_requirement option" where
  "app_requirement sem minimum maximum =
     ok_of (host_api_parse sem (''>='' @ minimum @ '', <'' @ maximum))"

definition package_identity_of ::
    "('v, 'q) semver \<Rightarrow> string \<Rightarrow> string \<Rightarrow> 'v package_identity option" where
  "package_identity_of sem i version =
     Option.bind (ok_of (contract_id_new i)) (\<lambda>i.
     Option.bind (sem_parse_version sem version) (\<lambda>version.
     Some \<lparr>pi_package_id = i, pi_version = version\<rparr>))"

definition host_runtime_of :: "('v, 'q) semver \<Rightarrow> string \<Rightarrow> 'v package_host_runtime option" where
  "host_runtime_of sem app_version =
     Option.bind (sem_parse_version sem app_version) (\<lambda>app_version.
     Option.bind (contract_set [''latentdeck.tensor.v1'']) (\<lambda>tensor_abis.
     Option.bind (contract_set [''cpython'']) (\<lambda>implementations.
     Option.bind (sem_parse_version sem ''3.13.0'') (\<lambda>python_version.
     Option.bind (contract_set [''win_amd64'']) (\<lambda>platforms.
     Option.bind (sem_parse_version sem ''0.1.0'') (\<lambda>lc_spec_version.
     Option.bind (contract_set [''float16'', ''float32'']) (\<lambda>dtypes.
     Option.bind (contract_set [''cpu'', ''cuda'']) (\<lambda>devices.
     Option.bind (capability_contracts [CcPlayer, CcRealtime, CcResample, CcSnapshotCapture,
       CcLiveCapture, CcRawImport]) (\<lambda>capabilities.
     Some \<lparr>ph_app_version = app_version, ph_protocol_versions = {2}, ph_deck_host_apis = {1},
       ph_deck_operator_apis = {1}, ph_codec_adapter_apis = {1}, ph_tensor_abis = tensor_abis,
       ph_python_implementations = implementations, ph_python_versions = {python_version},
       ph_python_platforms = platforms, ph_lc_spec_versions = {lc_spec_version},
       ph_tensor_dtypes = dtypes, ph_tensor_devices = devices, ph_samples_per_slot = {24},
       ph_capabilities = capabilities\<rparr>)))))))))"

definition deck_version_of ::
    "('v, 'q) semver \<Rightarrow> deck_pack_manifest \<Rightarrow> package_readiness \<Rightarrow>
     ('v, 'q) deck_package_version option" where
  "deck_version_of sem m readiness =
     (let c = dm_compatibility m; s = dm_signal m; t = dsd_timing s in
     Option.bind (package_identity_of sem (dm_deck_id m) (dm_deck_version m)) (\<lambda>identity.
     Option.bind (app_requirement sem (dc_app_min_inclusive c) (dc_app_max_exclusive c)) (\<lambda>app_host_api.
     Option.bind (runtime_contract sem (dc_tensor_abi c) (dc_python c) (dc_torch_exact_build c)) (\<lambda>runtime.
     Option.bind (profile_allowlist_of sem (dsd_profile_allowlist s)) (\<lambda>allowlist.
     Option.bind (collect_set geometry_contract (dsd_geometry_allowlist s)) (\<lambda>geometries.
     Option.bind (capability_contracts (dsd_required_capabilities s)) (\<lambda>capabilities.
     Some \<lparr>dpv_identity = identity, dpv_readiness = readiness, dpv_requires = Some
       \<lparr>dp_slots = dsd_slots s, dp_protocol_version = dc_worker_protocol c,
        dp_app_host_api = app_host_api, dp_deck_host_api = dc_deck_host_api c,
        dp_deck_operator_api = dc_deck_operator_api c, dp_runtime = runtime,
        dp_profile_allowlist = allowlist, dp_geometries = geometries,
        dp_timing = \<lparr>dt_frame = \<lparr>ft_frame_rate_numerator = td_frames_per_second_numerator t,
            ft_frame_rate_denominator = td_frames_per_second_denominator t\<rparr>,
          dt_samples_per_slot = td_samples_per_slot t\<rparr>,
        dp_capabilities = capabilities\<rparr>\<rparr>)))))))"

definition codec_version_of ::
    "('v, 'q) semver \<Rightarrow> codec_pack_manifest \<Rightarrow> package_readiness \<Rightarrow>
     ('v, 'q) codec_package_version option" where
  "codec_version_of sem m readiness =
     (let c = cm_compatibility m in
     Option.bind (package_identity_of sem (cm_pack_id m) (cm_pack_version m)) (\<lambda>identity.
     Option.bind (app_requirement sem (ccm_app_min_inclusive c) (ccm_app_max_exclusive c)) (\<lambda>app_host_api.
     Option.bind (runtime_contract sem (ccm_tensor_abi c) (ccm_python c) (ccm_torch_exact_build c)) (\<lambda>runtime.
     Option.bind (collect_set (sem_parse_version sem) (ccm_lc_spec_versions c)) (\<lambda>lc_spec_versions.
     Option.bind (collect_set (profile_contract_of sem) (ccm_profiles c)) (\<lambda>profiles.
     Option.bind (capability_contracts (cm_capabilities m)) (\<lambda>capabilities.
     Some \<lparr>kpv_identity = identity, kpv_readiness = readiness, kpv_provides = Some
       \<lparr>kp_protocol_version = ccm_worker_protocol c, kp_app_host_api = app_host_api,
        kp_codec_adapter_api = ccm_codec_adapter_api c, kp_runtime = runtime,
        kp_lc_spec_versions = lc_spec_versions, kp_profiles = profiles,
        kp_capabilities = capabilities\<rparr>\<rparr>)))))))"

definition selected_source_contract ::
    "('v, 'q) semver \<Rightarrow> selected_source_compatibility \<Rightarrow> 'v selected_source option" where
  "selected_source_contract sem s =
     Option.bind (sem_parse_version sem (ssc_lc_spec_version s)) (\<lambda>lc_spec_version.
     Option.bind (profile_contract_of sem (ssc_profile s)) (\<lambda>profile.
     Option.bind (geometry_contract (ssc_geometry s)) (\<lambda>geometry.
     Option.bind (ok_of (contract_id_new (ssc_timing_contract s))) (\<lambda>timing_contract.
     Option.bind (sem_parse_version sem (ssc_timing_contract_version s)) (\<lambda>timing_contract_version.
     Some \<lparr>src_lc_spec_version = lc_spec_version, src_profile = profile, src_geometry = geometry,
       src_decoded_height = ssc_decoded_height s, src_decoded_width = ssc_decoded_width s,
       src_timing = \<lparr>ft_frame_rate_numerator = ssc_frame_rate_numerator s,
         ft_frame_rate_denominator = ssc_frame_rate_denominator s\<rparr>,
       src_timing_contract = timing_contract,
       src_timing_contract_version = timing_contract_version\<rparr>)))))"

section \<open>Resolution\<close>

text \<open>The elements of a \<open>BTreeSet\<close> of profiles in its order: family, profile, version.\<close>

definition ordered_profiles :: "('v::linorder) profile_contract set \<Rightarrow> 'v profile_contract list" where
  "ordered_profiles ps =
     map (\<lambda>(f, p, v). \<lparr>pc_codec_family = f, pc_profile = p, pc_profile_version = v\<rparr>)
       (sorted_list_of_set
         ((\<lambda>p. (pc_codec_family p, pc_profile p, pc_profile_version p)) ` ps))"

definition invalid_compatibility :: package_compatibility where
  "invalid_compatibility = \<lparr>pcy_reason = PackageInvalid, pcy_compatible_profiles = []\<rparr>"

definition decision_of ::
    "('v::linorder, 'q) semver \<Rightarrow> contract_error + 'v package_decision \<Rightarrow> package_compatibility" where
  "decision_of sem r = (case r of
       Inl e \<Rightarrow> invalid_compatibility
     | Inr decision \<Rightarrow>
         \<lparr>pcy_reason = pd_reason decision,
          pcy_compatible_profiles =
            map (profile_key_of sem) (ordered_profiles (pd_compatible_profiles decision))\<rparr>)"

text \<open>The part of \<open>resolve_manifests\<close> for a selection.\<close>

definition resolve_selection ::
    "('v::linorder, 'q) semver \<Rightarrow> 'v package_host_runtime \<Rightarrow> ('v, 'q) deck_package_version \<Rightarrow>
     ('v, 'q) codec_package_version \<Rightarrow> selected_compatibility \<Rightarrow> package_compatibility" where
  "resolve_selection sem host deck codec selected =
     (let profile = Option.bind (sel_selected_profile selected) (profile_contract_of sem) in
      if sel_selected_profile selected \<noteq> None \<and> profile = None then invalid_compatibility
      else case device_contract (sel_selected_device selected) of
        None \<Rightarrow> invalid_compatibility
      | Some device \<Rightarrow> (case those (map (selected_source_contract sem) (sel_sources selected)) of
            None \<Rightarrow> invalid_compatibility
          | Some sources \<Rightarrow> decision_of sem (resolve_selected_pair sem host deck codec
              (if sel_assets_present selected then AssetsPresent else AssetsMissing)
              profile (Some device) sources
              (case sel_source_scope selected of
                 ScopeCandidate \<Rightarrow> Candidate | ScopeCompleteSet \<Rightarrow> CompleteSet))))"

definition resolve_manifests ::
    "('v::linorder, 'q) semver \<Rightarrow> deck_pack_manifest \<Rightarrow> package_readiness \<Rightarrow> codec_pack_manifest \<Rightarrow>
     package_readiness \<Rightarrow> string \<Rightarrow> selected_compatibility option \<Rightarrow> package_compatibility" where
  "resolve_manifests sem deck deck_readiness codec codec_readiness app_version selected =
     (case host_runtime_of sem app_version of
        None \<Rightarrow> invalid_compatibility
      | Some host \<Rightarrow> (case deck_version_of sem deck deck_readiness of
          None \<Rightarrow> invalid_compatibility
        | Some deck_contract \<Rightarrow> (case codec_version_of sem codec codec_readiness of
            None \<Rightarrow> invalid_compatibility
          | Some codec_contract \<Rightarrow> (case selected of
              Some selected \<Rightarrow> resolve_selection sem host deck_contract codec_contract selected
            | None \<Rightarrow>
                decision_of sem (resolve_package_pair sem host deck_contract codec_contract)))))"

definition resolve_package_compatibility ::
    "('v::linorder, 'q) semver \<Rightarrow> deck_pack_manifest \<Rightarrow> codec_pack_manifest \<Rightarrow> string \<Rightarrow>
     package_compatibility" where
  "resolve_package_compatibility sem deck codec app_version =
     resolve_manifests sem deck READY codec READY app_version None"

definition resolve_selected_compatibility ::
    "('v::linorder, 'q) semver \<Rightarrow> deck_pack_manifest \<Rightarrow> codec_pack_manifest \<Rightarrow> string \<Rightarrow> bool \<Rightarrow>
     ext_profile_key option \<Rightarrow> tensor_device \<Rightarrow> selected_source_compatibility list \<Rightarrow>
     selected_source_scope \<Rightarrow> package_compatibility" where
  "resolve_selected_compatibility sem deck codec app_version assets_present selected_profile
     selected_device sources source_scope =
     resolve_manifests sem deck READY codec READY app_version (Some
       \<lparr>sel_assets_present = assets_present, sel_selected_profile = selected_profile,
        sel_selected_device = selected_device, sel_sources = sources,
        sel_source_scope = source_scope\<rparr>)"

definition is_untrusted :: "installed_package_summary \<Rightarrow> bool" where
  "is_untrusted s =
     (sum_health s \<noteq> Corrupt \<and>
      (\<not> sum_enabled s \<or> sum_health s = HealthUntrusted \<or> sum_health s = VerificationRequired))"

definition summary_readiness :: "installed_package_summary \<Rightarrow> package_readiness" where
  "summary_readiness s =
     \<lparr>rd_trust = (if is_untrusted s then Untrusted else Trusted), rd_assets = AssetsPresent,
      rd_package = (if sum_health s = Corrupt then PackageDamaged else PackageValid)\<rparr>"

text \<open>\<open>crate_version\<close> is the version of the crate at build time.\<close>

definition resolve_inventory_pair ::
    "('v::linorder, 'q) semver \<Rightarrow> string \<Rightarrow> installed_package_summary \<Rightarrow> package_manifest option \<Rightarrow>
     installed_package_summary \<Rightarrow> package_manifest option \<Rightarrow> compatibility_pair" where
  "resolve_inventory_pair sem crate_version deck deck_manifest codec codec_manifest =
     (let compatibility = (case (deck_manifest, codec_manifest) of
          (Some (DeckManifest d), Some (CodecManifest k)) \<Rightarrow>
            resolve_manifests sem d (summary_readiness deck) k (summary_readiness codec)
              crate_version None
        | _ \<Rightarrow> if is_untrusted deck \<or> is_untrusted codec
               then \<lparr>pcy_reason = UntrustedPackage, pcy_compatible_profiles = []\<rparr>
               else \<lparr>pcy_reason = PackageInvalid, pcy_compatible_profiles = []\<rparr>)
      in \<lparr>cp_deck = sum_package deck, cp_codec = sum_package codec,
          cp_reason = pcy_reason compatibility,
          cp_compatible_profiles = pcy_compatible_profiles compatibility,
          cp_compatible_profile =
            (case pcy_compatible_profiles compatibility of [] \<Rightarrow> None | p # _ \<Rightarrow> Some p)\<rparr>)"

end
