(* ===== verification/Extension_Decisions.thy ===== *)
theory Extension_Decisions
  imports Extension_Compatibility
begin

text \<open>
  What the decisions on packages say about the manifests
  (\<open>crates/extension-manager/src/compatibility.rs\<close>): which validated manifests have a contract, what
  a compatible pair of the inventory guarantees, and that a selection only narrows it.
\<close>

section \<open>Collected sets and contract identifiers\<close>

lemma those_map_Some: "those (map f xs) = Some ys \<longleftrightarrow> map f xs = map Some ys"
  by (induction xs arbitrary: ys) (auto split: option.splits simp: Cons_eq_map_conv map_eq_Cons_conv)

lemma collect_set_Some: "collect_set f xs = Some S \<longleftrightarrow> (\<exists>ys. map f xs = map Some ys \<and> S = set ys)"
  by (auto simp: collect_set_def those_map_Some)

lemma collect_set_total: "(\<And>x. x \<in> set xs \<Longrightarrow> f x = Some (g x)) \<Longrightarrow> collect_set f xs = Some (g ` set xs)"
  by (auto simp: collect_set_Some intro!: exI [of _ "map g xs"])

lemma collect_set_member:
  assumes "collect_set f xs = Some S"
  shows "y \<in> S \<longleftrightarrow> (\<exists>x\<in>set xs. f x = Some y)"
proof -
  obtain ys where eq: "map f xs = map Some ys" and S: "S = set ys"
    using assms by (auto simp: collect_set_Some)
  have "y \<in> set ys \<longleftrightarrow> Some y \<in> set (map Some ys)"
    by auto
  then show ?thesis
    unfolding S eq [symmetric] by (auto simp: image_iff eq_commute)
qed

lemma ok_of_Some [simp]: "ok_of r = Some x \<longleftrightarrow> r = Inr x"
  by (cases r) (simp_all add: ok_of_def)

lemma contract_id_accepted:
  "contract_id_new v = Inr w \<longleftrightarrow> w = v \<and> v \<noteq> [] \<and> length v \<le> 128 \<and> v \<noteq> ''*'' \<and>
     \<not> eq_ignore_ascii_case v ''any'' \<and> list_all is_contract_id_byte v"
  by (auto simp: contract_id_new_def validate_contract_id_def MAX_CONTRACT_ID_BYTES_def try_iffs
      split: if_splits)

lemma local_id_contract:
  assumes "validate_local_id v name = Inr u" and "\<not> eq_ignore_ascii_case v ''any''"
  shows "contract_id_new v = Inr v"
proof -
  have v: "v \<noteq> []" "length v \<le> 80" "\<forall>c\<in>set v. is_local_id_byte c"
    using assms(1) by (simp_all add: validate_local_id_def refuse_Inr list_all_iff)
  have byte: "is_local_id_byte c \<Longrightarrow> is_contract_id_byte c" "\<not> is_local_id_byte CHR ''*''" for c
    by (auto simp: is_local_id_byte_def is_contract_id_byte_def is_ascii_alphanumeric_def ascii_defs)
  then have "v \<noteq> ''*''"
    using v(3) by auto
  then show ?thesis
    using v assms(2) byte by (simp add: contract_id_accepted list_all_iff)
qed

lemma capability_contracts_eq: "capability_contracts cs = Some (capability_name ` set cs)"
  unfolding capability_contracts_def
  by (rule collect_set_total)
    (auto simp: contract_id_accepted capability_name_def eq_ignore_ascii_case_def
      is_contract_id_byte_def ascii_defs split: codec_capability.splits)

lemma inj_capability_name: "inj capability_name"
  by (rule injI) (auto simp: capability_name_def split: codec_capability.splits)

lemma device_contract_eq: "device_contract d = Some (case d of TdCpu \<Rightarrow> ''cpu'' | TdCuda \<Rightarrow> ''cuda'')"
  by (simp add: device_contract_def contract_id_accepted eq_ignore_ascii_case_def
      is_contract_id_byte_def ascii_defs split: tensor_device.splits)

lemma dtype_contract_eq:
  "dtype_contract d = Some (case d of TdFp16 \<Rightarrow> ''float16'' | TdFp32 \<Rightarrow> ''float32'')"
  by (simp add: dtype_contract_def contract_id_accepted eq_ignore_ascii_case_def
      is_contract_id_byte_def ascii_defs split: ext_tensor_dtype.splits)

section \<open>Profiles\<close>

lemma validated_profile:
  assumes "validate_ext_profile_key sem p = Inr ()"
  obtains c where "profile_contract_of sem p = Some c" and "profile_key_of sem c = p"
proof -
  have ids: "contract_id_new (epk_codec_family p) = Inr (epk_codec_family p)"
      "contract_id_new (epk_profile p) = Inr (epk_profile p)"
    using assms by (auto simp: validate_ext_profile_key_def try_iffs intro: local_id_contract)
  obtain v where v: "sem_parse_version sem (epk_profile_version p) = Some v"
      "sem_to_string sem v = epk_profile_version p"
    using assms by (auto simp: validate_ext_profile_key_def validate_semver_def try_iffs)
  show thesis
    by (rule that [of "\<lparr>pc_codec_family = epk_codec_family p, pc_profile = epk_profile p,
        pc_profile_version = v\<rparr>"])
      (simp_all add: profile_contract_of_def ok_of_def ids v profile_key_of_def)
qed

lemma set_ordered_profiles: "finite ps \<Longrightarrow> set (ordered_profiles ps) = ps"
proof -
  assume "finite ps"
  then have "set (ordered_profiles ps) = (\<lambda>p. \<lparr>pc_codec_family = pc_codec_family p,
      pc_profile = pc_profile p, pc_profile_version = pc_profile_version p\<rparr>) ` ps"
    by (simp add: ordered_profiles_def image_image)
  also have "\<dots> = (\<lambda>p. p) ` ps"
    by (rule image_cong) simp_all
  finally show ?thesis
    by simp
qed

lemma profiles_collected:
  assumes "collect_set (profile_contract_of sem) ps = Some S"
    and "\<forall>p\<in>set ps. validate_ext_profile_key sem p = Inr ()"
  shows "finite S" and "profile_key_of sem ` S = set ps"
    and "\<forall>c\<in>S. profile_contract_of sem (profile_key_of sem c) = Some c"
proof -
  have S: "c \<in> S \<longleftrightarrow> (\<exists>p\<in>set ps. profile_contract_of sem p = Some c)" for c
    using collect_set_member [OF assms(1)] .
  have key: "profile_key_of sem c = p" if "p \<in> set ps" "profile_contract_of sem p = Some c" for p c
    using validated_profile [of sem p] assms(2) that by (metis option.inject)
  have ex: "\<exists>c. profile_contract_of sem p = Some c" if "p \<in> set ps" for p
    using validated_profile [of sem p] assms(2) that by blast
  show "finite S"
    using assms(1) by (auto simp: collect_set_Some)
  show "profile_key_of sem ` S = set ps"
    using S key ex by (force simp: image_iff)
  show "\<forall>c\<in>S. profile_contract_of sem (profile_key_of sem c) = Some c"
    using S key by metis
qed

section \<open>Selections\<close>

lemma sources_Compatible:
  assumes "pd_reason (resolve_sources host d codec profile device sources scope p) = Compatible"
  shows "resolve_sources host d codec profile device sources scope p = p"
proof (cases "kpv_provides codec")
  case None
  then show ?thesis
    using assms by (simp add: resolve_sources_def split: if_splits)
next
  case (Some k)
  then show ?thesis
    using assms resolve_sources_Compatible [OF Some] by simp
qed

lemma selected_Compatible_package:
  assumes "resolve_selected_pair sem host deck codec assets profile device sources scope = Inr r"
    and "pd_reason r = Compatible"
  shows "resolve_package_pair sem host deck codec = Inr r"
proof -
  obtain p where p: "resolve_package_pair sem host deck codec = Inr p"
    using assms(1) by (auto simp: resolve_selected_pair_def try_iffs)
  have "r = p"
    using assms sources_Compatible
    by (auto simp: resolve_selected_pair_def p split: if_splits option.splits)
  with p show ?thesis
    by simp
qed

lemma resolve_selection_decided:
  "resolve_selection sem host d k sel = invalid_compatibility \<or>
   (\<exists>a p dv ss sc. resolve_selection sem host d k sel =
      decision_of sem (resolve_selected_pair sem host d k a p dv ss sc))"
  unfolding resolve_selection_def Let_def by (simp split: option.split) blast


section \<open>The inventory\<close>

lemma healthy_summary:
  "rd_trust (summary_readiness s) \<noteq> Untrusted \<and> rd_package (summary_readiness s) \<noteq> PackageDamaged \<longleftrightarrow>
     sum_enabled s \<and> sum_health s = Healthy"
  by (cases "sum_health s") (auto simp: summary_readiness_def is_untrusted_def)

lemma host_runtime_facts:
  assumes "host_runtime_of sem v = Some host"
  shows "ph_protocol_versions host = {2}" "ph_deck_host_apis host = {1}"
    "ph_deck_operator_apis host = {1}" "ph_codec_adapter_apis host = {1}"
    "ph_tensor_abis host = {''latentdeck.tensor.v1''}"
  using assms by (auto simp: host_runtime_of_def bind_eq_Some_conv contract_set_def collect_set_Some
      contract_id_accepted)

lemma deck_version_facts:
  assumes "deck_version_of sem m rd = Some v"
  obtains d where "dpv_requires v = Some d" and "dpv_readiness v = rd"
    and "dp_protocol_version d = dc_worker_protocol (dm_compatibility m)"
    and "dp_deck_host_api d = dc_deck_host_api (dm_compatibility m)"
    and "dp_deck_operator_api d = dc_deck_operator_api (dm_compatibility m)"
    and "rt_tensor_abi (dp_runtime d) = dc_tensor_abi (dm_compatibility m)"
    and "rt_torch_exact_build (dp_runtime d) = dc_torch_exact_build (dm_compatibility m)"
    and "dp_capabilities d = capability_name ` set (dsd_required_capabilities (dm_signal m))"
    and "profile_allowlist_of sem (dsd_profile_allowlist (dm_signal m)) = Some (dp_profile_allowlist d)"
  using assms
  by (auto simp: deck_version_of_def Let_def bind_eq_Some_conv runtime_contract_def
      capability_contracts_eq contract_id_accepted intro!: that)

lemma codec_version_facts:
  assumes "codec_version_of sem m rd = Some v"
  obtains k where "kpv_provides v = Some k" and "kpv_readiness v = rd"
    and "kp_protocol_version k = ccm_worker_protocol (cm_compatibility m)"
    and "kp_codec_adapter_api k = ccm_codec_adapter_api (cm_compatibility m)"
    and "rt_tensor_abi (kp_runtime k) = ccm_tensor_abi (cm_compatibility m)"
    and "rt_torch_exact_build (kp_runtime k) = ccm_torch_exact_build (cm_compatibility m)"
    and "kp_capabilities k = capability_name ` set (cm_capabilities m)"
    and "collect_set (profile_contract_of sem) (ccm_profiles (cm_compatibility m)) = Some (kp_profiles k)"
  using assms
  by (auto simp: codec_version_of_def Let_def bind_eq_Some_conv runtime_contract_def
      capability_contracts_eq contract_id_accepted intro!: that)

lemma package_outcome_conditions:
  assumes "fst (package_outcome sem host deck codec) = Compatible"
    and "dpv_requires deck = Some d" and "kpv_provides codec = Some k"
  shows "rd_trust (dpv_readiness deck) \<noteq> Untrusted" "rd_trust (kpv_readiness codec) \<noteq> Untrusted"
    "rd_package (dpv_readiness deck) \<noteq> PackageDamaged"
    "rd_package (kpv_readiness codec) \<noteq> PackageDamaged"
    "dp_protocol_version d = kp_protocol_version k" "dp_protocol_version d \<in> ph_protocol_versions host"
    "dp_deck_host_api d \<in> ph_deck_host_apis host"
    "dp_deck_operator_api d \<in> ph_deck_operator_apis host"
    "kp_codec_adapter_api k \<in> ph_codec_adapter_apis host"
    "dp_runtime d = kp_runtime k" "rt_tensor_abi (dp_runtime d) \<in> ph_tensor_abis host"
    "dp_capabilities d \<subseteq> kp_capabilities k"
    "snd (package_outcome sem host deck codec) = allowed_profiles d k"
    "allowed_profiles d k \<noteq> {}"
  using assms by (auto simp: package_outcome_def Let_def supports_runtime_def split: if_splits)

lemma allowed_profile_keys:
  assumes codec: "collect_set (profile_contract_of sem) ps = Some (kp_profiles k)"
    and deck: "profile_allowlist_of sem allow = Some (dp_profile_allowlist d)"
    and ps: "\<forall>p\<in>set ps. validate_ext_profile_key sem p = Inr ()"
    and al: "\<forall>a\<in>set_option allow. \<forall>p\<in>set a. validate_ext_profile_key sem p = Inr ()"
  shows "finite (allowed_profiles d k)" and "profile_key_of sem ` allowed_profiles d k =
      set ps \<inter> (case allow of None \<Rightarrow> UNIV | Some a \<Rightarrow> set a)"
proof -
  note k = profiles_collected [OF codec ps]
  show "finite (allowed_profiles d k)"
    using k(1) by (simp add: allowed_profiles_eq)
  show "profile_key_of sem ` allowed_profiles d k = set ps \<inter> (case allow of None \<Rightarrow> UNIV | Some a \<Rightarrow> set a)"
  proof (cases allow)
    case None
    then show ?thesis
      using deck k(2) by (simp add: profile_allowlist_of_def allowed_profiles_eq)
  next
    case (Some a)
    have "map_option Some (collect_set (profile_contract_of sem) a) = Some (dp_profile_allowlist d)"
      using deck Some by (simp add: profile_allowlist_of_def)
    then obtain S where S: "collect_set (profile_contract_of sem) a = Some S"
        "dp_profile_allowlist d = Some S"
      by (cases "collect_set (profile_contract_of sem) a") simp_all
    have a: "\<forall>p\<in>set a. validate_ext_profile_key sem p = Inr ()"
      using al Some by simp
    note d = profiles_collected [OF S(1) a]
    have inj: "inj_on (profile_key_of sem) (kp_profiles k \<union> S)"
      using k(3) d(3) by (intro inj_onI) (metis Un_iff option.inject)
    have "profile_key_of sem ` (kp_profiles k \<inter> S) =
        profile_key_of sem ` kp_profiles k \<inter> profile_key_of sem ` S"
      by (rule inj_on_image_Int [OF inj]) simp_all
    then show ?thesis
      using k(2) d(2) Some S(2) by (simp add: allowed_profiles_eq)
  qed
qed

lemma validated_profiles:
  "validate_codec_manifest sem k = Inr () \<Longrightarrow>
     \<forall>p\<in>set (ccm_profiles (cm_compatibility k)). validate_ext_profile_key sem p = Inr ()"
  "validate_deck_manifest sem d = Inr () \<Longrightarrow>
     \<forall>a\<in>set_option (dsd_profile_allowlist (dm_signal d)). \<forall>p\<in>set a.
       validate_ext_profile_key sem p = Inr ()"
  by (simp_all add: validate_codec_manifest_def validate_deck_manifest_def validate_deck_signal_def
      Let_def try_iffs split: option.splits)


section \<open>Which decks have a contract\<close>

lemma reverse_dns_contract:
  assumes "validate_reverse_dns_id v name = Inr u"
  shows "contract_id_new v = Inr w \<longleftrightarrow> w = v \<and> length v \<le> 128"
proof -
  have dot: "CHR ''.'' \<in> set v"
    using assms by (auto simp: validate_reverse_dns_id_def try_iffs)
  have seg: "is_contract_id_byte c" if "s \<in> set (split_on CHR ''.'' v)" "c \<in> set s" for s c
  proof -
    have "is_ascii_lowercase c \<or> is_ascii_digit c \<or> c = CHR ''-''"
      using assms that by (auto simp: validate_reverse_dns_id_def try_iffs
          reverse_dns_segment_invalid_def list_all_iff)
    then show ?thesis
      by (auto simp: is_contract_id_byte_def is_ascii_alphanumeric_def)
  qed
  have "set v \<subseteq> insert CHR ''.'' (\<Union>s\<in>set (split_on CHR ''.'' v). set s)"
    using set_join [of "CHR ''.''" "split_on CHR ''.'' v"] by simp
  moreover have "is_contract_id_byte CHR ''.''"
    by (simp add: is_contract_id_byte_def)
  ultimately have "list_all is_contract_id_byte v"
    using seg unfolding list_all_iff by blast
  moreover have "v \<noteq> []" "v \<noteq> ''*''"
    using dot by auto
  moreover have "\<not> eq_ignore_ascii_case v ''any''"
  proof
    assume "eq_ignore_ascii_case v ''any''"
    then have "map to_ascii_lowercase v = ''any''"
      by (simp add: eq_ignore_ascii_case_def to_ascii_lowercase_def ascii_defs)
    then have "to_ascii_lowercase CHR ''.'' \<in> set ''any''"
      using dot by (metis image_eqI list.set_map)
    then show False
      by (simp add: to_ascii_lowercase_def ascii_defs)
  qed
  ultimately show ?thesis
    by (auto simp: contract_id_accepted)
qed

lemma validated_runtime:
  assumes "validate_runtime_constraints sem tensor_abi (py_version python) (py_platform_tag python)
      torch = Inr u"
  shows "runtime_contract sem tensor_abi python torch \<noteq> None \<longleftrightarrow>
      normalized_python_version sem (py_version python) \<noteq> None"
proof -
  have abi: "contract_id_new tensor_abi = Inr tensor_abi"
    using assms by (auto simp: validate_runtime_constraints_def validate_contract_name_def try_iffs
        contract_id_accepted is_contract_id_byte_def list_all_iff)
  have platform: "contract_id_new (py_platform_tag python) = Inr (py_platform_tag python)"
    using assms by (auto simp: validate_runtime_constraints_def try_iffs intro: local_id_contract)
  have "contract_id_new ''cpython'' = Inr ''cpython''"
    by (simp add: contract_id_accepted eq_ignore_ascii_case_def is_contract_id_byte_def ascii_defs)
  then have implementation:
    "contract_id_new (case py_implementation python of Cpython \<Rightarrow> ''cpython'') = Inr ''cpython''"
    by (cases "py_implementation python") simp
  show ?thesis
    unfolding runtime_contract_def Let_def abi platform implementation
    by (cases "normalized_python_version sem (py_version python)") (simp_all add: ok_of_def)
qed

text \<open>C27: Decks without a contract. A deck manifest that passes validation is given to the resolver
  unless its identity is longer than the 128 bytes of a contract identifier (validation allows 160), its
  application range does not make a requirement of the \<open>semver\<close> crate, or its Python version does not
  make a version; in these cases, and only in these, it has no contract and is reported as an invalid
  package.\<close>

theorem validated_deck_contract:
  assumes "validate_deck_manifest sem m = Inr ()"
  shows "deck_version_of sem m readiness \<noteq> None \<longleftrightarrow>
    length (dm_deck_id m) \<le> 128 \<and>
    app_requirement sem (dc_app_min_inclusive (dm_compatibility m))
      (dc_app_max_exclusive (dm_compatibility m)) \<noteq> None \<and>
    normalized_python_version sem (py_version (dc_python (dm_compatibility m))) \<noteq> None"
proof -
  let ?c = "dm_compatibility m" and ?s = "dm_signal m"
  have parts: "validate_reverse_dns_id (dm_deck_id m) ''deck_id'' = Inr ()"
    "validate_package_version sem (dm_deck_version m) ''deck_version'' = Inr ()"
    "validate_runtime_constraints sem (dc_tensor_abi ?c) (py_version (dc_python ?c))
       (py_platform_tag (dc_python ?c)) (dc_torch_exact_build ?c) = Inr ()"
    using assms by (simp_all add: validate_deck_manifest_def Let_def in_order_Cons_Inr)
  obtain v where v: "sem_parse_version sem (dm_deck_version m) = Some v"
    using parts(2) by (auto simp: validate_package_version_def validate_semver_def try_iffs)
  have identity: "package_identity_of sem (dm_deck_id m) (dm_deck_version m) \<noteq> None \<longleftrightarrow>
      length (dm_deck_id m) \<le> 128"
    using reverse_dns_contract [OF parts(1)] v
    by (cases "contract_id_new (dm_deck_id m)") (auto simp: package_identity_of_def ok_of_def)
  have allowlist: "profile_allowlist_of sem (dsd_profile_allowlist ?s) \<noteq> None"
  proof (cases "dsd_profile_allowlist ?s")
    case (Some ps)
    then have "\<forall>p\<in>set ps. validate_ext_profile_key sem p = Inr ()"
      using validated_profiles(2) [OF assms] by simp
    then have "collect_set (profile_contract_of sem) ps = Some ((\<lambda>p. the (profile_contract_of sem p)) ` set ps)"
      by (intro collect_set_total) (metis option.sel validated_profile)
    then show ?thesis
      by (simp add: profile_allowlist_of_def Some)
  qed (simp add: profile_allowlist_of_def)
  have geometries: "collect_set geometry_contract (dsd_geometry_allowlist ?s) \<noteq> None"
    by (subst collect_set_total [of _ _ "\<lambda>g. the (geometry_contract g)"])
      (simp_all add: geometry_contract_def dtype_contract_eq device_contract_eq)
  show ?thesis
    unfolding deck_version_of_def Let_def capability_contracts_eq
    using identity validated_runtime [OF parts(3)] allowlist geometries
    by (auto simp: bind_eq_Some_conv)
qed

section \<open>Samples\<close>

definition sample_python :: python_constraint where
  "sample_python =
     \<lparr>py_implementation = Cpython, py_version = ''3.13.0'', py_platform_tag = ''win_amd64''\<rparr>"

definition sample_publisher :: publisher_descriptor where
  "sample_publisher = \<lparr>pub_name = ''Example'', pub_url = None, pub_identity_claim = SelfDeclared\<rparr>"

definition sample_license :: license_descriptor where
  "sample_license = \<lparr>lic_spdx_or_label = ''MIT'', lic_notice_path = ''NOTICE.txt''\<rparr>"

definition sample_hash :: string where
  "sample_hash = replicate 64 CHR ''a''"

definition sample_ext_profile :: ext_profile_key where
  "sample_ext_profile =
     \<lparr>epk_codec_family = ''minimax'', epk_profile = ''h3'', epk_profile_version = ''1''\<rparr>"

definition sample_deck_manifest :: deck_pack_manifest where
  "sample_deck_manifest =
     \<lparr>dm_manifest_version = ''1.0.0'', dm_kind = DeckPack, dm_deck_id = ''com.example'',
      dm_deck_version = ''11'', dm_display_name = ''Deck'', dm_summary = ''A deck'',
      dm_publisher = sample_publisher, dm_license = sample_license,
      dm_compatibility = \<lparr>dc_app_min_inclusive = ''1'', dc_app_max_exclusive = ''11'',
        dc_deck_host_api = 1, dc_worker_protocol = 2, dc_deck_operator_api = 1,
        dc_tensor_abi = ''latentdeck.tensor.v1'', dc_python = sample_python,
        dc_torch_exact_build = ''111''\<rparr>,
      dm_runtime = \<lparr>rtd_kind = PythonOperatorStreamV1, rtd_operator_descriptor_path = ''operator.json'',
        rtd_python_root = ''python'', rtd_entrypoint = ''deck:run''\<rparr>,
      dm_signal = sample_deck_signal, dm_faceplate_path = ''faceplate.json'',
      dm_integrity = \<lparr>id_catalog_path = ''integrity.json'', id_catalog_sha256 = sample_hash\<rparr>\<rparr>"

definition sample_codec_manifest :: codec_pack_manifest where
  "sample_codec_manifest =
     \<lparr>cm_manifest_version = ''2.0.0'', cm_kind = CodecPack, cm_pack_id = ''com.codec'',
      cm_pack_version = ''11'', cm_display_name = ''Codec'', cm_summary = ''A codec'',
      cm_publisher = sample_publisher, cm_license = sample_license,
      cm_platform = \<lparr>pld_os = Windows, pld_arch = X86_64\<rparr>,
      cm_compatibility = \<lparr>ccm_app_min_inclusive = ''1'', ccm_app_max_exclusive = ''11'',
        ccm_worker_protocol = 2, ccm_codec_adapter_api = 1,
        ccm_tensor_abi = ''latentdeck.tensor.v1'', ccm_python = sample_python,
        ccm_torch_exact_build = ''111'', ccm_lc_spec_versions = [''11111''],
        ccm_profiles = [sample_ext_profile]\<rparr>,
      cm_adapter = \<lparr>cad_adapter_id = ''com.codec.adapter'', cad_adapter_version = ''1'',
        cad_entrypoint = ''codec:run''\<rparr>,
      cm_worker = \<lparr>cwd_executable = ''worker.exe'', cwd_arguments = [], cwd_working_directory = ''bin'',
        cwd_start_timeout_ms = 1000, cwd_heartbeat_timeout_ms = 1000\<rparr>,
      cm_capabilities = [CcPlayer, CcRealtime, CcResample, CcSnapshotCapture, CcLiveCapture],
      cm_external_assets = [],
      cm_runtime_lock = \<lparr>rld_path = ''lock.txt'', rld_sha256 = sample_hash\<rparr>,
      cm_integrity = \<lparr>id_catalog_path = ''integrity.json'', id_catalog_sha256 = sample_hash\<rparr>\<rparr>"

definition sample_summary :: "package_kind \<Rightarrow> installed_package_summary" where
  "sample_summary kind =
     \<lparr>sum_package = \<lparr>pref_kind = kind, pref_package_id = ''com.example'', pref_package_version = ''11''\<rparr>,
      sum_display_name = None, sum_publisher_name = None, sum_enabled = True, sum_health = Healthy,
      sum_error_code = None, sum_error_detail = None\<rparr>"

lemma sample_deck_manifest_valid: "validate_deck_manifest sample_semver sample_deck_manifest = Inr ()"
  by code_simp

lemma sample_codec_manifest_valid: "validate_codec_manifest sample_semver sample_codec_manifest = Inr ()"
  by code_simp

definition sample_ext_host :: "nat package_host_runtime" where
  "sample_ext_host =
     \<lparr>ph_app_version = 10, ph_protocol_versions = {2}, ph_deck_host_apis = {1},
      ph_deck_operator_apis = {1}, ph_codec_adapter_apis = {1},
      ph_tensor_abis = {''latentdeck.tensor.v1''}, ph_python_implementations = {''cpython''},
      ph_python_versions = {6}, ph_python_platforms = {''win_amd64''}, ph_lc_spec_versions = {5},
      ph_tensor_dtypes = {''float16'', ''float32''}, ph_tensor_devices = {''cpu'', ''cuda''},
      ph_samples_per_slot = {24},
      ph_capabilities = {''player'', ''realtime'', ''resample'', ''snapshot_capture'',
        ''live_capture'', ''raw_import''}\<rparr>"

definition sample_ext_runtime :: "nat package_runtime" where
  "sample_ext_runtime =
     \<lparr>rt_tensor_abi = ''latentdeck.tensor.v1'', rt_python_implementation = ''cpython'',
      rt_python_version = 6, rt_python_platform = ''win_amd64'', rt_torch_exact_build = ''111''\<rparr>"

definition sample_ext_requirement :: "nat host_api_requirement" where
  "sample_ext_requirement = \<lparr>ha_source = ''>=1, <11'', ha_requirement = 8\<rparr>"

definition sample_deck_contract :: "(nat, nat) deck_package_version" where
  "sample_deck_contract =
     \<lparr>dpv_identity = \<lparr>pi_package_id = ''com.example'', pi_version = 2\<rparr>, dpv_readiness = READY,
      dpv_requires = Some \<lparr>dp_slots = 2, dp_protocol_version = 2,
        dp_app_host_api = sample_ext_requirement, dp_deck_host_api = 1, dp_deck_operator_api = 1,
        dp_runtime = sample_ext_runtime, dp_profile_allowlist = None,
        dp_geometries = {\<lparr>tg_dtype = ''float16'', tg_device = ''cuda'', tg_batch = 1,
          tg_channels = 16, tg_temporal = 1, tg_height = 56, tg_width = 100\<rparr>},
        dp_timing = \<lparr>dt_frame = \<lparr>ft_frame_rate_numerator = 24, ft_frame_rate_denominator = 1\<rparr>,
          dt_samples_per_slot = 24\<rparr>, dp_capabilities = {''realtime''}\<rparr>\<rparr>"

definition sample_codec_contract :: "(nat, nat) codec_package_version" where
  "sample_codec_contract =
     \<lparr>kpv_identity = \<lparr>pi_package_id = ''com.codec'', pi_version = 2\<rparr>, kpv_readiness = READY,
      kpv_provides = Some \<lparr>kp_protocol_version = 2, kp_app_host_api = sample_ext_requirement,
        kp_codec_adapter_api = 1, kp_runtime = sample_ext_runtime, kp_lc_spec_versions = {5},
        kp_profiles = {\<lparr>pc_codec_family = ''minimax'', pc_profile = ''h3'',
          pc_profile_version = 1\<rparr>},
        kp_capabilities = {''player'', ''realtime'', ''resample'', ''snapshot_capture'',
          ''live_capture''}\<rparr>\<rparr>"

lemma sample_ext_host: "host_runtime_of sample_semver ''1111111111'' = Some sample_ext_host"
  by code_simp

lemma sample_ext_deck: "deck_version_of sample_semver sample_deck_manifest READY = Some sample_deck_contract"
  by code_simp

lemma sample_ext_codec:
  "codec_version_of sample_semver sample_codec_manifest READY = Some sample_codec_contract"
  by code_simp

lemma sample_ext_runtime_valid: "runtime_is_valid sample_semver sample_ext_runtime"
  by code_simp

lemma sample_ext_outcome:
  "package_outcome sample_semver sample_ext_host sample_deck_contract sample_codec_contract =
     (Compatible, {\<lparr>pc_codec_family = ''minimax'', pc_profile = ''h3'', pc_profile_version = 1\<rparr>})"
  using sample_ext_runtime_valid
  by (simp add: package_outcome_def sample_deck_contract_def sample_codec_contract_def READY_def
      deck_package_is_valid_def codec_package_is_valid_def geometry_is_valid_def
      deck_timing_is_valid_def frame_timing_is_valid_def host_api_matches_def
      supports_geometry_runtime_def allowed_profiles_eq sample_ext_requirement_def Let_def)
    (simp add: sample_ext_host_def sample_semver_def sample_ext_runtime_def supports_runtime_def)

lemma sample_ext_host_valid: "package_host_validate sample_ext_host = Inr ()"
  by (simp add: package_host_validate_def sample_ext_host_def)

lemma sample_summary_ready: "summary_readiness (sample_summary kind) = READY"
  by (simp add: summary_readiness_def sample_summary_def is_untrusted_def READY_def)

lemma sample_pair_compatible:
  "cp_reason (resolve_inventory_pair sample_semver ''1111111111'' (sample_summary DeckPack)
     (Some (DeckManifest sample_deck_manifest)) (sample_summary CodecPack)
     (Some (CodecManifest sample_codec_manifest))) = Compatible"
  by (simp add: resolve_inventory_pair_def resolve_manifests_def sample_summary_ready sample_ext_host
      sample_ext_deck sample_ext_codec decision_of_def resolve_package_pair_def sample_ext_outcome
      sample_ext_host_valid)



lemma sample_app_requirement:
  "app_requirement sample_semver ''1'' ''11'' = Some sample_ext_requirement"
  by code_simp

theorem validated_deck_contract_witness:
  "deck_version_of sample_semver sample_deck_manifest READY \<noteq> None"
  unfolding validated_deck_contract [OF sample_deck_manifest_valid]
  by (simp add: sample_deck_manifest_def sample_python_def sample_app_requirement
      normalized_python_version_def) (simp add: sample_semver_def)

end
