(* ===== verification/F64_Bits.thy ===== *)
theory F64_Bits
  imports LD_Prelude
begin

text \<open>
  The \<open>f64\<close> values of the sources as their 64 bits (IEEE 754 binary64): classification, the
  comparisons of the language, the test for a fractional part and the conversion of integers with
  rounding to nearest, ties to even. Integers up to \<open>2 ^ 53\<close> are converted without loss, in order.
\<close>

unbundle bit_operations_syntax

section \<open>Bits\<close>


definition f64_mantissa :: "64 word \<Rightarrow> nat" where
  "f64_mantissa v = unat v mod 2 ^ 52"

definition f64_magnitude :: "64 word \<Rightarrow> nat" where
  "f64_magnitude v = unat v mod 2 ^ 63"

definition f64_negative :: "64 word \<Rightarrow> bool" where
  "f64_negative v = (unat v \<ge> 2 ^ 63)"

definition f64_is_nan :: "64 word \<Rightarrow> bool" where
  "f64_is_nan v = (f64_magnitude v > 2047 * 2 ^ 52)"

text \<open>The order of the values that are not NaN; both zeros are \<open>0\<close>.\<close>

definition f64_key :: "64 word \<Rightarrow> int" where
  "f64_key v = (if f64_negative v then - int (f64_magnitude v) else int (f64_magnitude v))"

definition f64_lt :: "64 word \<Rightarrow> 64 word \<Rightarrow> bool" where
  "f64_lt a b = (\<not> f64_is_nan a \<and> \<not> f64_is_nan b \<and> f64_key a < f64_key b)"

definition f64_le :: "64 word \<Rightarrow> 64 word \<Rightarrow> bool" where
  "f64_le a b = (\<not> f64_is_nan a \<and> \<not> f64_is_nan b \<and> f64_key a \<le> f64_key b)"

text \<open>\<open>fract() != 0.0\<close> of a finite value: it is not a whole number.\<close>

definition f64_has_fraction :: "64 word \<Rightarrow> bool" where
  "f64_has_fraction v =
     (let e = f64_magnitude v div 2 ^ 52 in
      f64_magnitude v \<noteq> 0 \<and> (e < 1023 \<or> e < 1075 \<and> f64_mantissa v mod 2 ^ (1075 - e) \<noteq> 0))"

section \<open>Integers\<close>

fun binary_exponent :: "nat \<Rightarrow> nat" where
  "binary_exponent n = (if n < 2 then 0 else Suc (binary_exponent (n div 2)))"

declare binary_exponent.simps [simp del]

text \<open>\<open>n as f64\<close> for an unsigned integer below \<open>2 ^ 64\<close>.\<close>

definition f64_magnitude_of_nat :: "nat \<Rightarrow> nat" where
  "f64_magnitude_of_nat n =
     (if n = 0 then 0
      else let e = binary_exponent n in
        if e \<le> 52 then (1023 + e) * 2 ^ 52 + (n - 2 ^ e) * 2 ^ (52 - e)
        else let shift = e - 52; q = n div 2 ^ shift; r = n mod 2 ^ shift; half = 2 ^ (shift - 1);
                 rounded = (if r > half \<or> r = half \<and> odd q then q + 1 else q)
             in (1023 + e) * 2 ^ 52 + (rounded - 2 ^ 52))"

definition f64_of_int :: "int \<Rightarrow> 64 word" where
  "f64_of_int i =
     (if i < 0 then of_nat (2 ^ 63 + f64_magnitude_of_nat (nat (- i)))
      else of_nat (f64_magnitude_of_nat (nat i)))"

section \<open>Integers are converted in order\<close>

lemma binary_exponent_bounds: "0 < n \<Longrightarrow> 2 ^ binary_exponent n \<le> n \<and> n < 2 * 2 ^ binary_exponent n"
proof (induction n rule: binary_exponent.induct)
  case (1 n)
  show ?case
  proof (cases "n < 2")
    case True
    then show ?thesis
      using 1 by (simp add: binary_exponent.simps [of n])
  next
    case False
    then have "2 ^ binary_exponent (n div 2) \<le> n div 2" "n div 2 < 2 * 2 ^ binary_exponent (n div 2)"
      using 1 by auto
    then have "2 * 2 ^ binary_exponent (n div 2) \<le> n" "n < 2 * (2 * 2 ^ binary_exponent (n div 2))"
      by linarith+
    then show ?thesis
      using False by (simp add: binary_exponent.simps [of n])
  qed
qed

lemma binary_exponent_small:
  assumes "0 < n" and "n \<le> 2 ^ 53"
  shows "binary_exponent n \<le> 53" and "binary_exponent n = 53 \<Longrightarrow> n = 2 ^ 53"
proof -
  have le: "2 ^ binary_exponent n \<le> (2 :: nat) ^ 53"
    using binary_exponent_bounds [OF assms(1)] assms(2) by linarith
  then show "binary_exponent n \<le> 53"
    by (rule power_le_imp_le_exp [rotated]) simp
  show "binary_exponent n = 53 \<Longrightarrow> n = 2 ^ 53"
    using binary_exponent_bounds [OF assms(1)] assms(2) by auto
qed

lemma magnitude_band:
  assumes "0 < n" and "n \<le> 2 ^ 53"
  shows "(1023 + binary_exponent n) * 2 ^ 52 \<le> f64_magnitude_of_nat n"
    and "f64_magnitude_of_nat n < (1024 + binary_exponent n) * 2 ^ 52"
proof -
  let ?e = "binary_exponent n"
  have b: "2 ^ ?e \<le> n" "n < 2 * 2 ^ ?e"
    using binary_exponent_bounds [OF assms(1)] by auto
  show "(1023 + ?e) * 2 ^ 52 \<le> f64_magnitude_of_nat n"
    using assms(1) by (simp add: f64_magnitude_of_nat_def Let_def)
  show "f64_magnitude_of_nat n < (1024 + ?e) * 2 ^ 52"
  proof (cases "?e \<le> 52")
    case True
    have "(n - 2 ^ ?e) * 2 ^ (52 - ?e) < 2 ^ ?e * 2 ^ (52 - ?e)"
      using b by (intro mult_strict_right_mono) simp_all
    also have "\<dots> = 2 ^ 52"
      using True by (simp flip: power_add)
    finally show ?thesis
      using True assms(1) by (simp add: f64_magnitude_of_nat_def Let_def)
  next
    case False
    then have e: "?e = 53" "n = 2 ^ 53"
      using binary_exponent_small [OF assms] by auto
    then show ?thesis
      by (simp add: f64_magnitude_of_nat_def Let_def e(1) [unfolded e(2)])
  qed
qed

lemma magnitude_strict_mono:
  assumes "m < n" and "n \<le> 2 ^ 53"
  shows "f64_magnitude_of_nat m < f64_magnitude_of_nat n"
proof (cases "m = 0")
  case True
  then show ?thesis
    using magnitude_band(1) [of n] assms by (simp add: f64_magnitude_of_nat_def [of 0])
next
  case False
  let ?d = "binary_exponent m" and ?e = "binary_exponent n"
  have bm: "2 ^ ?d \<le> m" "m < 2 * 2 ^ ?d" and bn: "2 ^ ?e \<le> n" "n < 2 * 2 ^ ?e"
    using binary_exponent_bounds [of m] binary_exponent_bounds [of n] False assms by auto
  have "(2 :: nat) ^ ?d < 2 ^ Suc ?e"
    using bm bn assms by simp
  then have "?d < Suc ?e"
    by (rule power_less_imp_less_exp [rotated]) simp
  then consider "?d < ?e" | "?d = ?e"
    by linarith
  then show ?thesis
  proof cases
    case 1
    have "f64_magnitude_of_nat m < (1024 + ?d) * 2 ^ 52"
      using magnitude_band(2) [of m] False assms by simp
    also have "\<dots> \<le> (1023 + ?e) * 2 ^ 52"
      using 1 by simp
    also have "\<dots> \<le> f64_magnitude_of_nat n"
      using magnitude_band(1) [of n] assms by simp
    finally show ?thesis .
  next
    case 2
    then have e: "?e \<le> 52"
      using binary_exponent_small [of n] binary_exponent_small [of m] False assms by fastforce
    have "(m - 2 ^ ?e) * 2 ^ (52 - ?e) < (n - 2 ^ ?e) * 2 ^ (52 - ?e)"
      using assms(1) bm 2 by (intro mult_strict_right_mono) simp_all
    then show ?thesis
      using e 2 False assms by (simp add: f64_magnitude_of_nat_def Let_def)
  qed
qed

lemma magnitude_bound:
  assumes "n \<le> 2 ^ 53"
  shows "f64_magnitude_of_nat n < 2047 * 2 ^ 52"
proof (cases "n = 0")
  case False
  have "f64_magnitude_of_nat n < (1024 + binary_exponent n) * 2 ^ 52"
    using magnitude_band(2) [of n] False assms by simp
  also have "\<dots> \<le> 2047 * 2 ^ 52"
    using binary_exponent_small [of n] False assms by simp
  finally show ?thesis .
qed (simp add: f64_magnitude_of_nat_def)

lemma magnitude_zero: "n \<le> 2 ^ 53 \<Longrightarrow> f64_magnitude_of_nat n = 0 \<longleftrightarrow> n = 0"
  using magnitude_strict_mono [of 0 n] by (cases "n = 0") (simp_all add: f64_magnitude_of_nat_def [of 0])

lemma f64_of_int_unat:
  assumes "\<bar>i\<bar> \<le> 2 ^ 53"
  obtains m where "m = f64_magnitude_of_nat (nat \<bar>i\<bar>)" and "m < 2047 * 2 ^ 52"
    and "unat (f64_of_int i) = (if i < 0 then 2 ^ 63 + m else m)"
proof
  define m where "m = f64_magnitude_of_nat (nat \<bar>i\<bar>)"
  show "m = f64_magnitude_of_nat (nat \<bar>i\<bar>)"
    by (fact m_def)
  show small: "m < 2047 * 2 ^ 52"
    using assms unfolding m_def by (intro magnitude_bound) (simp add: nat_le_iff)
  have fits: "unat (of_nat (2 ^ 63 + m) :: 64 word) = 2 ^ 63 + m" "unat (of_nat m :: 64 word) = m"
    by (rule unat_of_nat_fits, use small in simp)+
  have "f64_of_int i = (if i < 0 then of_nat (2 ^ 63 + m) else of_nat m)"
    unfolding f64_of_int_def m_def by simp
  then show "unat (f64_of_int i) = (if i < 0 then 2 ^ 63 + m else m)"
    using fits by metis
qed

lemma f64_of_int_key:
  assumes "\<bar>i\<bar> \<le> 2 ^ 53"
  shows "f64_key (f64_of_int i) = sgn i * int (f64_magnitude_of_nat (nat \<bar>i\<bar>))"
    and "\<not> f64_is_nan (f64_of_int i)"
proof -
  obtain m where m: "m = f64_magnitude_of_nat (nat \<bar>i\<bar>)" and small: "m < 2047 * 2 ^ 52"
    and u: "unat (f64_of_int i) = (if i < 0 then 2 ^ 63 + m else m)"
    using f64_of_int_unat [OF assms] .
  have mag: "f64_magnitude (f64_of_int i) = m"
    using small unfolding f64_magnitude_def u by simp
  show "\<not> f64_is_nan (f64_of_int i)"
    using small unfolding f64_is_nan_def mag by simp
  have "f64_key (f64_of_int i) = sgn i * int m"
  proof (cases "i = 0")
    case True
    then show ?thesis
      using small m unfolding f64_key_def f64_negative_def mag u
      by (simp add: f64_magnitude_of_nat_def)
  next
    case False
    then show ?thesis
      using small unfolding f64_key_def f64_negative_def mag u by (simp add: sgn_if)
  qed
  then show "f64_key (f64_of_int i) = sgn i * int (f64_magnitude_of_nat (nat \<bar>i\<bar>))"
    by (simp only: m)
qed

text \<open>Comparing the converted integers is comparing the integers.\<close>

lemma f64_key_less_iff:
  assumes "\<bar>i\<bar> \<le> 2 ^ 53" and "\<bar>j\<bar> \<le> 2 ^ 53"
  shows "f64_key (f64_of_int i) < f64_key (f64_of_int j) \<longleftrightarrow> i < j"
proof -
  have less: "f64_key (f64_of_int a) < f64_key (f64_of_int b)"
    if "a < b" "\<bar>a\<bar> \<le> 2 ^ 53" "\<bar>b\<bar> \<le> 2 ^ 53" for a b
  proof -
    consider "0 \<le> a" | "a < 0" "0 \<le> b" | "b < 0"
      by linarith
    then show ?thesis
    proof cases
      case 1
      have "f64_magnitude_of_nat (nat a) < f64_magnitude_of_nat (nat b)"
        using that 1 by (intro magnitude_strict_mono) (simp_all add: nat_le_iff)
      then show ?thesis
        using that 1 by (simp add: f64_of_int_key sgn_if f64_magnitude_of_nat_def [of 0])
    next
      case 2
      have "f64_magnitude_of_nat (nat (- a)) \<noteq> 0"
        using that 2 by (subst magnitude_zero) (simp_all add: nat_le_iff)
      then show ?thesis
        using that 2 by (simp add: f64_of_int_key sgn_if)
    next
      case 3
      have "f64_magnitude_of_nat (nat (- b)) < f64_magnitude_of_nat (nat (- a))"
        using that 3 by (intro magnitude_strict_mono) (simp_all add: nat_le_iff)
      then show ?thesis
        using that 3 by (simp add: f64_of_int_key)
    qed
  qed
  show ?thesis
    using less [of i j] less [of j i] assms by (cases i j rule: linorder_cases) auto
qed

lemma f64_order_of_ints:
  assumes "\<bar>i\<bar> \<le> 2 ^ 53" and "\<bar>j\<bar> \<le> 2 ^ 53"
  shows "f64_lt (f64_of_int i) (f64_of_int j) \<longleftrightarrow> i < j"
    and "f64_le (f64_of_int i) (f64_of_int j) \<longleftrightarrow> i \<le> j"
  using f64_key_less_iff [OF assms] f64_key_less_iff [OF assms(2,1)] f64_of_int_key(2) [OF assms(1)]
    f64_of_int_key(2) [OF assms(2)]
  by (auto simp: f64_lt_def f64_le_def not_less [symmetric])

end
