(* ===== verification/Deck_Runtime.thy ===== *)
theory Deck_Runtime
  imports Protocol2_Commands Extension_Model F64_Bits
begin

text \<open>
  The host side of loading a deck (\<open>crates/core/src/deck_runtime_v2.rs\<close>): the operator descriptor of an
  active package and its checks, the runtime binding built from the package, and the \<open>deck.load\<close> command
  built from a request. The file system, \<open>serde_json\<close> and the parser of the \<open>semver\<close> crate are
  parameters.
\<close>

section \<open>Constants and errors\<close>

definition OPERATOR_SCHEMA_VERSION :: string where
  "OPERATOR_SCHEMA_VERSION = ''0.2.0''"

definition DECK_OPERATOR_API_VERSION :: string where
  "DECK_OPERATOR_API_VERSION = ''0.2.0''"

definition MAX_OPERATOR_DESCRIPTOR_BYTES :: u64 where
  "MAX_OPERATOR_DESCRIPTOR_BYTES = 1024 * 1024"

definition MAX_DR_PATH_BYTES :: nat where
  "MAX_DR_PATH_BYTES = 32768"

definition MAX_DR_IDENTIFIER_BYTES :: nat where
  "MAX_DR_IDENTIFIER_BYTES = 128"

definition MAX_CONTROL_TEXT_BYTES :: nat where
  "MAX_CONTROL_TEXT_BYTES = 4096"

definition MAX_DR_SOURCES :: nat where
  "MAX_DR_SOURCES = 16"

definition MAX_DR_ROLES :: nat where
  "MAX_DR_ROLES = 16"

definition MAX_DR_CONTROLS :: nat where
  "MAX_DR_CONTROLS = 64"

definition MAX_ENUM_OPTIONS :: nat where
  "MAX_ENUM_OPTIONS = 256"

definition MAX_EXACT_F64_INTEGER :: int where
  "MAX_EXACT_F64_INTEGER = 9007199254740992"

lemmas deck_runtime_bounds = OPERATOR_SCHEMA_VERSION_def DECK_OPERATOR_API_VERSION_def
  MAX_OPERATOR_DESCRIPTOR_BYTES_def MAX_DR_PATH_BYTES_def MAX_DR_IDENTIFIER_BYTES_def
  MAX_CONTROL_TEXT_BYTES_def MAX_DR_SOURCES_def MAX_DR_ROLES_def MAX_DR_CONTROLS_def
  MAX_ENUM_OPTIONS_def MAX_EXACT_F64_INTEGER_def

datatype deck_runtime_error =
    DrNotDeckPackage
  | DrTrustReceiptInvalid
  | DrPackageTreeInvalid
  | DrOperatorDescriptorInvalid
  | DrManifestOperatorMismatch string
  | DrLoadRequestInvalid string

section \<open>The operator descriptor\<close>

text \<open>The JSON value of a default, as far as the code looks into it: a number is an unsigned
  integer, a negative integer or the bits of a float.\<close>

datatype json_default =
    JdNull | JdBool bool | JdPosInt "64 word" | JdNegInt "64 word" | JdFloat f64_bits
  | JdString string | JdArray | JdObject

definition jd_as_i64 :: "json_default \<Rightarrow> int option" where
  "jd_as_i64 v = (case v of
       JdPosInt n \<Rightarrow> if uint n < 2 ^ 63 then Some (uint n) else None
     | JdNegInt n \<Rightarrow> Some (sint n)
     | _ \<Rightarrow> None)"

definition jd_as_u64 :: "json_default \<Rightarrow> 64 word option" where
  "jd_as_u64 v = (case v of JdPosInt n \<Rightarrow> Some n | _ \<Rightarrow> None)"

definition jd_as_f64 :: "json_default \<Rightarrow> f64_bits option" where
  "jd_as_f64 v = (case v of
       JdPosInt n \<Rightarrow> Some (f64_of_int (uint n))
     | JdNegInt n \<Rightarrow> Some (f64_of_int (sint n))
     | JdFloat x \<Rightarrow> Some x
     | _ \<Rightarrow> None)"

definition jd_as_str :: "json_default \<Rightarrow> string option" where
  "jd_as_str v = (case v of JdString s \<Rightarrow> Some s | _ \<Rightarrow> None)"

definition jd_is_boolean :: "json_default \<Rightarrow> bool" where
  "jd_is_boolean v = (case v of JdBool b \<Rightarrow> True | _ \<Rightarrow> False)"

datatype deck_operator_control_kind = KindBoolean | KindInteger | KindNumber | KindEnum | KindText

record deck_operator_control_descriptor =
  oc_control_id :: string
  oc_value_type :: deck_operator_control_kind
  oc_default :: json_default
  oc_options :: "string list option"
  oc_minimum :: "f64_bits option"
  oc_maximum :: "f64_bits option"
  oc_step :: "f64_bits option"

record deck_operator_descriptor =
  op_schema_version :: string
  op_deck_operator_api :: string
  op_deck_id :: string
  op_deck_version :: string
  op_operator_id :: string
  op_operator_version :: string
  op_entrypoint :: string
  op_source_count :: u8
  op_role_ids :: "string list"
  op_controls :: "deck_operator_control_descriptor list"

definition operator_identifier :: "string \<Rightarrow> deck_runtime_error + unit" where
  "operator_identifier v =
     refuse (v = [] \<or> length v > MAX_DR_IDENTIFIER_BYTES \<or>
             \<not> list_all (\<lambda>c. is_ascii_alphanumeric c \<or> c \<in> set ''._:-'') v)
       DrOperatorDescriptorInvalid"

definition operator_python_identifier :: "string \<Rightarrow> bool" where
  "operator_python_identifier v = (case v of
       [] \<Rightarrow> False
     | first # bytes \<Rightarrow>
         (is_ascii_lowercase first \<or> is_ascii_uppercase first \<or> first = CHR ''_'') \<and>
         list_all (\<lambda>c. is_ascii_alphanumeric c \<or> c = CHR ''_'') bytes)"

definition operator_entrypoint :: "string \<Rightarrow> deck_runtime_error + unit" where
  "operator_entrypoint v = (case split_once CHR '':'' v of
       None \<Rightarrow> Inl DrOperatorDescriptorInvalid
     | Some (module, callable) \<Rightarrow>
         refuse (CHR '':'' \<in> set callable \<or> module = [] \<or> callable = [] \<or>
                 \<not> list_all operator_python_identifier (split_on CHR ''.'' module) \<or>
                 \<not> operator_python_identifier callable)
           DrOperatorDescriptorInvalid)"

definition operator_version :: "(string \<Rightarrow> 'v option) \<Rightarrow> string \<Rightarrow> deck_runtime_error + unit" where
  "operator_version parse_version v = refuse (parse_version v = None) DrOperatorDescriptorInvalid"

definition control_text_bounded :: "string \<Rightarrow> bool" where
  "control_text_bounded v = (v \<noteq> [] \<and> length v \<le> MAX_CONTROL_TEXT_BYTES \<and> CHR 0x00 \<notin> set v)"

definition json_integer :: "json_default \<Rightarrow> deck_runtime_error + int" where
  "json_integer v =
     ok_or (case jd_as_i64 v of
         Some i \<Rightarrow> Some i
       | None \<Rightarrow> Option.bind (jd_as_u64 v) (\<lambda>n. if uint n < 2 ^ 63 then Some (uint n) else None))
       DrOperatorDescriptorInvalid"

text \<open>The text of an integer in this range is parsed to the float with its exact value.\<close>

definition exact_integer_as_f64 :: "int \<Rightarrow> deck_runtime_error + f64_bits" where
  "exact_integer_as_f64 v =
     (if \<not> (- MAX_EXACT_F64_INTEGER \<le> v \<and> v \<le> MAX_EXACT_F64_INTEGER)
      then Inl DrOperatorDescriptorInvalid else Inr (f64_of_int v))"

definition validate_numeric_bounds ::
    "deck_operator_control_descriptor \<Rightarrow> f64_bits \<Rightarrow> bool \<Rightarrow> deck_runtime_error + unit" where
  "validate_numeric_bounds control default_value integral =
     refuse (oc_options control \<noteq> None \<or>
       (\<exists>v\<in>set_option (oc_minimum control) \<union> set_option (oc_maximum control) \<union>
             set_option (oc_step control).
          \<not> f64_is_finite v \<or> integral \<and> f64_has_fraction v) \<or>
       (\<exists>v\<in>set_option (oc_step control). f64_le v 0) \<or>
       (\<exists>minimum\<in>set_option (oc_minimum control). \<exists>maximum\<in>set_option (oc_maximum control).
          f64_lt maximum minimum) \<or>
       (\<exists>minimum\<in>set_option (oc_minimum control). f64_lt default_value minimum) \<or>
       (\<exists>maximum\<in>set_option (oc_maximum control). f64_lt maximum default_value))
     DrOperatorDescriptorInvalid"

definition control_has_range :: "deck_operator_control_descriptor \<Rightarrow> bool" where
  "control_has_range c = (oc_minimum c \<noteq> None \<or> oc_maximum c \<noteq> None \<or> oc_step c \<noteq> None)"

definition validate_enum_control :: "deck_operator_control_descriptor \<Rightarrow> deck_runtime_error + unit" where
  "validate_enum_control control =
     try_bind (ok_or (jd_as_str (oc_default control)) DrOperatorDescriptorInvalid) (\<lambda>default_value.
     try_bind (ok_or (case oc_options control of
         Some values \<Rightarrow> if values \<noteq> [] \<and> length values \<le> MAX_ENUM_OPTIONS then Some values else None
       | None \<Rightarrow> None) DrOperatorDescriptorInvalid) (\<lambda>options. in_order
       [refuse (control_has_range control \<or> list_ex (\<lambda>v. \<not> control_text_bounded v) options \<or>
                \<not> list_ex (\<lambda>v. v = default_value) options) DrOperatorDescriptorInvalid,
        refuse (card (set options) \<noteq> length options) DrOperatorDescriptorInvalid]))"

definition validate_control_descriptor ::
    "deck_operator_control_descriptor \<Rightarrow> deck_runtime_error + unit" where
  "validate_control_descriptor control =
     try_bind (operator_identifier (oc_control_id control)) (\<lambda>_.
     case oc_value_type control of
       KindBoolean \<Rightarrow>
         refuse (\<not> jd_is_boolean (oc_default control) \<or> oc_options control \<noteq> None \<or>
                 control_has_range control) DrOperatorDescriptorInvalid
     | KindInteger \<Rightarrow>
         try_bind (json_integer (oc_default control)) (\<lambda>i.
         try_bind (exact_integer_as_f64 i) (\<lambda>default_value. validate_numeric_bounds control default_value True))
     | KindNumber \<Rightarrow>
         try_bind (ok_or (case jd_as_f64 (oc_default control) of
             Some v \<Rightarrow> if f64_is_finite v then Some v else None
           | None \<Rightarrow> None) DrOperatorDescriptorInvalid)
           (\<lambda>default_value. validate_numeric_bounds control default_value False)
     | KindEnum \<Rightarrow> validate_enum_control control
     | KindText \<Rightarrow>
         refuse ((case jd_as_str (oc_default control) of
             None \<Rightarrow> True | Some v \<Rightarrow> \<not> control_text_bounded v) \<or>
             oc_options control \<noteq> None \<or> control_has_range control) DrOperatorDescriptorInvalid)"

text \<open>A loop that checks each element and refuses a key it has seen.\<close>

fun distinct_loop ::
    "('a \<Rightarrow> 'k) \<Rightarrow> ('a \<Rightarrow> 'e + unit) \<Rightarrow> 'e \<Rightarrow> 'k list \<Rightarrow> 'a list \<Rightarrow> 'e + unit" where
  "distinct_loop key check duplicate seen [] = Inr ()"
| "distinct_loop key check duplicate seen (x # xs) =
     try_bind (check x) (\<lambda>_.
     if key x \<in> set seen then Inl duplicate
     else distinct_loop key check duplicate (key x # seen) xs)"

lemma distinct_loop_Inr [try_iffs]:
  "distinct_loop key check duplicate seen xs = Inr u \<longleftrightarrow>
     (\<forall>x\<in>set xs. check x = Inr ()) \<and> distinct (map key xs) \<and> key ` set xs \<inter> set seen = {}"
  by (induction xs arbitrary: seen) (auto simp: try_bind_Inr)

definition validate_operator ::
    "(string \<Rightarrow> 'v option) \<Rightarrow> deck_operator_descriptor \<Rightarrow> deck_runtime_error + unit" where
  "validate_operator parse_version opd = in_order
     [refuse (op_schema_version opd \<noteq> OPERATOR_SCHEMA_VERSION \<or>
              op_deck_operator_api opd \<noteq> DECK_OPERATOR_API_VERSION \<or> op_source_count opd = 0 \<or>
              unat (op_source_count opd) > MAX_DR_SOURCES \<or>
              length (op_role_ids opd) \<noteq> unat (op_source_count opd) \<or>
              length (op_controls opd) > MAX_DR_CONTROLS) DrOperatorDescriptorInvalid,
      operator_identifier (op_deck_id opd),
      operator_version parse_version (op_deck_version opd),
      operator_identifier (op_operator_id opd),
      operator_version parse_version (op_operator_version opd),
      operator_entrypoint (op_entrypoint opd),
      distinct_loop (\<lambda>role. role) operator_identifier DrOperatorDescriptorInvalid [] (op_role_ids opd),
      distinct_loop oc_control_id validate_control_descriptor DrOperatorDescriptorInvalid []
        (op_controls opd)]"

definition crosscheck_operator ::
    "deck_pack_manifest \<Rightarrow> deck_operator_descriptor \<Rightarrow> deck_runtime_error + unit" where
  "crosscheck_operator m opd = in_order
     [refuse (op_deck_id opd \<noteq> dm_deck_id m) (DrManifestOperatorMismatch ''deck_id''),
      refuse (op_deck_version opd \<noteq> dm_deck_version m) (DrManifestOperatorMismatch ''deck_version''),
      refuse (op_entrypoint opd \<noteq> rtd_entrypoint (dm_runtime m))
        (DrManifestOperatorMismatch ''entrypoint''),
      refuse (op_source_count opd \<noteq> dsd_slots (dm_signal m))
        (DrManifestOperatorMismatch ''source_count''),
      refuse (op_role_ids opd \<noteq> map role_role_id (dsd_roles (dm_signal m)))
        (DrManifestOperatorMismatch ''role_ids'')]"

section \<open>The runtime of an active package\<close>

text \<open>An active package: its root directory, its manifest and its trust receipt.\<close>

record active_package =
  ap_root :: string
  ap_manifest :: package_manifest
  ap_trust_receipt :: trust_receipt

text \<open>The file system, as far as the code asks it: a path is its text, \<open>ts_to_str\<close> is \<open>None\<close> for a
  path that is not Unicode.\<close>

record tree_system =
  ts_canonicalize :: "string \<Rightarrow> string option"
  ts_is_dir :: "string \<Rightarrow> bool"
  ts_is_file :: "string \<Rightarrow> bool"
  ts_byte_length :: "string \<Rightarrow> u64 option"
  ts_read :: "string \<Rightarrow> u8 list option"
  ts_join :: "string \<Rightarrow> string \<Rightarrow> string"
  ts_to_str :: "string \<Rightarrow> string option"
  ts_operator_json :: "u8 list \<Rightarrow> deck_operator_descriptor option"

text \<open>\<open>Path::starts_with\<close> of canonical paths: the components of the base come first.\<close>

definition canonical_components :: "string \<Rightarrow> string list" where
  "canonical_components p =
     filter (\<lambda>c. c \<noteq> []) (split_on CHR 0x5C (map (\<lambda>c. if c = CHR ''/'' then CHR 0x5C else c) p))"

definition path_starts_with :: "string \<Rightarrow> string \<Rightarrow> bool" where
  "path_starts_with p base =
     (take (length (canonical_components base)) (canonical_components p) = canonical_components base)"

definition canonical_directory :: "tree_system \<Rightarrow> string \<Rightarrow> deck_runtime_error + string" where
  "canonical_directory ts path =
     try_bind (ok_or (ts_canonicalize ts path) DrPackageTreeInvalid) (\<lambda>canonical.
     if \<not> is_absolute canonical \<or> \<not> ts_is_dir ts canonical then Inl DrPackageTreeInvalid
     else Inr canonical)"

definition canonical_file :: "tree_system \<Rightarrow> string \<Rightarrow> string \<Rightarrow> deck_runtime_error + string" where
  "canonical_file ts package_root path =
     try_bind (ok_or (ts_canonicalize ts path) DrPackageTreeInvalid) (\<lambda>canonical.
     if \<not> path_starts_with canonical package_root \<or> \<not> ts_is_file ts canonical
     then Inl DrPackageTreeInvalid else Inr canonical)"

definition bounded_absolute_path :: "tree_system \<Rightarrow> string \<Rightarrow> deck_runtime_error + string" where
  "bounded_absolute_path ts path =
     try_bind (ok_or (ts_to_str ts path) DrPackageTreeInvalid) (\<lambda>path.
     if \<not> is_absolute path \<or> path = [] \<or> length path > MAX_DR_PATH_BYTES
     then Inl DrPackageTreeInvalid else Inr path)"

definition canonical_sha256 :: "string \<Rightarrow> bool" where
  "canonical_sha256 v =
     (length v = 64 \<and> list_all (\<lambda>c. is_ascii_digit c \<or> 97 \<le> byte_val c \<and> byte_val c \<le> 102) v)"

record active_deck_runtime =
  adr_active_package :: active_package
  adr_operator :: deck_operator_descriptor
  adr_binding :: deck_runtime_binding

definition trust_receipt_unfit :: "trust_receipt \<Rightarrow> deck_pack_manifest \<Rightarrow> bool" where
  "trust_receipt_unfit receipt m =
     (\<not> tr_enabled receipt \<or> pref_kind (tr_package receipt) \<noteq> DeckPack \<or>
      pref_package_id (tr_package receipt) \<noteq> dm_deck_id m \<or>
      pref_package_version (tr_package receipt) \<noteq> dm_deck_version m \<or>
      \<not> canonical_sha256 (tr_manifest_sha256 receipt) \<or>
      \<not> canonical_sha256 (tr_integrity_catalog_sha256 receipt))"

text \<open>The part of \<open>from_active_package\<close> that reads the operator descriptor.\<close>

definition read_operator ::
    "(string \<Rightarrow> 'v option) \<Rightarrow> tree_system \<Rightarrow> deck_pack_manifest \<Rightarrow> string \<Rightarrow>
     deck_runtime_error + deck_operator_descriptor" where
  "read_operator parse_version ts m package_root =
     try_bind (canonical_file ts package_root
       (ts_join ts package_root (rtd_operator_descriptor_path (dm_runtime m)))) (\<lambda>descriptor_path.
     try_bind (ok_or (ts_byte_length ts descriptor_path) DrPackageTreeInvalid) (\<lambda>len.
     if len = 0 \<or> len > MAX_OPERATOR_DESCRIPTOR_BYTES then Inl DrOperatorDescriptorInvalid
     else
     try_bind (ok_or (ts_read ts descriptor_path) DrOperatorDescriptorInvalid) (\<lambda>bytes.
     if bytes = [] \<or> length bytes > unat MAX_OPERATOR_DESCRIPTOR_BYTES
     then Inl DrOperatorDescriptorInvalid
     else
     try_bind (ok_or (ts_operator_json ts bytes) DrOperatorDescriptorInvalid) (\<lambda>operator.
     try_bind (validate_operator parse_version operator) (\<lambda>_.
     try_bind (crosscheck_operator m operator) (\<lambda>_. Inr operator))))))"

definition from_active_package ::
    "(string \<Rightarrow> 'v option) \<Rightarrow> tree_system \<Rightarrow> active_package \<Rightarrow>
     deck_runtime_error + active_deck_runtime" where
  "from_active_package parse_version ts package = (case ap_manifest package of
       CodecManifest k \<Rightarrow> Inl DrNotDeckPackage
     | DeckManifest m \<Rightarrow>
         let receipt = ap_trust_receipt package in
         if trust_receipt_unfit receipt m then Inl DrTrustReceiptInvalid
         else
         try_bind (canonical_directory ts (ap_root package)) (\<lambda>package_root.
         try_bind (read_operator parse_version ts m package_root) (\<lambda>operator.
         try_bind (canonical_directory ts (ts_join ts package_root (rtd_python_root (dm_runtime m))))
           (\<lambda>python_root.
         if \<not> path_starts_with python_root package_root then Inl DrPackageTreeInvalid
         else
         try_bind (bounded_absolute_path ts python_root) (\<lambda>python_root.
         Inr \<lparr>adr_active_package = package, adr_operator = operator,
           adr_binding = \<lparr>drb_deck_id = dm_deck_id m, drb_deck_version = dm_deck_version m,
             drb_operator_id = op_operator_id operator,
             drb_operator_version = op_operator_version operator, drb_python_root = python_root,
             drb_entrypoint = rtd_entrypoint (dm_runtime m),
             drb_package_manifest_sha256 = tr_manifest_sha256 receipt,
             drb_integrity_catalog_sha256 = tr_integrity_catalog_sha256 receipt\<rparr>\<rparr>)))))"

section \<open>The load command\<close>

record deck_load_request =
  dlr_deck_session_id :: uuid
  dlr_sources :: "source_binding list"
  dlr_roles :: "role_binding list"
  dlr_controls :: "control_binding list"
  dlr_seed :: u64
  dlr_stream_generation :: u64

definition numeric_value_in_bounds :: "deck_operator_control_descriptor \<Rightarrow> f64_bits \<Rightarrow> bool" where
  "numeric_value_in_bounds descriptor v =
     ((case oc_minimum descriptor of None \<Rightarrow> True | Some minimum \<Rightarrow> f64_le minimum v) \<and>
      (case oc_maximum descriptor of None \<Rightarrow> True | Some maximum \<Rightarrow> f64_le v maximum))"

definition control_value_fits :: "deck_operator_control_descriptor \<Rightarrow> control_value \<Rightarrow> bool" where
  "control_value_fits descriptor v = (case (oc_value_type descriptor, v) of
       (KindBoolean, CvBoolean b) \<Rightarrow> True
     | (KindInteger, CvInteger i) \<Rightarrow> (case exact_integer_as_f64 (sint i) of
           Inr x \<Rightarrow> numeric_value_in_bounds descriptor x | Inl e \<Rightarrow> False)
     | (KindNumber, CvNumber x) \<Rightarrow> f64_is_finite x \<and> numeric_value_in_bounds descriptor x
     | (KindEnum, CvText s) \<Rightarrow> (case oc_options descriptor of
           Some options \<Rightarrow> s \<in> set options | None \<Rightarrow> False)
     | (KindText, CvText s) \<Rightarrow> control_text_bounded s
     | _ \<Rightarrow> False)"

definition validate_load_control ::
    "deck_operator_control_descriptor \<Rightarrow> control_value \<Rightarrow> deck_runtime_error + unit" where
  "validate_load_control descriptor v =
     refuse (\<not> control_value_fits descriptor v) (DrLoadRequestInvalid ''controls'')"

text \<open>The loop over the controls: a name is inserted before its descriptor is looked up in the map
  of the descriptors, which keeps the last one of a name.\<close>

fun validate_load_controls ::
    "deck_operator_control_descriptor list \<Rightarrow> string list \<Rightarrow> control_binding list \<Rightarrow>
     deck_runtime_error + unit" where
  "validate_load_controls descriptors seen [] = Inr ()"
| "validate_load_controls descriptors seen (control # controls) =
     (if cb_name control \<in> set seen then Inl (DrLoadRequestInvalid ''controls'')
      else
      try_bind (ok_or (find (\<lambda>d. oc_control_id d = cb_name control) (rev descriptors))
        (DrLoadRequestInvalid ''controls'')) (\<lambda>descriptor.
      try_bind (validate_load_control descriptor (cb_value control)) (\<lambda>_.
      validate_load_controls descriptors (cb_name control # seen) controls)))"

definition validate_load_request ::
    "deck_operator_descriptor \<Rightarrow> deck_load_request \<Rightarrow> deck_runtime_error + unit" where
  "validate_load_request opd r =
     (let role_slots = map rb2_physical_slot (dlr_roles r) in in_order
     [refuse (dlr_deck_session_id r = 0 \<or> dlr_stream_generation r = 0 \<or>
              length (dlr_sources r) \<noteq> unat (op_source_count opd) \<or>
              length (dlr_roles r) \<noteq> length (op_role_ids opd) \<or>
              length (dlr_controls r) > length (op_controls opd))
        (DrLoadRequestInvalid ''shape''),
      refuse (sort (map (\<lambda>s. unat (sb_physical_slot s)) (dlr_sources r)) \<noteq>
              [1..<Suc (unat (op_source_count opd))])
        (DrLoadRequestInvalid ''sources''),
      refuse (set (map rb2_role (dlr_roles r)) \<noteq> set (op_role_ids opd) \<or>
              card (set role_slots) \<noteq> length (dlr_roles r) \<or>
              list_ex (\<lambda>slot. slot = 0 \<or> unat slot > length (dlr_sources r)) role_slots)
        (DrLoadRequestInvalid ''roles''),
      validate_load_controls (op_controls opd) [] (dlr_controls r)])"

definition build_load_command ::
    "active_deck_runtime \<Rightarrow> deck_load_request \<Rightarrow> deck_runtime_error + command_v2" where
  "build_load_command runtime request =
     try_bind (validate_load_request (adr_operator runtime) request) (\<lambda>_.
     try_bind (map_err (\<lambda>_. DrLoadRequestInvalid ''sources'')
       (limited_vec_try_from MAX_DR_SOURCES (dlr_sources request))) (\<lambda>sources.
     try_bind (map_err (\<lambda>_. DrLoadRequestInvalid ''roles'')
       (limited_vec_try_from MAX_DR_ROLES (dlr_roles request))) (\<lambda>roles.
     try_bind (map_err (\<lambda>_. DrLoadRequestInvalid ''controls'')
       (limited_vec_try_from MAX_DR_CONTROLS (dlr_controls request))) (\<lambda>controls.
     let b = adr_binding runtime in
     Inr (C2DeckLoad \<lparr>dl_deck_session_id = dlr_deck_session_id request,
       dl_deck_id = drb_deck_id b, dl_deck_version = drb_deck_version b,
       dl_operator_id = drb_operator_id b, dl_operator_version = drb_operator_version b,
       dl_runtime = Some b, dl_sources = sources, dl_roles = roles, dl_controls = controls,
       dl_seed = dlr_seed request, dl_stream_generation = dlr_stream_generation request\<rparr>)))))"

end
