(* ===== verification/Deck_Load.thy ===== *)
theory Deck_Load
  imports Deck_Runtime "HOL-Library.Multiset"
begin

text \<open>
  What the host's checks of a deck load guarantee (\<open>crates/core/src/deck_runtime_v2.rs\<close>): the command
  built from an accepted request passes the validation of Worker Protocol 2, up to four conditions that
  the host does not check.
\<close>

section \<open>The checks, one by one\<close>

lemma operator_identifier_Inr [try_iffs]:
  "operator_identifier v = Inr u \<longleftrightarrow> identifier_v2 v field = Inr ()"
  unfolding identifier_v2_Inr
  by (auto simp: operator_identifier_def try_iffs deck_runtime_bounds is_identifier_byte_v2_def
      list_all_iff)

lemma canonical_sha256_iff: "canonical_sha256 v \<longleftrightarrow> sha256 v field = Inr ()"
  by (simp add: canonical_sha256_def sha256_Inr is_lower_hex_v2_def list_all_iff)

lemma operator_python_identifier_eq: "operator_python_identifier = python_identifier"
  by (rule ext) (simp add: operator_python_identifier_def python_identifier_def)

lemma operator_entrypoint_protocol:
  assumes "operator_entrypoint v = Inr ()"
  shows "python_entrypoint v field = Inr () \<longleftrightarrow> length v \<le> 512"
proof -
  obtain module callable where sp: "split_once CHR '':'' v = Some (module, callable)"
    and ids: "list_all python_identifier (split_on CHR ''.'' module)" "python_identifier callable"
    and rest: "CHR '':'' \<notin> set callable" "module \<noteq> []" "callable \<noteq> []"
    using assms by (auto simp: operator_entrypoint_def operator_python_identifier_eq try_iffs
        split: option.splits)
  have v: "v = module @ CHR '':'' # callable"
    using sp by (simp add: split_once_Some)
  have "x \<noteq> CHR 0x00" if "x \<in> set module" for x
  proof -
    have "set module \<subseteq> insert CHR ''.'' (\<Union>w\<in>set (split_on CHR ''.'' module). set w)"
      using set_join [of "CHR ''.''" "split_on CHR ''.'' module"] by simp
    then show ?thesis
      using that ids(1) python_identifier_chars unfolding list_all_iff by fastforce
  qed
  then have "CHR 0x00 \<notin> set v"
    using python_identifier_chars [OF ids(2)] unfolding v by auto
  then show ?thesis
    using sp ids rest by (auto simp: python_entrypoint_def try_iffs field_iffs v)
qed

text \<open>Sorted slots.\<close>

lemma sorted_slots:
  assumes "sort (map (\<lambda>s. unat (f s)) xs) = [1..<Suc n]"
  shows "distinct (map f xs)" and "unat ` f ` set xs = {1..n}" and "length xs = n"
proof -
  have m: "mset (map (\<lambda>s. unat (f s)) xs) = mset [1..<Suc n]"
    using arg_cong [OF assms, of mset] by (simp only: mset_sort)
  have "distinct (map (\<lambda>s. unat (f s)) xs)"
    using mset_eq_imp_distinct_iff [OF m] by simp
  then show "distinct (map f xs)"
    by (auto simp: distinct_map inj_on_def)
  show "unat ` f ` set xs = {1..n}"
    using arg_cong [OF m, of set_mset] by (auto simp: image_image)
  show "length xs = n"
    using arg_cong [OF m, of size] by simp
qed

text \<open>Controls.\<close>

lemma validate_load_controls_Inr:
  "validate_load_controls ds seen cs = Inr u \<longleftrightarrow>
     distinct (map cb_name cs) \<and> cb_name ` set cs \<inter> set seen = {} \<and>
     (\<forall>c\<in>set cs. \<exists>d. find (\<lambda>d. oc_control_id d = cb_name c) (rev ds) = Some d \<and>
        control_value_fits d (cb_value c))"
  by (induction cs arbitrary: seen)
    (auto simp: try_bind_Inr ok_or_Inr validate_load_control_def refuse_Inr)

lemma find_member: "find P xs = Some x \<Longrightarrow> x \<in> set xs \<and> P x"
  by (auto simp: find_Some_iff)

lemma control_text_protocol: "control_text_bounded v \<longleftrightarrow> bounded_text v field MAX_TEXT_BYTES = Inr ()"
  by (auto simp: control_text_bounded_def bounded_text_Inr constants_v2 deck_runtime_bounds)

lemma fitting_value_valid:
  assumes "validate_control_descriptor d = Inr ()" and fits: "control_value_fits d v"
  shows "validate_control_value v = Inr ()"
proof (cases v)
  case (CvNumber x)
  then show ?thesis
    using fits by (auto simp: control_value_fits_def validate_control_value_def try_iffs
        split: deck_operator_control_kind.splits)
next
  case (CvText s)
  have "control_text_bounded s"
  proof (cases "oc_value_type d = KindEnum")
    case True
    then have "validate_enum_control d = Inr ()"
      using assms(1) by (simp add: validate_control_descriptor_def try_bind_Inr)
    then have "\<forall>s\<in>set (the (oc_options d)). control_text_bounded s"
      by (auto simp: validate_enum_control_def try_iffs list_ex_iff split: option.splits if_splits)
    then show ?thesis
      using fits CvText True by (auto simp: control_value_fits_def split: option.splits)
  next
    case False
    then show ?thesis
      using fits CvText
      by (auto simp: control_value_fits_def split: deck_operator_control_kind.splits)
  qed
  then show ?thesis
    using CvText control_text_protocol [of s "''control.value''"]
    by (simp add: validate_control_value_def)
qed (simp_all add: validate_control_value_def)

section \<open>The operator and the binding\<close>

lemma validated_operator:
  assumes "validate_operator parse_version opd = Inr ()"
  shows "op_source_count opd \<noteq> 0" "unat (op_source_count opd) \<le> 16"
    "length (op_role_ids opd) = unat (op_source_count opd)" "length (op_controls opd) \<le> 64"
    "identifier_v2 (op_deck_id opd) f = Inr ()" "identifier_v2 (op_operator_id opd) f = Inr ()"
    "parse_version (op_deck_version opd) \<noteq> None" "parse_version (op_operator_version opd) \<noteq> None"
    "operator_entrypoint (op_entrypoint opd) = Inr ()"
    "distinct (op_role_ids opd)" "\<forall>r\<in>set (op_role_ids opd). identifier_v2 r f = Inr ()"
    "distinct (map oc_control_id (op_controls opd))"
    "\<forall>d\<in>set (op_controls opd). validate_control_descriptor d = Inr ()"
  using assms operator_identifier_Inr [where field = f]
  by (simp_all add: validate_operator_def in_order_Cons_Inr refuse_Inr distinct_loop_Inr
      operator_version_def deck_runtime_bounds)

lemma descriptor_identifier: "validate_control_descriptor d = Inr () \<Longrightarrow> identifier_v2 (oc_control_id d) f = Inr ()"
  using operator_identifier_Inr [where field = f] by (auto simp: validate_control_descriptor_def try_bind_Inr)

text \<open>What the file system and the version parser are relied on for: canonical paths have no NUL,
  a path converted to text is itself, and a version has the characters of the SemVer grammar.\<close>

definition tree_contract :: "tree_system \<Rightarrow> bool" where
  "tree_contract ts \<longleftrightarrow>
     (\<forall>p q. ts_canonicalize ts p = Some q \<longrightarrow> CHR 0x00 \<notin> set q) \<and>
     (\<forall>p q. ts_to_str ts p = Some q \<longrightarrow> q = p)"

definition version_grammar :: "(string \<Rightarrow> 'v option) \<Rightarrow> bool" where
  "version_grammar parse_version \<longleftrightarrow>
     (\<forall>s. parse_version s \<noteq> None \<longrightarrow> s \<noteq> [] \<and> list_all is_version_byte s)"

lemma version_protocol:
  assumes "version_grammar parse_version" and "parse_version v \<noteq> None"
  shows "version_v2 v field = Inr () \<longleftrightarrow> length v \<le> 64"
  using assms by (auto simp: version_v2_Inr version_grammar_def)

lemma from_active_package_Inr:
  assumes "from_active_package parse_version ts package = Inr runtime"
  obtains m root where "ap_manifest package = DeckManifest m"
    and "\<not> trust_receipt_unfit (ap_trust_receipt package) m"
    and "validate_operator parse_version (adr_operator runtime) = Inr ()"
    and "crosscheck_operator m (adr_operator runtime) = Inr ()"
    and "canonical_directory ts (ap_root package) = Inr root"
    and "tree_contract ts \<longrightarrow> path_starts_with (drb_python_root (adr_binding runtime)) root"
    and "adr_binding runtime =
       \<lparr>drb_deck_id = dm_deck_id m, drb_deck_version = dm_deck_version m,
        drb_operator_id = op_operator_id (adr_operator runtime),
        drb_operator_version = op_operator_version (adr_operator runtime),
        drb_python_root = drb_python_root (adr_binding runtime),
        drb_entrypoint = rtd_entrypoint (dm_runtime m),
        drb_package_manifest_sha256 = tr_manifest_sha256 (ap_trust_receipt package),
        drb_integrity_catalog_sha256 = tr_integrity_catalog_sha256 (ap_trust_receipt package)\<rparr>"
    and "\<exists>p q. ts_canonicalize ts p = Some q \<and>
       bounded_absolute_path ts q = Inr (drb_python_root (adr_binding runtime))"
proof (cases "ap_manifest package")
  case (DeckManifest m)
  obtain root opd q p where fit: "\<not> trust_receipt_unfit (ap_trust_receipt package) m"
    and root: "canonical_directory ts (ap_root package) = Inr root"
    and opd: "read_operator parse_version ts m root = Inr opd"
    and q: "canonical_directory ts (ts_join ts root (rtd_python_root (dm_runtime m))) = Inr q"
    and below: "path_starts_with q root"
    and p: "bounded_absolute_path ts q = Inr p"
    and r: "adr_operator runtime = opd" "drb_python_root (adr_binding runtime) = p"
      "adr_binding runtime =
       \<lparr>drb_deck_id = dm_deck_id m, drb_deck_version = dm_deck_version m,
        drb_operator_id = op_operator_id opd, drb_operator_version = op_operator_version opd,
        drb_python_root = p, drb_entrypoint = rtd_entrypoint (dm_runtime m),
        drb_package_manifest_sha256 = tr_manifest_sha256 (ap_trust_receipt package),
        drb_integrity_catalog_sha256 = tr_integrity_catalog_sha256 (ap_trust_receipt package)\<rparr>"
    using assms by (auto simp: from_active_package_def DeckManifest Let_def try_bind_Inr split: if_splits)
  have op: "validate_operator parse_version opd = Inr ()" "crosscheck_operator m opd = Inr ()"
    using opd by (auto simp: read_operator_def try_iffs split: if_splits)
  have same: "p = q \<or> \<not> tree_contract ts"
    using p by (auto simp: bounded_absolute_path_def try_iffs tree_contract_def split: if_splits)
  have canon: "\<exists>p. ts_canonicalize ts p = Some q"
    using q by (auto simp: canonical_directory_def try_iffs split: if_splits)
  show thesis
    by (rule that [OF DeckManifest fit _ _ root])
      (use op r below same canon p in auto)
next
  case (CodecManifest k)
  then show ?thesis
    using assms by (simp add: from_active_package_def)
qed

lemma binding_protocol:
  assumes tree: "tree_contract ts" and grammar: "version_grammar parse_version"
    and runtime: "from_active_package parse_version ts package = Inr runtime"
  defines "b \<equiv> adr_binding runtime"
  shows "validate_deck_runtime_binding b = Inr () \<longleftrightarrow>
      length (drb_deck_version b) \<le> 64 \<and> length (drb_operator_version b) \<le> 64 \<and>
      length (drb_entrypoint b) \<le> 512"
    and "identifier_v2 (drb_deck_id b) f = Inr ()" and "identifier_v2 (drb_operator_id b) f = Inr ()"
    and "version_v2 (drb_deck_version b) f = Inr () \<longleftrightarrow> length (drb_deck_version b) \<le> 64"
    and "version_v2 (drb_operator_version b) f = Inr () \<longleftrightarrow> length (drb_operator_version b) \<le> 64"
proof -
  obtain m root where m: "\<not> trust_receipt_unfit (ap_trust_receipt package) m"
    and op: "validate_operator parse_version (adr_operator runtime) = Inr ()"
    and cross: "crosscheck_operator m (adr_operator runtime) = Inr ()"
    and b: "adr_binding runtime =
       \<lparr>drb_deck_id = dm_deck_id m, drb_deck_version = dm_deck_version m,
        drb_operator_id = op_operator_id (adr_operator runtime),
        drb_operator_version = op_operator_version (adr_operator runtime),
        drb_python_root = drb_python_root (adr_binding runtime),
        drb_entrypoint = rtd_entrypoint (dm_runtime m),
        drb_package_manifest_sha256 = tr_manifest_sha256 (ap_trust_receipt package),
        drb_integrity_catalog_sha256 = tr_integrity_catalog_sha256 (ap_trust_receipt package)\<rparr>"
    and path: "\<exists>p q. ts_canonicalize ts p = Some q \<and>
       bounded_absolute_path ts q = Inr (drb_python_root (adr_binding runtime))"
    using from_active_package_Inr [OF runtime] .
  let ?o = "adr_operator runtime"
  note o = validated_operator [OF op]
  have same: "op_deck_id ?o = dm_deck_id m" "op_deck_version ?o = dm_deck_version m"
    "op_entrypoint ?o = rtd_entrypoint (dm_runtime m)"
    using cross by (simp_all add: crosscheck_operator_def in_order_Cons_Inr refuse_Inr)
  have fields: "drb_deck_id b = op_deck_id ?o" "drb_deck_version b = op_deck_version ?o"
    "drb_operator_id b = op_operator_id ?o" "drb_operator_version b = op_operator_version ?o"
    "drb_entrypoint b = op_entrypoint ?o"
    "drb_package_manifest_sha256 b = tr_manifest_sha256 (ap_trust_receipt package)"
    "drb_integrity_catalog_sha256 b = tr_integrity_catalog_sha256 (ap_trust_receipt package)"
    unfolding b_def same by (subst b, simp)+
  show ids: "identifier_v2 (drb_deck_id b) f = Inr ()" "identifier_v2 (drb_operator_id b) f = Inr ()" for f
    unfolding fields using o(5,6) by simp_all
  show versions: "version_v2 (drb_deck_version b) f = Inr () \<longleftrightarrow> length (drb_deck_version b) \<le> 64"
    "version_v2 (drb_operator_version b) f = Inr () \<longleftrightarrow> length (drb_operator_version b) \<le> 64" for f
    unfolding fields using version_protocol [OF grammar o(7)] version_protocol [OF grammar o(8)] by simp_all
  have hashes: "sha256 (drb_package_manifest_sha256 b) f = Inr ()"
    "sha256 (drb_integrity_catalog_sha256 b) f = Inr ()" for f
    using m unfolding fields trust_receipt_unfit_def canonical_sha256_iff [where field = f] by simp_all
  have root: "bounded_text (drb_python_root b) f MAX_PATH_BYTES_V2 = Inr ()" "is_absolute (drb_python_root b)" for f
    using path tree unfolding b_def
    by (auto simp: bounded_absolute_path_def tree_contract_def try_iffs bounded_text_Inr constants_v2
        deck_runtime_bounds split: if_splits)
  have entry: "python_entrypoint (drb_entrypoint b) f = Inr () \<longleftrightarrow> length (drb_entrypoint b) \<le> 512" for f
    unfolding fields by (rule operator_entrypoint_protocol [OF o(9)])
  show "validate_deck_runtime_binding b = Inr () \<longleftrightarrow>
      length (drb_deck_version b) \<le> 64 \<and> length (drb_operator_version b) \<le> 64 \<and>
      length (drb_entrypoint b) \<le> 512"
    unfolding validate_deck_runtime_binding_def in_order_Cons_Inr refuse_Inr
    by (simp add: ids versions hashes root entry)
qed

section \<open>The request\<close>

lemma accepted_request:
  assumes opd: "validate_operator parse_version opd = Inr ()"
    and req: "validate_load_request opd r = Inr ()"
  shows "dlr_deck_session_id r \<noteq> 0" "dlr_stream_generation r \<noteq> 0" "dlr_sources r \<noteq> []"
    "length (dlr_sources r) \<le> 16" "length (dlr_roles r) \<le> 16" "length (dlr_controls r) \<le> 64"
    "distinct (map sb_physical_slot (dlr_sources r))"
    "\<forall>role\<in>set (dlr_roles r). validate_role_binding role = Inr () \<and>
       (\<exists>s\<in>set (dlr_sources r). sb_physical_slot s = rb2_physical_slot role)"
    "distinct (map rb2_role (dlr_roles r))" "distinct (map rb2_physical_slot (dlr_roles r))"
    "\<forall>c\<in>set (dlr_controls r). validate_control_binding c = Inr ()"
    "distinct (map cb_name (dlr_controls r))"
proof -
  note o = validated_operator [OF opd]
  let ?n = "unat (op_source_count opd)" and ?slots = "map rb2_physical_slot (dlr_roles r)"
  have shape: "dlr_deck_session_id r \<noteq> 0" "dlr_stream_generation r \<noteq> 0"
      "length (dlr_sources r) = ?n" "length (dlr_roles r) = length (op_role_ids opd)"
      "length (dlr_controls r) \<le> length (op_controls opd)"
    and sorted: "sort (map (\<lambda>s. unat (sb_physical_slot s)) (dlr_sources r)) = [1..<Suc ?n]"
    and roles: "set (map rb2_role (dlr_roles r)) = set (op_role_ids opd)"
      "card (set ?slots) = length (dlr_roles r)"
      "\<forall>slot\<in>set ?slots. slot \<noteq> 0 \<and> unat slot \<le> length (dlr_sources r)"
    and controls: "validate_load_controls (op_controls opd) [] (dlr_controls r) = Inr ()"
    using req
    by (auto simp: validate_load_request_def Let_def in_order_Cons_Inr refuse_Inr list_ex_iff
        simp del: upt_Suc)
  note slots = sorted_slots [OF sorted]
  show "dlr_deck_session_id r \<noteq> 0" "dlr_stream_generation r \<noteq> 0"
    by (fact shape)+
  have "0 < ?n"
    using o(1) by (simp add: unat_gt_0)
  then show "dlr_sources r \<noteq> []"
    using shape(3) by auto
  show "length (dlr_sources r) \<le> 16" "length (dlr_roles r) \<le> 16" "length (dlr_controls r) \<le> 64"
    using shape o by simp_all
  show "distinct (map sb_physical_slot (dlr_sources r))"
    by (rule slots(1))
  show "distinct (map rb2_role (dlr_roles r))"
    using roles(1) o(10) shape(4) by (metis card_distinct distinct_card length_map)
  show "distinct (map rb2_physical_slot (dlr_roles r))"
    using roles(2) by (metis card_distinct length_map)
  show "\<forall>role\<in>set (dlr_roles r). validate_role_binding role = Inr () \<and>
       (\<exists>s\<in>set (dlr_sources r). sb_physical_slot s = rb2_physical_slot role)"
  proof
    fix role
    assume role: "role \<in> set (dlr_roles r)"
    then have "rb2_role role \<in> set (op_role_ids opd)"
      using roles(1) by auto
    then have id: "identifier_v2 (rb2_role role) ''role.role'' = Inr ()"
      using o(11) by blast
    have slot: "rb2_physical_slot role \<noteq> 0" "unat (rb2_physical_slot role) \<le> ?n"
      using roles(3) role shape(3) by auto
    then have "1 \<le> unat (rb2_physical_slot role)" "unat (rb2_physical_slot role) \<le> 16"
      using o(2) by (simp_all add: Suc_le_eq unat_gt_0)
    then have valid: "validate_role_binding role = Inr ()"
      using id slot_in_range [of "rb2_physical_slot role"]
      by (simp add: validate_role_binding_def in_order_Cons_Inr refuse_Inr)
    have "unat (rb2_physical_slot role) \<in> unat ` sb_physical_slot ` set (dlr_sources r)"
      unfolding slots(2) using \<open>1 \<le> unat (rb2_physical_slot role)\<close> slot by simp
    then have "\<exists>s\<in>set (dlr_sources r). sb_physical_slot s = rb2_physical_slot role"
      by (auto simp: word_unat_eq_iff)
    with valid show "validate_role_binding role = Inr () \<and>
        (\<exists>s\<in>set (dlr_sources r). sb_physical_slot s = rb2_physical_slot role)" ..
  qed
  have found: "distinct (map cb_name (dlr_controls r))"
    "\<forall>c\<in>set (dlr_controls r). \<exists>d. find (\<lambda>d. oc_control_id d = cb_name c) (rev (op_controls opd)) = Some d \<and>
        control_value_fits d (cb_value c)"
    using controls by (simp_all add: validate_load_controls_Inr)
  show "distinct (map cb_name (dlr_controls r))"
    by (rule found(1))
  show "\<forall>c\<in>set (dlr_controls r). validate_control_binding c = Inr ()"
  proof
    fix c
    assume "c \<in> set (dlr_controls r)"
    then obtain d where "find (\<lambda>d. oc_control_id d = cb_name c) (rev (op_controls opd)) = Some d"
        and fits: "control_value_fits d (cb_value c)"
      using found(2) by blast
    then have "d \<in> set (op_controls opd)" "oc_control_id d = cb_name c"
      using find_member by fastforce+
    then show "validate_control_binding c = Inr ()"
      using o(13) descriptor_identifier [of d "''control.name''"] fitting_value_valid [OF _ fits]
      by (auto simp: validate_control_binding_def in_order_Cons_Inr)
  qed
qed

text \<open>C24: Loads built by the host pass the protocol. A request that the host accepts for the runtime
  of an active package becomes a \<open>deck.load\<close> command that Worker Protocol 2 accepts exactly when its
  source bindings are valid and three texts that the host does not bound keep the bounds of the
  protocol: the versions of the deck and of the operator (64 bytes, where packages may have 115) and the
  entry point (512 bytes). Everything else that the protocol requires follows from the host's checks.\<close>

theorem built_load_protocol:
  assumes tree: "tree_contract ts" and grammar: "version_grammar parse_version"
    and runtime: "from_active_package parse_version ts package = Inr runtime"
    and built: "build_load_command runtime request = Inr command"
  shows "validate_command_v2 command = Inr () \<longleftrightarrow>
    list_all (\<lambda>s. validate_source_binding s = Inr ()) (dlr_sources request) \<and>
    length (drb_deck_version (adr_binding runtime)) \<le> 64 \<and>
    length (drb_operator_version (adr_binding runtime)) \<le> 64 \<and>
    length (drb_entrypoint (adr_binding runtime)) \<le> 512"
proof -
  let ?b = "adr_binding runtime" and ?o = "adr_operator runtime"
  have opd: "validate_operator parse_version ?o = Inr ()"
    using from_active_package_Inr [OF runtime] .
  have req: "validate_load_request ?o request = Inr ()"
    and command: "command = C2DeckLoad \<lparr>dl_deck_session_id = dlr_deck_session_id request,
       dl_deck_id = drb_deck_id ?b, dl_deck_version = drb_deck_version ?b,
       dl_operator_id = drb_operator_id ?b, dl_operator_version = drb_operator_version ?b,
       dl_runtime = Some ?b, dl_sources = dlr_sources request, dl_roles = dlr_roles request,
       dl_controls = dlr_controls request, dl_seed = dlr_seed request,
       dl_stream_generation = dlr_stream_generation request\<rparr>"
    using built by (auto simp: build_load_command_def limited_vec_try_from_def Let_def try_iffs
        split: if_splits)
  note a = accepted_request [OF opd req]
  note p = binding_protocol [OF tree grammar runtime]
  have roles: "try_all (\<lambda>role. in_order
        [validate_role_binding role,
         refuse (\<not> list_ex (\<lambda>source. sb_physical_slot source = rb2_physical_slot role) (dlr_sources request))
           (V2InvalidField ''deck.roles'')]) (dlr_roles request) = Inr ()"
    using a(8) by (simp add: try_all_Inr in_order_Cons_Inr refuse_Inr list_ex_iff)
  show ?thesis
    unfolding command validate_command_v2.simps validate_deck_load_def validate_deck_load_runtime_def
    by (simp add: in_order_Cons_Inr refuse_Inr try_all_Inr [where f = validate_source_binding]
        try_all_Inr [where f = validate_control_binding] unique_by_Inr non_nil_Inr positive_Inr
        a roles p list_all_iff) blast
qed

section \<open>A sample\<close>

definition sample_parse_version :: "string \<Rightarrow> string option" where
  "sample_parse_version s = (if s \<noteq> [] \<and> list_all is_version_byte s then Some s else None)"

definition sample_operator :: deck_operator_descriptor where
  "sample_operator =
     \<lparr>op_schema_version = ''0.2.0'', op_deck_operator_api = ''0.2.0'', op_deck_id = ''com.deck'',
      op_deck_version = ''1.0.0'', op_operator_id = ''blend'', op_operator_version = ''1.0.0'',
      op_entrypoint = ''deck:run'', op_source_count = 2, op_role_ids = [''left'', ''right''],
      op_controls = [\<lparr>oc_control_id = ''mix'', oc_value_type = KindBoolean, oc_default = JdBool True,
        oc_options = None, oc_minimum = None, oc_maximum = None, oc_step = None\<rparr>]\<rparr>"

definition sample_tree :: tree_system where
  "sample_tree =
     \<lparr>ts_canonicalize = (\<lambda>p. if CHR 0x00 \<in> set p then None else Some p), ts_is_dir = (\<lambda>p. True),
      ts_is_file = (\<lambda>p. True), ts_byte_length = (\<lambda>p. Some 10), ts_read = (\<lambda>p. Some [1]),
      ts_join = (\<lambda>p q. p @ [CHR 0x5C] @ q), ts_to_str = Some,
      ts_operator_json = (\<lambda>bytes. Some sample_operator)\<rparr>"

definition sample_runtime_manifest :: deck_pack_manifest where
  "sample_runtime_manifest =
     \<lparr>dm_manifest_version = ''1.0.0'', dm_kind = DeckPack, dm_deck_id = ''com.deck'',
      dm_deck_version = ''1.0.0'', dm_display_name = ''Deck'', dm_summary = ''A deck'',
      dm_publisher = \<lparr>pub_name = ''P'', pub_url = None, pub_identity_claim = SelfDeclared\<rparr>,
      dm_license = \<lparr>lic_spdx_or_label = ''MIT'', lic_notice_path = ''NOTICE.txt''\<rparr>,
      dm_compatibility = \<lparr>dc_app_min_inclusive = ''1.0.0'', dc_app_max_exclusive = ''2.0.0'',
        dc_deck_host_api = 1, dc_worker_protocol = 2, dc_deck_operator_api = 1,
        dc_tensor_abi = ''latentdeck.tensor.v1'',
        dc_python = \<lparr>py_implementation = Cpython, py_version = ''3.13'', py_platform_tag = ''win_amd64''\<rparr>,
        dc_torch_exact_build = ''2.8.0''\<rparr>,
      dm_runtime = \<lparr>rtd_kind = PythonOperatorStreamV1, rtd_operator_descriptor_path = ''operator.json'',
        rtd_python_root = ''python'', rtd_entrypoint = ''deck:run''\<rparr>,
      dm_signal = \<lparr>dsd_slots = 2,
        dsd_roles = [\<lparr>role_role_id = ''left'', role_display_name = ''Left''\<rparr>,
          \<lparr>role_role_id = ''right'', role_display_name = ''Right''\<rparr>],
        dsd_default_permutation = [''left'', ''right''], dsd_structural_carrier_role = ''left'',
        dsd_geometry_allowlist = [], dsd_timing = \<lparr>td_frames_per_second_numerator = 24,
          td_frames_per_second_denominator = 1, td_samples_per_slot = 24\<rparr>,
        dsd_required_capabilities = [CcRealtime], dsd_profile_allowlist = None\<rparr>,
      dm_faceplate_path = ''faceplate.json'',
      dm_integrity = \<lparr>id_catalog_path = ''integrity.json'', id_catalog_sha256 = replicate 64 CHR ''a''\<rparr>\<rparr>"

definition sample_active_package :: active_package where
  "sample_active_package =
     \<lparr>ap_root = [CHR ''C'', CHR '':'', CHR 0x5C, CHR ''d''], ap_manifest = DeckManifest sample_runtime_manifest,
      ap_trust_receipt = \<lparr>tr_receipt_version = ''1.0.0'',
        tr_package = \<lparr>pref_kind = DeckPack, pref_package_id = ''com.deck'', pref_package_version = ''1.0.0''\<rparr>,
        tr_archive_sha256 = replicate 64 CHR ''a'', tr_archive_byte_length = 1,
        tr_manifest_sha256 = replicate 64 CHR ''b'',
        tr_integrity_catalog_sha256 = replicate 64 CHR ''c'', tr_publisher_name = ''P'',
        tr_publisher_identity_claim = SelfDeclared, tr_installed_at_utc = ''2025'', tr_enabled = True,
        tr_runtime_seal_sha256 = None\<rparr>\<rparr>"

definition sample_binding :: deck_runtime_binding where
  "sample_binding =
     \<lparr>drb_deck_id = ''com.deck'', drb_deck_version = ''1.0.0'', drb_operator_id = ''blend'',
      drb_operator_version = ''1.0.0'',
      drb_python_root = [CHR ''C'', CHR '':'', CHR 0x5C, CHR ''d'', CHR 0x5C] @ ''python'',
      drb_entrypoint = ''deck:run'', drb_package_manifest_sha256 = replicate 64 CHR ''b'',
      drb_integrity_catalog_sha256 = replicate 64 CHR ''c''\<rparr>"

definition sample_active_runtime :: active_deck_runtime where
  "sample_active_runtime =
     \<lparr>adr_active_package = sample_active_package, adr_operator = sample_operator,
      adr_binding = sample_binding\<rparr>"

definition sample_load_request :: deck_load_request where
  "sample_load_request =
     \<lparr>dlr_deck_session_id = 7,
      dlr_sources = map (\<lambda>slot. \<lparr>sb_physical_slot = slot, sb_source_id = 1, sb_cartridge_id = 2,
        sb_archive_sha256 = replicate 64 CHR ''d'', sb_profile_receipt_id = 3,
        sb_loop_enabled = False\<rparr>) [2, 1],
      dlr_roles = [\<lparr>rb2_role = ''left'', rb2_physical_slot = 2\<rparr>, \<lparr>rb2_role = ''right'', rb2_physical_slot = 1\<rparr>],
      dlr_controls = [\<lparr>cb_name = ''mix'', cb_value = CvBoolean False\<rparr>],
      dlr_seed = 0, dlr_stream_generation = 1\<rparr>"

lemma sample_operator_valid: "validate_operator sample_parse_version sample_operator = Inr ()"
  by (simp add: validate_operator_def sample_operator_def in_order_Cons_Inr refuse_Inr
      distinct_loop_Inr operator_identifier_def operator_version_def sample_parse_version_def
      operator_entrypoint_def operator_python_identifier_def split_once_def
      validate_control_descriptor_def jd_is_boolean_def control_has_range_def is_version_byte_def
      deck_runtime_bounds ascii_defs)

lemma sample_operator_matches: "crosscheck_operator sample_runtime_manifest sample_operator = Inr ()"
  by (simp add: crosscheck_operator_def sample_runtime_manifest_def sample_operator_def)

lemma sample_receipt_fit: "\<not> trust_receipt_unfit (ap_trust_receipt sample_active_package) sample_runtime_manifest"
  by (simp add: trust_receipt_unfit_def sample_active_package_def sample_runtime_manifest_def
      canonical_sha256_def ascii_defs list_all_iff)

lemma sample_tree_ops:
  "ts_canonicalize sample_tree p = (if CHR 0x00 \<in> set p then None else Some p)"
  "ts_is_dir sample_tree p" "ts_is_file sample_tree p" "ts_byte_length sample_tree p = Some 10"
  "ts_read sample_tree p = Some [1]" "ts_join sample_tree p q = p @ [CHR 0x5C] @ q"
  "ts_to_str sample_tree p = Some p" "ts_operator_json sample_tree bytes = Some sample_operator"
  by (simp_all add: sample_tree_def)

lemma sample_paths:
  "rtd_operator_descriptor_path (dm_runtime sample_runtime_manifest) = ''operator.json''"
  "rtd_python_root (dm_runtime sample_runtime_manifest) = ''python''"
  by (simp_all add: sample_runtime_manifest_def)

lemma sample_root_absolute:
  "is_absolute [CHR ''C'', CHR '':'', CHR 0x5C, CHR ''d'']"
  "is_absolute (CHR ''C'' # CHR '':'' # CHR 0x5C # CHR ''d'' # CHR 0x5C # ''python'')"
  by (simp_all add: is_sep_byte_def is_drive_letter_def ascii_defs)

lemma starts_below: "path_starts_with (p @ CHR 0x5C # q) p"
  by (simp add: path_starts_with_def canonical_components_def split_on_append)

lemma sample_below:
  "path_starts_with (CHR ''C'' # CHR '':'' # CHR 0x5C # CHR ''d'' # CHR 0x5C # q)
     [CHR ''C'', CHR '':'', CHR 0x5C, CHR ''d'']"
  using starts_below [of "[CHR ''C'', CHR '':'', CHR 0x5C, CHR ''d'']" q] by simp

lemma sample_operator_read:
  "read_operator sample_parse_version sample_tree sample_runtime_manifest
     [CHR ''C'', CHR '':'', CHR 0x5C, CHR ''d''] = Inr sample_operator"
  by (simp add: read_operator_def canonical_file_def sample_tree_ops sample_paths
      sample_operator_valid sample_operator_matches sample_below MAX_OPERATOR_DESCRIPTOR_BYTES_def)

lemma sample_runtime_built:
  "from_active_package sample_parse_version sample_tree sample_active_package = Inr sample_active_runtime"
proof -
  have "ap_manifest sample_active_package = DeckManifest sample_runtime_manifest"
    "ap_root sample_active_package = [CHR ''C'', CHR '':'', CHR 0x5C, CHR ''d'']"
    by (simp_all add: sample_active_package_def)
  then show ?thesis
    using sample_receipt_fit sample_root_absolute sample_operator_read
    by (simp add: from_active_package_def Let_def canonical_directory_def sample_tree_ops sample_paths
        sample_below bounded_absolute_path_def MAX_DR_PATH_BYTES_def sample_active_runtime_def
        del: is_absolute.simps)
      (simp add: sample_binding_def sample_runtime_manifest_def sample_operator_def
        sample_active_package_def)
qed

lemma sample_request_accepted: "validate_load_request sample_operator sample_load_request = Inr ()"
  by (simp add: validate_load_request_def sample_operator_def sample_load_request_def Let_def
      in_order_Cons_Inr refuse_Inr validate_load_control_def control_value_fits_def upt_rec insert_commute)

definition sample_built_load :: deck_load where
  "sample_built_load =
     \<lparr>dl_deck_session_id = 7, dl_deck_id = ''com.deck'', dl_deck_version = ''1.0.0'',
      dl_operator_id = ''blend'', dl_operator_version = ''1.0.0'', dl_runtime = Some sample_binding,
      dl_sources = dlr_sources sample_load_request, dl_roles = dlr_roles sample_load_request,
      dl_controls = dlr_controls sample_load_request, dl_seed = 0, dl_stream_generation = 1\<rparr>"

lemma sample_load_built: "build_load_command sample_active_runtime sample_load_request = Inr (C2DeckLoad sample_built_load)"
  using sample_request_accepted
  by (simp add: build_load_command_def sample_active_runtime_def limited_vec_try_from_def Let_def
      sample_built_load_def deck_runtime_bounds)
    (simp add: sample_load_request_def sample_binding_def)

theorem built_load_protocol_witness: "validate_command_v2 (C2DeckLoad sample_built_load) = Inr ()"
proof -
  have tree: "tree_contract sample_tree"
    by (simp add: tree_contract_def sample_tree_ops)
  have grammar: "version_grammar sample_parse_version"
    by (simp add: version_grammar_def sample_parse_version_def)
  have "list_all (\<lambda>s. validate_source_binding s = Inr ()) (dlr_sources sample_load_request)"
    by (simp add: sample_load_request_def validate_source_binding_def in_order_Cons_Inr refuse_Inr
        non_nil_Inr sha256_Inr slot_out_of_range_def constants_v2 is_lower_hex_v2_def ascii_defs list_all_iff)
  then show ?thesis
    unfolding built_load_protocol [OF tree grammar sample_runtime_built sample_load_built]
    by (simp add: sample_active_runtime_def sample_binding_def)
qed

end
