(* ===== verification/Codec_Pack_Manifest.thy ===== *)
theory Codec_Pack_Manifest
  imports Windows_Paths Compatibility
begin

text \<open>
  The manifest of an installed codec pack of Worker Protocol 1
  (\<open>crates/core/src/codec_pack.rs\<close>): error codes, the records of \<open>codec-pack.json\<close> and of the
  integrity catalog, and the checks on the manifest in the order of the code. Parsing JSON (serde)
  and versions (semver) are parameters.
\<close>

section \<open>Constants and errors\<close>

definition CODEC_PACK_MANIFEST_VERSION :: string where
  "CODEC_PACK_MANIFEST_VERSION = ''1.0.0''"

definition INTEGRITY_CATALOG_VERSION :: string where
  "INTEGRITY_CATALOG_VERSION = ''1.0.0''"

definition PACK_WORKER_PROTOCOL_VERSION :: u16 where
  "PACK_WORKER_PROTOCOL_VERSION = 1"

definition PACK_LC_SPEC_VERSION :: string where
  "PACK_LC_SPEC_VERSION = ''0.1.0''"

definition H3_CODEC_FAMILY :: string where
  "H3_CODEC_FAMILY = ''minimax_h3''"

definition PACK_H3_PROFILE :: string where
  "PACK_H3_PROFILE = ''h3_av_latent''"

definition H3_PROFILE_VERSION :: string where
  "H3_PROFILE_VERSION = ''0.1.0''"

definition MAX_PACK_JSON_BYTES :: nat where
  "MAX_PACK_JSON_BYTES = 1024 * 1024"

definition MAX_PACK_IDS :: nat where
  "MAX_PACK_IDS = 64"

definition MAX_VERSIONS_PER_PACK :: nat where
  "MAX_VERSIONS_PER_PACK = 16"

definition MAX_CATALOG_FILES :: nat where
  "MAX_CATALOG_FILES = 32768"

definition MAX_PACK_DIRECTORIES :: nat where
  "MAX_PACK_DIRECTORIES = 131072"

definition PACK_CONTROL_FILES :: nat where
  "PACK_CONTROL_FILES = 2"

definition MAX_PACK_ARGUMENTS :: nat where
  "MAX_PACK_ARGUMENTS = 64"

definition MAX_PACK_EXTERNAL_ASSETS :: nat where
  "MAX_PACK_EXTERNAL_ASSETS = 16"

definition MAX_VARIANTS_PER_ASSET :: nat where
  "MAX_VARIANTS_PER_ASSET = 32"

datatype codec_pack_error_code =
    RootInvalid
  | TooManyPacks
  | TooManyVersions
  | PackConflict
  | ManifestMissing
  | ManifestTooLarge
  | PackManifestInvalid
  | PackIdentityMismatch
  | PackIncompatibleApp
  | PackIncompatibleProtocol
  | PackIncompatiblePlatform
  | PackIncompatibleProfile
  | PathUnsafe
  | ReparsePointForbidden
  | IntegrityCatalogInvalid
  | IntegrityFailed
  | ExternalAssetMissing
  | ExternalAssetIncompatible

definition pack_code_str :: "codec_pack_error_code \<Rightarrow> string" where
  "pack_code_str c = (case c of
       RootInvalid \<Rightarrow> ''codec.root_invalid''
     | TooManyPacks \<Rightarrow> ''codec.pack_limit_exceeded''
     | TooManyVersions \<Rightarrow> ''codec.version_limit_exceeded''
     | PackConflict \<Rightarrow> ''codec.pack_conflict''
     | ManifestMissing \<Rightarrow> ''codec.pack_missing''
     | ManifestTooLarge \<Rightarrow> ''codec.pack_manifest_too_large''
     | PackManifestInvalid \<Rightarrow> ''codec.pack_invalid''
     | PackIdentityMismatch \<Rightarrow> ''codec.pack_identity_mismatch''
     | PackIncompatibleApp \<Rightarrow> ''codec.pack_incompatible_app''
     | PackIncompatibleProtocol \<Rightarrow> ''codec.pack_incompatible_protocol''
     | PackIncompatiblePlatform \<Rightarrow> ''codec.pack_incompatible_platform''
     | PackIncompatibleProfile \<Rightarrow> ''codec.pack_incompatible_profile''
     | PathUnsafe \<Rightarrow> ''codec.pack_path_unsafe''
     | ReparsePointForbidden \<Rightarrow> ''codec.pack_reparse_forbidden''
     | IntegrityCatalogInvalid \<Rightarrow> ''codec.pack_catalog_invalid''
     | IntegrityFailed \<Rightarrow> ''codec.pack_integrity_failed''
     | ExternalAssetMissing \<Rightarrow> ''codec.asset_missing''
     | ExternalAssetIncompatible \<Rightarrow> ''codec.asset_incompatible'')"

record codec_pack_error =
  kpe_code :: string
  kpe_detail :: string

definition pack_error :: "codec_pack_error_code \<Rightarrow> string \<Rightarrow> codec_pack_error" where
  "pack_error code detail = \<lparr>kpe_code = pack_code_str code, kpe_detail = detail\<rparr>"

type_synonym 'a pack_result = "codec_pack_error + 'a"

section \<open>The manifest\<close>

record pack_publisher =
  kpub_name :: string
  kpub_url :: "string option"

record pack_license =
  klic_spdx_or_label :: string
  klic_notice_path :: string

record pack_platform =
  kplat_os :: string
  kplat_arch :: string

record profile_compatibility =
  pfc_codec_family :: string
  pfc_profile :: string
  pfc_profile_versions :: "string list"

record pack_compatibility =
  kcomp_app_min_inclusive :: string
  kcomp_app_max_exclusive :: string
  kcomp_worker_protocol_min :: u16
  kcomp_worker_protocol_max :: u16
  kcomp_lc_spec_versions :: "string list"
  kcomp_profiles :: "profile_compatibility list"

record pack_worker =
  kwork_executable :: string
  kwork_arguments :: "string list"
  kwork_working_directory :: string
  kwork_probe_timeout_ms :: u32

record pack_adapter =
  kadapt_adapter_id :: string
  kadapt_adapter_version :: string

record pack_integrity =
  kint_catalog_path :: string
  kint_catalog_sha256 :: string

record external_asset_variant =
  eav_variant_id :: string
  eav_sha256 :: string
  eav_byte_length :: u64
  eav_source_url :: string
  eav_license_label :: string
  eav_license_url :: string

record pack_external_asset =
  kea_asset_id :: string
  kea_display_name :: string
  kea_kind :: string
  kea_required :: bool
  kea_selection :: string
  kea_format :: string
  kea_accepted_variants :: "external_asset_variant list"

record installed_codec_manifest =
  kman_manifest_version :: string
  kman_pack_id :: string
  kman_pack_version :: string
  kman_display_name :: string
  kman_publisher :: pack_publisher
  kman_license :: pack_license
  kman_platform :: pack_platform
  kman_compatibility :: pack_compatibility
  kman_worker :: pack_worker
  kman_adapter :: pack_adapter
  kman_integrity :: pack_integrity
  kman_external_assets :: "pack_external_asset list"

record pack_integrity_file =
  kfile_path :: string
  kfile_byte_length :: u64
  kfile_sha256 :: string

record pack_integrity_catalog =
  kcat_manifest_version :: string
  kcat_files :: "pack_integrity_file list"

section \<open>Field checks\<close>

definition validate_pack_sha256 :: "string \<Rightarrow> unit pack_result" where
  "validate_pack_sha256 v =
     refuse (length v \<noteq> 64 \<or>
             \<not> list_all (\<lambda>c. is_ascii_digit c \<or> 97 \<le> byte_val c \<and> byte_val c \<le> 102) v)
       (pack_error PackManifestInvalid ''SHA-256 must be canonical lowercase hexadecimal'')"

definition token_segment :: "string \<Rightarrow> bool" where
  "token_segment segment =
     (segment \<noteq> [] \<and> is_ascii_lowercase (hd segment) \<and>
      list_all (\<lambda>c. is_ascii_lowercase c \<or> is_ascii_digit c \<or> c = CHR ''-'') segment)"

definition validate_token :: "string \<Rightarrow> string \<Rightarrow> unit pack_result" where
  "validate_token v label =
     refuse (v = [] \<or> length v > 128 \<or> \<not> list_all token_segment (split_on CHR ''.'' v))
       (pack_error PackManifestInvalid (label @ '' is not a canonical lowercase token''))"

text \<open>A path of normal components; the result is the list of them.\<close>

definition normal_name :: "path_component \<Rightarrow> string option" where
  "normal_name c = (case c of PcNormal s \<Rightarrow> Some s | _ \<Rightarrow> None)"

definition safe_relative_path :: "string \<Rightarrow> string list pack_result" where
  "safe_relative_path v =
     (if v = [] \<or> length v > 4096 \<or> CHR 0x00 \<in> set v \<or> CHR 0x5C \<in> set v
      then Inl (pack_error PathUnsafe ''codec pack path is empty, oversized, or non-portable'')
      else if path_not_normal v
      then Inl (pack_error PathUnsafe
             ''codec pack path must contain only relative normal components'')
      else Inr (map (the \<circ> normal_name) (path_components v)))"

definition check_safe_path :: "string \<Rightarrow> unit pack_result" where
  "check_safe_path v = try_bind (safe_relative_path v) (\<lambda>_. Inr ())"

section \<open>The whole manifest\<close>

fun pack_variants :: "string list \<Rightarrow> external_asset_variant list \<Rightarrow> unit pack_result" where
  "pack_variants seen [] = Inr ()"
| "pack_variants seen (v # vs) = try_bind (in_order
     [validate_token (eav_variant_id v) ''variant_id'',
      validate_pack_sha256 (eav_sha256 v),
      refuse (eav_byte_length v = 0 \<or> eav_variant_id v \<in> set seen)
        (pack_error PackManifestInvalid ''external asset variant is empty or duplicated'')])
     (\<lambda>_. pack_variants (eav_variant_id v # seen) vs)"

definition validate_pack_asset :: "pack_external_asset \<Rightarrow> unit pack_result" where
  "validate_pack_asset a = in_order
     [validate_token (kea_asset_id a) ''asset_id'',
      refuse (kea_kind a \<noteq> ''decoder_weight'' \<or> kea_selection a \<noteq> ''explicit_file'' \<or>
              kea_format a \<noteq> ''safetensors'' \<or> kea_accepted_variants a = [] \<or>
              length (kea_accepted_variants a) > MAX_VARIANTS_PER_ASSET)
        (pack_error PackManifestInvalid ''external asset contract is unsupported''),
      pack_variants [] (kea_accepted_variants a)]"

definition validate_launch_and_assets :: "installed_codec_manifest \<Rightarrow> unit pack_result" where
  "validate_launch_and_assets m = in_order
     [refuse (length (kwork_arguments (kman_worker m)) > MAX_PACK_ARGUMENTS \<or>
              length (kman_external_assets m) > MAX_PACK_EXTERNAL_ASSETS \<or>
              kwork_probe_timeout_ms (kman_worker m) = 0 \<or>
              kwork_probe_timeout_ms (kman_worker m) > 120000)
        (pack_error PackManifestInvalid ''codec pack collection or timeout limit is invalid''),
      check_safe_path (kwork_executable (kman_worker m)),
      check_safe_path (kwork_working_directory (kman_worker m)),
      check_safe_path (klic_notice_path (kman_license m)),
      check_safe_path (kint_catalog_path (kman_integrity m)),
      validate_pack_sha256 (kint_catalog_sha256 (kman_integrity m)),
      try_all (\<lambda>argument. refuse (argument = [] \<or> length argument > 4096 \<or> CHR 0x00 \<in> set argument)
        (pack_error PackManifestInvalid
          ''worker argument is empty or exceeds its bounded text contract''))
        (kwork_arguments (kman_worker m)),
      try_all validate_pack_asset (kman_external_assets m)]"

definition supports_h3_profile :: "pack_compatibility \<Rightarrow> bool" where
  "supports_h3_profile c =
     (list_ex (\<lambda>v. v = PACK_LC_SPEC_VERSION) (kcomp_lc_spec_versions c) \<and>
      list_ex (\<lambda>p. pfc_codec_family p = H3_CODEC_FAMILY \<and> pfc_profile p = PACK_H3_PROFILE \<and>
                   list_ex (\<lambda>v. v = H3_PROFILE_VERSION) (pfc_profile_versions p))
        (kcomp_profiles c))"

definition validate_pack_manifest ::
    "('v::linorder, 'q) semver \<Rightarrow> installed_codec_manifest \<Rightarrow> 'v \<Rightarrow> unit pack_result" where
  "validate_pack_manifest sem m app_version =
     (let bad = \<lambda>detail. pack_error PackManifestInvalid detail; c = kman_compatibility m in
     try_bind (in_order
       [refuse (kman_manifest_version m \<noteq> CODEC_PACK_MANIFEST_VERSION)
          (bad ''unsupported codec-pack manifest version''),
        validate_token (kman_pack_id m) ''pack_id'',
        validate_token (kadapt_adapter_id (kman_adapter m)) ''adapter_id'']) (\<lambda>_.
     try_bind (ok_or (sem_parse_version sem (kman_pack_version m))
       (bad ''pack_version is not canonical SemVer'')) (\<lambda>pack_version.
     if sem_to_string sem pack_version \<noteq> kman_pack_version m \<or>
        sem_parse_version sem (kadapt_adapter_version (kman_adapter m)) = None
     then Inl (bad ''pack or adapter version is not canonical SemVer'')
     else
     try_bind (ok_or (sem_parse_version sem (kcomp_app_min_inclusive c))
       (bad ''app_min_inclusive is not canonical SemVer'')) (\<lambda>app_min.
     try_bind (ok_or (sem_parse_version sem (kcomp_app_max_exclusive c))
       (bad ''app_max_exclusive is not canonical SemVer'')) (\<lambda>app_max.
     in_order
       [refuse (app_min \<ge> app_max \<or> app_version < app_min \<or> app_version \<ge> app_max)
          (pack_error PackIncompatibleApp
            ''codec pack does not support this application version''),
        refuse (kcomp_worker_protocol_min c > PACK_WORKER_PROTOCOL_VERSION \<or>
                kcomp_worker_protocol_max c < PACK_WORKER_PROTOCOL_VERSION \<or>
                kcomp_worker_protocol_min c > kcomp_worker_protocol_max c)
          (pack_error PackIncompatibleProtocol ''codec pack has no compatible worker protocol''),
        refuse (kplat_os (kman_platform m) \<noteq> ''windows'' \<or> kplat_arch (kman_platform m) \<noteq> ''x86_64'')
          (pack_error PackIncompatiblePlatform ''codec pack is not for Windows x86_64''),
        refuse (\<not> supports_h3_profile c)
          (pack_error PackIncompatibleProfile ''codec pack does not support the LC 0.1 H3 profile''),
        validate_launch_and_assets m])))))"

end
