(* ===== verification/Codec_Pack.thy ===== *)
theory Codec_Pack
  imports Codec_Pack_Manifest
begin

text \<open>
  Validation and discovery of installed codec packs (\<open>crates/core/src/codec_pack.rs\<close>) on a file
  system that is a record of answers: metadata without following links, canonical paths, the
  entries of a directory in any order, and the reads of a file, each of which may fail. A path is
  the list of its components; the digest (sha2, hex), JSON (serde_json) and versions (semver) are
  parameters. The walk over the physical files ends on every file system, also on one with
  cycles, because the number of directories is bounded; its termination is proved here.
\<close>

section \<open>The file system\<close>

type_synonym pack_path = "string list"

datatype entry_kind = DirectoryEntry | FileEntry | OtherEntry

record entry_metadata =
  em_reparse :: bool
  em_kind :: entry_kind

text \<open>The successive reads of an opened file, and whether a fault comes after them.\<close>

record file_reads =
  fr_chunks :: "u8 list list"
  fr_fault :: bool

record pack_system =
  pks_exists :: "pack_path \<Rightarrow> bool"
  pks_metadata :: "pack_path \<Rightarrow> entry_metadata option"
  pks_canonicalize :: "pack_path \<Rightarrow> pack_path option"
  pks_read_dir :: "pack_path \<Rightarrow> string option list option"
  pks_open :: "pack_path \<Rightarrow> file_reads option"
  pks_unicode :: "string \<Rightarrow> bool"
  pks_lossy :: "string \<Rightarrow> string"
  pks_sha256 :: "u8 list \<Rightarrow> string"
  pks_manifest_json :: "u8 list \<Rightarrow> installed_codec_manifest option"
  pks_catalog_json :: "u8 list \<Rightarrow> pack_integrity_catalog option"

definition reject_reparse_metadata :: "entry_metadata \<Rightarrow> unit pack_result" where
  "reject_reparse_metadata metadata =
     refuse (em_reparse metadata)
       (pack_error ReparsePointForbidden ''codec pack discovery refuses reparse points'')"

definition reject_reparse :: "pack_system \<Rightarrow> pack_path \<Rightarrow> unit pack_result" where
  "reject_reparse ks path =
     try_bind (ok_or (pks_metadata ks path)
       (pack_error RootInvalid ''codec pack path metadata cannot be read'')) reject_reparse_metadata"

text \<open>The components of a relative path one after the other, below \<open>current\<close>.\<close>

fun reject_reparse_below :: "pack_system \<Rightarrow> pack_path \<Rightarrow> string list \<Rightarrow> unit pack_result" where
  "reject_reparse_below ks current [] = Inr ()"
| "reject_reparse_below ks current (name # names) =
     try_bind (ok_or (pks_metadata ks (current @ [name]))
       (pack_error IntegrityFailed ''required codec pack path component is missing'')) (\<lambda>metadata.
     try_bind (reject_reparse_metadata metadata) (\<lambda>_.
     reject_reparse_below ks (current @ [name]) names))"

definition reject_reparse_components :: "pack_system \<Rightarrow> pack_path \<Rightarrow> string list \<Rightarrow> unit pack_result" where
  "reject_reparse_components ks root relative =
     try_bind (reject_reparse ks root) (\<lambda>_. reject_reparse_below ks root relative)"

definition below_path :: "pack_path \<Rightarrow> pack_path \<Rightarrow> bool" where
  "below_path root path = (take (length root) path = root)"

definition strip_path_prefix :: "pack_path \<Rightarrow> pack_path \<Rightarrow> string list option" where
  "strip_path_prefix root path = (if below_path root path then Some (drop (length root) path) else None)"

definition resolve_pack_path :: "pack_system \<Rightarrow> pack_path \<Rightarrow> string \<Rightarrow> bool \<Rightarrow> pack_path pack_result" where
  "resolve_pack_path ks root relative file =
     try_bind (safe_relative_path relative) (\<lambda>relative.
     try_bind (reject_reparse_components ks root relative) (\<lambda>_.
     let candidate = root @ relative in
     try_bind (ok_or (pks_metadata ks candidate)
       (pack_error IntegrityFailed ''required codec pack path is missing'')) (\<lambda>metadata.
     try_bind (reject_reparse_metadata metadata) (\<lambda>_.
     if file \<and> em_kind metadata \<noteq> FileEntry \<or> \<not> file \<and> em_kind metadata \<noteq> DirectoryEntry
     then Inl (pack_error IntegrityFailed ''codec pack path has the wrong filesystem type'')
     else
     try_bind (ok_or (pks_canonicalize ks root)
       (pack_error RootInvalid ''codec pack root cannot be canonicalized'')) (\<lambda>root.
     try_bind (ok_or (pks_canonicalize ks candidate)
       (pack_error IntegrityFailed ''codec pack path cannot be canonicalized'')) (\<lambda>canonical.
     if \<not> below_path root canonical
     then Inl (pack_error PathUnsafe ''codec pack path escaped its installation root'')
     else Inr canonical))))))"

section \<open>Reading files\<close>

record measured_file =
  mf_byte_length :: u64
  mf_sha256 :: string

text \<open>The reading loop: the length so far and the bytes given to the digest.\<close>

fun measure_reads ::
    "u8 list list \<Rightarrow> bool \<Rightarrow> u64 \<Rightarrow> u8 list \<Rightarrow> (u64 \<times> u8 list) pack_result" where
  "measure_reads [] fault byte_length hashed =
     (if fault then Inl (pack_error IntegrityFailed ''codec pack file cannot be read'')
      else Inr (byte_length, hashed))"
| "measure_reads (chunk # chunks) fault byte_length hashed =
     (if chunk = [] then Inr (byte_length, hashed)
      else if unat byte_length + length chunk \<ge> 2 ^ 64
      then Inl (pack_error IntegrityFailed ''codec pack file length overflowed'')
      else measure_reads chunks fault (byte_length + of_nat (length chunk)) (hashed @ chunk))"

definition measure_path :: "pack_system \<Rightarrow> pack_path \<Rightarrow> measured_file pack_result" where
  "measure_path ks path =
     try_bind (ok_or (pks_open ks path)
       (pack_error IntegrityFailed ''codec pack file cannot be opened'')) (\<lambda>reads.
     try_bind (measure_reads (fr_chunks reads) (fr_fault reads) 0 []) (\<lambda>(byte_length, hashed).
     Inr \<lparr>mf_byte_length = byte_length, mf_sha256 = pks_sha256 ks hashed\<rparr>))"

text \<open>\<open>Read::take\<close> ends the file after the limit, before a later fault is met.\<close>

definition read_bounded_json ::
    "pack_system \<Rightarrow> pack_path \<Rightarrow> codec_pack_error_code \<Rightarrow> u8 list pack_result" where
  "read_bounded_json ks path missing_code =
     try_bind (ok_or (pks_open ks path)
       (pack_error missing_code ''required codec pack JSON file is missing'')) (\<lambda>reads.
     let bytes = concat (takeWhile (\<lambda>c. c \<noteq> []) (fr_chunks reads));
         ended = list_ex (\<lambda>c. c = []) (fr_chunks reads) \<or> \<not> fr_fault reads;
         bounded = take (MAX_PACK_JSON_BYTES + 1) bytes in
     if length bytes \<le> MAX_PACK_JSON_BYTES \<and> \<not> ended
     then Inl (pack_error missing_code ''required codec pack JSON file cannot be read'')
     else if length bounded > MAX_PACK_JSON_BYTES
     then Inl (pack_error ManifestTooLarge ''codec pack JSON exceeds one MiB'')
     else Inr bounded)"

section \<open>The catalog and the physical files\<close>

definition portable_pack_path :: "pack_system \<Rightarrow> pack_path \<Rightarrow> pack_path \<Rightarrow> string pack_result" where
  "portable_pack_path ks root path =
     try_bind (ok_or (strip_path_prefix root path)
       (pack_error PathUnsafe ''codec pack path escaped its installation root'')) (\<lambda>relative.
     if \<not> list_all (pks_unicode ks) relative
     then Inl (pack_error PathUnsafe ''codec pack path is not portable UTF-8'')
     else Inr (join_with CHR ''/'' relative))"

definition valid_catalog_file_count :: "nat \<Rightarrow> bool" where
  "valid_catalog_file_count number = (1 \<le> number \<and> number \<le> MAX_CATALOG_FILES)"

definition ascii_lowercase :: "string \<Rightarrow> string" where
  "ascii_lowercase s = map to_ascii_lowercase s"

text \<open>The entries of one directory: the stack of directories, their number and the files so far.\<close>

fun walk_entries ::
    "pack_system \<Rightarrow> pack_path \<Rightarrow> pack_path \<Rightarrow> string option list \<Rightarrow>
     pack_path list \<Rightarrow> nat \<Rightarrow> string list \<Rightarrow> (pack_path list \<times> nat \<times> string list) pack_result" where
  "walk_entries ks root directory [] pending number actual = Inr (pending, number, actual)"
| "walk_entries ks root directory (entry # entries) pending number actual =
     try_bind (ok_or entry
       (pack_error IntegrityFailed ''codec pack contains an unreadable filesystem entry'')) (\<lambda>name.
     let path = directory @ [name] in
     try_bind (ok_or (pks_metadata ks path)
       (pack_error IntegrityFailed ''codec pack entry metadata cannot be read'')) (\<lambda>metadata.
     try_bind (reject_reparse_metadata metadata) (\<lambda>_.
     if em_kind metadata = DirectoryEntry
     then
       (if number + 1 > usize_max
        then Inl (pack_error IntegrityFailed ''codec pack directory count overflowed'')
        else if number + 1 > MAX_PACK_DIRECTORIES
        then Inl (pack_error IntegrityFailed
               ''codec pack directory count exceeds its bounded limit'')
        else walk_entries ks root directory entries (path # pending) (number + 1) actual)
     else if em_kind metadata \<noteq> FileEntry
     then Inl (pack_error IntegrityFailed ''codec pack contains a non-file filesystem entry'')
     else
     try_bind (portable_pack_path ks root path) (\<lambda>portable.
     let portable = ascii_lowercase portable in
     if portable \<in> set actual \<or> length actual + 1 > MAX_CATALOG_FILES + PACK_CONTROL_FILES
     then Inl (pack_error IntegrityFailed
            ''codec pack physical file inventory is duplicated or oversized'')
     else walk_entries ks root directory entries pending number (portable # actual)))))"

text \<open>Every directory on the stack has been counted, so that a step of the loop shrinks the sum
  of the stack and the directories that are still allowed.\<close>

lemma walk_entries_count:
  "walk_entries ks root directory entries pending number actual = Inr (pending', number', actual') \<Longrightarrow>
   length pending' + number = length pending + number' \<and> number \<le> number' \<and>
   (number < number' \<longrightarrow> number' \<le> MAX_PACK_DIRECTORIES)"
proof (induction entries arbitrary: pending number actual)
  case (Cons entry entries)
  from Cons.prems show ?case
    by (auto simp: try_iffs Let_def split: if_split_asm dest!: Cons.IH)
qed simp

function walk_inventory ::
    "pack_system \<Rightarrow> pack_path \<Rightarrow> pack_path list \<Rightarrow> nat \<Rightarrow> string list \<Rightarrow> string list pack_result" where
  "walk_inventory ks root [] number actual = Inr actual"
| "walk_inventory ks root (directory # pending) number actual =
     (case pks_read_dir ks directory of
        None \<Rightarrow> Inl (pack_error IntegrityFailed ''codec pack directory cannot be read'')
      | Some entries \<Rightarrow>
          (case walk_entries ks root directory entries pending number actual of
             Inl e \<Rightarrow> Inl e
           | Inr (pending', number', actual') \<Rightarrow> walk_inventory ks root pending' number' actual'))"
  by pat_completeness auto

termination
  by (relation "measure (\<lambda>(ks, root, pending, number, actual).
        length pending + (MAX_PACK_DIRECTORIES - number))")
    (auto dest!: walk_entries_count)

definition validate_physical_pack_inventory ::
    "pack_system \<Rightarrow> pack_path \<Rightarrow> string list \<Rightarrow> unit pack_result" where
  "validate_physical_pack_inventory ks root expected =
     try_bind (walk_inventory ks root [root] 0 []) (\<lambda>actual.
     refuse (set actual \<noteq> set expected)
       (pack_error IntegrityFailed
         ''codec pack physical file inventory differs from its integrity catalog''))"

fun catalog_entries ::
    "pack_system \<Rightarrow> pack_path \<Rightarrow> string list \<Rightarrow> pack_integrity_file list \<Rightarrow> string list pack_result" where
  "catalog_entries ks root paths [] = Inr paths"
| "catalog_entries ks root paths (entry # entries) =
     (if ascii_lowercase (kfile_path entry) \<in> set paths
      then Inl (pack_error IntegrityCatalogInvalid
             ''integrity catalog contains a duplicate or control-file path'')
      else
      try_bind (validate_pack_sha256 (kfile_sha256 entry)) (\<lambda>_.
      try_bind (resolve_pack_path ks root (kfile_path entry) True) (\<lambda>path.
      try_bind (measure_path ks path) (\<lambda>measured.
      if mf_byte_length measured \<noteq> kfile_byte_length entry \<or>
         mf_sha256 measured \<noteq> kfile_sha256 entry
      then Inl (pack_error IntegrityFailed
             ''codec pack file does not match its integrity catalog'')
      else catalog_entries ks root (ascii_lowercase (kfile_path entry) # paths) entries))))"

definition validate_catalog ::
    "pack_system \<Rightarrow> pack_path \<Rightarrow> pack_path \<Rightarrow> pack_integrity_catalog \<Rightarrow> unit pack_result" where
  "validate_catalog ks root catalog_path catalog =
     (if kcat_manifest_version catalog \<noteq> INTEGRITY_CATALOG_VERSION \<or>
         \<not> valid_catalog_file_count (length (kcat_files catalog))
      then Inl (pack_error IntegrityCatalogInvalid
             ''integrity catalog version or file count is invalid'')
      else
      try_bind (portable_pack_path ks root catalog_path) (\<lambda>control.
      try_bind (catalog_entries ks root [ascii_lowercase control, ''codec-pack.json'']
        (kcat_files catalog)) (\<lambda>paths.
      validate_physical_pack_inventory ks root paths)))"

definition require_catalog_path ::
    "pack_system \<Rightarrow> pack_integrity_catalog \<Rightarrow> pack_path \<Rightarrow> pack_path \<Rightarrow> unit pack_result" where
  "require_catalog_path ks catalog root path =
     try_bind (ok_or (strip_path_prefix root path)
       (pack_error PathUnsafe ''resolved pack path escaped its root'')) (\<lambda>relative.
     let portable = join_with CHR ''/'' (map (pks_lossy ks) relative) in
     refuse (\<not> list_ex (\<lambda>entry. kfile_path entry = portable) (kcat_files catalog))
       (pack_error IntegrityFailed
         ''required codec pack file is absent from the integrity catalog''))"

section \<open>A pack\<close>

record validated_codec_pack =
  vcp_root :: pack_path
  vcp_manifest :: installed_codec_manifest
  vcp_worker_executable :: pack_path
  vcp_worker_working_directory :: pack_path

definition validate_codec_pack ::
    "('v::linorder, 'q) semver \<Rightarrow> pack_system \<Rightarrow> pack_path \<Rightarrow> 'v \<Rightarrow>
     validated_codec_pack pack_result" where
  "validate_codec_pack sem ks root app_version =
     try_bind (reject_reparse ks root) (\<lambda>_.
     try_bind (ok_or (pks_canonicalize ks root)
       (pack_error RootInvalid ''codec pack root cannot be canonicalized'')) (\<lambda>root.
     try_bind (read_bounded_json ks (root @ [''codec-pack.json'']) ManifestMissing) (\<lambda>manifest_bytes.
     try_bind (ok_or (pks_manifest_json ks manifest_bytes)
       (pack_error PackManifestInvalid ''codec-pack.json is not a strict manifest object'')) (\<lambda>manifest.
     try_bind (validate_pack_manifest sem manifest app_version) (\<lambda>_.
     try_bind (resolve_pack_path ks root (kint_catalog_path (kman_integrity manifest)) True)
       (\<lambda>catalog_path.
     try_bind (measure_path ks catalog_path) (\<lambda>measured_catalog.
     if mf_sha256 measured_catalog \<noteq> kint_catalog_sha256 (kman_integrity manifest)
     then Inl (pack_error IntegrityFailed ''integrity catalog hash does not match codec-pack.json'')
     else
     try_bind (read_bounded_json ks catalog_path IntegrityCatalogInvalid) (\<lambda>catalog_bytes.
     try_bind (ok_or (pks_catalog_json ks catalog_bytes)
       (pack_error IntegrityCatalogInvalid ''integrity catalog is not a strict JSON object''))
       (\<lambda>catalog.
     try_bind (validate_catalog ks root catalog_path catalog) (\<lambda>_.
     try_bind (resolve_pack_path ks root (kwork_executable (kman_worker manifest)) True)
       (\<lambda>worker_executable.
     try_bind (resolve_pack_path ks root (kwork_working_directory (kman_worker manifest)) False)
       (\<lambda>worker_working_directory.
     try_bind (resolve_pack_path ks root (klic_notice_path (kman_license manifest)) True)
       (\<lambda>notice_path.
     try_bind (require_catalog_path ks catalog root worker_executable) (\<lambda>_.
     try_bind (require_catalog_path ks catalog root notice_path) (\<lambda>_.
     Inr \<lparr>vcp_root = root, vcp_manifest = manifest, vcp_worker_executable = worker_executable,
          vcp_worker_working_directory = worker_working_directory\<rparr>)))))))))))))))"

definition validate_codec_pack_directory ::
    "('v::linorder, 'q) semver \<Rightarrow> pack_system \<Rightarrow> pack_path \<Rightarrow> string \<Rightarrow>
     validated_codec_pack pack_result" where
  "validate_codec_pack_directory sem ks root app_version =
     try_bind (ok_or (sem_parse_version sem app_version)
       (pack_error PackIncompatibleApp ''application version is not canonical SemVer''))
       (\<lambda>app_version. validate_codec_pack sem ks root app_version)"

section \<open>Discovery\<close>

fun directory_names ::
    "pack_system \<Rightarrow> pack_path \<Rightarrow> nat \<Rightarrow> codec_pack_error_code \<Rightarrow> string list \<Rightarrow>
     string option list \<Rightarrow> string list pack_result" where
  "directory_names ks root limit limit_code names [] = Inr names"
| "directory_names ks root limit limit_code names (entry # entries) =
     try_bind (ok_or entry
       (pack_error RootInvalid ''codec discovery root contains an unreadable entry'')) (\<lambda>name.
     try_bind (ok_or (pks_metadata ks (root @ [name]))
       (pack_error RootInvalid ''codec discovery entry metadata cannot be read'')) (\<lambda>metadata.
     try_bind (reject_reparse_metadata metadata) (\<lambda>_.
     if em_kind metadata = DirectoryEntry
     then
       (if length (names @ [name]) > limit
        then Inl (pack_error limit_code
               ''codec discovery collection exceeds its bounded limit'')
        else directory_names ks root limit limit_code (names @ [name]) entries)
     else directory_names ks root limit limit_code names entries)))"

definition bounded_directories ::
    "pack_system \<Rightarrow> pack_path \<Rightarrow> nat \<Rightarrow> codec_pack_error_code \<Rightarrow> string list pack_result" where
  "bounded_directories ks root limit limit_code =
     try_bind (ok_or (pks_read_dir ks root)
       (pack_error RootInvalid ''codec discovery root cannot be read'')) (\<lambda>entries.
     try_bind (directory_names ks root limit limit_code [] entries) (\<lambda>names. Inr (sort names)))"

definition file_name_utf8 :: "pack_system \<Rightarrow> string \<Rightarrow> string pack_result" where
  "file_name_utf8 ks name =
     (if pks_unicode ks name then Inr name
      else Inl (pack_error PackIdentityMismatch ''codec pack directory name is not UTF-8''))"

definition pack_identity_of :: "validated_codec_pack \<Rightarrow> string \<times> string" where
  "pack_identity_of p = (kman_pack_id (vcp_manifest p), kman_pack_version (vcp_manifest p))"

text \<open>The loops over the versions of a pack, the packs of a root, and the roots; the identities
  seen so far are those of the packs found so far.\<close>

fun discover_versions ::
    "('v::linorder, 'q) semver \<Rightarrow> pack_system \<Rightarrow> 'v \<Rightarrow> pack_path \<Rightarrow> string \<Rightarrow>
     validated_codec_pack list \<Rightarrow> string list \<Rightarrow> validated_codec_pack list pack_result" where
  "discover_versions sem ks app_version pack_directory directory_id packs [] = Inr packs"
| "discover_versions sem ks app_version pack_directory directory_id packs (name # names) =
     try_bind (file_name_utf8 ks name) (\<lambda>directory_version.
     try_bind (ok_or (sem_parse_version sem directory_version)
       (pack_error PackIdentityMismatch ''codec version directory is not canonical SemVer'')) (\<lambda>_.
     try_bind (validate_codec_pack sem ks (pack_directory @ [name]) app_version) (\<lambda>pack.
     if kman_pack_id (vcp_manifest pack) \<noteq> directory_id \<or>
        kman_pack_version (vcp_manifest pack) \<noteq> directory_version
     then Inl (pack_error PackIdentityMismatch
            ''manifest identity does not match its installation directories'')
     else if pack_identity_of pack \<in> set (map pack_identity_of packs)
     then Inl (pack_error PackConflict
            ''the same codec pack identity exists in more than one discovery root'')
     else discover_versions sem ks app_version pack_directory directory_id (packs @ [pack]) names)))"

fun discover_root ::
    "('v::linorder, 'q) semver \<Rightarrow> pack_system \<Rightarrow> 'v \<Rightarrow> pack_path \<Rightarrow>
     validated_codec_pack list \<Rightarrow> string list \<Rightarrow> validated_codec_pack list pack_result" where
  "discover_root sem ks app_version root packs [] = Inr packs"
| "discover_root sem ks app_version root packs (name # names) =
     try_bind (file_name_utf8 ks name) (\<lambda>directory_id.
     try_bind (validate_token directory_id ''pack directory'') (\<lambda>_.
     try_bind (bounded_directories ks (root @ [name]) MAX_VERSIONS_PER_PACK TooManyVersions) (\<lambda>versions.
     try_bind (discover_versions sem ks app_version (root @ [name]) directory_id packs versions) (\<lambda>packs.
     discover_root sem ks app_version root packs names))))"

fun discover_roots ::
    "('v::linorder, 'q) semver \<Rightarrow> pack_system \<Rightarrow> 'v \<Rightarrow> validated_codec_pack list \<Rightarrow>
     pack_path list \<Rightarrow> validated_codec_pack list pack_result" where
  "discover_roots sem ks app_version packs [] = Inr packs"
| "discover_roots sem ks app_version packs (root # roots) =
     (if \<not> pks_exists ks root then discover_roots sem ks app_version packs roots
      else
      try_bind (reject_reparse ks root) (\<lambda>_.
      try_bind (bounded_directories ks root MAX_PACK_IDS TooManyPacks) (\<lambda>names.
      try_bind (discover_root sem ks app_version root packs names) (\<lambda>packs.
      discover_roots sem ks app_version packs roots))))"

text \<open>The order of pairs of strings is that of two-element lists.\<close>

definition pack_sort_key :: "validated_codec_pack \<Rightarrow> string list" where
  "pack_sort_key p = [kman_pack_id (vcp_manifest p), kman_pack_version (vcp_manifest p)]"

definition discover_codec_packs ::
    "('v::linorder, 'q) semver \<Rightarrow> pack_system \<Rightarrow> pack_path list \<Rightarrow> string \<Rightarrow>
     validated_codec_pack list pack_result" where
  "discover_codec_packs sem ks roots app_version =
     try_bind (ok_or (sem_parse_version sem app_version)
       (pack_error PackIncompatibleApp ''application version is not canonical SemVer''))
       (\<lambda>app_version.
     try_bind (discover_roots sem ks app_version [] roots) (\<lambda>packs.
     Inr (sort_key pack_sort_key packs)))"

section \<open>An external asset\<close>

record validated_external_asset =
  vea_asset_id :: string
  vea_variant_id :: string
  vea_path :: pack_path
  vea_sha256 :: string
  vea_byte_length :: u64

definition validate_external_asset_file ::
    "pack_system \<Rightarrow> validated_codec_pack \<Rightarrow> string \<Rightarrow> pack_path \<Rightarrow>
     validated_external_asset pack_result" where
  "validate_external_asset_file ks pack asset_id path =
     try_bind (ok_or (List.find (\<lambda>a. kea_asset_id a = asset_id)
         (kman_external_assets (vcp_manifest pack)))
       (pack_error ExternalAssetMissing
         ''codec pack does not declare the selected external asset'')) (\<lambda>descriptor.
     try_bind (ok_or (pks_metadata ks path)
       (pack_error ExternalAssetMissing ''selected external asset is missing'')) (\<lambda>metadata.
     try_bind (reject_reparse_metadata metadata) (\<lambda>_.
     if em_kind metadata \<noteq> FileEntry
     then Inl (pack_error ExternalAssetIncompatible
            ''selected external asset is not a regular file'')
     else
     try_bind (map_err (\<lambda>_. pack_error ExternalAssetIncompatible
         ''selected external asset cannot be measured'') (measure_path ks path)) (\<lambda>measured.
     try_bind (ok_or (List.find (\<lambda>v. eav_byte_length v = mf_byte_length measured \<and>
           eav_sha256 v = mf_sha256 measured) (kea_accepted_variants descriptor))
       (pack_error ExternalAssetIncompatible
         ''selected external asset does not match an accepted variant'')) (\<lambda>variant.
     try_bind (ok_or (pks_canonicalize ks path)
       (pack_error ExternalAssetIncompatible
         ''selected external asset cannot be canonicalized'')) (\<lambda>canonical.
     Inr \<lparr>vea_asset_id = kea_asset_id descriptor, vea_variant_id = eav_variant_id variant,
          vea_path = canonical, vea_sha256 = mf_sha256 measured,
          vea_byte_length = mf_byte_length measured\<rparr>))))))"

end
