(* ===== verification/Player.thy ===== *)
theory Player
  imports Codec_Pack Cartridge_Manifest
begin

text \<open>
  The state of the player (\<open>crates/core/src/player.rs\<close>): which codec pack, decoder weight and
  cartridge are selected, the phase of the transport and the snapshot shown to the user. Each
  method on \<open>&mut self\<close> returns its result and the new state, with the fields that were already
  assigned when it fails. Opening a cartridge (\<open>open_integrity_validated\<close>) is a parameter that gives
  the manifest and the digest of the archive, or an error; the file name of a path too.
\<close>

section \<open>Data\<close>

definition H3_PACK_ID :: string where
  "H3_PACK_ID = ''org.latentdeck.h3''"

definition H3_ASSET_ID :: string where
  "H3_ASSET_ID = ''taeh3''"

datatype player_phase = PhEmpty | PhLoading | PhReady | PhPlaying | PhPaused | PhError

datatype player_codec_state = PcMissing | PcLoading | PcReady | PcIncompatible | PcError

record cartridge_summary =
  csm_cartridge_id :: string
  csm_archive_sha256 :: string
  csm_file_name :: string
  csm_width :: u32
  csm_height :: u32
  csm_frame_count :: u64
  csm_frame_rate_numerator :: u64
  csm_frame_rate_denominator :: u64
  csm_audio_present :: bool

record decoder_variant_summary =
  dvs_variant_id :: string
  dvs_sha256 :: string
  dvs_byte_length :: u64
  dvs_source_url :: string
  dvs_license_label :: string
  dvs_license_url :: string
  dvs_selected :: bool

record codec_summary =
  cds_state :: player_codec_state
  cds_display_name :: "string option"
  cds_detail :: "string option"
  cds_pack_id :: "string option"
  cds_pack_version :: "string option"
  cds_publisher_name :: "string option"
  cds_publisher_url :: "string option"
  cds_pack_license_label :: "string option"
  cds_decoder_asset_id :: "string option"
  cds_decoder_display_name :: "string option"
  cds_decoder_variants :: "decoder_variant_summary list"

record player_error_view =
  pev_code :: string
  pev_message :: string
  pev_recoverable :: bool

record player_view =
  pvw_revision :: u64
  pvw_phase :: player_phase
  pvw_cartridge :: "cartridge_summary option"
  pvw_codec :: codec_summary
  pvw_position_frame :: u64
  pvw_loop_enabled :: bool
  pvw_output_available :: bool
  pvw_error :: "player_error_view option"

record loaded_cartridge =
  lcg_validated :: manifest
  lcg_path :: pack_path
  lcg_summary :: cartridge_summary

record player_coordinator =
  ply_revision :: u64
  ply_phase :: player_phase
  ply_packs :: "validated_codec_pack list"
  ply_selected_pack :: "nat option"
  ply_codec_fault :: "codec_summary option"
  ply_protocol2_codec :: "codec_summary option"
  ply_decoder_asset :: "validated_external_asset option"
  ply_cartridge :: "loaded_cartridge option"
  ply_position_frame :: u64
  ply_loop_enabled :: bool
  ply_output_available :: bool
  ply_error :: "player_error_view option"

record player_launch_inputs =
  pli_codec_pack :: validated_codec_pack
  pli_decoder_asset :: validated_external_asset
  pli_cartridge_path :: pack_path
  pli_cartridge :: cartridge_summary

record player_protocol2_source =
  pps_retained_cartridge :: manifest
  pps_cartridge :: cartridge_summary

record player_coordinator_error =
  pce_code :: string
  pce_message :: string

type_synonym 'a player_result = "player_coordinator_error + 'a"

definition player_error :: "string \<Rightarrow> string \<Rightarrow> player_coordinator_error" where
  "player_error code message = \<lparr>pce_code = code, pce_message = message\<rparr>"

definition player_error_of :: "codec_pack_error \<Rightarrow> player_coordinator_error" where
  "player_error_of e = player_error (kpe_code e) (kpe_detail e)"

text \<open>What the player calls: the file system of the codec packs, the reader of cartridges with the
  code and detail of its error, and the Unicode file name of a path.\<close>

record player_system =
  pys_packs :: pack_system
  pys_open_cartridge :: "pack_path \<Rightarrow> (cartridge_code \<times> string) + (manifest \<times> string)"
  pys_file_name :: "pack_path \<Rightarrow> string option"

section \<open>Summaries and the view\<close>

definition codec_summary_without_pack :: "player_codec_state \<Rightarrow> string option \<Rightarrow> codec_summary" where
  "codec_summary_without_pack state detail =
     \<lparr>cds_state = state, cds_display_name = None, cds_detail = detail, cds_pack_id = None,
      cds_pack_version = None, cds_publisher_name = None, cds_publisher_url = None,
      cds_pack_license_label = None, cds_decoder_asset_id = None, cds_decoder_display_name = None,
      cds_decoder_variants = []\<rparr>"

definition variant_selected ::
    "validated_external_asset option \<Rightarrow> external_asset_variant \<Rightarrow> bool" where
  "variant_selected selected variant = (case selected of None \<Rightarrow> False | Some s \<Rightarrow>
     vea_asset_id s = H3_ASSET_ID \<and> vea_variant_id s = eav_variant_id variant \<and>
     vea_sha256 s = eav_sha256 variant \<and> vea_byte_length s = eav_byte_length variant)"

definition variant_summary ::
    "validated_external_asset option \<Rightarrow> external_asset_variant \<Rightarrow> decoder_variant_summary" where
  "variant_summary selected variant =
     \<lparr>dvs_variant_id = eav_variant_id variant, dvs_sha256 = eav_sha256 variant,
      dvs_byte_length = eav_byte_length variant, dvs_source_url = eav_source_url variant,
      dvs_license_label = eav_license_label variant, dvs_license_url = eav_license_url variant,
      dvs_selected = variant_selected selected variant\<rparr>"

definition decoder_of :: "validated_codec_pack \<Rightarrow> pack_external_asset option" where
  "decoder_of pack =
     List.find (\<lambda>a. kea_asset_id a = H3_ASSET_ID) (kman_external_assets (vcp_manifest pack))"

definition codec_summary_for_pack ::
    "validated_codec_pack \<Rightarrow> player_codec_state \<Rightarrow> string option \<Rightarrow>
     validated_external_asset option \<Rightarrow> codec_summary" where
  "codec_summary_for_pack pack state detail selected =
     (let m = vcp_manifest pack; decoder = decoder_of pack in
     \<lparr>cds_state = state, cds_display_name = Some (kman_display_name m), cds_detail = detail,
      cds_pack_id = Some (kman_pack_id m), cds_pack_version = Some (kman_pack_version m),
      cds_publisher_name = Some (kpub_name (kman_publisher m)),
      cds_publisher_url = kpub_url (kman_publisher m),
      cds_pack_license_label = Some (klic_spdx_or_label (kman_license m)),
      cds_decoder_asset_id = map_option kea_asset_id decoder,
      cds_decoder_display_name = map_option kea_display_name decoder,
      cds_decoder_variants = (case decoder of None \<Rightarrow> []
        | Some a \<Rightarrow> map (variant_summary selected) (kea_accepted_variants a))\<rparr>)"

definition nth_option :: "'a list \<Rightarrow> nat \<Rightarrow> 'a option" where
  "nth_option xs i = (if i < length xs then Some (xs ! i) else None)"

definition selected_codec_pack :: "player_coordinator \<Rightarrow> validated_codec_pack option" where
  "selected_codec_pack s = Option.bind (ply_selected_pack s) (nth_option (ply_packs s))"

definition has_h3_pack :: "player_coordinator \<Rightarrow> bool" where
  "has_h3_pack s = list_ex (\<lambda>p. kman_pack_id (vcp_manifest p) = H3_PACK_ID) (ply_packs s)"

definition codec_selection_error :: "player_coordinator \<Rightarrow> player_coordinator_error" where
  "codec_selection_error s =
     (if has_h3_pack s
      then player_error ''codec.selection_missing'' ''Select an exact compatible H3 Codec Pack version.''
      else player_error ''codec.pack_missing''
             ''Install a compatible H3 Codec Pack before selecting it.'')"

definition player_codec_summary :: "player_coordinator \<Rightarrow> codec_summary" where
  "player_codec_summary s =
     (case ply_protocol2_codec s of Some summary \<Rightarrow> summary | None \<Rightarrow>
     (case ply_codec_fault s of Some fault \<Rightarrow> fault | None \<Rightarrow>
     (case selected_codec_pack s of
        None \<Rightarrow> codec_summary_without_pack PcMissing
          (Some (if has_h3_pack s then ''Select an exact compatible H3 Codec Pack version.''
                 else ''Install a compatible H3 Codec Pack.''))
      | Some pack \<Rightarrow>
          if ply_decoder_asset s = None
          then codec_summary_for_pack pack PcMissing
            (Some ''Select a compatible TAEH3 decoder weight.'') None
          else codec_summary_for_pack pack PcReady None (ply_decoder_asset s))))"

definition player_view_of :: "player_coordinator \<Rightarrow> player_view" where
  "player_view_of s =
     \<lparr>pvw_revision = ply_revision s, pvw_phase = ply_phase s,
      pvw_cartridge = map_option lcg_summary (ply_cartridge s), pvw_codec = player_codec_summary s,
      pvw_position_frame = ply_position_frame s, pvw_loop_enabled = ply_loop_enabled s,
      pvw_output_available = ply_output_available s, pvw_error = ply_error s\<rparr>"

section \<open>Construction\<close>

definition with_validated_packs :: "validated_codec_pack list \<Rightarrow> player_coordinator" where
  "with_validated_packs packs =
     \<lparr>ply_revision = 0, ply_phase = PhEmpty, ply_packs = packs, ply_selected_pack = None,
      ply_codec_fault = None, ply_protocol2_codec = None, ply_decoder_asset = None,
      ply_cartridge = None, ply_position_frame = 0, ply_loop_enabled = False,
      ply_output_available = False, ply_error = None\<rparr>"

definition without_codec :: player_coordinator where
  "without_codec = with_validated_packs []"

definition discover_player ::
    "('v::linorder, 'q) semver \<Rightarrow> player_system \<Rightarrow> pack_path list \<Rightarrow> string \<Rightarrow>
     player_coordinator player_result" where
  "discover_player sem sys roots app_version =
     try_bind (map_err player_error_of (discover_codec_packs sem (pys_packs sys) roots app_version))
       (\<lambda>packs. Inr (with_validated_packs packs))"

definition discover_visible ::
    "('v::linorder, 'q) semver \<Rightarrow> player_system \<Rightarrow> pack_path list \<Rightarrow> string \<Rightarrow> player_coordinator" where
  "discover_visible sem sys roots app_version =
     (case discover_player sem sys roots app_version of
        Inr player \<Rightarrow> player
      | Inl e \<Rightarrow>
          let state = (if has_prefix ''codec.pack_incompatible_'' (pce_code e) then PcIncompatible
                       else PcError)
          in without_codec
            \<lparr>ply_codec_fault := Some (codec_summary_without_pack state (Some (pce_message e))),
             ply_error := Some \<lparr>pev_code = pce_code e, pev_message = pce_message e,
               pev_recoverable = True\<rparr>\<rparr>)"

section \<open>Operations\<close>

definition bump_revision :: "player_coordinator \<Rightarrow> unit player_result \<times> player_coordinator" where
  "bump_revision s =
     (case checked_add (ply_revision s) 1 of
        Some r \<Rightarrow> (Inr (), s\<lparr>ply_revision := r\<rparr>)
      | None \<Rightarrow> (Inl (player_error ''player.revision_exhausted'' ''Player revision exhausted''), s))"

text \<open>\<open>self.bump_revision()?; Ok(self.view())\<close>\<close>

definition publish :: "player_coordinator \<Rightarrow> player_view player_result \<times> player_coordinator" where
  "publish s = (case bump_revision s of
       (Inl e, s') \<Rightarrow> (Inl e, s')
     | (Inr u, s') \<Rightarrow> (Inr (player_view_of s'), s'))"

definition pack_position :: "validated_codec_pack list \<Rightarrow> string \<Rightarrow> string \<Rightarrow> nat option" where
  "pack_position packs pack_id pack_version =
     map_option fst (List.find (\<lambda>(i, p).
       kman_pack_id (vcp_manifest p) = H3_PACK_ID \<and> kman_pack_id (vcp_manifest p) = pack_id \<and>
       kman_pack_version (vcp_manifest p) = pack_version) (enumerate 0 packs))"

definition select_codec_pack_exact ::
    "string \<Rightarrow> string \<Rightarrow> player_coordinator \<Rightarrow> player_view player_result \<times> player_coordinator" where
  "select_codec_pack_exact pack_id pack_version s =
     try_with (ok_or (pack_position (ply_packs s) pack_id pack_version)
       (player_error ''codec.pack_missing''
         ''The exact selected H3 Codec Pack version is unavailable.'')) s (\<lambda>selected.
     let s1 = (if ply_selected_pack s \<noteq> Some selected then s\<lparr>ply_decoder_asset := None\<rparr> else s)
     in publish (s1\<lparr>ply_selected_pack := Some selected, ply_protocol2_codec := None,
          ply_codec_fault := None, ply_error := None\<rparr>))"

definition select_decoder_asset ::
    "player_system \<Rightarrow> pack_path \<Rightarrow> player_coordinator \<Rightarrow>
     player_view player_result \<times> player_coordinator" where
  "select_decoder_asset sys path s =
     try_with (ok_or (selected_codec_pack s) (codec_selection_error s)) s (\<lambda>pack.
     (case validate_external_asset_file (pys_packs sys) pack H3_ASSET_ID path of
        Inr asset \<Rightarrow>
          publish (s\<lparr>ply_decoder_asset := Some asset, ply_codec_fault := None, ply_error := None\<rparr>)
      | Inl e \<Rightarrow>
          let failure = player_error_of e;
              state = (if pce_code failure = ''codec.asset_incompatible'' then PcIncompatible
                       else PcError)
          in (case bump_revision (s\<lparr>
                ply_codec_fault := map_option (\<lambda>selected.
                  codec_summary_for_pack selected state (Some (pce_message failure)) None)
                  (selected_codec_pack s),
                ply_error := Some \<lparr>pev_code = pce_code failure, pev_message = pce_message failure,
                  pev_recoverable = True\<rparr>\<rparr>) of
               (Inl e, s') \<Rightarrow> (Inl e, s')
             | (Inr u, s') \<Rightarrow> (Inl failure, s'))))"

definition summary_of :: "player_system \<Rightarrow> pack_path \<Rightarrow> manifest \<Rightarrow> string \<Rightarrow> cartridge_summary" where
  "summary_of sys path m archive_sha256 =
     (let video = ti_decoded_video (mf_timing m) in
     \<lparr>csm_cartridge_id = mf_cartridge_id m, csm_archive_sha256 = archive_sha256,
      csm_file_name = (case pys_file_name sys path of Some name \<Rightarrow> name | None \<Rightarrow> ''cartridge.lc''),
      csm_width = dv_width video, csm_height = dv_height video, csm_frame_count = dv_frame_count video,
      csm_frame_rate_numerator = ra_numerator (dv_frame_rate video),
      csm_frame_rate_denominator = ra_denominator (dv_frame_rate video),
      csm_audio_present = (case mf_audio m of SourceAbsent \<Rightarrow> False | _ \<Rightarrow> True)\<rparr>)"

definition open_cartridge ::
    "player_system \<Rightarrow> pack_path \<Rightarrow> player_coordinator \<Rightarrow>
     player_view player_result \<times> player_coordinator" where
  "open_cartridge sys path s =
     (let s1 = s\<lparr>ply_phase := PhLoading\<rparr> in
     case pys_open_cartridge sys path of
       Inl (code, detail) \<Rightarrow>
         (Inl (player_error (cartridge_code_str code) detail), s1\<lparr>ply_phase := PhError\<rparr>)
     | Inr (m, archive_sha256) \<Rightarrow>
         publish (s1\<lparr>ply_cartridge := Some \<lparr>lcg_validated = m, lcg_path = path,
             lcg_summary = summary_of sys path m archive_sha256\<rparr>,
           ply_phase := PhReady, ply_position_frame := 0, ply_error := None\<rparr>))"

definition launch_inputs :: "player_coordinator \<Rightarrow> player_launch_inputs player_result" where
  "launch_inputs s =
     try_bind (ok_or (selected_codec_pack s) (codec_selection_error s)) (\<lambda>codec_pack.
     try_bind (ok_or (ply_decoder_asset s)
       (player_error ''codec.asset_missing'' ''No compatible TAEH3 decoder weight is selected''))
       (\<lambda>decoder_asset.
     try_bind (ok_or (ply_cartridge s)
       (player_error ''slot.cartridge_missing'' ''No cartridge is loaded'')) (\<lambda>cartridge.
     Inr \<lparr>pli_codec_pack = codec_pack, pli_decoder_asset = decoder_asset,
          pli_cartridge_path = lcg_path cartridge, pli_cartridge = lcg_summary cartridge\<rparr>)))"

definition protocol2_source_inputs :: "player_coordinator \<Rightarrow> player_protocol2_source player_result" where
  "protocol2_source_inputs s =
     try_bind (ok_or (ply_cartridge s)
       (player_error ''slot.cartridge_missing'' ''No cartridge is loaded'')) (\<lambda>cartridge.
     Inr \<lparr>pps_retained_cartridge = lcg_validated cartridge, pps_cartridge = lcg_summary cartridge\<rparr>)"

definition set_protocol2_codec_summary ::
    "codec_summary \<Rightarrow> player_coordinator \<Rightarrow> player_view player_result \<times> player_coordinator" where
  "set_protocol2_codec_summary summary s =
     publish (s\<lparr>ply_protocol2_codec := Some summary, ply_codec_fault := None, ply_error := None\<rparr>)"

abbreviation invalid_transition :: "string \<Rightarrow> player_coordinator_error" where
  "invalid_transition message \<equiv> player_error ''state.invalid_transition'' message"

definition set_playing_protocol2 ::
    "bool \<Rightarrow> player_coordinator \<Rightarrow> player_view player_result \<times> player_coordinator" where
  "set_playing_protocol2 playing s =
     (if ply_cartridge s = None
      then (Inl (invalid_transition ''Load a cartridge before controlling playback.''), s)
      else if playing
      then (if ply_phase s \<notin> {PhReady, PhPaused}
            then (Inl (invalid_transition ''Player is not ready to start.''), s)
            else publish (s\<lparr>ply_phase := PhPlaying, ply_error := None\<rparr>))
      else if ply_phase s = PhPlaying then publish (s\<lparr>ply_phase := PhPaused, ply_error := None\<rparr>)
      else if ply_phase s \<noteq> PhPaused
      then (Inl (invalid_transition ''Player is not currently playing.''), s)
      else publish (s\<lparr>ply_error := None\<rparr>))"

definition reset_to_start_protocol2 ::
    "player_coordinator \<Rightarrow> player_view player_result \<times> player_coordinator" where
  "reset_to_start_protocol2 s =
     (if ply_cartridge s = None then (Inl (invalid_transition ''No cartridge is loaded.''), s)
      else publish (s\<lparr>ply_position_frame := 0, ply_phase := PhPaused, ply_error := None\<rparr>))"

definition set_loop_enabled ::
    "bool \<Rightarrow> player_coordinator \<Rightarrow> player_view player_result \<times> player_coordinator" where
  "set_loop_enabled enabled s =
     (if ply_cartridge s = None
      then (Inl (invalid_transition ''Load a cartridge before changing Loop.''), s)
      else publish (s\<lparr>ply_loop_enabled := enabled\<rparr>))"

definition set_playing ::
    "bool \<Rightarrow> player_coordinator \<Rightarrow> player_view player_result \<times> player_coordinator" where
  "set_playing playing s =
     (if playing
      then try_with (launch_inputs s) s (\<lambda>_.
        if ply_phase s \<notin> {PhReady, PhPaused}
        then (Inl (invalid_transition ''Player is not ready to start.''), s)
        else publish (s\<lparr>ply_phase := PhPlaying, ply_error := None\<rparr>))
      else if ply_phase s = PhPlaying then publish (s\<lparr>ply_phase := PhPaused, ply_error := None\<rparr>)
      else (Inl (invalid_transition ''Player is not currently playing.''), s))"

definition reset_to_start ::
    "player_coordinator \<Rightarrow> player_view player_result \<times> player_coordinator" where
  "reset_to_start s =
     try_with (launch_inputs s) s (\<lambda>_.
       publish (s\<lparr>ply_position_frame := 0, ply_phase := PhPaused, ply_error := None\<rparr>))"

definition set_position_frame ::
    "u64 \<Rightarrow> player_coordinator \<Rightarrow> player_view player_result \<times> player_coordinator" where
  "set_position_frame position_frame s =
     try_with (ok_or (map_option (csm_frame_count \<circ> lcg_summary) (ply_cartridge s))
       (invalid_transition ''No cartridge is loaded.'')) s (\<lambda>frame_count.
     if position_frame \<ge> frame_count
     then (Inl (player_error ''player.position_invalid''
            ''Presented frame is outside the cartridge duration.''), s)
     else publish (s\<lparr>ply_position_frame := position_frame\<rparr>))"

definition set_output_available ::
    "bool \<Rightarrow> player_coordinator \<Rightarrow> player_view player_result \<times> player_coordinator" where
  "set_output_available available s = publish (s\<lparr>ply_output_available := available\<rparr>)"

definition set_runtime_error ::
    "string \<Rightarrow> string \<Rightarrow> bool \<Rightarrow> player_coordinator \<Rightarrow>
     player_view player_result \<times> player_coordinator" where
  "set_runtime_error code message recoverable s =
     publish (s\<lparr>ply_phase := PhError, ply_output_available := False,
       ply_error := Some \<lparr>pev_code = code, pev_message = message, pev_recoverable = recoverable\<rparr>\<rparr>)"

text \<open>The methods that change the state, as the steps of a machine.\<close>

datatype player_op =
    OpSelectCodecPack string string
  | OpSelectDecoderAsset pack_path
  | OpOpenCartridge pack_path
  | OpSetProtocol2Codec codec_summary
  | OpSetPlayingProtocol2 bool
  | OpResetProtocol2
  | OpSetLoop bool
  | OpSetPlaying bool
  | OpReset
  | OpSetPosition u64
  | OpSetOutput bool
  | OpRuntimeError string string bool

definition player_transition ::
    "player_system \<Rightarrow> player_coordinator \<Rightarrow> player_op \<Rightarrow>
     player_view player_result \<times> player_coordinator" where
  "player_transition sys s op = (case op of
       OpSelectCodecPack pack_id version \<Rightarrow> select_codec_pack_exact pack_id version s
     | OpSelectDecoderAsset path \<Rightarrow> select_decoder_asset sys path s
     | OpOpenCartridge path \<Rightarrow> open_cartridge sys path s
     | OpSetProtocol2Codec summary \<Rightarrow> set_protocol2_codec_summary summary s
     | OpSetPlayingProtocol2 playing \<Rightarrow> set_playing_protocol2 playing s
     | OpResetProtocol2 \<Rightarrow> reset_to_start_protocol2 s
     | OpSetLoop enabled \<Rightarrow> set_loop_enabled enabled s
     | OpSetPlaying playing \<Rightarrow> set_playing playing s
     | OpReset \<Rightarrow> reset_to_start s
     | OpSetPosition position \<Rightarrow> set_position_frame position s
     | OpSetOutput available \<Rightarrow> set_output_available available s
     | OpRuntimeError code message recoverable \<Rightarrow> set_runtime_error code message recoverable s)"

end
