(* ===== verification/Codec_Pack_Exact.thy ===== *)
theory Codec_Pack_Exact
  imports Codec_Pack
begin

text \<open>
  What the validation of an installed codec pack establishes: the files below the root are exactly
  those of the catalog and the two control files, each with the declared length and digest, and
  nothing in the tree is a link; what discovery returns; what an accepted external asset is.
\<close>

section \<open>The tree below a directory\<close>

definition kind_at :: "pack_system \<Rightarrow> pack_path \<Rightarrow> entry_kind \<Rightarrow> bool" where
  "kind_at ks path kind \<longleftrightarrow> (\<exists>m. pks_metadata ks path = Some m \<and> em_kind m = kind)"

definition lists_entry :: "pack_system \<Rightarrow> pack_path \<Rightarrow> string \<Rightarrow> bool" where
  "lists_entry ks d name \<longleftrightarrow> (\<exists>es. pks_read_dir ks d = Some es \<and> Some name \<in> set es)"

inductive pack_dir :: "pack_system \<Rightarrow> pack_path \<Rightarrow> pack_path \<Rightarrow> bool" for ks p where
  pack_dir_root: "pack_dir ks p p"
| pack_dir_sub: "pack_dir ks p d \<Longrightarrow> lists_entry ks d name \<Longrightarrow> kind_at ks (d @ [name]) DirectoryEntry \<Longrightarrow>
    pack_dir ks p (d @ [name])"

definition pack_file :: "pack_system \<Rightarrow> pack_path \<Rightarrow> pack_path \<Rightarrow> bool" where
  "pack_file ks p f \<longleftrightarrow> (\<exists>d name. f = d @ [name] \<and> pack_dir ks p d \<and> lists_entry ks d name \<and>
     kind_at ks f FileEntry)"

text \<open>A directory whose entries can all be read, and are files and directories that are not links.\<close>

definition clean_entry :: "pack_system \<Rightarrow> pack_path \<Rightarrow> bool" where
  "clean_entry ks path \<longleftrightarrow> (\<exists>m. pks_metadata ks path = Some m \<and> \<not> em_reparse m \<and> em_kind m \<noteq> OtherEntry)"

definition clean_dir :: "pack_system \<Rightarrow> pack_path \<Rightarrow> bool" where
  "clean_dir ks d \<longleftrightarrow> (\<exists>es. pks_read_dir ks d = Some es \<and>
     (\<forall>e\<in>set es. \<exists>name. e = Some name \<and> clean_entry ks (d @ [name])))"

text \<open>The portable name of a file, without case.\<close>

definition portable_name :: "pack_path \<Rightarrow> pack_path \<Rightarrow> string" where
  "portable_name root f = ascii_lowercase (join_with CHR ''/'' (drop (length root) f))"

lemma pack_dir_step:
  "pack_dir ks (p @ [name]) d \<Longrightarrow> lists_entry ks p name \<Longrightarrow> kind_at ks (p @ [name]) DirectoryEntry \<Longrightarrow>
   pack_dir ks p d"
  by (induction rule: pack_dir.induct) (auto intro: pack_dir.intros)

lemma pack_dir_cases:
  "pack_dir ks p d \<longleftrightarrow> d = p \<or> (\<exists>name. lists_entry ks p name \<and> kind_at ks (p @ [name]) DirectoryEntry \<and>
     pack_dir ks (p @ [name]) d)"
proof
  assume "pack_dir ks p d"
  then show "d = p \<or> (\<exists>name. lists_entry ks p name \<and> kind_at ks (p @ [name]) DirectoryEntry \<and>
     pack_dir ks (p @ [name]) d)"
    by (induction rule: pack_dir.induct) (auto intro: pack_dir.intros)
qed (auto intro: pack_dir.intros pack_dir_step)

lemma pack_file_cases:
  "pack_file ks p f \<longleftrightarrow>
     (\<exists>name. lists_entry ks p name \<and>
       (f = p @ [name] \<and> kind_at ks f FileEntry \<or>
        kind_at ks (p @ [name]) DirectoryEntry \<and> pack_file ks (p @ [name]) f))"
proof -
  have "pack_file ks p f \<longleftrightarrow>
      (\<exists>d name. (d = p \<or> (\<exists>sub. lists_entry ks p sub \<and> kind_at ks (p @ [sub]) DirectoryEntry \<and>
         pack_dir ks (p @ [sub]) d)) \<and>
       f = d @ [name] \<and> lists_entry ks d name \<and> kind_at ks f FileEntry)"
    unfolding pack_file_def by (subst pack_dir_cases) blast
  then show ?thesis
    unfolding pack_file_def by metis
qed

section \<open>The walk\<close>

lemma reject_reparse_metadata_Inr [try_iffs]: "reject_reparse_metadata m = Inr u \<longleftrightarrow> \<not> em_reparse m"
  by (simp add: reject_reparse_metadata_def refuse_Inr)

lemma portable_pack_path_name:
  "portable_pack_path ks root path = Inr portable \<Longrightarrow> ascii_lowercase portable = portable_name root path"
  by (auto simp: portable_pack_path_def portable_name_def strip_path_prefix_def try_iffs
      split: if_split_asm)

lemma walk_entries_Inr:
  "walk_entries ks root d es pending number actual = Inr (pending', number', actual') \<Longrightarrow>
   (\<forall>e\<in>set es. \<exists>name. e = Some name \<and> clean_entry ks (d @ [name])) \<and>
   set pending' = set pending \<union>
     {d @ [name] | name. Some name \<in> set es \<and> kind_at ks (d @ [name]) DirectoryEntry} \<and>
   set actual' = set actual \<union>
     {portable_name root (d @ [name]) | name. Some name \<in> set es \<and> kind_at ks (d @ [name]) FileEntry}"
proof (induction es arbitrary: pending number actual)
  case (Cons e es)
  from Cons.prems obtain name m where e: "e = Some name" and m: "pks_metadata ks (d @ [name]) = Some m"
      "\<not> em_reparse m"
    and rest: "em_kind m = DirectoryEntry \<and>
        walk_entries ks root d es ((d @ [name]) # pending) (number + 1) actual = Inr (pending', number', actual') \<or>
      em_kind m = FileEntry \<and>
        walk_entries ks root d es pending number (portable_name root (d @ [name]) # actual) =
          Inr (pending', number', actual')"
    by (auto simp: try_iffs Let_def portable_pack_path_name split: if_split_asm)
  have kind: "kind_at ks (d @ [name]) k \<longleftrightarrow> em_kind m = k" for k
    using m by (auto simp: kind_at_def)
  have clean: "clean_entry ks (d @ [name])"
    using m rest by (auto simp: clean_entry_def)
  from rest show ?case
  proof
    assume "em_kind m = DirectoryEntry \<and>
      walk_entries ks root d es ((d @ [name]) # pending) (number + 1) actual = Inr (pending', number', actual')"
    then show ?thesis
      using Cons.IH [of "(d @ [name]) # pending" "number + 1" actual] kind clean e by auto
  next
    assume "em_kind m = FileEntry \<and>
      walk_entries ks root d es pending number (portable_name root (d @ [name]) # actual) =
        Inr (pending', number', actual')"
    then show ?thesis
      using Cons.IH [of pending number "portable_name root (d @ [name]) # actual"] kind clean e by auto
  qed
qed simp

lemma walk_inventory_Inr:
  "walk_inventory ks root pending number actual = Inr out \<Longrightarrow>
   (\<forall>p\<in>set pending. \<forall>d. pack_dir ks p d \<longrightarrow> clean_dir ks d) \<and>
   set out = set actual \<union> {portable_name root f | f. \<exists>p\<in>set pending. pack_file ks p f}"
proof (induction ks root pending number actual rule: walk_inventory.induct)
  case (2 ks root d pending number actual)
  from "2.prems" obtain es pending' number' actual' where es: "pks_read_dir ks d = Some es"
    and step: "walk_entries ks root d es pending number actual = Inr (pending', number', actual')"
    and rest: "walk_inventory ks root pending' number' actual' = Inr out"
    by (auto split: option.splits sum.splits)
  note w = walk_entries_Inr [OF step]
  have lists: "lists_entry ks d name \<longleftrightarrow> Some name \<in> set es" for name
    by (simp add: lists_entry_def es)
  have IH: "(\<forall>p\<in>set pending'. \<forall>d. pack_dir ks p d \<longrightarrow> clean_dir ks d)"
    "set out = set actual' \<union> {portable_name root f | f. \<exists>p\<in>set pending'. pack_file ks p f}"
    using "2.IH" es step rest by auto
  have "clean_dir ks d"
    using w es by (auto simp: clean_dir_def)
  then have clean: "clean_dir ks x" if "pack_dir ks d x" for x
    using that IH(1) w lists pack_dir_cases [of ks d x] by blast
  have files: "pack_file ks d f \<longleftrightarrow> (\<exists>name. Some name \<in> set es \<and>
      (f = d @ [name] \<and> kind_at ks f FileEntry \<or>
       kind_at ks (d @ [name]) DirectoryEntry \<and> pack_file ks (d @ [name]) f))" for f
    using pack_file_cases [of ks d f] lists by simp
  have "set out = set actual \<union> {portable_name root f | f. \<exists>p\<in>set (d # pending). pack_file ks p f}"
    unfolding IH(2) using w files by (simp add: set_eq_iff) blast
  moreover have "\<forall>p\<in>set (d # pending). \<forall>x. pack_dir ks p x \<longrightarrow> clean_dir ks x"
    using clean IH(1) w by auto
  ultimately show ?case
    by blast
qed simp

section \<open>Files and catalog entries\<close>

text \<open>The bytes of an opened file: its reads up to the first empty one.\<close>

definition file_bytes :: "file_reads \<Rightarrow> u8 list" where
  "file_bytes reads = concat (takeWhile (\<lambda>c. c \<noteq> []) (fr_chunks reads))"

lemma measure_reads_Inr:
  "measure_reads chunks fault n hashed = Inr (n', hashed') \<Longrightarrow>
   hashed' = hashed @ concat (takeWhile (\<lambda>c. c \<noteq> []) chunks) \<and>
   unat n' = unat n + length (concat (takeWhile (\<lambda>c. c \<noteq> []) chunks))"
proof (induction chunks arbitrary: n hashed)
  case (Cons chunk chunks)
  show ?case
  proof (cases "chunk = []")
    case False
    with Cons.prems have fits: "unat n + length chunk < 2 ^ 64"
      and rest: "measure_reads chunks fault (n + of_nat (length chunk)) (hashed @ chunk) = Inr (n', hashed')"
      by (simp_all split: if_split_asm)
    have "unat (of_nat (length chunk) :: u64) = length chunk"
      using fits by (intro unat_of_nat_fits) simp
    with fits have "unat (n + of_nat (length chunk)) = unat n + length chunk"
      by (simp add: unat_add_fits)
    with Cons.IH [OF rest] False show ?thesis
      by simp
  qed (use Cons.prems in auto)
qed (auto split: if_split_asm)

lemma measure_path_Inr:
  "measure_path ks path = Inr measured \<Longrightarrow>
   \<exists>reads. pks_open ks path = Some reads \<and> mf_sha256 measured = pks_sha256 ks (file_bytes reads) \<and>
     unat (mf_byte_length measured) = length (file_bytes reads)"
  by (auto simp: measure_path_def try_iffs file_bytes_def dest!: measure_reads_Inr)

text \<open>What is known of the file of a catalog entry: it is where its path leads without links, below
  the root, and its bytes have the declared length and digest.\<close>

definition entry_matches :: "pack_system \<Rightarrow> pack_path \<Rightarrow> pack_integrity_file \<Rightarrow> bool" where
  "entry_matches ks root entry \<longleftrightarrow>
     (\<exists>path reads. resolve_pack_path ks root (kfile_path entry) True = Inr path \<and>
        pks_open ks path = Some reads \<and>
        pks_sha256 ks (file_bytes reads) = kfile_sha256 entry \<and>
        length (file_bytes reads) = unat (kfile_byte_length entry))"

lemma catalog_entries_Inr:
  "catalog_entries ks root paths entries = Inr paths' \<Longrightarrow>
   set paths' = set paths \<union> (ascii_lowercase \<circ> kfile_path) ` set entries \<and>
   distinct (map (ascii_lowercase \<circ> kfile_path) entries) \<and>
   set paths \<inter> (ascii_lowercase \<circ> kfile_path) ` set entries = {} \<and>
   (\<forall>entry\<in>set entries. entry_matches ks root entry)"
proof (induction entries arbitrary: paths)
  case (Cons entry entries)
  from Cons.prems obtain path measured where
    fresh: "ascii_lowercase (kfile_path entry) \<notin> set paths"
    and path: "resolve_pack_path ks root (kfile_path entry) True = Inr path"
    and measured: "measure_path ks path = Inr measured"
    and same: "mf_byte_length measured = kfile_byte_length entry" "mf_sha256 measured = kfile_sha256 entry"
    and rest: "catalog_entries ks root (ascii_lowercase (kfile_path entry) # paths) entries = Inr paths'"
    by (auto simp: try_iffs split: if_split_asm)
  have "entry_matches ks root entry"
    using measure_path_Inr [OF measured] path same unfolding entry_matches_def by metis
  with Cons.IH [OF rest] fresh show ?case
    by auto
qed simp

lemma below_path_append: "below_path root path \<longleftrightarrow> (\<exists>rest. path = root @ rest)"
  by (auto simp: below_path_def) (metis append_take_drop_id)

lemma strip_path_prefix_Some: "strip_path_prefix root path = Some rest \<longleftrightarrow> path = root @ rest"
  by (auto simp: strip_path_prefix_def below_path_def) (metis append_take_drop_id)

lemma require_catalog_path_Inr:
  "require_catalog_path ks catalog root path = Inr u \<longleftrightarrow>
   (\<exists>rest. path = root @ rest \<and>
     join_with CHR ''/'' (map (pks_lossy ks) rest) \<in> kfile_path ` set (kcat_files catalog))"
  by (auto simp: require_catalog_path_def try_iffs strip_path_prefix_Some Let_def refuse_Inr list_ex_iff
      image_iff) metis

text \<open>The bytes that reach the JSON parser are all those of the file, at most one MiB.\<close>

lemma read_bounded_json_Inr:
  "read_bounded_json ks path code = Inr bytes \<Longrightarrow>
   \<exists>reads. pks_open ks path = Some reads \<and> bytes = file_bytes reads \<and> length bytes \<le> MAX_PACK_JSON_BYTES"
  by (auto simp: read_bounded_json_def try_iffs Let_def file_bytes_def split: if_split_asm)

lemma validate_catalog_Inr:
  assumes "validate_catalog ks root (root @ rest) catalog = Inr u"
  shows "kcat_files catalog \<noteq> [] \<and> length (kcat_files catalog) \<le> MAX_CATALOG_FILES \<and>
    distinct (map (ascii_lowercase \<circ> kfile_path) (kcat_files catalog)) \<and>
    (\<forall>entry\<in>set (kcat_files catalog). entry_matches ks root entry) \<and>
    (\<forall>d. pack_dir ks root d \<longrightarrow> clean_dir ks d) \<and>
    {portable_name root f | f. pack_file ks root f} =
      {''codec-pack.json'', portable_name root (root @ rest)} \<union>
      (ascii_lowercase \<circ> kfile_path) ` set (kcat_files catalog) \<and>
    {''codec-pack.json'', portable_name root (root @ rest)} \<inter>
      (ascii_lowercase \<circ> kfile_path) ` set (kcat_files catalog) = {}"
proof -
  from assms obtain control paths where count: "valid_catalog_file_count (length (kcat_files catalog))"
    and control: "portable_pack_path ks root (root @ rest) = Inr control"
    and paths: "catalog_entries ks root [ascii_lowercase control, ''codec-pack.json'']
      (kcat_files catalog) = Inr paths"
    and inventory: "validate_physical_pack_inventory ks root paths = Inr ()"
    by (auto simp: validate_catalog_def try_iffs split: if_split_asm)
  from inventory obtain actual where walk: "walk_inventory ks root [root] 0 [] = Inr actual"
    and same: "set actual = set paths"
    by (auto simp: validate_physical_pack_inventory_def try_iffs refuse_Inr)
  note w = walk_inventory_Inr [OF walk] and c = catalog_entries_Inr [OF paths]
  have files: "{portable_name root f | f. pack_file ks root f} = set paths"
    using w same by simp
  show ?thesis
    using w c count unfolding files portable_pack_path_name [OF control, symmetric]
    by (auto simp: valid_catalog_file_count_def)
qed

section \<open>A validated pack\<close>

text \<open>C22: A codec pack is validated only when the physical files below its root are exactly, up to
  the case of letters, the manifest, the catalog and the files of the catalog; every directory of
  the tree can be read and holds nothing but files and directories that are not links; every file
  of the catalog has the declared length and digest; the catalog has the digest the manifest
  declares and the manifest passed its checks for this application; the worker is a file of
  the catalog. The check ends on every file system, also on one whose directories never
  end.\<close>

theorem validated_pack_exact:
  assumes "validate_codec_pack sem ks root app_version = Inr pack"
  shows "pks_canonicalize ks root = Some (vcp_root pack) \<and>
    validate_pack_manifest sem (vcp_manifest pack) app_version = Inr () \<and>
    (\<exists>catalog control reads worker.
      resolve_pack_path ks (vcp_root pack) (kint_catalog_path (kman_integrity (vcp_manifest pack))) True =
        Inr (vcp_root pack @ control) \<and>
      pks_open ks (vcp_root pack @ control) = Some reads \<and>
      pks_sha256 ks (file_bytes reads) = kint_catalog_sha256 (kman_integrity (vcp_manifest pack)) \<and>
      pks_catalog_json ks (file_bytes reads) = Some catalog \<and>
      (\<forall>d. pack_dir ks (vcp_root pack) d \<longrightarrow> clean_dir ks d) \<and>
      {portable_name (vcp_root pack) f | f. pack_file ks (vcp_root pack) f} =
        {''codec-pack.json'', portable_name (vcp_root pack) (vcp_root pack @ control)} \<union>
        (ascii_lowercase \<circ> kfile_path) ` set (kcat_files catalog) \<and>
      distinct (map (ascii_lowercase \<circ> kfile_path) (kcat_files catalog)) \<and>
      (\<forall>entry\<in>set (kcat_files catalog). entry_matches ks (vcp_root pack) entry) \<and>
      vcp_worker_executable pack = vcp_root pack @ worker \<and>
      join_with CHR ''/'' (map (pks_lossy ks) worker) \<in> kfile_path ` set (kcat_files catalog))"
proof -
  from assms obtain r m catalog_path measured bytes catalog exe dir where
    r: "pks_canonicalize ks root = Some r"
    and m: "validate_pack_manifest sem m app_version = Inr ()"
    and path: "resolve_pack_path ks r (kint_catalog_path (kman_integrity m)) True = Inr catalog_path"
    and measured: "measure_path ks catalog_path = Inr measured"
      "mf_sha256 measured = kint_catalog_sha256 (kman_integrity m)"
    and bytes: "read_bounded_json ks catalog_path IntegrityCatalogInvalid = Inr bytes"
      "pks_catalog_json ks bytes = Some catalog"
    and valid: "validate_catalog ks r catalog_path catalog = Inr ()"
    and exe: "require_catalog_path ks catalog r exe = Inr ()"
    and pack: "pack = \<lparr>vcp_root = r, vcp_manifest = m, vcp_worker_executable = exe,
      vcp_worker_working_directory = dir\<rparr>"
    unfolding validate_codec_pack_def by (auto simp: try_iffs split: if_split_asm)
  from valid obtain control where control: "catalog_path = r @ control"
    by (auto simp: validate_catalog_def portable_pack_path_def try_iffs strip_path_prefix_Some
        split: if_split_asm)
  obtain reads where reads: "pks_open ks catalog_path = Some reads"
    "mf_sha256 measured = pks_sha256 ks (file_bytes reads)"
    using measure_path_Inr [OF measured(1)] by blast
  have "bytes = file_bytes reads"
    using read_bounded_json_Inr [OF bytes(1)] reads by auto
  moreover obtain worker where "exe = r @ worker"
    "join_with CHR ''/'' (map (pks_lossy ks) worker) \<in> kfile_path ` set (kcat_files catalog)"
    using exe by (auto simp: require_catalog_path_Inr)
  ultimately show ?thesis
    using r m path measured reads bytes control validate_catalog_Inr [OF valid [unfolded control]]
    unfolding pack by (simp del: comp_apply)
qed

section \<open>Discovery\<close>

text \<open>The directories listed in a directory.\<close>

definition listed_dir :: "pack_system \<Rightarrow> pack_path \<Rightarrow> string \<Rightarrow> bool" where
  "listed_dir ks d name \<longleftrightarrow> lists_entry ks d name \<and> kind_at ks (d @ [name]) DirectoryEntry"

lemma directory_names_Inr:
  "directory_names ks root limit code names entries = Inr names' \<Longrightarrow>
   set names' = set names \<union> {name. Some name \<in> set entries \<and> kind_at ks (root @ [name]) DirectoryEntry}"
proof (induction entries arbitrary: names)
  case (Cons entry entries)
  from Cons.prems obtain name m where e: "entry = Some name" "pks_metadata ks (root @ [name]) = Some m"
    and rest: "em_kind m = DirectoryEntry \<and>
        directory_names ks root limit code (names @ [name]) entries = Inr names' \<or>
      em_kind m \<noteq> DirectoryEntry \<and> directory_names ks root limit code names entries = Inr names'"
    by (auto simp: try_iffs split: if_split_asm)
  have kind: "kind_at ks (root @ [name]) DirectoryEntry \<longleftrightarrow> em_kind m = DirectoryEntry"
    using e by (auto simp: kind_at_def)
  from rest show ?case
    using Cons.IH [of "names @ [name]"] Cons.IH [of names] kind e(1) by auto
qed simp

lemma bounded_directories_Inr:
  "bounded_directories ks root limit code = Inr names \<Longrightarrow> set names = {name. listed_dir ks root name}"
  by (auto simp: bounded_directories_def try_iffs listed_dir_def lists_entry_def
      dest!: directory_names_Inr)

text \<open>A pack found at a path: valid there, and named by the last two directories.\<close>

definition pack_at ::
    "('v::linorder, 'q) semver \<Rightarrow> pack_system \<Rightarrow> 'v \<Rightarrow> pack_path \<Rightarrow> string \<Rightarrow> string \<Rightarrow>
     validated_codec_pack \<Rightarrow> bool" where
  "pack_at sem ks app_version root pack_id version pack \<longleftrightarrow>
     validate_codec_pack sem ks (root @ [pack_id, version]) app_version = Inr pack \<and>
     pack_identity_of pack = (pack_id, version)"

lemma discover_versions_Inr:
  "discover_versions sem ks v (root @ [pack_id]) pack_id packs names = Inr packs' \<Longrightarrow>
   distinct (map pack_identity_of packs) \<Longrightarrow>
   distinct (map pack_identity_of packs') \<and> set packs \<subseteq> set packs' \<and>
   (\<forall>pack\<in>set packs' - set packs. \<exists>name\<in>set names. pack_at sem ks v root pack_id name pack) \<and>
   (\<forall>name\<in>set names. \<exists>pack\<in>set packs'. pack_at sem ks v root pack_id name pack)"
proof (induction names arbitrary: packs)
  case (Cons name names)
  from Cons.prems(1) obtain pack where at: "pack_at sem ks v root pack_id name pack"
    and fresh: "pack_identity_of pack \<notin> set (map pack_identity_of packs)"
    and rest: "discover_versions sem ks v (root @ [pack_id]) pack_id (packs @ [pack]) names = Inr packs'"
    by (auto simp: try_iffs pack_at_def pack_identity_of_def file_name_utf8_def split: if_split_asm)
  have "distinct (map pack_identity_of (packs @ [pack]))"
    using fresh Cons.prems(2) by simp
  with Cons.IH [OF rest] at show ?case
    by (simp del: map_append) blast
qed simp

lemma discover_root_Inr:
  "discover_root sem ks v root packs names = Inr packs' \<Longrightarrow> distinct (map pack_identity_of packs) \<Longrightarrow>
   distinct (map pack_identity_of packs') \<and> set packs \<subseteq> set packs' \<and>
   (\<forall>pack\<in>set packs' - set packs. \<exists>pack_id\<in>set names. \<exists>name. listed_dir ks (root @ [pack_id]) name \<and>
      pack_at sem ks v root pack_id name pack) \<and>
   (\<forall>pack_id\<in>set names. \<forall>name. listed_dir ks (root @ [pack_id]) name \<longrightarrow>
      (\<exists>pack\<in>set packs'. pack_at sem ks v root pack_id name pack))"
proof (induction names arbitrary: packs)
  case (Cons pack_id names)
  from Cons.prems(1) obtain versions packs1 where
    versions: "bounded_directories ks (root @ [pack_id]) MAX_VERSIONS_PER_PACK TooManyVersions = Inr versions"
    and here: "discover_versions sem ks v (root @ [pack_id]) pack_id packs versions = Inr packs1"
    and rest: "discover_root sem ks v root packs1 names = Inr packs'"
    by (auto simp: try_iffs file_name_utf8_def split: if_split_asm)
  note h = discover_versions_Inr [OF here Cons.prems(2)]
  with Cons.IH [OF rest] bounded_directories_Inr [OF versions] show ?case
    by simp blast
qed simp

lemma discover_roots_Inr:
  "discover_roots sem ks v packs roots = Inr packs' \<Longrightarrow> distinct (map pack_identity_of packs) \<Longrightarrow>
   distinct (map pack_identity_of packs') \<and> set packs \<subseteq> set packs' \<and>
   (\<forall>pack\<in>set packs' - set packs. \<exists>root\<in>set roots. \<exists>pack_id name. listed_dir ks root pack_id \<and>
      listed_dir ks (root @ [pack_id]) name \<and> pack_at sem ks v root pack_id name pack) \<and>
   (\<forall>root\<in>set roots. \<forall>pack_id name. pks_exists ks root \<longrightarrow> listed_dir ks root pack_id \<longrightarrow>
      listed_dir ks (root @ [pack_id]) name \<longrightarrow>
      (\<exists>pack\<in>set packs'. pack_at sem ks v root pack_id name pack))"
proof (induction roots arbitrary: packs)
  case (Cons root roots)
  show ?case
  proof (cases "pks_exists ks root")
    case True
    with Cons.prems(1) obtain names packs1 where
      names: "bounded_directories ks root MAX_PACK_IDS TooManyPacks = Inr names"
      and here: "discover_root sem ks v root packs names = Inr packs1"
      and rest: "discover_roots sem ks v packs1 roots = Inr packs'"
      by (auto simp: try_iffs)
    note h = discover_root_Inr [OF here Cons.prems(2)]
    note t = Cons.IH [OF rest conjunct1 [OF h]]
    have set_names: "pack_id \<in> set names \<longleftrightarrow> listed_dir ks root pack_id" for pack_id
      using bounded_directories_Inr [OF names] by simp
    have "\<exists>r\<in>set (root # roots). \<exists>pack_id name. listed_dir ks r pack_id \<and>
        listed_dir ks (r @ [pack_id]) name \<and> pack_at sem ks v r pack_id name pack"
      if "pack \<in> set packs' - set packs" for pack
    proof (cases "pack \<in> set packs1")
      case True
      with that have "pack \<in> set packs1 - set packs"
        by simp
      with h show ?thesis
        unfolding set_names Bex_def by (metis list.set_intros(1))
    next
      case False
      with that have "pack \<in> set packs' - set packs1"
        by simp
      with t show ?thesis
        by (meson list.set_intros(2))
    qed
    moreover have "\<exists>pack\<in>set packs'. pack_at sem ks v r pack_id name pack"
      if "r \<in> set (root # roots)" "pks_exists ks r" "listed_dir ks r pack_id"
        "listed_dir ks (r @ [pack_id]) name" for r pack_id name
    proof (cases "r = root")
      case True
      with that have "pack_id \<in> set names" "listed_dir ks (root @ [pack_id]) name"
        by (simp_all add: set_names)
      with h obtain pack where "pack \<in> set packs1" "pack_at sem ks v root pack_id name pack"
        by blast
      with t True show ?thesis
        by blast
    next
      case False
      with that t show ?thesis
        by simp
    qed
    moreover have "distinct (map pack_identity_of packs')" "set packs \<subseteq> set packs'"
      using h t by auto
    ultimately show ?thesis
      by blast
  next
    case False
    with Cons.prems(1) have rest: "discover_roots sem ks v packs roots = Inr packs'"
      by simp
    from Cons.IH [OF rest Cons.prems(2)] False show ?thesis
      by simp
  qed
qed simp

lemma discovered_packs_exact_core:
  assumes "discover_codec_packs sem ks roots app = Inr packs"
  shows "\<exists>v. sem_parse_version sem app = Some v \<and>
    sorted (map pack_sort_key packs) \<and> distinct (map pack_identity_of packs) \<and>
    (\<forall>pack\<in>set packs. \<exists>root\<in>set roots. \<exists>pack_id name. listed_dir ks root pack_id \<and>
      listed_dir ks (root @ [pack_id]) name \<and> pack_at sem ks v root pack_id name pack) \<and>
    (\<forall>root\<in>set roots. \<forall>pack_id name. pks_exists ks root \<longrightarrow> listed_dir ks root pack_id \<longrightarrow>
      listed_dir ks (root @ [pack_id]) name \<longrightarrow>
      (\<exists>pack\<in>set packs. pack_at sem ks v root pack_id name pack))"
proof -
  from assms obtain v found where v: "sem_parse_version sem app = Some v"
    and found: "discover_roots sem ks v [] roots = Inr found"
    and packs: "packs = sort_key pack_sort_key found"
    by (auto simp: discover_codec_packs_def try_iffs)
  have "distinct (map pack_identity_of packs) \<longleftrightarrow> distinct (map pack_identity_of found)"
    by (rule mset_eq_imp_distinct_iff) (simp add: packs)
  moreover have "set packs = set found" "sorted (map pack_sort_key packs)"
    by (simp_all add: packs)
  moreover note discover_roots_Inr [OF found, simplified]
  ultimately show ?thesis
    using v by (intro exI [of _ v]) simp
qed

text \<open>C23: Discovery returns the packs in the order of their identifiers and versions, no identity
  twice; each is the valid pack of a listed directory that its manifest names; and no pack is
  skipped: every directory of a version below an existing root is among the packs returned, so that
  one damaged pack makes the whole discovery fail.\<close>

theorem discovered_packs_exact:
  assumes "discover_codec_packs sem ks roots app = Inr packs"
  shows "\<exists>v. sem_parse_version sem app = Some v \<and>
    sorted (map pack_sort_key packs) \<and> distinct (map pack_identity_of packs) \<and>
    (\<forall>pack\<in>set packs. \<exists>root\<in>set roots. \<exists>pack_id name. listed_dir ks root pack_id \<and>
      listed_dir ks (root @ [pack_id]) name \<and> pack_at sem ks v root pack_id name pack) \<and>
    (\<forall>root\<in>set roots. \<forall>pack_id name. pks_exists ks root \<longrightarrow> listed_dir ks root pack_id \<longrightarrow>
      listed_dir ks (root @ [pack_id]) name \<longrightarrow>
      (\<exists>pack\<in>set packs. pack_at sem ks v root pack_id name pack))"
  using assms by (rule discovered_packs_exact_core)

section \<open>A pack with one file\<close>

text \<open>A sample: the directory \<open>r\<close> holds the pack \<open>org.latentdeck.h3\<close> in version \<open>1\<close>, whose only file besides the
  control files is the worker, which is its own notice.\<close>

definition sample_pack_asset :: pack_external_asset where
  "sample_pack_asset = \<lparr>kea_asset_id = ''taeh3'', kea_display_name = ''w'', kea_kind = ''decoder_weight'',
     kea_required = True, kea_selection = ''explicit_file'', kea_format = ''safetensors'',
     kea_accepted_variants = [\<lparr>eav_variant_id = ''v'', eav_sha256 = replicate 64 CHR ''a'',
       eav_byte_length = 1, eav_source_url = [], eav_license_label = [], eav_license_url = []\<rparr>]\<rparr>"

definition sample_pack_manifest :: installed_codec_manifest where
  "sample_pack_manifest =
     \<lparr>kman_manifest_version = ''1.0.0'', kman_pack_id = ''org.latentdeck.h3'', kman_pack_version = ''1'',
      kman_display_name = ''P'', kman_publisher = \<lparr>kpub_name = ''n'', kpub_url = None\<rparr>,
      kman_license = \<lparr>klic_spdx_or_label = ''MIT'', klic_notice_path = ''w''\<rparr>,
      kman_platform = \<lparr>kplat_os = ''windows'', kplat_arch = ''x86_64''\<rparr>,
      kman_compatibility = \<lparr>kcomp_app_min_inclusive = ''a'', kcomp_app_max_exclusive = ''aaa'',
        kcomp_worker_protocol_min = 1, kcomp_worker_protocol_max = 1,
        kcomp_lc_spec_versions = [''0.1.0''],
        kcomp_profiles = [\<lparr>pfc_codec_family = ''minimax_h3'', pfc_profile = ''h3_av_latent'',
          pfc_profile_versions = [''0.1.0'']\<rparr>]\<rparr>,
      kman_worker = \<lparr>kwork_executable = ''w'', kwork_arguments = [], kwork_working_directory = ''d'',
        kwork_probe_timeout_ms = 1\<rparr>,
      kman_adapter = \<lparr>kadapt_adapter_id = ''h3'', kadapt_adapter_version = ''a''\<rparr>,
      kman_integrity = \<lparr>kint_catalog_path = ''c'', kint_catalog_sha256 = replicate 64 CHR ''a''\<rparr>,
      kman_external_assets = [sample_pack_asset]\<rparr>"

definition sample_pack_catalog :: pack_integrity_catalog where
  "sample_pack_catalog = \<lparr>kcat_manifest_version = ''1.0.0'',
     kcat_files = [\<lparr>kfile_path = ''w'', kfile_byte_length = 1, kfile_sha256 = replicate 64 CHR ''a''\<rparr>]\<rparr>"

definition sample_pack_kind :: "pack_path \<Rightarrow> entry_kind option" where
  "sample_pack_kind p =
     (if p \<in> set [[''r''], [''r'', ''org.latentdeck.h3''], [''r'', ''org.latentdeck.h3'', ''1''], [''r'', ''org.latentdeck.h3'', ''1'', ''d'']]
      then Some DirectoryEntry
      else if p \<in> set [[''r'', ''org.latentdeck.h3'', ''1'', ''codec-pack.json''], [''r'', ''org.latentdeck.h3'', ''1'', ''c''],
        [''r'', ''org.latentdeck.h3'', ''1'', ''w'']]
      then Some FileEntry else None)"

definition sample_pack_system :: pack_system where
  "sample_pack_system =
     \<lparr>pks_exists = (\<lambda>p. sample_pack_kind p \<noteq> None),
      pks_metadata = (\<lambda>p. map_option (\<lambda>k. \<lparr>em_reparse = False, em_kind = k\<rparr>) (sample_pack_kind p)),
      pks_canonicalize = Some,
      pks_read_dir = (\<lambda>p. if p = [''r''] then Some [Some ''org.latentdeck.h3''] else if p = [''r'', ''org.latentdeck.h3''] then Some [Some ''1'']
        else if p = [''r'', ''org.latentdeck.h3'', ''1'']
        then Some [Some ''w'', Some ''d'', Some ''codec-pack.json'', Some ''c'']
        else if p = [''r'', ''org.latentdeck.h3'', ''1'', ''d''] then Some [] else None),
      pks_open = (\<lambda>p. if sample_pack_kind p = Some FileEntry
        then Some \<lparr>fr_chunks = [[1]], fr_fault = False\<rparr> else None),
      pks_unicode = (\<lambda>_. True), pks_lossy = (\<lambda>s. s), pks_sha256 = (\<lambda>_. replicate 64 CHR ''a''),
      pks_manifest_json = (\<lambda>_. Some sample_pack_manifest),
      pks_catalog_json = (\<lambda>_. Some sample_pack_catalog)\<rparr>"

definition sample_pack :: validated_codec_pack where
  "sample_pack = \<lparr>vcp_root = [''r'', ''org.latentdeck.h3'', ''1''], vcp_manifest = sample_pack_manifest,
     vcp_worker_executable = [''r'', ''org.latentdeck.h3'', ''1'', ''w''],
     vcp_worker_working_directory = [''r'', ''org.latentdeck.h3'', ''1'', ''d'']\<rparr>"

lemma sample_pack_reads [simp]:
  "read_bounded_json sample_pack_system [''r'', ''org.latentdeck.h3'', ''1'', ''codec-pack.json''] code = Inr [1]"
  "read_bounded_json sample_pack_system [''r'', ''org.latentdeck.h3'', ''1'', ''c''] code = Inr [1]"
  by (simp_all add: read_bounded_json_def sample_pack_system_def sample_pack_kind_def MAX_PACK_JSON_BYTES_def)

lemma sample_pack_measured [simp]:
  "measure_path sample_pack_system [''r'', ''org.latentdeck.h3'', ''1'', ''c''] =
     Inr \<lparr>mf_byte_length = 1, mf_sha256 = replicate 64 CHR ''a''\<rparr>"
  "measure_path sample_pack_system [''r'', ''org.latentdeck.h3'', ''1'', ''w''] =
     Inr \<lparr>mf_byte_length = 1, mf_sha256 = replicate 64 CHR ''a''\<rparr>"
  by (simp_all add: measure_path_def sample_pack_system_def sample_pack_kind_def)

lemma sample_pack_safe_paths [simp]:
  "safe_relative_path ''w'' = Inr [''w'']" "safe_relative_path ''d'' = Inr [''d'']"
  "safe_relative_path ''c'' = Inr [''c'']"
  by code_simp+

lemma sample_pack_resolved [simp]:
  "resolve_pack_path sample_pack_system [''r'', ''org.latentdeck.h3'', ''1''] ''w'' True = Inr [''r'', ''org.latentdeck.h3'', ''1'', ''w'']"
  "resolve_pack_path sample_pack_system [''r'', ''org.latentdeck.h3'', ''1''] ''c'' True = Inr [''r'', ''org.latentdeck.h3'', ''1'', ''c'']"
  "resolve_pack_path sample_pack_system [''r'', ''org.latentdeck.h3'', ''1''] ''d'' False = Inr [''r'', ''org.latentdeck.h3'', ''1'', ''d'']"
  by (simp_all add: resolve_pack_path_def reject_reparse_components_def reject_reparse_def
      reject_reparse_metadata_def below_path_def sample_pack_system_def sample_pack_kind_def)

lemma sample_pack_digest [simp]: "validate_pack_sha256 (replicate 64 CHR ''a'') = Inr ()"
  by code_simp

lemma sample_pack_manifest_valid: "validate_pack_manifest sample_semver sample_pack_manifest 2 = Inr ()"
  by code_simp

lemma sample_pack_catalog_valid:
  "validate_catalog sample_pack_system [''r'', ''org.latentdeck.h3'', ''1''] [''r'', ''org.latentdeck.h3'', ''1'', ''c''] sample_pack_catalog =
     Inr ()"
proof -
  have names: "ascii_lowercase ''c'' = ''c''" "ascii_lowercase ''w'' = ''w''"
    "ascii_lowercase ''codec-pack.json'' = ''codec-pack.json''"
    by code_simp+
  have "catalog_entries sample_pack_system [''r'', ''org.latentdeck.h3'', ''1''] [''c'', ''codec-pack.json'']
      (kcat_files sample_pack_catalog) = Inr [''w'', ''c'', ''codec-pack.json'']"
    by (simp add: sample_pack_catalog_def names)
  moreover have "walk_inventory sample_pack_system [''r'', ''org.latentdeck.h3'', ''1''] [[''r'', ''org.latentdeck.h3'', ''1'']] 0 [] =
      Inr [''c'', ''codec-pack.json'', ''w'']"
    by (simp add: sample_pack_system_def sample_pack_kind_def portable_pack_path_def strip_path_prefix_def
        below_path_def reject_reparse_metadata_def names usize_max_def MAX_PACK_DIRECTORIES_def
        MAX_CATALOG_FILES_def PACK_CONTROL_FILES_def)
  moreover have "portable_pack_path sample_pack_system [''r'', ''org.latentdeck.h3'', ''1''] [''r'', ''org.latentdeck.h3'', ''1'', ''c''] =
      Inr ''c''"
    by (simp add: sample_pack_system_def portable_pack_path_def strip_path_prefix_def below_path_def)
  ultimately show ?thesis
    by (simp add: validate_catalog_def sample_pack_catalog_def INTEGRITY_CATALOG_VERSION_def names
        valid_catalog_file_count_def MAX_CATALOG_FILES_def validate_physical_pack_inventory_def refuse_def)
      auto
qed

lemma sample_pack_validated:
  "validate_codec_pack sample_semver sample_pack_system [''r'', ''org.latentdeck.h3'', ''1''] 2 = Inr sample_pack"
proof -
  have sys: "reject_reparse sample_pack_system [''r'', ''org.latentdeck.h3'', ''1''] = Inr ()"
    "pks_canonicalize sample_pack_system = Some"
    "pks_manifest_json sample_pack_system bytes = Some sample_pack_manifest"
    "pks_catalog_json sample_pack_system bytes = Some sample_pack_catalog"
    "require_catalog_path sample_pack_system sample_pack_catalog [''r'', ''org.latentdeck.h3'', ''1'']
       [''r'', ''org.latentdeck.h3'', ''1'', ''w''] = Inr ()" for bytes
    by (simp_all add: reject_reparse_def reject_reparse_metadata_def sample_pack_system_def
        sample_pack_kind_def require_catalog_path_def strip_path_prefix_def below_path_def sample_pack_catalog_def)
  have fields: "kint_catalog_path (kman_integrity sample_pack_manifest) = ''c''"
    "kint_catalog_sha256 (kman_integrity sample_pack_manifest) = replicate 64 CHR ''a''"
    "kwork_executable (kman_worker sample_pack_manifest) = ''w''"
    "kwork_working_directory (kman_worker sample_pack_manifest) = ''d''"
    "klic_notice_path (kman_license sample_pack_manifest) = ''w''"
    by (simp_all add: sample_pack_manifest_def)
  show ?thesis
    by (simp add: validate_codec_pack_def sys fields sample_pack_manifest_valid sample_pack_catalog_valid
        sample_pack_def)
qed

lemma sample_pack_discovered:
  "discover_codec_packs sample_semver sample_pack_system [[''r'']] ''aa'' = Inr [sample_pack]"
proof -
  have dirs: "bounded_directories sample_pack_system [''r''] MAX_PACK_IDS TooManyPacks = Inr [''org.latentdeck.h3'']"
    "bounded_directories sample_pack_system [''r'', ''org.latentdeck.h3''] MAX_VERSIONS_PER_PACK TooManyVersions = Inr [''1'']"
    by (simp_all add: bounded_directories_def sample_pack_system_def sample_pack_kind_def
        reject_reparse_metadata_def MAX_PACK_IDS_def MAX_VERSIONS_PER_PACK_def)
  have names: "file_name_utf8 sample_pack_system n = Inr n" for n
    by (simp add: file_name_utf8_def sample_pack_system_def)
  have root: "pks_exists sample_pack_system [''r'']" "reject_reparse sample_pack_system [''r''] = Inr ()"
    by (simp_all add: reject_reparse_def reject_reparse_metadata_def sample_pack_system_def sample_pack_kind_def)
  have versions: "sem_parse_version sample_semver s = Some (length s)" for s
    by (simp add: sample_semver_def)
  have token: "validate_token ''org.latentdeck.h3'' ''pack directory'' = Inr ()"
    by code_simp
  have identity: "kman_pack_id (vcp_manifest sample_pack) = ''org.latentdeck.h3''"
    "kman_pack_version (vcp_manifest sample_pack) = ''1''"
    by (simp_all add: sample_pack_def sample_pack_manifest_def)
  have "validate_codec_pack sample_semver sample_pack_system [''r'', ''org.latentdeck.h3'', ''1''] (Suc (Suc 0)) =
      Inr sample_pack"
    using sample_pack_validated by (simp add: numeral_2_eq_2)
  then show ?thesis
    by (simp add: discover_codec_packs_def dirs names root versions token identity)
qed

theorem validated_pack_exact_witness:
  "{portable_name [''r'', ''org.latentdeck.h3'', ''1''] f | f. pack_file sample_pack_system [''r'', ''org.latentdeck.h3'', ''1''] f} =
     {''codec-pack.json'', ''c'', ''w''}"
proof -
  have root: "vcp_root sample_pack = [''r'', ''org.latentdeck.h3'', ''1'']"
    and catalog: "pks_catalog_json sample_pack_system bytes = Some sample_pack_catalog"
    and files: "(ascii_lowercase \<circ> kfile_path) ` set (kcat_files sample_pack_catalog) = {''w''}" for bytes
    by (simp_all add: sample_pack_def sample_pack_system_def sample_pack_catalog_def
        ascii_lowercase_def to_ascii_lowercase_def ascii_defs)
  have path: "kint_catalog_path (kman_integrity (vcp_manifest sample_pack)) = ''c''"
    by (simp add: sample_pack_def sample_pack_manifest_def)
  have name: "portable_name [''r'', ''org.latentdeck.h3'', ''1''] [''r'', ''org.latentdeck.h3'', ''1'', ''c''] = ''c''"
    by (simp add: portable_name_def ascii_lowercase_def to_ascii_lowercase_def ascii_defs)
  show ?thesis
    using validated_pack_exact [OF sample_pack_validated, unfolded root path catalog] files name
    by (auto simp del: comp_apply)
qed

theorem discovered_packs_exact_witness:
  "\<exists>pack\<in>set [sample_pack]. pack_at sample_semver sample_pack_system 2 [''r''] ''org.latentdeck.h3'' ''1'' pack"
proof -
  have listed: "listed_dir sample_pack_system [''r''] ''org.latentdeck.h3''" "listed_dir sample_pack_system [''r'', ''org.latentdeck.h3''] ''1''"
    by (simp_all add: listed_dir_def lists_entry_def kind_at_def sample_pack_system_def sample_pack_kind_def)
  have "pks_exists sample_pack_system [''r'']" "sem_parse_version sample_semver ''aa'' = Some 2"
    by (simp_all add: sample_pack_system_def sample_pack_kind_def sample_semver_def)
  with listed discovered_packs_exact [OF sample_pack_discovered] show ?thesis
    by simp
qed

end
