(* ===== verification/Player_Exact.thy ===== *)
theory Player_Exact
  imports Player Codec_Pack_Exact
begin

text \<open>
  What the player guarantees after any sequence of operations, whatever they returned: the inputs
  of a launch come from the packs that were discovered, from a weight that was verified against the
  selected pack, and from a cartridge that was opened; the views it publishes are numbered upwards;
  and what a failed operation may have changed.
\<close>

section \<open>The invariant\<close>

definition asset_verified :: "player_system \<Rightarrow> player_coordinator \<Rightarrow> validated_external_asset \<Rightarrow> bool" where
  "asset_verified sys s asset \<longleftrightarrow>
     (\<exists>pack path. selected_codec_pack s = Some pack \<and>
        validate_external_asset_file (pys_packs sys) pack H3_ASSET_ID path = Inr asset)"

definition cartridge_opened :: "player_system \<Rightarrow> loaded_cartridge \<Rightarrow> bool" where
  "cartridge_opened sys c \<longleftrightarrow>
     (\<exists>archive_sha256. pys_open_cartridge sys (lcg_path c) = Inr (lcg_validated c, archive_sha256) \<and>
        lcg_summary c = summary_of sys (lcg_path c) (lcg_validated c) archive_sha256)"

definition player_inv :: "player_system \<Rightarrow> validated_codec_pack list \<Rightarrow> player_coordinator \<Rightarrow> bool" where
  "player_inv sys packs s \<longleftrightarrow>
     ply_packs s = packs \<and>
     (\<forall>i. ply_selected_pack s = Some i \<longrightarrow>
        i < length packs \<and> kman_pack_id (vcp_manifest (packs ! i)) = H3_PACK_ID) \<and>
     (\<forall>asset. ply_decoder_asset s = Some asset \<longrightarrow> asset_verified sys s asset) \<and>
     (\<forall>c. ply_cartridge s = Some c \<longrightarrow> cartridge_opened sys c) \<and>
     (ply_phase s \<in> {PhReady, PhPlaying, PhPaused} \<longrightarrow> ply_cartridge s \<noteq> None) \<and>
     ply_phase s \<noteq> PhLoading \<and>
     (case ply_cartridge s of
        None \<Rightarrow> ply_position_frame s = 0
      | Some c \<Rightarrow> ply_position_frame s = 0 \<or> ply_position_frame s < csm_frame_count (lcg_summary c))"

text \<open>Publishing changes the revision only.\<close>

definition same_but_revision :: "player_coordinator \<Rightarrow> player_coordinator \<Rightarrow> bool" where
  "same_but_revision s s' \<longleftrightarrow> (\<exists>r. s' = s\<lparr>ply_revision := r\<rparr>)"

lemma bump_revision_cases:
  "bump_revision s = (r, s') \<longleftrightarrow>
     (\<exists>n. r = Inr () \<and> s' = s\<lparr>ply_revision := n\<rparr> \<and> unat n = unat (ply_revision s) + 1) \<or>
     (r = Inl (player_error ''player.revision_exhausted'' ''Player revision exhausted'') \<and> s' = s \<and>
      2 ^ 64 \<le> unat (ply_revision s) + 1)"
proof (cases "checked_add (ply_revision s) 1")
  case None
  then have "2 ^ 64 \<le> unat (ply_revision s) + 1"
    by (simp add: checked_add_None)
  moreover have "unat n \<noteq> unat (ply_revision s) + 1" for n :: u64
    using calculation unsigned_less [where 'a = nat, of n] by simp
  ultimately show ?thesis
    by (auto simp: bump_revision_def None)
next
  case (Some n)
  then have n: "unat n = unat (ply_revision s) + 1"
    by (simp add: checked_add_Some)
  have "\<not> 2 ^ 64 \<le> unat (ply_revision s) + 1"
    using n unsigned_less [where 'a = nat, of n] by simp
  moreover have uniq: "unat m = unat (ply_revision s) + 1 \<longleftrightarrow> m = n" for m
    unfolding n [symmetric] by (simp add: word_unat_eq_iff)
  ultimately show ?thesis
    unfolding bump_revision_def Some uniq by auto
qed

lemma publish_cases:
  "publish s = (r, s') \<longleftrightarrow>
     (\<exists>n. s' = s\<lparr>ply_revision := n\<rparr> \<and> r = Inr (player_view_of s') \<and> unat n = unat (ply_revision s) + 1) \<or>
     (r = Inl (player_error ''player.revision_exhausted'' ''Player revision exhausted'') \<and> s' = s \<and>
      2 ^ 64 \<le> unat (ply_revision s) + 1)"
proof -
  have "publish s = (r, s') \<longleftrightarrow> (\<exists>b. bump_revision s = (b, s') \<and>
      r = (case b of Inl e \<Rightarrow> Inl e | Inr u \<Rightarrow> Inr (player_view_of s')))"
    by (auto simp: publish_def split: prod.splits sum.splits)
  then show ?thesis
    unfolding bump_revision_cases by auto
qed

lemma publish_same: "publish s = (r, s') \<Longrightarrow> same_but_revision s s'"
  by (auto simp: publish_cases same_but_revision_def intro: exI [of _ "ply_revision s"])

lemma player_inv_revision [simp]: "player_inv sys packs (s\<lparr>ply_revision := r\<rparr>) = player_inv sys packs s"
  by (simp add: player_inv_def asset_verified_def selected_codec_pack_def cong: option.case_cong)

lemma player_inv_publish: "publish s = (r, s') \<Longrightarrow> player_inv sys packs s \<Longrightarrow> player_inv sys packs s'"
  by (auto dest!: publish_same simp: same_but_revision_def)

lemma pack_position_Some:
  assumes "pack_position packs pack_id version = Some i"
  shows "i < length packs \<and> kman_pack_id (vcp_manifest (packs ! i)) = H3_PACK_ID \<and>
    kman_pack_id (vcp_manifest (packs ! i)) = pack_id \<and>
    kman_pack_version (vcp_manifest (packs ! i)) = version"
proof -
  from assms obtain p where "List.find (\<lambda>(i, p). kman_pack_id (vcp_manifest p) = H3_PACK_ID \<and>
      kman_pack_id (vcp_manifest p) = pack_id \<and> kman_pack_version (vcp_manifest p) = version)
      (enumerate 0 packs) = Some (i, p)"
    by (auto simp: pack_position_def)
  then obtain k where "k < length packs" "enumerate 0 packs ! k = (i, p)"
    "kman_pack_id (vcp_manifest p) = H3_PACK_ID" "kman_pack_id (vcp_manifest p) = pack_id"
    "kman_pack_version (vcp_manifest p) = version"
    by (auto simp: find_Some_iff)
  then show ?thesis
    by (auto simp: nth_enumerate_eq)
qed

lemma validated_asset_variant:
  assumes "validate_external_asset_file ks pack H3_ASSET_ID path = Inr asset"
  shows "\<exists>d variant. decoder_of pack = Some d \<and> variant \<in> set (kea_accepted_variants d) \<and>
    variant_selected (Some asset) variant \<and> pks_canonicalize ks path = Some (vea_path asset)"
proof -
  have "\<exists>d measured variant. measure_path ks path = Inr measured \<and> decoder_of pack = Some d \<and>
      List.find (\<lambda>v. eav_byte_length v = mf_byte_length measured \<and> eav_sha256 v = mf_sha256 measured)
        (kea_accepted_variants d) = Some variant \<and>
      pks_canonicalize ks path = Some (vea_path asset) \<and>
      vea_asset_id asset = kea_asset_id d \<and> vea_variant_id asset = eav_variant_id variant \<and>
      vea_sha256 asset = mf_sha256 measured \<and> vea_byte_length asset = mf_byte_length measured"
    using assms unfolding validate_external_asset_file_def decoder_of_def
    by (auto simp: try_iffs split: if_split_asm)
  then obtain d measured variant where "measure_path ks path = Inr measured" and d: "decoder_of pack = Some d"
    and v: "List.find (\<lambda>v. eav_byte_length v = mf_byte_length measured \<and> eav_sha256 v = mf_sha256 measured)
      (kea_accepted_variants d) = Some variant"
    and c: "pks_canonicalize ks path = Some (vea_path asset)"
    and asset: "vea_asset_id asset = kea_asset_id d" "vea_variant_id asset = eav_variant_id variant"
      "vea_sha256 asset = mf_sha256 measured" "vea_byte_length asset = mf_byte_length measured"
    by blast
  have "kea_asset_id d = H3_ASSET_ID"
    using d by (auto simp: decoder_of_def find_Some_iff)
  moreover have "variant \<in> set (kea_accepted_variants d)" "eav_byte_length variant = mf_byte_length measured"
    "eav_sha256 variant = mf_sha256 measured"
    using v by (auto simp: find_Some_iff)
  ultimately show ?thesis
    using d c by (auto simp: asset variant_selected_def)
qed

text \<open>One step keeps the invariant, also a step that fails after it has changed fields.\<close>

lemma player_inv_same:
  assumes "player_inv sys packs s"
    and "ply_packs t = ply_packs s" "ply_selected_pack t = ply_selected_pack s"
      "ply_decoder_asset t = ply_decoder_asset s" "ply_cartridge t = ply_cartridge s"
    and "ply_phase t = ply_phase s \<or> ply_phase t = PhError \<or>
      ply_phase t \<in> {PhPlaying, PhPaused} \<and> ply_cartridge s \<noteq> None"
    and "ply_position_frame t = ply_position_frame s \<or>
      (\<exists>c. ply_cartridge s = Some c \<and>
        (ply_position_frame t = 0 \<or> ply_position_frame t < csm_frame_count (lcg_summary c)))"
  shows "player_inv sys packs t"
proof -
  have "asset_verified sys t = asset_verified sys s"
    by (rule ext) (simp add: asset_verified_def selected_codec_pack_def assms)
  then show ?thesis
    using assms unfolding player_inv_def by (auto split: option.splits)
qed

lemma select_codec_pack_inv:
  assumes inv: "player_inv sys packs s" and step: "select_codec_pack_exact pack_id version s = (r, s')"
  shows "player_inv sys packs s'"
proof (cases "pack_position (ply_packs s) pack_id version")
  case None
  with inv step show ?thesis
    by (simp add: select_codec_pack_exact_def)
next
  case (Some i)
  let ?t = "(if ply_selected_pack s \<noteq> Some i then s\<lparr>ply_decoder_asset := None\<rparr> else s)
    \<lparr>ply_selected_pack := Some i, ply_protocol2_codec := None, ply_codec_fault := None, ply_error := None\<rparr>"
  have "publish ?t = (r, s')"
    using step Some by (simp add: select_codec_pack_exact_def Let_def)
  moreover have "player_inv sys packs ?t"
    using inv pack_position_Some [OF Some]
    by (auto simp: player_inv_def asset_verified_def selected_codec_pack_def cong: option.case_cong)
  ultimately show ?thesis
    by (rule player_inv_publish)
qed

lemma select_decoder_asset_inv:
  assumes inv: "player_inv sys packs s" and step: "select_decoder_asset sys path s = (r, s')"
  shows "player_inv sys packs s'"
proof (cases "selected_codec_pack s")
  case None
  with inv step show ?thesis
    by (simp add: select_decoder_asset_def)
next
  case (Some pack)
  show ?thesis
  proof (cases "validate_external_asset_file (pys_packs sys) pack H3_ASSET_ID path")
    case (Inl e)
    have keeps: "player_inv sys packs (s\<lparr>ply_codec_fault := f, ply_error := err\<rparr>)" for f err
      by (rule player_inv_same [OF inv]) simp_all
    from step Inl Some obtain f err b where "bump_revision (s\<lparr>ply_codec_fault := f, ply_error := err\<rparr>) = (b, s')"
      by (auto simp: select_decoder_asset_def Let_def split: prod.splits sum.splits)
    then show ?thesis
      using keeps by (auto simp: bump_revision_cases)
  next
    case (Inr asset)
    let ?t = "s\<lparr>ply_decoder_asset := Some asset, ply_codec_fault := None, ply_error := None\<rparr>"
    have "publish ?t = (r, s')"
      using step Inr Some by (simp add: select_decoder_asset_def)
    moreover have "asset_verified sys ?t asset"
      using Some Inr by (auto simp: asset_verified_def selected_codec_pack_def)
    then have "player_inv sys packs ?t"
      using inv by (simp add: player_inv_def cong: option.case_cong)
    ultimately show ?thesis
      by (rule player_inv_publish)
  qed
qed

lemma open_cartridge_inv:
  assumes inv: "player_inv sys packs s" and step: "open_cartridge sys path s = (r, s')"
  shows "player_inv sys packs s'"
proof (cases "pys_open_cartridge sys path")
  case (Inl e)
  with inv step show ?thesis
    by (cases e) (auto simp: open_cartridge_def player_inv_def asset_verified_def selected_codec_pack_def
        cong: option.case_cong)
next
  case (Inr opened)
  obtain m sha where opened: "opened = (m, sha)"
    by fastforce
  let ?t = "s\<lparr>ply_cartridge := Some \<lparr>lcg_validated = m, lcg_path = path,
    lcg_summary = summary_of sys path m sha\<rparr>, ply_phase := PhReady, ply_position_frame := 0, ply_error := None\<rparr>"
  have "publish ?t = (r, s')"
    using step Inr by (simp add: open_cartridge_def opened)
  moreover have "player_inv sys packs ?t"
    using inv Inr by (auto simp: player_inv_def asset_verified_def selected_codec_pack_def
        cartridge_opened_def opened)
  ultimately show ?thesis
    by (rule player_inv_publish)
qed

text \<open>The operations of the transport assign fields that the invariant constrains little: each
  either leaves the state or publishes one that still satisfies it.\<close>

definition transport_change :: "player_coordinator \<Rightarrow> player_coordinator \<Rightarrow> bool" where
  "transport_change s t \<longleftrightarrow>
     ply_packs t = ply_packs s \<and> ply_selected_pack t = ply_selected_pack s \<and>
     ply_decoder_asset t = ply_decoder_asset s \<and> ply_cartridge t = ply_cartridge s \<and>
     (ply_phase t = ply_phase s \<or> ply_phase t = PhError \<or>
       ply_phase t \<in> {PhPlaying, PhPaused} \<and> ply_cartridge s \<noteq> None) \<and>
     (ply_position_frame t = ply_position_frame s \<or>
       (\<exists>c. ply_cartridge s = Some c \<and>
         (ply_position_frame t = 0 \<or> ply_position_frame t < csm_frame_count (lcg_summary c))))"

lemma transport_change_inv: "transport_change s t \<Longrightarrow> player_inv sys packs s \<Longrightarrow> player_inv sys packs t"
  unfolding transport_change_def by (elim conjE) (rule player_inv_same)

lemma publish_if: "(if c then (Inl e, s) else publish t) = (r, s') \<Longrightarrow> s' = s \<or> publish t = (r, s')"
  by (simp split: if_splits)

lemma launch_inputs_cartridge: "launch_inputs s = Inr i \<Longrightarrow> ply_cartridge s \<noteq> None"
  by (auto simp: launch_inputs_def try_iffs)

lemma transport_steps:
  "set_protocol2_codec_summary summary s = (r, s') \<Longrightarrow> s' = s \<or> (\<exists>t. publish t = (r, s') \<and> transport_change s t)"
  "set_loop_enabled b s = (r, s') \<Longrightarrow> s' = s \<or> (\<exists>t. publish t = (r, s') \<and> transport_change s t)"
  "set_output_available b s = (r, s') \<Longrightarrow> s' = s \<or> (\<exists>t. publish t = (r, s') \<and> transport_change s t)"
  "set_runtime_error code message b s = (r, s') \<Longrightarrow> s' = s \<or> (\<exists>t. publish t = (r, s') \<and> transport_change s t)"
  unfolding set_protocol2_codec_summary_def set_loop_enabled_def set_output_available_def set_runtime_error_def
  by (fastforce simp: transport_change_def dest!: publish_if)+

lemma transport_position:
  "set_position_frame x s = (r, s') \<Longrightarrow> s' = s \<or> (\<exists>t. publish t = (r, s') \<and> transport_change s t)"
  unfolding set_position_frame_def
  by (cases "ply_cartridge s") (fastforce simp: transport_change_def not_le split: if_splits)+

lemma transport_resets:
  "reset_to_start s = (r, s') \<Longrightarrow> s' = s \<or> (\<exists>t. publish t = (r, s') \<and> transport_change s t)"
  "reset_to_start_protocol2 s = (r, s') \<Longrightarrow> s' = s \<or> (\<exists>t. publish t = (r, s') \<and> transport_change s t)"
  unfolding reset_to_start_def reset_to_start_protocol2_def
  using launch_inputs_cartridge [of s]
  by (cases "launch_inputs s"; fastforce simp: transport_change_def)
    (fastforce simp: transport_change_def split: if_splits)

lemma transport_playing:
  assumes "player_inv sys packs s"
  shows "set_playing b s = (r, s') \<Longrightarrow> s' = s \<or> (\<exists>t. publish t = (r, s') \<and> transport_change s t)"
    and "set_playing_protocol2 b s = (r, s') \<Longrightarrow> s' = s \<or> (\<exists>t. publish t = (r, s') \<and> transport_change s t)"
proof -
  have loaded: "ply_phase s = PhPlaying \<Longrightarrow> ply_cartridge s \<noteq> None"
    using assms by (simp add: player_inv_def)
  have change: "transport_change s (s\<lparr>ply_phase := PhPlaying, ply_error := None\<rparr>)"
    "transport_change s (s\<lparr>ply_phase := PhPaused, ply_error := None\<rparr>)" if "ply_cartridge s \<noteq> None"
    using that by (auto simp: transport_change_def)
  show "set_playing b s = (r, s') \<Longrightarrow> s' = s \<or> (\<exists>t. publish t = (r, s') \<and> transport_change s t)"
    unfolding set_playing_def
    using launch_inputs_cartridge [of s] loaded change
    by (cases "launch_inputs s") (auto split: if_split_asm)
  have "transport_change s (s\<lparr>ply_error := None\<rparr>)"
    by (simp add: transport_change_def)
  then show "set_playing_protocol2 b s = (r, s') \<Longrightarrow> s' = s \<or> (\<exists>t. publish t = (r, s') \<and> transport_change s t)"
    unfolding set_playing_protocol2_def using change by (auto split: if_split_asm)
qed

lemma player_transition_inv:
  assumes inv: "player_inv sys packs s" and step: "player_transition sys s op = (r, s')"
  shows "player_inv sys packs s'"
proof -
  have keep: "player_inv sys packs s'" if "s' = s \<or> (\<exists>t. publish t = (r, s') \<and> transport_change s t)"
    using that inv player_inv_publish transport_change_inv by metis
  note now = step [unfolded player_transition_def]
  show ?thesis
  proof (cases op)
    case (OpSelectCodecPack i v)
    with now show ?thesis
      by (simp add: select_codec_pack_inv [OF inv])
  next
    case (OpSelectDecoderAsset path)
    with now show ?thesis
      by (simp add: select_decoder_asset_inv [OF inv])
  next
    case (OpOpenCartridge path)
    with now show ?thesis
      by (simp add: open_cartridge_inv [OF inv])
  qed (use now keep [OF transport_steps(1)] keep [OF transport_steps(2)] keep [OF transport_steps(3)]
      keep [OF transport_steps(4)] keep [OF transport_position] keep [OF transport_resets(1)]
      keep [OF transport_resets(2)] keep [OF transport_playing(1) [OF inv]]
      keep [OF transport_playing(2) [OF inv]] in simp_all)
qed

lemma player_inv_start: "player_inv sys packs (with_validated_packs packs)"
  by (simp add: player_inv_def with_validated_packs_def)

interpretation player: invariant_machine "player_transition sys" "player_inv sys packs" for sys packs
  by unfold_locales (rule player_transition_inv)


section \<open>What a launch uses\<close>

text \<open>The cartridge that is loaded was opened by an operation of the run.\<close>

lemma publish_cartridge: "publish t = (r, s') \<Longrightarrow> ply_cartridge s' = ply_cartridge t"
  by (auto simp: publish_cases)

lemma step_cartridge:
  assumes inv: "player_inv sys packs s" and step: "player_transition sys s op = (r, s1)"
  shows "ply_cartridge s1 = ply_cartridge s \<or>
    (\<exists>c. ply_cartridge s1 = Some c \<and> op = OpOpenCartridge (lcg_path c))"
proof -
  have keep: "ply_cartridge s1 = ply_cartridge s"
    if "s1 = s \<or> (\<exists>t. publish t = (r, s1) \<and> transport_change s t)"
    using that by (auto simp: transport_change_def dest!: publish_cartridge)
  note now = step [unfolded player_transition_def]
  show ?thesis
  proof (cases op)
    case (OpSelectCodecPack i v)
    with now have "ply_cartridge s1 = ply_cartridge s"
      by (cases "pack_position (ply_packs s) i v")
        (auto simp: select_codec_pack_exact_def Let_def dest!: publish_cartridge)
    then show ?thesis ..
  next
    case (OpSelectDecoderAsset path)
    with now have "ply_cartridge s1 = ply_cartridge s"
      by (cases "selected_codec_pack s")
        (auto simp: select_decoder_asset_def Let_def bump_revision_cases split: sum.splits prod.splits
          dest!: publish_cartridge)
    then show ?thesis ..
  next
    case (OpOpenCartridge path)
    with now show ?thesis
      by (cases "pys_open_cartridge sys path")
        (auto simp: open_cartridge_def Let_def split: prod.splits dest!: publish_cartridge)
  qed (use now keep [OF transport_steps(1)] keep [OF transport_steps(2)] keep [OF transport_steps(3)]
      keep [OF transport_steps(4)] keep [OF transport_position] keep [OF transport_resets(1)]
      keep [OF transport_resets(2)] keep [OF transport_playing(1) [OF inv]]
      keep [OF transport_playing(2) [OF inv]] in simp_all)
qed

lemma run_opened:
  assumes inv: "player_inv sys packs s"
    and "ply_cartridge (snd (run_ops (player_transition sys) s ops)) = Some c"
  shows "ply_cartridge s = Some c \<or> OpOpenCartridge (lcg_path c) \<in> set ops"
  using assms
proof (induction ops arbitrary: s)
  case (Cons op ops)
  obtain r s1 where step: "player_transition sys s op = (r, s1)"
    by fastforce
  have IH: "ply_cartridge s1 = Some c \<or> OpOpenCartridge (lcg_path c) \<in> set ops"
    using Cons.prems by (intro Cons.IH player_transition_inv [OF _ step]) (simp_all add: step split_beta Let_def)
  with step_cartridge [OF Cons.prems(1) step] show ?case
    by auto
qed simp



section \<open>Views and failures\<close>

text \<open>Every operation ends in one of four ways: it publishes the next view, the revisions are used
  up, it fails and leaves the state, or it is one of the two that record their failure.\<close>

abbreviation revision_exhausted :: player_coordinator_error where
  "revision_exhausted \<equiv> player_error ''player.revision_exhausted'' ''Player revision exhausted''"

definition step_outcome ::
    "player_coordinator \<Rightarrow> player_op \<Rightarrow> player_view player_result \<Rightarrow> player_coordinator \<Rightarrow> bool" where
  "step_outcome s op r s' \<longleftrightarrow>
     r = Inr (player_view_of s') \<and> unat (ply_revision s') = unat (ply_revision s) + 1 \<or>
     r = Inl revision_exhausted \<and> unat (ply_revision s) = 2 ^ 64 - 1 \<and> ply_revision s' = ply_revision s \<or>
     (\<exists>e. r = Inl e \<and> (s' = s \<or>
       (\<exists>path. op = OpOpenCartridge path \<and> s' = s\<lparr>ply_phase := PhError\<rparr>) \<or>
       (\<exists>path fault n. op = OpSelectDecoderAsset path \<and> unat n = unat (ply_revision s) + 1 \<and>
          s' = s\<lparr>ply_codec_fault := fault, ply_error := Some \<lparr>pev_code = pce_code e,
            pev_message = pce_message e, pev_recoverable = True\<rparr>, ply_revision := n\<rparr>)))"

lemma last_revision: "2 ^ 64 \<le> unat r + 1 \<longleftrightarrow> unat r = 2 ^ 64 - 1" for r :: u64
  using unsigned_less [where 'a = nat, of r] by auto

lemma outcome_published: "publish t = (r, s') \<Longrightarrow> ply_revision t = ply_revision s \<Longrightarrow> step_outcome s op r s'"
  unfolding publish_cases last_revision by (auto simp: step_outcome_def)

lemma outcome_refused: "step_outcome s op (Inl e) s"
  by (simp add: step_outcome_def)

lemma outcome_publish_if:
  "(if c then (Inl e, s) else publish t) = (r, s') \<Longrightarrow> ply_revision t = ply_revision s \<Longrightarrow> step_outcome s op r s'"
  by (auto simp: outcome_refused intro: outcome_published split: if_splits)

lemma outcome_select_pack: "select_codec_pack_exact i v s = (r, s') \<Longrightarrow> step_outcome s op r s'"
  unfolding select_codec_pack_exact_def Let_def
  by (cases "pack_position (ply_packs s) i v") (auto simp: outcome_refused elim: outcome_published)

lemma outcome_select_asset:
  assumes "select_decoder_asset sys path s = (r, s')"
  shows "step_outcome s (OpSelectDecoderAsset path) r s'"
proof (cases "selected_codec_pack s")
  case None
  with assms show ?thesis
    by (auto simp: select_decoder_asset_def outcome_refused)
next
  case (Some pack)
  show ?thesis
  proof (cases "validate_external_asset_file (pys_packs sys) pack H3_ASSET_ID path")
    case (Inl e)
    define f where "f = player_error_of e"
    define t where "t = s\<lparr>ply_codec_fault := Some (codec_summary_for_pack pack
        (if pce_code f = ''codec.asset_incompatible'' then PcIncompatible else PcError)
        (Some (pce_message f)) None),
      ply_error := Some \<lparr>pev_code = pce_code f, pev_message = pce_message f, pev_recoverable = True\<rparr>\<rparr>"
    have "(case bump_revision t of (Inl e, s') \<Rightarrow> (Inl e, s') | (Inr u, s') \<Rightarrow> (Inl f, s')) = (r, s')"
      using assms by (simp only: select_decoder_asset_def Some Inl ok_or_simps try_with_simps sum.case
          Let_def option.map t_def f_def)
    then obtain b where b: "bump_revision t = (b, s')"
      and r: "r = (case b of Inl e \<Rightarrow> Inl e | Inr u \<Rightarrow> Inl f)"
      by (auto split: prod.splits sum.splits)
    from b [unfolded bump_revision_cases last_revision] show ?thesis
    proof (elim disjE exE conjE)
      fix n
      assume "b = Inr ()" "s' = t\<lparr>ply_revision := n\<rparr>" "unat n = unat (ply_revision t) + 1"
      then show ?thesis
        unfolding step_outcome_def r t_def by auto
    next
      assume "b = Inl revision_exhausted" "s' = t" "unat (ply_revision t) = 2 ^ 64 - 1"
      then show ?thesis
        unfolding step_outcome_def r t_def by simp
    qed
  next
    case (Inr asset)
    with assms Some show ?thesis
      by (auto simp: select_decoder_asset_def elim: outcome_published)
  qed
qed

lemma outcome_open: "open_cartridge sys path s = (r, s') \<Longrightarrow> step_outcome s (OpOpenCartridge path) r s'"
  unfolding open_cartridge_def Let_def
  by (cases "pys_open_cartridge sys path")
    (auto simp: step_outcome_def [of s "OpOpenCartridge path" "Inl e" for e] elim: outcome_published
      split: prod.splits)

lemma outcome_transport:
  "set_protocol2_codec_summary summary s = (r, s') \<Longrightarrow> step_outcome s op r s'"
  "set_loop_enabled b s = (r, s') \<Longrightarrow> step_outcome s op r s'"
  "set_output_available b s = (r, s') \<Longrightarrow> step_outcome s op r s'"
  "set_runtime_error code message b s = (r, s') \<Longrightarrow> step_outcome s op r s'"
  "reset_to_start_protocol2 s = (r, s') \<Longrightarrow> step_outcome s op r s'"
  unfolding set_protocol2_codec_summary_def set_loop_enabled_def set_output_available_def
    set_runtime_error_def reset_to_start_protocol2_def
  by (auto elim: outcome_published outcome_publish_if)

lemma outcome_guarded:
  "reset_to_start s = (r, s') \<Longrightarrow> step_outcome s op r s'"
  "set_position_frame x s = (r, s') \<Longrightarrow> step_outcome s op r s'"
  unfolding reset_to_start_def set_position_frame_def
  by (cases "launch_inputs s"; auto simp: outcome_refused elim: outcome_published)
    (cases "ply_cartridge s"; auto simp: outcome_refused elim: outcome_published split: if_splits)

lemma outcome_playing:
  "set_playing b s = (r, s') \<Longrightarrow> step_outcome s op r s'"
  "set_playing_protocol2 b s = (r, s') \<Longrightarrow> step_outcome s op r s'"
  unfolding set_playing_def set_playing_protocol2_def
  by (cases "launch_inputs s"; auto simp: outcome_refused elim: outcome_published split: if_splits)
    (auto simp: outcome_refused elim: outcome_published split: if_splits)

lemma player_transition_outcome: "player_transition sys s op = (r, s') \<Longrightarrow> step_outcome s op r s'"
  by (cases op) (simp_all add: player_transition_def outcome_select_pack outcome_select_asset outcome_open
      outcome_transport outcome_guarded outcome_playing)

text \<open>The views that a sequence of operations published.\<close>

definition published :: "player_view player_result list \<Rightarrow> player_view list" where
  "published rs = concat (map (\<lambda>r. case r of Inl e \<Rightarrow> [] | Inr v \<Rightarrow> [v]) rs)"

text \<open>The views published by any sequence of operations have strictly increasing revisions above
  the one of the start, whatever fails in between; the revision never wraps around.\<close>

theorem player_views_increase:
  "sorted_wrt (<) (ply_revision s # map pvw_revision (published (fst (run_ops (player_transition sys) s ops))))"
proof (induction ops arbitrary: s)
  case (Cons op ops)
  obtain r s1 where step: "player_transition sys s op = (r, s1)"
    by fastforce
  have IH: "sorted_wrt (<) (ply_revision s1 # map pvw_revision (published (fst (run_ops (player_transition sys) s1 ops))))"
    by (rule Cons.IH)
  have rs: "fst (run_ops (player_transition sys) s (op # ops)) = r # fst (run_ops (player_transition sys) s1 ops)"
    by (simp add: step Let_def split_beta)
  have "ply_revision s \<le> ply_revision s1 \<and>
      (\<forall>v. r = Inr v \<longrightarrow> pvw_revision v = ply_revision s1 \<and> ply_revision s < ply_revision s1)"
    using player_transition_outcome [OF step]
    by (auto simp: step_outcome_def player_view_of_def word_le_nat_alt word_less_nat_alt)
  then show ?case
    using IH unfolding rs published_def by (cases r) (auto intro: order.strict_trans1 order.strict_trans)
qed (simp add: published_def)

text \<open>A failed operation leaves the player as it was, with three exceptions. A refused decoder
  weight is recorded as the fault of the codec and the error shown, under the next revision, and
  nothing else changes. A refused cartridge sets the phase to the error phase and nothing else, not
  even the revision, so that the views before and after it carry the same revision. And when the
  revisions are used up, the operation fails with that error and keeps the last revision.\<close>

theorem player_error_effects:
  assumes "player_transition sys s op = (Inl e, s')"
  shows "s' = s \<or>
    (\<exists>path fault n. op = OpSelectDecoderAsset path \<and> unat n = unat (ply_revision s) + 1 \<and>
       s' = s\<lparr>ply_codec_fault := fault, ply_error := Some \<lparr>pev_code = pce_code e,
         pev_message = pce_message e, pev_recoverable = True\<rparr>, ply_revision := n\<rparr>) \<or>
    (\<exists>path. op = OpOpenCartridge path \<and> s' = s\<lparr>ply_phase := PhError\<rparr> \<and>
       pvw_revision (player_view_of s') = pvw_revision (player_view_of s)) \<or>
    e = revision_exhausted \<and> unat (ply_revision s) = 2 ^ 64 - 1 \<and> ply_revision s' = ply_revision s"
  using player_transition_outcome [OF assms] unfolding step_outcome_def player_view_of_def by auto


section \<open>A run of the player\<close>

text \<open>A sample: the pack of the sample of discovery is selected, the file of its worker serves as the
  weight, and the cartridge \<open>r/x\<close> of two frames is opened.\<close>

definition sample_player_manifest :: manifest where
  "sample_player_manifest =
     \<lparr>mf_spec_version = ''0.1.0'', mf_cartridge_id = ''c'',
      mf_codec = \<lparr>cd_family = ''minimax_h3'', cd_profile = ''h3_av_latent'', cd_profile_version = ''0.1.0''\<rparr>,
      mf_payloads = [], mf_tensors = [],
      mf_timing = \<lparr>ti_contract = ''h3'', ti_contract_version = ''0.1.0'',
        ti_decoded_video = \<lparr>dv_width = 16, dv_height = 16, dv_frame_count = 2,
          dv_frame_rate = \<lparr>ra_numerator = 24, ra_denominator = 1\<rparr>,
          dv_duration = \<lparr>ra_numerator = 1, ra_denominator = 12\<rparr>\<rparr>\<rparr>,
      mf_audio = SourceAbsent, mf_preview = None,
      mf_provenance = \<lparr>pn_created_by = \<lparr>pr_name = ''n'', pr_version = ''1''\<rparr>, pn_created_at = None,
        pn_sources = []\<rparr>,
      mf_parent_cartridges = [], mf_operation_history = []\<rparr>"

definition sample_player_system :: player_system where
  "sample_player_system =
     \<lparr>pys_packs = sample_pack_system,
      pys_open_cartridge = (\<lambda>p. if p = [''r'', ''x''] then Inr (sample_player_manifest, replicate 64 CHR ''b'')
        else Inl (LcIoOpen, ''missing'')),
      pys_file_name = (\<lambda>p. Some (last p))\<rparr>"

definition sample_player_ops :: "player_op list" where
  "sample_player_ops =
     [OpOpenCartridge [''r'', ''x''], OpSelectCodecPack H3_PACK_ID ''1'',
      OpSelectDecoderAsset [''r'', ''org.latentdeck.h3'', ''1'', ''w'']]"

definition sample_weight :: validated_external_asset where
  "sample_weight = \<lparr>vea_asset_id = ''taeh3'', vea_variant_id = ''v'',
     vea_path = [''r'', ''org.latentdeck.h3'', ''1'', ''w''], vea_sha256 = replicate 64 CHR ''a'',
     vea_byte_length = 1\<rparr>"

lemma sample_weight_verified:
  "validate_external_asset_file sample_pack_system sample_pack H3_ASSET_ID
     [''r'', ''org.latentdeck.h3'', ''1'', ''w''] = Inr sample_weight"
proof -
  have "pks_metadata sample_pack_system [''r'', ''org.latentdeck.h3'', ''1'', ''w''] =
      Some \<lparr>em_reparse = False, em_kind = FileEntry\<rparr>"
    "pks_canonicalize sample_pack_system path = Some path" for path
    by (simp_all add: sample_pack_system_def sample_pack_kind_def)
  then show ?thesis
    by (simp add: validate_external_asset_file_def sample_pack_def sample_pack_manifest_def
        sample_pack_asset_def H3_ASSET_ID_def reject_reparse_metadata_def sample_weight_def)
qed

lemma sample_player_launch:
  "\<exists>inputs. launch_inputs (snd (run_ops (player_transition sample_player_system) (with_validated_packs [sample_pack])
     sample_player_ops)) = Inr inputs \<and> pli_codec_pack inputs = sample_pack \<and>
     pli_cartridge_path inputs = [''r'', ''x'']"
proof -
  have position: "pack_position [sample_pack] H3_PACK_ID ''1'' = Some 0"
    by (simp add: pack_position_def sample_pack_def sample_pack_manifest_def H3_PACK_ID_def)
  show ?thesis
    by (simp add: sample_player_ops_def player_transition_def open_cartridge_def select_codec_pack_exact_def
        select_decoder_asset_def sample_player_system_def with_validated_packs_def publish_def bump_revision_def
        checked_add_def selected_codec_pack_def nth_option_def position sample_weight_verified
        launch_inputs_def)
qed


theorem player_error_effects_witness:
  "\<exists>s'. player_transition sample_player_system without_codec (OpOpenCartridge [''y'']) =
       (Inl (player_error ''io_open'' ''missing''), s') \<and>
     s' = without_codec\<lparr>ply_phase := PhError\<rparr>"
proof -
  have step: "player_transition sample_player_system without_codec (OpOpenCartridge [''y'']) =
      (Inl (player_error ''io_open'' ''missing''), without_codec\<lparr>ply_phase := PhError\<rparr>)"
    by (simp add: player_transition_def open_cartridge_def sample_player_system_def cartridge_code_str_def)
  have "without_codec\<lparr>ply_phase := PhError\<rparr> \<noteq> without_codec"
    by (simp add: without_codec_def with_validated_packs_def)
  with player_error_effects [OF step] step show ?thesis
    by auto
qed

end
