(* ===== verification/Deck_Interface.thy ===== *)
theory Deck_Interface
  imports Extension_Manifests F64_Bits
begin

text \<open>
  The user interface contract of a deck (\<open>crates/extension-manager/src/deck_ui_contract.rs\<close>): the
  typed controls of \<open>operator.json\<close>, the sections and widgets of \<open>faceplate.json\<close>, and the checks
  that tie them to the manifest. An \<open>f64\<close> is its 64 bits; parsing (serde_json) and versions (semver)
  are parameters.
\<close>

section \<open>Data\<close>

definition MAX_UI_CONTROLS :: nat where
  "MAX_UI_CONTROLS = 128"

definition MAX_SECTIONS :: nat where
  "MAX_SECTIONS = 16"

definition MAX_WIDGETS :: nat where
  "MAX_WIDGETS = 128"

definition MAX_VISIBILITY_PREDICATES :: nat where
  "MAX_VISIBILITY_PREDICATES = 8"

definition MAX_VISIBILITY_VALUES :: nat where
  "MAX_VISIBILITY_VALUES = 16"

definition MAX_JS_SAFE_INTEGER :: int where
  "MAX_JS_SAFE_INTEGER = 9007199254740991"

type_synonym i64 = "64 word"

datatype control_descriptor =
    UiNumber (ui_control_id: string) (un_default: u64) (un_minimum: u64) (un_maximum: u64) (un_step: u64)
  | UiInteger (ui_control_id: string) (ui_default: i64) (ui_minimum: i64) (ui_maximum: i64) (ui_step: u64)
  | UiBoolean (ui_control_id: string) bool
  | UiEnum (ui_control_id: string) (ue_default: string) (ue_options: "string list")

record ui_operator =
  uio_schema_version :: string
  uio_deck_operator_api :: string
  uio_deck_id :: string
  uio_deck_version :: string
  uio_operator_id :: string
  uio_operator_version :: string
  uio_entrypoint :: string
  uio_source_count :: u8
  uio_role_ids :: "string list"
  uio_controls :: "control_descriptor list"

datatype section_region = RegionOutput | RegionActions | RegionControls

datatype visibility_value = VisText string | VisBoolean bool

record visibility_predicate =
  vp_control_id :: string
  vp_one_of :: "visibility_value list"

record faceplate_option =
  fpo_value :: string
  fpo_label :: string

datatype ui_capture_mode = CaptureSnapshot | CaptureLive

datatype faceplate_widget =
    SourcePicker (fw_id: string) (fw_label: string) (fw_visible_when: "visibility_predicate list option") u8
  | Slider (fw_id: string) (fw_label: string) (fw_visible_when: "visibility_predicate list option")
      string u64 u64 u64
  | NumberWidget (fw_id: string) (fw_label: string) (fw_visible_when: "visibility_predicate list option")
      string u64 u64 u64
  | Toggle (fw_id: string) (fw_label: string) (fw_visible_when: "visibility_predicate list option") string
  | SelectWidget (fw_id: string) (fw_label: string) (fw_visible_when: "visibility_predicate list option")
      string "faceplate_option list"
  | RoleEditor (fw_id: string) (fw_label: string) (fw_visible_when: "visibility_predicate list option")
      "string list"
  | Barycentric3 (fw_id: string) (fw_label: string) (fw_visible_when: "visibility_predicate list option")
      string string "string \<times> string \<times> string"
  | TransportWidget (fw_id: string) (fw_label: string) (fw_visible_when: "visibility_predicate list option")
      "u8 list"
  | SeedWidget (fw_id: string) (fw_label: string) (fw_visible_when: "visibility_predicate list option")
  | CaptureWidget (fw_id: string) (fw_label: string) (fw_visible_when: "visibility_predicate list option")
      "ui_capture_mode list"
  | MonitorWidget (fw_id: string) (fw_label: string) (fw_visible_when: "visibility_predicate list option")

record faceplate_section =
  fsec_section_id :: string
  fsec_title :: string
  fsec_region :: "section_region option"
  fsec_columns :: "u8 option"
  fsec_widgets :: "faceplate_widget list"

record faceplate_descriptor =
  fd_schema_version :: u16
  fd_title :: string
  fd_sections :: "faceplate_section list"

section \<open>Texts and numbers\<close>

text \<open>\<open>split(['.', '_', '-'])\<close>\<close>

definition identifier_parts :: "string \<Rightarrow> string list" where
  "identifier_parts v = split_on CHR ''.'' (map (\<lambda>c. if c = CHR ''_'' \<or> c = CHR ''-'' then CHR ''.'' else c) v)"

definition valid_ui_identifier :: "string \<Rightarrow> bool" where
  "valid_ui_identifier v =
     (if v = [] \<or> length v > 128 \<or> \<not> is_ascii v then False
      else list_all (\<lambda>part. part \<noteq> [] \<and> is_ascii_lowercase (hd part) \<and>
        list_all (\<lambda>c. is_ascii_lowercase c \<or> is_ascii_digit c) part) (identifier_parts v))"

text \<open>\<open>char::is_control\<close> on the bytes of UTF-8: the controls of ASCII, and U+0080 to U+009F, whose
  two bytes are C2 and the code itself.\<close>

fun has_control :: "string \<Rightarrow> bool" where
  "has_control [] = False"
| "has_control (c # cs) =
     (byte_val c < 32 \<or> byte_val c = 127 \<or>
      byte_val c = 194 \<and> (case cs of d # _ \<Rightarrow> 128 \<le> byte_val d \<and> byte_val d \<le> 159 | [] \<Rightarrow> False) \<or>
      has_control cs)"

definition valid_ui_text :: "string \<Rightarrow> bool" where
  "valid_ui_text v = (v \<noteq> [] \<and> length v \<le> 256 \<and> \<not> has_control v)"

definition f64_finite_bits :: "u64 \<Rightarrow> bool" where
  "f64_finite_bits v = (f64_magnitude v < 2047 * 2 ^ 52)"

definition f64_eq :: "u64 \<Rightarrow> u64 \<Rightarrow> bool" where
  "f64_eq a b = (\<not> f64_is_nan a \<and> \<not> f64_is_nan b \<and> f64_key a = f64_key b)"

definition f64_zero :: u64 where
  "f64_zero = 0"

definition f64_one :: u64 where
  "f64_one = 0x3FF0000000000000"

text \<open>A finite value as an integer, in units of \<open>2 ^ -1076\<close>, and the nearest value to such an integer
  with 53 significant bits, ties to even: the result of an operation whose exact value it is.\<close>

definition f64_units :: "u64 \<Rightarrow> int" where
  "f64_units v =
     (let e = f64_magnitude v div 2 ^ 52;
          m = (if e = 0 then f64_mantissa v else f64_mantissa v + 2 ^ 52);
          u = int m * 2 ^ (max e 1 + 1)
      in if f64_negative v then - u else u)"

definition f64_nearest :: "int \<Rightarrow> int" where
  "f64_nearest x =
     (let a = nat \<bar>x\<bar>; shift = max 2 (binary_exponent a - 52); q = a div 2 ^ shift; r = a mod 2 ^ shift;
          half = 2 ^ (shift - 1); rounded = (if r > half \<or> r = half \<and> odd q then q + 1 else q)
      in (if x < 0 then - 1 else 1) * int (rounded * 2 ^ shift))"

text \<open>\<open>1e-12\<close>, and \<open>*x < 0.5 * *y - 1e-12 || *x > 1.0 - 0.5 * *y + 1e-12\<close>.\<close>

definition f64_tolerance :: u64 where
  "f64_tolerance = 0x3D719799812DEA11"

definition outside_triangle :: "u64 \<Rightarrow> u64 \<Rightarrow> bool" where
  "outside_triangle x y =
     (let half = f64_nearest (f64_units y div 2);
          low = f64_nearest (half - f64_units f64_tolerance);
          high = f64_nearest (f64_nearest (f64_units f64_one - half) + f64_units f64_tolerance)
      in f64_units x < low \<or> f64_units x > high)"

section \<open>The operator\<close>

definition valid_ui_control :: "control_descriptor \<Rightarrow> bool" where
  "valid_ui_control c = (case c of
       UiNumber _ d lo hi step \<Rightarrow>
         f64_finite_bits d \<and> f64_finite_bits lo \<and> f64_finite_bits hi \<and> f64_finite_bits step \<and>
         f64_lt lo hi \<and> f64_lt f64_zero step \<and> f64_le lo d \<and> f64_le d hi
     | UiInteger _ d lo hi step \<Rightarrow>
         sint lo < sint hi \<and> step > 0 \<and> sint d \<ge> sint lo \<and> sint d \<le> sint hi \<and>
         sint lo \<ge> - MAX_JS_SAFE_INTEGER \<and> sint hi \<le> MAX_JS_SAFE_INTEGER \<and>
         sint d \<ge> - MAX_JS_SAFE_INTEGER \<and> sint d \<le> MAX_JS_SAFE_INTEGER \<and>
         uint step \<le> MAX_JS_SAFE_INTEGER
     | UiBoolean _ _ \<Rightarrow> True
     | UiEnum _ d options \<Rightarrow>
         options \<noteq> [] \<and> length options \<le> 64 \<and> list_all valid_ui_identifier options \<and>
         card (set options) = length options \<and> d \<in> set options)"

text \<open>The loop over the controls and the identifiers seen.\<close>

fun ui_controls_loop :: "string list \<Rightarrow> control_descriptor list \<Rightarrow> unit ext_result" where
  "ui_controls_loop ids [] = Inr ()"
| "ui_controls_loop ids (c # cs) =
     (if \<not> valid_ui_identifier (ui_control_id c) \<or> ui_control_id c \<in> set ids \<or> \<not> valid_ui_control c
      then Inl (ext_invalid ''operator.json contains an invalid or duplicate typed control'')
      else ui_controls_loop (ui_control_id c # ids) cs)"

definition validate_ui_operator ::
    "('v, 'q) semver \<Rightarrow> deck_pack_manifest \<Rightarrow> ui_operator \<Rightarrow> unit ext_result" where
  "validate_ui_operator sem m opd =
     (if uio_schema_version opd \<noteq> ''0.2.0'' \<or> uio_deck_operator_api opd \<noteq> ''0.2.0'' \<or>
         uio_deck_id opd \<noteq> dm_deck_id m \<or> uio_deck_version opd \<noteq> dm_deck_version m \<or>
         uio_source_count opd \<noteq> dsd_slots (dm_signal m) \<or>
         uio_role_ids opd \<noteq> map role_role_id (dsd_roles (dm_signal m)) \<or>
         uio_entrypoint opd \<noteq> rtd_entrypoint (dm_runtime m) \<or>
         (case sem_parse_version sem (uio_operator_version opd) of None \<Rightarrow> True
          | Some v \<Rightarrow> sem_to_string sem v \<noteq> uio_operator_version opd) \<or>
         \<not> valid_ui_identifier (uio_operator_id opd) \<or> uio_controls opd = [] \<or>
         length (uio_controls opd) > MAX_UI_CONTROLS
      then Inl (ext_invalid ''operator.json does not match the exact Deck package contract'')
      else ui_controls_loop [] (uio_controls opd))"

section \<open>The faceplate\<close>

type_synonym ui_controls = "string \<Rightarrow> control_descriptor option"

text \<open>A map collected from the controls: the last of an identifier stays.\<close>

definition ui_controls_of :: "ui_operator \<Rightarrow> ui_controls" where
  "ui_controls_of opd = map_of (rev (map (\<lambda>c. (ui_control_id c, c)) (uio_controls opd)))"

definition predicate_values_fit :: "control_descriptor \<Rightarrow> visibility_value list \<Rightarrow> bool" where
  "predicate_values_fit c values = (case c of
       UiEnum _ _ options \<Rightarrow>
         list_all (\<lambda>v. case v of VisText t \<Rightarrow> t \<in> set options | VisBoolean _ \<Rightarrow> False) values
     | UiBoolean _ _ \<Rightarrow> list_all (\<lambda>v. case v of VisBoolean _ \<Rightarrow> True | VisText _ \<Rightarrow> False) values
     | UiNumber _ _ _ _ _ \<Rightarrow> False
     | UiInteger _ _ _ _ _ \<Rightarrow> False)"

definition check_predicate :: "ui_controls \<Rightarrow> visibility_predicate \<Rightarrow> unit ext_result" where
  "check_predicate controls p =
     (if \<not> valid_ui_identifier (vp_control_id p) \<or> vp_one_of p = [] \<or>
         length (vp_one_of p) > MAX_VISIBILITY_VALUES \<or>
         card (set (vp_one_of p)) \<noteq> length (vp_one_of p) \<or>
         list_ex (\<lambda>v. case v of VisText t \<Rightarrow> \<not> valid_ui_identifier t | VisBoolean _ \<Rightarrow> False) (vp_one_of p)
      then Inl (ext_invalid
             ''a visibility predicate is invalid, duplicated, unsafe, or exceeds its limits'')
      else case controls (vp_control_id p) of
        None \<Rightarrow> Inl (ext_invalid ''a visibility predicate references an absent operator control'')
      | Some c \<Rightarrow>
          refuse (\<not> predicate_values_fit c (vp_one_of p))
            (ext_invalid ''a visibility predicate must match one enum or boolean control exactly''))"

definition validate_visibility ::
    "ui_controls \<Rightarrow> visibility_predicate list option \<Rightarrow> unit ext_result" where
  "validate_visibility controls predicates = (case predicates of
       None \<Rightarrow> Inr ()
     | Some ps \<Rightarrow>
         if ps = [] \<or> length ps > MAX_VISIBILITY_PREDICATES
         then Inl (ext_invalid ''a visibility predicate list is empty or exceeds its limit'')
         else try_all (check_predicate controls) ps)"

definition numeric_widget_matches ::
    "control_descriptor \<Rightarrow> u64 \<Rightarrow> u64 \<Rightarrow> u64 \<Rightarrow> bool \<Rightarrow> bool" where
  "numeric_widget_matches c lo hi step number_widget = (case c of
       UiNumber _ _ declared_lo declared_hi declared_step \<Rightarrow>
         f64_eq lo declared_lo \<and> f64_eq hi declared_hi \<and> f64_eq step declared_step
     | UiInteger _ _ declared_lo declared_hi declared_step \<Rightarrow>
         number_widget \<and> f64_eq lo (f64_of_int (sint declared_lo)) \<and>
         f64_eq hi (f64_of_int (sint declared_hi)) \<and> f64_eq step (f64_of_int (uint declared_step))
     | UiBoolean _ _ \<Rightarrow> False
     | UiEnum _ _ _ \<Rightarrow> False)"

text \<open>The result is the set of bound controls with the new one.\<close>

definition validate_numeric_widget ::
    "ui_controls \<Rightarrow> string list \<Rightarrow> string \<Rightarrow> u64 \<Rightarrow> u64 \<Rightarrow> u64 \<Rightarrow> bool \<Rightarrow> string list ext_result" where
  "validate_numeric_widget controls bound control_id lo hi step number_widget =
     (case controls control_id of
        None \<Rightarrow> Inl (ext_invalid ''a numeric widget references an absent operator control'')
      | Some c \<Rightarrow>
          if \<not> numeric_widget_matches c lo hi step number_widget \<or> control_id \<in> set bound
          then Inl (ext_invalid ''a numeric widget does not match one unique typed operator control'')
          else Inr (bound @ [control_id]))"

text \<open>What the loops over sections and widgets have gathered.\<close>

record faceplate_state =
  fst_section_ids :: "string list"
  fst_widget_ids :: "string list"
  fst_source_slots :: "u8 list"
  fst_bound_controls :: "string list"
  fst_role_editors :: nat
  fst_transports :: nat
  fst_seeds :: nat
  fst_captures :: nat
  fst_monitors :: nat
  fst_output_regions :: nat
  fst_widgets :: nat

definition faceplate_start :: faceplate_state where
  "faceplate_start = \<lparr>fst_section_ids = [], fst_widget_ids = [], fst_source_slots = [],
     fst_bound_controls = [], fst_role_editors = 0, fst_transports = 0, fst_seeds = 0, fst_captures = 0,
     fst_monitors = 0, fst_output_regions = 0, fst_widgets = 0\<rparr>"

definition widget_region :: "faceplate_widget \<Rightarrow> section_region" where
  "widget_region w = (case w of
       MonitorWidget _ _ _ \<Rightarrow> RegionOutput
     | CaptureWidget _ _ _ _ \<Rightarrow> RegionActions
     | _ \<Rightarrow> RegionControls)"

definition check_layout ::
    "ui_controls \<Rightarrow> u16 \<Rightarrow> section_region option \<Rightarrow> faceplate_widget \<Rightarrow> unit ext_result" where
  "check_layout controls version region w =
     (if version = 1
      then refuse (fw_visible_when w \<noteq> None)
        (ext_invalid ''faceplate schema v1 cannot declare schema-v2 visibility predicates'')
      else try_bind (validate_visibility controls (fw_visible_when w)) (\<lambda>_.
        refuse (region \<noteq> Some (widget_region w))
          (ext_invalid ''a schema-v2 faceplate widget occupies an invalid layout region'')))"

text \<open>The two controls of the barycentric widget, one after the other: the default and the bound set.\<close>

definition bind_normalized ::
    "ui_controls \<Rightarrow> string list \<Rightarrow> string \<Rightarrow> (u64 \<times> string list) ext_result" where
  "bind_normalized controls bound control_id =
     (case controls control_id of
        Some (UiNumber _ d lo hi _) \<Rightarrow>
          if \<not> f64_eq lo f64_zero \<or> \<not> f64_eq hi f64_one \<or> control_id \<in> set bound
          then Inl (ext_invalid ''the barycentric widget must bind two unique normalized number controls'')
          else Inr (d, bound @ [control_id])
      | _ \<Rightarrow> Inl (ext_invalid ''the barycentric widget must bind two normalized number controls''))"

definition capture_allowed :: "deck_signal_descriptor \<Rightarrow> ui_capture_mode \<Rightarrow> bool" where
  "capture_allowed signal mode = (case mode of
       CaptureSnapshot \<Rightarrow> CcSnapshotCapture \<in> set (dsd_required_capabilities signal)
     | CaptureLive \<Rightarrow> CcLiveCapture \<in> set (dsd_required_capabilities signal))"

definition expected_slots :: "deck_signal_descriptor \<Rightarrow> u8 set" where
  "expected_slots signal = set (map of_nat [0..<unat (dsd_slots signal)])"

definition expected_roles :: "deck_signal_descriptor \<Rightarrow> string set" where
  "expected_roles signal = set (map role_role_id (dsd_roles signal))"

definition check_widget_kind ::
    "deck_signal_descriptor \<Rightarrow> ui_controls \<Rightarrow> faceplate_widget \<Rightarrow> faceplate_state \<Rightarrow>
     faceplate_state ext_result" where
  "check_widget_kind signal controls w s = (case w of
       SourcePicker _ _ _ slot \<Rightarrow>
         if slot \<notin> expected_slots signal \<or> slot \<in> set (fst_source_slots s)
         then Inl (ext_invalid ''a source picker references an absent or duplicate physical slot'')
         else Inr (s\<lparr>fst_source_slots := fst_source_slots s @ [slot]\<rparr>)
     | Slider _ _ _ c lo hi step \<Rightarrow>
         try_bind (validate_numeric_widget controls (fst_bound_controls s) c lo hi step False)
           (\<lambda>bound. Inr (s\<lparr>fst_bound_controls := bound\<rparr>))
     | NumberWidget _ _ _ c lo hi step \<Rightarrow>
         try_bind (validate_numeric_widget controls (fst_bound_controls s) c lo hi step True)
           (\<lambda>bound. Inr (s\<lparr>fst_bound_controls := bound\<rparr>))
     | Toggle _ _ _ c \<Rightarrow>
         if (case controls c of Some (UiBoolean _ _) \<Rightarrow> False | _ \<Rightarrow> True) \<or> c \<in> set (fst_bound_controls s)
         then Inl (ext_invalid ''a toggle does not match one unique boolean control'')
         else Inr (s\<lparr>fst_bound_controls := fst_bound_controls s @ [c]\<rparr>)
     | SelectWidget _ _ _ c options \<Rightarrow>
         let values = set (map fpo_value options) in
         if options = [] \<or> length options > 64 \<or> card values \<noteq> length options \<or>
            list_ex (\<lambda>x. \<not> valid_ui_identifier (fpo_value x) \<or> \<not> valid_ui_text (fpo_label x)) options \<or>
            (case controls c of Some (UiEnum _ _ declared) \<Rightarrow> set declared \<noteq> values | _ \<Rightarrow> True) \<or>
            c \<in> set (fst_bound_controls s)
         then Inl (ext_invalid ''a select does not match one unique enum control'')
         else Inr (s\<lparr>fst_bound_controls := fst_bound_controls s @ [c]\<rparr>)
     | RoleEditor _ _ _ roles \<Rightarrow>
         if length roles \<noteq> card (expected_roles signal) \<or> set roles \<noteq> expected_roles signal
         then Inl (ext_invalid ''the role editor does not cover the Deck role contract'')
         else Inr (s\<lparr>fst_role_editors := fst_role_editors s + 1\<rparr>)
     | Barycentric3 _ _ _ x y (r1, r2, r3) \<Rightarrow>
         if card {r1, r2, r3} \<noteq> 3 \<or> list_ex (\<lambda>r. r \<notin> expected_roles signal) [r1, r2, r3]
         then Inl (ext_invalid ''the barycentric widget does not reference three distinct Deck roles'')
         else
         try_bind (bind_normalized controls (fst_bound_controls s) x) (\<lambda>(dx, bound).
         try_bind (bind_normalized controls bound y) (\<lambda>(dy, bound).
         if outside_triangle dx dy
         then Inl (ext_invalid ''the barycentric control defaults lie outside the declared triangle'')
         else Inr (s\<lparr>fst_bound_controls := bound\<rparr>)))
     | TransportWidget _ _ _ slots \<Rightarrow>
         if set slots \<noteq> expected_slots signal \<or> length slots \<noteq> card (expected_slots signal)
         then Inl (ext_invalid ''the transport widget does not cover every physical slot'')
         else Inr (s\<lparr>fst_transports := fst_transports s + 1\<rparr>)
     | SeedWidget _ _ _ \<Rightarrow> Inr (s\<lparr>fst_seeds := fst_seeds s + 1\<rparr>)
     | CaptureWidget _ _ _ modes \<Rightarrow>
         if modes = [] \<or> length modes > 2 \<or> card (set modes) \<noteq> length modes \<or>
            list_ex (\<lambda>mode. \<not> capture_allowed signal mode) modes
         then Inl (ext_invalid ''the capture widget exceeds the declared Deck capabilities'')
         else Inr (s\<lparr>fst_captures := fst_captures s + 1\<rparr>)
     | MonitorWidget _ _ _ \<Rightarrow> Inr (s\<lparr>fst_monitors := fst_monitors s + 1\<rparr>))"

definition check_widget ::
    "deck_signal_descriptor \<Rightarrow> ui_controls \<Rightarrow> u16 \<Rightarrow> section_region option \<Rightarrow> faceplate_widget \<Rightarrow>
     faceplate_state \<Rightarrow> faceplate_state ext_result" where
  "check_widget signal controls version region w s =
     try_bind (check_layout controls version region w) (\<lambda>_.
     if \<not> valid_ui_identifier (fw_id w) \<or> fw_id w \<in> set (fst_widget_ids s) \<or> \<not> valid_ui_text (fw_label w)
     then Inl (ext_invalid ''faceplate.json contains an invalid or duplicate widget'')
     else check_widget_kind signal controls w (s\<lparr>fst_widget_ids := fst_widget_ids s @ [fw_id w]\<rparr>))"

fun check_widgets ::
    "deck_signal_descriptor \<Rightarrow> ui_controls \<Rightarrow> u16 \<Rightarrow> section_region option \<Rightarrow> faceplate_widget list \<Rightarrow>
     faceplate_state \<Rightarrow> faceplate_state ext_result" where
  "check_widgets signal controls version region [] s = Inr s"
| "check_widgets signal controls version region (w # ws) s =
     try_bind (check_widget signal controls version region w s)
       (\<lambda>s. check_widgets signal controls version region ws s)"

text \<open>The region and the columns of a section; the result is the number of output regions it adds.\<close>

definition check_section_layout :: "u16 \<Rightarrow> faceplate_section \<Rightarrow> nat ext_result" where
  "check_section_layout version sect =
     (if version = 1
      then (if fsec_region sect \<noteq> None \<or> fsec_columns sect \<noteq> None
            then Inl (ext_invalid ''faceplate schema v1 cannot declare schema-v2 layout fields'')
            else Inr 0)
      else case fsec_region sect of
        None \<Rightarrow> Inl (ext_invalid
          ''faceplate schema v2 requires a region and bounded column count per section'')
      | Some region \<Rightarrow>
          if (case fsec_columns sect of Some n \<Rightarrow> \<not> (1 \<le> n \<and> n \<le> 4) | None \<Rightarrow> True)
          then Inl (ext_invalid
            ''faceplate schema v2 requires a region and bounded column count per section'')
          else Inr (if region = RegionOutput then 1 else 0))"

definition check_section ::
    "deck_signal_descriptor \<Rightarrow> ui_controls \<Rightarrow> u16 \<Rightarrow> faceplate_section \<Rightarrow> faceplate_state \<Rightarrow>
     faceplate_state ext_result" where
  "check_section signal controls version sect s =
     (if \<not> valid_ui_identifier (fsec_section_id sect) \<or> fsec_section_id sect \<in> set (fst_section_ids s) \<or>
         \<not> valid_ui_text (fsec_title sect)
      then Inl (ext_invalid ''faceplate.json contains an invalid or duplicate section'')
      else
      try_bind (check_section_layout version sect) (\<lambda>outputs.
      let s1 = s\<lparr>fst_section_ids := fst_section_ids s @ [fsec_section_id sect],
                 fst_output_regions := fst_output_regions s + outputs,
                 fst_widgets := fst_widgets s + length (fsec_widgets sect)\<rparr> in
      if fst_widgets s1 > MAX_WIDGETS
      then Inl (ext_invalid ''faceplate.json exceeds the host-rendered widget limit'')
      else check_widgets signal controls version (fsec_region sect) (fsec_widgets sect) s1))"

fun check_sections ::
    "deck_signal_descriptor \<Rightarrow> ui_controls \<Rightarrow> u16 \<Rightarrow> faceplate_section list \<Rightarrow> faceplate_state \<Rightarrow>
     faceplate_state ext_result" where
  "check_sections signal controls version [] s = Inr s"
| "check_sections signal controls version (sect # sects) s =
     try_bind (check_section signal controls version sect s)
       (\<lambda>s. check_sections signal controls version sects s)"

definition faceplate_incomplete ::
    "deck_signal_descriptor \<Rightarrow> ui_controls \<Rightarrow> u16 \<Rightarrow> faceplate_state \<Rightarrow> bool" where
  "faceplate_incomplete signal controls version s =
     (set (fst_source_slots s) \<noteq> expected_slots signal \<or>
      card (set (fst_bound_controls s)) \<noteq> card (dom controls) \<or>
      list_ex (\<lambda>c. controls c = None) (fst_bound_controls s) \<or>
      fst_role_editors s \<noteq> 1 \<or> fst_transports s \<noteq> 1 \<or> fst_seeds s \<noteq> 1 \<or> fst_captures s > 1 \<or>
      fst_monitors s \<noteq> 1 \<or> version = 2 \<and> fst_output_regions s \<noteq> 1)"

definition validate_faceplate ::
    "deck_pack_manifest \<Rightarrow> ui_operator \<Rightarrow> faceplate_descriptor \<Rightarrow> unit ext_result" where
  "validate_faceplate m opd faceplate =
     (if fd_schema_version faceplate \<notin> {1, 2} \<or> \<not> valid_ui_text (fd_title faceplate) \<or>
         fd_sections faceplate = [] \<or> length (fd_sections faceplate) > MAX_SECTIONS
      then Inl (ext_invalid ''faceplate.json has an unsupported schema or exceeds its limits'')
      else
      try_bind (check_sections (dm_signal m) (ui_controls_of opd) (fd_schema_version faceplate)
        (fd_sections faceplate) faceplate_start) (\<lambda>s.
      refuse (faceplate_incomplete (dm_signal m) (ui_controls_of opd) (fd_schema_version faceplate) s)
        (ext_invalid ''faceplate.json does not expose the complete closed Deck contract exactly once'')))"

definition validate_deck_ui_contract ::
    "('v, 'q) semver \<Rightarrow> ui_operator strict_externals \<Rightarrow> faceplate_descriptor strict_externals \<Rightarrow>
     deck_pack_manifest \<Rightarrow> u8 list \<Rightarrow> u8 list \<Rightarrow> unit ext_result" where
  "validate_deck_ui_contract sem operator_sx faceplate_sx m operator_json faceplate_json =
     try_bind (parse_strict_json operator_sx operator_json ''operator.json'') (\<lambda>opd.
     try_bind (parse_strict_json faceplate_sx faceplate_json ''faceplate.json'') (\<lambda>faceplate.
     try_bind (validate_ui_operator sem m opd) (\<lambda>_. validate_faceplate m opd faceplate)))"

end
