(* ===== verification/Deck_Interface_Exact.thy ===== *)
theory Deck_Interface_Exact
  imports Deck_Interface
begin

text \<open>
  The loops of \<open>deck_ui_contract.rs\<close> against a specification without state: the faceplate is accepted
  exactly when every widget fits its own rules and the widgets of all sections together show every
  slot, every control and every required surface once.
\<close>

section \<open>The specification\<close>

definition widget_slots :: "faceplate_widget \<Rightarrow> u8 list" where
  "widget_slots w = (case w of SourcePicker _ _ _ slot \<Rightarrow> [slot] | _ \<Rightarrow> [])"

definition widget_controls :: "faceplate_widget \<Rightarrow> string list" where
  "widget_controls w = (case w of
       Slider _ _ _ c _ _ _ \<Rightarrow> [c] | NumberWidget _ _ _ c _ _ _ \<Rightarrow> [c] | Toggle _ _ _ c \<Rightarrow> [c]
     | SelectWidget _ _ _ c _ \<Rightarrow> [c] | Barycentric3 _ _ _ x y _ \<Rightarrow> [x, y] | _ \<Rightarrow> [])"

definition normalized_default :: "ui_controls \<Rightarrow> string \<Rightarrow> u64 option" where
  "normalized_default controls c = (case controls c of
       Some (UiNumber _ d lo hi _) \<Rightarrow> if f64_eq lo f64_zero \<and> f64_eq hi f64_one then Some d else None
     | _ \<Rightarrow> None)"

definition widget_fits :: "deck_signal_descriptor \<Rightarrow> ui_controls \<Rightarrow> faceplate_widget \<Rightarrow> bool" where
  "widget_fits signal controls w = (case w of
       SourcePicker _ _ _ slot \<Rightarrow> slot \<in> expected_slots signal
     | Slider _ _ _ c lo hi step \<Rightarrow>
         (case controls c of Some d \<Rightarrow> numeric_widget_matches d lo hi step False | None \<Rightarrow> False)
     | NumberWidget _ _ _ c lo hi step \<Rightarrow>
         (case controls c of Some d \<Rightarrow> numeric_widget_matches d lo hi step True | None \<Rightarrow> False)
     | Toggle _ _ _ c \<Rightarrow> (\<exists>i b. controls c = Some (UiBoolean i b))
     | SelectWidget _ _ _ c options \<Rightarrow>
         options \<noteq> [] \<and> length options \<le> 64 \<and> distinct (map fpo_value options) \<and>
         (\<forall>x\<in>set options. valid_ui_identifier (fpo_value x) \<and> valid_ui_text (fpo_label x)) \<and>
         (\<exists>i d declared. controls c = Some (UiEnum i d declared) \<and>
            set declared = set (map fpo_value options))
     | RoleEditor _ _ _ roles \<Rightarrow> distinct roles \<and> set roles = expected_roles signal
     | Barycentric3 _ _ _ x y (r1, r2, r3) \<Rightarrow>
         distinct [r1, r2, r3] \<and> {r1, r2, r3} \<subseteq> expected_roles signal \<and>
         (\<exists>dx dy. normalized_default controls x = Some dx \<and> normalized_default controls y = Some dy \<and>
            \<not> outside_triangle dx dy)
     | TransportWidget _ _ _ slots \<Rightarrow> distinct slots \<and> set slots = expected_slots signal
     | SeedWidget _ _ _ \<Rightarrow> True
     | CaptureWidget _ _ _ modes \<Rightarrow>
         modes \<noteq> [] \<and> distinct modes \<and> (\<forall>mode\<in>set modes. capture_allowed signal mode)
     | MonitorWidget _ _ _ \<Rightarrow> True)"

definition widget_ok ::
    "deck_signal_descriptor \<Rightarrow> ui_controls \<Rightarrow> u16 \<Rightarrow> section_region option \<Rightarrow> faceplate_widget \<Rightarrow> bool" where
  "widget_ok signal controls version region w =
     (valid_ui_identifier (fw_id w) \<and> valid_ui_text (fw_label w) \<and> widget_fits signal controls w \<and>
      (if version = 1 then fw_visible_when w = None
       else validate_visibility controls (fw_visible_when w) = Inr () \<and> region = Some (widget_region w)))"

definition section_ok ::
    "deck_signal_descriptor \<Rightarrow> ui_controls \<Rightarrow> u16 \<Rightarrow> faceplate_section \<Rightarrow> bool" where
  "section_ok signal controls version sect =
     (valid_ui_identifier (fsec_section_id sect) \<and> valid_ui_text (fsec_title sect) \<and>
      (if version = 1 then fsec_region sect = None \<and> fsec_columns sect = None
       else fsec_region sect \<noteq> None \<and> (\<exists>n. fsec_columns sect = Some n \<and> 1 \<le> n \<and> n \<le> 4)) \<and>
      list_all (widget_ok signal controls version (fsec_region sect)) (fsec_widgets sect))"

definition how_many :: "('a \<Rightarrow> bool) \<Rightarrow> 'a list \<Rightarrow> nat" where
  "how_many P xs = length (filter P xs)"

definition faceplate_shows ::
    "deck_signal_descriptor \<Rightarrow> ui_controls \<Rightarrow> u16 \<Rightarrow> faceplate_section list \<Rightarrow> bool" where
  "faceplate_shows signal controls version sections =
     (let ws = concat (map fsec_widgets sections);
          slots = concat (map widget_slots ws);
          bound = concat (map widget_controls ws)
      in distinct (map fsec_section_id sections) \<and> distinct (map fw_id ws) \<and> length ws \<le> MAX_WIDGETS \<and>
         distinct slots \<and> set slots = expected_slots signal \<and>
         distinct bound \<and> set bound = dom controls \<and>
         how_many is_RoleEditor ws = 1 \<and> how_many is_TransportWidget ws = 1 \<and>
         how_many is_SeedWidget ws = 1 \<and> how_many is_MonitorWidget ws = 1 \<and>
         how_many is_CaptureWidget ws \<le> 1 \<and>
         (if version = 2 then how_many (\<lambda>x. fsec_region x = Some RegionOutput) sections = 1 else True))"

section \<open>The state of the loops\<close>

definition absorb_widgets :: "faceplate_widget list \<Rightarrow> faceplate_state \<Rightarrow> faceplate_state" where
  "absorb_widgets ws s = s\<lparr>
     fst_widget_ids := fst_widget_ids s @ map fw_id ws,
     fst_source_slots := fst_source_slots s @ concat (map widget_slots ws),
     fst_bound_controls := fst_bound_controls s @ concat (map widget_controls ws),
     fst_role_editors := fst_role_editors s + how_many is_RoleEditor ws,
     fst_transports := fst_transports s + how_many is_TransportWidget ws,
     fst_seeds := fst_seeds s + how_many is_SeedWidget ws,
     fst_captures := fst_captures s + how_many is_CaptureWidget ws,
     fst_monitors := fst_monitors s + how_many is_MonitorWidget ws\<rparr>"

definition section_outputs :: "u16 \<Rightarrow> faceplate_section list \<Rightarrow> nat" where
  "section_outputs version sects =
     (if version = 1 then 0 else how_many (\<lambda>x. fsec_region x = Some RegionOutput) sects)"

definition absorb_sections :: "u16 \<Rightarrow> faceplate_section list \<Rightarrow> faceplate_state \<Rightarrow> faceplate_state" where
  "absorb_sections version sects s =
     (let ws = concat (map fsec_widgets sects) in
      (absorb_widgets ws s)\<lparr>
        fst_section_ids := fst_section_ids s @ map fsec_section_id sects,
        fst_output_regions := fst_output_regions s + section_outputs version sects,
        fst_widgets := fst_widgets s + length ws\<rparr>)"

definition nothing_twice :: "faceplate_state \<Rightarrow> bool" where
  "nothing_twice s = (distinct (fst_section_ids s) \<and> distinct (fst_widget_ids s) \<and>
     distinct (fst_source_slots s) \<and> distinct (fst_bound_controls s) \<and> fst_widgets s \<le> MAX_WIDGETS)"

lemma absorb_nothing [simp]: "absorb_widgets [] s = s"
  by (simp add: absorb_widgets_def how_many_def)

lemma absorb_cons: "absorb_widgets (w # ws) s = absorb_widgets ws (absorb_widgets [w] s)"
  by (simp add: absorb_widgets_def how_many_def)

lemma absorb_no_section [simp]: "absorb_sections version [] s = s"
  by (simp add: absorb_sections_def section_outputs_def how_many_def Let_def)

lemma section_outputs_cons:
  "section_outputs version (x # xs) = section_outputs version [x] + section_outputs version xs"
  by (simp add: section_outputs_def how_many_def)

lemma how_many_append [simp]: "how_many P (xs @ ys) = how_many P xs + how_many P ys"
  by (simp add: how_many_def)

lemma absorb_sections_cons:
  "absorb_sections version (x # xs) s = absorb_sections version xs (absorb_sections version [x] s)"
  by (simp add: absorb_sections_def absorb_widgets_def section_outputs_cons [of version x xs] Let_def)

lemma absorbed_before: "nothing_twice (absorb_widgets ws s) \<Longrightarrow> nothing_twice s"
  by (simp add: nothing_twice_def absorb_widgets_def)

lemma absorbed_section_before: "nothing_twice (absorb_sections version xs s) \<Longrightarrow> nothing_twice s"
  by (simp add: nothing_twice_def absorb_sections_def absorb_widgets_def Let_def)

section \<open>The loops\<close>

lemma normalized_bound:
  "bind_normalized controls bound c = Inr r \<longleftrightarrow>
     (\<exists>d. normalized_default controls c = Some d \<and> c \<notin> set bound \<and> r = (d, bound @ [c]))"
  by (auto simp: bind_normalized_def normalized_default_def split: option.splits control_descriptor.splits)

lemma numeric_bound:
  "validate_numeric_widget controls bound c lo hi step b = Inr r \<longleftrightarrow>
     (case controls c of Some d \<Rightarrow> numeric_widget_matches d lo hi step b | None \<Rightarrow> False) \<and>
     c \<notin> set bound \<and> r = bound @ [c]"
  by (auto simp: validate_numeric_widget_def split: option.splits)

lemma capture_modes_few: "distinct (modes :: ui_capture_mode list) \<Longrightarrow> length modes \<le> 2"
proof -
  assume d: "distinct modes"
  have "set modes \<subseteq> {CaptureSnapshot, CaptureLive}"
    using ui_capture_mode.exhaust by auto
  then have "card (set modes) \<le> 2"
    using card_mono [of "{CaptureSnapshot, CaptureLive}" "set modes"] by simp
  then show "length modes \<le> 2" using d by (simp add: distinct_card)
qed

lemma same_length_set:
  "set xs = A \<and> length xs = card A \<longleftrightarrow> distinct xs \<and> set xs = A"
  by (metis card_distinct distinct_card)

lemma layout_checked:
  "check_layout controls version region w = Inr u \<longleftrightarrow>
     (if version = 1 then fw_visible_when w = None
      else validate_visibility controls (fw_visible_when w) = Inr () \<and> region = Some (widget_region w))"
  by (auto simp: check_layout_def try_bind_def refuse_def split: sum.splits if_splits)

lemmas widget_shapes = widget_fits_def widget_slots_def widget_controls_def absorb_widgets_def
  how_many_def nothing_twice_def check_widget_kind_def

lemma few_in_set: "card {a, b, c} = 3 \<longleftrightarrow> distinct [a, b, c]"
  by (simp add: card_insert_if)

lemma distinct_values:
  "card (set xs) \<noteq> length xs \<longleftrightarrow> \<not> distinct xs"
  by (metis card_distinct distinct_card)

lemma barycentric_absorbed:
  "check_widget_kind signal controls (Barycentric3 i l v x y (r1, r2, r3)) s = Inr s' \<longleftrightarrow>
     distinct [r1, r2, r3] \<and> {r1, r2, r3} \<subseteq> expected_roles signal \<and>
     (\<exists>dx dy. normalized_default controls x = Some dx \<and> normalized_default controls y = Some dy \<and>
        \<not> outside_triangle dx dy) \<and>
     x \<notin> set (fst_bound_controls s) \<and> y \<notin> set (fst_bound_controls s) \<and> x \<noteq> y \<and>
     s' = s\<lparr>fst_bound_controls := fst_bound_controls s @ [x, y]\<rparr>"
  unfolding check_widget_kind_def
  by (auto simp: few_in_set try_iffs normalized_bound split: if_splits)

lemma kind_absorbed:
  assumes "nothing_twice s"
  shows "check_widget_kind signal controls w (s\<lparr>fst_widget_ids := fst_widget_ids s @ [fw_id w]\<rparr>) = Inr s' \<and>
      fw_id w \<notin> set (fst_widget_ids s) \<longleftrightarrow>
    widget_fits signal controls w \<and> s' = absorb_widgets [w] s \<and> nothing_twice s'"
proof (cases w)
  case (SourcePicker i l v slot)
  then show ?thesis using assms by (auto simp: widget_shapes)
next
  case (Slider i l v c lo hi step)
  then show ?thesis using assms by (auto simp: widget_shapes try_iffs numeric_bound)
next
  case (NumberWidget i l v c lo hi step)
  then show ?thesis using assms by (auto simp: widget_shapes try_iffs numeric_bound)
next
  case (Toggle i l v c)
  then show ?thesis using assms
    by (auto simp: widget_shapes split: option.splits control_descriptor.splits if_splits)
next
  case (SelectWidget i l v c options)
  then show ?thesis using assms
    using distinct_values [of "map fpo_value options"]
    by (auto simp: widget_shapes list_ex_iff Let_def split: option.splits control_descriptor.splits if_splits)
next
  case (RoleEditor i l v roles)
  then show ?thesis using assms same_length_set [of roles "expected_roles signal"]
    by (auto simp: widget_shapes)
next
  case (Barycentric3 i l v x y rs)
  obtain r1 r2 r3 where rs: "rs = (r1, r2, r3)" by (cases rs)
  show ?thesis using assms unfolding Barycentric3 rs barycentric_absorbed
    by (auto simp: widget_fits_def widget_slots_def widget_controls_def absorb_widgets_def how_many_def
        nothing_twice_def)
next
  case (TransportWidget i l v slots)
  then show ?thesis using assms same_length_set [of slots "expected_slots signal"]
    by (auto simp: widget_shapes)
next
  case (SeedWidget i l v)
  then show ?thesis using assms by (auto simp: widget_shapes)
next
  case (CaptureWidget i l v modes)
  then show ?thesis using assms distinct_values [of modes] capture_modes_few [of modes]
    by (auto simp: widget_shapes list_ex_iff not_less)
next
  case (MonitorWidget i l v)
  then show ?thesis using assms by (auto simp: widget_shapes)
qed

lemma widget_absorbed:
  assumes "nothing_twice s"
  shows "check_widget signal controls version region w s = Inr s' \<longleftrightarrow>
    widget_ok signal controls version region w \<and> s' = absorb_widgets [w] s \<and> nothing_twice s'"
  using kind_absorbed [OF assms, of signal controls w s']
  by (auto simp: check_widget_def widget_ok_def try_iffs layout_checked)

lemma widgets_absorbed:
  assumes "nothing_twice s"
  shows "check_widgets signal controls version region ws s = Inr s' \<longleftrightarrow>
    list_all (widget_ok signal controls version region) ws \<and> s' = absorb_widgets ws s \<and> nothing_twice s'"
  using assms
proof (induction ws arbitrary: s)
  case Nil
  then show ?case by auto
next
  case (Cons w ws)
  show ?case
    using Cons.IH [of "absorb_widgets [w] s"] absorbed_before [of ws "absorb_widgets [w] s"]
    by (auto simp: try_iffs widget_absorbed [OF Cons.prems] absorb_cons [of w ws s])
qed

lemma section_layout_checked:
  "check_section_layout version sect = Inr n \<longleftrightarrow>
     (if version = 1 then fsec_region sect = None \<and> fsec_columns sect = None
      else fsec_region sect \<noteq> None \<and> (\<exists>n. fsec_columns sect = Some n \<and> 1 \<le> n \<and> n \<le> 4)) \<and>
     n = section_outputs version [sect]"
  by (auto simp: check_section_layout_def section_outputs_def how_many_def split: option.splits if_splits)

definition section_opened :: "u16 \<Rightarrow> faceplate_section \<Rightarrow> faceplate_state \<Rightarrow> faceplate_state" where
  "section_opened version sect s = s\<lparr>fst_section_ids := fst_section_ids s @ [fsec_section_id sect],
     fst_output_regions := fst_output_regions s + section_outputs version [sect],
     fst_widgets := fst_widgets s + length (fsec_widgets sect)\<rparr>"

lemma section_absorbed:
  assumes "nothing_twice s"
  shows "check_section signal controls version sect s = Inr s' \<longleftrightarrow>
    section_ok signal controls version sect \<and> s' = absorb_sections version [sect] s \<and> nothing_twice s'"
proof -
  let ?s1 = "section_opened version sect s"
  have absorbed: "absorb_widgets (fsec_widgets sect) ?s1 = absorb_sections version [sect] s"
    by (simp add: absorb_widgets_def absorb_sections_def section_opened_def Let_def)
  have opened: "nothing_twice ?s1 \<longleftrightarrow>
      fsec_section_id sect \<notin> set (fst_section_ids s) \<and> fst_widgets ?s1 \<le> MAX_WIDGETS"
    using assms by (auto simp: nothing_twice_def section_opened_def)
  have "check_section signal controls version sect s = Inr s' \<longleftrightarrow>
      valid_ui_identifier (fsec_section_id sect) \<and> valid_ui_text (fsec_title sect) \<and>
      check_section_layout version sect = Inr (section_outputs version [sect]) \<and> nothing_twice ?s1 \<and>
      check_widgets signal controls version (fsec_region sect) (fsec_widgets sect) ?s1 = Inr s'"
    unfolding opened
    by (auto simp: check_section_def try_iffs section_layout_checked Let_def section_opened_def)
  also have "\<dots> \<longleftrightarrow> section_ok signal controls version sect \<and> s' = absorb_sections version [sect] s \<and>
      nothing_twice s'"
    using widgets_absorbed [of ?s1 signal controls version "fsec_region sect" "fsec_widgets sect" s']
      absorbed_before [of "fsec_widgets sect" ?s1]
    by (auto simp: section_ok_def section_layout_checked absorbed)
  finally show ?thesis .
qed

lemma sections_absorbed:
  assumes "nothing_twice s"
  shows "check_sections signal controls version sects s = Inr s' \<longleftrightarrow>
    list_all (section_ok signal controls version) sects \<and> s' = absorb_sections version sects s \<and>
    nothing_twice s'"
  using assms
proof (induction sects arbitrary: s)
  case Nil
  then show ?case by auto
next
  case (Cons x xs)
  show ?case
    using Cons.IH [of "absorb_sections version [x] s"]
      absorbed_section_before [of version xs "absorb_sections version [x] s"]
    by (auto simp: try_iffs section_absorbed [OF Cons.prems] absorb_sections_cons [of version x xs s])
qed

lemma start_nothing_twice: "nothing_twice faceplate_start"
  by (simp add: nothing_twice_def faceplate_start_def)

lemma finite_controls: "finite (dom (ui_controls_of opd))"
  by (simp add: ui_controls_of_def finite_dom_map_of)

lemma covers_controls:
  assumes "finite (dom controls)"
  shows "card (set xs) = card (dom controls) \<and> \<not> list_ex (\<lambda>c. controls c = None) xs \<longleftrightarrow>
    set xs = dom controls"
proof -
  have "\<not> list_ex (\<lambda>c. controls c = None) xs \<longleftrightarrow> set xs \<subseteq> dom controls"
    by (auto simp: list_ex_iff dom_def)
  then show ?thesis using card_subset_eq [OF assms, of "set xs"] by auto
qed

text \<open>C37: A faceplate is accepted exactly when its version, title and number of sections are in bounds,
  every section and every widget is well formed by itself (layout, texts, visibility and the type of
  the control it binds), and all widgets together show each source slot once, bind each control of the
  operator once, and show one role editor, one transport, one seed and one monitor and at most one
  capture, with one output region in schema version 2.\<close>

theorem faceplate_exact:
  "validate_faceplate m opd faceplate = Inr () \<longleftrightarrow>
     (fd_schema_version faceplate = 1 \<or> fd_schema_version faceplate = 2) \<and>
     valid_ui_text (fd_title faceplate) \<and>
     1 \<le> length (fd_sections faceplate) \<and> length (fd_sections faceplate) \<le> MAX_SECTIONS \<and>
     list_all (section_ok (dm_signal m) (ui_controls_of opd) (fd_schema_version faceplate))
       (fd_sections faceplate) \<and>
     faceplate_shows (dm_signal m) (ui_controls_of opd) (fd_schema_version faceplate)
       (fd_sections faceplate)"
proof -
  let ?v = "fd_schema_version faceplate" and ?xs = "fd_sections faceplate"
  let ?c = "ui_controls_of opd"
  let ?s = "absorb_sections ?v ?xs faceplate_start"
  have state: "nothing_twice ?s \<and> \<not> faceplate_incomplete (dm_signal m) ?c ?v ?s \<longleftrightarrow>
      faceplate_shows (dm_signal m) ?c ?v ?xs" if "?v = 1 \<or> ?v = 2"
    using that covers_controls [OF finite_controls,
        of "concat (map widget_controls (concat (map fsec_widgets ?xs)))" opd]
    by (auto simp: nothing_twice_def faceplate_incomplete_def faceplate_shows_def absorb_sections_def
        absorb_widgets_def faceplate_start_def section_outputs_def Let_def)
  show ?thesis
    using state
    by (auto simp: validate_faceplate_def try_iffs sections_absorbed [OF start_nothing_twice] not_less Suc_le_eq)
qed

end
