(* ===== verification/Worker_Session.thy ===== *)
theory Worker_Session
  imports Protocol2_Session Protocol2_Codec Le_Bytes
begin

text \<open>
  The authenticated session with a worker of Protocol 2
  (\<open>crates/core/src/worker_supervisor/windows.rs\<close>, errors in \<open>worker_supervisor.rs\<close>).

  The operating system is a record of answers: the readings of the clock in nanoseconds, the random
  identifiers and the results of writes, each by the number of the call. What the worker does is the
  list of the events of its pipe and process that the session is still to meet: bytes, failures, the
  exit, and the moments at which a deadline passes; after the last event every wait ends at its deadline.
\<close>

section \<open>Errors\<close>

record worker_exit =
  we_success :: bool
  we_code :: "32 word option"

text \<open>Without the two variants that wrap the errors of Protocol 1, which its twin of this session
  returns. An error of the operating system is its number.\<close>

datatype worker_supervisor_error =
    SuUnsupportedPlatform | SuExtensionPackageKind | SuExtensionPackageDisabled
  | SuExtensionRuntimeUnavailable | SuRandom | SuBootstrapEncode | SuBootstrapTooLarge
  | SuPipeSecurity nat | SuPipeCreate nat | SuSpawn nat | SuWorkerEnvironment nat | SuJob nat
  | SuBootstrapWrite nat | SuConnectTimeout | SuHandshakeTimeout | SuReceiveTimeout
  | SuPeerProcessMismatch | SuProcessHandleUnavailable | SuAuthenticationFailed | SuUnexpectedHandshake
  | SuPipeIo nat | SuProtocol2Codec codec_error_v2 | SuProtocol2Session validation_error_v2
  | SuWorkerExited worker_exit | SuShutdownRejected | SuShutdownTimeout | SuTerminate nat

section \<open>The session\<close>

record worker_os =
  os_clock :: "nat \<Rightarrow> nat"
  os_uuid :: "nat \<Rightarrow> uuid"
  os_write :: "nat \<Rightarrow> (nat \<times> nat) option"
  os_process_handle :: "nat \<Rightarrow> bool"

datatype pipe_event = PipeByte u8 | PipeFailed nat | ChildExited "nat + worker_exit" | DeadlinePassed

record worker_session =
  ws_session_id :: uuid
  ws_worker_pid :: u32
  ws_validator :: session_validator_v2
  ws_started_at :: nat
  ws_input :: "pipe_event list"
  ws_output :: "u8 list"
  ws_readings :: nat
  ws_uuids :: nat
  ws_writes :: nat

definition read_clock :: "worker_os \<Rightarrow> worker_session \<Rightarrow> nat \<times> worker_session" where
  "read_clock os ws = (os_clock os (ws_readings ws), ws\<lparr>ws_readings := ws_readings ws + 1\<rparr>)"

definition new_uuid :: "worker_os \<Rightarrow> worker_session \<Rightarrow> uuid \<times> worker_session" where
  "new_uuid os ws = (os_uuid os (ws_uuids ws), ws\<lparr>ws_uuids := ws_uuids ws + 1\<rparr>)"

text \<open>\<open>write_all\<close>: a failed write gives its error and may have written a part.\<close>

definition pipe_write ::
    "worker_os \<Rightarrow> u8 list \<Rightarrow> worker_session \<Rightarrow> (worker_supervisor_error + unit) \<times> worker_session" where
  "pipe_write os bytes ws =
     (let ws1 = ws\<lparr>ws_writes := ws_writes ws + 1\<rparr> in
      case os_write os (ws_writes ws) of
        None \<Rightarrow> (Inr (), ws1\<lparr>ws_output := ws_output ws @ bytes\<rparr>)
      | Some (written, error) \<Rightarrow>
          (Inl (SuPipeIo error), ws1\<lparr>ws_output := ws_output ws @ take written bytes\<rparr>))"

text \<open>\<open>f(m?)\<close> for a method that returns the new state.\<close>

definition and_then :: "('e + 'a) \<times> 's \<Rightarrow> ('a \<Rightarrow> 's \<Rightarrow> ('e + 'b) \<times> 's) \<Rightarrow> ('e + 'b) \<times> 's" where
  "and_then m f = (case m of (Inl e, s) \<Rightarrow> (Inl e, s) | (Inr x, s) \<Rightarrow> f x s)"

lemma and_then_Inr [try_iffs]:
  "and_then m f = (Inr y, s') \<longleftrightarrow> (\<exists>x s. m = (Inr x, s) \<and> f x s = (Inr y, s'))"
  by (cases m; cases "fst m") (auto simp: and_then_def)

lemma and_then_Inl [try_iffs]:
  "and_then m f = (Inl e, s') \<longleftrightarrow> m = (Inl e, s') \<or> (\<exists>x s. m = (Inr x, s) \<and> f x s = (Inl e, s'))"
  by (cases m; cases "fst m") (auto simp: and_then_def)

lemma and_then_simps [simp]:
  "and_then (Inl e, s) f = (Inl e, s)"
  "and_then (Inr x, s) f = f x s"
  by (simp_all add: and_then_def)

definition write_envelope_v2 ::
    "worker_os \<Rightarrow> messagepack_codec \<Rightarrow> envelope_v2 \<Rightarrow> worker_session \<Rightarrow>
     (worker_supervisor_error + unit) \<times> worker_session" where
  "write_envelope_v2 os mp e ws =
     try_with (map_err SuProtocol2Codec (encode_messagepack mp e)) ws (\<lambda>payload.
     try_with (if length payload < 2 ^ 32 then Inr (of_nat (length payload))
               else Inl (SuProtocol2Codec CodecFrameLength)) ws (\<lambda>len.
     and_then (pipe_write os (u32_to_le len) ws) (\<lambda>_ ws.
     and_then (pipe_write os payload ws) (\<lambda>_ ws.
     pipe_write os [] ws))))"

text \<open>\<open>read_exact\<close>, with the wait for the process and the deadline beside it: the exit stays to be
  met again.\<close>

datatype pipe_stop = StopIo nat | StopExit "nat + worker_exit" | StopDeadline

fun read_pipe :: "nat \<Rightarrow> pipe_event list \<Rightarrow> (pipe_stop + u8 list) \<times> pipe_event list" where
  "read_pipe 0 es = (Inr [], es)"
| "read_pipe (Suc n) [] = (Inl StopDeadline, [])"
| "read_pipe (Suc n) (e # es) = (case e of
       PipeByte b \<Rightarrow> (case read_pipe n es of
           (Inr bs, rest) \<Rightarrow> (Inr (b # bs), rest)
         | (Inl stop, rest) \<Rightarrow> (Inl stop, rest))
     | PipeFailed k \<Rightarrow> (Inl (StopIo k), es)
     | ChildExited r \<Rightarrow> (Inl (StopExit r), e # es)
     | DeadlinePassed \<Rightarrow> (Inl StopDeadline, es))"

definition process_exit_error :: "nat + worker_exit \<Rightarrow> worker_supervisor_error" where
  "process_exit_error r = (case r of Inr x \<Rightarrow> SuWorkerExited x | Inl k \<Rightarrow> SuPipeIo k)"

definition stop_error :: "worker_supervisor_error \<Rightarrow> pipe_stop \<Rightarrow> worker_supervisor_error" where
  "stop_error timeout stop = (case stop of
       StopIo k \<Rightarrow> SuPipeIo k | StopExit r \<Rightarrow> process_exit_error r | StopDeadline \<Rightarrow> timeout)"

text \<open>\<open>read_envelope_v2\<close> under \<open>timeout_at\<close>: what was read before the deadline is lost.\<close>

definition read_envelope_v2 ::
    "messagepack_codec \<Rightarrow> worker_supervisor_error \<Rightarrow> pipe_event list \<Rightarrow>
     (worker_supervisor_error + envelope_v2) \<times> pipe_event list" where
  "read_envelope_v2 mp timeout es =
     (case read_pipe 4 es of
        (Inl stop, rest) \<Rightarrow> (Inl (stop_error timeout stop), rest)
      | (Inr prefix, rest) \<Rightarrow>
          let len = unat (u32_from_le prefix) in
          if \<not> (1 \<le> len \<and> len \<le> MAX_FRAME_BYTES) then (Inl (SuProtocol2Codec CodecFrameLength), rest)
          else (case read_pipe len rest of
              (Inl stop, rest) \<Rightarrow> (Inl (stop_error timeout stop), rest)
            | (Inr payload, rest) \<Rightarrow> (map_err SuProtocol2Codec (decode_messagepack mp payload), rest)))"

definition elapsed_ns :: "nat \<Rightarrow> nat \<Rightarrow> u64" where
  "elapsed_ns started_at now = (if now - started_at < 2 ^ 64 then of_nat (now - started_at) else - 1)"

definition send_command_v2 ::
    "worker_os \<Rightarrow> messagepack_codec \<Rightarrow> command_v2 \<Rightarrow> worker_session \<Rightarrow>
     (worker_supervisor_error + uuid) \<times> worker_session" where
  "send_command_v2 os mp command ws =
     (let (message_id, ws) = new_uuid os ws;
          (now, ws) = read_clock os ws;
          e = new_envelope_v2 (ws_session_id ws) (sv2_next_outbound_sequence (ws_validator ws)) message_id
                (elapsed_ns (ws_started_at ws) now) (M2Command command);
          (tracked, v) = track_outbound_command_v2 (ws_validator ws) e;
          ws = ws\<lparr>ws_validator := v\<rparr>
      in try_with (map_err SuProtocol2Session tracked) ws (\<lambda>_.
         and_then (write_envelope_v2 os mp e ws) (\<lambda>_ ws. (Inr message_id, ws))))"

definition receive_v2 ::
    "worker_os \<Rightarrow> messagepack_codec \<Rightarrow> worker_session \<Rightarrow>
     (worker_supervisor_error + envelope_v2) \<times> worker_session" where
  "receive_v2 os mp ws =
     (let (now, ws) = read_clock os ws;
          (r, rest) = read_envelope_v2 mp SuReceiveTimeout (ws_input ws);
          ws = ws\<lparr>ws_input := rest\<rparr>
      in try_with r ws (\<lambda>e.
           let (checked, v) = validate_inbound_v2 (ws_validator ws) e;
               ws = ws\<lparr>ws_validator := v\<rparr>
           in try_with (map_err SuProtocol2Session checked) ws (\<lambda>_. (Inr e, ws))))"

section \<open>Authentication\<close>

record pending_worker =
  pw_session_id :: uuid
  pw_expected_token :: "u8 list"
  pw_worker_pid :: u32
  pw_connected :: "pipe_stop + unit"
  pw_client_pid :: "nat + u32"
  pw_input :: "pipe_event list"

text \<open>\<open>connect\<close>: the state that a failed call leaves is dropped with the pending worker. The clock is
  read once for the deadline and once for \<open>started_at\<close>.\<close>

definition connect_v2 ::
    "worker_os \<Rightarrow> messagepack_codec \<Rightarrow> pending_worker \<Rightarrow> worker_supervisor_error + worker_session" where
  "connect_v2 os mp pw =
     try_bind (map_err (stop_error SuConnectTimeout) (pw_connected pw)) (\<lambda>_.
     try_bind (map_err SuPipeIo (pw_client_pid pw)) (\<lambda>client_pid.
     if client_pid \<noteq> pw_worker_pid pw then Inl SuPeerProcessMismatch
     else case read_envelope_v2 mp SuHandshakeTimeout (pw_input pw) of
       (Inl error, rest) \<Rightarrow> Inl error
     | (Inr first, rest) \<Rightarrow>
         let (checked, validator) =
               validate_inbound_v2 (new_session_validator_v2 (pw_session_id pw) ResponsesAndEventsV2) first
         in try_bind (map_err SuProtocol2Session checked) (\<lambda>_.
            case en2_message first of
              M2Event event_message \<Rightarrow>
                if em2_caused_by event_message \<noteq> None then Inl SuUnexpectedHandshake
                else (case em2_event event_message of
                    WorkerHelloEvent hello \<Rightarrow>
                      if wh2_worker_pid hello \<noteq> pw_worker_pid pw \<or>
                         \<not> constant_time_eq_v2 (wh2_auth_token hello) (pw_expected_token pw)
                      then Inl SuAuthenticationFailed
                      else Inr \<lparr>ws_session_id = pw_session_id pw, ws_worker_pid = pw_worker_pid pw,
                        ws_validator = validator, ws_started_at = os_clock os 1, ws_input = rest,
                        ws_output = [], ws_readings = 2, ws_uuids = 0, ws_writes = 0\<rparr>
                  | _ \<Rightarrow> Inl SuUnexpectedHandshake)
            | _ \<Rightarrow> Inl SuUnexpectedHandshake)))"

section \<open>Reading consumes\<close>

lemma read_pipe_shorter: "read_pipe n es = (r, rest) \<Longrightarrow> length rest \<le> length es"
  by (induction n es arbitrary: r rest rule: read_pipe.induct)
    (auto split: pipe_event.splits prod.splits sum.splits intro: le_SucI)

lemma read_pipe_bytes: "read_pipe n es = (Inr bs, rest) \<Longrightarrow> length es = length rest + n \<and> length bs = n"
  by (induction n es arbitrary: bs rest rule: read_pipe.induct)
    (auto split: pipe_event.splits prod.splits sum.splits)

lemma read_envelope_shorter: "read_envelope_v2 mp t es = (Inr e, rest) \<Longrightarrow> length rest < length es"
  by (auto simp: read_envelope_v2_def Let_def dest!: read_pipe_bytes split: prod.splits sum.splits if_splits)

lemma received:
  "receive_v2 os mp ws = (Inr e, ws') \<longleftrightarrow>
     (\<exists>rest v. read_envelope_v2 mp SuReceiveTimeout (ws_input ws) = (Inr e, rest) \<and>
        validate_inbound_v2 (ws_validator ws) e = (Inr (), v) \<and>
        ws' = ws\<lparr>ws_readings := Suc (ws_readings ws), ws_input := rest, ws_validator := v\<rparr>)"
  by (cases "read_envelope_v2 mp SuReceiveTimeout (ws_input ws)";
      cases "fst (read_envelope_v2 mp SuReceiveTimeout (ws_input ws))";
      cases "validate_inbound_v2 (ws_validator ws) e")
    (auto simp: receive_v2_def read_clock_def try_iffs Let_def split: prod.split_asm prod.split)

lemma receive_input:
  "receive_v2 os mp ws = (Inr e, ws') \<Longrightarrow> length (ws_input ws') < length (ws_input ws)"
  by (auto simp: received dest!: read_envelope_shorter)

lemma receive_output:
  "receive_v2 os mp ws = (r, ws') \<Longrightarrow> ws_output ws' = ws_output ws"
  by (cases "read_envelope_v2 mp SuReceiveTimeout (ws_input ws)";
      cases "fst (read_envelope_v2 mp SuReceiveTimeout (ws_input ws))";
      cases "validate_inbound_v2 (ws_validator ws) (projr (fst (read_envelope_v2 mp SuReceiveTimeout (ws_input ws))))";
      cases "fst (validate_inbound_v2 (ws_validator ws) (projr (fst (read_envelope_v2 mp SuReceiveTimeout (ws_input ws)))))")
    (auto simp: receive_v2_def read_clock_def Let_def)

section \<open>Frames\<close>

definition wire_frame :: "u8 list \<Rightarrow> u8 list" where
  "wire_frame payload = u32_to_le (of_nat (length payload)) @ payload"

lemma read_pipe_arrived: "read_pipe (length bs) (map PipeByte bs @ es) = (Inr bs, es)"
  by (induction bs) auto

lemma read_written_frame_v2:
  assumes "1 \<le> length p" and "length p \<le> 262144"
  shows "read_envelope_v2 mp t (map PipeByte (wire_frame p) @ es) =
    (map_err SuProtocol2Codec (decode_messagepack mp p), es)"
proof -
  let ?prefix = "u32_to_le (of_nat (length p))"
  have four: "length ?prefix = 4"
    by (simp add: le32.length_enc)
  have len: "unat (u32_from_le ?prefix) = length p"
    using assms by (simp add: le32.dec_enc unat_of_nat_fits)
  show ?thesis
    using read_pipe_arrived [of ?prefix "map PipeByte p @ es"] read_pipe_arrived [of p es] assms
    by (simp add: read_envelope_v2_def wire_frame_def four len Let_def constants_v2)
qed

end
