(* ===== verification/Request_Channel.thy ===== *)
theory Request_Channel
  imports LD_Prelude
begin

text \<open>
  The interface between a client that has one request open at a time and the code that converses over
  it: what a successful request guarantees, and what a failed one cannot be.
\<close>

text \<open>Requests made one after the other, until the first that fails.\<close>

fun call_all :: "('m \<Rightarrow> 'c \<Rightarrow> ('e + 'r) \<times> 'c) \<Rightarrow> 'm list \<Rightarrow> 'c \<Rightarrow> ('e + 'r list) \<times> 'c" where
  "call_all call [] c = (Inr [], c)"
| "call_all call (m # ms) c = (case call m c of
       (Inl e, c1) \<Rightarrow> (Inl e, c1)
     | (Inr r, c1) \<Rightarrow> (case call_all call ms c1 of
         (Inl e, c2) \<Rightarrow> (Inl e, c2)
       | (Inr rs, c2) \<Rightarrow> (Inr (r # rs), c2)))"

locale request_channel =
  fixes call :: "'m \<Rightarrow> 'c \<Rightarrow> ('e + 'r) \<times> 'c"
    and ready :: "'c \<Rightarrow> bool"
    and answers :: "'m \<Rightarrow> 'r \<Rightarrow> bool"
    and sent :: "'m list \<Rightarrow> 'c \<Rightarrow> 'c \<Rightarrow> bool"
    and confused :: "'e \<Rightarrow> bool"
  assumes answered: "ready c \<Longrightarrow> call m c = (Inr r, c') \<Longrightarrow> answers m r \<and> ready c' \<and> sent [m] c c'"
    and refused: "ready c \<Longrightarrow> call m c = (Inl e, c') \<Longrightarrow> \<not> confused e"
    and sent_nothing: "sent [] c c"
    and sent_more: "sent ms c c1 \<Longrightarrow> sent ns c1 c2 \<Longrightarrow> sent (ms @ ns) c c2"
begin

lemma all_answered:
  "ready c \<Longrightarrow> call_all call ms c = (Inr rs, c') \<Longrightarrow> list_all2 answers ms rs \<and> ready c' \<and> sent ms c c'"
proof (induction ms arbitrary: c rs)
  case Nil
  then show ?case by (simp add: sent_nothing)
next
  case (Cons m ms)
  then obtain r c1 rs' where c1: "call m c = (Inr r, c1)" and rs: "rs = r # rs'"
    and rest: "call_all call ms c1 = (Inr rs', c')"
    by (auto split: prod.splits sum.splits)
  from answered [OF Cons.prems(1) c1]
  have one: "answers m r" "ready c1" "sent [m] c c1"
    by auto
  from Cons.IH [OF one(2) rest] have "list_all2 answers ms rs'" "ready c'" "sent ms c1 c'"
    by auto
  then show ?case
    using one sent_more [of "[m]" c c1 ms c'] by (simp add: rs)
qed

lemma never_confused: "ready c \<Longrightarrow> call_all call ms c = (Inl e, c') \<Longrightarrow> \<not> confused e"
proof (induction ms arbitrary: c)
  case Nil
  then show ?case by simp
next
  case (Cons m ms)
  show ?case
  proof (cases "call m c")
    case (Pair r c1)
    then show ?thesis
      using Cons refused [of c m e c1] answered [of c m _ c1]
      by (cases r) (auto split: prod.splits sum.splits)
  qed
qed

end

end
