(* ===== verification/Worker_Client.thy ===== *)
theory Worker_Client
  imports Worker_Session Request_Channel
begin

text \<open>
  The sequential client on an authenticated session (\<open>crates/core/src/worker_client_v2.rs\<close>), and the
  shutdown of the session (\<open>request_shutdown\<close> of \<open>worker_supervisor/windows.rs\<close>): loops that
  receive until the reply to the command that was sent, or a deadline, or a failure.
\<close>

section \<open>The client\<close>

record remote_worker_error =
  rw_code :: error_code_v2
  rw_message :: string
  rw_retryable :: bool
  rw_fatal :: bool
  rw_status :: status_snapshot_v2
  rw_diagnostic_id :: uuid

definition remote_error_of :: "error_payload_v2 \<Rightarrow> remote_worker_error" where
  "remote_error_of e = \<lparr>rw_code = ep2_code e, rw_message = ep2_message e, rw_retryable = ep2_retryable e,
     rw_fatal = ep2_fatal e, rw_status = ep2_status e, rw_diagnostic_id = ep2_diagnostic_id e\<rparr>"

datatype worker_client_error =
    ClSupervisor worker_supervisor_error
  | ClRemote remote_worker_error
  | ClCommandTimeout command_name_v2
  | ClHeartbeatTimeout command_name_v2
  | ClUnexpectedReply
  | ClUnexpectedAck command_name_v2 command_name_v2

record worker_client =
  wc_session :: worker_session
  wc_heartbeat_hard_timeout :: "nat option"
  wc_last_heartbeat :: nat
  wc_last_status :: "status_snapshot_v2 option"
  wc_last_metrics :: "metrics_snapshot_v2 option"

definition client_clock :: "worker_os \<Rightarrow> worker_client \<Rightarrow> nat \<times> worker_client" where
  "client_clock os c = (let (now, ws) = read_clock os (wc_session c) in (now, c\<lparr>wc_session := ws\<rparr>))"

definition new_worker_client :: "worker_os \<Rightarrow> worker_session \<Rightarrow> worker_client" where
  "new_worker_client os ws =
     (let (now, ws) = read_clock os ws in
      \<lparr>wc_session = ws, wc_heartbeat_hard_timeout = None, wc_last_heartbeat = now,
       wc_last_status = None, wc_last_metrics = None\<rparr>)"

definition heartbeat_remaining :: "nat \<Rightarrow> nat \<Rightarrow> nat option \<Rightarrow> nat \<Rightarrow> nat option" where
  "heartbeat_remaining last_heartbeat command_started_at hard_timeout now =
     map_option (\<lambda>timeout. max last_heartbeat command_started_at + timeout - now) hard_timeout"

text \<open>What the loop of \<open>call\<close> knows of the pending command.\<close>

record pending_call =
  pc_command_name :: command_name_v2
  pc_configured_heartbeat :: "nat option"
  pc_command_id :: uuid
  pc_started_at :: nat
  pc_deadline :: nat

text \<open>The match on the message: the result of \<open>call\<close>, or \<open>None\<close> when the loop goes on.\<close>

definition handle_event_v2 ::
    "worker_os \<Rightarrow> event_v2 \<Rightarrow> worker_client \<Rightarrow>
     (worker_client_error + ack_v2) option \<times> worker_client" where
  "handle_event_v2 os event c = (case event of
       WorkerHeartbeatEvent status \<Rightarrow>
         let (now, c) = client_clock os c in
         (None, c\<lparr>wc_last_heartbeat := now, wc_last_status := Some status\<rparr>)
     | StatusChangedEvent status \<Rightarrow> (None, c\<lparr>wc_last_status := Some status\<rparr>)
     | WorkerFaultEvent error \<Rightarrow> (Some (Inl (ClRemote (remote_error_of error))), c)
     | WorkerHelloEvent hello \<Rightarrow> (Some (Inl ClUnexpectedReply), c))"

definition handle_ack_v2 ::
    "worker_os \<Rightarrow> pending_call \<Rightarrow> ack_reply_v2 \<Rightarrow> worker_client \<Rightarrow>
     (worker_client_error + ack_v2) option \<times> worker_client" where
  "handle_ack_v2 os pc reply c =
     (let actual = ack_name_of_v2 (ar2_ack reply) in
      if actual \<noteq> pc_command_name pc then (Some (Inl (ClUnexpectedAck (pc_command_name pc) actual)), c)
      else
        let c = c\<lparr>wc_last_status := Some (ar2_status reply)\<rparr>;
            c = (case ar2_ack reply of
                   A2MetricsGet metrics \<Rightarrow> c\<lparr>wc_last_metrics := Some metrics\<rparr> | _ \<Rightarrow> c);
            c = (case ar2_ack reply of
                   A2SessionConfigure configured \<Rightarrow>
                     (let (now, c) = client_clock os c in
                      c\<lparr>wc_heartbeat_hard_timeout := pc_configured_heartbeat pc, wc_last_heartbeat := now\<rparr>)
                 | _ \<Rightarrow> c)
        in (Some (Inr (ar2_ack reply)), c))"

definition handle_message_v2 ::
    "worker_os \<Rightarrow> pending_call \<Rightarrow> message_v2 \<Rightarrow> worker_client \<Rightarrow>
     (worker_client_error + ack_v2) option \<times> worker_client" where
  "handle_message_v2 os pc msg c = (case msg of
       M2Ack reply \<Rightarrow>
         if ar2_reply_to reply = pc_command_id pc then handle_ack_v2 os pc reply c
         else (Some (Inl ClUnexpectedReply), c)
     | M2Error reply \<Rightarrow>
         if er2_reply_to reply = pc_command_id pc
         then (Some (Inl (ClRemote (remote_error_of (er2_error reply)))), c)
         else (Some (Inl ClUnexpectedReply), c)
     | M2Event event \<Rightarrow> handle_event_v2 os (em2_event event) c
     | M2Command command \<Rightarrow> (Some (Inl ClUnexpectedReply), c))"

lemma handle_keeps_input:
  "handle_message_v2 os pc msg c = (r, c') \<Longrightarrow> ws_input (wc_session c') = ws_input (wc_session c)"
  by (auto simp: handle_message_v2_def handle_event_v2_def handle_ack_v2_def client_clock_def
      read_clock_def Let_def split: message_v2.splits event_v2.splits if_splits ack_v2.splits)

text \<open>One turn of the loop: the result, or the client with which it goes on.\<close>

definition call_turn ::
    "worker_os \<Rightarrow> messagepack_codec \<Rightarrow> pending_call \<Rightarrow> worker_client \<Rightarrow>
     (worker_client_error + ack_v2) option \<times> worker_client" where
  "call_turn os mp pc c =
     (let (now, c) = client_clock os c;
          remaining = pc_deadline pc - now;
          heartbeat = heartbeat_remaining (wc_last_heartbeat c) (pc_started_at pc)
            (wc_heartbeat_hard_timeout c) now
      in if remaining = 0 then (Some (Inl (ClCommandTimeout (pc_command_name pc))), c)
      else if heartbeat = Some 0 then (Some (Inl (ClHeartbeatTimeout (pc_command_name pc))), c)
      else case receive_v2 os mp (wc_session c) of
          (Inr e, ws) \<Rightarrow> handle_message_v2 os pc (en2_message e) (c\<lparr>wc_session := ws\<rparr>)
        | (Inl error, ws) \<Rightarrow>
            (Some (Inl
               (if error = SuReceiveTimeout
                then (if (case heartbeat of Some h \<Rightarrow> h \<le> remaining | None \<Rightarrow> False)
                      then ClHeartbeatTimeout (pc_command_name pc) else ClCommandTimeout (pc_command_name pc))
                else ClSupervisor error)), c\<lparr>wc_session := ws\<rparr>))"

lemma call_turn_shorter:
  "call_turn os mp pc c = (None, c') \<Longrightarrow> length (ws_input (wc_session c')) < length (ws_input (wc_session c))"
  by (auto simp: call_turn_def client_clock_def read_clock_def Let_def split: if_splits prod.splits sum.splits
      dest!: receive_input handle_keeps_input)

text \<open>Every turn that goes on has read a frame, so the loop ends.\<close>

function call_loop ::
    "worker_os \<Rightarrow> messagepack_codec \<Rightarrow> pending_call \<Rightarrow> worker_client \<Rightarrow>
     (worker_client_error + ack_v2) \<times> worker_client" where
  "call_loop os mp pc c =
     (case call_turn os mp pc c of (Some r, c1) \<Rightarrow> (r, c1) | (None, c1) \<Rightarrow> call_loop os mp pc c1)"
  by pat_completeness auto
termination
  by (relation "measure (\<lambda>(os, mp, pc, c). length (ws_input (wc_session c)))")
    (auto dest: call_turn_shorter [OF sym])

declare call_loop.simps [simp del]

definition configured_heartbeat :: "command_v2 \<Rightarrow> nat option" where
  "configured_heartbeat command = (case command of
       C2SessionConfigure configure \<Rightarrow> Some (unat (sc2_heartbeat_hard_timeout_ms configure) * 1000000)
     | _ \<Rightarrow> None)"

definition call_v2 ::
    "worker_os \<Rightarrow> messagepack_codec \<Rightarrow> command_v2 \<Rightarrow> nat \<Rightarrow> worker_client \<Rightarrow>
     (worker_client_error + ack_v2) \<times> worker_client" where
  "call_v2 os mp command command_timeout c =
     (case send_command_v2 os mp command (wc_session c) of
        (Inl error, ws) \<Rightarrow> (Inl (ClSupervisor error), c\<lparr>wc_session := ws\<rparr>)
      | (Inr command_id, ws) \<Rightarrow>
          let (started, c) = client_clock os (c\<lparr>wc_session := ws\<rparr>);
              (now, c) = client_clock os c
          in call_loop os mp
               \<lparr>pc_command_name = command_name_of_v2 command,
                pc_configured_heartbeat = configured_heartbeat command, pc_command_id = command_id,
                pc_started_at = started, pc_deadline = now + command_timeout\<rparr> c)"

section \<open>Shutdown of the session\<close>

definition shutdown_reply :: "uuid \<Rightarrow> shutdown_reason_v2 \<Rightarrow> message_v2 \<Rightarrow> (worker_supervisor_error + unit) option" where
  "shutdown_reply command_id reason msg = (case msg of
       M2Ack reply \<Rightarrow>
         if ar2_reply_to reply = command_id
         then Some (case ar2_ack reply of
             A2SessionShutdown ack \<Rightarrow> if sa_reason ack = reason then Inr () else Inl SuShutdownRejected
           | _ \<Rightarrow> Inl SuShutdownRejected)
         else None
     | M2Error reply \<Rightarrow> if er2_reply_to reply = command_id then Some (Inl SuShutdownRejected) else None
     | _ \<Rightarrow> None)"

definition shutdown_turn ::
    "worker_os \<Rightarrow> messagepack_codec \<Rightarrow> uuid \<Rightarrow> shutdown_reason_v2 \<Rightarrow> nat \<Rightarrow> worker_session \<Rightarrow>
     (worker_supervisor_error + unit) option \<times> worker_session" where
  "shutdown_turn os mp command_id reason deadline ws =
     (let (now, ws) = read_clock os ws in
      if deadline - now = 0 then (Some (Inl SuShutdownTimeout), ws)
      else case receive_v2 os mp ws of
          (Inr e, ws) \<Rightarrow> (shutdown_reply command_id reason (en2_message e), ws)
        | (Inl error, ws) \<Rightarrow>
            (Some (Inl (if error = SuReceiveTimeout then SuShutdownTimeout else error)), ws))"

lemma shutdown_turn_shorter:
  "shutdown_turn os mp i reason d ws = (None, ws') \<Longrightarrow> length (ws_input ws') < length (ws_input ws)"
  by (auto simp: shutdown_turn_def read_clock_def Let_def split: if_splits prod.splits sum.splits
      dest!: receive_input)

function shutdown_loop ::
    "worker_os \<Rightarrow> messagepack_codec \<Rightarrow> uuid \<Rightarrow> shutdown_reason_v2 \<Rightarrow> nat \<Rightarrow> worker_session \<Rightarrow>
     (worker_supervisor_error + unit) \<times> worker_session" where
  "shutdown_loop os mp command_id reason deadline ws =
     (case shutdown_turn os mp command_id reason deadline ws of
        (Some r, ws1) \<Rightarrow> (r, ws1)
      | (None, ws1) \<Rightarrow> shutdown_loop os mp command_id reason deadline ws1)"
  by pat_completeness auto
termination
  by (relation "measure (\<lambda>(os, mp, i, reason, d, ws). length (ws_input ws))")
    (auto dest: shutdown_turn_shorter [OF sym])

declare shutdown_loop.simps [simp del]

text \<open>The wait for the process alone, until the deadline.\<close>

fun child_wait :: "pipe_event list \<Rightarrow> (nat + worker_exit) option" where
  "child_wait [] = None"
| "child_wait (ChildExited r # es) = Some r"
| "child_wait (DeadlinePassed # es) = None"
| "child_wait (PipeByte b # es) = child_wait es"
| "child_wait (PipeFailed k # es) = child_wait es"

definition request_shutdown ::
    "worker_os \<Rightarrow> messagepack_codec \<Rightarrow> shutdown_reason_v2 \<Rightarrow> nat \<Rightarrow> worker_session \<Rightarrow>
     (worker_supervisor_error + worker_exit) \<times> worker_session" where
  "request_shutdown os mp reason timeout ws =
     and_then (send_command_v2 os mp (C2SessionShutdown \<lparr>ss2_reason = reason\<rparr>) ws) (\<lambda>command_id ws.
     let (now, ws) = read_clock os ws; deadline = now + timeout in
     and_then (shutdown_loop os mp command_id reason deadline ws) (\<lambda>_ ws.
     let (now, ws) = read_clock os ws in
     if deadline - now = 0 then (Inl SuShutdownTimeout, ws)
     else try_with (ok_or (child_wait (ws_input ws)) SuShutdownTimeout) ws (\<lambda>r.
       try_with (map_err SuPipeIo r) ws (\<lambda>status. (Inr status, ws)))))"

section \<open>One command at a time\<close>

text \<open>The validator before a command, and while one command waits for its reply.\<close>

definition host_ready :: "session_validator_v2 \<Rightarrow> bool" where
  "host_ready v = (sv2_policy v = ResponsesAndEventsV2 \<and> sv2_worker_hello_received v \<and>
     sv2_pending_replies v = {||})"

definition host_awaits :: "session_validator_v2 \<Rightarrow> uuid \<Rightarrow> command_name_v2 \<Rightarrow> bool" where
  "host_awaits v i name = (sv2_policy v = ResponsesAndEventsV2 \<and> sv2_worker_hello_received v \<and>
     sv2_pending_replies v = {|i|} \<and> fmlookup (sv2_outbound_commands v) i = Some name)"

lemma tracked_awaits:
  "host_ready v \<Longrightarrow> en2_message e = M2Command command \<Longrightarrow> track_outbound_command_v2 v e = (Inr (), v') \<Longrightarrow>
     host_awaits v' (en2_message_id e) (command_name_of_v2 command)"
  by (auto simp: host_ready_def host_awaits_def track_outbound_command_v2_def try_iffs Let_def
      split: if_splits)

lemma reply_matches:
  "validate_reply_v2 v reply_to name = Inr () \<longleftrightarrow>
     reply_to |\<in>| sv2_pending_replies v \<and> fmlookup (sv2_outbound_commands v) reply_to = Some name"
  by (auto simp: validate_reply_v2_def try_iffs split: if_splits)

definition fits_pending :: "uuid \<Rightarrow> command_name_v2 \<Rightarrow> message_v2 \<Rightarrow> session_validator_v2 \<Rightarrow> bool" where
  "fits_pending i name msg v = (case msg of
       M2Ack r \<Rightarrow> ar2_reply_to r = i \<and> ack_name_of_v2 (ar2_ack r) = name \<and>
         validate_ack_v2 (ar2_ack r) = Inr () \<and> host_ready v
     | M2Error r \<Rightarrow> er2_reply_to r = i \<and> er2_name r = name \<and> host_ready v
     | M2Event ev \<Rightarrow> \<not> is_hello msg \<and> host_awaits v i name
     | M2Command c \<Rightarrow> False)"

lemma accepted_inbound:
  assumes "validate_inbound_v2 v e = (Inr (), v')"
  obtains completed v1 where "accept_message_v2 v (en2_message e) = (Inr completed, v1)"
    "validate_envelope_v2 e = Inr ()"
    "sv2_policy v' = sv2_policy v1" "sv2_worker_hello_received v' = sv2_worker_hello_received v1"
    "sv2_outbound_commands v' = sv2_outbound_commands v1"
    "sv2_pending_replies v' = sv2_pending_replies v1 |-| fset_of_list (case completed of Some i \<Rightarrow> [i] | None \<Rightarrow> [])"
proof (cases "accept_message_v2 v (en2_message e)")
  case (Pair r v1)
  then obtain completed where r: "r = Inr completed"
    using assms by (cases r) (auto simp: validate_inbound_v2_def try_iffs split: if_split_asm)
  show ?thesis
  proof (rule that [of completed v1])
    show "accept_message_v2 v (en2_message e) = (Inr completed, v1)"
      using Pair r by simp
  qed (use assms Pair r in \<open>cases completed; auto simp: validate_inbound_v2_def try_iffs Let_def
      split: if_split_asm\<close>)+
qed

lemma accepted_message:
  assumes "host_awaits v i name" and "accept_message_v2 v msg = (Inr completed, v1)"
  shows "v1 = v \<and> (case msg of
       M2Ack r \<Rightarrow> ar2_reply_to r = i \<and> ack_name_of_v2 (ar2_ack r) = name \<and> completed = Some i
     | M2Error r \<Rightarrow> er2_reply_to r = i \<and> er2_name r = name \<and> completed = Some i
     | M2Event ev \<Rightarrow> \<not> is_hello msg \<and> completed = None
     | M2Command c \<Rightarrow> False)"
proof (cases msg)
  case (M2Event ev)
  then show ?thesis using assms
    by (cases "em2_event ev"; cases "em2_caused_by ev")
      (auto simp: accept_message_v2_def host_awaits_def split: if_split_asm)
qed (use assms in \<open>auto simp: accept_message_v2_def host_awaits_def try_iffs reply_matches\<close>)

lemma inbound_fits:
  assumes "host_awaits v i name" and "validate_inbound_v2 v e = (Inr (), v')"
  shows "fits_pending i name (en2_message e) v'"
  using assms(2)
proof (rule accepted_inbound)
  fix completed v1
  assume a: "accept_message_v2 v (en2_message e) = (Inr completed, v1)" "validate_envelope_v2 e = Inr ()"
    "sv2_policy v' = sv2_policy v1" "sv2_worker_hello_received v' = sv2_worker_hello_received v1"
    "sv2_outbound_commands v' = sv2_outbound_commands v1"
    "sv2_pending_replies v' = sv2_pending_replies v1 |-| fset_of_list (case completed of Some i \<Rightarrow> [i] | None \<Rightarrow> [])"
  note m = accepted_message [OF assms(1) a(1)]
  show ?thesis
    using assms(1) a m
    by (cases "en2_message e")
      (auto simp: fits_pending_def host_ready_def host_awaits_def validate_envelope_v2_def try_iffs)
qed

section \<open>What a call guarantees\<close>

definition client_ready :: "worker_client \<Rightarrow> bool" where
  "client_ready c = host_ready (ws_validator (wc_session c))"

definition answers_command :: "command_v2 \<Rightarrow> ack_v2 \<Rightarrow> bool" where
  "answers_command command ack =
     (ack_name_of_v2 ack = command_name_of_v2 command \<and> validate_ack_v2 ack = Inr ())"

definition confused_reply :: "worker_client_error \<Rightarrow> bool" where
  "confused_reply e = (case e of
       ClUnexpectedReply \<Rightarrow> True | ClUnexpectedAck expected actual \<Rightarrow> True | _ \<Rightarrow> False)"

text \<open>The frames of the commands, each encoded and valid, were appended to the output.\<close>

definition sent_commands ::
    "messagepack_codec \<Rightarrow> command_v2 list \<Rightarrow> worker_client \<Rightarrow> worker_client \<Rightarrow> bool" where
  "sent_commands mp commands c c' =
     (\<exists>es ps. map en2_message es = map M2Command commands \<and>
        list_all2 (\<lambda>e p. encode_messagepack mp e = Inr p) es ps \<and>
        ws_output (wc_session c') = ws_output (wc_session c) @ concat (map wire_frame ps))"

lemma sent_append:
  assumes "sent_commands mp ms c c1" and "sent_commands mp ns c1 c2"
  shows "sent_commands mp (ms @ ns) c c2"
proof -
  obtain es ps where 1: "map en2_message es = map M2Command ms"
    "list_all2 (\<lambda>e p. encode_messagepack mp e = Inr p) es ps"
    "ws_output (wc_session c1) = ws_output (wc_session c) @ concat (map wire_frame ps)"
    using assms(1) by (auto simp: sent_commands_def)
  obtain es' ps' where 2: "map en2_message es' = map M2Command ns"
    "list_all2 (\<lambda>e p. encode_messagepack mp e = Inr p) es' ps'"
    "ws_output (wc_session c2) = ws_output (wc_session c1) @ concat (map wire_frame ps')"
    using assms(2) by (auto simp: sent_commands_def)
  have "list_all2 (\<lambda>e p. encode_messagepack mp e = Inr p) (es @ es') (ps @ ps')"
    using 1(2) 2(2) by (rule list_all2_appendI)
  then show ?thesis
    unfolding sent_commands_def using 1(1,3) 2(1,3)
    by (intro exI [of _ "es @ es'"] exI [of _ "ps @ ps'"]) simp
qed

lemma written_frame:
  "write_envelope_v2 os mp e ws = (Inr u, ws') \<Longrightarrow>
     \<exists>p. encode_messagepack mp e = Inr p \<and> ws_output ws' = ws_output ws @ wire_frame p \<and>
       ws_validator ws' = ws_validator ws"
  by (auto simp: write_envelope_v2_def pipe_write_def try_iffs Let_def wire_frame_def
      split: option.split_asm prod.split_asm if_split_asm)

lemma sent_command:
  assumes "send_command_v2 os mp command ws = (Inr i, ws')" and "host_ready (ws_validator ws)"
  shows "host_awaits (ws_validator ws') i (command_name_of_v2 command) \<and>
    (\<exists>e p. en2_message e = M2Command command \<and> encode_messagepack mp e = Inr p \<and>
       ws_output ws' = ws_output ws @ wire_frame p)"
proof -
  define e where "e = new_envelope_v2 (ws_session_id ws) (sv2_next_outbound_sequence (ws_validator ws))
    (os_uuid os (ws_uuids ws)) (elapsed_ns (ws_started_at ws) (os_clock os (ws_readings ws)))
    (M2Command command)"
  obtain r v where t: "track_outbound_command_v2 (ws_validator ws) e = (r, v)"
    by fastforce
  have step: "send_command_v2 os mp command ws =
      (let ws1 = ws\<lparr>ws_uuids := Suc (ws_uuids ws), ws_readings := Suc (ws_readings ws), ws_validator := v\<rparr>
       in try_with (map_err SuProtocol2Session r) ws1 (\<lambda>_.
          and_then (write_envelope_v2 os mp e ws1) (\<lambda>_ ws'. (Inr (os_uuid os (ws_uuids ws)), ws'))))"
    using t by (simp add: send_command_v2_def new_uuid_def read_clock_def Let_def e_def)
  have "en2_message e = M2Command command"
    by (simp add: e_def new_envelope_v2_def)
  moreover have "en2_message_id e = os_uuid os (ws_uuids ws)"
    by (simp add: e_def new_envelope_v2_def)
  ultimately show ?thesis
    using tracked_awaits [OF assms(2), of e command v] t assms(1) unfolding step
    by (auto simp: Let_def try_iffs dest!: written_frame)
qed

definition same_output :: "worker_client \<Rightarrow> worker_client \<Rightarrow> bool" where
  "same_output c c' = (ws_output (wc_session c') = ws_output (wc_session c))"

definition call_result_ok :: "command_name_v2 \<Rightarrow> (worker_client_error + ack_v2) \<Rightarrow> worker_client \<Rightarrow> bool" where
  "call_result_ok name r c = (case r of
       Inr ack \<Rightarrow> ack_name_of_v2 ack = name \<and> validate_ack_v2 ack = Inr () \<and> client_ready c
     | Inl e \<Rightarrow> \<not> confused_reply e)"

definition client_awaits :: "pending_call \<Rightarrow> worker_client \<Rightarrow> bool" where
  "client_awaits pc c = host_awaits (ws_validator (wc_session c)) (pc_command_id pc) (pc_command_name pc)"

lemma handled_message:
  assumes "fits_pending (pc_command_id pc) (pc_command_name pc) msg (ws_validator (wc_session c))"
    and "handle_message_v2 os pc msg c = (r, c')"
  shows "same_output c c' \<and>
    (case r of None \<Rightarrow> client_awaits pc c' | Some r \<Rightarrow> call_result_ok (pc_command_name pc) r c')"
proof (cases msg)
  case (M2Ack reply)
  then show ?thesis using assms
    by (auto simp: handle_message_v2_def handle_ack_v2_def fits_pending_def client_clock_def read_clock_def
        same_output_def call_result_ok_def client_ready_def Let_def split: ack_v2.splits)
next
  case (M2Event ev)
  then show ?thesis using assms
    by (auto simp: handle_message_v2_def handle_event_v2_def fits_pending_def client_clock_def read_clock_def
        same_output_def call_result_ok_def client_awaits_def confused_reply_def Let_def
        split: event_v2.split_asm)
qed (use assms in \<open>auto simp: handle_message_v2_def fits_pending_def same_output_def call_result_ok_def
    confused_reply_def\<close>)

lemma turn_ok:
  assumes "client_awaits pc c" and "call_turn os mp pc c = (r, c')"
  shows "same_output c c' \<and>
    (case r of None \<Rightarrow> client_awaits pc c' | Some r \<Rightarrow> call_result_ok (pc_command_name pc) r c')"
proof -
  let ?ws = "wc_session c\<lparr>ws_readings := Suc (ws_readings (wc_session c))\<rparr>"
  obtain x ws where rec: "receive_v2 os mp ?ws = (x, ws)"
    by fastforce
  show ?thesis
  proof (cases x)
    case (Inl error)
    have "ws_output ws = ws_output (wc_session c)"
      using receive_output [OF rec] by simp
    then show ?thesis
      using assms(2) rec Inl
      by (auto simp: call_turn_def client_clock_def read_clock_def same_output_def call_result_ok_def
          confused_reply_def Let_def split: if_split_asm)
  next
    case (Inr e)
    have awaits: "host_awaits (ws_validator ?ws) (pc_command_id pc) (pc_command_name pc)"
      using assms(1) by (simp add: client_awaits_def)
    obtain rest v where got: "validate_inbound_v2 (ws_validator ?ws) e = (Inr (), v)"
      and ws: "ws = ?ws\<lparr>ws_readings := Suc (ws_readings ?ws), ws_input := rest, ws_validator := v\<rparr>"
      using rec unfolding Inr received by blast
    have fits: "fits_pending (pc_command_id pc) (pc_command_name pc) (en2_message e)
        (ws_validator (wc_session (c\<lparr>wc_session := ws\<rparr>)))"
      using inbound_fits [OF awaits got] by (simp add: ws)
    from assms(2) rec Inr
    consider (handled) "handle_message_v2 os pc (en2_message e) (c\<lparr>wc_session := ws\<rparr>) = (r, c')"
      | (late) n where "r = Some (Inl n)" "\<not> confused_reply n" "same_output c c'"
      by (auto simp: call_turn_def client_clock_def read_clock_def same_output_def confused_reply_def
          Let_def split: if_split_asm)
    then show ?thesis
    proof cases
      case handled
      from handled_message [OF fits handled] show ?thesis
        by (auto simp: same_output_def ws)
    next
      case late
      then show ?thesis by (simp add: call_result_ok_def)
    qed
  qed
qed

lemma loop_ok:
  "client_awaits pc c \<Longrightarrow> call_loop os mp pc c = (r, c') \<Longrightarrow>
     same_output c c' \<and> call_result_ok (pc_command_name pc) r c'"
proof (induction os mp pc c arbitrary: r c' rule: call_loop.induct)
  case (1 os mp pc c)
  obtain x c1 where t: "call_turn os mp pc c = (x, c1)"
    by fastforce
  note ok = turn_ok [OF 1(2) t]
  show ?case
  proof (cases x)
    case None
    then have "call_loop os mp pc c1 = (r, c')"
      using 1(3) t by (simp add: call_loop.simps [of os mp pc c])
    then show ?thesis
      using 1(1) [OF t [symmetric] None, of r c'] ok None by (simp add: same_output_def)
  next
    case (Some y)
    then show ?thesis
      using 1(3) t ok by (simp add: call_loop.simps [of os mp pc c])
  qed
qed

lemma call_ok:
  assumes "client_ready c" and "call_v2 os mp command timeout c = (r, c')"
  shows "call_result_ok (command_name_of_v2 command) r c' \<and>
    (case r of Inr ack \<Rightarrow> sent_commands mp [command] c c' | Inl e \<Rightarrow> True)"
proof (cases "send_command_v2 os mp command (wc_session c)")
  case (Pair x ws)
  show ?thesis
  proof (cases x)
    case (Inl error)
    then show ?thesis
      using assms(2) Pair by (auto simp: call_v2_def call_result_ok_def confused_reply_def)
  next
    case (Inr i)
    from sent_command [OF Pair [unfolded Inr]] assms(1)
    obtain e p where await: "host_awaits (ws_validator ws) i (command_name_of_v2 command)"
      and e: "en2_message e = M2Command command" "encode_messagepack mp e = Inr p"
      and out: "ws_output ws = ws_output (wc_session c) @ wire_frame p"
      by (auto simp: client_ready_def)
    obtain pc c1 where loop: "call_loop os mp pc c1 = (r, c')"
      and pc: "pc_command_name pc = command_name_of_v2 command" "pc_command_id pc = i"
      and c1: "ws_validator (wc_session c1) = ws_validator ws" "ws_output (wc_session c1) = ws_output ws"
      using assms(2) Pair Inr by (auto simp: call_v2_def client_clock_def read_clock_def Let_def)
    have "client_awaits pc c1"
      using await by (simp add: client_awaits_def pc c1)
    from loop_ok [OF this loop] have "call_result_ok (command_name_of_v2 command) r c'"
      and o: "ws_output (wc_session c') = ws_output (wc_session c) @ wire_frame p"
      by (simp_all add: pc same_output_def c1 out)
    moreover have "sent_commands mp [command] c c'"
      unfolding sent_commands_def using e o by (intro exI [of _ "[e]"] exI [of _ "[p]"]) simp
    ultimately show ?thesis by (auto split: sum.splits)
  qed
qed

interpretation worker: request_channel "\<lambda>command. call_v2 os mp command timeout" client_ready
    answers_command "sent_commands mp" confused_reply
  for os mp timeout
proof
  fix c m r c'
  assume "client_ready c" "call_v2 os mp m timeout c = (Inr r, c')"
  from call_ok [OF this] show "answers_command m r \<and> client_ready c' \<and> sent_commands mp [m] c c'"
    by (simp add: call_result_ok_def answers_command_def)
next
  fix c m e c'
  assume "client_ready c" "call_v2 os mp m timeout c = (Inl e, c')"
  from call_ok [OF this] show "\<not> confused_reply e"
    by (simp add: call_result_ok_def)
next
  show "sent_commands mp [] c c" for c
    by (simp add: sent_commands_def)
next
  show "sent_commands mp (ms @ ns) c c2" if "sent_commands mp ms c c1" "sent_commands mp ns c1 c2"
    for ms ns c c1 c2
    using that by (rule sent_append)
qed

section \<open>From the hello to the replies\<close>

lemma hello_accepted:
  assumes "validate_inbound_v2 (new_session_validator_v2 sid ResponsesAndEventsV2) e = (Inr (), v)"
    and "en2_message e = M2Event ev" and "em2_event ev = WorkerHelloEvent hello"
  shows "host_ready v \<and> en2_session_id e = sid \<and> en2_sequence e = 1 \<and> em2_caused_by ev = None"
  using assms
  by (auto simp: validate_inbound_v2_def accept_message_v2_def new_session_validator_v2_def host_ready_def
      try_iffs Let_def split: if_split_asm)

lemma connected:
  assumes "connect_v2 os mp pw = Inr ws"
  shows "pw_client_pid pw = Inr (pw_worker_pid pw) \<and> host_ready (ws_validator ws) \<and>
    (\<exists>e rest hello. read_envelope_v2 mp SuHandshakeTimeout (pw_input pw) = (Inr e, rest) \<and>
       en2_session_id e = pw_session_id pw \<and> en2_sequence e = 1 \<and>
       en2_message e = M2Event \<lparr>em2_caused_by = None, em2_event = WorkerHelloEvent hello\<rparr> \<and>
       wh2_worker_pid hello = pw_worker_pid pw \<and>
       constant_time_eq_v2 (wh2_auth_token hello) (pw_expected_token pw))"
proof -
  obtain x rest where read: "read_envelope_v2 mp SuHandshakeTimeout (pw_input pw) = (x, rest)"
    by fastforce
  obtain e where x: "x = Inr e"
    using assms read by (cases x) (auto simp: connect_v2_def try_iffs split: if_split_asm)
  obtain r v where inbound: "validate_inbound_v2 (new_session_validator_v2 (pw_session_id pw)
      ResponsesAndEventsV2) e = (r, v)"
    by fastforce
  obtain ev where ev: "en2_message e = M2Event ev"
    using assms read x inbound
    by (cases "en2_message e") (auto simp: connect_v2_def try_iffs split: if_split_asm)
  obtain hello where hello: "em2_event ev = WorkerHelloEvent hello"
    using assms read x inbound ev
    by (cases "em2_event ev") (auto simp: connect_v2_def try_iffs split: if_split_asm)
  from assms read x inbound ev hello
  have r: "r = Inr ()" and v: "ws_validator ws = v" and pid: "pw_client_pid pw = Inr (pw_worker_pid pw)"
    and checked: "wh2_worker_pid hello = pw_worker_pid pw"
      "constant_time_eq_v2 (wh2_auth_token hello) (pw_expected_token pw)"
    by (auto simp: connect_v2_def try_iffs split: if_split_asm)
  note ready = hello_accepted [OF inbound [unfolded r] ev hello]
  have "ev = \<lparr>em2_caused_by = None, em2_event = WorkerHelloEvent hello\<rparr>"
    using ready hello by simp
  then show ?thesis
    using ready read x ev pid checked v by auto
qed


section \<open>A worker that answers\<close>

definition sample_status :: status_snapshot_v2 where
  "sample_status = \<lparr>st2_session = SsReady, st2_codec = CsUnloaded, st2_player = PsEmpty, st2_deck = DsEmpty,
     st2_capture = CaIdle, st2_open_session_count = 0, st2_foreground_output_session = None,
     st2_output_lease_pinned = False\<rparr>"

definition sample_worker_hello :: envelope_v2 where
  "sample_worker_hello = new_envelope_v2 3 1 11 0 (M2Event \<lparr>em2_caused_by = None, em2_event =
     WorkerHelloEvent \<lparr>wh2_auth_token = replicate 32 7, wh2_worker_pid = 5, wh2_worker_identity = ''w'',
       wh2_runtime_identity = ''r'', wh2_protocol_min = 2, wh2_protocol_max = 2\<rparr>\<rparr>)"

definition sample_worker_reply :: envelope_v2 where
  "sample_worker_reply = new_envelope_v2 3 2 12 0 (M2Ack \<lparr>ar2_reply_to = 9,
     ar2_ack = A2SessionStatus sample_status, ar2_status = sample_status\<rparr>)"

definition sample_worker_codec :: messagepack_codec where
  "sample_worker_codec = \<lparr>mc_to_vec_named = (\<lambda>e. Inr [0]),
     mc_deserialize = (\<lambda>p. Inr (if p = [1] then sample_worker_hello else sample_worker_reply, length p))\<rparr>"

definition sample_worker_os :: worker_os where
  "sample_worker_os = \<lparr>os_clock = (\<lambda>n. n), os_uuid = (\<lambda>n. 9), os_write = (\<lambda>n. None),
     os_process_handle = (\<lambda>n. True)\<rparr>"

definition sample_pending_worker :: pending_worker where
  "sample_pending_worker = \<lparr>pw_session_id = 3, pw_expected_token = replicate 32 7, pw_worker_pid = 5,
     pw_connected = Inr (), pw_client_pid = Inr 5,
     pw_input = map PipeByte (wire_frame [1] @ wire_frame [2])\<rparr>"

lemmas sample_worker_defs = sample_worker_os_def sample_worker_codec_def sample_pending_worker_def
  sample_worker_hello_def sample_worker_reply_def sample_status_def new_envelope_v2_def

lemma sample_hello_read:
  "read_envelope_v2 sample_worker_codec SuHandshakeTimeout (pw_input sample_pending_worker) =
     (Inr sample_worker_hello, map PipeByte (wire_frame [2]))"
  using read_written_frame_v2 [of "[1]" sample_worker_codec SuHandshakeTimeout]
  by (simp add: sample_worker_codec_def sample_pending_worker_def decode_messagepack_def
      decode_messagepack_value_def ensure_frame_length_def constants_v2)

lemma sample_hello_valid: "validate_envelope_v2 sample_worker_hello = Inr ()"
  by (simp add: sample_worker_hello_def new_envelope_v2_def validate_envelope_v2_def validate_event_v2_def
      validate_worker_hello_v2_def bounded_text_def non_nil_def constants_v2 try_iffs)

lemma sample_pending_fields:
  "pw_session_id sample_pending_worker = 3" "pw_worker_pid sample_pending_worker = 5"
  "pw_connected sample_pending_worker = Inr ()" "pw_client_pid sample_pending_worker = Inr 5"
  "constant_time_eq_v2 (replicate 32 7) (pw_expected_token sample_pending_worker)"
  by (simp_all add: sample_pending_worker_def) code_simp

lemma sample_hello_fields:
  "en2_session_id sample_worker_hello = 3" "en2_sequence sample_worker_hello = 1"
  "en2_message_id sample_worker_hello = 11"
  "en2_message sample_worker_hello = M2Event \<lparr>em2_caused_by = None, em2_event =
     WorkerHelloEvent \<lparr>wh2_auth_token = replicate 32 7, wh2_worker_pid = 5, wh2_worker_identity = ''w'',
       wh2_runtime_identity = ''r'', wh2_protocol_min = 2, wh2_protocol_max = 2\<rparr>\<rparr>"
  by (simp_all add: sample_worker_hello_def new_envelope_v2_def)

definition sample_connected_session :: worker_session where
  "sample_connected_session = \<lparr>ws_session_id = 3, ws_worker_pid = 5, ws_validator =
     \<lparr>sv2_session_id = 3, sv2_policy = ResponsesAndEventsV2, sv2_next_inbound_sequence = 2,
      sv2_next_outbound_sequence = 1, sv2_inbound_message_ids = {|11|}, sv2_outbound_commands = fmempty,
      sv2_pending_replies = {||}, sv2_worker_hello_received = True\<rparr>,
     ws_started_at = 1, ws_input = map PipeByte (wire_frame [2]), ws_output = [], ws_readings = 2,
     ws_uuids = 0, ws_writes = 0\<rparr>"

lemma sample_connected:
  "connect_v2 sample_worker_os sample_worker_codec sample_pending_worker = Inr sample_connected_session"
  by (simp add: connect_v2_def sample_hello_read validate_inbound_v2_def sample_hello_valid
      new_session_validator_v2_def accept_message_v2_def sample_hello_fields sample_pending_fields
      checked_add_def MAX_MESSAGES_PER_SESSION_V2_def fcard_fempty sample_connected_session_def
      sample_worker_os_def)

lemma sample_reply_valid: "validate_envelope_v2 sample_worker_reply = Inr ()"
  by (simp add: sample_worker_reply_def new_envelope_v2_def validate_envelope_v2_def validate_status_v2_def
      sample_status_def non_nil_def constants_v2 try_iffs)

lemma sample_command_valid:
  "validate_envelope_v2 (new_envelope_v2 3 1 9 n (M2Command C2SessionStatus)) = Inr ()"
  by (simp add: new_envelope_v2_def validate_envelope_v2_def non_nil_def constants_v2 try_iffs)

lemma sample_reply_fields:
  "en2_session_id sample_worker_reply = 3" "en2_sequence sample_worker_reply = 2"
  "en2_message_id sample_worker_reply = 12"
  "en2_message sample_worker_reply = M2Ack \<lparr>ar2_reply_to = 9,
     ar2_ack = A2SessionStatus sample_status, ar2_status = sample_status\<rparr>"
  by (simp_all add: sample_worker_reply_def new_envelope_v2_def)

lemma sample_command_encoded: "encode_messagepack sample_worker_codec
    (new_envelope_v2 3 1 9 n (M2Command C2SessionStatus)) = Inr [0]"
  by (simp add: encode_messagepack_def sample_command_valid sample_worker_codec_def ensure_frame_length_def
      constants_v2)

lemma sample_reply_read:
  "read_envelope_v2 sample_worker_codec SuReceiveTimeout (map PipeByte (wire_frame [2])) =
     (Inr sample_worker_reply, [])"
  using read_written_frame_v2 [of "[2]" sample_worker_codec SuReceiveTimeout "[]"]
  by (simp add: sample_worker_codec_def decode_messagepack_def decode_messagepack_value_def
      ensure_frame_length_def constants_v2)

definition sample_sent :: "nat \<Rightarrow> worker_session" where
  "sample_sent n = sample_connected_session\<lparr>ws_validator := (ws_validator sample_connected_session)
     \<lparr>sv2_next_outbound_sequence := 2, sv2_outbound_commands := fmupd 9 N2SessionStatus fmempty,
      sv2_pending_replies := {|9|}\<rparr>, ws_output := wire_frame [0], ws_readings := n, ws_uuids := 1,
     ws_writes := 3\<rparr>"

lemma sample_sending:
  "send_command_v2 sample_worker_os sample_worker_codec C2SessionStatus
     (sample_connected_session\<lparr>ws_readings := 3\<rparr>) = (Inr 9, sample_sent 4)"
proof -
  have m: "en2_message_id (new_envelope_v2 3 1 9 n msg) = 9" "en2_session_id (new_envelope_v2 3 1 9 n msg) = 3"
    "en2_sequence (new_envelope_v2 3 1 9 n msg) = 1" "en2_message (new_envelope_v2 3 1 9 n msg) = msg"
    for n msg by (simp_all add: new_envelope_v2_def)
  show ?thesis
    by (simp add: send_command_v2_def new_uuid_def read_clock_def track_outbound_command_v2_def
        sample_connected_session_def sample_sent_def sample_worker_os_def sample_command_valid sample_command_encoded m
        write_envelope_v2_def pipe_write_def wire_frame_def command_count_v2_def
        MAX_MESSAGES_PER_SESSION_V2_def MAX_PENDING_COMMANDS_V2_def checked_add_def fcard_fempty)
qed

lemma sample_receiving:
  "\<exists>ws. receive_v2 sample_worker_os sample_worker_codec (sample_sent n) = (Inr sample_worker_reply, ws)"
  by (simp add: received sample_sent_def sample_connected_session_def sample_reply_read validate_inbound_v2_def
      sample_reply_valid sample_reply_fields accept_message_v2_def validate_reply_v2_def
      MAX_MESSAGES_PER_SESSION_V2_def checked_add_def fcard_fempty fcard_finsert_if)

lemma sample_answered:
  "\<exists>c. call_v2 sample_worker_os sample_worker_codec C2SessionStatus 9
     (new_worker_client sample_worker_os sample_connected_session) = (Inr (A2SessionStatus sample_status), c)"
proof -
  have start: "new_worker_client sample_worker_os sample_connected_session =
      \<lparr>wc_session = sample_connected_session\<lparr>ws_readings := 3\<rparr>, wc_heartbeat_hard_timeout = None,
       wc_last_heartbeat = 2, wc_last_status = None, wc_last_metrics = None\<rparr>"
    by (simp add: new_worker_client_def read_clock_def sample_connected_session_def sample_worker_os_def)
  have clock: "os_clock sample_worker_os n = n" for n
    by (simp add: sample_worker_os_def)
  have next_reading: "ws_readings (sample_sent n) = n" "sample_sent n\<lparr>ws_readings := k\<rparr> = sample_sent k" for n k
    by (simp_all add: sample_sent_def)
  obtain ws where "receive_v2 sample_worker_os sample_worker_codec (sample_sent 7) =
      (Inr sample_worker_reply, ws)"
    using sample_receiving by blast
  then show ?thesis
    by (simp add: call_v2_def start sample_sending call_loop.simps [of sample_worker_os] call_turn_def
        client_clock_def read_clock_def clock next_reading heartbeat_remaining_def
        handle_message_v2_def handle_ack_v2_def sample_reply_fields configured_heartbeat_def Let_def)
qed


end
