(* ===== verification/Deck_Session.thy ===== *)
theory Deck_Session
  imports Deck_Runtime Worker_Client Ring2_Layout
begin

text \<open>
  Startup of a deck session over Protocol 2 (\<open>crates/core/src/deck_session_v2.rs\<close>, with
  \<open>prepare_source_open\<close> of \<open>worker_source_v2.rs\<close> and the launch of \<open>worker_supervisor.rs\<close>): the checks
  of host, packages, sources and assets, then the conversation with the worker, one command after the
  other, each acknowledgement compared with the request.

  What comes from outside is the record \<open>deck_world\<close>: the operating system of the session, the codec of
  the control channel, versions (semver), identifiers (uuid), files, the duplication of handles, the ring
  of the gpu crate behind its Windows objects, and the check of an asset file.
\<close>

section \<open>Contract and errors\<close>

record deck_session_host_contract =
  hc_app_version :: string
  hc_deck_session_id :: uuid
  hc_ring_id :: uuid
  hc_profile_key :: profile_key
  hc_signal_geometry :: signal_geometry_v2
  hc_tensor_abi :: tensor_abi
  hc_decoded_abi :: decoded_abi
  hc_maximum_estimated_host_bytes :: u64
  hc_maximum_estimated_device_bytes :: u64
  hc_device_ordinal :: u8
  hc_ring_slot_count :: u8
  hc_stream_generation :: u64
  hc_heartbeat_interval_ms :: u32
  hc_heartbeat_hard_timeout_ms :: u32
  hc_command_timeout :: nat

record deck_session_load_request =
  dsl_roles :: "role_binding list"
  dsl_controls :: "control_binding list"
  dsl_source_transport :: "source_transport_binding list"
  dsl_seed :: u64

datatype worker_source_error =
    WsReceipt string | WsCartridgeIdentity | WsReceiptEncoding | WsDuplicate nat
  | WsClient worker_client_error | WsSupervisor worker_supervisor_error | WsUnsupportedPlatform

datatype deck_session_error =
    SeInvalidHostContract string
  | SeIncompatiblePackage string
  | SeInvalidSource
  | SeProtocolMismatch
  | SeCapabilityMismatch
  | SeProfileMismatch
  | SeInvalidNativeTransfer
  | SeExternalAssetInvalid
  | SeDeckRuntime deck_runtime_error
  | SeSupervisor worker_supervisor_error
  | SeClient worker_client_error
  | SeSource worker_source_error
  | SeRing ring_stop

text \<open>A cartridge whose integrity was validated: what the session asks of it.\<close>

record validated_cartridge =
  vc_cartridge_id :: string
  vc_archive_sha256 :: string
  vc_archive_bytes :: u64
  vc_payload_sha256 :: string
  vc_access_receipt_json :: "string + u8 list"

record ring_binding =
  rbd_mapping_handle :: u64
  rbd_ready_event_handle :: u64
  rbd_consumed_event_handle :: u64
  rbd_slot_count :: u32
  rbd_slot_bytes :: u64

record worker_launch =
  wl_executable :: string
  wl_arguments :: "string list"
  wl_working_directory :: string
  wl_connect_timeout :: nat

record 'v deck_world =
  dw_os :: worker_os
  dw_messagepack :: messagepack_codec
  dw_parse_version :: "string \<Rightarrow> 'v option"
  dw_version_less :: "'v \<Rightarrow> 'v \<Rightarrow> bool"
  dw_uuid_parse :: "string \<Rightarrow> uuid option"
  dw_uuid_text :: "uuid \<Rightarrow> string"
  dw_source_uuid :: "nat \<Rightarrow> uuid"
  dw_from_utf8 :: "u8 list \<Rightarrow> string option"
  dw_join :: "string \<Rightarrow> string \<Rightarrow> string"
  dw_is_file :: "string \<Rightarrow> bool"
  dw_is_dir :: "string \<Rightarrow> bool"
  dw_spawn :: "worker_launch \<Rightarrow> worker_supervisor_error + pending_worker"
  dw_duplicate_source :: "validated_cartridge \<Rightarrow> nat + u64"
  dw_retain_asset :: "external_asset_binding_v2 \<Rightarrow> bool"
  dw_ring_create :: "ring_v2_descriptor \<Rightarrow> unit ring_result"
  dw_ring_consumer :: "ring_v2_descriptor \<Rightarrow> unit ring_result"
  dw_ring_duplicate :: "ring_v2_descriptor \<Rightarrow> ring_binding ring_result"

definition validate_deck_host_contract ::
    "'v deck_world \<Rightarrow> deck_session_host_contract \<Rightarrow> deck_session_error + unit" where
  "validate_deck_host_contract w host =
     (let tensor = hc_tensor_abi host; signal = hc_signal_geometry host in
      case ta_shape tensor of (batch, channels, temporal, height, width) \<Rightarrow> in_order
     [refuse (dw_parse_version w (hc_app_version host) = None \<or> hc_deck_session_id host = 0 \<or>
              hc_ring_id host = 0 \<or> hc_maximum_estimated_host_bytes host = 0 \<or>
              ta_device tensor = Cuda \<and> hc_maximum_estimated_device_bytes host = 0 \<or>
              hc_stream_generation host = 0 \<or> hc_command_timeout host = 0)
        (SeInvalidHostContract ''identity, version, memory, generation, or timeout''),
      refuse (\<not> (2 \<le> hc_ring_slot_count host \<and> hc_ring_slot_count host \<le> MAX_DECODE_BATCH) \<or>
              \<not> (1 \<le> da_maximum_batch (hc_decoded_abi host) \<and>
                 da_maximum_batch (hc_decoded_abi host) \<le> MAX_DECODE_BATCH) \<or>
              da_pixel_format (hc_decoded_abi host) \<noteq> ''rgba8'')
        (SeInvalidHostContract ''decoded ring ABI''),
      refuse (hc_heartbeat_interval_ms host < 250 \<or> hc_heartbeat_interval_ms host > 60000 \<or>
              hc_heartbeat_hard_timeout_ms host < u32_saturating_mul_v2 (hc_heartbeat_interval_ms host) 3)
        (SeInvalidHostContract ''heartbeat''),
      refuse (ta_python_major tensor \<noteq> 3 \<or> ta_python_minor tensor \<noteq> 13 \<or> ta_torch_version tensor = [] \<or>
              batch \<noteq> 1 \<or> temporal \<noteq> 1 \<or> 0 \<in> {batch, channels, temporal, height, width} \<or>
              \<not> ta_contiguous tensor \<or> channels \<noteq> sg2_channels signal \<or>
              height \<noteq> sg2_latent_height signal \<or> width \<noteq> sg2_latent_width signal)
        (SeInvalidHostContract ''tensor ABI''),
      refuse (sg2_channels signal = 0 \<or> sg2_latent_height signal = 0 \<or> sg2_latent_width signal = 0 \<or>
              sg2_decoded_height signal = 0 \<or> sg2_decoded_width signal = 0 \<or>
              sg2_frame_rate_numerator signal = 0 \<or> sg2_frame_rate_denominator signal = 0 \<or>
              sg2_timing_contract signal = [] \<or> sg2_timing_contract_version signal = [])
        (SeInvalidHostContract ''signal geometry'')])"

definition require_capabilities ::
    "capability list \<Rightarrow> capability list \<Rightarrow> deck_session_error + unit" where
  "require_capabilities actual required =
     refuse (card (set actual) \<noteq> length actual \<or> \<not> list_all (\<lambda>c. c \<in> set actual) required)
       SeCapabilityMismatch"

section \<open>Checks before the worker\<close>

record codec_selection =
  csel_pack_id :: string
  csel_pack_version :: string
  csel_adapter_id :: string
  csel_adapter_version :: string

record source_identity =
  sid_physical_slot :: u8
  sid_source_id :: uuid
  sid_cartridge_id :: uuid
  sid_archive_sha256 :: string
  sid_archive_bytes :: u64
  sid_payload_sha256 :: string
  sid_loop_enabled :: bool

definition validate_load_shape ::
    "deck_session_load_request \<Rightarrow> nat \<Rightarrow> deck_session_error + unit" where
  "validate_load_shape load source_count =
     (if source_count = 0 \<or> source_count > MAX_SOURCES \<or>
         length (dsl_source_transport load) \<noteq> source_count
      then Inl SeInvalidSource
      else refuse (sort (map (\<lambda>s. unat (stb_physical_slot s)) (dsl_source_transport load)) \<noteq>
                   [1..<Suc source_count]) SeInvalidSource)"

text \<open>\<open>Uuid::parse_str\<close> of the cartridge identity, which must be canonical and not nil.\<close>

definition cartridge_uuid :: "'v deck_world \<Rightarrow> string \<Rightarrow> uuid option" where
  "cartridge_uuid w t = (case dw_uuid_parse w t of
       Some v \<Rightarrow> if v \<noteq> 0 \<and> dw_uuid_text w v = t then Some v else None
     | None \<Rightarrow> None)"

definition source_identity_of ::
    "'v deck_world \<Rightarrow> source_transport_binding list \<Rightarrow> nat \<Rightarrow> validated_cartridge \<Rightarrow>
     deck_session_error + source_identity" where
  "source_identity_of w transport index cartridge =
     (if index + 1 \<ge> 256 then Inl SeInvalidSource
      else
      let physical_slot = of_nat (index + 1) in
      try_bind (ok_or (cartridge_uuid w (vc_cartridge_id cartridge)) SeInvalidSource) (\<lambda>cartridge_id.
      try_bind (ok_or (find (\<lambda>s. stb_physical_slot s = physical_slot) transport) SeInvalidSource) (\<lambda>t.
      Inr \<lparr>sid_physical_slot = physical_slot, sid_source_id = dw_source_uuid w index,
        sid_cartridge_id = cartridge_id, sid_archive_sha256 = vc_archive_sha256 cartridge,
        sid_archive_bytes = vc_archive_bytes cartridge, sid_payload_sha256 = vc_payload_sha256 cartridge,
        sid_loop_enabled = stb_loop_enabled t\<rparr>)))"

definition source_identities ::
    "'v deck_world \<Rightarrow> validated_cartridge list \<Rightarrow> source_transport_binding list \<Rightarrow>
     deck_session_error + source_identity list" where
  "source_identities w cartridges transport =
     try_map (\<lambda>(index, cartridge). source_identity_of w transport index cartridge)
       (enumerate 0 cartridges)"

definition session_version_range ::
    "'v deck_world \<Rightarrow> string \<Rightarrow> string \<Rightarrow> string \<Rightarrow> deck_session_error + unit" where
  "session_version_range w app minimum maximum =
     try_bind (ok_or (dw_parse_version w app) (SeInvalidHostContract ''app version'')) (\<lambda>app.
     try_bind (ok_or (dw_parse_version w minimum) (SeIncompatiblePackage ''app range'')) (\<lambda>minimum.
     try_bind (ok_or (dw_parse_version w maximum) (SeIncompatiblePackage ''app range'')) (\<lambda>maximum.
     refuse (dw_version_less w app minimum \<or> \<not> dw_version_less w app maximum)
       (SeIncompatiblePackage ''app range''))))"

text \<open>The map of the declared assets keeps the last of an identifier.\<close>

definition declared_asset :: "codec_pack_manifest \<Rightarrow> string \<Rightarrow> external_asset_descriptor option" where
  "declared_asset m asset_id = find (\<lambda>a. ead_asset_id a = asset_id) (rev (cm_external_assets m))"

fun retain_assets ::
    "'v deck_world \<Rightarrow> codec_pack_manifest \<Rightarrow> external_asset_binding_v2 list \<Rightarrow> string list \<Rightarrow>
     external_asset_binding_v2 list \<Rightarrow> deck_session_error + external_asset_binding_v2 list" where
  "retain_assets w m retained seen [] = Inr []"
| "retain_assets w m retained seen (b # bs) =
     (if ea2_asset_id b \<in> set seen then Inl SeExternalAssetInvalid
      else case declared_asset m (ea2_asset_id b) of
        None \<Rightarrow> Inl SeExternalAssetInvalid
      | Some expected \<Rightarrow>
          if ea2_sha256 b \<noteq> ead_sha256 expected \<or> ea2_byte_length b \<noteq> ead_byte_length expected \<or>
             \<not> canonical_sha256 (ea2_sha256 b)
          then Inl SeExternalAssetInvalid
          else
          try_bind (case find (\<lambda>r. ea2_asset_id r = ea2_asset_id b) (rev retained) of
              Some r \<Rightarrow> if r \<noteq> b then Inl SeExternalAssetInvalid else Inr r
            | None \<Rightarrow> if dw_retain_asset w b then Inr b else Inl SeExternalAssetInvalid) (\<lambda>handle.
          try_bind (retain_assets w m retained (ea2_asset_id b # seen) bs) (\<lambda>handles.
          Inr (handle # handles))))"

definition validate_external_assets ::
    "'v deck_world \<Rightarrow> codec_pack_manifest \<Rightarrow> external_asset_binding_v2 list \<Rightarrow>
     external_asset_binding_v2 list \<Rightarrow> deck_session_error + external_asset_binding_v2 list" where
  "validate_external_assets w m bindings retained =
     (let retained_ids = map ea2_asset_id retained; bound_ids = map ea2_asset_id bindings in
      if length bindings > MAX_EXTERNAL_ASSETS then Inl SeExternalAssetInvalid
      else if card (set retained_ids) \<noteq> length retained \<or> \<not> set retained_ids \<subseteq> set bound_ids
      then Inl SeExternalAssetInvalid
      else
      try_bind (retain_assets w m retained [] bindings) (\<lambda>handles.
      if list_ex (\<lambda>a. ead_required a \<and> ead_asset_id a \<notin> set bound_ids) (cm_external_assets m)
      then Inl SeExternalAssetInvalid else Inr handles))"

definition same_profile :: "profile_key \<Rightarrow> ext_profile_key \<Rightarrow> bool" where
  "same_profile key p = (epk_codec_family p = pk_codec_family key \<and> epk_profile p = pk_profile key \<and>
     epk_profile_version p = pk_profile_version key)"

definition validate_codec_package ::
    "'v deck_world \<Rightarrow> active_package \<Rightarrow> deck_session_host_contract \<Rightarrow>
     external_asset_binding_v2 list \<Rightarrow> external_asset_binding_v2 list \<Rightarrow>
     deck_session_error + codec_selection \<times> external_asset_binding_v2 list" where
  "validate_codec_package w package host assets retained =
     (if \<not> tr_enabled (ap_trust_receipt package) then Inl (SeIncompatiblePackage ''disabled codec'')
      else case ap_manifest package of
        DeckManifest m \<Rightarrow> Inl (SeIncompatiblePackage ''codec kind'')
      | CodecManifest m \<Rightarrow>
          let c = cm_compatibility m in
          if cm_manifest_version m \<noteq> ''2.0.0'' \<or> ccm_worker_protocol c \<noteq> PROTOCOL_VERSION \<or>
             ccm_codec_adapter_api c \<noteq> 1 \<or> ccm_tensor_abi c \<noteq> ''latentdeck.tensor.v1'' \<or>
             py_version (ccm_python c) \<noteq> ''3.13'' \<or>
             ccm_torch_exact_build c \<noteq> ta_torch_version (hc_tensor_abi host) \<or>
             CcRealtime \<notin> set (cm_capabilities m) \<or>
             \<not> list_ex (same_profile (hc_profile_key host)) (ccm_profiles c)
          then Inl (SeIncompatiblePackage ''codec ABI'')
          else
          try_bind (session_version_range w (hc_app_version host) (ccm_app_min_inclusive c)
            (ccm_app_max_exclusive c)) (\<lambda>_.
          try_bind (validate_external_assets w m assets retained) (\<lambda>handles.
          Inr (\<lparr>csel_pack_id = cm_pack_id m, csel_pack_version = cm_pack_version m,
            csel_adapter_id = cad_adapter_id (cm_adapter m),
            csel_adapter_version = cad_adapter_version (cm_adapter m)\<rparr>, handles))))"

definition geometry_fits :: "deck_session_host_contract \<Rightarrow> ext_signal_geometry \<Rightarrow> bool" where
  "geometry_fits host g =
     (eg_batch g = 1 \<and> eg_temporal g = 1 \<and>
      ucast (eg_channels g) = sg2_channels (hc_signal_geometry host) \<and>
      eg_height g = sg2_latent_height (hc_signal_geometry host) \<and>
      eg_width g = sg2_latent_width (hc_signal_geometry host) \<and>
      (case (eg_dtype g, ta_dtype (hc_tensor_abi host)) of
         (TdFp16, Float16) \<Rightarrow> True | (TdFp32, Float32) \<Rightarrow> True | _ \<Rightarrow> False) \<and>
      (case (eg_device g, ta_device (hc_tensor_abi host)) of
         (TdCpu, Cpu) \<Rightarrow> True | (TdCuda, Cuda) \<Rightarrow> True | _ \<Rightarrow> False))"

definition validate_deck_package ::
    "'v deck_world \<Rightarrow> active_deck_runtime \<Rightarrow> deck_session_host_contract \<Rightarrow> nat \<Rightarrow>
     deck_session_error + unit" where
  "validate_deck_package w runtime host source_count =
     (case ap_manifest (adr_active_package runtime) of
        CodecManifest m \<Rightarrow> Inl (SeIncompatiblePackage ''Deck kind'')
      | DeckManifest m \<Rightarrow>
          let signal = dm_signal m; timing = dsd_timing signal; c = dm_compatibility m;
              geometry = hc_signal_geometry host in
          if dm_manifest_version m \<noteq> ''1.0.0'' \<or> dc_worker_protocol c \<noteq> PROTOCOL_VERSION \<or>
             dc_deck_host_api c \<noteq> 1 \<or> dc_deck_operator_api c \<noteq> 1 \<or>
             dc_tensor_abi c \<noteq> ''latentdeck.tensor.v1'' \<or> py_version (dc_python c) \<noteq> ''3.13'' \<or>
             dc_torch_exact_build c \<noteq> ta_torch_version (hc_tensor_abi host) \<or>
             unat (dsd_slots signal) \<noteq> source_count \<or>
             \<not> list_ex (geometry_fits host) (dsd_geometry_allowlist signal) \<or>
             td_frames_per_second_numerator timing \<noteq> sg2_frame_rate_numerator geometry \<or>
             td_frames_per_second_denominator timing \<noteq> sg2_frame_rate_denominator geometry \<or>
             CcRealtime \<notin> set (dsd_required_capabilities signal) \<or>
             (case dsd_profile_allowlist signal of
                Some profiles \<Rightarrow> \<not> list_ex (same_profile (hc_profile_key host)) profiles
              | None \<Rightarrow> False)
          then Inl (SeIncompatiblePackage ''Deck ABI or signal'')
          else session_version_range w (hc_app_version host) (dc_app_min_inclusive c)
                 (dc_app_max_exclusive c))"

section \<open>The launch\<close>

definition join_portable_path :: "'v deck_world \<Rightarrow> string \<Rightarrow> string \<Rightarrow> string" where
  "join_portable_path w root relative = foldl (dw_join w) root (split_on CHR ''/'' relative)"

definition from_installed_codec_v2 ::
    "'v deck_world \<Rightarrow> active_package \<Rightarrow> worker_supervisor_error + worker_launch" where
  "from_installed_codec_v2 w package =
     (if \<not> tr_enabled (ap_trust_receipt package) then Inl SuExtensionPackageDisabled
      else case ap_manifest package of
        DeckManifest m \<Rightarrow> Inl SuExtensionPackageKind
      | CodecManifest m \<Rightarrow>
          let executable = join_portable_path w (ap_root package) (cwd_executable (cm_worker m));
              working_directory = join_portable_path w (ap_root package) (cwd_working_directory (cm_worker m))
          in if \<not> dw_is_file w executable \<or> \<not> dw_is_dir w working_directory
             then Inl SuExtensionRuntimeUnavailable
             else Inr \<lparr>wl_executable = executable, wl_arguments = cwd_arguments (cm_worker m),
               wl_working_directory = working_directory,
               wl_connect_timeout = unat (cwd_start_timeout_ms (cm_worker m)) * 1000000\<rparr>)"

definition launch_worker :: "'v deck_world \<Rightarrow> active_package \<Rightarrow> worker_supervisor_error + worker_client" where
  "launch_worker w package =
     try_bind (from_installed_codec_v2 w package) (\<lambda>launch.
     try_bind (dw_spawn w launch) (\<lambda>pending.
     try_bind (connect_v2 (dw_os w) (dw_messagepack w) pending) (\<lambda>ws.
     Inr (new_worker_client (dw_os w) ws))))"

section \<open>The conversation\<close>

definition ask ::
    "'v deck_world \<Rightarrow> deck_session_host_contract \<Rightarrow> command_v2 \<Rightarrow> worker_client \<Rightarrow>
     (deck_session_error + ack_v2) \<times> worker_client" where
  "ask w host command c =
     (case call_v2 (dw_os w) (dw_messagepack w) command (hc_command_timeout host) c of
        (r, c) \<Rightarrow> (map_err SeClient r, c))"

definition limited_capabilities :: "capability list \<Rightarrow> deck_session_error + capability list" where
  "limited_capabilities capabilities =
     map_err (\<lambda>_. SeInvalidHostContract ''capability bound'')
       (limited_vec_try_from MAX_CAPABILITIES capabilities)"

definition MAX_INFLIGHT_BATCHES :: u8 where
  "MAX_INFLIGHT_BATCHES = 1"

definition session_request :: "deck_session_host_contract \<Rightarrow> capability list \<Rightarrow> u32 \<Rightarrow> session_configure_v2" where
  "session_request host requested frame_bytes =
     \<lparr>sc2_selected_protocol_version = PROTOCOL_VERSION, sc2_app_version = hc_app_version host,
      sc2_heartbeat_interval_ms = hc_heartbeat_interval_ms host,
      sc2_heartbeat_hard_timeout_ms = hc_heartbeat_hard_timeout_ms host,
      sc2_max_frame_bytes = frame_bytes, sc2_max_inflight_batches = MAX_INFLIGHT_BATCHES,
      sc2_requested_capabilities = requested\<rparr>"

definition configure_session ::
    "'v deck_world \<Rightarrow> deck_session_host_contract \<Rightarrow> worker_client \<Rightarrow>
     (deck_session_error + unit) \<times> worker_client" where
  "configure_session w host c =
     try_with (limited_capabilities [CapRealtime]) c (\<lambda>requested.
     try_with (if MAX_FRAME_BYTES < 2 ^ 32 then Inr (of_nat MAX_FRAME_BYTES)
               else Inl (SeInvalidHostContract ''frame bound'')) c (\<lambda>frame_bytes.
     and_then (ask w host (C2SessionConfigure (session_request host requested frame_bytes)) c) (\<lambda>ack c.
     case ack of
       A2SessionConfigure configured \<Rightarrow>
         if scd2_selected_protocol_version configured \<noteq> PROTOCOL_VERSION \<or>
            unat (scd2_maximum_frame_bytes configured) \<noteq> MAX_FRAME_BYTES
         then (Inl SeProtocolMismatch, c)
         else (require_capabilities (scd2_accepted_capabilities configured) [CapRealtime], c)
     | _ \<Rightarrow> (Inl SeProtocolMismatch, c))))"

definition descriptor_request :: "codec_selection \<Rightarrow> codec_descriptor_request" where
  "descriptor_request sel = \<lparr>cdr_pack_id = csel_pack_id sel, cdr_pack_version = csel_pack_version sel,
     cdr_adapter_id = csel_adapter_id sel\<rparr>"

definition negotiate_descriptor ::
    "'v deck_world \<Rightarrow> deck_session_host_contract \<Rightarrow> codec_selection \<Rightarrow> worker_client \<Rightarrow>
     (deck_session_error + unit) \<times> worker_client" where
  "negotiate_descriptor w host sel c =
     and_then (ask w host (C2CodecDescriptor (descriptor_request sel)) c) (\<lambda>ack c.
     case ack of
       A2CodecDescriptor d \<Rightarrow>
         if cde_pack_id d \<noteq> csel_pack_id sel \<or> cde_pack_version d \<noteq> csel_pack_version sel \<or>
            cde_adapter_id d \<noteq> csel_adapter_id sel \<or> cde_adapter_version d \<noteq> csel_adapter_version sel \<or>
            cde_host_api_version d \<noteq> ''2.0'' \<or> hc_profile_key host \<notin> set (cde_profiles d)
         then (Inl SeProtocolMismatch, c)
         else (require_capabilities (cde_capabilities d) REQUIRED_CODEC_V2, c)
     | _ \<Rightarrow> (Inl SeProtocolMismatch, c))"

text \<open>\<open>with_process_handle\<close> and \<open>prepare_source_open\<close>\<close>

definition process_handle :: "'v deck_world \<Rightarrow> worker_client \<Rightarrow> worker_client_error + unit" where
  "process_handle w c =
     ensure (os_process_handle (dw_os w) (ws_readings (wc_session c))) (ClSupervisor SuProcessHandleUnavailable)"

definition prepare_source_open ::
    "'v deck_world \<Rightarrow> worker_client \<Rightarrow> validated_cartridge \<Rightarrow> uuid \<Rightarrow> worker_source_error + command_v2" where
  "prepare_source_open w c cartridge source_id =
     (if source_id = 0 then Inl WsCartridgeIdentity
      else
      try_bind (ok_or (cartridge_uuid w (vc_cartridge_id cartridge)) WsCartridgeIdentity) (\<lambda>cartridge_id.
      try_bind (map_err WsReceipt (vc_access_receipt_json cartridge)) (\<lambda>receipt_bytes.
      try_bind (ok_or (dw_from_utf8 w receipt_bytes) WsReceiptEncoding) (\<lambda>receipt.
      try_bind (map_err WsClient (process_handle w c)) (\<lambda>_.
      try_bind (map_err WsDuplicate (dw_duplicate_source w cartridge)) (\<lambda>handle.
      Inr (C2SourceOpen \<lparr>so_source_id = source_id, so_cartridge_id = cartridge_id,
        so_archive_sha256 = vc_archive_sha256 cartridge, so_archive_bytes = vc_archive_bytes cartridge,
        so_retained_native_handle = handle, so_integrity_access_receipt = receipt\<rparr>)))))))"

definition check_source_open :: "command_v2 \<Rightarrow> source_identity \<Rightarrow> deck_session_error + unit" where
  "check_source_open command source = (case command of
       C2SourceOpen open_request \<Rightarrow>
         refuse (so_source_id open_request \<noteq> sid_source_id source \<or>
                 so_cartridge_id open_request \<noteq> sid_cartridge_id source \<or>
                 so_archive_sha256 open_request \<noteq> sid_archive_sha256 source \<or>
                 so_archive_bytes open_request \<noteq> sid_archive_bytes source \<or>
                 so_retained_native_handle open_request = 0 \<or> so_integrity_access_receipt open_request = [])
           SeInvalidNativeTransfer
     | _ \<Rightarrow> Inl SeInvalidNativeTransfer)"

definition open_source ::
    "'v deck_world \<Rightarrow> deck_session_host_contract \<Rightarrow> validated_cartridge \<Rightarrow> source_identity \<Rightarrow>
     worker_client \<Rightarrow> (deck_session_error + unit) \<times> worker_client" where
  "open_source w host cartridge source c =
     try_with (map_err SeSource (prepare_source_open w c cartridge (sid_source_id source))) c (\<lambda>command.
     try_with (check_source_open command source) c (\<lambda>_.
     and_then (ask w host command c) (\<lambda>ack c.
     case ack of
       A2SourceOpen opened \<Rightarrow>
         (refuse (sop_source_id opened \<noteq> sid_source_id source \<or>
                  sop_cartridge_id opened \<noteq> sid_cartridge_id source \<or>
                  sop_archive_sha256 opened \<noteq> sid_archive_sha256 source) SeProtocolMismatch, c)
     | _ \<Rightarrow> (Inl SeProtocolMismatch, c))))"

definition inspect_request :: "source_identity \<Rightarrow> profile_inspect" where
  "inspect_request source = \<lparr>pin_source_id = sid_source_id source,
     pin_cartridge_id = sid_cartridge_id source, pin_archive_sha256 = sid_archive_sha256 source\<rparr>"

definition inspect_source ::
    "'v deck_world \<Rightarrow> deck_session_host_contract \<Rightarrow> source_identity \<Rightarrow> worker_client \<Rightarrow>
     (deck_session_error + unit) \<times> worker_client" where
  "inspect_source w host source c =
     and_then (ask w host (C2ProfileInspect (inspect_request source)) c) (\<lambda>ack c.
     case ack of
       A2ProfileInspect i \<Rightarrow>
         (refuse (pis_source_id i \<noteq> sid_source_id source \<or> pis_cartridge_id i \<noteq> sid_cartridge_id source \<or>
                  pis_archive_sha256 i \<noteq> sid_archive_sha256 source \<or>
                  pis_payload_sha256 i \<noteq> sid_payload_sha256 source \<or>
                  pis_profile_key i \<noteq> hc_profile_key host \<or>
                  pis_signal_geometry i \<noteq> hc_signal_geometry host) SeProfileMismatch, c)
     | _ \<Rightarrow> (Inl SeProtocolMismatch, c))"

definition check_profile_receipt ::
    "profile_receipt \<Rightarrow> codec_selection \<Rightarrow> source_identity \<Rightarrow> deck_session_host_contract \<Rightarrow>
     deck_session_error + unit" where
  "check_profile_receipt r sel source host =
     try_bind (map_err (\<lambda>_. SeProfileMismatch) (validate_profile_receipt r)) (\<lambda>_.
     if prc_cartridge_id r \<noteq> sid_cartridge_id source \<or> prc_archive_sha256 r \<noteq> sid_archive_sha256 source \<or>
        prc_payload_sha256 r \<noteq> sid_payload_sha256 source \<or> prc_pack_id r \<noteq> csel_pack_id sel \<or>
        prc_pack_version r \<noteq> csel_pack_version sel \<or> prc_adapter_id r \<noteq> csel_adapter_id sel \<or>
        prc_adapter_version r \<noteq> csel_adapter_version sel \<or> prc_profile_key r \<noteq> hc_profile_key host \<or>
        prc_signal_geometry r \<noteq> hc_signal_geometry host \<or> prc_tensor_abi r \<noteq> hc_tensor_abi host \<or>
        prc_decoded_abi r \<noteq> hc_decoded_abi host \<or>
        prc_estimated_host_bytes r > hc_maximum_estimated_host_bytes host \<or>
        prc_estimated_device_bytes r > hc_maximum_estimated_device_bytes host \<or>
        ta_device (hc_tensor_abi host) = Cpu \<and> prc_estimated_device_bytes r \<noteq> 0 \<or>
        ta_device (hc_tensor_abi host) = Cuda \<and> prc_estimated_device_bytes r = 0
     then Inl SeProfileMismatch
     else require_capabilities (prc_capabilities r) [CapRealtime])"

definition validate_request ::
    "deck_session_host_contract \<Rightarrow> capability list \<Rightarrow> source_identity \<Rightarrow> profile_validate" where
  "validate_request host required source = \<lparr>pv_source_id = sid_source_id source,
     pv_expected_profile = hc_profile_key host, pv_required_capabilities = required\<rparr>"

definition validate_source ::
    "'v deck_world \<Rightarrow> deck_session_host_contract \<Rightarrow> codec_selection \<Rightarrow> source_identity \<Rightarrow>
     worker_client \<Rightarrow> (deck_session_error + profile_receipt) \<times> worker_client" where
  "validate_source w host sel source c =
     try_with (limited_capabilities [CapRealtime]) c (\<lambda>required.
     and_then (ask w host (C2ProfileValidate (validate_request host required source)) c) (\<lambda>ack c.
     case ack of
       A2ProfileValidate receipt \<Rightarrow>
         try_with (check_profile_receipt receipt sel source host) c (\<lambda>_. (Inr receipt, c))
     | _ \<Rightarrow> (Inl SeProtocolMismatch, c)))"

fun negotiate_sources ::
    "'v deck_world \<Rightarrow> deck_session_host_contract \<Rightarrow> codec_selection \<Rightarrow>
     (validated_cartridge \<times> source_identity) list \<Rightarrow> worker_client \<Rightarrow>
     (deck_session_error + profile_receipt list) \<times> worker_client" where
  "negotiate_sources w host sel [] c = (Inr [], c)"
| "negotiate_sources w host sel ((cartridge, source) # rest) c =
     and_then (open_source w host cartridge source c) (\<lambda>_ c.
     and_then (inspect_source w host source c) (\<lambda>_ c.
     and_then (validate_source w host sel source c) (\<lambda>receipt c.
     and_then (negotiate_sources w host sel rest c) (\<lambda>receipts c. (Inr (receipt # receipts), c)))))"

definition load_codec ::
    "'v deck_world \<Rightarrow> deck_session_host_contract \<Rightarrow> codec_selection \<Rightarrow>
     external_asset_binding_v2 list \<Rightarrow> worker_client \<Rightarrow> (deck_session_error + unit) \<times> worker_client" where
  "load_codec w host sel assets c =
     try_with (map_err (\<lambda>_. SeExternalAssetInvalid) (limited_vec_try_from MAX_EXTERNAL_ASSETS assets)) c
       (\<lambda>assets.
     and_then (ask w host (C2CodecLoad \<lparr>cl2_pack_id = csel_pack_id sel,
         cl2_pack_version = csel_pack_version sel, cl2_adapter_id = csel_adapter_id sel,
         cl2_adapter_version = csel_adapter_version sel, cl2_device = ta_device (hc_tensor_abi host),
         cl2_device_ordinal = hc_device_ordinal host, cl2_external_assets = assets\<rparr>) c) (\<lambda>ack c.
     case ack of
       A2CodecLoad loaded \<Rightarrow>
         (refuse (cld2_pack_id loaded \<noteq> csel_pack_id sel \<or> cld2_pack_version loaded \<noteq> csel_pack_version sel \<or>
                  cld2_adapter_id loaded \<noteq> csel_adapter_id sel \<or>
                  cld2_adapter_version loaded \<noteq> csel_adapter_version sel \<or>
                  cld2_device loaded \<noteq> ta_device (hc_tensor_abi host) \<or>
                  cld2_device_ordinal loaded \<noteq> hc_device_ordinal host) SeProtocolMismatch, c)
     | _ \<Rightarrow> (Inl SeProtocolMismatch, c)))"

definition check_ring_command ::
    "command_v2 \<Rightarrow> ring_v2_descriptor \<Rightarrow> uuid \<Rightarrow> deck_session_error + unit" where
  "check_ring_command command descriptor ring_id = (case command of
       C2RingConfigure configure \<Rightarrow>
         let layout = vd_layout descriptor in
         refuse (rc_ring_id configure \<noteq> ring_id \<or> rc_kind configure \<noteq> DecodedRgba \<or>
                 rc_mapping_handle configure = 0 \<or> rc_ready_event_handle configure = 0 \<or>
                 rc_consumed_event_handle configure = 0 \<or>
                 ucast (rc_slot_count configure) \<noteq> vl_slot_count layout \<or>
                 rc_slot_bytes configure \<noteq> vl_slot_bytes layout) SeInvalidNativeTransfer
     | _ \<Rightarrow> Inl SeInvalidNativeTransfer)"

text \<open>The descriptor of the ring, the objects of Windows around it, and the command that hands them to
  the worker.\<close>

definition prepare_ring ::
    "'v deck_world \<Rightarrow> deck_session_host_contract \<Rightarrow> worker_client \<Rightarrow>
     deck_session_error + ring_v2_descriptor \<times> ring_configure" where
  "prepare_ring w host c =
     try_bind (map_err SeRing (ring_v2_descriptor_new (sg2_decoded_width (hc_signal_geometry host))
       (sg2_decoded_height (hc_signal_geometry host)) (ucast (da_maximum_batch (hc_decoded_abi host)))
       (ucast (hc_ring_slot_count host)) (hc_stream_generation host))) (\<lambda>descriptor.
     try_bind (map_err SeRing (dw_ring_create w descriptor)) (\<lambda>_.
     try_bind (map_err SeRing (dw_ring_consumer w descriptor)) (\<lambda>_.
     try_bind (map_err SeClient (process_handle w c)) (\<lambda>_.
     try_bind (map_err SeRing (dw_ring_duplicate w descriptor)) (\<lambda>binding.
     try_bind (if unat (rbd_slot_count binding) < 256 then Inr (ucast (rbd_slot_count binding))
               else Inl SeInvalidNativeTransfer) (\<lambda>slot_count.
     let configure = \<lparr>rc_ring_id = hc_ring_id host, rc_kind = DecodedRgba,
           rc_mapping_handle = rbd_mapping_handle binding,
           rc_ready_event_handle = rbd_ready_event_handle binding,
           rc_consumed_event_handle = rbd_consumed_event_handle binding,
           rc_slot_count = slot_count, rc_slot_bytes = rbd_slot_bytes binding\<rparr> in
     try_bind (check_ring_command (C2RingConfigure configure) descriptor (hc_ring_id host)) (\<lambda>_.
     Inr (descriptor, configure))))))))"

definition configure_ring ::
    "'v deck_world \<Rightarrow> deck_session_host_contract \<Rightarrow> worker_client \<Rightarrow>
     (deck_session_error + ring_v2_descriptor \<times> ring_configure) \<times> worker_client" where
  "configure_ring w host c =
     try_with (prepare_ring w host c) c (\<lambda>(descriptor, configure).
     and_then (ask w host (C2RingConfigure configure) c) (\<lambda>ack c.
     case ack of
       A2RingConfigure configured \<Rightarrow>
         if rcd_ring_id configured \<noteq> hc_ring_id host \<or> rcd_kind configured \<noteq> DecodedRgba \<or>
            rcd_slot_count configured \<noteq> rc_slot_count configure \<or>
            rcd_slot_bytes configured \<noteq> vl_slot_bytes (vd_layout descriptor)
         then (Inl SeProtocolMismatch, c) else (Inr (descriptor, configure), c)
     | _ \<Rightarrow> (Inl SeProtocolMismatch, c)))"

definition check_deck_status ::
    "deck_status_snapshot \<Rightarrow> deck_session_host_contract \<Rightarrow> deck_session_load_request \<Rightarrow> u64 \<Rightarrow> bool \<Rightarrow>
     deck_session_error + unit" where
  "check_deck_status status host load expected_revision require_transport =
     refuse (ds_deck_session_id status \<noteq> hc_deck_session_id host \<or>
             ds_deck_revision status \<noteq> expected_revision \<or>
             ds_stream_generation status \<noteq> hc_stream_generation host \<or> ds_stream_sequence status \<noteq> 0 \<or>
             length (ds_playheads status) \<noteq> length (dsl_source_transport load) \<or>
             ds_roles status \<noteq> dsl_roles load \<or> ds_controls status \<noteq> dsl_controls load \<or>
             require_transport \<and> ds_source_transport status \<noteq> dsl_source_transport load \<or>
             ds_seed status \<noteq> dsl_seed load \<or>
             ds_state status \<notin> {DsReady, DsPaused, DsPlaying}) SeProtocolMismatch"

definition source_binding_of :: "source_identity \<Rightarrow> profile_receipt \<Rightarrow> source_binding" where
  "source_binding_of source receipt =
     \<lparr>sb_physical_slot = sid_physical_slot source, sb_source_id = sid_source_id source,
      sb_cartridge_id = sid_cartridge_id source, sb_archive_sha256 = sid_archive_sha256 source,
      sb_profile_receipt_id = prc_receipt_id receipt, sb_loop_enabled = sid_loop_enabled source\<rparr>"

definition deck_load_request_of ::
    "deck_session_host_contract \<Rightarrow> deck_session_load_request \<Rightarrow> source_identity list \<Rightarrow>
     profile_receipt list \<Rightarrow> deck_load_request" where
  "deck_load_request_of host load identities receipts =
     \<lparr>dlr_deck_session_id = hc_deck_session_id host,
      dlr_sources = map (\<lambda>(source, receipt). source_binding_of source receipt) (zip identities receipts),
      dlr_roles = dsl_roles load, dlr_controls = dsl_controls load, dlr_seed = dsl_seed load,
      dlr_stream_generation = hc_stream_generation host\<rparr>"

definition load_deck ::
    "'v deck_world \<Rightarrow> active_deck_runtime \<Rightarrow> deck_session_host_contract \<Rightarrow>
     deck_session_load_request \<Rightarrow> source_identity list \<Rightarrow> profile_receipt list \<Rightarrow> worker_client \<Rightarrow>
     (deck_session_error + deck_status_snapshot) \<times> worker_client" where
  "load_deck w runtime host load identities receipts c =
     try_with (map_err SeDeckRuntime
       (build_load_command runtime (deck_load_request_of host load identities receipts))) c (\<lambda>command.
     and_then (ask w host command c) (\<lambda>ack c.
     case ack of
       A2DeckLoad status \<Rightarrow>
         try_with (check_deck_status status host load 1 False) c (\<lambda>_. (Inr status, c))
     | _ \<Rightarrow> (Inl SeProtocolMismatch, c)))"

definition transport_request ::
    "deck_session_host_contract \<Rightarrow> deck_status_snapshot \<Rightarrow> source_transport_binding list \<Rightarrow>
     deck_transport_set" where
  "transport_request host status sources = \<lparr>dts_deck_session_id = hc_deck_session_id host,
     dts_deck_revision = ds_deck_revision status, dts_sources = sources\<rparr>"

definition set_transport ::
    "'v deck_world \<Rightarrow> deck_session_host_contract \<Rightarrow> deck_session_load_request \<Rightarrow>
     deck_status_snapshot \<Rightarrow> worker_client \<Rightarrow>
     (deck_session_error + deck_status_snapshot) \<times> worker_client" where
  "set_transport w host load status c =
     try_with (map_err (\<lambda>_. SeInvalidSource) (limited_vec_try_from MAX_SOURCES (dsl_source_transport load)))
       c (\<lambda>sources.
     and_then (ask w host (C2DeckTransportSet (transport_request host status sources)) c) (\<lambda>ack c.
     case ack of
       A2DeckTransportSet status \<Rightarrow>
         try_with (check_deck_status status host load 1 True) c (\<lambda>_. (Inr status, c))
     | _ \<Rightarrow> (Inl SeProtocolMismatch, c)))"

record deck_session =
  des_client :: worker_client
  des_codec_package :: active_package
  des_deck_runtime :: active_deck_runtime
  des_cartridges :: "validated_cartridge list"
  des_external_asset_handles :: "external_asset_binding_v2 list"
  des_ring :: ring_v2_descriptor
  des_profile_receipts :: "profile_receipt list"
  des_initial_status :: deck_status_snapshot

text \<open>What is negotiated, in the order of the code: the receipts, the ring and the two states of the
  deck.\<close>

definition converse_startup ::
    "'v deck_world \<Rightarrow> active_deck_runtime \<Rightarrow> validated_cartridge list \<Rightarrow> deck_session_host_contract \<Rightarrow>
     external_asset_binding_v2 list \<Rightarrow> deck_session_load_request \<Rightarrow> codec_selection \<Rightarrow>
     source_identity list \<Rightarrow> worker_client \<Rightarrow>
     (deck_session_error + profile_receipt list \<times> ring_v2_descriptor \<times> deck_status_snapshot) \<times>
     worker_client" where
  "converse_startup w runtime cartridges host assets load sel identities c =
     and_then (configure_session w host c) (\<lambda>_ c.
     and_then (negotiate_descriptor w host sel c) (\<lambda>_ c.
     and_then (negotiate_sources w host sel (zip cartridges identities) c) (\<lambda>receipts c.
     and_then (load_codec w host sel assets c) (\<lambda>_ c.
     and_then (configure_ring w host c) (\<lambda>(descriptor, configure) c.
     and_then (load_deck w runtime host load identities receipts c) (\<lambda>loaded c.
     and_then (set_transport w host load loaded c) (\<lambda>status c.
     (Inr (receipts, descriptor, status), c))))))))"

definition start_deck_session_v2_with_retained_assets ::
    "'v deck_world \<Rightarrow> active_package \<Rightarrow> active_deck_runtime \<Rightarrow> validated_cartridge list \<Rightarrow>
     deck_session_host_contract \<Rightarrow> external_asset_binding_v2 list \<Rightarrow> external_asset_binding_v2 list \<Rightarrow>
     deck_session_load_request \<Rightarrow> deck_session_error + deck_session" where
  "start_deck_session_v2_with_retained_assets w codec_package runtime cartridges host assets retained load =
     try_bind (validate_deck_host_contract w host) (\<lambda>_.
     try_bind (validate_load_shape load (length cartridges)) (\<lambda>_.
     try_bind (validate_codec_package w codec_package host assets retained) (\<lambda>(sel, handles).
     try_bind (validate_deck_package w runtime host (length cartridges)) (\<lambda>_.
     try_bind (source_identities w cartridges (dsl_source_transport load)) (\<lambda>identities.
     try_bind (map_err SeSupervisor (launch_worker w codec_package)) (\<lambda>c.
     case converse_startup w runtime cartridges host assets load sel identities c of
       (Inl e, c) \<Rightarrow> Inl e
     | (Inr (receipts, descriptor, status), c) \<Rightarrow>
         Inr \<lparr>des_client = c, des_codec_package = codec_package, des_deck_runtime = runtime,
           des_cartridges = cartridges, des_external_asset_handles = handles, des_ring = descriptor,
           des_profile_receipts = receipts, des_initial_status = status\<rparr>))))))"

definition start_deck_session_v2 ::
    "'v deck_world \<Rightarrow> active_package \<Rightarrow> active_deck_runtime \<Rightarrow> validated_cartridge list \<Rightarrow>
     deck_session_host_contract \<Rightarrow> external_asset_binding_v2 list \<Rightarrow> deck_session_load_request \<Rightarrow>
     deck_session_error + deck_session" where
  "start_deck_session_v2 w codec_package runtime cartridges host assets load =
     start_deck_session_v2_with_retained_assets w codec_package runtime cartridges host assets [] load"

end
