(* ===== verification/Deck_Session_Exact.thy ===== *)
theory Deck_Session_Exact
  imports Deck_Session
begin

text \<open>
  What a started session guarantees: each step of the conversation over the client is one command that
  was answered, and the steps compose to the exact sequence of commands that reached the worker.
\<close>

section \<open>Steps\<close>

definition talked :: "'v deck_world \<Rightarrow> command_v2 list \<Rightarrow> worker_client \<Rightarrow> worker_client \<Rightarrow> bool" where
  "talked w commands c c' = (client_ready c' \<and> sent_commands (dw_messagepack w) commands c c')"

lemma talked_nothing: "client_ready c \<Longrightarrow> talked w [] c c"
  by (simp add: talked_def worker.sent_nothing)

lemma talked_more: "talked w xs c c1 \<Longrightarrow> talked w ys c1 c2 \<Longrightarrow> talked w (xs @ ys) c c2"
  by (auto simp: talked_def intro: worker.sent_more)

lemma asked:
  "ask w host command c = (Inr ack, c') \<Longrightarrow> client_ready c \<Longrightarrow>
     talked w [command] c c' \<and> answers_command command ack"
  by (auto simp: ask_def talked_def map_err_def split: prod.split_asm sum.split_asm dest: worker.answered)

lemma try_with_keeps: "(\<And>x. snd (f x) = s) \<Longrightarrow> snd (try_with r s f) = s"
  by (cases r) auto

text \<open>A step that asks and then only compares: it ends in the client of the answer.\<close>

lemma asked_step:
  assumes "and_then (ask w host command c) f = (Inr x, c')" and "client_ready c"
    and "\<And>ack c1. snd (f ack c1) = c1"
  obtains ack where "talked w [command] c c'" "answers_command command ack" "f ack c' = (Inr x, c')"
proof -
  obtain ack c1 where asks: "ask w host command c = (Inr ack, c1)" and f: "f ack c1 = (Inr x, c')"
    using assms(1) by (auto simp: and_then_Inr)
  then have "c1 = c'"
    using assms(3) [of ack c1] by simp
  with asked [OF asks assms(2)] f show thesis by (auto intro: that)
qed

lemma realtime_fits: "limited_capabilities [CapRealtime] = Inr [CapRealtime]"
  by (simp add: limited_capabilities_def limited_vec_try_from_def MAX_CAPABILITIES_def)

lemma configured:
  "configure_session w host c = (Inr u, c') \<Longrightarrow> client_ready c \<Longrightarrow>
     talked w [C2SessionConfigure (session_request host [CapRealtime] 262144)] c c'"
  unfolding configure_session_def realtime_fits MAX_FRAME_BYTES_def
  by simp (erule asked_step; simp split: ack_v2.split)

lemma descriptor_negotiated:
  "negotiate_descriptor w host sel c = (Inr u, c') \<Longrightarrow> client_ready c \<Longrightarrow>
     talked w [C2CodecDescriptor (descriptor_request sel)] c c'"
  unfolding negotiate_descriptor_def
  by (erule asked_step; simp split: ack_v2.split)

definition opens_source :: "source_identity \<Rightarrow> command_v2 \<Rightarrow> bool" where
  "opens_source source command = (\<exists>r. command = C2SourceOpen r \<and> so_source_id r = sid_source_id source \<and>
     so_cartridge_id r = sid_cartridge_id source \<and> so_archive_sha256 r = sid_archive_sha256 source \<and>
     so_archive_bytes r = sid_archive_bytes source \<and> so_retained_native_handle r \<noteq> 0)"

lemma opened:
  "open_source w host cartridge source c = (Inr u, c') \<Longrightarrow> client_ready c \<Longrightarrow>
     \<exists>command. opens_source source command \<and> talked w [command] c c'"
proof -
  assume run: "open_source w host cartridge source c = (Inr u, c')" and ready: "client_ready c"
  obtain command where check: "check_source_open command source = Inr ()"
    and asks: "and_then (ask w host command c) (\<lambda>ack c. case ack of
       A2SourceOpen opened \<Rightarrow>
         (refuse (sop_source_id opened \<noteq> sid_source_id source \<or>
                  sop_cartridge_id opened \<noteq> sid_cartridge_id source \<or>
                  sop_archive_sha256 opened \<noteq> sid_archive_sha256 source) SeProtocolMismatch, c)
     | _ \<Rightarrow> (Inl SeProtocolMismatch, c)) = (Inr u, c')"
    using run by (auto simp: open_source_def try_with_Inr)
  have "opens_source source command"
    using check by (cases command) (auto simp: check_source_open_def opens_source_def try_iffs)
  moreover have "talked w [command] c c'"
    using asks ready by (rule asked_step) (simp_all split: ack_v2.split)
  ultimately show ?thesis by blast
qed

lemma inspected:
  "inspect_source w host source c = (Inr u, c') \<Longrightarrow> client_ready c \<Longrightarrow>
     talked w [C2ProfileInspect (inspect_request source)] c c'"
  unfolding inspect_source_def
  by (erule asked_step; simp split: ack_v2.split)

definition receipt_fits ::
    "deck_session_host_contract \<Rightarrow> codec_selection \<Rightarrow> source_identity \<Rightarrow> profile_receipt \<Rightarrow> bool" where
  "receipt_fits host sel source r =
     (prc_cartridge_id r = sid_cartridge_id source \<and> prc_archive_sha256 r = sid_archive_sha256 source \<and>
      prc_payload_sha256 r = sid_payload_sha256 source \<and> prc_pack_id r = csel_pack_id sel \<and>
      prc_pack_version r = csel_pack_version sel \<and> prc_adapter_id r = csel_adapter_id sel \<and>
      prc_adapter_version r = csel_adapter_version sel \<and> prc_profile_key r = hc_profile_key host \<and>
      prc_signal_geometry r = hc_signal_geometry host \<and> prc_tensor_abi r = hc_tensor_abi host \<and>
      prc_decoded_abi r = hc_decoded_abi host \<and>
      prc_estimated_host_bytes r \<le> hc_maximum_estimated_host_bytes host \<and>
      prc_estimated_device_bytes r \<le> hc_maximum_estimated_device_bytes host \<and>
      CapRealtime \<in> set (prc_capabilities r))"

lemma receipt_checked: "check_profile_receipt r sel source host = Inr u \<Longrightarrow> receipt_fits host sel source r"
  by (auto simp: check_profile_receipt_def receipt_fits_def require_capabilities_def try_iffs not_less
      split: if_split_asm)

lemma validated_source:
  "validate_source w host sel source c = (Inr r, c') \<Longrightarrow> client_ready c \<Longrightarrow>
     talked w [C2ProfileValidate (validate_request host [CapRealtime] source)] c c' \<and>
     receipt_fits host sel source r"
  unfolding validate_source_def realtime_fits try_with_simps
  by (erule asked_step; simp split: ack_v2.split ack_v2.split_asm add: try_with_keeps try_with_Inr)
    (auto dest: receipt_checked)

lemma codec_loaded:
  "load_codec w host sel assets c = (Inr u, c') \<Longrightarrow> client_ready c \<Longrightarrow>
     talked w [C2CodecLoad \<lparr>cl2_pack_id = csel_pack_id sel,
         cl2_pack_version = csel_pack_version sel, cl2_adapter_id = csel_adapter_id sel,
         cl2_adapter_version = csel_adapter_version sel, cl2_device = ta_device (hc_tensor_abi host),
         cl2_device_ordinal = hc_device_ordinal host, cl2_external_assets = assets\<rparr>] c c'"
proof -
  assume run: "load_codec w host sel assets c = (Inr u, c')" and ready: "client_ready c"
  have "limited_vec_try_from MAX_EXTERNAL_ASSETS assets = Inr assets"
    using run by (auto simp: load_codec_def limited_vec_try_from_def try_iffs split: if_split_asm)
  then show ?thesis
    using run ready unfolding load_codec_def
    by simp (erule asked_step; simp split: ack_v2.split)
qed

definition ring_fits :: "deck_session_host_contract \<Rightarrow> ring_v2_descriptor \<Rightarrow> ring_configure \<Rightarrow> bool" where
  "ring_fits host descriptor configure =
     (rc_ring_id configure = hc_ring_id host \<and> rc_kind configure = DecodedRgba \<and>
      ucast (rc_slot_count configure) = vl_slot_count (vd_layout descriptor) \<and>
      rc_slot_bytes configure = vl_slot_bytes (vd_layout descriptor) \<and>
      rc_mapping_handle configure \<noteq> 0 \<and>
      ring_v2_descriptor_new (sg2_decoded_width (hc_signal_geometry host))
        (sg2_decoded_height (hc_signal_geometry host)) (ucast (da_maximum_batch (hc_decoded_abi host)))
        (ucast (hc_ring_slot_count host)) (hc_stream_generation host) = Inr descriptor)"

lemma ring_prepared: "prepare_ring w host c = Inr (descriptor, configure) \<Longrightarrow> ring_fits host descriptor configure"
  by (auto simp: prepare_ring_def try_iffs check_ring_command_def ring_fits_def Let_def split: if_split_asm)

lemma ring_configured:
  "configure_ring w host c = (Inr (descriptor, configure), c') \<Longrightarrow> client_ready c \<Longrightarrow>
     talked w [C2RingConfigure configure] c c' \<and> ring_fits host descriptor configure"
proof -
  assume run: "configure_ring w host c = (Inr (descriptor, configure), c')" and ready: "client_ready c"
  obtain d r where prepared: "prepare_ring w host c = Inr (d, r)"
    using run by (auto simp: configure_ring_def try_with_Inr)
  show ?thesis
    using run ready ring_prepared [OF prepared] unfolding configure_ring_def prepared try_with_simps
    by simp (erule asked_step; simp split: ack_v2.split ack_v2.split_asm if_split_asm)
qed

lemma deck_loaded:
  "load_deck w runtime host load identities receipts c = (Inr status, c') \<Longrightarrow> client_ready c \<Longrightarrow>
     (\<exists>command. build_load_command runtime (deck_load_request_of host load identities receipts) = Inr command \<and>
        talked w [command] c c') \<and> check_deck_status status host load 1 False = Inr ()"
proof -
  assume run: "load_deck w runtime host load identities receipts c = (Inr status, c')"
    and ready: "client_ready c"
  obtain command where built: "build_load_command runtime
      (deck_load_request_of host load identities receipts) = Inr command"
    using run by (auto simp: load_deck_def try_iffs)
  show ?thesis
    using run ready unfolding load_deck_def built map_err_simps try_with_simps
    by (elim asked_step; simp split: ack_v2.split ack_v2.split_asm add: try_with_keeps try_with_Inr)
qed

lemma transport_set:
  "set_transport w host load loaded c = (Inr status, c') \<Longrightarrow> client_ready c \<Longrightarrow>
     talked w [C2DeckTransportSet (transport_request host loaded (dsl_source_transport load))] c c' \<and>
     check_deck_status status host load 1 True = Inr ()"
proof -
  assume run: "set_transport w host load loaded c = (Inr status, c')" and ready: "client_ready c"
  have "limited_vec_try_from MAX_SOURCES (dsl_source_transport load) = Inr (dsl_source_transport load)"
    using run by (auto simp: set_transport_def limited_vec_try_from_def try_iffs split: if_split_asm)
  then show ?thesis
    using run ready unfolding set_transport_def
    by simp (erule asked_step; simp split: ack_v2.split ack_v2.split_asm add: try_with_keeps try_with_Inr)
qed

section \<open>The conversation\<close>

definition source_commands ::
    "deck_session_host_contract \<Rightarrow> source_identity \<Rightarrow> command_v2 \<Rightarrow> command_v2 list" where
  "source_commands host source open_command =
     [open_command, C2ProfileInspect (inspect_request source),
      C2ProfileValidate (validate_request host [CapRealtime] source)]"

lemma sources_negotiated:
  "negotiate_sources w host sel (zip cartridges identities) c = (Inr receipts, c') \<Longrightarrow> client_ready c \<Longrightarrow>
   length cartridges = length identities \<Longrightarrow>
     list_all2 (receipt_fits host sel) identities receipts \<and>
     (\<exists>opens. list_all2 opens_source identities opens \<and>
        talked w (concat (map2 (source_commands host) identities opens)) c c')"
proof (induction cartridges arbitrary: identities receipts c)
  case Nil
  then show ?case by (auto intro: talked_nothing)
next
  case (Cons cartridge cartridges)
  then obtain source rest where ids: "identities = source # rest"
    by (cases identities) auto
  from Cons.prems(1) obtain u c1 v c2 r c3 rs where
    run: "open_source w host cartridge source c = (Inr u, c1)" "inspect_source w host source c1 = (Inr v, c2)"
      "validate_source w host sel source c2 = (Inr r, c3)"
      "negotiate_sources w host sel (zip cartridges rest) c3 = (Inr rs, c')" and receipts: "receipts = r # rs"
    by (auto simp: ids and_then_Inr)
  obtain command where 1: "opens_source source command" "talked w [command] c c1"
    using opened [OF run(1) Cons.prems(2)] by blast
  have 2: "talked w [C2ProfileInspect (inspect_request source)] c1 c2"
    using inspected [OF run(2)] 1(2) by (simp add: talked_def)
  have 3: "talked w [C2ProfileValidate (validate_request host [CapRealtime] source)] c2 c3"
    "receipt_fits host sel source r"
    using validated_source [OF run(3)] 2 by (simp_all add: talked_def)
  have "client_ready c3"
    using 3(1) by (simp add: talked_def)
  from Cons.IH [OF run(4) this] Cons.prems(3) obtain opens where
    4: "list_all2 (receipt_fits host sel) rest rs" "list_all2 opens_source rest opens"
      "talked w (concat (map2 (source_commands host) rest opens)) c3 c'"
    by (auto simp: ids)
  have "talked w (concat (map2 (source_commands host) identities (command # opens))) c c'"
    using talked_more [OF talked_more [OF talked_more [OF 1(2) 2] 3(1)] 4(3)]
    by (simp add: ids source_commands_def)
  then show ?case
    using 1(1) 3(2) 4(1,2) by (auto simp: ids receipts intro!: exI [of _ "command # opens"])
qed

section \<open>Errors\<close>

text \<open>No step reports that the reply to another command, or of another kind, arrived.\<close>

definition harmless :: "deck_session_error \<Rightarrow> bool" where
  "harmless e = (case e of
       SeClient ce \<Rightarrow> \<not> confused_reply ce
     | SeSource se \<Rightarrow> (case se of WsClient ce \<Rightarrow> \<not> confused_reply ce | _ \<Rightarrow> True)
     | _ \<Rightarrow> True)"

lemma harmless_simps [simp]:
  "harmless (SeInvalidHostContract t)" "harmless (SeIncompatiblePackage t)" "harmless SeInvalidSource"
  "harmless SeProtocolMismatch" "harmless SeCapabilityMismatch" "harmless SeProfileMismatch"
  "harmless SeInvalidNativeTransfer" "harmless SeExternalAssetInvalid" "harmless (SeDeckRuntime d)"
  "harmless (SeSupervisor su)" "harmless (SeRing r)"
  by (simp_all add: harmless_def)

lemma require_harmless: "require_capabilities xs ys = Inl e \<Longrightarrow> harmless e"
  by (auto simp: require_capabilities_def try_iffs)

lemma ask_harmless: "ask w host command c = (Inl e, c') \<Longrightarrow> client_ready c \<Longrightarrow> harmless e"
  by (auto simp: ask_def harmless_def map_err_def split: prod.split_asm sum.split_asm dest: worker.refused)

lemma handle_harmless: "process_handle w c = Inl ce \<Longrightarrow> \<not> confused_reply ce"
  by (auto simp: process_handle_def try_iffs confused_reply_def)

lemma step_harmless:
  assumes "and_then (ask w host command c) f = (Inl e, c')" and "client_ready c"
    and "\<And>ack c1 e c2. f ack c1 = (Inl e, c2) \<Longrightarrow> harmless e"
  shows "harmless e"
  using assms(1) assms(3) ask_harmless [OF _ assms(2)] by (auto simp: and_then_Inl)

lemma configure_harmless: "configure_session w host c = (Inl e, c') \<Longrightarrow> client_ready c \<Longrightarrow> harmless e"
  unfolding configure_session_def realtime_fits MAX_FRAME_BYTES_def
  by simp (erule step_harmless; auto split: ack_v2.split_asm if_split_asm dest: require_harmless)

lemma descriptor_harmless:
  "negotiate_descriptor w host sel c = (Inl e, c') \<Longrightarrow> client_ready c \<Longrightarrow> harmless e"
  unfolding negotiate_descriptor_def
  by (erule step_harmless; auto split: ack_v2.split_asm if_split_asm dest: require_harmless)

lemma prepare_source_harmless:
  "prepare_source_open w c cartridge i = Inl se \<Longrightarrow> harmless (SeSource se)"
  by (auto simp: prepare_source_open_def harmless_def try_iffs dest: handle_harmless split: if_split_asm)

lemma open_harmless:
  assumes "open_source w host cartridge source c = (Inl e, c')" and "client_ready c"
  shows "harmless e"
proof (cases "prepare_source_open w c cartridge (sid_source_id source)")
  case (Inl se)
  then show ?thesis
    using assms(1) prepare_source_harmless [OF Inl] by (simp add: open_source_def)
next
  case (Inr command)
  show ?thesis
  proof (cases "check_source_open command source")
    case (Inl e')
    then show ?thesis
      using assms(1) Inr by (auto simp: open_source_def check_source_open_def try_iffs split: command_v2.split_asm)
  next
    case checked: (Inr u)
    show ?thesis
      using assms unfolding open_source_def Inr checked map_err_simps try_with_simps
      by (elim step_harmless) (auto simp: try_iffs split: ack_v2.split_asm)
  qed
qed

lemma inspect_harmless: "inspect_source w host source c = (Inl e, c') \<Longrightarrow> client_ready c \<Longrightarrow> harmless e"
  unfolding inspect_source_def
  by (erule step_harmless; auto simp: try_iffs split: ack_v2.split_asm)

lemma receipt_harmless: "check_profile_receipt r sel source host = Inl e \<Longrightarrow> harmless e"
  by (auto simp: check_profile_receipt_def try_iffs split: if_split_asm dest: require_harmless)

lemma validate_source_harmless:
  "validate_source w host sel source c = (Inl e, c') \<Longrightarrow> client_ready c \<Longrightarrow> harmless e"
  unfolding validate_source_def realtime_fits try_with_simps
  by (erule step_harmless; auto simp: try_with_Inl split: ack_v2.split_asm dest: receipt_harmless)

lemma sources_harmless:
  "negotiate_sources w host sel xs c = (Inl e, c') \<Longrightarrow> client_ready c \<Longrightarrow> harmless e"
proof (induction xs arbitrary: c)
  case Nil
  then show ?case by simp
next
  case (Cons x xs)
  obtain cartridge source where x: "x = (cartridge, source)" by (cases x)
  consider (at_open) "open_source w host cartridge source c = (Inl e, c')"
    | (inspecting) u c1 where "open_source w host cartridge source c = (Inr u, c1)"
      "inspect_source w host source c1 = (Inl e, c')"
    | (validating) u c1 v c2 where "open_source w host cartridge source c = (Inr u, c1)"
      "inspect_source w host source c1 = (Inr v, c2)" "validate_source w host sel source c2 = (Inl e, c')"
    | (later) u c1 v c2 r c3 where "open_source w host cartridge source c = (Inr u, c1)"
      "inspect_source w host source c1 = (Inr v, c2)" "validate_source w host sel source c2 = (Inr r, c3)"
      "negotiate_sources w host sel xs c3 = (Inl e, c')"
    using Cons.prems(1) unfolding x negotiate_sources.simps and_then_Inl by blast
  then show ?case
  proof cases
    case at_open
    then show ?thesis using Cons.prems(2) by (rule open_harmless)
  next
    case inspecting
    then show ?thesis
      using opened [OF inspecting(1) Cons.prems(2)] inspect_harmless by (auto simp: talked_def)
  next
    case validating
    have "client_ready c1"
      using opened [OF validating(1) Cons.prems(2)] by (auto simp: talked_def)
    then have "client_ready c2"
      using inspected [OF validating(2)] by (simp add: talked_def)
    with validating(3) show ?thesis by (rule validate_source_harmless)
  next
    case later
    have "client_ready c1"
      using opened [OF later(1) Cons.prems(2)] by (auto simp: talked_def)
    then have "client_ready c2"
      using inspected [OF later(2)] by (simp add: talked_def)
    then have "client_ready c3"
      using validated_source [OF later(3)] by (simp add: talked_def)
    with later(4) show ?thesis by (rule Cons.IH)
  qed
qed

lemma checked_step_harmless:
  assumes "try_with r c f = (Inl e, c')" and "\<And>e. r = Inl e \<Longrightarrow> harmless e"
    and "\<And>x. r = Inr x \<Longrightarrow> f x = (Inl e, c') \<Longrightarrow> harmless e"
  shows "harmless e"
  using assms by (auto simp: try_with_Inl)

lemma load_codec_harmless: "load_codec w host sel assets c = (Inl e, c') \<Longrightarrow> client_ready c \<Longrightarrow> harmless e"
  unfolding load_codec_def
  by (erule checked_step_harmless; (erule step_harmless)?; auto simp: try_iffs split: ack_v2.split_asm)

lemma prepare_ring_harmless: "prepare_ring w host c = Inl e \<Longrightarrow> harmless e"
  by (auto simp: prepare_ring_def try_iffs check_ring_command_def harmless_def Let_def
      dest: handle_harmless split: if_split_asm)

lemma configure_ring_harmless: "configure_ring w host c = (Inl e, c') \<Longrightarrow> client_ready c \<Longrightarrow> harmless e"
  unfolding configure_ring_def
  by (erule checked_step_harmless; (simp only: prod.case split: prod.split_asm, erule step_harmless)?;
      auto dest: prepare_ring_harmless split: ack_v2.split_asm if_split_asm)

lemma status_harmless: "check_deck_status status host load n b = Inl e \<Longrightarrow> harmless e"
  by (auto simp: check_deck_status_def try_iffs)

lemma load_deck_harmless:
  "load_deck w runtime host load identities receipts c = (Inl e, c') \<Longrightarrow> client_ready c \<Longrightarrow> harmless e"
  unfolding load_deck_def
  by (erule checked_step_harmless; (erule step_harmless)?;
      auto simp: map_err_Inl try_with_Inl split: ack_v2.split_asm dest: status_harmless)

lemma transport_harmless:
  "set_transport w host load loaded c = (Inl e, c') \<Longrightarrow> client_ready c \<Longrightarrow> harmless e"
  unfolding set_transport_def
  by (erule checked_step_harmless; (erule step_harmless)?;
      auto simp: map_err_Inl try_with_Inl split: ack_v2.split_asm dest: status_harmless)

section \<open>The startup\<close>

definition startup_commands ::
    "deck_session_host_contract \<Rightarrow> deck_session_load_request \<Rightarrow> external_asset_binding_v2 list \<Rightarrow>
     codec_selection \<Rightarrow> source_identity list \<Rightarrow> command_v2 list \<Rightarrow> ring_configure \<Rightarrow> command_v2 \<Rightarrow>
     command_v2 list" where
  "startup_commands host load assets sel identities opens ring load_command =
     [C2SessionConfigure (session_request host [CapRealtime] 262144),
      C2CodecDescriptor (descriptor_request sel)] @
     concat (map2 (source_commands host) identities opens) @
     [C2CodecLoad \<lparr>cl2_pack_id = csel_pack_id sel,
        cl2_pack_version = csel_pack_version sel, cl2_adapter_id = csel_adapter_id sel,
        cl2_adapter_version = csel_adapter_version sel, cl2_device = ta_device (hc_tensor_abi host),
        cl2_device_ordinal = hc_device_ordinal host, cl2_external_assets = assets\<rparr>,
      C2RingConfigure ring, load_command,
      C2DeckTransportSet \<lparr>dts_deck_session_id = hc_deck_session_id host, dts_deck_revision = 1,
        dts_sources = dsl_source_transport load\<rparr>]"

definition startup_done ::
    "'v deck_world \<Rightarrow> active_deck_runtime \<Rightarrow> deck_session_host_contract \<Rightarrow>
     external_asset_binding_v2 list \<Rightarrow> deck_session_load_request \<Rightarrow> codec_selection \<Rightarrow>
     source_identity list \<Rightarrow> worker_client \<Rightarrow> worker_client \<Rightarrow> profile_receipt list \<Rightarrow>
     ring_v2_descriptor \<Rightarrow> deck_status_snapshot \<Rightarrow> bool" where
  "startup_done w runtime host assets load sel identities c c' receipts descriptor status =
     (\<exists>opens ring load_command.
        list_all2 opens_source identities opens \<and>
        list_all2 (receipt_fits host sel) identities receipts \<and>
        ring_fits host descriptor ring \<and>
        build_load_command runtime (deck_load_request_of host load identities receipts) = Inr load_command \<and>
        talked w (startup_commands host load assets sel identities opens ring load_command) c c' \<and>
        check_deck_status status host load 1 True = Inr ())"

lemma conversation_done:
  assumes "converse_startup w runtime cartridges host assets load sel identities c =
      (Inr (receipts, descriptor, status), c')"
    and "client_ready c" and "length cartridges = length identities"
  shows "startup_done w runtime host assets load sel identities c c' receipts descriptor status"
proof -
  from assms(1) obtain u1 c1 u2 c2 c3 u4 c4 ring c5 loaded c6 where
    run: "configure_session w host c = (Inr u1, c1)" "negotiate_descriptor w host sel c1 = (Inr u2, c2)"
      "negotiate_sources w host sel (zip cartridges identities) c2 = (Inr receipts, c3)"
      "load_codec w host sel assets c3 = (Inr u4, c4)"
      "configure_ring w host c4 = (Inr (descriptor, ring), c5)"
      "load_deck w runtime host load identities receipts c5 = (Inr loaded, c6)"
      "set_transport w host load loaded c6 = (Inr status, c')"
    by (auto simp: converse_startup_def and_then_Inr)
  note 1 = configured [OF run(1) assms(2)]
  have r1: "client_ready c1" using 1 by (simp add: talked_def)
  note 2 = descriptor_negotiated [OF run(2) r1]
  have r2: "client_ready c2" using 2 by (simp add: talked_def)
  obtain opens where 3: "list_all2 (receipt_fits host sel) identities receipts"
    "list_all2 opens_source identities opens"
    "talked w (concat (map2 (source_commands host) identities opens)) c2 c3"
    using sources_negotiated [OF run(3) r2 assms(3)] by blast
  have r3: "client_ready c3" using 3(3) by (simp add: talked_def)
  note 4 = codec_loaded [OF run(4) r3]
  have r4: "client_ready c4" using 4 by (simp add: talked_def)
  note 5 = ring_configured [OF run(5) r4]
  have r5: "client_ready c5" using 5 by (simp add: talked_def)
  obtain load_command where 6: "build_load_command runtime
      (deck_load_request_of host load identities receipts) = Inr load_command" "talked w [load_command] c5 c6"
    "check_deck_status loaded host load 1 False = Inr ()"
    using deck_loaded [OF run(6) r5] by blast
  have r6: "client_ready c6" using 6(2) by (simp add: talked_def)
  note 7 = transport_set [OF run(7) r6]
  have revision: "ds_deck_revision loaded = 1"
    using 6(3) by (simp add: check_deck_status_def try_iffs)
  have "talked w (startup_commands host load assets sel identities opens ring load_command) c c'"
    using talked_more [OF 1 talked_more [OF 2 talked_more [OF 3(3) talked_more [OF 4
        talked_more [OF conjunct1 [OF 5] talked_more [OF 6(2) conjunct1 [OF 7]]]]]]]
    by (simp add: startup_commands_def transport_request_def revision)
  then show ?thesis
    unfolding startup_done_def using 3(1,2) 5 6(1) 7 by blast
qed

lemma conversation_harmless:
  assumes "converse_startup w runtime cartridges host assets load sel identities c = (Inl e, c')"
    and "client_ready c" and "length cartridges = length identities"
  shows "harmless e"
proof (rule ccontr)
  assume bad: "\<not> harmless e"
  obtain r1 c1 where a1: "configure_session w host c = (r1, c1)" by fastforce
  obtain u1 where u1: "r1 = Inr u1"
    using assms(1) bad a1 configure_harmless [of w host c _ c1] assms(2)
    by (cases r1) (auto simp: converse_startup_def)
  have r1: "client_ready c1"
    using configured [OF a1 [unfolded u1] assms(2)] by (simp add: talked_def)
  obtain x2 c2 where a2: "negotiate_descriptor w host sel c1 = (x2, c2)" by fastforce
  obtain u2 where u2: "x2 = Inr u2"
    using assms(1) bad a1 u1 a2 descriptor_harmless [of w host sel c1 _ c2] r1
    by (cases x2) (auto simp: converse_startup_def)
  have r2: "client_ready c2"
    using descriptor_negotiated [OF a2 [unfolded u2] r1] by (simp add: talked_def)
  obtain x3 c3 where a3: "negotiate_sources w host sel (zip cartridges identities) c2 = (x3, c3)" by fastforce
  obtain receipts where u3: "x3 = Inr receipts"
    using assms(1) bad a1 u1 a2 u2 a3 sources_harmless [of w host sel "zip cartridges identities" c2 _ c3] r2
    by (cases x3) (auto simp: converse_startup_def)
  have r3: "client_ready c3"
    using sources_negotiated [OF a3 [unfolded u3] r2 assms(3)] by (auto simp: talked_def)
  obtain x4 c4 where a4: "load_codec w host sel assets c3 = (x4, c4)" by fastforce
  obtain u4 where u4: "x4 = Inr u4"
    using assms(1) bad a1 u1 a2 u2 a3 u3 a4 load_codec_harmless [of w host sel assets c3 _ c4] r3
    by (cases x4) (auto simp: converse_startup_def)
  have r4: "client_ready c4"
    using codec_loaded [OF a4 [unfolded u4] r3] by (simp add: talked_def)
  obtain x5 c5 where a5: "configure_ring w host c4 = (x5, c5)" by fastforce
  obtain descriptor ring where u5: "x5 = Inr (descriptor, ring)"
    using assms(1) bad a1 u1 a2 u2 a3 u3 a4 u4 a5 configure_ring_harmless [of w host c4 _ c5] r4
    by (cases x5) (auto simp: converse_startup_def)
  have r5: "client_ready c5"
    using ring_configured [OF a5 [unfolded u5] r4] by (simp add: talked_def)
  obtain x6 c6 where a6: "load_deck w runtime host load identities receipts c5 = (x6, c6)" by fastforce
  obtain loaded where u6: "x6 = Inr loaded"
    using assms(1) bad a1 u1 a2 u2 a3 u3 a4 u4 a5 u5 a6
      load_deck_harmless [of w runtime host load identities receipts c5 _ c6] r5
    by (cases x6) (auto simp: converse_startup_def)
  have r6: "client_ready c6"
    using deck_loaded [OF a6 [unfolded u6] r5] by (auto simp: talked_def)
  show False
    using assms(1) bad a1 u1 a2 u2 a3 u3 a4 u4 a5 u5 a6 u6 transport_harmless [of w host load loaded c6 _ _] r6
    by (auto simp: converse_startup_def and_then_Inl)
qed

lemma launched_ready: "launch_worker w package = Inr c \<Longrightarrow> client_ready c"
  by (auto simp: launch_worker_def try_iffs client_ready_def new_worker_client_def read_clock_def
      dest!: connected)

lemma identity_slots:
  "try_map (\<lambda>(index, cartridge). source_identity_of w transport index cartridge) (enumerate n cartridges) =
     Inr identities \<Longrightarrow>
   map sid_physical_slot identities = map of_nat [Suc n..<Suc (n + length cartridges)]"
proof (induction cartridges arbitrary: n identities)
  case Nil
  then show ?case by simp
next
  case (Cons cartridge cartridges)
  then obtain source rest where ids: "identities = source # rest"
    and first: "source_identity_of w transport n cartridge = Inr source"
    and later: "try_map (\<lambda>(index, cartridge). source_identity_of w transport index cartridge)
      (enumerate (Suc n) cartridges) = Inr rest"
    by (auto simp: try_iffs)
  have "sid_physical_slot source = of_nat (Suc n)"
    using first by (auto simp: source_identity_of_def try_iffs Let_def split: if_split_asm)
  then show ?case
    using Cons.IH [OF later] by (simp add: ids upt_conv_Cons del: upt_Suc)
qed

lemma identities_numbered:
  assumes "source_identities w cartridges transport = Inr identities"
  shows "map sid_physical_slot identities = map of_nat [1..<Suc (length cartridges)] \<and>
    length cartridges = length identities"
proof -
  have slots: "map sid_physical_slot identities = map of_nat [1..<Suc (length cartridges)]"
    using identity_slots [OF assms [unfolded source_identities_def]] by simp
  have "length identities = length cartridges"
    using arg_cong [where f = length, OF slots] by (simp only: length_map length_upt)
  then show ?thesis
    using slots by simp
qed

lemma host_harmless: "validate_deck_host_contract w host = Inl e \<Longrightarrow> harmless e"
  by (auto simp: validate_deck_host_contract_def Let_def try_iffs split: prod.split_asm)

lemma shape_harmless: "validate_load_shape load n = Inl e \<Longrightarrow> harmless e"
  by (auto simp: validate_load_shape_def try_iffs split: if_split_asm)

lemma range_harmless: "session_version_range w a b c = Inl e \<Longrightarrow> harmless e"
  by (auto simp: session_version_range_def try_iffs)

lemma retain_harmless: "retain_assets w m retained seen bs = Inl e \<Longrightarrow> harmless e"
  by (induction bs arbitrary: seen) (auto simp: try_iffs split: if_split_asm option.split_asm)

lemma codec_harmless: "validate_codec_package w package host assets retained = Inl e \<Longrightarrow> harmless e"
  by (auto simp: validate_codec_package_def validate_external_assets_def Let_def try_iffs
      dest: range_harmless retain_harmless split: if_split_asm package_manifest.split_asm)

lemma deck_harmless: "validate_deck_package w runtime host n = Inl e \<Longrightarrow> harmless e"
  by (auto simp: validate_deck_package_def Let_def dest: range_harmless
      split: if_split_asm package_manifest.split_asm)

lemma identities_harmless: "source_identities w cartridges transport = Inl e \<Longrightarrow> harmless e"
proof -
  have "try_map (\<lambda>(index, cartridge). source_identity_of w transport index cartridge) xs = Inl e \<Longrightarrow> harmless e"
    for xs
    by (induction xs) (auto simp: try_iffs source_identity_of_def Let_def split: if_split_asm)
  then show "source_identities w cartridges transport = Inl e \<Longrightarrow> harmless e"
    by (simp add: source_identities_def)
qed

lemmas checks_harmless = host_harmless shape_harmless codec_harmless deck_harmless identities_harmless


end
