(* ===== verification/Deck_Sessions.thy ===== *)
theory Deck_Sessions
  imports Session_Broker Protocol2_Messages Extension_Model "HOL-Library.Product_Lexorder"
begin

text \<open>
  The sessions of the application (\<open>apps/latentdeck/src-tauri/src/generic_deck_state.rs\<close>): the
  registry around the broker with its reservations, and the controller that the commands lock, with
  its records of the running decks, the sessions being closed, the lifecycle transition in progress
  and the recent faults. A runtime (behind an \<open>Arc\<close>) is its identity, a number; what its atomics and
  mutexes hold when they are read is a record of answers, one for each stretch in which every one of
  them is read at most once. The text of a version is an argument.
\<close>

section \<open>Errors\<close>

record command_error =
  ce_code :: string
  ce_message :: string

definition MAX_RECENT_FAULTS :: nat where
  "MAX_RECENT_FAULTS = 32"

definition deck_session_not_found :: command_error where
  "deck_session_not_found = \<lparr>ce_code = ''session.not_found'',
     ce_message = ''The exact generic Deck session is not active.''\<rparr>"

definition broker_command_error :: "broker_error \<Rightarrow> command_error" where
  "broker_command_error e = \<lparr>ce_code = broker_error_code e,
     ce_message = ''The generic Deck session broker rejected the requested lifecycle transition.''\<rparr>"

record generic_runtime_error =
  gre_code :: string
  gre_message :: string
  gre_fatal :: bool

definition runtime_command_error :: "generic_runtime_error \<Rightarrow> command_error" where
  "runtime_command_error e = \<lparr>ce_code = gre_code e, ce_message = gre_message e\<rparr>"

definition source_replacement_capture_conflict :: command_error where
  "source_replacement_capture_conflict = \<lparr>ce_code = ''capture.source_replacement_conflict'',
     ce_message = ''Finish or cancel latent Snapshot/Live Capture before replacing Deck sources.''\<rparr>"

definition session_already_active :: command_error where
  "session_already_active = \<lparr>ce_code = ''session.already_exists'',
     ce_message = ''The exact generic Deck session identity is already active.''\<rparr>"

definition lifecycle_busy :: command_error where
  "lifecycle_busy = \<lparr>ce_code = ''session.lifecycle_busy'',
     ce_message = ''A foreground output lease transition is already in progress.''\<rparr>"

definition replacement_busy :: command_error where
  "replacement_busy = \<lparr>ce_code = ''session.lifecycle_busy'',
     ce_message = ''Source replacement is already in progress for this generic Deck session.''\<rparr>"

definition generation_exhausted :: command_error where
  "generation_exhausted = \<lparr>ce_code = ''session.lease_generation_exhausted'',
     ce_message = ''The foreground output lease generation is exhausted.''\<rparr>"

definition lifecycle_changed :: "string \<Rightarrow> command_error" where
  "lifecycle_changed message = \<lparr>ce_code = ''session.lifecycle_changed'', ce_message = message\<rparr>"

definition replacement_identity_mismatch :: command_error where
  "replacement_identity_mismatch = \<lparr>ce_code = ''session.source_replacement_identity_mismatch'',
     ce_message = ''Source replacement must keep the exact Deck, Codec, profile, device, and external assets of the active session.''\<rparr>"

section \<open>The registry\<close>

record 'v session_registry =
  gr_broker :: "'v session_broker"
  gr_pending :: "(session_id, unit) btree_map"

definition registry_new :: "'v session_registry" where
  "registry_new = \<lparr>gr_broker = broker_new, gr_pending = []\<rparr>"

definition registry_reserve ::
    "'v session_registry \<Rightarrow> session_id \<Rightarrow> (broker_error + unit) \<times> 'v session_registry" where
  "registry_reserve g i =
     (if contains_session (gr_broker g) i \<or> bt_get (gr_pending g) i \<noteq> None
      then (Inl SessionAlreadyExists, g)
      else if MAX_WARM_SESSIONS \<le> length (sb_sessions (gr_broker g)) + length (gr_pending g)
      then (Inl SessionCapacityExceeded, g)
      else (Inr (), g\<lparr>gr_pending := bt_insert (gr_pending g) i ()\<rparr>))"

definition registry_cancel :: "'v session_registry \<Rightarrow> session_id \<Rightarrow> 'v session_registry" where
  "registry_cancel g i = g\<lparr>gr_pending := bt_remove (gr_pending g) i\<rparr>"

text \<open>An operation of the broker inside the registry.\<close>

definition on_broker ::
    "('v session_broker \<Rightarrow> 'r \<times> 'v session_broker) \<Rightarrow> 'v session_registry \<Rightarrow> 'r \<times> 'v session_registry"
where
  "on_broker f g = (case f (gr_broker g) of (r, b) \<Rightarrow> (r, g\<lparr>gr_broker := b\<rparr>))"

definition registry_commit ::
    "'v session_registry \<Rightarrow> 'v warm_session \<Rightarrow> (broker_error + unit) \<times> 'v session_registry" where
  "registry_commit g session =
     (if bt_get (gr_pending g) (ws_session_id session) = None then (Inl SessionNotFound, g)
      else let g1 = registry_cancel g (ws_session_id session)
           in case on_broker (\<lambda>b. open_session b session) g1 of
                (Inl e, g2) \<Rightarrow>
                  (Inl e, g2\<lparr>gr_pending := bt_insert (gr_pending g2) (ws_session_id session) ()\<rparr>)
              | (Inr u, g2) \<Rightarrow> (Inr (), g2))"

definition registry_close ::
    "'v session_registry \<Rightarrow> session_id \<Rightarrow> (broker_error + 'v warm_session) \<times> 'v session_registry" where
  "registry_close g i = on_broker (\<lambda>b. close_session b i) g"

definition registry_replace_worker ::
    "'v session_registry \<Rightarrow> session_id \<Rightarrow> worker_id \<Rightarrow>
     (broker_error + 'v warm_session) \<times> 'v session_registry" where
  "registry_replace_worker g i worker = on_broker (\<lambda>b. replace_worker b i worker) g"

definition registry_pin_foreground ::
    "'v session_registry \<Rightarrow> session_id \<Rightarrow> output_pin_kind \<Rightarrow>
     (broker_error + output_pin_token) \<times> 'v session_registry" where
  "registry_pin_foreground g i kind = on_broker (\<lambda>b. pin_foreground b i kind) g"

definition registry_release_pin ::
    "'v session_registry \<Rightarrow> output_pin_token \<Rightarrow> (broker_error + unit) \<times> 'v session_registry" where
  "registry_release_pin g token = on_broker (\<lambda>b. release_output_pin b token) g"

definition registry_worker_fault ::
    "'v session_registry \<Rightarrow> worker_id \<Rightarrow> (broker_error + 'v warm_session) \<times> 'v session_registry" where
  "registry_worker_fault g worker = on_broker (\<lambda>b. handle_worker_fault b worker) g"

definition reap_terminal_pin ::
    "(output_pin_token \<Rightarrow> bool) \<Rightarrow> 'v session_registry \<Rightarrow> bool \<times> 'v session_registry" where
  "reap_terminal_pin is_terminal g =
     (case sb_output_pin (gr_broker g) of
        None \<Rightarrow> (False, g)
      | Some token \<Rightarrow>
          if \<not> is_terminal token then (False, g)
          else case registry_release_pin g token of (r, g') \<Rightarrow> (\<not> isl r, g'))"

section \<open>Records of the sessions\<close>

record profile_key_input =
  pki_codec_family :: string
  pki_profile :: string
  pki_profile_version :: string

record exact_package_view =
  epv_package_id :: string
  epv_package_version :: string

record deck_source_input =
  dsi_cartridge_id :: string
  dsi_archive_sha256 :: string

record deck_source_view =
  dsv_cartridge_id :: string
  dsv_archive_sha256 :: string

record session_asset_view =
  sav_asset_id :: string
  sav_sha256 :: string
  sav_byte_length :: u64

record negotiated_identity =
  ni_profile_key :: profile_key_input
  ni_device :: device_kind
  ni_device_ordinal :: u8
  ni_external_assets :: "session_asset_view list"

record negotiated_view =
  nv_profile_key :: profile_key_input
  nv_device :: device_kind
  nv_device_ordinal :: u8
  nv_external_assets :: "session_asset_view list"

definition view_negotiated :: "negotiated_identity \<Rightarrow> negotiated_view" where
  "view_negotiated n = \<lparr>nv_profile_key = ni_profile_key n, nv_device = ni_device n,
     nv_device_ordinal = ni_device_ordinal n, nv_external_assets = ni_external_assets n\<rparr>"

record deck_open_request =
  dor_deck_id :: string
  dor_deck_version :: string
  dor_codec_id :: string
  dor_codec_version :: string
  dor_profile_key :: profile_key_input
  dor_device :: device_kind
  dor_device_ordinal :: u8
  dor_sources :: "deck_source_input list"
  dor_roles :: "role_binding list"
  dor_controls :: "control_binding list"
  dor_source_transport :: "source_transport_binding list"
  dor_seed :: u64

definition exact_view :: "('v \<Rightarrow> string) \<Rightarrow> 'v package_identity \<Rightarrow> exact_package_view" where
  "exact_view text_of p =
     \<lparr>epv_package_id = pi_package_id p, epv_package_version = text_of (pi_version p)\<rparr>"

definition validate_replacement_identity ::
    "('v \<Rightarrow> string) \<Rightarrow> deck_open_request \<Rightarrow> 'v package_identity \<Rightarrow> 'v package_identity \<Rightarrow>
     negotiated_identity \<Rightarrow> negotiated_identity \<Rightarrow> command_error + unit" where
  "validate_replacement_identity text_of request deck codec negotiated prepared_negotiated =
     refuse
       (dor_deck_id request \<noteq> pi_package_id deck \<or>
        dor_deck_version request \<noteq> text_of (pi_version deck) \<or>
        dor_codec_id request \<noteq> pi_package_id codec \<or>
        dor_codec_version request \<noteq> text_of (pi_version codec) \<or>
        dor_profile_key request \<noteq> ni_profile_key negotiated \<or>
        dor_device request \<noteq> ni_device negotiated \<or>
        dor_device_ordinal request \<noteq> ni_device_ordinal negotiated \<or>
        prepared_negotiated \<noteq> negotiated)
       replacement_identity_mismatch"

text \<open>What is read from a runtime.\<close>

type_synonym runtime_id = nat
type_synonym recording_id = nat

datatype recorder_state =
    RecIdle | RecArmed | RecRecording | RecFinalizing | RecFinished | RecCancelled | RecFailed

record capture_view =
  cv_capture_id :: "string option"
  cv_mode :: "capture_mode option"
  cv_state :: string
  cv_latent_slots :: string
  cv_reset_events :: u32
  cv_cartridge_id :: "string option"
  cv_archive_sha256 :: "string option"
  cv_detail :: "string option"

record runtime_view =
  rv_status :: deck_status_snapshot
  rv_output_visible :: bool
  rv_fault_code :: "string option"

record runtime_answers =
  ra_is_closed :: "runtime_id \<Rightarrow> bool"
  ra_view :: "runtime_id \<Rightarrow> generic_runtime_error + runtime_view"
  ra_cached_capture :: "runtime_id \<Rightarrow> generic_runtime_error + capture_view"
  ra_recording_state :: "runtime_id \<Rightarrow> recorder_state"
  ra_recording :: "runtime_id \<Rightarrow> recording_id"

definition capture_state_terminal :: "string \<Rightarrow> bool" where
  "capture_state_terminal s = (s \<in> {''idle'', ''finished'', ''aborted'', ''error''})"

definition ensure_capture_terminal :: "string \<Rightarrow> command_error + unit" where
  "ensure_capture_terminal s =
     refuse (\<not> capture_state_terminal s) source_replacement_capture_conflict"

definition recording_state_terminal :: "recorder_state \<Rightarrow> bool" where
  "recording_state_terminal s = (s \<in> {RecIdle, RecFinished, RecCancelled, RecFailed})"

definition output_pin_should_reap ::
    "output_pin_token option \<Rightarrow> output_pin_token \<Rightarrow> bool \<Rightarrow> bool" where
  "output_pin_should_reap starting token terminal = (terminal \<and> starting \<noteq> Some token)"

section \<open>The controller\<close>

record 'v deck_record =
  dr_runtime :: runtime_id
  dr_worker_id :: worker_id
  dr_deck :: "'v package_identity"
  dr_codec :: "'v package_identity"
  dr_negotiated :: negotiated_identity
  dr_sources :: "deck_source_view list"

record 'v foreground_transition =
  ft_generation :: u64
  ft_candidate :: "'v session_broker"
  ft_previous_runtime :: "runtime_id option"
  ft_target_runtime :: "runtime_id option"

record 'v replacement_transition =
  rt_generation :: u64
  rt_old_runtime :: runtime_id
  rt_old_worker_id :: worker_id
  rt_recording :: recording_id
  rt_deck :: "'v package_identity"
  rt_codec :: "'v package_identity"
  rt_negotiated :: negotiated_identity
  rt_foreground :: bool

record deck_fault_view =
  dfv_session_id :: string
  dfv_worker_id :: string
  dfv_code :: string

text \<open>
  The keys of the external assets (codec, version, asset) compare as in the derived order. Of a
  retained asset the controller uses the binding.
\<close>

type_synonym asset_key = "string \<times> string \<times> string"

definition saturating_add64 :: "u64 \<Rightarrow> nat \<Rightarrow> u64" where
  "saturating_add64 x n = of_nat (min (unat x + n) (2 ^ 64 - 1))"

record 'v deck_controller =
  dc_registry :: "'v session_registry"
  dc_sessions :: "(session_id, 'v deck_record) btree_map"
  dc_external_assets :: "(asset_key, external_asset_binding_v2) btree_map"
  dc_asset_full_validations :: u64
  dc_asset_checkouts :: u64
  dc_recent_faults :: "deck_fault_view list"
  dc_closing :: "(session_id, unit) btree_map"
  dc_transition :: "u64 option"
  dc_replacement :: "session_id option"
  dc_starting :: "output_pin_token option"
  dc_next_generation :: u64

definition controller_new :: "'v deck_controller" where
  "controller_new =
     \<lparr>dc_registry = registry_new, dc_sessions = [], dc_external_assets = [],
      dc_asset_full_validations = 0, dc_asset_checkouts = 0, dc_recent_faults = [], dc_closing = [],
      dc_transition = None, dc_replacement = None, dc_starting = None, dc_next_generation = 0\<rparr>"

abbreviation dc_broker :: "'v deck_controller \<Rightarrow> 'v session_broker" where
  "dc_broker c \<equiv> gr_broker (dc_registry c)"

abbreviation dc_pending :: "'v deck_controller \<Rightarrow> (session_id, unit) btree_map" where
  "dc_pending c \<equiv> gr_pending (dc_registry c)"

definition push_fault :: "deck_fault_view \<Rightarrow> 'v deck_controller \<Rightarrow> 'v deck_controller" where
  "push_fault f c = c\<lparr>dc_recent_faults :=
     (if length (dc_recent_faults c) = MAX_RECENT_FAULTS then tl (dc_recent_faults c)
      else dc_recent_faults c) @ [f]\<rparr>"

subsection \<open>External assets\<close>

definition asset_of_codec :: "string \<Rightarrow> string \<Rightarrow> asset_key \<Rightarrow> bool" where
  "asset_of_codec codec_id codec_version key =
     (case key of (codec, version, asset) \<Rightarrow> codec = codec_id \<and> version = codec_version)"

definition retained_assets ::
    "string \<Rightarrow> string \<Rightarrow> 'v deck_controller \<Rightarrow>
     external_asset_binding_v2 list \<times> 'v deck_controller" where
  "retained_assets codec_id codec_version c =
     (let assets = map snd (filter (\<lambda>(key, asset). asset_of_codec codec_id codec_version key)
                     (dc_external_assets c))
      in (assets, c\<lparr>dc_asset_checkouts := saturating_add64 (dc_asset_checkouts c) (length assets)\<rparr>))"

definition bind_asset ::
    "asset_key \<Rightarrow> external_asset_binding_v2 \<Rightarrow> 'v deck_controller \<Rightarrow> 'v deck_controller" where
  "bind_asset key asset c = c\<lparr>dc_external_assets := bt_insert (dc_external_assets c) key asset\<rparr>"

definition clear_asset :: "asset_key \<Rightarrow> 'v deck_controller \<Rightarrow> bool \<times> 'v deck_controller" where
  "clear_asset key c =
     (bt_get (dc_external_assets c) key \<noteq> None,
      c\<lparr>dc_external_assets := bt_remove (dc_external_assets c) key\<rparr>)"

definition asset_matches_descriptor ::
    "external_asset_binding_v2 \<Rightarrow> external_asset_descriptor \<Rightarrow> bool" where
  "asset_matches_descriptor binding descriptor =
     (ea2_asset_id binding = ead_asset_id descriptor \<and> ea2_sha256 binding = ead_sha256 descriptor \<and>
      ea2_byte_length binding = ead_byte_length descriptor)"

definition prune_stale_assets ::
    "string \<Rightarrow> string \<Rightarrow> external_asset_descriptor list \<Rightarrow> 'v deck_controller \<Rightarrow> 'v deck_controller"
where
  "prune_stale_assets codec_id codec_version descriptors c =
     c\<lparr>dc_external_assets := filter
         (\<lambda>(key, asset). \<not> asset_of_codec codec_id codec_version key \<or>
            list_ex (asset_matches_descriptor asset) descriptors) (dc_external_assets c)\<rparr>"

record asset_view =
  av_codec_id :: string
  av_codec_version :: string
  av_asset_id :: string
  av_bound :: bool
  av_sha256 :: "string option"
  av_byte_length :: "u64 option"

definition view_asset :: "asset_key \<Rightarrow> 'v deck_controller \<Rightarrow> asset_view" where
  "view_asset key c = (case key of (codec, version, asset) \<Rightarrow>
     case bt_get (dc_external_assets c) key of
       None \<Rightarrow> \<lparr>av_codec_id = codec, av_codec_version = version, av_asset_id = asset,
                av_bound = False, av_sha256 = None, av_byte_length = None\<rparr>
     | Some b \<Rightarrow> \<lparr>av_codec_id = codec, av_codec_version = version, av_asset_id = asset,
                  av_bound = True, av_sha256 = Some (ea2_sha256 b),
                  av_byte_length = Some (ea2_byte_length b)\<rparr>)"

subsection \<open>Reaping what has stopped\<close>

definition closed_sessions ::
    "runtime_answers \<Rightarrow> 'v deck_controller \<Rightarrow> (session_id \<times> worker_id \<times> string option) list" where
  "closed_sessions a c =
     map (\<lambda>(i, d). (i, dr_worker_id d,
            case ra_view a (dr_runtime d) of Inl e \<Rightarrow> None | Inr v \<Rightarrow> rv_fault_code v))
       (filter (\<lambda>(i, d). dc_replacement c \<noteq> Some i \<and> ra_is_closed a (dr_runtime d)) (dc_sessions c))"

definition reap_session ::
    "session_id \<times> worker_id \<times> string option \<Rightarrow> 'v deck_controller \<Rightarrow> 'v deck_controller" where
  "reap_session x c = (case x of (i, worker, fault) \<Rightarrow>
     let c1 = (if bt_get (dc_closing c) i \<noteq> None then c\<lparr>dc_closing := bt_remove (dc_closing c) i\<rparr>
               else c\<lparr>dc_registry := snd (registry_worker_fault (dc_registry c) worker)\<rparr>);
         c2 = c1\<lparr>dc_sessions := bt_remove (dc_sessions c1) i\<rparr>
     in case fault of
          None \<Rightarrow> c2
        | Some code \<Rightarrow>
            push_fault \<lparr>dfv_session_id = i, dfv_worker_id = worker, dfv_code = code\<rparr> c2)"

definition forget_lost_start :: "'v deck_controller \<Rightarrow> 'v deck_controller" where
  "forget_lost_start c = (case dc_starting c of
       None \<Rightarrow> c
     | Some token \<Rightarrow> if sb_output_pin (dc_broker c) \<noteq> Some token then c\<lparr>dc_starting := None\<rparr> else c)"

definition pin_is_over :: "runtime_answers \<Rightarrow> 'v deck_controller \<Rightarrow> bool option" where
  "pin_is_over a c = (case sb_output_pin (dc_broker c) of
       None \<Rightarrow> None
     | Some token \<Rightarrow> map_option (\<lambda>d.
         let terminal = (case op_kind token of
               PinCapture \<Rightarrow> (case ra_cached_capture a (dr_runtime d) of
                   Inl e \<Rightarrow> False | Inr v \<Rightarrow> capture_state_terminal (cv_state v))
             | PinMp4 \<Rightarrow> recording_state_terminal (ra_recording_state a (dr_runtime d)))
         in output_pin_should_reap (dc_starting c) token terminal)
         (bt_get (dc_sessions c) (op_session_id token)))"

definition reap_closed :: "runtime_answers \<Rightarrow> 'v deck_controller \<Rightarrow> 'v deck_controller" where
  "reap_closed a c =
     (let c1 = forget_lost_start (fold reap_session (closed_sessions a c) c)
      in if pin_is_over a c1 = Some True
         then c1\<lparr>dc_registry := snd (reap_terminal_pin (\<lambda>_. True) (dc_registry c1))\<rparr>
         else c1)"

subsection \<open>Reservation and commitment\<close>

definition ensure_lifecycle_idle :: "'v deck_controller \<Rightarrow> command_error + unit" where
  "ensure_lifecycle_idle c = refuse (dc_transition c \<noteq> None) lifecycle_busy"

definition controller_reserve ::
    "runtime_answers \<Rightarrow> session_id \<Rightarrow> 'v deck_controller \<Rightarrow>
     (command_error + unit) \<times> 'v deck_controller" where
  "controller_reserve a i c0 =
     (let c = reap_closed a c0
      in try_with (ensure_lifecycle_idle c) c (\<lambda>_.
         if MAX_WARM_SESSIONS \<le>
              length (sb_sessions (dc_broker c)) + length (dc_pending c) + length (dc_closing c)
         then (Inl (broker_command_error SessionCapacityExceeded), c)
         else case registry_reserve (dc_registry c) i of
                (r, g) \<Rightarrow> (map_err broker_command_error r, c\<lparr>dc_registry := g\<rparr>)))"

definition controller_cancel :: "session_id \<Rightarrow> 'v deck_controller \<Rightarrow> 'v deck_controller" where
  "controller_cancel i c = c\<lparr>dc_registry := registry_cancel (dc_registry c) i\<rparr>"

text \<open>The session that the broker holds for a record.\<close>

definition warm_of :: "session_id \<Rightarrow> 'v deck_record \<Rightarrow> 'v warm_session" where
  "warm_of i d = \<lparr>ws_session_id = i, ws_worker_id = dr_worker_id d, ws_deck = dr_deck d,
     ws_codec = dr_codec d\<rparr>"

definition controller_commit ::
    "session_id \<Rightarrow> 'v deck_record \<Rightarrow> 'v deck_controller \<Rightarrow>
     (command_error + unit) \<times> 'v deck_controller" where
  "controller_commit i d c =
     try_with (ensure_lifecycle_idle c) c (\<lambda>_.
       case registry_commit (dc_registry c) (warm_of i d) of
         (Inl e, g) \<Rightarrow> (Inl (broker_command_error e), c\<lparr>dc_registry := g\<rparr>)
       | (Inr u, g) \<Rightarrow>
           let c1 = c\<lparr>dc_registry := g, dc_sessions := bt_insert (dc_sessions c) i d\<rparr>
           in if bt_get (dc_sessions c) i \<noteq> None
              then (Inl session_already_active, c1\<lparr>dc_registry := snd (registry_close g i)\<rparr>)
              else (Inr (), c1))"

subsection \<open>Lifecycle transitions\<close>

definition begin_lifecycle_transition ::
    "'v deck_controller \<Rightarrow> (command_error + u64) \<times> 'v deck_controller" where
  "begin_lifecycle_transition c =
     try_with (ensure_lifecycle_idle c) c (\<lambda>_.
     try_with (ok_or (checked_add (dc_next_generation c) 1) generation_exhausted) c (\<lambda>n.
       (Inr n, c\<lparr>dc_next_generation := n, dc_transition := Some n\<rparr>)))"

definition abort_lifecycle_transition :: "u64 \<Rightarrow> 'v deck_controller \<Rightarrow> 'v deck_controller" where
  "abort_lifecycle_transition generation c =
     (if dc_transition c = Some generation then c\<lparr>dc_transition := None, dc_replacement := None\<rparr>
      else c)"

definition begin_source_replacement ::
    "('v \<Rightarrow> string) \<Rightarrow> runtime_answers \<Rightarrow> runtime_answers \<Rightarrow> session_id \<Rightarrow> deck_open_request \<Rightarrow>
     'v deck_controller \<Rightarrow> (command_error + 'v replacement_transition) \<times> 'v deck_controller" where
  "begin_source_replacement text_of a a' i request c0 =
     (let c = reap_closed a c0
      in try_with (ensure_lifecycle_idle c) c (\<lambda>_.
         if bt_get (dc_closing c) i \<noteq> None then (Inl deck_session_not_found, c)
         else if (case sb_output_pin (dc_broker c) of None \<Rightarrow> False
                    | Some pin \<Rightarrow> op_session_id pin = i \<and> op_kind pin = PinCapture)
         then (Inl source_replacement_capture_conflict, c)
         else
           try_with (ok_or (bt_get (dc_sessions c) i) deck_session_not_found) c (\<lambda>d.
           try_with (map_err runtime_command_error (ra_cached_capture a' (dr_runtime d))) c (\<lambda>capture.
           try_with (ensure_capture_terminal (cv_state capture)) c (\<lambda>_.
           try_with (validate_replacement_identity text_of request (dr_deck d) (dr_codec d)
                       (dr_negotiated d) (dr_negotiated d)) c (\<lambda>_.
           case begin_lifecycle_transition c of
             (Inl e, c1) \<Rightarrow> (Inl e, c1)
           | (Inr generation, c1) \<Rightarrow>
               (Inr \<lparr>rt_generation = generation, rt_old_runtime = dr_runtime d,
                     rt_old_worker_id = dr_worker_id d, rt_recording = ra_recording a' (dr_runtime d),
                     rt_deck = dr_deck d, rt_codec = dr_codec d, rt_negotiated = dr_negotiated d,
                     rt_foreground = foreground_is (dc_broker c) i\<rparr>,
                c1\<lparr>dc_replacement := Some i\<rparr>)))))))"

record deck_session_view =
  sv_session_id :: string
  sv_worker_id :: string
  sv_deck :: exact_package_view
  sv_codec :: exact_package_view
  sv_negotiated :: negotiated_view
  sv_sources :: "deck_source_view list"
  sv_runtime :: runtime_view
  sv_foreground :: bool

definition view_record ::
    "('v \<Rightarrow> string) \<Rightarrow> session_id \<Rightarrow> 'v deck_record \<Rightarrow> runtime_view \<Rightarrow> bool \<Rightarrow> deck_session_view" where
  "view_record text_of i d runtime foreground =
     \<lparr>sv_session_id = i, sv_worker_id = dr_worker_id d, sv_deck = exact_view text_of (dr_deck d),
      sv_codec = exact_view text_of (dr_codec d), sv_negotiated = view_negotiated (dr_negotiated d),
      sv_sources = dr_sources d, sv_runtime = runtime, sv_foreground = foreground\<rparr>"

definition complete_source_replacement ::
    "('v \<Rightarrow> string) \<Rightarrow> runtime_answers \<Rightarrow> session_id \<Rightarrow> 'v replacement_transition \<Rightarrow> 'v deck_record \<Rightarrow>
     'v deck_controller \<Rightarrow> (command_error + deck_session_view) \<times> 'v deck_controller" where
  "complete_source_replacement text_of a i t d c =
     (if dc_transition c \<noteq> Some (rt_generation t)
      then (Inl (lifecycle_changed
              ''The generic Deck lifecycle changed during source replacement.''), c)
      else
        try_with (ok_or (bt_get (dc_sessions c) i) deck_session_not_found) c (\<lambda>current.
        if dr_worker_id current \<noteq> rt_old_worker_id t \<or> dr_runtime current \<noteq> rt_old_runtime t
        then (Inl (lifecycle_changed
                ''The generic Deck worker changed during source replacement.''),
              c\<lparr>dc_transition := None, dc_replacement := None\<rparr>)
        else
          try_with (map_err runtime_command_error (ra_view a (dr_runtime d))) c (\<lambda>runtime.
          case registry_replace_worker (dc_registry c) i (dr_worker_id d) of
            (Inl e, g) \<Rightarrow> (Inl (broker_command_error e), c\<lparr>dc_registry := g\<rparr>)
          | (Inr w, g) \<Rightarrow>
              (Inr (view_record text_of i d runtime (rt_foreground t)),
               c\<lparr>dc_registry := g, dc_sessions := bt_insert (dc_sessions c) i d,
                 dc_transition := None, dc_replacement := None\<rparr>))))"

definition fail_source_replacement ::
    "session_id \<Rightarrow> 'v replacement_transition \<Rightarrow> string \<Rightarrow> 'v deck_controller \<Rightarrow> 'v deck_controller" where
  "fail_source_replacement i t code c =
     (if dc_transition c \<noteq> Some (rt_generation t) then c
      else
        let c1 =
          (if (case bt_get (dc_sessions c) i of None \<Rightarrow> False
                 | Some d \<Rightarrow> dr_worker_id d = rt_old_worker_id t)
           then
             let c2 = c\<lparr>dc_registry :=
                          snd (registry_worker_fault (dc_registry c) (rt_old_worker_id t)),
                        dc_sessions := bt_remove (dc_sessions c) i\<rparr>;
                 c3 = (if (case dc_starting c2 of None \<Rightarrow> False | Some p \<Rightarrow> op_session_id p = i)
                       then c2\<lparr>dc_starting := None\<rparr> else c2)
             in push_fault \<lparr>dfv_session_id = i, dfv_worker_id = rt_old_worker_id t,
                             dfv_code = code\<rparr> c3
           else c)
        in c1\<lparr>dc_transition := None, dc_replacement := None\<rparr>)"

subsection \<open>Access\<close>

definition controller_runtime ::
    "runtime_answers \<Rightarrow> session_id \<Rightarrow> 'v deck_controller \<Rightarrow>
     (command_error + runtime_id) \<times> 'v deck_controller" where
  "controller_runtime a i c0 =
     (let c = reap_closed a c0
      in (if bt_get (dc_closing c) i \<noteq> None then Inl deck_session_not_found
          else ok_or (map_option dr_runtime (bt_get (dc_sessions c) i)) deck_session_not_found, c))"

definition runtime_for_mutation ::
    "runtime_answers \<Rightarrow> session_id \<Rightarrow> 'v deck_controller \<Rightarrow>
     (command_error + runtime_id) \<times> 'v deck_controller" where
  "runtime_for_mutation a i c =
     (if dc_replacement c = Some i then (Inl replacement_busy, c) else controller_runtime a i c)"

record lease_view =
  lv_session_id :: string
  lv_generation :: u64

record deck_sessions_view =
  dsv_sessions :: "deck_session_view list"
  dsv_foreground_output :: "lease_view option"
  dsv_output_pin :: "output_pin_token option"
  dsv_recent_faults :: "deck_fault_view list"

definition view_lease :: "foreground_lease \<Rightarrow> lease_view" where
  "view_lease l = \<lparr>lv_session_id = fl_session_id l, lv_generation = fl_generation l\<rparr>"

definition view_session ::
    "('v \<Rightarrow> string) \<Rightarrow> runtime_answers \<Rightarrow> session_id \<Rightarrow> 'v deck_record \<Rightarrow> foreground_lease option \<Rightarrow>
     command_error + deck_session_view" where
  "view_session text_of a i d foreground =
     try_bind (map_err runtime_command_error (ra_view a (dr_runtime d))) (\<lambda>runtime.
       Inr (view_record text_of i d runtime
         (case foreground of None \<Rightarrow> False | Some lease \<Rightarrow> fl_session_id lease = i)))"

definition controller_snapshot ::
    "('v \<Rightarrow> string) \<Rightarrow> runtime_answers \<Rightarrow> runtime_answers \<Rightarrow> 'v deck_controller \<Rightarrow>
     (command_error + deck_sessions_view) \<times> 'v deck_controller" where
  "controller_snapshot text_of a a' c0 =
     (let c = reap_closed a c0;
          foreground = sb_foreground_output (dc_broker c)
      in (try_bind
            (try_map (\<lambda>(i, d). view_session text_of a' i d foreground)
              (filter (\<lambda>(i, d). bt_get (dc_closing c) i = None) (dc_sessions c)))
            (\<lambda>sessions. Inr
              \<lparr>dsv_sessions = sessions, dsv_foreground_output = map_option view_lease foreground,
               dsv_output_pin = sb_output_pin (dc_broker c),
               dsv_recent_faults = dc_recent_faults c\<rparr>), c))"

subsection \<open>The foreground\<close>

datatype 'v prepared_foreground =
    ForegroundUnchanged deck_sessions_view
  | ForegroundPending "'v foreground_transition"

text \<open>The transition that is issued for a candidate broker.\<close>

definition issue_foreground ::
    "'v session_broker \<Rightarrow> runtime_id option \<Rightarrow> runtime_id option \<Rightarrow> 'v deck_controller \<Rightarrow>
     (command_error + 'v prepared_foreground) \<times> 'v deck_controller" where
  "issue_foreground candidate previous_runtime target_runtime c =
     (case begin_lifecycle_transition c of
        (Inl e, c1) \<Rightarrow> (Inl e, c1)
      | (Inr generation, c1) \<Rightarrow>
          (Inr (ForegroundPending
             \<lparr>ft_generation = generation, ft_candidate = candidate,
              ft_previous_runtime = previous_runtime, ft_target_runtime = target_runtime\<rparr>), c1))"

definition foreground_unchanged ::
    "('v \<Rightarrow> string) \<Rightarrow> runtime_answers \<Rightarrow> runtime_answers \<Rightarrow> 'v deck_controller \<Rightarrow>
     (command_error + 'v prepared_foreground) \<times> 'v deck_controller" where
  "foreground_unchanged text_of a a' c =
     (case controller_snapshot text_of a a' c of
        (Inl e, c1) \<Rightarrow> (Inl e, c1)
      | (Inr v, c1) \<Rightarrow> (Inr (ForegroundUnchanged v), c1))"

definition runtime_of :: "'v deck_controller \<Rightarrow> session_id option \<Rightarrow> runtime_id option" where
  "runtime_of c i = map_option dr_runtime (Option.bind i (bt_get (dc_sessions c)))"

definition prepare_switch_foreground ::
    "('v \<Rightarrow> string) \<Rightarrow> runtime_answers \<Rightarrow> runtime_answers \<Rightarrow> runtime_answers \<Rightarrow> session_id \<Rightarrow>
     'v deck_controller \<Rightarrow> (command_error + 'v prepared_foreground) \<times> 'v deck_controller" where
  "prepare_switch_foreground text_of a a1 a2 target c0 =
     (let c = reap_closed a c0
      in try_with (ensure_lifecycle_idle c) c (\<lambda>_.
         try_with (ok_or (if bt_get (dc_closing c) target = None
                          then runtime_of c (Some target) else None)
                     deck_session_not_found) c (\<lambda>target_runtime.
         let previous_id = map_option fl_session_id (sb_foreground_output (dc_broker c))
         in if previous_id = Some target then foreground_unchanged text_of a1 a2 c
            else case switch_foreground (dc_broker c) target of
                   (Inl e, candidate) \<Rightarrow> (Inl (broker_command_error e), c)
                 | (Inr lease, candidate) \<Rightarrow>
                     issue_foreground candidate (runtime_of c previous_id) (Some target_runtime) c)))"

definition prepare_clear_foreground ::
    "('v \<Rightarrow> string) \<Rightarrow> runtime_answers \<Rightarrow> runtime_answers \<Rightarrow> runtime_answers \<Rightarrow>
     'v deck_controller \<Rightarrow> (command_error + 'v prepared_foreground) \<times> 'v deck_controller" where
  "prepare_clear_foreground text_of a a1 a2 c0 =
     (let c = reap_closed a c0
      in try_with (ensure_lifecycle_idle c) c (\<lambda>_.
         let current_id = map_option fl_session_id (sb_foreground_output (dc_broker c))
         in if current_id = None then foreground_unchanged text_of a1 a2 c
            else case clear_foreground (dc_broker c) of
                   (Inl e, candidate) \<Rightarrow> (Inl (broker_command_error e), c)
                 | (Inr lease, candidate) \<Rightarrow>
                     issue_foreground candidate (runtime_of c current_id) None c))"

definition session_ids :: "'v session_broker \<Rightarrow> session_id set" where
  "session_ids b = set (map ws_session_id (bt_values (sb_sessions b)))"

definition complete_foreground_transition ::
    "('v \<Rightarrow> string) \<Rightarrow> runtime_answers \<Rightarrow> runtime_answers \<Rightarrow> 'v foreground_transition \<Rightarrow>
     'v deck_controller \<Rightarrow> (command_error + deck_sessions_view) \<times> 'v deck_controller" where
  "complete_foreground_transition text_of a a' t c =
     (if dc_transition c \<noteq> Some (ft_generation t)
      then (Inl (lifecycle_changed
              ''The foreground output lease changed while the actor was responding.''), c)
      else if session_ids (dc_broker c) \<noteq> session_ids (ft_candidate t)
      then (Inl (lifecycle_changed
              ''A worker lifecycle changed during the foreground output transition.''),
            c\<lparr>dc_transition := None\<rparr>)
      else controller_snapshot text_of a a'
             (c\<lparr>dc_registry := (dc_registry c)\<lparr>gr_broker := ft_candidate t\<rparr>, dc_transition := None\<rparr>))"

subsection \<open>Pins\<close>

definition controller_pin ::
    "runtime_answers \<Rightarrow> session_id \<Rightarrow> output_pin_kind \<Rightarrow> 'v deck_controller \<Rightarrow>
     (command_error + output_pin_token) \<times> 'v deck_controller" where
  "controller_pin a i kind c0 =
     (let c = reap_closed a c0
      in try_with (ensure_lifecycle_idle c) c (\<lambda>_.
         case registry_pin_foreground (dc_registry c) i kind of
           (Inl e, g) \<Rightarrow> (Inl (broker_command_error e), c\<lparr>dc_registry := g\<rparr>)
         | (Inr token, g) \<Rightarrow> (Inr token, c\<lparr>dc_registry := g, dc_starting := Some token\<rparr>)))"

definition controller_unpin ::
    "runtime_answers \<Rightarrow> output_pin_token \<Rightarrow> 'v deck_controller \<Rightarrow>
     (command_error + unit) \<times> 'v deck_controller" where
  "controller_unpin a token c0 =
     (let c = reap_closed a c0
      in case registry_release_pin (dc_registry c) token of (r, g) \<Rightarrow>
           let c1 = c\<lparr>dc_registry := g\<rparr>
           in (map_err broker_command_error r,
               if dc_starting c1 = Some token \<and>
                  (\<not> isl r \<or> sb_output_pin (dc_broker c1) \<noteq> Some token)
               then c1\<lparr>dc_starting := None\<rparr> else c1))"

definition complete_output_start :: "output_pin_token \<Rightarrow> 'v deck_controller \<Rightarrow> 'v deck_controller" where
  "complete_output_start token c =
     (if dc_starting c = Some token then c\<lparr>dc_starting := None\<rparr> else c)"

subsection \<open>Closing\<close>

definition prepare_close ::
    "runtime_answers \<Rightarrow> session_id \<Rightarrow> 'v deck_controller \<Rightarrow>
     (command_error + runtime_id) \<times> 'v deck_controller" where
  "prepare_close a i c0 =
     (let c = reap_closed a c0
      in try_with (ensure_lifecycle_idle c) c (\<lambda>_.
         if bt_get (dc_closing c) i \<noteq> None then (Inl deck_session_not_found, c)
         else
           try_with (ok_or (runtime_of c (Some i)) deck_session_not_found) c (\<lambda>runtime.
           case close_session (dc_broker c) i of
             (Inl e, candidate) \<Rightarrow> (Inl (broker_command_error e), c)
           | (Inr w, candidate) \<Rightarrow>
               (Inr runtime,
                c\<lparr>dc_registry := (dc_registry c)\<lparr>gr_broker := candidate\<rparr>,
                  dc_closing := bt_insert (dc_closing c) i ()\<rparr>))))"

definition finish_close :: "session_id \<Rightarrow> 'v deck_controller \<Rightarrow> 'v deck_controller" where
  "finish_close i c =
     c\<lparr>dc_sessions := bt_remove (dc_sessions c) i, dc_closing := bt_remove (dc_closing c) i\<rparr>"

definition detach_all_for_shutdown ::
    "'v deck_controller \<Rightarrow> runtime_id list \<times> 'v deck_controller" where
  "detach_all_for_shutdown c =
     (map dr_runtime (bt_values (dc_sessions c)),
      c\<lparr>dc_sessions := [], dc_registry := registry_new, dc_closing := [], dc_transition := None,
        dc_replacement := None, dc_starting := None\<rparr>)"

end
