(* ===== verification/Deck_Sessions_Exact.thy ===== *)
theory Deck_Sessions_Exact
  imports Deck_Sessions
begin

text \<open>
  What the controller of the deck sessions guarantees while its commands interleave: each command
  locks it for single operations and holds transitions and sessions to be closed in between. The
  system below is the controller with what the commands in flight were given; its steps are the
  locked stretches of the commands.
\<close>

section \<open>The system\<close>

text \<open>
  The identifier of a session is a fresh UUID, so that none is reserved twice. A transition of the
  foreground is recorded with the session it was asked for.
\<close>

record 'v deck_system =
  sys_controller :: "'v deck_controller"
  sys_reserved :: "session_id set"
  sys_switches :: "(session_id option \<times> 'v foreground_transition) set"
  sys_replacements :: "(session_id \<times> 'v replacement_transition) set"
  sys_closes :: "session_id set"

definition deck_system_new :: "'v deck_system" where
  "deck_system_new = \<lparr>sys_controller = controller_new, sys_reserved = {}, sys_switches = {},
     sys_replacements = {}, sys_closes = {}\<rparr>"

definition issued_switch ::
    "session_id option \<Rightarrow> command_error + 'v prepared_foreground \<Rightarrow>
     (session_id option \<times> 'v foreground_transition) set" where
  "issued_switch target r = (case r of Inr (ForegroundPending t) \<Rightarrow> {(target, t)} | _ \<Rightarrow> {})"

definition issued_replacement ::
    "session_id \<Rightarrow> command_error + 'v replacement_transition \<Rightarrow>
     (session_id \<times> 'v replacement_transition) set" where
  "issued_replacement i r = (case r of Inr t \<Rightarrow> {(i, t)} | Inl e \<Rightarrow> {})"

definition issued_close :: "session_id \<Rightarrow> command_error + runtime_id \<Rightarrow> session_id set" where
  "issued_close i r = (case r of Inr x \<Rightarrow> {i} | Inl e \<Rightarrow> {})"

inductive deck_step :: "('v \<Rightarrow> string) \<Rightarrow> 'v deck_system \<Rightarrow> 'v deck_system \<Rightarrow> bool"
  for text_of :: "'v \<Rightarrow> string" where
  step_reserve: "i \<notin> sys_reserved s \<Longrightarrow> controller_reserve a i (sys_controller s) = (r, c) \<Longrightarrow>
    deck_step text_of s (s\<lparr>sys_controller := c, sys_reserved := insert i (sys_reserved s)\<rparr>)"
| step_cancel:
    "deck_step text_of s (s\<lparr>sys_controller := controller_cancel i (sys_controller s)\<rparr>)"
| step_commit: "controller_commit i d (sys_controller s) = (r, c) \<Longrightarrow>
    deck_step text_of s (s\<lparr>sys_controller := c\<rparr>)"
| step_begin_replacement:
    "begin_source_replacement text_of a a' i request (sys_controller s) = (r, c) \<Longrightarrow>
    deck_step text_of s (s\<lparr>sys_controller := c,
      sys_replacements := sys_replacements s \<union> issued_replacement i r\<rparr>)"
| step_complete_replacement: "(i, t) \<in> sys_replacements s \<Longrightarrow>
    dr_deck d = rt_deck t \<Longrightarrow> dr_codec d = rt_codec t \<Longrightarrow>
    complete_source_replacement text_of a i t d (sys_controller s) = (r, c) \<Longrightarrow>
    deck_step text_of s (s\<lparr>sys_controller := c\<rparr>)"
| step_fail_replacement: "(i, t) \<in> sys_replacements s \<Longrightarrow>
    deck_step text_of s (s\<lparr>sys_controller := fail_source_replacement i t code (sys_controller s)\<rparr>)"
| step_abort:
    "deck_step text_of s (s\<lparr>sys_controller := abort_lifecycle_transition g (sys_controller s)\<rparr>)"
| step_access: "controller_runtime a i (sys_controller s) = (r, c) \<Longrightarrow>
    deck_step text_of s (s\<lparr>sys_controller := c\<rparr>)"
| step_mutation: "runtime_for_mutation a i (sys_controller s) = (r, c) \<Longrightarrow>
    deck_step text_of s (s\<lparr>sys_controller := c\<rparr>)"
| step_snapshot: "controller_snapshot text_of a a' (sys_controller s) = (r, c) \<Longrightarrow>
    deck_step text_of s (s\<lparr>sys_controller := c\<rparr>)"
| step_switch: "prepare_switch_foreground text_of a a1 a2 target (sys_controller s) = (r, c) \<Longrightarrow>
    deck_step text_of s (s\<lparr>sys_controller := c,
      sys_switches := sys_switches s \<union> issued_switch (Some target) r\<rparr>)"
| step_clear: "prepare_clear_foreground text_of a a1 a2 (sys_controller s) = (r, c) \<Longrightarrow>
    deck_step text_of s (s\<lparr>sys_controller := c,
      sys_switches := sys_switches s \<union> issued_switch None r\<rparr>)"
| step_complete_foreground: "(target, t) \<in> sys_switches s \<Longrightarrow>
    complete_foreground_transition text_of a a' t (sys_controller s) = (r, c) \<Longrightarrow>
    deck_step text_of s (s\<lparr>sys_controller := c\<rparr>)"
| step_pin: "controller_pin a i kind (sys_controller s) = (r, c) \<Longrightarrow>
    deck_step text_of s (s\<lparr>sys_controller := c\<rparr>)"
| step_unpin: "controller_unpin a token (sys_controller s) = (r, c) \<Longrightarrow>
    deck_step text_of s (s\<lparr>sys_controller := c\<rparr>)"
| step_output_started:
    "deck_step text_of s (s\<lparr>sys_controller := complete_output_start token (sys_controller s)\<rparr>)"
| step_prepare_close: "prepare_close a i (sys_controller s) = (r, c) \<Longrightarrow>
    deck_step text_of s (s\<lparr>sys_controller := c, sys_closes := sys_closes s \<union> issued_close i r\<rparr>)"
| step_finish_close: "i \<in> sys_closes s \<Longrightarrow>
    deck_step text_of s (s\<lparr>sys_controller := finish_close i (sys_controller s)\<rparr>)"
| step_shutdown: "detach_all_for_shutdown (sys_controller s) = (r, c) \<Longrightarrow>
    deck_step text_of s (s\<lparr>sys_controller := c\<rparr>)"
| step_retained: "retained_assets codec version (sys_controller s) = (r, c) \<Longrightarrow>
    deck_step text_of s (s\<lparr>sys_controller := c\<rparr>)"
| step_bind_asset:
    "deck_step text_of s (s\<lparr>sys_controller := bind_asset key asset (sys_controller s)\<rparr>)"
| step_clear_asset: "clear_asset key (sys_controller s) = (r, c) \<Longrightarrow>
    deck_step text_of s (s\<lparr>sys_controller := c\<rparr>)"
| step_prune_assets:
    "deck_step text_of s
       (s\<lparr>sys_controller := prune_stale_assets codec version descriptors (sys_controller s)\<rparr>)"

inductive deck_reachable :: "('v \<Rightarrow> string) \<Rightarrow> 'v deck_system \<Rightarrow> bool" for text_of :: "'v \<Rightarrow> string" where
  reachable_start: "deck_reachable text_of deck_system_new"
| reachable_step: "deck_reachable text_of s \<Longrightarrow> deck_step text_of s s' \<Longrightarrow> deck_reachable text_of s'"

section \<open>Removing sessions\<close>

text \<open>
  Whatever stops sessions (a fault, the end of a close, reaping) removes a set of them from all
  maps, together with the lease of one of them and its pin, and touches nothing else.
\<close>

definition without :: "'k::linorder set \<Rightarrow> ('k, 'a) btree_map \<Rightarrow> ('k, 'a) btree_map \<Rightarrow> bool" where
  "without D m m' \<longleftrightarrow> bt_wf m' \<and> (\<forall>i. bt_get m' i = (if i \<in> D then None else bt_get m i))"

lemma without_refl: "bt_wf m \<Longrightarrow> without {} m m"
  by (simp add: without_def)

lemma without_remove: "bt_wf m \<Longrightarrow> without {i} m (bt_remove m i)"
  by (simp add: without_def bt_remove_wf bt_get_remove)

lemma without_absent: "bt_wf m \<Longrightarrow> bt_get m i = None \<Longrightarrow> without {i} m m"
  by (simp add: without_def)

lemma without_trans: "without D m m1 \<Longrightarrow> without E m1 m2 \<Longrightarrow> without (D \<union> E) m m2"
  by (simp add: without_def)

lemma bt_length: "bt_wf m \<Longrightarrow> length m = card (dom (bt_get m))"
  using distinct_card [OF bt_wf_distinct, of m]
  by (simp add: bt_get_def [abs_def] dom_map_of_conv_image_fst)

lemma bt_dom_finite: "finite (dom (bt_get m))"
  by (simp add: bt_get_def [abs_def] finite_dom_map_of)

lemma without_length: "bt_wf m \<Longrightarrow> without D m m' \<Longrightarrow> length m' \<le> length m"
  by (auto simp: without_def bt_length dom_def intro!: card_mono finite_subset [OF _ bt_dom_finite [of m]]
      split: if_splits)

definition removed :: "session_id set \<Rightarrow> 'v deck_controller \<Rightarrow> 'v deck_controller \<Rightarrow> bool" where
  "removed D c c' \<longleftrightarrow>
     without D (dc_sessions c) (dc_sessions c') \<and> without D (dc_closing c) (dc_closing c') \<and>
     without D (sb_sessions (dc_broker c)) (sb_sessions (dc_broker c')) \<and>
     (\<forall>l. sb_foreground_output (dc_broker c') = Some l \<longleftrightarrow>
        sb_foreground_output (dc_broker c) = Some l \<and> fl_session_id l \<notin> D) \<and>
     (\<forall>p. sb_output_pin (dc_broker c') = Some p \<longrightarrow> sb_output_pin (dc_broker c) = Some p) \<and>
     sb_next_lease_generation (dc_broker c') = sb_next_lease_generation (dc_broker c) \<and>
     sb_next_pin_generation (dc_broker c') = sb_next_pin_generation (dc_broker c) \<and>
     broker_inv (dc_broker c') \<and> dc_pending c' = dc_pending c \<and>
     (length (dc_recent_faults c) \<le> 32 \<longrightarrow> length (dc_recent_faults c') \<le> 32) \<and>
     dc_transition c' = dc_transition c \<and> dc_replacement c' = dc_replacement c \<and>
     dc_next_generation c' = dc_next_generation c \<and> dc_starting c' \<in> {dc_starting c, None}"

lemma removed_trans: "removed D c c1 \<Longrightarrow> removed E c1 c2 \<Longrightarrow> removed (D \<union> E) c c2"
  unfolding removed_def by (auto intro: without_trans)

text \<open>The sessions that are known are the warm ones of the broker and those being closed.\<close>

definition tracked :: "'v deck_controller \<Rightarrow> bool" where
  "tracked c \<longleftrightarrow>
     broker_inv (dc_broker c) \<and> bt_wf (dc_sessions c) \<and> bt_wf (dc_closing c) \<and> bt_wf (dc_pending c) \<and>
     (\<forall>i. bt_get (sb_sessions (dc_broker c)) i =
        (if bt_get (dc_closing c) i = None then map_option (warm_of i) (bt_get (dc_sessions c) i)
         else None)) \<and>
     (\<forall>i. bt_get (dc_closing c) i \<noteq> None \<longrightarrow> bt_get (dc_sessions c) i \<noteq> None)"

lemma broker_wf: "broker_inv b \<Longrightarrow> bt_wf (sb_sessions b)"
  by (simp add: broker_inv_def)

lemma tracked_removed: "tracked c \<Longrightarrow> removed D c c' \<Longrightarrow> tracked c'"
  by (auto simp: tracked_def removed_def without_def)

lemma removed_refl: "tracked c \<Longrightarrow> removed {} c c"
  by (simp add: tracked_def removed_def without_refl broker_wf)

lemma fault_removes:
  assumes c: "tracked c" and d: "bt_get (dc_sessions c) i = Some d" and n: "bt_get (dc_closing c) i = None"
  shows "\<exists>b'. handle_worker_fault (dc_broker c) (dr_worker_id d) = (Inr (warm_of i d), b') \<and>
    broker_inv b' \<and>
    b' = (dc_broker c)\<lparr>sb_sessions := bt_remove (sb_sessions (dc_broker c)) i,
       sb_foreground_output := if foreground_is (dc_broker c) i then None
                               else sb_foreground_output (dc_broker c),
       sb_output_pin := if foreground_is (dc_broker c) i then None else sb_output_pin (dc_broker c)\<rparr>"
proof -
  let ?b = "dc_broker c"
  have inv: "broker_inv ?b" and w: "bt_get (sb_sessions ?b) i = Some (warm_of i d)"
    using c d n by (simp_all add: tracked_def)
  obtain u where u: "find (\<lambda>s. ws_worker_id s = dr_worker_id d) (bt_values (sb_sessions ?b)) = Some u"
    using w bt_values_iff [OF broker_wf [OF inv], of "warm_of i d"]
    by (cases "find (\<lambda>s. ws_worker_id s = dr_worker_id d) (bt_values (sb_sessions ?b))")
      (auto simp: find_None_iff warm_of_def)
  have "btree.attribute_unique ws_worker_id (sb_sessions ?b)"
    using inv by (simp add: broker_inv_def)
  then have "ws_session_id u = i"
    using find_worker [OF inv u] w unfolding btree.attribute_unique_def by (simp add: warm_of_def)
  then have "handle_worker_fault ?b (dr_worker_id d) = (Inr (warm_of i d),
      ?b\<lparr>sb_sessions := bt_remove (sb_sessions ?b) i,
         sb_foreground_output := if foreground_is ?b i then None else sb_foreground_output ?b,
         sb_output_pin := if foreground_is ?b i then None else sb_output_pin ?b\<rparr>)"
    using u w by (auto simp: handle_worker_fault_Inr)
  then show ?thesis
    using remove_session_inv [OF inv refl, of i] by simp
qed

lemma push_fault_simps [simp]:
  "dc_registry (push_fault f c) = dc_registry c" "dc_sessions (push_fault f c) = dc_sessions c"
  "dc_closing (push_fault f c) = dc_closing c" "dc_transition (push_fault f c) = dc_transition c"
  "dc_replacement (push_fault f c) = dc_replacement c" "dc_starting (push_fault f c) = dc_starting c"
  "dc_next_generation (push_fault f c) = dc_next_generation c"
  by (simp_all add: push_fault_def)

lemma push_fault_bounded:
  "length (dc_recent_faults c) \<le> 32 \<Longrightarrow> length (dc_recent_faults (push_fault f c)) \<le> 32"
  by (simp add: push_fault_def MAX_RECENT_FAULTS_def)

lemma fault_removed:
  assumes c: "tracked c" and d: "bt_get (dc_sessions c) i = Some d" and n: "bt_get (dc_closing c) i = None"
  shows "removed {i} c (c\<lparr>dc_registry := snd (registry_worker_fault (dc_registry c) (dr_worker_id d)),
    dc_sessions := bt_remove (dc_sessions c) i\<rparr>)"
proof -
  obtain b' where f: "handle_worker_fault (dc_broker c) (dr_worker_id d) = (Inr (warm_of i d), b')"
    and inv: "broker_inv b'"
    and b': "b' = (dc_broker c)\<lparr>sb_sessions := bt_remove (sb_sessions (dc_broker c)) i,
       sb_foreground_output := if foreground_is (dc_broker c) i then None
                               else sb_foreground_output (dc_broker c),
       sb_output_pin := if foreground_is (dc_broker c) i then None else sb_output_pin (dc_broker c)\<rparr>"
    using fault_removes [OF assms] by blast
  have "\<forall>l. sb_foreground_output b' = Some l \<longleftrightarrow>
      sb_foreground_output (dc_broker c) = Some l \<and> fl_session_id l \<notin> {i}"
    by (auto simp: b' foreground_is_def split: option.splits)
  moreover have "\<forall>p. sb_output_pin b' = Some p \<longrightarrow> sb_output_pin (dc_broker c) = Some p"
    by (simp add: b')
  ultimately show ?thesis
    using c n inv
    by (simp add: removed_def registry_worker_fault_def on_broker_def f tracked_def without_remove
        without_absent broker_wf) (simp add: b' without_remove broker_wf)
qed

text \<open>A session without a place in the broker leaves the other maps.\<close>

lemma closed_removed:
  assumes c: "tracked c" and n: "bt_get (sb_sessions (dc_broker c)) i = None"
  shows "removed {i} c (c\<lparr>dc_closing := bt_remove (dc_closing c) i,
    dc_sessions := bt_remove (dc_sessions c) i\<rparr>)"
proof -
  have "fl_session_id l \<noteq> i" if "sb_foreground_output (dc_broker c) = Some l" for l
    using c n that by (auto simp: tracked_def broker_inv_def lease_held_def contains_session_def)
  then show ?thesis
    using c n by (auto simp: removed_def tracked_def without_remove without_absent broker_wf)
qed

lemma removed_faults:
  "removed D c c' \<Longrightarrow> removed D c (push_fault f c')"
  by (simp add: removed_def push_fault_bounded)

lemma reap_session_removed:
  assumes "tracked c" and "bt_get (dc_sessions c) i = Some d"
  shows "removed {i} c (reap_session (i, dr_worker_id d, fault) c)"
proof (cases "bt_get (dc_closing c) i")
  case None
  then show ?thesis
    using fault_removed [OF assms None] removed_faults
    by (auto simp: reap_session_def Let_def split: option.splits)
next
  case (Some u)
  then have "bt_get (sb_sessions (dc_broker c)) i = None"
    using assms by (simp add: tracked_def)
  from closed_removed [OF assms(1) this] Some show ?thesis
    using removed_faults by (auto simp: reap_session_def Let_def split: option.splits)
qed

lemma reap_sessions_removed:
  assumes "tracked c" and "distinct (map fst xs)"
    and "\<And>i w f. (i, w, f) \<in> set xs \<Longrightarrow> \<exists>d. bt_get (dc_sessions c) i = Some d \<and> dr_worker_id d = w"
  shows "removed (set (map fst xs)) c (fold reap_session xs c)"
  using assms
proof (induction xs arbitrary: c)
  case Nil
  then show ?case by (simp add: removed_refl)
next
  case (Cons x xs)
  obtain i w f where x: "x = (i, w, f)"
    by (cases x)
  obtain d where d: "bt_get (dc_sessions c) i = Some d" "dr_worker_id d = w"
    using Cons.prems(3) [of i w f] x by auto
  have r: "removed {i} c (reap_session x c)"
    using reap_session_removed [OF Cons.prems(1) d(1), of f] by (simp add: x d(2))
  have "removed (set (map fst xs)) (reap_session x c) (fold reap_session xs (reap_session x c))"
  proof (rule Cons.IH)
    show "tracked (reap_session x c)"
      by (rule tracked_removed [OF Cons.prems(1) r])
    show "distinct (map fst xs)"
      using Cons.prems(2) by simp
  next
    fix j v g
    assume j: "(j, v, g) \<in> set xs"
    then have "j \<noteq> i"
      using Cons.prems(2) x by force
    moreover have "\<exists>d. bt_get (dc_sessions c) j = Some d \<and> dr_worker_id d = v"
      using Cons.prems(3) [of j v g] j by simp
    ultimately show "\<exists>d. bt_get (dc_sessions (reap_session x c)) j = Some d \<and> dr_worker_id d = v"
      using r by (simp add: removed_def without_def)
  qed
  from removed_trans [OF r this] show ?case
    by (simp add: x insert_commute)
qed

definition stopped :: "runtime_answers \<Rightarrow> 'v deck_controller \<Rightarrow> session_id set" where
  "stopped a c = set (map fst (closed_sessions a c))"

lemma stopped_iff:
  "bt_wf (dc_sessions c) \<Longrightarrow> i \<in> stopped a c \<longleftrightarrow>
     (\<exists>d. bt_get (dc_sessions c) i = Some d \<and> dc_replacement c \<noteq> Some i \<and> ra_is_closed a (dr_runtime d))"
  by (force simp: stopped_def closed_sessions_def bt_get_iff)

text \<open>What is known of a pending start of an output.\<close>

definition start_is_pinned :: "'v deck_controller \<Rightarrow> bool" where
  "start_is_pinned c \<longleftrightarrow> (dc_starting c = None \<or> sb_output_pin (dc_broker c) = dc_starting c)"

lemma forget_removed: "removed D c c' \<Longrightarrow> removed D c (forget_lost_start c')"
  by (auto simp: forget_lost_start_def removed_def split: option.splits)

lemma forget_start: "start_is_pinned (forget_lost_start c)"
  by (auto simp: forget_lost_start_def start_is_pinned_def split: option.splits)

lemma release_keeps_inv: "broker_inv b \<Longrightarrow> broker_inv (b\<lparr>sb_output_pin := None\<rparr>)"
  by (auto simp: broker_inv_def lease_held_def pins_held_def contains_session_def split: option.splits)

lemma reap_closed_removed:
  assumes c: "tracked c"
  shows "removed (stopped a c) c (reap_closed a c)" and "start_is_pinned (reap_closed a c)"
proof -
  let ?xs = "closed_sessions a c"
  let ?c1 = "forget_lost_start (fold reap_session ?xs c)"
  have wf: "bt_wf (dc_sessions c)"
    using c by (simp add: tracked_def)
  have "distinct (map fst (filter P (dc_sessions c)))" for P
    using bt_wf_distinct [OF wf] by (simp add: distinct_map_filter)
  then have "distinct (map fst ?xs)"
    by (simp add: closed_sessions_def comp_def case_prod_beta)
  moreover have "\<exists>d. bt_get (dc_sessions c) i = Some d \<and> dr_worker_id d = w" if "(i, w, f) \<in> set ?xs" for i w f
    using that wf by (auto simp: closed_sessions_def bt_get_iff)
  ultimately have r: "removed (stopped a c) c ?c1"
    unfolding stopped_def by (intro forget_removed reap_sessions_removed [OF c])
  have p: "start_is_pinned ?c1"
    by (rule forget_start)
  show "removed (stopped a c) c (reap_closed a c)" "start_is_pinned (reap_closed a c)"
  proof (atomize (full), cases "pin_is_over a ?c1 = Some True")
    case False
    then show "removed (stopped a c) c (reap_closed a c) \<and> start_is_pinned (reap_closed a c)"
      using r p by (simp add: reap_closed_def Let_def)
  next
    case True
    then obtain t where t: "sb_output_pin (dc_broker ?c1) = Some t" "dc_starting ?c1 \<noteq> Some t"
      by (auto simp: pin_is_over_def output_pin_should_reap_def Let_def split: option.splits)
    then have "dc_starting ?c1 = None"
      using p by (auto simp: start_is_pinned_def)
    moreover have "reap_closed a c =
        ?c1\<lparr>dc_registry := (dc_registry ?c1)\<lparr>gr_broker := (dc_broker ?c1)\<lparr>sb_output_pin := None\<rparr>\<rparr>\<rparr>"
      using True t by (simp add: reap_closed_def Let_def reap_terminal_pin_def registry_release_pin_def
          on_broker_def release_output_pin_def)
    ultimately show "removed (stopped a c) c (reap_closed a c) \<and> start_is_pinned (reap_closed a c)"
      using r by (simp add: removed_def start_is_pinned_def release_keeps_inv)
  qed
qed

section \<open>What the commands in flight rely on\<close>

text \<open>The switch of the foreground that a transition was asked for.\<close>

definition switch_now ::
    "session_id option \<Rightarrow> 'v session_broker \<Rightarrow> (broker_error + foreground_lease option) \<times> 'v session_broker"
where
  "switch_now target b = (case target of
       None \<Rightarrow> clear_foreground b
     | Some i \<Rightarrow> (case switch_foreground b i of (r, b') \<Rightarrow> (map_sum id Some r, b')))"

text \<open>
  A candidate broker: since it was made, sessions may have been removed, and the lease with them,
  but nothing was added and no counter moved.
\<close>

definition candidate_of :: "session_id option \<Rightarrow> 'v session_broker \<Rightarrow> 'v session_broker \<Rightarrow> bool" where
  "candidate_of target b b' \<longleftrightarrow>
     (\<exists>b0 r D. switch_now target b0 = (Inr r, b') \<and> broker_inv b0 \<and> broker_inv b \<and>
        (\<forall>i. target = Some i \<longrightarrow> \<not> foreground_is b0 i) \<and>
        without D (sb_sessions b0) (sb_sessions b) \<and>
        sb_foreground_output b \<in> {sb_foreground_output b0, None} \<and>
        sb_output_pin b0 = None \<and> sb_output_pin b = None \<and>
        sb_next_lease_generation b = sb_next_lease_generation b0 \<and>
        sb_next_pin_generation b = sb_next_pin_generation b0)"

lemma switch_now_keeps:
  assumes "broker_inv b" and "switch_now target b = (r, b')"
  shows "broker_inv b'"
proof -
  have "\<exists>r. broker_step b (case target of None \<Rightarrow> ClearForeground | Some i \<Rightarrow> SwitchForeground i) = (r, b')"
    using assms(2)
    by (auto simp: switch_now_def reply_with_def split: option.splits prod.splits sum.splits)
  then show ?thesis
    using broker_step_keeps [OF assms(1)] by blast
qed

lemma bt_ext:
  assumes "bt_wf m" and "bt_wf m'" and "\<And>i. bt_get m i = bt_get m' i"
  shows "m = m'"
proof -
  have set_eq: "set m = set m'"
    using assms bt_get_iff [OF assms(1)] bt_get_iff [OF assms(2)] by auto
  show ?thesis
  proof (rule map_sorted_distinct_set_unique [of fst])
    show "inj_on fst (set m \<union> set m')"
      using bt_wf_distinct [OF assms(1)] by (simp add: set_eq [symmetric] distinct_map)
  qed (use assms set_eq bt_wf_distinct in \<open>auto simp: bt_wf_def strict_sorted_iff\<close>)
qed

lemma session_ids_iff: "broker_inv b \<Longrightarrow> i \<in> session_ids b \<longleftrightarrow> bt_get (sb_sessions b) i \<noteq> None"
  by (fastforce simp: session_ids_def broker_inv_def bt_values_iff btree.holds_def image_iff)

lemma without_same:
  assumes "without D m m'" and "bt_wf m" and "\<And>i. bt_get m i \<noteq> None \<Longrightarrow> bt_get m' i \<noteq> None"
  shows "m' = m"
proof (rule bt_ext)
  show "bt_get m' i = bt_get m i" for i
    using assms(1) assms(3) [of i] by (cases "bt_get m i") (auto simp: without_def split: if_split_asm)
qed (use assms in \<open>auto simp: without_def\<close>)

lemma switch_now_Inr:
  "switch_now target b = (Inr r, b') \<longleftrightarrow> (case target of
     None \<Rightarrow> sb_output_pin b = None \<and> r = sb_foreground_output b \<and> b' = b\<lparr>sb_foreground_output := None\<rparr>
   | Some i \<Rightarrow> \<exists>l. r = Some l \<and> switch_foreground b i = (Inr l, b'))"
  by (auto simp: switch_now_def clear_foreground_Inr split: option.splits prod.splits sum.splits)
    (metis map_sum.simps(2) obj_sumE old.sum.exhaust sum.distinct(1) map_sum.simps(1) sum.inject(2))

text \<open>When no session was removed, the candidate is what the switch gives now.\<close>

lemma candidate_is_current:
  assumes c: "candidate_of target b b'" and ids: "session_ids b = session_ids b'"
  shows "\<exists>r. switch_now target b = (Inr r, b')"
proof -
  obtain b0 r D where st: "switch_now target b0 = (Inr r, b')" and inv0: "broker_inv b0"
    and inv: "broker_inv b" and nf: "\<And>i. target = Some i \<Longrightarrow> \<not> foreground_is b0 i"
    and D: "without D (sb_sessions b0) (sb_sessions b)"
    and fg: "sb_foreground_output b \<in> {sb_foreground_output b0, None}"
    and eqs: "sb_output_pin b0 = None" "sb_output_pin b = None"
      "sb_next_lease_generation b = sb_next_lease_generation b0"
      "sb_next_pin_generation b = sb_next_pin_generation b0"
    using c unfolding candidate_of_def by blast
  have s': "sb_sessions b' = sb_sessions b0"
    using st nf by (auto simp: switch_now_Inr switch_foreground_Inr split: option.splits)
  have s: "sb_sessions b = sb_sessions b0"
  proof (rule without_same [OF D broker_wf [OF inv0]])
    show "bt_get (sb_sessions b) i \<noteq> None" if "bt_get (sb_sessions b0) i \<noteq> None" for i
      using that ids session_ids_iff [OF inv, of i] session_ids_iff [OF switch_now_keeps [OF inv0 st], of i]
      by (simp add: s')
  qed
  show ?thesis
  proof (cases target)
    case None
    then show ?thesis
      using st s eqs by (auto simp: switch_now_Inr)
  next
    case (Some i)
    then have "\<not> foreground_is b i"
      using nf [OF Some] fg by (auto simp: foreground_is_def)
    then show ?thesis
      using st s eqs nf [OF Some] Some
      by (auto simp: switch_now_Inr switch_foreground_Inr intro!: session_broker.equality)
  qed
qed

text \<open>The controller by itself: its maps, the pending start, the bounds.\<close>

definition controller_ok :: "'v deck_controller \<Rightarrow> bool" where
  "controller_ok c \<longleftrightarrow> tracked c \<and> start_is_pinned c \<and> length (dc_recent_faults c) \<le> 32 \<and>
     length (sb_sessions (dc_broker c)) + length (dc_pending c) + length (dc_closing c) \<le> 4"

text \<open>The identifiers that were reserved, and those whose close was prepared.\<close>

definition ids_ok :: "session_id set \<Rightarrow> session_id set \<Rightarrow> 'v deck_controller \<Rightarrow> bool" where
  "ids_ok R K c \<longleftrightarrow>
     (\<forall>i. bt_get (dc_sessions c) i \<noteq> None \<longrightarrow> i \<in> R \<and> bt_get (dc_pending c) i = None) \<and>
     (\<forall>i. bt_get (dc_pending c) i \<noteq> None \<longrightarrow> i \<in> R) \<and>
     (\<forall>i\<in>K. i \<in> R \<and> bt_get (sb_sessions (dc_broker c)) i = None \<and> bt_get (dc_pending c) i = None)"

definition switch_held ::
    "'v deck_controller \<Rightarrow> session_id option \<Rightarrow> 'v foreground_transition \<Rightarrow> bool" where
  "switch_held c target t \<longleftrightarrow> dc_replacement c = None \<and>
     candidate_of target (dc_broker c) (ft_candidate t) \<and>
     (\<forall>i d. target = Some i \<longrightarrow> bt_get (dc_sessions c) i = Some d \<longrightarrow>
        ft_target_runtime t = Some (dr_runtime d))"

definition replacement_held ::
    "'v deck_controller \<Rightarrow> session_id \<Rightarrow> 'v replacement_transition \<Rightarrow> bool" where
  "replacement_held c i t \<longleftrightarrow> dc_replacement c = Some i \<and> bt_get (dc_closing c) i = None \<and>
     rt_foreground t = foreground_is (dc_broker c) i \<and>
     (\<exists>d. bt_get (dc_sessions c) i = Some d \<and> dr_worker_id d = rt_old_worker_id t \<and>
        dr_runtime d = rt_old_runtime t \<and> dr_deck d = rt_deck t \<and> dr_codec d = rt_codec t)"

text \<open>The transitions in flight: at most one of them, the latest, has the current generation.\<close>

definition flights_ok ::
    "(session_id option \<times> 'v foreground_transition) set \<Rightarrow>
     (session_id \<times> 'v replacement_transition) set \<Rightarrow> 'v deck_controller \<Rightarrow> bool" where
  "flights_ok W P c \<longleftrightarrow>
     (\<forall>(target, t)\<in>W. unat (ft_generation t) \<le> unat (dc_next_generation c) \<and>
        (dc_transition c = Some (ft_generation t) \<longrightarrow> switch_held c target t)) \<and>
     (\<forall>(i, t)\<in>P. unat (rt_generation t) \<le> unat (dc_next_generation c) \<and>
        (dc_transition c = Some (rt_generation t) \<longrightarrow> replacement_held c i t)) \<and>
     (\<forall>i. dc_replacement c = Some i \<longrightarrow>
        (\<exists>t. (i, t) \<in> P \<and> dc_transition c = Some (rt_generation t)))"

definition sys_ok :: "'v deck_system \<Rightarrow> bool" where
  "sys_ok s \<longleftrightarrow> controller_ok (sys_controller s) \<and>
     ids_ok (sys_reserved s) (sys_closes s) (sys_controller s) \<and>
     flights_ok (sys_switches s) (sys_replacements s) (sys_controller s)"

lemma idle_flights:
  assumes "flights_ok W P c" and "dc_transition c = None"
    and "dc_transition c' = None" and "dc_replacement c' = None"
    and "unat (dc_next_generation c) \<le> unat (dc_next_generation c')"
  shows "flights_ok W P c'"
  using assms by (fastforce simp: flights_ok_def)

lemma settled_flights:
  assumes "flights_ok W P c" and "dc_transition c' = None" and "dc_replacement c' = None"
    and "dc_next_generation c' = dc_next_generation c"
  shows "flights_ok W P c'"
  using assms by (auto simp: flights_ok_def)

lemma idle_replacement: "flights_ok W P c \<Longrightarrow> dc_transition c = None \<Longrightarrow> dc_replacement c = None"
  by (auto simp: flights_ok_def)

subsection \<open>Removing sessions keeps it\<close>

lemma removed_controller:
  assumes "controller_ok c" and "removed D c c'" and "start_is_pinned c'"
  shows "controller_ok c'"
proof -
  have wf: "bt_wf (sb_sessions (dc_broker c))" "bt_wf (dc_closing c)"
    using assms(1) by (auto simp: controller_ok_def tracked_def broker_wf)
  have "length (sb_sessions (dc_broker c')) \<le> length (sb_sessions (dc_broker c))"
    "length (dc_closing c') \<le> length (dc_closing c)"
    using assms(2) without_length [OF wf(1)] without_length [OF wf(2)] by (auto simp: removed_def)
  then show ?thesis
    using assms tracked_removed [OF _ assms(2)] by (auto simp: controller_ok_def removed_def)
qed

lemma removed_ids: "ids_ok R K c \<Longrightarrow> removed D c c' \<Longrightarrow> ids_ok R K c'"
  by (auto simp: ids_ok_def removed_def without_def split: if_split_asm)

lemma removed_lease: "removed D c c' \<Longrightarrow> sb_foreground_output (dc_broker c') = Some l \<longleftrightarrow>
    sb_foreground_output (dc_broker c) = Some l \<and> fl_session_id l \<notin> D"
  and removed_pin: "removed D c c' \<Longrightarrow> sb_output_pin (dc_broker c') = Some p \<Longrightarrow>
    sb_output_pin (dc_broker c) = Some p"
  by (simp_all add: removed_def)

lemma removed_candidate:
  assumes c: "candidate_of target (dc_broker c) b'" and r: "removed D c c'"
  shows "candidate_of target (dc_broker c') b'"
proof -
  have fg: "sb_foreground_output (dc_broker c') \<in> {sb_foreground_output (dc_broker c), None}"
  proof (cases "sb_foreground_output (dc_broker c')")
    case (Some l)
    then show ?thesis
      using removed_lease [OF r, of l] by simp
  qed simp
  have pin: "sb_output_pin (dc_broker c') = None" if "sb_output_pin (dc_broker c) = None"
    using removed_pin [OF r] that by (cases "sb_output_pin (dc_broker c')") auto
  from c obtain b0 u E where b0: "switch_now target b0 = (Inr u, b')" "broker_inv b0"
      "\<forall>i. target = Some i \<longrightarrow> \<not> foreground_is b0 i" "sb_output_pin b0 = None"
      "without E (sb_sessions b0) (sb_sessions (dc_broker c))"
    and b: "sb_foreground_output (dc_broker c) \<in> {sb_foreground_output b0, None}"
      "sb_output_pin (dc_broker c) = None"
      "sb_next_lease_generation (dc_broker c) = sb_next_lease_generation b0"
      "sb_next_pin_generation (dc_broker c) = sb_next_pin_generation b0"
    unfolding candidate_of_def by blast
  have "without (E \<union> D) (sb_sessions b0) (sb_sessions (dc_broker c'))"
    using b0(5) r by (auto simp: removed_def intro: without_trans)
  moreover have "sb_foreground_output (dc_broker c') \<in> {sb_foreground_output b0, None}"
    using fg b(1) by auto
  moreover have "broker_inv (dc_broker c')"
    "sb_next_lease_generation (dc_broker c') = sb_next_lease_generation b0"
    "sb_next_pin_generation (dc_broker c') = sb_next_pin_generation b0"
    using r b by (simp_all add: removed_def)
  ultimately show ?thesis
    unfolding candidate_of_def using b0(1-4) pin [OF b(2)] by blast
qed

lemma removed_foreground:
  assumes r: "removed D c c'" and i: "i \<notin> D"
  shows "foreground_is (dc_broker c') i = foreground_is (dc_broker c) i"
proof -
  have "foreground_is b i \<longleftrightarrow> (\<exists>l. sb_foreground_output b = Some l \<and> fl_session_id l = i)" for b :: "'a session_broker"
    by (simp add: foreground_is_def split: option.split)
  then show ?thesis
    using removed_lease [OF r] i by metis
qed

lemma removed_flights:
  assumes f: "flights_ok W P c" and r: "removed D c c'" and d: "\<And>i. dc_replacement c = Some i \<Longrightarrow> i \<notin> D"
  shows "flights_ok W P c'"
proof -
  have same: "dc_transition c' = dc_transition c" "dc_replacement c' = dc_replacement c"
    "dc_next_generation c' = dc_next_generation c"
    using r by (simp_all add: removed_def)
  have "switch_held c' target t" if "switch_held c target t" for target t
    using that removed_candidate [OF _ r] same r
    by (auto simp: switch_held_def removed_def without_def split: if_split_asm)
  moreover have "replacement_held c' i t" if "replacement_held c i t" for i t
    using that d [of i] removed_foreground [OF r, of i] same r
    by (auto simp: replacement_held_def removed_def without_def)
  ultimately show ?thesis
    using f by (auto simp: flights_ok_def same)
qed

lemma removed_sys:
  assumes "sys_ok s" and "removed D (sys_controller s) c'" and "start_is_pinned c'"
    and "\<And>i. dc_replacement (sys_controller s) = Some i \<Longrightarrow> i \<notin> D"
  shows "sys_ok (s\<lparr>sys_controller := c'\<rparr>)"
  using assms removed_controller [OF _ assms(2,3)] removed_ids [OF _ assms(2)]
    removed_flights [OF _ assms(2,4)] by (simp add: sys_ok_def)

lemma reap_sys:
  assumes s: "sys_ok s"
  shows "sys_ok (s\<lparr>sys_controller := reap_closed a (sys_controller s)\<rparr>)"
proof (rule removed_sys [OF s])
  have t: "tracked (sys_controller s)"
    using s by (simp add: sys_ok_def controller_ok_def)
  show "removed (stopped a (sys_controller s)) (sys_controller s) (reap_closed a (sys_controller s))"
    and "start_is_pinned (reap_closed a (sys_controller s))"
    by (rule reap_closed_removed [OF t])+
  show "i \<notin> stopped a (sys_controller s)" if "dc_replacement (sys_controller s) = Some i" for i
    using t that by (simp add: stopped_iff tracked_def)
qed

subsection \<open>The operations keep it\<close>

text \<open>Fields that the parts do not read.\<close>

lemma flights_ok_fields [simp]:
  "flights_ok W P (c\<lparr>dc_registry := (dc_registry c)\<lparr>gr_pending := m\<rparr>\<rparr>) = flights_ok W P c"
  "flights_ok W P (c\<lparr>dc_starting := x\<rparr>) = flights_ok W P c"
  "flights_ok W P (c\<lparr>dc_external_assets := y\<rparr>) = flights_ok W P c"
  "flights_ok W P (c\<lparr>dc_asset_checkouts := z\<rparr>) = flights_ok W P c"
  by (simp_all add: flights_ok_def switch_held_def replacement_held_def)

lemma ids_ok_fields [simp]:
  "ids_ok R K (c\<lparr>dc_starting := x\<rparr>) = ids_ok R K c"
  "ids_ok R K (c\<lparr>dc_external_assets := y\<rparr>) = ids_ok R K c"
  "ids_ok R K (c\<lparr>dc_asset_checkouts := z\<rparr>) = ids_ok R K c"
  "ids_ok R K (c\<lparr>dc_transition := g\<rparr>) = ids_ok R K c"
  "ids_ok R K (c\<lparr>dc_replacement := h\<rparr>) = ids_ok R K c"
  "ids_ok R K (c\<lparr>dc_next_generation := n\<rparr>) = ids_ok R K c"
  by (simp_all add: ids_ok_def)

lemma tracked_fields [simp]:
  "tracked (c\<lparr>dc_starting := x\<rparr>) = tracked c"
  "tracked (c\<lparr>dc_external_assets := y\<rparr>) = tracked c"
  "tracked (c\<lparr>dc_asset_checkouts := z\<rparr>) = tracked c"
  "tracked (c\<lparr>dc_transition := g\<rparr>) = tracked c"
  "tracked (c\<lparr>dc_replacement := h\<rparr>) = tracked c"
  "tracked (c\<lparr>dc_next_generation := n\<rparr>) = tracked c"
  by (simp_all add: tracked_def)

lemma controller_ok_fields [simp]:
  "controller_ok (c\<lparr>dc_external_assets := y\<rparr>) = controller_ok c"
  "controller_ok (c\<lparr>dc_asset_checkouts := z\<rparr>) = controller_ok c"
  "controller_ok (c\<lparr>dc_transition := g\<rparr>) = controller_ok c"
  "controller_ok (c\<lparr>dc_replacement := h\<rparr>) = controller_ok c"
  "controller_ok (c\<lparr>dc_next_generation := n\<rparr>) = controller_ok c"
  by (simp_all add: controller_ok_def start_is_pinned_def)

lemma idle_iff [try_iffs]:
  "ensure_lifecycle_idle c = Inr u \<longleftrightarrow> dc_transition c = None"
  "ensure_lifecycle_idle c = Inl e \<longleftrightarrow> dc_transition c \<noteq> None \<and> e = lifecycle_busy"
  by (auto simp: ensure_lifecycle_idle_def refuse_def)

lemma begin_lifecycle_iff [try_iffs]:
  "begin_lifecycle_transition c = (Inr n, c') \<longleftrightarrow> dc_transition c = None \<and>
     unat n = unat (dc_next_generation c) + 1 \<and> c' = c\<lparr>dc_next_generation := n, dc_transition := Some n\<rparr>"
  "begin_lifecycle_transition c = (Inl e, c') \<longleftrightarrow> c' = c \<and>
     (dc_transition c \<noteq> None \<and> e = lifecycle_busy \<or>
      dc_transition c = None \<and> checked_add (dc_next_generation c) 1 = None \<and> e = generation_exhausted)"
  by (auto simp: begin_lifecycle_transition_def try_iffs checked_simps)

lemma bt_get_unit: "bt_get m i \<noteq> Some () \<longleftrightarrow> bt_get m i = None"
  by (cases "bt_get m i") auto

lemma bt_reinsert:
  assumes "bt_wf m" and "bt_get m i = Some v"
  shows "bt_insert (bt_remove m i) i v = m"
  using assms
  by (intro bt_ext) (simp_all add: bt_insert_wf bt_remove_wf bt_get_insert bt_get_remove)

lemma ids_ok_more: "ids_ok R K c \<Longrightarrow> ids_ok (insert i R) K c"
  by (auto simp: ids_ok_def)

lemma reserve_ok:
  assumes ok: "controller_ok c" "ids_ok R K c" "flights_ok W P c" and new: "i \<notin> R"
    and st: "controller_reserve a i c0 = (r, c')" and c: "c = reap_closed a c0"
  shows "controller_ok c' \<and> ids_ok (insert i R) K c' \<and> flights_ok W P c'"
proof -
  consider "c' = c"
    | "c' = c\<lparr>dc_registry := (dc_registry c)\<lparr>gr_pending := bt_insert (dc_pending c) i ()\<rparr>\<rparr>"
      "length (sb_sessions (dc_broker c)) + length (dc_pending c) + length (dc_closing c) < 4"
    using st unfolding controller_reserve_def Let_def c [symmetric]
    by (auto simp: try_with_def registry_reserve_def MAX_WARM_SESSIONS_def
        split: sum.split_asm if_split_asm prod.split_asm)
  then show ?thesis
  proof cases
    case 1
    then show ?thesis
      using ok by (simp add: ids_ok_more)
  next
    case 2
    have n: "bt_get (dc_sessions c) i = None" "bt_wf (dc_pending c)" "i \<notin> K"
      using ok new by (auto simp: ids_ok_def controller_ok_def tracked_def)
    show ?thesis
      using ok 2 n by (auto simp: controller_ok_def tracked_def start_is_pinned_def ids_ok_def bt_insert_wf
          bt_insert_length bt_get_insert)
  qed
qed

lemma cancel_ok:
  assumes "controller_ok c" "ids_ok R K c" "flights_ok W P c"
  shows "controller_ok (controller_cancel i c) \<and> ids_ok R K (controller_cancel i c) \<and>
    flights_ok W P (controller_cancel i c)"
  using assms by (auto simp: controller_cancel_def registry_cancel_def controller_ok_def tracked_def
      start_is_pinned_def ids_ok_def bt_remove_wf bt_remove_length bt_get_remove)

lemma open_session_error: "open_session b w = (Inl e, b') \<Longrightarrow> b' = b"
  by (auto simp: open_session_def split: if_split_asm)

lemma commit_ok:
  assumes ok: "controller_ok c" "ids_ok R K c" "flights_ok W P c"
    and st: "controller_commit i d c = (r, c')"
  shows "controller_ok c' \<and> ids_ok R K c' \<and> flights_ok W P c'"
proof (cases "dc_transition c \<noteq> None \<or> bt_get (dc_pending c) i = None")
  case True
  then have "c' = c"
    using st by (cases "ensure_lifecycle_idle c")
      (auto simp: controller_commit_def try_iffs registry_commit_def warm_of_def)
  then show ?thesis
    using ok by simp
next
  case False
  then have idle: "dc_transition c = None" and p: "bt_get (dc_pending c) i = Some ()"
    by auto
  have wf: "bt_wf (dc_pending c)" "bt_wf (sb_sessions (dc_broker c))" "bt_wf (dc_sessions c)"
    and n1: "bt_get (dc_sessions c) i = None" "i \<in> R" "i \<notin> K"
    and closing: "bt_get (dc_closing c) i \<noteq> None \<Longrightarrow> bt_get (dc_sessions c) i \<noteq> None"
    using ok p by (auto simp: ids_ok_def controller_ok_def tracked_def broker_wf)
  have n: "bt_get (dc_sessions c) i = None" "bt_get (dc_closing c) i = None" "i \<in> R" "i \<notin> K"
    using n1 closing by blast+
  obtain q b' where o: "open_session (dc_broker c) (warm_of i d) = (q, b')"
    by fastforce
  show ?thesis
  proof (cases q)
    case (Inl e)
    then have "c' = c\<lparr>dc_registry := (dc_registry c)\<lparr>gr_pending :=
        bt_insert (bt_remove (dc_pending c) i) i ()\<rparr>\<rparr>"
      using st p open_session_error [of "dc_broker c"] o idle
      by (auto simp: controller_commit_def ensure_lifecycle_idle_def registry_commit_def warm_of_def
          on_broker_def registry_cancel_def)
    then show ?thesis
      using ok by (simp add: bt_reinsert [OF wf(1) p])
  next
    case (Inr u)
    have b': "b' = (dc_broker c)\<lparr>sb_sessions := bt_insert (sb_sessions (dc_broker c)) i (warm_of i d)\<rparr>"
      and nb: "bt_get (sb_sessions (dc_broker c)) i = None"
      using o Inr by (auto simp: open_session_Inr warm_of_def)
    have inv: "broker_inv b'"
      using ok(1) open_session_inv [of "dc_broker c" "warm_of i d" u b'] o Inr
      by (simp add: controller_ok_def tracked_def)
    have c': "c' = c\<lparr>dc_registry := (dc_registry c)\<lparr>gr_pending := bt_remove (dc_pending c) i,
        gr_broker := b'\<rparr>, dc_sessions := bt_insert (dc_sessions c) i d\<rparr>"
      using st p o Inr idle n(1)
      by (auto simp: controller_commit_def ensure_lifecycle_idle_def registry_commit_def warm_of_def
          on_broker_def registry_cancel_def Let_def)
    have "Suc (length (bt_remove (dc_pending c) i)) = length (dc_pending c)"
      using p bt_remove_length [OF wf(1), of i] by (cases "dc_pending c") (auto simp: bt_get_def)
    then have "controller_ok c'"
      using ok(1) wf n nb inv p unfolding c' controller_ok_def tracked_def start_is_pinned_def
      by (simp add: b' bt_insert_wf bt_remove_wf bt_get_insert bt_insert_length)
    moreover have "ids_ok R K c'"
      using ok(2) wf n unfolding c' ids_ok_def by (auto simp: b' bt_get_insert bt_get_remove)
    moreover have "flights_ok W P c'"
      by (rule idle_flights [OF ok(3) idle]) (simp_all add: c' idle idle_replacement [OF ok(3) idle])
    ultimately show ?thesis
      by simp
  qed
qed

text \<open>A transition that begins: no transition in flight has its generation.\<close>

lemma begin_switch_ok:
  assumes ok: "controller_ok c" "ids_ok R K c" "flights_ok W P c"
    and inv: "broker_inv (dc_broker c)"
    and sw: "switch_now target (dc_broker c) = (Inr u, candidate)" "sb_output_pin (dc_broker c) = None"
    and nf: "\<And>i. target = Some i \<Longrightarrow> \<not> foreground_is (dc_broker c) i"
    and run: "\<And>i d. target = Some i \<Longrightarrow> bt_get (dc_sessions c) i = Some d \<Longrightarrow> runtime = Some (dr_runtime d)"
    and st: "issue_foreground candidate previous runtime c = (r, c')"
  shows "controller_ok c' \<and> ids_ok R K c' \<and> flights_ok (W \<union> issued_switch target r) P c'"
proof -
  obtain x c1 where b: "begin_lifecycle_transition c = (x, c1)"
    by fastforce
  show ?thesis
  proof (cases x)
    case (Inl e)
    then show ?thesis
      using st b ok by (auto simp: issue_foreground_def issued_switch_def begin_lifecycle_iff)
  next
    case (Inr n)
    have idle: "dc_transition c = None" and n: "unat n = unat (dc_next_generation c) + 1"
      and c': "c' = c\<lparr>dc_next_generation := n, dc_transition := Some n\<rparr>"
      and r: "r = Inr (ForegroundPending \<lparr>ft_generation = n, ft_candidate = candidate,
        ft_previous_runtime = previous, ft_target_runtime = runtime\<rparr>)"
      using st b Inr by (auto simp: issue_foreground_def begin_lifecycle_iff)
    have "candidate_of target (dc_broker c) candidate"
      unfolding candidate_of_def using sw nf inv without_refl [OF broker_wf [OF inv]] by blast
    moreover have "dc_replacement c = None"
      by (rule idle_replacement [OF ok(3) idle])
    ultimately have "flights_ok (W \<union> issued_switch target r) P c'"
      using ok(3) n run unfolding flights_ok_def
      by (fastforce simp: c' r issued_switch_def switch_held_def replacement_held_def idle)
    then show ?thesis
      using ok by (simp add: c')
  qed
qed

lemma begin_replacement_ok:
  assumes ok: "controller_ok c" "ids_ok R K c" "flights_ok W P c"
    and st: "begin_source_replacement text_of a a' i request c0 = (r, c')" and c: "c = reap_closed a c0"
  shows "controller_ok c' \<and> ids_ok R K c' \<and> flights_ok W (P \<union> issued_replacement i r) c'"
proof (cases r)
  case (Inl e)
  obtain x c1 where b: "begin_lifecycle_transition c = (x, c1)"
    by fastforce
  have "c1 = c" if "x = Inl y" for y
    using b that by (simp add: begin_lifecycle_iff)
  then have "c' = c"
    using st Inl unfolding begin_source_replacement_def Let_def c [symmetric]
    by (cases x) (auto simp: try_iffs b split: if_split_asm)
  then show ?thesis
    using ok Inl by (simp add: issued_replacement_def)
next
  case (Inr t)
  obtain d n where d: "bt_get (dc_sessions c) i = Some d" "bt_get (dc_closing c) i = None"
    and idle: "dc_transition c = None" and n: "unat n = unat (dc_next_generation c) + 1"
    and c': "c' = c\<lparr>dc_next_generation := n, dc_transition := Some n, dc_replacement := Some i\<rparr>"
    and t: "rt_generation t = n" "rt_old_runtime t = dr_runtime d" "rt_old_worker_id t = dr_worker_id d"
      "rt_deck t = dr_deck d" "rt_codec t = dr_codec d"
      "rt_foreground t = foreground_is (dc_broker c) i"
  proof -
    obtain x c1 where b: "begin_lifecycle_transition c = (x, c1)"
      by fastforce
    show thesis
    proof (cases x)
      case (Inl e)
      then show thesis
        using st \<open>r = Inr t\<close> unfolding begin_source_replacement_def Let_def c [symmetric]
        by (auto simp: try_iffs b split: if_split_asm)
    next
      case (Inr n)
      have b': "dc_transition c = None" "unat n = unat (dc_next_generation c) + 1"
        "c1 = c\<lparr>dc_next_generation := n, dc_transition := Some n\<rparr>"
        using b Inr by (auto simp: begin_lifecycle_iff)
      show thesis
        using st \<open>r = Inr t\<close> that [of _ n] b' unfolding begin_source_replacement_def Let_def c [symmetric]
        by (auto simp: try_iffs b Inr bt_get_unit split: if_split_asm)
    qed
  qed
  have "flights_ok W (P \<union> issued_replacement i r) c'"
    using ok(3) n d t idle_replacement [OF ok(3) idle] unfolding flights_ok_def
    by (fastforce simp: c' Inr issued_replacement_def switch_held_def replacement_held_def idle)
  then show ?thesis
    using ok by (simp add: c')
qed

lemma abort_ok:
  assumes ok: "controller_ok c" "ids_ok R K c" "flights_ok W P c"
  shows "controller_ok (abort_lifecycle_transition g c) \<and> ids_ok R K (abort_lifecycle_transition g c) \<and>
    flights_ok W P (abort_lifecycle_transition g c)"
  using ok settled_flights [OF ok(3)] by (simp add: abort_lifecycle_transition_def)

lemma output_started_ok:
  assumes "controller_ok c" "ids_ok R K c" "flights_ok W P c"
  shows "controller_ok (complete_output_start token c) \<and> ids_ok R K (complete_output_start token c) \<and>
    flights_ok W P (complete_output_start token c)"
  using assms by (simp add: complete_output_start_def controller_ok_def start_is_pinned_def)

text \<open>Operations of the broker that leave its sessions alone.\<close>

lemma same_sessions_ok:
  assumes ok: "controller_ok c" "ids_ok R K c" and inv: "broker_inv b'"
    and s: "sb_sessions b' = sb_sessions (dc_broker c)"
    and st: "starting = None \<or> sb_output_pin b' = starting"
    and c': "c' = c\<lparr>dc_registry := (dc_registry c)\<lparr>gr_broker := b'\<rparr>, dc_starting := starting\<rparr>"
  shows "controller_ok c'" and "ids_ok R K c'"
  using assms by (simp_all add: controller_ok_def tracked_def start_is_pinned_def ids_ok_def)

lemma pin_ok:
  assumes ok: "controller_ok c" "ids_ok R K c" "flights_ok W P c"
    and st: "controller_pin a i kind c0 = (r, c')" and c: "c = reap_closed a c0"
  shows "controller_ok c' \<and> ids_ok R K c' \<and> flights_ok W P c'"
proof (cases r)
  case (Inl e)
  have "pin_foreground (dc_broker c) i kind = (Inl x, b') \<Longrightarrow> b' = dc_broker c" for x b'
    using broker_step_error [of "dc_broker c" "PinForeground i kind"] by (auto simp: reply_with_def)
  then have "c' = c"
    using st Inl unfolding controller_pin_def Let_def c [symmetric]
    by (fastforce simp: try_iffs registry_pin_foreground_def on_broker_def
        split: prod.split_asm sum.split_asm)
  then show ?thesis
    using ok by simp
next
  case (Inr token)
  obtain b' where b': "pin_foreground (dc_broker c) i kind = (Inr token, b')"
    and idle: "dc_transition c = None"
    and c': "c' = c\<lparr>dc_registry := (dc_registry c)\<lparr>gr_broker := b'\<rparr>, dc_starting := Some token\<rparr>"
    using st Inr unfolding controller_pin_def Let_def c [symmetric]
    by (auto simp: try_iffs registry_pin_foreground_def on_broker_def
        split: prod.split_asm sum.split_asm)
  have inv: "broker_inv b'"
    using broker_step_keeps [of "dc_broker c" "PinForeground i kind"] b' ok(1)
    by (simp add: reply_with_def controller_ok_def tracked_def)
  have "sb_sessions b' = sb_sessions (dc_broker c)" "sb_output_pin b' = Some token"
    using b' by (auto simp: pin_foreground_Inr)
  then have "controller_ok c'" "ids_ok R K c'"
    using same_sessions_ok [OF ok(1,2) inv _ _ c'] by simp_all
  moreover have "flights_ok W P c'"
    by (rule idle_flights [OF ok(3) idle]) (simp_all add: c' idle idle_replacement [OF ok(3) idle])
  ultimately show ?thesis
    by simp
qed

lemma flights_unpinned:
  assumes "flights_ok W P c"
  shows "flights_ok W P (c\<lparr>dc_registry := (dc_registry c)\<lparr>gr_broker := (dc_broker c)\<lparr>sb_output_pin := None\<rparr>\<rparr>\<rparr>)"
proof -
  have "candidate_of target (b\<lparr>sb_output_pin := None\<rparr>) b'" if "candidate_of target b b'" for target b b'
  proof -
    have "b\<lparr>sb_output_pin := None\<rparr> = b"
      using that by (auto simp: candidate_of_def)
    with that show ?thesis
      by simp
  qed
  then show ?thesis
    using assms by (fastforce simp: flights_ok_def switch_held_def replacement_held_def foreground_is_def)
qed

lemma unpin_ok:
  assumes ok: "controller_ok c" "ids_ok R K c" "flights_ok W P c"
    and st: "controller_unpin a token c0 = (r, c')" and c: "c = reap_closed a c0"
  shows "controller_ok c' \<and> ids_ok R K c' \<and> flights_ok W P c'"
proof (cases "sb_output_pin (dc_broker c) = Some token")
  case False
  then have "c' = c"
    using st ok(1) unfolding controller_unpin_def Let_def c [symmetric]
    by (auto simp: registry_release_pin_def on_broker_def release_output_pin_def controller_ok_def
        start_is_pinned_def split: if_split_asm)
  then show ?thesis
    using ok by simp
next
  case True
  let ?b = "(dc_broker c)\<lparr>sb_output_pin := None\<rparr>"
  have c': "c' = c\<lparr>dc_registry := (dc_registry c)\<lparr>gr_broker := ?b\<rparr>, dc_starting := None\<rparr>"
    using st True ok(1) unfolding controller_unpin_def Let_def c [symmetric]
    by (auto simp: registry_release_pin_def on_broker_def release_output_pin_def controller_ok_def
        start_is_pinned_def split: if_split_asm)
  have "broker_inv ?b"
    using ok(1) by (simp add: controller_ok_def tracked_def release_keeps_inv)
  then have "controller_ok c'" "ids_ok R K c'"
    using same_sessions_ok [OF ok(1,2) _ _ _ c'] by simp_all
  then show ?thesis
    using flights_unpinned [OF ok(3)] by (simp add: c')
qed

lemma replace_worker_error: "replace_worker b i v = (Inl e, b') \<Longrightarrow> b' = b"
  using broker_step_error [of b "ReplaceWorker i v"] by (auto simp: reply_with_def)

text \<open>A replacement in flight finds its session; what it then gives.\<close>

lemma complete_replacement_cases:
  assumes tr: "tracked c" and held: "replacement_held c i t"
    and gen: "dc_transition c = Some (rt_generation t)"
    and st: "complete_source_replacement text_of a i t d c = (r, c')"
  obtains e where "r = Inl e" and "c' = c"
      and "isl (ra_view a (dr_runtime d)) \<or>
        dr_worker_id d \<in> ws_worker_id ` set (bt_values (sb_sessions (dc_broker c)))"
    | v cur b' where "ra_view a (dr_runtime d) = Inr v" and "bt_get (dc_sessions c) i = Some cur"
      and "dr_deck cur = rt_deck t" and "dr_codec cur = rt_codec t"
      and "r = Inr (view_record text_of i d v (rt_foreground t))"
      and "replace_worker (dc_broker c) i (dr_worker_id d) =
        (Inr ((warm_of i cur)\<lparr>ws_worker_id := dr_worker_id d\<rparr>), b')"
      and "c' = c\<lparr>dc_registry := (dc_registry c)\<lparr>gr_broker := b'\<rparr>,
        dc_sessions := bt_insert (dc_sessions c) i d, dc_transition := None, dc_replacement := None\<rparr>"
proof -
  obtain cur where cur: "bt_get (dc_sessions c) i = Some cur" "dr_worker_id cur = rt_old_worker_id t"
      "dr_runtime cur = rt_old_runtime t" "dr_deck cur = rt_deck t" "dr_codec cur = rt_codec t"
    using held by (auto simp: replacement_held_def)
  have warm: "bt_get (sb_sessions (dc_broker c)) i = Some (warm_of i cur)"
    using tr held cur(1) by (simp add: tracked_def replacement_held_def)
  obtain q b' where rw: "replace_worker (dc_broker c) i (dr_worker_id d) = (q, b')"
    by fastforce
  show thesis
  proof (cases "ra_view a (dr_runtime d)")
    case (Inl e)
    then show thesis
      using st gen cur that(1) [of "runtime_command_error e"] by (simp add: complete_source_replacement_def)
  next
    case (Inr v)
    show thesis
    proof (cases q)
      case (Inl e)
      have "dr_worker_id d \<in> ws_worker_id ` set (bt_values (sb_sessions (dc_broker c)))"
        if "bt_get (sb_sessions (dc_broker c)) i = Some w" for w
        using rw Inl that by (auto simp: replace_worker_def contains_session_def list_ex_worker Let_def
            split: if_split_asm)
      moreover have "b' = dc_broker c"
        using rw Inl replace_worker_error by blast
      ultimately show thesis
        using st gen cur Inl \<open>ra_view a (dr_runtime d) = Inr v\<close> rw warm that(1) [of "broker_command_error e"]
        by (simp add: complete_source_replacement_def registry_replace_worker_def on_broker_def)
    next
      case (Inr w)
      then have "w = (warm_of i cur)\<lparr>ws_worker_id := dr_worker_id d\<rparr>"
        using rw warm by (auto simp: replace_worker_Inr)
      then show thesis
        using st gen cur Inr \<open>ra_view a (dr_runtime d) = Inr v\<close> rw that(2) [of v cur b']
        by (simp add: complete_source_replacement_def registry_replace_worker_def on_broker_def)
    qed
  qed
qed

lemma complete_replacement_ok:
  assumes ok: "controller_ok c" "ids_ok R K c" "flights_ok W P c" and t: "(i, t) \<in> P"
    and d: "dr_deck d = rt_deck t" "dr_codec d = rt_codec t"
    and st: "complete_source_replacement text_of a i t d c = (r, c')"
  shows "controller_ok c' \<and> ids_ok R K c' \<and> flights_ok W P c'"
proof (cases "dc_transition c = Some (rt_generation t)")
  case False
  then have "c' = c"
    using st by (simp add: complete_source_replacement_def)
  then show ?thesis
    using ok by simp
next
  case True
  have held: "replacement_held c i t"
    using ok(3) t True by (auto simp: flights_ok_def)
  have "tracked c"
    using ok(1) by (simp add: controller_ok_def)
  from this held True st show ?thesis
  proof (cases rule: complete_replacement_cases)
    case (1 e)
    then show ?thesis
      using ok by simp
  next
    case (2 v cur b')
    have wf: "bt_wf (sb_sessions (dc_broker c))" "bt_wf (dc_sessions c)"
      using ok(1) by (auto simp: controller_ok_def tracked_def broker_wf)
    have n: "bt_get (dc_closing c) i = None" "bt_get (sb_sessions (dc_broker c)) i = Some (warm_of i cur)"
      using held ok(1) 2(2) by (auto simp: replacement_held_def controller_ok_def tracked_def)
    have w: "(warm_of i cur)\<lparr>ws_worker_id := dr_worker_id d\<rparr> = warm_of i d"
      using 2(3,4) d by (simp add: warm_of_def)
    have inv: "broker_inv b'"
      using ok(1) replace_worker_inv [OF _ 2(6)] by (simp add: controller_ok_def tracked_def)
    have b': "b' = (dc_broker c)\<lparr>sb_sessions := bt_insert (sb_sessions (dc_broker c)) i (warm_of i d)\<rparr>"
      using 2(6) w by (auto simp: replace_worker_Inr)
    have "controller_ok c'"
      using ok(1) wf n inv 2(2) unfolding 2(7) controller_ok_def tracked_def start_is_pinned_def
      by (simp add: b' bt_insert_wf bt_get_insert bt_insert_length)
    moreover have "ids_ok R K c'"
      using ok(2) wf n 2(2) unfolding 2(7) ids_ok_def by (auto simp: b' bt_get_insert)
    moreover have "flights_ok W P c'"
      by (rule settled_flights [OF ok(3)]) (simp_all add: 2(7))
    ultimately show ?thesis
      by simp
  qed
qed

lemma removed_unstarted: "removed D c c' \<Longrightarrow> removed D c (c'\<lparr>dc_starting := None\<rparr>)"
  by (simp add: removed_def)

lemma fail_ok:
  assumes ok: "controller_ok c" "ids_ok R K c" "flights_ok W P c" and t: "(i, t) \<in> P"
  shows "case fail_source_replacement i t code c of c' \<Rightarrow>
    controller_ok c' \<and> ids_ok R K c' \<and> flights_ok W P c'"
proof (cases "dc_transition c = Some (rt_generation t)")
  case False
  then show ?thesis
    using ok by (simp add: fail_source_replacement_def)
next
  case True
  then have held: "replacement_held c i t"
    using ok(3) t by (auto simp: flights_ok_def)
  then obtain d where d: "bt_get (dc_sessions c) i = Some d" "dr_worker_id d = rt_old_worker_id t"
    and n: "bt_get (dc_closing c) i = None"
    by (auto simp: replacement_held_def)
  let ?c = "c\<lparr>dc_transition := None, dc_replacement := None\<rparr>"
  let ?c1 = "?c\<lparr>dc_registry := snd (registry_worker_fault (dc_registry ?c) (dr_worker_id d)),
    dc_sessions := bt_remove (dc_sessions ?c) i\<rparr>"
  let ?c2 = "if (case dc_starting ?c1 of None \<Rightarrow> False | Some p \<Rightarrow> op_session_id p = i)
    then ?c1\<lparr>dc_starting := None\<rparr> else ?c1"
  let ?c3 = "push_fault \<lparr>dfv_session_id = i, dfv_worker_id = rt_old_worker_id t, dfv_code = code\<rparr> ?c2"
  have c': "fail_source_replacement i t code c = ?c3"
    using True d by (simp add: fail_source_replacement_def Let_def push_fault_def split: option.split)
  have ok': "controller_ok ?c" "ids_ok R K ?c" "flights_ok W P ?c"
    using ok settled_flights [OF ok(3), of ?c] by simp_all
  have tr: "tracked ?c" "start_is_pinned ?c"
    using ok'(1) by (simp_all add: controller_ok_def)
  have r: "removed {i} ?c ?c1"
    by (rule fault_removed [OF tr(1)]) (simp_all add: d n)
  have r3: "removed {i} ?c ?c3"
    using removed_faults [OF r] removed_faults [OF removed_unstarted [OF r]] by simp
  have "start_is_pinned ?c3"
  proof (cases "dc_starting ?c")
    case None
    then show ?thesis
      by (simp add: start_is_pinned_def)
  next
    case (Some p)
    have pin: "sb_output_pin (dc_broker c) = Some p"
      using tr(2) Some by (simp add: start_is_pinned_def)
    have inv: "broker_inv (dc_broker c)"
      using tr(1) by (simp add: tracked_def)
    obtain b' where f: "handle_worker_fault (dc_broker c) (dr_worker_id d) = (Inr (warm_of i d), b')"
      and b': "sb_output_pin b' = (if foreground_is (dc_broker c) i then None else sb_output_pin (dc_broker c))"
      using fault_removes [of c i d] ok(1) d(1) n by (auto simp: controller_ok_def)
    have "foreground_is (dc_broker c) i \<Longrightarrow> op_session_id p = i"
      using foreground_pin [OF inv, of i] pin by (simp add: pin_of_session_def)
    then show ?thesis
      using Some pin b' by (simp add: start_is_pinned_def registry_worker_fault_def on_broker_def f)
  qed
  then show ?thesis
    using removed_controller [OF ok'(1) r3] removed_ids [OF ok'(2) r3] removed_flights [OF ok'(3) r3]
    by (simp add: c')
qed

lemma complete_foreground_ok:
  assumes ok: "controller_ok c" "ids_ok R K c" "flights_ok W P c" and t: "(target, t) \<in> W"
    and gen: "dc_transition c = Some (ft_generation t)"
    and ids: "session_ids (dc_broker c) = session_ids (ft_candidate t)"
    and c': "c' = c\<lparr>dc_registry := (dc_registry c)\<lparr>gr_broker := ft_candidate t\<rparr>, dc_transition := None\<rparr>"
  shows "controller_ok c' \<and> ids_ok R K c' \<and> flights_ok W P c'"
proof -
  have held: "switch_held c target t"
    using ok(3) t gen by (auto simp: flights_ok_def)
  then have cand: "candidate_of target (dc_broker c) (ft_candidate t)" and nr: "dc_replacement c = None"
    by (simp_all add: switch_held_def)
  obtain r where sw: "switch_now target (dc_broker c) = (Inr r, ft_candidate t)"
    using candidate_is_current [OF cand ids] by blast
  have inv: "broker_inv (dc_broker c)" and pin: "sb_output_pin (dc_broker c) = None"
    using ok(1) cand by (auto simp: controller_ok_def tracked_def candidate_of_def)
  have same: "sb_sessions (ft_candidate t) = sb_sessions (dc_broker c)" "sb_output_pin (ft_candidate t) = None"
    using sw pin by (auto simp: switch_now_Inr switch_foreground_Inr split: option.splits)
  have "controller_ok c'"
    using ok(1) same pin switch_now_keeps [OF inv sw]
    by (simp add: c' controller_ok_def tracked_def start_is_pinned_def)
  moreover have "ids_ok R K c'"
    using ok(2) by (simp add: c' ids_ok_def same)
  moreover have "flights_ok W P c'"
    by (rule settled_flights [OF ok(3)]) (simp_all add: c' nr)
  ultimately show ?thesis
    by simp
qed

lemma close_session_error: "close_session b i = (Inl e, b') \<Longrightarrow> b' = b"
  using broker_step_error [of b "CloseSession i"] by (auto simp: reply_with_def)

lemma prepare_close_ok:
  assumes ok: "controller_ok c" "ids_ok R K c" "flights_ok W P c"
    and st: "prepare_close a i c0 = (r, c')" and c: "c = reap_closed a c0"
  shows "controller_ok c' \<and> ids_ok R (K \<union> issued_close i r) c' \<and> flights_ok W P c'"
proof (cases r)
  case (Inl e)
  obtain q b' where "close_session (dc_broker c) i = (q, b')"
    by fastforce
  then have "c' = c"
    using st Inl unfolding prepare_close_def Let_def c [symmetric]
    by (cases q) (auto simp: try_with_def split: if_split_asm sum.split_asm)
  then show ?thesis
    using ok Inl by (simp add: issued_close_def)
next
  case (Inr x)
  obtain w b' d where b': "close_session (dc_broker c) i = (Inr w, b')"
    and idle: "dc_transition c = None" and n: "bt_get (dc_closing c) i = None"
    and d: "bt_get (dc_sessions c) i = Some d"
    and c': "c' = c\<lparr>dc_registry := (dc_registry c)\<lparr>gr_broker := b'\<rparr>,
        dc_closing := bt_insert (dc_closing c) i ()\<rparr>"
  proof -
    obtain q b' where "close_session (dc_broker c) i = (q, b')"
      by fastforce
    then show thesis
      using st Inr that unfolding prepare_close_def Let_def c [symmetric]
      by (cases q) (auto simp: try_with_def runtime_of_def bt_get_unit ensure_lifecycle_idle_def refuse_def
          ok_or_def split: if_split_asm sum.split_asm option.split_asm)
  qed
  have wf: "bt_wf (sb_sessions (dc_broker c))" "bt_wf (dc_closing c)"
    and inv: "broker_inv b'"
    using ok(1) close_session_inv [OF _ b'] by (auto simp: controller_ok_def tracked_def broker_wf)
  have s: "sb_sessions b' = bt_remove (sb_sessions (dc_broker c)) i"
    "sb_output_pin b' = sb_output_pin (dc_broker c)"
    and w: "bt_get (sb_sessions (dc_broker c)) i = Some w"
    using b' by (auto simp: close_session_Inr)
  have "Suc (length (bt_remove (sb_sessions (dc_broker c)) i)) = length (sb_sessions (dc_broker c))"
    using w bt_remove_length [OF wf(1), of i] by (cases "sb_sessions (dc_broker c)") (auto simp: bt_get_def)
  then have "controller_ok c'"
    using ok(1) wf n d inv unfolding c' controller_ok_def tracked_def start_is_pinned_def
    by (simp add: s bt_insert_wf bt_get_insert bt_get_remove bt_insert_length)
  moreover have "ids_ok R (K \<union> issued_close i r) c'"
    using ok(2) d unfolding c' ids_ok_def by (auto simp: s bt_get_remove Inr issued_close_def)
  moreover have "flights_ok W P c'"
    by (rule idle_flights [OF ok(3) idle]) (simp_all add: c' idle idle_replacement [OF ok(3) idle])
  ultimately show ?thesis
    by simp
qed

lemma broker_new_sessions [simp]: "sb_sessions broker_new = []"
  by (simp add: broker_new_def)

lemma shutdown_ok:
  assumes "controller_ok c" "ids_ok R K c" "flights_ok W P c"
    and "detach_all_for_shutdown c = (r, c')"
  shows "controller_ok c' \<and> ids_ok R K c' \<and> flights_ok W P c'"
proof -
  have c': "c' = c\<lparr>dc_sessions := [], dc_registry := registry_new, dc_closing := [],
      dc_transition := None, dc_replacement := None, dc_starting := None\<rparr>"
    using assms(4) by (simp add: detach_all_for_shutdown_def)
  have "flights_ok W P c'"
    by (rule settled_flights [OF assms(3)]) (simp_all add: c')
  then show ?thesis
    using assms(1,2) broker_new_inv
    by (auto simp: c' controller_ok_def tracked_def start_is_pinned_def ids_ok_def registry_new_def
        bt_wf_def bt_get_def)
qed

subsection \<open>Every step keeps it\<close>

lemma reap_ok:
  assumes "controller_ok c" "ids_ok R K c" "flights_ok W P c"
  shows "controller_ok (reap_closed a c)" "ids_ok R K (reap_closed a c)" "flights_ok W P (reap_closed a c)"
  using reap_sys [of "\<lparr>sys_controller = c, sys_reserved = R, sys_switches = W,
      sys_replacements = P, sys_closes = K\<rparr>" a] assms
  by (simp_all add: sys_ok_def)

lemma unchanged_ok:
  assumes "controller_ok c" "ids_ok R K c" "flights_ok W P c"
    and "foreground_unchanged text_of a a' c = (r, c')"
  shows "controller_ok c' \<and> ids_ok R K c' \<and> flights_ok (W \<union> issued_switch target r) P c'"
  using assms(4) reap_ok [OF assms(1-3), of a]
  by (auto simp: foreground_unchanged_def controller_snapshot_def Let_def issued_switch_def
      split: prod.split_asm sum.split_asm)

lemma switch_foreground_error: "switch_foreground b i = (Inl e, b') \<Longrightarrow> b' = b"
  using broker_step_error [of b "SwitchForeground i"] by (auto simp: reply_with_def)

lemma switch_needs_no_pin:
  "\<not> foreground_is b i \<Longrightarrow> switch_foreground b i = (Inr l, b') \<Longrightarrow> sb_output_pin b = None"
  by (simp add: switch_foreground_Inr)

lemma prepare_switch_ok:
  assumes ok: "controller_ok c" "ids_ok R K c" "flights_ok W P c"
    and st: "prepare_switch_foreground text_of a a1 a2 target c0 = (r, c')" and c: "c = reap_closed a c0"
  shows "controller_ok c' \<and> ids_ok R K c' \<and> flights_ok (W \<union> issued_switch (Some target) r) P c'"
proof -
  have inv: "broker_inv (dc_broker c)"
    using ok(1) by (simp add: controller_ok_def tracked_def)
  obtain q candidate where sw: "switch_foreground (dc_broker c) target = (q, candidate)"
    by fastforce
  consider (refused) e where "r = Inl e" "c' = c"
    | (unchanged) "foreground_unchanged text_of a1 a2 c = (r, c')"
    | (issue) l x where "\<not> foreground_is (dc_broker c) target" "q = Inr l" "runtime_of c (Some target) = Some x"
        "issue_foreground candidate
          (runtime_of c (map_option fl_session_id (sb_foreground_output (dc_broker c)))) (Some x) c = (r, c')"
    using st sw unfolding prepare_switch_foreground_def Let_def c [symmetric]
    by (cases q; cases "sb_foreground_output (dc_broker c)")
      (auto simp: try_with_def ok_or_def foreground_is_def
        split: if_split_asm sum.split_asm option.split_asm)
  then show ?thesis
  proof cases
    case refused
    then show ?thesis
      using ok by (simp add: issued_switch_def)
  next
    case unchanged
    then show ?thesis
      by (rule unchanged_ok [OF ok])
  next
    case issue
    have "switch_now (Some target) (dc_broker c) = (Inr (Some l), candidate)"
      using sw issue(2) by (simp add: switch_now_Inr)
    moreover have "sb_output_pin (dc_broker c) = None"
      using switch_needs_no_pin [OF issue(1)] sw issue(2) by blast
    moreover have "Some x = Some (dr_runtime d)"
      if "Some target = Some i" "bt_get (dc_sessions c) i = Some d" for i d
      using issue(3) that by (simp add: runtime_of_def)
    ultimately show ?thesis
      using begin_switch_ok [OF ok inv _ _ _ _ issue(4), of "Some target"] issue(1) by blast
  qed
qed

lemma prepare_clear_ok:
  assumes ok: "controller_ok c" "ids_ok R K c" "flights_ok W P c"
    and st: "prepare_clear_foreground text_of a a1 a2 c0 = (r, c')" and c: "c = reap_closed a c0"
  shows "controller_ok c' \<and> ids_ok R K c' \<and> flights_ok (W \<union> issued_switch None r) P c'"
proof -
  have inv: "broker_inv (dc_broker c)"
    using ok(1) by (simp add: controller_ok_def tracked_def)
  obtain q candidate where cl: "clear_foreground (dc_broker c) = (q, candidate)"
    by fastforce
  consider (refused) e where "r = Inl e" "c' = c"
    | (unchanged) "foreground_unchanged text_of a1 a2 c = (r, c')"
    | (issue) l previous where "q = Inr l" "issue_foreground candidate previous None c = (r, c')"
    using st cl unfolding prepare_clear_foreground_def Let_def c [symmetric]
    by (cases q; cases "sb_foreground_output (dc_broker c)")
      (auto simp: try_with_def split: if_split_asm sum.split_asm option.split_asm)
  then show ?thesis
  proof cases
    case refused
    then show ?thesis
      using ok by (simp add: issued_switch_def)
  next
    case unchanged
    then show ?thesis
      by (rule unchanged_ok [OF ok])
  next
    case issue
    have "switch_now None (dc_broker c) = (Inr l, candidate)" "sb_output_pin (dc_broker c) = None"
      using cl issue(1) by (auto simp: switch_now_def clear_foreground_Inr)
    then show ?thesis
      using begin_switch_ok [OF ok inv _ _ _ _ issue(2), of None] by simp
  qed
qed

lemma finish_close_ok:
  assumes ok: "controller_ok c" "ids_ok R K c" "flights_ok W P c" and i: "i \<in> K"
  shows "controller_ok (finish_close i c) \<and> ids_ok R K (finish_close i c) \<and> flights_ok W P (finish_close i c)"
proof -
  have tr: "tracked c" and n: "bt_get (sb_sessions (dc_broker c)) i = None"
    using ok i by (auto simp: controller_ok_def ids_ok_def)
  have "finish_close i c = c\<lparr>dc_closing := bt_remove (dc_closing c) i,
      dc_sessions := bt_remove (dc_sessions c) i\<rparr>"
    by (simp add: finish_close_def)
  then have r: "removed {i} c (finish_close i c)"
    using closed_removed [OF tr n] by metis
  have "start_is_pinned (finish_close i c)"
    using ok(1) by (simp add: controller_ok_def start_is_pinned_def finish_close_def)
  moreover have "j \<notin> {i}" if j: "dc_replacement c = Some j" for j
  proof -
    obtain t where "replacement_held c j t"
      using ok(3) j by (fastforce simp: flights_ok_def)
    then have "bt_get (sb_sessions (dc_broker c)) j \<noteq> None"
      using tr by (auto simp: replacement_held_def tracked_def)
    with n show ?thesis
      by auto
  qed
  ultimately show ?thesis
    using removed_controller [OF ok(1) r] removed_ids [OF ok(2) r] removed_flights [OF ok(3) r] by blast
qed

lemma foreground_completed_ok:
  assumes ok: "controller_ok c" "ids_ok R K c" "flights_ok W P c" and t: "(target, t) \<in> W"
    and st: "complete_foreground_transition text_of a a' t c = (r, c')"
  shows "controller_ok c' \<and> ids_ok R K c' \<and> flights_ok W P c'"
proof -
  let ?c1 = "c\<lparr>dc_registry := (dc_registry c)\<lparr>gr_broker := ft_candidate t\<rparr>, dc_transition := None\<rparr>"
  consider "c' = c"
    | "dc_transition c = Some (ft_generation t)" "c' = c\<lparr>dc_transition := None\<rparr>"
    | "dc_transition c = Some (ft_generation t)"
      "session_ids (dc_broker c) = session_ids (ft_candidate t)" "c' = reap_closed a ?c1"
    using st by (auto simp: complete_foreground_transition_def controller_snapshot_def Let_def
        split: if_split_asm)
  then show ?thesis
  proof cases
    case 1
    then show ?thesis
      using ok by simp
  next
    case 2
    have "switch_held c target t"
      using ok(3) t 2(1) by (auto simp: flights_ok_def)
    then have "dc_replacement c = None"
      by (simp add: switch_held_def)
    then have "flights_ok W P c'"
      by (intro settled_flights [OF ok(3)]) (simp_all add: 2(2))
    then show ?thesis
      using ok by (simp add: 2(2))
  next
    case 3
    then show ?thesis
      using complete_foreground_ok [OF ok t 3(1,2) refl] reap_ok [of ?c1 R K W P a] by simp
  qed
qed

theorem deck_step_keeps:
  assumes "deck_step text_of s s'" and s: "sys_ok s"
  shows "sys_ok s'"
proof -
  note ok = s [unfolded sys_ok_def, THEN conjunct1] s [unfolded sys_ok_def, THEN conjunct2, THEN conjunct1]
    s [unfolded sys_ok_def, THEN conjunct2, THEN conjunct2]
  note reaped = reap_ok [OF ok]
  from assms(1) show ?thesis
  proof cases
    case (step_reserve i a r c)
    then show ?thesis
      using reserve_ok [OF reaped _ step_reserve(3) refl] by (simp add: sys_ok_def)
  next
    case (step_cancel i)
    then show ?thesis
      using cancel_ok [OF ok] by (simp add: sys_ok_def)
  next
    case (step_commit i d r c)
    then show ?thesis
      using commit_ok [OF ok] by (simp add: sys_ok_def)
  next
    case (step_begin_replacement a a' i request r c)
    then show ?thesis
      using begin_replacement_ok [OF reaped step_begin_replacement(2) refl] by (simp add: sys_ok_def)
  next
    case (step_complete_replacement i t d a r c)
    then show ?thesis
      using complete_replacement_ok [OF ok] by (simp add: sys_ok_def)
  next
    case (step_fail_replacement i t code)
    then show ?thesis
      using fail_ok [OF ok step_fail_replacement(2), of code] by (simp add: sys_ok_def)
  next
    case (step_abort g)
    then show ?thesis
      using abort_ok [OF ok] by (simp add: sys_ok_def)
  next
    case (step_access a i r c)
    then show ?thesis
      using reaped [of a] by (simp add: sys_ok_def controller_runtime_def Let_def)
  next
    case (step_mutation a i r c)
    then show ?thesis
      using ok reaped [of a]
      by (auto simp: sys_ok_def runtime_for_mutation_def controller_runtime_def Let_def split: if_split_asm)
  next
    case (step_snapshot a a' r c)
    then show ?thesis
      using reaped [of a] by (simp add: sys_ok_def controller_snapshot_def Let_def)
  next
    case (step_switch a a1 a2 target r c)
    then show ?thesis
      using prepare_switch_ok [OF reaped step_switch(2) refl] by (simp add: sys_ok_def)
  next
    case (step_clear a a1 a2 r c)
    then show ?thesis
      using prepare_clear_ok [OF reaped step_clear(2) refl] by (simp add: sys_ok_def)
  next
    case (step_complete_foreground target t a a' r c)
    then show ?thesis
      using foreground_completed_ok [OF ok] by (simp add: sys_ok_def)
  next
    case (step_pin a i kind r c)
    then show ?thesis
      using pin_ok [OF reaped step_pin(2) refl] by (simp add: sys_ok_def)
  next
    case (step_unpin a token r c)
    then show ?thesis
      using unpin_ok [OF reaped step_unpin(2) refl] by (simp add: sys_ok_def)
  next
    case (step_output_started token)
    then show ?thesis
      using output_started_ok [OF ok] by (simp add: sys_ok_def)
  next
    case (step_prepare_close a i r c)
    then show ?thesis
      using prepare_close_ok [OF reaped step_prepare_close(2) refl] by (simp add: sys_ok_def)
  next
    case (step_finish_close i)
    then show ?thesis
      using finish_close_ok [OF ok] by (simp add: sys_ok_def)
  next
    case (step_shutdown r c)
    then show ?thesis
      using shutdown_ok [OF ok] by (simp add: sys_ok_def)
  next
    case (step_retained codec version r c)
    then show ?thesis
      using ok by (auto simp: sys_ok_def retained_assets_def Let_def)
  next
    case (step_bind_asset key asset)
    then show ?thesis
      using ok by (simp add: sys_ok_def bind_asset_def)
  next
    case (step_clear_asset key r c)
    then show ?thesis
      using ok by (auto simp: sys_ok_def clear_asset_def)
  next
    case (step_prune_assets codec version descriptors)
    then show ?thesis
      using ok by (simp add: sys_ok_def prune_stale_assets_def)
  qed
qed

lemma start_ok: "sys_ok deck_system_new"
  using broker_new_inv
  by (simp add: sys_ok_def deck_system_new_def controller_new_def controller_ok_def tracked_def
      registry_new_def start_is_pinned_def ids_ok_def flights_ok_def bt_wf_def bt_get_def)

lemma reachable_ok: "deck_reachable text_of s \<Longrightarrow> sys_ok s"
  by (induction rule: deck_reachable.induct) (use start_ok deck_step_keeps in blast)+

section \<open>Properties\<close>

lemma reachable_parts:
  assumes "deck_reachable text_of s"
  shows "controller_ok (sys_controller s)"
    and "ids_ok (sys_reserved s) (sys_closes s) (sys_controller s)"
    and "flights_ok (sys_switches s) (sys_replacements s) (sys_controller s)"
  using reachable_ok [OF assms] by (simp_all add: sys_ok_def)

lemma tracked_lengths:
  assumes "tracked c"
  shows "length (dc_sessions c) = length (sb_sessions (dc_broker c)) + length (dc_closing c)"
proof -
  let ?B = "dom (bt_get (sb_sessions (dc_broker c)))" and ?C = "dom (bt_get (dc_closing c))"
  have "bt_get (dc_sessions c) i \<noteq> None \<longleftrightarrow> i \<in> ?B \<or> i \<in> ?C" and "\<not> (i \<in> ?B \<and> i \<in> ?C)" for i
  proof -
    have "bt_get (sb_sessions (dc_broker c)) i =
        (if bt_get (dc_closing c) i = None then map_option (warm_of i) (bt_get (dc_sessions c) i) else None)"
      "bt_get (dc_closing c) i \<noteq> None \<longrightarrow> bt_get (dc_sessions c) i \<noteq> None"
      using assms by (simp_all add: tracked_def)
    then show "bt_get (dc_sessions c) i \<noteq> None \<longleftrightarrow> i \<in> ?B \<or> i \<in> ?C" and "\<not> (i \<in> ?B \<and> i \<in> ?C)"
      by (cases "bt_get (dc_closing c) i"; cases "bt_get (dc_sessions c) i"; simp add: dom_def)+
  qed
  then have "dom (bt_get (dc_sessions c)) = ?B \<union> ?C" "?B \<inter> ?C = {}"
    by blast+
  then show ?thesis
    using assms by (simp add: bt_length tracked_def broker_wf card_Un_disjoint bt_dom_finite)
qed

text \<open>C40: however the commands interleave, the warm sessions of the broker are exactly the known
  sessions that are not being closed, with their workers and packages; the known sessions and the
  reserved ones are at most four; a start of an output in progress holds the pin; a replacement of
  sources in progress is the lifecycle transition in progress; at most 32 faults are kept.\<close>

theorem deck_sessions_consistent:
  assumes "deck_reachable text_of s"
  shows "case sys_controller s of c \<Rightarrow>
    (\<forall>i. bt_get (sb_sessions (dc_broker c)) i =
       (if bt_get (dc_closing c) i = None then map_option (warm_of i) (bt_get (dc_sessions c) i) else None)) \<and>
    (\<forall>i. bt_get (dc_closing c) i \<noteq> None \<longrightarrow> bt_get (dc_sessions c) i \<noteq> None) \<and>
    (\<forall>i. bt_get (dc_sessions c) i \<noteq> None \<longrightarrow> bt_get (dc_pending c) i = None) \<and>
    length (dc_sessions c) + length (dc_pending c) \<le> 4 \<and>
    (dc_starting c = None \<or> sb_output_pin (dc_broker c) = dc_starting c) \<and>
    (dc_replacement c = None \<or> dc_transition c \<noteq> None) \<and>
    length (dc_recent_faults c) \<le> 32"
  using reachable_parts [OF assms] tracked_lengths [of "sys_controller s"]
  by (auto simp: controller_ok_def ids_ok_def flights_ok_def start_is_pinned_def tracked_def)

text \<open>C7: completing a switch of the foreground gives what the whole switch would give if it were
  performed at that moment. The runtimes answer between its preparation and its completion, while
  sessions fail; the completion is refused for a transition that is no longer the current one, and
  when a session was lost, and otherwise the broker is exactly the result of the switch on the broker
  it finds, which accepts it.\<close>

theorem foreground_switch_atomic:
  assumes "deck_reachable text_of s" and "(target, t) \<in> sys_switches s"
  shows "case sys_controller s of c \<Rightarrow>
    complete_foreground_transition text_of a a' t c =
      (if dc_transition c \<noteq> Some (ft_generation t)
       then (Inl (lifecycle_changed
               ''The foreground output lease changed while the actor was responding.''), c)
       else if session_ids (dc_broker c) \<noteq> session_ids (ft_candidate t)
       then (Inl (lifecycle_changed
               ''A worker lifecycle changed during the foreground output transition.''),
             c\<lparr>dc_transition := None\<rparr>)
       else controller_snapshot text_of a a'
              (c\<lparr>dc_registry := (dc_registry c)\<lparr>gr_broker := snd (switch_now target (dc_broker c))\<rparr>,
                 dc_transition := None\<rparr>)) \<and>
    (dc_transition c = Some (ft_generation t) \<and> session_ids (dc_broker c) = session_ids (ft_candidate t) \<longrightarrow>
       (\<exists>l. fst (switch_now target (dc_broker c)) = Inr l))"
proof -
  let ?c = "sys_controller s"
  have "\<exists>r. switch_now target (dc_broker ?c) = (Inr r, ft_candidate t)"
    if "dc_transition ?c = Some (ft_generation t)" "session_ids (dc_broker ?c) = session_ids (ft_candidate t)"
  proof (rule candidate_is_current [OF _ that(2)])
    show "candidate_of target (dc_broker ?c) (ft_candidate t)"
      using reachable_parts(3) [OF assms(1)] assms(2) that(1) by (auto simp: flights_ok_def switch_held_def)
  qed
  then show ?thesis
    by (auto simp: complete_foreground_transition_def)
qed

text \<open>C8: a replacement of sources that is still the transition in progress finds its session as it
  left it, whatever the other commands did meanwhile: with a runtime that answers and a worker
  identity that is free, it succeeds; the session gets the new record under the same packages, the
  lease, the pin and every other session stay, and the answer says whether the session holds the
  foreground. Otherwise it is refused without an effect.\<close>

theorem source_replacement_completes:
  assumes "deck_reachable text_of s" and "(i, t) \<in> sys_replacements s"
    and "dc_transition (sys_controller s) = Some (rt_generation t)"
    and "dr_deck d = rt_deck t" and "dr_codec d = rt_codec t"
  shows "case sys_controller s of c \<Rightarrow>
    case complete_source_replacement text_of a i t d c of
      (Inl e, c') \<Rightarrow> c' = c \<and>
        (isl (ra_view a (dr_runtime d)) \<or>
         dr_worker_id d \<in> ws_worker_id ` set (bt_values (sb_sessions (dc_broker c))))
    | (Inr v, c') \<Rightarrow> sv_foreground v = foreground_is (dc_broker c') i \<and>
        bt_get (sb_sessions (dc_broker c')) = (bt_get (sb_sessions (dc_broker c))) (i \<mapsto> warm_of i d) \<and>
        bt_get (dc_sessions c') = (bt_get (dc_sessions c)) (i \<mapsto> d) \<and>
        sb_foreground_output (dc_broker c') = sb_foreground_output (dc_broker c) \<and>
        sb_output_pin (dc_broker c') = sb_output_pin (dc_broker c) \<and>
        dc_closing c' = dc_closing c \<and> dc_transition c' = None \<and> dc_replacement c' = None"
proof -
  let ?c = "sys_controller s"
  have tr: "tracked ?c" and held: "replacement_held ?c i t"
    using reachable_parts [OF assms(1)] assms(2,3) by (auto simp: controller_ok_def flights_ok_def)
  obtain r c' where st: "complete_source_replacement text_of a i t d ?c = (r, c')"
    by fastforce
  show ?thesis
  proof (cases rule: complete_replacement_cases [OF tr held assms(3) st])
    case (1 e)
    then show ?thesis
      by (simp add: st)
  next
    case (2 v cur b')
    have wf: "bt_wf (sb_sessions (dc_broker ?c))" "bt_wf (dc_sessions ?c)"
      using tr by (auto simp: tracked_def broker_wf)
    have "b' = (dc_broker ?c)\<lparr>sb_sessions := bt_insert (sb_sessions (dc_broker ?c)) i (warm_of i d)\<rparr>"
      using 2(3,4,6) assms(4,5) by (auto simp: replace_worker_Inr warm_of_def)
    moreover have "rt_foreground t = foreground_is (dc_broker ?c) i"
      using held by (simp add: replacement_held_def)
    ultimately show ?thesis
      using wf by (auto simp: st 2(5,7) view_record_def bt_get_insert foreground_is_def)
  qed
qed

section \<open>Witnesses\<close>

definition sample_answers :: runtime_answers where
  "sample_answers = \<lparr>ra_is_closed = (\<lambda>_. False),
     ra_view = (\<lambda>_. Inr \<lparr>rv_status = sample_deck_status, rv_output_visible = True,
       rv_fault_code = None\<rparr>),
     ra_cached_capture = (\<lambda>_. Inr \<lparr>cv_capture_id = None, cv_mode = None, cv_state = ''idle'',
       cv_latent_slots = ''0'', cv_reset_events = 0, cv_cartridge_id = None,
       cv_archive_sha256 = None, cv_detail = None\<rparr>),
     ra_recording_state = (\<lambda>_. RecIdle), ra_recording = (\<lambda>_. 0)\<rparr>"

definition sample_negotiated :: negotiated_identity where
  "sample_negotiated = \<lparr>ni_profile_key = \<lparr>pki_codec_family = ''f'', pki_profile = ''p'',
     pki_profile_version = ''1''\<rparr>, ni_device = Cpu, ni_device_ordinal = 0, ni_external_assets = []\<rparr>"

definition sample_deck_record :: "runtime_id \<Rightarrow> worker_id \<Rightarrow> unit deck_record" where
  "sample_deck_record x w = \<lparr>dr_runtime = x, dr_worker_id = w,
     dr_deck = \<lparr>pi_package_id = ''d'', pi_version = ()\<rparr>,
     dr_codec = \<lparr>pi_package_id = ''c'', pi_version = ()\<rparr>,
     dr_negotiated = sample_negotiated, dr_sources = []\<rparr>"

definition sample_broker :: "unit session_broker" where
  "sample_broker = \<lparr>sb_sessions = [(''a'', warm_of ''a'' (sample_deck_record 1 ''w''))],
     sb_foreground_output = None, sb_output_pin = None, sb_next_lease_generation = 0,
     sb_next_pin_generation = 0\<rparr>"

definition sample_controller :: "unit deck_controller" where
  "sample_controller = controller_new\<lparr>
     dc_registry := \<lparr>gr_broker = sample_broker, gr_pending = []\<rparr>,
     dc_sessions := [(''a'', sample_deck_record 1 ''w'')]\<rparr>"

definition sample_system :: "unit deck_system" where
  "sample_system = deck_system_new\<lparr>sys_controller := sample_controller, sys_reserved := {''a''}\<rparr>"

lemma sample_reserve:
  "controller_reserve sample_answers ''a'' controller_new =
     (Inr (), controller_new\<lparr>dc_registry := \<lparr>gr_broker = broker_new, gr_pending = [(''a'', ())]\<rparr>\<rparr>)"
  by (simp add: controller_reserve_def controller_new_def registry_new_def reap_closed_def
      closed_sessions_def forget_lost_start_def pin_is_over_def broker_new_def
      ensure_lifecycle_idle_def registry_reserve_def contains_session_def bt_get_def Let_def
      MAX_WARM_SESSIONS_def)

lemma sample_commit:
  "controller_commit ''a'' (sample_deck_record 1 ''w'')
     (controller_new\<lparr>dc_registry := \<lparr>gr_broker = broker_new, gr_pending = [(''a'', ())]\<rparr>\<rparr>) =
     (Inr (), sample_controller)"
  by (simp add: controller_commit_def controller_new_def sample_controller_def sample_broker_def
      broker_new_def ensure_lifecycle_idle_def registry_commit_def registry_cancel_def on_broker_def
      open_session_def contains_session_def warm_of_def sample_deck_record_def bt_get_def bt_remove_def
      bt_values_def Let_def MAX_WARM_SESSIONS_def)

lemma sample_reachable: "deck_reachable text_of sample_system"
proof -
  have "deck_step text_of deck_system_new (deck_system_new\<lparr>sys_controller :=
      controller_new\<lparr>dc_registry := \<lparr>gr_broker = broker_new, gr_pending = [(''a'', ())]\<rparr>\<rparr>,
      sys_reserved := {''a''}\<rparr>)" (is "deck_step _ _ ?s")
    using step_reserve [of "''a''" deck_system_new sample_answers] sample_reserve
    by (simp add: deck_system_new_def)
  moreover have "deck_step text_of ?s sample_system"
    using step_commit [of "''a''" "sample_deck_record 1 ''w''" ?s] sample_commit
    by (simp add: sample_system_def deck_system_new_def)
  ultimately show ?thesis
    using reachable_start reachable_step by blast
qed

theorem deck_sessions_consistent_witness:
  "bt_get (sb_sessions (dc_broker sample_controller)) ''a'' = Some (warm_of ''a'' (sample_deck_record 1 ''w''))"
  using deck_sessions_consistent [OF sample_reachable]
  by (simp add: sample_system_def sample_controller_def controller_new_def bt_get_def)

definition sample_candidate :: "unit session_broker" where
  "sample_candidate = sample_broker\<lparr>sb_foreground_output := Some \<lparr>fl_session_id = ''a'', fl_generation = 1\<rparr>,
     sb_next_lease_generation := 1\<rparr>"

definition sample_switching :: "unit deck_system" where
  "sample_switching = sample_system\<lparr>
     sys_controller := sample_controller\<lparr>dc_next_generation := 1, dc_transition := Some 1\<rparr>,
     sys_switches := {(Some ''a'', \<lparr>ft_generation = 1, ft_candidate = sample_candidate,
       ft_previous_runtime = None, ft_target_runtime = Some 1\<rparr>)}\<rparr>"

lemma sample_reaped: "reap_closed sample_answers sample_controller = sample_controller"
  by (simp add: reap_closed_def closed_sessions_def sample_answers_def forget_lost_start_def
      pin_is_over_def sample_controller_def sample_broker_def controller_new_def Let_def)

lemma sample_prepare:
  "prepare_switch_foreground text_of sample_answers a1 a2 ''a'' sample_controller =
     (Inr (ForegroundPending \<lparr>ft_generation = 1, ft_candidate = sample_candidate,
        ft_previous_runtime = None, ft_target_runtime = Some 1\<rparr>),
      sample_controller\<lparr>dc_next_generation := 1, dc_transition := Some 1\<rparr>)"
  unfolding prepare_switch_foreground_def sample_reaped
  by (simp add: sample_controller_def sample_broker_def sample_candidate_def controller_new_def
      ensure_lifecycle_idle_def runtime_of_def bt_get_def sample_deck_record_def switch_foreground_def
      contains_session_def foreground_is_def issue_foreground_def begin_lifecycle_transition_def
      checked_add_def Let_def)

lemma sample_switching_reachable: "deck_reachable text_of sample_switching"
proof (rule reachable_step [OF sample_reachable])
  show "deck_step text_of sample_system sample_switching"
    using step_switch [of text_of sample_answers undefined undefined "''a''" sample_system] sample_prepare
    by (simp add: sample_system_def sample_switching_def deck_system_new_def issued_switch_def)
qed

theorem foreground_switch_atomic_witness:
  "\<exists>l. fst (switch_now (Some ''a'') sample_broker) = Inr l"
  using foreground_switch_atomic [OF sample_switching_reachable, of "Some ''a''"
      "\<lparr>ft_generation = 1, ft_candidate = sample_candidate, ft_previous_runtime = None,
        ft_target_runtime = Some 1\<rparr>" "\<lambda>_. ''1.0.0''" sample_answers sample_answers]
  by (simp add: sample_switching_def sample_system_def sample_controller_def session_ids_def
      sample_candidate_def sample_broker_def)

definition sample_replacement :: "unit replacement_transition" where
  "sample_replacement = \<lparr>rt_generation = 1, rt_old_runtime = 1, rt_old_worker_id = ''w'',
     rt_recording = 0, rt_deck = \<lparr>pi_package_id = ''d'', pi_version = ()\<rparr>,
     rt_codec = \<lparr>pi_package_id = ''c'', pi_version = ()\<rparr>, rt_negotiated = sample_negotiated,
     rt_foreground = False\<rparr>"

definition sample_replacing :: "unit deck_system" where
  "sample_replacing = sample_system\<lparr>
     sys_controller := sample_controller\<lparr>dc_next_generation := 1, dc_transition := Some 1,
       dc_replacement := Some ''a''\<rparr>,
     sys_replacements := {(''a'', sample_replacement)}\<rparr>"

definition sample_request :: deck_open_request where
  "sample_request = \<lparr>dor_deck_id = ''d'', dor_deck_version = ''1.0.0'', dor_codec_id = ''c'',
     dor_codec_version = ''1.0.0'', dor_profile_key = ni_profile_key sample_negotiated,
     dor_device = Cpu, dor_device_ordinal = 0, dor_sources = [], dor_roles = [], dor_controls = [],
     dor_source_transport = [], dor_seed = 0\<rparr>"

lemma sample_begin:
  "begin_source_replacement (\<lambda>_. ''1.0.0'') sample_answers sample_answers ''a'' sample_request
     sample_controller =
     (Inr sample_replacement, sample_controller\<lparr>dc_next_generation := 1, dc_transition := Some 1,
        dc_replacement := Some ''a''\<rparr>)"
  unfolding begin_source_replacement_def sample_reaped
  by (simp add: sample_controller_def sample_broker_def controller_new_def sample_replacement_def
      ensure_lifecycle_idle_def bt_get_def sample_deck_record_def foreground_is_def sample_answers_def
      begin_lifecycle_transition_def checked_add_def ensure_capture_terminal_def capture_state_terminal_def
      validate_replacement_identity_def sample_request_def sample_negotiated_def Let_def)

lemma sample_replacing_reachable: "deck_reachable (\<lambda>_. ''1.0.0'') sample_replacing"
proof (rule reachable_step [OF sample_reachable])
  show "deck_step (\<lambda>_. ''1.0.0'') sample_system sample_replacing"
    using step_begin_replacement [of "\<lambda>_. ''1.0.0''" sample_answers sample_answers "''a''"
        sample_request sample_system] sample_begin
    by (simp add: sample_system_def sample_replacing_def deck_system_new_def issued_replacement_def)
qed

theorem source_replacement_completes_witness:
  "\<exists>c'. snd (complete_source_replacement (\<lambda>_. ''1.0.0'') sample_answers ''a'' sample_replacement
       (sample_deck_record 2 ''v'') (sys_controller sample_replacing)) = c' \<and>
     bt_get (dc_sessions c') ''a'' = Some (sample_deck_record 2 ''v'')"
proof -
  have "\<not> isl (ra_view sample_answers (dr_runtime (sample_deck_record 2 ''v'')))"
    by (simp add: sample_answers_def)
  moreover have "dr_worker_id (sample_deck_record 2 ''v'') \<notin>
      ws_worker_id ` set (bt_values (sb_sessions (dc_broker (sys_controller sample_replacing))))"
    by (simp add: sample_replacing_def sample_controller_def sample_broker_def sample_deck_record_def
        warm_of_def bt_values_def)
  moreover have "(''a'', sample_replacement) \<in> sys_replacements sample_replacing"
    "dc_transition (sys_controller sample_replacing) = Some (rt_generation sample_replacement)"
    "dr_deck (sample_deck_record 2 ''v'') = rt_deck sample_replacement"
    "dr_codec (sample_deck_record 2 ''v'') = rt_codec sample_replacement"
    by (simp_all add: sample_replacing_def sample_replacement_def sample_deck_record_def)
  ultimately show ?thesis
    using source_replacement_completes [OF sample_replacing_reachable, of "''a''" sample_replacement
        "sample_deck_record 2 ''v''" sample_answers]
    by (auto split: prod.split_asm sum.split_asm)
qed

end
