(* ===== verification/Spec2Isabelle.thy ===== *)
theory Spec2Isabelle
  imports Ring_Endpoints Session_Broker Package_Compatibility Playback_Schedule Session_Validation
    Framing Wire_Bounds Protocol2_Codec Protocol2_Session Ring2_Header
    Cartridge_Parse Safetensors_Exact Signal_Geometry Extension_Decisions Deck_Load
    Player_Exact Deck_Interface_Exact Worker_Client Deck_Session_Exact Deck_Sessions_Exact
begin

text \<open>
  Verification library of the LatentDeck workspace, a desktop application that plays latent
  video: a host process (the crates under \<open>crates/\<close> and the applications under \<open>apps/\<close>) opens
  cartridges, starts codec workers, talks to them over a framed control channel, receives the
  decoded frames through a ring in shared memory, and routes the foreground deck to an output.
  The development models the core of the host, in Rust, definition by definition.

  1. The parts and how they interact

  A cartridge is an archive with a manifest and a tensor payload; the cartridge crate decides which
  are valid and what they hold, the core crate what they can be played with (\<open>signal_geometry.rs\<close>).
  Decks and codecs are packages; the extension manager validates their manifests and translates
  them to contracts, and the contracts crate decides which pairs and which selections run
  (\<open>compatibility.rs\<close>). A deck is loaded after the host checked its package and built the command
  from it (\<open>deck_runtime_v2.rs\<close>), in a conversation with a worker (\<open>deck_session_v2.rs\<close>) over a
  client that has one request open at a time (\<open>worker_client_v2.rs\<close>) on an authenticated session
  (\<open>worker_supervisor/windows.rs\<close>). The control crate gives the messages of both protocols, their
  validation, their encoding and the session validator that checks order, identity and matching of
  replies on each side; frames on the pipe are \<open>framing.rs\<close>. The schedule of the core crate decides
  which decode command is sent next and which acknowledgement is accepted. The worker publishes
  what it acknowledges in a ring of the gpu crate (\<open>ring.rs\<close>, \<open>ring_v2.rs\<close>). The broker of the
  contracts crate owns the warm sessions, the foreground lease and the output pin; the application
  drives it (\<open>generic_deck_state.rs\<close>), and the player keeps its own selection (\<open>player.rs\<close>).

  2. The theories

  LD_Prelude: machine words, checked arithmetic, the question mark operator as \<open>try_bind\<close> on
  sums (and \<open>try_with\<close> for methods that return a new state), bytes of text, runs of operations,
  and the locales \<open>invariant_machine\<close>, \<open>guarded_machine\<close> and \<open>ranked_machine\<close> for state machines.
  Text_Split, Le_Bytes, Ordered_Map, F64_Bits, Windows_Paths: what the sources use of the standard
  library (splitting text, little-endian integers, \<open>BTreeMap\<close> as a sorted association list, the
  bits of an \<open>f64\<close>, components of paths). Log_Machine: the locale of a component whose state is the
  log of what it accepted. Bounded_Queue: the contract of a bounded queue. Request_Channel: the
  contract of a client with one request open at a time.

  Protocol 1 (\<open>crates/control/src/protocol.rs\<close>, \<open>framing.rs\<close>): Error_Codes, Wire_Types,
  Wire_Bounds, Session_Validation, Framing. The MessagePack functions (crate rmp-serde) are
  arguments; the properties assume that decoding inverts encoding and is deterministic.

  Protocol 2 (\<open>crates/control/src/v2.rs\<close>): Protocol2_Types, Protocol2_Fields, Protocol2_Payloads,
  Protocol2_Commands, Protocol2_Messages for the data with their validation, Protocol2_Codec for
  encoding and decoding, Protocol2_Session for the session validator.

  Playback_Schedule (\<open>crates/core/src/playback_schedule.rs\<close>): the decode cursor of a slot.

  Contracts (\<open>crates/deck-runtime-contracts/src\<close>): Compatibility, Package_Compatibility
  (\<open>compatibility.rs\<close>) and Session_Broker (\<open>broker.rs\<close>). Semantic versions (crate semver) are
  arguments: a type of versions and a matching function.

  Ring ABI 1 (\<open>crates/gpu/src/ring.rs\<close>): Ring_Memory, Ring_Layout, Ring_Abi1, Ring_Access,
  Ring_Slots, Ring_Header, Ring_Queue, Ring_Endpoints. A mapping is a length and its bytes; writes
  are performed in the order of the code; an access outside is a panic. Ring ABI 2
  (\<open>crates/gpu/src/ring_v2.rs\<close>): Ring2_Layout, Ring2_Abi, Ring2_Access, Ring2_Header, Ring2_Queue.

  Cartridge (\<open>crates/cartridge/src\<close>): Cartridge_Types, Cartridge_Manifest, Cartridge_Validation,
  Cartridge_Parse (\<open>manifest.rs\<close>), Cartridge_H3, Cartridge_Profile (\<open>profile/h3.rs\<close>), Safetensors,
  Safetensors_Exact (\<open>safetensor.rs\<close>). Signal_Geometry (\<open>crates/core/src/signal_geometry.rs\<close>).

  Extension manager (\<open>crates/extension-manager/src\<close>): Extension_Model, Extension_Schema,
  Extension_Manifests, Extension_Exact (\<open>model.rs\<close>, \<open>schema.rs\<close>), Extension_Compatibility,
  Extension_Decisions (\<open>compatibility.rs\<close>), Deck_Interface, Deck_Interface_Exact
  (\<open>deck_ui_contract.rs\<close>).

  Core (\<open>crates/core/src\<close>): Codec_Pack_Manifest, Codec_Pack, Codec_Pack_Exact (\<open>codec_pack.rs\<close>),
  Player, Player_Exact (\<open>player.rs\<close>), Deck_Runtime, Deck_Load (\<open>deck_runtime_v2.rs\<close>),
  Worker_Session, Worker_Client (\<open>worker_supervisor/windows.rs\<close>, \<open>worker_client_v2.rs\<close>),
  Deck_Session, Deck_Session_Exact (\<open>deck_session_v2.rs\<close>, \<open>worker_source_v2.rs\<close>).

  Application (\<open>apps/latentdeck/src-tauri/src/generic_deck_state.rs\<close>): Deck_Sessions,
  Deck_Sessions_Exact.

  3. Correspondence

  Definitions keep the names of the Rust functions, with a prefix or suffix where a name is taken;
  record fields carry a short prefix of the struct. A method on \<open>&mut self\<close> is a function from the
  state to the pair of its result and the new state, also on its error paths. \<open>Result\<close> is a sum
  with the error on the left, \<open>Option\<close> is \<open>option\<close>, integers are words of their width, \<open>usize\<close>
  is a natural number bounded by 64 bits where it is converted, strings are lists of bytes. What
  the operating system answers (files, pipes, clocks, processes, the atomics of a running deck) is
  a record of functions or a list of events that the definitions take as an argument; a pipe is the
  list of what is read from it.

  4. What the lemmas show

  Control channel: frames are read back as they were written under any interruption; the session
  validators of both protocols are the specification that looks at the log of everything accepted so
  far, from which matching of replies and the order of messages follow for every run; the textual
  validators accept exactly the described texts. Worker and deck sessions: a connected worker proved
  its identity before anything else was accepted; every call returns a valid acknowledgement of the
  command that was sent or an error that is never a foreign reply; a started deck session has
  written exactly the commands of the startup, each of them answered (the client's theorem is the
  interpretation of \<open>request_channel\<close>, and the startup is proved over that interface). The command
  that loads a deck passes the validation of the protocol exactly when its sources do.
  Schedule: whatever a worker sends, the accepted acknowledgements are the cycles in order; for
  contiguous patterns the frames tile the clip, and an honest worker reaches the end.
  Contracts and packages: the selected stage refines the package stage, the inventory decides a pair
  exactly when both packages are usable, manifests and catalogs are accepted exactly under their
  specification, a faceplate is accepted exactly when it shows every slot, control and surface as
  often as required. Installed codec packs: the physical files are exactly those of the catalog.
  Player: after any run the inputs of a launch are trusted. Broker: the invariant of
  sessions, lease and pin over every run, the pin protects its session, worker faults are contained.
  Deck sessions of the application: however the commands interleave, the broker holds exactly the
  known sessions that are not being closed; a switch of the foreground that spans two locked
  stretches acts as if it were performed at its completion; a replacement of sources finds its
  session as it left it.
  Cartridge: a manifest is accepted exactly under its specification, the gcd loop ends and reduces
  exactly, the geometry of an accepted cartridge in exact arithmetic, tensors tile the data area,
  the scan in chunks finds a value that is not finite exactly when there is one, the H3 checks refine
  the codec-neutral ones. Rings: no access outside of a validated mapping, both rings are bounded
  queues for every sequence of operations, publication takes effect at one store, a reset is not
  visible before it is complete and shuts out the old generation, endpoints are exclusive, the
  counters loaded concurrently are those of one moment.

  5. Bounds and fuel

  The loops of the rings are bounded by constants: eight attempts to load the counters and 24
  slots to clear or check, which are the fuel of \<open>load_attempts\<close>, \<open>clear_slots\<close> and
  \<open>check_slots_clear\<close>. The refinement of the rings holds for runs shorter than the 64-bit
  sequence space; beyond it the models report exhaustion as the code does. The loops of the client
  (\<open>call_loop\<close>, \<open>shutdown_loop\<close>) end because each turn consumes what the pipe holds; the walk over a
  package directory ends by the number of directories it may still visit, which the code bounds; the
  gcd loop by its second argument. All other recursions are structural.

  6. What is not modelled

  Serialization glue (serde), UUID text, SQL (\<open>crates/library\<close>), the zip container, installation on
  the file system, processes, windows, the graphics library and the encoders are outside: calls of
  libraries and of the operating system with little logic of their own. Memory ordering is
  sequential consistency: acquire and release are not distinguished, the interleaving of writes with
  a reader is covered by the statements about every prefix of the writes and about histories of
  mappings. The Windows endpoints of the rings call the modelled operations. Of the applications the
  controller of the deck sessions is modelled; the Tauri commands around it, the actor of a running
  deck and the player application are not. Presets, the selection of a deck from the library, the
  recorder and sender state machines of the outputs and the diagnostics are further candidates that
  follow the same patterns.
\<close>

end
